(* ===== verification/Go_Prelude.thy ===== *)
theory Go_Prelude
  imports Main "HOL-Library.Word"
begin

unbundle bit_operations_syntax

text \<open>
  Shared vocabulary of the development: how a Go function that returns \<open>(value, error)\<close> or
  panics is rendered, the collections of rewrite rules the component theories use, and the
  facts on lists and on the nibbles of a byte that several components share.
\<close>

section \<open>Results of Go functions\<close>

text \<open>
  A Go function with result \<open>(T, error)\<close> is a function into \<open>'e fail + 'a\<close>: \<open>Inr v\<close> for
  \<open>(v, nil)\<close>, \<open>Inl (Err e)\<close> for a non-nil error and \<open>Inl (Crash msg)\<close> for a run-time panic
  (an index out of range, a nil pointer dereference) at that point of the code.
\<close>

datatype 'e fail = Err 'e | Crash string

type_synonym ('e, 'a) go = "'e fail + 'a"

definition crashes :: "('e, 'a) go \<Rightarrow> bool" where
  "crashes r \<longleftrightarrow> (\<exists>msg. r = Inl (Crash msg))"

lemma crashes_simps [simp]:
  "crashes (Inl (Crash m))" "\<not> crashes (Inl (Err e))" "\<not> crashes (Inr v)"
  by (auto simp: crashes_def)

named_theorems go_defs \<open>definitions that a proof by symbolic execution unfolds\<close>

section \<open>Codecs\<close>

text \<open>
  The contract of an encoder and a decoder: on the values of the domain the decoder undoes the
  encoder, so the encoder confuses no two of them.
\<close>

locale codec =
  fixes enc :: "'a \<Rightarrow> ('e, 'b) go"
    and dec :: "'b \<Rightarrow> ('e, 'a) go"
    and valid :: "'a \<Rightarrow> bool"
  assumes round_trip: "valid x \<Longrightarrow> \<exists>b. enc x = Inr b \<and> dec b = Inr x"
begin

lemma enc_inject: "valid x \<Longrightarrow> valid y \<Longrightarrow> enc x = enc y \<Longrightarrow> x = y"
  using round_trip [of x] round_trip [of y] by auto

lemma enc_succeeds: "valid x \<Longrightarrow> \<exists>b. enc x = Inr b"
  using round_trip by blast

end

section \<open>Bytes and their nibbles\<close>

type_synonym byte = "8 word"

lemma byte_mask4: "(15 :: byte) = mask 4"
  by (simp add: mask_eq_exp_minus_1)

lemma take_bit4_small: "(e :: byte) < 16 \<Longrightarrow> take_bit 4 e = e"
  by (simp add: less_mask_eq take_bit_eq_mask)

lemma nibble_bit: "(e :: byte) < 16 \<Longrightarrow> 4 \<le> n \<Longrightarrow> \<not> bit e n"
  by (metis take_bit4_small bit_take_bit_iff not_le)

lemma nibble_bitD: "(e :: byte) < 16 \<Longrightarrow> bit e n \<Longrightarrow> n < 4"
  by (metis nibble_bit not_le)

lemma high_nibble_pack [simp]:
  "(d :: byte) < 16 \<Longrightarrow> e < 16 \<Longrightarrow> drop_bit 4 (push_bit 4 d OR e) = d"
  by (rule bit_eqI) (auto simp: bit_simps nibble_bit dest: nibble_bitD)

lemma low_nibble_pack [simp]:
  "(d :: byte) < 16 \<Longrightarrow> e < 16 \<Longrightarrow> (push_bit 4 d OR e) AND 15 = e"
  unfolding byte_mask4
  by (rule bit_eqI) (auto simp: bit_simps bit_mask_iff nibble_bit dest: nibble_bitD)

lemma high_nibble_shift [simp]: "(d :: byte) < 16 \<Longrightarrow> drop_bit 4 (push_bit 4 d) = d"
  using high_nibble_pack [of d 0] by simp

lemma high_nibble_small [simp]: "(d :: byte) < 16 \<Longrightarrow> drop_bit 4 d = 0"
  using high_nibble_pack [of 0 d] by simp

lemma low_nibble_small [simp]: "(d :: byte) < 16 \<Longrightarrow> d AND 15 = d"
  using low_nibble_pack [of 0 d] by simp

lemma byte_digit_cases:
  assumes "(d :: byte) < 10"
  shows "d = 0 \<or> d = 1 \<or> d = 2 \<or> d = 3 \<or> d = 4 \<or> d = 5 \<or> d = 6 \<or> d = 7 \<or> d = 8 \<or> d = 9"
proof -
  obtain n where n: "n < 10" "d = word_of_nat n"
    proof -
    have "unat d < 10"
      using assms by (simp add: word_less_nat_alt)
    moreover have "d = word_of_nat (unat d)"
      by simp
    ultimately show ?thesis
      using that by blast
  qed
  then have "n = 0 \<or> n = 1 \<or> n = 2 \<or> n = 3 \<or> n = 4 \<or> n = 5 \<or> n = 6 \<or> n = 7 \<or> n = 8 \<or> n = 9"
    by arith
  with n(2) show ?thesis
    by auto
qed

lemma byte_less_16: "(d :: byte) < 10 \<Longrightarrow> d < 16"
  by (rule less_trans) auto

end
