(* ===== verification/Float64.thy ===== *)
theory Float64
  imports Complex_Main Go_Prelude
begin

text \<open>
  Go's \<^verbatim>\<open>float64\<close>: IEEE 754 binary64 with rounding to nearest, ties to even. A finite value
  is a sign and a rational magnitude; every operation rounds its exact result once, so the
  operations evaluate. Comparisons are false on NaN. The conversion of a value out of the
  range of \<^verbatim>\<open>int\<close> is left open by the language; it is the value the amd64 port gives.
\<close>

datatype f64 = NaN | Infinite bool | Finite bool rat

section \<open>Rounding a magnitude\<close>

function ilog2 :: "int \<Rightarrow> int" where
  "ilog2 n = (if n < 2 then 0 else 1 + ilog2 (n div 2))"
  by pat_completeness auto
termination
  by (relation "measure nat") auto

declare ilog2.simps [simp del]

definition pow2 :: "int \<Rightarrow> rat" where
  "pow2 i = (if 0 \<le> i then 2 ^ nat i else 1 / 2 ^ nat (- i))"

text \<open>The exponent of a positive rational: \<open>pow2 (binade m) \<le> m < pow2 (binade m + 1)\<close>.\<close>

definition binade :: "rat \<Rightarrow> int" where
  "binade m = (if 1 \<le> m then ilog2 (floor m) else - (ilog2 (ceiling (1 / m) - 1) + 1))"

definition round_half_even :: "rat \<Rightarrow> int" where
  "round_half_even x =
     (let f = floor x; r = x - of_int f
      in if r < 1 / 2 then f else if 1 / 2 < r then f + 1 else if even f then f else f + 1)"

definition unit_exponent :: "rat \<Rightarrow> int" where
  "unit_exponent m = max (binade m) (- 1022) - 52"

definition round_magnitude :: "rat \<Rightarrow> rat" where
  "round_magnitude m =
     (if m = 0 then 0
      else of_int (round_half_even (m / pow2 (unit_exponent m))) * pow2 (unit_exponent m))"

definition rounded :: "bool \<Rightarrow> rat \<Rightarrow> f64" where
  "rounded s m =
     (let r = round_magnitude m in if pow2 1024 \<le> r then Infinite s else Finite s r)"

text \<open>The nearest \<^verbatim>\<open>float64\<close> of a rational; the flag is the sign of an exact zero.\<close>

definition f64_nearest :: "bool \<Rightarrow> rat \<Rightarrow> f64" where
  "f64_nearest z x = (if x = 0 then Finite z 0 else rounded (x < 0) \<bar>x\<bar>)"

definition f64_lit :: "rat \<Rightarrow> f64" where
  "f64_lit x = f64_nearest False x"

section \<open>Operations\<close>

fun f64_val :: "f64 \<Rightarrow> rat" where
  "f64_val (Finite s m) = (if s then - m else m)"
| "f64_val _ = 0"

fun f64_neg :: "f64 \<Rightarrow> f64" where
  "f64_neg NaN = NaN"
| "f64_neg (Infinite s) = Infinite (\<not> s)"
| "f64_neg (Finite s m) = Finite (\<not> s) m"

fun f64_add :: "f64 \<Rightarrow> f64 \<Rightarrow> f64" where
  "f64_add (Finite s m) (Finite t n) =
     f64_nearest (s \<and> t) (f64_val (Finite s m) + f64_val (Finite t n))"
| "f64_add (Infinite s) (Infinite t) = (if s = t then Infinite s else NaN)"
| "f64_add (Infinite s) (Finite t n) = Infinite s"
| "f64_add (Finite s m) (Infinite t) = Infinite t"
| "f64_add _ _ = NaN"

definition f64_sub :: "f64 \<Rightarrow> f64 \<Rightarrow> f64" where
  "f64_sub x y = f64_add x (f64_neg y)"

fun f64_mul :: "f64 \<Rightarrow> f64 \<Rightarrow> f64" where
  "f64_mul (Finite s m) (Finite t n) =
     (if m * n = 0 then Finite (s \<noteq> t) 0 else rounded (s \<noteq> t) (m * n))"
| "f64_mul (Infinite s) (Infinite t) = Infinite (s \<noteq> t)"
| "f64_mul (Infinite s) (Finite t n) = (if n = 0 then NaN else Infinite (s \<noteq> t))"
| "f64_mul (Finite s m) (Infinite t) = (if m = 0 then NaN else Infinite (s \<noteq> t))"
| "f64_mul _ _ = NaN"

fun f64_div :: "f64 \<Rightarrow> f64 \<Rightarrow> f64" where
  "f64_div (Finite s m) (Finite t n) =
     (if n = 0 then (if m = 0 then NaN else Infinite (s \<noteq> t))
      else if m = 0 then Finite (s \<noteq> t) 0 else rounded (s \<noteq> t) (m / n))"
| "f64_div (Infinite s) (Finite t n) = Infinite (s \<noteq> t)"
| "f64_div (Finite s m) (Infinite t) = Finite (s \<noteq> t) 0"
| "f64_div _ _ = NaN"

fun f64_lt :: "f64 \<Rightarrow> f64 \<Rightarrow> bool" where
  "f64_lt (Finite s m) (Finite t n) = (f64_val (Finite s m) < f64_val (Finite t n))"
| "f64_lt (Infinite s) (Infinite t) = (s \<and> \<not> t)"
| "f64_lt (Infinite s) (Finite t n) = s"
| "f64_lt (Finite s m) (Infinite t) = (\<not> t)"
| "f64_lt _ _ = False"

fun f64_eq :: "f64 \<Rightarrow> f64 \<Rightarrow> bool" where
  "f64_eq (Finite s m) (Finite t n) = (f64_val (Finite s m) = f64_val (Finite t n))"
| "f64_eq (Infinite s) (Infinite t) = (s = t)"
| "f64_eq _ _ = False"

definition f64_le :: "f64 \<Rightarrow> f64 \<Rightarrow> bool" where
  "f64_le x y \<longleftrightarrow> f64_lt x y \<or> f64_eq x y"

text \<open>\<^verbatim>\<open>math.Round\<close> rounds half away from zero; the result is again representable.\<close>

fun f64_round :: "f64 \<Rightarrow> f64" where
  "f64_round (Finite s m) = Finite s (of_int (floor (m + 1 / 2)))"
| "f64_round x = x"

text \<open>\<^verbatim>\<open>math.Min\<close>\<close>

fun f64_min :: "f64 \<Rightarrow> f64 \<Rightarrow> f64" where
  "f64_min (Infinite True) y = Infinite True"
| "f64_min x (Infinite True) = Infinite True"
| "f64_min NaN y = NaN"
| "f64_min x NaN = NaN"
| "f64_min x y =
     (if f64_eq x (Finite False 0) \<and> f64_eq y (Finite False 0)
      then (if x = Finite True 0 then x else y)
      else if f64_lt x y then x else y)"

definition min_int64 :: int where
  "min_int64 = - (2 ^ 63)"

text \<open>The conversion \<^verbatim>\<open>int(x)\<close>: truncation towards zero.\<close>

fun int_of_f64 :: "f64 \<Rightarrow> int" where
  "int_of_f64 (Finite s m) =
     (let n = floor m; v = (if s then - n else n)
      in if - (2 ^ 63) \<le> v \<and> v < 2 ^ 63 then v else min_int64)"
| "int_of_f64 _ = min_int64"

text \<open>The conversion \<^verbatim>\<open>float64(n)\<close>.\<close>

definition f64_of_int :: "int \<Rightarrow> f64" where
  "f64_of_int n = f64_nearest False (of_int n)"

section \<open>Facts on comparisons\<close>

lemma f64_lt_irrefl [simp]: "\<not> f64_lt x x"
  by (cases x) auto

lemma f64_lt_trans: "f64_lt x y \<Longrightarrow> f64_lt y z \<Longrightarrow> f64_lt x z"
  by (cases x; cases y; cases z) (auto split: if_splits)

lemma f64_lt_le_trans: "f64_lt x y \<Longrightarrow> f64_le y z \<Longrightarrow> f64_lt x z"
  unfolding f64_le_def by (cases x; cases y; cases z) (auto split: if_splits)

lemma f64_le_trans: "f64_le x y \<Longrightarrow> f64_le y z \<Longrightarrow> f64_le x z"
  unfolding f64_le_def by (cases x; cases y; cases z) (auto split: if_splits)

lemma f64_lt_asym: "f64_lt x y \<Longrightarrow> \<not> f64_le y x"
  unfolding f64_le_def by (cases x; cases y) (auto split: if_splits)

lemma f64_not_lt: "x \<noteq> NaN \<Longrightarrow> y \<noteq> NaN \<Longrightarrow> \<not> f64_lt x y \<longleftrightarrow> f64_le y x"
  unfolding f64_le_def by (cases x; cases y) (auto split: if_splits)

section \<open>Evaluation\<close>

text \<open>Rewrite rules that evaluate the operations on literals.\<close>

lemma floor_rat_numeral_div [simp]:
  "floor (numeral a / numeral b :: rat) = numeral a div numeral b"
  "floor (1 / numeral b :: rat) = 1 div numeral b"
  "floor (- (numeral a / numeral b) :: rat) = - numeral a div numeral b"
  "floor (- (1 / numeral b) :: rat) = - 1 div numeral b"
proof -
  show "floor (numeral a / numeral b :: rat) = numeral a div numeral b"
    using floor_divide_of_int_eq [of "numeral a" "numeral b", where 'a = rat] by simp
  show "floor (1 / numeral b :: rat) = 1 div numeral b"
    using floor_divide_of_int_eq [of "1" "numeral b", where 'a = rat] by simp
  show "floor (- (numeral a / numeral b) :: rat) = - numeral a div numeral b"
    using floor_divide_of_int_eq [of "- numeral a" "numeral b", where 'a = rat] by simp
  show "floor (- (1 / numeral b) :: rat) = - 1 div numeral b"
    using floor_divide_of_int_eq [of "- 1" "numeral b", where 'a = rat] by simp
qed
lemma ceiling_rat_numeral_div [simp]:
  "ceiling (numeral a / numeral b :: rat) = - (- numeral a div numeral b)"
  "ceiling (1 / numeral b :: rat) = - (- 1 div numeral b)"
  by (simp_all add: ceiling_def)

lemma ilog2_numeral [simp]:
  "ilog2 (numeral (num.Bit0 n)) = 1 + ilog2 (numeral n)"
  "ilog2 (numeral (num.Bit1 n)) = 1 + ilog2 (numeral n)"
  "ilog2 1 = 0" "ilog2 0 = 0"
  by (subst ilog2.simps, simp)+

named_theorems f64_eval \<open>unfolding of the rounding of a literal\<close>

lemmas [f64_eval] = f64_lit_def f64_nearest_def rounded_def round_magnitude_def unit_exponent_def binade_def pow2_def round_half_even_def
  f64_of_int_def

end
