(* ===== verification/Go_Types.thy ===== *)
theory Go_Types
  imports Float64
begin

text \<open>
  The data the backend passes around: the structs of the package \<^verbatim>\<open>model\<close> as records, the
  operations of the third-party decimal type as a parameter record, the values a Tarantool
  call takes and returns, and the HTTP responses. A pointer field is an option, an unsigned
  integer a natural number; the floats keep their IEEE semantics.
\<close>

section \<open>The decimal library\<close>

text \<open>
  \<^verbatim>\<open>shopspring/decimal\<close> is not part of the repository. Its values are a type variable and the
  operations the code calls are the fields of this record, an argument of every definition
  that uses them. \<^verbatim>\<open>NewFromFloat\<close> panics on NaN and the infinities, and \<^verbatim>\<open>SetString\<close>-like
  parsers fail: those fields return an option.
\<close>

record 'd dec_lib =
  d_of_int      :: "int \<Rightarrow> 'd"                \<comment> \<open>\<^verbatim>\<open>NewFromInt\<close>, \<^verbatim>\<open>NewFromInt32\<close>, \<^verbatim>\<open>NewFromBigInt(_, 0)\<close>\<close>
  d_shift       :: "int \<Rightarrow> int \<Rightarrow> 'd"         \<comment> \<open>\<^verbatim>\<open>NewFromBigInt(value, exp)\<close>\<close>
  d_of_float    :: "f64 \<Rightarrow> 'd option"         \<comment> \<open>\<^verbatim>\<open>NewFromFloat\<close>, \<^verbatim>\<open>None\<close> where it panics\<close>
  d_to_float    :: "'d \<Rightarrow> f64"                \<comment> \<open>\<^verbatim>\<open>InexactFloat64\<close>\<close>
  d_parse       :: "string \<Rightarrow> 'd option"      \<comment> \<open>\<^verbatim>\<open>NewFromString\<close>\<close>
  d_string      :: "'d \<Rightarrow> string"             \<comment> \<open>\<^verbatim>\<open>String\<close>\<close>
  d_cmp         :: "'d \<Rightarrow> 'd \<Rightarrow> int"          \<comment> \<open>\<^verbatim>\<open>Cmp\<close>\<close>
  d_add         :: "'d \<Rightarrow> 'd \<Rightarrow> 'd"
  d_sub         :: "'d \<Rightarrow> 'd \<Rightarrow> 'd"
  d_mul         :: "'d \<Rightarrow> 'd \<Rightarrow> 'd"
  d_div         :: "'d \<Rightarrow> 'd \<Rightarrow> 'd"
  d_floor       :: "'d \<Rightarrow> 'd"
  d_round       :: "int \<Rightarrow> 'd \<Rightarrow> 'd"          \<comment> \<open>\<^verbatim>\<open>Round(places)\<close>\<close>
  d_pow         :: "'d \<Rightarrow> 'd \<Rightarrow> 'd"
  d_truncate    :: "int \<Rightarrow> 'd \<Rightarrow> 'd"
  d_int_part    :: "'d \<Rightarrow> int"                \<comment> \<open>\<^verbatim>\<open>IntPart\<close>\<close>
  d_big_int     :: "'d \<Rightarrow> int"                \<comment> \<open>\<^verbatim>\<open>BigInt\<close>\<close>

text \<open>The comparisons of the library are defined by \<^verbatim>\<open>Cmp\<close>.\<close>

abbreviation d_lt :: "'d dec_lib \<Rightarrow> 'd \<Rightarrow> 'd \<Rightarrow> bool" where
  "d_lt D x y \<equiv> d_cmp D x y < 0"

abbreviation d_le :: "'d dec_lib \<Rightarrow> 'd \<Rightarrow> 'd \<Rightarrow> bool" where
  "d_le D x y \<equiv> d_cmp D x y \<le> 0"

definition d_zero :: "'d dec_lib \<Rightarrow> 'd" where
  "d_zero D = d_of_int D 0"

section \<open>Structs of the package model\<close>

text \<open>\<^verbatim>\<open>ActionType\<close>, the kinds of a liquidation action\<close>

datatype action_type = APlaceSellOrders | AInsTakeover | AInsClawback

text \<open>\<^verbatim>\<open>Profile\<close>, a trading account\<close>

record profile =
  pr_ProfileId  :: "nat"
  pr_Type       :: "string"
  pr_Status     :: "string"
  pr_Wallet     :: "string"
  pr_CreatedAt  :: "int"
  pr_ExchangeId :: "string"
  pr_ShardId    :: "string"
  pr_ArchiveId  :: "int"

text \<open>\<^verbatim>\<open>ProfileCache\<close>, the cached equity and margins of a profile\<close>

record 'd profile_cache =
  pc_ProfileID           :: "nat"
  pc_ProfileType         :: "string option"
  pc_Status              :: "string option"
  pc_Wallet              :: "string option"
  pc_LastUpdate          :: "int option"
  pc_Balance             :: "'d option"
  pc_AccountEquity       :: "'d option"
  pc_TotalPositionMargin :: "'d option"
  pc_TotalOrderMargin    :: "'d option"
  pc_TotalNotional       :: "'d option"
  pc_AccountMargin       :: "'d option"
  pc_WithdrawableBalance :: "'d option"
  pc_CumUnrealizedPnl    :: "'d option"
  pc_Health              :: "'d option"
  pc_AccountLeverage     :: "'d option"
  pc_CumTradingVolume    :: "'d option"
  pc_Leverage            :: "string \<rightharpoonup> 'd option"
  pc_LastLiqCheck        :: "int option"
  pc_ShardId             :: "string"
  pc_ArchiveId           :: "int"

text \<open>\<^verbatim>\<open>OrderData\<close>\<close>

record 'd order_data =
  ord_OrderId         :: "string"
  ord_ProfileID       :: "nat"
  ord_MarketID        :: "string"
  ord_OrderType       :: "string"
  ord_Status          :: "string"
  ord_Price           :: "'d option"
  ord_Size            :: "'d option"
  ord_InitialSize     :: "'d option"
  ord_TotalFilledSize :: "'d option"
  ord_Side            :: "string"
  ord_Timestamp       :: "int"
  ord_Reason          :: "string"
  ord_ClientOrderId   :: "string option"
  ord_TriggerPrice    :: "'d option"
  ord_SizePercent     :: "'d option"
  ord_TimeInForce     :: "string"
  ord_CreatedAt       :: "int"
  ord_UpdatedAt       :: "int"
  ord_ShardId         :: "string"
  ord_ArchiveId       :: "int"

text \<open>\<^verbatim>\<open>PositionData\<close>\<close>

record 'd position_data =
  pos_PositionID        :: "string"
  pos_MarketID          :: "string"
  pos_ProfileID         :: "nat"
  pos_Size              :: "'d"
  pos_Side              :: "string"
  pos_EntryPrice        :: "'d"
  pos_UnrealizedPnlFair :: "'d option"
  pos_NotionalFair      :: "'d option"
  pos_Margin            :: "'d option"
  pos_LiquidationPrice  :: "'d option"
  pos_FairPrice         :: "'d option"
  pos_ShardId           :: "string"
  pos_ArchiveId         :: "int"

text \<open>\<^verbatim>\<open>MarketData\<close>\<close>

record 'd market_data =
  mkt_MarketID              :: "string"
  mkt_Status                :: "string option"
  mkt_MinInitialMargin      :: "'d option"
  mkt_ForcedMargin          :: "'d option"
  mkt_LiquidationMargin     :: "'d option"
  mkt_MinTick               :: "'d option"
  mkt_MinOrder              :: "'d option"
  mkt_BestBid               :: "'d option"
  mkt_BestAsk               :: "'d option"
  mkt_MarketPrice           :: "'d option"
  mkt_IndexPrice            :: "'d option"
  mkt_LastTradePrice        :: "'d option"
  mkt_FairPrice             :: "'d option"
  mkt_InstantFundingRate    :: "'d option"
  mkt_LastFundingRate       :: "'d option"
  mkt_LastUpdateTime        :: "int"
  mkt_LastUpdateSequence    :: "int"
  mkt_AverageDailyVolumeQ   :: "'d option"
  mkt_LastFundingUpdateTime :: "int"
  mkt_IconUrl               :: "string"
  mkt_MarketTitle           :: "string"
  mkt_ShardId               :: "string"
  mkt_ArchiveId             :: "int"

text \<open>\<^verbatim>\<open>BalanceOps\<close>, one deposit, withdrawal, stake or unstake\<close>

record 'd balance_ops =
  bo_OpsId           :: "string"
  bo_Status          :: "string"
  bo_Reason          :: "string"
  bo_Txhash          :: "string"
  bo_ProfileId       :: "nat"
  bo_Wallet          :: "string"
  bo_Type            :: "string"
  bo_Id2             :: "string"
  bo_Amount          :: "'d"
  bo_Timestamp       :: "int"
  bo_DueBlock        :: "nat"
  bo_ExchangeId      :: "string"
  bo_ChainId         :: "nat"
  bo_ContractAddress :: "string"
  bo_ShardId         :: "string"
  bo_ArchiveId       :: "int"

text \<open>\<^verbatim>\<open>VaultInfo\<close>\<close>

record 'd vault_info =
  vi_ProfileId          :: "nat"
  vi_ManagerProfileId   :: "nat"
  vi_TreasurerProfileId :: "nat"
  vi_PerformanceFee     :: "'d"
  vi_Status             :: "string"
  vi_TotalShares        :: "'d"
  vi_VaultName          :: "string"
  vi_ManagerName        :: "string"
  vi_InitialisedAt      :: "int"
  vi_ShardId            :: "string"
  vi_ArchiveId          :: "int"

text \<open>\<^verbatim>\<open>VaultHoldingInfo\<close>\<close>

record 'd vault_holding =
  vh_VaultProfileId  :: "nat"
  vh_StakerProfileId :: "nat"
  vh_Shares          :: "'d"
  vh_EntryNav        :: "'d"
  vh_EntryPrice      :: "'d"
  vh_ShardId         :: "string"
  vh_ArchiveId       :: "int"

text \<open>\<^verbatim>\<open>Deposit\<close>, a decoded deposit event\<close>

record 'd deposit =
  dep_Id              :: "string"
  dep_Wallet          :: "string"
  dep_Amount          :: "'d option"
  dep_Tx              :: "string"
  dep_ExchangeId      :: "string"
  dep_ChainId         :: "nat"
  dep_ExchangeAddress :: "string"

text \<open>\<^verbatim>\<open>Yield\<close>, a decoded yield event\<close>

record 'd yield =
  yld_Id              :: "string"
  yld_Amount          :: "'d option"
  yld_Tx              :: "string"
  yld_ExchangeId      :: "string"
  yld_ChainId         :: "nat"
  yld_ExchangeAddress :: "string"

text \<open>\<^verbatim>\<open>Stake\<close>, a decoded stake event\<close>

record 'd stake =
  stk_Id             :: "string"
  stk_VaultProfileId :: "nat"
  stk_VaultWallet    :: "string"
  stk_Amount         :: "'d option"
  stk_CurrentNav     :: "'d option"
  stk_Tx             :: "string"

text \<open>\<^verbatim>\<open>StakeLock\<close>\<close>

record stake_lock =
  sl_ProfileId :: "nat"
  sl_Locked    :: "bool"
  sl_Timestamp :: "int"

text \<open>\<^verbatim>\<open>WithdrawLock\<close>\<close>

record withdraw_lock =
  wl_ProfileId :: "nat"
  wl_Locked    :: "bool"
  wl_Timestamp :: "int"

text \<open>\<^verbatim>\<open>WithdrawalTxInfo\<close>\<close>

record withdrawal_tx =
  wt_Id     :: "string"
  wt_TxHash :: "string"

text \<open>\<^verbatim>\<open>ContractMap\<close>\<close>

record contract_map =
  cm_ContractAddress :: "string"
  cm_ChainId         :: "nat"
  cm_ExchangeId      :: "string"

text \<open>\<^verbatim>\<open>Action\<close>, a liquidation action queued for the engine\<close>

record 'd action =
  act_Kind     :: "action_type"
  act_TraderId :: "nat"
  act_MarketId :: "string"
  act_Size     :: "'d"
  act_Price    :: "'d"

text \<open>\<^verbatim>\<open>APISecret\<close>\<close>

record api_secret =
  as_Key        :: "string"
  as_ProfileID  :: "nat"
  as_Secret     :: "string"
  as_Tag        :: "string"
  as_Expiration :: "nat"
  as_Status     :: "string"

text \<open>\<^verbatim>\<open>FrontendSecret\<close>\<close>

record frontend_secret =
  fs_Jwt          :: "string"
  fs_ProfileID    :: "nat"
  fs_RandomSecret :: "string"
  fs_RefreshToken :: "string"
  fs_Status       :: "string"

text \<open>\<^verbatim>\<open>MatchingMeta\<close>\<close>

record matching_meta =
  mm_Device     :: "string"
  mm_IsApi      :: "bool"
  mm_ExchangeId :: "string"
  mm_IsPm       :: "bool"

section \<open>Values of Tarantool calls and replies\<close>

text \<open>
  One type holds the arguments of a call and the decoded contents of a reply. A nil pointer is
  \<open>VNil\<close>; a slice is \<open>VList\<close>.
\<close>

datatype 'd gval =
    VNil
  | VBool bool
  | VUint nat
  | VInt int
  | VString string
  | VDecimal 'd
  | VFloat f64
  | VBytes "byte list"
  | VList "'d gval list"
  | VProfile profile
  | VCache "'d profile_cache"
  | VOps "'d balance_ops"
  | VVault "'d vault_info"
  | VHolding "'d vault_holding"
  | VStakeLock stake_lock
  | VWithdrawLock withdraw_lock
  | VWithdrawalTx withdrawal_tx
  | VContract contract_map
  | VMarket "'d market_data"
  | VOrder "'d order_data"
  | VPosition "'d position_data"
  | VAction "'d action"
  | VMeta matching_meta
  | VApiSecret api_secret
  | VFrontendSecret frontend_secret
  | VStruct string "'d gval list"    \<comment> \<open>any other struct: its type and its fields in order\<close>

text \<open>An argument that is a pointer: nil or the value it points to.\<close>

definition opt_val :: "('a \<Rightarrow> 'd gval) \<Rightarrow> 'a option \<Rightarrow> 'd gval" where
  "opt_val f p = (case p of None \<Rightarrow> VNil | Some x \<Rightarrow> f x)"

lemma opt_val_simps [simp]: "opt_val f None = VNil" "opt_val f (Some x) = f x"
  by (simp_all add: opt_val_def)

text \<open>
  Decoding a reply at the type the caller asked for. The driver reports a value of another
  shape as an error of the call, so a decoder is partial; nil decodes to the zero value.
  \<open>interface{}\<close> takes every value.
\<close>

type_synonym ('d, 'a) decoder = "'d gval \<Rightarrow> 'a option"

fun as_any :: "('d, 'd gval) decoder" where
  "as_any v = Some v"

fun as_bool :: "('d, bool) decoder" where
  "as_bool (VBool b) = Some b"
| "as_bool VNil = Some False"
| "as_bool _ = None"

fun as_uint :: "('d, nat) decoder" where
  "as_uint (VUint n) = Some n"
| "as_uint VNil = Some 0"
| "as_uint _ = None"

fun as_int64 :: "('d, int) decoder" where
  "as_int64 (VInt n) = Some n"
| "as_int64 VNil = Some 0"
| "as_int64 _ = None"

fun as_string :: "('d, string) decoder" where
  "as_string (VString s) = Some s"
| "as_string VNil = Some ''''"
| "as_string _ = None"

fun as_decimal :: "('d, 'd) decoder" where
  "as_decimal (VDecimal d) = Some d"
| "as_decimal _ = None"

fun as_bytes :: "('d, byte list) decoder" where
  "as_bytes (VBytes b) = Some b"
| "as_bytes VNil = Some []"
| "as_bytes _ = None"

fun as_profile :: "('d, profile) decoder" where
  "as_profile (VProfile p) = Some p"
| "as_profile _ = None"

fun as_cache :: "('d, 'd profile_cache) decoder" where
  "as_cache (VCache c) = Some c"
| "as_cache _ = None"

fun as_ops :: "('d, 'd balance_ops) decoder" where
  "as_ops (VOps b) = Some b"
| "as_ops _ = None"

fun as_vault :: "('d, 'd vault_info) decoder" where
  "as_vault (VVault v) = Some v"
| "as_vault _ = None"

fun as_holding :: "('d, 'd vault_holding) decoder" where
  "as_holding (VHolding h) = Some h"
| "as_holding _ = None"

fun as_stake_lock :: "('d, stake_lock) decoder" where
  "as_stake_lock (VStakeLock l) = Some l"
| "as_stake_lock _ = None"

fun as_withdraw_lock :: "('d, withdraw_lock) decoder" where
  "as_withdraw_lock (VWithdrawLock l) = Some l"
| "as_withdraw_lock _ = None"

fun as_withdrawal_tx :: "('d, withdrawal_tx) decoder" where
  "as_withdrawal_tx (VWithdrawalTx w) = Some w"
| "as_withdrawal_tx _ = None"

fun as_contract :: "('d, contract_map) decoder" where
  "as_contract (VContract c) = Some c"
| "as_contract _ = None"

fun as_market :: "('d, 'd market_data) decoder" where
  "as_market (VMarket m) = Some m"
| "as_market _ = None"

fun as_order :: "('d, 'd order_data) decoder" where
  "as_order (VOrder r) = Some r"
| "as_order _ = None"

fun as_position :: "('d, 'd position_data) decoder" where
  "as_position (VPosition p) = Some p"
| "as_position _ = None"

fun as_api_secret :: "('d, api_secret) decoder" where
  "as_api_secret (VApiSecret s) = Some s"
| "as_api_secret _ = None"

fun as_frontend_secret :: "('d, frontend_secret) decoder" where
  "as_frontend_secret (VFrontendSecret s) = Some s"
| "as_frontend_secret _ = None"

fun as_struct :: "string \<Rightarrow> ('d, 'd gval list) decoder" where
  "as_struct t (VStruct u fs) = (if t = u then Some fs else None)"
| "as_struct t _ = None"

text \<open>A pointer is nil or what it points to, a slice decodes element by element.\<close>

fun as_ptr :: "('d, 'a) decoder \<Rightarrow> ('d, 'a option) decoder" where
  "as_ptr f VNil = Some None"
| "as_ptr f v = map_option Some (f v)"

fun decode_all :: "('d, 'a) decoder \<Rightarrow> 'd gval list \<Rightarrow> 'a list option" where
  "decode_all f [] = Some []"
| "decode_all f (v # vs) =
     (case f v of None \<Rightarrow> None | Some x \<Rightarrow> map_option ((#) x) (decode_all f vs))"

fun as_list :: "('d, 'a) decoder \<Rightarrow> ('d, 'a list) decoder" where
  "as_list f VNil = Some []"
| "as_list f (VList vs) = decode_all f vs"
| "as_list f _ = None"

text \<open>
  The reply of a call: the driver's error, or the rows of the result, each with its payload and
  its error string.
\<close>

datatype 'd reply = BErr string | BRows "('d gval \<times> string) list"

text \<open>The body of an HTTP response: \<^verbatim>\<open>SuccessResponse\<close> or \<^verbatim>\<open>ErrorResponse\<close>.\<close>

datatype 'd response = Success "'d gval list" | Failure string

section \<open>Strings\<close>

text \<open>Wallets, exchange ids and event names are ASCII: \<^verbatim>\<open>strings.ToLower\<close> on them.\<close>

definition to_lower_char :: "char \<Rightarrow> char" where
  "to_lower_char c = (let n = of_char c :: nat in if 65 \<le> n \<and> n \<le> 90 then char_of (n + 32) else c)"

definition to_lower :: "string \<Rightarrow> string" where
  "to_lower s = map to_lower_char s"

definition has_prefix :: "string \<Rightarrow> string \<Rightarrow> bool" where
  "has_prefix s p \<longleftrightarrow> take (length p) s = p"

fun contains_sub :: "string \<Rightarrow> string \<Rightarrow> bool" where
  "contains_sub [] p \<longleftrightarrow> p = []"
| "contains_sub (c # s) p \<longleftrightarrow> has_prefix (c # s) p \<or> contains_sub s p"

definition digit :: "nat \<Rightarrow> char" where
  "digit n = char_of (48 + n)"

fun show_nat :: "nat \<Rightarrow> string" where
  "show_nat n = (if n < 10 then [digit n] else show_nat (n div 10) @ [digit (n mod 10)])"

declare show_nat.simps [simp del]

definition show_int :: "int \<Rightarrow> string" where
  "show_int n = (if n < 0 then ''-'' @ show_nat (nat (- n)) else show_nat (nat n))"

text \<open>\<^verbatim>\<open>SetString(s, 10)\<close> of a big integer: an optional sign and at least one digit.\<close>

definition digit_value :: "char \<Rightarrow> nat option" where
  "digit_value c = (let n = of_char c :: nat in if 48 \<le> n \<and> n \<le> 57 then Some (n - 48) else None)"

fun parse_digits :: "nat \<Rightarrow> string \<Rightarrow> nat option" where
  "parse_digits acc [] = Some acc"
| "parse_digits acc (c # s) =
     (case digit_value c of None \<Rightarrow> None | Some d \<Rightarrow> parse_digits (10 * acc + d) s)"

definition parse_nat :: "string \<Rightarrow> nat option" where
  "parse_nat s = (if s = [] then None else parse_digits 0 s)"

fun parse_int :: "string \<Rightarrow> int option" where
  "parse_int [] = None"
| "parse_int (c # s) =
     (if c = CHR ''-'' then map_option (\<lambda>n. - int n) (parse_nat s)
      else if c = CHR ''+'' then map_option int (parse_nat s)
      else map_option int (parse_nat (c # s)))"

section \<open>Facts on strings and decoders\<close>

lemma digit_value_digit [simp]: "n < 10 \<Longrightarrow> digit_value (digit n) = Some n"
  by (simp add: digit_value_def digit_def)

lemma digit_char [simp]:
  "digit 0 = CHR ''0''" "digit 1 = CHR ''1''" "digit 2 = CHR ''2''" "digit 3 = CHR ''3''"
  "digit 4 = CHR ''4''" "digit 5 = CHR ''5''" "digit 6 = CHR ''6''" "digit 7 = CHR ''7''"
  "digit 8 = CHR ''8''" "digit 9 = CHR ''9''" "digit (Suc 0) = CHR ''1''"
  by code_simp+

lemma parse_digits_append:
  "parse_digits acc (s @ t) =
     (case parse_digits acc s of None \<Rightarrow> None | Some n \<Rightarrow> parse_digits n t)"
  by (induction s arbitrary: acc) (auto split: option.split)

lemma show_nat_nonempty [simp]: "show_nat n \<noteq> []"
  by (subst show_nat.simps) simp

lemma parse_digits_show_nat: "\<exists>k. \<forall>acc. parse_digits acc (show_nat n) = Some (10 ^ k * acc + n)"
proof (induction n rule: show_nat.induct)
  case (1 n)
  show ?case
  proof (cases "n < 10")
    case True
    then have "\<forall>acc. parse_digits acc (show_nat n) = Some (10 ^ 1 * acc + n)"
      by (subst show_nat.simps) simp
    then show ?thesis by blast
  next
    case False
    then obtain k where k: "\<And>acc. parse_digits acc (show_nat (n div 10)) = Some (10 ^ k * acc + n div 10)"
      using 1 by blast
    have "parse_digits acc (show_nat n) = Some (10 ^ Suc k * acc + n)" for acc
      using False by (subst show_nat.simps) (simp add: parse_digits_append k)
    then show ?thesis by blast
  qed
qed

lemma parse_nat_show_nat [simp]: "parse_nat (show_nat n) = Some n"
  using parse_digits_show_nat [of n] by (auto simp: parse_nat_def)

lemma show_nat_inject [simp]: "show_nat m = show_nat n \<longleftrightarrow> m = n"
  by (metis option.inject parse_nat_show_nat)

lemma show_nat_digit: "\<exists>k s. k < 10 \<and> show_nat n = digit k # s"
proof (induction n rule: show_nat.induct)
  case (1 n)
  then show ?case
    by (cases "n < 10") (subst show_nat.simps, force)+
qed

lemma digit_not_sign [simp]: "k < 10 \<Longrightarrow> digit k \<noteq> CHR ''-''" "k < 10 \<Longrightarrow> digit k \<noteq> CHR ''+''"
  using digit_value_digit [of k] by (auto simp: digit_value_def simp del: digit_value_digit)

lemma parse_int_show_int [simp]: "parse_int (show_int n) = Some n"
proof -
  have nat: "parse_int (show_nat m) = Some (int m)" for m
  proof -
    obtain k s where ks: "k < 10" "show_nat m = digit k # s"
      using show_nat_digit [of m] by blast
    have "parse_nat (digit k # s) = Some m"
      using parse_nat_show_nat [of m] unfolding ks(2) .
    then show ?thesis
      by (simp add: ks)
  qed
  show ?thesis
    by (simp add: show_int_def nat)
qed

lemma has_prefix_append [simp]: "has_prefix (p @ s) p"
  by (simp add: has_prefix_def)

lemma to_lower_idem [simp]: "to_lower (to_lower s) = to_lower s"
proof -
  have "to_lower_char (to_lower_char c) = to_lower_char c" for c
    unfolding to_lower_char_def Let_def
    by (auto simp: of_char_of)
  then show ?thesis
    by (simp add: to_lower_def)
qed

lemma to_lower_append [simp]: "to_lower (s @ t) = to_lower s @ to_lower t"
  by (simp add: to_lower_def)

lemma as_ptr_split:
  "P (as_ptr f v) \<longleftrightarrow>
     (v = VNil \<longrightarrow> P (Some None)) \<and> (v \<noteq> VNil \<longrightarrow> P (map_option Some (f v)))"
  by (cases v) auto

end
