(* ===== verification/Go_Prog.thy ===== *)
theory Go_Prog
  imports Go_Types
begin

text \<open>
  Programs with effects. A Go function that talks to Tarantool, to an Ethereum node, to the
  clock or to its HTTP client is a tree of calls: each node names the call and continues with
  the answer the environment gives. The environment is arbitrary: it may answer a call in any
  way, depending on everything that happened before. \<open>run\<close> executes a program against an
  environment; \<open>wp\<close> is the weakest precondition over all environments, and \<open>wp_run\<close> connects
  the two.
\<close>

section \<open>Calls, answers and programs\<close>

text \<open>A filter over the logs of a range of blocks (\<^verbatim>\<open>ethereum.FilterQuery\<close>).\<close>

record filter_query =
  fq_FromBlock :: int
  fq_ToBlock   :: int
  fq_Addresses :: "160 word list"
  fq_Topics    :: "256 word list"

text \<open>The fields of a log the handlers read (\<^verbatim>\<open>types.Log\<close>).\<close>

record eth_log =
  log_Address     :: "160 word"
  log_Topics      :: "256 word list"
  log_Data        :: "byte list"
  log_BlockNumber :: nat
  log_TxHash      :: "256 word"
  log_Index       :: nat
  log_Removed     :: bool

datatype 'd call =
    Execute string string "'d gval list"    \<comment> \<open>\<^verbatim>\<open>broker.Execute(instance, fn, params)\<close>\<close>
  | Respond "'d response"                   \<comment> \<open>the response written to the HTTP client\<close>
  | Clock                                   \<comment> \<open>\<^verbatim>\<open>time.Now()\<close>, in nanoseconds\<close>
  | Sleep int                               \<comment> \<open>\<^verbatim>\<open>time.Sleep\<close>, in milliseconds\<close>
  | EthDial string
  | EthBindExchange "160 word"              \<comment> \<open>\<^verbatim>\<open>bfx.NewBfx\<close>\<close>
  | EthHeader                               \<comment> \<open>\<^verbatim>\<open>HeaderByNumber(nil)\<close>\<close>
  | EthFilterLogs filter_query
  | EthTransaction string                   \<comment> \<open>\<^verbatim>\<open>TransactionByHash\<close>\<close>
  | EthNonce "160 word"                     \<comment> \<open>\<^verbatim>\<open>PendingNonceAt\<close>\<close>
  | EthKeyedTransactor nat                  \<comment> \<open>\<^verbatim>\<open>NewKeyedTransactorWithChainID\<close>\<close>
  | EthGasPrice                             \<comment> \<open>\<^verbatim>\<open>SuggestGasPrice\<close>\<close>
  | EthClaimYield int int                   \<comment> \<open>the contract's \<^verbatim>\<open>ClaimYield\<close>, nonce and gas price\<close>
  | LoadFlag string                         \<comment> \<open>a boolean shared with other goroutines\<close>
  | StoreFlag string bool
  | LoadBlock string                        \<comment> \<open>a shared block number\<close>
  | StoreBlock string int
  | MutexLock string
  | MutexUnlock string
  | External string "'d gval list"          \<comment> \<open>a call of any other service\<close>

text \<open>
  An answer has one field per kind of result; a call reads the field of its kind. The error of
  a Go call is its text.
\<close>

record 'd answer =
  a_reply  :: "'d reply"
  a_time   :: int
  a_error  :: "string option"
  a_int    :: "string + int"
  a_logs   :: "string + eth_log list"
  a_tx     :: "string + bool"    \<comment> \<open>whether the transaction returned is non-nil\<close>
  a_flag   :: bool
  a_block  :: int

text \<open>
  A variable that several goroutines use is not part of a program's own state: reading it is a
  call, whose answer may be what another goroutine wrote.
\<close>

text \<open>A program returns a value, panics, or makes a call and continues with its answer.\<close>

datatype ('d, 'a) prog =
    Return 'a
  | Panic string
  | Call "'d call" "'d answer \<Rightarrow> ('d, 'a) prog"

primrec andThen :: "('d, 'a) prog \<Rightarrow> ('a \<Rightarrow> ('d, 'b) prog) \<Rightarrow> ('d, 'b) prog" where
  "andThen (Return a) f = f a"
| "andThen (Panic m) f = Panic m"
| "andThen (Call c k) f = Call c (\<lambda>ans. andThen (k ans) f)"

text \<open>\<^verbatim>\<open>defer d()\<close> before \<open>p\<close>: \<open>d\<close> runs when \<open>p\<close> returns and when it panics.\<close>

primrec deferring :: "('d, unit) prog \<Rightarrow> ('d, 'a) prog \<Rightarrow> ('d, 'a) prog" where
  "deferring d (Return a) = andThen d (\<lambda>_. Return a)"
| "deferring d (Panic m) = andThen d (\<lambda>_. Panic m)"
| "deferring d (Call c k) = Call c (\<lambda>ans. deferring d (k ans))"

text \<open>\<^verbatim>\<open>x, err := p; if err != nil { h }\<close>, then \<open>k\<close> with \<^verbatim>\<open>x\<close>\<close>

definition onErr ::
  "('d, 'e + 'a) prog \<Rightarrow> ('e \<Rightarrow> ('d, 'b) prog) \<Rightarrow> ('a \<Rightarrow> ('d, 'b) prog) \<Rightarrow> ('d, 'b) prog" where
  "onErr p h k = andThen p (\<lambda>r. case r of Inl e \<Rightarrow> h e | Inr x \<Rightarrow> k x)"

text \<open>Reading through a pointer, and a library call that panics on some arguments\<close>

definition deref :: "'a option \<Rightarrow> ('a \<Rightarrow> ('d, 'b) prog) \<Rightarrow> ('d, 'b) prog" where
  "deref p k = (case p of None \<Rightarrow> Panic ''nil pointer dereference'' | Some x \<Rightarrow> k x)"

definition orPanic :: "string \<Rightarrow> 'a option \<Rightarrow> ('a \<Rightarrow> ('d, 'b) prog) \<Rightarrow> ('d, 'b) prog" where
  "orPanic m p k = (case p of None \<Rightarrow> Panic m | Some x \<Rightarrow> k x)"

definition newFromFloat :: "'d dec_lib \<Rightarrow> f64 \<Rightarrow> ('d \<Rightarrow> ('d, 'b) prog) \<Rightarrow> ('d, 'b) prog" where
  "newFromFloat D x k = orPanic ''cannot create a Decimal from NaN or Inf'' (d_of_float D x) k"

text \<open>A loop over a slice whose body may panic or call out, and whose result is not used\<close>

primrec forEach :: "'a list \<Rightarrow> ('a \<Rightarrow> ('d, unit) prog) \<Rightarrow> ('d, unit) prog" where
  "forEach [] body = Return ()"
| "forEach (x # xs) body = andThen (body x) (\<lambda>_. forEach xs body)"

text \<open>A call whose results are dropped\<close>

definition ignoring :: "('d, 'a) prog \<Rightarrow> ('d, unit) prog" where
  "ignoring p = andThen p (\<lambda>_. Return ())"

definition respond :: "'d response \<Rightarrow> ('d, unit) prog" where
  "respond r = Call (Respond r) (\<lambda>_. Return ())"

definition SuccessResponse :: "'d gval list \<Rightarrow> ('d, unit) prog" where
  "SuccessResponse vs = respond (Success vs)"

definition ErrorResponse :: "string \<Rightarrow> ('d, unit) prog" where
  "ErrorResponse e = respond (Failure e)"

definition now :: "(int \<Rightarrow> ('d, 'a) prog) \<Rightarrow> ('d, 'a) prog" where
  "now k = Call Clock (\<lambda>ans. k (a_time ans))"

definition sleep :: "int \<Rightarrow> ('d, 'a) prog \<Rightarrow> ('d, 'a) prog" where
  "sleep ms p = Call (Sleep ms) (\<lambda>_. p)"

section \<open>Execution\<close>

text \<open>
  A history is the list of the calls made and the answers they got, the latest first; an
  environment answers a call knowing the history.
\<close>

type_synonym 'd history = "('d call \<times> 'd answer) list"
type_synonym 'd env = "'d history \<Rightarrow> 'd call \<Rightarrow> 'd answer"

datatype 'a outcome = Done 'a | Panicked string

primrec run :: "'d env \<Rightarrow> ('d, 'a) prog \<Rightarrow> 'd history \<Rightarrow> 'd history \<times> 'a outcome" where
  "run E (Return a) h = (h, Done a)"
| "run E (Panic m) h = (h, Panicked m)"
| "run E (Call c k) h = run E (k (E h c)) ((c, E h c) # h)"

text \<open>
  \<open>wp P Q h p\<close>: after the history \<open>h\<close>, whatever the answers, every call \<open>p\<close> makes satisfies
  \<open>P\<close> of the history it is made in, and the final history and outcome satisfy \<open>Q\<close>.
\<close>

type_synonym 'd call_cond = "'d history \<Rightarrow> 'd call \<Rightarrow> bool"

primrec wp ::
  "'d call_cond \<Rightarrow> ('d history \<Rightarrow> 'a outcome \<Rightarrow> bool) \<Rightarrow> ('d, 'a) prog \<Rightarrow> 'd history \<Rightarrow> bool" where
  "wp P Q (Return a) h \<longleftrightarrow> Q h (Done a)"
| "wp P Q (Panic m) h \<longleftrightarrow> Q h (Panicked m)"
| "wp P Q (Call c k) h \<longleftrightarrow> P h c \<and> (\<forall>ans. wp P Q (k ans) ((c, ans) # h))"

text \<open>The history \<open>h'\<close> extends \<open>h\<close> by calls that satisfied \<open>P\<close> when they were made.\<close>

inductive extends :: "'d call_cond \<Rightarrow> 'd history \<Rightarrow> 'd history \<Rightarrow> bool" for P where
  refl: "extends P h h"
| step: "extends P h h' \<Longrightarrow> P h' c \<Longrightarrow> extends P h ((c, ans) # h')"

inductive_simps extends_simps: "extends P h ((c, ans) # h')"

lemma extends_trans: "extends P h' h'' \<Longrightarrow> extends P h h' \<Longrightarrow> extends P h h''"
  by (induction rule: extends.induct) (auto intro: extends.intros)

lemma extends_suffix: "extends P h h' \<Longrightarrow> \<exists>t. h' = t @ h"
  by (induction rule: extends.induct) auto

lemma extends_set: "extends P h h' \<Longrightarrow> set h \<subseteq> set h'"
  using extends_suffix by fastforce

text \<open>Every call made after \<open>h\<close> satisfied \<open>P\<close> of the part of the history before it.\<close>

lemma extends_call:
  "extends P h (post @ (c, ans) # pre) \<Longrightarrow> length h \<le> length pre \<Longrightarrow> P pre c"
proof (induction "post @ (c, ans) # pre" arbitrary: post rule: extends.induct)
  case refl
  then show ?case by (metis Suc_n_not_le_n add_leD2 le_trans length_Cons length_append le_add2)
next
  case (step h' c' ans')
  then show ?case by (cases post) auto
qed

theorem wp_run:
  "wp P Q p h \<Longrightarrow> run E p h = (h', r) \<Longrightarrow> extends P h h' \<and> Q h' r"
proof (induction p arbitrary: h)
  case (Call c k)
  then have "P h c" and "extends P ((c, E h c) # h) h'" and "Q h' r"
    by auto
  then show ?case
    using extends_trans extends.refl extends.step by metis
qed (auto intro: extends.intros)

lemma run_andThen:
  "run E (andThen p f) h =
     (case run E p h of (h', Done a) \<Rightarrow> run E (f a) h' | (h', Panicked m) \<Rightarrow> (h', Panicked m))"
  by (induction p arbitrary: h) auto

section \<open>Rules of the weakest precondition\<close>

lemma wp_andThen:
  "wp P Q (andThen p f) h \<longleftrightarrow>
     wp P (\<lambda>h' r. case r of Done a \<Rightarrow> wp P Q (f a) h' | Panicked m \<Rightarrow> Q h' (Panicked m)) p h"
  by (induction p arbitrary: h) auto

lemma wp_deferring:
  "wp P Q (deferring d p) h \<longleftrightarrow>
     wp P (\<lambda>h' r. wp P (\<lambda>h'' r'. Q h'' (case r' of Done _ \<Rightarrow> r | Panicked m \<Rightarrow> Panicked m)) d h') p h"
proof (induction p arbitrary: h)
  case (Return x)
  show ?case
    by (simp add: wp_andThen) (intro arg_cong [where f = "\<lambda>R. wp P R d h"] ext; simp split: outcome.split)
next
  case (Panic x)
  show ?case
    by (simp add: wp_andThen) (intro arg_cong [where f = "\<lambda>R. wp P R d h"] ext; simp split: outcome.split)
qed auto

lemma wp_onErr:
  "wp P Q (onErr p f k) h \<longleftrightarrow>
     wp P (\<lambda>h' r. case r of Done (Inl e) \<Rightarrow> wp P Q (f e) h' | Done (Inr x) \<Rightarrow> wp P Q (k x) h'
                   | Panicked m \<Rightarrow> Q h' (Panicked m)) p h"
  unfolding onErr_def wp_andThen
  by (intro arg_cong [where f = "\<lambda>R. wp P R p h"] ext) (simp split: outcome.split sum.split)

lemma wp_mono:
  "wp P Q p h \<Longrightarrow> (\<And>h' r. extends P h h' \<Longrightarrow> Q h' r \<Longrightarrow> Q' h' r) \<Longrightarrow> wp P Q' p h"
proof (induction p arbitrary: h)
  case (Call c k)
  have "wp P Q' (k ans) ((c, ans) # h)" for ans
    using Call.prems Call.IH [of "k ans" "(c, ans) # h"]
    by (auto intro: extends_trans [OF _ extends.step [OF extends.refl]])
  then show ?case
    using Call.prems by simp
qed (auto intro: extends.refl)

lemma wp_weaken:
  "wp P Q p h \<Longrightarrow> (\<And>h' c. P h' c \<Longrightarrow> P' h' c) \<Longrightarrow> (\<And>h' r. Q h' r \<Longrightarrow> Q' h' r) \<Longrightarrow> wp P' Q' p h"
  by (induction p arbitrary: h) auto

lemma wp_conj:
  "wp P Q p h \<Longrightarrow> wp P' Q' p h \<Longrightarrow>
     wp (\<lambda>h c. P h c \<and> P' h c) (\<lambda>h r. Q h r \<and> Q' h r) p h"
  by (induction p arbitrary: h) auto

lemma wp_if [simp]:
  "wp P Q (if b then p else q) h \<longleftrightarrow> (b \<longrightarrow> wp P Q p h) \<and> (\<not> b \<longrightarrow> wp P Q q h)"
  by simp

lemma wp_deref [simp]:
  "wp P Q (deref x k) h \<longleftrightarrow>
     (x = None \<longrightarrow> Q h (Panicked ''nil pointer dereference'')) \<and> (\<forall>y. x = Some y \<longrightarrow> wp P Q (k y) h)"
  by (cases x) (auto simp: deref_def)

lemma wp_orPanic [simp]:
  "wp P Q (orPanic m x k) h \<longleftrightarrow>
     (x = None \<longrightarrow> Q h (Panicked m)) \<and> (\<forall>y. x = Some y \<longrightarrow> wp P Q (k y) h)"
  by (cases x) (auto simp: orPanic_def)

lemma wp_newFromFloat [simp]:
  "wp P Q (newFromFloat D x k) h \<longleftrightarrow>
     (d_of_float D x = None \<longrightarrow> Q h (Panicked ''cannot create a Decimal from NaN or Inf'')) \<and>
     (\<forall>d. d_of_float D x = Some d \<longrightarrow> wp P Q (k d) h)"
  by (simp add: newFromFloat_def)

lemma wp_respond [simp]:
  "wp P Q (respond r) h \<longleftrightarrow> P h (Respond r) \<and> (\<forall>ans. Q ((Respond r, ans) # h) (Done ()))"
  by (simp add: respond_def)

lemma wp_ErrorResponse [simp]:
  "wp P Q (ErrorResponse e) h \<longleftrightarrow>
     P h (Respond (Failure e)) \<and> (\<forall>ans. Q ((Respond (Failure e), ans) # h) (Done ()))"
  by (simp add: ErrorResponse_def)

lemma wp_SuccessResponse [simp]:
  "wp P Q (SuccessResponse vs) h \<longleftrightarrow>
     P h (Respond (Success vs)) \<and> (\<forall>ans. Q ((Respond (Success vs), ans) # h) (Done ()))"
  by (simp add: SuccessResponse_def)

text \<open>A loop keeps an invariant that every iteration keeps.\<close>

lemma wp_forEach:
  assumes "I h"
    and "\<And>x h. x \<in> set xs \<Longrightarrow> I h \<Longrightarrow>
           wp P (\<lambda>h' r. case r of Done _ \<Rightarrow> I h' | Panicked m \<Rightarrow> Q h' (Panicked m)) (body x) h"
    and "\<And>h. I h \<Longrightarrow> Q h (Done ())"
  shows "wp P Q (forEach xs body) h"
  using assms
proof (induction xs arbitrary: h)
  case (Cons x xs)
  have "wp P (\<lambda>h' r. case r of Done _ \<Rightarrow> wp P Q (forEach xs body) h' | Panicked m \<Rightarrow> Q h' (Panicked m))
          (body x) h"
  proof (rule wp_mono)
    show "wp P (\<lambda>h' r. case r of Done _ \<Rightarrow> I h' | Panicked m \<Rightarrow> Q h' (Panicked m)) (body x) h"
      using Cons.prems by simp
  qed (use Cons in \<open>auto split: outcome.splits\<close>)
  then show ?case
    by (simp add: wp_andThen)
qed auto

section \<open>Loops around a ticker\<close>

text \<open>
  The loop of a service around its round: a goroutine that waits with \<^verbatim>\<open>select\<close> for the next tick of a
  \<^verbatim>\<open>time.Ticker\<close> or for the end of its context. The answer of \<^verbatim>\<open>select\<close> says whether the context was
  cancelled; the number of rounds is an argument, and what is shown holds for every number.
\<close>

datatype ('r, 's) ticking =
    Running 's    \<comment> \<open>still waiting, with this state\<close>
  | Stopped 's    \<comment> \<open>cancelled\<close>
  | Ended 'r      \<comment> \<open>left by a round\<close>

abbreviation select_call :: "'d call" where
  "select_call \<equiv> External ''select'' []"

primrec ticks :: "nat \<Rightarrow> ('s \<Rightarrow> ('d, 'r + 's) prog) \<Rightarrow> 's \<Rightarrow> ('d, ('r, 's) ticking) prog" where
  "ticks 0 body s = Return (Running s)"
| "ticks (Suc n) body s =
     Call select_call (\<lambda>ans.
       if a_flag ans then Return (Stopped s)
       else andThen (body s) (\<lambda>r. case r of Inl x \<Rightarrow> Return (Ended x) | Inr s' \<Rightarrow> ticks n body s'))"

text \<open>\<^verbatim>\<open>time.NewTicker\<close> panics for an interval that is not positive.\<close>

definition new_ticker :: "int \<Rightarrow> ('d, 'a) prog \<Rightarrow> ('d, 'a) prog" where
  "new_ticker d p = (if d \<le> 0 then Panic ''non-positive interval for NewTicker'' else p)"

section \<open>What holds of every round holds of the loop\<close>

lemma wp_grows: "wp (\<lambda>_ _. True) (\<lambda>h' _. set h \<subseteq> set h') p h"
proof -
  have "wp (\<lambda>_ _. True) (\<lambda>h' _. set g \<subseteq> set h') p h" if "set g \<subseteq> set h" for g
    using that
  proof (induction p arbitrary: h)
    case (Call c k)
    then show ?case
      by (simp add: subset_insertI2)
  qed simp_all
  then show ?thesis
    by simp
qed

lemma wp_ticks:
  assumes "I h s" and "\<And>h s. I h s \<Longrightarrow> P h select_call"
    and later: "\<And>h s x. I h s \<Longrightarrow> I (x # h) s"
    and round: "\<And>h s. I h s \<Longrightarrow> wp P (\<lambda>h' r. \<forall>s'. r = Done (Inr s') \<longrightarrow> I h' s') (body s) h"
  shows "wp P (\<lambda>h' r. \<forall>s'. r \<in> {Done (Running s'), Done (Stopped s')} \<longrightarrow> I h' s') (ticks n body s) h"
  using assms(1)
proof (induction n arbitrary: h s)
  case (Suc n)
  have "wp P (\<lambda>h' r. \<forall>s'. r \<in> {Done (Running s'), Done (Stopped s')} \<longrightarrow> I h' s')
      (andThen (body s) (\<lambda>r. case r of Inl x \<Rightarrow> Return (Ended x) | Inr s' \<Rightarrow> ticks n body s')) (x # h)" for x
    unfolding wp_andThen
    by (rule wp_mono [OF round [OF later [OF Suc.prems]]]) (auto intro: Suc.IH simp del: insert_iff split: outcome.split sum.split)
  then show ?case
    using assms(2) [OF Suc.prems] later [OF Suc.prems] by simp
qed simp

lemma wp_ticks_calls:
  assumes "\<And>h. P h select_call" "\<And>h s. wp P (\<lambda>_ _. True) (body s) h"
  shows "wp P (\<lambda>_ _. True) (ticks n body s) h"
  by (rule wp_mono [OF wp_ticks [of "\<lambda>_ _. True"]]) (simp_all add: assms)

lemma wp_new_ticker [simp]:
  "wp P Q (new_ticker d p) h \<longleftrightarrow> (if d \<le> 0 then Q h (Panicked ''non-positive interval for NewTicker'') else wp P Q p h)"
  by (simp add: new_ticker_def)

text \<open>More rounds extend a run: a loop that has ended within \<open>n\<close> rounds does the same with more.\<close>

lemma run_ticks_more:
  assumes "run E (ticks n body s) h = (h', Done x)" "\<And>s'. x \<noteq> Running s'" "n \<le> m"
  shows "run E (ticks m body s) h = (h', Done x)"
  using assms
proof (induction n arbitrary: m s h)
  case (Suc n)
  then obtain m' where "m = Suc m'" "n \<le> m'"
    by (cases m) auto
  with Suc show ?case
    by (auto simp: run_andThen split: prod.splits outcome.splits sum.splits if_splits)
qed auto

end
