(* ===== verification/Model_Request.thy ===== *)
theory Model_Request
  imports Go_Prog
begin

text \<open>
  The client side of Tarantool: \<^verbatim>\<open>model/response.go\<close>, \<^verbatim>\<open>model/order.go\<close> and
  \<^verbatim>\<open>model/instance.go\<close>. Every operation of the package \<^verbatim>\<open>model\<close> is one call of a stored
  procedure through \<open>Request\<close>; its three error paths (the driver, an empty result, the error
  field of the first row) are the branches of \<open>decode_reply\<close>.
\<close>

section \<open>Instances\<close>

abbreviation API_INSTANCE :: string where "API_INSTANCE \<equiv> ''api-gateway''"
abbreviation AUTH_INSTANCE :: string where "AUTH_INSTANCE \<equiv> ''auth''"
abbreviation PROFILE_INSTANCE :: string where "PROFILE_INSTANCE \<equiv> ''profile''"

text \<open>\<^verbatim>\<open>InstanceConfig\<close>; the connection fields are not used by the operations.\<close>

record instance_config =
  ic_Title    :: string
  ic_Host     :: string
  ic_Port     :: nat
  ic_User     :: string
  ic_Password :: string
  ic_Tags     :: "string list"

text \<open>The result of reading the cluster configuration file: an error or the instances.\<close>

type_synonym cluster = "string + instance_config list"

fun getFirst :: "(instance_config \<Rightarrow> bool) \<Rightarrow> instance_config list \<Rightarrow> string + instance_config" where
  "getFirst f [] = Inl ''NOT_FOUND''"
| "getFirst f (i # is) = (if f i then Inr i else getFirst f is)"

text \<open>
  \<^verbatim>\<open>go.mod\<close> sets the language version 1.19, where a loop has one variable: every pointer
  \<^verbatim>\<open>&instance\<close> that \<open>getList\<close> collects is the same one, and after the loop it holds the last
  instance of the configuration.
\<close>

definition getList :: "(instance_config \<Rightarrow> bool) \<Rightarrow> instance_config list \<Rightarrow> string + instance_config list" where
  "getList f is =
     (let n = length (List.filter f is)
      in if n = 0 then Inl ''INSTANCE_NOT_FOUND'' else Inr (replicate n (last is)))"

definition ByMarketID :: "instance_config list \<Rightarrow> string \<Rightarrow> string + instance_config" where
  "ByMarketID is marketID = getFirst (\<lambda>i. marketID \<in> set (ic_Tags i) \<or> ic_Title i = marketID) is"

definition ByTitle :: "instance_config list \<Rightarrow> string \<Rightarrow> string + instance_config" where
  "ByTitle is title = getFirst (\<lambda>i. ic_Title i = title) is"

text \<open>\<^verbatim>\<open>GetInstance\<close> panics when the configuration cannot be read.\<close>

definition GetInstance :: "cluster \<Rightarrow> (instance_config list \<Rightarrow> ('d, 'b) prog) \<Rightarrow> ('d, 'b) prog" where
  "GetInstance IC k = (case IC of Inl e \<Rightarrow> Panic e | Inr is \<Rightarrow> k is)"

text \<open>
  The prologue of the operations on a market: find its instance, return the error when there
  is none (as it is, or wrapped in a text), go on otherwise.
\<close>

definition withMarket ::
  "cluster \<Rightarrow> string \<Rightarrow> (instance_config \<Rightarrow> ('d, string + 'b) prog) \<Rightarrow> ('d, string + 'b) prog" where
  "withMarket IC m k =
     GetInstance IC (\<lambda>is. case ByMarketID is m of Inl e \<Rightarrow> Return (Inl e) | Inr i \<Rightarrow> k i)"

definition withMarketText ::
  "cluster \<Rightarrow> string \<Rightarrow> (instance_config \<Rightarrow> ('d, string + 'b) prog) \<Rightarrow> ('d, string + 'b) prog" where
  "withMarketText IC m k =
     GetInstance IC (\<lambda>is. case ByMarketID is m of
         Inl e \<Rightarrow> Return (Inl (''GetInstance err='' @ e @ '' for market_id='' @ m)) | Inr i \<Rightarrow> k i)"

section \<open>Requests\<close>

definition decode_error :: string where
  "decode_error = ''msgpack: invalid code in the result''"

text \<open>\<^verbatim>\<open>DataResponse[T].Request\<close>\<close>

definition decode_reply :: "('d, 'a) decoder \<Rightarrow> 'd reply \<Rightarrow> string + 'a" where
  "decode_reply dec r =
     (case r of
        BErr e \<Rightarrow> Inl e
      | BRows [] \<Rightarrow> Inl ''UNKNOWN ERROR''
      | BRows ((v, e) # _) \<Rightarrow>
          if e \<noteq> '''' then Inl e
          else (case dec v of None \<Rightarrow> Inl decode_error | Some x \<Rightarrow> Inr x))"

definition Request ::
  "('d, 'a) decoder \<Rightarrow> string \<Rightarrow> string \<Rightarrow> 'd gval list \<Rightarrow> ('d, string + 'a) prog" where
  "Request dec instnc fn params =
     Call (Execute instnc fn params) (\<lambda>ans. Return (decode_reply dec (a_reply ans)))"

text \<open>The operations that only return the error of their request\<close>

definition err_of :: "string + 'a \<Rightarrow> string + unit" where
  "err_of r = (case r of Inl e \<Rightarrow> Inl e | Inr _ \<Rightarrow> Inr ())"

definition Request_err ::
  "('d, 'a) decoder \<Rightarrow> string \<Rightarrow> string \<Rightarrow> 'd gval list \<Rightarrow> ('d, string + unit) prog" where
  "Request_err dec instnc fn params =
     Call (Execute instnc fn params) (\<lambda>ans. Return (err_of (decode_reply dec (a_reply ans))))"

text \<open>
  \<^verbatim>\<open>OrderResponse[T].request\<close>: the row holds a task, the order and an error; the callers drop
  the task.
\<close>

definition Request_order ::
  "('d, 'a) decoder \<Rightarrow> string \<Rightarrow> string \<Rightarrow> 'd gval list \<Rightarrow> ('d, string + 'a) prog" where
  "Request_order dec instnc fn params =
     Call (Execute instnc fn params) (\<lambda>ans. Return (decode_reply dec (a_reply ans)))"

section \<open>Rules\<close>

lemma wp_Request [simp]:
  "wp P Q (Request dec i f ps) h \<longleftrightarrow>
     P h (Execute i f ps) \<and>
     (\<forall>ans. Q ((Execute i f ps, ans) # h) (Done (decode_reply dec (a_reply ans))))"
  by (simp add: Request_def)

lemma wp_Request_err [simp]:
  "wp P Q (Request_err dec i f ps) h \<longleftrightarrow>
     P h (Execute i f ps) \<and>
     (\<forall>ans. Q ((Execute i f ps, ans) # h) (Done (err_of (decode_reply dec (a_reply ans)))))"
  by (simp add: Request_err_def)

lemma wp_Request_order [simp]:
  "wp P Q (Request_order dec i f ps) h \<longleftrightarrow>
     P h (Execute i f ps) \<and>
     (\<forall>ans. Q ((Execute i f ps, ans) # h) (Done (decode_reply dec (a_reply ans))))"
  by (simp add: Request_order_def)

lemma err_of_eq [simp]: "err_of r = Inl e \<longleftrightarrow> r = Inl e" "err_of r = Inr () \<longleftrightarrow> (\<exists>x. r = Inr x)"
  by (auto simp: err_of_def split: sum.splits)

lemma decode_reply_ok:
  "decode_reply dec r = Inr x \<longleftrightarrow> (\<exists>v rows. r = BRows ((v, '''') # rows) \<and> dec v = Some x)"
  by (auto simp: decode_reply_def split: reply.splits list.splits prod.splits if_splits option.splits)

lemma getList_repeats_last:
  "getList f is = Inr result \<Longrightarrow> set result = {last is}"
  by (auto simp: getList_def Let_def split: if_splits)

lemma getFirst_ok: "getFirst f is = Inr i \<Longrightarrow> i \<in> set is \<and> f i"
  by (induction "is") (auto split: if_splits)

lemma getFirst_err: "getFirst f is = Inl e \<longleftrightarrow> e = ''NOT_FOUND'' \<and> (\<forall>i \<in> set is. \<not> f i)"
  by (induction "is") auto

end
