(* ===== verification/Broker.thy ===== *)
theory Broker
  imports Model_Request
begin

text \<open>
  The connection pool of the Tarantool client (\<^verbatim>\<open>model/broker.go\<close>) and the client of the vault
  contracts (\<^verbatim>\<open>vault/vault.go\<close>), two singletons built on first use. The drivers are parameters:
  what a dial or a call does to the world \<open>'w\<close> and what it answers. A loop that may go on forever
  takes a bound on its rounds, and \<open>None\<close> says that it has not ended within it.
\<close>

section \<open>The pool\<close>

text \<open>A connection is a number; a key of the pool may hold a nil connection.\<close>

record broker =
  br_Pool :: "string \<rightharpoonup> nat option"
  br_cfg :: "instance_config list option"

definition RECONNECT_TRY_COUNT :: nat where "RECONNECT_TRY_COUNT = 32"

definition should_reconnect :: "string option \<Rightarrow> bool" where
  "should_reconnect err =
     (case err of
        None \<Rightarrow> False
      | Some e \<Rightarrow> contains_sub e ''read tcp'' \<or> contains_sub e ''network is unreachable''
                  \<or> contains_sub e ''closed connection'')"

text \<open>
  \<^verbatim>\<open>tarantool.Connect\<close> of an instance: a connection, or nil with an error. The loop of an
  instance in \<open>GetBroker\<close> returns the error or what it puts in the pool.
\<close>

type_synonym 'w connect = "instance_config \<Rightarrow> 'w \<Rightarrow> (string + nat) \<times> 'w"

definition err_part :: "string + 'a \<Rightarrow> string option" where
  "err_part r = (case r of Inl e \<Rightarrow> Some e | Inr _ \<Rightarrow> None)"

definition val_part :: "string + 'a \<Rightarrow> 'a option" where
  "val_part r = (case r of Inl _ \<Rightarrow> None | Inr x \<Rightarrow> Some x)"

function connect_loop ::
    "'w connect \<Rightarrow> instance_config \<Rightarrow> nat \<Rightarrow> 'w \<Rightarrow> (string + nat option) \<times> 'w" where
  "connect_loop connect inst tryCount w =
     (case connect inst w of (r, w') \<Rightarrow>
        if err_part r \<noteq> None \<and> RECONNECT_TRY_COUNT < tryCount then (Inl (the (err_part r)), w')
        else if \<not> should_reconnect (err_part r) then (Inr (val_part r), w')
        else connect_loop connect inst (tryCount + 1) w')"
  by pat_completeness auto
termination
  by (relation "measure (\<lambda>(c, i, n, w). 34 - n)")
    (auto simp: RECONNECT_TRY_COUNT_def should_reconnect_def split: option.splits)

declare connect_loop.simps [simp del]

fun connect_all ::
    "'w connect \<Rightarrow> instance_config list \<Rightarrow> (string \<rightharpoonup> nat option) \<Rightarrow> 'w
     \<Rightarrow> (string + unit) \<times> (string \<rightharpoonup> nat option) \<times> 'w" where
  "connect_all connect [] pool w = (Inr (), pool, w)"
| "connect_all connect (inst # is) pool w =
     (case connect_loop connect inst 0 w of
        (Inl e, w') \<Rightarrow> (Inl e, pool, w')
      | (Inr conn, w') \<Rightarrow> connect_all connect is (pool(ic_Title inst \<mapsto> conn)) w')"

text \<open>
  \<open>GetBroker\<close>: the singleton is set before the configuration is read. The broker is a pointer, so
  the singleton is also what an earlier caller holds.
\<close>

definition GetBroker ::
    "cluster \<Rightarrow> 'w connect \<Rightarrow> broker option \<Rightarrow> 'w \<Rightarrow> (string + broker) \<times> broker option \<times> 'w" where
  "GetBroker cfg connect singleton w =
     (case singleton of
        Some b \<Rightarrow> (Inr b, singleton, w)
      | None \<Rightarrow>
          (case cfg of
             Inl e \<Rightarrow> (Inl e, Some \<lparr> br_Pool = Map.empty, br_cfg = None \<rparr>, w)
           | Inr instances \<Rightarrow>
               (case connect_all connect instances Map.empty w of
                  (Inl e, pool, w') \<Rightarrow> (Inl e, Some \<lparr> br_Pool = pool, br_cfg = None \<rparr>, w')
                | (Inr _, pool, w') \<Rightarrow>
                    (let b = \<lparr> br_Pool = pool, br_cfg = Some instances \<rparr> in (Inr b, Some b, w')))))"

text \<open>
  \<open>Close\<close> closes the connections in the order of the loop, given by \<open>titles\<close>; a nil connection
  panics, an error stops it and keeps the singleton.
\<close>

fun close_all :: "(nat \<Rightarrow> 'w \<Rightarrow> string option \<times> 'w) \<Rightarrow> (string \<rightharpoonup> nat option) \<Rightarrow> string list \<Rightarrow> 'w
    \<Rightarrow> (string, unit) go \<times> 'w" where
  "close_all close pool [] w = (Inr (), w)"
| "close_all close pool (t # ts) w =
     (case pool t of
        Some (Some conn) \<Rightarrow>
          (case close conn w of
             (Some e, w') \<Rightarrow> (Inl (Err e), w')
           | (None, w') \<Rightarrow> close_all close pool ts w')
      | _ \<Rightarrow> (Inl (Crash ''nil pointer dereference''), w))"

definition Close :: "(nat \<Rightarrow> 'w \<Rightarrow> string option \<times> 'w) \<Rightarrow> string list \<Rightarrow> broker option \<Rightarrow> 'w
    \<Rightarrow> (string, unit) go \<times> broker option \<times> 'w" where
  "Close close titles singleton w =
     (case singleton of
        None \<Rightarrow> (Inl (Err ''No broker''), None, w)
      | Some b \<Rightarrow>
          (case close_all close (br_Pool b) titles w of
             (Inr _, w') \<Rightarrow> (Inr (), None, w')
           | (Inl e, w') \<Rightarrow> (Inl e, Some b, w')))"

section \<open>Execution\<close>

text \<open>\<open>NewConnection\<close> until one succeeds; \<open>None\<close> when none of \<open>fuel\<close> dials did.\<close>

fun reconnect_until :: "nat \<Rightarrow> 'w connect \<Rightarrow> instance_config \<Rightarrow> 'w \<Rightarrow> (nat \<times> 'w) option" where
  "reconnect_until 0 connect inst w = None"
| "reconnect_until (Suc fuel) connect inst w =
     (case connect inst w of
        (Inl e, w') \<Rightarrow> reconnect_until fuel connect inst w'
      | (Inr conn, w') \<Rightarrow> Some (conn, w'))"

type_synonym 'w exec_result = "((string, unit) go \<times> (string \<rightharpoonup> nat option) \<times> 'w) option"

text \<open>
  The label \<^verbatim>\<open>reconnect\<close> of \<open>exec\<close>: the configuration is read again, and a failure to read it
  panics; then the pool gets the new connection and the loop goes on with \<open>next_round\<close>.
\<close>

definition retry_with ::
    "nat \<Rightarrow> cluster \<Rightarrow> 'w connect \<Rightarrow> string \<Rightarrow> (string \<rightharpoonup> nat option)
     \<Rightarrow> ((string \<rightharpoonup> nat option) \<Rightarrow> 'w \<Rightarrow> 'w exec_result) \<Rightarrow> 'w \<Rightarrow> 'w exec_result" where
  "retry_with fuel cfg connect inst pool next_round w =
     (case cfg of
        Inl e \<Rightarrow> Some (Inl (Crash e), pool, w)
      | Inr instances \<Rightarrow>
          (case ByTitle instances inst of
             Inl e \<Rightarrow> Some (Inl (Err e), pool, w)
           | Inr i \<Rightarrow>
               (case reconnect_until fuel connect i w of
                  None \<Rightarrow> None
                | Some (conn, w') \<Rightarrow> next_round (pool(inst \<mapsto> Some conn)) w')))"

text \<open>
  \<open>exec\<close>: \<open>call\<close> is the function it is given, run on a connection. The results are the error (if
  any), the pool and the world.
\<close>

primrec exec ::
    "nat \<Rightarrow> cluster \<Rightarrow> 'w connect \<Rightarrow> (nat \<Rightarrow> 'w \<Rightarrow> string option \<times> 'w) \<Rightarrow> string
     \<Rightarrow> (string \<rightharpoonup> nat option) \<Rightarrow> 'w \<Rightarrow> 'w exec_result" where
  "exec 0 cfg connect call inst pool w = None"
| "exec (Suc fuel) cfg connect call inst pool w =
     (let reconnect = retry_with fuel cfg connect inst pool (exec fuel cfg connect call inst)
      in case pool inst of
           None \<Rightarrow> Some (Inl (Err (''Instance='' @ inst @ '' not found'')), pool, w)
         | Some None \<Rightarrow> reconnect w
         | Some (Some conn) \<Rightarrow>
             (case call conn w of (err, w') \<Rightarrow>
                if \<not> should_reconnect err
                then Some (case err of None \<Rightarrow> Inr () | Some e \<Rightarrow> Inl (Err e), pool, w')
                else reconnect w'))"

text \<open>\<open>SelectUntyped\<close>: the rows, then the names of the fields of the space in the order of their ids\<close>

definition select_untyped ::
    "(nat \<Rightarrow> 'w \<Rightarrow> (string + 'r) \<times> 'w) \<Rightarrow> (nat \<Rightarrow> string \<Rightarrow> string list option) \<Rightarrow> string \<Rightarrow> nat \<Rightarrow> 'w
     \<Rightarrow> (string + 'r \<times> string list) \<times> 'w" where
  "select_untyped select schema space conn w =
     (case select conn w of
        (Inl e, w') \<Rightarrow> (Inl (''tarantool select: '' @ e), w')
      | (Inr res, w') \<Rightarrow>
          (case schema conn space of
             None \<Rightarrow> (Inl ''space not found'', w')
           | Some columns \<Rightarrow> (Inr (res, columns), w')))"

section \<open>The vault contracts\<close>

text \<open>
  The singleton holds the contract that the first dial was given. \<open>dialClient\<close> and \<open>newVault\<close> are
  the drivers' calls; the sleeps between the attempts are the last result, in seconds.
\<close>

record ('w, 'a) vault_lib =
  vl_DialClient :: "string \<Rightarrow> 'w \<Rightarrow> (string + nat) \<times> 'w"
  vl_NewVault :: "'a \<Rightarrow> nat \<Rightarrow> 'w \<Rightarrow> string option \<times> 'w"
  vl_IsValidSigner :: "'a \<Rightarrow> 'a \<Rightarrow> nat \<Rightarrow> 'w \<Rightarrow> (string + bool) \<times> 'w"

text \<open>The attempts left and the sleep after the next failure\<close>

fun dial_attempts ::
    "('w, 'a) vault_lib \<Rightarrow> string \<Rightarrow> 'a \<Rightarrow> nat \<Rightarrow> int \<Rightarrow> string \<Rightarrow> 'w
     \<Rightarrow> (string + unit) \<times> 'w \<times> int list" where
  "dial_attempts V url addr 0 sleepFor err w = (Inl (''error dialing eth client: '' @ err), w, [])"
| "dial_attempts V url addr (Suc n) sleepFor err w =
     (case vl_DialClient V url w of
        (Inl e, w1) \<Rightarrow> (Inl e, w1, [])
      | (Inr client, w1) \<Rightarrow>
          (case vl_NewVault V addr client w1 of
             (None, w2) \<Rightarrow> (Inr (), w2, [])
           | (Some e, w2) \<Rightarrow>
               (case dial_attempts V url addr n (sleepFor * 2) e w2 of
                  (r, w3, ds) \<Rightarrow> (r, w3, sleepFor # ds))))"

definition dial_vault ::
    "('w, 'a) vault_lib \<Rightarrow> (string \<Rightarrow> string) \<Rightarrow> 'a \<Rightarrow> 'a option \<Rightarrow> 'w \<Rightarrow> (string + 'a) \<times> 'a option \<times> 'w" where
  "dial_vault V getenv vault_l1_address vault_instance w =
     (case vault_instance of
        Some v \<Rightarrow> (Inr v, vault_instance, w)
      | None \<Rightarrow>
          let providerUrl = getenv ''ALCHEMY_URL''
          in if providerUrl = '''' then (Inl ''no env ALCHEMY_URL = '', None, w)
             else case dial_attempts V providerUrl vault_l1_address 5 4 '''' w of
                    (Inl e, w', _) \<Rightarrow> (Inl e, None, w')
                  | (Inr _, w', _) \<Rightarrow> (Inr vault_l1_address, Some vault_l1_address, w'))"

definition MockedIsValidSigner :: "(string \<Rightarrow> string) \<Rightarrow> string + unit" where
  "MockedIsValidSigner getenv =
     (if getenv ''MOCK'' \<noteq> ''mocked'' then Inl ''WRONG_ENV_CALL''
      else if getenv ''WRONG_SIGNER'' \<noteq> '''' then Inl ''MOCKED_WRONG_SIGNER''
      else Inr ())"

definition vault_IsValidSigner ::
    "('w, 'a) vault_lib \<Rightarrow> (string \<Rightarrow> string) \<Rightarrow> ('a \<Rightarrow> string) \<Rightarrow> 'a \<Rightarrow> 'a \<Rightarrow> nat \<Rightarrow> 'a option \<Rightarrow> 'w
     \<Rightarrow> (string + unit) \<times> 'a option \<times> 'w" where
  "vault_IsValidSigner V getenv show_addr vaultContract traderWallet requireRole vault_instance w =
     (if getenv ''MOCK'' = ''mocked'' then (MockedIsValidSigner getenv, vault_instance, w)
      else case dial_vault V getenv vaultContract vault_instance w of
             (Inl e, vi, w') \<Rightarrow> (Inl e, vi, w')
           | (Inr contract, vi, w') \<Rightarrow>
               (case vl_IsValidSigner V contract traderWallet requireRole w' of
                  (Inl e, w'') \<Rightarrow> (Inl e, vi, w'')
                | (Inr isValid, w'') \<Rightarrow>
                    (if isValid then Inr ()
                     else Inl (''requiredRole='' @ show_nat requireRole @ '' not allowed for trader='' @ show_addr traderWallet),
                     vi, w'')))"

section \<open>Facts on the pool\<close>

text \<open>
  A failed first use leaves a broker without configuration behind, and the next use returns it as
  if it were complete.
\<close>

lemma broker_half_built_after_error:
  assumes "GetBroker cfg connect None w = (Inl e, s, w')"
  shows "\<exists>b. GetBroker cfg2 connect2 s w2 = (Inr b, s, w2) \<and> br_cfg b = None"
  using assms by (auto simp: GetBroker_def Let_def split: sum.splits prod.splits)

lemma reconnect_until_mono:
  "reconnect_until fuel connect inst w = Some x \<Longrightarrow> fuel \<le> fuel' \<Longrightarrow> reconnect_until fuel' connect inst w = Some x"
proof (induction fuel arbitrary: fuel' w)
  case (Suc fuel)
  obtain n where n: "fuel' = Suc n" "fuel \<le> n"
    using Suc.prems(2) by (cases fuel') auto
  obtain r v where r: "connect inst w = (r, v)"
    by (cases "connect inst w")
  show ?case
    using Suc.prems(1) Suc.IH [OF _ n(2)] by (cases r) (simp_all add: n(1) r)
qed simp

lemma retry_with_mono:
  assumes "retry_with fuel cfg connect inst pool k w = Some x" "fuel \<le> fuel'"
    and "\<And>pool w. k pool w = Some x \<Longrightarrow> k' pool w = Some x"
  shows "retry_with fuel' cfg connect inst pool k' w = Some x"
proof (cases cfg)
  case (Inl e)
  then show ?thesis
    using assms(1) by (simp add: retry_with_def)
next
  case cfg: (Inr instances)
  show ?thesis
  proof (cases "ByTitle instances inst")
    case (Inl e)
    then show ?thesis
      using assms(1) cfg by (simp add: retry_with_def)
  next
    case (Inr i)
    then obtain conn v where c: "reconnect_until fuel connect i w = Some (conn, v)"
        "k (pool(inst \<mapsto> Some conn)) v = Some x"
      using assms(1) cfg by (auto simp: retry_with_def split: option.splits)
    then show ?thesis
      using assms(3) [OF c(2)] reconnect_until_mono [OF c(1) assms(2)] cfg Inr by (simp add: retry_with_def)
  qed
qed

text \<open>More rounds do not change an execution that has ended.\<close>

lemma exec_mono:
  "exec fuel cfg connect call inst pool w = Some x \<Longrightarrow> fuel \<le> fuel' \<Longrightarrow>
     exec fuel' cfg connect call inst pool w = Some x"
proof (induction fuel arbitrary: fuel' pool w)
  case (Suc fuel)
  obtain n where n: "fuel' = Suc n" "fuel \<le> n"
    using Suc.prems(2) by (cases fuel') auto
  have retry: "retry_with n cfg connect inst pool (exec n cfg connect call inst) w = Some x"
    if "retry_with fuel cfg connect inst pool (exec fuel cfg connect call inst) w = Some x" for w
    using retry_with_mono [OF that n(2)] Suc.IH n(2) by blast
  show ?case
    using Suc.prems(1) retry by (auto simp: n(1) Let_def split: option.splits prod.splits if_splits)
qed simp

section \<open>Retries\<close>

text \<open>A call that also logs its executions, with the connection and the error of each.\<close>

definition logging :: "(nat \<Rightarrow> 'v \<Rightarrow> string option \<times> 'v) \<Rightarrow> nat \<Rightarrow> 'v \<times> (nat \<times> string option) list
    \<Rightarrow> string option \<times> 'v \<times> (nat \<times> string option) list" where
  "logging call c w = (case call c (fst w) of (e, v) \<Rightarrow> (e, v, snd w @ [(c, e)]))"

definition unlogged :: "'v connect \<Rightarrow> ('v \<times> (nat \<times> string option) list) connect" where
  "unlogged connect i w = (case connect i (fst w) of (r, v) \<Rightarrow> (r, v, snd w))"

lemma reconnect_until_log:
  "reconnect_until fuel (unlogged connect) i w = Some (c, w') \<Longrightarrow> snd w' = snd w"
  by (induction fuel "unlogged connect" i w rule: reconnect_until.induct)
    (auto simp: unlogged_def split: prod.splits sum.splits)

lemma retry_with_cases:
  assumes "retry_with fuel cfg (unlogged connect) inst pool k w = Some (r, pool', w')"
  obtains e where "r = Inl e" "w' = w"
  | conn v where "k (pool(inst \<mapsto> Some conn)) (v, snd w) = Some (r, pool', w')"
proof -
  have "(\<exists>e. r = Inl e \<and> w' = w)
      \<or> (\<exists>conn v. k (pool(inst \<mapsto> Some conn)) (v, snd w) = Some (r, pool', w'))"
    using assms reconnect_until_log [of fuel connect _ w]
    by (fastforce simp: retry_with_def split: sum.splits option.splits)
  then show ?thesis
    using that by blast
qed

definition retried_ok :: "(string, unit) go \<Rightarrow> (nat \<times> string option) list \<Rightarrow> bool" where
  "retried_ok r trail \<longleftrightarrow>
     (\<exists>before c e. trail = before @ [(c, e)] \<and> (\<forall>x \<in> set before. should_reconnect (snd x))
        \<and> \<not> should_reconnect e \<and> r = (case e of None \<Rightarrow> Inr () | Some m \<Rightarrow> Inl (Err m)))
     \<or> (r \<noteq> Inr () \<and> (\<forall>x \<in> set trail. should_reconnect (snd x)))"

lemma exec_log:
  "exec fuel cfg (unlogged connect) (logging call) inst pool w = Some (r, pool', w') \<Longrightarrow>
     \<forall>x \<in> set (snd w). should_reconnect (snd x) \<Longrightarrow> retried_ok r (snd w')"
proof (induction fuel arbitrary: pool w)
  case (Suc fuel)
  have retry: "retried_ok r (snd w')"
    if "retry_with fuel cfg (unlogged connect) inst pool
          (exec fuel cfg (unlogged connect) (logging call) inst) w1 = Some (r, pool', w')"
      and "\<forall>x \<in> set (snd w1). should_reconnect (snd x)" for w1
    using that(1)
  proof (cases rule: retry_with_cases)
    case (1 e)
    then show ?thesis
      using that(2) by (simp add: retried_ok_def)
  next
    case (2 conn v)
    then show ?thesis
      using Suc.IH that(2) by fastforce
  qed
  show ?case
  proof (cases "pool inst")
    case None
    then show ?thesis
      using Suc.prems by (auto simp: retried_ok_def)
  next
    case (Some conn)
    show ?thesis
    proof (cases conn)
      case None
      then show ?thesis
        using Suc.prems retry Some by simp
    next
      case (Some c)
      obtain err v where c: "call c (fst w) = (err, v)"
        by (cases "call c (fst w)")
      have l: "logging call c w = (err, v, snd w @ [(c, err)])"
        by (simp add: logging_def c)
      show ?thesis
      proof (cases "should_reconnect err")
        case True
        then show ?thesis
          using Suc.prems \<open>pool inst = Some conn\<close> Some
            retry [of "(v, snd w @ [(c, err)])"] by (simp add: l)
      next
        case False
        then have "r = (case err of None \<Rightarrow> Inr () | Some m \<Rightarrow> Inl (Err m))" "snd w' = snd w @ [(c, err)]"
          using Suc.prems \<open>pool inst = Some conn\<close> Some by (auto simp: l)
        then show ?thesis
          using False Suc.prems(2) by (auto simp: retried_ok_def)
      qed
    qed
  qed
qed simp

text \<open>
  A stored procedure is executed again only after its execution ended with a
  connection error, and the result the caller gets is that of the last execution: every execution
  before the last failed with an error of the three kinds that reconnect, the last did not, or the
  call was given up with an error because the instance cannot be looked up.
\<close>

theorem retries_only_after_connection_errors:
  assumes "exec fuel cfg (unlogged connect) (logging call) inst pool (v, []) = Some (r, pool', v', trail)"
  shows "(\<exists>before c e. trail = before @ [(c, e)] \<and> (\<forall>x \<in> set before. should_reconnect (snd x))
        \<and> \<not> should_reconnect e \<and> r = (case e of None \<Rightarrow> Inr () | Some m \<Rightarrow> Inl (Err m)))
     \<or> (r \<noteq> Inr () \<and> (\<forall>x \<in> set trail. should_reconnect (snd x)))"
  using exec_log [OF assms] by (simp add: retried_ok_def)

text \<open>
  A procedure whose reply is lost has taken effect, and takes effect again: here the world counts
  the executions, the first of which ends in a read error.
\<close>

definition lossy_call :: "nat \<Rightarrow> nat \<Rightarrow> string option \<times> nat" where
  "lossy_call conn n = (if n = 0 then Some ''read tcp: timeout'' else None, n + 1)"

definition demo_cluster :: cluster where
  "demo_cluster = Inr [\<lparr> ic_Title = ''BTC'', ic_Host = '''', ic_Port = 0, ic_User = '''', ic_Password = '''',
     ic_Tags = [] \<rparr>]"

lemma lost_reply_repeats_the_call:
  "exec 2 demo_cluster (\<lambda>i n. (Inr 9, n)) lossy_call ''BTC'' [''BTC'' \<mapsto> Some 1] 0
     = Some (Inr (), [''BTC'' \<mapsto> Some 9], 2)"
  by (simp add: numeral_2_eq_2 lossy_call_def should_reconnect_def has_prefix_def retry_with_def
      demo_cluster_def ByTitle_def Let_def)

lemma retries_only_after_connection_errors_witness:
  "\<exists>before c e. [(1 :: nat, Some ''read tcp: timeout''), (9, None)] = before @ [(c, e)]
     \<and> (\<forall>x \<in> set before. should_reconnect (snd x)) \<and> \<not> should_reconnect e"
proof -
  have "exec 2 demo_cluster (unlogged (\<lambda>i n. (Inr 9, n))) (logging lossy_call) ''BTC'' [''BTC'' \<mapsto> Some 1] (0, [])
     = Some (Inr (), [''BTC'' \<mapsto> Some 9], 2, [(1, Some ''read tcp: timeout''), (9, None)])"
    by (simp add: numeral_2_eq_2 lossy_call_def should_reconnect_def has_prefix_def retry_with_def
        demo_cluster_def ByTitle_def logging_def unlogged_def Let_def)
  from retries_only_after_connection_errors [OF this] show ?thesis
    by blast
qed

section \<open>One contract for all vaults\<close>

text \<open>Once a vault has been dialled, the question for any other vault goes to the first one.\<close>

lemma second_vault_asks_first_contract:
  assumes "getenv ''MOCK'' \<noteq> ''mocked''" "dial_vault V getenv firstVault None w = (Inr contract, vi, w1)"
    and "vl_IsValidSigner V firstVault trader role w2 = (Inr True, w3)"
  shows "vault_IsValidSigner V getenv show_addr otherVault trader role vi w2 = (Inr (), vi, w3)"
  using assms by (auto simp: dial_vault_def vault_IsValidSigner_def Let_def split: if_splits sum.splits prod.splits)

end
