(* ===== verification/Sql.thy ===== *)
theory Sql
  imports Model_Request
begin

text \<open>
  Statements on TimescaleDB. The services build their statements with a query builder or as text
  and run them on the connection pool or in a transaction; a statement is a call whose name says
  how it runs (\<^verbatim>\<open>db.Exec\<close>, \<^verbatim>\<open>tx.Query\<close>) and whose arguments are the parts given to the builder or
  the text with its arguments. The answer to an execution is an error or none; the answer to a
  query is an error or the rows, with the error \<^verbatim>\<open>rows.Err()\<close> reports after the last one. Turning a
  builder into text (\<^verbatim>\<open>ToSql\<close>) and running it are one call: their errors are returned the same way.
\<close>

section \<open>Reading columns\<close>

text \<open>
  The driver's conversions of a column to a variable of a Go type, the error being its text. A
  variable that is a pointer becomes nil for a null.
\<close>

record 'd pgx_lib =
  px_uint    :: "'d gval \<Rightarrow> string + nat"
  px_int     :: "'d gval \<Rightarrow> string + int"
  px_string  :: "'d gval \<Rightarrow> string + string"
  px_bool    :: "'d gval \<Rightarrow> string + bool"
  px_decimal :: "'d gval \<Rightarrow> string + 'd"
  px_float   :: "'d gval \<Rightarrow> string + f64"
  px_time    :: "'d gval \<Rightarrow> string + int"       \<comment> \<open>nanoseconds since 1970\<close>
  px_json    :: "'d gval \<Rightarrow> string + 'd gval"
  px_error   :: string                     \<comment> \<open>the number of columns differs from the variables\<close>

definition px_ptr :: "('d gval \<Rightarrow> string + 'a) \<Rightarrow> 'd gval \<Rightarrow> string + 'a option" where
  "px_ptr f v = (case v of VNil \<Rightarrow> Inr None | _ \<Rightarrow> (case f v of Inl e \<Rightarrow> Inl e | Inr x \<Rightarrow> Inr (Some x)))"

text \<open>
  A scanner reads the next columns of a row; \<^verbatim>\<open>Scan\<close> reads them from left to right and must read
  them all.
\<close>

type_synonym ('d, 'a) scanner = "'d gval list \<Rightarrow> string + 'a \<times> 'd gval list"

definition col :: "'d pgx_lib \<Rightarrow> ('d gval \<Rightarrow> string + 'a) \<Rightarrow> ('a \<Rightarrow> ('d, 'b) scanner) \<Rightarrow> ('d, 'b) scanner" where
  "col S f k row =
     (case row of [] \<Rightarrow> Inl (px_error S) | v # vs \<Rightarrow> (case f v of Inl e \<Rightarrow> Inl e | Inr x \<Rightarrow> k x vs))"

definition scanned :: "'a \<Rightarrow> ('d, 'a) scanner" where
  "scanned x row = Inr (x, row)"

fun scan_row :: "'d pgx_lib \<Rightarrow> ('d, 'a) scanner \<Rightarrow> 'd gval \<Rightarrow> string + 'a" where
  "scan_row S sc (VList row) =
     (case sc row of
        Inl e \<Rightarrow> Inl e
      | Inr (x, rest) \<Rightarrow> if rest = [] then Inr x else Inl (px_error S))"
| "scan_row S sc _ = Inl (px_error S)"

text \<open>The loop \<^verbatim>\<open>for rows.Next()\<close> that scans every row, up to the first that cannot be scanned\<close>

fun scan_rows :: "('d gval \<Rightarrow> string + 'a) \<Rightarrow> 'd gval list \<Rightarrow> string + 'a list" where
  "scan_rows f [] = Inr []"
| "scan_rows f (r # rs) =
     (case f r of
        Inl e \<Rightarrow> Inl e
      | Inr x \<Rightarrow> (case scan_rows f rs of Inl e \<Rightarrow> Inl e | Inr xs \<Rightarrow> Inr (x # xs)))"

lemma scan_rows_Inr:
  "scan_rows f rs = Inr xs \<longleftrightarrow> list_all2 (\<lambda>r x. f r = Inr x) rs xs"
proof (induction rs arbitrary: xs)
  case (Cons r rs)
  then show ?case
    by (auto simp: list_all2_Cons1 simp flip: Cons.IH split: sum.split)
qed auto

lemma scan_rows_Inl: "(\<exists>e. scan_rows f rs = Inl e) \<longleftrightarrow> (\<exists>r \<in> set rs. \<exists>e. f r = Inl e)"
  by (induction rs) (auto split: sum.splits)

section \<open>Running statements\<close>

definition ErrNoRows :: string where
  "ErrNoRows = ''no rows in result set''"

text \<open>The rows of a query's answer with the error after the last one, empty when there is none\<close>

definition result_set :: "'d reply \<Rightarrow> string + 'd gval list \<times> string" where
  "result_set r =
     (case r of
        BErr e \<Rightarrow> Inl e
      | BRows ((VList rows, e) # _) \<Rightarrow> Inr (rows, e)
      | BRows _ \<Rightarrow> Inr ([], ''''))"

definition read_rows :: "('d gval \<Rightarrow> string + 'a) \<Rightarrow> 'd reply \<Rightarrow> string + 'a list" where
  "read_rows f r =
     (case result_set r of
        Inl e \<Rightarrow> Inl e
      | Inr (rows, e) \<Rightarrow>
          (case scan_rows f rows of
             Inl e' \<Rightarrow> Inl e'
           | Inr xs \<Rightarrow> if e = '''' then Inr xs else Inl e))"

definition read_row :: "('d gval \<Rightarrow> string + 'a) \<Rightarrow> 'd reply \<Rightarrow> string + 'a" where
  "read_row f r =
     (case result_set r of
        Inl e \<Rightarrow> Inl e
      | Inr (rows, e) \<Rightarrow>
          (case rows of
             [] \<Rightarrow> Inl (if e = '''' then ErrNoRows else e)
           | row # _ \<Rightarrow> (case f row of Inl e' \<Rightarrow> Inl e' | Inr x \<Rightarrow> if e = '''' then Inr x else Inl e)))"

definition sql_exec :: "string \<Rightarrow> 'd gval list \<Rightarrow> ('d, string + unit) prog" where
  "sql_exec how stmt =
     Call (External how stmt) (\<lambda>ans. Return (case a_error ans of None \<Rightarrow> Inr () | Some e \<Rightarrow> Inl e))"

definition sql_query :: "string \<Rightarrow> 'd gval list \<Rightarrow> ('d gval \<Rightarrow> string + 'a) \<Rightarrow> ('d, string + 'a list) prog" where
  "sql_query how stmt f = Call (External how stmt) (\<lambda>ans. Return (read_rows f (a_reply ans)))"

text \<open>The same, with the three errors wrapped by texts of their own\<close>

definition sql_query_wrapped ::
  "string \<Rightarrow> 'd gval list \<Rightarrow> string \<Rightarrow> string \<Rightarrow> string \<Rightarrow> ('d gval \<Rightarrow> string + 'a) \<Rightarrow> ('d, string + 'a list) prog" where
  "sql_query_wrapped how stmt onQuery onScan onRows f =
     Call (External how stmt) (\<lambda>ans. Return (
       case result_set (a_reply ans) of
         Inl e \<Rightarrow> Inl (onQuery @ '': '' @ e)
       | Inr (rows, e) \<Rightarrow>
           (case scan_rows f rows of
              Inl e' \<Rightarrow> Inl (onScan @ '': '' @ e')
            | Inr xs \<Rightarrow> if e = '''' then Inr xs else Inl (onRows @ '': '' @ e))))"

definition sql_query_row :: "string \<Rightarrow> 'd gval list \<Rightarrow> ('d gval \<Rightarrow> string + 'a) \<Rightarrow> ('d, string + 'a) prog" where
  "sql_query_row how stmt f = Call (External how stmt) (\<lambda>ans. Return (read_row f (a_reply ans)))"

text \<open>The parts given to the builders\<close>

definition insert_into :: "string \<Rightarrow> string list \<Rightarrow> 'd gval list list \<Rightarrow> string \<Rightarrow> 'd gval list" where
  "insert_into table columns values suffix =
     [VString ''INSERT'', VString table, VList (map VString columns), VList (map VList values), VString suffix]"

text \<open>Columns, table, left joins, conditions with their arguments, order\<close>

definition select_from ::
  "string list \<Rightarrow> string \<Rightarrow> string list \<Rightarrow> (string \<times> 'd gval) list \<Rightarrow> string \<Rightarrow> 'd gval list" where
  "select_from columns table joins conds order =
     [VString ''SELECT'', VList (map VString columns), VString table, VList (map VString joins),
      VList (map (\<lambda>(c, v). VList [VString c, v]) conds), VString order]"

definition update_set :: "string \<Rightarrow> (string \<times> 'd gval) list \<Rightarrow> (string \<times> 'd gval) list \<Rightarrow> 'd gval list" where
  "update_set table sets conds =
     [VString ''UPDATE'', VString table, VList (map (\<lambda>(c, v). VList [VString c, v]) sets),
      VList (map (\<lambda>(c, v). VList [VString c, v]) conds)]"

text \<open>A statement given as text, with \<^verbatim>\<open>pgx.NamedArgs\<close>\<close>

definition sql_text :: "string \<Rightarrow> (string \<times> 'd gval) list \<Rightarrow> 'd gval list" where
  "sql_text q args = [VString q, VList (map (\<lambda>(k, v). VList [VString k, v]) args)]"

section \<open>Transactions\<close>

text \<open>
  \<^verbatim>\<open>tx, err := db.Begin(ctx)\<close> with \<^verbatim>\<open>defer tx.Rollback(ctx)\<close>, whose error is dropped, then the body and
  \<^verbatim>\<open>tx.Commit(ctx)\<close>; the errors of the two are wrapped.
\<close>

definition wrapped :: "string \<Rightarrow> string \<Rightarrow> string" where
  "wrapped msg e = msg @ '': '' @ e"

definition sql_begin :: "('d, string + unit) prog" where
  "sql_begin = sql_exec ''db.Begin'' []"

definition sql_commit :: "('d, string + unit) prog" where
  "sql_commit = sql_exec ''tx.Commit'' []"

definition sql_rollback :: "('d, unit) prog" where
  "sql_rollback = ignoring (sql_exec ''tx.Rollback'' [])"

definition transaction :: "('d, string + unit) prog \<Rightarrow> ('d, string + unit) prog" where
  "transaction body =
     onErr sql_begin (\<lambda>e. Return (Inl (wrapped ''db begin() failed'' e))) (\<lambda>_.
       deferring sql_rollback
         (onErr body (\<lambda>e. Return (Inl e)) (\<lambda>_.
          onErr sql_commit (\<lambda>e. Return (Inl (wrapped ''tx.Commit() failed'' e))) (\<lambda>_. Return (Inr ())))))"

text \<open>A loop that returns the first error\<close>

primrec try_each :: "'a list \<Rightarrow> ('a \<Rightarrow> ('d, string + unit) prog) \<Rightarrow> ('d, string + unit) prog" where
  "try_each [] body = Return (Inr ())"
| "try_each (x # xs) body = onErr (body x) (\<lambda>e. Return (Inl e)) (\<lambda>_. try_each xs body)"

text \<open>\<^verbatim>\<open>if err != nil { return fmt.Errorf("msg: %w", err) }\<close>\<close>

definition tried :: "string \<Rightarrow> ('d, string + 'a) prog \<Rightarrow> ('a \<Rightarrow> ('d, string + 'b) prog) \<Rightarrow> ('d, string + 'b) prog" where
  "tried msg p k = onErr p (\<lambda>e. Return (Inl (wrapped msg e))) k"

section \<open>Rules\<close>

lemma wp_sql_exec [simp]:
  "wp P Q (sql_exec how stmt) h \<longleftrightarrow>
     P h (External how stmt) \<and>
     (\<forall>ans. Q ((External how stmt, ans) # h) (Done (case a_error ans of None \<Rightarrow> Inr () | Some e \<Rightarrow> Inl e)))"
  by (simp add: sql_exec_def)

lemma wp_sql_query [simp]:
  "wp P Q (sql_query how stmt f) h \<longleftrightarrow>
     P h (External how stmt) \<and> (\<forall>ans. Q ((External how stmt, ans) # h) (Done (read_rows f (a_reply ans))))"
  by (simp add: sql_query_def)

lemma wp_sql_query_wrapped [simp]:
  "wp P Q (sql_query_wrapped how stmt m1 m2 m3 f) h \<longleftrightarrow>
     P h (External how stmt) \<and>
     (\<forall>ans. Q ((External how stmt, ans) # h) (Done (
       case result_set (a_reply ans) of
         Inl e \<Rightarrow> Inl (m1 @ '': '' @ e)
       | Inr (rows, e) \<Rightarrow>
           (case scan_rows f rows of
              Inl e' \<Rightarrow> Inl (m2 @ '': '' @ e')
            | Inr xs \<Rightarrow> if e = '''' then Inr xs else Inl (m3 @ '': '' @ e)))))"
  by (simp add: sql_query_wrapped_def)

lemma wp_sql_query_row [simp]:
  "wp P Q (sql_query_row how stmt f) h \<longleftrightarrow>
     P h (External how stmt) \<and> (\<forall>ans. Q ((External how stmt, ans) # h) (Done (read_row f (a_reply ans))))"
  by (simp add: sql_query_row_def)

lemma wp_sql_rollback [simp]:
  "wp P Q sql_rollback h \<longleftrightarrow>
     P h (External ''tx.Rollback'' []) \<and> (\<forall>ans. Q ((External ''tx.Rollback'' [], ans) # h) (Done ()))"
  by (simp add: sql_rollback_def ignoring_def wp_andThen)

text \<open>A loop that stops at the first error keeps an invariant that every iteration keeps.\<close>

lemma wp_try_each:
  assumes "I h"
    and "\<And>x h. x \<in> set xs \<Longrightarrow> I h \<Longrightarrow>
           wp P (\<lambda>h' r. case r of Done (Inl e) \<Rightarrow> Q h' (Done (Inl e)) | Done (Inr _) \<Rightarrow> I h' | Panicked m \<Rightarrow> Q h' (Panicked m))
             (body x) h"
    and "\<And>h. I h \<Longrightarrow> Q h (Done (Inr ()))"
  shows "wp P Q (try_each xs body) h"
  using assms
proof (induction xs arbitrary: h)
  case (Cons x xs)
  have "wp P (\<lambda>h' r. case r of Done (Inl e) \<Rightarrow> wp P Q (Return (Inl e)) h' | Done (Inr u) \<Rightarrow> wp P Q (try_each xs body) h'
            | Panicked m \<Rightarrow> Q h' (Panicked m)) (body x) h"
  proof (rule wp_mono)
    show "wp P (\<lambda>h' r. case r of Done (Inl e) \<Rightarrow> Q h' (Done (Inl e)) | Done (Inr _) \<Rightarrow> I h' | Panicked m \<Rightarrow> Q h' (Panicked m))
        (body x) h"
      using Cons.prems by simp
  qed (use Cons in \<open>auto split: outcome.splits sum.splits\<close>)
  then show ?case
    unfolding try_each.simps wp_onErr .
qed auto

text \<open>
  A transaction begins, runs its body, commits when the body succeeded and always rolls back at the
  end: it keeps a discipline that its body keeps and that allows these three calls.
\<close>

lemma wp_transaction:
  assumes "\<And>h. P h (External ''db.Begin'' []) \<and> P h (External ''tx.Rollback'' [])"
    and "\<And>h. wp P (\<lambda>h' r. \<forall>u. r = Done (Inr u) \<longrightarrow> B h') body h"
    and "\<And>h. B h \<Longrightarrow> P h (External ''tx.Commit'' [])"
  shows "wp P (\<lambda>_ _. True) (transaction body) h"
proof -
  have body: "wp P (\<lambda>h' r. wp P (\<lambda>h'' r'. True) sql_rollback h')
      (onErr body (\<lambda>e. Return (Inl e)) (\<lambda>_.
       onErr sql_commit (\<lambda>e. Return (Inl (wrapped ''tx.Commit() failed'' e))) (\<lambda>_. Return (Inr ())))) h'" for h'
    unfolding wp_onErr [of _ _ body]
  proof (rule wp_mono [OF assms(2)])
    fix h'' :: "'a history" and r :: "(string + unit) outcome"
    assume "\<forall>u. r = Done (Inr u) \<longrightarrow> B h''"
    then show "case r of Done (Inl e) \<Rightarrow> wp P (\<lambda>h' r. wp P (\<lambda>h'' r'. True) sql_rollback h') (Return (Inl e)) h''
      | Done (Inr u) \<Rightarrow> wp P (\<lambda>h' r. wp P (\<lambda>h'' r'. True) sql_rollback h')
          (onErr sql_commit (\<lambda>e. Return (Inl (wrapped ''tx.Commit() failed'' e))) (\<lambda>_. Return (Inr ()))) h''
      | Panicked m \<Rightarrow> wp P (\<lambda>h'' r'. True) sql_rollback h''"
      using assms(1,3) by (auto simp: wp_onErr sql_commit_def split: outcome.split sum.split option.split)
  qed
  show ?thesis
    using assms(1) body
    by (auto simp: transaction_def wp_onErr sql_begin_def wp_deferring split: option.split outcome.split)
qed

section \<open>Rows as structs\<close>

text \<open>The types of the fields a row is scanned into, in order; a pointer takes a null.\<close>

datatype column_kind = CUint | CInt | CString | CBool | CDecimal | CFloat | CTime | CNull column_kind

definition tagged :: "('a \<Rightarrow> 'b) \<Rightarrow> string + 'a \<Rightarrow> string + 'b" where
  "tagged f r = (case r of Inl e \<Rightarrow> Inl e | Inr x \<Rightarrow> Inr (f x))"

fun read_column :: "'d pgx_lib \<Rightarrow> column_kind \<Rightarrow> 'd gval \<Rightarrow> string + 'd gval" where
  "read_column S CUint v = tagged VUint (px_uint S v)"
| "read_column S CInt v = tagged VInt (px_int S v)"
| "read_column S CString v = tagged VString (px_string S v)"
| "read_column S CBool v = tagged VBool (px_bool S v)"
| "read_column S CDecimal v = tagged VDecimal (px_decimal S v)"
| "read_column S CFloat v = tagged VFloat (px_float S v)"
| "read_column S CTime v = tagged VInt (px_time S v)"
| "read_column S (CNull k) v = (if v = VNil then Inr VNil else read_column S k v)"

fun read_columns :: "'d pgx_lib \<Rightarrow> column_kind list \<Rightarrow> ('d, 'd gval list) scanner" where
  "read_columns S [] = scanned []"
| "read_columns S (k # ks) = col S (read_column S k) (\<lambda>v row.
     case read_columns S ks row of Inl e \<Rightarrow> Inl e | Inr (vs, rest) \<Rightarrow> Inr (v # vs, rest))"

text \<open>A row scanned into the fields of a struct\<close>

definition scan_struct :: "'d pgx_lib \<Rightarrow> string \<Rightarrow> column_kind list \<Rightarrow> 'd gval \<Rightarrow> string + 'd gval" where
  "scan_struct S name kinds v = tagged (VStruct name) (scan_row S (read_columns S kinds) v)"

definition column_of :: "'d pgx_lib \<Rightarrow> ('d gval \<Rightarrow> string + 'a) \<Rightarrow> 'd gval \<Rightarrow> string + 'a" where
  "column_of S f = scan_row S (col S f scanned)"

section \<open>Structs of an answer\<close>

text \<open>Reading the fields of a struct in order\<close>

definition fld :: "('d, 'a) decoder \<Rightarrow> ('a \<Rightarrow> 'd gval list \<Rightarrow> 'b option) \<Rightarrow> 'd gval list \<Rightarrow> 'b option" where
  "fld f k vs = (case vs of [] \<Rightarrow> None | v # vs \<Rightarrow> (case f v of None \<Rightarrow> None | Some x \<Rightarrow> k x vs))"

definition fld_end :: "'b \<Rightarrow> 'd gval list \<Rightarrow> 'b option" where
  "fld_end x vs = (if vs = [] then Some x else None)"

definition as_fields :: "string \<Rightarrow> ('d gval list \<Rightarrow> 'b option) \<Rightarrow> ('d, 'b) decoder" where
  "as_fields n k v = (case as_struct n v of None \<Rightarrow> None | Some fs \<Rightarrow> k fs)"

lemma fld_simps [simp]:
  "fld f k [] = None" "fld f k (v # vs) = (case f v of None \<Rightarrow> None | Some x \<Rightarrow> k x vs)"
  "fld_end x [] = Some x" "fld_end x (v # vs) = None"
  by (simp_all add: fld_def fld_end_def)

text \<open>Every call of a run satisfies what holds of every call of the program.\<close>

lemma every_call:
  assumes "wp P Q p []" "run E p [] = (post @ (c, ans) # pre, r)"
  shows "P pre c"
  using wp_run [OF assms] by (auto intro: extends_call)

end
