(* ===== verification/Tick.thy ===== *)
theory Tick
  imports Go_Prog
begin

text \<open>
  Rounding to the ticks of the exchange (\<^verbatim>\<open>tick/tick.go\<close>) and the conversions between token
  amounts and decimals (\<^verbatim>\<open>tdecimal/utils.go\<close>).
\<close>

section \<open>Ticks of floats\<close>

definition USDT_TICK :: f64 where
  "USDT_TICK = f64_lit (1 / 1000000)"

lemma USDT_TICK_value: "USDT_TICK = Finite False (4722366482869645 / 4722366482869645213696)"
  by (simp add: USDT_TICK_def f64_eval Let_def)

definition RoundDownToTick :: "f64 \<Rightarrow> f64 \<Rightarrow> f64" where
  "RoundDownToTick size0 tick =
     (if f64_le tick (Finite False 0) then size0
      else
        let milliTicks = int_of_f64 (f64_round (f64_div (f64_mul size0 (f64_of_int 1000)) tick));
            numTicks = f64_of_int (if 0 \<le> milliTicks then milliTicks div 1000
                                   else - (- milliTicks div 1000))
        in f64_mul numTicks tick)"

definition RoundDownToUsdtTick :: "f64 \<Rightarrow> f64" where
  "RoundDownToUsdtTick size0 = RoundDownToTick size0 USDT_TICK"

section \<open>Ticks of decimals\<close>

definition RoundDecimalDownToTick :: "'d dec_lib \<Rightarrow> 'd \<Rightarrow> 'd \<Rightarrow> 'd" where
  "RoundDecimalDownToTick D size0 tick =
     (if d_le D tick (d_zero D) then size0
      else d_mul D (d_floor D (d_div D size0 tick)) tick)"

text \<open>\<^verbatim>\<open>DECIMAL_USDT_TICK\<close> is \<open>NewFromFloat(0.000001)\<close>, computed when the package starts.\<close>

definition DECIMAL_USDT_TICK :: "'d dec_lib \<Rightarrow> 'd option" where
  "DECIMAL_USDT_TICK D = d_of_float D (f64_lit (1 / 1000000))"

definition RoundDecimalDownToUsdtTick :: "'d dec_lib \<Rightarrow> 'd \<Rightarrow> 'd option" where
  "RoundDecimalDownToUsdtTick D size0 =
     map_option (RoundDecimalDownToTick D size0) (DECIMAL_USDT_TICK D)"

section \<open>Token amounts\<close>

definition createMultiplier :: "'d dec_lib \<Rightarrow> int \<Rightarrow> 'd" where
  "createMultiplier D decimals = d_pow D (d_of_int D 10) (d_of_int D decimals)"

definition TokenDecimalsToTDecimal :: "'d dec_lib \<Rightarrow> int \<Rightarrow> int \<Rightarrow> 'd" where
  "TokenDecimalsToTDecimal D amount decimals = d_shift D amount (- decimals)"

text \<open>The cache of multipliers in the code holds the value \<open>createMultiplier\<close> computes.\<close>

definition TDecimalToTokenDecimals :: "'d dec_lib \<Rightarrow> 'd \<Rightarrow> int \<Rightarrow> int" where
  "TDecimalToTokenDecimals D amount decimals =
     d_big_int D (d_round D 0 (d_mul D amount (createMultiplier D decimals)))"

function intNumDigits :: "int \<Rightarrow> nat" where
  "intNumDigits val = (if val = 0 then 0 else 1 + intNumDigits (sgn val * (\<bar>val\<bar> div 10)))"
  by pat_completeness auto
termination
  by (relation "measure (\<lambda>n. nat \<bar>n\<bar>)") (auto simp: abs_mult)

declare intNumDigits.simps [simp del]

section \<open>Laws of the decimal library\<close>

text \<open>
  The documented behaviour of the exact operations, relative to the value of a decimal: \<^verbatim>\<open>Cmp\<close>
  compares the values, \<^verbatim>\<open>NewFromInt\<close>, \<^verbatim>\<open>NewFromBigInt\<close>, \<^verbatim>\<open>Add\<close>, \<^verbatim>\<open>Sub\<close>, \<^verbatim>\<open>Mul\<close> and an integer
  power are exact, \<^verbatim>\<open>Round(0)\<close> is the nearest integer, half away from zero, \<^verbatim>\<open>Floor\<close> the largest
  integer below, \<^verbatim>\<open>BigInt\<close> the integral part.
\<close>

definition round_half_away :: "rat \<Rightarrow> int" where
  "round_half_away x = (if x < 0 then - floor (1 / 2 - x) else floor (x + 1 / 2))"

definition truncated :: "rat \<Rightarrow> int" where
  "truncated x = (if x < 0 then - floor (- x) else floor x)"

definition dec_laws :: "'d dec_lib \<Rightarrow> ('d \<Rightarrow> rat) \<Rightarrow> bool" where
  "dec_laws D val \<longleftrightarrow>
     (\<forall>x y. sgn (d_cmp D x y) = (if val x < val y then -1 else if val x = val y then 0 else 1)) \<and>
     (\<forall>n. val (d_of_int D n) = of_int n) \<and>
     (\<forall>n e. val (d_shift D n e) = of_int n * (if 0 \<le> e then 10 ^ nat e else 1 / 10 ^ nat (- e))) \<and>
     (\<forall>x y. val (d_add D x y) = val x + val y) \<and>
     (\<forall>x y. val (d_sub D x y) = val x - val y) \<and>
     (\<forall>x y. val (d_mul D x y) = val x * val y) \<and>
     (\<forall>x y n. val y = of_nat n \<longrightarrow> val (d_pow D x y) = val x ^ n) \<and>
     (\<forall>x. val (d_round D 0 x) = of_int (round_half_away (val x))) \<and>
     (\<forall>x. val (d_floor D x) = of_int (floor (val x))) \<and>
     (\<forall>x. d_big_int D x = truncated (val x))"

text \<open>Rationals with the exact operations satisfy them.\<close>

definition rat_lib :: "rat dec_lib" where
  "rat_lib = \<lparr> d_of_int = of_int,
     d_shift = (\<lambda>n e. of_int n * (if 0 \<le> e then 10 ^ nat e else 1 / 10 ^ nat (- e))),
     d_of_float = (\<lambda>x. case x of Finite s m \<Rightarrow> Some (f64_val x) | _ \<Rightarrow> None),
     d_to_float = f64_lit,
     d_parse = (\<lambda>s. map_option of_int (parse_int s)),
     d_string = (\<lambda>x. show_int (floor x)),
     d_cmp = (\<lambda>x y. if x < y then -1 else if x = y then 0 else 1),
     d_add = (+), d_sub = (-), d_mul = (*), d_div = (/),
     d_floor = (\<lambda>x. of_int (floor x)),
     d_round = (\<lambda>p x. if p = 0 then of_int (round_half_away x) else x),
     d_pow = (\<lambda>x y. x ^ nat (floor y)),
     d_truncate = (\<lambda>p x. of_int (truncated (x * 10 ^ nat p)) / 10 ^ nat p),
     d_int_part = truncated,
     d_big_int = truncated \<rparr>"

lemma rat_lib_simps [simp]:
  "d_of_int rat_lib = of_int" "d_cmp rat_lib x y = (if x < y then -1 else if x = y then 0 else 1)"
  "d_add rat_lib = (+)" "d_sub rat_lib = (-)" "d_mul rat_lib = (*)" "d_div rat_lib = (/)"
  "d_floor rat_lib x = of_int (floor x)" "d_round rat_lib 0 x = of_int (round_half_away x)"
  "d_pow rat_lib x y = x ^ nat (floor y)" "d_big_int rat_lib = truncated" "d_to_float rat_lib = f64_lit"
  "d_shift rat_lib n e = of_int n * (if 0 \<le> e then 10 ^ nat e else 1 / 10 ^ nat (- e))"
  "d_of_float rat_lib (Finite s m) = Some (f64_val (Finite s m))"
  "d_of_float rat_lib NaN = None" "d_of_float rat_lib (Infinite s) = None"
  by (simp_all add: rat_lib_def)

lemma rat_lib_laws: "dec_laws rat_lib (\<lambda>x. x)"
  by (simp add: dec_laws_def)

lemma dec_laws_cmp:
  assumes "dec_laws D val"
  shows "d_cmp D x y < 0 \<longleftrightarrow> val x < val y" "d_cmp D x y \<le> 0 \<longleftrightarrow> val x \<le> val y"
    "d_cmp D x y = 0 \<longleftrightarrow> val x = val y" "0 < d_cmp D x y \<longleftrightarrow> val y < val x"
    "0 \<le> d_cmp D x y \<longleftrightarrow> val y \<le> val x"
proof -
  have "sgn (d_cmp D x y) = (if val x < val y then -1 else if val x = val y then 0 else 1)"
    using assms by (simp add: dec_laws_def)
  then show "d_cmp D x y < 0 \<longleftrightarrow> val x < val y" "d_cmp D x y \<le> 0 \<longleftrightarrow> val x \<le> val y"
    "d_cmp D x y = 0 \<longleftrightarrow> val x = val y" "0 < d_cmp D x y \<longleftrightarrow> val y < val x"
    "0 \<le> d_cmp D x y \<longleftrightarrow> val y \<le> val x"
    by (auto simp: sgn_if split: if_splits)
qed

lemma dec_laws_ops:
  assumes "dec_laws D val"
  shows "val (d_of_int D n) = of_int n" "val (d_zero D) = 0"
    "val (d_add D x y) = val x + val y" "val (d_sub D x y) = val x - val y"
    "val (d_mul D x y) = val x * val y" "val (d_round D 0 x) = of_int (round_half_away (val x))"
    "d_big_int D x = truncated (val x)"
  using assms by (simp_all add: dec_laws_def d_zero_def)

section \<open>Round trip of token amounts\<close>

lemma truncated_of_int [simp]: "truncated (of_int n) = n"
  by (simp add: truncated_def flip: of_int_minus)

lemma round_half_away_of_int [simp]: "round_half_away (of_int n) = n"
proof (cases "n < 0")
  case True
  have "floor (1 / 2 - of_int n :: rat) = - n"
    by (rule floor_unique) auto
  then show ?thesis using True by (simp add: round_half_away_def)
next
  case False
  have "floor (of_int n + 1 / 2 :: rat) = n"
    by (rule floor_unique) auto
  then show ?thesis using False by (simp add: round_half_away_def)
qed

lemma val_multiplier:
  "dec_laws D val \<Longrightarrow> val (createMultiplier D (int n)) = 10 ^ n"
  by (simp add: dec_laws_def createMultiplier_def)

lemma val_token:
  "dec_laws D val \<Longrightarrow> val (TokenDecimalsToTDecimal D a (int n)) = of_int a / 10 ^ n"
  by (simp add: dec_laws_def TokenDecimalsToTDecimal_def)

text \<open>An on-chain token amount converted to a decimal and back, with the same number
  of decimals, is the same amount, for every amount and every non-negative number of decimals.\<close>

theorem token_amount_round_trip:
  assumes "dec_laws D val"
  shows "TDecimalToTokenDecimals D (TokenDecimalsToTDecimal D amount (int n)) (int n) = amount"
  using assms
  by (simp add: TDecimalToTokenDecimals_def dec_laws_ops [OF assms] val_multiplier val_token)

lemma token_amount_round_trip_witness:
  "TDecimalToTokenDecimals rat_lib (TokenDecimalsToTDecimal rat_lib 1234567 (int 6)) (int 6) = 1234567
   \<and> TokenDecimalsToTDecimal rat_lib 1234567 (int 6) = 1234567 / 1000000"
  using token_amount_round_trip [OF rat_lib_laws, of 1234567 6]
  by (simp add: TokenDecimalsToTDecimal_def)

text \<open>Rounding a decimal down to a positive tick of an exact division gives the largest
  multiple of the tick that is not above the decimal.\<close>

theorem round_decimal_down_to_tick:
  assumes "dec_laws D val" and "0 < val tick" and "val (d_div D x tick) = val x / val tick"
  shows "val (RoundDecimalDownToTick D x tick) \<le> val x \<and>
     val x < val (RoundDecimalDownToTick D x tick) + val tick \<and>
     (\<exists>n. val (RoundDecimalDownToTick D x tick) = of_int n * val tick)"
proof (intro conjI)
  have eq: "val (RoundDecimalDownToTick D x tick) = of_int (floor (val x / val tick)) * val tick"
    using assms by (simp add: RoundDecimalDownToTick_def dec_laws_cmp dec_laws_ops) (simp add: dec_laws_def)
  have "of_int (floor (val x / val tick)) \<le> val x / val tick"
    by (rule of_int_floor_le)
  then show "val (RoundDecimalDownToTick D x tick) \<le> val x"
    using assms(2) unfolding eq by (simp only: pos_le_divide_eq)
  have "val x / val tick < of_int (floor (val x / val tick)) + 1"
    by linarith
  then show "val x < val (RoundDecimalDownToTick D x tick) + val tick"
    using assms(2) unfolding eq by (simp only: pos_divide_less_eq distrib_right mult_1)
  show "\<exists>n. val (RoundDecimalDownToTick D x tick) = of_int n * val tick"
    using eq by blast
qed

lemma round_decimal_down_to_tick_witness:
  "RoundDecimalDownToTick rat_lib (17 / 5) (1 / 2) \<le> 17 / 5 \<and>
   17 / 5 < RoundDecimalDownToTick rat_lib (17 / 5) (1 / 2) + 1 / 2"
  using round_decimal_down_to_tick [OF rat_lib_laws, of "1 / 2" "17 / 5"] by simp

end
