(* ===== verification/Model_Airdrop.thy ===== *)
theory Model_Airdrop
  imports Sql Tick
begin

text \<open>
  The operations on airdrops and their claims (\<^verbatim>\<open>model/api-airdrop.go\<close>).
\<close>

section \<open>Claims and the airdrops of a profile\<close>

record 'd claim_ops =
  co_Id           :: nat
  co_AirdropTitle :: string
  co_ProfileId    :: nat
  co_Status       :: string
  co_Amount       :: 'd
  co_Timestamp    :: int
  co_ShardId      :: string
  co_ArchiveId    :: int

record 'd profile_airdrop =
  pa_ProfileId               :: nat
  pa_AirdropTitle            :: string
  pa_Status                  :: string
  pa_TotalVolumeForAirdrop   :: 'd
  pa_TotalVolumeAfterAirdrop :: 'd
  pa_TotalRewards            :: 'd
  pa_Claimable               :: 'd
  pa_Claimed                 :: 'd
  pa_LastFillTimestamp       :: "'d gval"
  pa_InitialRewards          :: 'd
  pa_ShardId                 :: string
  pa_ArchiveId               :: int

definition claim_val :: "'d claim_ops \<Rightarrow> 'd gval" where
  "claim_val c = VStruct ''AirdropClaimOps''
     [VUint (co_Id c), VString (co_AirdropTitle c), VUint (co_ProfileId c), VString (co_Status c), VDecimal (co_Amount c),
      VInt (co_Timestamp c), VString (co_ShardId c), VInt (co_ArchiveId c)]"

definition airdrop_val :: "'d profile_airdrop \<Rightarrow> 'd gval" where
  "airdrop_val a = VStruct ''ProfileAirdrop''
     [VUint (pa_ProfileId a), VString (pa_AirdropTitle a), VString (pa_Status a), VDecimal (pa_TotalVolumeForAirdrop a),
      VDecimal (pa_TotalVolumeAfterAirdrop a), VDecimal (pa_TotalRewards a), VDecimal (pa_Claimable a),
      VDecimal (pa_Claimed a), pa_LastFillTimestamp a, VDecimal (pa_InitialRewards a), VString (pa_ShardId a),
      VInt (pa_ArchiveId a)]"

definition as_claim_ops :: "('d, 'd claim_ops) decoder" where
  "as_claim_ops = as_fields ''AirdropClaimOps''
     (fld as_uint (\<lambda>i. fld as_string (\<lambda>t. fld as_uint (\<lambda>p. fld as_string (\<lambda>s. fld as_decimal (\<lambda>a.
      fld as_int64 (\<lambda>ts. fld as_string (\<lambda>sh. fld as_int64 (\<lambda>ar.
        fld_end \<lparr> co_Id = i, co_AirdropTitle = t, co_ProfileId = p, co_Status = s, co_Amount = a, co_Timestamp = ts,
          co_ShardId = sh, co_ArchiveId = ar \<rparr>)))))))))"

definition as_profile_airdrop :: "('d, 'd profile_airdrop) decoder" where
  "as_profile_airdrop = as_fields ''ProfileAirdrop''
     (fld as_uint (\<lambda>p. fld as_string (\<lambda>t. fld as_string (\<lambda>s. fld as_decimal (\<lambda>vf. fld as_decimal (\<lambda>va.
      fld as_decimal (\<lambda>tr. fld as_decimal (\<lambda>cb. fld as_decimal (\<lambda>cd. fld as_any (\<lambda>lf. fld as_decimal (\<lambda>ir.
      fld as_string (\<lambda>sh. fld as_int64 (\<lambda>ar.
        fld_end \<lparr> pa_ProfileId = p, pa_AirdropTitle = t, pa_Status = s, pa_TotalVolumeForAirdrop = vf,
          pa_TotalVolumeAfterAirdrop = va, pa_TotalRewards = tr, pa_Claimable = cb, pa_Claimed = cd,
          pa_LastFillTimestamp = lf, pa_InitialRewards = ir, pa_ShardId = sh, pa_ArchiveId = ar \<rparr>)))))))))))))"

lemma claim_val_decoded [simp]: "as_claim_ops (claim_val c) = Some c"
  by (simp add: as_claim_ops_def claim_val_def as_fields_def)

lemma airdrop_val_decoded [simp]: "as_profile_airdrop (airdrop_val a) = Some a"
  by (simp add: as_profile_airdrop_def airdrop_val_def as_fields_def)

section \<open>Stored procedures\<close>

abbreviation PROFILE_CREATE_AIRDROP :: string where "PROFILE_CREATE_AIRDROP \<equiv> ''airdrop.create_airdrop''"
abbreviation PROFILE_SET_PROFILE_TOTAL :: string where "PROFILE_SET_PROFILE_TOTAL \<equiv> ''airdrop.set_profile_total''"
abbreviation PROFILE_UPDATE_PROFILE_CLAIMABLE :: string where "PROFILE_UPDATE_PROFILE_CLAIMABLE \<equiv> ''airdrop.update_profile_claimable''"
abbreviation PROFILE_CLAIM_ALL :: string where "PROFILE_CLAIM_ALL \<equiv> ''airdrop.claim_all''"
abbreviation GET_PROFILE_AIRDROPS :: string where "GET_PROFILE_AIRDROPS \<equiv> ''airdrop.get_profile_airdrops''"
abbreviation UPDATE_ALL_PROFILE_AIRDROPS :: string where "UPDATE_ALL_PROFILE_AIRDROPS \<equiv> ''airdrop.update_all_profile_airdrops''"
abbreviation PENDING_CLAIM :: string where "PENDING_CLAIM \<equiv> ''airdrop.pending_claim''"
abbreviation FINISH_CLAIM :: string where "FINISH_CLAIM \<equiv> ''airdrop.finish_claim''"
abbreviation DELETE_ALL_AIRDROPS :: string where "DELETE_ALL_AIRDROPS \<equiv> ''airdrop.delete_all_airdrops''"
abbreviation TEST_CREATE_CLAIM_OPS :: string where "TEST_CREATE_CLAIM_OPS \<equiv> ''airdrop.test_create_claim_ops''"
abbreviation TEST_GET_CLAIM_OPS :: string where "TEST_GET_CLAIM_OPS \<equiv> ''airdrop.test_get_claim_ops''"

section \<open>Requests\<close>

definition CreateAirdrop ::
  "string \<Rightarrow> int \<Rightarrow> int \<Rightarrow>
      ('d, string + 'd gval list option) prog" where
  "CreateAirdrop title start_timestamp end_timestamp =
     Request (as_ptr (as_struct ''Airdrop'')) PROFILE_INSTANCE PROFILE_CREATE_AIRDROP
     [VString title, VInt start_timestamp, VInt end_timestamp]"

definition GetProfileAirdrops ::
  "nat \<Rightarrow> ('d, string + 'd profile_airdrop option list) prog" where
  "GetProfileAirdrops profile_id =
     Request (as_list (as_ptr as_profile_airdrop)) PROFILE_INSTANCE GET_PROFILE_AIRDROPS
     [VUint profile_id]"

definition SetProfileTotal ::
  "'d dec_lib \<Rightarrow> nat \<Rightarrow> string \<Rightarrow> f64 \<Rightarrow>
      f64 \<Rightarrow> ('d, string + 'd profile_airdrop option) prog" where
  "SetProfileTotal D profile_id airdrop_title total_rewards claimable =
     newFromFloat D total_rewards (\<lambda>d_total_rewards.
     newFromFloat D claimable (\<lambda>d_claimable.
     Request (as_ptr as_profile_airdrop) PROFILE_INSTANCE PROFILE_SET_PROFILE_TOTAL
     [VUint profile_id, VString airdrop_title, VDecimal d_total_rewards, VDecimal d_claimable]))"

definition UpdateProfileClaimable ::
  "nat \<Rightarrow> string \<Rightarrow> ('d, string + 'd profile_airdrop option) prog" where
  "UpdateProfileClaimable profile_id airdrop_title =
     Request (as_ptr as_profile_airdrop) PROFILE_INSTANCE PROFILE_UPDATE_PROFILE_CLAIMABLE
     [VUint profile_id, VString airdrop_title]"

definition ProfileClaimAll ::
  "nat \<Rightarrow> string \<Rightarrow> ('d, string + 'd claim_ops option) prog" where
  "ProfileClaimAll profile_id airdrop_title =
     Request (as_ptr as_claim_ops) PROFILE_INSTANCE PROFILE_CLAIM_ALL
     [VUint profile_id, VString airdrop_title]"

definition PendingClaimOps :: "nat \<Rightarrow> ('d, string + 'd claim_ops option) prog" where
  "PendingClaimOps profile_id =
     Request (as_ptr as_claim_ops) PROFILE_INSTANCE PENDING_CLAIM
     [VUint profile_id]"

definition FinishClaim :: "nat \<Rightarrow> ('d, string + 'd claim_ops option) prog" where
  "FinishClaim profile_id =
     Request (as_ptr as_claim_ops) PROFILE_INSTANCE FINISH_CLAIM
     [VUint profile_id]"

definition UpdateAllProfileAirdrops :: "nat \<Rightarrow> ('d, string + unit) prog" where
  "UpdateAllProfileAirdrops profile_id =
     Request_err (as_ptr as_any) PROFILE_INSTANCE UPDATE_ALL_PROFILE_AIRDROPS
     [VUint profile_id]"

definition TestAirdropResetAll ::
  "'d dec_lib \<Rightarrow> string \<Rightarrow> int \<Rightarrow> int \<Rightarrow>
      nat \<Rightarrow> f64 \<Rightarrow> f64 \<Rightarrow> ('d, string + unit) prog" where
  "TestAirdropResetAll D title start_timestamp end_timestamp profile_id total_rewards claimable =
     newFromFloat D total_rewards (\<lambda>d_total_rewards.
     newFromFloat D claimable (\<lambda>d_claimable.
     Request_err (as_ptr as_any) PROFILE_INSTANCE DELETE_ALL_AIRDROPS
     [VString title, VInt start_timestamp, VInt end_timestamp, VUint profile_id,
      VDecimal d_total_rewards, VDecimal d_claimable]))"

definition TestCreateClaimOps ::
  "nat \<Rightarrow> string \<Rightarrow> f64 \<Rightarrow>
      ('d, string + 'd claim_ops option) prog" where
  "TestCreateClaimOps profile_id airdrop_title claimable =
     Request (as_ptr as_claim_ops) PROFILE_INSTANCE TEST_CREATE_CLAIM_OPS
     [VUint profile_id, VString airdrop_title, VFloat claimable]"

definition TestGetClaimOps :: "nat \<Rightarrow> ('d, string + 'd claim_ops option) prog" where
  "TestGetClaimOps ops_id =
     Request (as_ptr as_claim_ops) PROFILE_INSTANCE TEST_GET_CLAIM_OPS
     [VUint ops_id]"

end
