(* ===== verification/Model_Balance.thy ===== *)
theory Model_Balance
  imports Model_Request Tick
begin

text \<open>
  The operations on balances (\<^verbatim>\<open>model/api-deposit-withdraw.go\<close>): locks, deposits, withdrawals,
  stakes, unstakes, vaults and the block cursors of the settlement. Each is one call of a stored
  procedure of the profile instance, with the arguments in the order the code sends them.
\<close>

section \<open>Stored procedures\<close>

abbreviation ACQUIRE_STAKE_LOCK :: string where "ACQUIRE_STAKE_LOCK \<equiv> ''balance.acquire_stake_lock''"
abbreviation RELEASE_STAKE_LOCK :: string where "RELEASE_STAKE_LOCK \<equiv> ''balance.release_stake_lock''"
abbreviation ACQUIRE_UNSTAKE_LOCK :: string where "ACQUIRE_UNSTAKE_LOCK \<equiv> ''balance.acquire_unstake_lock''"
abbreviation RELEASE_UNSTAKE_LOCK :: string where "RELEASE_UNSTAKE_LOCK \<equiv> ''balance.release_unstake_lock''"
abbreviation ACQUIRE_WITHDRAW_LOCK :: string where "ACQUIRE_WITHDRAW_LOCK \<equiv> ''balance.acquire_withdraw_lock''"
abbreviation RELEASE_WITHDRAW_LOCK :: string where "RELEASE_WITHDRAW_LOCK \<equiv> ''balance.release_withdraw_lock''"
abbreviation CHECK_WITHDRAW_ALLOWED :: string where "CHECK_WITHDRAW_ALLOWED \<equiv> ''balance.check_withdraw_allowed''"
abbreviation GET_LAST_PROCESSED_BLOCK_NUMBER :: string where "GET_LAST_PROCESSED_BLOCK_NUMBER \<equiv> ''balance.get_last_processed_block_number''"
abbreviation SET_LAST_PROCESSED_BLOCK_NUMBER :: string where "SET_LAST_PROCESSED_BLOCK_NUMBER \<equiv> ''balance.set_last_processed_block_number''"
abbreviation GET_SETTLEMENT_STATE :: string where "GET_SETTLEMENT_STATE \<equiv> ''balance.get_settlement_state''"
abbreviation GET_PROCESSING_OPS :: string where "GET_PROCESSING_OPS \<equiv> ''balance.get_processing_ops''"
abbreviation MERGE_UNKNOWN_OPS :: string where "MERGE_UNKNOWN_OPS \<equiv> ''profile.merge_unknown_ops''"
abbreviation DELETE_UNKNOWN_OPS :: string where "DELETE_UNKNOWN_OPS \<equiv> ''balance.delete_unknown_ops''"
abbreviation MAX_WITHDRAW_AMOUNT :: string where "MAX_WITHDRAW_AMOUNT \<equiv> ''balance.max_withdraw_amount''"
abbreviation ROLLING_24_WDS :: string where "ROLLING_24_WDS \<equiv> ''profile.wds_per_24h''"
abbreviation ADD_CONTRACT_MAP :: string where "ADD_CONTRACT_MAP \<equiv> ''balance.add_to_contract_map''"
abbreviation INIT_VAULT :: string where "INIT_VAULT \<equiv> ''balance.init_vault''"
abbreviation REACTIVATE_VAULT :: string where "REACTIVATE_VAULT \<equiv> ''balance.reactivate_vault''"
abbreviation CREATE_DEPOSIT :: string where "CREATE_DEPOSIT \<equiv> ''balance.create_deposit''"
abbreviation PROCESS_DEPOSIT :: string where "PROCESS_DEPOSIT \<equiv> ''balance.process_deposit''"
abbreviation PROCESS_DEPOSIT_UNKNOWN :: string where "PROCESS_DEPOSIT_UNKNOWN \<equiv> ''balance.process_deposit_unknown''"
abbreviation PROCESS_YIELD :: string where "PROCESS_YIELD \<equiv> ''cache.process_yield_and_invalidate''"
abbreviation PROCESS_STAKE :: string where "PROCESS_STAKE \<equiv> ''balance.process_stake''"
abbreviation CREATE_WITHDRAWAL :: string where "CREATE_WITHDRAWAL \<equiv> ''balance.create_withdrawal''"
abbreviation CANCEL_WITHDRAWAL :: string where "CANCEL_WITHDRAWAL \<equiv> ''balance.cancel_withdrawal''"
abbreviation CLAIM_WITHDRAWAL :: string where "CLAIM_WITHDRAWAL \<equiv> ''balance.claim_withdrawal''"
abbreviation CREATE_STAKE :: string where "CREATE_STAKE \<equiv> ''balance.create_stake''"
abbreviation CREATE_UNSTAKE :: string where "CREATE_UNSTAKE \<equiv> ''balance.create_unstake''"
abbreviation CANCEL_UNSTAKE :: string where "CANCEL_UNSTAKE \<equiv> ''balance.cancel_unstake''"
abbreviation PROCESS_UNSTAKES :: string where "PROCESS_UNSTAKES \<equiv> ''balance.process_unstakes''"
abbreviation GET_PENDING_DEPOSITS :: string where "GET_PENDING_DEPOSITS \<equiv> ''balance.get_pending_deposits''"
abbreviation GET_PENDING_STAKES :: string where "GET_PENDING_STAKES \<equiv> ''balance.get_pending_stakes''"
abbreviation GET_PENDING_WITHDRAWALS :: string where "GET_PENDING_WITHDRAWALS \<equiv> ''balance.get_pending_withdrawals''"
abbreviation GET_ALL_PENDING_WITHDRAWALS :: string where "GET_ALL_PENDING_WITHDRAWALS \<equiv> ''balance.get_all_pending_withdrawals''"
abbreviation GET_WITHDRAWABLE_UNSTAKES :: string where "GET_WITHDRAWABLE_UNSTAKES \<equiv> ''balance.get_withdrawable_unstakes''"
abbreviation GET_VAULT_MANAGER_PROFILE_ID :: string where "GET_VAULT_MANAGER_PROFILE_ID \<equiv> ''balance.get_vault_manager_profile_id''"
abbreviation GET_VAULT_INFO :: string where "GET_VAULT_INFO \<equiv> ''balance.get_vault_info''"
abbreviation GET_HOLDING_INFO :: string where "GET_HOLDING_INFO \<equiv> ''balance.get_holding_info''"
abbreviation PENDING_DEPOSIT_CANCELED :: string where "PENDING_DEPOSIT_CANCELED \<equiv> ''balance.pending_deposit_canceled''"
abbreviation UPDATE_PENDING_WITHDRAWALS :: string where "UPDATE_PENDING_WITHDRAWALS \<equiv> ''balance.update_pending_withdrawals''"
abbreviation PROCESSING_WITHDRAWAL :: string where "PROCESSING_WITHDRAWAL \<equiv> ''balance.processing_withdrawal''"
abbreviation COMPLETED_WITHDRAWALS :: string where "COMPLETED_WITHDRAWALS \<equiv> ''balance.completed_withdrawals''"
abbreviation GET_WITHDRAWALS_SUSPENDED :: string where "GET_WITHDRAWALS_SUSPENDED \<equiv> ''balance.get_withdrawals_suspended''"
abbreviation SUSPEND_WITHDRAWALS :: string where "SUSPEND_WITHDRAWALS \<equiv> ''balance.suspend_withdrawals''"

section \<open>Requests\<close>

definition AcquireStakeLock :: "nat \<Rightarrow> ('d, string + stake_lock option) prog" where
  "AcquireStakeLock profileId =
     Request (as_ptr as_stake_lock) PROFILE_INSTANCE ACQUIRE_STAKE_LOCK
     [VUint profileId]"

definition ReleaseStakeLock :: "nat \<Rightarrow> ('d, string + stake_lock option) prog" where
  "ReleaseStakeLock profileId =
     Request (as_ptr as_stake_lock) PROFILE_INSTANCE RELEASE_STAKE_LOCK
     [VUint profileId]"

definition AcquireUnstakeLock :: "nat \<Rightarrow> ('d, string + stake_lock option) prog" where
  "AcquireUnstakeLock profileId =
     Request (as_ptr as_stake_lock) PROFILE_INSTANCE ACQUIRE_UNSTAKE_LOCK
     [VUint profileId]"

definition ReleaseUnstakeLock :: "nat \<Rightarrow> ('d, string + stake_lock option) prog" where
  "ReleaseUnstakeLock profileId =
     Request (as_ptr as_stake_lock) PROFILE_INSTANCE RELEASE_UNSTAKE_LOCK
     [VUint profileId]"

definition AcquireWithdrawLock ::
  "nat \<Rightarrow> ('d, string + withdraw_lock option) prog" where
  "AcquireWithdrawLock profileId =
     Request (as_ptr as_withdraw_lock) PROFILE_INSTANCE ACQUIRE_WITHDRAW_LOCK
     [VUint profileId]"

definition ReleaseWithdrawLock ::
  "nat \<Rightarrow> ('d, string + withdraw_lock option) prog" where
  "ReleaseWithdrawLock profileId =
     Request (as_ptr as_withdraw_lock) PROFILE_INSTANCE RELEASE_WITHDRAW_LOCK
     [VUint profileId]"

definition CancelWithdrawal ::
  "nat \<Rightarrow> string \<Rightarrow> ('d, string + bool) prog" where
  "CancelWithdrawal profileId bopsId =
     Request as_bool PROFILE_INSTANCE CANCEL_WITHDRAWAL
     [VUint profileId, VString bopsId]"

definition ClaimWithdrawal ::
  "nat \<Rightarrow> string \<Rightarrow> ('d, string + 'd balance_ops option) prog" where
  "ClaimWithdrawal profileId bopsId =
     Request (as_ptr as_ops) PROFILE_INSTANCE CLAIM_WITHDRAWAL
     [VUint profileId, VString bopsId]"

definition CreateDeposit ::
  "nat \<Rightarrow> string \<Rightarrow> 'd option \<Rightarrow> string \<Rightarrow>
      string \<Rightarrow> nat \<Rightarrow> ('d, string + 'd balance_ops option) prog" where
  "CreateDeposit profileId wallet amount txhash exchangeId chainId =
     (let exchangeId = to_lower exchangeId in
     Request (as_ptr as_ops) PROFILE_INSTANCE CREATE_DEPOSIT
     [VUint profileId, VString wallet, opt_val VDecimal amount, VString txhash,
      VString exchangeId, VUint chainId])"

definition ProcessDeposit ::
  "nat \<Rightarrow> 'd deposit \<Rightarrow> bool \<Rightarrow> ('d, string + unit) prog" where
  "ProcessDeposit profileId deposit isPoolDeposit =
     Request_err (as_ptr as_ops) PROFILE_INSTANCE PROCESS_DEPOSIT
     [VUint profileId, VString (dep_Wallet deposit), VString (dep_Id deposit),
      opt_val VDecimal (dep_Amount deposit), VString (dep_Tx deposit), VBool isPoolDeposit,
      VString (dep_ExchangeId deposit), VUint (dep_ChainId deposit),
      VString (dep_ExchangeAddress deposit)]"

definition ProcessDepositUnknown :: "'d deposit \<Rightarrow> ('d, string + unit) prog" where
  "ProcessDepositUnknown deposit =
     Request_err (as_ptr as_ops) PROFILE_INSTANCE PROCESS_DEPOSIT_UNKNOWN
     [VString (dep_Wallet deposit), VString (dep_Id deposit),
      opt_val VDecimal (dep_Amount deposit), VString (dep_Tx deposit),
      VString (dep_ExchangeId deposit), VUint (dep_ChainId deposit),
      VString (dep_ExchangeAddress deposit)]"

definition ProcessYield :: "'d yield \<Rightarrow> ('d, string + unit) prog" where
  "ProcessYield yld =
     Request_err (as_ptr as_ops) PROFILE_INSTANCE PROCESS_YIELD
     [VString (yld_Id yld), opt_val VDecimal (yld_Amount yld), VString (yld_Tx yld),
      VString (yld_ExchangeId yld), VUint (yld_ChainId yld), VString (yld_ExchangeAddress yld)]"

definition InitVault ::
  "'d dec_lib \<Rightarrow> nat \<Rightarrow> nat \<Rightarrow> nat \<Rightarrow>
      f64 \<Rightarrow> ('d, string + unit) prog" where
  "InitVault D vaultProfileId managerProfileId treasurerProfileId performanceFee =
     newFromFloat D performanceFee (\<lambda>d_performanceFee.
     Request_err (as_ptr as_vault) PROFILE_INSTANCE INIT_VAULT
     [VUint vaultProfileId, VUint managerProfileId, VUint treasurerProfileId,
      VDecimal d_performanceFee])"

definition ReactivateVault :: "nat \<Rightarrow> ('d, string + unit) prog" where
  "ReactivateVault vaultProfileId =
     Request_err (as_ptr as_vault) PROFILE_INSTANCE REACTIVATE_VAULT
     [VUint vaultProfileId]"

definition ProcessStake ::
  "nat \<Rightarrow> 'd stake \<Rightarrow> bool \<Rightarrow> string \<Rightarrow>
      ('d, string + 'd balance_ops option) prog" where
  "ProcessStake stakerProfileId stake fromBalance exchange_id =
     Request (as_ptr as_ops) PROFILE_INSTANCE PROCESS_STAKE
     [VUint stakerProfileId, VUint (stk_VaultProfileId stake), VString (stk_VaultWallet stake),
      VString (stk_Id stake), opt_val VDecimal (stk_Amount stake),
      opt_val VDecimal (stk_CurrentNav stake), VString (stk_Tx stake), VBool fromBalance,
      VString exchange_id]"

definition CreateWithdrawal ::
  "nat \<Rightarrow> string \<Rightarrow> 'd option \<Rightarrow> string \<Rightarrow>
      ('d, string + 'd balance_ops option) prog" where
  "CreateWithdrawal profileId wallet amount exchangeId =
     Request (as_ptr as_ops) PROFILE_INSTANCE CREATE_WITHDRAWAL
     [VUint profileId, VString wallet, opt_val VDecimal amount, VString exchangeId]"

definition CreateUnstake ::
  "nat \<Rightarrow> nat \<Rightarrow> string \<Rightarrow> 'd option \<Rightarrow>
      string \<Rightarrow> nat \<Rightarrow> ('d, string + 'd balance_ops option) prog" where
  "CreateUnstake stakerProfileId vaultProfileId vaultWallet shares exchangeId chainId =
     Request (as_ptr as_ops) PROFILE_INSTANCE CREATE_UNSTAKE
     [VUint stakerProfileId, VUint vaultProfileId, VString vaultWallet, opt_val VDecimal shares,
      VString exchangeId, VUint chainId]"

definition GetVaultInfo :: "nat \<Rightarrow> ('d, string + 'd vault_info option) prog" where
  "GetVaultInfo vaultProfileId =
     Request (as_ptr as_vault) PROFILE_INSTANCE GET_VAULT_INFO
     [VUint vaultProfileId]"

definition GetVaultHoldingInfo ::
  "nat \<Rightarrow> nat \<Rightarrow> ('d, string + 'd vault_holding option) prog" where
  "GetVaultHoldingInfo vaultProfileId stakerProfileId =
     Request (as_ptr as_holding) PROFILE_INSTANCE GET_HOLDING_INFO
     [VUint vaultProfileId, VUint stakerProfileId]"

definition CancelUnstake ::
  "nat \<Rightarrow> string \<Rightarrow> ('d, string + bool) prog" where
  "CancelUnstake profileId bopsId =
     Request as_bool PROFILE_INSTANCE CANCEL_UNSTAKE
     [VUint profileId, VString bopsId]"

definition ProcessUnstakes ::
  "nat \<Rightarrow> nat \<Rightarrow> nat \<Rightarrow> 'd option \<Rightarrow>
      'd option \<Rightarrow> 'd option \<Rightarrow> nat \<Rightarrow> 'd option \<Rightarrow> string \<Rightarrow> ('d, string + nat list) prog" where
  "ProcessUnstakes vaultProfileId fromId toId currentNav withdrawableBalance performanceFee treasurerProfileId totalShares exchangeId =
     Request (as_list as_uint) PROFILE_INSTANCE PROCESS_UNSTAKES
     [VUint vaultProfileId, VUint fromId, VUint toId, opt_val VDecimal currentNav,
      opt_val VDecimal withdrawableBalance, opt_val VDecimal performanceFee,
      VUint treasurerProfileId, opt_val VDecimal totalShares, VString exchangeId]"

definition GetVaultManagerProfileId :: "nat \<Rightarrow> ('d, string + nat) prog" where
  "GetVaultManagerProfileId vaultProfileId =
     Request as_uint PROFILE_INSTANCE GET_VAULT_MANAGER_PROFILE_ID
     [VUint vaultProfileId]"

definition PendingDepositCanceled :: "string \<Rightarrow> ('d, string + bool) prog" where
  "PendingDepositCanceled opsId =
     Request as_bool PROFILE_INSTANCE PENDING_DEPOSIT_CANCELED
     [VString opsId]"

definition GetPendingDeposits ::
  "string \<Rightarrow> nat \<Rightarrow> ('d, string + 'd balance_ops option list) prog" where
  "GetPendingDeposits exchangeId chainId =
     (let exchangeId = to_lower exchangeId in
     Request (as_list (as_ptr as_ops)) PROFILE_INSTANCE GET_PENDING_DEPOSITS
     [VString exchangeId, VUint chainId])"

definition GetPendingStakes ::
  "string \<Rightarrow> nat \<Rightarrow> ('d, string + 'd balance_ops option list) prog" where
  "GetPendingStakes exchangeId chainId =
     (let exchangeId = to_lower exchangeId in
     Request (as_list (as_ptr as_ops)) PROFILE_INSTANCE GET_PENDING_STAKES
     [VString exchangeId, VUint chainId])"

definition GetPendingWithdrawals ::
  "string \<Rightarrow> nat \<Rightarrow> ('d, string + 'd balance_ops option list) prog" where
  "GetPendingWithdrawals exchangeId chainId =
     (let exchangeId = to_lower exchangeId in
     Request (as_list (as_ptr as_ops)) PROFILE_INSTANCE GET_PENDING_WITHDRAWALS
     [VString exchangeId, VUint chainId])"

definition GetAllPendingWithdrawals :: "('d, string + 'd balance_ops option list) prog" where
  "GetAllPendingWithdrawals =
     Request (as_list (as_ptr as_ops)) PROFILE_INSTANCE GET_ALL_PENDING_WITHDRAWALS
     []"

definition CompletedWithdrawals ::
  "withdrawal_tx list \<Rightarrow> ('d, string + unit) prog" where
  "CompletedWithdrawals ids =
     Request_err (as_list (as_ptr as_withdrawal_tx)) PROFILE_INSTANCE COMPLETED_WITHDRAWALS
     [VList (map VWithdrawalTx ids)]"

definition GetWithdrawalsSuspended :: "('d, string + bool) prog" where
  "GetWithdrawalsSuspended =
     Request as_bool PROFILE_INSTANCE GET_WITHDRAWALS_SUSPENDED
     []"

definition SuspendWithdrawals :: "('d, string + unit) prog" where
  "SuspendWithdrawals =
     Request_err (as_list as_any) PROFILE_INSTANCE SUSPEND_WITHDRAWALS
     []"

definition ProcessingWithdrawal ::
  "nat \<Rightarrow> string \<Rightarrow> string \<Rightarrow> ('d, string + unit) prog" where
  "ProcessingWithdrawal profileId txhash bopsId =
     Request_err as_string PROFILE_INSTANCE PROCESSING_WITHDRAWAL
     [VUint profileId, VString txhash, VString bopsId]"

definition GetSettlementState :: "('d, string + bool) prog" where
  "GetSettlementState =
     Request as_bool PROFILE_INSTANCE GET_SETTLEMENT_STATE
     []"

definition GetProcessingOps :: "('d, string + 'd balance_ops option list) prog" where
  "GetProcessingOps =
     Request (as_list (as_ptr as_ops)) PROFILE_INSTANCE GET_PROCESSING_OPS
     []"

definition MergeUnknown :: "('d, string + nat) prog" where
  "MergeUnknown =
     Request as_uint PROFILE_INSTANCE MERGE_UNKNOWN_OPS
     []"

definition DeleteUnknown :: "('d, string + nat) prog" where
  "DeleteUnknown =
     Request as_uint PROFILE_INSTANCE DELETE_UNKNOWN_OPS
     []"

definition AddContractMap ::
  "string \<Rightarrow> nat \<Rightarrow> string \<Rightarrow>
      ('d, string + contract_map option) prog" where
  "AddContractMap contract_address chain_id exchange_id =
     (let contract_address = to_lower contract_address in
     let exchange_id = to_lower exchange_id in
     Request (as_ptr as_contract) PROFILE_INSTANCE ADD_CONTRACT_MAP
     [VString contract_address, VUint chain_id, VString exchange_id])"

definition MaxWithdrawAmount :: "('d, string + nat) prog" where
  "MaxWithdrawAmount =
     Request as_uint PROFILE_INSTANCE MAX_WITHDRAW_AMOUNT
     []"

definition Rolling24hWds :: "('d, string + 'd option) prog" where
  "Rolling24hWds =
     Request (as_ptr as_decimal) PROFILE_INSTANCE ROLLING_24_WDS
     []"


section \<open>Operations with more than a request\<close>

text \<open>The errors of the check are dropped: the withdrawal is allowed when there is none.\<close>

definition CheckWithdrawAllowed :: "nat \<Rightarrow> ('d, bool) prog" where
  "CheckWithdrawAllowed profileId =
     andThen (Request as_any PROFILE_INSTANCE CHECK_WITHDRAW_ALLOWED [VUint profileId])
       (\<lambda>r. Return (case r of Inl _ \<Rightarrow> False | Inr _ \<Rightarrow> True))"

definition GetWalletStringInRabbitTntStandardFormat :: "string \<Rightarrow> string" where
  "GetWalletStringInRabbitTntStandardFormat initialWallet =
     (let wallet = to_lower initialWallet
      in if \<not> has_prefix wallet ''0x'' then ''0x'' @ wallet else wallet)"

definition GetWalletsStringInRabbitTntStandardFormat :: "string list \<Rightarrow> string list" where
  "GetWalletsStringInRabbitTntStandardFormat ws = map GetWalletStringInRabbitTntStandardFormat ws"

text \<open>\<^verbatim>\<open>asRunes[n:]\<close> panics when the string is shorter.\<close>

definition StripPrefix :: "string \<Rightarrow> nat \<Rightarrow> string option" where
  "StripPrefix inp charsToRemove =
     (if charsToRemove \<le> length inp then Some (drop charsToRemove inp) else None)"

definition CreateStake ::
  "'d dec_lib \<Rightarrow> profile \<Rightarrow> string \<Rightarrow> f64 \<Rightarrow> string \<Rightarrow> string \<Rightarrow> nat \<Rightarrow>
   ('d, string + 'd balance_ops option) prog" where
  "CreateStake D stakerProfile vaultWallet requestedAmount txhash exchangeId chainId =
     newFromFloat D (RoundDownToUsdtTick requestedAmount) (\<lambda>amount.
       Request (as_ptr as_ops) PROFILE_INSTANCE CREATE_STAKE
         [VUint (pr_ProfileId stakerProfile), VString vaultWallet, VDecimal amount, VString txhash,
          VString exchangeId, VUint chainId])"

text \<open>The block numbers are sent as \<^verbatim>\<open>uint64\<close>: the low 64 bits of the absolute value.\<close>

definition uint64_of :: "int \<Rightarrow> nat" where
  "uint64_of n = nat (\<bar>n\<bar> mod 2 ^ 64)"

definition UpdatePendingWithdrawals :: "int \<Rightarrow> int \<Rightarrow> string \<Rightarrow> ('d, string + unit) prog" where
  "UpdatePendingWithdrawals currentBlock future_block for_contract =
     (let for_contract = to_lower for_contract
      in Request_err as_string PROFILE_INSTANCE UPDATE_PENDING_WITHDRAWALS
           [VUint (uint64_of currentBlock), VUint (uint64_of future_block), VString for_contract])"

definition GetLastProcessedBlockNumber ::
  "string \<Rightarrow> nat \<Rightarrow> string \<Rightarrow> ('d, string + int) prog" where
  "GetLastProcessedBlockNumber forContract chainId eventType =
     (let forContract = to_lower forContract; eventType = to_lower eventType
      in onErr (Request as_string PROFILE_INSTANCE GET_LAST_PROCESSED_BLOCK_NUMBER
                  [VString forContract, VUint chainId, VString eventType])
           (\<lambda>e. Return (Inl e))
           (\<lambda>res. case parse_int res of
                Some blockNum \<Rightarrow> Return (Inr blockNum)
              | None \<Rightarrow> Return (Inl (''eventType='' @ eventType @ '' forContract='' @ forContract @
                    '' chainId='' @ show_nat chainId @
                    '' unable to parse last processed block number: res='' @ res))))"

definition SetLastProcessedBlockNumber ::
  "int \<Rightarrow> string \<Rightarrow> nat \<Rightarrow> string \<Rightarrow> ('d, string + unit) prog" where
  "SetLastProcessedBlockNumber lastProcessed forContract chainId eventType =
     (let forContract = to_lower forContract; eventType = to_lower eventType
      in Request_err (as_list as_any) PROFILE_INSTANCE SET_LAST_PROCESSED_BLOCK_NUMBER
           [VString (show_int lastProcessed), VString forContract, VUint chainId, VString eventType])"


section \<open>Claiming a withdrawal\<close>

abbreviation EXCHANGE_RBX :: string where "EXCHANGE_RBX \<equiv> ''rbx''"
abbreviation EXCHANGE_BFX :: string where "EXCHANGE_BFX \<equiv> ''bfx''"

text \<open>
  The decimals of the settlement tokens. The code compares the two structs with \<^verbatim>\<open>!=\<close>; its
  arguments are always the package's own two values.
\<close>

definition decimals6 :: "'d dec_lib \<Rightarrow> 'd" where
  "decimals6 D = d_pow D (d_of_int D 10) (d_of_int D 6)"

definition decimals18 :: "'d dec_lib \<Rightarrow> 'd" where
  "decimals18 D = d_pow D (d_of_int D 10) (d_of_int D 18)"

definition validateDecimals :: "'d dec_lib \<Rightarrow> 'd \<Rightarrow> string \<Rightarrow> string option" where
  "validateDecimals D dcm exchangeId =
     (if dcm \<noteq> decimals6 D \<and> dcm \<noteq> decimals18 D
      then Some (''DECIMALS_NOT_ALLOWED _decimals='' @ d_string D dcm)
      else if exchangeId = EXCHANGE_RBX \<and> dcm \<noteq> decimals6 D
      then Some (''RBX WRONG DECIMALS _decimals='' @ d_string D dcm @ '' required='' @
                 d_string D (decimals6 D))
      else if exchangeId = EXCHANGE_BFX \<and> dcm \<noteq> decimals18 D
      then Some (''BFX WRONG DECIMALS _decimals='' @ d_string D dcm @ '' required='' @
                 d_string D (decimals18 D))
      else None)"

definition eidToDecimals :: "'d dec_lib \<Rightarrow> string \<rightharpoonup> 'd" where
  "eidToDecimals D = [EXCHANGE_RBX \<mapsto> decimals6 D, EXCHANGE_BFX \<mapsto> decimals18 D]"

record 'd withdrawal_response =
  wr_Withdrawal :: "'d balance_ops"
  wr_BnAmount   :: string
  wr_R          :: string
  wr_S          :: string
  wr_V          :: nat

text \<open>
  The signer (\<^verbatim>\<open>signer.WithdrawalSigner\<close>, on a key management service) is a parameter: it maps
  an id, a wallet and an amount to an error or the signature, whose parts print in hexadecimal.
\<close>

type_synonym signer = "int \<Rightarrow> string \<Rightarrow> int \<Rightarrow> string + (string \<times> string \<times> nat)"

definition GetClaimWithdrawalResponse ::
  "'d dec_lib \<Rightarrow> nat \<Rightarrow> signer \<Rightarrow> string \<Rightarrow> string \<Rightarrow> ('d, string + 'd withdrawal_response) prog" where
  "GetClaimWithdrawalResponse D profileId sign bopsId exchangeId =
     onErr (ClaimWithdrawal profileId bopsId)
       (\<lambda>e. Return (Inl e))
       (\<lambda>w. case w of
          None \<Rightarrow> Panic ''nil pointer dereference''    \<comment> \<open>\<^verbatim>\<open>err.Error()\<close> with a nil \<^verbatim>\<open>err\<close>\<close>
        | Some withdrawal \<Rightarrow>
            orPanic ''slice bounds out of range'' (StripPrefix (bo_OpsId withdrawal) 2) (\<lambda>opsIdIntStr.
            case parse_int opsIdIntStr of
              None \<Rightarrow> Return (Inl (''CLAIM_WITHDRAWAL_FAILED_BAD_ID: '' @ opsIdIntStr))
            | Some bigIntId \<Rightarrow>
                (case eidToDecimals D exchangeId of
                   None \<Rightarrow> Return (Inl (''NO_DECIMALS in the map for exchangeId='' @ exchangeId))
                 | Some dcm \<Rightarrow>
                     (case validateDecimals D dcm exchangeId of
                        Some e \<Rightarrow> Return (Inl e)
                      | None \<Rightarrow>
                          let bigIntAmount = d_big_int D (d_round D 0 (d_mul D (bo_Amount withdrawal) dcm))
                          in case sign bigIntId (bo_Wallet withdrawal) bigIntAmount of
                               Inl e \<Rightarrow> Return (Inl e)
                             | Inr (r, s, v) \<Rightarrow>
                                 Return (Inr \<lparr> wr_Withdrawal = withdrawal,
                                   wr_BnAmount = show_int bigIntAmount,
                                   wr_R = ''0x'' @ r, wr_S = ''0x'' @ s, wr_V = v \<rparr>)))))"

end
