(* ===== verification/Model_Api.thy ===== *)
theory Model_Api
  imports Model_Request Tick
begin

text \<open>
  The operations on profiles, markets, orders, positions and caches (\<^verbatim>\<open>model/api.go\<close>) and those
  of the liquidation service (\<^verbatim>\<open>model/api-liquidation.go\<close>). An operation on a market finds the
  instance of the market in the cluster configuration first.
\<close>

section \<open>Stored procedures\<close>

abbreviation CREATE_PROFILE :: string where "CREATE_PROFILE \<equiv> ''profile.create''"
abbreviation GET_PROFILE_BY_ID :: string where "GET_PROFILE_BY_ID \<equiv> ''profile.get''"
abbreviation GET_PROFILE_BY_WALLET_FOR_EXCHANGE_ID :: string where "GET_PROFILE_BY_WALLET_FOR_EXCHANGE_ID \<equiv> ''profile.get_by_wallet_for_exchange_id''"
abbreviation PROFILE_NOT_FOUND :: string where "PROFILE_NOT_FOUND \<equiv> ''PROFILE_NOT_FOUND''"
abbreviation PAY_FUNDING :: string where "PAY_FUNDING \<equiv> ''engine.pay_funding''"
abbreviation UPDATE_INDEX_PRICE :: string where "UPDATE_INDEX_PRICE \<equiv> ''market.update_index_price''"
abbreviation GET_PROFILE_DATA :: string where "GET_PROFILE_DATA \<equiv> ''getters.get_profile_data''"
abbreviation GET_EXTENDED_PROFILE_DATA :: string where "GET_EXTENDED_PROFILE_DATA \<equiv> ''getters.get_extended_profile_data''"
abbreviation GET_EXTENDED_PROFILES :: string where "GET_EXTENDED_PROFILES \<equiv> ''getters.get_extended_profiles''"
abbreviation GET_OPEN_POSITIONS :: string where "GET_OPEN_POSITIONS \<equiv> ''getters.get_open_positions''"
abbreviation GET_REQUESTED_UNSTAKES :: string where "GET_REQUESTED_UNSTAKES \<equiv> ''getters.get_requested_unstakes''"
abbreviation GET_ALL_ACTIVE_POSITIONS :: string where "GET_ALL_ACTIVE_POSITIONS \<equiv> ''position.get_all_active_positions''"
abbreviation CANCEL_ALL :: string where "CANCEL_ALL \<equiv> ''public.cancel_all''"
abbreviation GET_ALL_ORDERS :: string where "GET_ALL_ORDERS \<equiv> ''order.get_all_orders''"
abbreviation GET_ALL_ORDERS2 :: string where "GET_ALL_ORDERS2 \<equiv> ''order.get_all_orders2''"
abbreviation GET_OPEN_ORDERS :: string where "GET_OPEN_ORDERS \<equiv> ''getters.get_open_orders''"
abbreviation UPDATE_LEVERGAE :: string where "UPDATE_LEVERGAE \<equiv> ''profile.update_leverage''"
abbreviation GET_PROFILES_META_AFTER_TS :: string where "GET_PROFILES_META_AFTER_TS \<equiv> ''profile.get_profiles_meta_after_ts''"
abbreviation GET_MARKET_DATA :: string where "GET_MARKET_DATA \<equiv> ''market.get_market_data''"
abbreviation GET_FUNDING_META :: string where "GET_FUNDING_META \<equiv> ''market.get_funding_meta''"
abbreviation GET_ORDERBOOK_DATA :: string where "GET_ORDERBOOK_DATA \<equiv> ''engine.get_orderbook_data''"
abbreviation GET_TRADE_DATA :: string where "GET_TRADE_DATA \<equiv> ''trade.get_trade_data''"
abbreviation ORDER_CREATE :: string where "ORDER_CREATE \<equiv> ''public.new_order''"
abbreviation ORDER_AMEND :: string where "ORDER_AMEND \<equiv> ''public.amend_order''"
abbreviation ORDER_CANCEL :: string where "ORDER_CANCEL \<equiv> ''public.cancel_order''"
abbreviation ORDER_EXECUTE :: string where "ORDER_EXECUTE \<equiv> ''internal.execute_order''"
abbreviation GET_CANDLES :: string where "GET_CANDLES \<equiv> ''candles.get_candles''"
abbreviation GET_EXCHANGE_DATA :: string where "GET_EXCHANGE_DATA \<equiv> ''getters.get_exchange_data''"
abbreviation GET_PROFILE_CACHE :: string where "GET_PROFILE_CACHE \<equiv> ''cache.get_cache''"
abbreviation INVALIDATE_CACHE :: string where "INVALIDATE_CACHE \<equiv> ''cache.invalidate_cache''"
abbreviation INVALIDATE_CACHE_AND_NOTIFY :: string where "INVALIDATE_CACHE_AND_NOTIFY \<equiv> ''cache.invalidate_cache_and_notify''"
abbreviation UPDATE_PROFILES_CACHES_AND_METAS :: string where "UPDATE_PROFILES_CACHES_AND_METAS \<equiv> ''setters.update_profiles_caches_and_metas''"
abbreviation ARCHIVER_GET_NEXT_BATCH :: string where "ARCHIVER_GET_NEXT_BATCH \<equiv> ''archiver.get_next_batch''"
abbreviation WRITE_FRONTEND_STORAGE :: string where "WRITE_FRONTEND_STORAGE \<equiv> ''write_frontend_storage''"
abbreviation READ_FRONTEND_STORAGE :: string where "READ_FRONTEND_STORAGE \<equiv> ''read_frontend_storage''"
abbreviation LIQUIDATION_BATCH :: string where "LIQUIDATION_BATCH \<equiv> ''getters.liquidation_batch''"
abbreviation PROFILE_UPDATE_STATUS :: string where "PROFILE_UPDATE_STATUS \<equiv> ''profile.update_status''"
abbreviation PROFILE_UPDATE_LAST_CHECKED :: string where "PROFILE_UPDATE_LAST_CHECKED \<equiv> ''profile.update_last_checked''"
abbreviation PROFILE_UPDATE_INSURANCE_ID :: string where "PROFILE_UPDATE_INSURANCE_ID \<equiv> ''profile.update_insurance_id''"
abbreviation PROFILE_LIQUIDATED_VAULTS :: string where "PROFILE_LIQUIDATED_VAULTS \<equiv> ''profile.liquidated_vaults''"
abbreviation QUEUE_LIQ_ACTIONS :: string where "QUEUE_LIQ_ACTIONS \<equiv> ''internal.queue_liq_actions''"
abbreviation IS_INV3_VALID :: string where "IS_INV3_VALID \<equiv> ''getters.is_inv3_valid''"
abbreviation CACHED_IS_INV3_VALID :: string where "CACHED_IS_INV3_VALID \<equiv> ''getters.cached_is_inv3_valid''"
abbreviation GET_WINNING_POSITIONS :: string where "GET_WINNING_POSITIONS \<equiv> ''position.get_winning_positions''"
abbreviation HIGH_PRIORITY_CANCEL_ALL :: string where "HIGH_PRIORITY_CANCEL_ALL \<equiv> ''internal.high_priority_cancell_all''"
abbreviation IS_CANCEL_ALL_ACCEPTED :: string where "IS_CANCEL_ALL_ACCEPTED \<equiv> ''internal.is_cancel_all_accepted''"
abbreviation PROFILE_STATUS_ACTIVE :: string where "PROFILE_STATUS_ACTIVE \<equiv> ''active''"
abbreviation PROFILE_STATUS_LIQUIDATING :: string where "PROFILE_STATUS_LIQUIDATING \<equiv> ''liquidating''"
abbreviation PROFILE_TYPE_TRADER :: string where "PROFILE_TYPE_TRADER \<equiv> ''trader''"
abbreviation PROFILE_TYPE_VAULT :: string where "PROFILE_TYPE_VAULT \<equiv> ''vault''"
abbreviation PROFILE_TYPE_INSURANCE :: string where "PROFILE_TYPE_INSURANCE \<equiv> ''insurance''"
abbreviation EXCHANGE_DEFAULT :: string where "EXCHANGE_DEFAULT \<equiv> ''rbx''"
abbreviation PLACED :: string where "PLACED \<equiv> ''placed''"
abbreviation LONG :: string where "LONG \<equiv> ''long''"
abbreviation SHORT :: string where "SHORT \<equiv> ''short''"

section \<open>Operations of the API\<close>

definition WriteFrontendStorage ::
  "nat \<Rightarrow> byte list \<Rightarrow> ('d, string + unit) prog" where
  "WriteFrontendStorage profile_id bytes =
     Request_err as_any AUTH_INSTANCE WRITE_FRONTEND_STORAGE
     [VUint profile_id, VBytes bytes]"

definition ReadFrontendStorage :: "nat \<Rightarrow> ('d, string + byte list) prog" where
  "ReadFrontendStorage profile_id =
     Request as_bytes AUTH_INSTANCE READ_FRONTEND_STORAGE
     [VUint profile_id]"

definition CancelAll :: "nat \<Rightarrow> bool \<Rightarrow> ('d, string + unit) prog" where
  "CancelAll profile_id is_liquidation =
     Request_err as_any API_INSTANCE CANCEL_ALL
     [VUint profile_id, VBool is_liquidation]"

definition GetProfileById :: "nat \<Rightarrow> ('d, string + profile option) prog" where
  "GetProfileById profile_id =
     Request (as_ptr as_profile) PROFILE_INSTANCE GET_PROFILE_BY_ID
     [VUint profile_id]"

definition GetProfileByWalletForExchangeId ::
  "string \<Rightarrow> string \<Rightarrow> ('d, string + profile option) prog" where
  "GetProfileByWalletForExchangeId wallet exchange_id =
     Request (as_ptr as_profile) PROFILE_INSTANCE GET_PROFILE_BY_WALLET_FOR_EXCHANGE_ID
     [VString wallet, VString exchange_id]"

definition UpdateIndexPrice ::
  "'d dec_lib \<Rightarrow> cluster \<Rightarrow> string \<Rightarrow> f64 \<Rightarrow>
      ('d, string + unit) prog" where
  "UpdateIndexPrice D IC market_id index_price =
     newFromFloat D index_price (\<lambda>d_index_price.
     withMarketText IC market_id (\<lambda>inst.
     Request_err (as_ptr as_decimal) (ic_Title inst) UPDATE_INDEX_PRICE
     [VString market_id, VDecimal d_index_price]))"

definition GetMarketData ::
  "cluster \<Rightarrow> string \<Rightarrow> ('d, string + 'd market_data option) prog" where
  "GetMarketData IC market_id =
     withMarket IC market_id (\<lambda>inst.
     Request (as_ptr as_market) (ic_Title inst) GET_MARKET_DATA
     [VString market_id])"

definition GetFundingMeta ::
  "cluster \<Rightarrow> string \<Rightarrow> ('d, string + 'd gval list option) prog" where
  "GetFundingMeta IC market_id =
     withMarket IC market_id (\<lambda>inst.
     Request (as_ptr (as_struct ''FundingMeta'')) (ic_Title inst) GET_FUNDING_META
     [VString market_id])"

definition GetProfileData :: "nat \<Rightarrow> ('d, string + 'd gval list option) prog" where
  "GetProfileData profile_id =
     Request (as_ptr (as_struct ''ProfileData'')) PROFILE_INSTANCE GET_PROFILE_DATA
     [VUint profile_id]"

definition GetExtendedProfileData ::
  "nat \<Rightarrow> ('d, string + 'd gval list option) prog" where
  "GetExtendedProfileData profile_id =
     Request (as_ptr (as_struct ''ExtendedProfileData'')) PROFILE_INSTANCE GET_EXTENDED_PROFILE_DATA
     [VUint profile_id]"

definition GetOrderbookData ::
  "cluster \<Rightarrow> string \<Rightarrow> ('d, string + 'd gval list option) prog" where
  "GetOrderbookData IC market_id =
     withMarket IC market_id (\<lambda>inst.
     Request (as_ptr (as_struct ''OrderbookData'')) (ic_Title inst) GET_ORDERBOOK_DATA
     [VString market_id])"

definition GetTrades ::
  "cluster \<Rightarrow> string \<Rightarrow> int \<Rightarrow>
      ('d, string + 'd gval list option list) prog" where
  "GetTrades IC marketId limit =
     withMarket IC marketId (\<lambda>inst.
     Request (as_list (as_ptr (as_struct ''TradeData''))) (ic_Title inst) GET_TRADE_DATA
     [VInt limit])"

definition GetAllActivePositions ::
  "cluster \<Rightarrow> string \<Rightarrow> nat \<Rightarrow> nat \<Rightarrow>
      ('d, string + 'd position_data option list) prog" where
  "GetAllActivePositions IC market_id offset limit =
     withMarket IC market_id (\<lambda>inst.
     Request (as_list (as_ptr as_position)) (ic_Title inst) GET_ALL_ACTIVE_POSITIONS
     [VString market_id, VUint offset, VUint limit])"

definition GetOpenPositions ::
  "nat \<Rightarrow> ('d, string + 'd position_data option list) prog" where
  "GetOpenPositions profileId =
     Request (as_list (as_ptr as_position)) PROFILE_INSTANCE GET_OPEN_POSITIONS
     [VUint profileId]"

definition GetRequestedUnstakes ::
  "nat \<Rightarrow> ('d, string + 'd balance_ops option list) prog" where
  "GetRequestedUnstakes profileId =
     Request (as_list (as_ptr as_ops)) PROFILE_INSTANCE GET_REQUESTED_UNSTAKES
     [VUint profileId]"

definition GetAllOrders ::
  "cluster \<Rightarrow> nat \<Rightarrow> string \<Rightarrow> nat \<Rightarrow>
      ('d, string + 'd order_data option list) prog" where
  "GetAllOrders IC profile_id marketID limit =
     withMarket IC marketID (\<lambda>inst.
     Request (as_list (as_ptr as_order)) (ic_Title inst) GET_ALL_ORDERS
     [VUint profile_id, VUint limit])"

definition GetOpenOrders ::
  "string \<Rightarrow> nat \<Rightarrow> ('d, string + 'd order_data option list) prog" where
  "GetOpenOrders marketId profileId =
     Request (as_list (as_ptr as_order)) PROFILE_INSTANCE GET_OPEN_ORDERS
     [VUint profileId, VString marketId]"

definition GetPlacedOrders ::
  "cluster \<Rightarrow> string \<Rightarrow> nat option \<Rightarrow>
      ('d, string + 'd order_data option list) prog" where
  "GetPlacedOrders IC marketID profileID =
     withMarket IC marketID (\<lambda>inst.
     Request (as_list (as_ptr as_order)) (ic_Title inst) GET_ALL_ORDERS2
     [opt_val VUint profileID, VString PLACED, VNil])"

definition GetCandles ::
  "string \<Rightarrow> nat \<Rightarrow> int \<Rightarrow> int \<Rightarrow>
      ('d, string + 'd gval list option list) prog" where
  "GetCandles market_id period time_from time_to =
     Request (as_list (as_ptr (as_struct ''CandleData''))) market_id GET_CANDLES
     [VUint period, VInt time_from, VInt time_to]"

definition GetExchangeData :: "('d, string + 'd gval list option) prog" where
  "GetExchangeData =
     Request (as_ptr (as_struct ''ExchangeData'')) PROFILE_INSTANCE GET_EXCHANGE_DATA
     []"

definition GetProfileCache ::
  "nat \<Rightarrow> ('d, string + 'd profile_cache option) prog" where
  "GetProfileCache profile_id =
     Request (as_ptr as_cache) PROFILE_INSTANCE GET_PROFILE_CACHE
     [VUint profile_id]"

definition InvalidateCache ::
  "nat \<Rightarrow> ('d, string + 'd profile_cache option) prog" where
  "InvalidateCache profileId =
     Request (as_ptr as_cache) PROFILE_INSTANCE INVALIDATE_CACHE
     [VUint profileId]"

definition InvalidateCacheAndNotify ::
  "nat \<Rightarrow> ('d, string + 'd profile_cache option) prog" where
  "InvalidateCacheAndNotify profileId =
     Request (as_ptr as_cache) PROFILE_INSTANCE INVALIDATE_CACHE_AND_NOTIFY
     [VUint profileId]"

definition GetExtendedProfiles ::
  "nat list \<Rightarrow> ('d, string + 'd gval list option list) prog" where
  "GetExtendedProfiles profilesIds =
     Request (as_list (as_ptr (as_struct ''ExtendedProfile''))) PROFILE_INSTANCE GET_EXTENDED_PROFILES
     [VList (map VUint profilesIds)]"

definition ArchiverGetNextBatch ::
  "string \<Rightarrow> string \<Rightarrow> nat \<Rightarrow> nat \<Rightarrow>
      ('d, string + 'd gval list option) prog" where
  "ArchiverGetNextBatch instance space fromArchiveId limit =
     Request (as_ptr (as_struct ''NextBatchResponse'')) instance ARCHIVER_GET_NEXT_BATCH
     [VString space, VUint fromArchiveId, VUint limit]"

section \<open>Operations of the liquidation service\<close>

definition CreateInsuranceProfile ::
  "string \<Rightarrow> ('d, string + profile option) prog" where
  "CreateInsuranceProfile wallet =
     Request (as_ptr as_profile) PROFILE_INSTANCE CREATE_PROFILE
     [VString PROFILE_TYPE_INSURANCE, VString PROFILE_STATUS_ACTIVE, VString wallet,
      VString EXCHANGE_DEFAULT]"

definition HighPriorityCancelAll ::
  "nat \<Rightarrow> bool \<Rightarrow> ('d, string + unit) prog" where
  "HighPriorityCancelAll profile_id is_liquidation =
     Request_err as_any API_INSTANCE HIGH_PRIORITY_CANCEL_ALL
     [VUint profile_id, VBool is_liquidation]"

definition IsCancellAllAccepted :: "nat \<Rightarrow> ('d, string + bool) prog" where
  "IsCancellAllAccepted profile_id =
     Request as_bool API_INSTANCE IS_CANCEL_ALL_ACCEPTED
     [VUint profile_id]"

definition GetWinningPositions ::
  "cluster \<Rightarrow> string \<Rightarrow> string \<Rightarrow>
      ('d, string + 'd position_data option list) prog" where
  "GetWinningPositions IC market_id side =
     withMarket IC market_id (\<lambda>inst.
     Request (as_list (as_ptr as_position)) (ic_Title inst) GET_WINNING_POSITIONS
     [VString side])"

definition CachedIsInv3Valid :: "f64 \<Rightarrow> ('d, string + bool) prog" where
  "CachedIsInv3Valid inv3Buffer =
     Request as_bool PROFILE_INSTANCE CACHED_IS_INV3_VALID
     [VFloat inv3Buffer]"

definition IsInv3Valid :: "f64 \<Rightarrow> ('d, string + bool) prog" where
  "IsInv3Valid inv3Buffer =
     Request as_bool PROFILE_INSTANCE IS_INV3_VALID
     [VFloat inv3Buffer]"

definition QueueLiqActions :: "'d action list \<Rightarrow> ('d, string + unit) prog" where
  "QueueLiqActions actions =
     Request_err as_any API_INSTANCE QUEUE_LIQ_ACTIONS
     [VList (map VAction actions)]"

definition LiquidatedVaults :: "nat list \<Rightarrow> ('d, string + unit) prog" where
  "LiquidatedVaults vaultProfileIds =
     Request_err as_any API_INSTANCE PROFILE_LIQUIDATED_VAULTS
     [VList (map VUint vaultProfileIds)]"

definition LiquidationBatch ::
  "nat option \<Rightarrow> int \<Rightarrow>
      ('d, string + 'd profile_cache option list) prog" where
  "LiquidationBatch last_id_checked limit =
     Request (as_list (as_ptr as_cache)) PROFILE_INSTANCE LIQUIDATION_BATCH
     [opt_val VUint last_id_checked, VInt limit]"

definition ProfileUpdateStatus ::
  "nat \<Rightarrow> string \<Rightarrow> ('d, string + unit) prog" where
  "ProfileUpdateStatus profile_id new_status =
     Request_err as_any PROFILE_INSTANCE PROFILE_UPDATE_STATUS
     [VUint profile_id, VString new_status]"

definition ProfileUpdateLastLiqChecked :: "nat \<Rightarrow> ('d, string + int) prog" where
  "ProfileUpdateLastLiqChecked profile_id =
     Request as_int64 PROFILE_INSTANCE PROFILE_UPDATE_LAST_CHECKED
     [VUint profile_id]"

section \<open>Orders\<close>

text \<open>The optional amounts of an order become pointers to decimals; each conversion may panic.\<close>

definition opt_from_float ::
  "'d dec_lib \<Rightarrow> f64 option \<Rightarrow> ('d option \<Rightarrow> ('d, 'b) prog) \<Rightarrow> ('d, 'b) prog" where
  "opt_from_float D x k =
     (case x of None \<Rightarrow> k None | Some y \<Rightarrow> newFromFloat D y (\<lambda>d. k (Some d)))"

definition OrderCancel ::
  "nat \<Rightarrow> string \<Rightarrow> string \<Rightarrow> string \<Rightarrow> ('d, string + 'd gval list) prog" where
  "OrderCancel profile_id market_id order_id client_order_id =
     Request_order (as_struct ''OrderCancelRes'') API_INSTANCE ORDER_CANCEL
       [VUint profile_id, VString market_id, VString order_id, VString client_order_id]"

definition OrderAmend ::
  "'d dec_lib \<Rightarrow> nat \<Rightarrow> string \<Rightarrow> string \<Rightarrow> f64 option \<Rightarrow> f64 option \<Rightarrow> f64 option \<Rightarrow> f64 option \<Rightarrow>
   ('d, string + 'd gval list) prog" where
  "OrderAmend D profile_id market_id order_id new_price new_size new_trigger_price new_size_percent =
     opt_from_float D new_price (\<lambda>d_price.
     opt_from_float D new_size (\<lambda>d_size.
     opt_from_float D new_trigger_price (\<lambda>d_trigger_price.
     opt_from_float D new_size_percent (\<lambda>d_size_percent.
       Request_order (as_struct ''OrderAmendRes'') API_INSTANCE ORDER_AMEND
         [VUint profile_id, VString market_id, VString order_id,
          opt_val VDecimal d_price, opt_val VDecimal d_size,
          opt_val VDecimal d_trigger_price, opt_val VDecimal d_size_percent]))))"

definition OrderCreate ::
  "'d dec_lib \<Rightarrow> nat \<Rightarrow> string \<Rightarrow> string \<Rightarrow> string \<Rightarrow> f64 option \<Rightarrow> f64 option \<Rightarrow> string option \<Rightarrow>
   f64 option \<Rightarrow> f64 option \<Rightarrow> string option \<Rightarrow> matching_meta option \<Rightarrow>
   ('d, string + 'd gval list) prog" where
  "OrderCreate D profile_id market_id order_type side price sz client_order_id trigger_price
     size_percent time_in_force meta =
     opt_from_float D price (\<lambda>d_price.
     opt_from_float D sz (\<lambda>d_size.
     opt_from_float D trigger_price (\<lambda>d_trigger_price.
     opt_from_float D size_percent (\<lambda>d_size_percent.
       Request_order (as_struct ''OrderCreateRes'') API_INSTANCE ORDER_CREATE
         [VUint profile_id, VString market_id, VString order_type, VString side,
          opt_val VDecimal d_price, opt_val VDecimal d_size, opt_val VString client_order_id,
          opt_val VDecimal d_trigger_price, opt_val VDecimal d_size_percent,
          opt_val VString time_in_force, VNil, opt_val VMeta meta]))))"

definition OrderExecute :: "nat \<Rightarrow> string \<Rightarrow> string \<Rightarrow> ('d, string + 'd gval list) prog" where
  "OrderExecute profile_id market_id order_id =
     Request_order (as_struct ''OrderExecuteRes'') API_INSTANCE ORDER_EXECUTE
       [VUint profile_id, VString market_id, VString order_id]"

section \<open>Operations with more than a request\<close>

definition supportedProfileTypes :: "string list" where
  "supportedProfileTypes = [''trader'', ''vault'', ''insurance'', ''insurance'']"

definition CreateProfile ::
  "string \<Rightarrow> string \<Rightarrow> string \<Rightarrow> ('d, string + profile option) prog" where
  "CreateProfile profile_type wallet exchange_id =
     (if profile_type \<notin> set supportedProfileTypes
      then Return (Inl (''unsupported profile type = '' @ profile_type))
      else Request (as_ptr as_profile) PROFILE_INSTANCE CREATE_PROFILE
             [VString profile_type, VString PROFILE_STATUS_ACTIVE, VString wallet, VString exchange_id])"

text \<open>\<^verbatim>\<open>FundingPayment\<close>\<close>

record 'd funding_payment =
  fp_MarketId      :: string
  fp_ProfileId     :: nat
  fp_FundingAmount :: "'d option"

definition funding_payment_val :: "'d funding_payment \<Rightarrow> 'd gval" where
  "funding_payment_val p =
     VStruct ''FundingPayment''
       [VString (fp_MarketId p), VUint (fp_ProfileId p), opt_val VDecimal (fp_FundingAmount p)]"

definition PayFunding ::
  "'d dec_lib \<Rightarrow> cluster \<Rightarrow> string \<Rightarrow> 'd funding_payment list \<Rightarrow> int \<Rightarrow> f64 \<Rightarrow> f64 \<Rightarrow>
   ('d, string + unit) prog" where
  "PayFunding D IC market_id fundingPayments lastFundingUpdateTime totalLong totalShort =
     withMarket IC market_id (\<lambda>inst.
     newFromFloat D totalLong (\<lambda>d_total_long.
     newFromFloat D totalShort (\<lambda>d_total_short.
       Request_err as_any (ic_Title inst) PAY_FUNDING
         [VString market_id, VList (map funding_payment_val fundingPayments),
          VInt lastFundingUpdateTime, VDecimal d_total_long, VDecimal d_total_short])))"

text \<open>\<^verbatim>\<open>int64(leverage)\<close> of a \<^verbatim>\<open>uint\<close> keeps the bits.\<close>

definition int64_of_uint :: "nat \<Rightarrow> int" where
  "int64_of_uint n = (let m = int n mod 2 ^ 64 in if m < 2 ^ 63 then m else m - 2 ^ 64)"

definition UpdateLeverage ::
  "'d dec_lib \<Rightarrow> cluster \<Rightarrow> string \<Rightarrow> nat \<Rightarrow> nat \<Rightarrow> ('d, string + 'd option) prog" where
  "UpdateLeverage D IC market_id profile_id leverage =
     withMarket IC market_id (\<lambda>inst.
       let d_leverage = d_of_int D (int64_of_uint leverage) in
       onErr (Request (as_ptr as_decimal) (ic_Title inst) UPDATE_LEVERGAE
                [VUint profile_id, VString market_id, VDecimal d_leverage])
         (\<lambda>e. Return (Inl e))
         (\<lambda>new_leverage.
            onErr (Request (as_ptr as_cache) PROFILE_INSTANCE INVALIDATE_CACHE_AND_NOTIFY
                     [VUint profile_id])
              (\<lambda>e. Return (Inl e))
              (\<lambda>_. Return (Inr new_leverage))))"

definition GetProfilesMetaAfterTs ::
  "cluster \<Rightarrow> string \<Rightarrow> int \<Rightarrow> ('d, string + 'd gval list option list) prog" where
  "GetProfilesMetaAfterTs IC marketId unixMicroTs =
     withMarket IC marketId (\<lambda>inst.
       Request (as_list (as_ptr (as_struct ''ProfileMeta''))) (ic_Title inst) GET_PROFILES_META_AFTER_TS
         [VFloat (f64_of_int unixMicroTs)])"

text \<open>The structs to store are passed as they are.\<close>

definition UpdateProfilesCachesAndMetas :: "'d gval list \<Rightarrow> ('d, string + unit) prog" where
  "UpdateProfilesCachesAndMetas dat =
     Request_err as_any PROFILE_INSTANCE UPDATE_PROFILES_CACHES_AND_METAS [VList dat]"

primrec UpdateInsuranceId :: "cluster \<Rightarrow> nat \<Rightarrow> string list \<Rightarrow> ('d, string + unit) prog" where
  "UpdateInsuranceId IC insurance_id [] = Return (Inr ())"
| "UpdateInsuranceId IC insurance_id (market_id # ms) =
     withMarket IC market_id (\<lambda>inst.
       onErr (Request as_any (ic_Title inst) PROFILE_UPDATE_INSURANCE_ID
                [VUint insurance_id, VString market_id])
         (\<lambda>e. Return (Inl e))
         (\<lambda>_. UpdateInsuranceId IC insurance_id ms))"

end
