(* ===== verification/Api_Context.thy ===== *)
theory Api_Context
  imports Model_Balance Model_Api
begin

text \<open>
  What the middlewares put in the context of a request (\<^verbatim>\<open>RabbitContext\<close> in
  \<^verbatim>\<open>api/middleware.go\<close>), and the pattern of the handlers that work under one of the
  locks of a profile: acquire it, answer an error when that fails, otherwise defer its release
  and go on. The locale \<open>scoped_lock\<close> is the contract of such a lock; what it gives (the lock is
  held throughout the body and not after it, whatever the body does) is proved once and holds
  for the stake, unstake and withdraw locks.
\<close>

section \<open>The context of a request\<close>

record payload =
  pl_Timestamp :: int
  pl_Data      :: "(string \<times> string) list"    \<comment> \<open>a map: its keys are distinct\<close>

record pagination =
  pg_Page  :: int
  pg_Limit :: int
  pg_Order :: string

record rabbit_context =
  rc_Timestamp         :: int
  rc_PKTimestamp       :: int
  rc_MarketMakerAPIKey :: string
  rc_Signature         :: string
  rc_PKSignature       :: string
  rc_IPHeader          :: string
  rc_Payload           :: "payload option"
  rc_Profile           :: "profile option"
  rc_Pagination        :: pagination
  rc_Signer            :: signer
  rc_RequiredRole      :: nat
  rc_ProfileIdFromJwt  :: nat
  rc_ExchangeId        :: string
  rc_ChainId           :: nat    \<comment> \<open>\<^verbatim>\<open>ExchangeCfg.ChainId\<close>\<close>
  rc_Meta              :: "matching_meta option"

text \<open>
  The body of a request: \<^verbatim>\<open>ShouldBindJSON\<close> gives a request or an error, which every handler
  answers at once.
\<close>

definition bindJSON :: "string + 'r \<Rightarrow> ('r \<Rightarrow> ('d, unit) prog) \<Rightarrow> ('d, unit) prog" where
  "bindJSON body k = (case body of Inl e \<Rightarrow> ErrorResponse e | Inr r \<Rightarrow> k r)"

lemma wp_bindJSON [simp]:
  "wp P Q (bindJSON body k) h \<longleftrightarrow>
     (\<forall>e. body = Inl e \<longrightarrow> wp P Q (ErrorResponse e) h) \<and> (\<forall>r. body = Inr r \<longrightarrow> wp P Q (k r) h)"
  by (cases body) (auto simp: bindJSON_def)

section \<open>Locks\<close>

definition with_lock ::
  "(nat \<Rightarrow> ('d, string + 'l) prog) \<Rightarrow> (nat \<Rightarrow> ('d, string + 'l) prog) \<Rightarrow> nat \<Rightarrow> string \<Rightarrow>
   ('d, unit) prog \<Rightarrow> ('d, unit) prog" where
  "with_lock acquire release pid denied body =
     onErr (acquire pid) (\<lambda>_. ErrorResponse denied)
       (\<lambda>_. deferring (andThen (release pid) (\<lambda>_. Return ())) body)"

text \<open>
  Whether a history leaves a lock held: the last call on it was an acquisition that was granted.
\<close>

fun holds :: "'d call \<Rightarrow> 'd call \<Rightarrow> ('d reply \<Rightarrow> bool) \<Rightarrow> 'd history \<Rightarrow> bool" where
  "holds acq rel granted [] = False"
| "holds acq rel granted ((c, ans) # h) =
     (if c = acq then granted (a_reply ans)
      else if c = rel then False
      else holds acq rel granted h)"

definition is_ok :: "'e + 'a \<Rightarrow> bool" where
  "is_ok r \<longleftrightarrow> (\<exists>x. r = Inr x)"

lemma is_ok_simps [simp]: "is_ok (Inr x)" "\<not> is_ok (Inl e)"
  by (auto simp: is_ok_def)

text \<open>
  A lock is acquired and released by one call each; the answer to an acquisition tells
  whether it was granted.
\<close>

locale scoped_lock =
  fixes acquire release :: "nat \<Rightarrow> ('d, string + 'l) prog"
    and acq rel :: "nat \<Rightarrow> 'd call"
    and decode :: "'d reply \<Rightarrow> string + 'l"
  assumes acquire_call: "acquire pid = Call (acq pid) (\<lambda>ans. Return (decode (a_reply ans)))"
    and release_call: "release pid = Call (rel pid) (\<lambda>ans. Return (decode (a_reply ans)))"
    and distinct_calls: "acq pid \<noteq> rel pid"
    and no_response: "acq pid \<noteq> Respond m" "rel pid \<noteq> Respond m"
begin

abbreviation granted :: "'d answer \<Rightarrow> bool" where
  "granted ans \<equiv> is_ok (decode (a_reply ans))"

abbreviation held :: "nat \<Rightarrow> 'd history \<Rightarrow> bool" where
  "held pid h \<equiv> holds (acq pid) (rel pid) (\<lambda>r. is_ok (decode r)) h"

text \<open>
  A body checked in a history where the lock is held gives a handler whose final history does
  not hold it, also when the body panics.
\<close>

lemma wp_with_lock:
  assumes acq: "P h (acq pid)"
    and denied: "\<And>ans a. \<not> granted ans \<Longrightarrow>
      P ((acq pid, ans) # h) (Respond (Failure msg)) \<and>
      Q ((Respond (Failure msg), a) # (acq pid, ans) # h) (Done ())"
    and body: "\<And>ans. granted ans \<Longrightarrow>
      wp P (\<lambda>h' r. P h' (rel pid) \<and> (\<forall>a. Q ((rel pid, a) # h') r)) body ((acq pid, ans) # h)"
  shows "wp P (\<lambda>h' r. \<not> held pid h' \<and> Q h' r) (with_lock acquire release pid msg body) h"
proof -
  have "wp P (\<lambda>h' r. \<not> held pid h' \<and> Q h' r)
          (deferring (andThen (release pid) (\<lambda>_. Return ())) body) ((acq pid, ans) # h)"
    if "granted ans" for ans
    unfolding wp_deferring
    by (rule wp_mono [OF body [OF that]])
      (auto simp: wp_andThen release_call distinct_calls [symmetric])
  then show ?thesis
    using acq denied no_response [of pid, symmetric]
    by (auto simp: with_lock_def wp_onErr acquire_call is_ok_def split: sum.split)
qed

lemma with_lock_releases:
  "wp (\<lambda>_ _. True) (\<lambda>h' _. \<not> held pid h') (with_lock acquire release pid msg body) h"
proof -
  have all: "wp (\<lambda>_ _. True) (\<lambda>_ _. True) p h'" for p :: "('d, unit) prog" and h'
    by (induction p arbitrary: h') auto
  have "wp (\<lambda>_ _. True) (\<lambda>h' r. \<not> held pid h' \<and> True) (with_lock acquire release pid msg body) h"
    by (rule wp_with_lock) (simp_all add: all)
  then show ?thesis by simp
qed

end

section \<open>The locks of a profile\<close>

abbreviation profile_call :: "string \<Rightarrow> nat \<Rightarrow> 'd call" where
  "profile_call fn pid \<equiv> Execute PROFILE_INSTANCE fn [VUint pid]"

interpretation stake_lock: scoped_lock AcquireStakeLock ReleaseStakeLock
  "profile_call ACQUIRE_STAKE_LOCK" "profile_call RELEASE_STAKE_LOCK"
  "decode_reply (as_ptr as_stake_lock)"
  by unfold_locales (simp_all add: AcquireStakeLock_def ReleaseStakeLock_def Request_def)

interpretation unstake_lock: scoped_lock AcquireUnstakeLock ReleaseUnstakeLock
  "profile_call ACQUIRE_UNSTAKE_LOCK" "profile_call RELEASE_UNSTAKE_LOCK"
  "decode_reply (as_ptr as_stake_lock)"
  by unfold_locales (simp_all add: AcquireUnstakeLock_def ReleaseUnstakeLock_def Request_def)

interpretation withdraw_lock: scoped_lock AcquireWithdrawLock ReleaseWithdrawLock
  "profile_call ACQUIRE_WITHDRAW_LOCK" "profile_call RELEASE_WITHDRAW_LOCK"
  "decode_reply (as_ptr as_withdraw_lock)"
  by unfold_locales (simp_all add: AcquireWithdrawLock_def ReleaseWithdrawLock_def Request_def)

end
