(* ===== verification/Airdrop.thy ===== *)
theory Airdrop
  imports Model_Airdrop Sql Api_Context
begin

text \<open>
  Airdrops: the contract that knows which claims were paid, the signature that lets a trader claim
  on the chain (\<^verbatim>\<open>airdrop/airdrop.go\<close>, \<^verbatim>\<open>airdrop/config.go\<close>), and the handlers of \<^verbatim>\<open>api/airdrop.go\<close>. The
  contract binding, the parser of its interface and the key management service are calls.
\<close>

section \<open>Configuration, contract and signatures\<close>

record airdrop_config =
  ad_ChainId          :: nat
  ad_L1AirdropAddress :: string
  ad_SignerKeyId      :: string

text \<open>The file is read by a library into the struct; its answer is an error or the three fields.\<close>

definition config_of :: "'d reply \<Rightarrow> string + airdrop_config" where
  "config_of r =
     (case r of
        BErr e \<Rightarrow> Inl e
      | BRows ((VList [VUint c, VString a, VString k], _) # _) \<Rightarrow>
          Inr \<lparr> ad_ChainId = c, ad_L1AirdropAddress = a, ad_SignerKeyId = k \<rparr>
      | BRows _ \<Rightarrow> Inr \<lparr> ad_ChainId = 0, ad_L1AirdropAddress = '''', ad_SignerKeyId = '''' \<rparr>)"

definition ReadConfig :: "('d, string + airdrop_config) prog" where
  "ReadConfig = Call (External ''airdrop.ReadConfig'' []) (\<lambda>ans. Return (config_of (a_reply ans)))"

text \<open>
  The attempts to connect: after each that fails the program sleeps, twice as long as before, also
  after the last one.
\<close>

primrec dialAirdrop_loop :: "nat \<Rightarrow> int \<Rightarrow> string \<Rightarrow> string \<Rightarrow> string \<Rightarrow> ('d, string + unit) prog" where
  "dialAirdrop_loop 0 sleepFor err providerUrl airdropAddress = Return (Inl (''Error dialing eth client: '' @ err))"
| "dialAirdrop_loop (Suc n) sleepFor err providerUrl airdropAddress =
     onErr (Call (EthDial providerUrl) (\<lambda>ans. Return (case a_error ans of None \<Rightarrow> Inr () | Some e \<Rightarrow> Inl e)))
       (\<lambda>e. sleep sleepFor (dialAirdrop_loop n (2 * sleepFor) e providerUrl airdropAddress))
       (\<lambda>_. onErr (sql_exec ''NewAirdropL1'' [VString airdropAddress])
          (\<lambda>e. sleep sleepFor (dialAirdrop_loop n (2 * sleepFor)
             (''Error creating contract instance: '' @ e) providerUrl airdropAddress))
          (\<lambda>_. Return (Inr ())))"

definition dialAirdrop :: "string \<Rightarrow> string \<Rightarrow> ('d, string + unit) prog" where
  "dialAirdrop providerUrl airdropAddress = dialAirdrop_loop 5 4000 '''' providerUrl airdropAddress"

definition stripPrefix :: "string \<Rightarrow> nat \<Rightarrow> string" where
  "stripPrefix s n = drop n s"

definition NewAirdropProvider :: "string \<Rightarrow> ('d, string + unit) prog" where
  "NewAirdropProvider providerUrl =
     onErr ReadConfig (\<lambda>e. Return (Inl (''Can't read airdrop config err='' @ e))) (\<lambda>cfg.
       let address = (if has_prefix (ad_L1AirdropAddress cfg) ''0x'' then stripPrefix (ad_L1AirdropAddress cfg) 2
                      else ad_L1AirdropAddress cfg) in
       onErr (sql_exec ''abi.JSON'' [])
         (\<lambda>e. Return (Inl (''Error retrieving L1 Airdrop core contract ABI: '' @ e))) (\<lambda>_.
       onErr (dialAirdrop providerUrl address) (\<lambda>e. Return (Inl (''dialAirdrop: '' @ e))) (\<lambda>_. Return (Inr ()))))"

text \<open>\<^verbatim>\<open>int64(id)\<close> of a \<^verbatim>\<open>uint\<close>\<close>

definition claim_key :: "nat \<Rightarrow> int" where
  "claim_key n = (let m = int n mod 2 ^ 64 in if m < 2 ^ 63 then m else m - 2 ^ 64)"

definition ProcessedClaims :: "nat \<Rightarrow> ('d, string + bool) prog" where
  "ProcessedClaims opsId =
     Call (External ''ProcessedClaims'' [VInt (claim_key opsId)]) (\<lambda>ans.
       Return (case a_error ans of Some e \<Rightarrow> Inl e | None \<Rightarrow> Inr (a_flag ans)))"

definition claimOpsAmountToStrpDecimals :: "'d dec_lib \<Rightarrow> 'd \<Rightarrow> int" where
  "claimOpsAmountToStrpDecimals D amount =
     d_big_int D (d_round D 0 (d_mul D amount (d_pow D (d_of_int D 10) (d_of_int D 18))))"

text \<open>The signature of the key management service, its two numbers as bytes\<close>

definition signature_of :: "'d reply \<Rightarrow> string + byte list \<times> byte list \<times> nat" where
  "signature_of r =
     (case r of
        BErr e \<Rightarrow> Inl e
      | BRows ((VList [VBytes x, VBytes y, VUint v], _) # _) \<Rightarrow> Inr (x, y, v)
      | BRows _ \<Rightarrow> Inr ([], [], 0))"

abbreviation sign_call :: "nat \<Rightarrow> string \<Rightarrow> int \<Rightarrow> 'd call" where
  "sign_call opsId wallet amount \<equiv> External ''KmsSignTypedData'' [VInt (claim_key opsId), VString wallet, VInt amount]"

definition NewAirdropSignature ::
  "'d dec_lib \<Rightarrow> nat \<Rightarrow> string \<Rightarrow> 'd \<Rightarrow> ('d, string + (byte list \<times> byte list \<times> nat) \<times> int) prog" where
  "NewAirdropSignature D opsId trader amount =
     onErr ReadConfig (\<lambda>e. Return (Inl (''Can't read airdrop config err='' @ e))) (\<lambda>cfg.
     onErr (sql_exec ''NewEIP712Signer'' [VString ''RabbitxAirdrop'', VString ''1'', VString (ad_L1AirdropAddress cfg),
              VUint (ad_ChainId cfg), VString (ad_SignerKeyId cfg)])
       (\<lambda>e. Return (Inl e)) (\<lambda>_.
     let bigIntAmount = claimOpsAmountToStrpDecimals D amount in
     onErr (Call (sign_call opsId trader bigIntAmount) (\<lambda>ans. Return (signature_of (a_reply ans))))
       (\<lambda>e. Return (Inl e)) (\<lambda>sig. Return (Inr (sig, bigIntAmount)))))"

section \<open>The handlers\<close>

definition hex_digit :: "nat \<Rightarrow> char" where
  "hex_digit n = (''0123456789abcdef'' ! n)"

text \<open>\<^verbatim>\<open>Sprintf("0x%x", bytes)\<close>\<close>

definition hex_bytes :: "byte list \<Rightarrow> string" where
  "hex_bytes bs = ''0x'' @ concat (map (\<lambda>b. [hex_digit (unat b div 16), hex_digit (unat b mod 16)]) bs)"

text \<open>\<^verbatim>\<open>common.IsHexAddress\<close> of the Ethereum library is the parameter \<open>isAddr\<close>.\<close>

definition signClaimOps ::
  "'d dec_lib \<Rightarrow> (string \<Rightarrow> bool) \<Rightarrow> 'd claim_ops \<Rightarrow> string \<Rightarrow> ('d, string + 'd gval) prog" where
  "signClaimOps D isAddr claimOps wallet =
     (if \<not> isAddr wallet then Return (Inl ''INVALID_WALLET'')
      else onErr (NewAirdropSignature D (co_Id claimOps) wallet (co_Amount claimOps)) (\<lambda>e. Return (Inl e))
        (\<lambda>((x, y, v), bigIntAmount).
          Return (Inr (VStruct ''ClaimAllResponse''
            [claim_val claimOps, VString (show_int bigIntAmount), VString (hex_bytes x), VString (hex_bytes y), VUint v]))))"

definition AIRDROP_CLAIMED_STATUS :: string where
  "AIRDROP_CLAIMED_STATUS = ''claimed''"

text \<open>A claim that the contract has paid is finished; the answer's status tells whether it was.\<close>

definition finish_claimed :: "nat \<Rightarrow> ('d, unit) prog \<Rightarrow> ('d, unit) prog" where
  "finish_claimed pid p =
     onErr (FinishClaim pid) ErrorResponse (\<lambda>claimOps.
     deref claimOps (\<lambda>claimOps.
       if co_Status claimOps \<noteq> AIRDROP_CLAIMED_STATUS then ErrorResponse ''CLAIM_FINISH_FAILED'' else p))"

text \<open>The amount that waits for its transaction is shown as claimable again.\<close>

definition show_pending :: "'d dec_lib \<Rightarrow> 'd claim_ops \<Rightarrow> 'd profile_airdrop \<Rightarrow> 'd profile_airdrop" where
  "show_pending D o1 a =
     (if pa_AirdropTitle a = co_AirdropTitle o1
      then a \<lparr>pa_Claimable := co_Amount o1, pa_Claimed := d_sub D (pa_Claimed a) (co_Amount o1)\<rparr> else a)"

text \<open>The list may hold nil pointers: the replacement reads through each of them.\<close>

primrec show_all_pending ::
  "'d dec_lib \<Rightarrow> 'd claim_ops \<Rightarrow> 'd profile_airdrop option list \<Rightarrow> ('d profile_airdrop option list \<Rightarrow> ('d, unit) prog) \<Rightarrow>
   ('d, unit) prog" where
  "show_all_pending D o1 [] k = k []"
| "show_all_pending D o1 (a # as) k = deref a (\<lambda>a. show_all_pending D o1 as (\<lambda>as. k (Some (show_pending D o1 a) # as)))"

definition list_airdrops :: "'d dec_lib \<Rightarrow> nat \<Rightarrow> ('d, unit) prog" where
  "list_airdrops D pid =
     onErr (GetProfileAirdrops pid) ErrorResponse (\<lambda>res.
     onErr (PendingClaimOps pid) ErrorResponse (\<lambda>pending.
       case pending of
         None \<Rightarrow> SuccessResponse (map (opt_val airdrop_val) res)
       | Some claimOps \<Rightarrow> show_all_pending D claimOps res (\<lambda>res. SuccessResponse (map (opt_val airdrop_val) res))))"

definition HandleAirdropList :: "'d dec_lib \<Rightarrow> string \<Rightarrow> 'm rabbit_context_scheme \<Rightarrow> ('d, unit) prog" where
  "HandleAirdropList D providerUrl ctx =
     deref (rc_Profile ctx) (\<lambda>profile.
     let pid = pr_ProfileId profile in
     onErr (UpdateAllProfileAirdrops pid) ErrorResponse (\<lambda>_.
     onErr (NewAirdropProvider providerUrl) ErrorResponse (\<lambda>_.
     onErr (PendingClaimOps pid) ErrorResponse (\<lambda>pending.
       case pending of
         None \<Rightarrow> list_airdrops D pid
       | Some claimOps \<Rightarrow>
           onErr (ProcessedClaims (co_Id claimOps)) ErrorResponse (\<lambda>claimed.
             if claimed then finish_claimed pid (list_airdrops D pid) else list_airdrops D pid)))))"

definition create_claim ::
  "'d dec_lib \<Rightarrow> (string \<Rightarrow> bool) \<Rightarrow> profile \<Rightarrow> string \<Rightarrow> ('d, unit) prog" where
  "create_claim D isAddr profile title =
     onErr (ProfileClaimAll (pr_ProfileId profile) title) ErrorResponse (\<lambda>claimOps.
     deref claimOps (\<lambda>claimOps.
     onErr (signClaimOps D isAddr claimOps (pr_Wallet profile)) ErrorResponse (\<lambda>res. SuccessResponse [res])))"

definition HandleClaimAll ::
  "'d dec_lib \<Rightarrow> (string \<Rightarrow> bool) \<Rightarrow> string \<Rightarrow> 'm rabbit_context_scheme \<Rightarrow> string + string \<Rightarrow> ('d, unit) prog" where
  "HandleClaimAll D isAddr providerUrl ctx body = bindJSON body (\<lambda>title.
     onErr (NewAirdropProvider providerUrl) ErrorResponse (\<lambda>_.
     deref (rc_Profile ctx) (\<lambda>profile.
     let pid = pr_ProfileId profile in
     onErr (PendingClaimOps pid) ErrorResponse (\<lambda>pending.
       case pending of
         None \<Rightarrow> create_claim D isAddr profile title
       | Some claimOps \<Rightarrow>
           onErr (ProcessedClaims (co_Id claimOps)) ErrorResponse (\<lambda>claimed.
             if \<not> claimed
             then if co_AirdropTitle claimOps \<noteq> title then ErrorResponse ''PENDING_CLAIM_EXIST''
                  else onErr (signClaimOps D isAddr claimOps (pr_Wallet profile)) ErrorResponse
                         (\<lambda>res. SuccessResponse [res])
             else finish_claimed pid (create_claim D isAddr profile title))))))"

record reset_airdrop_request =
  ra_Title          :: string
  ra_StartTimestamp :: int
  ra_EndTimestamp   :: int
  ra_ProfileId      :: nat
  ra_TotalRewards   :: f64
  ra_Claimable      :: f64

definition HandleResetAirdrop :: "'d dec_lib \<Rightarrow> string + reset_airdrop_request \<Rightarrow> ('d, unit) prog" where
  "HandleResetAirdrop D body = bindJSON body (\<lambda>r.
     onErr (TestAirdropResetAll D (ra_Title r) (ra_StartTimestamp r) (ra_EndTimestamp r) (ra_ProfileId r)
              (ra_TotalRewards r) (ra_Claimable r))
       ErrorResponse (\<lambda>_. SuccessResponse []))"

definition HandleCreateAirdrop :: "string + string \<times> int \<times> int \<Rightarrow> ('d, unit) prog" where
  "HandleCreateAirdrop body = bindJSON body (\<lambda>(title, startTimestamp, endTimestamp).
     onErr (CreateAirdrop title startTimestamp endTimestamp) ErrorResponse
       (\<lambda>res. SuccessResponse [opt_val (VStruct ''Airdrop'') res]))"

record init_airdrop_request =
  ia_AirdropTitle :: string
  ia_ProfileId    :: nat
  ia_TotalRewards :: f64
  ia_Claimable    :: f64

definition HandleInitProfileAirdrop :: "'d dec_lib \<Rightarrow> string + init_airdrop_request \<Rightarrow> ('d, unit) prog" where
  "HandleInitProfileAirdrop D body = bindJSON body (\<lambda>r.
     onErr (SetProfileTotal D (ia_ProfileId r) (ia_AirdropTitle r) (ia_TotalRewards r) (ia_Claimable r)) ErrorResponse
       (\<lambda>res. SuccessResponse [opt_val airdrop_val res]))"

definition HandleUpdateProfileClaimable :: "string + string \<times> nat \<Rightarrow> ('d, unit) prog" where
  "HandleUpdateProfileClaimable body = bindJSON body (\<lambda>(title, profileId).
     onErr (UpdateProfileClaimable profileId title) ErrorResponse (\<lambda>res. SuccessResponse [opt_val airdrop_val res]))"

end
