(* ===== verification/Api_Balance.thy ===== *)
theory Api_Balance
  imports Api_Context
begin

text \<open>
  The HTTP handlers on balances (\<^verbatim>\<open>api/balance.go\<close>): deposits, stakes, unstakes, vaults and
  withdrawals. A handler takes the context of the request and its decoded body, makes its
  calls to the profile instance in the order of the code and writes one response. The second
  half states when the profile instance is asked to create a withdrawal or a stake, and that
  the lock of a profile is released on every path.
\<close>

section \<open>Requests\<close>

record deposit_request =
  dr_TxHash :: string
  dr_Amount :: f64

record processing_withdrawal_request =
  pwr_Id     :: string
  pwr_TxHash :: string

record init_vault_request =
  iv_VaultWallet     :: string
  iv_ManagerWallet   :: string
  iv_TreasurerWallet :: string
  iv_PerformanceFee  :: f64

record stake_request =
  sr_VaultWallet :: string
  sr_TxHash      :: string
  sr_Amount      :: f64

record unstake_request =
  ur_VaultWallet :: string
  ur_Shares      :: f64

record process_unstakes_request =
  pu_VaultWallet :: string
  pu_FromId      :: nat
  pu_ToId        :: nat

text \<open>\<^verbatim>\<open>WithdrawalRequest\<close> is its amount, \<^verbatim>\<open>BalanceOpsIdRequest\<close> and \<^verbatim>\<open>ReactivateVaultRequest\<close> their
  string.\<close>

section \<open>Deposits and stakes\<close>

text \<open>\<^verbatim>\<open>p != nil && p.Type == PROFILE_TYPE_VAULT\<close>\<close>

definition is_vault :: "profile option \<Rightarrow> bool" where
  "is_vault p = (case p of None \<Rightarrow> False | Some q \<Rightarrow> pr_Type q = PROFILE_TYPE_VAULT)"

definition HandleDeposit ::
  "'d dec_lib \<Rightarrow> rabbit_context \<Rightarrow> string + deposit_request \<Rightarrow> ('d, unit) prog" where
  "HandleDeposit D ctx body =
     bindJSON body (\<lambda>request.
     if is_vault (rc_Profile ctx) then ErrorResponse ''NOT_ALLOWED_FOR_VAULT''
     else
       newFromFloat D (RoundDownToUsdtTick (dr_Amount request)) (\<lambda>amount.
       deref (rc_Profile ctx) (\<lambda>profile.
       onErr (CreateDeposit (pr_ProfileId profile) (pr_Wallet profile) (Some amount)
                (dr_TxHash request) (rc_ExchangeId ctx) (rc_ChainId ctx))
         ErrorResponse (\<lambda>res.
       onErr (InvalidateCacheAndNotify (pr_ProfileId profile))
         ErrorResponse (\<lambda>_.
       SuccessResponse [opt_val VOps res])))))"

definition HandleStake ::
  "'d dec_lib \<Rightarrow> rabbit_context \<Rightarrow> string + stake_request \<Rightarrow> ('d, unit) prog" where
  "HandleStake D ctx body =
     bindJSON body (\<lambda>request.
     deref (rc_Profile ctx) (\<lambda>stakerProfile.
     with_lock AcquireStakeLock ReleaseStakeLock (pr_ProfileId stakerProfile)
       ''STAKE_UNAVAILABLE_LOCK_ACQUIRE_ERROR''
       (if pr_Type stakerProfile = PROFILE_TYPE_VAULT then ErrorResponse ''NOT_ALLOWED_FOR_VAULT''
        else
          let vaultWallet = GetWalletStringInRabbitTntStandardFormat (sr_VaultWallet request) in
          onErr (GetProfileByWalletForExchangeId vaultWallet (rc_ExchangeId ctx))
            (\<lambda>e. ErrorResponse (''GET_VAULT_PROFILE_ERROR '' @ e)) (\<lambda>vaultProfile.
          if \<not> is_vault vaultProfile
          then ErrorResponse (''STAKE_TARGET_IS_NOT_A_VAULT '' @ vaultWallet)
          else
            onErr (CreateStake D stakerProfile vaultWallet (sr_Amount request) (sr_TxHash request)
                     (rc_ExchangeId ctx) (rc_ChainId ctx))
              (\<lambda>_. ErrorResponse ''CREATE_STAKE_ERROR'') (\<lambda>bop.
            onErr (InvalidateCacheAndNotify (pr_ProfileId stakerProfile))
              (\<lambda>_. ErrorResponse ''STAKE_CACHE_ERROR'') (\<lambda>_.
            SuccessResponse [opt_val VOps bop]))))))"

text \<open>
  Two of the checks of this handler answer an error without returning: the funds of the staker
  and the type of the target. The code goes on after them.
\<close>

definition HandleStakeFromBalance ::
  "'d dec_lib \<Rightarrow> rabbit_context \<Rightarrow> string + stake_request \<Rightarrow> ('d, unit) prog" where
  "HandleStakeFromBalance D ctx body =
     bindJSON body (\<lambda>request.
     deref (rc_Profile ctx) (\<lambda>stakerProfile.
     with_lock AcquireWithdrawLock ReleaseWithdrawLock (pr_ProfileId stakerProfile)
       ''STAKE_UNAVAILABLE_LOCK_ACQUIRE_ERROR''
       (newFromFloat D (sr_Amount request) (\<lambda>amount.
        onErr (InvalidateCache (pr_ProfileId stakerProfile)) ErrorResponse (\<lambda>cache.
        deref cache (\<lambda>stakerCache.
        deref (pc_WithdrawableBalance stakerCache) (\<lambda>withdrawable.
        andThen (if d_lt D withdrawable amount then ErrorResponse ''NOT_ENOUGH_FUNDS'' else Return ())
          (\<lambda>_.
        let vaultWallet = GetWalletStringInRabbitTntStandardFormat (sr_VaultWallet request) in
        onErr (GetProfileByWalletForExchangeId vaultWallet (rc_ExchangeId ctx)) ErrorResponse (\<lambda>vaultProfile.
        andThen (if \<not> is_vault vaultProfile
                 then ErrorResponse (''STAKE_TARGET_IS_NOT_A_VAULT, wallet='' @ vaultWallet)
                 else Return ())
          (\<lambda>_.
        deref vaultProfile (\<lambda>vault.
        onErr (InvalidateCache (pr_ProfileId vault)) ErrorResponse (\<lambda>cache.
        deref cache (\<lambda>vaultCache.
        let stake = \<lparr> stk_Id = '''', stk_VaultProfileId = pr_ProfileId vault,
              stk_VaultWallet = vaultWallet, stk_Amount = Some amount,
              stk_CurrentNav = pc_AccountEquity vaultCache, stk_Tx = '''' \<rparr> in
        onErr (ProcessStake (pr_ProfileId stakerProfile) stake True (rc_ExchangeId ctx))
          (\<lambda>_. ErrorResponse ''STAKE_FROM_BALANCE_ERROR'') (\<lambda>bop.
        onErr (InvalidateCacheAndNotify (pr_ProfileId stakerProfile))
          (\<lambda>_. ErrorResponse ''STAKE_CACHE_ERROR'') (\<lambda>_.
        SuccessResponse [opt_val VOps bop])))))))))))))))"

section \<open>Unstakes\<close>

definition BeginUnstake ::
  "'d dec_lib \<Rightarrow> rabbit_context \<Rightarrow> string + unstake_request \<Rightarrow> ('d, unit) prog" where
  "BeginUnstake D ctx body =
     bindJSON body (\<lambda>request.
     newFromFloat D (ur_Shares request) (\<lambda>shares.
     deref (rc_Profile ctx) (\<lambda>unstakerProfile.
     with_lock AcquireUnstakeLock ReleaseUnstakeLock (pr_ProfileId unstakerProfile)
       ''UNSTAKE_UNAVAILABLE_LOCK_ACQUIRE_ERROR''
       (let wallet = GetWalletStringInRabbitTntStandardFormat (ur_VaultWallet request) in
        onErr (GetProfileByWalletForExchangeId wallet (rc_ExchangeId ctx))
          (\<lambda>e. ErrorResponse (''GET_VAULT_PROFILE_ERROR '' @ e @ '', wallet='' @ wallet @
                 '', exchange_id='' @ rc_ExchangeId ctx))
          (\<lambda>vaultProfile.
        if \<not> is_vault vaultProfile
        then ErrorResponse (''UNSTAKE_TARGET_IS_NOT_A_VAULT '' @ wallet)
        else
          deref vaultProfile (\<lambda>vault.
          onErr (CreateUnstake (pr_ProfileId unstakerProfile) (pr_ProfileId vault) wallet
                   (Some shares) (rc_ExchangeId ctx) (rc_ChainId ctx))
            ErrorResponse (\<lambda>res.
          SuccessResponse [opt_val VOps res])))))))"

definition InitVault_handler ::
  "'d dec_lib \<Rightarrow> rabbit_context \<Rightarrow> string + init_vault_request \<Rightarrow> ('d, unit) prog" where
  "InitVault_handler D ctx body =
     bindJSON body (\<lambda>request.
     let vaultWallet = GetWalletStringInRabbitTntStandardFormat (iv_VaultWallet request) in
     onErr (GetProfileByWalletForExchangeId vaultWallet (rc_ExchangeId ctx))
       (\<lambda>e. ErrorResponse (''GET_VAULT_PROFILE_ERROR '' @ e)) (\<lambda>vaultProfile.
     if \<not> is_vault vaultProfile
     then ErrorResponse (''INIT_TARGET_IS_NOT_A_VAULT '' @ vaultWallet)
     else
       deref vaultProfile (\<lambda>vault.
       deref (rc_Profile ctx) (\<lambda>profile.
       if pr_ProfileId vault \<noteq> pr_ProfileId profile
       then ErrorResponse (''NOT_AUTHORISED_TO_INIT_VAULT profile_id='' @
              show_nat (pr_ProfileId profile) @ '', vault profile_id='' @ show_nat (pr_ProfileId vault))
       else
         let managerWallet = GetWalletStringInRabbitTntStandardFormat (iv_ManagerWallet request) in
         onErr (GetProfileByWalletForExchangeId managerWallet (rc_ExchangeId ctx))
           (\<lambda>e. ErrorResponse (''GET_VAULT_MANAGER_PROFILE_ERROR '' @ e)) (\<lambda>managerProfile.
         case managerProfile of
           None \<Rightarrow> ErrorResponse (''VAULT_MANAGER_PROFILE_NOT_FOUND '' @ managerWallet)
         | Some manager \<Rightarrow>
             let treasurerWallet = GetWalletStringInRabbitTntStandardFormat (iv_TreasurerWallet request) in
             onErr (GetProfileByWalletForExchangeId treasurerWallet (rc_ExchangeId ctx))
               (\<lambda>e. ErrorResponse (''GET_VAULT_TREASURER_PROFILE_ERROR '' @ e)) (\<lambda>treasurerProfile.
             case treasurerProfile of
               None \<Rightarrow> ErrorResponse (''VAULT_TREASURER_PROFILE_NOT_FOUND '' @ treasurerWallet)
             | Some treasurer \<Rightarrow>
                 onErr (InitVault D (pr_ProfileId profile) (pr_ProfileId manager)
                          (pr_ProfileId treasurer) (iv_PerformanceFee request))
                   (\<lambda>e. ErrorResponse (''INIT_VAULT_FAILED: '' @ e))
                   (\<lambda>_. SuccessResponse [VString ''''])))))))"

definition ReactivateVault_handler ::
  "rabbit_context \<Rightarrow> string + string \<Rightarrow> ('d, unit) prog" where
  "ReactivateVault_handler ctx body =
     bindJSON body (\<lambda>request_VaultWallet.
     let vaultWallet = GetWalletStringInRabbitTntStandardFormat request_VaultWallet in
     onErr (GetProfileByWalletForExchangeId vaultWallet (rc_ExchangeId ctx))
       (\<lambda>e. ErrorResponse (''GET_VAULT_PROFILE_ERROR '' @ e)) (\<lambda>vaultProfile.
     if \<not> is_vault vaultProfile
     then ErrorResponse (''REACTIVATE_TARGET_IS_NOT_A_VAULT '' @ vaultWallet)
     else
       deref vaultProfile (\<lambda>vault.
       deref (rc_Profile ctx) (\<lambda>profile.
       if pr_ProfileId vault \<noteq> pr_ProfileId profile
       then ErrorResponse (''NOT_VAULT_MANAGER profile_id='' @ show_nat (pr_ProfileId profile))
       else
         onErr (GetVaultInfo (pr_ProfileId vault))
           (\<lambda>e. ErrorResponse (''GET_VAULT_INFO_ERROR '' @ e)) (\<lambda>info.
         case info of
           None \<Rightarrow> ErrorResponse ''VAULT_PROFILE_NOT_FOUND''
         | Some vaultInfo \<Rightarrow>
             if vi_Status vaultInfo = ''active''
             then ErrorResponse (''VAULT_ALREADY_ACTIVE '' @ show_nat (pr_ProfileId vault))
             else
               onErr (ReactivateVault (pr_ProfileId profile))
                 (\<lambda>e. ErrorResponse (''REACTIVATE_VAULT_FAILED: '' @ e))
                 (\<lambda>_. SuccessResponse [VString '''']))))))"

text \<open>The answers of the cache refreshes at the end are ignored.\<close>

definition refreshAll :: "nat list \<Rightarrow> ('d, unit) prog" where
  "refreshAll ids = forEach ids (\<lambda>pid. ignoring (InvalidateCacheAndNotify pid))"

definition ProcessUnstakes_handler ::
  "'d dec_lib \<Rightarrow> rabbit_context \<Rightarrow> string + process_unstakes_request \<Rightarrow> ('d, unit) prog" where
  "ProcessUnstakes_handler D ctx body =
     bindJSON body (\<lambda>request.
     let vaultWallet = GetWalletStringInRabbitTntStandardFormat (pu_VaultWallet request) in
     onErr (GetProfileByWalletForExchangeId vaultWallet (rc_ExchangeId ctx))
       (\<lambda>e. ErrorResponse (''GET_VAULT_PROFILE_ERROR '' @ e)) (\<lambda>vaultProfile.
     if \<not> is_vault vaultProfile
     then ErrorResponse (''PROCESS_UNSTAKES_TARGET_IS_NOT_A_VAULT '' @ vaultWallet)
     else
       deref vaultProfile (\<lambda>vault.
       deref (rc_Profile ctx) (\<lambda>profile.
       if pr_ProfileId vault \<noteq> pr_ProfileId profile
       then ErrorResponse (''NOT_VAULT_MANAGER profile_id='' @ show_nat (pr_ProfileId profile))
       else
         with_lock AcquireWithdrawLock ReleaseWithdrawLock (pr_ProfileId vault)
           ''PROCESS_UNSTAKES_UNAVAILABLE_LOCK_ACQUIRE_ERROR''
           (onErr (GetVaultInfo (pr_ProfileId vault))
              (\<lambda>e. ErrorResponse (''GET_VAULT_INFO_ERROR '' @ e)) (\<lambda>info.
            case info of
              None \<Rightarrow> ErrorResponse ''VAULT_PROFILE_NOT_FOUND''
            | Some vaultInfo \<Rightarrow>
                if vi_Status vaultInfo \<noteq> ''active''
                then ErrorResponse (''VAULT_NOT_ACTIVE '' @ show_nat (pr_ProfileId vault))
                else if 0 \<le> d_cmp D (vi_PerformanceFee vaultInfo) (d_of_int D 1)
                     \<or> d_cmp D (vi_PerformanceFee vaultInfo) (d_of_int D 0) < 0
                then ErrorResponse (''WRONG_PERFORMANCE_FEE '' @ d_string D (vi_PerformanceFee vaultInfo) @
                       '' for vault '' @ show_nat (pr_ProfileId vault))
                else
                  onErr (InvalidateCache (pr_ProfileId vault))
                    (\<lambda>e. ErrorResponse (''PROCESS_UNSTAKES_CACHE_ERROR: '' @ e)) (\<lambda>cache.
                  deref cache (\<lambda>vaultCache.
                  onErr (ProcessUnstakes (pr_ProfileId vault) (pu_FromId request) (pu_ToId request)
                           (pc_AccountEquity vaultCache) (pc_WithdrawableBalance vaultCache)
                           (Some (vi_PerformanceFee vaultInfo)) (vi_TreasurerProfileId vaultInfo)
                           (Some (vi_TotalShares vaultInfo)) (rc_ExchangeId ctx))
                    (\<lambda>e. ErrorResponse (''PROCESS_UNSTAKES_FAILED: '' @ e)) (\<lambda>ids.
                  andThen (ignoring (InvalidateCacheAndNotify (pr_ProfileId vault))) (\<lambda>_.
                  andThen (refreshAll ids) (\<lambda>_.
                  SuccessResponse [VString ''''])))))))))))"

definition CancelUnstake_handler :: "rabbit_context \<Rightarrow> string + string \<Rightarrow> ('d, unit) prog" where
  "CancelUnstake_handler ctx body =
     bindJSON body (\<lambda>request_Id.
     deref (rc_Profile ctx) (\<lambda>profile.
     with_lock AcquireWithdrawLock ReleaseWithdrawLock (pr_ProfileId profile)
       ''CANCEL_UNSTAKE_UNAVAILABLE_LOCK_ACQUIRE_ERROR''
       (onErr (CancelUnstake (pr_ProfileId profile) request_Id)
          (\<lambda>e. ErrorResponse (''CANCEL_UNSTAKE_FAILED: '' @ e)) (\<lambda>_.
        onErr (InvalidateCacheAndNotify (pr_ProfileId profile))
          (\<lambda>_. ErrorResponse ''UNSTAKE_CACHE_ERROR'') (\<lambda>_.
        SuccessResponse [VString ''''])))))"

definition HandleRequestedUnstakesList :: "rabbit_context \<Rightarrow> ('d, unit) prog" where
  "HandleRequestedUnstakesList ctx =
     (if \<not> is_vault (rc_Profile ctx) then ErrorResponse ''ONLY_ALLOWED_FOR_VAULT''
      else
        deref (rc_Profile ctx) (\<lambda>profile.
        onErr (GetRequestedUnstakes (pr_ProfileId profile)) ErrorResponse (\<lambda>res.
        SuccessResponse (map (opt_val VOps) res))))"

section \<open>Withdrawals\<close>

text \<open>The body of \<^verbatim>\<open>HandleWithdrawal\<close> under the lock\<close>

definition withdraw_locked ::
  "'d dec_lib \<Rightarrow> rabbit_context \<Rightarrow> profile \<Rightarrow> f64 \<Rightarrow> ('d, unit) prog" where
  "withdraw_locked D ctx profile request_Amount =
     andThen (CheckWithdrawAllowed (pr_ProfileId profile)) (\<lambda>is_allowed.
     if \<not> is_allowed then ErrorResponse ''WITHDRAW_UNAVAILABLE_PENDING_EXIST''
     else
       onErr (InvalidateCache (pr_ProfileId profile)) ErrorResponse (\<lambda>cache0.
       case cache0 of
         None \<Rightarrow> ErrorResponse ''WITHDRAW_UNAVAILABLE_CACHE_NOT_EXIST''
       | Some cache \<Rightarrow>
           onErr (CachedIsInv3Valid (f64_of_int 0)) ErrorResponse (\<lambda>valid.
           if \<not> valid then ErrorResponse ''INV3_BROKEN''
           else if f64_le request_Amount (f64_of_int 0) then ErrorResponse ''WRONG_AMOUNT''
           else
             deref (pc_WithdrawableBalance cache) (\<lambda>withdrawable.
             if d_le D withdrawable (d_of_int D 0) then ErrorResponse ''NOT_ENOUGH_FUNDS''
             else
               let available = RoundDownToUsdtTick (f64_min (d_to_float D withdrawable) request_Amount) in
               newFromFloat D available (\<lambda>amount.
               if d_lt D withdrawable amount then ErrorResponse ''NOT_ENOUGH_FUNDS''
               else
                 onErr (CreateWithdrawal (pr_ProfileId profile) (pr_Wallet profile) (Some amount)
                          (rc_ExchangeId ctx))
                   ErrorResponse (\<lambda>res.
                 onErr (InvalidateCacheAndNotify (pr_ProfileId profile))
                   (\<lambda>_. ErrorResponse ''WITHDRAW_CACHE_ERROR'') (\<lambda>_.
                 SuccessResponse [opt_val VOps res])))))))"

definition HandleWithdrawal ::
  "'d dec_lib \<Rightarrow> rabbit_context \<Rightarrow> string + f64 \<Rightarrow> ('d, unit) prog" where
  "HandleWithdrawal D ctx body =
     bindJSON body (\<lambda>request_Amount.
     deref (rc_Profile ctx) (\<lambda>profile.
     if pr_Status profile \<noteq> PROFILE_STATUS_ACTIVE then ErrorResponse ''PROFILE_NOT_ACTIVE''
     else
       with_lock AcquireWithdrawLock ReleaseWithdrawLock (pr_ProfileId profile)
         ''WITHDRAW_UNAVAILABLE_LOCK_ACQUIRE_ERROR''
         (withdraw_locked D ctx profile request_Amount)))"

definition ProcessingWithdrawal_handler ::
  "rabbit_context \<Rightarrow> string + processing_withdrawal_request \<Rightarrow> ('d, unit) prog" where
  "ProcessingWithdrawal_handler ctx body =
     bindJSON body (\<lambda>request.
     if is_vault (rc_Profile ctx) then ErrorResponse ''NOT_ALLOWED_FOR_VAULT''
     else
       deref (rc_Profile ctx) (\<lambda>profile.
       onErr (ProcessingWithdrawal (pr_ProfileId profile) (pwr_TxHash request) (pwr_Id request))
         ErrorResponse (\<lambda>_. SuccessResponse [VString ''''])))"

definition CancelWithdrawal_handler :: "rabbit_context \<Rightarrow> string + string \<Rightarrow> ('d, unit) prog" where
  "CancelWithdrawal_handler ctx body =
     bindJSON body (\<lambda>request_Id.
     deref (rc_Profile ctx) (\<lambda>profile.
     with_lock AcquireWithdrawLock ReleaseWithdrawLock (pr_ProfileId profile)
       ''CANCEL_WITHDRAWAL_UNAVAILABLE_LOCK_ACQUIRE_ERROR''
       (onErr (CancelWithdrawal (pr_ProfileId profile) request_Id) ErrorResponse (\<lambda>_.
        onErr (InvalidateCache (pr_ProfileId profile))
          (\<lambda>_. ErrorResponse ''CANCEL_WITHDRAWAL_UNAVAILABLE_CACHE_ERROR'') (\<lambda>_.
        onErr (CachedIsInv3Valid (f64_of_int 0)) ErrorResponse (\<lambda>valid.
        if \<not> valid then ErrorResponse ''INV3_BROKEN''
        else
          onErr (InvalidateCacheAndNotify (pr_ProfileId profile))
            (\<lambda>_. ErrorResponse ''CANCEL_WITHDRAWAL_UNAVAILABLE_CACHE_ERROR'') (\<lambda>_.
          SuccessResponse [VString ''''])))))))"

text \<open>The claim is answered with the signed withdrawal.\<close>

definition withdrawal_response_val :: "'d withdrawal_response \<Rightarrow> 'd gval" where
  "withdrawal_response_val r =
     VStruct ''WithdrawalResponse''
       [VOps (wr_Withdrawal r), VString (wr_BnAmount r), VString (wr_R r), VString (wr_S r), VUint (wr_V r)]"

definition ClaimWithdrawal_handler ::
  "'d dec_lib \<Rightarrow> rabbit_context \<Rightarrow> string + string \<Rightarrow> ('d, unit) prog" where
  "ClaimWithdrawal_handler D ctx body =
     bindJSON body (\<lambda>request_Id.
     deref (rc_Profile ctx) (\<lambda>profile.
     with_lock AcquireWithdrawLock ReleaseWithdrawLock (pr_ProfileId profile)
       ''CLAIM_WITHDRAWAL_UNAVAILABLE_LOCK_ACQUIRE_ERROR''
       (onErr (GetClaimWithdrawalResponse D (pr_ProfileId profile) (rc_Signer ctx) request_Id
                 (rc_ExchangeId ctx))
          ErrorResponse (\<lambda>resp. SuccessResponse [withdrawal_response_val resp]))))"

end
