(* ===== verification/Demo_Env.thy ===== *)
theory Demo_Env
  imports Api_Balance Sql
begin

text \<open>
  A concrete exchange for the examples: a trader (profile 7) with a withdrawable balance of 40,
  a vault (profile 9), and an environment that answers every call with success. Decimals are
  rationals.
\<close>

definition demo_trader :: profile where
  "demo_trader = \<lparr> pr_ProfileId = 7, pr_Type = ''trader'', pr_Status = ''active'',
     pr_Wallet = ''0xab'', pr_CreatedAt = 0, pr_ExchangeId = ''rbx'', pr_ShardId = '''',
     pr_ArchiveId = 0 \<rparr>"

definition demo_vault :: profile where
  "demo_vault = demo_trader \<lparr> pr_ProfileId := 9, pr_Type := ''vault'', pr_Wallet := ''0xcd'' \<rparr>"

definition demo_cache :: "rat profile_cache" where
  "demo_cache = \<lparr> pc_ProfileID = 7, pc_ProfileType = Some ''trader'', pc_Status = Some ''active'',
     pc_Wallet = None, pc_LastUpdate = None, pc_Balance = None, pc_AccountEquity = Some 100,
     pc_TotalPositionMargin = None, pc_TotalOrderMargin = None, pc_TotalNotional = None,
     pc_AccountMargin = None, pc_WithdrawableBalance = Some 40, pc_CumUnrealizedPnl = None,
     pc_Health = None, pc_AccountLeverage = None, pc_CumTradingVolume = None,
     pc_Leverage = (\<lambda>_. None), pc_LastLiqCheck = None, pc_ShardId = '''', pc_ArchiveId = 0 \<rparr>"

definition demo_vault_info :: "rat vault_info" where
  "demo_vault_info = \<lparr> vi_ProfileId = 9, vi_ManagerProfileId = 9, vi_TreasurerProfileId = 7,
     vi_PerformanceFee = 1 / 10, vi_Status = ''active'', vi_TotalShares = 1000, vi_VaultName = '''',
     vi_ManagerName = '''', vi_InitialisedAt = 0, vi_ShardId = '''', vi_ArchiveId = 0 \<rparr>"

definition demo_withdrawal :: "rat balance_ops" where
  "demo_withdrawal = \<lparr> bo_OpsId = ''w_12'', bo_Status = ''processing'', bo_Reason = '''', bo_Txhash = '''',
     bo_ProfileId = 7, bo_Wallet = ''0xab'', bo_Type = ''withdraw'', bo_Id2 = '''', bo_Amount = 5 / 2,
     bo_Timestamp = 0, bo_DueBlock = 0, bo_ExchangeId = ''rbx'', bo_ChainId = 1,
     bo_ContractAddress = '''', bo_ShardId = '''', bo_ArchiveId = 0 \<rparr>"

definition demo_context :: "profile \<Rightarrow> rabbit_context" where
  "demo_context p = \<lparr> rc_Timestamp = 0, rc_PKTimestamp = 0, rc_MarketMakerAPIKey = '''',
     rc_Signature = '''', rc_PKSignature = '''', rc_IPHeader = '''', rc_Payload = None,
     rc_Profile = Some p, rc_Pagination = \<lparr> pg_Page = 0, pg_Limit = 50, pg_Order = ''DESC'' \<rparr>,
     rc_Signer = (\<lambda>_ _ _. Inr (''1'', ''2'', 27)), rc_RequiredRole = 0, rc_ProfileIdFromJwt = 0,
     rc_ExchangeId = ''rbx'', rc_ChainId = 1, rc_Meta = None \<rparr>"

definition answer_with :: "'d reply \<Rightarrow> 'd answer" where
  "answer_with r = \<lparr> a_reply = r, a_time = 0, a_error = None, a_int = Inr 0, a_logs = Inr [],
     a_tx = Inr True, a_flag = False, a_block = 0 \<rparr>"

definition demo_value :: "string \<Rightarrow> rat gval" where
  "demo_value fn =
     (if fn = INVALIDATE_CACHE \<or> fn = INVALIDATE_CACHE_AND_NOTIFY then VCache demo_cache
      else if fn = CACHED_IS_INV3_VALID then VBool True
      else if fn = GET_PROFILE_BY_WALLET_FOR_EXCHANGE_ID then VProfile demo_vault
      else if fn = GET_VAULT_INFO then VVault demo_vault_info
      else if fn = CLAIM_WITHDRAWAL then VOps demo_withdrawal
      else VNil)"

fun demo_answer :: "rat call \<Rightarrow> rat answer" where
  "demo_answer (Execute i fn ps) = answer_with (BRows [(demo_value fn, '''')])"
| "demo_answer _ = answer_with (BRows [])"

definition demo_env :: "rat env" where
  "demo_env h c = demo_answer c"

text \<open>The history of the calls the environment answered.\<close>

definition demo_history :: "rat call list \<Rightarrow> rat history" where
  "demo_history cs = map (\<lambda>c. (c, demo_answer c)) cs"

lemma demo_history_simps [simp]:
  "demo_history [] = []" "demo_history (c # cs) = (c, demo_answer c) # demo_history cs"
  by (simp_all add: demo_history_def)

lemma answer_with_reply [simp]: "a_reply (answer_with r) = r"
  by (simp add: answer_with_def)

lemma demo_profiles [simp]:
  "pr_ProfileId demo_trader = 7" "pr_Type demo_trader = ''trader''" "pr_Status demo_trader = ''active''"
  "pr_Wallet demo_trader = ''0xab''" "pr_ProfileId demo_vault = 9" "pr_Type demo_vault = ''vault''"
  "pr_Status demo_vault = ''active''"
  by (simp_all add: demo_trader_def demo_vault_def)

lemma demo_fields [simp]:
  "pc_WithdrawableBalance demo_cache = Some 40" "pc_AccountEquity demo_cache = Some 100"
  "rc_Profile (demo_context p) = Some p" "rc_ExchangeId (demo_context p) = ''rbx''"
  "rc_ChainId (demo_context p) = 1" "rc_Signer (demo_context p) = (\<lambda>_ _ _. Inr (''1'', ''2'', 27))"
  "vi_Status demo_vault_info = ''active''" "vi_PerformanceFee demo_vault_info = 1 / 10"
  "vi_TreasurerProfileId demo_vault_info = 7" "vi_TotalShares demo_vault_info = 1000"
  by (simp_all add: demo_cache_def demo_context_def demo_vault_info_def)

lemma demo_withdrawal_fields [simp]:
  "bo_OpsId demo_withdrawal = ''w_12''" "bo_Wallet demo_withdrawal = ''0xab''"
  "bo_Amount demo_withdrawal = 5 / 2"
  by (simp_all add: demo_withdrawal_def)

lemma round_five [simp]: "RoundDownToUsdtTick (Finite False 5) = Finite False 5"
  unfolding RoundDownToUsdtTick_def RoundDownToTick_def USDT_TICK_value f64_le_def Let_def
  by (simp add: f64_eval Let_def)

lemma demo_amount [simp]:
  "f64_min (f64_lit 40) (Finite False 5) = Finite False 5"
  "f64_le (Finite False 5) (f64_of_int 0) = False"
  by (simp_all add: f64_eval Let_def f64_le_def)

lemma demo_strings [simp]:
  "GetWalletStringInRabbitTntStandardFormat ''0xcd'' = ''0xcd''"
  by (simp add: GetWalletStringInRabbitTntStandardFormat_def to_lower_def to_lower_char_def
      has_prefix_def Let_def)

lemmas demo_run_defs =
  bindJSON_def deref_def with_lock_def onErr_def Request_def newFromFloat_def orPanic_def Let_def
  demo_env_def decode_reply_def demo_value_def ErrorResponse_def respond_def SuccessResponse_def
  Request_err_def err_of_def

section \<open>A database driver\<close>

text \<open>
  A driver that reads every column by its kind, for the examples on the database: a number below
  zero is no unsigned integer, a null is only read through a pointer.
\<close>

definition demo_pgx :: "rat pgx_lib" where
  "demo_pgx = \<lparr>
     px_uint = (\<lambda>v. case v of VUint n \<Rightarrow> Inr n | VInt i \<Rightarrow> if 0 \<le> i then Inr (nat i) else Inl ''less than minimum value for uint64'' | _ \<Rightarrow> Inl ''cannot scan''),
     px_int = (\<lambda>v. case v of VInt i \<Rightarrow> Inr i | VUint n \<Rightarrow> Inr (int n) | _ \<Rightarrow> Inl ''cannot scan''),
     px_string = (\<lambda>v. case v of VString s \<Rightarrow> Inr s | _ \<Rightarrow> Inl ''cannot scan''),
     px_bool = (\<lambda>v. case v of VBool b \<Rightarrow> Inr b | _ \<Rightarrow> Inl ''cannot scan''),
     px_decimal = (\<lambda>v. case v of VDecimal d \<Rightarrow> Inr d | _ \<Rightarrow> Inl ''cannot scan''),
     px_float = (\<lambda>v. case v of VFloat x \<Rightarrow> Inr x | _ \<Rightarrow> Inl ''cannot scan''),
     px_time = (\<lambda>v. case v of VInt i \<Rightarrow> Inr i | _ \<Rightarrow> Inl ''cannot scan''),
     px_json = (\<lambda>v. Inr v),
     px_error = ''number of field descriptions must equal number of destinations'' \<rparr>"

lemma demo_pgx_simps [simp]:
  "px_uint demo_pgx (VUint n) = Inr n" "px_uint demo_pgx (VInt i) = (if 0 \<le> i then Inr (nat i) else Inl ''less than minimum value for uint64'')"
  "px_int demo_pgx (VInt i) = Inr i" "px_string demo_pgx (VString s) = Inr s" "px_string demo_pgx VNil = Inl ''cannot scan''"
  "px_bool demo_pgx (VBool b) = Inr b" "px_decimal demo_pgx (VDecimal d) = Inr d" "px_float demo_pgx (VFloat x) = Inr x"
  "px_time demo_pgx (VInt i) = Inr i" "px_json demo_pgx v = Inr v" "px_int demo_pgx (VUint n) = Inr (int n)"
  by (simp_all add: demo_pgx_def)

text \<open>An environment from the replies to the calls, without errors and with the clock at zero\<close>

definition reply_answer :: "'d reply \<Rightarrow> 'd answer" where
  "reply_answer r = \<lparr> a_reply = r, a_time = 0, a_error = None, a_int = Inr 0, a_logs = Inr [], a_tx = Inr True,
     a_flag = False, a_block = 0 \<rparr>"

definition replying :: "('d call \<Rightarrow> 'd reply) \<Rightarrow> 'd env" where
  "replying f h c = reply_answer (f c)"

lemma replying_simps [simp]:
  "replying f h c = reply_answer (f c)" "a_reply (reply_answer r) = r" "a_error (reply_answer r) = None"
  "a_time (reply_answer r) = 0"
  by (simp_all add: replying_def reply_answer_def)

end
