(* ===== verification/Airdrop_Props.thy ===== *)
theory Airdrop_Props
  imports Airdrop Demo_Env
begin

text \<open>
  What a trader can rely on when claiming an airdrop, and two executions that show what the handlers
  leave to luck.
\<close>

section \<open>What the answers told\<close>

definition told_claim :: "string \<Rightarrow> 'd gval list \<Rightarrow> 'd claim_ops option \<Rightarrow> 'd history \<Rightarrow> bool" where
  "told_claim fn ps c h \<longleftrightarrow>
     (\<exists>ans. (Execute PROFILE_INSTANCE fn ps, ans) \<in> set h \<and> decode_reply (as_ptr as_claim_ops) (a_reply ans) = Inr c)"

definition told_paid :: "nat \<Rightarrow> bool \<Rightarrow> 'd history \<Rightarrow> bool" where
  "told_paid opsId paid h \<longleftrightarrow>
     (\<exists>ans. (External ''ProcessedClaims'' [VInt (claim_key opsId)], ans) \<in> set h \<and> a_error ans = None \<and> a_flag ans = paid)"

text \<open>
  No claim of the profile is open: none was pending, or the contract had paid the pending one and it
  was finished.
\<close>

definition none_open :: "nat \<Rightarrow> 'd history \<Rightarrow> bool" where
  "none_open pid h \<longleftrightarrow>
     told_claim PENDING_CLAIM [VUint pid] None h \<or>
     (\<exists>c c'. told_claim PENDING_CLAIM [VUint pid] (Some c) h \<and> told_paid (co_Id c) True h \<and>
        told_claim FINISH_CLAIM [VUint pid] (Some c') h \<and> co_Status c' = AIRDROP_CLAIMED_STATUS)"

text \<open>
  What may be signed: the claim that is pending for the asked airdrop and that the contract has not
  paid, or the one just created for it. A new claim is only created when none is open.
\<close>

definition signable :: "profile \<Rightarrow> string \<Rightarrow> 'd claim_ops \<Rightarrow> 'd history \<Rightarrow> bool" where
  "signable profile title c h \<longleftrightarrow>
     told_claim PENDING_CLAIM [VUint (pr_ProfileId profile)] (Some c) h \<and> co_AirdropTitle c = title \<and> told_paid (co_Id c) False h \<or>
     told_claim PROFILE_CLAIM_ALL [VUint (pr_ProfileId profile), VString title] (Some c) h"

fun claim_rule ::
  "'d dec_lib \<Rightarrow> (string \<Rightarrow> bool) \<Rightarrow> profile \<Rightarrow> string \<Rightarrow> 'd history \<Rightarrow> 'd call \<Rightarrow> bool" where
  "claim_rule D isAddr profile title h (External n args) \<longleftrightarrow>
     (n = ''KmsSignTypedData'' \<longrightarrow>
      (\<exists>c. args = [VInt (claim_key (co_Id c)), VString (pr_Wallet profile), VInt (claimOpsAmountToStrpDecimals D (co_Amount c))] \<and>
         isAddr (pr_Wallet profile) \<and> signable profile title c h))"
| "claim_rule D isAddr profile title h (Execute i fn ps) \<longleftrightarrow>
     (fn = PROFILE_CLAIM_ALL \<longrightarrow> ps = [VUint (pr_ProfileId profile), VString title] \<and> none_open (pr_ProfileId profile) h)"
| "claim_rule D isAddr profile title h c \<longleftrightarrow> True"

lemma told_in_Cons [simp]:
  "told_claim fn ps c ((k, ans) # h) \<longleftrightarrow>
     k = Execute PROFILE_INSTANCE fn ps \<and> decode_reply (as_ptr as_claim_ops) (a_reply ans) = Inr c \<or> told_claim fn ps c h"
  "told_paid opsId paid ((k, ans) # h) \<longleftrightarrow>
     k = External ''ProcessedClaims'' [VInt (claim_key opsId)] \<and> a_error ans = None \<and> a_flag ans = paid \<or> told_paid opsId paid h"
  by (auto simp: told_claim_def told_paid_def)

lemma signable_Cons: "signable profile title c h \<Longrightarrow> signable profile title c (x # h)"
  by (cases x) (auto simp: signable_def)

section \<open>Rules\<close>

lemma wp_dialAirdrop:
  "wp (claim_rule D isAddr profile title) (\<lambda>_ _. True) (dialAirdrop url addr) h"
proof -
  have "wp (claim_rule D isAddr profile title) (\<lambda>_ _. True) (dialAirdrop_loop n s e url addr) h" for n s e h
    by (induction n arbitrary: s e h) (auto simp: wp_onErr sleep_def split: sum.split option.split)
  then show ?thesis
    by (simp add: dialAirdrop_def)
qed

lemma wp_NewAirdropProvider:
  "wp (claim_rule D isAddr profile title) (\<lambda>_ _. True) (NewAirdropProvider url) h"
  unfolding NewAirdropProvider_def ReadConfig_def
  by (auto simp: wp_onErr Let_def split: sum.split option.split outcome.split intro!: wp_mono [OF wp_dialAirdrop])

lemma wp_signClaimOps:
  assumes "signable profile title c h"
  shows "wp (claim_rule D isAddr profile title) (\<lambda>_ _. True) (signClaimOps D isAddr c (pr_Wallet profile)) h"
  using assms [THEN signable_Cons, THEN signable_Cons]
  by (auto simp: signClaimOps_def NewAirdropSignature_def ReadConfig_def wp_onErr Let_def split: sum.split option.split)

lemma wp_create_claim:
  assumes "none_open (pr_ProfileId profile) h"
  shows "wp (claim_rule D isAddr profile title) (\<lambda>_ _. True) (create_claim D isAddr profile title) h"
proof -
  have "wp (claim_rule D isAddr profile title) (\<lambda>_ _. True)
      (onErr (signClaimOps D isAddr c (pr_Wallet profile)) ErrorResponse (\<lambda>res. SuccessResponse [res]))
      ((Execute PROFILE_INSTANCE PROFILE_CLAIM_ALL [VUint (pr_ProfileId profile), VString title], ans) # h)"
    if "decode_reply (as_ptr as_claim_ops) (a_reply ans) = Inr (Some c)" for c ans
    unfolding wp_onErr
    by (rule wp_mono [OF wp_signClaimOps]) (use that in \<open>auto simp: signable_def split: sum.split outcome.split\<close>)
  then show ?thesis
    using assms by (auto simp: create_claim_def ProfileClaimAll_def wp_onErr split: sum.split)
qed

lemma none_openI:
  assumes "told_claim PENDING_CLAIM [VUint pid] (Some c) h" "told_paid (co_Id c) True h"
    and "told_claim FINISH_CLAIM [VUint pid] (Some c') h" "co_Status c' = AIRDROP_CLAIMED_STATUS"
  shows "none_open pid h"
  using assms unfolding none_open_def by blast

lemma wp_finish_claimed:
  assumes "told_claim PENDING_CLAIM [VUint (pr_ProfileId profile)] (Some c) h" "told_paid (co_Id c) True h"
  shows "wp (claim_rule D isAddr profile title) (\<lambda>_ _. True)
    (finish_claimed (pr_ProfileId profile) (create_claim D isAddr profile title)) h"
  using assms
  by (auto simp: finish_claimed_def FinishClaim_def wp_onErr split: sum.split intro!: wp_create_claim intro: none_openI)

lemma wp_HandleClaimAll:
  assumes "rc_Profile ctx = Some profile"
  shows "wp (claim_rule D isAddr profile title) (\<lambda>_ _. True) (HandleClaimAll D isAddr url ctx (Inr title)) h"
  unfolding HandleClaimAll_def bindJSON_def sum.case wp_onErr [of _ _ "NewAirdropProvider url"]
  by (rule wp_mono [OF wp_NewAirdropProvider])
    (auto simp: assms wp_onErr Let_def PendingClaimOps_def ProcessedClaims_def none_open_def signable_def
      split: sum.split outcome.split option.split
      intro!: wp_create_claim wp_finish_claimed wp_mono [OF wp_signClaimOps])

text \<open>Property C38. A claim of an airdrop is signed only for the caller's wallet, with the number and the
  amount of a claim that Tarantool reported for the caller in the same request: either the pending
  one, when it is for the asked airdrop and the contract had not paid it, or one just created; and a
  claim is created only when none was pending, or the pending one had been paid and was finished.
\<close>

theorem claims_signed_only_when_owed:
  assumes "rc_Profile ctx = Some profile"
    and "run E (HandleClaimAll D isAddr url ctx (Inr title)) [] = (post @ (c, ans) # pre, r)"
  shows "claim_rule D isAddr profile title pre c"
  by (rule every_call [OF wp_HandleClaimAll [OF assms(1)] assms(2)])

text \<open>
  \<open>FinishClaim\<close> names the profile and not the claim that the contract was asked about, and the handlers
  do not compare the numbers: whichever claim Tarantool finished, they go on. Two requests of one
  trader can so interleave that the second one finishes the claim that the first one has just created.
\<close>

lemma finish_accepts_another_claim:
  assumes "decode_reply (as_ptr as_claim_ops) (a_reply (E h (Execute PROFILE_INSTANCE FINISH_CLAIM [VUint pid]))) = Inr (Some c')"
    and "co_Status c' = AIRDROP_CLAIMED_STATUS"
  shows "run E (finish_claimed pid p) h =
    run E p ((Execute PROFILE_INSTANCE FINISH_CLAIM [VUint pid], E h (Execute PROFILE_INSTANCE FINISH_CLAIM [VUint pid])) # h)"
  using assms by (simp add: finish_claimed_def FinishClaim_def Request_def onErr_def deref_def)

section \<open>An example\<close>

definition demo_claim :: "rat claim_ops" where
  "demo_claim = \<lparr> co_Id = 3, co_AirdropTitle = ''s1'', co_ProfileId = 7, co_Status = ''claiming'', co_Amount = 5 / 2,
     co_Timestamp = 0, co_ShardId = '''', co_ArchiveId = 0 \<rparr>"

definition claim_env :: "rat env" where
  "claim_env = replying (\<lambda>c. case c of
       Execute i fn ps \<Rightarrow> BRows [(if fn = PENDING_CLAIM then claim_val demo_claim else VNil, '''')]
     | _ \<Rightarrow> BRows [])"

lemma demo_claim_calls [simp]:
  "claim_env h (Execute i fn ps) = reply_answer (BRows [(if fn = PENDING_CLAIM then claim_val demo_claim else VNil, '''')])"
  "claim_env h (External n args) = reply_answer (BRows [])" "claim_env h (EthDial u) = reply_answer (BRows [])"
  "claim_env h (Respond m) = reply_answer (BRows [])"
  by (simp_all add: claim_env_def)

lemma demo_claim_fields [simp]:
  "co_Id demo_claim = 3" "co_AirdropTitle demo_claim = ''s1''" "co_Amount demo_claim = 5 / 2"
  by (simp_all add: demo_claim_def)

lemma as_ptr_claim [simp]: "as_ptr as_claim_ops (claim_val c) = Some (Some c)"
  using claim_val_decoded [of c] by (simp add: claim_val_def)

lemma demo_airdrop_run:
  "\<exists>post ans pre. run claim_env (HandleClaimAll rat_lib (\<lambda>_. True) '''' (demo_context demo_trader) (Inr ''s1'')) [] =
     (post @ (sign_call 3 ''0xab'' (claimOpsAmountToStrpDecimals rat_lib (5 / 2)), ans) # pre, Done ())"
proof -
  have "\<exists>ans1 ans pre. run claim_env (HandleClaimAll rat_lib (\<lambda>_. True) '''' (demo_context demo_trader) (Inr ''s1'')) [] =
     ([ans1] @ (sign_call 3 ''0xab'' (claimOpsAmountToStrpDecimals rat_lib (5 / 2)), ans) # pre, Done ())"
    by (simp add: HandleClaimAll_def bindJSON_def NewAirdropProvider_def ReadConfig_def config_of_def dialAirdrop_def
        numeral_eq_Suc sql_exec_def onErr_def deref_def PendingClaimOps_def ProcessedClaims_def signClaimOps_def
        NewAirdropSignature_def signature_of_def Request_def decode_reply_def SuccessResponse_def respond_def Let_def
        reply_answer_def has_prefix_def)
  then show ?thesis by blast
qed

lemma claims_signed_only_when_owed_witness:
  "\<exists>pre. claim_rule rat_lib (\<lambda>_. True) demo_trader ''s1'' pre
     (sign_call 3 ''0xab'' (claimOpsAmountToStrpDecimals rat_lib (5 / 2)) :: rat call)"
proof -
  obtain post ans pre where "run claim_env (HandleClaimAll rat_lib (\<lambda>_. True) '''' (demo_context demo_trader) (Inr ''s1'')) [] =
     (post @ (sign_call 3 ''0xab'' (claimOpsAmountToStrpDecimals rat_lib (5 / 2)), ans) # pre, Done ())"
    using demo_airdrop_run by blast
  then show ?thesis
    using claims_signed_only_when_owed [of "demo_context demo_trader" demo_trader claim_env rat_lib "\<lambda>_. True" "''''" "''s1''" post]
    by auto
qed

end
