(* ===== verification/Gameassets.thy ===== *)
theory Gameassets
  imports Sql Api_Context
begin

text \<open>
  The points of the games (\<^verbatim>\<open>gameassets/gameassets.go\<close>, \<^verbatim>\<open>api/gameassets.go\<close>): batches of records loaded
  by an administrator, the assets and boosts of a profile, and the leader board. The encoder of JSON is
  a parameter; the order in which a map's entries are visited is the parameter \<open>ord\<close>.
\<close>

section \<open>Records\<close>

record blast_assets_loaded =
  ba_ProfileID     :: nat
  ba_BatchID       :: nat
  ba_TradingPoints :: f64
  ba_StakingPoints :: f64
  ba_BonusPoints   :: f64
  ba_TotalPoints   :: f64
  ba_TradingGold   :: f64
  ba_StakingGold   :: f64
  ba_BonusGold     :: f64
  ba_TotalGold     :: f64
  ba_VIPExtraBoost :: f64

record bfx_assets_loaded =
  bx_ProfileID        :: nat
  bx_BatchID          :: nat
  bx_TradingPoints    :: f64
  bx_StakingPoints    :: f64
  bx_BonusPoints      :: f64
  bx_ReferralPoints   :: f64
  bx_TotalPoints      :: f64
  bx_VIPExtraBoost    :: f64
  bx_Wallet           :: string
  bx_Liquidations     :: f64
  bx_ReferralBoost    :: f64
  bx_TradingLevel     :: string
  bx_TradingBoost     :: f64
  bx_CumulativeVolume :: f64
  bx_Timestamp        :: nat
  bx_AveragePositions :: "(string \<times> f64) list"

record bfx_points =
  bp_ProfileID      :: nat
  bp_BatchID        :: nat
  bp_ExchangeID     :: string
  bp_BonusPoints    :: f64
  bp_BfxPointsTotal :: f64
  bp_Timestamp      :: nat
  bp_BfxPoints24H   :: f64

record blast_assets =
  as_Loaded               :: blast_assets_loaded
  as_StakedNotionalNet    :: f64
  as_ReferralBoost        :: f64
  as_LevelBoost           :: f64
  as_TotalBoost           :: f64
  as_TradingNotional      :: f64
  as_LevelTier            :: nat
  as_ReferrerProfileID    :: "nat option"
  as_ReferrerWallet       :: "string option"
  as_Deposits             :: f64
  as_Withdraws            :: f64
  as_TotalReferredDeposit :: f64
  as_TotalReferredStakes  :: f64

section \<open>Batches of Blast\<close>

definition LOAD_ASSETS_MAX_BATCH_LEN :: nat where
  "LOAD_ASSETS_MAX_BATCH_LEN = 1000"

definition blast_columns :: "string list" where
  "blast_columns = [''blockchain'', ''profile_id'', ''batch_id'', ''trading_points'', ''staking_points'', ''bonus_points'',
     ''total_points'', ''trading_gold'', ''staking_gold'', ''bonus_gold'', ''total_gold'', ''vip_extra_boost'']"

definition blast_row :: "blast_assets_loaded \<Rightarrow> 'd gval list" where
  "blast_row r = [VString ''blast'', VUint (ba_ProfileID r), VUint (ba_BatchID r), VFloat (ba_TradingPoints r),
     VFloat (ba_StakingPoints r), VFloat (ba_BonusPoints r), VFloat (ba_TotalPoints r), VFloat (ba_TradingGold r),
     VFloat (ba_StakingGold r), VFloat (ba_BonusGold r), VFloat (ba_TotalGold r), VFloat (ba_VIPExtraBoost r)]"

text \<open>The columns that a record of a later batch replaces, and the condition on its batch\<close>

definition blast_overwritten :: "string list" where
  "blast_overwritten = [''batch_id'', ''trading_points'', ''staking_points'', ''bonus_points'', ''total_points'',
     ''trading_gold'', ''staking_gold'', ''bonus_gold'', ''total_gold'']"

definition excluded :: "string \<Rightarrow> string" where
  "excluded c = c @ '' = EXCLUDED.'' @ c"

fun commas :: "string list \<Rightarrow> string" where
  "commas [] = ''''"
| "commas [x] = x"
| "commas (x # xs) = x @ '', '' @ commas xs"

definition blast_on_conflict :: string where
  "blast_on_conflict = '' ON CONFLICT (blockchain, profile_id) DO UPDATE SET '' @ commas (map excluded blast_overwritten) @
     '' WHERE app_game_assets.batch_id <= EXCLUDED.batch_id RETURNING 1''"

text \<open>\<^verbatim>\<open>WITH inserted AS NOT MATERIALIZED (...) SELECT count(*) FROM inserted\<close>\<close>

definition counted :: "'d gval list \<Rightarrow> 'd gval list" where
  "counted stmt = VString ''SELECT count(*) FROM inserted'' # stmt"

definition latest_batch :: "string \<Rightarrow> string \<Rightarrow> 'd gval list" where
  "latest_batch table blockchain =
     select_from [''batch_id''] table [] [(''blockchain'', VString blockchain)] ''batch_id DESC''"

text \<open>A query whose missing row is no error\<close>

definition query_row_or :: "'a \<Rightarrow> 'd gval list \<Rightarrow> ('d gval \<Rightarrow> string + 'a) \<Rightarrow> ('d, string + 'a) prog" where
  "query_row_or x stmt f =
     onErr (sql_query_row ''db.QueryRow'' stmt f)
       (\<lambda>e. Return (if e = ErrNoRows then Inr x else Inl e)) (\<lambda>y. Return (Inr y))"

definition BlastLoadAssetsBatch :: "'d pgx_lib \<Rightarrow> blast_assets_loaded list \<Rightarrow> ('d, string + nat \<times> int) prog" where
  "BlastLoadAssetsBatch S batch =
     (if LOAD_ASSETS_MAX_BATCH_LEN < length batch then Return (Inl ''batch size exceeds 1000 records'')
      else onErr
        (if batch = [] then Return (Inr 0)
         else sql_query_row ''db.QueryRow''
           (counted (insert_into ''app_game_assets'' blast_columns (map blast_row batch) blast_on_conflict)) (column_of S (px_int S)))
        (\<lambda>e. Return (Inl (wrapped ''failed to insert blast assets batch'' e))) (\<lambda>replaced.
      onErr (query_row_or 0 (latest_batch ''app_game_assets'' ''blast'') (column_of S (px_uint S)))
        (\<lambda>e. Return (Inl (wrapped ''failed to get latest batch id'' e))) (\<lambda>latest.
      Return (Inr (latest, replaced)))))"

section \<open>Batches of Bfx\<close>

text \<open>The exchange of each profile; a later row of the same profile replaces an earlier one.\<close>

definition exchange_row :: "'d pgx_lib \<Rightarrow> 'd gval \<Rightarrow> string + nat \<times> string" where
  "exchange_row S = scan_row S (col S (px_uint S) (\<lambda>p. col S (px_string S) (\<lambda>x. scanned (p, x))))"

definition getProfileToExchangeIDMapping :: "'d pgx_lib \<Rightarrow> nat list \<Rightarrow> ('d, string + (nat \<rightharpoonup> string)) prog" where
  "getProfileToExchangeIDMapping S profileIDs =
     onErr (sql_query_wrapped ''db.Query'' (select_from [''id'', ''exchange_id''] ''app_profile'' [] [(''id'', VList (map VUint profileIDs))] '''')
         ''failed to execute query for profile to exchange ID mapping''
         ''failed to scan row for profile to exchange ID mapping''
         ''error iterating over profile to exchange ID mapping rows'' (exchange_row S))
       (\<lambda>e. Return (Inl e)) (\<lambda>rows. Return (Inr (map_of (rev rows))))"

text \<open>The points of the records of a profile; its batch and exchange are those of its first record.\<close>

definition first_points :: "(nat \<rightharpoonup> string) \<Rightarrow> bfx_assets_loaded \<Rightarrow> bfx_points" where
  "first_points exchanges r =
     \<lparr> bp_ProfileID = bx_ProfileID r, bp_BatchID = bx_BatchID r,
       bp_ExchangeID = (case exchanges (bx_ProfileID r) of None \<Rightarrow> '''' | Some x \<Rightarrow> x),
       bp_BonusPoints = bx_BonusPoints r, bp_BfxPointsTotal = bx_TotalPoints r, bp_Timestamp = bx_Timestamp r,
       bp_BfxPoints24H = f64_of_int 0 \<rparr>"

definition add_points :: "bfx_points \<Rightarrow> bfx_assets_loaded \<Rightarrow> bfx_points" where
  "add_points p r =
     p \<lparr> bp_BonusPoints := f64_add (bp_BonusPoints p) (bx_BonusPoints r),
         bp_BfxPointsTotal := f64_add (bp_BfxPointsTotal p) (bx_TotalPoints r),
         bp_Timestamp := (if bx_Timestamp r < bp_Timestamp p then bx_Timestamp r else bp_Timestamp p) \<rparr>"

definition aggregate_step ::
  "(nat \<rightharpoonup> string) \<Rightarrow> (nat \<rightharpoonup> bfx_points) \<Rightarrow> bfx_assets_loaded \<Rightarrow> (nat \<rightharpoonup> bfx_points)" where
  "aggregate_step exchanges m r =
     (case m (bx_ProfileID r) of
        Some p \<Rightarrow> m(bx_ProfileID r \<mapsto> add_points p r)
      | None \<Rightarrow> m(bx_ProfileID r \<mapsto> first_points exchanges r))"

definition aggregated :: "(nat \<rightharpoonup> string) \<Rightarrow> bfx_assets_loaded list \<Rightarrow> (nat \<rightharpoonup> bfx_points)" where
  "aggregated exchanges batch = foldl (aggregate_step exchanges) Map.empty batch"

text \<open>The rows that are inserted, in the order of the map's iteration\<close>

definition points_rows :: "(nat list \<Rightarrow> nat list) \<Rightarrow> (nat \<rightharpoonup> string) \<Rightarrow> bfx_assets_loaded list \<Rightarrow> bfx_points list" where
  "points_rows ord exchanges batch = List.map_filter (aggregated exchanges batch) (ord (remdups (map bx_ProfileID batch)))"

definition points_columns :: "string list" where
  "points_columns = [''profile_id'', ''batch_id'', ''exchange_id'', ''bonus_points'', ''bfx_points_total'', ''timestamp'']"

definition points_row :: "bfx_points \<Rightarrow> 'd gval list" where
  "points_row p = [VUint (bp_ProfileID p), VUint (bp_BatchID p), VString (bp_ExchangeID p), VFloat (bp_BonusPoints p),
     VFloat (bp_BfxPointsTotal p), VUint (bp_Timestamp p)]"

definition points_on_conflict :: string where
  "points_on_conflict = '' ON CONFLICT (profile_id, batch_id) DO UPDATE SET '' @
     commas (map excluded [''exchange_id'', ''bonus_points'', ''bfx_points_total'', ''timestamp''])"

text \<open>\<open>ord\<close> lists the profiles of the map in the order of its iteration.\<close>

definition aggregateAndInsertBfxPoints ::
  "'d pgx_lib \<Rightarrow> (nat list \<Rightarrow> nat list) \<Rightarrow> bfx_assets_loaded list \<Rightarrow> ('d, string + unit) prog" where
  "aggregateAndInsertBfxPoints S ord batch =
     onErr (getProfileToExchangeIDMapping S (map bx_ProfileID batch)) (\<lambda>e. Return (Inl e)) (\<lambda>exchanges.
       let rows = points_rows ord exchanges batch in
       if rows = [] then Return (Inr ())
       else onErr (sql_exec ''db.Exec'' (insert_into ''app_bfx_points'' points_columns (map points_row rows) points_on_conflict))
         (\<lambda>e. Return (Inl (wrapped ''failed to insert into app_bfx_points'' e))) (\<lambda>_. Return (Inr ())))"

definition bfx_columns :: "string list" where
  "bfx_columns = [''blockchain'', ''profile_id'', ''batch_id'', ''trading_points'', ''staking_points'', ''bonus_points'',
     ''referral_points'', ''total_points'', ''vip_extra_boost'', ''wallet'', ''liquidations'', ''referral_boost'',
     ''trading_level'', ''trading_boost'', ''cumulative_volume'', ''timestamp'', ''average_positions'']"

definition bfx_row :: "byte list \<Rightarrow> bfx_assets_loaded \<Rightarrow> 'd gval list" where
  "bfx_row positions r =
     [VString ''bfx'', VUint (bx_ProfileID r), VUint (bx_BatchID r), VFloat (bx_TradingPoints r), VFloat (bx_StakingPoints r),
      VFloat (bx_BonusPoints r), VFloat (bx_TotalPoints r), VFloat (bx_ReferralPoints r), VFloat (bx_VIPExtraBoost r),
      VString (bx_Wallet r), VFloat (bx_Liquidations r), VFloat (bx_ReferralBoost r), VString (bx_TradingLevel r),
      VFloat (bx_TradingBoost r), VFloat (bx_CumulativeVolume r), VUint (bx_Timestamp r), VBytes positions]"

fun bfx_rows ::
  "((string \<times> f64) list \<Rightarrow> string + byte list) \<Rightarrow> bfx_assets_loaded list \<Rightarrow> string + 'd gval list list" where
  "bfx_rows marshal [] = Inr []"
| "bfx_rows marshal (r # rs) =
     (case marshal (bx_AveragePositions r) of
        Inl e \<Rightarrow> Inl (wrapped ''failed to serialize BfxAssetsLoaded.AveragePositions'' e)
      | Inr js \<Rightarrow> (case bfx_rows marshal rs of Inl e \<Rightarrow> Inl e | Inr rows \<Rightarrow> Inr (bfx_row js r # rows)))"

definition BfxLoadAssetsBatch ::
  "'d pgx_lib \<Rightarrow> ((string \<times> f64) list \<Rightarrow> string + byte list) \<Rightarrow> (nat list \<Rightarrow> nat list) \<Rightarrow> bfx_assets_loaded list \<Rightarrow>
   ('d, string + nat \<times> int) prog" where
  "BfxLoadAssetsBatch S marshal ord batch =
     (if LOAD_ASSETS_MAX_BATCH_LEN < length batch then Return (Inl ''bfx batch size exceeds 1000 records'')
      else onErr (aggregateAndInsertBfxPoints S ord batch) (\<lambda>e. Return (Inl e)) (\<lambda>_.
      onErr
        (if batch = [] then Return (Inr 0)
         else case bfx_rows marshal batch of
           Inl e \<Rightarrow> Return (Inl e)
         | Inr rows \<Rightarrow>
             onErr (sql_query_row ''db.QueryRow'' (counted (insert_into ''app_bfx_game_assets'' bfx_columns rows ''''))
                 (column_of S (px_int S)))
               (\<lambda>e. Return (Inl (wrapped ''failed to insert bfx assets batch'' e))) (\<lambda>n. Return (Inr n)))
        (\<lambda>e. Return (Inl e)) (\<lambda>inserted.
      onErr (query_row_or 0 (latest_batch ''app_bfx_game_assets'' ''bfx'') (column_of S (px_uint S)))
        (\<lambda>e. Return (Inl (wrapped ''failed to get latest bfx batch id'' e))) (\<lambda>latest.
      Return (Inr (latest, inserted))))))"

section \<open>Assets of a profile\<close>

definition blast_record :: "'d pgx_lib \<Rightarrow> 'd gval \<Rightarrow> string + blast_assets_loaded" where
  "blast_record S = scan_row S
     (col S (px_uint S) (\<lambda>b. col S (px_uint S) (\<lambda>p. col S (px_float S) (\<lambda>tp. col S (px_float S) (\<lambda>sp.
      col S (px_float S) (\<lambda>bp. col S (px_float S) (\<lambda>tt. col S (px_float S) (\<lambda>tg. col S (px_float S) (\<lambda>sg.
      col S (px_float S) (\<lambda>bg. col S (px_float S) (\<lambda>gg. col S (px_float S) (\<lambda>v.
        scanned \<lparr> ba_ProfileID = p, ba_BatchID = b, ba_TradingPoints = tp, ba_StakingPoints = sp, ba_BonusPoints = bp,
          ba_TotalPoints = tt, ba_TradingGold = tg, ba_StakingGold = sg, ba_BonusGold = bg, ba_TotalGold = gg,
          ba_VIPExtraBoost = v \<rparr>))))))))))))"

definition getBlastAssetsFromDB :: "'d pgx_lib \<Rightarrow> nat \<Rightarrow> ('d, string + blast_assets_loaded option) prog" where
  "getBlastAssetsFromDB S profileID =
     onErr (sql_query ''db.Query''
         (select_from [''batch_id'', ''profile_id'', ''trading_points'', ''staking_points'', ''bonus_points'', ''total_points'',
            ''trading_gold'', ''staking_gold'', ''bonus_gold'', ''total_gold'', ''vip_extra_boost''] ''app_game_assets'' []
            [(''blockchain'', VString ''blast''), (''profile_id'', VUint profileID)] '''') (blast_record S))
       (\<lambda>e. Return (Inl (wrapped ''failed to read blast assets'' e)))
       (\<lambda>records. Return (Inr (case records of [] \<Rightarrow> None | r # _ \<Rightarrow> Some r)))"

definition referrer_row :: "'d pgx_lib \<Rightarrow> 'd gval \<Rightarrow> string + nat \<times> string" where
  "referrer_row S = scan_row S (col S (px_uint S) (\<lambda>p. col S (px_string S) (\<lambda>w. scanned (p, w))))"

definition getReferrerData :: "'d pgx_lib \<Rightarrow> nat \<Rightarrow> ('d, string + (nat \<times> string) option) prog" where
  "getReferrerData S inviteeProfileID =
     query_row_or None
       (select_from [''app_profile.id'', ''app_profile.wallet''] ''app_referral_link''
          [''JOIN app_profile ON app_referral_link.profile_id = app_profile.id''] [(''invited_id'', VUint inviteeProfileID)] '''')
       (\<lambda>v. tagged Some (referrer_row S v))"

record balance_sums =
  bs_totalDeposits    :: f64
  bs_totalWithdrawals :: f64
  bs_totalStakes      :: f64
  bs_totalUnstakes    :: f64

definition no_sums :: balance_sums where
  "no_sums = \<lparr> bs_totalDeposits = f64_of_int 0, bs_totalWithdrawals = f64_of_int 0, bs_totalStakes = f64_of_int 0,
     bs_totalUnstakes = f64_of_int 0 \<rparr>"

definition sum_row :: "'d pgx_lib \<Rightarrow> 'd gval \<Rightarrow> string + string \<times> f64" where
  "sum_row S = scan_row S (col S (px_string S) (\<lambda>t. col S (px_float S) (\<lambda>a. scanned (t, a))))"

definition put_sum :: "string list \<Rightarrow> string \<times> f64 \<Rightarrow> balance_sums \<Rightarrow> string + balance_sums" where
  "put_sum known row s =
     (case row of (t, a) \<Rightarrow>
        if t \<notin> set known then Inl (''bad query: unexpected ops type: '' @ t)
        else if t = ''deposit'' then Inr (s\<lparr>bs_totalDeposits := a\<rparr>)
        else if t = ''withdraw'' then Inr (s\<lparr>bs_totalWithdrawals := a\<rparr>)
        else if t = ''stake'' then Inr (s\<lparr>bs_totalStakes := a\<rparr>)
        else Inr (s\<lparr>bs_totalUnstakes := a\<rparr>))"

text \<open>The loop over the rows; \<^verbatim>\<open>rows.Err()\<close> is not asked after it.\<close>

fun sums_of :: "'d pgx_lib \<Rightarrow> string list \<Rightarrow> balance_sums \<Rightarrow> 'd gval list \<Rightarrow> string + balance_sums" where
  "sums_of S known s [] = Inr s"
| "sums_of S known s (v # vs) =
     (case sum_row S v of
        Inl e \<Rightarrow> Inl e
      | Inr row \<Rightarrow> (case put_sum known row s of Inl e \<Rightarrow> Inl e | Inr s' \<Rightarrow> sums_of S known s' vs))"

definition query_sums :: "'d pgx_lib \<Rightarrow> string list \<Rightarrow> 'd gval list \<Rightarrow> ('d, string + balance_sums) prog" where
  "query_sums S known stmt =
     Call (External ''db.Query'' stmt) (\<lambda>ans. Return (
       case result_set (a_reply ans) of Inl e \<Rightarrow> Inl e | Inr (rows, _) \<Rightarrow> sums_of S known no_sums rows))"

abbreviation strings :: "string list \<Rightarrow> 'd gval" where
  "strings xs \<equiv> VList (map VString xs)"

definition getBalanceOps :: "'d pgx_lib \<Rightarrow> nat \<Rightarrow> ('d, string + balance_sums) prog" where
  "getBalanceOps S profileID =
     query_sums S [''deposit'', ''withdraw'', ''stake'', ''unstake'']
       (select_from [''ops_type, sum(amount)''] ''app_balance_operation'' []
          [(''profile_id'', VUint profileID), (''status'', VString ''success''),
           (''ops_type'', strings [''deposit'', ''withdraw'', ''stake'', ''unstake''])] ''GROUP BY ops_type'')"

definition getReferredBalanceOps :: "'d pgx_lib \<Rightarrow> nat \<Rightarrow> ('d, string + balance_sums) prog" where
  "getReferredBalanceOps S referrerProfileID =
     query_sums S [''deposit'', ''stake'']
       (select_from [''ops_type'', ''sum(amount)''] ''app_balance_operation''
          [''INNER JOIN app_referral_link ON app_balance_operation.profile_id = app_referral_link.invited_id'']
          [(''app_referral_link.profile_id'', VUint referrerProfileID), (''app_balance_operation.status'', VString ''success''),
           (''app_balance_operation.ops_type'', strings [''deposit'', ''stake''])] ''GROUP BY ops_type'')"

definition getTradingVolume :: "'d dec_lib \<Rightarrow> 'd pgx_lib \<Rightarrow> nat \<Rightarrow> ('d, string + 'd) prog" where
  "getTradingVolume D S profileID =
     onErr (query_row_or (d_zero D)
         (select_from [''coalesce(sum(price*size), 0)''] ''app_fill'' [] [(''profile_id'', VUint profileID)] '''')
         (column_of S (px_decimal S)))
       (\<lambda>e. Return (Inl (wrapped ''failed to get trading volume'' e))) (\<lambda>v. Return (Inr v))"

definition calculateVolumeBoost :: "'d dec_lib \<Rightarrow> 'd \<Rightarrow> nat \<times> f64" where
  "calculateVolumeBoost D volume =
     (let vol = d_int_part D volume
      in if vol < 100000 then (1, f64_lit 0)
         else if vol < 400000 then (2, f64_lit (4 / 100))
         else if vol < 1000000 then (3, f64_lit (8 / 100))
         else if vol < 8750000 then (4, f64_lit (12 / 100))
         else if vol < 64000000 then (5, f64_lit (24 / 100))
         else if vol < 460000000 then (6, f64_lit (32 / 100))
         else (7, f64_lit (40 / 100)))"

definition REFERRAL_BOOST_LEVEL :: f64 where
  "REFERRAL_BOOST_LEVEL = f64_lit (16 / 100)"

definition no_assets :: "nat \<Rightarrow> blast_assets_loaded" where
  "no_assets profileID = \<lparr> ba_ProfileID = profileID, ba_BatchID = 0, ba_TradingPoints = f64_of_int 0, ba_StakingPoints = f64_of_int 0,
     ba_BonusPoints = f64_of_int 0, ba_TotalPoints = f64_of_int 0, ba_TradingGold = f64_of_int 0, ba_StakingGold = f64_of_int 0,
     ba_BonusGold = f64_of_int 0, ba_TotalGold = f64_of_int 0, ba_VIPExtraBoost = f64_of_int 0 \<rparr>"

definition assets_of ::
  "'d dec_lib \<Rightarrow> blast_assets_loaded \<Rightarrow> (nat \<times> string) option \<Rightarrow> 'd \<Rightarrow> balance_sums \<Rightarrow> balance_sums \<Rightarrow> blast_assets" where
  "assets_of D loaded referrer volume ops refOps =
     (let (tier, level) = calculateVolumeBoost D volume;
          referralBoost = (case referrer of None \<Rightarrow> f64_of_int 0 | Some _ \<Rightarrow> REFERRAL_BOOST_LEVEL)
      in \<lparr> as_Loaded = loaded,
           as_StakedNotionalNet = f64_sub (bs_totalStakes ops) (bs_totalUnstakes ops),
           as_ReferralBoost = referralBoost, as_LevelBoost = level,
           as_TotalBoost = f64_add (f64_add referralBoost level) (ba_VIPExtraBoost loaded),
           as_TradingNotional = d_to_float D volume, as_LevelTier = tier,
           as_ReferrerProfileID = map_option fst referrer, as_ReferrerWallet = map_option snd referrer,
           as_Deposits = bs_totalDeposits ops, as_Withdraws = bs_totalWithdrawals ops,
           as_TotalReferredDeposit = bs_totalDeposits refOps, as_TotalReferredStakes = bs_totalStakes refOps \<rparr>)"

definition BlastGetAssets :: "'d dec_lib \<Rightarrow> 'd pgx_lib \<Rightarrow> nat \<Rightarrow> ('d, string + blast_assets) prog" where
  "BlastGetAssets D S profileID =
     tried ''failed to read blast assetsFromDB'' (getBlastAssetsFromDB S profileID) (\<lambda>loaded.
     tried ''failed to get referrer profile id'' (getReferrerData S profileID) (\<lambda>referrer.
     tried ''failed to get trading volume'' (getTradingVolume D S profileID) (\<lambda>volume.
     tried ''failed to get balance operations'' (getBalanceOps S profileID) (\<lambda>ops.
     tried ''failed to get referred balance operations'' (getReferredBalanceOps S profileID) (\<lambda>refOps.
       Return (Inr (assets_of D (case loaded of None \<Rightarrow> no_assets profileID | Some r \<Rightarrow> r) referrer volume ops refOps)))))))"

section \<open>Points of Bfx\<close>

definition points_of_row :: "'d pgx_lib \<Rightarrow> 'd gval \<Rightarrow> string + bfx_points" where
  "points_of_row S = scan_row S
     (col S (px_uint S) (\<lambda>p. col S (px_uint S) (\<lambda>b. col S (px_string S) (\<lambda>x. col S (px_float S) (\<lambda>bo.
      col S (px_float S) (\<lambda>t. col S (px_uint S) (\<lambda>ts.
        scanned \<lparr> bp_ProfileID = p, bp_BatchID = b, bp_ExchangeID = x, bp_BonusPoints = bo, bp_BfxPointsTotal = t,
          bp_Timestamp = ts, bp_BfxPoints24H = f64_of_int 0 \<rparr>)))))))"

definition getBfxPointsFromDB :: "'d pgx_lib \<Rightarrow> nat \<Rightarrow> nat \<Rightarrow> ('d, string + bfx_points) prog" where
  "getBfxPointsFromDB S profileID batchID =
     onErr (sql_query_row ''db.QueryRow''
         (select_from points_columns ''app_bfx_points'' [] [(''profile_id'', VUint profileID), (''batch_id'', VUint batchID)] '''')
         (points_of_row S))
       (\<lambda>e. Return (Inl (if e = ErrNoRows
          then ''no app_bfx_points found for profile_id '' @ show_nat profileID @ '' and batch_id '' @ show_nat batchID
          else wrapped ''failed to scan app_bfx_points'' e)))
       (\<lambda>p. Return (Inr p))"

text \<open>\<^verbatim>\<open>Unix()\<close> is whole seconds, rounded down.\<close>

definition calculateBfxPoints24H :: "'d pgx_lib \<Rightarrow> nat \<Rightarrow> ('d, string + f64) prog" where
  "calculateBfxPoints24H S profileID =
     now (\<lambda>t. onErr (sql_query_row ''db.QueryRow''
         (select_from [''COALESCE(SUM(bfx_points_total), 0)''] ''app_bfx_points'' []
            [(''profile_id'', VUint profileID), (''timestamp >='', VInt ((t - 86400 * 1000000000) div 1000000000))] '''')
         (column_of S (px_float S)))
       (\<lambda>e. Return (Inl (wrapped ''failed to scan app_bfx_points 24H'' e))) (\<lambda>x. Return (Inr x)))"

definition BfxGetPoints :: "'d pgx_lib \<Rightarrow> nat \<Rightarrow> nat \<Rightarrow> ('d, string + bfx_points) prog" where
  "BfxGetPoints S profileID batchID =
     onErr (getBfxPointsFromDB S profileID batchID) (\<lambda>e. Return (Inl e)) (\<lambda>p.
     onErr (calculateBfxPoints24H S profileID) (\<lambda>e. Return (Inl e)) (\<lambda>x.
       Return (Inr (p\<lparr>bp_BfxPoints24H := x\<rparr>))))"

section \<open>The leader board\<close>

definition quoted :: "string \<Rightarrow> string" where
  "quoted s = CHR 0x27 # s @ [CHR 0x27]"

definition BlastGetLeaderboard :: "'d pgx_lib \<Rightarrow> ('d, string + 'd gval list) prog" where
  "BlastGetLeaderboard S =
     sql_query_wrapped ''db.Query''
       (select_from
          [''app_profile.wallet'', ''coalesce(inviter_profile.wallet, '' @ quoted '''' @ '') as invited_by_wallet'',
           ''app_game_assets.total_points'', ''app_game_assets.total_gold'',
           ''coalesce(sum(app_fill.price * app_fill.size), 0) as trading_notional'',
           ''coalesce(sum(app_balance_operation.amount), 0) as deposits'']
          ''app_game_assets''
          [''JOIN app_profile ON app_game_assets.profile_id = app_profile.id'', ''LEFT JOIN app_fill USING (profile_id)'',
           ''LEFT JOIN (SELECT profile_id, amount FROM app_balance_operation WHERE app_balance_operation.ops_type = '' @ quoted ''deposit'' @ '' AND app_balance_operation.status = '' @ quoted ''success'' @ '') app_balance_operation USING(profile_id)'',
           ''LEFT JOIN app_referral_link ON app_game_assets.profile_id = app_referral_link.invited_id'',
           ''LEFT JOIN app_profile inviter_profile ON app_referral_link.profile_id = inviter_profile.id'']
          [(''app_game_assets.blockchain ='', VString ''blast''), (''app_game_assets.total_gold >'', VInt 0)]
          ''GROUP BY app_profile.wallet, invited_by_wallet, app_game_assets.total_points, app_game_assets.total_gold ORDER BY app_game_assets.total_gold DESC LIMIT 100'')
       ''db query error'' ''db row scan error'' ''db row scan error''
       (scan_struct S ''BlastLeaderboardRecord'' [CString, CString, CFloat, CFloat, CFloat, CFloat])"

section \<open>The handlers\<close>

definition blast_loaded_vals :: "blast_assets_loaded \<Rightarrow> 'd gval list" where
  "blast_loaded_vals r = tl (blast_row r)"

definition blast_assets_val :: "blast_assets \<Rightarrow> string \<Rightarrow> 'd gval" where
  "blast_assets_val a wallet = VStruct ''BlastAssets''
     (blast_loaded_vals (as_Loaded a) @
      [VFloat (as_StakedNotionalNet a), VFloat (as_ReferralBoost a), VFloat (as_LevelBoost a), VFloat (as_TotalBoost a),
       VFloat (as_TradingNotional a), VUint (as_LevelTier a), opt_val VUint (as_ReferrerProfileID a),
       opt_val VString (as_ReferrerWallet a), VFloat (as_Deposits a), VFloat (as_Withdraws a),
       VFloat (as_TotalReferredDeposit a), VFloat (as_TotalReferredStakes a), VString wallet])"

definition answer_wrapped :: "string \<Rightarrow> ('d, string + 'a) prog \<Rightarrow> ('a \<Rightarrow> ('d, unit) prog) \<Rightarrow> ('d, unit) prog" where
  "answer_wrapped msg p k = onErr p (\<lambda>e. ErrorResponse (wrapped msg e)) k"

definition decoded :: "string \<Rightarrow> string + 'r \<Rightarrow> ('r \<Rightarrow> ('d, unit) prog) \<Rightarrow> ('d, unit) prog" where
  "decoded msg body k = (case body of Inl e \<Rightarrow> ErrorResponse (wrapped msg e) | Inr r \<Rightarrow> k r)"

definition HandleGameAssetsBlastPost :: "'d pgx_lib \<Rightarrow> string + blast_assets_loaded list \<Rightarrow> ('d, unit) prog" where
  "HandleGameAssetsBlastPost S body = decoded ''failed to decode request'' body (\<lambda>batch.
     answer_wrapped ''failed to load batch'' (BlastLoadAssetsBatch S batch)
       (\<lambda>(latest, replaced). SuccessResponse [VStruct ''BlastLoadBatchResult'' [VUint latest, VInt replaced]]))"

definition HandleGameAssetsBlastGet :: "'d dec_lib \<Rightarrow> 'd pgx_lib \<Rightarrow> 'm rabbit_context_scheme \<Rightarrow> ('d, unit) prog" where
  "HandleGameAssetsBlastGet D S ctx = deref (rc_Profile ctx) (\<lambda>profile.
     answer_wrapped ''failed to get assets'' (BlastGetAssets D S (pr_ProfileId profile))
       (\<lambda>a. SuccessResponse [blast_assets_val a (pr_Wallet profile)]))"

definition HandleBlastLeaderboard :: "'d pgx_lib \<Rightarrow> ('d, unit) prog" where
  "HandleBlastLeaderboard S = answer_wrapped ''failed to get leaderboard'' (BlastGetLeaderboard S) SuccessResponse"

definition HandleGameAssetsBfxPost ::
  "'d pgx_lib \<Rightarrow> ((string \<times> f64) list \<Rightarrow> string + byte list) \<Rightarrow> (nat list \<Rightarrow> nat list) \<Rightarrow> string + bfx_assets_loaded list \<Rightarrow>
   ('d, unit) prog" where
  "HandleGameAssetsBfxPost S marshal ord body = decoded ''failed to decode bfx post request'' body (\<lambda>batch.
     answer_wrapped ''failed to load bfx batch'' (BfxLoadAssetsBatch S marshal ord batch)
       (\<lambda>(latest, inserted). SuccessResponse [VStruct ''BfxLoadBatchResult'' [VUint latest, VInt inserted]]))"

definition HandleBfxGetPoints :: "'d pgx_lib \<Rightarrow> string + nat \<times> nat \<Rightarrow> ('d, unit) prog" where
  "HandleBfxGetPoints S body = decoded ''failed to decode bfx points request'' body (\<lambda>(profileID, batchID).
     answer_wrapped ''failed to get bfx points'' (BfxGetPoints S profileID batchID)
       (\<lambda>p. SuccessResponse [VStruct ''BfxPoints'' (points_row p @ [VFloat (bp_BfxPoints24H p)])]))"

end
