(* ===== verification/Gameassets_Props.thy ===== *)
theory Gameassets_Props
  imports Gameassets "HOL-Library.Multiset"
begin

text \<open>
  The points that a batch gives each profile, and where the statements on the points and assets
  depart from what they are meant to store.
\<close>

section \<open>Points per profile\<close>

lemma foldl_aggregate_step:
  "foldl (aggregate_step exchanges) m batch p =
     (let rs = List.filter (\<lambda>r. bx_ProfileID r = p) batch
      in case m p of
           Some q \<Rightarrow> Some (foldl add_points q rs)
         | None \<Rightarrow> (case rs of [] \<Rightarrow> None | r # rs' \<Rightarrow> Some (foldl add_points (first_points exchanges r) rs')))"
  by (induction batch arbitrary: m) (auto simp: aggregate_step_def Let_def split: option.split)

lemma foldl_add_points:
  "foldl add_points q rs =
     q \<lparr> bp_BonusPoints := foldl f64_add (bp_BonusPoints q) (map bx_BonusPoints rs),
         bp_BfxPointsTotal := foldl f64_add (bp_BfxPointsTotal q) (map bx_TotalPoints rs),
         bp_Timestamp := foldl min (bp_Timestamp q) (map bx_Timestamp rs) \<rparr>"
  by (induction rs arbitrary: q) (auto simp: add_points_def min_def)

lemma foldl_min: "foldl min (x :: nat) xs = Min (set (x # xs))"
proof (induction xs arbitrary: x)
  case (Cons y ys)
  then have "foldl min x (y # ys) = Min (insert (min x y) (set ys))"
    by simp
  also have "\<dots> = Min (set (x # y # ys))"
    by (cases "ys = []") (auto simp: min.assoc)
  finally show ?case .
qed simp

lemma aggregated_None: "aggregated exchanges batch p = None \<longleftrightarrow> p \<notin> bx_ProfileID ` set batch"
  unfolding aggregated_def foldl_aggregate_step Let_def
  by (auto split: list.split simp: filter_empty_conv filter_eq_Cons_iff)

lemma aggregated_id: "aggregated exchanges batch p = Some q \<Longrightarrow> bp_ProfileID q = p"
  unfolding aggregated_def foldl_aggregate_step Let_def
  by (auto split: list.splits simp: foldl_add_points first_points_def filter_eq_Cons_iff)

lemma set_map_filter: "set (List.map_filter f xs) = {y. \<exists>x \<in> set xs. f x = Some y}"
  by (induction xs) (auto simp: List.map_filter_simps split: option.split)

lemma map_filter_ids:
  "set ps \<subseteq> bx_ProfileID ` set batch \<Longrightarrow> map bp_ProfileID (List.map_filter (aggregated exchanges batch) ps) = ps"
proof (induction ps)
  case (Cons p ps)
  then obtain q where "aggregated exchanges batch p = Some q"
    using aggregated_None [of exchanges batch p] by auto
  then show ?case
    using Cons aggregated_id by (auto simp: List.map_filter_simps)
qed (simp add: List.map_filter_simps)

text \<open>What the records of a profile are worth, as a reference\<close>

definition summed_points :: "(nat \<rightharpoonup> string) \<Rightarrow> nat \<Rightarrow> bfx_assets_loaded list \<Rightarrow> bfx_points option" where
  "summed_points exchanges p rs =
     (case rs of
        [] \<Rightarrow> None
      | r # rs' \<Rightarrow> Some
          \<lparr> bp_ProfileID = p, bp_BatchID = bx_BatchID r,
            bp_ExchangeID = (case exchanges p of None \<Rightarrow> '''' | Some x \<Rightarrow> x),
            bp_BonusPoints = foldl f64_add (bx_BonusPoints r) (map bx_BonusPoints rs'),
            bp_BfxPointsTotal = foldl f64_add (bx_TotalPoints r) (map bx_TotalPoints rs'),
            bp_Timestamp = Min (bx_Timestamp ` set rs), bp_BfxPoints24H = f64_of_int 0 \<rparr>)"

lemma aggregated_summed:
  "aggregated exchanges batch p = summed_points exchanges p (List.filter (\<lambda>r. bx_ProfileID r = p) batch)"
proof (cases "List.filter (\<lambda>r. bx_ProfileID r = p) batch")
  case (Cons r rs)
  then have "bx_ProfileID r = p"
    using set_filter [of "\<lambda>r. bx_ProfileID r = p" batch] by auto
  then show ?thesis
    using Cons unfolding aggregated_def foldl_aggregate_step Let_def
    by (simp add: foldl_add_points first_points_def foldl_min summed_points_def)
qed (simp add: aggregated_def foldl_aggregate_step summed_points_def)

text \<open>Property C40. Every profile of a batch gets exactly one row of points, in whatever order the map is
  visited: its bonus and total points are the sums over its records in the order of the batch, its
  time is the earliest of theirs, and its batch number and exchange are those of its first record.
\<close>

theorem points_of_each_profile:
  assumes "\<And>xs. mset (ord xs) = mset xs"
  shows "distinct (map bp_ProfileID (points_rows ord exchanges batch)) \<and>
    set (points_rows ord exchanges batch) =
      {q. \<exists>p. summed_points exchanges p (List.filter (\<lambda>r. bx_ProfileID r = p) batch) = Some q}"
proof -
  let ?ps = "ord (remdups (map bx_ProfileID batch))"
  have members: "set ?ps = bx_ProfileID ` set batch"
    using assms [of "remdups (map bx_ProfileID batch)"] by (metis mset_eq_setD set_map set_remdups)
  have "distinct ?ps"
    using assms [of "remdups (map bx_ProfileID batch)"] by (metis distinct_remdups mset_eq_imp_distinct_iff)
  then have "distinct (map bp_ProfileID (points_rows ord exchanges batch))"
    using map_filter_ids [of ?ps batch] members by (simp add: points_rows_def)
  moreover have "set (points_rows ord exchanges batch) = {q. \<exists>p. aggregated exchanges batch p = Some q}"
  proof (rule set_eqI)
    fix q
    have "p \<in> set ?ps" if "aggregated exchanges batch p = Some q" for p
      using that aggregated_None [of exchanges batch p] members by auto
    then show "q \<in> set (points_rows ord exchanges batch) \<longleftrightarrow> q \<in> {q. \<exists>p. aggregated exchanges batch p = Some q}"
      unfolding points_rows_def set_map_filter by blast
  qed
  ultimately show ?thesis
    by (simp add: aggregated_summed)
qed

definition demo_record :: "nat \<Rightarrow> nat \<Rightarrow> bfx_assets_loaded" where
  "demo_record p t = \<lparr> bx_ProfileID = p, bx_BatchID = 1, bx_TradingPoints = f64_of_int 0, bx_StakingPoints = f64_of_int 0,
     bx_BonusPoints = f64_of_int 1, bx_ReferralPoints = f64_of_int 0, bx_TotalPoints = f64_of_int 2, bx_VIPExtraBoost = f64_of_int 0,
     bx_Wallet = '''', bx_Liquidations = f64_of_int 0, bx_ReferralBoost = f64_of_int 0, bx_TradingLevel = '''',
     bx_TradingBoost = f64_of_int 0, bx_CumulativeVolume = f64_of_int 0, bx_Timestamp = t, bx_AveragePositions = [] \<rparr>"

lemma points_of_each_profile_witness:
  "distinct (map bp_ProfileID (points_rows rev Map.empty [demo_record 7 20, demo_record 8 30, demo_record 7 10])) \<and>
    set (points_rows rev Map.empty [demo_record 7 20, demo_record 8 30, demo_record 7 10]) =
      {q. \<exists>p. summed_points Map.empty p
        (List.filter (\<lambda>r. bx_ProfileID r = p) [demo_record 7 20, demo_record 8 30, demo_record 7 10]) = Some q}"
  by (rule points_of_each_profile) simp

lemma demo_points:
  "map (\<lambda>q. (bp_ProfileID q, bp_Timestamp q))
     (points_rows rev Map.empty [demo_record 7 20, demo_record 8 30, demo_record 7 10]) = [(7, 10), (8, 30)]"
  by (simp add: points_rows_def demo_record_def aggregated_def aggregate_step_def first_points_def add_points_def
      List.map_filter_simps)

section \<open>What the statements store\<close>

text \<open>The total points of a record of Bfx go to the column of the referral points, and the other way round.\<close>

lemma bfx_columns_swapped:
  "map_of (zip bfx_columns (bfx_row js r)) ''referral_points'' = Some (VFloat (bx_TotalPoints r))"
  "map_of (zip bfx_columns (bfx_row js r)) ''total_points'' = Some (VFloat (bx_ReferralPoints r))"
  by (simp_all add: bfx_columns_def bfx_row_def)

text \<open>Every column of a Blast record holds the field of its name, but a later batch leaves the boost as it was.\<close>

lemma blast_boost_kept:
  "map_of (zip blast_columns (blast_row r)) ''vip_extra_boost'' = Some (VFloat (ba_VIPExtraBoost r))"
  "''vip_extra_boost'' \<notin> set blast_overwritten" "set blast_columns - set blast_overwritten = {''blockchain'', ''profile_id'', ''vip_extra_boost''}"
  by (auto simp: blast_columns_def blast_row_def blast_overwritten_def)

text \<open>The sums of the operations are answered also when the database lost the last rows.\<close>

lemma partial_sums_accepted:
  assumes "result_set (a_reply (E h (External ''db.Query'' stmt))) = Inr (rows, err)" "sums_of S known no_sums rows = Inr s"
  shows "\<exists>h'. run E (query_sums S known stmt) h = (h', Done (Inr s))"
  using assms by (simp add: query_sums_def)

end
