(* ===== verification/Profile_Data.thy ===== *)
theory Profile_Data
  imports Sql Api_Context
begin

text \<open>
  The data a frontend keeps for a profile (\<^verbatim>\<open>profiledata/profiledata.go\<close>, \<^verbatim>\<open>api/profiledata.go\<close>): one row per
  profile with a version that a replacement compares and increments. The JSON object is read and
  written by the driver as a whole.
\<close>

section \<open>The storage\<close>

record 'd profile_data =
  pd_Version :: nat
  pd_Data    :: "'d gval"

definition errVersionMismatch :: string where
  "errVersionMismatch = ''version in db does not match version in request''"

definition errDB :: string where
  "errDB = ''db operation error''"

definition data_row :: "'d pgx_lib \<Rightarrow> 'd gval \<Rightarrow> string + 'd profile_data" where
  "data_row S = scan_row S (col S (px_uint S) (\<lambda>v. col S (px_json S) (\<lambda>x. scanned \<lparr> pd_Version = v, pd_Data = x \<rparr>)))"

definition no_data :: "'d profile_data" where
  "no_data = \<lparr> pd_Version = 0, pd_Data = VStruct ''map'' [] \<rparr>"

abbreviation get_stmt :: "nat \<Rightarrow> 'd gval list" where
  "get_stmt pid \<equiv> select_from [''version'', ''data''] ''app_profile_data'' [] [(''profile_id'', VUint pid)] ''''"

definition Storage_Get :: "'d pgx_lib \<Rightarrow> nat \<Rightarrow> ('d, string + 'd profile_data) prog" where
  "Storage_Get S pid =
     onErr (sql_query_row ''db.QueryRow'' (get_stmt pid) (data_row S))
       (\<lambda>e. Return (if e = ErrNoRows then Inr no_data else Inl (wrapped errDB e))) (\<lambda>x. Return (Inr x))"

definition replace_suffix :: string where
  "replace_suffix = ''ON CONFLICT (profile_id) DO UPDATE SET version = ? + 1, data = ? WHERE app_profile_data.version = ? RETURNING version, data''"

definition replace_stmt :: "nat \<Rightarrow> 'd profile_data \<Rightarrow> 'd gval list" where
  "replace_stmt pid x =
     insert_into ''app_profile_data'' [''profile_id'', ''version'', ''data''] [[VUint pid, VUint 1, pd_Data x]] replace_suffix @
     [VList [VUint (pd_Version x), pd_Data x, VUint (pd_Version x)]]"

text \<open>The data that is answered, with the error if there is one\<close>

definition Storage_Replace :: "'d pgx_lib \<Rightarrow> nat \<Rightarrow> 'd profile_data \<Rightarrow> ('d, 'd profile_data option \<times> string) prog" where
  "Storage_Replace S pid x =
     onErr (sql_query_row ''db.QueryRow'' (replace_stmt pid x) (data_row S))
       (\<lambda>e. if e = ErrNoRows
          then onErr (Storage_Get S pid) (\<lambda>e'. Return (None, e')) (\<lambda>y. Return (Some y, errVersionMismatch))
          else Return (None, wrapped errDB e))
       (\<lambda>y. Return (Some y, ''''))"

section \<open>The handlers\<close>

definition profile_data_val :: "'d profile_data \<Rightarrow> 'd gval" where
  "profile_data_val x = VStruct ''ProfileData'' [VUint (pd_Version x), pd_Data x]"

text \<open>After an error the handler goes on and answers once more, with nil.\<close>

definition HandleProfileDataRead :: "'d pgx_lib \<Rightarrow> 'm rabbit_context_scheme \<Rightarrow> ('d, unit) prog" where
  "HandleProfileDataRead S ctx = deref (rc_Profile ctx) (\<lambda>profile.
     andThen (Storage_Get S (pr_ProfileId profile)) (\<lambda>r.
       case r of
         Inl e \<Rightarrow> andThen (ErrorResponse e) (\<lambda>_. SuccessResponse [VNil])
       | Inr x \<Rightarrow> SuccessResponse [profile_data_val x]))"

text \<open>The answer to a refused replacement carries the data that is stored.\<close>

definition ErrorResponseWith :: "string \<Rightarrow> 'd gval \<Rightarrow> ('d, unit) prog" where
  "ErrorResponseWith e v = Call (External ''ErrorResponse'' [VString e, v]) (\<lambda>_. Return ())"

definition HandleProfileDataReplace :: "'d pgx_lib \<Rightarrow> 'm rabbit_context_scheme \<Rightarrow> string + 'd profile_data \<Rightarrow> ('d, unit) prog" where
  "HandleProfileDataReplace S ctx body = bindJSON body (\<lambda>x.
     deref (rc_Profile ctx) (\<lambda>profile.
     andThen (Storage_Replace S (pr_ProfileId profile) x) (\<lambda>(y, err).
       if err \<noteq> '''' then ErrorResponseWith err (opt_val profile_data_val y)
       else SuccessResponse [opt_val profile_data_val y])))"

section \<open>What the statements do\<close>

text \<open>
  The table holds at most one row of a profile. The insertion stores version one; when the row exists
  it is updated instead, under the condition that its version is the one given, and otherwise left
  alone, in which case no row is returned.
\<close>

type_synonym 'd data_table = "nat \<rightharpoonup> 'd profile_data"

definition upserted :: "nat \<Rightarrow> 'd profile_data \<Rightarrow> 'd data_table \<Rightarrow> 'd profile_data option" where
  "upserted pid x T =
     (case T pid of
        None \<Rightarrow> Some \<lparr> pd_Version = 1, pd_Data = pd_Data x \<rparr>
      | Some y \<Rightarrow> if pd_Version y = pd_Version x then Some \<lparr> pd_Version = pd_Version x + 1, pd_Data = pd_Data x \<rparr> else None)"

definition replaced :: "nat \<Rightarrow> 'd profile_data \<Rightarrow> 'd data_table \<Rightarrow> 'd data_table" where
  "replaced pid x T = (case upserted pid x T of None \<Rightarrow> T | Some y \<Rightarrow> T(pid \<mapsto> y))"

text \<open>Replacements of any profiles, one after the other; those that were accepted, in their order\<close>

fun replaced_all :: "(nat \<times> 'd profile_data) list \<Rightarrow> 'd data_table \<Rightarrow> 'd data_table" where
  "replaced_all [] T = T"
| "replaced_all ((pid, x) # rs) T = replaced_all rs (replaced pid x T)"

fun accepted_of :: "nat \<Rightarrow> (nat \<times> 'd profile_data) list \<Rightarrow> 'd data_table \<Rightarrow> 'd profile_data list" where
  "accepted_of p [] T = []"
| "accepted_of p ((pid, x) # rs) T =
     (if pid = p \<and> upserted pid x T \<noteq> None then x # accepted_of p rs (replaced pid x T)
      else accepted_of p rs (replaced pid x T))"

text \<open>The answer of the database to the statement of a replacement\<close>

definition answers_replacement :: "'d env \<Rightarrow> 'd history \<Rightarrow> nat \<Rightarrow> 'd profile_data \<Rightarrow> 'd data_table \<Rightarrow> bool" where
  "answers_replacement E h pid x T \<longleftrightarrow>
     a_reply (E h (External ''db.QueryRow'' (replace_stmt pid x))) =
       BRows [(VList (case upserted pid x T of None \<Rightarrow> [] | Some y \<Rightarrow> [VList [VUint (pd_Version y), pd_Data y]]), '''')]"

section \<open>Replacements never overwrite what they have not seen\<close>

lemma replaced_other: "pid \<noteq> p \<Longrightarrow> replaced pid x T p = T p"
  by (simp add: replaced_def split: option.split)

lemma replaced_same:
  "T p = Some y \<Longrightarrow> replaced p x T p =
     Some (if pd_Version x = pd_Version y then \<lparr> pd_Version = pd_Version y + 1, pd_Data = pd_Data x \<rparr> else y)"
  by (simp add: replaced_def upserted_def)

lemma accepted_chain:
  "T p = Some y \<Longrightarrow>
     map pd_Version (accepted_of p rs T) = [pd_Version y ..< pd_Version y + length (accepted_of p rs T)] \<and>
     replaced_all rs T p = Some \<lparr> pd_Version = pd_Version y + length (accepted_of p rs T),
       pd_Data = last (pd_Data y # map pd_Data (accepted_of p rs T)) \<rparr>"
proof (induction rs arbitrary: T y)
  case (Cons r rs)
  obtain pid x where r: "r = (pid, x)"
    by (cases r)
  show ?case
  proof (cases "pid = p \<and> pd_Version x = pd_Version y")
    case True
    then have "replaced pid x T p = Some \<lparr> pd_Version = pd_Version y + 1, pd_Data = pd_Data x \<rparr>"
      using Cons.prems by (simp add: replaced_same)
    moreover have "[v ..< v + Suc n] = v # [v + 1 ..< v + 1 + n]" for v n :: nat
      by (simp add: upt_rec)
    ultimately show ?thesis
      using Cons.IH [of "replaced pid x T" "\<lparr> pd_Version = pd_Version y + 1, pd_Data = pd_Data x \<rparr>"]
        True Cons.prems r by (simp add: upserted_def del: upt_Suc)
  next
    case False
    then have "replaced pid x T p = Some y" "\<not> (pid = p \<and> upserted pid x T \<noteq> None)"
      using Cons.prems replaced_other [of pid p x T] replaced_same [of T p y x]
      by (auto simp: upserted_def split: if_splits)
    with Cons.IH [of "replaced pid x T" y] show ?thesis
      using r by auto
  qed
qed simp

text \<open>A driver that reads a version and a JSON column as they are\<close>

definition reads_data :: "'d pgx_lib \<Rightarrow> bool" where
  "reads_data S \<longleftrightarrow> (\<forall>n. px_uint S (VUint n) = Inr n) \<and> (\<forall>v. px_json S v = Inr v)"

lemma Replace_reports:
  assumes "reads_data S" "answers_replacement E h p x T"
  shows "(\<exists>h' d. run E (Storage_Replace S p x) h = (h', Done (d, ''''))) \<longleftrightarrow> upserted p x T \<noteq> None"
proof (cases "upserted p x T")
  case None
  then show ?thesis
    using assms(2)
    by (auto simp: answers_replacement_def Storage_Replace_def Storage_Get_def onErr_def sql_query_row_def read_row_def
        result_set_def errVersionMismatch_def errDB_def wrapped_def ErrNoRows_def run_andThen split: sum.splits prod.splits)
next
  case (Some y)
  then show ?thesis
    using assms
    by (simp add: answers_replacement_def Storage_Replace_def onErr_def sql_query_row_def read_row_def result_set_def
        data_row_def col_def scanned_def reads_data_def)
qed


text \<open>The first write of a profile is accepted whatever version it names, also one that was never given.\<close>

lemma first_write_names_any_version:
  "T p = None \<Longrightarrow> upserted p \<lparr> pd_Version = v, pd_Data = d \<rparr> T = Some \<lparr> pd_Version = 1, pd_Data = d \<rparr>"
  by (simp add: upserted_def)

text \<open>A read that fails is answered twice.\<close>

lemma failed_read_answers_twice:
  assumes "rc_Profile ctx = Some profile"
    and "a_reply (E [] (External ''db.QueryRow'' (get_stmt (pr_ProfileId profile)))) = BErr e" "e \<noteq> ErrNoRows"
  shows "\<exists>a b c. fst (run E (HandleProfileDataRead S ctx) []) =
    [(Respond (Success [VNil]), a), (Respond (Failure (wrapped errDB e)), b),
     (External ''db.QueryRow'' (get_stmt (pr_ProfileId profile)), c)]"
  using assms
  by (simp add: HandleProfileDataRead_def deref_def Storage_Get_def onErr_def sql_query_row_def read_row_def result_set_def
      ErrorResponse_def SuccessResponse_def respond_def)


definition demo_data :: "nat \<Rightarrow> nat \<Rightarrow> rat profile_data" where
  "demo_data v d = \<lparr> pd_Version = v, pd_Data = VUint d \<rparr>"

definition demo_table :: "rat data_table" where
  "demo_table = [7 \<mapsto> demo_data 3 0]"

definition demo_requests :: "(nat \<times> rat profile_data) list" where
  "demo_requests = [(7, demo_data 3 1), (7, demo_data 3 2), (8, demo_data 0 0), (7, demo_data 4 5)]"

definition demo_driver :: "rat pgx_lib" where
  "demo_driver = \<lparr> px_uint = (\<lambda>v. case v of VUint n \<Rightarrow> Inr n | _ \<Rightarrow> Inl ''''), px_int = (\<lambda>v. Inl ''''),
     px_string = (\<lambda>v. Inl ''''), px_bool = (\<lambda>v. Inl ''''), px_decimal = (\<lambda>v. Inl ''''), px_float = (\<lambda>v. Inl ''''),
     px_time = (\<lambda>v. Inl ''''), px_json = Inr, px_error = '''' \<rparr>"

lemma demo_accepted: "accepted_of 7 demo_requests demo_table = [demo_data 3 1, demo_data 4 5]"
  by (simp add: demo_requests_def demo_table_def demo_data_def upserted_def replaced_def)


end
