(* ===== verification/Model_Auth.thy ===== *)
theory Model_Auth
  imports Model_Api
begin

text \<open>
  The secrets of the users: \<^verbatim>\<open>model/auth.go\<close> and \<^verbatim>\<open>model/api-vault-auth.go\<close>. An API secret is the
  key pair of a market maker, a frontend secret belongs to a browser session; both are kept by the
  instance \<^verbatim>\<open>auth\<close>. The hashes, the hexadecimal codec of go-ethereum and the JWT library are
  parameters.
\<close>

section \<open>The libraries\<close>

record auth_lib =
  al_sha256    :: "byte list \<Rightarrow> byte list"
  al_hmac256   :: "byte list \<Rightarrow> byte list \<Rightarrow> byte list"          \<comment> \<open>key and message\<close>
  al_hexEncode :: "byte list \<Rightarrow> string"                       \<comment> \<open>\<^verbatim>\<open>hexutil.Encode\<close>\<close>
  al_hexDecode :: "string \<Rightarrow> string + byte list"               \<comment> \<open>\<^verbatim>\<open>hexutil.Decode\<close>\<close>
  al_jwtSign   :: "string \<Rightarrow> int \<Rightarrow> string \<Rightarrow> string + string"   \<comment> \<open>subject, expiry in seconds, secret\<close>
  al_jwtParse  :: "int \<Rightarrow> string \<Rightarrow> string \<Rightarrow> string + string"  \<comment> \<open>now, token, secret: the subject\<close>

text \<open>The bytes of a string, and the base 64 encoding of the standard library\<close>

definition bytes_of :: "string \<Rightarrow> byte list" where
  "bytes_of s = map of_char s"

definition base64_alphabet :: string where
  "base64_alphabet = ''ABCDEFGHIJKLMNOPQRSTUVWXYZabcdefghijklmnopqrstuvwxyz0123456789+/''"

definition base64_char :: "nat \<Rightarrow> char" where
  "base64_char n = base64_alphabet ! (n mod 64)"

fun base64 :: "byte list \<Rightarrow> string" where
  "base64 [] = ''''"
| "base64 [a] = [base64_char (unat a div 4), base64_char (16 * unat a), CHR ''='', CHR ''='']"
| "base64 [a, b] =
     [base64_char (unat a div 4), base64_char (16 * unat a + unat b div 16), base64_char (4 * unat b), CHR ''='']"
| "base64 (a # b # c # bs) =
     [base64_char (unat a div 4), base64_char (16 * unat a + unat b div 16),
      base64_char (4 * unat b + unat c div 64), base64_char (unat c)] @ base64 bs"

section \<open>Clock and randomness\<close>

text \<open>A 64 bit signed result, and a number of seconds as a duration in nanoseconds\<close>

definition int64 :: "int \<Rightarrow> int" where
  "int64 n = (n + 2 ^ 63) mod 2 ^ 64 - 2 ^ 63"

definition seconds :: "int \<Rightarrow> int" where
  "seconds n = int64 (1000000000 * int64 n)"

definition unix :: "int \<Rightarrow> int" where
  "unix t = t div 1000000000"

text \<open>\<^verbatim>\<open>time.Now().Unix()\<close> and \<^verbatim>\<open>time.Now().Add(time.Second * time.Duration(n)).Unix()\<close>\<close>

definition now_unix :: "(int \<Rightarrow> ('d, 'a) prog) \<Rightarrow> ('d, 'a) prog" where
  "now_unix k = now (\<lambda>t. k (unix t))"

definition now_plus_unix :: "int \<Rightarrow> (int \<Rightarrow> ('d, 'a) prog) \<Rightarrow> ('d, 'a) prog" where
  "now_plus_unix n k = now (\<lambda>t. k (unix (t + seconds n)))"

definition rand_read :: "int \<Rightarrow> ('d, string + byte list) prog" where
  "rand_read n =
     Call (External ''rand.Read'' [VInt n]) (\<lambda>ans. Return (decode_reply as_bytes (a_reply ans)))"

section \<open>Requests of the instance auth\<close>

text \<open>
  These requests decode the first row by hand. An empty result is the error \<^verbatim>\<open>UNKNOWN_ERROR\<close>,
  except where the code reads the first row without looking, which panics.
\<close>

definition decode_auth :: "('d, 'a) decoder \<Rightarrow> 'd reply \<Rightarrow> string + 'a" where
  "decode_auth dec r =
     (case r of
        BErr e \<Rightarrow> Inl e
      | BRows [] \<Rightarrow> Inl ''UNKNOWN_ERROR''
      | BRows ((v, e) # _) \<Rightarrow>
          if e \<noteq> '''' then Inl e
          else (case dec v of None \<Rightarrow> Inl decode_error | Some x \<Rightarrow> Inr x))"

definition Request_auth :: "('d, 'a) decoder \<Rightarrow> string \<Rightarrow> 'd gval list \<Rightarrow> ('d, string + 'a) prog" where
  "Request_auth dec fn params =
     Call (Execute AUTH_INSTANCE fn params) (\<lambda>ans. Return (decode_auth dec (a_reply ans)))"

text \<open>The error alone, without a test for an empty result\<close>

definition Request_unchecked :: "string \<Rightarrow> 'd gval list \<Rightarrow> ('d, string + unit) prog" where
  "Request_unchecked fn params =
     Call (Execute AUTH_INSTANCE fn params) (\<lambda>ans.
       case a_reply ans of
         BErr e \<Rightarrow> Return (Inl e)
       | BRows [] \<Rightarrow> Panic ''index out of range [0] with length 0''
       | BRows ((v, e) # _) \<Rightarrow> Return (if e \<noteq> '''' then Inl e else Inr ()))"

section \<open>API secrets\<close>

definition API_SECRET_GEN_STATUS :: string where "API_SECRET_GEN_STATUS = ''API_GEN''"

definition generateSecret :: "auth_lib \<Rightarrow> nat \<Rightarrow> int \<Rightarrow> string \<Rightarrow> ('d, string + api_secret) prog" where
  "generateSecret K profileID expiredAt tag =
     onErr (rand_read 32) (\<lambda>e. Return (Inl e)) (\<lambda>key.
     onErr (rand_read 32) (\<lambda>e. Return (Inl e)) (\<lambda>secret.
       Return (Inr \<lparr> as_Key = base64 key, as_ProfileID = profileID, as_Secret = al_hexEncode K secret,
         as_Tag = tag, as_Expiration = nat (expiredAt mod 2 ^ 64), as_Status = '''' \<rparr>)))"

definition UpdateApiSecretExpire :: "string \<Rightarrow> int \<Rightarrow> ('d, string + unit) prog" where
  "UpdateApiSecretExpire key newExpiresAt =
     andThen (Request_auth as_any ''api_update_api_secret_expire'' [VString key, VInt newExpiresAt])
       (\<lambda>r. Return (err_of r))"

definition RefreshSecret ::
  "nat \<Rightarrow> string \<Rightarrow> string \<Rightarrow> string \<Rightarrow> int \<Rightarrow> ('d, string + 'd gval list option) prog" where
  "RefreshSecret profileID refreshToken newJwt newRefreshToken newExpiredAt =
     Request_auth (as_ptr (as_struct ''Secret'')) ''api_refresh_secret''
       [VUint profileID, VString refreshToken, VString newJwt, VString newRefreshToken, VInt newExpiredAt]"

definition GetSecrets :: "nat \<Rightarrow> ('d, string + 'd gval list option list) prog" where
  "GetSecrets profileID =
     Request_auth (as_list (as_ptr (as_struct ''Secret''))) ''api_list_secrets'' [VUint profileID]"

definition CreatePair ::
  "api_secret \<Rightarrow> string \<Rightarrow> string \<Rightarrow> string list \<Rightarrow> ('d, string + api_secret option) prog" where
  "CreatePair apiSecret jwt refresh_token ips =
     Request_auth (as_ptr as_api_secret) ''api_secret_pair_create''
       [VApiSecret apiSecret, VString jwt, VString refresh_token, VList (map VString ips)]"

definition DeletePairForProfile :: "nat \<Rightarrow> string \<Rightarrow> ('d, string + unit) prog" where
  "DeletePairForProfile profileID key =
     Request_unchecked ''api_delete_secret_key'' [VUint profileID, VString key]"

text \<open>By default a key expires after six months.\<close>

definition six_months :: int where "six_months = 24 * 30 * 6 * 3600"

definition CreatePairFromProfileID ::
  "auth_lib \<Rightarrow> string \<Rightarrow> nat \<Rightarrow> int option \<Rightarrow> string \<Rightarrow> string \<Rightarrow> string list \<Rightarrow>
   ('d, string + api_secret option) prog" where
  "CreatePairFromProfileID K tag profileID expiration jwt refresh_token ips =
     now_plus_unix six_months (\<lambda>dflt.
       onErr (generateSecret K profileID (case expiration of None \<Rightarrow> dflt | Some e \<Rightarrow> e) tag)
         (\<lambda>e. Return (Inl e))
         (\<lambda>apiSecret. CreatePair apiSecret jwt refresh_token ips))"

definition ValidateApiKey :: "string \<Rightarrow> string \<Rightarrow> ('d, string + unit) prog" where
  "ValidateApiKey key ip =
     now_unix (\<lambda>t. Request_unchecked ''api_secret_validate'' [VString key, VString ip, VInt t])"

definition GetByKey :: "string \<Rightarrow> ('d, string + api_secret option) prog" where
  "GetByKey key = Request_auth (as_ptr as_api_secret) ''api_secret_by_key'' [VString key]"

definition GetOrRefreshSecretByProfileID ::
  "auth_lib \<Rightarrow> nat \<Rightarrow> ('d, string + api_secret option list) prog" where
  "GetOrRefreshSecretByProfileID K profileID =
     now_plus_unix six_months (\<lambda>expiredAt.
       onErr (generateSecret K profileID expiredAt '''') (\<lambda>e. Return (Inl e)) (\<lambda>s.
         Call (Execute AUTH_INSTANCE ''get_or_refresh_api_secret_by_profile_id''
                [VUint profileID, VApiSecret (s \<lparr>as_Status := API_SECRET_GEN_STATUS\<rparr>)])
           (\<lambda>ans. Return (if a_reply ans = BRows [] then Inr []
                          else decode_auth (as_list (as_ptr as_api_secret)) (a_reply ans)))))"

text \<open>The error field of the row is not read.\<close>

definition GetByProfileID :: "nat \<Rightarrow> ('d, string + api_secret option list) prog" where
  "GetByProfileID profileID =
     Call (Execute AUTH_INSTANCE ''api_secret_by_profile_id'' [VUint profileID]) (\<lambda>ans. Return
       (case a_reply ans of
          BErr e \<Rightarrow> Inl e
        | BRows [] \<Rightarrow> Inr []
        | BRows ((v, _) # _) \<Rightarrow>
            (case as_list (as_ptr as_api_secret) v of None \<Rightarrow> Inl decode_error | Some x \<Rightarrow> Inr x)))"

definition RemoveSessionSecrets :: "nat \<Rightarrow> ('d, string + unit) prog" where
  "RemoveSessionSecrets profileID =
     andThen (Request_auth as_any ''remove_session_secrets'' [VUint profileID]) (\<lambda>r. Return (err_of r))"

text \<open>\<^verbatim>\<open>strconv.Itoa(int(profileID))\<close>\<close>

definition GenerateJwt :: "auth_lib \<Rightarrow> nat \<Rightarrow> string \<Rightarrow> int \<Rightarrow> string + string" where
  "GenerateJwt K profileID hmacSecret expiresAt =
     al_jwtSign K (show_int (int64 (int profileID))) expiresAt hmacSecret"

section \<open>Frontend secrets\<close>

definition FrontendSecret_Create ::
  "frontend_secret \<Rightarrow> string \<Rightarrow> ('d, string + frontend_secret option) prog" where
  "FrontendSecret_Create frontendSecret oldJwt =
     Request_auth (as_ptr as_frontend_secret) ''frontend_secret_create''
       [VFrontendSecret frontendSecret, VString oldJwt]"

definition frontend_generateJwt :: "auth_lib \<Rightarrow> nat \<Rightarrow> string \<Rightarrow> nat \<Rightarrow> ('d, string + string) prog" where
  "frontend_generateJwt K profileID hmacSecret lifetime =
     now_plus_unix (int lifetime) (\<lambda>expiresAt. Return (GenerateJwt K profileID hmacSecret expiresAt))"

definition CreateFromProfileID ::
  "auth_lib \<Rightarrow> nat \<Rightarrow> string \<Rightarrow> string \<Rightarrow> nat \<Rightarrow> nat \<Rightarrow> ('d, string + frontend_secret option) prog" where
  "CreateFromProfileID K profileID oldJwt hmacSecret jwtLifetime refreshTokenLifetime =
     onErr (rand_read 32) (\<lambda>e. Return (Inl e)) (\<lambda>randomSecret.
     onErr (frontend_generateJwt K profileID hmacSecret jwtLifetime) (\<lambda>e. Return (Inl e)) (\<lambda>jwt.
     onErr (frontend_generateJwt K profileID hmacSecret refreshTokenLifetime) (\<lambda>e. Return (Inl e)) (\<lambda>refreshToken.
       FrontendSecret_Create
         \<lparr> fs_Jwt = jwt, fs_ProfileID = profileID, fs_RandomSecret = al_hexEncode K randomSecret,
           fs_RefreshToken = refreshToken, fs_Status = '''' \<rparr> oldJwt)))"

definition GetByJwt :: "string \<Rightarrow> ('d, string + frontend_secret option) prog" where
  "GetByJwt jwt = Request_auth (as_ptr as_frontend_secret) ''frontend_secret_by_jwt'' [VString jwt]"

definition GetByRefreshToken :: "string \<Rightarrow> ('d, string + frontend_secret option) prog" where
  "GetByRefreshToken refreshToken =
     Request_auth (as_ptr as_frontend_secret) ''frontend_secret_by_refresh_token'' [VString refreshToken]"

definition FrontendSecret_Update :: "frontend_secret \<Rightarrow> ('d, string + frontend_secret option) prog" where
  "FrontendSecret_Update frontendSecret =
     Request_auth (as_ptr as_frontend_secret) ''frontend_secret_update'' [VFrontendSecret frontendSecret]"

section \<open>Roles on a vault\<close>

definition IsValidSigner :: "string \<Rightarrow> string \<Rightarrow> nat \<Rightarrow> ('d, string + unit) prog" where
  "IsValidSigner vault wallet requireRole =
     onErr (Request as_bool PROFILE_INSTANCE ''profile.is_valid_signer''
              [VString (to_lower vault), VString (to_lower wallet), VUint requireRole])
       (\<lambda>e. Return (Inl e))
       (\<lambda>isValid.
          if \<not> isValid
          then Return (Inl (''requiredRole='' @ show_nat requireRole @ '' on Vault='' @ to_lower vault @
                 '' for wallet'' @ to_lower wallet @ '' not allowed''))
          else Return (Inr ()))"

definition AddPermission :: "string \<Rightarrow> string \<Rightarrow> nat \<Rightarrow> ('d, string + unit) prog" where
  "AddPermission vault wallet requireRole =
     Request_err as_any PROFILE_INSTANCE ''profile.add_permission''
       [VString (to_lower vault), VString (to_lower wallet), VUint requireRole]"

section \<open>Rules\<close>

lemma wp_now_unix [simp]: "wp P Q (now_unix k) h \<longleftrightarrow> P h Clock \<and> (\<forall>ans. wp P Q (k (unix (a_time ans))) ((Clock, ans) # h))"
  by (simp add: now_unix_def now_def)

lemma wp_now_plus_unix [simp]:
  "wp P Q (now_plus_unix n k) h \<longleftrightarrow>
     P h Clock \<and> (\<forall>ans. wp P Q (k (unix (a_time ans + seconds n))) ((Clock, ans) # h))"
  by (simp add: now_plus_unix_def now_def)

lemma wp_Request_auth [simp]:
  "wp P Q (Request_auth dec fn ps) h \<longleftrightarrow>
     P h (Execute AUTH_INSTANCE fn ps) \<and>
     (\<forall>ans. Q ((Execute AUTH_INSTANCE fn ps, ans) # h) (Done (decode_auth dec (a_reply ans))))"
  by (simp add: Request_auth_def)

lemma wp_rand_read [simp]:
  "wp P Q (rand_read n) h \<longleftrightarrow>
     P h (External ''rand.Read'' [VInt n]) \<and>
     (\<forall>ans. Q ((External ''rand.Read'' [VInt n], ans) # h) (Done (decode_reply as_bytes (a_reply ans))))"
  by (simp add: rand_read_def)

text \<open>What a request without a test answers: a driver's error, a panic, or the error of its row\<close>

definition row_accepted :: "'d reply \<Rightarrow> bool" where
  "row_accepted r \<longleftrightarrow> (\<exists>v rows. r = BRows ((v, '''') # rows))"

lemma wp_Request_unchecked:
  assumes "P h (Execute AUTH_INSTANCE fn ps)"
    and "\<And>ans. row_accepted (a_reply ans) \<Longrightarrow> Q ((Execute AUTH_INSTANCE fn ps, ans) # h) (Done (Inr ()))"
    and "\<And>ans e. Q ((Execute AUTH_INSTANCE fn ps, ans) # h) (Done (Inl e))"
    and "\<And>ans m. Q ((Execute AUTH_INSTANCE fn ps, ans) # h) (Panicked m)"
  shows "wp P Q (Request_unchecked fn ps) h"
  using assms by (auto simp: Request_unchecked_def row_accepted_def split: reply.split list.split)

lemma decode_auth_ok:
  "decode_auth dec r = Inr x \<longleftrightarrow> (\<exists>v rows. r = BRows ((v, '''') # rows) \<and> dec v = Some x)"
  by (auto simp: decode_auth_def split: reply.splits list.splits prod.splits if_splits option.splits)

end
