(* ===== verification/Eth_Handler.thy ===== *)
theory Eth_Handler
  imports Model_Balance Model_Api "HOL-Library.Signed_Division"
begin

text \<open>
  The on-chain side of the settlement (\<^verbatim>\<open>settlement/ethereum_handler.go\<close>): scanning the
  blocks of a chain for deposits, stakes, yields and withdrawal receipts, and turning each event
  into an operation on the profile instance. The Ethereum library (address and hash texts, the
  ABI decoder, Keccak) is the parameter \<open>L\<close>. The client connection and the last scanned block of
  a handler are shared by its goroutines, so they are read and written by calls.
\<close>

section \<open>The handler\<close>

datatype abi_kind = ExchangeAbi | DepositAbi | VaultAbi

text \<open>The decoded values of an event: the code reads the first, as a big integer.\<close>

datatype abi_value = AbiInt int | AbiOther string

record eth_lib =
  el_address    :: "160 word \<Rightarrow> string"    \<comment> \<open>\<^verbatim>\<open>Address.String\<close>\<close>
  el_to_address :: "string \<Rightarrow> 160 word"    \<comment> \<open>\<^verbatim>\<open>HexToAddress\<close>\<close>
  el_hash       :: "256 word \<Rightarrow> string"    \<comment> \<open>\<^verbatim>\<open>Hash.Hex\<close>\<close>
  el_unpack     :: "abi_kind \<Rightarrow> string \<Rightarrow> byte list \<Rightarrow> string + abi_value list"
  el_keccak     :: "byte list \<Rightarrow> 256 word"

record eth_handler =
  eh_deposit_address      :: "160 word"
  eh_exchange_address     :: "160 word"
  eh_decimals             :: int
  eh_vaults               :: "160 word list"
  eh_providerUrl          :: string
  eh_walletAddress        :: "160 word"
  eh_withdrawalReceiptID  :: "256 word"
  eh_rabbitDepositID      :: "256 word"
  eh_proxyDepositID       :: "256 word"
  eh_vaultStakeID         :: "256 word"
  eh_claimedYieldID       :: "256 word"
  eh_withdrawalBlockDelay :: int
  eh_defaultFromBlock     :: int
  eh_blockConfirmations   :: int
  eh_cancelInterval       :: int    \<comment> \<open>in nanoseconds\<close>
  eh_claimYield           :: bool
  eh_exchangeId           :: string
  eh_chainId              :: nat

abbreviation GAS_TOO_LOW :: string where
  "GAS_TOO_LOW \<equiv> ''max fee per gas less than block base fee''"
abbreviation DEPOSIT_AND_STAKING_EVENT :: string where
  "DEPOSIT_AND_STAKING_EVENT \<equiv> ''deposit_and_staking''"
abbreviation WITHDRAW_AND_UNSTAKE_EVENT :: string where
  "WITHDRAW_AND_UNSTAKE_EVENT \<equiv> ''withdraw_and_unstake''"
abbreviation PROCESS_YIELD_EVENT :: string where
  "PROCESS_YIELD_EVENT \<equiv> ''process_yield''"

definition BLAST_CHAIN_ID :: nat where "BLAST_CHAIN_ID = 81457"
definition BLAST_SEPOLIA_CHAIN_ID :: nat where "BLAST_SEPOLIA_CHAIN_ID = 168587773"
definition MAX_BLOCKS :: int where "MAX_BLOCKS = 1999"

definition on_blast :: "eth_handler \<Rightarrow> bool" where
  "on_blast eh \<longleftrightarrow> eh_chainId eh = BLAST_CHAIN_ID \<or> eh_chainId eh = BLAST_SEPOLIA_CHAIN_ID"

definition exchange_text :: "eth_lib \<Rightarrow> eth_handler \<Rightarrow> string" where
  "exchange_text L eh = el_address L (eh_exchange_address eh)"

section \<open>Connecting\<close>

text \<open>At most five attempts, with a doubling pause after each failure.\<close>

primrec dial_loop :: "eth_handler \<Rightarrow> nat \<Rightarrow> int \<Rightarrow> string option \<Rightarrow> ('d, string option) prog" where
  "dial_loop eh 0 sleepFor err = Return err"
| "dial_loop eh (Suc n) sleepFor err =
     Call (EthDial (eh_providerUrl eh)) (\<lambda>ans.
       case a_error ans of
         None \<Rightarrow> Return None
       | Some e \<Rightarrow> sleep sleepFor (dial_loop eh n (sleepFor * 2) (Some e)))"

definition Dial :: "eth_handler \<Rightarrow> ('d, string option) prog" where
  "Dial eh =
     Call (StoreFlag ''ethClient'' False) (\<lambda>_.
     andThen (dial_loop eh 5 4000 None) (\<lambda>err.
     case err of
       Some e \<Rightarrow> Return (Some (''error dialing eth client: '' @ e))
     | None \<Rightarrow>
         Call (StoreFlag ''ethClient'' True) (\<lambda>_.
         if on_blast eh
         then Call (EthBindExchange (eh_exchange_address eh)) (\<lambda>ans.
                case a_error ans of
                  Some e \<Rightarrow> Return (Some (''error connecting to exchange contract: '' @ e))
                | None \<Rightarrow> Return None)
         else Return None)))"

definition getCurrentBlockNumber :: "('d, string + int) prog" where
  "getCurrentBlockNumber =
     Call EthHeader (\<lambda>ans. case a_int ans of
         Inl e \<Rightarrow> Return (Inl (''error retrieving current block number: '' @ e))
       | Inr n \<Rightarrow> Return (Inr n))"

definition resetLastProcessedBlockNumber ::
  "eth_handler \<Rightarrow> string \<Rightarrow> string \<Rightarrow> nat \<Rightarrow> ('d, string + int) prog" where
  "resetLastProcessedBlockNumber eh address event chainId =
     onErr (SetLastProcessedBlockNumber (eh_defaultFromBlock eh) address chainId event)
       (\<lambda>e. Return (Inl e)) (\<lambda>_. Return (Inr (eh_defaultFromBlock eh)))"

definition checkLastProcessedBlockNumbers ::
  "eth_handler \<Rightarrow> string \<Rightarrow> string \<Rightarrow> nat \<Rightarrow> ('d, string + unit) prog" where
  "checkLastProcessedBlockNumbers eh address event chainId =
     onErr getCurrentBlockNumber (\<lambda>e. Return (Inl e)) (\<lambda>currentBlock.
     andThen (GetLastProcessedBlockNumber address chainId event) (\<lambda>r.
     case r of
       Inl _ \<Rightarrow> onErr (resetLastProcessedBlockNumber eh address event chainId)
                  (\<lambda>e. Return (Inl e)) (\<lambda>_. Return (Inr ()))
     | Inr lastBlock \<Rightarrow>
         if currentBlock < lastBlock \<or> lastBlock < eh_defaultFromBlock eh
         then onErr (resetLastProcessedBlockNumber eh address event chainId)
                (\<lambda>e. Return (Inl e)) (\<lambda>_. Return (Inr ()))
         else Return (Inr ())))"

definition ensureConnected ::
  "eth_handler \<Rightarrow> string \<Rightarrow> string \<Rightarrow> nat \<Rightarrow> ('d, bool) prog" where
  "ensureConnected eh address event chainId =
     (let check = (if event \<noteq> ''''
                   then andThen (checkLastProcessedBlockNumbers eh address event chainId)
                          (\<lambda>r. Return (case r of Inl _ \<Rightarrow> False | Inr _ \<Rightarrow> True))
                   else Return True)
      in Call (LoadFlag ''ethClient'') (\<lambda>ans.
           if \<not> a_flag ans
           then andThen (Dial eh) (\<lambda>err. case err of Some _ \<Rightarrow> Return False | None \<Rightarrow> check)
           else check))"

text \<open>The next range of confirmed blocks after the last processed one, at most \<open>MAX_BLOCKS\<close> + 1 long\<close>

definition getL1BlockNumbers ::
  "eth_handler \<Rightarrow> int option \<Rightarrow> ('d, string + (int \<times> int)) prog" where
  "getL1BlockNumbers eh lastBlock =
     (let fromBlock = (case lastBlock of Some b \<Rightarrow> b + 1 | None \<Rightarrow> eh_defaultFromBlock eh) in
      onErr getCurrentBlockNumber
        (\<lambda>e. Return (Inl (''error reading current block number: '' @ e))) (\<lambda>head.
      let toBlock = head - eh_blockConfirmations eh;
          fromPlusMaxBlocks = fromBlock + MAX_BLOCKS;
          toBlock = (if fromPlusMaxBlocks < toBlock then fromPlusMaxBlocks else toBlock)
      in Return (Inr (fromBlock, toBlock))))"

section \<open>Events\<close>

text \<open>
  The accumulator of a scan (\<^verbatim>\<open>interface{}\<close>): nil, or the withdrawals completed so far. A handler
  returns the new accumulator and whether to go on.
\<close>

type_synonym acc = "withdrawal_tx list option"
type_synonym 'd event_handler = "eth_log \<Rightarrow> abi_value list \<Rightarrow> acc \<Rightarrow> ('d, acc \<times> bool) prog"
type_synonym 'd batch_handler = "acc \<Rightarrow> bool \<Rightarrow> ('d, bool) prog"

definition topic :: "eth_log \<Rightarrow> nat \<Rightarrow> (256 word \<Rightarrow> ('d, 'b) prog) \<Rightarrow> ('d, 'b) prog" where
  "topic vLog n k =
     (if n < length (log_Topics vLog) then k (log_Topics vLog ! n)
      else Panic ''index out of range'')"

text \<open>\<^verbatim>\<open>values[0].(*big.Int)\<close>\<close>

definition first_int :: "abi_value list \<Rightarrow> (int \<Rightarrow> ('d, 'b) prog) \<Rightarrow> ('d, 'b) prog" where
  "first_int values k =
     (case values of
        AbiInt n # _ \<Rightarrow> k n
      | AbiOther _ # _ \<Rightarrow> Panic ''interface conversion''
      | [] \<Rightarrow> Panic ''index out of range'')"

text \<open>Which ABI decodes a log, by its address\<close>

definition log_abi :: "eth_handler \<Rightarrow> 160 word \<Rightarrow> abi_kind option" where
  "log_abi eh a =
     (if a = eh_exchange_address eh then Some ExchangeAbi
      else if a = eh_deposit_address eh then Some DepositAbi
      else if a \<in> set (eh_vaults eh) then Some VaultAbi
      else None)"

primrec event_loop ::
  "eth_lib \<Rightarrow> eth_handler \<Rightarrow> (256 word \<times> string) list \<Rightarrow> 'd event_handler \<Rightarrow> eth_log list \<Rightarrow> acc \<Rightarrow>
   ('d, acc \<times> bool) prog" where
  "event_loop L eh eventTypes handler [] acc = Return (acc, False)"
| "event_loop L eh eventTypes handler (vLog # logs) acc =
     topic vLog 0 (\<lambda>eventId.
     case map_of eventTypes eventId of
       None \<Rightarrow> event_loop L eh eventTypes handler logs acc
     | Some eventType \<Rightarrow>
         if log_Removed vLog then event_loop L eh eventTypes handler logs acc
         else if log_BlockNumber vLog = 0 then event_loop L eh eventTypes handler logs acc
         else
           (case log_abi eh (log_Address vLog) of
              None \<Rightarrow> event_loop L eh eventTypes handler logs acc
            | Some abi \<Rightarrow>
                (case el_unpack L abi eventType (log_Data vLog) of
                   Inl _ \<Rightarrow> event_loop L eh eventTypes handler logs acc
                 | Inr values \<Rightarrow>
                     if values = [] then event_loop L eh eventTypes handler logs acc
                     else
                       andThen (handler vLog values acc) (\<lambda>(acc', keepGoing).
                         if keepGoing then event_loop L eh eventTypes handler logs acc'
                         else Return (acc', True)))))"

definition filterLogs :: "filter_query \<Rightarrow> ('d, string + eth_log list) prog" where
  "filterLogs query = Call (EthFilterLogs query) (\<lambda>ans. Return (a_logs ans))"

text \<open>
  The query over a range. The topics are the keys of the map of event types; a map has no
  order, and neither has the filter.
\<close>

definition range_query ::
  "(256 word \<times> string) list \<Rightarrow> 160 word list \<Rightarrow> int \<Rightarrow> int \<Rightarrow> filter_query" where
  "range_query eventTypes addresses fromBlock toBlock =
     \<lparr> fq_FromBlock = fromBlock, fq_ToBlock = toBlock, fq_Addresses = addresses,
       fq_Topics = remdups (map fst eventTypes) \<rparr>"

text \<open>What \<^verbatim>\<open>processEvents\<close> does with the logs of its query\<close>

definition process_logs ::
  "eth_lib \<Rightarrow> eth_handler \<Rightarrow> int \<Rightarrow> (256 word \<times> string) list \<Rightarrow>
   'd event_handler \<Rightarrow> acc \<Rightarrow> 'd batch_handler option \<Rightarrow> eth_log list \<Rightarrow> ('d, bool) prog" where
  "process_logs L eh toBlock eventTypes handler acc batchHandler logs =
     andThen (event_loop L eh eventTypes handler logs acc) (\<lambda>(acc', endedEarly).
     andThen (case batchHandler of
                Some batch \<Rightarrow> batch acc' endedEarly
              | None \<Rightarrow> Return (\<not> endedEarly)) (\<lambda>success.
     if success then Call (StoreBlock ''latestBlock'' toBlock) (\<lambda>_. Return True)
     else Return False))"

definition processEvents ::
  "eth_lib \<Rightarrow> eth_handler \<Rightarrow> int \<Rightarrow> int \<Rightarrow> 160 word list \<Rightarrow> (256 word \<times> string) list \<Rightarrow>
   'd event_handler \<Rightarrow> acc \<Rightarrow> 'd batch_handler option \<Rightarrow> ('d, bool) prog" where
  "processEvents L eh fromBlock toBlock addresses eventTypes handler acc batchHandler =
     (let query = range_query eventTypes addresses fromBlock toBlock;
          process = process_logs L eh toBlock eventTypes handler acc batchHandler
      in onErr (filterLogs query)
           (\<lambda>_. andThen (Dial eh) (\<lambda>err.
              case err of
                Some _ \<Rightarrow> Return False
              | None \<Rightarrow> onErr (filterLogs query) (\<lambda>_. Return False) process))
           process)"

end
