(* ===== verification/Auth.thy ===== *)
theory Auth
  imports Model_Auth Api_Context Eth_Handler "HOL-Library.List_Lexorder" "HOL-Library.Char_ord"
begin

text \<open>
  The package \<^verbatim>\<open>auth\<close>: the signature of a request's payload (\<^verbatim>\<open>payload.go\<close>), the signature of a
  wallet over a sign-in message (\<^verbatim>\<open>verify.go\<close>), the profile id in a token (\<^verbatim>\<open>jwt.go\<close>) and the
  onboarding of frontend users and market makers.
\<close>

section \<open>Errors\<close>

definition ExpiredSignatureError :: "int \<Rightarrow> int \<Rightarrow> string" where
  "ExpiredSignatureError signature current =
     ''metamask signature is expired (signature timestamp: '' @ show_int signature @
     '', current timestamp: '' @ show_int current @ '')''"

definition InvalidPayloadSignatureError :: "string \<Rightarrow> string \<Rightarrow> string" where
  "InvalidPayloadSignatureError expected actual =
     ''invalid payload signature (expected: '' @ expected @ '', actual: '' @ actual @ '')''"

definition InvalidMetamaskSignatureError :: "string \<Rightarrow> string \<Rightarrow> string" where
  "InvalidMetamaskSignatureError expected recovered =
     ''invalid ecdsa signature from metamask (expected address: '' @ expected @
     '', recovered address: '' @ recovered @ '')''"

definition MissingPayloadKeyError :: "string \<Rightarrow> string" where
  "MissingPayloadKeyError key = ''payload is missing key: '' @ key"

definition NotValidSignerError :: "string \<Rightarrow> string \<Rightarrow> string \<Rightarrow> nat \<Rightarrow> string" where
  "NotValidSignerError msg wallet vault role =
     ''trader: '' @ wallet @ '' doesn't have role: '' @ show_nat role @ '' on vault: '' @ vault @ '' error: '' @ msg"

section \<open>Payloads\<close>

definition requiredKeys :: "string list" where
  "requiredKeys = [''method'', ''path'']"

definition NewPayload :: "int \<Rightarrow> (string \<times> string) list \<Rightarrow> string + payload" where
  "NewPayload timestamp data =
     (case List.find (\<lambda>k. map_of data k = None) requiredKeys of
        Some k \<Rightarrow> Inl (MissingPayloadKeyError k)
      | None \<Rightarrow> Inr \<lparr> pl_Timestamp = timestamp, pl_Data = data \<rparr>)"

text \<open>The bytes that are hashed: the pairs in the order of their keys, then the timestamp\<close>

definition hash_input :: "payload \<Rightarrow> string" where
  "hash_input s =
     (let sortedKeys = sort (map fst (pl_Data s))
      in concat (map (\<lambda>k. k @ ''='' @ the (map_of (pl_Data s) k)) sortedKeys) @ show_int (pl_Timestamp s))"

definition Hash :: "auth_lib \<Rightarrow> payload \<Rightarrow> byte list" where
  "Hash K s = al_sha256 K (bytes_of (hash_input s))"

definition Sign :: "auth_lib \<Rightarrow> payload \<Rightarrow> string \<Rightarrow> string + string" where
  "Sign K s secret =
     (case al_hexDecode K secret of
        Inl e \<Rightarrow> Inl e
      | Inr secretBytes \<Rightarrow> Inr (al_hexEncode K (al_hmac256 K secretBytes (Hash K s))))"

definition Payload_Verify :: "auth_lib \<Rightarrow> payload \<Rightarrow> string \<Rightarrow> string \<Rightarrow> string \<Rightarrow> ('d, string + unit) prog" where
  "Payload_Verify K s signature secret envmode =
     (case Sign K s secret of
        Inl e \<Rightarrow> Return (Inl e)
      | Inr expected \<Rightarrow>
          if expected \<noteq> signature
          then Return (Inl (if to_lower envmode = ''prod''
                            then InvalidPayloadSignatureError ''protected'' ''protected''
                            else InvalidPayloadSignatureError expected signature))
          else now_unix (\<lambda>current.
            if pl_Timestamp s \<le> current
            then Return (Inl (ExpiredSignatureError (pl_Timestamp s) current))
            else Return (Inr ())))"

section \<open>Signatures of a wallet\<close>

datatype signature_type = EIP_712 | EIP_191

text \<open>
  The encoder of \<^verbatim>\<open>signer/eip712_encoder.go\<close>: the domain of the typed data. The hash of a struct
  (\<^verbatim>\<open>apitypes.TypedData.HashStruct\<close>), Keccak and the recovery of the address of the key that made
  a signature are go-ethereum's.
\<close>

record eip712_encoder =
  ee_name              :: string
  ee_version           :: string
  ee_chainId           :: int
  ee_verifyingContract :: "string option"

datatype typed_value = TString string | TInt int

type_synonym typed_fields = "(string \<times> string) list"   \<comment> \<open>name and type\<close>

record wallet_lib =
  wl_isHexAddress :: "string \<Rightarrow> bool"
  wl_hashDomain   :: "eip712_encoder \<Rightarrow> string + byte list"
  wl_hashStruct   :: "eip712_encoder \<Rightarrow> string \<Rightarrow> (string \<times> typed_fields) list \<Rightarrow>
                       (string \<times> typed_value) list \<Rightarrow> string + byte list"
  wl_keccak       :: "byte list \<Rightarrow> byte list"                 \<comment> \<open>\<^verbatim>\<open>Keccak256Hash(_).Bytes()\<close>\<close>
  wl_recover      :: "byte list \<Rightarrow> byte list \<Rightarrow> string + 160 word" \<comment> \<open>\<^verbatim>\<open>SigToPub\<close> and \<^verbatim>\<open>PubkeyToAddress\<close>\<close>

definition NewEIP712Encoder :: "wallet_lib \<Rightarrow> string \<Rightarrow> string \<Rightarrow> string \<Rightarrow> int \<Rightarrow> eip712_encoder" where
  "NewEIP712Encoder W domainName version verifyingContract chainId =
     \<lparr> ee_name = domainName, ee_version = version, ee_chainId = chainId,
       ee_verifyingContract = (if wl_isHexAddress W verifyingContract then Some verifyingContract else None) \<rparr>"

definition EncodeData ::
  "wallet_lib \<Rightarrow> eip712_encoder \<Rightarrow> string \<Rightarrow> (string \<times> typed_fields) list \<Rightarrow> (string \<times> typed_value) list \<Rightarrow>
   string + byte list" where
  "EncodeData W en primaryType types message =
     (if primaryType = '''' then Inl ''invalid primaryType: ''
      else if types = [] then Inl ''empty types''
      else if message = [] then Inl ''empty message''
      else case wl_hashStruct W en primaryType types message of
             Inl e \<Rightarrow> Inl e
           | Inr typedDataHash \<Rightarrow>
               (case wl_hashDomain W en of
                  Inl e \<Rightarrow> Inl e
                | Inr domainSeparator \<Rightarrow>
                    Inr (wl_keccak W ([0x19, 0x01] @ domainSeparator @ typedDataHash))))"

record verify_request =
  vr_Wallet        :: string
  vr_Timestamp     :: int
  vr_Signature     :: string
  vr_ProfileType   :: string
  vr_EIP712Encoder :: eip712_encoder

definition eip191_text :: "string \<Rightarrow> int \<Rightarrow> string" where
  "eip191_text message timestamp =
     (let metamaskMessage = message @ [CHR 0x0A] @ show_int timestamp
      in [CHR 0x19] @ ''Ethereum Signed Message:'' @ [CHR 0x0A] @
         show_nat (length metamaskMessage) @ metamaskMessage)"

definition eip191Message :: "wallet_lib \<Rightarrow> string \<Rightarrow> int \<Rightarrow> byte list" where
  "eip191Message W message timestamp = wl_keccak W (bytes_of (eip191_text message timestamp))"

text \<open>An error of the encoder is logged and gives a nil hash.\<close>

definition eip712Message :: "wallet_lib \<Rightarrow> string \<Rightarrow> int \<Rightarrow> eip712_encoder \<Rightarrow> byte list" where
  "eip712Message W message timestamp encoder =
     (case EncodeData W encoder ''signin'' [(''signin'', [(''message'', ''string''), (''timestamp'', ''uint256'')])]
            [(''message'', TString message), (''timestamp'', TInt timestamp)] of
        Inl e \<Rightarrow> [] | Inr bs \<Rightarrow> bs)"

definition RecoverSigner ::
  "auth_lib \<Rightarrow> wallet_lib \<Rightarrow> string \<Rightarrow> string \<Rightarrow> int \<Rightarrow> signature_type \<Rightarrow> eip712_encoder \<Rightarrow> string + 160 word" where
  "RecoverSigner K W signature message timestamp signatureType encoder =
     (let messageHash = (if signatureType = EIP_712 then eip712Message W message timestamp encoder
                         else eip191Message W message timestamp)
      in case al_hexDecode K signature of
           Inl e \<Rightarrow> Inl e
         | Inr signatureBytes \<Rightarrow> wl_recover W messageHash signatureBytes)"

text \<open>\<open>broker\<close> is what \<^verbatim>\<open>model.GetBroker\<close> answers.\<close>

definition checkSigner ::
  "auth_lib \<Rightarrow> wallet_lib \<Rightarrow> eth_lib \<Rightarrow> string + unit \<Rightarrow> string \<Rightarrow> verify_request \<Rightarrow> 160 word \<Rightarrow>
   signature_type \<Rightarrow> nat \<Rightarrow> ('d, string + unit) prog" where
  "checkSigner K W L broker message request wallet signatureType requiredRole =
     (case RecoverSigner K W (vr_Signature request) message (vr_Timestamp request) signatureType
             (vr_EIP712Encoder request) of
        Inl e \<Rightarrow> Return (Inl e)
      | Inr recoveredWallet \<Rightarrow>
          if vr_ProfileType request = PROFILE_TYPE_VAULT
          then (case broker of
                  Inl e \<Rightarrow> Return (Inl e)
                | Inr _ \<Rightarrow>
                    onErr (IsValidSigner (el_address L wallet) (el_address L recoveredWallet) requiredRole)
                      (\<lambda>e. Return (Inl (NotValidSignerError e (el_address L recoveredWallet) (el_address L wallet) requiredRole)))
                      (\<lambda>_. Return (Inr ())))
          else if wallet \<noteq> recoveredWallet
          then Return (Inl (InvalidMetamaskSignatureError (el_address L wallet) (el_address L recoveredWallet)))
          else Return (Inr ()))"

text \<open>
  The loops over the messages and the two types: the first combination that passes ends them
  with success; when none does, the error is the first one, nil when there was none.
\<close>

primrec try_signers ::
  "auth_lib \<Rightarrow> wallet_lib \<Rightarrow> eth_lib \<Rightarrow> string + unit \<Rightarrow> verify_request \<Rightarrow> 160 word \<Rightarrow> nat \<Rightarrow>
   (string \<times> signature_type) list \<Rightarrow> string option \<Rightarrow> ('d, string + unit) prog" where
  "try_signers K W L broker request wallet requiredRole [] firstErr =
     Return (case firstErr of None \<Rightarrow> Inr () | Some e \<Rightarrow> Inl e)"
| "try_signers K W L broker request wallet requiredRole (mt # mts) firstErr =
     andThen (checkSigner K W L broker (fst mt) request wallet (snd mt) requiredRole) (\<lambda>r.
       case r of
         Inr _ \<Rightarrow> Return (Inr ())
       | Inl e \<Rightarrow> try_signers K W L broker request wallet requiredRole mts
                   (case firstErr of None \<Rightarrow> Some e | Some e' \<Rightarrow> Some e'))"

definition combinations :: "string list \<Rightarrow> (string \<times> signature_type) list" where
  "combinations messages = concat (map (\<lambda>m. [(m, EIP_712), (m, EIP_191)]) messages)"

definition VerifyProfile ::
  "auth_lib \<Rightarrow> wallet_lib \<Rightarrow> eth_lib \<Rightarrow> string + unit \<Rightarrow> signature_type \<Rightarrow> verify_request \<Rightarrow> nat \<Rightarrow>
   string list \<Rightarrow> ('d, string + unit) prog" where
  "VerifyProfile K W L broker signatureType request requiredRole messages =
     (let wallet = el_to_address L (vr_Wallet request)
      in now_unix (\<lambda>current.
           if vr_Timestamp request \<le> current
           then Return (Inl (ExpiredSignatureError (vr_Timestamp request) current))
           else try_signers K W L broker request wallet requiredRole (combinations messages) None))"

section \<open>Tokens\<close>

text \<open>\<^verbatim>\<open>strconv.ParseUint(s, 10, 32)\<close>\<close>

definition ParseUint32 :: "string \<Rightarrow> string + nat" where
  "ParseUint32 s =
     (case parse_nat s of
        None \<Rightarrow> Inl (''strconv.ParseUint: parsing '' @ s @ '': invalid syntax'')
      | Some n \<Rightarrow> if n < 2 ^ 32 then Inr n else Inl (''strconv.ParseUint: parsing '' @ s @ '': value out of range''))"

definition JwtToProfileID :: "auth_lib \<Rightarrow> string \<Rightarrow> string \<Rightarrow> ('d, string + nat) prog" where
  "JwtToProfileID K jwt hmacSecret =
     now (\<lambda>t.
       case al_jwtParse K t jwt hmacSecret of
         Inl e \<Rightarrow> Return (Inl e)
       | Inr subject \<Rightarrow> Return (ParseUint32 subject))"

section \<open>Onboarding\<close>

definition TRADER_ROLE :: nat where "TRADER_ROLE = 1"
definition TREASURER_ROLE :: nat where "TREASURER_ROLE = 2"
definition SECRETS_ROLE :: nat where "SECRETS_ROLE = 3"

abbreviation PROFILE_NOT_FOUND_ERROR :: string where "PROFILE_NOT_FOUND_ERROR \<equiv> ''PROFILE_NOT_FOUND''"

text \<open>The profile of the wallet on the exchange, created when there is none\<close>

definition find_or_create ::
  "string \<Rightarrow> string \<Rightarrow> string \<Rightarrow> ('d, string + profile option \<times> bool) prog" where
  "find_or_create profileType wallet exchangeId =
     andThen (GetProfileByWalletForExchangeId wallet exchangeId) (\<lambda>r.
       case r of
         Inr p \<Rightarrow> Return (Inr (p, False))
       | Inl e \<Rightarrow>
           if e = PROFILE_NOT_FOUND_ERROR
           then onErr (CreateProfile profileType wallet exchangeId) (\<lambda>e. Return (Inl e))
                  (\<lambda>p. Return (Inr (p, True)))
           else Return (Inl e))"

record 'd onboard_frontend_result =
  of_Profile      :: "'d gval list option"
  of_Jwt          :: string
  of_RefreshToken :: string
  of_RandomSecret :: string
  of_NewProfile   :: bool

definition OnboardFrontend ::
  "auth_lib \<Rightarrow> wallet_lib \<Rightarrow> eth_lib \<Rightarrow> string + unit \<Rightarrow> string \<Rightarrow> string \<Rightarrow> nat \<Rightarrow> nat \<Rightarrow>
   verify_request \<Rightarrow> string \<Rightarrow> string list \<Rightarrow> ('d, string + 'd onboard_frontend_result) prog" where
  "OnboardFrontend K W L broker oldJwt hmacSecret jwtLifetime refreshTokenLifetime verifyRequest exchangeId messages =
     onErr (VerifyProfile K W L broker EIP_712 verifyRequest TRADER_ROLE messages) (\<lambda>e. Return (Inl e)) (\<lambda>_.
     onErr (find_or_create (vr_ProfileType verifyRequest) (vr_Wallet verifyRequest) exchangeId)
       (\<lambda>e. Return (Inl e)) (\<lambda>(profile, newProfile).
     deref profile (\<lambda>profile.
     onErr (CreateFromProfileID K (pr_ProfileId profile) oldJwt hmacSecret jwtLifetime refreshTokenLifetime)
       (\<lambda>e. Return (Inl e)) (\<lambda>frontendSecret.
     onErr (GetProfileData (pr_ProfileId profile)) (\<lambda>e. Return (Inl e)) (\<lambda>profileData.
     deref frontendSecret (\<lambda>frontendSecret.
       Return (Inr \<lparr> of_Profile = profileData, of_Jwt = fs_Jwt frontendSecret,
         of_RefreshToken = fs_RefreshToken frontendSecret, of_RandomSecret = fs_RandomSecret frontendSecret,
         of_NewProfile = newProfile \<rparr>)))))))"

record 'd onboard_mm_result =
  om_Profile    :: "'d gval list option"
  om_APISecret  :: "api_secret option"
  om_Jwt        :: string
  om_NewProfile :: bool

definition OnboardMarketMaker ::
  "auth_lib \<Rightarrow> wallet_lib \<Rightarrow> eth_lib \<Rightarrow> string + unit \<Rightarrow> string \<Rightarrow> nat \<Rightarrow>
   verify_request \<Rightarrow> string \<Rightarrow> string list \<Rightarrow> ('d, string + 'd onboard_mm_result) prog" where
  "OnboardMarketMaker K W L broker hmacSecret jwtLifetime verifyRequest exchangeId messages =
     onErr (VerifyProfile K W L broker EIP_191 verifyRequest TRADER_ROLE messages) (\<lambda>e. Return (Inl e)) (\<lambda>_.
     onErr (find_or_create (vr_ProfileType verifyRequest) (vr_Wallet verifyRequest) exchangeId)
       (\<lambda>e. Return (Inl e)) (\<lambda>(profile, newProfile).
     deref profile (\<lambda>profile.
     onErr (GetOrRefreshSecretByProfileID K (pr_ProfileId profile)) (\<lambda>e. Return (Inl e)) (\<lambda>apiSecrets.
       case apiSecrets of
         [] \<Rightarrow> Return (Inl ''SECRET_GENERATE_ERROR'')
       | apiSecret # _ \<Rightarrow>
           now_plus_unix (int jwtLifetime) (\<lambda>expiresAt.
           case GenerateJwt K (pr_ProfileId profile) hmacSecret expiresAt of
             Inl e \<Rightarrow> Return (Inl e)
           | Inr jwt \<Rightarrow>
               onErr (GetProfileData (pr_ProfileId profile)) (\<lambda>e. Return (Inl e)) (\<lambda>profileData.
                 Return (Inr \<lparr> om_Profile = profileData, om_APISecret = apiSecret, om_Jwt = jwt,
                   om_NewProfile = newProfile \<rparr>)))))))"

end
