(* ===== verification/Api_Auth.thy ===== *)
theory Api_Auth
  imports Auth
begin

text \<open>
  The middlewares of \<^verbatim>\<open>api/middleware.go\<close> that authenticate a request and build its context, and
  the handlers that issue and renew secrets: \<^verbatim>\<open>api/jwt.go\<close>, \<^verbatim>\<open>api/onboarding.go\<close>,
  \<^verbatim>\<open>api/secrets.go\<close>. A middleware returns the context it hands on to the next handler
  (\<^verbatim>\<open>c.Next()\<close>), or \<open>None\<close> after it answered an error and aborted.
\<close>

section \<open>Configuration, requests and contexts\<close>

record exchange_config =
  ec_DomainNameEncoder  :: string
  ec_DomainNameWithdraw :: string
  ec_ProviderUrl        :: string
  ec_OnboardingMessages :: "string list"
  ec_ChainId            :: nat
  ec_ExchangeAddress    :: string
  ec_SignerKeyId        :: string
  ec_JwtPublic          :: string

record api_config =
  cf_HMACSecret           :: string
  cf_JwtLifetime          :: nat
  cf_RefreshTokenLifetime :: nat
  cf_EnvMode              :: string
  cf_AdminWallets         :: "string list"
  cf_SuperAdminWallets    :: "string list"
  cf_TimescaledbURI       :: string
  cf_Exchanges            :: "string \<rightharpoonup> exchange_config"

text \<open>
  What a request holds: an absent header reads as the empty string, an absent cookie is an error;
  the body is a JSON object (or the error of reading it), its values still in their raw text.
\<close>

record http_request =
  rq_Method   :: string
  rq_FullPath :: string
  rq_Header   :: "string \<Rightarrow> string"
  rq_Cookie   :: "string \<Rightarrow> string + string"
  rq_Query    :: "string \<Rightarrow> string option"
  rq_Body     :: "string + (string \<times> string) list"

record auth_context = rabbit_context +
  ac_Config        :: api_config
  ac_ExchangeCfg   :: exchange_config
  ac_EIP712Encoder :: eip712_encoder

type_synonym ('d, 'c) middleware = "('d, 'c option) prog"

definition abort :: "string \<Rightarrow> ('d, 'c) middleware" where
  "abort e = andThen (ErrorResponse e) (\<lambda>_. Return None)"

definition SignatureLifetime :: int where "SignatureLifetime = 600"

abbreviation EXCHANGE_RBX :: string where "EXCHANGE_RBX \<equiv> ''rbx''"
abbreviation EXCHANGE_BFX :: string where "EXCHANGE_BFX \<equiv> ''bfx''"

section \<open>Building the context\<close>

definition ExtractClientAndDevice :: "http_request \<Rightarrow> string \<times> string" where
  "ExtractClientAndDevice rq =
     (let clientHeader = rq_Header rq ''X-RBT-Client''
      in if contains_sub clientHeader ''ios'' then (clientHeader, ''ios'')
         else if contains_sub clientHeader ''android'' then (clientHeader, ''android'')
         else if contains_sub clientHeader ''desktop'' then (clientHeader, ''desktop'')
         else if contains_sub clientHeader ''other'' then (clientHeader, ''other'')
         else (''other'', ''other''))"

definition EnrichContextMeta :: "http_request \<Rightarrow> auth_context \<Rightarrow> auth_context" where
  "EnrichContextMeta rq ctx =
     (let meta = (case rc_Meta ctx of
                    Some m \<Rightarrow> m
                  | None \<Rightarrow> \<lparr> mm_Device = '''', mm_IsApi = False, mm_ExchangeId = '''', mm_IsPm = False \<rparr>)
      in ctx \<lparr>rc_Meta := Some (meta
           \<lparr> mm_Device := snd (ExtractClientAndDevice rq),
             mm_IsApi := (if rq_Header rq ''RBT-API-KEY'' \<noteq> '''' then True else mm_IsApi meta),
             mm_ExchangeId := rc_ExchangeId ctx \<rparr>)\<rparr>)"

definition adhoc_profile :: "string \<Rightarrow> nat option" where
  "adhoc_profile envMode =
     (if envMode = ''testnet'' then Some 22823 else if envMode = ''prod'' then Some 23028 else None)"

definition AddHocSilentChange ::
  "string + unit \<Rightarrow> http_request \<Rightarrow> api_config \<Rightarrow> ('d, string) prog" where
  "AddHocSilentChange broker rq cfg =
     (let apiKey = rq_Header rq ''RBT-API-KEY''
      in if apiKey = '''' then Return ''''
         else case broker of
           Inl e \<Rightarrow> Return ''''
         | Inr _ \<Rightarrow>
             onErr (ValidateApiKey apiKey '''') (\<lambda>_. Return '''') (\<lambda>_.
             onErr (GetByKey apiKey) (\<lambda>_. Return '''') (\<lambda>apiSecret.
               if cf_EnvMode cfg \<in> {''testnet'', ''prod''}
               then deref apiSecret (\<lambda>apiSecret.
                      Return (if Some (as_ProfileID apiSecret) = adhoc_profile (cf_EnvMode cfg)
                              then EXCHANGE_BFX else ''''))
               else Return '''')))"

text \<open>\<^verbatim>\<open>strconv.ParseInt(s, 10, 64)\<close>, its error in short\<close>

definition ParseInt64 :: "string \<Rightarrow> string + int" where
  "ParseInt64 s =
     (case parse_int s of
        None \<Rightarrow> Inl (''strconv.ParseInt: parsing '' @ s @ '': invalid syntax'')
      | Some n \<Rightarrow> if - (2 ^ 63) \<le> n \<and> n < 2 ^ 63 then Inr n
                  else Inl (''strconv.ParseInt: parsing '' @ s @ '': value out of range''))"

definition timestamp_header :: "http_request \<Rightarrow> string \<Rightarrow> string + int" where
  "timestamp_header rq name = (if rq_Header rq name = '''' then Inr 0 else ParseInt64 (rq_Header rq name))"

text \<open>The two tests of a timestamp against the clock, \<open>None\<close> when it passes\<close>

definition check_timestamp :: "int \<Rightarrow> int \<Rightarrow> string option" where
  "check_timestamp timestamp current =
     (if 0 < timestamp \<and> timestamp < current
      then Some (''cannot use timestamp from past, try: '' @ show_int (int64 (current + SignatureLifetime)))
      else if SignatureLifetime < int64 (timestamp - current)
      then Some (''maximum timestamp lifetime is 30 seconds: '' @ show_int (int64 (current + SignatureLifetime)))
      else None)"

definition trim_quotes :: "string \<Rightarrow> string" where
  "trim_quotes s =
     rev (dropWhile (\<lambda>c. c = CHR 0x22) (rev (dropWhile (\<lambda>c. c = CHR 0x22) s)))"

definition put_key :: "string \<Rightarrow> string \<Rightarrow> (string \<times> string) list \<Rightarrow> (string \<times> string) list" where
  "put_key k v data = (k, v) # List.filter (\<lambda>e. fst e \<noteq> k) data"

definition is_write :: "string \<Rightarrow> bool" where
  "is_write m \<longleftrightarrow> m \<in> {''POST'', ''PUT'', ''DELETE''}"

definition extractPayload :: "http_request \<Rightarrow> int \<Rightarrow> string + payload option" where
  "extractPayload rq timestamp =
     (if \<not> is_write (rq_Method rq) then Inr None
      else case rq_Body rq of
        Inl e \<Rightarrow> Inl e
      | Inr data \<Rightarrow>
          (case NewPayload timestamp
                  (put_key ''path'' (rq_FullPath rq) (put_key ''method'' (rq_Method rq)
                    (map (\<lambda>e. (fst e, trim_quotes (snd e))) data))) of
             Inl e \<Rightarrow> Inl e
           | Inr p \<Rightarrow> Inr (Some p)))"

text \<open>A service the context needs: its construction may fail.\<close>

definition service :: "string \<Rightarrow> 'd gval list \<Rightarrow> ('d, 'c) middleware \<Rightarrow> ('d, 'c) middleware" where
  "service name args k =
     Call (External name args) (\<lambda>ans. case a_error ans of Some e \<Rightarrow> abort e | None \<Rightarrow> k)"

definition context_of ::
  "wallet_lib \<Rightarrow> signer \<Rightarrow> http_request \<Rightarrow> api_config \<Rightarrow> exchange_config \<Rightarrow> string \<Rightarrow> int \<Rightarrow> payload option \<Rightarrow> int \<Rightarrow>
   auth_context" where
  "context_of W sign rq cfg ec exchangeId timestamp pload pkTimestamp =
     \<lparr> rc_Timestamp = timestamp, rc_PKTimestamp = pkTimestamp,
       rc_MarketMakerAPIKey = rq_Header rq ''RBT-API-KEY'', rc_Signature = rq_Header rq ''RBT-SIGNATURE'',
       rc_PKSignature = rq_Header rq ''RBT-PK-SIGNATURE'', rc_IPHeader = rq_Header rq ''X-Forwarded-For'',
       rc_Payload = pload, rc_Profile = None,
       rc_Pagination = \<lparr> pg_Page = 0, pg_Limit = 0, pg_Order = '''' \<rparr>, rc_Signer = sign, rc_RequiredRole = 0,
       rc_ProfileIdFromJwt = 0, rc_ExchangeId = exchangeId, rc_ChainId = ec_ChainId ec, rc_Meta = None,
       ac_Config = cfg, ac_ExchangeCfg = ec,
       ac_EIP712Encoder = NewEIP712Encoder W (ec_DomainNameEncoder ec) ''1'' '''' (int (ec_ChainId ec)) \<rparr>"

text \<open>The rest of the middleware, once the exchange is known\<close>

definition build_context ::
  "wallet_lib \<Rightarrow> signer \<Rightarrow> string + unit \<Rightarrow> http_request \<Rightarrow> api_config \<Rightarrow> exchange_config \<Rightarrow> string \<Rightarrow>
   ('d, auth_context) middleware" where
  "build_context W sign broker rq cfg ec exchangeId =
     service ''NewWithdrawalSigner''
       [VString (ec_DomainNameWithdraw ec), VString (ec_ExchangeAddress ec), VUint (ec_ChainId ec),
        VString (ec_SignerKeyId ec)] (
     case broker of
       Inl e \<Rightarrow> abort e
     | Inr _ \<Rightarrow>
         service ''GetTimescaleDbPool'' [VString (cf_TimescaledbURI cfg)] (
         service ''GetAnalyticsCollector'' [] (
         case timestamp_header rq ''RBT-TS'' of
           Inl e \<Rightarrow> abort e
         | Inr timestamp \<Rightarrow>
             now_unix (\<lambda>current.
             case check_timestamp timestamp current of
               Some e \<Rightarrow> abort e
             | None \<Rightarrow>
                 (case extractPayload rq timestamp of
                    Inl e \<Rightarrow> abort e
                  | Inr pload \<Rightarrow>
                      (case timestamp_header rq ''RBT-PK-TS'' of
                         Inl e \<Rightarrow> abort e
                       | Inr pkTimestamp \<Rightarrow>
                           Return (Some (EnrichContextMeta rq
                             (context_of W sign rq cfg ec exchangeId timestamp pload pkTimestamp)))))))))"

definition RabbitMiddleware ::
  "wallet_lib \<Rightarrow> signer \<Rightarrow> string + unit \<Rightarrow> string + api_config \<Rightarrow> http_request \<Rightarrow> ('d, auth_context) middleware" where
  "RabbitMiddleware W sign broker config rq =
     (case config of
        Inl e \<Rightarrow> abort e
      | Inr cfg \<Rightarrow>
          andThen (AddHocSilentChange broker rq cfg) (\<lambda>addHocEid.
          let header = to_lower (rq_Header rq ''EID'');
              exchangeId = (if addHocEid \<noteq> '''' then addHocEid else if header = '''' then EXCHANGE_RBX else header)
          in if exchangeId \<notin> {EXCHANGE_RBX, EXCHANGE_BFX}
             then abort (''Unsupported exchange_id='' @ exchangeId)
             else case cf_Exchanges cfg exchangeId of
               None \<Rightarrow> abort (''No config for exchange_id='' @ exchangeId)
             | Some ec \<Rightarrow> build_context W sign broker rq cfg ec exchangeId))"

text \<open>The page, the limit and the order of a listing; what is out of range takes its default.\<close>

definition default_query :: "http_request \<Rightarrow> string \<Rightarrow> string \<Rightarrow> string" where
  "default_query rq name dflt = (case rq_Query rq name of None \<Rightarrow> dflt | Some v \<Rightarrow> v)"

definition PaginationMiddleware :: "http_request \<Rightarrow> auth_context \<Rightarrow> auth_context" where
  "PaginationMiddleware rq ctx =
     (let page = (case ParseInt64 (default_query rq ''p_page'' ''0'') of
                    Inl e \<Rightarrow> 0 | Inr v \<Rightarrow> if v < 0 then 0 else v);
          limit = (case ParseInt64 (default_query rq ''p_limit'' ''50'') of
                     Inl e \<Rightarrow> 50 | Inr v \<Rightarrow> if v \<le> 0 \<or> v > 1000 then 50 else v);
          ord = default_query rq ''p_order'' ''DESC''
      in ctx \<lparr>rc_Pagination := \<lparr> pg_Page = page, pg_Limit = limit,
               pg_Order = (if ord \<noteq> ''ASC'' \<and> ord \<noteq> ''DESC'' then ''DESC'' else ord) \<rparr>\<rparr>)"

section \<open>Authentication\<close>

text \<open>\<^verbatim>\<open>strings.EqualFold\<close> on wallets\<close>

definition EqualFold :: "string \<Rightarrow> string \<Rightarrow> bool" where
  "EqualFold a b \<longleftrightarrow> to_lower a = to_lower b"

definition SuperAdminAuthMiddleware :: "auth_context \<Rightarrow> ('d, auth_context) middleware" where
  "SuperAdminAuthMiddleware ctx =
     (case rc_Profile ctx of
        None \<Rightarrow> abort ''NOT_AUTHENTICATED''
      | Some profile \<Rightarrow>
          if pr_Wallet profile = '''' then abort ''NOT_AUTHENTICATED''
          else if \<not> list_ex (\<lambda>admin. EqualFold admin (pr_Wallet profile)) (cf_SuperAdminWallets (ac_Config ctx))
          then abort ''NOT_SUPER_ADMIN''
          else Return (Some ctx))"

definition AdminAuthMiddleware :: "auth_context \<Rightarrow> ('d, auth_context) middleware" where
  "AdminAuthMiddleware ctx =
     (case rc_Profile ctx of
        None \<Rightarrow> abort ''NOT_AUTHENTICATED''
      | Some profile \<Rightarrow>
          if pr_Wallet profile = '''' then abort ''NOT_AUTHENTICATED''
          else if \<not> list_ex (\<lambda>admin. EqualFold admin (pr_Wallet profile)) (cf_AdminWallets (ac_Config ctx))
          then abort ''NOT_ADMIN''
          else Return (Some ctx))"

definition MAX_PROFILE_ID :: nat where "MAX_PROFILE_ID = 4000000000"

definition IsAllowedProfileId :: "nat \<Rightarrow> bool" where
  "IsAllowedProfileId profileID \<longleftrightarrow> \<not> (profileID = 0 \<or> profileID = MAX_PROFILE_ID)"

text \<open>The profile id of the token in the cookie, or the answer to a request without one\<close>

definition cookie_profile ::
  "auth_lib \<Rightarrow> http_request \<Rightarrow> auth_context \<Rightarrow> (string \<Rightarrow> nat \<Rightarrow> ('d, auth_context) middleware) \<Rightarrow>
   ('d, auth_context) middleware" where
  "cookie_profile K rq ctx k =
     (case rq_Cookie rq ''jwt'' of
        Inl e \<Rightarrow> abort e
      | Inr jwt \<Rightarrow> onErr (JwtToProfileID K jwt (cf_HMACSecret (ac_Config ctx))) abort (k jwt))"

definition SuperAdminJWTMiddleware ::
  "auth_lib \<Rightarrow> http_request \<Rightarrow> auth_context \<Rightarrow> ('d, auth_context) middleware" where
  "SuperAdminJWTMiddleware K rq ctx =
     cookie_profile K rq ctx (\<lambda>jwt profileID.
       if \<not> IsAllowedProfileId profileID then abort ''BROKEN_PROFILE_ID''
       else onErr (GetProfileById profileID) (\<lambda>e. abort (''NO_PROFILE: '' @ e)) (\<lambda>profile.
         if cf_SuperAdminWallets (ac_Config ctx) = [] then abort ''NOT_SUPER_ADMIN''
         else deref profile (\<lambda>p.
           if \<not> list_ex (\<lambda>admin. EqualFold admin (pr_Wallet p)) (cf_SuperAdminWallets (ac_Config ctx))
           then abort ''NOT_SUPER_ADMIN''
           else Return (Some (ctx \<lparr>rc_ProfileIdFromJwt := profileID, rc_Profile := profile\<rparr>)))))"

definition AuthJwtMiddleware ::
  "auth_lib \<Rightarrow> http_request \<Rightarrow> auth_context \<Rightarrow> ('d, auth_context) middleware" where
  "AuthJwtMiddleware K rq ctx =
     cookie_profile K rq ctx (\<lambda>jwt profileID.
       if \<not> IsAllowedProfileId profileID then abort ''BROKEN_PROFILE_ID''
       else Return (Some (ctx \<lparr>rc_ProfileIdFromJwt := profileID\<rparr>)))"

text \<open>The end of \<open>AuthMiddleware\<close>: a request that changes something must carry a valid signature.\<close>

definition verify_payload ::
  "auth_lib \<Rightarrow> http_request \<Rightarrow> auth_context \<Rightarrow> string \<Rightarrow> ('d, auth_context) middleware" where
  "verify_payload K rq ctx secret =
     (if \<not> is_write (rq_Method rq) then Return (Some ctx)
      else deref (rc_Payload ctx) (\<lambda>p.
        onErr (Payload_Verify K p (rc_Signature ctx) secret (cf_EnvMode (ac_Config ctx))) abort
          (\<lambda>_. Return (Some ctx))))"

definition AuthMiddleware ::
  "auth_lib \<Rightarrow> string + unit \<Rightarrow> http_request \<Rightarrow> auth_context \<Rightarrow> ('d, auth_context) middleware" where
  "AuthMiddleware K broker rq ctx =
     (case broker of
        Inl e \<Rightarrow> abort e
      | Inr _ \<Rightarrow>
          if rc_MarketMakerAPIKey ctx \<noteq> ''''
          then onErr (ValidateApiKey (rc_MarketMakerAPIKey ctx) (rc_IPHeader ctx)) abort (\<lambda>_.
               onErr (GetByKey (rc_MarketMakerAPIKey ctx)) abort (\<lambda>apiSecret.
               deref apiSecret (\<lambda>apiSecret.
               onErr (GetProfileById (as_ProfileID apiSecret)) abort (\<lambda>profile.
                 verify_payload K rq (ctx \<lparr>rc_Profile := profile\<rparr>) (as_Secret apiSecret)))))
          else cookie_profile K rq ctx (\<lambda>jwt profileID.
               onErr (GetProfileById profileID) abort (\<lambda>profile.
               onErr (GetByJwt jwt) abort (\<lambda>frontendSecret.
               deref frontendSecret (\<lambda>frontendSecret.
                 verify_payload K rq (ctx \<lparr>rc_Profile := profile\<rparr>) (fs_RandomSecret frontendSecret))))))"

definition MetamaskSignatureMiddleware ::
  "auth_lib \<Rightarrow> wallet_lib \<Rightarrow> eth_lib \<Rightarrow> string + unit \<Rightarrow> nat \<Rightarrow> auth_context \<Rightarrow> ('d, auth_context) middleware" where
  "MetamaskSignatureMiddleware K W L broker requireRole ctx =
     (if rc_PKSignature ctx = '''' then abort (''RBT-PK-SIGNATURE header is empty: '' @ rc_PKSignature ctx)
      else now_unix (\<lambda>current.
        case check_timestamp (rc_PKTimestamp ctx) current of
          Some e \<Rightarrow> abort e
        | None \<Rightarrow>
            deref (rc_Profile ctx) (\<lambda>profile.
            onErr (VerifyProfile K W L broker EIP_712
                     \<lparr> vr_Wallet = pr_Wallet profile, vr_Timestamp = rc_PKTimestamp ctx,
                       vr_Signature = rc_PKSignature ctx, vr_ProfileType = pr_Type profile,
                       vr_EIP712Encoder = ac_EIP712Encoder ctx \<rparr>
                     requireRole (ec_OnboardingMessages (ac_ExchangeCfg ctx)))
              abort (\<lambda>_. Return (Some (ctx \<lparr>rc_RequiredRole := requireRole\<rparr>))))))"

section \<open>Tokens of a session\<close>

record jwt_request =
  jr_IsClient     :: bool
  jr_RefreshToken :: string

definition set_cookie :: "string \<Rightarrow> nat \<Rightarrow> ('d, unit) prog \<Rightarrow> ('d, unit) prog" where
  "set_cookie jwt lifetime p = Call (External ''SetCookie'' [VString jwt, VInt (int64 (int lifetime))]) (\<lambda>_. p)"

definition HandleJwt ::
  "auth_lib \<Rightarrow> string + unit \<Rightarrow> auth_context \<Rightarrow> string + jwt_request \<Rightarrow> ('d, unit) prog" where
  "HandleJwt K broker ctx body =
     bindJSON body (\<lambda>request.
     let cfg = ac_Config ctx in
     case broker of
       Inl e \<Rightarrow> ErrorResponse e
     | Inr _ \<Rightarrow>
       if jr_IsClient request
       then
         onErr (JwtToProfileID K (jr_RefreshToken request) (cf_HMACSecret cfg)) ErrorResponse (\<lambda>profileID.
         onErr (GetByRefreshToken (jr_RefreshToken request)) ErrorResponse (\<lambda>frontendSecret.
         deref (rc_Payload ctx) (\<lambda>p.
         deref frontendSecret (\<lambda>secret.
         onErr (Payload_Verify K p (rc_Signature ctx) (fs_RandomSecret secret) (cf_EnvMode cfg)) ErrorResponse (\<lambda>_.
         onErr (CreateFromProfileID K profileID (fs_Jwt secret) (cf_HMACSecret cfg) (cf_JwtLifetime cfg)
                  (cf_RefreshTokenLifetime cfg)) ErrorResponse (\<lambda>new.
         deref new (\<lambda>new.
         set_cookie (fs_Jwt new) (cf_JwtLifetime cfg)
           (SuccessResponse [VStruct ''JwtFrontendResponse''
              [VString (fs_Jwt new), VString (fs_RandomSecret new), VString (fs_RefreshToken new)]]))))))))
       else if rc_MarketMakerAPIKey ctx = '''' then ErrorResponse ''API-KEY header required''
       else
         onErr (GetByKey (rc_MarketMakerAPIKey ctx)) ErrorResponse (\<lambda>apiSecret.
         deref (rc_Payload ctx) (\<lambda>p.
         deref apiSecret (\<lambda>secret.
         onErr (Payload_Verify K p (rc_Signature ctx) (as_Secret secret) (cf_EnvMode cfg)) ErrorResponse (\<lambda>_.
         now_plus_unix (int (cf_JwtLifetime cfg)) (\<lambda>expiresAt.
         case GenerateJwt K (as_ProfileID secret) (cf_HMACSecret cfg) expiresAt of
           Inl e \<Rightarrow> ErrorResponse e
         | Inr jwt \<Rightarrow>
             onErr (UpdateApiSecretExpire (rc_MarketMakerAPIKey ctx) expiresAt) ErrorResponse (\<lambda>_.
               SuccessResponse [VStruct ''JwtMarketMakerResponse'' [VString jwt]])))))))"

section \<open>Onboarding\<close>

record onboarding_request =
  or_IsClient    :: bool
  or_Wallet      :: string
  or_Signature   :: string
  or_ProfileType :: string
  or_Referrer    :: "string option"    \<comment> \<open>\<^verbatim>\<open>Meta.ReferrerShortCode\<close>, \<open>None\<close> without \<^verbatim>\<open>Meta\<close>\<close>

text \<open>\<^verbatim>\<open>ProfileData\<close> embeds the cache of the profile, whose id is read.\<close>

definition profile_data_id :: "'d gval list \<Rightarrow> nat" where
  "profile_data_id fs = (case fs of VCache c # _ \<Rightarrow> pc_ProfileID c | _ \<Rightarrow> 0)"

definition finish_onboarding ::
  "auth_context \<Rightarrow> onboarding_request \<Rightarrow> string \<Rightarrow> nat \<Rightarrow> bool \<Rightarrow> 'd gval \<Rightarrow> ('d, unit) prog" where
  "finish_onboarding ctx request jwt invitedId newProfile response =
     (let answer = set_cookie jwt (cf_JwtLifetime (ac_Config ctx)) (SuccessResponse [response])
      in case or_Referrer request of
           Some code \<Rightarrow>
             if code \<noteq> '''' \<and> newProfile
             then Call (External ''CreateReferralLink'' [VString code, VUint invitedId]) (\<lambda>_. answer)
             else answer
         | None \<Rightarrow> answer)"

definition HandleOnboarding ::
  "auth_lib \<Rightarrow> wallet_lib \<Rightarrow> eth_lib \<Rightarrow> string + unit \<Rightarrow> http_request \<Rightarrow> auth_context \<Rightarrow>
   string + onboarding_request \<Rightarrow> ('d, unit) prog" where
  "HandleOnboarding K W L broker rq ctx body =
     bindJSON body (\<lambda>request.
     let wallet = GetWalletStringInRabbitTntStandardFormat (or_Wallet request);
         profileType = (if or_ProfileType request = '''' then PROFILE_TYPE_TRADER else or_ProfileType request);
         cfg = ac_Config ctx;
         messages = ec_OnboardingMessages (ac_ExchangeCfg ctx);
         verifyRequest = \<lparr> vr_Wallet = wallet, vr_Timestamp = rc_Timestamp ctx, vr_Signature = or_Signature request,
           vr_ProfileType = profileType, vr_EIP712Encoder = ac_EIP712Encoder ctx \<rparr>
     in case broker of
          Inl e \<Rightarrow> ErrorResponse e
        | Inr _ \<Rightarrow>
          if or_IsClient request
          then
            onErr (OnboardFrontend K W L broker (case rq_Cookie rq ''jwt'' of Inl _ \<Rightarrow> '''' | Inr j \<Rightarrow> j)
                     (cf_HMACSecret cfg) (cf_JwtLifetime cfg) (cf_RefreshTokenLifetime cfg) verifyRequest
                     (rc_ExchangeId ctx) messages) ErrorResponse (\<lambda>r.
            deref (of_Profile r) (\<lambda>pd.
              finish_onboarding ctx request (of_Jwt r) (profile_data_id pd) (of_NewProfile r)
                (VStruct ''OnboardFrontendResult''
                  [VStruct ''ProfileData'' pd, VString (of_Jwt r), VString (of_RefreshToken r),
                   VString (of_RandomSecret r)])))
          else
            onErr (OnboardMarketMaker K W L broker (cf_HMACSecret cfg) (cf_JwtLifetime cfg) verifyRequest
                     (rc_ExchangeId ctx) messages) ErrorResponse (\<lambda>r.
            deref (om_Profile r) (\<lambda>pd.
              finish_onboarding ctx request (om_Jwt r) (profile_data_id pd) (om_NewProfile r)
                (VStruct ''OnboardMarketMakerResult''
                  [VStruct ''ProfileData'' pd, opt_val VApiSecret (om_APISecret r), VString (om_Jwt r)]))))"

section \<open>Secrets of a profile\<close>

record secret_create_request =
  sc_Tag           :: string
  sc_Expiration    :: int
  sc_AllowedIpList :: "string list"

text \<open>The handlers of an authenticated profile read \<^verbatim>\<open>ctx.Profile.ProfileId\<close>.\<close>

definition with_profile :: "auth_context \<Rightarrow> (profile \<Rightarrow> ('d, unit) prog) \<Rightarrow> ('d, unit) prog" where
  "with_profile ctx k = deref (rc_Profile ctx) k"

definition HandleSecretsSessionRemove :: "auth_context \<Rightarrow> ('d, unit) prog" where
  "HandleSecretsSessionRemove ctx =
     with_profile ctx (\<lambda>profile.
     onErr (RemoveSessionSecrets (pr_ProfileId profile)) ErrorResponse (\<lambda>_. SuccessResponse [VBool True]))"

definition HandleSecretCreate ::
  "auth_lib \<Rightarrow> auth_context \<Rightarrow> string + secret_create_request \<Rightarrow> ('d, unit) prog" where
  "HandleSecretCreate K ctx body =
     bindJSON body (\<lambda>request.
     now_plus_unix (sc_Expiration request) (\<lambda>expiresAt.
     now_unix (\<lambda>current.
     if expiresAt < current then ErrorResponse ''EXPIRATION_IN_THE_PAST''
     else
       with_profile ctx (\<lambda>profile.
       let hmac = cf_HMACSecret (ac_Config ctx) in
       case GenerateJwt K (pr_ProfileId profile) hmac expiresAt of
         Inl e \<Rightarrow> ErrorResponse ''JWT_GENERATION_ERROR''
       | Inr jwt \<Rightarrow>
           (case GenerateJwt K (pr_ProfileId profile) hmac (int64 (expiresAt * 2)) of
              Inl e \<Rightarrow> ErrorResponse ''REFRESH_TOKEN_ERROR''
            | Inr refreshToken \<Rightarrow>
                onErr (CreatePairFromProfileID K (sc_Tag request) (pr_ProfileId profile) (Some expiresAt) jwt
                         refreshToken (sc_AllowedIpList request))
                  (\<lambda>_. ErrorResponse ''PAIR_GENERATION_ERROR'')
                  (\<lambda>res. now (\<lambda>t. SuccessResponse [VStruct ''Secret''
                     [opt_val VApiSecret res, VString jwt,
                      VString (case cf_Exchanges (ac_Config ctx) (rc_ExchangeId ctx) of
                                 None \<Rightarrow> '''' | Some ec \<Rightarrow> ec_JwtPublic ec),
                      VString refreshToken, VList (map VString (sc_AllowedIpList request)),
                      VInt (t div 1000)]])))))))"

definition HandleSecretDelete :: "auth_context \<Rightarrow> string + string \<Rightarrow> ('d, unit) prog" where
  "HandleSecretDelete ctx body =
     bindJSON body (\<lambda>key.
     with_profile ctx (\<lambda>profile.
     onErr (DeletePairForProfile (pr_ProfileId profile) key) ErrorResponse (\<lambda>_. SuccessResponse [VBool True])))"

definition HandleListSecrets :: "auth_context \<Rightarrow> ('d, unit) prog" where
  "HandleListSecrets ctx =
     with_profile ctx (\<lambda>profile.
     onErr (GetSecrets (pr_ProfileId profile)) ErrorResponse
       (\<lambda>secrets. SuccessResponse (map (opt_val (VStruct ''Secret'')) secrets)))"

definition HandleSecretRefresh ::
  "auth_lib \<Rightarrow> auth_context \<Rightarrow> string + string \<Rightarrow> ('d, unit) prog" where
  "HandleSecretRefresh K ctx body =
     bindJSON body (\<lambda>refreshToken.
     let hmac = cf_HMACSecret (ac_Config ctx) in
     onErr (JwtToProfileID K refreshToken hmac) ErrorResponse (\<lambda>profileID.
     with_profile ctx (\<lambda>profile.
     if profileID \<noteq> pr_ProfileId profile then ErrorResponse ''NOT_YOUR_REFRESH_TOKEN''
     else now_plus_unix (30 * 24 * 60 * 60) (\<lambda>expiresAt.
       case GenerateJwt K (pr_ProfileId profile) hmac expiresAt of
         Inl e \<Rightarrow> ErrorResponse ''JWT_GENERATION_ERROR''
       | Inr newJwt \<Rightarrow>
           (case GenerateJwt K (pr_ProfileId profile) hmac (int64 (expiresAt * 2)) of
              Inl e \<Rightarrow> ErrorResponse ''REFRESH_TOKEN_ERROR''
            | Inr newRefreshToken \<Rightarrow>
                onErr (RefreshSecret (pr_ProfileId profile) refreshToken newJwt newRefreshToken expiresAt)
                  ErrorResponse
                  (\<lambda>new_secret. SuccessResponse [opt_val (VStruct ''Secret'') new_secret]))))))"

end
