(* ===== verification/Analytics.thy ===== *)
theory Analytics
  imports Sql Api_Auth "HOL-Library.Sublist" "HOL-Library.Multiset"
begin

text \<open>
  The collector of analytic events (\<^verbatim>\<open>api/analytics.go\<close>) and the middleware that gives it one event per
  request (\<^verbatim>\<open>AnalyticsMiddleware\<close> of \<^verbatim>\<open>api/middleware.go\<close>). Every request pushes from a goroutine of its
  own while one goroutine takes batches off the queue; the mutex makes each operation on the queue
  one step.
\<close>

section \<open>Events\<close>

record analytic_event =
  ev_ProfileId          :: nat
  ev_ClientHeader       :: string
  ev_ClientIPAddress    :: string
  ev_URLPath            :: string
  ev_HTTPMethod         :: string
  ev_RequestBody        :: string
  ev_ResponseStatusCode :: int
  ev_ResponseBody       :: string

record analytics_config =
  ay_AllowedURLPaths  :: "(string \<times> string list) list"
  ay_IgnoreProfileIds :: "nat list"

text \<open>What the middleware reads of the request and of the response written by the later handlers\<close>

record seen_request =
  se_Path         :: string
  se_RawQuery     :: string
  se_Method       :: string
  se_ClientIP     :: string
  se_RequestBody  :: string
  se_Status       :: int
  se_ResponseBody :: string

text \<open>The event of a request, if it is to be recorded; \<^verbatim>\<open>EqualFold\<close> ignores case.\<close>

definition event_of ::
  "http_request \<Rightarrow> seen_request \<Rightarrow> string \<Rightarrow> analytics_config \<Rightarrow> profile option \<Rightarrow> analytic_event option" where
  "event_of rq s envMode cfg profile =
     (if to_lower envMode = ''dev'' then None
      else let path = (if se_RawQuery s \<noteq> '''' then se_Path s @ ''?'' @ se_RawQuery s else se_Path s);
               method = to_lower (se_Method s);
               profileId = (case profile of None \<Rightarrow> 0 | Some p \<Rightarrow> pr_ProfileId p)
           in if \<not> (\<exists>(p, methods) \<in> set (ay_AllowedURLPaths cfg). has_prefix path p \<and> method \<in> set methods) then None
              else if profileId \<in> set (ay_IgnoreProfileIds cfg) then None
              else Some \<lparr> ev_ProfileId = profileId, ev_ClientHeader = fst (ExtractClientAndDevice rq),
                     ev_ClientIPAddress = se_ClientIP s, ev_URLPath = path, ev_HTTPMethod = method,
                     ev_RequestBody = se_RequestBody s, ev_ResponseStatusCode = se_Status s, ev_ResponseBody = se_ResponseBody s \<rparr>)"

section \<open>The queue\<close>

definition QueueMaxLimit :: nat where
  "QueueMaxLimit = 2000"

definition QueueBatchSize :: nat where
  "QueueBatchSize = 400"

definition queue_push :: "'e \<Rightarrow> 'e list \<Rightarrow> 'e list" where
  "queue_push e q = (if QueueMaxLimit \<le> length q then q else q @ [e])"

text \<open>The statement of a batch, its values in the order they were taken\<close>

definition event_insert :: "('e \<Rightarrow> 'd gval) \<Rightarrow> 'e list \<Rightarrow> 'd gval list" where
  "event_insert v batch = insert_into ''analytic_event'' [''event''] (map (\<lambda>e. [v e]) batch) ''''"

definition store_batch :: "('e \<Rightarrow> 'd gval) \<Rightarrow> 'e list \<Rightarrow> ('d, string + unit) prog" where
  "store_batch v batch = (if batch = [] then Return (Inr ()) else sql_exec ''db.Exec'' (event_insert v batch))"

text \<open>\<open>GetAnalyticsCollector\<close> makes the collector and starts its goroutine once: whether one exists, and the answer\<close>

definition GetAnalyticsCollector :: "bool \<Rightarrow> bool \<times> bool" where
  "GetAnalyticsCollector exists = (True, \<not> exists)"

section \<open>The goroutines\<close>

text \<open>
  The events offered so far, the queue, the batch being taken, and what became of the taken ones:
  stored, or lost with a failed insertion.
\<close>

record 'e collector =
  cs_offered :: "'e list"
  cs_queue   :: "'e list"
  cs_batch   :: "'e list"
  cs_stored  :: "'e list"
  cs_lost    :: "'e list"

definition collector_start :: "'e collector" where
  "collector_start = \<lparr> cs_offered = [], cs_queue = [], cs_batch = [], cs_stored = [], cs_lost = [] \<rparr>"

text \<open>
  \<open>Pushed\<close>: a request's goroutine. \<open>Taken\<close>: one turn of the loop of \<^verbatim>\<open>SyncBatch\<close>. \<open>Stored\<close>, \<open>Failed\<close>: the
  insertion after the loop, which ends with a full batch or an empty queue.
\<close>

inductive collector_step :: "'e collector \<Rightarrow> 'e collector \<Rightarrow> bool" where
  Pushed: "collector_step s (s\<lparr>cs_offered := cs_offered s @ [e], cs_queue := queue_push e (cs_queue s)\<rparr>)"
| Taken: "length (cs_batch s) < QueueBatchSize \<Longrightarrow> cs_queue s = e # q \<Longrightarrow>
    collector_step s (s\<lparr>cs_queue := q, cs_batch := cs_batch s @ [e]\<rparr>)"
| Stored: "length (cs_batch s) = QueueBatchSize \<or> cs_queue s = [] \<Longrightarrow>
    collector_step s (s\<lparr>cs_batch := [], cs_stored := cs_stored s @ cs_batch s\<rparr>)"
| Failed: "length (cs_batch s) = QueueBatchSize \<or> cs_queue s = [] \<Longrightarrow> cs_batch s \<noteq> [] \<Longrightarrow>
    collector_step s (s\<lparr>cs_batch := [], cs_lost := cs_lost s @ cs_batch s\<rparr>)"

inductive_cases collector_stepE: "collector_step s t"

inductive collector_reach :: "'e collector \<Rightarrow> bool" where
  start: "collector_reach collector_start"
| step: "collector_reach s \<Longrightarrow> collector_step s t \<Longrightarrow> collector_reach t"

text \<open>\<open>taken\<close> lists what was taken off the queue, in order, stored and lost events interleaved.\<close>

definition collector_ok :: "'e collector \<Rightarrow> bool" where
  "collector_ok s \<longleftrightarrow>
     length (cs_queue s) \<le> QueueMaxLimit \<and> length (cs_batch s) \<le> QueueBatchSize \<and>
     (\<exists>taken. subseq (taken @ cs_batch s @ cs_queue s) (cs_offered s) \<and> subseq (cs_stored s) taken \<and>
        mset taken = mset (cs_stored s) + mset (cs_lost s))"

section \<open>What is stored\<close>

lemma collector_okI:
  assumes "length (cs_queue s) \<le> QueueMaxLimit" "length (cs_batch s) \<le> QueueBatchSize"
    and "subseq (taken @ cs_batch s @ cs_queue s) (cs_offered s)" "subseq (cs_stored s) taken"
    and "mset taken = mset (cs_stored s) + mset (cs_lost s)"
  shows "collector_ok s"
  using assms unfolding collector_ok_def by blast

lemma step_keeps_ok:
  assumes "collector_step s t" "collector_ok s"
  shows "collector_ok t"
proof -
  obtain taken where s: "length (cs_queue s) \<le> QueueMaxLimit" "length (cs_batch s) \<le> QueueBatchSize"
    "subseq (taken @ cs_batch s @ cs_queue s) (cs_offered s)" "subseq (cs_stored s) taken"
    "mset taken = mset (cs_stored s) + mset (cs_lost s)"
    using assms(2) unfolding collector_ok_def by blast
  from assms(1) show ?thesis
  proof cases
    case (Pushed e)
    have "subseq (taken @ cs_batch s @ queue_push e (cs_queue s)) (cs_offered s @ [e])"
      using s(3) list_emb_append_mono [OF s(3), of "[e]" "[e]"] by (auto simp: queue_push_def)
    then show ?thesis
      using s Pushed by (intro collector_okI [of _ taken]) (auto simp: queue_push_def)
  next
    case (Taken e q)
    then show ?thesis
      using s by (intro collector_okI [of _ taken]) auto
  next
    case Stored
    then show ?thesis
      using s list_emb_append_mono [OF s(4), of "cs_batch s" "cs_batch s"]
      by (intro collector_okI [of _ "taken @ cs_batch s"]) auto
  next
    case Failed
    then show ?thesis
      using s by (intro collector_okI [of _ "taken @ cs_batch s"]) auto
  qed
qed

text \<open>
  However the goroutines interleave, the queue keeps to its bound and a batch to its size, and what is
  stored are events that were offered, each at most once and in the order they were offered; what is
  missing was refused by a full queue or lost with an insertion that failed.
\<close>

theorem collector_keeps_order:
  assumes "collector_reach s"
  shows "length (cs_queue s) \<le> QueueMaxLimit \<and> length (cs_batch s) \<le> QueueBatchSize \<and> subseq (cs_stored s) (cs_offered s)"
proof -
  have "collector_ok s"
    using assms
  proof induction
    case start
    show ?case
      by (rule collector_okI [of _ "[]"]) (simp_all add: collector_start_def)
  next
    case (step s t)
    then show ?case
      by (blast intro: step_keeps_ok)
  qed
  then obtain taken where "length (cs_queue s) \<le> QueueMaxLimit" "length (cs_batch s) \<le> QueueBatchSize"
    "subseq (taken @ cs_batch s @ cs_queue s) (cs_offered s)" "subseq (cs_stored s) taken"
    unfolding collector_ok_def by blast
  then show ?thesis
    by (meson list_emb_append2 subseq_order.order_trans subseq_append_le_same_iff subseq_rev_drop_many subseq_order.refl
        prefix_imp_subseq prefixI)
qed

text \<open>The events of a batch whose insertion fails are gone: they are neither queued again nor stored.\<close>

lemma failed_insertion_loses_events:
  assumes "collector_reach s" "cs_batch s \<noteq> []" "length (cs_batch s) = QueueBatchSize \<or> cs_queue s = []"
  shows "\<exists>t. collector_reach t \<and> cs_lost t = cs_lost s @ cs_batch s \<and> cs_batch t = [] \<and> cs_queue t = cs_queue s \<and>
    cs_stored t = cs_stored s"
  using collector_reach.step [OF assms(1) Failed [OF assms(3,2)]]
  by (intro exI [of _ "s\<lparr>cs_batch := [], cs_lost := cs_lost s @ cs_batch s\<rparr>"]) simp

end
