(* ===== verification/Api_Paging.thy ===== *)
theory Api_Paging
  imports Sql Api_Context Demo_Env
begin

text \<open>
  The listings of the API: a statement over one table with the filters of the request, run twice,
  once for the number of rows and once for a page of them. The pages are those of the request's
  context (\<^verbatim>\<open>api/types/pagination.go\<close>, \<^verbatim>\<open>api/response.go\<close>).
\<close>

section \<open>Pages\<close>

definition pagination_val :: "pagination \<Rightarrow> int \<Rightarrow> 'd gval" where
  "pagination_val pg n = VStruct ''PaginationResponse'' [VInt n, VInt (pg_Page pg), VInt (pg_Limit pg), VString (pg_Order pg)]"

text \<open>The page is the first value of the response, the rows follow.\<close>

definition SuccessResponsePaginated :: "pagination \<Rightarrow> int \<Rightarrow> 'd gval list \<Rightarrow> ('d, unit) prog" where
  "SuccessResponsePaginated pg n rows = SuccessResponse (pagination_val pg n # rows)"

definition RateLimitErrorResponse :: "string \<Rightarrow> ('d, unit) prog" where
  "RateLimitErrorResponse e = respond (Failure e)"

text \<open>\<^verbatim>\<open>Limit * Page\<close> wraps as an \<^verbatim>\<open>int64\<close>.\<close>

definition page_offset :: "pagination \<Rightarrow> int" where
  "page_offset pg = (let m = (pg_Limit pg * pg_Page pg) mod 2 ^ 64 in if m < 2 ^ 63 then m else m - 2 ^ 64)"

definition count_query :: "string \<Rightarrow> string" where
  "count_query q = ''SELECT COUNT(*) FROM ('' @ q @ '') as t''"

text \<open>An optional filter of a statement\<close>

definition filter_if :: "bool \<Rightarrow> string \<Rightarrow> string" where
  "filter_if b s = (if b then s else '''')"

text \<open>A listing: an error of the count is dropped and leaves the number at zero.\<close>

definition listing ::
  "'d pgx_lib \<Rightarrow> pagination \<Rightarrow> string \<Rightarrow> (string \<times> 'd gval) list \<Rightarrow> ('d gval \<Rightarrow> string + 'd gval) \<Rightarrow> ('d, unit) prog" where
  "listing S pg q args scan =
     andThen (sql_query_row ''db.Query'' (sql_text (count_query q) (args @ [(''offset'', VNil)])) (column_of S (px_int S))) (\<lambda>t.
     onErr (sql_query ''db.Query'' (sql_text (q @ '' LIMIT @limit OFFSET @offset'') (args @ [(''offset'', VInt (page_offset pg))])) scan)
       ErrorResponse (\<lambda>rows.
     SuccessResponsePaginated pg (case t of Inl e \<Rightarrow> 0 | Inr n \<Rightarrow> n) rows))"

text \<open>\<^verbatim>\<open>strings.Split\<close> at a separator of one character\<close>

fun split_at :: "char \<Rightarrow> string \<Rightarrow> string list" where
  "split_at sep [] = [[]]"
| "split_at sep (c # s) =
     (if c = sep then [] # split_at sep s
      else case split_at sep s of [] \<Rightarrow> [[c]] | w # ws \<Rightarrow> (c # w) # ws)"

lemma split_at_nonempty [simp]: "split_at sep s \<noteq> []"
  by (induction s) (auto split: list.split)

text \<open>The parts hold no separator, and joined with separators they give the text back.\<close>

lemma split_at_parts: "w \<in> set (split_at sep s) \<Longrightarrow> sep \<notin> set w"
proof (induction s arbitrary: w)
  case (Cons c s)
  then show ?case
    by (cases "split_at sep s") (auto split: if_splits)
qed simp

lemma split_at_joined: "concat (map (\<lambda>w. w @ [sep]) (split_at sep s)) = s @ [sep]"
proof (induction s)
  case (Cons c s)
  then show ?case
    by (cases "split_at sep s") auto
qed simp

lemma wp_withMarket:
  "wp P Q (withMarket IC m k) h \<longleftrightarrow>
     (case IC of
        Inl e \<Rightarrow> Q h (Panicked e)
      | Inr is \<Rightarrow> (case ByMarketID is m of Inl e \<Rightarrow> Q h (Done (Inl e)) | Inr i \<Rightarrow> wp P Q (k i) h))"
  by (auto simp: withMarket_def GetInstance_def split: sum.split)

section \<open>The statements of the listings\<close>

abbreviation strings_val :: "string list \<Rightarrow> 'd gval" where
  "strings_val xs \<equiv> VList (map VString xs)"

record fill_list_request =
  fl_MarketId  :: string
  fl_TimeStamp :: nat
  fl_EndTime   :: nat

definition fill_columns :: string where
  \<open>fill_columns = ''SELECT "id", "profile_id", "market_id", "order_id", "timestamp", "trade_id", "price", "size", "side", "is_maker", "fee", "liquidation", "shard_id", "archive_id" FROM app_fill WHERE profile_id = @profile_id''\<close>

definition fill_kinds :: "column_kind list" where
  "fill_kinds = [CString, CUint, CString, CString, CInt, CString, CDecimal, CDecimal, CString, CBool, CDecimal, CBool,
     CString, CInt]"

definition HandleFillsList :: "'d pgx_lib \<Rightarrow> rabbit_context \<Rightarrow> string + fill_list_request \<Rightarrow> ('d, unit) prog" where
  "HandleFillsList S ctx body = bindJSON body (\<lambda>r.
     deref (rc_Profile ctx) (\<lambda>profile.
     let pg = rc_Pagination ctx
     in listing S pg
          (fill_columns @ '' AND timestamp >= @timestamp'' @ filter_if (fl_MarketId r \<noteq> '''') '' AND market_id = @market_id'' @
           filter_if (0 < fl_EndTime r) '' AND timestamp <= @end_time'' @ '' ORDER BY timestamp '' @ pg_Order pg)
          [(''profile_id'', VUint (pr_ProfileId profile)), (''market_id'', VString (fl_MarketId r)),
           (''timestamp'', VUint (fl_TimeStamp r)), (''order'', VString (pg_Order pg)), (''limit'', VInt (pg_Limit pg)),
           (''end_time'', VUint (fl_EndTime r))]
          (scan_struct S ''FillData'' fill_kinds)))"

definition HandleFillsForOrder :: "'d pgx_lib \<Rightarrow> rabbit_context \<Rightarrow> string + string \<Rightarrow> ('d, unit) prog" where
  "HandleFillsForOrder S ctx body = bindJSON body (\<lambda>orderId.
     deref (rc_Profile ctx) (\<lambda>profile.
     onErr (sql_query ''db.Query''
              (sql_text (fill_columns @ '' AND order_id = @order_id'')
                 [(''profile_id'', VUint (pr_ProfileId profile)), (''order_id'', VString orderId)])
              (scan_struct S ''FillData'' fill_kinds))
       ErrorResponse SuccessResponse))"

record order_list_request =
  ol_MarketId      :: string
  ol_TimeStamp     :: nat
  ol_EndTime       :: nat
  ol_Status        :: "string list"
  ol_OrderId       :: string
  ol_ClientOrderId :: string
  ol_OrderType     :: "string list"

definition order_columns :: string where
  \<open>order_columns = ''SELECT "id", "profile_id", "market_id", "order_type", "status", "price", "size", "initial_size", "total_filled_size", "side", "timestamp", "reason", "client_order_id", "trigger_price", "size_percent", "time_in_force", "shard_id", "archive_id" FROM app_order WHERE profile_id = @profile_id AND timestamp >= @timestamp''\<close>

definition order_kinds :: "column_kind list" where
  "order_kinds = [CString, CUint, CString, CString, CString, CNull CDecimal, CNull CDecimal, CNull CDecimal, CNull CDecimal,
     CString, CInt, CString, CNull CString, CNull CDecimal, CNull CDecimal, CString, CString, CInt]"

definition HandleOrdersList :: "'d pgx_lib \<Rightarrow> rabbit_context \<Rightarrow> string + order_list_request \<Rightarrow> ('d, unit) prog" where
  "HandleOrdersList S ctx body = bindJSON body (\<lambda>r.
     deref (rc_Profile ctx) (\<lambda>profile.
     let pg = rc_Pagination ctx
     in listing S pg
          (order_columns @ filter_if (ol_Status r \<noteq> []) '' AND status = ANY(@status)'' @
           filter_if (ol_MarketId r \<noteq> '''') '' AND market_id = @market_id'' @
           filter_if (ol_OrderType r \<noteq> []) '' AND order_type = ANY(@order_type)'' @
           filter_if (ol_OrderId r \<noteq> '''') '' AND id = @order_id'' @
           filter_if (ol_ClientOrderId r \<noteq> '''') '' AND client_order_id = @client_order_id'' @
           filter_if (0 < ol_EndTime r) '' AND timestamp <= @end_time'' @ '' ORDER BY updated_at '' @ pg_Order pg)
          [(''profile_id'', VUint (pr_ProfileId profile)), (''market_id'', VString (ol_MarketId r)),
           (''timestamp'', VUint (ol_TimeStamp r)), (''status'', strings_val (ol_Status r)),
           (''order_type'', strings_val (ol_OrderType r)), (''order_id'', VString (ol_OrderId r)),
           (''client_order_id'', VString (ol_ClientOrderId r)), (''end_time'', VUint (ol_EndTime r)),
           (''limit'', VInt (pg_Limit pg))]
          (scan_struct S ''OrderData'' order_kinds)))"

record ops_list_request =
  bl_OpsType   :: "string list"
  bl_TimeStamp :: nat
  bl_EndTime   :: nat
  bl_Status    :: "string list"

definition HandleBalanceOpsList :: "'d pgx_lib \<Rightarrow> rabbit_context \<Rightarrow> string + ops_list_request \<Rightarrow> ('d, unit) prog" where
  \<open>HandleBalanceOpsList S ctx body = bindJSON body (\<lambda>r.
     deref (rc_Profile ctx) (\<lambda>profile.
     let pg = rc_Pagination ctx
     in listing S pg
          (''SELECT "id", "status", "reason", "txhash", "profile_id", "wallet", "ops_type", "ops_id2", "amount", "timestamp", "shard_id", "archive_id" FROM app_balance_operation WHERE profile_id = @profile_id AND timestamp >= @timestamp'' @
           filter_if (bl_OpsType r \<noteq> []) '' AND ops_type = ANY (@ops_type)'' @
           filter_if (0 < bl_EndTime r) '' AND timestamp <= @end_time'' @
           filter_if (bl_Status r \<noteq> []) '' AND status = ANY (@status)'' @ '' ORDER BY timestamp '' @ pg_Order pg)
          [(''profile_id'', VUint (pr_ProfileId profile)), (''timestamp'', VUint (bl_TimeStamp r)),
           (''order'', VString (pg_Order pg)), (''limit'', VInt (pg_Limit pg)), (''ops_type'', strings_val (bl_OpsType r)),
           (''end_time'', VUint (bl_EndTime r)), (''status'', strings_val (bl_Status r))]
          (scan_struct S ''BalanceOps''
             [CString, CString, CString, CString, CUint, CString, CString, CString, CDecimal, CInt, CString, CInt])))\<close>

record funding_list_request =
  ff_MarketId  :: string
  ff_TimeStamp :: nat
  ff_EndTime   :: nat

definition HandleFundingRateList :: "'d pgx_lib \<Rightarrow> rabbit_context \<Rightarrow> string + funding_list_request \<Rightarrow> ('d, unit) prog" where
  \<open>HandleFundingRateList S ctx body = bindJSON body (\<lambda>r.
     let pg = rc_Pagination ctx
     in listing S pg
          (''SELECT "market_id", "timestamp", "funding_rate" FROM funding_rate_hourly WHERE market_id = @market_id AND timestamp >= @timestamp'' @
           filter_if (0 < ff_EndTime r) '' AND timestamp <= @end_time'' @ '' ORDER BY timestamp '' @ pg_Order pg)
          [(''market_id'', VString (ff_MarketId r)), (''timestamp'', VUint (ff_TimeStamp r)),
           (''order'', VString (pg_Order pg)), (''limit'', VInt (pg_Limit pg)), (''end_time'', VUint (ff_EndTime r))]
          (scan_struct S ''FundingRateData'' [CString, CUint, CDecimal]))\<close>

section \<open>Histories\<close>

text \<open>\<^verbatim>\<open>portfolio/portfolio.go\<close>: the interval and the table of a range\<close>

definition portfolio_mapping :: "string \<rightharpoonup> string \<times> string" where
  "portfolio_mapping = map_of
     [(''1h'', (''1 hour'', ''app_profile_cache_1m'')), (''1d'', (''1 day'', ''app_profile_cache_15m'')),
      (''1w'', (''7 days'', ''app_profile_cache_30m'')), (''1m'', (''28 days'', ''app_profile_cache_1h'')),
      (''1y'', (''365 days'', ''app_profile_cache_1d'')), (''all'', (''365 days'', ''app_profile_cache_1d''))]"

definition PortfolioList :: "'d pgx_lib \<Rightarrow> string \<Rightarrow> nat \<Rightarrow> ('d, string + 'd gval list) prog" where
  "PortfolioList S rng profileId =
     (case portfolio_mapping rng of
        None \<Rightarrow> Return (Inl (''RANGE_NOT_FOUND '' @ rng))
      | Some (interval, table) \<Rightarrow>
          sql_query_wrapped ''db.Query''
              (sql_text (''SELECT h.archive_timestamp, h.account_equity FROM '' @ table @ '' as h WHERE h.id = @id AND h.archive_timestamp >= (EXTRACT(EPOCH FROM (CURRENT_TIMESTAMP - @timestamp_interval::interval)) * 1000000)::bigint ORDER BY 1 ASC;'')
                 [(''id'', VUint profileId), (''timestamp_interval'', VString interval)])
              ''query error'' ''scan row error'' ''rows error'' (scan_struct S ''PortfolioData'' [CInt, CDecimal]))"

definition HandlePortfolioList :: "'d pgx_lib \<Rightarrow> rabbit_context \<Rightarrow> string + string \<Rightarrow> ('d, unit) prog" where
  "HandlePortfolioList S ctx body = bindJSON body (\<lambda>rng.
     deref (rc_Profile ctx) (\<lambda>profile.
     onErr (PortfolioList S rng (pr_ProfileId profile)) ErrorResponse SuccessResponse))"

text \<open>\<^verbatim>\<open>volume/vaultdata.go\<close>\<close>

definition getVolumeForExchange :: "'d pgx_lib \<Rightarrow> string \<Rightarrow> int \<Rightarrow> int \<Rightarrow> ('d, string + 'd) prog" where
  "getVolumeForExchange S exchangeId startDate endDate =
     onErr (sql_query_row ''db.Query''
         (sql_text ''SELECT COALESCE(SUM(f.volume), 0) AS volume FROM app_fill_1h AS f JOIN app_profile AS p ON p.id = f.profile_id WHERE p.exchange_id = @exchange_id AND f.timestamp >= time_bucket(3600000000::bigint, @timestamp_from) AND f.timestamp <= time_bucket(3600000000::bigint, @timestamp_to)''
            [(''exchange_id'', VString exchangeId), (''timestamp_from'', VInt startDate), (''timestamp_to'', VInt endDate)])
         (column_of S (px_decimal S)))
       (\<lambda>e. Return (Inl (wrapped ''execute query'' e))) (\<lambda>v. Return (Inr v))"

definition HandleVolume :: "'d pgx_lib \<Rightarrow> string \<Rightarrow> string + int \<times> int \<Rightarrow> ('d, unit) prog" where
  "HandleVolume S exchangeId body = bindJSON body (\<lambda>(startDate, endDate).
     onErr (getVolumeForExchange S exchangeId startDate endDate) ErrorResponse
       (\<lambda>v. SuccessResponse [VStruct ''VolumeResponse'' [VDecimal v]]))"

definition HandleBfxVolume :: "'d pgx_lib \<Rightarrow> string + int \<times> int \<Rightarrow> ('d, unit) prog" where
  "HandleBfxVolume S body = HandleVolume S ''bfx'' body"

definition HandleRbxVolume :: "'d pgx_lib \<Rightarrow> string + int \<times> int \<Rightarrow> ('d, unit) prog" where
  "HandleRbxVolume S body = HandleVolume S ''rbx'' body"

section \<open>A listing shows the rows of its caller\<close>

text \<open>The arguments of a statement given as text\<close>

fun text_args :: "'d gval list \<Rightarrow> 'd gval list" where
  "text_args [VString q, VList args] = args"
| "text_args _ = []"

lemma text_args_sql_text [simp]: "text_args (sql_text q args) = map (\<lambda>(k, v). VList [VString k, v]) args"
  by (simp add: sql_text_def)

text \<open>A call of the database selects the rows of one profile.\<close>

fun selects_profile :: "nat \<Rightarrow> 'd call \<Rightarrow> bool" where
  "selects_profile pid (External how stmt) \<longleftrightarrow>
     VList [VString ''profile_id'', VUint pid] \<in> set (text_args stmt) \<or> VList [VString ''id'', VUint pid] \<in> set (text_args stmt)"
| "selects_profile pid c \<longleftrightarrow> True"

lemma wp_listing:
  assumes "VList [VString ''profile_id'', VUint pid] \<in> set (map (\<lambda>(k, v). VList [VString k, v]) args)"
  shows "wp (\<lambda>_. selects_profile pid) (\<lambda>_ _. True) (listing S pg q args scan) h"
  using assms
  by (auto simp: listing_def wp_andThen wp_onErr SuccessResponsePaginated_def split: sum.split)

text \<open>The handlers that list what belongs to a profile, for any requests\<close>

definition own_listings :: "'d pgx_lib \<Rightarrow> rabbit_context \<Rightarrow> ('d, unit) prog set" where
  "own_listings S ctx = range (HandleFillsList S ctx) \<union> range (HandleFillsForOrder S ctx) \<union> range (HandleOrdersList S ctx) \<union>
     range (HandleBalanceOpsList S ctx) \<union> range (HandlePortfolioList S ctx)"

lemma wp_own_listings:
  assumes "rc_Profile ctx = Some profile" "p \<in> own_listings S ctx"
  shows "wp (\<lambda>_. selects_profile (pr_ProfileId profile)) (\<lambda>_ _. True) p h"
proof -
  consider body where "p = HandleFillsList S ctx body" | body where "p = HandleFillsForOrder S ctx body"
    | body where "p = HandleOrdersList S ctx body" | body where "p = HandleBalanceOpsList S ctx body"
    | body where "p = HandlePortfolioList S ctx body"
    using assms(2) by (auto simp: own_listings_def)
  then show ?thesis
  proof cases
    case 1
    then show ?thesis
      using assms(1) by (auto simp: HandleFillsList_def Let_def intro!: wp_listing)
  next
    case 2
    then show ?thesis
      using assms(1) by (auto simp: HandleFillsForOrder_def wp_onErr split: sum.split)
  next
    case 3
    then show ?thesis
      using assms(1) by (auto simp: HandleOrdersList_def Let_def intro!: wp_listing)
  next
    case 4
    then show ?thesis
      using assms(1) by (auto simp: HandleBalanceOpsList_def Let_def intro!: wp_listing)
  next
    case 5
    then show ?thesis
      using assms(1) by (auto simp: HandlePortfolioList_def PortfolioList_def wp_onErr split: sum.split option.split)
  qed
qed

section \<open>Whose rows are listed\<close>

text \<open>
  What the handlers of the API promise beyond the balance handlers: whose rows they list.
\<close>


lemma demo_fills_run:
  "run (replying (\<lambda>_. BRows [(VList [], '''')])) (HandleFillsForOrder demo_pgx (demo_context demo_trader) (Inr ''o1'')) [] =
   ([(Respond (Success []), reply_answer (BRows [(VList [], '''')]))] @
    (External ''db.Query'' (sql_text (fill_columns @ '' AND order_id = @order_id'')
       [(''profile_id'', VUint (pr_ProfileId demo_trader)), (''order_id'', VString ''o1'')]), reply_answer (BRows [(VList [], '''')])) # [],
    Done ())"
  by (simp add: HandleFillsForOrder_def bindJSON_def deref_def onErr_def sql_query_def read_rows_def result_set_def
      SuccessResponse_def respond_def demo_context_def)


end
