(* ===== verification/Vaultdata.thy ===== *)
theory Vaultdata
  imports Api_Paging Tick
begin

text \<open>
  What investors see of the vaults (\<^verbatim>\<open>vaultdata/vaultdata.go\<close>, \<^verbatim>\<open>api/vaultdata.go\<close>): their holdings with the
  value that could be withdrawn, their operations, the vaults of an exchange, and the history of a
  vault's value.
\<close>

section \<open>Filters\<close>

definition splitSlice :: "string list \<Rightarrow> string list" where
  "splitSlice xs = (if xs = [''''] then [] else xs)"

definition split_filter :: "string \<Rightarrow> string list" where
  "split_filter value = splitSlice (split_at (CHR '','') value)"

definition normalizeType :: "string \<Rightarrow> string" where
  "normalizeType value = to_lower value"

definition normalizeTypes :: "string list \<Rightarrow> string list" where
  "normalizeTypes = map normalizeType"

definition wallet_filter :: "string \<Rightarrow> string list" where
  "wallet_filter value = map GetWalletStringInRabbitTntStandardFormat (split_filter value)"

section \<open>Pages\<close>

text \<open>The number of rows first, then the page; the errors are wrapped.\<close>

definition page_of ::
  "'d pgx_lib \<Rightarrow> pagination \<Rightarrow> string \<Rightarrow> string \<Rightarrow> string \<Rightarrow> (string \<times> 'd gval) list \<Rightarrow> ('d gval \<Rightarrow> string + 'a) \<Rightarrow>
   ('d, string + 'a list \<times> int) prog" where
  "page_of S pg qSelect qFrom orderBy args f =
     onErr (sql_query_row ''db.QueryRow'' (sql_text (''SELECT COUNT(*) '' @ qFrom) args) (column_of S (px_int S)))
       (\<lambda>e. Return (Inl (wrapped ''execute total query'' e))) (\<lambda>n.
     onErr (sql_query_wrapped ''db.Query''
         (sql_text (qSelect @ qFrom @ '' ORDER BY '' @ orderBy @ '' '' @ pg_Order pg @ '' LIMIT @limit OFFSET @offset'')
            (args @ [(''limit'', VInt (pg_Limit pg)), (''offset'', VInt (page_offset pg))]))
         ''execute query'' ''scan row'' ''rows error'' f)
       (\<lambda>e. Return (Inl e)) (\<lambda>rows. Return (Inr (rows, n))))"

definition filter_args :: "string \<Rightarrow> string list \<Rightarrow> (string \<times> 'd gval) list" where
  "filter_args name xs = (if xs = [] then [] else [(name, strings_val xs)])"

section \<open>Holdings\<close>

record 'd vault_holding_row =
  vr_StakerProfileId    :: nat
  vr_VaultProfileId     :: nat
  vr_Wallet             :: string
  vr_ExchangeId         :: string
  vr_Status             :: string
  vr_VaultName          :: string
  vr_ManagerName        :: string
  vr_InceptionTimestamp :: int
  vr_Shares             :: 'd
  vr_entryNav           :: 'd
  vr_entryPrice         :: 'd
  vr_accountEquity      :: 'd
  vr_totalShares        :: 'd
  vr_performanceFee     :: 'd

definition holding_row :: "'d pgx_lib \<Rightarrow> 'd gval \<Rightarrow> string + 'd vault_holding_row" where
  "holding_row S = scan_row S
     (col S (px_uint S) (\<lambda>sp. col S (px_uint S) (\<lambda>vp. col S (px_string S) (\<lambda>w. col S (px_string S) (\<lambda>ex.
      col S (px_string S) (\<lambda>st. col S (px_string S) (\<lambda>vn. col S (px_string S) (\<lambda>mn. col S (px_int S) (\<lambda>ts.
      col S (px_decimal S) (\<lambda>sh. col S (px_decimal S) (\<lambda>en. col S (px_decimal S) (\<lambda>ep. col S (px_decimal S) (\<lambda>ae.
      col S (px_decimal S) (\<lambda>tsh. col S (px_decimal S) (\<lambda>pf.
        scanned \<lparr> vr_StakerProfileId = sp, vr_VaultProfileId = vp, vr_Wallet = w, vr_ExchangeId = ex, vr_Status = st,
          vr_VaultName = vn, vr_ManagerName = mn, vr_InceptionTimestamp = ts, vr_Shares = sh, vr_entryNav = en,
          vr_entryPrice = ep, vr_accountEquity = ae, vr_totalShares = tsh, vr_performanceFee = pf \<rparr>)))))))))))))))"

text \<open>The value of the shares, what could be withdrawn of it, and the manager's charge on the gain\<close>

definition performance_charge :: "'d dec_lib \<Rightarrow> 'd vault_holding_row \<Rightarrow> 'd \<Rightarrow> 'd" where
  "performance_charge D r nav =
     (let price = d_div D (vr_accountEquity r) (vr_totalShares r)
      in if d_lt D (vr_entryPrice r) price \<and> d_lt D (d_zero D) price \<and> d_lt D (d_zero D) (vr_entryPrice r)
         then d_div D (d_mul D (d_mul D (vr_performanceFee r) nav) (d_sub D price (vr_entryPrice r))) price
         else d_zero D)"

definition holding_values :: "'d dec_lib \<Rightarrow> 'd vault_holding_row \<Rightarrow> 'd \<times> 'd \<times> 'd" where
  "holding_values D r =
     (if d_lt D (d_zero D) (vr_totalShares r)
      then let nav = d_div D (d_mul D (vr_accountEquity r) (vr_Shares r)) (vr_totalShares r);
               charge = performance_charge D r nav;
               net = d_sub D nav charge
           in (nav, if d_lt D net (d_zero D) then d_zero D else net, charge)
      else (vr_accountEquity r, vr_accountEquity r, d_zero D))"

definition holding_val :: "'d dec_lib \<Rightarrow> 'd vault_holding_row \<Rightarrow> 'd gval" where
  "holding_val D r =
     (let (nav, net, charge) = holding_values D r
      in VStruct ''VaultHoldingsResponse''
           [VUint (vr_StakerProfileId r), VUint (vr_VaultProfileId r), VString (vr_Wallet r), VString (vr_ExchangeId r),
            VString (vr_Status r), VString (vr_VaultName r), VString (vr_ManagerName r), VInt (vr_InceptionTimestamp r),
            VDecimal (vr_Shares r), VDecimal nav, VDecimal net, VDecimal charge, VDecimal (vr_performanceFee r)])"

definition VaultHoldings ::
  "'d dec_lib \<Rightarrow> 'd pgx_lib \<Rightarrow> string \<Rightarrow> nat \<Rightarrow> string \<Rightarrow> pagination \<Rightarrow> ('d, string + 'd gval list \<times> int) prog" where
  "VaultHoldings D S vaultWallet profileId exchangeId pg =
     (let wallets = wallet_filter vaultWallet
      in onErr (page_of S pg
             ''SELECT vh.staker_profile_id, v.vault_profile_id, p.wallet, p.exchange_id, v.status, v.vault_name, v.manager_name, v.initialised_at, vh.shares, vh.entry_nav, vh.entry_price, c.account_equity, v.total_shares, v.performance_fee''
             ('' FROM app_profile as p JOIN app_vault_last as v on v.vault_profile_id = p.id JOIN app_profile_cache_last as c on c.id=v.vault_profile_id JOIN app_vault_holdings_last vh on vh.vault_profile_id=v.vault_profile_id WHERE vh.staker_profile_id = @staker_profile_id AND p.profile_type = '' @
              [CHR 0x27] @ ''vault'' @ [CHR 0x27] @ '' AND p.exchange_id = @exchange_id '' @
              filter_if (wallets \<noteq> []) '' AND p.wallet = ANY(@wallets) '')
             ''v.vault_profile_id''
             ([(''staker_profile_id'', VUint profileId), (''exchange_id'', VString exchangeId)] @ filter_args ''wallets'' wallets)
             (holding_row S))
           (\<lambda>e. Return (Inl e)) (\<lambda>(rows, n). Return (Inr (map (holding_val D) rows, n))))"

section \<open>Operations and vaults\<close>

definition VaultBalanceOperations ::
  "'d pgx_lib \<Rightarrow> string \<Rightarrow> string list \<Rightarrow> nat \<Rightarrow> string \<Rightarrow> pagination \<Rightarrow> ('d, string + 'd gval list \<times> int) prog" where
  "VaultBalanceOperations S vaultWallet opsType profileId exchangeId pg =
     (let wallets = wallet_filter vaultWallet; types = normalizeTypes (splitSlice opsType)
      in page_of S pg
           ''SELECT op.id, op.ops_type, op.ops_sub_type, op.staker_profile_id, op.vault_profile_id, op.vault_wallet, op.vault_exchange_id, op.status as op_status, v.vault_name, v.manager_name, v.initialised_at, op.timestamp, op.stake_usdt, op.stake_shares, op.unstake_shares, op.unstake_usdt, op.unstake_fee_usdt''
           ('' FROM app_vault_balance_operation_last as op JOIN app_profile as p on p.wallet = op.vault_wallet AND p.exchange_id = op.vault_exchange_id JOIN app_vault_last as v on v.vault_profile_id = p.id WHERE op.staker_profile_id = @staker_profile_id AND p.profile_type = '' @
            [CHR 0x27] @ ''vault'' @ [CHR 0x27] @ '' AND p.exchange_id = @exchange_id '' @
            filter_if (wallets \<noteq> []) '' AND op.vault_wallet = ANY(@wallets) '' @
            filter_if (types \<noteq> []) '' AND op.ops_type = ANY(@ops_type) '')
           ''op.timestamp''
           ([(''staker_profile_id'', VUint profileId), (''exchange_id'', VString exchangeId)] @ filter_args ''wallets'' wallets @
            filter_args ''ops_type'' types)
           (scan_struct S ''VaultBalanceOperationsResponse''
              [CString, CString, CString, CUint, CUint, CString, CString, CString, CString, CString, CInt, CInt, CDecimal,
               CDecimal, CDecimal, CDecimal, CDecimal]))"

definition Vaults :: "'d pgx_lib \<Rightarrow> string \<Rightarrow> string \<Rightarrow> pagination \<Rightarrow> ('d, string + 'd gval list \<times> int) prog" where
  "Vaults S vaultWallet exchangeId pg =
     (let wallets = wallet_filter vaultWallet
      in page_of S pg
           ''SELECT v.vault_profile_id, p.wallet, p.exchange_id, c.account_equity, v.total_shares, COALESCE(a.share_price,1) as share_price, COALESCE(a.apy_total,0) as apy_total, v.status, v.performance_fee, v.manager_name, v.initialised_at, v.vault_name''
           ('' FROM app_profile as p JOIN app_vault_last as v on v.vault_profile_id = p.id JOIN app_profile_cache_last as c on c.id=v.vault_profile_id LEFT JOIN app_vault_aggregate_last as a on a.vault_profile_id = v.vault_profile_id WHERE p.profile_type = '' @
            [CHR 0x27] @ ''vault'' @ [CHR 0x27] @ '' AND p.exchange_id = @exchange_id '' @
            filter_if (wallets \<noteq> []) '' AND p.wallet = ANY(@wallets) '')
           ''v.vault_profile_id''
           ([(''exchange_id'', VString exchangeId)] @ filter_args ''wallets'' wallets)
           (scan_struct S ''VaultResponse''
              [CUint, CString, CString, CDecimal, CDecimal, CDecimal, CDecimal, CString, CDecimal, CString, CInt, CString]))"

section \<open>The history of a vault\<close>

definition vault_profile_row :: "'d pgx_lib \<Rightarrow> 'd gval \<Rightarrow> string + int \<times> string" where
  "vault_profile_row S = scan_row S (col S (px_int S) (\<lambda>i. col S (px_string S) (\<lambda>t. scanned (i, t))))"

definition GetVaultProfile :: "'d pgx_lib \<Rightarrow> string \<Rightarrow> string \<Rightarrow> ('d, string + (int \<times> string) option) prog" where
  "GetVaultProfile S vaultWallet exchangeId =
     onErr (sql_query ''db.Query''
         (sql_text ''SELECT p.id, p.profile_type FROM app_profile as p WHERE p.exchange_id = @exchange_id AND p.wallet = @wallet''
            [(''exchange_id'', VString exchangeId), (''wallet'', VString vaultWallet)]) (vault_profile_row S))
       (\<lambda>e. Return (Inl e))
       (\<lambda>rows. Return (case rows of
            [] \<Rightarrow> Inr None
          | [r] \<Rightarrow> Inr (Some r)
          | _ \<Rightarrow> Inl (''found more than 1 profile by wallet '' @ vaultWallet @ '' and exchange id '' @ exchangeId)))"

text \<open>\<^verbatim>\<open>uint(id)\<close> of an \<^verbatim>\<open>int64\<close> keeps the bits.\<close>

definition uint_of_int64 :: "int \<Rightarrow> nat" where
  "uint_of_int64 i = nat (i mod 2 ^ 64)"

definition NavHistory :: "'d pgx_lib \<Rightarrow> string \<Rightarrow> string \<Rightarrow> string \<Rightarrow> ('d, string + 'd gval list) prog" where
  "NavHistory S wallet rng exchangeId =
     (let vaultWallet = GetWalletStringInRabbitTntStandardFormat wallet
      in onErr (GetVaultProfile S vaultWallet exchangeId)
           (\<lambda>e. Return (Inl (''GET_VAULT_PROFILE_ERROR: wallet='' @ vaultWallet @ '', err='' @ e)))
           (\<lambda>profile. case profile of
               None \<Rightarrow> Return (Inl (''VAULT_PROFILE_NOT_FOUND: wallet='' @ vaultWallet))
             | Some (i, t) \<Rightarrow>
                 if t \<noteq> ''vault'' then Return (Inl (''TARGET_IS_NOT_A_VAULT '' @ vaultWallet))
                 else PortfolioList S rng (uint_of_int64 i)))"

section \<open>The handlers\<close>

definition answer_page :: "pagination \<Rightarrow> ('d, string + 'd gval list \<times> int) prog \<Rightarrow> ('d, unit) prog" where
  "answer_page pg p = onErr p ErrorResponse (\<lambda>(rows, n). SuccessResponsePaginated pg n rows)"

definition HandleNavHistory :: "'d pgx_lib \<Rightarrow> 'm rabbit_context_scheme \<Rightarrow> string + string \<times> string \<Rightarrow> ('d, unit) prog" where
  "HandleNavHistory S ctx body = bindJSON body (\<lambda>(wallet, rng).
     onErr (NavHistory S wallet rng (rc_ExchangeId ctx)) ErrorResponse SuccessResponse)"

definition HandleVault :: "'d pgx_lib \<Rightarrow> 'm rabbit_context_scheme \<Rightarrow> string + string \<Rightarrow> ('d, unit) prog" where
  "HandleVault S ctx body = bindJSON body (\<lambda>wallet.
     answer_page (rc_Pagination ctx) (Vaults S wallet (rc_ExchangeId ctx) (rc_Pagination ctx)))"

definition HandleVaultBalanceOperations ::
  "'d pgx_lib \<Rightarrow> 'm rabbit_context_scheme \<Rightarrow> string + string \<times> string list \<Rightarrow> ('d, unit) prog" where
  "HandleVaultBalanceOperations S ctx body = bindJSON body (\<lambda>(wallet, opsType).
     deref (rc_Profile ctx) (\<lambda>profile.
     answer_page (rc_Pagination ctx)
       (VaultBalanceOperations S wallet opsType (pr_ProfileId profile) (rc_ExchangeId ctx) (rc_Pagination ctx))))"

definition HandleVaultHoldings ::
  "'d dec_lib \<Rightarrow> 'd pgx_lib \<Rightarrow> 'm rabbit_context_scheme \<Rightarrow> string + string \<Rightarrow> ('d, unit) prog" where
  "HandleVaultHoldings D S ctx body = bindJSON body (\<lambda>wallet.
     deref (rc_Profile ctx) (\<lambda>profile.
     answer_page (rc_Pagination ctx)
       (VaultHoldings D S wallet (pr_ProfileId profile) (rc_ExchangeId ctx) (rc_Pagination ctx))))"

section \<open>The values shown\<close>

text \<open>
  Besides the exact operations, the library divides: the quotient of numbers that are not negative is
  not negative.
\<close>

definition divides :: "'d dec_lib \<Rightarrow> ('d \<Rightarrow> rat) \<Rightarrow> bool" where
  "divides D val \<longleftrightarrow> (\<forall>x y. 0 \<le> val x \<longrightarrow> 0 < val y \<longrightarrow> 0 \<le> val (d_div D x y))"

lemma charge_not_negative:
  assumes "dec_laws D val" "divides D val" "0 \<le> val (vr_performanceFee r)" "0 \<le> val nav"
  shows "0 \<le> val (performance_charge D r nav)"
  using assms(2-4)
  by (auto simp: performance_charge_def Let_def divides_def dec_laws_ops [OF assms(1)] dec_laws_cmp [OF assms(1)])

text \<open>
  What a holding shows as withdrawable is not negative and at most the value of the shares: the two
  differ by the manager's charge, which there is only when the price has risen above that of the
  investment.
\<close>

lemma withdrawable_within_value:
  assumes "dec_laws D val" "divides D val"
    and "0 \<le> val (vr_accountEquity r)" "0 \<le> val (vr_Shares r)" "0 \<le> val (vr_performanceFee r)"
    and "holding_values D r = (nav, net, charge)"
  shows "0 \<le> val net \<and> val net \<le> val nav \<and> val net = max 0 (val nav - val charge) \<and>
    (val charge \<noteq> 0 \<longrightarrow> val (vr_entryPrice r) < val (d_div D (vr_accountEquity r) (vr_totalShares r)))"
proof (cases "0 < val (vr_totalShares r)")
  case True
  then have v: "nav = d_div D (d_mul D (vr_accountEquity r) (vr_Shares r)) (vr_totalShares r)"
    "charge = performance_charge D r nav"
    "net = (if d_lt D (d_sub D nav charge) (d_zero D) then d_zero D else d_sub D nav charge)"
    using assms(6) by (auto simp: holding_values_def Let_def dec_laws_ops [OF assms(1)] dec_laws_cmp [OF assms(1)])
  have "0 \<le> val nav"
    using assms(2-4) True by (simp add: v(1) divides_def dec_laws_ops [OF assms(1)])
  moreover have "0 \<le> val charge"
    unfolding v(2) by (rule charge_not_negative [OF assms(1,2,5) calculation])
  moreover have "val (vr_entryPrice r) < val (d_div D (vr_accountEquity r) (vr_totalShares r))" if "val charge \<noteq> 0"
    using that unfolding v(2) performance_charge_def
    by (auto simp: Let_def dec_laws_ops [OF assms(1)] dec_laws_cmp [OF assms(1)] split: if_splits)
  ultimately show ?thesis
    by (auto simp: v(3) dec_laws_ops [OF assms(1)] dec_laws_cmp [OF assms(1)])
next
  case False
  then show ?thesis
    using assms(3,6) by (auto simp: holding_values_def dec_laws_ops [OF assms(1)] dec_laws_cmp [OF assms(1)])
qed

end
