(* ===== verification/Ws_Proxy.thy ===== *)
theory Ws_Proxy
  imports Api_Paging Api_Auth
begin

text \<open>
  The proxy behind the web sockets (\<^verbatim>\<open>websocket/proxy.go\<close>): it answers the server's question whether a
  user may subscribe to a channel, with the channel's first data, and every second pushes the daily
  figures of the markets.
\<close>

section \<open>Subscriptions\<close>

text \<open>A status without a body, and a JSON object; alerts and other log lines are left out.\<close>

definition status_only :: "int \<Rightarrow> ('d, unit) prog" where
  "status_only code = Call (External ''c.Status'' [VInt code]) (\<lambda>_. Return ())"

definition json_result :: "'d gval \<Rightarrow> ('d, unit) prog" where
  "json_result v = Call (External ''c.JSON'' [VStruct ''result'' [v]]) (\<lambda>_. Return ())"

definition json_error :: "('d, unit) prog" where
  "json_error = Call (External ''c.JSON'' [VStruct ''error'' []]) (\<lambda>_. Return ())"

abbreviation bad_request :: "('d, unit) prog" where
  "bad_request \<equiv> status_only 400"

text \<open>\<^verbatim>\<open>uint(n)\<close> of an \<^verbatim>\<open>int\<close>\<close>

definition uint_of_int :: "int \<Rightarrow> nat" where
  "uint_of_int n = nat (n mod 2 ^ 64)"

text \<open>
  A channel may end in \<^verbatim>\<open>@\<close> and the number of a profile, which must be that of the user. \<open>None\<close> when
  the request is refused as malformed or for its user.
\<close>

datatype channel_owner = Malformed | Foreign | Owned nat string

definition owner_of :: "string \<Rightarrow> string \<Rightarrow> channel_owner" where
  "owner_of channel user =
     (if CHR ''@'' \<in> set channel
      then let parts = split_at (CHR ''@'') channel
           in case ParseInt64 (last parts) of
                Inl e \<Rightarrow> Malformed
              | Inr profileId \<Rightarrow>
                  (case ParseInt64 user of
                     Inl e \<Rightarrow> Malformed
                   | Inr requiredId \<Rightarrow>
                       if uint_of_int requiredId \<noteq> uint_of_int profileId then Foreign
                       else Owned (uint_of_int profileId) (hd parts))
      else Owned 0 channel)"

text \<open>The kind of a channel and its argument, separated by a colon\<close>

definition channel_parts :: "string \<Rightarrow> string \<times> string" where
  "channel_parts channel =
     (if CHR '':'' \<in> set channel
      then let parts = split_at (CHR '':'') channel in (hd parts, last parts)
      else (channel, ''''))"

text \<open>The first data of a channel; a pointer that is nil is refused.\<close>

definition initial_or_bad :: "('d, string + 'a option) prog \<Rightarrow> ('a \<Rightarrow> 'd gval) \<Rightarrow> ('d, unit) prog" where
  "initial_or_bad p v =
     onErr p (\<lambda>_. bad_request) (\<lambda>x. case x of None \<Rightarrow> bad_request | Some y \<Rightarrow> json_result (v y))"

definition initial_data :: "cluster \<Rightarrow> string \<Rightarrow> string \<Rightarrow> nat \<Rightarrow> ('d, unit) prog" where
  "initial_data IC kind argument profileId =
     (if kind = ''market'' then initial_or_bad (GetMarketData IC argument) VMarket
      else if kind = ''account'' then initial_or_bad (GetExtendedProfileData profileId) (VStruct ''ExtendedProfileData'')
      else if kind = ''orderbook'' then initial_or_bad (GetOrderbookData IC argument) (VStruct ''OrderbookData'')
      else if kind = ''trade'' then
        onErr (GetTrades IC argument 15) (\<lambda>_. bad_request)
          (\<lambda>trades. json_result (VList (map (opt_val (VStruct ''TradeData'')) trades)))
      else if kind = ''conditional'' then
        onErr (GetPlacedOrders IC argument None) (\<lambda>_. bad_request)
          (\<lambda>orders. json_result (VList (map (opt_val VOrder) orders)))
      else json_result (VStruct ''gin.H'' []))"

definition subscribe :: "cluster \<Rightarrow> string + string \<times> string \<Rightarrow> ('d, unit) prog" where
  "subscribe IC body =
     (case body of
        Inl e \<Rightarrow> andThen bad_request (\<lambda>_. json_error)
      | Inr (channel, user) \<Rightarrow>
          (case owner_of channel user of
             Malformed \<Rightarrow> bad_request
           | Foreign \<Rightarrow> ErrorResponse ''ERROR_PROFILE_ID''
           | Owned profileId channel' \<Rightarrow>
               (let (kind, argument) = channel_parts channel'
                in if argument = ''TEST-MARKET'' then bad_request else initial_data IC kind argument profileId)))"

section \<open>The daily figures\<close>

text \<open>The fields of a response that no row fills stay zero.\<close>

definition publishToCentrifugoChannel :: "string \<Rightarrow> 'd gval \<Rightarrow> ('d, string + unit) prog" where
  "publishToCentrifugoChannel channel v = sql_exec ''http.Post'' [VString ''publish'', VString channel, v]"

definition view_row :: "'d pgx_lib \<Rightarrow> 'd gval \<Rightarrow> string + string \<times> 'd gval" where
  "view_row S = scan_row S (col S (px_string S) (\<lambda>m row.
     case read_columns S (replicate 7 CDecimal) row of
       Inl e \<Rightarrow> Inl e | Inr (vs, rest) \<Rightarrow> Inr ((m, VStruct ''MarketResponse'' vs), rest)))"

text \<open>Every row is published before the next one is read.\<close>

primrec publish_rows :: "'d pgx_lib \<Rightarrow> 'd gval list \<Rightarrow> string \<Rightarrow> ('d, string + unit) prog" where
  "publish_rows S [] err = Return (if err = '''' then Inr () else Inl err)"
| "publish_rows S (r # rs) err =
     (case view_row S r of
        Inl e \<Rightarrow> Return (Inl e)
      | Inr (market, v) \<Rightarrow>
          onErr (publishToCentrifugoChannel (''market:'' @ market) v) (\<lambda>e. Return (Inl e)) (\<lambda>_. publish_rows S rs err))"

definition view_stmt :: "'d gval list" where
  "view_stmt = select_from
     [''market_id'', ''COALESCE(average_daily_volume, 0)'', ''COALESCE(last_trade_price_24high, 0)'',
      ''COALESCE(last_trade_price_24low, 0)'', ''COALESCE(last_trade_price_24h_change_premium, 0)'',
      ''COALESCE(last_trade_price_24h_change_basis, 0)'', ''COALESCE(average_daily_volume_change_premium, 0)'',
      ''COALESCE(average_daily_volume_change_basis, 0)''] ''market_data_view'' [] [] ''''"

definition sendMarketViewData :: "'d pgx_lib \<Rightarrow> ('d, string + unit) prog" where
  "sendMarketViewData S =
     Call (External ''db.Query'' view_stmt) (\<lambda>ans.
       case result_set (a_reply ans) of
         Inl e \<Rightarrow> Return (Inl e)
       | Inr (rows, err) \<Rightarrow> publish_rows S rows err)"

text \<open>The loop never ends; \<open>n\<close> is the number of its rounds that are looked at.\<close>

primrec push_rounds :: "'d pgx_lib \<Rightarrow> nat \<Rightarrow> ('d, unit) prog" where
  "push_rounds S 0 = Return ()"
| "push_rounds S (Suc n) = andThen (sendMarketViewData S) (\<lambda>_. sleep 1000 (push_rounds S n))"

definition runMarketViewDataPusher :: "'d pgx_lib \<Rightarrow> nat \<Rightarrow> ('d, string + unit) prog" where
  "runMarketViewDataPusher S n =
     onErr (sql_exec ''pgxpool.New'' []) (\<lambda>e. Return (Inl e)) (\<lambda>_. andThen (push_rounds S n) (\<lambda>_. Return (Inr ())))"

section \<open>Whose data a subscription shows\<close>

text \<open>The account asked for is that of the user, or that of the number zero when the channel names none.\<close>

fun account_rule :: "string \<Rightarrow> 'd history \<Rightarrow> 'd call \<Rightarrow> bool" where
  "account_rule user h (Execute i fn ps) \<longleftrightarrow>
     (fn = GET_EXTENDED_PROFILE_DATA \<longrightarrow>
      ps = [VUint 0] \<or> (\<exists>n. ParseInt64 user = Inr n \<and> ps = [VUint (uint_of_int n)]))"
| "account_rule user h c \<longleftrightarrow> True"

lemma owner_of_user: "owner_of channel user = Owned p c \<Longrightarrow> p = 0 \<or> (\<exists>n. ParseInt64 user = Inr n \<and> p = uint_of_int n)"
  by (auto simp: owner_of_def Let_def split: if_splits sum.splits)

lemma wp_initial_or_bad:
  assumes "wp P (\<lambda>_ _. True) p h" "\<And>h v. P h (External ''c.Status'' v) \<and> P h (External ''c.JSON'' v)"
  shows "wp P (\<lambda>_ _. True) (initial_or_bad p v) h"
  unfolding initial_or_bad_def wp_onErr
  by (rule wp_mono [OF assms(1)])
    (use assms(2) in \<open>auto simp: status_only_def json_result_def split: outcome.split sum.split option.split\<close>)

lemma wp_initial_data:
  assumes "p = 0 \<or> (\<exists>n. ParseInt64 user = Inr n \<and> p = uint_of_int n)"
  shows "wp (account_rule user) (\<lambda>_ _. True) (initial_data IC kind argument p) h"
proof -
  have any: "account_rule user h (External n v)" for h n v
    by simp
  have market: "wp (account_rule user) (\<lambda>_ _. True) (GetMarketData IC argument) h" for h
    by (simp add: GetMarketData_def wp_withMarket split: sum.split)
  have book: "wp (account_rule user) (\<lambda>_ _. True) (GetOrderbookData IC argument) h" for h
    by (simp add: GetOrderbookData_def wp_withMarket split: sum.split)
  have account: "wp (account_rule user) (\<lambda>_ _. True) (GetExtendedProfileData p) h" for h
    using assms by (auto simp: GetExtendedProfileData_def)
  have trades: "wp (account_rule user) (\<lambda>_ _. True)
      (onErr (GetTrades IC argument 15) (\<lambda>_. bad_request) (\<lambda>x. json_result (v x))) h" for h v
    by (simp add: GetTrades_def wp_onErr wp_withMarket status_only_def json_result_def split: sum.split)
  have orders: "wp (account_rule user) (\<lambda>_ _. True)
      (onErr (GetPlacedOrders IC argument None) (\<lambda>_. bad_request) (\<lambda>x. json_result (v x))) h" for h v
    by (simp add: GetPlacedOrders_def wp_onErr wp_withMarket status_only_def json_result_def split: sum.split)
  show ?thesis
    unfolding initial_data_def wp_if
    by (intro conjI impI wp_initial_or_bad market book account trades orders any) (simp add: json_result_def)
qed

lemma wp_subscribe: "wp (account_rule user) (\<lambda>_ _. True) (subscribe IC (Inr (channel, user))) h"
  by (auto simp: subscribe_def status_only_def dest!: owner_of_user intro!: wp_initial_data split: channel_owner.split prod.split)

text \<open>
  The account data that answers a subscription is that of the user the server names, whatever the
  channel; a channel without \<^verbatim>\<open>@\<close> reads the account with the number zero.
\<close>

theorem accounts_only_to_owner:
  assumes "run E (subscribe IC (Inr (channel, user))) [] = (post @ (c, ans) # pre, r)"
  shows "account_rule user pre c"
  by (rule every_call [OF wp_subscribe assms])

text \<open>The placed orders of a market, of all profiles, answer a subscription of any user.\<close>

lemma conditional_orders_to_anyone:
  assumes "channel = ''conditional:'' @ market" "CHR ''@'' \<notin> set market" "CHR '':'' \<notin> set market" "market \<noteq> ''TEST-MARKET''"
  shows "subscribe IC (Inr (channel, user)) =
    onErr (GetPlacedOrders IC market None) (\<lambda>_. bad_request) (\<lambda>orders. json_result (VList (map (opt_val VOrder) orders)))"
proof -
  have "split_at (CHR '':'') market = [market]"
    using assms(3) by (induction market) auto
  then show ?thesis
    using assms(1,2,4) by (simp add: subscribe_def owner_of_def channel_parts_def initial_data_def Let_def)
qed

end
