(* ===== verification/Blast_Points.thy ===== *)
theory Blast_Points
  imports Sql Api_Context
begin

text \<open>
  The points of Blast (\<^verbatim>\<open>api/blast_points.go\<close>): every ten minutes a goroutine signs in to the service of
  Blast for each contract, reads all batches and their transfers, and replaces the totals by wallet
  that the handler answers from. HTTP, hashing and the elliptic curve are calls or parameters.
\<close>

section \<open>Points of a wallet\<close>

record 'd blast_point =
  bt_Points        :: 'd
  bt_PendingPoints :: 'd
  bt_NextBatch     :: int     \<comment> \<open>\<^verbatim>\<open>NextBatchFinalizingAt\<close>, nanoseconds since 1970\<close>

record 'd blast_points =
  br_Gold  :: "'d blast_point"
  br_Blast :: "'d blast_point"

text \<open>The zero of \<^verbatim>\<open>time.Time\<close> is the start of the year one.\<close>

definition zero_time :: int where
  "zero_time = - 62135596800 * 1000000000"

definition unix :: "int \<Rightarrow> int" where
  "unix t = t div 1000000000"

definition no_point :: "'d dec_lib \<Rightarrow> 'd blast_point" where
  "no_point D = \<lparr> bt_Points = d_zero D, bt_PendingPoints = d_zero D, bt_NextBatch = zero_time \<rparr>"

definition no_points :: "'d dec_lib \<Rightarrow> 'd blast_points" where
  "no_points D = \<lparr> br_Gold = no_point D, br_Blast = no_point D \<rparr>"

record blast_batch =
  bb_PointType  :: string
  bb_FinalizeAt :: int
  bb_Status     :: string
  bb_Transfers  :: "(string \<times> string) list"    \<comment> \<open>to an address, points\<close>

text \<open>The error of \<^verbatim>\<open>NewFromString\<close> is dropped and leaves zero.\<close>

definition points_of :: "'d dec_lib \<Rightarrow> string \<Rightarrow> 'd" where
  "points_of D s = (case d_parse D s of None \<Rightarrow> d_zero D | Some d \<Rightarrow> d)"

definition add_pending :: "'d dec_lib \<Rightarrow> 'd \<Rightarrow> 'd blast_point \<Rightarrow> 'd blast_point" where
  "add_pending D d p = p\<lparr>bt_PendingPoints := d_add D (bt_PendingPoints p) d\<rparr>"

definition add_final :: "'d dec_lib \<Rightarrow> 'd \<Rightarrow> 'd blast_point \<Rightarrow> 'd blast_point" where
  "add_final D d p = p\<lparr>bt_Points := d_add D (bt_Points p) d\<rparr>"

text \<open>Both kinds of points compare the date of the batch with that of the Blast points.\<close>

definition add_transfer ::
  "('d \<Rightarrow> 'd blast_point \<Rightarrow> 'd blast_point) \<Rightarrow> string \<Rightarrow> int \<Rightarrow> 'd \<Rightarrow> 'd blast_points \<Rightarrow> 'd blast_points" where
  "add_transfer add pointType finalizeAt d v =
     (let later = unix (bt_NextBatch (br_Blast v)) < unix finalizeAt
      in if pointType = ''LIQUIDITY''
         then v\<lparr>br_Blast := (let p = add d (br_Blast v) in if later then p\<lparr>bt_NextBatch := finalizeAt\<rparr> else p)\<rparr>
         else if pointType = ''DEVELOPER''
         then v\<lparr>br_Gold := (let p = add d (br_Gold v) in if later then p\<lparr>bt_NextBatch := finalizeAt\<rparr> else p)\<rparr>
         else v)"

type_synonym 'd blast_results = "string \<rightharpoonup> 'd blast_points"

definition put_transfer ::
  "'d dec_lib \<Rightarrow> ('d \<Rightarrow> 'd blast_point \<Rightarrow> 'd blast_point) \<Rightarrow> blast_batch \<Rightarrow> 'd blast_results \<Rightarrow> string \<times> string \<Rightarrow> 'd blast_results" where
  "put_transfer D add b m t =
     (let wallet = to_lower (fst t); v = (case m wallet of None \<Rightarrow> no_points D | Some v \<Rightarrow> v)
      in m(wallet \<mapsto> add_transfer add (bb_PointType b) (bb_FinalizeAt b) (points_of D (snd t)) v))"

definition put_batch :: "'d dec_lib \<Rightarrow> 'd blast_results \<Rightarrow> blast_batch \<Rightarrow> 'd blast_results" where
  "put_batch D m b =
     (if bb_Status b \<in> {''FINALIZING'', ''PENDING''} then foldl (put_transfer D (add_pending D) b) m (bb_Transfers b)
      else if bb_Status b = ''FINALIZED'' then foldl (put_transfer D (add_final D) b) m (bb_Transfers b)
      else m)"

section \<open>The service of Blast\<close>

definition http_into :: "string \<Rightarrow> 'd gval list \<Rightarrow> ('d, 'a) decoder \<Rightarrow> ('d, string + 'a) prog" where
  "http_into url args f = Call (External url args) (\<lambda>ans. Return (decode_reply f (a_reply ans)))"

text \<open>Every answer says whether it is a success; the text is the error when it is not.\<close>

definition successful :: "string \<Rightarrow> ('d, string + bool \<times> 'a) prog \<Rightarrow> ('d, string + 'a) prog" where
  "successful e p = onErr p (\<lambda>e'. Return (Inl e')) (\<lambda>(ok, x). Return (if ok then Inr x else Inl e))"

definition blast_url :: string where
  "blast_url = ''https://waitlist-api.prod.blast.io''"

definition operator_address :: string where
  "operator_address = ''0x9c9543Ec5183c2f9e05E9fCf02f056cEc38620Ca''"

definition as_challenge :: "('d, bool \<times> string \<times> string) decoder" where
  "as_challenge = as_fields ''Challenge'' (fld as_bool (\<lambda>ok. fld as_string (\<lambda>c. fld as_string (\<lambda>m. fld_end (ok, c, m)))))"

definition obtainChallenge :: "string \<Rightarrow> ('d, string + string \<times> string) prog" where
  "obtainChallenge contract =
     successful ''unable to obtain challenge''
       (http_into (blast_url @ ''/v1/dapp-auth/challenge'') [VString operator_address, VString contract] as_challenge)"

text \<open>
  \<open>toKey\<close>: \<^verbatim>\<open>HexToECDSA\<close>. \<open>sign\<close>: the hexadecimal text of the signature of a message's hash; the error of
  the curve is dropped.
\<close>

definition signMessage ::
  "(string \<Rightarrow> string + 'k) \<Rightarrow> ('k \<Rightarrow> string \<Rightarrow> string) \<Rightarrow> string \<Rightarrow> string \<Rightarrow> string + string" where
  "signMessage toKey sign message key =
     (case toKey key of
        Inl e \<Rightarrow> Inl e
      | Inr k \<Rightarrow> Inr (sign k (CHR 0x19 # ''Ethereum Signed Message:'' @ [CHR 0x0A] @ show_nat (length message) @ message)))"

definition as_token :: "('d, bool \<times> string) decoder" where
  "as_token = as_fields ''Token'' (fld as_bool (\<lambda>ok. fld as_string (\<lambda>t. fld_end (ok, t))))"

definition obtainBearerToken ::
  "(string \<Rightarrow> string + 'k) \<Rightarrow> ('k \<Rightarrow> string \<Rightarrow> string) \<Rightarrow> string \<Rightarrow> string \<times> string \<Rightarrow> ('d, string + string) prog" where
  "obtainBearerToken toKey sign privKey challenge =
     (if privKey = '''' then Return (Inl ''no env BLAST_OPERATOR_PRIV_KEY = '')
      else case signMessage toKey sign (snd challenge) privKey of
        Inl e \<Rightarrow> Return (Inl e)
      | Inr signature \<Rightarrow>
          successful ''unable to obtain bearer token''
            (http_into (blast_url @ ''/v1/dapp-auth/solve'') [VString (fst challenge), VString signature] as_token))"

definition as_page :: "('d, bool \<times> string list \<times> string option) decoder" where
  "as_page = as_fields ''Batches''
     (fld as_bool (\<lambda>ok. fld (as_list as_string) (\<lambda>ids. fld (as_ptr as_string) (\<lambda>cursor. fld_end (ok, ids, cursor)))))"

definition page_url :: "string \<Rightarrow> string \<Rightarrow> string" where
  "page_url contract cursor =
     blast_url @ ''/v1/contracts/'' @ contract @ ''/batches'' @ (if cursor = '''' then '''' else ''?cursor='' @ cursor)"

text \<open>
  The loop over the pages, of each the numbers of its batches; \<open>None\<close> when \<open>n\<close> pages are not enough.
\<close>

primrec getBatches_loop ::
  "nat \<Rightarrow> string \<Rightarrow> string \<Rightarrow> string \<Rightarrow> string list \<Rightarrow> ('d, (string + string list) option) prog" where
  "getBatches_loop 0 contract token cursor result = Return None"
| "getBatches_loop (Suc n) contract token cursor result =
     onErr (successful ''unable to get batches'' (http_into (page_url contract cursor) [VString token] as_page))
       (\<lambda>e. Return (Some (Inl e)))
       (\<lambda>(ids, next_cursor). case next_cursor of
           None \<Rightarrow> Return (Some (Inr (result @ ids)))
         | Some c \<Rightarrow> getBatches_loop n contract token c (result @ ids))"

definition getBatches :: "nat \<Rightarrow> string \<Rightarrow> string \<Rightarrow> ('d, (string + string list) option) prog" where
  "getBatches n contract token = getBatches_loop n contract token '''' []"

definition as_transfer :: "('d, string \<times> string) decoder" where
  "as_transfer = as_fields ''Transfer'' (fld as_string (\<lambda>a. fld as_string (\<lambda>p. fld_end (a, p))))"

definition as_batch :: "('d, bool \<times> blast_batch) decoder" where
  "as_batch = as_fields ''Batch''
     (fld as_bool (\<lambda>ok. fld as_string (\<lambda>pt. fld as_int64 (\<lambda>f. fld as_string (\<lambda>s. fld (as_list as_transfer) (\<lambda>ts.
        fld_end (ok, \<lparr> bb_PointType = pt, bb_FinalizeAt = f, bb_Status = s, bb_Transfers = ts \<rparr>)))))))"

definition getBatch :: "string \<Rightarrow> string \<Rightarrow> string \<Rightarrow> ('d, string + blast_batch) prog" where
  "getBatch contract batchId token =
     successful ''unable to get batch''
       (http_into (blast_url @ ''/v1/contracts/'' @ contract @ ''/batches/'' @ batchId) [VString token] as_batch)"

section \<open>All points\<close>

primrec add_batches ::
  "'d dec_lib \<Rightarrow> string \<Rightarrow> string \<Rightarrow> string list \<Rightarrow> 'd blast_results \<Rightarrow> ('d, string + 'd blast_results) prog" where
  "add_batches D contract token [] m = Return (Inr m)"
| "add_batches D contract token (i # is) m =
     onErr (getBatch contract i token) (\<lambda>e. Return (Inl e)) (\<lambda>b. add_batches D contract token is (put_batch D m b))"

definition contract_addresses :: "string list" where
  "contract_addresses = [''0x3Ba925fdeAe6B46d0BB4d424D829982Cb2F7309e'', ''0x27C11812aF8592375a7553d6034Cc0F189488f4C'']"

primrec points_of_contracts ::
  "'d dec_lib \<Rightarrow> (string \<Rightarrow> string + 'k) \<Rightarrow> ('k \<Rightarrow> string \<Rightarrow> string) \<Rightarrow> string \<Rightarrow> nat \<Rightarrow> string list \<Rightarrow> 'd blast_results \<Rightarrow>
   ('d, (string + 'd blast_results) option) prog" where
  "points_of_contracts D toKey sign privKey n [] m = Return (Some (Inr m))"
| "points_of_contracts D toKey sign privKey n (c # cs) m =
     onErr (obtainChallenge c) (\<lambda>e. Return (Some (Inl e))) (\<lambda>challenge.
     onErr (obtainBearerToken toKey sign privKey challenge) (\<lambda>e. Return (Some (Inl e))) (\<lambda>token.
     andThen (getBatches n c token) (\<lambda>batches.
       case batches of
         None \<Rightarrow> Return None
       | Some (Inl e) \<Rightarrow> Return (Some (Inl e))
       | Some (Inr ids) \<Rightarrow>
           onErr (add_batches D c token ids m) (\<lambda>e. Return (Some (Inl e)))
             (\<lambda>m'. points_of_contracts D toKey sign privKey n cs m'))))"

definition getBlastPoints ::
  "'d dec_lib \<Rightarrow> (string \<Rightarrow> string + 'k) \<Rightarrow> ('k \<Rightarrow> string \<Rightarrow> string) \<Rightarrow> string \<Rightarrow> nat \<Rightarrow>
   ('d, (string + 'd blast_results) option) prog" where
  "getBlastPoints D toKey sign privKey n = points_of_contracts D toKey sign privKey n contract_addresses Map.empty"

text \<open>
  One round of the goroutine: what is cached after it, then ten minutes of sleep. A failed round
  keeps the points there are.
\<close>

definition updater_round ::
  "('d, (string + 'd blast_results) option) prog \<Rightarrow> 'd blast_results \<Rightarrow> ('d, 'd blast_results option) prog" where
  "updater_round get cached =
     andThen get (\<lambda>r. case r of
         None \<Rightarrow> Return None
       | Some (Inl e) \<Rightarrow> sleep 600000 (Return (Some cached))
       | Some (Inr m) \<Rightarrow> sleep 600000 (Return (Some m)))"

text \<open>The handler: it starts the goroutine when there is none yet, and answers from what is cached.\<close>

definition blast_point_val :: "'d blast_point \<Rightarrow> 'd gval" where
  "blast_point_val p = VStruct ''blastPoint'' [VDecimal (bt_Points p), VDecimal (bt_PendingPoints p), VInt (bt_NextBatch p)]"

definition HandleBlastPoints :: "bool \<Rightarrow> 'd blast_results \<Rightarrow> string + string \<Rightarrow> ('d, bool) prog" where
  "HandleBlastPoints started cached body =
     andThen
       (case body of
          Inl e \<Rightarrow> ErrorResponse e
        | Inr address \<Rightarrow>
            (case cached (to_lower address) of
               None \<Rightarrow> ErrorResponse ''no such wallet''
             | Some v \<Rightarrow> SuccessResponse [VStruct ''BlastPointsResponse'' [blast_point_val (br_Gold v), blast_point_val (br_Blast v)]]))
       (\<lambda>_. Return (\<not> started))"

section \<open>Totals\<close>

text \<open>One of the four numbers of a wallet\<close>

definition amount :: "'d dec_lib \<Rightarrow> bool \<Rightarrow> bool \<Rightarrow> 'd blast_results \<Rightarrow> string \<Rightarrow> 'd" where
  "amount D gold pending m wallet =
     (let v = (case m wallet of None \<Rightarrow> no_points D | Some v \<Rightarrow> v); p = (if gold then br_Gold v else br_Blast v)
      in if pending then bt_PendingPoints p else bt_Points p)"

text \<open>Whether a batch counts towards it, and the transfers of a batch to a wallet\<close>

definition counts_to :: "bool \<Rightarrow> bool \<Rightarrow> blast_batch \<Rightarrow> bool" where
  "counts_to gold pending b \<longleftrightarrow>
     bb_PointType b = (if gold then ''DEVELOPER'' else ''LIQUIDITY'') \<and>
     (if pending then bb_Status b \<in> {''FINALIZING'', ''PENDING''} else bb_Status b = ''FINALIZED'')"

definition transfers_to :: "'d dec_lib \<Rightarrow> string \<Rightarrow> blast_batch \<Rightarrow> 'd list" where
  "transfers_to D wallet b = map (\<lambda>t. points_of D (snd t)) (List.filter (\<lambda>t. to_lower (fst t) = wallet) (bb_Transfers b))"

lemma amount_put_transfer:
  "amount D g True (put_transfer D (add_pending D) b m t) w =
     (if to_lower (fst t) = w \<and> bb_PointType b = (if g then ''DEVELOPER'' else ''LIQUIDITY'')
      then d_add D (amount D g True m w) (points_of D (snd t)) else amount D g True m w)"
  "amount D g False (put_transfer D (add_final D) b m t) w =
     (if to_lower (fst t) = w \<and> bb_PointType b = (if g then ''DEVELOPER'' else ''LIQUIDITY'')
      then d_add D (amount D g False m w) (points_of D (snd t)) else amount D g False m w)"
  "amount D g False (put_transfer D (add_pending D) b m t) w = amount D g False m w"
  "amount D g True (put_transfer D (add_final D) b m t) w = amount D g True m w"
  by (simp_all add: amount_def put_transfer_def add_transfer_def Let_def add_pending_def add_final_def no_points_def no_point_def
      split: option.split)

lemma amount_put_transfers:
  "amount D g True (foldl (put_transfer D (add_pending D) b) m ts) w =
     foldl (d_add D) (amount D g True m w)
       (if bb_PointType b = (if g then ''DEVELOPER'' else ''LIQUIDITY'')
        then map (\<lambda>t. points_of D (snd t)) (List.filter (\<lambda>t. to_lower (fst t) = w) ts) else [])"
  "amount D g False (foldl (put_transfer D (add_final D) b) m ts) w =
     foldl (d_add D) (amount D g False m w)
       (if bb_PointType b = (if g then ''DEVELOPER'' else ''LIQUIDITY'')
        then map (\<lambda>t. points_of D (snd t)) (List.filter (\<lambda>t. to_lower (fst t) = w) ts) else [])"
  "amount D g False (foldl (put_transfer D (add_pending D) b) m ts) w = amount D g False m w"
  "amount D g True (foldl (put_transfer D (add_final D) b) m ts) w = amount D g True m w"
  by (induction ts arbitrary: m) (simp_all add: amount_put_transfer)

lemma amount_put_batch:
  "amount D g p (put_batch D m b) w =
     foldl (d_add D) (amount D g p m w) (if counts_to g p b then transfers_to D w b else [])"
  by (cases p) (auto simp: put_batch_def amount_put_transfers counts_to_def transfers_to_def)

text \<open>
  What is shown of a wallet is the sum of the transfers to it in the batches of the kind and the
  state, in the order they were read, whatever the case its address was written in.
\<close>

theorem points_are_sums:
  "amount D gold pending (foldl (put_batch D) Map.empty batches) wallet =
     foldl (d_add D) (d_zero D) (concat (map (transfers_to D wallet) (List.filter (counts_to gold pending) batches)))"
proof -
  have "amount D gold pending (foldl (put_batch D) m batches) wallet =
     foldl (d_add D) (amount D gold pending m wallet)
       (concat (map (transfers_to D wallet) (List.filter (counts_to gold pending) batches)))" for m
    by (induction batches arbitrary: m) (simp_all add: amount_put_batch)
  then show ?thesis
    by (simp add: amount_def no_points_def no_point_def Let_def)
qed

section \<open>Dates and pages\<close>

text \<open>
  The date of the next batch of gold is compared with that of the Blast points: a batch that ends
  earlier replaces the date of a later one, and a date of Blast points keeps that of gold from being
  set.
\<close>

lemma gold_date_goes_back:
  assumes "bt_NextBatch (br_Blast v) = zero_time" "0 < t" "t < u"
  shows "bt_NextBatch (br_Gold (add_transfer (add_pending D) ''DEVELOPER'' t e (add_transfer (add_pending D) ''DEVELOPER'' u d v))) = t"
proof -
  have "unix zero_time < unix t" "unix zero_time < unix u"
    using assms(2,3) by (simp_all add: unix_def zero_time_def)
  then show ?thesis
    using assms(1) by (simp add: add_transfer_def Let_def)
qed

lemma gold_date_not_set:
  assumes "bt_NextBatch (br_Gold v) = zero_time" "unix t \<le> unix (bt_NextBatch (br_Blast v))"
  shows "bt_NextBatch (br_Gold (add_transfer (add_pending D) ''DEVELOPER'' t d v)) = zero_time"
  using assms by (simp add: add_transfer_def Let_def add_pending_def)

text \<open>The loop over the pages ends with the first page without a cursor, and not while there is one.\<close>

definition page_answer :: "'d answer \<Rightarrow> string + bool \<times> string list \<times> string option" where
  "page_answer ans = decode_reply as_page (a_reply ans)"

lemma pages_with_cursor_never_end:
  assumes "\<And>h c. \<exists>ids next_cursor. page_answer (E h (External (page_url contract c) [VString token])) = Inr (True, ids, Some next_cursor)"
  shows "snd (run E (getBatches_loop n contract token cursor result) h) = Done None"
proof (induction n arbitrary: cursor result h)
  case (Suc n)
  obtain ids next_cursor where
    "decode_reply as_page (a_reply (E h (External (page_url contract cursor) [VString token]))) = Inr (True, ids, Some next_cursor)"
    using assms unfolding page_answer_def by blast
  then show ?case
    using Suc by (simp add: onErr_def successful_def http_into_def)
qed simp

lemma last_page_ends_loop:
  assumes "page_answer (E h (External (page_url contract cursor) [VString token])) = Inr (True, ids, None)"
  shows "snd (run E (getBatches_loop (Suc n) contract token cursor result) h) = Done (Some (Inr (result @ ids)))"
  using assms by (simp add: onErr_def successful_def http_into_def page_answer_def)

end
