(* ===== verification/Api_Market.thy ===== *)
theory Api_Market
  imports Api_Paging Model_Api
begin

text \<open>
  The list of the markets (\<^verbatim>\<open>HandleMarket\<close> of \<^verbatim>\<open>api/market.go\<close>). Each market is answered with what
  Tarantool says of it and with figures of the database that are cached in three maps; every request
  starts goroutines that refresh them. The maps are shared: reading one is a call that answers the
  entry, if there is one, and so is starting a goroutine. Random numbers are answered by calls too.
\<close>

section \<open>Shared maps and goroutines\<close>

definition load_view :: "string \<Rightarrow> string \<Rightarrow> ('d gval list \<Rightarrow> ('d, 'b) prog) \<Rightarrow> ('d, 'b) prog" where
  "load_view view market k =
     Call (External (''load '' @ view) [VString market]) (\<lambda>ans. k (case result_set (a_reply ans) of Inl e \<Rightarrow> [] | Inr (vs, _) \<Rightarrow> vs))"

definition store_view :: "string \<Rightarrow> string \<Rightarrow> 'd gval list \<Rightarrow> ('d, unit) prog" where
  "store_view view market vs = Call (External (''store '' @ view) [VString market, VList vs]) (\<lambda>_. Return ())"

definition start_refresh :: "string \<Rightarrow> nat \<Rightarrow> string \<Rightarrow> ('d, 'b) prog \<Rightarrow> ('d, 'b) prog" where
  "start_refresh view index market k = Call (External (''go '' @ view) [VUint index, VString market]) (\<lambda>_. k)"

definition TOTAL_MARKETS :: nat where
  "TOTAL_MARKETS = 55"

text \<open>
  The body of a goroutine under the mutex of its market, which it leaves at once when it is held
  (the flag answered to \<^verbatim>\<open>TryLock\<close>). The mutexes are an array with a fixed length.
\<close>

definition try_locked :: "string \<Rightarrow> nat \<Rightarrow> ('d, unit) prog \<Rightarrow> ('d, unit) prog" where
  "try_locked view index body =
     (if TOTAL_MARKETS \<le> index then Panic ''index out of range''
      else Call (External (''TryLock '' @ view) [VUint index]) (\<lambda>ans.
        if \<not> a_flag ans then Return ()
        else deferring (Call (MutexUnlock view) (\<lambda>_. Return ())) body))"

section \<open>Refreshing\<close>

text \<open>A query for one row; a market without a row has zeros. Other errors are logged and end the goroutine.\<close>

definition refresh_row :: "'d dec_lib \<Rightarrow> 'd pgx_lib \<Rightarrow> string \<Rightarrow> string \<Rightarrow> 'd gval list \<Rightarrow> nat \<Rightarrow> ('d, unit) prog" where
  "refresh_row D S view market stmt n =
     onErr (sql_query_row ''db.QueryRow'' stmt (scan_row S (read_columns S (replicate n CDecimal))))
       (\<lambda>e. if e = ErrNoRows then store_view view market (replicate n (VDecimal (d_zero D))) else Return ())
       (store_view view market)"

definition refresh_oi :: "'d dec_lib \<Rightarrow> 'd pgx_lib \<Rightarrow> nat \<Rightarrow> string \<Rightarrow> ('d, unit) prog" where
  "refresh_oi D S index market = try_locked ''marketViewOi'' index
     (refresh_row D S ''marketViewOi'' market
        [VString ''SELECT a.total, b.per_market FROM (SELECT COALESCE(SUM(average_daily_volume), 0) as total FROM market_data_view) AS a CROSS JOIN (SELECT COALESCE(average_daily_volume, 0) as per_market FROM market_data_view WHERE market_id = ? LIMIT 1) AS b'',
         VString market] 2)"

definition refresh_daily :: "'d dec_lib \<Rightarrow> 'd pgx_lib \<Rightarrow> nat \<Rightarrow> string \<Rightarrow> ('d, unit) prog" where
  "refresh_daily D S index market = try_locked ''marketViewDaily'' index
     (refresh_row D S ''marketViewDaily'' market
        (select_from
           [''COALESCE(average_daily_volume, 0)'', ''COALESCE(last_trade_price_24high, 0)'', ''COALESCE(last_trade_price_24low, 0)'',
            ''COALESCE(last_trade_price_24h_change_premium, 0)'', ''COALESCE(last_trade_price_24h_change_basis, 0)'',
            ''COALESCE(average_daily_volume_change_premium, 0)'', ''COALESCE(average_daily_volume_change_basis, 0)'']
           ''market_data_view'' [] [(''market_id = ?'', VString market)] ''LIMIT 1'') 7)"

text \<open>
  The prices are scanned one by one; \<^verbatim>\<open>rows.Err()\<close> is not asked after them.
\<close>

definition refresh_prices :: "'d pgx_lib \<Rightarrow> nat \<Rightarrow> string \<Rightarrow> ('d, unit) prog" where
  "refresh_prices S index market = try_locked ''marketViewPrice'' index
     (Call (External ''db.Query''
         (select_from [''COALESCE(price, 0)''] ''market_last_trade_view'' []
            [(''market_id = ?'', VString market),
             (''time >= CURRENT_TIMESTAMP - INTERVAL '' @ [CHR 0x27] @ ''24 hours'' @ [CHR 0x27], VNil)]
            ''ORDER BY time ASC LIMIT 24''))
        (\<lambda>ans. case result_set (a_reply ans) of
            Inl e \<Rightarrow> Return ()
          | Inr (rows, _) \<Rightarrow>
              (case scan_rows (column_of S (px_decimal S)) rows of
                 Inl e \<Rightarrow> Return ()
               | Inr prices \<Rightarrow> store_view ''marketViewPrice'' market (map VDecimal prices))))"

section \<open>Answering\<close>

definition random :: "(f64 \<Rightarrow> ('d, 'b) prog) \<Rightarrow> ('d, 'b) prog" where
  "random k = Call (External ''rand.Float64'' []) (\<lambda>ans.
     k (case a_reply ans of BRows ((VFloat x, _) # _) \<Rightarrow> x | _ \<Rightarrow> f64_of_int 0))"

definition d_min :: "'d dec_lib \<Rightarrow> 'd \<Rightarrow> 'd \<Rightarrow> 'd" where
  "d_min D x y = (if d_lt D y x then y else x)"

definition d_max :: "'d dec_lib \<Rightarrow> 'd \<Rightarrow> 'd \<Rightarrow> 'd" where
  "d_max D x y = (if d_lt D x y then y else x)"

definition DEPOSITS_TO_LEVERAGE :: "'d dec_lib \<Rightarrow> 'd" where
  "DEPOSITS_TO_LEVERAGE D = d_mul D (d_of_int D 5000000) (d_of_int D 20)"

text \<open>
  Open interest and the ratios of long and short positions are estimates: shares of the volume and
  of a fixed total of deposits, with random coefficients.
\<close>

definition estimate ::
  "'d dec_lib \<Rightarrow> 'd \<Rightarrow> 'd \<Rightarrow> ('d \<times> 'd \<times> 'd \<Rightarrow> ('d, 'b) prog) \<Rightarrow> ('d, 'b) prog" where
  "estimate D totalVolume perMarketVolume k =
     (if d_cmp D totalVolume (d_zero D) = 0 then k (d_zero D, d_zero D, d_zero D)
      else let share = d_div D perMarketVolume totalVolume in
        random (\<lambda>r1. newFromFloat D (f64_add (f64_mul r1 (f64_lit (5 / 100))) (f64_lit (10 / 100))) (\<lambda>coef1.
        random (\<lambda>r2. newFromFloat D (f64_add (f64_mul r2 (f64_lit (1 / 10))) (f64_lit (95 / 100))) (\<lambda>coef2.
        random (\<lambda>r3. newFromFloat D (f64_add (f64_mul r3 (f64_lit (1 / 10))) (f64_lit (45 / 100))) (\<lambda>long.
          let openInterest = d_round D 2 (d_min D (d_mul D (d_mul D (DEPOSITS_TO_LEVERAGE D) coef2) share) (d_mul D perMarketVolume coef1));
              longRatio = d_round D 2 long;
              shortRatio = d_round D 2 (d_max D (d_zero D) (d_sub D (d_of_int D 1) longRatio))
          in k (openInterest, longRatio, shortRatio))))))))"

text \<open>\<^verbatim>\<open>NextHourTimestamp\<close> of \<^verbatim>\<open>api/utils.go\<close>\<close>

definition NextHourTimestamp :: "int \<Rightarrow> int" where
  "NextHourTimestamp t = (t div (3600 * 1000000000) + 1) * 3600"

definition currencies :: "string \<Rightarrow> string \<times> string" where
  "currencies market =
     (case split_at (CHR ''-'') market of
        base # quote # _ \<Rightarrow> (base, quote)
      | _ \<Rightarrow> (''unknown'', ''USD''))"

fun two_decimals :: "'d dec_lib \<Rightarrow> 'd gval list \<Rightarrow> 'd \<times> 'd" where
  "two_decimals D [VDecimal x, VDecimal y] = (x, y)"
| "two_decimals D _ = (d_zero D, d_zero D)"

definition market_response ::
  "'d dec_lib \<Rightarrow> 'd pgx_lib \<Rightarrow> cluster \<Rightarrow> bool \<Rightarrow> nat \<Rightarrow> string \<Rightarrow> ('d, string + 'd gval) prog" where
  "market_response D S IC lineCharts index market =
     load_view ''marketViewOi'' market (\<lambda>oi.
     start_refresh ''marketViewOi'' index market (
     let (totalVolume, perMarketVolume) = two_decimals D oi in
     estimate D totalVolume perMarketVolume (\<lambda>(openInterest, longRatio, shortRatio).
     onErr (GetMarketData IC market) (\<lambda>e. Return (Inl e)) (\<lambda>res1.
     now (\<lambda>t.
     load_view ''marketViewDaily'' market (\<lambda>daily.
     start_refresh ''marketViewDaily'' index market (
     deref res1 (\<lambda>res1.
     let res2 = VStruct ''MarketResponse''
           ([VString (fst (currencies market)), VString (snd (currencies market)), VString ''perpetual'', VDecimal openInterest,
             VDecimal longRatio, VDecimal shortRatio, VInt (NextHourTimestamp t)] @
            (if length daily = 7 then daily else replicate 7 (VDecimal (d_zero D))))
     in if \<not> lineCharts then Return (Inr (VStruct ''ExtendedMarketResponse'' [VMarket res1, res2, VStruct ''LineChartsResponse'' []]))
        else load_view ''marketViewPrice'' market (\<lambda>prices.
             start_refresh ''marketViewPrice'' index market (
             Return (Inr (VStruct ''ExtendedMarketResponse'' [VMarket res1, res2, VStruct ''LineChartsResponse'' prices]))))))))))))"

text \<open>An empty filter asks for all markets; the index of a market is its place in the configuration.\<close>

definition wanted :: "string \<Rightarrow> string \<Rightarrow> bool" where
  "wanted marketId market \<longleftrightarrow> marketId = '''' \<or> market \<in> set (split_at (CHR '','') marketId)"

primrec market_responses ::
  "'d dec_lib \<Rightarrow> 'd pgx_lib \<Rightarrow> cluster \<Rightarrow> bool \<Rightarrow> string \<Rightarrow> (nat \<times> string) list \<Rightarrow> ('d, string + 'd gval list) prog" where
  "market_responses D S IC lineCharts marketId [] = Return (Inr [])"
| "market_responses D S IC lineCharts marketId (m # ms) =
     (if \<not> wanted marketId (snd m) then market_responses D S IC lineCharts marketId ms
      else onErr (market_response D S IC lineCharts (fst m) (snd m)) (\<lambda>e. Return (Inl e)) (\<lambda>res.
           onErr (market_responses D S IC lineCharts marketId ms) (\<lambda>e. Return (Inl e)) (\<lambda>rest. Return (Inr (res # rest)))))"

definition HandleMarket ::
  "'d dec_lib \<Rightarrow> 'd pgx_lib \<Rightarrow> cluster \<Rightarrow> string list \<Rightarrow> string + string \<times> bool \<Rightarrow> ('d, unit) prog" where
  "HandleMarket D S IC markets body = bindJSON body (\<lambda>(marketId, lineCharts).
     onErr (market_responses D S IC lineCharts marketId (enumerate 0 markets)) ErrorResponse SuccessResponse)"

section \<open>Facts\<close>

text \<open>The arrays of mutexes hold 55 markets; a goroutine of a further one panics, and the process ends.\<close>

lemma market_beyond_the_arrays_panics:
  "55 \<le> index \<Longrightarrow> run E (refresh_oi D S index market) h = (h, Panicked ''index out of range'')"
  by (simp add: refresh_oi_def try_locked_def TOTAL_MARKETS_def)

text \<open>The next funding is at a full hour after now, at most an hour away.\<close>

lemma next_hour:
  fixes t :: int
  shows "3600 dvd NextHourTimestamp t" "t < NextHourTimestamp t * 1000000000"
    "NextHourTimestamp t * 1000000000 \<le> t + 3600 * 1000000000"
proof -
  have "t div 3600000000000 * 3600000000000 + t mod 3600000000000 = t" "0 \<le> t mod 3600000000000" "t mod 3600000000000 < 3600000000000"
    by simp_all
  then show "3600 dvd NextHourTimestamp t" "t < NextHourTimestamp t * 1000000000"
    "NextHourTimestamp t * 1000000000 \<le> t + 3600 * 1000000000"
    by (simp_all add: NextHourTimestamp_def algebra_simps)
qed

text \<open>Without a configuration of its own a market gets no response: the filter selects among the configured ones.\<close>

lemma wanted_filter:
  assumes "CHR '','' \<notin> set m" "CHR '','' \<notin> set m'" "m \<noteq> ''''"
  shows "wanted (m @ '','' @ m') market \<longleftrightarrow> market = m \<or> market = m'"
proof -
  have single: "split_at (CHR '','') x = [x]" if "CHR '','' \<notin> set x" for x
    using that by (induction x) auto
  have "split_at (CHR '','') (m @ '','' @ m') = [m, m']"
    using assms(1) single [OF assms(2)] by (induction m) auto
  then show ?thesis
    using assms(3) by (simp add: wanted_def)
qed

end
