(* ===== verification/Api_Trading.thy ===== *)
theory Api_Trading
  imports Api_Paging Api_Auth
begin

text \<open>
  The handlers of orders, positions, accounts, the dead man's switch, the storage of the frontend,
  candles, trades, order books and the versions of the mobile applications: \<^verbatim>\<open>api/order.go\<close>,
  \<^verbatim>\<open>api/position.go\<close>, \<^verbatim>\<open>api/account.go\<close>, \<^verbatim>\<open>api/deadman.go\<close>, \<^verbatim>\<open>api/storage.go\<close>,
  \<^verbatim>\<open>api/candle.go\<close>, \<^verbatim>\<open>api/version.go\<close>, \<^verbatim>\<open>api/request.go\<close>, part of \<^verbatim>\<open>api/market.go\<close>.
\<close>

section \<open>Orders\<close>

record order_create_request =
  oc_MarketId      :: string
  oc_Type          :: string
  oc_Side          :: string
  oc_Price         :: "f64 option"
  oc_Size          :: "f64 option"
  oc_ClientOrderId :: "string option"
  oc_TriggerPrice  :: "f64 option"
  oc_SizePercent   :: "f64 option"
  oc_TimeInForce   :: "string option"
  oc_IsPm          :: bool

record order_amend_request =
  oa_OrderId      :: string
  oa_MarketId     :: string
  oa_Price        :: "f64 option"
  oa_Size         :: "f64 option"
  oa_TriggerPrice :: "f64 option"
  oa_SizePercent  :: "f64 option"

record order_cancel_request =
  ox_OrderId       :: string
  ox_MarketId      :: string
  ox_ClientOrderId :: string

definition isRateLimitError :: "string \<Rightarrow> bool" where
  "isRateLimitError e \<longleftrightarrow> contains_sub (to_lower e) ''rate_limit''"

definition order_error :: "string \<Rightarrow> ('d, unit) prog" where
  "order_error e = (if isRateLimitError e then RateLimitErrorResponse e else ErrorResponse e)"

definition SetPm :: "bool \<Rightarrow> matching_meta \<Rightarrow> matching_meta" where
  "SetPm b m = m \<lparr>mm_IsPm := b\<rparr>"

definition HandleOrderCreate ::
  "'d dec_lib \<Rightarrow> 'm rabbit_context_scheme \<Rightarrow> string + order_create_request \<Rightarrow> ('d, unit) prog" where
  "HandleOrderCreate D ctx body = bindJSON body (\<lambda>r.
     deref (rc_Meta ctx) (\<lambda>meta.
     let meta' = SetPm (oc_IsPm r) meta in
     deref (rc_Profile ctx) (\<lambda>profile.
     onErr (OrderCreate D (pr_ProfileId profile) (oc_MarketId r) (oc_Type r) (oc_Side r) (oc_Price r) (oc_Size r)
              (oc_ClientOrderId r) (oc_TriggerPrice r) (oc_SizePercent r) (oc_TimeInForce r) (Some meta'))
       order_error (\<lambda>res. SuccessResponse [VStruct ''OrderCreateRes'' res]))))"

definition HandleOrderCancel :: "'m rabbit_context_scheme \<Rightarrow> string + order_cancel_request \<Rightarrow> ('d, unit) prog" where
  "HandleOrderCancel ctx body = bindJSON body (\<lambda>r.
     deref (rc_Profile ctx) (\<lambda>profile.
     onErr (OrderCancel (pr_ProfileId profile) (ox_MarketId r) (ox_OrderId r) (ox_ClientOrderId r))
       order_error (\<lambda>res. SuccessResponse [VStruct ''OrderCancelRes'' res])))"

definition HandleOrderCancelAll :: "'m rabbit_context_scheme \<Rightarrow> ('d, unit) prog" where
  "HandleOrderCancelAll ctx =
     deref (rc_Profile ctx) (\<lambda>profile.
     onErr (CancelAll (pr_ProfileId profile) False) order_error (\<lambda>_. SuccessResponse [VBool True]))"

definition HandleOrderAmend ::
  "'d dec_lib \<Rightarrow> 'm rabbit_context_scheme \<Rightarrow> string + order_amend_request \<Rightarrow> ('d, unit) prog" where
  "HandleOrderAmend D ctx body = bindJSON body (\<lambda>r.
     deref (rc_Profile ctx) (\<lambda>profile.
     onErr (OrderAmend D (pr_ProfileId profile) (oa_MarketId r) (oa_OrderId r) (oa_Price r) (oa_Size r)
              (oa_TriggerPrice r) (oa_SizePercent r))
       order_error (\<lambda>res. SuccessResponse [VStruct ''OrderAmendRes'' res])))"

definition HandlePositionsList :: "'m rabbit_context_scheme \<Rightarrow> ('d, unit) prog" where
  "HandlePositionsList ctx =
     deref (rc_Profile ctx) (\<lambda>profile.
     onErr (GetOpenPositions (pr_ProfileId profile)) ErrorResponse
       (\<lambda>res. SuccessResponse (map (opt_val VPosition) res)))"

section \<open>Accounts\<close>

text \<open>\<^verbatim>\<open>model.GetBroker()\<close>: the singleton, or the error of building it\<close>

definition with_broker :: "('d, unit) prog \<Rightarrow> ('d, unit) prog" where
  "with_broker p = onErr (sql_exec ''GetBroker'' []) ErrorResponse (\<lambda>_. p)"

definition HandleAccount :: "'m rabbit_context_scheme \<Rightarrow> ('d, unit) prog" where
  "HandleAccount ctx = with_broker (
     deref (rc_Profile ctx) (\<lambda>profile.
     onErr (GetProfileData (pr_ProfileId profile)) ErrorResponse
       (\<lambda>d. SuccessResponse [opt_val (VStruct ''ProfileData'') d])))"

text \<open>
  The token is the one of the query or else of the header. The claims go through JSON and back; of
  them the subject is used, and \<open>claimsOk\<close> tells whether the way through JSON succeeds.
\<close>

definition ErrTokenInvalidClaims :: string where
  "ErrTokenInvalidClaims = ''token has invalid claims''"

definition HandleAccountValidate ::
  "auth_lib \<Rightarrow> (string \<Rightarrow> bool) \<Rightarrow> string \<Rightarrow> string \<Rightarrow> string + string \<Rightarrow> ('d, unit) prog" where
  "HandleAccountValidate K claimsOk hmacSecret headerJwt query = bindJSON query (\<lambda>queryJwt.
     let jwt = (if queryJwt \<noteq> '''' then queryJwt else headerJwt) in
     now (\<lambda>t.
     case al_jwtParse K t jwt hmacSecret of
       Inl e \<Rightarrow> ErrorResponse e
     | Inr subject \<Rightarrow>
         if \<not> claimsOk jwt then ErrorResponse ErrTokenInvalidClaims
         else case ParseUint32 subject of
           Inl e \<Rightarrow> ErrorResponse ErrTokenInvalidClaims
         | Inr profileID \<Rightarrow>
             onErr (GetProfileById profileID) ErrorResponse (\<lambda>profile.
             deref profile (\<lambda>profile.
             onErr (GetProfileData (pr_ProfileId profile)) ErrorResponse
               (\<lambda>d. SuccessResponse [opt_val (VStruct ''ProfileData'') d])))))"

definition HandleAccountSetLeverage ::
  "'d dec_lib \<Rightarrow> cluster \<Rightarrow> 'm rabbit_context_scheme \<Rightarrow> string + string \<times> nat \<Rightarrow> ('d, unit) prog" where
  "HandleAccountSetLeverage D IC ctx body = bindJSON body (\<lambda>(marketId, leverage). with_broker (
     deref (rc_Profile ctx) (\<lambda>profile.
     onErr (UpdateLeverage D IC marketId (pr_ProfileId profile) leverage) ErrorResponse (\<lambda>_.
     onErr (InvalidateCacheAndNotify (pr_ProfileId profile)) ErrorResponse
       (\<lambda>cache. SuccessResponse [opt_val VCache cache])))))"

section \<open>The dead man's switch\<close>

definition DeadmanCreate :: "nat \<Rightarrow> nat \<Rightarrow> ('d, string + 'd gval list option) prog" where
  "DeadmanCreate profile_id timeout =
     Request (as_ptr (as_struct ''DeadmanData'')) API_INSTANCE ''public.deadman_create'' [VUint profile_id, VUint timeout]"

definition DeadmanDelete :: "nat \<Rightarrow> ('d, string + 'd gval list option) prog" where
  "DeadmanDelete profile_id =
     Request (as_ptr (as_struct ''DeadmanData'')) API_INSTANCE ''public.deadman_delete'' [VUint profile_id]"

definition DeadmanGet :: "nat \<Rightarrow> ('d, string + 'd gval list option) prog" where
  "DeadmanGet profile_id =
     Request (as_ptr (as_struct ''DeadmanData'')) API_INSTANCE ''public.deadman_get'' [VUint profile_id]"

definition deadman_response :: "'d gval list option \<Rightarrow> ('d, unit) prog" where
  "deadman_response d = SuccessResponse [opt_val (VStruct ''DeadmanData'') d]"

definition HandleDeadmanCreate :: "'m rabbit_context_scheme \<Rightarrow> string + nat \<Rightarrow> ('d, unit) prog" where
  "HandleDeadmanCreate ctx body = bindJSON body (\<lambda>timeout.
     deref (rc_Profile ctx) (\<lambda>profile.
     onErr (DeadmanCreate (pr_ProfileId profile) timeout) ErrorResponse deadman_response))"

definition HandleDeadmanDelete :: "'m rabbit_context_scheme \<Rightarrow> ('d, unit) prog" where
  "HandleDeadmanDelete ctx =
     deref (rc_Profile ctx) (\<lambda>profile.
     onErr (DeadmanDelete (pr_ProfileId profile)) ErrorResponse deadman_response)"

definition HandleDeadmanList :: "'m rabbit_context_scheme \<Rightarrow> ('d, unit) prog" where
  "HandleDeadmanList ctx =
     deref (rc_Profile ctx) (\<lambda>profile.
     onErr (DeadmanGet (pr_ProfileId profile)) ErrorResponse deadman_response)"

section \<open>The storage of the frontend\<close>

definition HandleReadStorage :: "'m rabbit_context_scheme \<Rightarrow> ('d, unit) prog" where
  "HandleReadStorage ctx =
     (if \<not> IsAllowedProfileId (rc_ProfileIdFromJwt ctx) then ErrorResponse ''BROKEN_PROFILE_ID''
      else onErr (ReadFrontendStorage (rc_ProfileIdFromJwt ctx)) ErrorResponse (\<lambda>bytes. SuccessResponse [VBytes bytes]))"

definition HandleWriteStorage :: "'m rabbit_context_scheme \<Rightarrow> string + byte list \<Rightarrow> ('d, unit) prog" where
  "HandleWriteStorage ctx body = bindJSON body (\<lambda>bytes.
     if \<not> IsAllowedProfileId (rc_ProfileIdFromJwt ctx) then ErrorResponse ''BROKEN_PROFILE_ID''
     else onErr (WriteFrontendStorage (rc_ProfileIdFromJwt ctx) bytes) ErrorResponse (\<lambda>_. SuccessResponse [VBool True]))"

section \<open>Markets\<close>

record candle_request =
  cl_MarketId      :: string
  cl_TimestampFrom :: int
  cl_TimestampTo   :: int
  cl_Period        :: nat

definition HandleCandleList :: "string + candle_request \<Rightarrow> ('d, unit) prog" where
  "HandleCandleList body = bindJSON body (\<lambda>r.
     if cl_TimestampTo r < cl_TimestampFrom r
     then ErrorResponse ''timestampTo should be greater than timestampFrom''
     else onErr (GetCandles (cl_MarketId r) (cl_Period r) (cl_TimestampFrom r) (cl_TimestampTo r)) ErrorResponse
       (\<lambda>candles. SuccessResponse (map (opt_val (VStruct ''CandleData'')) candles)))"

definition HandleMarketTrades :: "cluster \<Rightarrow> 'm rabbit_context_scheme \<Rightarrow> string + string \<Rightarrow> ('d, unit) prog" where
  "HandleMarketTrades IC ctx body = bindJSON body (\<lambda>marketId.
     onErr (GetTrades IC marketId (pg_Limit (rc_Pagination ctx))) ErrorResponse
       (\<lambda>trades. SuccessResponse (map (opt_val (VStruct ''TradeData'')) trades)))"

definition HandleMarketOrderBook :: "cluster \<Rightarrow> string + string \<Rightarrow> ('d, unit) prog" where
  "HandleMarketOrderBook IC body = bindJSON body (\<lambda>marketId.
     onErr (GetOrderbookData IC marketId) ErrorResponse
       (\<lambda>book. SuccessResponse [opt_val (VStruct ''OrderbookData'') book]))"

text \<open>
  \<^verbatim>\<open>api/coingecko.go\<close>: the request to CoinGecko answers an error or the state of the response and
  its items, or the error of reading these; a response that is not a success is no error.
\<close>

definition coin_params :: "string \<Rightarrow> (string \<times> 'd gval) list" where
  "coin_params coinIds =
     [(''vs_currency'', VString ''usd''), (''ids'', VString coinIds), (''order'', VString ''market_cap_desc''),
      (''per_page'', VString ''100''), (''page'', VString ''1''), (''sparkline'', VString ''false''), (''locale'', VString ''en'')]"

definition GetMarkets :: "string \<Rightarrow> string \<Rightarrow> ('d, string + 'd gval list) prog" where
  "GetMarkets apiUrl coinIds =
     Call (External ''coingecko.Get'' (sql_text (apiUrl @ ''/coins/markets'') (coin_params coinIds))) (\<lambda>ans.
       Return (case a_error ans of
           Some e \<Rightarrow> Inl e
         | None \<Rightarrow>
             if \<not> a_flag ans then Inr []
             else case result_set (a_reply ans) of Inl e \<Rightarrow> Inl e | Inr (items, _) \<Rightarrow> Inr items))"

definition HandleMarketCoins :: "string + string \<Rightarrow> ('d, unit) prog" where
  "HandleMarketCoins body = bindJSON body (\<lambda>coinIds.
     onErr (GetMarkets ''https://pro-api.coingecko.com/api/v3'' coinIds) ErrorResponse SuccessResponse)"

section \<open>Versions of the mobile applications\<close>

record platform_config =
  pf_CurrentVersion :: string
  pf_ForceUpdate    :: bool
  pf_AppUrl         :: string

definition upgrade_response :: "bool \<Rightarrow> string \<Rightarrow> ('d, unit) prog" where
  "upgrade_response force url = SuccessResponse [VStruct ''VersionResponse'' [VBool force, VString url]]"

definition HandleMobileVersion ::
  "(string \<rightharpoonup> platform_config) \<Rightarrow> string + string \<times> string \<Rightarrow> ('d, unit) prog" where
  "HandleMobileVersion platforms body = bindJSON body (\<lambda>(version, platform).
     case platforms platform of
       None \<Rightarrow> upgrade_response False ''''
     | Some cfg \<Rightarrow>
         (let external = split_at (CHR ''.'') version; current = split_at (CHR ''.'') (pf_CurrentVersion cfg)
          in if length external \<noteq> 3 then ErrorResponse ''EXTERNAL_VERSION_NUMBER_BROKEN''
             else if length current \<noteq> 3 then ErrorResponse ''INTERNAL_VERSION_NUMBER_BROKEN''
             else if external ! 0 \<noteq> current ! 0 then upgrade_response True (pf_AppUrl cfg)
             else if external ! 1 \<noteq> current ! 1 then upgrade_response (pf_ForceUpdate cfg) (pf_AppUrl cfg)
             else upgrade_response False ''''))"

section \<open>Pagination of a request\<close>

record offset_pagination =
  op_Offset :: nat
  op_Limit  :: nat

record base_pagination =
  bp_Page    :: nat
  bp_PerPage :: nat

record pagination_request =
  pq_Offset :: "offset_pagination option"
  pq_Base   :: "base_pagination option"

definition Pagination_Validate :: "pagination_request \<Rightarrow> string + unit" where
  "Pagination_Validate p =
     (if (case pq_Offset p of None \<Rightarrow> False | Some q \<Rightarrow> \<not> op_Offset q \<le> 100)
        \<or> (case pq_Base p of None \<Rightarrow> False | Some q \<Rightarrow> \<not> bp_PerPage q \<le> 100)
      then Inl ''offset value should be between 0 and 100'' else Inr ())"

text \<open>\<^verbatim>\<open>(page - 1) * PerPage\<close> wraps as a \<^verbatim>\<open>uint\<close>.\<close>

definition Pagination_Offset :: "pagination_request \<Rightarrow> nat" where
  "Pagination_Offset p =
     (case pq_Offset p of
        Some q \<Rightarrow> op_Offset q
      | None \<Rightarrow>
          (case pq_Base p of
             None \<Rightarrow> 0
           | Some q \<Rightarrow> (let page = (if 1 \<le> bp_Page q then bp_Page q else 1) in (page - 1) * bp_PerPage q mod 2 ^ 64)))"

definition Pagination_Limit :: "pagination_request \<Rightarrow> nat" where
  "Pagination_Limit p =
     (case pq_Offset p of Some q \<Rightarrow> op_Limit q | None \<Rightarrow> (case pq_Base p of None \<Rightarrow> 0 | Some q \<Rightarrow> bp_PerPage q))"

section \<open>Trading acts for the caller\<close>

text \<open>A call of the trading instances names the profile first.\<close>

fun acts_for :: "nat \<Rightarrow> 'd call \<Rightarrow> bool" where
  "acts_for pid (Execute instnc fn params) \<longleftrightarrow> (\<exists>rest. params = VUint pid # rest)"
| "acts_for pid c \<longleftrightarrow> True"

definition trading_handlers :: "'d dec_lib \<Rightarrow> cluster \<Rightarrow> 'm rabbit_context_scheme \<Rightarrow> ('d, unit) prog set" where
  "trading_handlers D IC ctx =
     range (HandleOrderCreate D ctx) \<union> range (HandleOrderCancel ctx) \<union> range (HandleOrderAmend D ctx) \<union>
     range (HandleAccountSetLeverage D IC ctx) \<union> range (HandleDeadmanCreate ctx) \<union>
     {HandleOrderCancelAll ctx, HandlePositionsList ctx, HandleAccount ctx, HandleDeadmanDelete ctx, HandleDeadmanList ctx}"

lemma wp_opt_from_float [simp]:
  "wp P Q (opt_from_float D x k) h \<longleftrightarrow>
     (case x of None \<Rightarrow> wp P Q (k None) h | Some y \<Rightarrow> wp P Q (newFromFloat D y (\<lambda>d. k (Some d))) h)"
  by (cases x) (simp_all add: opt_from_float_def)

lemma wp_order_error [simp]:
  "wp P Q (order_error e) h \<longleftrightarrow> P h (Respond (Failure e)) \<and> (\<forall>ans. Q ((Respond (Failure e), ans) # h) (Done ()))"
  by (simp add: order_error_def RateLimitErrorResponse_def)

lemma wp_trading_handlers:
  assumes "rc_Profile ctx = Some profile" "p \<in> trading_handlers D IC ctx"
  shows "wp (\<lambda>_. acts_for (pr_ProfileId profile)) (\<lambda>_ _. True) p h"
proof -
  consider body where "p = HandleOrderCreate D ctx body" | body where "p = HandleOrderCancel ctx body"
    | body where "p = HandleOrderAmend D ctx body" | body where "p = HandleAccountSetLeverage D IC ctx body"
    | body where "p = HandleDeadmanCreate ctx body"
    | "p \<in> {HandleOrderCancelAll ctx, HandlePositionsList ctx, HandleAccount ctx, HandleDeadmanDelete ctx, HandleDeadmanList ctx}"
    using assms(2) by (auto simp: trading_handlers_def)
  then show ?thesis
  proof cases
    case 1
    then show ?thesis
      using assms(1) by (auto simp: HandleOrderCreate_def OrderCreate_def Let_def wp_onErr split: sum.split option.split)
  next
    case 2
    then show ?thesis
      using assms(1) by (auto simp: HandleOrderCancel_def OrderCancel_def wp_onErr split: sum.split)
  next
    case 3
    then show ?thesis
      using assms(1) by (auto simp: HandleOrderAmend_def OrderAmend_def wp_onErr split: sum.split option.split)
  next
    case 4
    then show ?thesis
      using assms(1)
      by (auto simp: HandleAccountSetLeverage_def with_broker_def UpdateLeverage_def InvalidateCacheAndNotify_def Let_def
          wp_withMarket wp_onErr split: sum.split option.split)
  next
    case 5
    then show ?thesis
      using assms(1) by (auto simp: HandleDeadmanCreate_def DeadmanCreate_def deadman_response_def wp_onErr split: sum.split)
  next
    case 6
    then show ?thesis
      using assms(1)
      by (auto simp: HandleOrderCancelAll_def HandlePositionsList_def HandleAccount_def HandleDeadmanDelete_def
          HandleDeadmanList_def CancelAll_def GetOpenPositions_def GetProfileData_def DeadmanDelete_def DeadmanGet_def
          deadman_response_def with_broker_def wp_onErr split: sum.split option.split)
  qed
qed

end
