(* ===== verification/Model_Admin.thy ===== *)
theory Model_Admin
  imports Model_Request Tick
begin

text \<open>
  The operations of administrators on tiers and markets (\<^verbatim>\<open>model/api-admin.go\<close>).
\<close>

section \<open>Stored procedures\<close>

abbreviation BALANCE_OPS_LIST :: string where "BALANCE_OPS_LIST \<equiv> ''getters.list_operations''"
abbreviation UPDATE_MARKET_URL :: string where "UPDATE_MARKET_URL \<equiv> ''market.update_icon_url''"
abbreviation UPDATE_MARKET_TITLE :: string where "UPDATE_MARKET_TITLE \<equiv> ''market.update_market_title''"
abbreviation ADD_TIER :: string where "ADD_TIER \<equiv> ''profile.add_tier''"
abbreviation REMOVE_TIER :: string where "REMOVE_TIER \<equiv> ''profile.remove_tier''"
abbreviation GET_TIERS :: string where "GET_TIERS \<equiv> ''profile.get_tiers''"
abbreviation EDIT_TIER :: string where "EDIT_TIER \<equiv> ''profile.edit_tier''"
abbreviation ADD_SPECIAL_TIER :: string where "ADD_SPECIAL_TIER \<equiv> ''profile.add_special_tier''"
abbreviation REMOVE_SPECIAL_TIER :: string where "REMOVE_SPECIAL_TIER \<equiv> ''profile.remove_special_tier''"
abbreviation GET_SPECIAL_TIERS :: string where "GET_SPECIAL_TIERS \<equiv> ''profile.get_special_tiers''"
abbreviation EDIT_SPECIAL_TIER :: string where "EDIT_SPECIAL_TIER \<equiv> ''profile.edit_special_tier''"
abbreviation ADD_PROFILE_TIER :: string where "ADD_PROFILE_TIER \<equiv> ''profile.add_profile_to_special_tier''"
abbreviation REMOVE_PROFILE_TIER :: string where "REMOVE_PROFILE_TIER \<equiv> ''profile.remove_profile_from_tier''"
abbreviation GET_PROFILE_TIERS :: string where "GET_PROFILE_TIERS \<equiv> ''profile.get_profile_tiers''"
abbreviation WHICH_TIER :: string where "WHICH_TIER \<equiv> ''profile.getter_which_tier''"

section \<open>Requests\<close>

definition GetProfileTiers ::
  "cluster \<Rightarrow> string \<Rightarrow> ('d, string + 'd gval list list) prog" where
  "GetProfileTiers IC marketId =
     withMarketText IC marketId (\<lambda>inst.
     Request (as_list (as_struct ''ProfileTier'')) (ic_Title inst) GET_PROFILE_TIERS
     [])"

definition AddTier ::
  "'d dec_lib \<Rightarrow> cluster \<Rightarrow> string \<Rightarrow> nat \<Rightarrow>
      string \<Rightarrow> f64 \<Rightarrow> f64 \<Rightarrow> f64 \<Rightarrow> f64 \<Rightarrow> ('d, string + 'd gval list option) prog" where
  "AddTier D IC marketId tierId title makerFee takerFee minVolume minAssets =
     withMarketText IC marketId (\<lambda>inst.
     newFromFloat D makerFee (\<lambda>dMakerFee.
     newFromFloat D takerFee (\<lambda>dTakerFee.
     newFromFloat D minVolume (\<lambda>dMinVolume.
     newFromFloat D minAssets (\<lambda>dMinAssets.
     Request (as_ptr (as_struct ''Tier'')) (ic_Title inst) ADD_TIER
     [VUint tierId, VString title, VDecimal dMakerFee, VDecimal dTakerFee, VDecimal dMinVolume,
      VDecimal dMinAssets])))))"

definition AddSpecialTier ::
  "'d dec_lib \<Rightarrow> cluster \<Rightarrow> string \<Rightarrow> nat \<Rightarrow>
      string \<Rightarrow> f64 \<Rightarrow> f64 \<Rightarrow> ('d,
      string + 'd gval list option) prog" where
  "AddSpecialTier D IC marketId tierId title makerFee takerFee =
     withMarketText IC marketId (\<lambda>inst.
     newFromFloat D makerFee (\<lambda>dMakerFee.
     newFromFloat D takerFee (\<lambda>dTakerFee.
     Request (as_ptr (as_struct ''SpecialTier'')) (ic_Title inst) ADD_SPECIAL_TIER
     [VUint tierId, VString title, VDecimal dMakerFee, VDecimal dTakerFee])))"

definition AddProfileToTier ::
  "cluster \<Rightarrow> string \<Rightarrow> nat \<Rightarrow> nat \<Rightarrow>
      ('d, string + 'd gval list option) prog" where
  "AddProfileToTier IC marketId profileId tierId =
     withMarketText IC marketId (\<lambda>inst.
     Request (as_ptr (as_struct ''ProfileTier'')) (ic_Title inst) ADD_PROFILE_TIER
     [VUint profileId, VUint tierId])"

definition EditTier ::
  "'d dec_lib \<Rightarrow> cluster \<Rightarrow> string \<Rightarrow> nat \<Rightarrow>
      string \<Rightarrow> f64 \<Rightarrow> f64 \<Rightarrow> f64 \<Rightarrow> f64 \<Rightarrow> ('d, string + 'd gval list option) prog" where
  "EditTier D IC marketId tierId title makerFee takerFee minVolume minAssets =
     withMarketText IC marketId (\<lambda>inst.
     newFromFloat D makerFee (\<lambda>dMakerFee.
     newFromFloat D takerFee (\<lambda>dTakerFee.
     newFromFloat D minVolume (\<lambda>dMinVolume.
     newFromFloat D minAssets (\<lambda>dMinAssets.
     Request (as_ptr (as_struct ''Tier'')) (ic_Title inst) EDIT_TIER
     [VUint tierId, VString title, VDecimal dMakerFee, VDecimal dTakerFee, VDecimal dMinVolume,
      VDecimal dMinAssets])))))"

definition EditSpecialTier ::
  "'d dec_lib \<Rightarrow> cluster \<Rightarrow> string \<Rightarrow> nat \<Rightarrow>
      string \<Rightarrow> f64 \<Rightarrow> f64 \<Rightarrow> ('d,
      string + 'd gval list option) prog" where
  "EditSpecialTier D IC marketId tierId title makerFee takerFee =
     withMarketText IC marketId (\<lambda>inst.
     newFromFloat D makerFee (\<lambda>dMakerFee.
     newFromFloat D takerFee (\<lambda>dTakerFee.
     Request (as_ptr (as_struct ''SpecialTier'')) (ic_Title inst) EDIT_SPECIAL_TIER
     [VUint tierId, VString title, VDecimal dMakerFee, VDecimal dTakerFee])))"

definition RemoveTier ::
  "cluster \<Rightarrow> string \<Rightarrow> nat \<Rightarrow>
      ('d, string + 'd gval list option) prog" where
  "RemoveTier IC marketId tierId =
     withMarketText IC marketId (\<lambda>inst.
     Request (as_ptr (as_struct ''Tier'')) (ic_Title inst) REMOVE_TIER
     [VUint tierId])"

definition RemoveSpecialTier ::
  "cluster \<Rightarrow> string \<Rightarrow> nat \<Rightarrow>
      ('d, string + 'd gval list option) prog" where
  "RemoveSpecialTier IC marketId tierId =
     withMarketText IC marketId (\<lambda>inst.
     Request (as_ptr (as_struct ''SpecialTier'')) (ic_Title inst) REMOVE_SPECIAL_TIER
     [VUint tierId])"

definition RemoveProfileTier ::
  "cluster \<Rightarrow> string \<Rightarrow> nat \<Rightarrow>
      ('d, string + 'd gval list option) prog" where
  "RemoveProfileTier IC marketId profileId =
     withMarketText IC marketId (\<lambda>inst.
     Request (as_ptr (as_struct ''ProfileTier'')) (ic_Title inst) REMOVE_PROFILE_TIER
     [VUint profileId])"

definition BalanceOpsList ::
  "nat \<Rightarrow> nat \<Rightarrow> nat \<Rightarrow>
      ('d, string + 'd balance_ops option list) prog" where
  "BalanceOpsList profileId offset limit =
     Request (as_list (as_ptr as_ops)) PROFILE_INSTANCE BALANCE_OPS_LIST
     [VUint profileId, VUint offset, VUint limit]"

definition MarketUpdateTitle ::
  "cluster \<Rightarrow> string \<Rightarrow> string \<Rightarrow>
      ('d, string + 'd market_data option) prog" where
  "MarketUpdateTitle IC marketId newTitle =
     withMarketText IC marketId (\<lambda>inst.
     Request (as_ptr as_market) (ic_Title inst) UPDATE_MARKET_TITLE
     [VString marketId, VString newTitle])"

definition WhichTier ::
  "cluster \<Rightarrow> string \<Rightarrow> nat \<Rightarrow>
      ('d, string + 'd gval list) prog" where
  "WhichTier IC marketId profileId =
     withMarketText IC marketId (\<lambda>inst.
     Request (as_struct ''SpecialTier'') (ic_Title inst) WHICH_TIER
     [VUint profileId])"


section \<open>Operations with more than a request\<close>

text \<open>
  The tiers of the profile instance are read without looking for a market. \<open>GetSpecialTiers\<close> looks for
  one before it knows whether it needs it, and so panics without a cluster configuration.
\<close>

definition GetTiers :: "cluster \<Rightarrow> string \<Rightarrow> ('d, string + 'd gval list list) prog" where
  "GetTiers IC marketId =
     (if marketId = PROFILE_INSTANCE then Request (as_list (as_struct ''Tier'')) PROFILE_INSTANCE GET_TIERS []
      else withMarketText IC marketId (\<lambda>inst. Request (as_list (as_struct ''Tier'')) (ic_Title inst) GET_TIERS []))"

definition GetSpecialTiers :: "cluster \<Rightarrow> string \<Rightarrow> ('d, string + 'd gval list list) prog" where
  "GetSpecialTiers IC marketId =
     GetInstance IC (\<lambda>is.
       if marketId = PROFILE_INSTANCE
       then Request (as_list (as_struct ''SpecialTier'')) PROFILE_INSTANCE GET_SPECIAL_TIERS []
       else withMarketText IC marketId (\<lambda>inst.
         Request (as_list (as_struct ''SpecialTier'')) (ic_Title inst) GET_SPECIAL_TIERS []))"

text \<open>\<^verbatim>\<open>url.ParseRequestURI\<close> of the standard library: the error of a text that is no URI\<close>

definition MarketUpdateIconUrl ::
  "(string \<Rightarrow> string option) \<Rightarrow> cluster \<Rightarrow> string \<Rightarrow> string \<Rightarrow> ('d, string + 'd market_data option) prog" where
  "MarketUpdateIconUrl parseURI IC marketId newUrl =
     (case parseURI newUrl of
        Some e \<Rightarrow> Return (Inl e)
      | None \<Rightarrow> withMarketText IC marketId (\<lambda>inst.
          Request (as_ptr as_market) (ic_Title inst) UPDATE_MARKET_URL [VString marketId, VString newUrl]))"

end
