(* ===== verification/Api_Admin.thy ===== *)
theory Api_Admin
  imports Model_Admin Model_Api Api_Context
begin

text \<open>
  The handlers of administrators (\<^verbatim>\<open>api/admin.go\<close>): totals, operations of a profile, markets and the
  tiers of the fees. The router lets only administrators reach them.
\<close>

section \<open>Requests\<close>

record add_tier_request =
  at_MarketId  :: string
  at_TierId    :: nat
  at_Title     :: string
  at_MakerFee  :: f64
  at_TakerFee  :: f64
  at_MinVolume :: f64
  at_MinAssets :: f64

record add_special_tier_request =
  sp_MarketId :: string
  sp_TierId   :: nat
  sp_Title    :: string
  sp_MakerFee :: f64
  sp_TakerFee :: f64

text \<open>A handler that asks Tarantool once and answers with the result\<close>

definition answer_with_result :: "('d, string + 'a) prog \<Rightarrow> ('a \<Rightarrow> 'd gval) \<Rightarrow> ('d, unit) prog" where
  "answer_with_result p v = onErr p ErrorResponse (\<lambda>res. SuccessResponse [v res])"

abbreviation tier_val :: "'d gval list option \<Rightarrow> 'd gval" where
  "tier_val \<equiv> opt_val (VStruct ''Tier'')"

abbreviation special_val :: "'d gval list option \<Rightarrow> 'd gval" where
  "special_val \<equiv> opt_val (VStruct ''SpecialTier'')"

abbreviation profile_tier_val :: "'d gval list option \<Rightarrow> 'd gval" where
  "profile_tier_val \<equiv> opt_val (VStruct ''ProfileTier'')"

section \<open>Totals, operations and markets\<close>

definition HandleExchangeTotalRequest :: "('d, unit) prog" where
  "HandleExchangeTotalRequest = answer_with_result GetExchangeData (opt_val (VStruct ''ExchangeData''))"

definition HandleBalanceOpsRequest :: "string + nat \<times> nat \<times> nat \<Rightarrow> ('d, unit) prog" where
  "HandleBalanceOpsRequest body = bindJSON body (\<lambda>(profileId, offset, limit).
     answer_with_result (BalanceOpsList profileId offset limit) (\<lambda>ops. VList (map (opt_val VOps) ops)))"

definition HandleProfileCacheRequest :: "'m rabbit_context_scheme \<Rightarrow> ('d, unit) prog" where
  "HandleProfileCacheRequest ctx = deref (rc_Profile ctx) (\<lambda>profile.
     answer_with_result (InvalidateCache (pr_ProfileId profile)) (opt_val VCache))"

definition HandleInv3Request :: "('d, unit) prog" where
  "HandleInv3Request = answer_with_result (IsInv3Valid (f64_of_int 0)) VBool"

definition HandleChangeIconUrl :: "(string \<Rightarrow> string option) \<Rightarrow> cluster \<Rightarrow> string + string \<times> string \<Rightarrow> ('d, unit) prog" where
  "HandleChangeIconUrl parseURI IC body = bindJSON body (\<lambda>(marketId, url).
     answer_with_result (MarketUpdateIconUrl parseURI IC marketId url) (opt_val VMarket))"

definition HandleChangeMarketTitle :: "cluster \<Rightarrow> string + string \<times> string \<Rightarrow> ('d, unit) prog" where
  "HandleChangeMarketTitle IC body = bindJSON body (\<lambda>(marketId, title).
     answer_with_result (MarketUpdateTitle IC marketId title) (opt_val VMarket))"

section \<open>Tiers\<close>

definition HandleGetTiers :: "cluster \<Rightarrow> string + string \<Rightarrow> ('d, unit) prog" where
  "HandleGetTiers IC body = bindJSON body (\<lambda>marketId.
     answer_with_result (GetTiers IC marketId) (\<lambda>ts. VList (map (VStruct ''Tier'') ts)))"

definition HandleGetSpecialTiers :: "cluster \<Rightarrow> string + string \<Rightarrow> ('d, unit) prog" where
  "HandleGetSpecialTiers IC body = bindJSON body (\<lambda>marketId.
     answer_with_result (GetSpecialTiers IC marketId) (\<lambda>ts. VList (map (VStruct ''SpecialTier'') ts)))"

definition HandleGetProfileTiers :: "cluster \<Rightarrow> string + string \<Rightarrow> ('d, unit) prog" where
  "HandleGetProfileTiers IC body = bindJSON body (\<lambda>marketId.
     answer_with_result (GetProfileTiers IC marketId) (\<lambda>ts. VList (map (VStruct ''ProfileTier'') ts)))"

text \<open>The tier with number zero is the one everybody has; it cannot be removed.\<close>

definition HandleRemoveTier :: "cluster \<Rightarrow> string + string \<times> nat \<Rightarrow> ('d, unit) prog" where
  "HandleRemoveTier IC body = bindJSON body (\<lambda>(marketId, tierId).
     if tierId = 0 then ErrorResponse ''ZERO_TIER_DENIED''
     else answer_with_result (RemoveTier IC marketId tierId) tier_val)"

definition HandleRemoveSpecialTier :: "cluster \<Rightarrow> string + string \<times> nat \<Rightarrow> ('d, unit) prog" where
  "HandleRemoveSpecialTier IC body = bindJSON body (\<lambda>(marketId, tierId).
     if tierId = 0 then ErrorResponse ''ZERO_TIER_DENIED''
     else answer_with_result (RemoveSpecialTier IC marketId tierId) special_val)"

definition HandleRemoveProfileTier :: "cluster \<Rightarrow> string + string \<times> nat \<Rightarrow> ('d, unit) prog" where
  "HandleRemoveProfileTier IC body = bindJSON body (\<lambda>(marketId, profileId).
     answer_with_result (RemoveProfileTier IC marketId profileId) profile_tier_val)"

definition HandleAddTier :: "'d dec_lib \<Rightarrow> cluster \<Rightarrow> string + add_tier_request \<Rightarrow> ('d, unit) prog" where
  "HandleAddTier D IC body = bindJSON body (\<lambda>r.
     answer_with_result
       (AddTier D IC (at_MarketId r) (at_TierId r) (at_Title r) (at_MakerFee r) (at_TakerFee r) (at_MinVolume r) (at_MinAssets r))
       tier_val)"

definition HandleAddSpecialTier :: "'d dec_lib \<Rightarrow> cluster \<Rightarrow> string + add_special_tier_request \<Rightarrow> ('d, unit) prog" where
  "HandleAddSpecialTier D IC body = bindJSON body (\<lambda>r.
     answer_with_result
       (AddSpecialTier D IC (sp_MarketId r) (sp_TierId r) (sp_Title r) (sp_MakerFee r) (sp_TakerFee r)) special_val)"

definition HandleAddProfileTier :: "cluster \<Rightarrow> string + string \<times> nat \<times> nat \<Rightarrow> ('d, unit) prog" where
  "HandleAddProfileTier IC body = bindJSON body (\<lambda>(marketId, profileId, tierId).
     answer_with_result (AddProfileToTier IC marketId profileId tierId) profile_tier_val)"

definition HandleEditTier :: "'d dec_lib \<Rightarrow> cluster \<Rightarrow> string + add_tier_request \<Rightarrow> ('d, unit) prog" where
  "HandleEditTier D IC body = bindJSON body (\<lambda>r.
     answer_with_result
       (EditTier D IC (at_MarketId r) (at_TierId r) (at_Title r) (at_MakerFee r) (at_TakerFee r) (at_MinVolume r) (at_MinAssets r))
       tier_val)"

definition HandleEditSpecialTier :: "'d dec_lib \<Rightarrow> cluster \<Rightarrow> string + add_special_tier_request \<Rightarrow> ('d, unit) prog" where
  "HandleEditSpecialTier D IC body = bindJSON body (\<lambda>r.
     answer_with_result
       (EditSpecialTier D IC (sp_MarketId r) (sp_TierId r) (sp_Title r) (sp_MakerFee r) (sp_TakerFee r)) special_val)"

text \<open>The tier of a profile in every market of the configuration, or the first error\<close>

primrec which_tiers :: "cluster \<Rightarrow> nat \<Rightarrow> string list \<Rightarrow> ('d, string + 'd gval list) prog" where
  "which_tiers IC profileId [] = Return (Inr [])"
| "which_tiers IC profileId (m # ms) =
     onErr (WhichTier IC m profileId) (\<lambda>e. Return (Inl e)) (\<lambda>tier.
     onErr (which_tiers IC profileId ms) (\<lambda>e. Return (Inl e)) (\<lambda>ts.
       Return (Inr (VStruct ''TierData'' [VString m, VStruct ''SpecialTier'' tier] # ts))))"

definition HandleWhichTier :: "cluster \<Rightarrow> string list \<Rightarrow> string + nat \<Rightarrow> ('d, unit) prog" where
  "HandleWhichTier IC markets body = bindJSON body (\<lambda>profileId.
     onErr (which_tiers IC profileId markets) ErrorResponse SuccessResponse)"

end
