(* ===== verification/Referrals.thy ===== *)
theory Referrals
  imports Sql Tick Model_Auth
begin

text \<open>
  The referral service (the package \<^verbatim>\<open>referrals\<close>): the levels of the referrers
  (\<^verbatim>\<open>levels.go\<close>), milestones and commissions (\<^verbatim>\<open>utils.go\<close>), the statements of the database
  (\<^verbatim>\<open>tsdb.go\<close>), the jobs and the loop over their timers (\<^verbatim>\<open>referrals.go\<close>), and the two
  operations on Tarantool (\<^verbatim>\<open>model/api-referrals.go\<close>). \<open>ord\<close> is the order in which Go iterates over
  the keys of a map.
\<close>

section \<open>Levels\<close>

record 'd referral_level =
  rl_Level             :: nat
  rl_Volume            :: 'd
  rl_CommissionPercent :: 'd
  rl_MilestoneBonus    :: 'd

record 'd level_status =
  ls_Volume       :: 'd
  ls_Current      :: "'d referral_level"
  ls_Next         :: "'d referral_level option"
  ls_Prev         :: "'d referral_level option"
  ls_NeededVolume :: "'d option"

text \<open>\<^verbatim>\<open>decimal.NewFromFloat\<close> of a finite constant\<close>

definition newDecimal :: "'d dec_lib \<Rightarrow> rat \<Rightarrow> 'd" where
  "newDecimal D q = the (d_of_float D (f64_lit q))"

definition level_of :: "'d dec_lib \<Rightarrow> nat \<Rightarrow> rat \<Rightarrow> rat \<Rightarrow> rat \<Rightarrow> 'd referral_level" where
  "level_of D n vol percent bonus =
     \<lparr> rl_Level = n, rl_Volume = newDecimal D vol, rl_CommissionPercent = newDecimal D percent,
       rl_MilestoneBonus = newDecimal D bonus \<rparr>"

definition REFERRAL_LEVELS :: "'d dec_lib \<Rightarrow> 'd referral_level list" where
  "REFERRAL_LEVELS D =
     [level_of D 1 0 (20 / 100) 0,
      level_of D 2 200000 (20 / 100) 5,
      level_of D 3 400000 (22 / 100) 10,
      level_of D 4 1000000 (24 / 100) 30,
      level_of D 5 3500000 (26 / 100) 100,
      level_of D 6 8750000 (28 / 100) 250,
      level_of D 7 23000000 (30 / 100) 700,
      level_of D 8 65000000 (32 / 100) 1000,
      level_of D 9 200000000 (34 / 100) 5000,
      level_of D 10 500000000 (36 / 100) 10000,
      level_of D 11 1000000000 (38 / 100) 25000,
      level_of D 12 10000000000 (40 / 100) 100000]"

text \<open>
  The loop of \<^verbatim>\<open>GetLevel\<close> from the level \<open>cur\<close> on, with the level before it: the current, next
  and previous level when it breaks or ends.
\<close>

primrec level_loop ::
  "'d dec_lib \<Rightarrow> 'd \<Rightarrow> 'd referral_level option \<Rightarrow> 'd referral_level \<Rightarrow> 'd referral_level list \<Rightarrow>
   'd referral_level \<times> 'd referral_level option \<times> 'd referral_level option" where
  "level_loop D v prev cur [] = (cur, None, prev)"
| "level_loop D v prev cur (nxt # rest) =
     (if d_le D (rl_Volume cur) v \<and> d_lt D v (rl_Volume nxt) then (cur, Some nxt, prev)
      else level_loop D v (Some cur) nxt rest)"

definition GetLevel :: "'d dec_lib \<Rightarrow> 'd \<Rightarrow> 'd level_status" where
  "GetLevel D v =
     (case level_loop D v None (hd (REFERRAL_LEVELS D)) (tl (REFERRAL_LEVELS D)) of
        (cur, nxt, prev) \<Rightarrow>
          \<lparr> ls_Volume = v, ls_Current = cur, ls_Next = nxt, ls_Prev = prev,
            ls_NeededVolume = map_option (\<lambda>n. d_sub D (rl_Volume n) v) nxt \<rparr>)"

section \<open>Milestones\<close>

text \<open>The loop of \<^verbatim>\<open>calculateBonus\<close>; \<open>None\<close> when it has not ended after \<open>fuel\<close> rounds.\<close>

fun bonus_loop ::
  "nat \<Rightarrow> 'd dec_lib \<Rightarrow> 'd \<Rightarrow> 'd \<Rightarrow> 'd \<Rightarrow> 'd referral_level list \<Rightarrow> ('d \<times> 'd referral_level list) option" where
  "bonus_loop 0 D currentVolume startVolume bonus levels = None"
| "bonus_loop (Suc fuel) D currentVolume startVolume bonus levels =
     (if d_lt D startVolume currentVolume
      then let lvl = GetLevel D startVolume;
               threshold = (case ls_Next lvl of None \<Rightarrow> currentVolume | Some n \<Rightarrow> rl_Volume n);
               threshold = (if d_lt D currentVolume threshold then currentVolume else threshold);
               lvlAmount = d_sub D threshold startVolume;
               startVolume = d_add D startVolume lvlAmount;
               jumpedLvl = GetLevel D startVolume
           in if rl_Level (ls_Current lvl) < rl_Level (ls_Current jumpedLvl)
              then bonus_loop fuel D currentVolume startVolume
                     (d_add D bonus (rl_MilestoneBonus (ls_Current jumpedLvl))) (levels @ [ls_Current jumpedLvl])
              else bonus_loop fuel D currentVolume startVolume bonus levels
      else Some (bonus, levels))"

definition calculateBonus :: "nat \<Rightarrow> 'd dec_lib \<Rightarrow> 'd \<Rightarrow> 'd \<Rightarrow> ('d \<times> 'd referral_level list) option" where
  "calculateBonus fuel D previousVolume currentVolume =
     bonus_loop fuel D currentVolume previousVolume (d_zero D) []"

section \<open>Commissions\<close>

abbreviation ModelPercentage :: string where "ModelPercentage \<equiv> ''percentage''"
abbreviation ModelKOL :: string where "ModelKOL \<equiv> ''kol''"

record 'd fill_row =
  fr_ReferrerId      :: "nat option"
  fr_InvitedId       :: "nat option"
  fr_ProfileId       :: nat
  fr_TradeId         :: string
  fr_Fee             :: 'd
  fr_IsMaker         :: bool
  fr_Model           :: "string option"
  fr_ModelFeePercent :: "'d option"
  fr_ProfileVolume   :: 'd

definition ErrNetFee :: string where
  "ErrNetFee = ''net fee seems to be wrong, critical''"

definition ErrPair :: string where
  "ErrPair = ''fills should be in pairs''"

definition ErrTradeId :: string where
  "ErrTradeId = ''trade id does not match for fills''"

type_synonym 'd fees = "nat \<rightharpoonup> 'd"

definition minDecimal :: "'d dec_lib \<Rightarrow> 'd \<Rightarrow> 'd \<Rightarrow> 'd" where
  "minDecimal D a b = (if d_lt D b a then b else a)"

text \<open>The percentage of a side; a nil model, or a nil percentage of the model KOL, panics.\<close>

definition commission_percent :: "'d dec_lib \<Rightarrow> 'd fill_row \<Rightarrow> (string, 'd) go" where
  "commission_percent D side =
     (case fr_Model side of
        None \<Rightarrow> Inl (Crash ''nil pointer dereference'')
      | Some model \<Rightarrow>
          if model = ModelPercentage then Inr (rl_CommissionPercent (ls_Current (GetLevel D (fr_ProfileVolume side))))
          else if model = ModelKOL then
            (case fr_ModelFeePercent side of None \<Rightarrow> Inl (Crash ''nil pointer dereference'') | Some p \<Rightarrow> Inr p)
          else Inr (d_zero D))"

definition addToFees :: "'d dec_lib \<Rightarrow> 'd fees \<Rightarrow> 'd fill_row \<Rightarrow> 'd option \<Rightarrow> (string, 'd fees) go" where
  "addToFees D fees side netFee =
     (case fr_ReferrerId side of
        None \<Rightarrow> Inr fees
      | Some referrerId \<Rightarrow>
          if d_lt D (d_zero D) (fr_Fee side) then Inr fees
          else
            let fee = (case netFee of Some n \<Rightarrow> n | None \<Rightarrow> d_mul D (fr_Fee side) (newDecimal D (- 1)))
            in if \<not> d_lt D (d_zero D) fee then Inr fees
               else
                 case commission_percent D side of
                   Inl e \<Rightarrow> Inl e
                 | Inr percent \<Rightarrow>
                     let commissionFee = minDecimal D (d_mul D fee percent) fee;
                         old = (case fees referrerId of None \<Rightarrow> d_zero D | Some f \<Rightarrow> f)
                     in Inr (fees(referrerId \<mapsto> d_add D old commissionFee)))"

definition net_fee :: "'d dec_lib \<Rightarrow> 'd fill_row \<Rightarrow> 'd fill_row \<Rightarrow> 'd" where
  "net_fee D sideA sideB = d_mul D (d_add D (fr_Fee sideA) (fr_Fee sideB)) (newDecimal D (- 1))"

text \<open>One pair of the loop of \<^verbatim>\<open>calculateFees\<close>\<close>

definition pair_fees :: "'d dec_lib \<Rightarrow> 'd fees \<Rightarrow> 'd fill_row \<Rightarrow> 'd fill_row \<Rightarrow> (string, 'd fees) go" where
  "pair_fees D fees sideA sideB =
     (if fr_TradeId sideA \<noteq> fr_TradeId sideB then Inl (Err ErrTradeId)
      else
        let netFee = net_fee D sideA sideB
        in if d_lt D netFee (d_zero D) then Inl (Err ErrNetFee)
           else if d_lt D (d_zero D) netFee then
             (if d_lt D (fr_Fee sideA) (d_zero D) \<and> d_lt D (fr_Fee sideB) (d_zero D) then
                (case addToFees D fees sideA None of Inl e \<Rightarrow> Inl e | Inr fees \<Rightarrow> addToFees D fees sideB None)
              else if d_lt D (fr_Fee sideA) (d_zero D) then addToFees D fees sideA (Some netFee)
              else addToFees D fees sideB (Some netFee))
           else Inr fees)"

text \<open>The loop over the pairs, and the tests before it\<close>

fun fees_loop :: "'d dec_lib \<Rightarrow> 'd fees \<Rightarrow> 'd fill_row list \<Rightarrow> (string, 'd fees) go" where
  "fees_loop D fees (sideA # sideB # fills) =
     (case pair_fees D fees sideA sideB of Inl e \<Rightarrow> Inl e | Inr fees \<Rightarrow> fees_loop D fees fills)"
| "fees_loop D fees fills = Inr fees"

definition calculateFees :: "'d dec_lib \<Rightarrow> 'd fees \<Rightarrow> 'd fill_row list \<Rightarrow> (string, 'd fees) go" where
  "calculateFees D fees fills =
     (if fills = [] then Inr fees
      else if odd (length fills) then Inl (Err ErrPair)
      else fees_loop D fees fills)"

section \<open>Short codes\<close>

definition base32_char :: "nat \<Rightarrow> char" where
  "base32_char n = ''ABCDEFGHIJKLMNOPQRSTUVWXYZ234567'' ! n"

definition byte_bits :: "byte \<Rightarrow> bool list" where
  "byte_bits b = map (bit b) [7, 6, 5, 4, 3, 2, 1, 0]"

function quintets :: "bool list \<Rightarrow> nat list" where
  "quintets bs =
     (if bs = [] then []
      else foldl (\<lambda>a b. 2 * a + of_bool b) 0 (take 5 (bs @ replicate 4 False)) # quintets (drop 5 bs))"
  by pat_completeness auto
termination
  by (relation "measure length") auto

declare quintets.simps [simp del]

text \<open>\<^verbatim>\<open>base32.StdEncoding.EncodeToString\<close>, padded to a multiple of eight characters\<close>

definition base32_encode :: "byte list \<Rightarrow> string" where
  "base32_encode bytes =
     (let s = map base32_char (quintets (concat (map byte_bits bytes)))
      in s @ replicate ((8 - length s mod 8) mod 8) (CHR ''=''))"

definition GenShortCode :: "nat \<Rightarrow> ('d, string + string) prog" where
  "GenShortCode n =
     onErr (rand_read 32) (\<lambda>e. Return (Inl e)) (\<lambda>randomBytes.
       let s = base32_encode randomBytes
       in if length s < n then Panic ''slice bounds out of range'' else Return (Inr (take n s)))"

definition CreateReferralLink :: "string \<Rightarrow> nat \<Rightarrow> ('d, string + unit) prog" where
  "CreateReferralLink referrerShortCode invitedId =
     sql_exec ''db.Exec''
       (insert_into ''app_referral_link'' [''profile_id'', ''invited_id'']
          [[VList [VString ''(SELECT profile_id FROM app_referral_code WHERE LOWER(short_code) = ?)'',
                   VString (to_lower referrerShortCode)], VUint invitedId]] '''')"

end
