(* ===== verification/Referrals_Jobs.thy ===== *)
theory Referrals_Jobs
  imports Referrals
begin

text \<open>
  The jobs of the referral service: its statements (\<^verbatim>\<open>referrals/tsdb.go\<close>), the two operations on
  Tarantool (\<^verbatim>\<open>model/api-referrals.go\<close>) and the loop over the timers (\<^verbatim>\<open>referrals/referrals.go\<close>).
  \<open>S\<close> reads columns, \<open>ord\<close> is the order in which Go iterates over the keys of a map.
\<close>

section \<open>Statements\<close>

abbreviation PAYOUT_TABLE :: string where "PAYOUT_TABLE \<equiv> ''referral_payout''"
abbreviation RUNNER_TABLE :: string where "RUNNER_TABLE \<equiv> ''app_referral_runner''"
abbreviation RUNNER_PROC_VOLUME :: string where "RUNNER_PROC_VOLUME \<equiv> ''volume''"
abbreviation RUNNER_PROC_LEADERBOARD :: string where "RUNNER_PROC_LEADERBOARD \<equiv> ''leaderboard''"
abbreviation RUNNER_PROC_CREATE_PAYOUT :: string where "RUNNER_PROC_CREATE_PAYOUT \<equiv> ''create_payout''"
abbreviation RUNNER_PROC_PROCESS_PAYOUT :: string where "RUNNER_PROC_PROCESS_PAYOUT \<equiv> ''process_payout''"

text \<open>A call of an SQL function with its arguments in quotes\<close>

definition sql_function :: "string \<Rightarrow> string list \<Rightarrow> string" where
  "sql_function f args =
     f @ ''('' @ (case args of [] \<Rightarrow> '''' | x # xs \<Rightarrow>
       CHR 0x27 # x @ CHR 0x27 # concat (map (\<lambda>y. '', '' @ CHR 0x27 # y @ [CHR 0x27]) xs)) @ '')''"

record 'd volume_row =
  vr_ProfileId      :: nat
  vr_Volume         :: 'd
  vr_ExistingVolume :: 'd
  vr_ArchiveId      :: nat
  vr_Model          :: string

record 'd volume_res =
  ve_Volume         :: 'd
  ve_ExistingVolume :: 'd
  ve_Model          :: string

record window_res =
  wi_ShardId        :: string
  wi_ArchiveIdStart :: nat
  wi_ArchiveIdEnd   :: nat

record 'd payout_row =
  py_Id        :: string
  py_ProfileId :: nat
  py_MarketId  :: string
  py_Amount    :: 'd

definition updateVolume :: "nat \<Rightarrow> 'd \<Rightarrow> ('d, string + unit) prog" where
  "updateVolume profileId volume =
     sql_exec ''tx.Exec''
       (insert_into ''referral_volumes AS rv'' [''profile_id'', ''volume''] [[VUint profileId, VDecimal volume]]
          ''ON CONFLICT (profile_id) DO UPDATE SET volume = rv.volume + EXCLUDED.volume, updated_at = unix_now();'')"

definition saveWindowPosition :: "string \<Rightarrow> string \<Rightarrow> nat \<Rightarrow> nat \<Rightarrow> ('d, string + unit) prog" where
  "saveWindowPosition table shardId archiveStartId archiveEndId =
     (if archiveStartId = 0 \<and> archiveEndId = 0 then Return (Inr ())
      else sql_exec ''tx.Exec''
             (insert_into table [''shard_id'', ''archive_id_start'', ''archive_id_end'']
                [[VString shardId, VUint archiveStartId, VUint archiveEndId]] ''''))"

definition saveVolumePosition :: "string \<Rightarrow> nat \<Rightarrow> nat \<Rightarrow> ('d, string + unit) prog" where
  "saveVolumePosition shardId s e = saveWindowPosition ''referral_volumes_integrity'' shardId s e"

definition saveFillsPosition :: "string \<Rightarrow> nat \<Rightarrow> nat \<Rightarrow> ('d, string + unit) prog" where
  "saveFillsPosition shardId s e = saveWindowPosition ''referral_fills_integrity'' shardId s e"

text \<open>The window of the rows read: the first archive id that is not zero, and the last one\<close>

fun window_of :: "nat \<times> nat \<Rightarrow> nat list \<Rightarrow> nat \<times> nat" where
  "window_of (s, e) [] = (s, e)"
| "window_of (s, e) (a # as) = window_of (if s = 0 then a else s, a) as"

text \<open>The totals by profile; the volume before the window and the model are those of the first row.\<close>

definition add_volume_row ::
  "'d dec_lib \<Rightarrow> 'd volume_row \<Rightarrow> (nat \<rightharpoonup> 'd volume_res) \<Rightarrow> (nat \<rightharpoonup> 'd volume_res)" where
  "add_volume_row D r m =
     (let v = (case m (vr_ProfileId r) of
                 None \<Rightarrow> \<lparr> ve_Volume = d_zero D, ve_ExistingVolume = vr_ExistingVolume r, ve_Model = vr_Model r \<rparr>
               | Some v \<Rightarrow> v)
      in m(vr_ProfileId r \<mapsto> v\<lparr>ve_Volume := d_add D (ve_Volume v) (vr_Volume r)\<rparr>))"

definition scan_volume_row :: "'d pgx_lib \<Rightarrow> 'd gval \<Rightarrow> string + 'd volume_row" where
  "scan_volume_row S =
     scan_row S (col S (px_uint S) (\<lambda>pid. col S (px_decimal S) (\<lambda>vol. col S (px_decimal S) (\<lambda>old.
       col S (px_uint S) (\<lambda>archiveId. col S (px_string S) (\<lambda>model.
       scanned \<lparr> vr_ProfileId = pid, vr_Volume = vol, vr_ExistingVolume = old, vr_ArchiveId = archiveId,
         vr_Model = model \<rparr>))))))"

definition calculateVolumes ::
  "'d dec_lib \<Rightarrow> 'd pgx_lib \<Rightarrow> string \<Rightarrow> ('d, string + (nat \<rightharpoonup> 'd volume_res) \<times> window_res) prog" where
  "calculateVolumes D S shardId =
     onErr (sql_query ''tx.Query''
              (select_from [''v.profile_id'', ''v.volume'', ''v.existing_volume'', ''v.archive_id'', ''c.model'']
                 (sql_function ''referral_get_volumes'' [shardId] @ '' as v'')
                 [''app_referral_code c ON c.profile_id = v.profile_id''] [] '''')
              (scan_volume_row S))
       (\<lambda>e. Return (Inl e)) (\<lambda>rows.
       case window_of (0, 0) (map vr_ArchiveId rows) of (s, e) \<Rightarrow>
         Return (Inr (fold (add_volume_row D) rows Map.empty,
                      \<lparr> wi_ShardId = shardId, wi_ArchiveIdStart = s, wi_ArchiveIdEnd = e \<rparr>)))"

definition insert_payout :: "string \<Rightarrow> nat \<Rightarrow> string \<Rightarrow> 'd \<Rightarrow> 'd gval list" where
  "insert_payout payoutId profileId marketId amount =
     insert_into PAYOUT_TABLE [''id'', ''profile_id'', ''market_id'', ''amount'']
       [[VString payoutId, VUint profileId, VString marketId, VDecimal amount]] ''''"

definition tsdb_createReferralPayout :: "nat \<Rightarrow> string \<Rightarrow> 'd \<Rightarrow> ('d, string + unit) prog" where
  "tsdb_createReferralPayout profileId marketId amount =
     Call (External ''uuid.New'' []) (\<lambda>ans.
       case decode_reply as_string (a_reply ans) of
         Inl e \<Rightarrow> Panic e
       | Inr u \<Rightarrow> sql_exec ''tx.Exec'' (insert_payout (''payout-'' @ u) profileId marketId amount))"

definition createBonusPayoutIntegrity :: "nat \<Rightarrow> nat \<Rightarrow> ('d, string + unit) prog" where
  "createBonusPayoutIntegrity profileId lvl =
     sql_exec ''tx.Exec''
       (insert_into ''referral_payout_bonus_integrity'' [''profile_id'', ''level''] [[VUint profileId, VUint lvl]] '''')"

definition scan_fill_row :: "'d pgx_lib \<Rightarrow> 'd gval \<Rightarrow> string + 'd fill_row \<times> nat" where
  "scan_fill_row S =
     scan_row S (col S (px_ptr (px_uint S)) (\<lambda>referrer. col S (px_ptr (px_uint S)) (\<lambda>invited.
       col S (px_uint S) (\<lambda>pid. col S (px_string S) (\<lambda>tradeId. col S (px_decimal S) (\<lambda>fee.
       col S (px_bool S) (\<lambda>isMaker. col S (px_ptr (px_string S)) (\<lambda>model. col S (px_ptr (px_decimal S)) (\<lambda>percent.
       col S (px_decimal S) (\<lambda>vol. col S (px_uint S) (\<lambda>archiveId.
       scanned (\<lparr> fr_ReferrerId = referrer, fr_InvitedId = invited, fr_ProfileId = pid, fr_TradeId = tradeId,
         fr_Fee = fee, fr_IsMaker = isMaker, fr_Model = model, fr_ModelFeePercent = percent,
         fr_ProfileVolume = vol \<rparr>, archiveId))))))))))))"

definition getReferralFills ::
  "'d pgx_lib \<Rightarrow> string \<Rightarrow> ('d, string + 'd fill_row list \<times> window_res) prog" where
  "getReferralFills S shardId =
     onErr (sql_query ''tx.Query''
              (select_from [''referrer_id'', ''invited_id'', ''profile_id'', ''trade_id'', ''fee'', ''is_maker'', ''model'',
                 ''model_fee_percent'', ''profile_volume'', ''archive_id'']
                 (sql_function ''referral_get_fills'' [shardId]) [] [] '''')
              (scan_fill_row S))
       (\<lambda>e. Return (Inl e)) (\<lambda>rows.
       case window_of (0, 0) (map snd rows) of (s, e) \<Rightarrow>
         Return (Inr (map fst rows, \<lparr> wi_ShardId = shardId, wi_ArchiveIdStart = s, wi_ArchiveIdEnd = e \<rparr>)))"

definition unprocessed_query :: "'d gval list" where
  "unprocessed_query =
     select_from [''id'', ''profile_id'', ''market_id'', ''amount''] PAYOUT_TABLE [] [(''processed IS FALSE'', VNil)] ''''"

definition scan_payout_row :: "'d pgx_lib \<Rightarrow> 'd gval \<Rightarrow> string + 'd payout_row" where
  "scan_payout_row S =
     scan_row S (col S (px_string S) (\<lambda>payoutId. col S (px_uint S) (\<lambda>pid. col S (px_string S) (\<lambda>mid.
       col S (px_decimal S) (\<lambda>amount.
       scanned \<lparr> py_Id = payoutId, py_ProfileId = pid, py_MarketId = mid, py_Amount = amount \<rparr>)))))"

definition getUnProcessedPayouts :: "'d pgx_lib \<Rightarrow> ('d, string + 'd payout_row list) prog" where
  "getUnProcessedPayouts S = sql_query ''tx.Query'' unprocessed_query (scan_payout_row S)"

definition processed_update :: "string list \<Rightarrow> 'd gval list" where
  "processed_update ids =
     update_set PAYOUT_TABLE [(''processed'', VBool True)] [(''id'', VList (map VString ids))]"

definition setToProcessed :: "string list \<Rightarrow> ('d, string + unit) prog" where
  "setToProcessed ids = sql_exec ''tx.Exec'' (processed_update ids)"

definition refreshLeaderBoard :: "string \<Rightarrow> string \<Rightarrow> ('d, string + unit) prog" where
  "refreshLeaderBoard exchangeId period =
     sql_exec ''db.Exec''
       (select_from [''*''] (sql_function ''referral_refresh_leaderboard_rank'' [exchangeId, period]) [] [] '''')"

definition setupRunners :: "('d, string + unit) prog" where
  "setupRunners =
     sql_exec ''db.Exec''
       (insert_into RUNNER_TABLE []
          [[VString RUNNER_PROC_VOLUME], [VString RUNNER_PROC_LEADERBOARD], [VString RUNNER_PROC_CREATE_PAYOUT],
           [VString RUNNER_PROC_PROCESS_PAYOUT]]
          ''ON CONFLICT (proc_name) DO NOTHING'')"

definition getRunners :: "'d pgx_lib \<Rightarrow> ('d, string + (string \<rightharpoonup> int)) prog" where
  "getRunners S =
     onErr (sql_query ''db.Query'' (select_from [''proc_name'', ''timestamp''] RUNNER_TABLE [] [] '''')
              (scan_row S (col S (px_string S) (\<lambda>procName. col S (px_time S) (\<lambda>timestamp. scanned (procName, timestamp))))))
       (\<lambda>e. Return (Inl e)) (\<lambda>rows. Return (Inr (map_of (rev rows))))"

definition saveRunner :: "string \<Rightarrow> ('d, string + unit) prog" where
  "saveRunner procName =
     sql_exec ''db.Exec''
       (insert_into RUNNER_TABLE [] [[VString procName]] ''ON CONFLICT (proc_name) DO UPDATE SET timestamp = CURRENT_TIMESTAMP'')"

section \<open>Operations on Tarantool\<close>

abbreviation REFERRAL_CREATE_PAYOUT :: string where "REFERRAL_CREATE_PAYOUT \<equiv> ''balance.create_referral_payout''"
abbreviation REFERRAL_PROCESS_PAYOUT :: string where "REFERRAL_PROCESS_PAYOUT \<equiv> ''profile.process_referral_payout''"
abbreviation ERR_REFERRAL_PAYOUT_ID_DUPLICATE :: string where
  "ERR_REFERRAL_PAYOUT_ID_DUPLICATE \<equiv> ''ERR_REFERRAL_PAYOUT_ID_DUPLICATE''"

definition CreateReferralPayout ::
  "cluster \<Rightarrow> string \<Rightarrow> nat \<Rightarrow> string \<Rightarrow> 'd \<Rightarrow> ('d, string + 'd balance_ops option) prog" where
  "CreateReferralPayout IC payoutId profileId marketId amount =
     withMarket IC marketId (\<lambda>inst.
       Request (as_ptr as_ops) (ic_Title inst) REFERRAL_CREATE_PAYOUT [VString payoutId, VUint profileId, VDecimal amount])"

definition ProcessReferralPayout :: "cluster \<Rightarrow> string \<Rightarrow> ('d, string + bool) prog" where
  "ProcessReferralPayout IC marketId =
     withMarket IC marketId (\<lambda>inst. Request as_bool (ic_Title inst) REFERRAL_PROCESS_PAYOUT [VString marketId])"

section \<open>Jobs\<close>

text \<open>
  The part of \<^verbatim>\<open>doVolumes\<close> for one profile. A loop of \<^verbatim>\<open>calculateBonus\<close> that has not ended within
  \<open>fuel\<close> counts as a panic here; \<open>bonus_is_milestones\<close> shows that thirteen rounds are enough.
\<close>

definition pay_milestones ::
  "nat \<Rightarrow> 'd dec_lib \<Rightarrow> string \<Rightarrow> nat \<Rightarrow> 'd volume_res \<Rightarrow> ('d, string + unit) prog" where
  "pay_milestones fuel D shardId profileId v =
     (if ve_Model v = ModelPercentage
      then orPanic ''no result within the fuel''
             (calculateBonus fuel D (ve_ExistingVolume v) (d_add D (ve_ExistingVolume v) (ve_Volume v)))
             (\<lambda>(bonus, levels).
               if d_cmp D bonus (d_zero D) \<noteq> 0
               then try_each levels (\<lambda>level.
                      tried ''createReferralPayout() failed''
                        (tsdb_createReferralPayout profileId shardId (rl_MilestoneBonus level)) (\<lambda>_.
                      tried ''createBonusPayoutIntegrity() failed''
                        (createBonusPayoutIntegrity profileId (rl_Level level)) (\<lambda>_. Return (Inr ()))))
               else Return (Inr ()))
      else Return (Inr ()))"

definition shard_volumes ::
  "nat \<Rightarrow> 'd dec_lib \<Rightarrow> 'd pgx_lib \<Rightarrow> (nat set \<Rightarrow> nat list) \<Rightarrow> string \<Rightarrow> ('d, string + unit) prog" where
  "shard_volumes fuel D S ord shardId =
     transaction
       (tried ''calculateVolumes() failed'' (calculateVolumes D S shardId) (\<lambda>(volumes, window).
        onErr (try_each (ord (dom volumes)) (\<lambda>profileId.
                 tried ''updateVolume() failed'' (updateVolume profileId (ve_Volume (the (volumes profileId)))) (\<lambda>_.
                 pay_milestones fuel D shardId profileId (the (volumes profileId)))))
          (\<lambda>e. Return (Inl e)) (\<lambda>_.
        tried ''saveVolumePosition() failed''
          (saveVolumePosition shardId (wi_ArchiveIdStart window) (wi_ArchiveIdEnd window)) (\<lambda>_. Return (Inr ())))))"

text \<open>An error of a shard is logged, the next shard is tried.\<close>

definition doVolumes ::
  "nat \<Rightarrow> 'd dec_lib \<Rightarrow> 'd pgx_lib \<Rightarrow> (nat set \<Rightarrow> nat list) \<Rightarrow> string list \<Rightarrow> ('d, unit) prog" where
  "doVolumes fuel D S ord shardIds = forEach shardIds (\<lambda>shardId. ignoring (shard_volumes fuel D S ord shardId))"

definition doRefreshLeaderBoards :: "('d, string + unit) prog" where
  "doRefreshLeaderBoards =
     try_each [''rbx'', ''bfx''] (\<lambda>exchange. try_each [''lifetime'', ''monthly'', ''weekly''] (\<lambda>period.
       tried (''refreshLeaderBoard('' @ exchange @ '', '' @ period @ '') failed'') (refreshLeaderBoard exchange period)
         (\<lambda>_. Return (Inr ()))))"

definition createPayouts ::
  "'d dec_lib \<Rightarrow> 'd pgx_lib \<Rightarrow> (nat set \<Rightarrow> nat list) \<Rightarrow> string \<Rightarrow> ('d, string + unit) prog" where
  "createPayouts D S ord shardId =
     onErr (getReferralFills S shardId) (\<lambda>e. Return (Inl e)) (\<lambda>(fills, window).
       if fills = [] then Return (Inr ())
       else case calculateFees D Map.empty fills of
              Inl (Crash m) \<Rightarrow> Panic m
            | Inl (Err e) \<Rightarrow> Return (Inl e)
            | Inr fees \<Rightarrow>
                onErr (try_each (ord (dom fees)) (\<lambda>profileId.
                         tried ''createReferralPayout() failed''
                           (tsdb_createReferralPayout profileId shardId (the (fees profileId))) (\<lambda>_. Return (Inr ()))))
                  (\<lambda>e. Return (Inl e)) (\<lambda>_.
                saveFillsPosition shardId (wi_ArchiveIdStart window) (wi_ArchiveIdEnd window)))"

text \<open>The loop over the payouts of \<^verbatim>\<open>processPayouts\<close>: the ids of those created now or before\<close>

fun send_payouts :: "cluster \<Rightarrow> 'd payout_row list \<Rightarrow> string list \<Rightarrow> ('d, string + string list) prog" where
  "send_payouts IC [] ids = Return (Inr ids)"
| "send_payouts IC (payout # payouts) ids =
     andThen (CreateReferralPayout IC (py_Id payout) (py_ProfileId payout) (py_MarketId payout) (py_Amount payout)) (\<lambda>r.
       case r of
         Inl e \<Rightarrow>
           if e \<noteq> ERR_REFERRAL_PAYOUT_ID_DUPLICATE then Return (Inl (wrapped ''CreateReferralPayout() error'' e))
           else send_payouts IC payouts (ids @ [py_Id payout])
       | Inr _ \<Rightarrow> send_payouts IC payouts (ids @ [py_Id payout]))"

definition processPayouts :: "cluster \<Rightarrow> 'd pgx_lib \<Rightarrow> string list \<Rightarrow> ('d, string + unit) prog" where
  "processPayouts IC S shardIds =
     onErr (getUnProcessedPayouts S) (\<lambda>e. Return (Inl e)) (\<lambda>payouts.
     tried ''GetBroker() failed'' (sql_exec ''GetBroker'' []) (\<lambda>_.
     onErr (send_payouts IC payouts []) (\<lambda>e. Return (Inl e)) (\<lambda>ids.
     onErr (setToProcessed ids) (\<lambda>e. Return (Inl e)) (\<lambda>_.
     try_each shardIds (\<lambda>marketId.
       onErr (ProcessReferralPayout IC marketId) (\<lambda>e. Return (Inl e)) (\<lambda>_. Return (Inr ())))))))"

definition doPayouts ::
  "'d dec_lib \<Rightarrow> 'd pgx_lib \<Rightarrow> (nat set \<Rightarrow> nat list) \<Rightarrow> string list \<Rightarrow> ('d, unit) prog" where
  "doPayouts D S ord shardIds =
     forEach shardIds (\<lambda>shardId.
       ignoring (transaction (tried ''createPayouts() failed'' (createPayouts D S ord shardId) (\<lambda>_. Return (Inr ())))))"

definition doProcessPayouts :: "cluster \<Rightarrow> 'd pgx_lib \<Rightarrow> string list \<Rightarrow> ('d, string + unit) prog" where
  "doProcessPayouts IC S shardIds =
     transaction (tried ''processPayouts() failed'' (processPayouts IC S shardIds) (\<lambda>_. Return (Inr ())))"

section \<open>Timers\<close>

text \<open>Durations and times are in nanoseconds; \<^verbatim>\<open>Sub\<close> saturates, the division truncates.\<close>

definition sat_int64 :: "int \<Rightarrow> int" where
  "sat_int64 n = max (- (2 ^ 63)) (min (2 ^ 63 - 1) n)"

definition duration_seconds :: "int \<Rightarrow> f64" where
  "duration_seconds d =
     f64_add (f64_of_int (sgn d * (\<bar>d\<bar> div 1000000000))) (f64_div (f64_of_int (sgn d * (\<bar>d\<bar> mod 1000000000))) (f64_of_int 1000000000))"

definition runner_interval :: "int \<Rightarrow> int \<Rightarrow> int \<Rightarrow> int" where
  "runner_interval regularInterval lastRunTime tm =
     (let diff = sat_int64 (tm - lastRunTime);
          diffSecs = sgn diff * (\<bar>diff\<bar> div 1000000000);
          regularIntervalSecs = int_of_f64 (duration_seconds regularInterval)
      in if regularIntervalSecs < diffSecs then 0 else int64 (regularIntervalSecs - diffSecs))"

definition getRunnerInterval :: "int \<Rightarrow> int \<Rightarrow> (int \<Rightarrow> ('d, 'a) prog) \<Rightarrow> ('d, 'a) prog" where
  "getRunnerInterval regularInterval lastRunTime k = now (\<lambda>t. k (runner_interval regularInterval lastRunTime t))"

text \<open>The zero \<^verbatim>\<open>time.Time\<close>, which a runner without a row gets\<close>

definition zero_time :: int where
  "zero_time = - 62135596800000000000"

definition newTimer :: "string \<Rightarrow> int \<Rightarrow> ('d, 'a) prog \<Rightarrow> ('d, 'a) prog" where
  "newTimer proc d p = Call (External ''time.NewTimer'' [VString proc, VInt d]) (\<lambda>_. p)"

record referral_config =
  rf_VolumesInterval        :: int
  rf_LeaderBoardInterval    :: int
  rf_CreatePayoutsInterval  :: int
  rf_ProcessPayoutsInterval :: int
  rf_ShardIds               :: "string list"

definition seconds_of :: "int \<Rightarrow> int" where
  "seconds_of n = int64 (n * 1000000000)"

definition default_duration :: "referral_config \<Rightarrow> string \<Rightarrow> int" where
  "default_duration cfg proc =
     seconds_of (if proc = RUNNER_PROC_VOLUME then rf_VolumesInterval cfg
                 else if proc = RUNNER_PROC_LEADERBOARD then rf_LeaderBoardInterval cfg
                 else if proc = RUNNER_PROC_CREATE_PAYOUT then rf_CreatePayoutsInterval cfg
                 else rf_ProcessPayoutsInterval cfg)"

definition runner_procs :: "string list" where
  "runner_procs = [RUNNER_PROC_VOLUME, RUNNER_PROC_LEADERBOARD, RUNNER_PROC_CREATE_PAYOUT, RUNNER_PROC_PROCESS_PAYOUT]"

text \<open>What happens when a timer fires\<close>

definition run_timer ::
  "nat \<Rightarrow> 'd dec_lib \<Rightarrow> 'd pgx_lib \<Rightarrow> (nat set \<Rightarrow> nat list) \<Rightarrow> cluster \<Rightarrow> referral_config \<Rightarrow> string \<Rightarrow> ('d, unit) prog" where
  "run_timer fuel D S ord IC cfg proc =
     andThen (if proc = RUNNER_PROC_VOLUME then doVolumes fuel D S ord (rf_ShardIds cfg)
              else if proc = RUNNER_PROC_LEADERBOARD then ignoring doRefreshLeaderBoards
              else if proc = RUNNER_PROC_CREATE_PAYOUT then doPayouts D S ord (rf_ShardIds cfg)
              else ignoring (doProcessPayouts IC S (rf_ShardIds cfg))) (\<lambda>_.
     newTimer proc (default_duration cfg proc) (ignoring (saveRunner proc)))"

text \<open>The start of the timers, with the intervals computed before the first timer is made\<close>

primrec runner_intervals ::
  "referral_config \<Rightarrow> (string \<rightharpoonup> int) \<Rightarrow> string list \<Rightarrow> ((string \<times> int) list \<Rightarrow> ('d, 'a) prog) \<Rightarrow> ('d, 'a) prog" where
  "runner_intervals cfg runners [] k = k []"
| "runner_intervals cfg runners (proc # procs) k =
     getRunnerInterval (default_duration cfg proc) (case runners proc of None \<Rightarrow> zero_time | Some t \<Rightarrow> t) (\<lambda>d.
       runner_intervals cfg runners procs (\<lambda>ds. k ((proc, d) # ds)))"

text \<open>\<^verbatim>\<open>Run\<close>, for the timers that fire in turn\<close>

definition referral_run ::
  "nat \<Rightarrow> 'd dec_lib \<Rightarrow> 'd pgx_lib \<Rightarrow> (nat set \<Rightarrow> nat list) \<Rightarrow> cluster \<Rightarrow> referral_config \<Rightarrow> string list \<Rightarrow> ('d, unit) prog" where
  "referral_run fuel D S ord IC cfg fired =
     onErr setupRunners (\<lambda>e. Return ()) (\<lambda>_.
     onErr (getRunners S) (\<lambda>e. Return ()) (\<lambda>runners.
     runner_intervals cfg runners runner_procs (\<lambda>ds.
     andThen (forEach ds (\<lambda>(proc, d). newTimer proc d (Return ()))) (\<lambda>_.
     forEach fired (run_timer fuel D S ord IC cfg)))))"

end
