(* ===== verification/Referrals_Props.thy ===== *)
theory Referrals_Props
  imports Referrals_Jobs Demo_Env
begin

text \<open>
  What the referral service pays: each milestone once however the trading volume is split over
  the rounds, never more commission than the net fees, and a payout is marked as processed only
  after Tarantool has created it.
\<close>

section \<open>Levels\<close>

text \<open>The integers among the constants are exact as decimals.\<close>

definition referral_integers :: "rat list" where
  "referral_integers =
     [-1, 0, 5, 10, 30, 100, 250, 700, 1000, 5000, 10000, 25000, 100000, 200000, 400000, 1000000, 3500000, 8750000,
      23000000, 65000000, 200000000, 500000000, 1000000000, 10000000000]"

definition constants_exact :: "'d dec_lib \<Rightarrow> ('d \<Rightarrow> rat) \<Rightarrow> bool" where
  "constants_exact D val \<longleftrightarrow> (\<forall>q \<in> set referral_integers. val (newDecimal D q) = q)"

lemma rat_lib_constants: "constants_exact rat_lib (\<lambda>x. x)"
  unfolding constants_exact_def referral_integers_def list.set ball_simps
  by (intro conjI) (simp_all add: newDecimal_def f64_eval Let_def)

lemma constants_exactD: "constants_exact D val \<Longrightarrow> q \<in> set referral_integers \<Longrightarrow> val (newDecimal D q) = q"
  by (auto simp: constants_exact_def)

text \<open>Levels in the order of their volumes and numbers\<close>

definition levels_ascend :: "('d \<Rightarrow> rat) \<Rightarrow> 'd referral_level list \<Rightarrow> bool" where
  "levels_ascend val ls \<longleftrightarrow>
     sorted_wrt (\<lambda>a b. val (rl_Volume a) < val (rl_Volume b) \<and> rl_Level a < rl_Level b) ls"

lemma referral_levels_ascend:
  assumes "constants_exact D val"
  shows "levels_ascend val (REFERRAL_LEVELS D)" "val (rl_Volume (hd (REFERRAL_LEVELS D))) = 0"
  using constants_exactD [OF assms]
  by (simp_all add: levels_ascend_def REFERRAL_LEVELS_def level_of_def referral_integers_def)

lemma level_loop_split:
  assumes "dec_laws D val" and "xs \<noteq> []" and "levels_ascend val (xs @ ys)"
    and "\<forall>l \<in> set xs. val (rl_Volume l) \<le> val v" and "\<forall>l \<in> set ys. val v < val (rl_Volume l)"
  shows "\<exists>prev'. level_loop D v prev (hd xs) (tl xs @ ys) = (last xs, (case ys of [] \<Rightarrow> None | y # _ \<Rightarrow> Some y), prev')"
  using assms(2-5)
proof (induction xs arbitrary: prev)
  case (Cons x xs)
  note cmp = dec_laws_cmp [OF assms(1)]
  show ?case
  proof (cases xs)
    case Nil
    then show ?thesis
      using Cons.prems by (cases ys) (auto simp: cmp)
  next
    case (Cons x' xs')
    then have "\<not> d_lt D v (rl_Volume x')"
      using Cons.prems by (auto simp: cmp)
    moreover have "\<exists>prev'. level_loop D v (Some x) (hd xs) (tl xs @ ys) = (last xs, (case ys of [] \<Rightarrow> None | y # _ \<Rightarrow> Some y), prev')"
      using Cons.prems Cons by (intro Cons.IH) (auto simp: levels_ascend_def)
    ultimately show ?thesis
      using Cons by simp
  qed
qed simp

lemma GetLevel_split:
  assumes "dec_laws D val" "constants_exact D val" and "REFERRAL_LEVELS D = xs @ ys" "xs \<noteq> []"
    and "\<forall>l \<in> set xs. val (rl_Volume l) \<le> val v" "\<forall>l \<in> set ys. val v < val (rl_Volume l)"
  shows "ls_Current (GetLevel D v) = last xs" "ls_Next (GetLevel D v) = (case ys of [] \<Rightarrow> None | y # _ \<Rightarrow> Some y)"
proof -
  have "hd (REFERRAL_LEVELS D) = hd xs" "tl (REFERRAL_LEVELS D) = tl xs @ ys"
    using assms(3,4) by simp_all
  moreover obtain prev' where
    "level_loop D v None (hd xs) (tl xs @ ys) = (last xs, (case ys of [] \<Rightarrow> None | y # _ \<Rightarrow> Some y), prev')"
    using level_loop_split [OF assms(1,4) _ assms(5,6)] referral_levels_ascend(1) [OF assms(2)] assms(3) by metis
  ultimately show "ls_Current (GetLevel D v) = last xs"
    "ls_Next (GetLevel D v) = (case ys of [] \<Rightarrow> None | y # _ \<Rightarrow> Some y)"
    by (simp_all add: GetLevel_def)
qed

section \<open>Milestones\<close>

lemma bonus_loop_end: "\<not> d_lt D s c \<Longrightarrow> 0 < fuel \<Longrightarrow> bonus_loop fuel D c s b ls = Some (b, ls)"
  by (cases fuel) simp_all

lemma bonus_loop_levels:
  assumes laws: "dec_laws D val" "constants_exact D val"
    and "REFERRAL_LEVELS D = xs @ ys" "xs \<noteq> []" "length ys + 2 \<le> fuel"
    and "\<forall>l \<in> set xs. val (rl_Volume l) \<le> val s" "\<forall>l \<in> set ys. val s < val (rl_Volume l)"
  shows "\<exists>b'. bonus_loop fuel D c s b ls = Some (b', ls @ filter (\<lambda>l. val (rl_Volume l) \<le> val c) ys) \<and>
    val b' = val b + (\<Sum>l\<leftarrow>filter (\<lambda>l. val (rl_Volume l) \<le> val c) ys. val (rl_MilestoneBonus l))"
  using assms(3-)
proof (induction ys arbitrary: xs s b ls fuel)
  case Nil
  obtain f where fuel: "fuel = Suc (Suc f)"
    using Nil.prems(3) by (auto simp: numeral_2_eq_2 Suc_le_eq intro: that dest: less_imp_Suc_add)
  note cmp = dec_laws_cmp [OF laws(1)] and ops = dec_laws_ops [OF laws(1)]
  let ?s = "d_add D s (d_sub D c s)"
  show ?case
  proof (cases "val s < val c")
    case True
    have "ls_Next (GetLevel D s) = None"
      using GetLevel_split(2) [OF laws Nil.prems(1,2)] Nil.prems by simp
    moreover have "\<forall>l \<in> set xs. val (rl_Volume l) \<le> val ?s"
      using Nil.prems(4) True by (auto simp: ops)
    then have "ls_Current (GetLevel D ?s) = last xs" "ls_Current (GetLevel D s) = last xs"
      using GetLevel_split(1) [OF laws Nil.prems(1,2)] Nil.prems(4) by simp_all
    ultimately show ?thesis
      using True by (simp add: fuel cmp ops)
  qed (simp add: fuel cmp)
next
  case (Cons y ys)
  obtain f where fuel: "fuel = Suc f" "length ys + 2 \<le> f"
    using Cons.prems(3) by (cases fuel) auto
  note cmp = dec_laws_cmp [OF laws(1)] and ops = dec_laws_ops [OF laws(1)]
  have ascend: "levels_ascend val (xs @ y # ys)"
    using referral_levels_ascend(1) [OF laws(2)] Cons.prems(1) by simp
  have lvl: "ls_Current (GetLevel D s) = last xs" "ls_Next (GetLevel D s) = Some y"
    using GetLevel_split [OF laws Cons.prems(1,2,4,5)] by simp_all
  consider "val c \<le> val s" | "val s < val c" "val c < val (rl_Volume y)" | "val (rl_Volume y) \<le> val c"
    by linarith
  then show ?case
  proof cases
    case 1
    then have "filter (\<lambda>l. val (rl_Volume l) \<le> val c) (y # ys) = []"
      using Cons.prems(5) by (intro filter_False) auto
    then show ?thesis
      using 1 by (simp add: fuel(1) cmp del: filter.simps)
  next
    case 2
    let ?s = "d_add D s (d_sub D c s)"
    have "filter (\<lambda>l. val (rl_Volume l) \<le> val c) (y # ys) = []"
      using 2 ascend by (intro filter_False) (auto simp: levels_ascend_def sorted_wrt_append)
    moreover have "ls_Current (GetLevel D ?s) = last xs"
      using Cons.prems(4) 2 ascend
      by (intro GetLevel_split(1) [OF laws Cons.prems(1,2)])
        (auto simp: ops levels_ascend_def sorted_wrt_append)
    moreover have "bonus_loop f D c ?s b ls = Some (b, ls)"
      using fuel(2) by (intro bonus_loop_end) (auto simp: cmp ops)
    ultimately show ?thesis
      using 2 lvl by (simp add: fuel(1) cmp del: filter.simps)
  next
    case 3
    let ?s = "d_add D s (d_sub D (rl_Volume y) s)"
    have s: "val ?s = val (rl_Volume y)"
      by (simp add: ops)
    have split: "REFERRAL_LEVELS D = (xs @ [y]) @ ys" "xs @ [y] \<noteq> []"
      "\<forall>l \<in> set (xs @ [y]). val (rl_Volume l) \<le> val ?s" "\<forall>l \<in> set ys. val ?s < val (rl_Volume l)"
      using Cons.prems(1) ascend unfolding s by (auto simp: levels_ascend_def sorted_wrt_append intro: less_imp_le)
    have jumped: "ls_Current (GetLevel D ?s) = y"
      using GetLevel_split(1) [OF laws split] by simp
    have "rl_Level (last xs) < rl_Level y"
      using ascend Cons.prems(2) by (auto simp: levels_ascend_def sorted_wrt_append)
    moreover have "val s < val c"
      using 3 Cons.prems(5) by simp
    ultimately have "bonus_loop fuel D c s b ls =
        bonus_loop f D c ?s (d_add D b (rl_MilestoneBonus y)) (ls @ [y])"
      using 3 lvl jumped by (simp add: fuel(1) cmp)
    then show ?thesis
      using Cons.IH [OF split(1,2) fuel(2) split(3,4), of "d_add D b (rl_MilestoneBonus y)" "ls @ [y]"] 3
      by (auto simp: ops)
  qed
qed

text \<open>
  The reference definition of the milestones: the levels whose volume is passed on the way.
\<close>

definition milestones :: "'d dec_lib \<Rightarrow> ('d \<Rightarrow> rat) \<Rightarrow> rat \<Rightarrow> rat \<Rightarrow> 'd referral_level list" where
  "milestones D val a c = filter (\<lambda>l. a < val (rl_Volume l) \<and> val (rl_Volume l) \<le> c) (REFERRAL_LEVELS D)"

lemma bonus_is_milestones:
  assumes "dec_laws D val" "constants_exact D val" and "0 \<le> val a" and "13 \<le> fuel"
  shows "\<exists>bonus. calculateBonus fuel D a c = Some (bonus, milestones D val (val a) (val c)) \<and>
    val bonus = (\<Sum>l\<leftarrow>milestones D val (val a) (val c). val (rl_MilestoneBonus l))"
proof -
  let ?below = "\<lambda>l. val (rl_Volume l) \<le> val a"
  define xs where "xs = takeWhile ?below (REFERRAL_LEVELS D)"
  define ys where "ys = dropWhile ?below (REFERRAL_LEVELS D)"
  have split: "REFERRAL_LEVELS D = xs @ ys"
    by (simp add: xs_def ys_def)
  have "xs \<noteq> []"
    using referral_levels_ascend(2) [OF assms(2)] assms(3)
    by (simp add: xs_def REFERRAL_LEVELS_def)
  have xs: "\<forall>l \<in> set xs. val (rl_Volume l) \<le> val a"
    by (auto simp: xs_def dest: set_takeWhileD)
  have ys: "\<forall>l \<in> set ys. val a < val (rl_Volume l)"
  proof (cases ys)
    case (Cons y ys')
    then have "val a < val (rl_Volume y)"
      by (metis hd_dropWhile list.distinct(1) list.sel(1) not_le ys_def)
    then show ?thesis
      using referral_levels_ascend(1) [OF assms(2)] split Cons
      by (auto simp: levels_ascend_def sorted_wrt_append)
  qed simp
  have len: "length ys + 2 \<le> fuel"
    using \<open>xs \<noteq> []\<close> arg_cong [OF split, of length] assms(4) by (cases xs) (simp_all add: REFERRAL_LEVELS_def)
  have "filter (\<lambda>l. val a < val (rl_Volume l) \<and> val (rl_Volume l) \<le> val c) xs = []"
    "filter (\<lambda>l. val a < val (rl_Volume l) \<and> val (rl_Volume l) \<le> val c) ys = filter (\<lambda>l. val (rl_Volume l) \<le> val c) ys"
    using xs ys by (auto simp: filter_empty_conv not_less intro: filter_cong)
  then have "milestones D val (val a) (val c) = filter (\<lambda>l. val (rl_Volume l) \<le> val c) ys"
    by (simp add: milestones_def split)
  then show ?thesis
    using bonus_loop_levels [OF assms(1,2) split \<open>xs \<noteq> []\<close> len xs ys, of c "d_zero D" "[]"]
    by (auto simp: calculateBonus_def dec_laws_ops [OF assms(1)])
qed

text \<open>The levels paid over the rounds of the job, each with the volume of its window\<close>

fun bonus_rounds :: "nat \<Rightarrow> 'd dec_lib \<Rightarrow> 'd \<Rightarrow> 'd list \<Rightarrow> 'd referral_level list option" where
  "bonus_rounds fuel D existing [] = Some []"
| "bonus_rounds fuel D existing (v # vs) =
     (case calculateBonus fuel D existing (d_add D existing v) of
        None \<Rightarrow> None
      | Some (_, ls) \<Rightarrow> map_option (\<lambda>rest. ls @ rest) (bonus_rounds fuel D (d_add D existing v) vs))"

lemma milestones_append:
  assumes "constants_exact D val" and "a \<le> b" "b \<le> c"
  shows "milestones D val a b @ milestones D val b c = milestones D val a c"
proof -
  have "filter (\<lambda>l. a < val (rl_Volume l) \<and> val (rl_Volume l) \<le> b) ls @
      filter (\<lambda>l. b < val (rl_Volume l) \<and> val (rl_Volume l) \<le> c) ls =
      filter (\<lambda>l. a < val (rl_Volume l) \<and> val (rl_Volume l) \<le> c) ls" if "levels_ascend val ls" for ls
    using that
  proof (induction ls)
    case (Cons l ls)
    have later: "val (rl_Volume l) < val (rl_Volume k)" if "k \<in> set ls" for k
      using Cons.prems that by (simp add: levels_ascend_def)
    have "filter (\<lambda>k. a < val (rl_Volume k) \<and> val (rl_Volume k) \<le> b) ls = []" if "b < val (rl_Volume l)"
      using that later by (intro filter_False) fastforce
    then show ?case
      using Cons assms(2,3) by (auto simp: levels_ascend_def)
  qed simp
  then show ?thesis
    using referral_levels_ascend(1) [OF assms(1)] by (simp add: milestones_def)
qed



section \<open>Commissions\<close>

definition fees_total :: "('d \<Rightarrow> rat) \<Rightarrow> 'd fees \<Rightarrow> rat" where
  "fees_total val fees = (\<Sum>k\<in>dom fees. val (the (fees k)))"

text \<open>The net fees of the pairs of fills\<close>

fun net_fees :: "'d dec_lib \<Rightarrow> ('d \<Rightarrow> rat) \<Rightarrow> 'd fill_row list \<Rightarrow> rat" where
  "net_fees D val (sideA # sideB # fills) = val (net_fee D sideA sideB) + net_fees D val fills"
| "net_fees D val fills = 0"

lemma fees_total_update:
  assumes "finite (dom fees)"
  shows "fees_total val (fees(k \<mapsto> x)) = fees_total val fees - (case fees k of None \<Rightarrow> 0 | Some y \<Rightarrow> val y) + val x"
proof -
  have "fees_total val (fees(k \<mapsto> x)) = val x + (\<Sum>j\<in>dom fees - {k}. val (the (fees j)))"
    using assms by (simp add: fees_total_def sum.insert_remove)
  moreover have "fees_total val fees =
      (case fees k of None \<Rightarrow> 0 | Some y \<Rightarrow> val y) + (\<Sum>j\<in>dom fees - {k}. val (the (fees j)))"
    using assms sum.remove [OF assms, of k "\<lambda>j. val (the (fees j))"]
    by (cases "k \<in> dom fees") (auto simp: fees_total_def split: option.split)
  ultimately show ?thesis
    by simp
qed

lemma addToFees_cases:
  assumes "addToFees D fees side netFee = Inr fees'"
  defines "fee \<equiv> (case netFee of Some n \<Rightarrow> n | None \<Rightarrow> d_mul D (fr_Fee side) (newDecimal D (- 1)))"
  shows "fees' = fees \<or> (\<exists>r percent. fees' = fees(r \<mapsto> d_add D (case fees r of None \<Rightarrow> d_zero D | Some f \<Rightarrow> f)
    (minDecimal D (d_mul D fee percent) fee)))"
  using assms(1) unfolding addToFees_def fee_def [symmetric] Let_def
  by (cases "fr_ReferrerId side"; cases "commission_percent D side") (auto split: if_splits)

text \<open>One side adds at most the fee it is given, or its own fee.\<close>

lemma addToFees_total:
  assumes "dec_laws D val" "constants_exact D val" and "finite (dom fees)"
    and "addToFees D fees side netFee = Inr fees'" and "case netFee of None \<Rightarrow> True | Some n \<Rightarrow> 0 \<le> val n"
  shows "finite (dom fees')"
    "fees_total val fees' \<le> fees_total val fees + (case netFee of None \<Rightarrow> max 0 (- val (fr_Fee side)) | Some n \<Rightarrow> val n)"
proof -
  note cmp = dec_laws_cmp [OF assms(1)] and ops = dec_laws_ops [OF assms(1)]
  define fee where "fee = (case netFee of Some n \<Rightarrow> n | None \<Rightarrow> d_mul D (fr_Fee side) (newDecimal D (- 1)))"
  have neg: "val (newDecimal D (- 1)) = - 1"
    using constants_exactD [OF assms(2)] by (simp add: referral_integers_def)
  have fee: "val fee \<le> (case netFee of None \<Rightarrow> max 0 (- val (fr_Fee side)) | Some n \<Rightarrow> val n)"
    by (auto simp: fee_def ops neg split: option.split)
  have nonneg: "0 \<le> (case netFee of None \<Rightarrow> max 0 (- val (fr_Fee side)) | Some n \<Rightarrow> val n)"
    using assms(5) by (auto split: option.splits)
  consider "fees' = fees"
    | r percent where "fees' = fees(r \<mapsto> d_add D (case fees r of None \<Rightarrow> d_zero D | Some f \<Rightarrow> f)
        (minDecimal D (d_mul D fee percent) fee))"
    using addToFees_cases [OF assms(4)] unfolding fee_def [symmetric] by blast
  then have "finite (dom fees') \<and> fees_total val fees' \<le>
      fees_total val fees + (case netFee of None \<Rightarrow> max 0 (- val (fr_Fee side)) | Some n \<Rightarrow> val n)"
  proof cases
    case 1
    then show ?thesis
      using assms(3) nonneg by simp
  next
    case 2
    let ?x = "minDecimal D (d_mul D fee percent) fee"
    have "fees_total val fees' = fees_total val fees + val ?x"
      unfolding 2 fees_total_update [OF assms(3)] by (cases "fees r") (simp_all add: ops)
    moreover have "val ?x \<le> val fee"
      by (simp add: minDecimal_def cmp not_less)
    ultimately show ?thesis
      using assms(3) fee by (simp add: 2)
  qed
  then show "finite (dom fees')" "fees_total val fees' \<le>
      fees_total val fees + (case netFee of None \<Rightarrow> max 0 (- val (fr_Fee side)) | Some n \<Rightarrow> val n)"
    by blast+
qed

lemma net_fee_val:
  assumes "dec_laws D val" "constants_exact D val"
  shows "val (net_fee D sideA sideB) = - (val (fr_Fee sideA) + val (fr_Fee sideB))"
  using constants_exactD [OF assms(2)]
  by (simp add: net_fee_def dec_laws_ops [OF assms(1)] referral_integers_def)

lemma pair_fees_total:
  assumes laws: "dec_laws D val" "constants_exact D val" and "finite (dom fees)"
    and "pair_fees D fees sideA sideB = Inr fees'"
  shows "finite (dom fees') \<and> fees_total val fees' \<le> fees_total val fees + val (net_fee D sideA sideB)"
proof -
  note cmp = dec_laws_cmp [OF laws(1)] and ops = dec_laws_ops [OF laws(1)]
  have net: "0 \<le> val (net_fee D sideA sideB)"
    using assms(4) by (auto simp: pair_fees_def Let_def cmp ops not_less split: if_splits)
  have "fees' = fees
    \<or> (\<exists>mid. val (fr_Fee sideA) < 0 \<and> val (fr_Fee sideB) < 0 \<and> addToFees D fees sideA None = Inr mid
          \<and> addToFees D mid sideB None = Inr fees')
    \<or> addToFees D fees sideA (Some (net_fee D sideA sideB)) = Inr fees'
    \<or> addToFees D fees sideB (Some (net_fee D sideA sideB)) = Inr fees'"
    using assms(4)
    by (cases "val (fr_Fee sideA) < 0"; cases "val (fr_Fee sideB) < 0"; cases "addToFees D fees sideA None")
      (auto simp: pair_fees_def Let_def cmp ops split: if_splits)
  then consider "fees' = fees"
    | mid where "val (fr_Fee sideA) < 0" "val (fr_Fee sideB) < 0" "addToFees D fees sideA None = Inr mid"
        "addToFees D mid sideB None = Inr fees'"
    | "addToFees D fees sideA (Some (net_fee D sideA sideB)) = Inr fees'"
    | "addToFees D fees sideB (Some (net_fee D sideA sideB)) = Inr fees'"
    by blast
  then show ?thesis
  proof cases
    case 1
    then show ?thesis
      using assms(3) net by simp
  next
    case 2
    then show ?thesis
      using addToFees_total [OF laws assms(3) 2(3)] addToFees_total [OF laws _ 2(4)]
      by (auto simp: net_fee_val [OF laws])
  next
    case 3
    then show ?thesis
      using addToFees_total [OF laws assms(3) 3] net by auto
  next
    case 4
    then show ?thesis
      using addToFees_total [OF laws assms(3) 4] net by auto
  qed
qed

lemma fees_loop_total:
  assumes laws: "dec_laws D val" "constants_exact D val"
  shows "finite (dom fees) \<Longrightarrow> fees_loop D fees fills = Inr fees' \<Longrightarrow>
    finite (dom fees') \<and> fees_total val fees' \<le> fees_total val fees + net_fees D val fills"
  using laws
proof (induction D fees fills rule: fees_loop.induct)
  case (1 D fees sideA sideB fills)
  then obtain mid where mid: "pair_fees D fees sideA sideB = Inr mid" "fees_loop D mid fills = Inr fees'"
    by (auto split: sum.splits)
  have "finite (dom mid) \<and> fees_total val mid \<le> fees_total val fees + val (net_fee D sideA sideB)"
    by (rule pair_fees_total [OF 1(4,5,2) mid(1)])
  moreover from this have "fees_total val fees' \<le> fees_total val mid + net_fees D val fills \<and> finite (dom fees')"
    using 1(1) [OF mid(1) _ mid(2) 1(4,5)] by blast
  ultimately show ?case
    by auto
qed auto

text \<open>Property C35. The commissions a window of fills is worth are never more than what the exchange
  kept of its fees: the payouts of all referrers together are at most the sum of the net fees of the
  trades, whatever percentages the referrers have been given.
\<close>

theorem commissions_within_net_fees:
  assumes "dec_laws D val" "constants_exact D val" and "calculateFees D Map.empty fills = Inr fees"
  shows "fees_total val fees \<le> net_fees D val fills"
proof -
  have "fees_total val Map.empty = 0"
    by (simp add: fees_total_def)
  then show ?thesis
    using fees_loop_total [OF assms(1,2), of Map.empty fills fees] assms(3)
    by (auto simp: calculateFees_def split: if_splits)
qed

definition demo_fill :: "nat option \<Rightarrow> rat \<Rightarrow> string \<Rightarrow> rat fill_row" where
  "demo_fill referrer fee model = \<lparr> fr_ReferrerId = referrer, fr_InvitedId = referrer, fr_ProfileId = 7, fr_TradeId = ''t1'',
     fr_Fee = fee, fr_IsMaker = False, fr_Model = Some model, fr_ModelFeePercent = Some 3, fr_ProfileVolume = 0 \<rparr>"

lemma demo_fees:
  "calculateFees rat_lib Map.empty [demo_fill (Some 1) (- 10) ModelKOL, demo_fill (Some 2) 4 ModelKOL] = Inr [1 \<mapsto> 6]"
proof -
  have neg: "newDecimal rat_lib (- 1) = - 1"
    using constants_exactD [OF rat_lib_constants, of "- 1"] by (simp add: referral_integers_def)
  show ?thesis
    by (simp add: calculateFees_def pair_fees_def net_fee_def addToFees_def commission_percent_def minDecimal_def demo_fill_def
        neg d_zero_def)
qed

lemma commissions_within_net_fees_witness:
  "fees_total (\<lambda>x. x) [1 \<mapsto> 6] \<le> net_fees rat_lib (\<lambda>x. x)
     [demo_fill (Some 1) (- 10) ModelKOL, demo_fill (Some 2) 4 ModelKOL]"
  using commissions_within_net_fees [OF rat_lib_laws rat_lib_constants demo_fees] .

text \<open>
  A referrer without commission still gets an entry, of zero; Tarantool refuses a payout that is not
  positive.
\<close>

lemma zero_commission_is_inserted:
  assumes "fr_ReferrerId side = Some r" "fr_Model side = Some ModelKOL" "fr_ModelFeePercent side = Some p"
    and "dec_laws D val" "val p = 0" "val fee > 0" "val (fr_Fee side) \<le> 0"
  shows "\<exists>x. addToFees D Map.empty side (Some fee) = Inr [r \<mapsto> x] \<and> val x = 0"
proof -
  note cmp = dec_laws_cmp [OF assms(4)] and ops = dec_laws_ops [OF assms(4)]
  have "addToFees D Map.empty side (Some fee) = Inr [r \<mapsto> d_add D (d_zero D) (minDecimal D (d_mul D fee p) fee)]"
    using assms(1-3,6,7) by (simp add: addToFees_def commission_percent_def cmp ops)
  moreover have "val (d_add D (d_zero D) (minDecimal D (d_mul D fee p) fee)) = 0"
    using assms(5,6) by (simp add: minDecimal_def cmp ops)
  ultimately show ?thesis
    by blast
qed

section \<open>Payouts\<close>

text \<open>The payouts the database listed, and the answers that tell that Tarantool has one\<close>

definition listed_payouts :: "'d pgx_lib \<Rightarrow> 'd history \<Rightarrow> 'd payout_row list \<Rightarrow> bool" where
  "listed_payouts S h rows \<longleftrightarrow>
     (\<exists>ans. (External ''tx.Query'' unprocessed_query, ans) \<in> set h \<and> read_rows (scan_payout_row S) (a_reply ans) = Inr rows)"

definition payout_params :: "'d payout_row \<Rightarrow> 'd gval list" where
  "payout_params row = [VString (py_Id row), VUint (py_ProfileId row), VDecimal (py_Amount row)]"

definition tarantool_has :: "'d reply \<Rightarrow> bool" where
  "tarantool_has r \<longleftrightarrow>
     (\<exists>x. decode_reply (as_ptr as_ops) r = Inr x) \<or> decode_reply (as_ptr as_ops) r = Inl ERR_REFERRAL_PAYOUT_ID_DUPLICATE"

definition payout_created :: "'d history \<Rightarrow> 'd payout_row \<Rightarrow> bool" where
  "payout_created h row \<longleftrightarrow>
     (\<exists>i ans. (Execute i REFERRAL_CREATE_PAYOUT (payout_params row), ans) \<in> set h \<and> tarantool_has (a_reply ans))"

definition update_succeeded :: "'d history \<Rightarrow> 'd payout_row list \<Rightarrow> bool" where
  "update_succeeded h rows \<longleftrightarrow>
     (\<exists>ans. (External ''tx.Exec'' (processed_update (map py_Id rows)), ans) \<in> set h \<and> a_error ans = None)"

text \<open>
  The discipline of a run: it creates only listed payouts, marks exactly the listed ones and only
  when Tarantool has them all, and commits only after marking them.
\<close>

fun payout_discipline :: "'d pgx_lib \<Rightarrow> 'd history \<Rightarrow> 'd call \<Rightarrow> bool" where
  "payout_discipline S h (Execute i fn ps) \<longleftrightarrow>
     (fn = REFERRAL_CREATE_PAYOUT \<longrightarrow> (\<exists>rows row. listed_payouts S h rows \<and> row \<in> set rows \<and> ps = payout_params row))"
| "payout_discipline S h (External how stmt) \<longleftrightarrow>
     (how = ''tx.Exec'' \<longrightarrow> (\<exists>rows. listed_payouts S h rows \<and> stmt = processed_update (map py_Id rows)
        \<and> (\<forall>row \<in> set rows. payout_created h row)))
     \<and> (how = ''tx.Commit'' \<longrightarrow> (\<exists>rows. listed_payouts S h rows \<and> update_succeeded h rows))"
| "payout_discipline S h c \<longleftrightarrow> True"

lemma history_Cons [simp]:
  "listed_payouts S h rows \<Longrightarrow> listed_payouts S (x # h) rows"
  "payout_created h row \<Longrightarrow> payout_created (x # h) row"
  "update_succeeded h rows \<Longrightarrow> update_succeeded (x # h) rows"
  by (auto simp: listed_payouts_def payout_created_def update_succeeded_def)

lemma wp_send_payouts:
  assumes "listed_payouts S h (before @ payouts)" "\<forall>row \<in> set before. payout_created h row"
  shows "wp (payout_discipline S)
    (\<lambda>h' r. \<forall>ids. r = Done (Inr ids) \<longrightarrow> ids = map py_Id (before @ payouts) \<and> listed_payouts S h' (before @ payouts) \<and>
      (\<forall>row \<in> set (before @ payouts). payout_created h' row))
    (send_payouts IC payouts (map py_Id before)) h"
  using assms
proof (induction payouts arbitrary: before h)
  case (Cons payout payouts)
  have step: "wp (payout_discipline S)
      (\<lambda>h' r. \<forall>ids. r = Done (Inr ids) \<longrightarrow> ids = map py_Id (before @ payout # payouts) \<and>
        listed_payouts S h' (before @ payout # payouts) \<and> (\<forall>row \<in> set (before @ payout # payouts). payout_created h' row))
      (send_payouts IC payouts (map py_Id before @ [py_Id payout]))
      ((Execute i REFERRAL_CREATE_PAYOUT (payout_params payout), ans) # h)" if "tarantool_has (a_reply ans)" for i ans
  proof -
    have "payout_created ((Execute i REFERRAL_CREATE_PAYOUT (payout_params payout), ans) # h) payout"
      using that by (auto simp: payout_created_def)
    then show ?thesis
      using Cons.IH [of "(Execute i REFERRAL_CREATE_PAYOUT (payout_params payout), ans) # h" "before @ [payout]"]
        Cons.prems by simp
  qed
  have call: "payout_discipline S h (Execute i REFERRAL_CREATE_PAYOUT (payout_params payout))" for i
    using Cons.prems(1) in_set_conv_decomp [of payout] unfolding payout_discipline.simps by blast
  show ?case
  proof (cases IC)
    case (Inr insts)
    show ?thesis
      using step call
      by (cases "ByMarketID insts (py_MarketId payout)")
        (auto simp: CreateReferralPayout_def withMarket_def GetInstance_def wp_andThen Inr getFirst_err ByMarketID_def
          tarantool_has_def payout_params_def split: sum.split)
  qed (simp add: CreateReferralPayout_def withMarket_def GetInstance_def)
qed simp

lemma wp_processPayouts:
  "wp (payout_discipline S)
    (\<lambda>h' r. \<forall>u. r = Done (Inr u) \<longrightarrow> (\<exists>rows. listed_payouts S h' rows \<and> update_succeeded h' rows))
    (processPayouts IC S shardIds) h"
proof -
  have rest: "wp (payout_discipline S) (\<lambda>h' r. \<forall>u. r = Done (Inr u) \<longrightarrow> (\<exists>rows. listed_payouts S h' rows \<and> update_succeeded h' rows))
      (try_each shardIds (\<lambda>marketId. onErr (ProcessReferralPayout IC marketId) (\<lambda>e. Return (Inl e)) (\<lambda>_. Return (Inr ())))) h'"
    if "listed_payouts S h' rows \<and> update_succeeded h' rows" for h' rows
    using that
    by (rule wp_try_each [where I = "\<lambda>h. listed_payouts S h rows \<and> update_succeeded h rows"])
      (auto simp: wp_onErr ProcessReferralPayout_def withMarket_def GetInstance_def split: sum.split)
  have sent: "wp (payout_discipline S) (\<lambda>h' r. \<forall>u. r = Done (Inr u) \<longrightarrow> (\<exists>rows. listed_payouts S h' rows \<and> update_succeeded h' rows))
      (onErr (send_payouts IC rows []) (\<lambda>e. Return (Inl e)) (\<lambda>ids.
       onErr (setToProcessed ids) (\<lambda>e. Return (Inl e)) (\<lambda>_.
       try_each shardIds (\<lambda>marketId. onErr (ProcessReferralPayout IC marketId) (\<lambda>e. Return (Inl e)) (\<lambda>_. Return (Inr ())))))) h'"
    if "listed_payouts S h' rows" for h' rows
    unfolding wp_onErr [of _ _ "send_payouts IC rows []"]
  proof (rule wp_mono)
    show "wp (payout_discipline S) (\<lambda>h' r. \<forall>ids. r = Done (Inr ids) \<longrightarrow> ids = map py_Id ([] @ rows) \<and>
        listed_payouts S h' ([] @ rows) \<and> (\<forall>row \<in> set ([] @ rows). payout_created h' row)) (send_payouts IC rows []) h'"
      using wp_send_payouts [of S h' "[]" rows IC] that by simp
  next
    fix h'' r
    assume *: "\<forall>ids. r = Done (Inr ids) \<longrightarrow> ids = map py_Id ([] @ rows) \<and>
        listed_payouts S h'' ([] @ rows) \<and> (\<forall>row \<in> set ([] @ rows). payout_created h'' row)"
    then show "case r of Done (Inl e) \<Rightarrow> wp (payout_discipline S) (\<lambda>h' r. \<forall>u. r = Done (Inr u) \<longrightarrow>
          (\<exists>rows. listed_payouts S h' rows \<and> update_succeeded h' rows)) (Return (Inl e)) h''
      | Done (Inr ids) \<Rightarrow> wp (payout_discipline S) (\<lambda>h' r. \<forall>u. r = Done (Inr u) \<longrightarrow>
          (\<exists>rows. listed_payouts S h' rows \<and> update_succeeded h' rows))
          (onErr (setToProcessed ids) (\<lambda>e. Return (Inl e)) (\<lambda>_.
           try_each shardIds (\<lambda>marketId. onErr (ProcessReferralPayout IC marketId) (\<lambda>e. Return (Inl e)) (\<lambda>_. Return (Inr ()))))) h''
      | Panicked m \<Rightarrow> \<forall>u. (Panicked m :: (string + unit) outcome) = Done (Inr u) \<longrightarrow>
          (\<exists>rows. listed_payouts S h'' rows \<and> update_succeeded h'' rows)"
    proof (cases r)
      case (Done v)
      then show ?thesis
      proof (cases v)
        case (Inr ids)
        have ids: "ids = map py_Id rows" "listed_payouts S h'' rows" "\<forall>row \<in> set rows. payout_created h'' row"
          using * Done Inr by auto
        have "listed_payouts S ((External ''tx.Exec'' (processed_update ids), ans) # h'') rows \<and>
            update_succeeded ((External ''tx.Exec'' (processed_update ids), ans) # h'') rows" if "a_error ans = None" for ans
          using that ids by (auto simp: update_succeeded_def)
        from rest [OF this] show ?thesis
          using ids Done Inr by (auto simp: wp_onErr setToProcessed_def split: option.split)
      qed simp
    qed simp
  qed
  define send where "send = (\<lambda>rows :: 'a payout_row list. onErr (send_payouts IC rows []) (\<lambda>e. Return (Inl e)) (\<lambda>ids.
       onErr (setToProcessed ids) (\<lambda>e. Return (Inl e)) (\<lambda>_.
       try_each shardIds (\<lambda>marketId. onErr (ProcessReferralPayout IC marketId) (\<lambda>e. Return (Inl e)) (\<lambda>_. Return (Inr ()))))))"
  have send: "wp (payout_discipline S) (\<lambda>h' r. \<forall>u. r = Done (Inr u) \<longrightarrow> (\<exists>rows. listed_payouts S h' rows \<and> update_succeeded h' rows))
      (send rows) h'" if "listed_payouts S h' rows" for h' rows
    unfolding send_def by (rule sent [OF that])
  have program: "processPayouts IC S shardIds =
      onErr (sql_query ''tx.Query'' unprocessed_query (scan_payout_row S)) (\<lambda>e. Return (Inl e)) (\<lambda>payouts.
      tried ''GetBroker() failed'' (sql_exec ''GetBroker'' []) (\<lambda>_. send payouts))"
    by (simp add: processPayouts_def getUnProcessedPayouts_def send_def)
  have listed: "listed_payouts S ((External ''tx.Query'' unprocessed_query, ans) # h) rows"
    if "read_rows (scan_payout_row S) (a_reply ans) = Inr rows" for ans rows
    using that by (auto simp: listed_payouts_def)
  show ?thesis
    unfolding program
    using send listed by (auto simp: wp_onErr tried_def split: sum.split option.split)
qed

text \<open>Property C36. No payout is lost and none is marked before it exists: a run of the job asks Tarantool
  only for payouts the database lists as unprocessed, with the amount listed; it marks as processed
  exactly the payouts listed, only after Tarantool has created each of them or reported that it had
  it already; and it commits only when marking them succeeded.
\<close>

theorem payouts_marked_after_creation:
  assumes "run E (doProcessPayouts IC S shardIds) [] = (post @ (c, ans) # pre, r)"
  shows "payout_discipline S pre c"
proof -
  have body: "wp (payout_discipline S)
      (\<lambda>h' r. \<forall>u. r = Done (Inr u) \<longrightarrow> (\<exists>rows. listed_payouts S h' rows \<and> update_succeeded h' rows))
      (tried ''processPayouts() failed'' (processPayouts IC S shardIds) (\<lambda>_. Return (Inr ()))) h" for h
    unfolding tried_def wp_onErr
    by (rule wp_mono [OF wp_processPayouts]) (auto split: outcome.split sum.split)
  have "wp (payout_discipline S) (\<lambda>_ _. True) (doProcessPayouts IC S shardIds) []"
    unfolding doProcessPayouts_def by (rule wp_transaction [OF _ body]) auto
  then have "extends (payout_discipline S) [] (post @ (c, ans) # pre)"
    using wp_run [OF _ assms] by blast
  then show ?thesis
    by (rule extends_call) simp
qed

definition demo_referral_replies :: "rat call \<Rightarrow> rat reply" where
  "demo_referral_replies c = (case c of
     External how stmt \<Rightarrow>
       if how = ''tx.Query'' then BRows [(VList [VList [VString ''p1'', VUint 7, VString ''BTC-USD'', VDecimal 5]], '''')]
       else BRows [(VNil, '''')]
   | _ \<Rightarrow> BRows [(VNil, '''')])"

definition demo_referral_cluster :: cluster where
  "demo_referral_cluster = Inr [\<lparr> ic_Title = ''BTC'', ic_Host = '''', ic_Port = 0, ic_User = '''', ic_Password = '''', ic_Tags = [''BTC-USD''] \<rparr>]"

lemma demo_payout_run:
  "run (replying demo_referral_replies) (doProcessPayouts demo_referral_cluster demo_pgx [''BTC-USD'']) [] =
    ([(External ''tx.Rollback'' [], reply_answer (BRows [(VNil, '''')])),
      (External ''tx.Commit'' [], reply_answer (BRows [(VNil, '''')])),
      (Execute ''BTC'' REFERRAL_PROCESS_PAYOUT [VString ''BTC-USD''], reply_answer (BRows [(VNil, '''')]))] @
     (External ''tx.Exec'' (processed_update [''p1'']), reply_answer (BRows [(VNil, '''')])) #
     [(Execute ''BTC'' REFERRAL_CREATE_PAYOUT [VString ''p1'', VUint 7, VDecimal 5], reply_answer (BRows [(VNil, '''')])),
      (External ''GetBroker'' [], reply_answer (BRows [(VNil, '''')])),
      (External ''tx.Query'' unprocessed_query,
       reply_answer (BRows [(VList [VList [VString ''p1'', VUint 7, VString ''BTC-USD'', VDecimal 5]], '''')])),
      (External ''db.Begin'' [], reply_answer (BRows [(VNil, '''')]))], Done (Inr ()))"
  by (simp add: doProcessPayouts_def transaction_def sql_begin_def sql_exec_def onErr_def tried_def processPayouts_def
      getUnProcessedPayouts_def sql_query_def read_rows_def result_set_def demo_referral_replies_def scan_payout_row_def col_def scanned_def
      CreateReferralPayout_def ProcessReferralPayout_def withMarket_def GetInstance_def demo_referral_cluster_def ByMarketID_def
      Request_def decode_reply_def setToProcessed_def sql_commit_def sql_rollback_def ignoring_def)

lemma payouts_marked_after_creation_witness:
  "payout_discipline demo_pgx
     [(Execute ''BTC'' REFERRAL_CREATE_PAYOUT [VString ''p1'', VUint 7, VDecimal 5], reply_answer (BRows [(VNil, '''')])),
      (External ''GetBroker'' [], reply_answer (BRows [(VNil, '''')])),
      (External ''tx.Query'' unprocessed_query,
       reply_answer (BRows [(VList [VList [VString ''p1'', VUint 7, VString ''BTC-USD'', VDecimal 5]], '''')])),
      (External ''db.Begin'' [], reply_answer (BRows [(VNil, '''')]))]
     (External ''tx.Exec'' (processed_update [''p1'']))"
  by (rule payouts_marked_after_creation [OF demo_payout_run])

text \<open>
  A payout that Tarantool refuses stops the loop: the payouts after it are not created, and neither
  will they be by the next runs, which list the refused payout again.
\<close>

lemma refused_payout_blocks_the_rest:
  assumes "IC = Inr insts" "ByMarketID insts (py_MarketId payout) = Inr inst"
    and "decode_reply (as_ptr as_ops) (a_reply (E h c)) = Inl e" "e \<noteq> ERR_REFERRAL_PAYOUT_ID_DUPLICATE"
    and "c = Execute (ic_Title inst) REFERRAL_CREATE_PAYOUT (payout_params payout)"
  shows "run E (send_payouts IC (payout # payouts) ids) h =
    ((c, E h c) # h, Done (Inl (''CreateReferralPayout() error: '' @ e)))"
  using assms
  by (simp add: CreateReferralPayout_def withMarket_def GetInstance_def Request_def payout_params_def wrapped_def)

section \<open>Timers\<close>

text \<open>
  A runner that has just run is due again after its interval, but the interval is returned as a
  number of nanoseconds equal to the seconds left: the first round after a start comes at once.
\<close>

lemma first_interval_is_nanoseconds: "runner_interval 60000000000 t t = 60"
  by (simp add: runner_interval_def sat_int64_def duration_seconds_def int64_def f64_eval Let_def)

end
