(* ===== verification/Api_Referral.thy ===== *)
theory Api_Referral
  imports Referrals Api_Context
begin

text \<open>
  The handlers of the referral programme (\<^verbatim>\<open>api/referral.go\<close>): creating, reading and renaming a
  referral code, and the leader boards. Time stamps are in nanoseconds.
\<close>

section \<open>Responses\<close>

record 'd board_row =
  lb_ProfileId      :: nat
  lb_ExchangeId     :: string
  lb_Volume         :: 'd
  lb_PreviousRank   :: nat
  lb_CurrentRank    :: nat
  lb_Change         :: nat
  lb_InvitedCounter :: nat
  lb_Wallet         :: string

record 'd referral_response =
  rr_ProfileId       :: nat
  rr_ShortCode       :: string
  rr_Model           :: string
  rr_ModelFeePercent :: "'d option"
  rr_AmendCounter    :: nat
  rr_Timestamp       :: int
  rr_InvitedCounter  :: nat
  rr_EarningsAllTime :: 'd
  rr_Payout24h       :: 'd
  rr_LevelStatus     :: "'d level_status"
  rr_Weekly          :: "'d board_row"
  rr_Monthly         :: "'d board_row"
  rr_All             :: "'d board_row"

text \<open>The zero value of a row, for a profile that is not on the board\<close>

definition zero_board :: "'d dec_lib \<Rightarrow> 'd board_row" where
  "zero_board D = \<lparr> lb_ProfileId = 0, lb_ExchangeId = '''', lb_Volume = d_zero D, lb_PreviousRank = 0, lb_CurrentRank = 0,
     lb_Change = 0, lb_InvitedCounter = 0, lb_Wallet = '''' \<rparr>"

definition board_val :: "'d board_row \<Rightarrow> 'd gval" where
  "board_val r = VStruct ''LeaderBoardReferralResponse''
     [VUint (lb_ProfileId r), VString (lb_ExchangeId r), VDecimal (lb_Volume r), VUint (lb_PreviousRank r),
      VUint (lb_CurrentRank r), VUint (lb_Change r), VUint (lb_InvitedCounter r), VString (lb_Wallet r)]"

definition level_val :: "'d referral_level \<Rightarrow> 'd gval" where
  "level_val l = VStruct ''ReferralLevel''
     [VUint (rl_Level l), VDecimal (rl_Volume l), VDecimal (rl_CommissionPercent l), VDecimal (rl_MilestoneBonus l)]"

definition status_val :: "'d level_status \<Rightarrow> 'd gval" where
  "status_val s = VStruct ''ReferralLevelStatus''
     [VDecimal (ls_Volume s), level_val (ls_Current s), opt_val level_val (ls_Next s), opt_val level_val (ls_Prev s),
      opt_val VDecimal (ls_NeededVolume s)]"

definition referral_val :: "'d referral_response \<Rightarrow> 'd gval" where
  "referral_val r = VStruct ''ReferralResponse''
     [VUint (rr_ProfileId r), VString (rr_ShortCode r), VString (rr_Model r), opt_val VDecimal (rr_ModelFeePercent r),
      VUint (rr_AmendCounter r), VInt (rr_Timestamp r), VUint (rr_InvitedCounter r), VDecimal (rr_EarningsAllTime r),
      VDecimal (rr_Payout24h r), status_val (rr_LevelStatus r), board_val (rr_Weekly r), board_val (rr_Monthly r),
      board_val (rr_All r)]"

section \<open>Queries\<close>

definition scan_board :: "'d pgx_lib \<Rightarrow> 'd gval \<Rightarrow> string + 'd board_row" where
  "scan_board S =
     scan_row S (col S (px_uint S) (\<lambda>pid. col S (px_string S) (\<lambda>exchange. col S (px_decimal S) (\<lambda>vol.
       col S (px_uint S) (\<lambda>prev. col S (px_uint S) (\<lambda>cur. col S (px_uint S) (\<lambda>change. col S (px_uint S) (\<lambda>invited.
       col S (px_string S) (\<lambda>wallet.
       scanned \<lparr> lb_ProfileId = pid, lb_ExchangeId = exchange, lb_Volume = vol, lb_PreviousRank = prev, lb_CurrentRank = cur,
         lb_Change = change, lb_InvitedCounter = invited, lb_Wallet = wallet \<rparr>)))))))))"

definition board_columns :: "string \<Rightarrow> string list" where
  "board_columns volume =
     [''v.profile_id'', ''v.exchange_id'', volume, ''COALESCE(v.previous_rank, 0)'', ''COALESCE(v.current_rank, 0)'',
      ''COALESCE(v.previous_rank, 0) - COALESCE(v.current_rank, 0)'', ''COALESCE(c.invited_counter, 0)'', ''p.wallet'']"

definition board_joins :: "string list" where
  "board_joins = [''app_referral_counter c ON c.profile_id = v.profile_id'', ''app_profile p ON p.id = v.profile_id'']"

text \<open>A query of one row that may be missing\<close>

definition row_or :: "'a \<Rightarrow> ('d, string + 'a) prog \<Rightarrow> ('d, string + 'a) prog" where
  "row_or x p = andThen p (\<lambda>r. Return (case r of Inl e \<Rightarrow> if e = ErrNoRows then Inr x else Inl e | Inr y \<Rightarrow> Inr y))"

definition rank_of :: "'d dec_lib \<Rightarrow> 'd pgx_lib \<Rightarrow> string \<Rightarrow> nat \<Rightarrow> ('d, string + 'd board_row) prog" where
  "rank_of D S view profileId =
     row_or (zero_board D)
       (sql_query_row ''db.Query''
          (select_from (board_columns ''COALESCE(v.current_volume, 0)'') view board_joins [(''v.profile_id'', VUint profileId)] '''')
          (scan_board S))"

definition getReferralCode :: "'d dec_lib \<Rightarrow> 'd pgx_lib \<Rightarrow> nat \<Rightarrow> ('d, string + 'd referral_response) prog" where
  "getReferralCode D S profileId =
     onErr (sql_query_row ''db.Query''
        (select_from [''profile_id'', ''short_code'', ''model'', ''model_fee_percent'', ''amend_counter'', ''timestamp'']
           ''app_referral_code'' [] [(''profile_id'', VUint profileId)] '''')
        (scan_row S (col S (px_uint S) (\<lambda>pid. col S (px_string S) (\<lambda>code. col S (px_string S) (\<lambda>model.
           col S (px_ptr (px_decimal S)) (\<lambda>percent. col S (px_uint S) (\<lambda>amended. col S (px_time S) (\<lambda>ts.
           scanned (pid, code, model, percent, amended, ts))))))))))
       (\<lambda>e. Return (Inl e)) (\<lambda>(pid, code, model, percent, amended, ts).
     onErr (sql_query_row ''db.Query''
        (select_from [''COALESCE(SUM(invited_counter), 0)''] ''app_referral_counter'' [] [(''profile_id'', VUint profileId)] '''')
        (column_of S (px_uint S))) (\<lambda>e. Return (Inl e)) (\<lambda>invited.
     onErr (sql_query_row ''db.Query''
        (select_from [''COALESCE(SUM(amount), 0)''] ''referral_payout'' [] [(''profile_id'', VUint profileId)] '''')
        (column_of S (px_decimal S))) (\<lambda>e. Return (Inl e)) (\<lambda>allTime.
     onErr (sql_query_row ''db.Query''
        (select_from [''COALESCE(SUM(amount), 0)''] ''referral_payout'' []
           [(''profile_id = ? AND timestamp >= (unix_now() - interval_to_micros(24h))'', VUint profileId)] '''')
        (column_of S (px_decimal S))) (\<lambda>e. Return (Inl e)) (\<lambda>day.
     onErr (row_or (d_zero D) (sql_query_row ''db.Query''
        (select_from [''COALESCE(volume, 0)''] ''referral_volumes'' [] [(''profile_id'', VUint profileId)] '''')
        (column_of S (px_decimal S)))) (\<lambda>e. Return (Inl e)) (\<lambda>vol.
     onErr (rank_of D S ''referral_leaderboard_weekly_rank v'' profileId) (\<lambda>e. Return (Inl e)) (\<lambda>weekly.
     onErr (rank_of D S ''referral_leaderboard_monthly_rank v'' profileId) (\<lambda>e. Return (Inl e)) (\<lambda>monthly.
     onErr (rank_of D S ''referral_leaderboard_lifetime_rank v'' profileId) (\<lambda>e. Return (Inl e)) (\<lambda>lifetime.
       Return (Inr \<lparr> rr_ProfileId = pid, rr_ShortCode = code, rr_Model = model, rr_ModelFeePercent = percent,
         rr_AmendCounter = amended, rr_Timestamp = ts, rr_InvitedCounter = invited, rr_EarningsAllTime = allTime,
         rr_Payout24h = day, rr_LevelStatus = GetLevel D vol, rr_Weekly = weekly, rr_Monthly = monthly,
         rr_All = lifetime \<rparr>)))))))))"

section \<open>Handlers\<close>

text \<open>\<^verbatim>\<open>CreateReferralRequest\<close> is its model; the binding accepts only \<^verbatim>\<open>percentage\<close>.\<close>

definition HandleReferralCreate ::
  "'d dec_lib \<Rightarrow> 'd pgx_lib \<Rightarrow> rabbit_context \<Rightarrow> string + string \<Rightarrow> ('d, unit) prog" where
  "HandleReferralCreate D S ctx body = bindJSON body (\<lambda>model.
     onErr (GenShortCode 10) ErrorResponse (\<lambda>shortCode.
     deref (rc_Profile ctx) (\<lambda>profile.
     onErr (sql_exec ''db.Exec'' (insert_into ''app_referral_code'' [''profile_id'', ''short_code'', ''model'']
              [[VUint (pr_ProfileId profile), VString shortCode, VString model]] '''')) ErrorResponse (\<lambda>_.
     onErr (getReferralCode D S (pr_ProfileId profile)) ErrorResponse (\<lambda>resp.
     SuccessResponse [referral_val resp])))))"

definition HandleReferralGet :: "'d dec_lib \<Rightarrow> 'd pgx_lib \<Rightarrow> rabbit_context \<Rightarrow> ('d, unit) prog" where
  "HandleReferralGet D S ctx =
     deref (rc_Profile ctx) (\<lambda>profile.
     onErr (getReferralCode D S (pr_ProfileId profile))
       (\<lambda>e. if e = ErrNoRows then SuccessResponse [VBool False] else ErrorResponse e)
       (\<lambda>resp. SuccessResponse [referral_val resp]))"

definition HandleReferralEdit ::
  "'d dec_lib \<Rightarrow> 'd pgx_lib \<Rightarrow> rabbit_context \<Rightarrow> string + string \<Rightarrow> ('d, unit) prog" where
  "HandleReferralEdit D S ctx body = bindJSON body (\<lambda>newReferralCode.
     deref (rc_Profile ctx) (\<lambda>profile.
     onErr (sql_exec ''db.Exec'' (update_set ''app_referral_code''
              [(''short_code'', VString newReferralCode), (''amend_counter'', VString ''amend_counter + 1'')]
              [(''profile_id'', VUint (pr_ProfileId profile))])) ErrorResponse (\<lambda>_.
     onErr (getReferralCode D S (pr_ProfileId profile)) ErrorResponse (\<lambda>resp.
     SuccessResponse [referral_val resp]))))"

definition board_view :: "string \<Rightarrow> string" where
  "board_view rng =
     (if rng = ''1w'' then ''referral_leaderboard_weekly_rank AS v''
      else if rng = ''1m'' then ''referral_leaderboard_monthly_rank AS v''
      else if rng = ''all'' then ''referral_leaderboard_lifetime_rank AS v'' else '''')"

definition board_query :: "string \<Rightarrow> string \<Rightarrow> 'd gval list" where
  "board_query rng exchangeId =
     select_from (board_columns ''v.current_volume'') (board_view rng) board_joins [(''v.exchange_id = ?'', VString exchangeId)]
       ''v.current_rank ASC''"

definition HandleGetLeaderBoard :: "'d pgx_lib \<Rightarrow> rabbit_context \<Rightarrow> string + string \<Rightarrow> ('d, unit) prog" where
  "HandleGetLeaderBoard S ctx body = bindJSON body (\<lambda>rng.
     onErr (sql_query ''db.Query'' (board_query rng (rc_ExchangeId ctx)) (scan_board S)) ErrorResponse
       (\<lambda>rows. SuccessResponse (map board_val rows)))"

section \<open>A falling rank\<close>

text \<open>
  The column of the change is the previous rank less the current one, but it is read into an
  unsigned integer. A driver that refuses a negative number there makes the whole board fail as
  soon as one profile of the exchange has lost a place, or is new: its previous rank is zero.
\<close>

definition refuses_negative :: "'d pgx_lib \<Rightarrow> bool" where
  "refuses_negative S \<longleftrightarrow> (\<forall>i < 0. \<exists>e. px_uint S (VInt i) = Inl e)"

definition board_tuple :: "'d gval \<Rightarrow> 'd gval \<Rightarrow> 'd gval \<Rightarrow> int \<Rightarrow> int \<Rightarrow> 'd gval \<Rightarrow> 'd gval \<Rightarrow> 'd gval" where
  "board_tuple pid exchange vol prev cur invited wallet =
     VList [pid, exchange, vol, VInt prev, VInt cur, VInt (prev - cur), invited, wallet]"

lemma scan_board_falling:
  assumes "refuses_negative S" "prev < cur"
  shows "\<exists>e. scan_board S (board_tuple pid exchange vol prev cur invited wallet) = Inl e"
  using assms
  by (auto simp: refuses_negative_def scan_board_def board_tuple_def col_def split: sum.split)
    (metis diff_less_0_iff_less Inl_Inr_False)

lemma leader_board_fails_when_a_rank_falls:
  assumes "refuses_negative S" "prev < cur"
    and "board_tuple pid exchange vol prev cur invited wallet \<in> set rows"
    and "\<And>h c. a_reply (E h c) = BRows [(VList rows, '''')]"
  shows "\<exists>e ans h'. run E (HandleGetLeaderBoard S ctx (Inr rng)) h = ((Respond (Failure e), ans) # h', Done ())"
proof -
  obtain e where "scan_rows (scan_board S) rows = Inl e"
    using scan_board_falling [OF assms(1,2)] assms(3) scan_rows_Inl [of "scan_board S" rows] by blast
  then show ?thesis
    by (simp add: HandleGetLeaderBoard_def bindJSON_def onErr_def sql_query_def read_rows_def result_set_def assms(4)
        ErrorResponse_def respond_def)
qed

end
