(* ===== verification/Float64_Round.thy ===== *)
theory Float64_Round
  imports Float64
begin

text \<open>
  Order facts on the rounding of Go's \<^verbatim>\<open>float64\<close>: the binade of a magnitude encloses it,
  rounding is monotone and leaves representable magnitudes alone. So an operation whose exact
  result lies between two \<^verbatim>\<open>float64\<close> values has its rounded result between them too.
\<close>

section \<open>The binade of a magnitude\<close>

lemma ilog2_bounds:
  assumes "1 \<le> n"
  shows "2 ^ nat (ilog2 n) \<le> n \<and> n < 2 ^ (nat (ilog2 n) + 1) \<and> 0 \<le> ilog2 n"
  using assms
proof (induction n rule: ilog2.induct)
  case (1 n)
  show ?case
  proof (cases "n < 2")
    case True
    then show ?thesis
      using 1 by (simp add: ilog2.simps)
  next
    case False
    then have ih: "2 ^ nat (ilog2 (n div 2)) \<le> n div 2"
      "n div 2 < 2 ^ (nat (ilog2 (n div 2)) + 1)" "0 \<le> ilog2 (n div 2)"
      using 1 by auto
    have i: "ilog2 n = 1 + ilog2 (n div 2)"
      using False by (subst ilog2.simps) simp
    have e: "nat (ilog2 n) = nat (ilog2 (n div 2)) + 1"
      using i ih(3) by simp
    define p where "p = (2 :: int) ^ nat (ilog2 (n div 2))"
    have "p \<le> n div 2" "n div 2 < 2 * p"
      using ih(1,2) by (simp_all add: p_def)
    then have "2 * p \<le> n \<and> n < 4 * p"
      by linarith
    then show ?thesis
      using ih(3) unfolding e by (simp add: i p_def)
  qed
qed

lemma pow2_pos [simp]: "0 < pow2 i"
  by (simp add: pow2_def)

lemma pow2_nonneg [simp]: "0 \<le> pow2 i"
  using pow2_pos [of i] by (rule less_imp_le)

lemma pow2_nonzero [simp]: "pow2 i \<noteq> 0"
  by (simp add: pow2_def)

lemma pow2_powi: "pow2 i = 2 powi i"
  by (simp add: pow2_def power_int_def field_simps)

lemma pow2_add: "pow2 (i + j) = pow2 i * pow2 j"
  by (simp add: pow2_powi power_int_add)

lemma pow2_diff: "pow2 (i - j) = pow2 i / pow2 j"
  by (simp add: pow2_powi power_int_diff)

lemma pow2_mono: "i \<le> j \<Longrightarrow> pow2 i \<le> pow2 j"
  unfolding pow2_powi by (rule power_int_increasing) auto

lemma pow2_less_iff: "pow2 i < pow2 j \<longleftrightarrow> i < j"
  using power_int_strict_increasing [of i j "2 :: rat"] pow2_mono [of j i]
  by (auto simp: pow2_powi not_less [symmetric])

lemma pow2_nat: "pow2 (int n) = 2 ^ n"
  by (simp add: pow2_def)

lemma pow2_of_nat_int: "0 \<le> i \<Longrightarrow> pow2 i = of_int (2 ^ nat i)"
  by (simp add: pow2_def)

lemma binade_bounds:
  assumes "0 < m"
  shows "pow2 (binade m) \<le> m" "m < pow2 (binade m + 1)"
proof -
  have "pow2 (binade m) \<le> m \<and> m < pow2 (binade m + 1)"
  proof (cases "1 \<le> m")
    case True
    define n where "n = floor m"
    define k where "k = nat (ilog2 n)"
    have n: "1 \<le> n"
      using True by (simp add: n_def le_floor_iff)
    have b: "2 ^ k \<le> n" "n < 2 ^ (k + 1)" "0 \<le> ilog2 n"
      using ilog2_bounds [OF n] unfolding k_def by auto
    have e: "binade m = int k"
      using True b(3) by (simp add: binade_def n_def k_def)
    have "(of_int (2 ^ k) :: rat) \<le> m"
      using b(1) unfolding n_def by (simp add: le_floor_iff)
    moreover have "m < of_int (2 ^ (k + 1))"
      using b(2) unfolding n_def by (simp add: floor_less_iff)
    moreover have "pow2 (int k + 1) = 2 ^ (k + 1)"
      using pow2_nat [of "k + 1"] by (simp add: add.commute)
    ultimately show ?thesis
      unfolding e by (simp add: pow2_nat)
  next
    case False
    define n where "n = ceiling (1 / m) - 1"
    define k where "k = nat (ilog2 n)"
    have inv: "1 < 1 / m"
      using False assms by (simp add: field_simps)
    then have n: "1 \<le> n"
      using less_ceiling_iff [of 1 "1 / m"] unfolding n_def by simp
    have b: "2 ^ k \<le> n" "n < 2 ^ (k + 1)" "0 \<le> ilog2 n"
      using ilog2_bounds [OF n] unfolding k_def by auto
    have e: "binade m = - (int k + 1)"
      using False b(3) by (simp add: binade_def n_def k_def)
    have "2 ^ k < ceiling (1 / m)"
      using b(1) by (simp add: n_def)
    then have lo: "2 ^ k < 1 / m"
      by (simp add: less_ceiling_iff)
    have "ceiling (1 / m) \<le> 2 ^ (k + 1)"
      using b(2) by (simp add: n_def)
    then have hi: "1 / m \<le> 2 ^ (k + 1)"
      by (simp add: ceiling_le_iff)
    have p1: "pow2 (- (int k + 1)) = 1 / 2 ^ (k + 1)"
      by (simp add: pow2_def nat_add_distrib)
    have p2: "pow2 (- (int k + 1) + 1) = 1 / 2 ^ k"
      by (simp add: pow2_def)
    show ?thesis
      unfolding e p1 p2 using lo hi assms by (simp add: field_simps)
  qed
  then show "pow2 (binade m) \<le> m" "m < pow2 (binade m + 1)"
    by auto
qed

lemma binade_mono:
  assumes "0 < x" "x \<le> y"
  shows "binade x \<le> binade y"
proof -
  have "pow2 (binade x) \<le> x" "y < pow2 (binade y + 1)"
    using binade_bounds [of x] binade_bounds [of y] assms by auto
  then have "pow2 (binade x) < pow2 (binade y + 1)"
    using assms by linarith
  then show ?thesis
    by (simp add: pow2_less_iff)
qed

section \<open>Rounding to the nearest integer\<close>

lemma round_half_even_of_int [simp]: "round_half_even (of_int k) = k"
  by (simp add: round_half_even_def)

lemma round_half_even_floor: "floor x \<le> round_half_even x" "round_half_even x \<le> floor x + 1"
  by (auto simp: round_half_even_def Let_def)

lemma round_half_even_mono:
  assumes "x \<le> y"
  shows "round_half_even x \<le> round_half_even y"
proof (cases "floor x = floor y")
  case True
  then show ?thesis
    using assms by (auto simp: round_half_even_def Let_def)
next
  case False
  then have "floor x + 1 \<le> floor y"
    using floor_mono [OF assms] by linarith
  then show ?thesis
    using round_half_even_floor(2) [of x] round_half_even_floor(1) [of y] by linarith
qed

lemma round_half_even_le: "x \<le> of_int k \<Longrightarrow> round_half_even x \<le> k"
  using round_half_even_mono [of x "of_int k"] by simp

lemma round_half_even_ge: "of_int k \<le> x \<Longrightarrow> k \<le> round_half_even x"
  using round_half_even_mono [of "of_int k" x] by simp

section \<open>Rounding a magnitude\<close>

lemma unit_exponent_mono: "0 < x \<Longrightarrow> x \<le> y \<Longrightarrow> unit_exponent x \<le> unit_exponent y"
  using binade_mono [of x y] by (auto simp: unit_exponent_def)

lemma magnitude_below_unit:
  assumes "0 < m"
  shows "m < pow2 (unit_exponent m + 53)"
proof -
  have "pow2 (binade m + 1) \<le> pow2 (unit_exponent m + 53)"
    by (rule pow2_mono) (auto simp: unit_exponent_def)
  then show ?thesis
    using binade_bounds(2) [OF assms] by linarith
qed

lemma pow2_53: "pow2 (u + 53) = of_int (2 ^ 53) * pow2 u" "pow2 (u + 52) = of_int (2 ^ 52) * pow2 u"
  by (simp_all add: pow2_add, simp_all add: pow2_def)

lemma unit_scale_le: "q \<le> k \<Longrightarrow> of_int q * pow2 u \<le> of_int k * pow2 u"
  by (rule mult_right_mono) (simp_all add: of_int_le_iff)

lemma unit_scale_less: "q < k \<Longrightarrow> of_int q * pow2 u < of_int k * pow2 u"
  by (rule mult_strict_right_mono) (simp_all add: of_int_less_iff)

lemma round_magnitude_le_unit:
  assumes "0 < m"
  shows "round_half_even (m / pow2 (unit_exponent m)) \<le> 2 ^ 53"
    "round_magnitude m \<le> pow2 (unit_exponent m + 53)"
proof -
  show q: "round_half_even (m / pow2 (unit_exponent m)) \<le> 2 ^ 53"
    using magnitude_below_unit [OF assms] unfolding pow2_53
    by (intro round_half_even_le) (simp add: pos_divide_le_eq)
  show "round_magnitude m \<le> pow2 (unit_exponent m + 53)"
    using unit_scale_le [OF q] assms unfolding round_magnitude_def pow2_53(1) by auto
qed

lemma round_magnitude_0 [simp]: "round_magnitude 0 = 0"
  by (simp add: round_magnitude_def)

lemma round_magnitude_nonneg: "0 \<le> m \<Longrightarrow> 0 \<le> round_magnitude m"
  using round_half_even_ge [of 0 "m / pow2 (unit_exponent m)"]
  by (simp add: round_magnitude_def)

lemma round_magnitude_ge_normal:
  assumes "0 < m" "- 1022 \<le> binade m"
  shows "pow2 (unit_exponent m + 52) \<le> round_magnitude m"
proof -
  have e: "unit_exponent m + 52 = binade m"
    using assms(2) by (simp add: unit_exponent_def)
  have "pow2 (unit_exponent m + 52) \<le> m"
    using binade_bounds(1) [OF assms(1)] unfolding e .
  then have "2 ^ 52 \<le> round_half_even (m / pow2 (unit_exponent m))"
    unfolding pow2_53(2) by (intro round_half_even_ge) (simp add: pos_le_divide_eq)
  from unit_scale_le [OF this] show ?thesis
    using assms(1) unfolding round_magnitude_def pow2_53(2) by auto
qed

lemma round_magnitude_mono:
  assumes "0 \<le> x" "x \<le> y"
  shows "round_magnitude x \<le> round_magnitude y"
proof (cases "x = 0")
  case True
  then show ?thesis
    using round_magnitude_nonneg [of y] assms by (simp add: round_magnitude_def)
next
  case False
  then have x: "0 < x" and y: "0 < y"
    using assms by auto
  show ?thesis
  proof (cases "unit_exponent x = unit_exponent y")
    case True
    have "round_half_even (x / pow2 (unit_exponent y)) \<le> round_half_even (y / pow2 (unit_exponent y))"
      using assms by (intro round_half_even_mono divide_right_mono) auto
    then show ?thesis
      using x y True by (simp add: round_magnitude_def)
  next
    case False
    then have u: "unit_exponent x + 1 \<le> unit_exponent y"
      using unit_exponent_mono [OF x assms(2)] by linarith
    then have "- 1022 \<le> binade y"
      by (auto simp: unit_exponent_def split: if_splits)
    then have "pow2 (unit_exponent y + 52) \<le> round_magnitude y"
      by (rule round_magnitude_ge_normal [OF y])
    moreover have "pow2 (unit_exponent x + 53) \<le> pow2 (unit_exponent y + 52)"
      using u by (intro pow2_mono) auto
    ultimately show ?thesis
      using round_magnitude_le_unit(2) [OF x] by linarith
  qed
qed

section \<open>Representable magnitudes\<close>

lemma round_magnitude_exact:
  assumes "0 \<le> q" "unit_exponent (of_int q * pow2 u) \<le> u"
  shows "round_magnitude (of_int q * pow2 u) = of_int q * pow2 u"
proof (cases "q = 0")
  case True
  then show ?thesis
    by (simp add: round_magnitude_def)
next
  case False
  define r where "r = of_int q * pow2 u"
  define w where "w = unit_exponent r"
  have w: "w \<le> u"
    using assms(2) by (simp add: w_def r_def)
  define k where "k = q * 2 ^ nat (u - w)"
  have k: "r / pow2 w = of_int k"
    using pow2_diff [of u w] w by (simp add: r_def k_def pow2_def [of "u - w"])
  have "r \<noteq> 0"
    using False by (simp add: r_def)
  then have "round_magnitude r = of_int (round_half_even (r / pow2 w)) * pow2 w"
    by (simp add: round_magnitude_def w_def)
  also have "\<dots> = r / pow2 w * pow2 w"
    unfolding k by simp
  finally have "round_magnitude r = r / pow2 w * pow2 w" .
  then show ?thesis
    by (simp add: r_def)
qed

lemma binade_unique:
  assumes "pow2 b \<le> m" "m < pow2 (b + 1)"
  shows "binade m = b"
proof -
  have m: "0 < m"
    using assms(1) pow2_pos [of b] by linarith
  have "pow2 b < pow2 (binade m + 1)" "pow2 (binade m) < pow2 (b + 1)"
    using binade_bounds [OF m] assms by linarith+
  then show ?thesis
    by (simp add: pow2_less_iff)
qed

lemma binade_pow2 [simp]: "binade (pow2 b) = b"
  by (rule binade_unique) (simp_all add: pow2_less_iff)

lemma round_magnitude_idem:
  assumes "0 \<le> m"
  shows "round_magnitude (round_magnitude m) = round_magnitude m"
proof (cases "m = 0")
  case True
  then show ?thesis
    by (simp add: round_magnitude_def)
next
  case False
  then have m: "0 < m"
    using assms by simp
  define u where "u = unit_exponent m"
  define q where "q = round_half_even (m / pow2 u)"
  have r: "round_magnitude m = of_int q * pow2 u"
    using False by (simp add: round_magnitude_def u_def q_def)
  have q: "0 \<le> q" "q \<le> 2 ^ 53"
    using round_half_even_ge [of 0 "m / pow2 u"] round_magnitude_le_unit(1) [OF m] assms
    by (auto simp: q_def u_def)
  show ?thesis
  proof (cases "q = 0 \<or> q < 2 ^ 53")
    case True
    have "unit_exponent (of_int q * pow2 u) \<le> u" if "0 < q"
    proof -
      have "0 < of_int q * pow2 u"
        using that by simp
      moreover have "of_int q * pow2 u < pow2 (u + 53)"
        using True that unfolding pow2_53(1) by (intro unit_scale_less) auto
      ultimately have "pow2 (binade (of_int q * pow2 u)) < pow2 (u + 53)"
        using binade_bounds(1) by fastforce
      then have "binade (of_int q * pow2 u) \<le> u + 52"
        by (simp add: pow2_less_iff)
      moreover have "- 1074 \<le> u"
        by (simp add: u_def unit_exponent_def)
      ultimately show ?thesis
        by (simp add: unit_exponent_def)
    qed
    then have "unit_exponent (of_int q * pow2 u) \<le> u" if "q \<noteq> 0"
      using that q(1) by simp
    then have "round_magnitude (of_int q * pow2 u) = of_int q * pow2 u"
      using round_magnitude_exact [OF q(1), of u] by (cases "q = 0") (simp_all add: round_magnitude_def)
    then show ?thesis
      unfolding r .
  next
    case full: False
    then have "of_int q * pow2 u = pow2 (u + 53)"
      using q(2) unfolding pow2_53 by simp
    moreover have "pow2 (u + 53) = of_int (2 ^ 52) * pow2 (u + 1)"
      using pow2_53(2) [of "u + 1"] by (simp add: add.commute add.left_commute)
    moreover have "unit_exponent (pow2 (u + 53)) = u + 1"
      by (simp add: unit_exponent_def u_def)
    ultimately show ?thesis
      using round_magnitude_exact [of "2 ^ 52" "u + 1"] by (simp add: r)
  qed
qed

lemma round_magnitude_double:
  assumes "0 \<le> m" "round_magnitude m = m"
  shows "round_magnitude (2 * m) = 2 * m"
proof (cases "m = 0")
  case True
  then show ?thesis
    by (simp add: round_magnitude_def)
next
  case False
  then have m: "0 < m"
    using assms by simp
  define u where "u = unit_exponent m"
  define q where "q = round_half_even (m / pow2 u)"
  have r: "m = of_int q * pow2 u"
    using assms(2) False by (simp add: round_magnitude_def u_def q_def)
  have d: "2 * m = of_int q * pow2 (u + 1)"
    by (subst r) (simp add: pow2_add, simp add: pow2_def)
  have "binade (2 * m) = binade m + 1"
    using binade_bounds [OF m] by (intro binade_unique) (simp_all add: pow2_add, simp_all add: pow2_def)
  then have "unit_exponent (2 * m) \<le> u + 1"
    by (simp add: unit_exponent_def u_def)
  moreover have "0 \<le> q"
    using round_half_even_ge [of 0 "m / pow2 u"] assms(1) by (simp add: q_def)
  ultimately show ?thesis
    using round_magnitude_exact [of q "u + 1"] by (simp add: d)
qed

section \<open>Values\<close>

text \<open>
  The values a \<^verbatim>\<open>float64\<close> variable can hold: the magnitude of a finite one is its own
  rounding and below \<^verbatim>\<open>2^1024\<close>.
\<close>

fun is_float64 :: "f64 \<Rightarrow> bool" where
  "is_float64 (Finite s m) \<longleftrightarrow> 0 \<le> m \<and> round_magnitude m = m \<and> m < pow2 1024"
| "is_float64 _ \<longleftrightarrow> True"

fun is_finite :: "f64 \<Rightarrow> bool" where
  "is_finite (Finite s m) \<longleftrightarrow> True"
| "is_finite _ \<longleftrightarrow> False"

definition round_val :: "rat \<Rightarrow> rat" where
  "round_val v = (if v < 0 then - round_magnitude (- v) else round_magnitude v)"

lemma round_val_mono: "v \<le> w \<Longrightarrow> round_val v \<le> round_val w"
proof -
  assume "v \<le> w"
  then show ?thesis
    using round_magnitude_mono [of v w] round_magnitude_mono [of "- w" "- v"]
      round_magnitude_nonneg [of w] round_magnitude_nonneg [of "- v"]
    by (auto simp: round_val_def)
qed

lemma round_val_zero [simp]: "round_val 0 = 0"
  by (simp add: round_val_def round_magnitude_def)

lemma round_val_float64:
  "is_float64 (Finite s m) \<Longrightarrow> round_val (f64_val (Finite s m)) = f64_val (Finite s m)"
  by (auto simp: round_val_def)

lemma round_val_double:
  assumes "is_float64 (Finite s m)"
  shows "round_val (2 * f64_val (Finite s m)) = 2 * f64_val (Finite s m)"
  using round_magnitude_double [of m] assms by (auto simp: round_val_def)

lemma rounded_in_range:
  assumes "0 < m" "v = (if s then - m else m)" "- pow2 1024 < round_val v" "round_val v < pow2 1024"
  shows "\<exists>t r. rounded s m = Finite t r \<and> f64_val (Finite t r) = round_val v"
  using assms by (cases s) (auto simp: rounded_def round_val_def Let_def)

lemma f64_nearest_in_range:
  assumes "- pow2 1024 < round_val v" "round_val v < pow2 1024"
  shows "\<exists>s m. f64_nearest z v = Finite s m \<and> f64_val (Finite s m) = round_val v"
proof (cases "v = 0")
  case True
  then show ?thesis
    by (auto simp: f64_nearest_def)
next
  case False
  then have "0 < \<bar>v\<bar>" "v = (if v < 0 then - \<bar>v\<bar> else \<bar>v\<bar>)"
    by auto
  from rounded_in_range [OF this assms] False show ?thesis
    by (simp add: f64_nearest_def)
qed

lemma is_float64_rounded: "0 \<le> m \<Longrightarrow> is_float64 (rounded s m)"
  by (auto simp: rounded_def Let_def round_magnitude_idem round_magnitude_nonneg)

lemma is_float64_nearest [simp]: "is_float64 (f64_nearest z v)"
  by (auto simp: f64_nearest_def is_float64_rounded round_magnitude_def)

lemma is_float64_add [simp]: "is_float64 (f64_add x y)"
  by (cases "(x, y)" rule: f64_add.cases) auto

lemma is_float64_neg [simp]: "is_float64 (f64_neg x) \<longleftrightarrow> is_float64 x"
  by (cases x) auto

lemma is_float64_sub [simp]: "is_float64 (f64_sub x y)"
  by (simp add: f64_sub_def)

lemma is_float64_mul: "is_float64 x \<Longrightarrow> is_float64 y \<Longrightarrow> is_float64 (f64_mul x y)"
  by (cases "(x, y)" rule: f64_mul.cases) (auto simp: is_float64_rounded round_magnitude_def)

lemma is_float64_div: "is_float64 x \<Longrightarrow> is_float64 y \<Longrightarrow> is_float64 (f64_div x y)"
  by (cases "(x, y)" rule: f64_div.cases) (auto simp: is_float64_rounded round_magnitude_def)

lemma is_float64_of_int [simp]: "is_float64 (f64_of_int n)"
  by (simp add: f64_of_int_def)

lemma f64_lit_2: "f64_lit 2 = Finite False 2"
  by (simp add: f64_eval)

lemma f64_le_finite:
  "f64_le (Finite s m) (Finite t n) \<longleftrightarrow> f64_val (Finite s m) \<le> f64_val (Finite t n)"
  by (auto simp: f64_le_def)

section \<open>The middle of two values\<close>

text \<open>
  \<^verbatim>\<open>(x + y) / 2\<close> lies between the bounds of \<^verbatim>\<open>x\<close> and \<^verbatim>\<open>y\<close> as long as the sum cannot overflow.
\<close>

lemma f64_middle_between:
  assumes "is_float64 lo" "is_float64 hi" "is_finite lo" "is_finite hi"
    and range: "- pow2 1023 < f64_val lo" "f64_val hi < pow2 1023"
    and x: "f64_le lo x" "f64_le x hi" and y: "f64_le lo y" "f64_le y hi"
  shows "f64_le lo (f64_div (f64_add x y) (f64_lit 2)) \<and> f64_le (f64_div (f64_add x y) (f64_lit 2)) hi"
proof -
  obtain sl ml sh mh where l: "lo = Finite sl ml" and h: "hi = Finite sh mh"
    using assms(3,4) by (cases lo; cases hi) auto
  obtain sx mx where fx: "x = Finite sx mx"
    using x l h by (cases x) (auto simp: f64_le_def split: if_splits)
  obtain sy my where fy: "y = Finite sy my"
    using y l h by (cases y) (auto simp: f64_le_def split: if_splits)
  define v where "v = f64_val x + f64_val y"
  have v: "2 * f64_val lo \<le> v" "v \<le> 2 * f64_val hi"
    using x y unfolding l h fx fy f64_le_finite by (simp_all add: v_def fx fy)
  have top: "pow2 1024 = 2 * pow2 1023"
    by (simp add: pow2_add [of 1023 1, simplified] , simp add: pow2_def)
  have rv: "2 * f64_val lo \<le> round_val v" "round_val v \<le> 2 * f64_val hi"
    using round_val_mono [OF v(1)] round_val_mono [OF v(2)] assms(1,2)
    by (simp_all add: l h round_val_double del: f64_val.simps is_float64.simps)
  then have "- pow2 1024 < round_val v" "round_val v < pow2 1024"
    using range unfolding top by linarith+
  then obtain s m where sum: "f64_add x y = Finite s m" "f64_val (Finite s m) = round_val v"
    using f64_nearest_in_range [of v "sx \<and> sy"] unfolding v_def fx fy by auto
  define w where "w = round_val v / 2"
  have w: "f64_val lo \<le> w" "w \<le> f64_val hi"
    using rv by (simp_all add: w_def)
  have rw: "f64_val lo \<le> round_val w" "round_val w \<le> f64_val hi"
    using round_val_mono [OF w(1)] round_val_mono [OF w(2)] assms(1,2)
    by (simp_all add: l h round_val_float64 del: f64_val.simps is_float64.simps)
  have "0 \<le> m"
    using is_float64_add [of x y] by (simp add: sum)
  have in_range: "- pow2 1024 < round_val w" "round_val w < pow2 1024"
    using rw range pow2_pos [of 1023] unfolding top by linarith+
  have w_half: "w = (if s then - (m / 2) else m / 2)"
    using sum(2) by (auto simp: w_def)
  have "\<exists>t n. f64_div (Finite s m) (f64_lit 2) = Finite t n \<and> f64_val (Finite t n) = round_val w"
  proof (cases "m = 0")
    case True
    then show ?thesis
      using w_half by (auto simp: f64_lit_2)
  next
    case False
    then have "0 < m / 2"
      using \<open>0 \<le> m\<close> by simp
    from rounded_in_range [OF this w_half in_range] False show ?thesis
      by (simp add: f64_lit_2)
  qed
  then show ?thesis
    using rw unfolding sum l h by (auto simp: f64_le_finite simp del: f64_val.simps)
qed

end
