(* ===== verification/Pricing_Market.thy ===== *)
theory Pricing_Market
  imports Float64_Round "HOL-Library.Multiset"
begin

text \<open>
  \<^verbatim>\<open>pricing/market_price_service.go\<close>: the service of one market. It receives a batch of prices
  of the market, one of each source that has a fresh one, combines them with the last accepted
  price into a new price and sends it to the database through the \<^verbatim>\<open>PriceReceiver\<close>.

  The three buffers of the service are work space: \<open>allData\<close> and \<open>useableData\<close> are rewritten
  before they are read, and appending beyond their capacity allocates a new array; only
  \<open>scratch\<close> is sliced to a length, so its capacity is part of the state.
\<close>

section \<open>Data\<close>

definition FIVE_PERCENT :: f64 where
  "FIVE_PERCENT = f64_lit (5 / 100)"

definition TEN_PERCENT :: f64 where
  "TEN_PERCENT = f64_lit (1 / 10)"

definition MAX_REJECTED_RUN_LENGTH :: "64 word" where
  "MAX_REJECTED_RUN_LENGTH = 10"

record market_price_service =
  mps_market :: string
  mps_most_recent :: f64
  mps_rejected_run :: "64 word"
  mps_scratch_cap :: nat

datatype price_error =
    InconsistentData string f64
  | NoUseableData
  | PriceJump string f64 f64 "64 word"
  | ReceiverError string

type_synonym 'a pricing = "(price_error, 'a) go"

abbreviation f64_zero :: f64 where
  "f64_zero \<equiv> Finite False 0"

definition new_market_price_service :: "string \<Rightarrow> nat \<Rightarrow> market_price_service" where
  "new_market_price_service market numSources =
     \<lparr> mps_market = market, mps_most_recent = f64_zero, mps_rejected_run = 0,
       mps_scratch_cap = numSources + 1 \<rparr>"

section \<open>Combining the prices of a batch\<close>

definition close_enough :: "f64 \<Rightarrow> f64 \<Rightarrow> f64 \<Rightarrow> bool" where
  "close_enough value target tolerance =
     (if f64_eq target f64_zero then f64_eq value f64_zero
      else let diff = f64_div (f64_sub value target) target;
               diff = (if f64_lt diff f64_zero then f64_neg diff else diff)
           in f64_le diff tolerance)"

text \<open>The order of \<^verbatim>\<open>sort.Float64s\<close>: not-a-number values come first.\<close>

definition float_less :: "f64 \<Rightarrow> f64 \<Rightarrow> bool" where
  "float_less x y \<longleftrightarrow> f64_lt x y \<or> (x = NaN \<and> y \<noteq> NaN)"

fun insert_float :: "f64 \<Rightarrow> f64 list \<Rightarrow> f64 list" where
  "insert_float x [] = [x]"
| "insert_float x (y # ys) = (if float_less x y then x # y # ys else y # insert_float x ys)"

definition sort_floats :: "f64 list \<Rightarrow> f64 list" where
  "sort_floats xs = fold insert_float xs []"

definition median :: "market_price_service \<Rightarrow> f64 list \<Rightarrow> f64 pricing" where
  "median mps values =
     (if mps_scratch_cap mps < length values then Inl (Crash ''slice bounds out of range'')
      else let scratch = sort_floats values; l = length values
           in if l = 0 then Inr f64_zero
              else if l mod 2 = 0
              then Inr (f64_div (f64_add (scratch ! (l div 2 - 1)) (scratch ! (l div 2))) (f64_lit 2))
              else Inr (scratch ! (l div 2)))"

fun two_close :: "f64 \<Rightarrow> nat \<Rightarrow> f64 list \<Rightarrow> bool" where
  "two_close median1 seen [] = False"
| "two_close median1 seen (v # vs) =
     (if close_enough v median1 FIVE_PERCENT
      then (if 2 \<le> seen + 1 then True else two_close median1 (seen + 1) vs)
      else two_close median1 seen vs)"

definition check_data_consistency :: "market_price_service \<Rightarrow> f64 list \<Rightarrow> (f64 \<times> bool) pricing" where
  "check_data_consistency mps values =
     (case median mps values of
        Inl e \<Rightarrow> Inl e
      | Inr median1 \<Rightarrow>
          if length values < 2 then Inr (median1, True)
          else Inr (median1, two_close median1 0 values))"

definition get_combined_price :: "market_price_service \<Rightarrow> f64 list \<Rightarrow> (f64 \<times> nat) pricing" where
  "get_combined_price mps inputPrices =
     (let fresh = f64_eq (mps_most_recent mps) f64_zero;
          available = (if fresh then inputPrices else mps_most_recent mps # inputPrices);
          checked =
            (if 1 < length inputPrices
             then case check_data_consistency mps available of
                    Inl e \<Rightarrow> Inl e
                  | Inr (m, c) \<Rightarrow>
                      if \<not> c \<and> \<not> fresh then check_data_consistency mps (tl available)
                      else Inr (m, c)
             else Inr (f64_zero, True))
      in case checked of
           Inl e \<Rightarrow> Inl e
         | Inr (median1, consistent) \<Rightarrow>
             if \<not> consistent then Inl (Err (InconsistentData (mps_market mps) median1))
             else let raw = (if fresh then available else tl available);
                      useable = filter (\<lambda>p. length inputPrices = 1
                                            \<or> close_enough p median1 FIVE_PERCENT) raw
                  in if useable = [] then Inl (Err NoUseableData)
                     else case median mps useable of
                            Inl e \<Rightarrow> Inl e
                          | Inr p \<Rightarrow> Inr (p, length useable))"

section \<open>Accepting a price\<close>

definition process_inputs ::
    "market_price_service \<Rightarrow> f64 list \<Rightarrow> market_price_service \<times> (f64 \<times> nat) pricing" where
  "process_inputs mps inputPrices =
     (case get_combined_price mps inputPrices of
        Inl e \<Rightarrow> (mps, Inl e)
      | Inr (latest, numSources) \<Rightarrow>
          if f64_eq (mps_most_recent mps) f64_zero
             \<or> MAX_REJECTED_RUN_LENGTH < mps_rejected_run mps
             \<or> close_enough latest (mps_most_recent mps) TEN_PERCENT
          then (mps\<lparr>mps_most_recent := latest, mps_rejected_run := 0\<rparr>, Inr (latest, numSources))
          else let run = mps_rejected_run mps + 1
               in (mps\<lparr>mps_rejected_run := run\<rparr>,
                   Inl (Err (PriceJump (mps_market mps) (mps_most_recent mps) latest run))))"

text \<open>
  The calls of \<^verbatim>\<open>UpdateIndexPrice\<close> are the output; \<open>reply\<close> is the error the receiver answers.
\<close>

definition update_model_price ::
    "string option \<Rightarrow> market_price_service \<Rightarrow> f64 list
     \<Rightarrow> market_price_service \<times> (string \<times> f64) list \<times> unit pricing" where
  "update_model_price reply mps inputPrices =
     (case process_inputs mps inputPrices of
        (mps', Inl e) \<Rightarrow> (mps', [], Inl e)
      | (mps', Inr (price, numSources)) \<Rightarrow>
          (mps', [(mps_market mps', price)],
           case reply of Some err \<Rightarrow> Inl (Err (ReceiverError err)) | None \<Rightarrow> Inr ()))"

text \<open>
  The loop of the service's goroutine over what its \<^verbatim>\<open>select\<close> yields: a batch of the channel
  (with the receiver's reply to a call it may cause), the closed channel or the end of the
  context. The error of an update is logged and dropped; a panic ends the process.
\<close>

datatype price_event = PriceBatch "f64 list" "string option" | PriceChanClosed | PriceCtxDone

fun price_updater ::
    "market_price_service \<Rightarrow> price_event list
     \<Rightarrow> market_price_service \<times> (string \<times> f64) list \<times> unit pricing" where
  "price_updater mps [] = (mps, [], Inr ())"
| "price_updater mps (PriceCtxDone # es) = (mps, [], Inr ())"
| "price_updater mps (PriceChanClosed # es) = (mps, [], Inr ())"
| "price_updater mps (PriceBatch inputPrices reply # es) =
     (case update_model_price reply mps inputPrices of
        (mps', calls, Inl (Crash msg)) \<Rightarrow> (mps', calls, Inl (Crash msg))
      | (mps', calls, _) \<Rightarrow>
          (case price_updater mps' es of (mps'', calls', r) \<Rightarrow> (mps'', calls @ calls', r)))"

section \<open>Sorting\<close>

lemma mset_insert_float [simp]: "mset (insert_float x ys) = add_mset x (mset ys)"
  by (induction ys) auto

lemma mset_fold_insert: "mset (fold insert_float xs acc) = mset xs + mset acc"
  by (induction xs arbitrary: acc) auto

lemma mset_sort_floats [simp]: "mset (sort_floats xs) = mset xs"
  by (simp add: sort_floats_def mset_fold_insert)

lemma length_sort_floats [simp]: "length (sort_floats xs) = length xs"
  by (metis mset_sort_floats size_mset)

lemma set_sort_floats [simp]: "set (sort_floats xs) = set xs"
  by (metis mset_sort_floats set_mset_mset)

lemma float_less_trans: "float_less x y \<Longrightarrow> float_less y z \<Longrightarrow> float_less x z"
  by (cases x; cases y; cases z) (auto simp: float_less_def split: if_splits)

lemma float_less_asym: "float_less x y \<Longrightarrow> \<not> float_less y x"
  by (cases x; cases y) (auto simp: float_less_def split: if_splits)

lemma not_float_less_trans: "\<not> float_less y x \<Longrightarrow> \<not> float_less z y \<Longrightarrow> \<not> float_less z x"
  by (cases x; cases y; cases z) (auto simp: float_less_def split: if_splits)

abbreviation sorted_floats :: "f64 list \<Rightarrow> bool" where
  "sorted_floats \<equiv> sorted_wrt (\<lambda>x y. \<not> float_less y x)"

lemma set_insert_float [simp]: "set (insert_float x ys) = insert x (set ys)"
  by (induction ys) auto

lemma sorted_insert_float: "sorted_floats ys \<Longrightarrow> sorted_floats (insert_float x ys)"
proof (induction ys)
  case (Cons y ys)
  show ?case
  proof (cases "float_less x y")
    case True
    then have "\<not> float_less z x" if "z \<in> set (y # ys)" for z
      using that Cons.prems float_less_asym not_float_less_trans [of y x z]
      by (auto intro: not_float_less_trans)
    then show ?thesis
      using True Cons.prems by auto
  qed (use Cons in auto)
qed simp

lemma sorted_fold_insert: "sorted_floats acc \<Longrightarrow> sorted_floats (fold insert_float xs acc)"
  by (induction xs arbitrary: acc) (auto simp: sorted_insert_float)

lemma sorted_sort_floats: "sorted_floats (sort_floats xs)"
  by (simp add: sort_floats_def sorted_fold_insert)

end
