(* ===== verification/Pricing_Sources.thy ===== *)
theory Pricing_Sources
  imports Pricing_Market Go_Types
begin

text \<open>
  The package \<^verbatim>\<open>pricing/sources\<close>, the part every exchange shares: the latest price of each market
  (\<^verbatim>\<open>utils.go\<close>), the aggregator that sends the fresh prices of a market to its service
  (\<^verbatim>\<open>aggregator.go\<close>) and the registry of the exchanges (\<^verbatim>\<open>source_factory.go\<close>).
\<close>

section \<open>Times\<close>

text \<open>
  A \<^verbatim>\<open>time.Time\<close> is the number of nanoseconds since its zero value, the first of January of
  year 1; a \<^verbatim>\<open>time.Duration\<close> is a number of nanoseconds in the range of \<^verbatim>\<open>int64\<close>, and the
  difference of two times saturates there.
\<close>

type_synonym go_time = int
type_synonym duration = int

definition int64_wrap :: "int \<Rightarrow> int" where
  "int64_wrap n = sint (word_of_int n :: 64 word)"

definition max_duration :: duration where "max_duration = 2 ^ 63 - 1"
definition min_duration :: duration where "min_duration = - (2 ^ 63)"

definition time_sub :: "go_time \<Rightarrow> go_time \<Rightarrow> duration" where
  "time_sub t u = max min_duration (min max_duration (t - u))"

definition time_Unix :: "int \<Rightarrow> int \<Rightarrow> go_time" where
  "time_Unix secs nanos = (secs + 62135596800) * 10 ^ 9 + nanos"

abbreviation (input) second :: duration where "second \<equiv> 10 ^ 9"
abbreviation (input) minute :: duration where "minute \<equiv> 60 * 10 ^ 9"

section \<open>The latest prices of an exchange\<close>

definition NO_PRICE_DATA :: string where "NO_PRICE_DATA = ''NO_PRICE_DATA''"

record ticker =
  tk_ExchangeId :: string
  tk_InstId :: string
  tk_Network :: string
  tk_MaxUseAge :: string
  tk_ReconnectAge :: string

record price_time =
  pt_price :: f64
  pt_time :: go_time

definition no_price_time :: price_time where
  "no_price_time = \<lparr> pt_price = f64_zero, pt_time = 0 \<rparr>"

text \<open>\<^verbatim>\<open>pt != PriceTime{}\<close>\<close>

definition is_no_price_time :: "price_time \<Rightarrow> bool" where
  "is_no_price_time pt \<longleftrightarrow> f64_eq (pt_price pt) f64_zero \<and> pt_time pt = 0"

text \<open>
  The \<^verbatim>\<open>sync.Map\<close> of an exchange. Only \<open>store\<close> writes it, so each value is an \<^verbatim>\<open>atomic.Value\<close>
  that holds a \<^verbatim>\<open>PriceTime\<close>, and the type assertions of the code succeed.
\<close>

type_synonym latest_prices = "string \<rightharpoonup> price_time"

definition store :: "string \<Rightarrow> price_time \<Rightarrow> latest_prices \<Rightarrow> bool \<times> latest_prices" where
  "store market priceTime latestPrices =
     (case latestPrices market of
        Some prevPt \<Rightarrow>
          if f64_eq (pt_price prevPt) (pt_price priceTime) then (False, latestPrices)
          else (True, latestPrices(market \<mapsto> priceTime))
      | None \<Rightarrow> (True, latestPrices(market \<mapsto> priceTime)))"

definition load :: "string \<Rightarrow> latest_prices \<Rightarrow> price_time" where
  "load market latestPrices =
     (case latestPrices market of None \<Rightarrow> no_price_time | Some pt \<Rightarrow> pt)"

text \<open>The instrument of each market, reversed; \<open>original\<close> lists the map in the order of the loop.\<close>

definition reverse_instrument_map :: "(string \<times> ticker) list \<Rightarrow> string \<rightharpoonup> string" where
  "reverse_instrument_map original = fold (\<lambda>(k, v) m. m(tk_InstId v \<mapsto> k)) original Map.empty"

fun math_Modf :: "f64 \<Rightarrow> f64 \<times> f64" where
  "math_Modf (Finite s m) = (Finite s (of_int (floor m)), Finite s (m - of_int (floor m)))"
| "math_Modf (Infinite s) = (Infinite s, NaN)"
| "math_Modf NaN = (NaN, NaN)"

text \<open>\<open>parseFloat\<close> is \<^verbatim>\<open>strconv.ParseFloat(_, 64)\<close>, \<open>None\<close> where it returns an error.\<close>

definition parse_unix_time :: "(string \<Rightarrow> f64 option) \<Rightarrow> string \<Rightarrow> go_time option" where
  "parse_unix_time parseFloat input =
     (case parseFloat input of
        None \<Rightarrow> None
      | Some ftime \<Rightarrow>
          (let (intPart, fracPart) = math_Modf ftime;
               secs = int_of_f64 intPart;
               nanos = int_of_f64 (f64_mul fracPart (f64_lit (10 ^ 9)))
           in Some (time_Unix secs nanos)))"

section \<open>The aggregator\<close>

definition MARKET_SERVICE_STOPPED :: string where
  "MARKET_SERVICE_STOPPED = ''MARKET_SERVICE_STOPPED''"

text \<open>
  A source is a pointer that the entries of several markets share: here its number, which names
  the source's prices in a store. A channel of capacity 1 is the batch it holds, if any.
\<close>

record source_data =
  sd_Markets :: "string list"
  sd_LatestPrices :: nat
  sd_Urls :: "string list"

record chan_with_sources =
  cws_Channel :: "f64 list option"
  cws_Sources :: "source_data list"
  cws_MaxDelay :: duration

type_synonym source_map = "(string \<times> chan_with_sources) list"

text \<open>
  What a tick of the aggregator observes: for a market and a source, the price loaded and the time
  at which its age is taken. Other goroutines store prices meanwhile, so it is a parameter.
\<close>

type_synonym observation = "string \<Rightarrow> nat \<Rightarrow> price_time \<times> go_time"

definition fresh_price :: "observation \<Rightarrow> string \<Rightarrow> duration \<Rightarrow> source_data \<Rightarrow> f64 list" where
  "fresh_price obs market maxDelay srcData =
     (let (pt, now) = obs market (sd_LatestPrices srcData)
      in if \<not> is_no_price_time pt \<and> time_sub now (pt_time pt) \<le> maxDelay then [pt_price pt] else [])"

definition price_batch :: "observation \<Rightarrow> string \<Rightarrow> chan_with_sources \<Rightarrow> f64 list" where
  "price_batch obs market cws = concat (map (fresh_price obs market (cws_MaxDelay cws)) (cws_Sources cws))"

text \<open>
  One tick over the markets in the order of the loop. The panic leaves the channels of the markets
  after the stopped one as they were.
\<close>

fun send_price_batches :: "observation \<Rightarrow> source_map \<Rightarrow> source_map \<times> string option" where
  "send_price_batches obs [] = ([], None)"
| "send_price_batches obs ((market, cws) # rest) =
     (let prices = price_batch obs market cws
      in if prices \<noteq> []
         then (case cws_Channel cws of
                 None \<Rightarrow>
                   (case send_price_batches obs rest of (rest', p) \<Rightarrow>
                      ((market, cws\<lparr>cws_Channel := Some prices\<rparr>) # rest', p))
               | Some _ \<Rightarrow> ((market, cws) # rest, Some MARKET_SERVICE_STOPPED))
         else (case send_price_batches obs rest of (rest', p) \<Rightarrow> ((market, cws) # rest', p)))"

section \<open>The registry of the exchanges\<close>

type_synonym 'f registry = "string \<rightharpoonup> 'f"

definition register_factory :: "string \<Rightarrow> 'f \<Rightarrow> 'f registry \<Rightarrow> 'f registry" where
  "register_factory exch factory m = m(exch \<mapsto> factory)"

definition load_factory :: "string \<Rightarrow> 'f registry \<Rightarrow> 'f option" where
  "load_factory exch m = (case m exch of Some factory \<Rightarrow> Some factory | None \<Rightarrow> None)"

text \<open>The registrations of the \<^verbatim>\<open>init\<close> functions\<close>

datatype ws_exchange = Binance | Okx | Coinbase | Kraken
datatype rest_exchange = Coingecko | Geckoterminal | Coinmarketcap

definition ws_factories :: "ws_exchange registry" where
  "ws_factories =
     fold (\<lambda>(exch, f). register_factory exch f)
       [(''binance'', Binance), (''cb'', Coinbase), (''cb2'', Coinbase), (''kraken'', Kraken), (''okx'', Okx)]
       Map.empty"

definition rest_factories :: "rest_exchange registry" where
  "rest_factories =
     fold (\<lambda>(exch, f). register_factory exch f)
       [(''coingecko'', Coingecko), (''coinmarketcap'', Coinmarketcap), (''geckoterminal'', Geckoterminal)]
       Map.empty"

section \<open>Facts\<close>

lemma store_changes: "store m pt l = (s, l') \<Longrightarrow> l' = (if s then l(m \<mapsto> pt) else l)"
  by (auto simp: store_def split: option.splits if_splits)

lemma load_after_store:
  "store m pt l = (s, l') \<Longrightarrow> load m l' = (if s then pt else load m l)"
  by (auto simp: store_def load_def split: option.splits if_splits)

lemma length_price_batch: "length (price_batch obs market cws) \<le> length (cws_Sources cws)"
proof -
  have "length (concat (map (fresh_price obs market d) xs)) \<le> length xs" for d xs
    by (induction xs) (auto simp: fresh_price_def split: prod.split)
  then show ?thesis
    by (simp add: price_batch_def)
qed

lemma price_batch_fresh:
  assumes "p \<in> set (price_batch obs market cws)"
  shows "\<exists>src \<in> set (cws_Sources cws). \<exists>pt now.
           obs market (sd_LatestPrices src) = (pt, now) \<and> pt_price pt = p
           \<and> time_sub now (pt_time pt) \<le> cws_MaxDelay cws"
proof -
  obtain src where src: "src \<in> set (cws_Sources cws)"
      "p \<in> set (fresh_price obs market (cws_MaxDelay cws) src)"
    using assms by (auto simp: price_batch_def)
  obtain pt now where o: "obs market (sd_LatestPrices src) = (pt, now)"
    by (cases "obs market (sd_LatestPrices src)")
  show ?thesis
    using src o by (intro bexI [of _ src] exI [of _ pt] exI [of _ now])
      (auto simp: fresh_price_def split: if_splits)
qed

end
