(* ===== verification/Pricing_Service.thy ===== *)
theory Pricing_Service
  imports Pricing_Sources
begin

text \<open>
  \<^verbatim>\<open>pricing/pricing_service.go\<close> and \<^verbatim>\<open>config.go\<close>: from the configuration to the sources of each
  exchange, the aggregator's map from markets to sources, and the service of each market. A Go map
  that the code ranges over is a list of its entries in the order of the loop, or comes with a
  list of its keys in that order; a map that it looks up is a partial function.
\<close>

section \<open>Configuration\<close>

record coin_data =
  cd_CoinId :: string
  cd_Tickers :: "ticker list"

record exchange_data =
  ed_ExchangeId :: string
  ed_ReadInterval :: string
  ed_ReadTimeout :: string

record market_data =
  md_MarketId :: string
  md_Sources :: "ticker list"
  md_Multiplier :: f64
  md_MaxUseAge :: string

record service_config =
  sc_UpdateInterval :: string
  sc_DefaultMaxUseAge :: string
  sc_ReferenceCoin :: string
  sc_CoinData :: "coin_data list"
  sc_ExchangeData :: "exchange_data list"
  sc_MarketData :: "market_data list"

definition DEFAULT_UPDATE_INTERVAL :: duration where "DEFAULT_UPDATE_INTERVAL = 5 * second"
definition DEFAULT_MAX_USE_AGE :: duration where "DEFAULT_MAX_USE_AGE = minute"
definition DEFAULT_READ_INTERVAL :: duration where "DEFAULT_READ_INTERVAL = 25 * second"
definition DEFAULT_READ_TIMEOUT :: duration where "DEFAULT_READ_TIMEOUT = 20 * second"
definition DEFAULT_REFERENCE_COIN :: string where "DEFAULT_REFERENCE_COIN = ''USDT''"

text \<open>\<^verbatim>\<open>strconv.ParseInt(s, 10, 64)\<close>\<close>

definition parse_int64 :: "string \<Rightarrow> int option" where
  "parse_int64 s =
     (case parse_int s of
        None \<Rightarrow> None
      | Some n \<Rightarrow> if - (2 ^ 63) \<le> n \<and> n < 2 ^ 63 then Some n else None)"

text \<open>The value and whether there is an error; the product of durations wraps around.\<close>

definition time_from_str :: "string \<Rightarrow> duration \<Rightarrow> duration \<times> bool" where
  "time_from_str intervalStr defaultValue =
     (if intervalStr = '''' then (defaultValue, False)
      else case parse_int64 intervalStr of
             None \<Rightarrow> (defaultValue, True)
           | Some intervalSeconds \<Rightarrow> (int64_wrap (second * intervalSeconds), False))"

section \<open>The tickers of each exchange\<close>

text \<open>\<^verbatim>\<open>reorderTickerMap\<close>\<close>

definition add_ticker ::
    "string \<Rightarrow> string \<times> ticker \<Rightarrow> (string \<rightharpoonup> (string \<rightharpoonup> ticker)) \<Rightarrow> (string \<rightharpoonup> (string \<rightharpoonup> ticker))" where
  "add_ticker marketId et out =
     (case et of (exchangeId, ticker) \<Rightarrow>
        let out = (if out exchangeId = None then out(exchangeId \<mapsto> Map.empty) else out)
        in out(exchangeId \<mapsto> (the (out exchangeId))(marketId \<mapsto> ticker)))"

definition reorder_ticker_map ::
    "(string \<times> (string \<times> ticker) list) list \<Rightarrow> (string \<rightharpoonup> (string \<rightharpoonup> ticker))" where
  "reorder_ticker_map marketExchangeTickers =
     fold (\<lambda>(marketId, exchangeCoinIds) out. fold (add_ticker marketId) exchangeCoinIds out)
       marketExchangeTickers Map.empty"

text \<open>The tables \<^verbatim>\<open>createExchangeSources\<close> fills from the markets of the configuration\<close>

record market_tables =
  mt_Tickers :: "string \<rightharpoonup> (string \<rightharpoonup> ticker)"
  mt_MaxUseAges :: "string \<rightharpoonup> duration"
  mt_Multipliers :: "string \<rightharpoonup> f64"

definition add_market :: "duration \<Rightarrow> market_data \<Rightarrow> market_tables \<Rightarrow> market_tables" where
  "add_market defaultMaxUseAge data mt =
     (let tickers = fold (\<lambda>t m. m(tk_ExchangeId t \<mapsto> t)) (md_Sources data) Map.empty;
          multiplier = (if f64_eq (md_Multiplier data) f64_zero then f64_lit 1 else md_Multiplier data);
          (age, err) = time_from_str (md_MaxUseAge data) defaultMaxUseAge;
          maxUseAge = (if err then defaultMaxUseAge else age)
      in mt\<lparr> mt_Tickers := (mt_Tickers mt)(md_MarketId data \<mapsto> tickers),
             mt_MaxUseAges := (mt_MaxUseAges mt)(md_MarketId data \<mapsto> maxUseAge),
             mt_Multipliers := (mt_Multipliers mt)(md_MarketId data \<mapsto> multiplier) \<rparr>)"

definition market_tables_of :: "duration \<Rightarrow> market_data list \<Rightarrow> market_tables" where
  "market_tables_of defaultMaxUseAge marketData =
     fold (add_market defaultMaxUseAge) marketData
       \<lparr> mt_Tickers = Map.empty, mt_MaxUseAges = Map.empty, mt_Multipliers = Map.empty \<rparr>"

section \<open>The source of an exchange\<close>

text \<open>\<open>getenv\<close> is \<^verbatim>\<open>os.Getenv\<close>.\<close>

definition get_api_key :: "(string \<Rightarrow> string) \<Rightarrow> string \<Rightarrow> string" where
  "get_api_key getenv exchangeId =
     (if exchangeId = ''coingecko'' then getenv ''COINGECKO_API_KEY''
      else if exchangeId = ''geckoterminal'' then getenv ''COINGECKO_API_KEY''
      else if exchangeId = ''coinmarketcap'' then getenv ''COINMARKETCAP_API_KEY''
      else '''')"

record rest_info =
  ri_ReadInterval :: duration
  ri_ReadTimeout :: duration
  ri_RefCoinTickers :: "ticker list"
  ri_ApiKey :: string

text \<open>
  The tickers of the coins, by coin and exchange. \<open>exchange_keys\<close> lists the exchanges of the
  reference coin in the order of the loop; a missing exchange reads as the zero \<^verbatim>\<open>ExchangeData\<close>.
\<close>

type_synonym coin_tickers = "string \<rightharpoonup> (string \<rightharpoonup> ticker list)"

definition add_coin_ticker :: "string \<Rightarrow> ticker \<Rightarrow> coin_tickers \<Rightarrow> coin_tickers" where
  "add_coin_ticker coinId t ct =
     (let inner = the (ct coinId);
          tickerList = (case inner (tk_ExchangeId t) of None \<Rightarrow> [] | Some l \<Rightarrow> l)
      in ct(coinId \<mapsto> inner(tk_ExchangeId t \<mapsto> tickerList @ [t])))"

definition add_coin :: "coin_data \<Rightarrow> coin_tickers \<Rightarrow> coin_tickers" where
  "add_coin data ct =
     (let ct = (if ct (cd_CoinId data) = None then ct(cd_CoinId data \<mapsto> Map.empty) else ct)
      in fold (add_coin_ticker (cd_CoinId data)) (cd_Tickers data) ct)"

definition coin_tickers_of :: "coin_data list \<Rightarrow> coin_tickers" where
  "coin_tickers_of coins = fold add_coin coins Map.empty"

definition gather_additional_rest_src_info ::
    "(string \<Rightarrow> string) \<Rightarrow> string list \<Rightarrow> string \<Rightarrow> (string \<rightharpoonup> exchange_data) \<Rightarrow> coin_tickers \<Rightarrow> string \<Rightarrow> rest_info" where
  "gather_additional_rest_src_info getenv exchange_keys exchangeId exchanges coinTickers refCoin =
     (let (interval, timeout) = (case exchanges exchangeId of None \<Rightarrow> ('''', '''')
                                 | Some d \<Rightarrow> (ed_ReadInterval d, ed_ReadTimeout d));
          coinId2Map = (case coinTickers refCoin of None \<Rightarrow> Map.empty | Some m \<Rightarrow> m)
      in \<lparr> ri_ReadInterval = fst (time_from_str interval DEFAULT_READ_INTERVAL),
           ri_ReadTimeout = fst (time_from_str timeout DEFAULT_READ_TIMEOUT),
           ri_RefCoinTickers =
             concat (map (\<lambda>k. filter (\<lambda>t. tk_ExchangeId t = exchangeId) (the (coinId2Map k))) exchange_keys),
           ri_ApiKey = get_api_key getenv exchangeId \<rparr>)"

text \<open>What a source is created with: a web socket source or a REST source of an exchange.\<close>

datatype feed =
    WsFeed ws_exchange "string \<rightharpoonup> ticker"
  | RestFeed rest_exchange "string \<rightharpoonup> ticker" rest_info

definition build_exchange_source ::
    "(string \<Rightarrow> string) \<Rightarrow> string list \<Rightarrow> string \<Rightarrow> (string \<rightharpoonup> ticker) \<Rightarrow> (string \<rightharpoonup> exchange_data)
     \<Rightarrow> coin_tickers \<Rightarrow> string \<Rightarrow> feed option" where
  "build_exchange_source getenv exchange_keys exchangeId marketTickers exchanges coinTickers refCoin =
     (case load_factory exchangeId ws_factories of
        Some wsFact \<Rightarrow> Some (WsFeed wsFact marketTickers)
      | None \<Rightarrow>
          (case load_factory exchangeId rest_factories of
             Some restFact \<Rightarrow>
               Some (RestFeed restFact marketTickers
                 (gather_additional_rest_src_info getenv exchange_keys exchangeId exchanges coinTickers refCoin))
           | None \<Rightarrow> None))"

text \<open>
  \<^verbatim>\<open>createExchangeSources\<close>. \<open>listing\<close> gives the entries of the tickers' map as the loop of
  \<^verbatim>\<open>reorderTickerMap\<close> meets them, \<open>exchange_order\<close> the exchanges of the reordered map.
\<close>

definition create_exchange_sources ::
    "(string \<Rightarrow> string) \<Rightarrow> string list \<Rightarrow> (string \<times> (string \<times> ticker) list) list \<Rightarrow> string list
     \<Rightarrow> (string \<rightharpoonup> exchange_data) \<Rightarrow> coin_tickers \<Rightarrow> string \<Rightarrow> (string \<times> feed) list" where
  "create_exchange_sources getenv exchange_keys listing exchange_order exchanges coinTickers refCoin =
     (let exchangeMarketTickers = reorder_ticker_map listing
      in concat (map (\<lambda>exchangeId.
           case build_exchange_source getenv exchange_keys exchangeId
                  (the (exchangeMarketTickers exchangeId)) exchanges coinTickers refCoin of
             None \<Rightarrow> []
           | Some f \<Rightarrow> [(exchangeId, f)]) exchange_order))"

section \<open>The aggregator's map and the services\<close>

definition add_source_market ::
    "(string \<rightharpoonup> duration) \<Rightarrow> source_data \<Rightarrow> string \<Rightarrow> (string \<rightharpoonup> chan_with_sources) \<Rightarrow> (string \<rightharpoonup> chan_with_sources)" where
  "add_source_market maxUseAges sourceData marketId sm =
     (let entry = (case sm marketId of
                     Some e \<Rightarrow> e
                   | None \<Rightarrow> \<lparr> cws_Channel = None, cws_Sources = [],
                              cws_MaxDelay = (case maxUseAges marketId of None \<Rightarrow> 0 | Some d \<Rightarrow> d) \<rparr>)
      in sm(marketId \<mapsto> entry\<lparr>cws_Sources := cws_Sources entry @ [sourceData]\<rparr>))"

definition build_source_map ::
    "(string \<rightharpoonup> duration) \<Rightarrow> source_data list \<Rightarrow> (string \<rightharpoonup> chan_with_sources)" where
  "build_source_map maxUseAges exchangeSources =
     fold (\<lambda>src sm. fold (add_source_market maxUseAges src) (sd_Markets src) sm) exchangeSources Map.empty"

definition start_services :: "(string \<rightharpoonup> chan_with_sources) \<Rightarrow> (string \<rightharpoonup> market_price_service)" where
  "start_services sm = (\<lambda>marketId. map_option
     (\<lambda>cws. new_market_price_service marketId (length (cws_Sources cws))) (sm marketId))"

text \<open>
  \<^verbatim>\<open>LoadConfig\<close>. \<open>listing\<close> gives the entries of a table as a loop over it meets them, \<open>keys\<close> the keys
  of a map in the order of the loop over it, \<open>urls\<close> the urls of a source. The results are the
  update interval, the sources created, the aggregator's map and the services.
\<close>

definition load_config ::
    "(string \<Rightarrow> string) \<Rightarrow> ((string \<rightharpoonup> (string \<rightharpoonup> ticker)) \<Rightarrow> (string \<times> (string \<times> ticker) list) list)
     \<Rightarrow> (string set \<Rightarrow> string list) \<Rightarrow> (feed \<Rightarrow> string list) \<Rightarrow> service_config
     \<Rightarrow> duration \<times> (string \<times> feed) list \<times> (string \<rightharpoonup> chan_with_sources) \<times> (string \<rightharpoonup> market_price_service)" where
  "load_config getenv listing keys urls config =
     (let updateInterval = fst (time_from_str (sc_UpdateInterval config) DEFAULT_UPDATE_INTERVAL);
          defaultMaxUseAge = fst (time_from_str (sc_DefaultMaxUseAge config) DEFAULT_MAX_USE_AGE);
          exchanges = fold (\<lambda>d m. m(ed_ExchangeId d \<mapsto> d)) (sc_ExchangeData config) Map.empty;
          coinTickers = coin_tickers_of (sc_CoinData config);
          refCoin = (if sc_ReferenceCoin config = '''' then DEFAULT_REFERENCE_COIN else sc_ReferenceCoin config);
          tables = market_tables_of defaultMaxUseAge (sc_MarketData config);
          tickers = listing (mt_Tickers tables);
          exchange_order = keys (dom (reorder_ticker_map tickers));
          exchange_keys = (case coinTickers refCoin of None \<Rightarrow> [] | Some m \<Rightarrow> keys (dom m));
          feeds = create_exchange_sources getenv exchange_keys tickers exchange_order exchanges coinTickers refCoin;
          srcs = map (\<lambda>(i, (exchangeId, f)).
                   \<lparr> sd_Markets = keys (dom (the (reorder_ticker_map tickers exchangeId))),
                     sd_LatestPrices = i, sd_Urls = urls f \<rparr>) (enumerate 0 feeds);
          sm = build_source_map (mt_MaxUseAges tables) srcs
      in (updateInterval, feeds, sm, start_services sm))"

section \<open>Facts\<close>

lemma add_ticker_lookup:
  "(case add_ticker m (e, t) out x of None \<Rightarrow> None | Some inner \<Rightarrow> inner y) =
     (if x = e \<and> y = m then Some t else (case out x of None \<Rightarrow> None | Some inner \<Rightarrow> inner y))"
  by (auto simp: add_ticker_def Let_def split: option.split)

definition lookup2 :: "('a \<rightharpoonup> ('b \<rightharpoonup> 'c)) \<Rightarrow> 'a \<Rightarrow> 'b \<rightharpoonup> 'c" where
  "lookup2 m x y = (case m x of None \<Rightarrow> None | Some inner \<Rightarrow> inner y)"

lemma lookup2_add_ticker:
  "lookup2 (add_ticker m (e, t) out) x y = (if x = e \<and> y = m then Some t else lookup2 out x y)"
  using add_ticker_lookup by (simp add: lookup2_def)

lemma lookup2_add_tickers:
  assumes "distinct (map fst ets)"
  shows "lookup2 (fold (add_ticker m) ets out) x y =
     (if y = m \<and> x \<in> fst ` set ets then map_of ets x else lookup2 out x y)"
  using assms
proof (induction ets arbitrary: out)
  case (Cons et ets)
  obtain e t where et: "et = (e, t)"
    by (cases et)
  show ?case
    using Cons by (auto simp: et lookup2_add_ticker)
qed simp

lemma lookup2_reorder_fold:
  assumes "distinct (map fst xs)" "\<forall>(m, ets) \<in> set xs. distinct (map fst ets)"
  shows "lookup2 (fold (\<lambda>(m, ets) out. fold (add_ticker m) ets out) xs out) x y =
     (case map_of xs y of
        Some ets \<Rightarrow> (if x \<in> fst ` set ets then map_of ets x else lookup2 out x y)
      | None \<Rightarrow> lookup2 out x y)"
  using assms
proof (induction xs arbitrary: out)
  case (Cons mets xs)
  obtain m ets where me: "mets = (m, ets)"
    by (cases mets)
  have "map_of xs m = None"
    using Cons.prems(1) by (simp add: me map_of_eq_None_iff)
  then show ?case
    using Cons.IH [of "fold (add_ticker m) ets out"] Cons.prems
    by (auto simp: me lookup2_add_tickers split: option.split)
qed simp

text \<open>The tickers by exchange are the tickers by market, whatever the order of the two loops.\<close>

lemma reorder_ticker_map_flips:
  assumes "distinct (map fst xs)" "\<forall>(m, ets) \<in> set xs. distinct (map fst ets)"
  shows "lookup2 (reorder_ticker_map xs) exchange market = lookup2 (\<lambda>m. map_option map_of (map_of xs m)) market exchange"
proof -
  have "map_of ets x = None" if "x \<notin> fst ` set ets" for ets :: "(string \<times> ticker) list" and x
    using that by (simp add: map_of_eq_None_iff)
  then show ?thesis
    using lookup2_reorder_fold [OF assms, of Map.empty exchange market]
    by (auto simp: reorder_ticker_map_def lookup2_def split: option.split)
qed

definition sources_of :: "(string \<rightharpoonup> chan_with_sources) \<Rightarrow> string \<Rightarrow> source_data list" where
  "sources_of sm market = (case sm market of None \<Rightarrow> [] | Some cws \<Rightarrow> cws_Sources cws)"

lemma sources_of_add:
  "sources_of (add_source_market ages src m sm) market = sources_of sm market @ (if market = m then [src] else [])"
  by (auto simp: sources_of_def add_source_market_def Let_def split: option.split)

lemma sources_of_add_markets:
  "distinct ms \<Longrightarrow> sources_of (fold (add_source_market ages src) ms sm) market
     = sources_of sm market @ (if market \<in> set ms then [src] else [])"
  by (induction ms arbitrary: sm) (auto simp: sources_of_add)

lemma sources_of_fold:
  "\<forall>src \<in> set srcs. distinct (sd_Markets src) \<Longrightarrow>
     sources_of (fold (\<lambda>src sm. fold (add_source_market ages src) (sd_Markets src) sm) srcs sm) market
       = sources_of sm market @ filter (\<lambda>src. market \<in> set (sd_Markets src)) srcs"
  by (induction srcs arbitrary: sm) (auto simp: sources_of_add_markets)

text \<open>Each market hears exactly the sources that cover it, once each.\<close>

lemma build_source_map_sources:
  "\<forall>src \<in> set srcs. distinct (sd_Markets src) \<Longrightarrow>
     sources_of (build_source_map ages srcs) market = filter (\<lambda>src. market \<in> set (sd_Markets src)) srcs"
  unfolding build_source_map_def by (subst sources_of_fold) (simp_all add: sources_of_def)

end
