(* ===== verification/Pricing_Market_Props.thy ===== *)
theory Pricing_Market_Props
  imports Pricing_Market
begin

text \<open>
  What the service of a market guarantees about the price it sends: it resists a minority of
  wrong sources, it moves by at most a tenth unless it was rejected eleven times in a row, and
  a rejected run does end.
\<close>

section \<open>The median of a list with a majority in a range\<close>

definition in_range :: "f64 \<Rightarrow> f64 \<Rightarrow> f64 \<Rightarrow> bool" where
  "in_range lo hi x \<longleftrightarrow> f64_le lo x \<and> f64_le x hi"

definition majority_in :: "f64 \<Rightarrow> f64 \<Rightarrow> f64 list \<Rightarrow> bool" where
  "majority_in lo hi xs \<longleftrightarrow> length xs < 2 * length (filter (in_range lo hi) xs)"

lemma below_before:
  assumes "sorted_floats s" "i \<le> k" "k < length s" "\<not> f64_le lo (s ! k)" "lo \<noteq> NaN"
  shows "\<not> f64_le lo (s ! i)"
proof (cases "i = k")
  case False
  then have "\<not> float_less (s ! k) (s ! i)"
    using assms(1-3) by (simp add: sorted_wrt_iff_nth_less)
  then show ?thesis
    using assms(4,5) by (cases "s ! i"; cases "s ! k"; cases lo)
      (auto simp: float_less_def f64_le_def split: if_splits)
qed (use assms in simp)

lemma above_after:
  assumes "sorted_floats s" "k \<le> i" "i < length s" "\<not> f64_le (s ! k) hi" "s ! k \<noteq> NaN" "hi \<noteq> NaN"
  shows "\<not> f64_le (s ! i) hi"
proof (cases "i = k")
  case False
  then have "\<not> float_less (s ! i) (s ! k)"
    using assms(1-3) by (simp add: sorted_wrt_iff_nth_less)
  then show ?thesis
    using assms(4-6) by (cases "s ! i"; cases "s ! k"; cases hi)
      (auto simp: float_less_def f64_le_def split: if_splits)
qed (use assms in simp)

lemma in_range_not_NaN: "f64_le lo x \<Longrightarrow> x \<noteq> NaN \<and> lo \<noteq> NaN"
  by (cases lo; cases x) (auto simp: f64_le_def)

lemma count_outside:
  assumes "sorted_floats s" "k < length s" "\<not> in_range lo hi (s ! k)" "f64_le lo hi"
  shows "length (filter (in_range lo hi) s) \<le> max k (length s - (k + 1))"
proof -
  have nn: "lo \<noteq> NaN" "hi \<noteq> NaN"
    using in_range_not_NaN [OF assms(4)] by auto
  have c: "length (filter (in_range lo hi) s) = card {i. i < length s \<and> in_range lo hi (s ! i)}"
    by (rule length_filter_conv_card)
  show ?thesis
  proof (cases "f64_le lo (s ! k)")
    case False
    have "\<not> in_range lo hi (s ! i)" if "i \<le> k" for i
      using below_before [OF assms(1) that assms(2) False nn(1)] by (simp add: in_range_def)
    then have "{i. i < length s \<and> in_range lo hi (s ! i)} \<subseteq> {k + 1..<length s}"
      by (auto simp: not_le [symmetric] Suc_le_eq)
    from card_mono [OF _ this] show ?thesis
      by (simp add: c)
  next
    case True
    then have k: "s ! k \<noteq> NaN" "\<not> f64_le (s ! k) hi"
      using assms(3) in_range_not_NaN by (auto simp: in_range_def)
    have "\<not> in_range lo hi (s ! i)" if "k \<le> i" "i < length s" for i
      using above_after [OF assms(1) that k(2) k(1) nn(2)] by (simp add: in_range_def)
    then have "{i. i < length s \<and> in_range lo hi (s ! i)} \<subseteq> {0..<k}"
      by (auto simp: not_le [symmetric])
    from card_mono [OF _ this] show ?thesis
      by (simp add: c)
  qed
qed

lemma middle_in_range:
  assumes "sorted_floats s" "majority_in lo hi s" "f64_le lo hi"
    and "k = length s div 2 \<or> (length s mod 2 = 0 \<and> k = length s div 2 - 1)"
  shows "in_range lo hi (s ! k)"
proof (rule ccontr)
  assume out: "\<not> in_range lo hi (s ! k)"
  have ne: "0 < length s"
    using assms(2) length_filter_le [of "in_range lo hi" s] by (cases s) (auto simp: majority_in_def)
  have "k \<le> length s div 2"
    using assms(4) by auto
  with ne have "k < length s"
    by linarith
  from count_outside [OF assms(1) this out assms(3)] assms(2,4) ne show False
    unfolding majority_in_def by presburger
qed

lemma majority_in_sort: "majority_in lo hi (sort_floats xs) \<longleftrightarrow> majority_in lo hi xs"
proof -
  have "length (filter P (sort_floats xs)) = length (filter P xs)" for P
    by (metis mset_filter mset_sort_floats size_mset)
  then show ?thesis
    by (simp add: majority_in_def)
qed

definition price_bounds :: "f64 \<Rightarrow> f64 \<Rightarrow> bool" where
  "price_bounds lo hi \<longleftrightarrow> is_float64 lo \<and> is_float64 hi \<and> is_finite lo \<and> is_finite hi
     \<and> 0 < f64_val lo \<and> f64_le lo hi \<and> f64_val hi < pow2 1023"

lemma median_in_range:
  assumes "price_bounds lo hi" "majority_in lo hi xs" "median mps xs = Inr m"
  shows "in_range lo hi m"
proof -
  define s where "s = sort_floats xs"
  define k where "k = length xs div 2"
  have s: "sorted_floats s" "majority_in lo hi s" "length s = length xs" "f64_le lo hi"
    using assms by (auto simp: s_def sorted_sort_floats majority_in_sort price_bounds_def)
  have ne: "length xs \<noteq> 0"
    using assms(2) by (auto simp: majority_in_def)
  have mid: "in_range lo hi (s ! k)"
    using s by (intro middle_in_range) (auto simp: k_def)
  show ?thesis
  proof (cases "length xs mod 2 = 0")
    case True
    have "in_range lo hi (s ! (k - 1))"
      using s True by (intro middle_in_range) (auto simp: k_def)
    moreover have "m = f64_div (f64_add (s ! (k - 1)) (s ! k)) (f64_lit 2)"
      using assms(3) True ne by (auto simp: median_def s_def k_def Let_def split: if_splits)
    moreover have "- pow2 1023 < f64_val lo"
      using assms(1) pow2_pos [of 1023] unfolding price_bounds_def by linarith
    ultimately show ?thesis
      using mid assms(1) f64_middle_between [of lo hi "s ! (k - 1)" "s ! k"]
      unfolding in_range_def price_bounds_def by blast
  next
    case False
    then show ?thesis
      using mid assms(3) ne by (auto simp: median_def s_def k_def Let_def split: if_splits)
  qed
qed

section \<open>Values in a narrow range are close\<close>

lemma finite_of_in_range:
  assumes "price_bounds lo hi" "in_range lo hi x"
  shows "\<exists>s m. x = Finite s m \<and> f64_val lo \<le> f64_val x \<and> f64_val x \<le> f64_val hi"
proof -
  obtain sl ml sh mh where l: "lo = Finite sl ml" and h: "hi = Finite sh mh"
    using assms(1) by (cases lo; cases hi) (auto simp: price_bounds_def)
  obtain s m where x: "x = Finite s m"
    using assms(2) l h by (cases x) (auto simp: in_range_def f64_le_def split: if_splits)
  show ?thesis
    using assms(2) by (auto simp: x l h in_range_def f64_le_finite simp del: f64_val.simps)
qed

lemma close_enough_finite:
  assumes "0 < n" "is_float64 (Finite sv mv)"
    and d: "d = round_val (f64_val (Finite sv mv) - n)" "- pow2 1024 < d" "d < pow2 1024"
    and q: "q = round_val (d / n)" "- pow2 1024 < q" "q < pow2 1024"
  shows "close_enough (Finite sv mv) (Finite False n) (Finite False tol) \<longleftrightarrow> \<bar>q\<bar> \<le> tol"
proof -
  have "\<exists>s m. f64_sub (Finite sv mv) (Finite False n) = Finite s m \<and> f64_val (Finite s m) = d"
    using f64_nearest_in_range [of "f64_val (Finite sv mv) - n"] d
    by (simp add: f64_sub_def)
  then obtain s m where sub: "f64_sub (Finite sv mv) (Finite False n) = Finite s m"
    and m: "f64_val (Finite s m) = d"
    by blast
  have "0 \<le> m"
    using is_float64_sub [of "Finite sv mv" "Finite False n"] by (simp add: sub)
  have "\<exists>t r. f64_div (Finite s m) (Finite False n) = Finite t r \<and> f64_val (Finite t r) = q"
  proof (cases "m = 0")
    case True
    then show ?thesis
      using assms(1) m q(1) by (auto split: if_splits)
  next
    case False
    then have "0 < m / n" "d / n = (if s then - (m / n) else m / n)"
      using assms(1) \<open>0 \<le> m\<close> m by (auto split: if_splits)
    from rounded_in_range [OF this] q assms(1) False show ?thesis
      by simp
  qed
  then obtain t r where div: "f64_div (Finite s m) (Finite False n) = Finite t r"
    and r: "f64_val (Finite t r) = q"
    by blast
  show ?thesis
    using assms(1) r by (cases t) (auto simp: close_enough_def Let_def sub div f64_le_finite simp del: f64_div.simps)
qed

lemma round_val_uminus: "round_val (- v) = - round_val v"
  by (auto simp: round_val_def)

lemma five_percent: "FIVE_PERCENT = Finite False (3602879701896397 / 72057594037927936)"
  by (simp add: FIVE_PERCENT_def f64_eval)

lemma close_enough_no_overflow:
  assumes "close_enough (Finite sv mv) (Finite False n) (Finite False tol)" "0 < n"
    and "is_float64 (Finite sv mv)"
    and d: "d = round_val (f64_val (Finite sv mv) - n)" "0 \<le> d" "d < pow2 1024"
  shows "round_val (d / n) < pow2 1024"
proof (rule ccontr)
  assume big: "\<not> round_val (d / n) < pow2 1024"
  then have "d \<noteq> 0"
    using pow2_pos [of 1024] by auto
  have "\<exists>s m. f64_sub (Finite sv mv) (Finite False n) = Finite s m \<and> f64_val (Finite s m) = d"
    using f64_nearest_in_range [of "f64_val (Finite sv mv) - n"] d pow2_pos [of 1024]
    by (simp add: f64_sub_def)
  then obtain s m where sub: "f64_sub (Finite sv mv) (Finite False n) = Finite s m"
    and m: "f64_val (Finite s m) = d"
    by blast
  have "0 \<le> m"
    using is_float64_sub [of "Finite sv mv" "Finite False n"] by (simp add: sub)
  then have s: "\<not> s" "m = d" "0 < d"
    using m \<open>d \<noteq> 0\<close> d(2) by (auto split: if_splits)
  have "\<not> d / n < 0"
    using assms(2) d(2) by (simp add: not_less)
  then have "f64_div (Finite s m) (Finite False n) = Infinite False"
    using s big assms(2) by (simp add: rounded_def round_val_def Let_def)
  then show False
    using assms(1,2) by (simp add: close_enough_def Let_def sub f64_le_def)
qed

lemma narrow_range_close:
  assumes b: "price_bounds lo hi" and narrow: "close_enough hi lo FIVE_PERCENT"
    and v: "in_range lo hi v" "is_float64 v" and t: "in_range lo hi t" "is_float64 t"
  shows "close_enough v t FIVE_PERCENT"
proof -
  obtain tol where tol: "FIVE_PERCENT = Finite False tol"
    using five_percent by metis
  obtain sv mv where fv: "v = Finite sv mv"
    and vb: "f64_val lo \<le> f64_val v" "f64_val v \<le> f64_val hi"
    using finite_of_in_range [OF b v(1)] by blast
  obtain st n where ft: "t = Finite st n"
    and tb: "f64_val lo \<le> f64_val t" "f64_val t \<le> f64_val hi"
    using finite_of_in_range [OF b t(1)] by blast
  obtain sl ml sh mh where l: "lo = Finite sl ml" and h: "hi = Finite sh mh"
    using b by (cases lo; cases hi) (auto simp: price_bounds_def)
  have pos: "0 < f64_val lo" "f64_val lo \<le> f64_val hi" "f64_val hi < pow2 1023"
    and fl: "is_float64 lo" "is_float64 hi"
    using b by (auto simp: price_bounds_def l h f64_le_finite simp del: f64_val.simps)
  have sl: "sl = False" "f64_val lo = ml" "0 < ml"
    using pos(1) fl(1) by (auto simp: l split: if_splits)
  have tn: "st = False" "f64_val t = n" "0 < n"
    using pos(1) tb(1) t(2) by (auto simp: ft split: if_splits)
  have top: "pow2 1023 < pow2 1024"
    by (simp add: pow2_less_iff)
  define D where "D = round_val (f64_val hi - ml)"
  define d where "d = round_val (f64_val v - n)"
  have "D \<le> round_val (f64_val hi)"
    unfolding D_def using sl by (intro round_val_mono) simp
  moreover have "round_val (f64_val hi) = f64_val hi"
    using fl(2) unfolding h by (rule round_val_float64)
  moreover have D0: "0 \<le> D"
    using round_val_mono [of 0 "f64_val hi - ml"] pos(2) sl(2) by (simp add: D_def)
  ultimately have D: "- pow2 1024 < D" "D < pow2 1024"
    using pos(3) top pow2_pos [of 1024] by linarith+
  have "d \<le> D"
    unfolding d_def D_def using vb(2) tb(1) sl tn by (intro round_val_mono) linarith
  moreover have "- D \<le> d"
    unfolding d_def D_def round_val_uminus [symmetric]
    using vb(1) tb(2) sl tn by (intro round_val_mono) linarith
  ultimately have dD: "\<bar>d\<bar> \<le> D"
    by linarith
  define Q where "Q = round_val (D / ml)"
  define q where "q = round_val (d / n)"
  have "\<bar>d / n\<bar> \<le> D / ml"
    unfolding abs_divide using tn(3) sl tb(1) tn(2) dD D0
    by (intro frac_le) auto
  then have "d / n \<le> D / ml" "- (D / ml) \<le> d / n"
    by linarith+
  from round_val_mono [OF this(1)] round_val_mono [OF this(2)] have qQ: "\<bar>q\<bar> \<le> Q"
    unfolding q_def Q_def round_val_uminus by linarith
  have Q: "Q < pow2 1024"
    using close_enough_no_overflow [of sh mh ml tol D] narrow fl(2) sl D D0 D_def
    by (simp add: h l tol Q_def)
  have "\<bar>Q\<bar> \<le> tol"
    using close_enough_finite [of ml sh mh D Q tol] narrow fl(2) sl D Q qQ D_def Q_def
    by (simp add: h l tol)
  then show ?thesis
    using close_enough_finite [of n sv mv d q tol] v(2) tn Q qQ D dD d_def q_def
    by (simp add: fv ft tol)
qed

section \<open>A minority of sources cannot move the price\<close>

lemma two_close_count:
  "seen < 2 \<Longrightarrow> two_close m seen vs \<longleftrightarrow> 2 \<le> seen + length (filter (\<lambda>v. close_enough v m FIVE_PERCENT) vs)"
  by (induction vs arbitrary: seen) auto

lemma median_total: "length xs \<le> mps_scratch_cap mps \<Longrightarrow> \<exists>m. median mps xs = Inr m"
  by (auto simp: median_def Let_def)

lemma median_float64:
  assumes "median mps xs = Inr m" "\<forall>x \<in> set xs. is_float64 x"
  shows "is_float64 m"
proof -
  have all: "is_float64 (sort_floats xs ! k)" if "k < length xs" for k
    using assms(2) nth_mem [of k "sort_floats xs"] that by simp
  then show ?thesis
    using assms(1) by (auto simp: median_def Let_def is_float64_div f64_lit_def split: if_splits)
qed

lemma filter_sub:
  "(\<And>x. x \<in> set xs \<Longrightarrow> P x \<Longrightarrow> Q x) \<Longrightarrow> filter P (filter Q xs) = filter P xs"
  by (auto intro!: filter_cong)

lemma majority_in_filter:
  assumes "majority_in lo hi xs" "\<And>x. x \<in> set xs \<Longrightarrow> in_range lo hi x \<Longrightarrow> Q x"
  shows "majority_in lo hi (filter Q xs)"
proof -
  have "length (filter Q xs) \<le> length xs"
    by simp
  moreover have "length (filter (in_range lo hi) (filter Q xs)) = length (filter (in_range lo hi) xs)"
    by (rule arg_cong [of _ _ length], rule filter_sub) (rule assms(2))
  ultimately show ?thesis
    using assms(1) unfolding majority_in_def by linarith
qed

lemma majority_check:
  assumes b: "price_bounds lo hi" "close_enough hi lo FIVE_PERCENT"
    and vs: "majority_in lo hi vs" "\<forall>x \<in> set vs. is_float64 x"
    and len: "2 \<le> length vs" "length vs \<le> mps_scratch_cap mps"
  shows "\<exists>m. check_data_consistency mps vs = Inr (m, True) \<and> is_float64 m \<and> in_range lo hi m"
proof -
  obtain m where m: "median mps vs = Inr m"
    using median_total [OF len(2)] by blast
  have r: "in_range lo hi m" "is_float64 m"
    using median_in_range [OF b(1) vs(1) m] median_float64 [OF m vs(2)] by auto
  have "filter (in_range lo hi) (filter (\<lambda>v. close_enough v m FIVE_PERCENT) vs) = filter (in_range lo hi) vs"
    using narrow_range_close [OF b] r vs(2) by (intro filter_sub) auto
  then have "length (filter (in_range lo hi) vs) \<le> length (filter (\<lambda>v. close_enough v m FIVE_PERCENT) vs)"
    by (metis length_filter_le)
  then have "two_close m 0 vs"
    using vs(1) len(1) by (simp add: two_close_count majority_in_def)
  then show ?thesis
    using m r by (auto simp: check_data_consistency_def)
qed



section \<open>Jumps\<close>

fun is_jump :: "'a pricing \<Rightarrow> bool" where
  "is_jump (Inl (Err (PriceJump _ _ _ _))) = True"
| "is_jump _ = False"

fun is_accepted :: "'a pricing \<Rightarrow> bool" where
  "is_accepted (Inr _) = True"
| "is_accepted (Inl _) = False"

text \<open>The outcomes of a sequence of batches, and the state they leave.\<close>

fun price_outcomes :: "market_price_service \<Rightarrow> f64 list list \<Rightarrow> (f64 \<times> nat) pricing list" where
  "price_outcomes mps [] = []"
| "price_outcomes mps (b # bs) = snd (process_inputs mps b) # price_outcomes (fst (process_inputs mps b)) bs"

fun price_state :: "market_price_service \<Rightarrow> f64 list list \<Rightarrow> market_price_service" where
  "price_state mps [] = mps"
| "price_state mps (b # bs) = price_state (fst (process_inputs mps b)) bs"

definition run_bounded :: "market_price_service \<Rightarrow> bool" where
  "run_bounded mps \<longleftrightarrow> unat (mps_rejected_run mps) \<le> 11"

lemma median_no_jump: "median mps vs = Inl e \<Longrightarrow> \<exists>msg. e = Crash msg"
  by (auto simp: median_def Let_def split: if_splits)

lemma check_no_jump: "check_data_consistency mps vs = Inl e \<Longrightarrow> \<exists>msg. e = Crash msg"
  by (auto simp: check_data_consistency_def dest: median_no_jump split: sum.splits if_splits)

lemma get_combined_price_no_jump: "\<not> is_jump (get_combined_price mps b)"
proof -
  define fresh where "fresh = f64_eq (mps_most_recent mps) f64_zero"
  define available where "available = (if fresh then b else mps_most_recent mps # b)"
  define checked where "checked =
      (if 1 < length b
       then case check_data_consistency mps available of
              Inl e \<Rightarrow> Inl e
            | Inr (m, c) \<Rightarrow>
                if \<not> c \<and> \<not> fresh then check_data_consistency mps (tl available)
                else Inr (m, c)
       else Inr (f64_zero, True))"
  have crash: "\<exists>msg. e = Crash msg" if "checked = Inl e" for e
    using that check_no_jump by (auto simp: checked_def split: if_splits sum.splits prod.splits)
  show ?thesis
    unfolding get_combined_price_def Let_def fresh_def [symmetric] available_def [symmetric]
      checked_def [symmetric]
    by (auto split: sum.split prod.split dest!: crash median_no_jump)
qed

lemma process_accepted:
  assumes "snd (process_inputs mps b) = Inr (q, k)"
  shows "mps_most_recent (fst (process_inputs mps b)) = q" "mps_rejected_run (fst (process_inputs mps b)) = 0"
    "f64_eq (mps_most_recent mps) f64_zero \<or> 10 < unat (mps_rejected_run mps)
       \<or> close_enough q (mps_most_recent mps) TEN_PERCENT"
  using assms by (auto simp: process_inputs_def Let_def MAX_REJECTED_RUN_LENGTH_def word_less_nat_alt
      split: sum.splits if_splits)

lemma process_rejected:
  assumes "\<not> is_accepted (snd (process_inputs mps b))" "run_bounded mps"
  shows "mps_most_recent (fst (process_inputs mps b)) = mps_most_recent mps"
    "unat (mps_rejected_run (fst (process_inputs mps b)))
       = unat (mps_rejected_run mps) + (if is_jump (snd (process_inputs mps b)) then 1 else 0)"
    "run_bounded (fst (process_inputs mps b))"
proof -
  have no: "unat (mps_rejected_run mps + 1) = unat (mps_rejected_run mps) + 1"
    if "unat (mps_rejected_run mps) \<le> 10"
    using that by (simp add: unat_word_ariths)
  show "mps_most_recent (fst (process_inputs mps b)) = mps_most_recent mps"
    using assms(1) by (auto simp: process_inputs_def Let_def split: sum.splits if_splits)
  show "unat (mps_rejected_run (fst (process_inputs mps b)))
       = unat (mps_rejected_run mps) + (if is_jump (snd (process_inputs mps b)) then 1 else 0)"
    using assms get_combined_price_no_jump [of mps b] no
    by (auto simp: process_inputs_def Let_def MAX_REJECTED_RUN_LENGTH_def word_less_nat_alt not_less
        split: sum.splits if_splits)
  show "run_bounded (fst (process_inputs mps b))"
    using assms get_combined_price_no_jump [of mps b] no
    by (auto simp: run_bounded_def process_inputs_def Let_def MAX_REJECTED_RUN_LENGTH_def
        word_less_nat_alt not_less split: sum.splits if_splits)
qed

lemma run_bounded_step: "run_bounded mps \<Longrightarrow> run_bounded (fst (process_inputs mps b))"
  using process_rejected(3) [of mps b] process_accepted(2) [of mps b]
  by (cases "snd (process_inputs mps b)") (auto simp: run_bounded_def)

lemma price_outcomes_append:
  "price_outcomes mps (xs @ ys) = price_outcomes mps xs @ price_outcomes (price_state mps xs) ys"
  by (induction xs arbitrary: mps) auto

lemma length_price_outcomes [simp]: "length (price_outcomes mps bs) = length bs"
  by (induction bs arbitrary: mps) auto

lemma price_state_append: "price_state mps (xs @ ys) = price_state (price_state mps xs) ys"
  by (induction xs arbitrary: mps) auto

lemma run_bounded_state: "run_bounded mps \<Longrightarrow> run_bounded (price_state mps bs)"
  by (induction bs arbitrary: mps) (auto simp: run_bounded_step)

lemma rejected_run_counts:
  assumes "\<forall>r \<in> set (price_outcomes mps bs). \<not> is_accepted r" "run_bounded mps"
  shows "mps_most_recent (price_state mps bs) = mps_most_recent mps
    \<and> unat (mps_rejected_run (price_state mps bs))
        = unat (mps_rejected_run mps) + length (filter is_jump (price_outcomes mps bs))"
  using assms
proof (induction bs arbitrary: mps)
  case (Cons b bs)
  have r: "\<not> is_accepted (snd (process_inputs mps b))"
    using Cons.prems(1) by simp
  note step = process_rejected [OF r Cons.prems(2)]
  show ?case
    using Cons.IH [of "fst (process_inputs mps b)"] Cons.prems(1) step by simp
qed simp

lemma split_outcomes:
  assumes "price_outcomes mps bs = xs @ ys"
  shows "\<exists>as cs. bs = as @ cs \<and> price_outcomes mps as = xs \<and> price_outcomes (price_state mps as) cs = ys"
proof -
  define as where "as = take (length xs) bs"
  define cs where "cs = drop (length xs) bs"
  have b: "bs = as @ cs"
    by (simp add: as_def cs_def)
  have "length xs \<le> length bs"
    using arg_cong [OF assms, of length] by simp
  then have "length (price_outcomes mps as) = length xs"
    by (simp add: as_def)
  then show ?thesis
    using assms b price_outcomes_append [of mps as cs] by auto
qed

text \<open>
  Property C30. A published price is within ten percent of the price accepted before it, unless at
  least eleven batches in between were rejected for such a jump (or the earlier price was zero,
  which the code reads as "no price yet").
\<close>

theorem jump_needs_a_rejected_run:
  assumes "price_outcomes (new_market_price_service market numSources) batches
             = before @ Inr (p, n) # between @ Inr (q, k) # after"
    and "\<forall>r \<in> set between. \<not> is_accepted r"
    and "\<not> f64_eq p f64_zero" "\<not> close_enough q p TEN_PERCENT"
  shows "11 \<le> length (filter is_jump between)"
proof -
  define mps where "mps = new_market_price_service market numSources"
  have bounded: "run_bounded mps"
    by (simp add: mps_def new_market_price_service_def run_bounded_def)
  obtain as cs where as: "price_outcomes mps as = before"
    and cs: "price_outcomes (price_state mps as) cs = Inr (p, n) # between @ Inr (q, k) # after"
    using split_outcomes assms(1) unfolding mps_def by blast
  define m1 where "m1 = price_state mps as"
  obtain b ds where b: "cs = b # ds" "snd (process_inputs m1 b) = Inr (p, n)"
    and ds: "price_outcomes (fst (process_inputs m1 b)) ds = between @ Inr (q, k) # after"
    using cs unfolding m1_def by (cases cs) auto
  define m2 where "m2 = fst (process_inputs m1 b)"
  have m2: "mps_most_recent m2 = p" "mps_rejected_run m2 = 0" "run_bounded m2"
    using process_accepted(1,2) [OF b(2)] run_bounded_step run_bounded_state [OF bounded]
    by (auto simp: m2_def m1_def)
  obtain es fs where es: "price_outcomes m2 es = between"
    and fs: "price_outcomes (price_state m2 es) fs = Inr (q, k) # after"
    using split_outcomes ds unfolding m2_def by blast
  define m3 where "m3 = price_state m2 es"
  have m3: "mps_most_recent m3 = p" "unat (mps_rejected_run m3) = length (filter is_jump between)"
    using rejected_run_counts [of m2 es] assms(2) es m2 by (auto simp: m3_def)
  obtain c where "snd (process_inputs m3 c) = Inr (q, k)"
    using fs unfolding m3_def by (cases fs) auto
  from process_accepted(3) [OF this] show ?thesis
    using assms(3,4) m3 by auto
qed

lemma demo_combined:
  "get_combined_price \<lparr>mps_market = mk, mps_most_recent = Finite False 100, mps_rejected_run = r,
      mps_scratch_cap = 2\<rparr> [Finite False 200] = Inr (Finite False 200, 1)"
  by (simp add: get_combined_price_def median_def sort_floats_def)

lemma demo_not_close: "\<not> close_enough (Finite False 200) (Finite False 100) TEN_PERCENT"
  by (simp add: close_enough_def f64_sub_def TEN_PERCENT_def f64_eval f64_le_def Let_def)

lemma demo_step:
  "process_inputs \<lparr>mps_market = mk, mps_most_recent = Finite False 100, mps_rejected_run = r,
      mps_scratch_cap = 2\<rparr> [Finite False 200]
   = (if 10 < r
      then (\<lparr>mps_market = mk, mps_most_recent = Finite False 200, mps_rejected_run = 0,
             mps_scratch_cap = 2\<rparr>, Inr (Finite False 200, 1))
      else (\<lparr>mps_market = mk, mps_most_recent = Finite False 100, mps_rejected_run = r + 1,
             mps_scratch_cap = 2\<rparr>,
            Inl (Err (PriceJump mk (Finite False 100) (Finite False 200) (r + 1)))))"
  by (simp add: process_inputs_def demo_combined demo_not_close MAX_REJECTED_RUN_LENGTH_def Let_def)

lemma demo_first:
  "process_inputs (new_market_price_service mk (Suc 0)) [Finite False 100]
   = (\<lparr>mps_market = mk, mps_most_recent = Finite False 100, mps_rejected_run = 0,
       mps_scratch_cap = 2\<rparr>, Inr (Finite False 100, 1))"
  by (simp add: process_inputs_def new_market_price_service_def get_combined_price_def median_def
      sort_floats_def)

lemma demo_outcomes:
  "price_outcomes (new_market_price_service mk 1) ([Finite False 100]
     # map (\<lambda>i. [Finite False 200]) [1 :: nat, 2, 3, 4, 5, 6, 7, 8, 9, 10, 11, 12])
   = Inr (Finite False 100, 1)
     # map (\<lambda>i. Inl (Err (PriceJump mk (Finite False 100) (Finite False 200) i)))
         [1, 2, 3, 4, 5, 6, 7, 8, 9, 10, 11]
     @ [Inr (Finite False 200, 1)]"
  by (simp add: demo_first demo_step)

lemma jump_needs_a_rejected_run_witness:
  "11 \<le> length (filter is_jump
     (map (\<lambda>i. Inl (Err (PriceJump ''BTC-USD'' (Finite False 100) (Finite False 200) i)) :: (f64 \<times> nat) pricing)
       [1, 2, 3, 4, 5, 6, 7, 8, 9, 10, 11]))"
  by (rule jump_needs_a_rejected_run [where before = "[]" and after = "[]",
        OF demo_outcomes [unfolded append_Nil, THEN trans]])
    (use demo_not_close in auto)

lemma rejected_run_fields:
  "mps_most_recent (mps\<lparr>mps_rejected_run := r\<rparr>) = mps_most_recent mps"
  "mps_market (mps\<lparr>mps_rejected_run := r\<rparr>) = mps_market mps"
  "median (mps\<lparr>mps_rejected_run := r\<rparr>) = median mps"
  "check_data_consistency (mps\<lparr>mps_rejected_run := r\<rparr>) = check_data_consistency mps"
  by (simp_all add: fun_eq_iff median_def check_data_consistency_def)

lemma get_combined_price_run [simp]:
  "get_combined_price (mps\<lparr>mps_rejected_run := r\<rparr>) b = get_combined_price mps b"
  unfolding get_combined_price_def rejected_run_fields by (rule HOL.refl)

lemma combined_is_jump:
  assumes "is_accepted (get_combined_price mps b)" "\<not> is_accepted (snd (process_inputs mps b))"
  shows "is_jump (snd (process_inputs mps b))"
    "\<exists>r. fst (process_inputs mps b) = mps\<lparr>mps_rejected_run := r\<rparr>"
  using assms by (auto simp: process_inputs_def Let_def split: sum.splits if_splits)

lemma all_jumps:
  assumes "\<forall>b \<in> set bs. is_accepted (get_combined_price mps b)"
    and "\<forall>r \<in> set (price_outcomes mps bs). \<not> is_accepted r"
  shows "\<forall>r \<in> set (price_outcomes mps bs). is_jump r"
  using assms
proof (induction bs arbitrary: mps)
  case (Cons b bs)
  have b: "is_accepted (get_combined_price mps b)" "\<not> is_accepted (snd (process_inputs mps b))"
    using Cons.prems by auto
  obtain r where r: "fst (process_inputs mps b) = mps\<lparr>mps_rejected_run := r\<rparr>"
    using combined_is_jump(2) [OF b] by blast
  show ?case
    using Cons.IH [of "mps\<lparr>mps_rejected_run := r\<rparr>"] Cons.prems combined_is_jump(1) [OF b] by (simp add: r)
qed simp

text \<open>
  The service does not stay stuck on an old price: of any twelve successive batches
  whose sources agree on a price (each combines), one is accepted and published, however far the
  market has moved.
\<close>

theorem a_new_level_is_accepted:
  assumes "mps = price_state (new_market_price_service market numSources) earlier"
    and "length batches = 12"
    and "\<forall>b \<in> set batches. is_accepted (get_combined_price mps b)"
  shows "\<exists>r \<in> set (price_outcomes mps batches). is_accepted r"
proof (rule ccontr)
  assume "\<not> ?thesis"
  then have none: "\<forall>r \<in> set (price_outcomes mps batches). \<not> is_accepted r"
    by blast
  have bounded: "run_bounded mps"
    using run_bounded_state [of "new_market_price_service market numSources" earlier] assms(1)
    by (simp add: new_market_price_service_def run_bounded_def)
  have "filter is_jump (price_outcomes mps batches) = price_outcomes mps batches"
    using all_jumps [OF assms(3) none] by (simp add: filter_id_conv)
  then have "unat (mps_rejected_run (price_state mps batches)) = unat (mps_rejected_run mps) + 12"
    using rejected_run_counts [OF none bounded] assms(2) by simp
  moreover have "run_bounded (price_state mps batches)"
    using bounded by (rule run_bounded_state)
  ultimately show False
    by (simp add: run_bounded_def)
qed

lemma a_new_level_is_accepted_witness:
  "\<exists>r \<in> set (price_outcomes (price_state (new_market_price_service ''BTC-USD'' 1) [[Finite False 100]])
       (replicate 12 [Finite False 200])). is_accepted r"
proof (rule a_new_level_is_accepted [OF HOL.refl])
  show "\<forall>b \<in> set (replicate 12 [Finite False 200]).
      is_accepted (get_combined_price
        (price_state (new_market_price_service ''BTC-USD'' 1) [[Finite False 100]]) b)"
    using demo_combined [of "''BTC-USD''" 0] by (simp add: demo_first)
qed simp

section \<open>What is published\<close>

text \<open>The calls of the receiver are the accepted prices, in order, whatever it answers.\<close>

fun accepted_prices :: "string \<Rightarrow> (f64 \<times> nat) pricing list \<Rightarrow> (string \<times> f64) list" where
  "accepted_prices market [] = []"
| "accepted_prices market (Inr (p, n) # rs) = (market, p) # accepted_prices market rs"
| "accepted_prices market (Inl e # rs) = accepted_prices market rs"

lemma process_inputs_market [simp]: "mps_market (fst (process_inputs mps b)) = mps_market mps"
  by (auto simp: process_inputs_def Let_def split: sum.split)

lemma price_updater_publishes:
  assumes "price_updater mps (map (\<lambda>(b, reply). PriceBatch b reply) bs) = (mps', calls, Inr ())"
  shows "calls = accepted_prices (mps_market mps) (price_outcomes mps (map fst bs))
    \<and> mps' = price_state mps (map fst bs)"
  using assms
proof (induction bs arbitrary: mps calls)
  case (Cons b bs)
  obtain prices reply where b: "b = (prices, reply)"
    by (cases b)
  obtain m1 r where p: "process_inputs mps prices = (m1, r)"
    by (cases "process_inputs mps prices")
  have m1: "mps_market m1 = mps_market mps"
    using process_inputs_market [of mps prices] by (simp add: p)
  show ?case
  proof (cases r)
    case (Inr pn)
    obtain q n where pn: "pn = (q, n)"
      by (cases pn)
    obtain m2 c2 r2 where rest: "price_updater m1 (map (\<lambda>(b, reply). PriceBatch b reply) bs) = (m2, c2, r2)"
      by (cases "price_updater m1 (map (\<lambda>(b, reply). PriceBatch b reply) bs)")
    have "mps' = m2" "calls = (mps_market m1, q) # c2" "r2 = Inr ()"
      using Cons.prems by (auto simp: b p Inr pn update_model_price_def rest split: option.splits)
    then show ?thesis
      using Cons.IH [of m1 c2] rest by (simp add: b p Inr pn m1)
  next
    case (Inl e)
    then have "price_updater m1 (map (\<lambda>(b, reply). PriceBatch b reply) bs) = (mps', calls, Inr ())"
      using Cons.prems by (cases e) (auto simp: b p update_model_price_def split: prod.splits)
    from Cons.IH [OF this] show ?thesis
      by (simp add: b p Inl m1)
  qed
qed simp

end
