(* ===== verification/Pricing_Pipeline.thy ===== *)
theory Pricing_Pipeline
  imports Pricing_Service Pricing_Market_Props
begin

text \<open>
  The goroutines of the pricing process as one step relation: a tick of the aggregator fills the
  channels, a market's service takes the batch of its channel. Each service has a single receiver,
  so the loop of \<^verbatim>\<open>priceUpdater\<close> is a sequence of receive steps.
\<close>

section \<open>The steps\<close>

record pipeline =
  pp_SourceMap :: source_map
  pp_Services :: "string \<rightharpoonup> market_price_service"
  pp_Calls :: "(string \<times> f64) list"
  pp_Panic :: "string option"

definition crash_of :: "'a pricing \<Rightarrow> string option" where
  "crash_of r = (case r of Inl (Crash msg) \<Rightarrow> Some msg | _ \<Rightarrow> None)"

fun take_batch :: "string \<Rightarrow> source_map \<Rightarrow> source_map" where
  "take_batch market [] = []"
| "take_batch market ((m, cws) # sm) =
     (if m = market then (m, cws\<lparr>cws_Channel := None\<rparr>) # sm else (m, cws) # take_batch market sm)"

inductive pipeline_step :: "pipeline \<Rightarrow> pipeline \<Rightarrow> bool" where
  tick: "pp_Panic s = None \<Longrightarrow> send_price_batches obs (pp_SourceMap s) = (sm, p) \<Longrightarrow>
     pipeline_step s (s\<lparr>pp_SourceMap := sm, pp_Panic := p\<rparr>)"
| receive: "pp_Panic s = None \<Longrightarrow> map_of (pp_SourceMap s) market = Some cws \<Longrightarrow>
     cws_Channel cws = Some inputPrices \<Longrightarrow> pp_Services s market = Some mps \<Longrightarrow>
     update_model_price reply mps inputPrices = (mps', calls, r) \<Longrightarrow>
     pipeline_step s (s\<lparr>pp_SourceMap := take_batch market (pp_SourceMap s),
                        pp_Services := (pp_Services s)(market \<mapsto> mps'),
                        pp_Calls := pp_Calls s @ calls, pp_Panic := crash_of r\<rparr>)"

text \<open>The start: \<open>sm\<close> lists the map the configuration gives, in the order of the loops.\<close>

definition pipeline_start :: "source_map \<Rightarrow> pipeline" where
  "pipeline_start sm = \<lparr> pp_SourceMap = sm, pp_Services = start_services (map_of sm), pp_Calls = [],
     pp_Panic = None \<rparr>"

section \<open>No slice is out of bounds\<close>

definition entry_ok :: "(string \<rightharpoonup> market_price_service) \<Rightarrow> string \<times> chan_with_sources \<Rightarrow> bool" where
  "entry_ok services e =
     (case e of (m, cws) \<Rightarrow>
        (case services m of
           None \<Rightarrow> False
         | Some mps \<Rightarrow> mps_market mps = m \<and> mps_scratch_cap mps = length (cws_Sources cws) + 1)
        \<and> (case cws_Channel cws of None \<Rightarrow> True | Some b \<Rightarrow> length b \<le> length (cws_Sources cws)))"

definition pipeline_ok :: "pipeline \<Rightarrow> bool" where
  "pipeline_ok s \<longleftrightarrow>
     distinct (map fst (pp_SourceMap s)) \<and> (\<forall>e \<in> set (pp_SourceMap s). entry_ok (pp_Services s) e)
     \<and> (pp_Panic s = None \<or> pp_Panic s = Some MARKET_SERVICE_STOPPED)
     \<and> (\<forall>(m, p) \<in> set (pp_Calls s). m \<in> fst ` set (pp_SourceMap s))"

lemma median_no_crash: "length vs \<le> mps_scratch_cap mps \<Longrightarrow> crash_of (median mps vs) = None"
  using median_total [of vs mps] by (auto simp: crash_of_def)

lemma check_no_crash:
  "length vs \<le> mps_scratch_cap mps \<Longrightarrow> \<exists>x. check_data_consistency mps vs = Inr x"
  using median_total [of vs mps] by (auto simp: check_data_consistency_def)

lemma get_combined_no_crash:
  assumes "length b < mps_scratch_cap mps"
  shows "crash_of (get_combined_price mps b) = None"
proof -
  define fresh where "fresh = f64_eq (mps_most_recent mps) f64_zero"
  define available where "available = (if fresh then b else mps_most_recent mps # b)"
  define checked where "checked =
      (if 1 < length b
       then case check_data_consistency mps available of
              Inl e \<Rightarrow> Inl e
            | Inr (m, c) \<Rightarrow>
                if \<not> c \<and> \<not> fresh then check_data_consistency mps (tl available)
                else Inr (m, c)
       else Inr (f64_zero, True))"
  have len: "length available \<le> mps_scratch_cap mps" "length (tl available) \<le> mps_scratch_cap mps"
    using assms by (auto simp: available_def)
  obtain x y where "check_data_consistency mps available = Inr x" "check_data_consistency mps (tl available) = Inr y"
    using check_no_crash [OF len(1)] check_no_crash [OF len(2)] by blast
  then have "\<exists>m c. checked = Inr (m, c)"
    by (cases x; cases y) (auto simp: checked_def)
  then obtain m c where mc: "checked = Inr (m, c)"
    by blast
  have raw: "(if fresh then available else tl available) = b"
    by (simp add: available_def)
  obtain p where p: "median mps (filter (\<lambda>p. length b = 1 \<or> close_enough p m FIVE_PERCENT) b) = Inr p"
    using median_total [of "filter (\<lambda>p. length b = 1 \<or> close_enough p m FIVE_PERCENT) b" mps] assms
      le_trans [OF length_filter_le] by (metis less_imp_le)
  show ?thesis
    unfolding get_combined_price_def Let_def fresh_def [symmetric] available_def [symmetric]
      checked_def [symmetric] mc raw sum.case prod.case p
    by (simp add: crash_of_def)
qed

lemma process_inputs_cap [simp]: "mps_scratch_cap (fst (process_inputs mps b)) = mps_scratch_cap mps"
  by (auto simp: process_inputs_def Let_def split: sum.split)

lemma process_no_crash:
  "length b < mps_scratch_cap mps \<Longrightarrow> crash_of (snd (process_inputs mps b)) = None"
  using get_combined_no_crash [of b mps]
  by (auto simp: process_inputs_def crash_of_def Let_def split: sum.splits fail.splits)

lemma update_no_crash:
  assumes "length b < mps_scratch_cap mps" "update_model_price reply mps b = (mps', calls, r)"
  shows "crash_of r = None" "mps_market mps' = mps_market mps" "mps_scratch_cap mps' = mps_scratch_cap mps"
    "\<forall>(m, p) \<in> set calls. m = mps_market mps"
proof -
  obtain m1 r1 where p: "process_inputs mps b = (m1, r1)"
    by (cases "process_inputs mps b")
  have m1: "mps_market m1 = mps_market mps" "mps_scratch_cap m1 = mps_scratch_cap mps" "crash_of r1 = None"
    using process_inputs_market [of mps b] process_inputs_cap [of mps b] process_no_crash [OF assms(1)]
    by (simp_all add: p)
  show "crash_of r = None" "mps_market mps' = mps_market mps" "mps_scratch_cap mps' = mps_scratch_cap mps"
    "\<forall>(m, p) \<in> set calls. m = mps_market mps"
    using assms(2) m1
    by (auto simp: update_model_price_def p crash_of_def split: sum.splits option.splits prod.splits fail.splits)
qed

section \<open>The invariant\<close>

lemma send_price_batches_keys: "send_price_batches obs sm = (sm', p) \<Longrightarrow> map fst sm' = map fst sm"
proof (induction sm arbitrary: sm' p)
  case (Cons e sm)
  obtain m cws where e: "e = (m, cws)"
    by (cases e)
  show ?case
    using Cons by (auto simp: e Let_def split: if_splits option.splits prod.splits)
qed simp

lemma send_price_batches_ok:
  assumes "send_price_batches obs sm = (sm', p)" "\<forall>e \<in> set sm. entry_ok services e"
  shows "(\<forall>e \<in> set sm'. entry_ok services e) \<and> (p = None \<or> p = Some MARKET_SERVICE_STOPPED)"
  using assms
proof (induction sm arbitrary: sm' p)
  case (Cons e sm)
  obtain m cws where e: "e = (m, cws)"
    by (cases e)
  obtain sm2 p2 where rest: "send_price_batches obs sm = (sm2, p2)"
    by (cases "send_price_batches obs sm")
  have ok: "entry_ok services (m, cws)" "\<forall>e \<in> set sm. entry_ok services e"
    using Cons.prems(2) by (auto simp: e)
  note IH = Cons.IH [OF rest ok(2)]
  have filled: "entry_ok services (m, cws\<lparr>cws_Channel := Some (price_batch obs m cws)\<rparr>)"
    using ok(1) length_price_batch [of obs m cws] by (auto simp: entry_ok_def split: option.splits)
  show ?case
  proof (cases "price_batch obs m cws = []")
    case True
    then show ?thesis
      using Cons.prems(1) IH ok(1) by (auto simp: e rest Let_def)
  next
    case False
    then show ?thesis
      using Cons.prems(1) IH ok filled by (cases "cws_Channel cws") (auto simp: e rest Let_def)
  qed
qed simp

lemma take_batch_keys [simp]: "map fst (take_batch m sm) = map fst sm"
  by (induction sm) auto

lemma take_batch_set:
  "distinct (map fst sm) \<Longrightarrow> (k, c) \<in> set (take_batch m sm) \<Longrightarrow>
     (\<exists>c'. (k, c') \<in> set sm \<and> cws_Sources c = cws_Sources c'
        \<and> cws_Channel c = (if k = m then None else cws_Channel c'))"
  by (induction sm) (force split: if_splits)+

lemma pipeline_ok_step: "pipeline_step s s' \<Longrightarrow> pipeline_ok s \<Longrightarrow> pipeline_ok s'"
proof (induction rule: pipeline_step.induct)
  case (tick s obs sm p)
  have k: "map fst sm = map fst (pp_SourceMap s)"
    using send_price_batches_keys tick.hyps(2) by blast
  then have "fst ` set sm = fst ` set (pp_SourceMap s)"
    by (metis list.set_map)
  moreover have "(\<forall>e \<in> set sm. entry_ok (pp_Services s) e) \<and> (p = None \<or> p = Some MARKET_SERVICE_STOPPED)"
    using send_price_batches_ok [OF tick.hyps(2)] tick.prems by (auto simp: pipeline_ok_def)
  ultimately show ?case
    using tick.prems k by (simp add: pipeline_ok_def)
next
  case (receive s market cws inputPrices mps reply mps' calls r)
  have mem: "(market, cws) \<in> set (pp_SourceMap s)"
    using receive.hyps(2) by (rule map_of_SomeD)
  then have e: "mps_market mps = market" "mps_scratch_cap mps = length (cws_Sources cws) + 1"
      "length inputPrices \<le> length (cws_Sources cws)"
    using receive.prems receive.hyps(3,4) by (auto simp: pipeline_ok_def entry_ok_def)
  then have u: "crash_of r = None" "mps_market mps' = market"
      "mps_scratch_cap mps' = length (cws_Sources cws) + 1" "\<forall>(m, p) \<in> set calls. m = market"
    using update_no_crash [OF _ receive.hyps(5)] by auto
  have d: "distinct (map fst (pp_SourceMap s))" "\<forall>e \<in> set (pp_SourceMap s). entry_ok (pp_Services s) e"
    using receive.prems by (auto simp: pipeline_ok_def)
  have keys: "fst ` set (take_batch market (pp_SourceMap s)) = fst ` set (pp_SourceMap s)"
    by (metis list.set_map take_batch_keys)
  have services_ok: "entry_ok ((pp_Services s)(market \<mapsto> mps')) (k, c)"
    if kc: "(k, c) \<in> set (take_batch market (pp_SourceMap s))" for k c
  proof -
    obtain c' where c': "(k, c') \<in> set (pp_SourceMap s)" "cws_Sources c = cws_Sources c'"
        "cws_Channel c = (if k = market then None else cws_Channel c')"
      using take_batch_set [OF d(1) kc] by blast
    show ?thesis
    proof (cases "k = market")
      case True
      then have "c' = cws"
        using c'(1) mem d(1) by (metis eq_key_imp_eq_value)
      then show ?thesis
        using True c' u(2,3) by (simp add: entry_ok_def)
    next
      case False
      have "entry_ok (pp_Services s) (k, c')"
        using d(2) c'(1) by blast
      then show ?thesis
        using False c'(2,3) by (auto simp: entry_ok_def split: option.splits)
    qed
  qed
  have calls_ok: "m \<in> fst ` set (pp_SourceMap s)" if "(m, p) \<in> set (pp_Calls s @ calls)" for m p
  proof (cases "(m, p) \<in> set calls")
    case True
    then have "m = market"
      using u(4) by blast
    then show ?thesis
      using mem by (metis fst_conv image_eqI)
  next
    case False
    then have "(m, p) \<in> set (pp_Calls s)"
      using that by simp
    then show ?thesis
      using receive.prems unfolding pipeline_ok_def by blast
  qed
  have all_ok: "\<forall>e \<in> set (take_batch market (pp_SourceMap s)). entry_ok ((pp_Services s)(market \<mapsto> mps')) e"
    using services_ok by (metis surj_pair)
  have "\<forall>c \<in> set (pp_Calls s @ calls). fst c \<in> fst ` set (pp_SourceMap s)"
    using calls_ok by (metis prod.collapse)
  then show ?case
    using d(1) u(1) keys all_ok by (simp add: pipeline_ok_def case_prod_unfold)
qed

lemma pipeline_step_keys:
  "pipeline_step s s' \<Longrightarrow> map fst (pp_SourceMap s') = map fst (pp_SourceMap s)"
  by (induction rule: pipeline_step.induct) (simp_all add: send_price_batches_keys)

text \<open>
  The pricing process never dies of an out-of-range slice: however the exchanges, the
  aggregator's ticks and the services interleave, the only panic that can end it is the
  aggregator's own one, and only the subscribed markets get an index price.
\<close>

theorem pipeline_only_stops_itself:
  assumes "distinct (map fst sm)" "\<forall>(m, cws) \<in> set sm. cws_Channel cws = None"
    and "pipeline_step\<^sup>*\<^sup>* (pipeline_start sm) s"
  shows "(pp_Panic s = None \<or> pp_Panic s = Some MARKET_SERVICE_STOPPED)
    \<and> (\<forall>(m, p) \<in> set (pp_Calls s). m \<in> fst ` set sm)"
proof -
  have "pipeline_ok (pipeline_start sm)"
    using assms(1,2)
    by (fastforce simp: pipeline_ok_def pipeline_start_def entry_ok_def start_services_def
        new_market_price_service_def map_of_is_SomeI)
  with assms(3) have "pipeline_ok s \<and> map fst (pp_SourceMap s) = map fst sm"
  proof (induction rule: rtranclp_induct)
    case (step y z)
    then show ?case
      using pipeline_ok_step [OF step.hyps(2)] pipeline_step_keys [OF step.hyps(2)] by simp
  qed (simp add: pipeline_start_def)
  then show ?thesis
    unfolding pipeline_ok_def by (metis list.set_map)
qed

text \<open>A run of two markets that share an exchange: a tick, a receipt, a second tick.\<close>

definition demo_source :: source_data where
  "demo_source = \<lparr> sd_Markets = [''BTC-USD'', ''ETH-USD''], sd_LatestPrices = 0, sd_Urls = [] \<rparr>"

definition demo_map :: source_map where
  "demo_map =
     [(''BTC-USD'', \<lparr> cws_Channel = None, cws_Sources = [demo_source], cws_MaxDelay = 60 \<rparr>),
      (''ETH-USD'', \<lparr> cws_Channel = None, cws_Sources = [demo_source], cws_MaxDelay = 60 \<rparr>)]"

definition demo_obs :: observation where
  "demo_obs market src = (\<lparr> pt_price = (if market = ''BTC-USD'' then Finite False 100 else f64_zero),
                            pt_time = 1000 - (if market = ''BTC-USD'' then 0 else 1000) \<rparr>, 1010)"

lemma demo_tick:
  "send_price_batches demo_obs demo_map =
     ([(''BTC-USD'', \<lparr> cws_Channel = Some [Finite False 100], cws_Sources = [demo_source], cws_MaxDelay = 60 \<rparr>),
       (''ETH-USD'', \<lparr> cws_Channel = None, cws_Sources = [demo_source], cws_MaxDelay = 60 \<rparr>)], None)"
  by (simp add: demo_map_def demo_obs_def price_batch_def fresh_price_def is_no_price_time_def
      time_sub_def min_duration_def max_duration_def Let_def)

lemma pipeline_only_stops_itself_witness:
  "pp_Panic ((pipeline_start demo_map)\<lparr>pp_SourceMap := fst (send_price_batches demo_obs demo_map)\<rparr>) = None"
proof -
  let ?s = "(pipeline_start demo_map)\<lparr>pp_SourceMap := fst (send_price_batches demo_obs demo_map)\<rparr>"
  have "pipeline_step (pipeline_start demo_map) ((pipeline_start demo_map)\<lparr>pp_SourceMap :=
      fst (send_price_batches demo_obs demo_map), pp_Panic := None\<rparr>)"
    by (rule pipeline_step.tick [of _ demo_obs]) (simp_all add: pipeline_start_def demo_tick)
  then have step: "pipeline_step\<^sup>*\<^sup>* (pipeline_start demo_map) ?s"
    by (simp add: pipeline_start_def r_into_rtranclp)
  have "pp_Panic ?s = None \<or> pp_Panic ?s = Some MARKET_SERVICE_STOPPED"
    using pipeline_only_stops_itself [OF _ _ step] by (simp add: demo_map_def)
  then show ?thesis
    by (simp add: pipeline_start_def)
qed

section \<open>A slow service, and a steady price\<close>

text \<open>
  The channel holds one batch: a market whose service has not taken the last batch when the next
  tick finds a fresh price ends the whole process.
\<close>

lemma slow_service_stops_pricing:
  assumes "cws_Channel cws = Some b" "price_batch obs market cws \<noteq> []"
  shows "snd (send_price_batches obs ((market, cws) # rest)) = Some MARKET_SERVICE_STOPPED"
  using assms by (simp add: Let_def)

text \<open>
  A price that is confirmed but does not change keeps the time it was first seen at, so it is no
  longer sent once that is older than the market's delay.
\<close>

lemma steady_price_goes_stale:
  assumes "latest market = Some first" "\<forall>pt \<in> set updates. f64_eq (pt_price first) (pt_price pt)"
    and "cws_MaxDelay cws < time_sub now (pt_time first)"
    and "\<And>m s. obs m s = (load m (fold (\<lambda>pt l. snd (store market pt l)) updates latest), now)"
  shows "price_batch obs market cws = []"
proof -
  have same: "fold (\<lambda>pt l. snd (store market pt l)) updates latest = latest"
    using assms(1,2) by (induction updates) (auto simp: store_def)
  have "concat (map (fresh_price obs market (cws_MaxDelay cws)) xs) = []" for xs
    using assms(1,3,4) unfolding same by (induction xs) (auto simp: fresh_price_def load_def)
  then show ?thesis
    by (simp add: price_batch_def)
qed

end
