(* ===== verification/Pricing_Feeds.thy ===== *)
theory Pricing_Feeds
  imports Pricing_Service "HOL-Library.AList"
begin

text \<open>
  The exchanges of \<^verbatim>\<open>pricing/sources\<close>: how each recognises a price in a web socket message and
  extracts it (\<^verbatim>\<open>binance_source.go\<close>, \<^verbatim>\<open>okx_source.go\<close>, \<^verbatim>\<open>coinbase_source.go\<close>,
  \<^verbatim>\<open>kraken_source.go\<close>), and how the REST sources turn an answer into stored prices
  (\<^verbatim>\<open>basegecko_source.go\<close>, \<^verbatim>\<open>coingecko_source.go\<close>, \<^verbatim>\<open>geckoterminal_source.go\<close>,
  \<^verbatim>\<open>coinmarketcap_source.go\<close>).

  \<open>feed_lib\<close> is the standard library these files call: \<^verbatim>\<open>json.Unmarshal\<close> into each of the types
  (\<open>None\<close> for its error), \<^verbatim>\<open>strconv.ParseFloat\<close>, \<^verbatim>\<open>time.Parse(RFC3339)\<close> and the query encoding.
\<close>

section \<open>Messages\<close>

datatype op_code = OpContinuation | OpText | OpBinary | OpClose | OpPing | OpPong

record kline_data =
  kd_t :: int
  kd_T :: int
  kd_s :: string
  kd_i :: string
  kd_f :: int
  kd_L :: int
  kd_o :: string
  kd_c :: string
  kd_h :: string
  kd_l :: string
  kd_v :: string
  kd_n :: int
  kd_x :: bool
  kd_q :: string
  kd_V :: string
  kd_Q :: string
  kd_B :: string

definition zero_kline :: kline_data where
  "zero_kline = \<lparr> kd_t = 0, kd_T = 0, kd_s = [], kd_i = [], kd_f = 0, kd_L = 0, kd_o = [], kd_c = [],
     kd_h = [], kd_l = [], kd_v = [], kd_n = 0, kd_x = False, kd_q = [], kd_V = [], kd_Q = [], kd_B = [] \<rparr>"

record kline_wrapper =
  kw_e :: string
  kw_E :: int
  kw_s :: string
  kw_k :: kline_data

record stream_wrapper =
  sw_Stream :: string
  sw_Data :: kline_wrapper

record okx_arg =
  oa_Channel :: string
  oa_InstId :: string

record okx_price_data =
  op_Event :: string
  op_Arg :: okx_arg
  op_Data :: "string list list"

record okx_subscription =
  os_Op :: string
  os_Args :: "okx_arg list"

record cb_subscription =
  cs_Type :: string
  cs_ProductIDs :: "string list"
  cs_Channels :: "string list"

record cb_ticker_data =
  cb_Type :: string
  cb_Sequence :: int
  cb_ProductID :: string
  cb_Price :: string
  cb_Open24h :: string
  cb_Volume24h :: string
  cb_Low24h :: string
  cb_High24h :: string
  cb_Volume30d :: string
  cb_BestBid :: string
  cb_BestBidSize :: string
  cb_BestAsk :: string
  cb_BestAskSize :: string
  cb_Side :: string
  cb_Time :: go_time
  cb_TradeID :: int
  cb_LastSize :: string

record kn_request =
  kn_Event :: string
  kn_Pair :: "string list"
  kn_SubscriptionName :: string

text \<open>A value decoded into \<^verbatim>\<open>interface{}\<close>\<close>

datatype json_any = JNull | JBool bool | JNum f64 | JStr string | JArr "json_any list" | JObj "(string \<times> json_any) list"

record gt_item =
  gi_Address :: string
  gi_PriceUSD :: string

record cmc_quote =
  cq_Price :: f64
  cq_LastUpdated :: string

type_synonym cmc_currency = "string \<rightharpoonup> cmc_quote"

record feed_lib =
  fl_ParseFloat :: "string \<Rightarrow> f64 option"
  fl_ParseTime :: "string \<Rightarrow> go_time option"
  fl_QueryEncode :: "(string \<times> string) list \<Rightarrow> string"
  fl_Binance :: "string \<Rightarrow> stream_wrapper option"
  fl_Okx :: "string \<Rightarrow> okx_price_data option"
  fl_Coinbase :: "string \<Rightarrow> cb_ticker_data option"
  fl_Kraken :: "string \<Rightarrow> json_any list option"
  fl_Coingecko :: "string \<Rightarrow> (string \<times> (string \<rightharpoonup> f64)) list option"
  fl_Geckoterminal :: "string \<Rightarrow> gt_item list option"
  fl_Coinmarketcap :: "string \<Rightarrow> (string \<times> cmc_currency) list option"

type_synonym 'a feed_result = "(string, 'a) go"

text \<open>A close time in milliseconds, no later than now\<close>

definition close_time :: "go_time \<Rightarrow> int \<Rightarrow> go_time" where
  "close_time now millis =
     (let t = time_Unix 0 (int64_wrap (millis * 10 ^ 6)) in if now < t then now else t)"

section \<open>Binance\<close>

definition binance_isPriceData :: "feed_lib \<Rightarrow> string \<Rightarrow> op_code \<Rightarrow> bool \<times> string" where
  "binance_isPriceData F byteResponse op =
     (if op \<noteq> OpText then (False, '''')
      else case fl_Binance F byteResponse of
             None \<Rightarrow> (False, '''')
           | Some res \<Rightarrow> if kw_k (sw_Data res) = zero_kline then (False, '''') else (True, sw_Stream res))"

definition binance_extractPrice :: "feed_lib \<Rightarrow> go_time \<Rightarrow> string \<Rightarrow> f64 \<Rightarrow> price_time feed_result" where
  "binance_extractPrice F now priceResponse multiplier =
     (case fl_Binance F priceResponse of
        None \<Rightarrow> Inl (Err ''unmarshal'')
      | Some res \<Rightarrow>
          let closeTime = close_time now (kd_T (kw_k (sw_Data res)))
          in case fl_ParseFloat F (kd_c (kw_k (sw_Data res))) of
               None \<Rightarrow> Inl (Err ''parse'')
             | Some price \<Rightarrow> Inr \<lparr> pt_price = f64_mul price multiplier, pt_time = closeTime \<rparr>)"

fun joined_inst_ids :: "string \<Rightarrow> bool \<Rightarrow> ticker list \<Rightarrow> string" where
  "joined_inst_ids sep first [] = ''''"
| "joined_inst_ids sep first (t # ts) =
     (if first then '''' else sep) @ tk_InstId t @ joined_inst_ids sep False ts"

definition constructURL :: "ticker list \<Rightarrow> string" where
  "constructURL coinTickers =
     ''wss://stream.binance.com:9443/stream?streams='' @ joined_inst_ids ''/'' True coinTickers"

section \<open>OKX\<close>

definition okx_isPriceData :: "feed_lib \<Rightarrow> string \<Rightarrow> op_code \<Rightarrow> bool \<times> string" where
  "okx_isPriceData F byteResponse op =
     (if op \<noteq> OpText then (False, '''')
      else case fl_Okx F byteResponse of
             None \<Rightarrow> (False, '''')
           | Some res \<Rightarrow>
               if op_Event res = '''' \<and> 0 < length (op_Data res) \<and> op_Arg res \<noteq> \<lparr> oa_Channel = [], oa_InstId = [] \<rparr>
               then (True, oa_InstId (op_Arg res))
               else (False, ''''))"

definition okx_extractPrice :: "feed_lib \<Rightarrow> go_time \<Rightarrow> string \<Rightarrow> f64 \<Rightarrow> price_time feed_result" where
  "okx_extractPrice F now priceResponse multiplier =
     (case fl_Okx F priceResponse of
        None \<Rightarrow> Inl (Err ''unmarshal'')
      | Some res \<Rightarrow>
          if length (op_Data res) < 1 then Inl (Err ''no price update data'')
          else let prices = op_Data res ! 0
               in if length prices \<noteq> 6 then Inl (Err ''unexpected price update data'')
                  else case fl_ParseFloat F (prices ! 4) of
                         None \<Rightarrow> Inl (Err ''parse'')
                       | Some price \<Rightarrow>
                           let closeTime = (case parse_int64 (prices ! 0) of
                                              Some closeMillis \<Rightarrow> close_time now closeMillis
                                            | None \<Rightarrow> now)
                           in Inr \<lparr> pt_price = f64_mul price multiplier, pt_time = closeTime \<rparr>)"

definition okx_subscription_of :: "ticker list \<Rightarrow> okx_subscription" where
  "okx_subscription_of coinTickers =
     \<lparr> os_Op = ''subscribe'',
       os_Args = map (\<lambda>t. \<lparr> oa_Channel = ''index-candle1m'', oa_InstId = tk_InstId t \<rparr>) coinTickers \<rparr>"

section \<open>Coinbase\<close>

definition cb_isPriceData :: "feed_lib \<Rightarrow> string \<Rightarrow> op_code \<Rightarrow> bool \<times> string" where
  "cb_isPriceData F byteResponse op =
     (if op \<noteq> OpText then (False, '''')
      else case fl_Coinbase F byteResponse of
             None \<Rightarrow> (False, '''')
           | Some res \<Rightarrow> (cb_Type res = ''ticker'', cb_ProductID res))"

definition cb_extractPrice :: "feed_lib \<Rightarrow> go_time \<Rightarrow> string \<Rightarrow> f64 \<Rightarrow> price_time feed_result" where
  "cb_extractPrice F now priceResponse multiplier =
     (case fl_Coinbase F priceResponse of
        None \<Rightarrow> Inl (Err ''unmarshal'')
      | Some res \<Rightarrow>
          (case fl_ParseFloat F (cb_Price res) of
             None \<Rightarrow> Inl (Err ''parse'')
           | Some price \<Rightarrow> Inr \<lparr> pt_price = f64_mul price multiplier, pt_time = cb_Time res \<rparr>))"

definition cb_subscription_of :: "ticker list \<Rightarrow> cb_subscription" where
  "cb_subscription_of coinTickers =
     \<lparr> cs_Type = ''subscribe'', cs_ProductIDs = map tk_InstId coinTickers, cs_Channels = [''ticker_batch''] \<rparr>"

section \<open>Kraken\<close>

definition kraken_isPriceData :: "feed_lib \<Rightarrow> string \<Rightarrow> op_code \<Rightarrow> bool \<times> string" where
  "kraken_isPriceData F byteResponse op =
     (if op \<noteq> OpText then (False, '''')
      else case fl_Kraken F byteResponse of
             None \<Rightarrow> (False, '''')
           | Some dataArray \<Rightarrow>
               if length dataArray \<noteq> 4 then (False, '''')
               else case dataArray ! 3 of
                      JStr marketValue \<Rightarrow>
                        (case dataArray ! 1 of
                           JArr ohlc \<Rightarrow> if length ohlc \<noteq> 9 then (False, '''') else (True, marketValue)
                         | _ \<Rightarrow> (False, ''''))
                    | _ \<Rightarrow> (False, ''''))"

text \<open>A type assertion without \<^verbatim>\<open>ok\<close> panics on another type.\<close>

definition assert_string :: "json_any \<Rightarrow> string feed_result" where
  "assert_string v = (case v of JStr s \<Rightarrow> Inr s | _ \<Rightarrow> Inl (Crash ''interface conversion''))"

definition kraken_extractPrice :: "feed_lib \<Rightarrow> go_time \<Rightarrow> string \<Rightarrow> f64 \<Rightarrow> price_time feed_result" where
  "kraken_extractPrice F now priceResponse multiplier =
     (case fl_Kraken F priceResponse of
        None \<Rightarrow> Inl (Err ''unmarshal'')
      | Some dataArray \<Rightarrow>
          if length dataArray \<noteq> 4 then Inl (Err ''unexpected format'')
          else case dataArray ! 1 of
                 JArr ohlc \<Rightarrow>
                   (if length ohlc \<noteq> 9 then Inl (Err ''unexpected format'')
                    else case assert_string (ohlc ! 5) of
                           Inl e \<Rightarrow> Inl e
                         | Inr p \<Rightarrow>
                             (case fl_ParseFloat F p of
                                None \<Rightarrow> Inl (Err ''parse'')
                              | Some price \<Rightarrow>
                                  (case assert_string (ohlc ! 0) of
                                     Inl e \<Rightarrow> Inl e
                                   | Inr t \<Rightarrow>
                                       (case parse_unix_time (fl_ParseFloat F) t of
                                          None \<Rightarrow> Inl (Err ''parse time'')
                                        | Some closeTime \<Rightarrow>
                                            Inr \<lparr> pt_price = f64_mul price multiplier, pt_time = closeTime \<rparr>))))
               | _ \<Rightarrow> Inl (Crash ''interface conversion''))"

definition kn_request_of :: "ticker list \<Rightarrow> kn_request" where
  "kn_request_of coinTickers =
     \<lparr> kn_Event = ''subscribe'', kn_Pair = map tk_InstId coinTickers, kn_SubscriptionName = ''ohlc'' \<rparr>"

section \<open>The exchanges by name\<close>

definition is_price_data :: "feed_lib \<Rightarrow> ws_exchange \<Rightarrow> string \<Rightarrow> op_code \<Rightarrow> bool \<times> string" where
  "is_price_data F ex =
     (case ex of Binance \<Rightarrow> binance_isPriceData F | Okx \<Rightarrow> okx_isPriceData F
      | Coinbase \<Rightarrow> cb_isPriceData F | Kraken \<Rightarrow> kraken_isPriceData F)"

definition extract_price :: "feed_lib \<Rightarrow> ws_exchange \<Rightarrow> go_time \<Rightarrow> string \<Rightarrow> f64 \<Rightarrow> price_time feed_result" where
  "extract_price F ex =
     (case ex of Binance \<Rightarrow> binance_extractPrice F | Okx \<Rightarrow> okx_extractPrice F
      | Coinbase \<Rightarrow> cb_extractPrice F | Kraken \<Rightarrow> kraken_extractPrice F)"

text \<open>Only OKX and Coinbase ping, with the text \<^verbatim>\<open>ping\<close>; none answers a ping.\<close>

definition ping_bytes :: "ws_exchange \<Rightarrow> string" where
  "ping_bytes ex = (case ex of Okx \<Rightarrow> ''ping'' | Coinbase \<Rightarrow> ''ping'' | _ \<Rightarrow> '''')"

definition pong_bytes :: "ws_exchange \<Rightarrow> string" where
  "pong_bytes ex = ''''"

section \<open>The REST sources\<close>

definition MAX_REST_READ_ATTEMPTS :: nat where "MAX_REST_READ_ATTEMPTS = 8"

text \<open>
  \<open>bgs_Markets\<close> maps coins to markets, \<open>bgs_MarketId2\<close> is the name the reference coin has in place
  of a market. The prices and the times of the last data change; the rest is fixed.
\<close>

record basegecko_source =
  bgs_Urls :: "string list"
  bgs_Markets :: "string \<rightharpoonup> string"
  bgs_MarketId2 :: string
  bgs_RefCoinTickers :: "ticker list"
  bgs_MaxUseAge :: "string \<rightharpoonup> duration"
  bgs_Multipliers :: "string \<rightharpoonup> f64"
  bgs_StartedAt :: go_time
  bgs_LatestPrices :: latest_prices
  bgs_LastDataReceived :: "string \<rightharpoonup> go_time"

definition build_markets :: "(string \<times> ticker) list \<Rightarrow> string \<Rightarrow> ticker list \<Rightarrow> string \<rightharpoonup> string" where
  "build_markets coinTickers1 marketId2 refCoinTickers =
     fold (\<lambda>t m. m(tk_InstId t \<mapsto> marketId2)) refCoinTickers
       (fold (\<lambda>(market, t) m. m(tk_InstId t \<mapsto> market)) coinTickers1 Map.empty)"

text \<open>
  The answer of an HTTP request: whether the context had ended before it, no response, or a
  response whose body could or could not be read. A failed request is retried, at most eight times.
\<close>

datatype http_answer = CtxEnded | NoResponse | BodyError | Body string

fun request_loop :: "nat \<Rightarrow> http_answer list \<Rightarrow> string + string" where
  "request_loop failed [] = Inl ''context''"
| "request_loop failed (CtxEnded # as) = Inl ''context''"
| "request_loop failed (NoResponse # as) =
     (if MAX_REST_READ_ATTEMPTS \<le> failed + 1 then Inl ''no price update response''
      else request_loop (failed + 1) as)"
| "request_loop failed (BodyError # as) = Inl ''body''"
| "request_loop failed (Body b # as) = Inr b"

text \<open>The body decoded, by coin; \<open>now\<close> is the clock.\<close>

definition coingecko_extractPrices :: "feed_lib \<Rightarrow> string \<Rightarrow> (string \<times> price_time) list option" where
  "coingecko_extractPrices F responseBody =
     (case fl_Coingecko F responseBody of
        None \<Rightarrow> None
      | Some responseData \<Rightarrow>
          Some (map (\<lambda>(coinId, coinValue).
            let field = (\<lambda>k. case coinValue k of None \<Rightarrow> f64_zero | Some v \<Rightarrow> v)
            in (coinId, \<lparr> pt_price = field ''usd'',
                          pt_time = time_Unix (int_of_f64 (field ''last_updated_at'')) 0 \<rparr>)) responseData))"

fun gt_prices :: "feed_lib \<Rightarrow> go_time \<Rightarrow> gt_item list \<Rightarrow> (string \<times> price_time) list \<Rightarrow> (string \<times> price_time) list option" where
  "gt_prices F now [] acc = Some acc"
| "gt_prices F now (item # items) acc =
     (case fl_ParseFloat F (gi_PriceUSD item) of
        None \<Rightarrow> None
      | Some price \<Rightarrow>
          gt_prices F now items (AList.update (gi_Address item) \<lparr> pt_price = price, pt_time = now \<rparr> acc))"

definition geckoterminal_extractPrices :: "feed_lib \<Rightarrow> go_time \<Rightarrow> string \<Rightarrow> (string \<times> price_time) list option" where
  "geckoterminal_extractPrices F now responseBody =
     (case fl_Geckoterminal F responseBody of
        None \<Rightarrow> None
      | Some items \<Rightarrow> gt_prices F now items [])"

fun prices_by_market ::
    "(string \<rightharpoonup> string) \<Rightarrow> (string \<times> price_time) list \<Rightarrow> (string \<times> price_time) list \<Rightarrow> (string \<times> price_time) list option" where
  "prices_by_market markets [] acc = Some acc"
| "prices_by_market markets ((coinId, pt) # ps) acc =
     (let market = (case markets coinId of None \<Rightarrow> '''' | Some m \<Rightarrow> m)
      in if market = '''' then None else prices_by_market markets ps (AList.update market pt acc))"

definition find_prices ::
    "(string \<Rightarrow> (string \<times> price_time) list option) \<Rightarrow> basegecko_source \<Rightarrow> http_answer list
     \<Rightarrow> (string \<times> price_time) list option" where
  "find_prices extractPrices bgs answers =
     (case request_loop 0 answers of
        Inl e \<Rightarrow> None
      | Inr body \<Rightarrow>
          (case extractPrices body of
             None \<Rightarrow> None
           | Some pricesByCoinId \<Rightarrow> prices_by_market (bgs_Markets bgs) pricesByCoinId []))"

text \<open>One entry of the loop over the prices of an answer; the log of stale data is left out.\<close>

definition store_reference_price :: "f64 \<Rightarrow> string \<times> price_time \<Rightarrow> basegecko_source \<Rightarrow> basegecko_source" where
  "store_reference_price price2 mp bgs =
     (case mp of (market, priceTime) \<Rightarrow>
        let multiplier = (if market = bgs_MarketId2 bgs then Some (f64_lit 1) else bgs_Multipliers bgs market)
        in case multiplier of
             None \<Rightarrow> bgs
           | Some m \<Rightarrow>
               let pt = priceTime\<lparr>pt_price := f64_div (f64_mul (pt_price priceTime) m) price2\<rparr>;
                   (stored, latest) = store market pt (bgs_LatestPrices bgs);
                   bgs = bgs\<lparr>bgs_LatestPrices := latest\<rparr>
               in if stored
                  then bgs\<lparr>bgs_LastDataReceived := (bgs_LastDataReceived bgs)(market \<mapsto> pt_time pt)\<rparr>
                  else bgs)"

text \<open>
  \<^verbatim>\<open>readPriceData\<close>: each url comes with the replies to its requests. The warnings of the
  error paths name the first reference ticker, which panics when there is none.
\<close>

fun bgs_read_urls ::
    "(string \<Rightarrow> (string \<times> price_time) list option) \<Rightarrow> (string \<times> http_answer list) list \<Rightarrow> basegecko_source
     \<Rightarrow> basegecko_source feed_result" where
  "bgs_read_urls extractPrices [] bgs = Inr bgs"
| "bgs_read_urls extractPrices ((url, answers) # urls) bgs =
     (case find_prices extractPrices bgs answers of
        None \<Rightarrow> Inr bgs
      | Some prices \<Rightarrow>
          (case map_of prices (bgs_MarketId2 bgs) of
             None \<Rightarrow> (if bgs_RefCoinTickers bgs = [] then Inl (Crash ''index out of range'') else Inr bgs)
           | Some price2 \<Rightarrow>
               if f64_lt (pt_price price2) (f64_lit (1 / 100))
               then (if bgs_RefCoinTickers bgs = [] then Inl (Crash ''index out of range'') else Inr bgs)
               else bgs_read_urls extractPrices urls
                      (fold (store_reference_price (pt_price price2)) prices bgs)))"

definition bgs_getDataElapsed :: "go_time \<Rightarrow> basegecko_source \<Rightarrow> string \<Rightarrow> duration" where
  "bgs_getDataElapsed now bgs market =
     (case bgs_LastDataReceived bgs market of
        None \<Rightarrow> time_sub now (bgs_StartedAt bgs)
      | Some t \<Rightarrow> if t = 0 then time_sub now (bgs_StartedAt bgs) else time_sub now t)"

section \<open>CoinMarketCap\<close>

record coinmarketcap_source =
  cmc_Markets :: "string \<rightharpoonup> string"
  cmc_RefCoinTickers :: "ticker list"
  cmc_Multipliers :: "string \<rightharpoonup> f64"
  cmc_StartedAt :: go_time
  cmc_LatestPrices :: latest_prices
  cmc_LastUpdated :: "string \<rightharpoonup> go_time"

text \<open>\<^verbatim>\<open>NewRestSource\<close> does not set \<open>startedAt\<close>, and no method does.\<close>

definition new_coinmarketcap :: "(string \<times> ticker) list \<Rightarrow> ticker list \<Rightarrow> (string \<rightharpoonup> f64) \<Rightarrow> coinmarketcap_source" where
  "new_coinmarketcap coinTickers refCoinTickers multipliers =
     \<lparr> cmc_Markets = reverse_instrument_map coinTickers, cmc_RefCoinTickers = refCoinTickers,
       cmc_Multipliers = multipliers, cmc_StartedAt = 0, cmc_LatestPrices = Map.empty,
       cmc_LastUpdated = Map.empty \<rparr>"

definition cmc_getDataElapsed :: "go_time \<Rightarrow> coinmarketcap_source \<Rightarrow> string \<Rightarrow> duration" where
  "cmc_getDataElapsed now cmcs market =
     (case cmc_LastUpdated cmcs market of
        None \<Rightarrow> time_sub now (cmc_StartedAt cmcs)
      | Some t \<Rightarrow> if t = 0 then time_sub now (cmc_StartedAt cmcs) else time_sub now t)"

fun cmc_store_prices ::
    "feed_lib \<Rightarrow> (string \<times> cmc_currency) list \<Rightarrow> coinmarketcap_source \<Rightarrow> coinmarketcap_source feed_result" where
  "cmc_store_prices F [] cmcs = Inr cmcs"
| "cmc_store_prices F ((coinId, currency) # ps) cmcs =
     (let market = (case cmc_Markets cmcs coinId of None \<Rightarrow> '''' | Some m \<Rightarrow> m)
      in case cmc_Multipliers cmcs market of
           None \<Rightarrow> cmc_store_prices F ps cmcs
         | Some multiplier \<Rightarrow>
             (case cmc_RefCoinTickers cmcs of
                [] \<Rightarrow> Inl (Crash ''index out of range'')
              | ref # _ \<Rightarrow>
                  let quote = (case currency (tk_InstId ref) of
                                 None \<Rightarrow> \<lparr> cq_Price = f64_zero, cq_LastUpdated = '''' \<rparr> | Some q \<Rightarrow> q);
                      price = f64_mul (cq_Price quote) multiplier
                  in case fl_ParseTime F (cq_LastUpdated quote) of
                       None \<Rightarrow> Inr cmcs
                     | Some lastUpdated \<Rightarrow>
                         let (stored, latest) = store market \<lparr> pt_price = price, pt_time = lastUpdated \<rparr> (cmc_LatestPrices cmcs);
                             cmcs = cmcs\<lparr>cmc_LatestPrices := latest\<rparr>;
                             cmcs = (if stored
                                     then cmcs\<lparr>cmc_LastUpdated := (cmc_LastUpdated cmcs)(market \<mapsto> lastUpdated)\<rparr>
                                     else cmcs)
                         in cmc_store_prices F ps cmcs))"

definition cmc_read_prices :: "feed_lib \<Rightarrow> coinmarketcap_source \<Rightarrow> http_answer list
    \<Rightarrow> ((string \<times> cmc_currency) list option) feed_result" where
  "cmc_read_prices F cmcs answers =
     (if cmc_RefCoinTickers cmcs = [] then Inl (Crash ''index out of range'')
      else case request_loop 0 answers of
             Inl e \<Rightarrow> Inr None
           | Inr body \<Rightarrow> Inr (fl_Coinmarketcap F body))"

definition cmc_read_price_data :: "feed_lib \<Rightarrow> coinmarketcap_source \<Rightarrow> http_answer list
    \<Rightarrow> coinmarketcap_source feed_result" where
  "cmc_read_price_data F cmcs answers =
     (case cmc_read_prices F cmcs answers of
        Inl e \<Rightarrow> Inl e
      | Inr None \<Rightarrow> Inr cmcs
      | Inr (Some prices) \<Rightarrow> cmc_store_prices F prices cmcs)"

definition build_cmc_id_param :: "ticker list \<Rightarrow> string" where
  "build_cmc_id_param coinTickers = joined_inst_ids '','' True coinTickers"

section \<open>The urls of the REST sources\<close>

definition build_cg_urls :: "feed_lib \<Rightarrow> ticker list \<Rightarrow> ticker \<Rightarrow> string list" where
  "build_cg_urls F coinTickers refCoinTicker =
     (let ids = tk_InstId refCoinTicker @ concat (map (\<lambda>t. '','' @ tk_InstId t) coinTickers)
      in [''https://pro-api.coingecko.com/api/v3/simple/price'' @ ''?''
          @ fl_QueryEncode F [(''ids'', ids), (''vs_currencies'', ''usd''),
                              (''include_last_updated_at'', ''true''), (''precision'', ''full'')]])"

definition tickers_of_network :: "string \<Rightarrow> ticker list \<Rightarrow> ticker list" where
  "tickers_of_network network coinTickers = filter (\<lambda>t. tk_Network t = network) coinTickers"

text \<open>\<open>networks\<close> lists the networks of the tickers in the order of the loop.\<close>

fun build_gt_urls :: "string list \<Rightarrow> ticker list \<Rightarrow> ticker list \<Rightarrow> string list feed_result" where
  "build_gt_urls [] coinTickers refCoinTickers = Inr []"
| "build_gt_urls (network # networks) coinTickers refCoinTickers =
     (case fold (\<lambda>t m. m(tk_Network t \<mapsto> t)) refCoinTickers Map.empty network of
        None \<Rightarrow> Inl (Crash (''geckoterminal config has no reference ticker for network '' @ network))
      | Some refTicker \<Rightarrow>
          let ts = tickers_of_network network coinTickers;
              url = ''https://api.geckoterminal.com/api/v2/networks/'' @ network @ ''/tokens/multi'' @ ''/''
                    @ joined_inst_ids '','' True ts
                    @ (if ts = [] then '''' else '','') @ tk_InstId refTicker
          in case build_gt_urls networks coinTickers refCoinTickers of
               Inl e \<Rightarrow> Inl e
             | Inr urls \<Rightarrow> Inr (url # urls))"

section \<open>Facts\<close>

text \<open>A failed url ends the round: the networks after it keep their old prices.\<close>

lemma failed_url_ends_the_round:
  "find_prices extractPrices bgs answers = None \<Longrightarrow>
     bgs_read_urls extractPrices ((url, answers) # urls) bgs = Inr bgs"
  by simp

text \<open>Before its first price a CoinMarketCap market counts as silent since the year 1.\<close>

lemma coinmarketcap_never_started:
  assumes "max_duration \<le> now"
  shows "cmc_getDataElapsed now (new_coinmarketcap tickers refs multipliers) market = max_duration"
  using assms by (simp add: cmc_getDataElapsed_def new_coinmarketcap_def time_sub_def min_duration_def max_duration_def)

text \<open>An instrument that two markets share serves the market the loop meets last.\<close>

lemma shared_instrument_serves_one_market:
  "tk_InstId t = tk_InstId u \<Longrightarrow> reverse_instrument_map [(m, t), (n, u)] (tk_InstId t) = Some n"
  by (simp add: reverse_instrument_map_def)

lemma request_loop_gives_up:
  "request_loop 0 (replicate 8 NoResponse @ as) = Inl ''no price update response''"
  by (simp add: eval_nat_numeral MAX_REST_READ_ATTEMPTS_def)

end
