(* ===== verification/Pricing_Socket.thy ===== *)
theory Pricing_Socket
  imports Pricing_Feeds
begin

text \<open>
  \<^verbatim>\<open>pricing/sources/gobwas_source.go\<close>: the web socket of an exchange. First the operations as
  functions of the source's state and of what the network answers; then the two goroutines that
  use the connection (\<^verbatim>\<open>pinger\<close> and \<^verbatim>\<open>wsReader\<close>) as a step relation over the state that the
  mutex \<^verbatim>\<open>muState\<close> protects.
\<close>

section \<open>Data\<close>

definition PING_INTERVAL :: duration where "PING_INTERVAL = 25 * second"
definition MIN_RECONNECT_INTERVAL :: duration where "MIN_RECONNECT_INTERVAL = 20 * second"
definition MAX_DIAL_ATTEMPTS :: nat where "MAX_DIAL_ATTEMPTS = 10"

datatype conn_state = Disconnected | Connecting | Connected

text \<open>A connection is a number, new with every successful dial.\<close>

record gobwas_source =
  gs_State :: conn_state
  gs_LatestPrices :: latest_prices
  gs_LastPongReceived :: go_time
  gs_Conn :: "nat option"
  gs_Markets :: "string \<rightharpoonup> string"
  gs_ConnectedAt :: go_time
  gs_LastConnectStarted :: go_time
  gs_MaxUseAge :: "string \<rightharpoonup> duration"
  gs_Multipliers :: "string \<rightharpoonup> f64"
  gs_Exchange :: ws_exchange
  gs_PingAlways :: bool

definition new_gobwas_source ::
    "ws_exchange \<Rightarrow> (string \<times> ticker) list \<Rightarrow> (string \<rightharpoonup> duration) \<Rightarrow> (string \<rightharpoonup> f64) \<Rightarrow> gobwas_source" where
  "new_gobwas_source ex coinTickers maxUseAge multipliers =
     \<lparr> gs_State = Disconnected, gs_LatestPrices = Map.empty, gs_LastPongReceived = 0, gs_Conn = None,
       gs_Markets = reverse_instrument_map coinTickers, gs_ConnectedAt = 0, gs_LastConnectStarted = 0,
       gs_MaxUseAge = maxUseAge, gs_Multipliers = multipliers, gs_Exchange = ex, gs_PingAlways = False \<rparr>"

section \<open>Connecting\<close>

definition enter_connecting_state :: "go_time \<Rightarrow> gobwas_source \<Rightarrow> bool \<times> gobwas_source" where
  "enter_connecting_state now gs =
     (if gs_State gs = Connecting \<or> time_sub now (gs_LastConnectStarted gs) < MIN_RECONNECT_INTERVAL
      then (False, gs)
      else (True, gs\<lparr>gs_State := Connecting, gs_LastConnectStarted := now\<rparr>))"

text \<open>What an attempt meets: a failed dial, or a dial whose subscription fails or succeeds.\<close>

datatype dial_answer = DialError | SubscribeError nat | Subscribed nat

function reconnect_loop ::
    "nat \<Rightarrow> duration \<Rightarrow> (nat \<Rightarrow> dial_answer) \<Rightarrow> gobwas_source \<Rightarrow> bool \<times> gobwas_source \<times> duration list" where
  "reconnect_loop numPrevAttempts interval dial gs =
     (if MAX_DIAL_ATTEMPTS \<le> numPrevAttempts \<and> 0 < numPrevAttempts
      then (False, gs\<lparr>gs_State := Disconnected\<rparr>, [])
      else let slept = (if 0 < numPrevAttempts then [interval] else []);
               interval = (if 0 < numPrevAttempts then interval * 2 else interval);
               gs = gs\<lparr>gs_Conn := None\<rparr>
           in case dial numPrevAttempts of
                DialError \<Rightarrow>
                  (case reconnect_loop (numPrevAttempts + 1) interval dial gs of
                     (ok, gs', ds) \<Rightarrow> (ok, gs', slept @ ds))
              | SubscribeError c \<Rightarrow>
                  (case reconnect_loop (numPrevAttempts + 1) interval dial (gs\<lparr>gs_Conn := Some c\<rparr>) of
                     (ok, gs', ds) \<Rightarrow> (ok, gs', slept @ ds))
              | Subscribed c \<Rightarrow> (True, gs\<lparr>gs_Conn := Some c\<rparr>, slept))"
  by pat_completeness auto
termination
  by (relation "measure (\<lambda>(n, i, d, gs). MAX_DIAL_ATTEMPTS - n)") (auto simp: MAX_DIAL_ATTEMPTS_def)

declare reconnect_loop.simps [simp del]

text \<open>\<open>now\<close> is the clock at the call, \<open>later\<close> when the loop has ended. The durations slept are the last result.\<close>

definition reconnect ::
    "go_time \<Rightarrow> go_time \<Rightarrow> (nat \<Rightarrow> dial_answer) \<Rightarrow> gobwas_source \<Rightarrow> bool \<times> gobwas_source \<times> duration list" where
  "reconnect now later dial gs =
     (case enter_connecting_state now gs of
        (False, gs') \<Rightarrow> (False, gs', [])
      | (True, gs') \<Rightarrow>
          (case reconnect_loop 0 second dial gs' of
             (False, gs'', ds) \<Rightarrow> (False, gs'', ds)
           | (True, gs'', ds) \<Rightarrow> (True, gs''\<lparr>gs_State := Connected, gs_ConnectedAt := later\<rparr>, ds)))"

section \<open>Pings and timeouts\<close>

definition gs_getPongElapsed :: "go_time \<Rightarrow> gobwas_source \<Rightarrow> duration" where
  "gs_getPongElapsed now gs =
     (if gs_LastPongReceived gs = 0 \<or> gs_LastPongReceived gs < gs_ConnectedAt gs
      then time_sub now (gs_ConnectedAt gs)
      else time_sub now (gs_LastPongReceived gs))"

definition gs_getDataElapsed :: "go_time \<Rightarrow> gobwas_source \<Rightarrow> string \<Rightarrow> duration" where
  "gs_getDataElapsed now gs market =
     (let latest = load market (gs_LatestPrices gs)
      in if pt_time latest = 0 \<or> pt_time latest < gs_ConnectedAt gs
         then time_sub now (gs_ConnectedAt gs)
         else time_sub now (pt_time latest))"

text \<open>What the pinger does next\<close>

datatype ping_action = NoAction | Reconnect string | SendPing string

text \<open>The loop over the markets, with the clock of each reading: the least elapsed time, or a timeout.\<close>

fun data_timeouts ::
    "(string \<Rightarrow> go_time) \<Rightarrow> gobwas_source \<Rightarrow> string list \<Rightarrow> duration \<Rightarrow> duration option" where
  "data_timeouts clock gs [] minDataElapsed = Some minDataElapsed"
| "data_timeouts clock gs (market # markets) minDataElapsed =
     (let elapsed = gs_getDataElapsed (clock market) gs market;
          minDataElapsed = (if elapsed < minDataElapsed then elapsed else minDataElapsed);
          maxUseAge = (case gs_MaxUseAge gs market of None \<Rightarrow> 0 | Some d \<Rightarrow> d)
      in if int64_wrap (3 * maxUseAge) < elapsed then None
         else data_timeouts clock gs markets minDataElapsed)"

definition handle_pings_and_timeouts ::
    "(string \<Rightarrow> go_time) \<Rightarrow> go_time \<Rightarrow> string list \<Rightarrow> gobwas_source \<Rightarrow> ping_action" where
  "handle_pings_and_timeouts clock now markets gs =
     (case data_timeouts clock gs markets (60 * minute) of
        None \<Rightarrow> Reconnect ''data timeout''
      | Some minDataElapsed \<Rightarrow>
          let pingBytes = ping_bytes (gs_Exchange gs)
          in if length pingBytes \<noteq> 0
             then let elapsed = gs_getPongElapsed now gs;
                      elapsed = (if minDataElapsed < elapsed then minDataElapsed else elapsed)
                  in if 3 * PING_INTERVAL < elapsed then Reconnect ''ping timeout''
                     else if gs_PingAlways gs \<or> PING_INTERVAL < elapsed then SendPing pingBytes
                     else NoAction
             else NoAction)"

section \<open>Reading and writing\<close>

definition handle_price_data ::
    "feed_lib \<Rightarrow> go_time \<Rightarrow> string \<Rightarrow> string \<Rightarrow> gobwas_source \<Rightarrow> gobwas_source feed_result" where
  "handle_price_data F now byteResponse coinId gs =
     (let market = (case gs_Markets gs coinId of None \<Rightarrow> '''' | Some m \<Rightarrow> m);
          multiplier = (case gs_Multipliers gs market of None \<Rightarrow> f64_zero | Some m \<Rightarrow> m)
      in case extract_price F (gs_Exchange gs) now byteResponse multiplier of
           Inl (Crash msg) \<Rightarrow> Inl (Crash msg)
         | Inl (Err e) \<Rightarrow> Inr gs
         | Inr priceTime \<Rightarrow>
             Inr (gs\<lparr>gs_LatestPrices := snd (store market priceTime (gs_LatestPrices gs))\<rparr>))"

text \<open>
  What a read yields while the state is connected: an error of the deadline or the read, or the
  bytes of a frame. After the step comes a reconnection, a pong, or nothing.
\<close>

datatype ws_frame = ReadError | Frame string op_code

datatype read_action = ReadNothing | ReadReconnect | ReadSleep | ReadPong string

definition is_pong_data :: "string \<Rightarrow> op_code \<Rightarrow> bool" where
  "is_pong_data bytes op \<longleftrightarrow> op = OpPong \<or> bytes = ''pong''"

definition is_ping_data :: "string \<Rightarrow> op_code \<Rightarrow> bool" where
  "is_ping_data bytes op \<longleftrightarrow> op = OpPing \<or> bytes = ''ping''"

definition read_ws_data ::
    "feed_lib \<Rightarrow> go_time \<Rightarrow> ws_frame \<Rightarrow> gobwas_source \<Rightarrow> (gobwas_source \<times> read_action) feed_result" where
  "read_ws_data F now frame gs =
     (if gs_State gs \<noteq> Connected
      then Inr (gs, if gs_State gs = Connecting then ReadSleep else ReadReconnect)
      else case frame of
             ReadError \<Rightarrow> Inr (gs, ReadReconnect)
           | Frame byteResponse op \<Rightarrow>
               if op = OpClose then Inr (gs, ReadReconnect)
               else (case is_price_data F (gs_Exchange gs) byteResponse op of
                       (True, coinId) \<Rightarrow>
                         (case handle_price_data F now byteResponse coinId gs of
                            Inl e \<Rightarrow> Inl e
                          | Inr gs' \<Rightarrow> Inr (gs', ReadNothing))
                     | (False, _) \<Rightarrow>
                         if is_pong_data byteResponse op
                         then Inr (gs\<lparr>gs_LastPongReceived := now\<rparr>, ReadNothing)
                         else if is_ping_data byteResponse op \<and> length (pong_bytes (gs_Exchange gs)) \<noteq> 0
                         then Inr (gs, ReadPong (pong_bytes (gs_Exchange gs)))
                         else Inr (gs, ReadNothing)))"

text \<open>The write itself, when the state is connected: whether it is followed by a reconnection.\<close>

definition write_ws_data :: "bool \<Rightarrow> gobwas_source \<Rightarrow> bool" where
  "write_ws_data failed gs = (gs_State gs = Connected \<and> failed)"

section \<open>The two goroutines\<close>

text \<open>
  A goroutine that reads or writes holds the read lock and uses the connection it found; the
  goroutine that reconnects took the state to connecting under the write lock and then replaces the
  connection without a lock.
\<close>

datatype goroutine = Pinger | Reader

record socket =
  so_State :: conn_state
  so_Conn :: "nat option"
  so_Uses :: "goroutine \<Rightarrow> nat option option"
  so_Connecting :: "goroutine option"
  so_Next :: nat
  so_Closed :: "nat set"

definition socket_start :: socket where
  "socket_start = \<lparr> so_State = Disconnected, so_Conn = None, so_Uses = (\<lambda>_. None), so_Connecting = None,
     so_Next = 0, so_Closed = {} \<rparr>"

inductive socket_step :: "socket \<Rightarrow> socket \<Rightarrow> bool" where
  begin_use: "so_State s = Connected \<Longrightarrow> so_Uses s g = None \<Longrightarrow> so_Connecting s \<noteq> Some g \<Longrightarrow>
     socket_step s (s\<lparr>so_Uses := (so_Uses s)(g \<mapsto> so_Conn s)\<rparr>)"
| end_use: "so_Uses s g \<noteq> None \<Longrightarrow> socket_step s (s\<lparr>so_Uses := (so_Uses s)(g := None)\<rparr>)"
| enter: "so_Uses s = (\<lambda>_. None) \<Longrightarrow> so_State s \<noteq> Connecting \<Longrightarrow>
     socket_step s (s\<lparr>so_State := Connecting, so_Connecting := Some g\<rparr>)"
| close_conn: "so_Connecting s = Some g \<Longrightarrow> so_Conn s = Some c \<Longrightarrow>
     socket_step s (s\<lparr>so_Conn := None, so_Closed := insert c (so_Closed s)\<rparr>)"
| dial: "so_Connecting s = Some g \<Longrightarrow> so_Conn s = None \<Longrightarrow>
     socket_step s (s\<lparr>so_Conn := Some (so_Next s), so_Next := so_Next s + 1\<rparr>)"
| finish: "so_Connecting s = Some g \<Longrightarrow> so_Uses s = (\<lambda>_. None) \<Longrightarrow> so_Conn s \<noteq> None \<Longrightarrow>
     socket_step s (s\<lparr>so_State := Connected, so_Connecting := None\<rparr>)"
| give_up: "so_Connecting s = Some g \<Longrightarrow> so_Uses s = (\<lambda>_. None) \<Longrightarrow>
     socket_step s (s\<lparr>so_State := Disconnected, so_Connecting := None\<rparr>)"

definition socket_ok :: "socket \<Rightarrow> bool" where
  "socket_ok s \<longleftrightarrow>
     (so_State s = Connecting \<longleftrightarrow> so_Connecting s \<noteq> None)
     \<and> (so_State s = Connected \<longrightarrow> so_Conn s \<noteq> None)
     \<and> (\<forall>g c. so_Uses s g = Some c \<longrightarrow> so_State s = Connected \<and> c = so_Conn s)
     \<and> (\<forall>c. so_Conn s = Some c \<longrightarrow> c < so_Next s \<and> c \<notin> so_Closed s)
     \<and> (\<forall>c \<in> so_Closed s. c < so_Next s)"

lemma socket_ok_step: "socket_step s s' \<Longrightarrow> socket_ok s \<Longrightarrow> socket_ok s'"
proof (induction rule: socket_step.induct)
  case (close_conn s g c)
  then show ?case
    by (auto simp: socket_ok_def)
next
  case (dial s g)
  then show ?case
    by (fastforce simp: socket_ok_def)
qed (auto simp: socket_ok_def split: if_splits)

text \<open>
  Property C31. While one goroutine reconnects, the other never touches the connection it replaces:
  whatever the interleaving, a connection that a goroutine uses exists, is the current one and has
  not been closed.
\<close>

theorem connection_in_use_is_open:
  assumes "socket_step\<^sup>*\<^sup>* socket_start s" "so_Uses s g = Some used"
  shows "\<exists>c. used = Some c \<and> so_Conn s = Some c \<and> c \<notin> so_Closed s \<and> so_State s = Connected"
proof -
  have "socket_ok s"
    using assms(1)
    by (induction rule: rtranclp_induct)
      (auto simp: socket_ok_step, simp add: socket_ok_def socket_start_def)
  then show ?thesis
    using assms(2) by (auto simp: socket_ok_def)
qed

lemma connection_in_use_is_open_witness:
  "\<exists>c. Some 0 = Some c \<and> Some (0 :: nat) = Some c \<and> c \<notin> ({} :: nat set) \<and> Connected = Connected"
proof -
  let ?s1 = "socket_start\<lparr>so_State := Connecting, so_Connecting := Some Reader\<rparr>"
  let ?s2 = "?s1\<lparr>so_Conn := Some 0, so_Next := 1\<rparr>"
  let ?s3 = "?s2\<lparr>so_State := Connected, so_Connecting := None\<rparr>"
  let ?s4 = "?s3\<lparr>so_Uses := [Pinger \<mapsto> Some 0]\<rparr>"
  have "socket_step socket_start ?s1"
    by (rule enter) (simp_all add: socket_start_def)
  moreover have "socket_step ?s1 ?s2"
    using dial [of ?s1 Reader] by (simp add: socket_start_def)
  moreover have "socket_step ?s2 ?s3"
    using finish [of ?s2 Reader] by (simp add: socket_start_def)
  moreover have "socket_step ?s3 ?s4"
    using begin_use [of ?s3 Pinger] by (simp add: socket_start_def)
  ultimately have "socket_step\<^sup>*\<^sup>* socket_start ?s4"
    by (meson rtranclp.rtrancl_into_rtrancl rtranclp.rtrancl_refl)
  from connection_in_use_is_open [OF this, of Pinger "Some 0"] show ?thesis
    by (simp add: socket_start_def)
qed

section \<open>A reconnection ends\<close>

lemma reconnect_loop_state:
  "reconnect_loop n i dial gs = (ok, gs', ds) \<Longrightarrow>
     (if ok then gs_State gs' = gs_State gs \<and> gs_Conn gs' \<noteq> None else gs_State gs' = Disconnected)"
proof (induction n i dial gs arbitrary: ok gs' ds rule: reconnect_loop.induct)
  case (1 n i dial gs)
  show ?case
  proof (cases "MAX_DIAL_ATTEMPTS \<le> n \<and> 0 < n")
    case True
    then show ?thesis
      using "1.prems" by (subst (asm) reconnect_loop.simps) auto
  next
    case False
    show ?thesis
    proof (cases "dial n")
      case DialError
      obtain ok2 gs2 ds2 where r: "reconnect_loop (n + 1) (if 0 < n then i * 2 else i) dial (gs\<lparr>gs_Conn := None\<rparr>) = (ok2, gs2, ds2)"
        by (metis prod_cases3)
      have "gs' = gs2 \<and> ok = ok2"
        using "1.prems" False DialError r by (subst (asm) reconnect_loop.simps) (auto simp: Let_def)
      then show ?thesis
        using "1.IH"(1) [OF False HOL.refl HOL.refl HOL.refl DialError r] by simp
    next
      case (SubscribeError c)
      obtain ok2 gs2 ds2 where r: "reconnect_loop (n + 1) (if 0 < n then i * 2 else i) dial
          (gs\<lparr>gs_Conn := None\<rparr>\<lparr>gs_Conn := Some c\<rparr>) = (ok2, gs2, ds2)"
        by (metis prod_cases3)
      have "gs' = gs2 \<and> ok = ok2"
        using "1.prems" False SubscribeError r by (subst (asm) reconnect_loop.simps) (auto simp: Let_def)
      then show ?thesis
        using "1.IH"(2) [OF False HOL.refl HOL.refl HOL.refl SubscribeError r] by simp
    next
      case (Subscribed c)
      then show ?thesis
        using "1.prems" False by (subst (asm) reconnect_loop.simps) (auto simp: Let_def)
    qed
  qed
qed

text \<open>A reconnection that was entered leaves the connecting state, with a connection if it succeeded.\<close>

lemma reconnect_leaves_connecting:
  assumes "reconnect now later dial gs = (ok, gs', ds)" "gs_State gs \<noteq> Connecting"
  shows "gs_State gs' \<noteq> Connecting \<and> (ok \<longrightarrow> gs_State gs' = Connected \<and> gs_Conn gs' \<noteq> None)"
  using assms by (auto simp: reconnect_def enter_connecting_state_def split: if_splits prod.splits
      dest!: reconnect_loop_state)

text \<open>
  An exchange that cannot be reached keeps its caller for 511 seconds of sleep; \<open>LoadConfig\<close> makes
  the first connection of every exchange before it starts any service.
\<close>

lemma unreachable_exchange_blocks_its_caller:
  "snd (snd (reconnect_loop 0 second (\<lambda>_. DialError) gs))
     = map (\<lambda>k. k * second) [1, 2, 4, 8, 16, 32, 64, 128, 256]"
  "sum_list (map (\<lambda>k. k * second) [1, 2, 4, 8, 16, 32, 64, 128, 256]) = 511 * second"
  by (simp_all add: reconnect_loop.simps MAX_DIAL_ATTEMPTS_def)

end
