(* ===== verification/Archiver.thy ===== *)
theory Archiver
  imports Go_Prog
begin

text \<open>
  The archiver (the package \<^verbatim>\<open>archiver\<close>) copies the spaces of the Tarantool instances into
  TimescaleDB: \<^verbatim>\<open>batcher.go\<close> reads rows, \<^verbatim>\<open>tsdb.go\<close> builds the statements and runs them in a
  transaction, \<^verbatim>\<open>archiver.go\<close> combines the two in four modes and repeats them. The operations of
  the two databases and of the clock act on a state \<open>'w\<close> of the outside world.
\<close>

section \<open>Operations on the world\<close>

type_synonym ('w, 'a) io = "'w \<Rightarrow> (string + 'a) \<times> 'w"

text \<open>\<^verbatim>\<open>x, err := m; if err != nil { return errors.Wrap(err, msg) }\<close>, then \<open>k\<close> with \<open>x\<close>\<close>

definition wrapping :: "string \<Rightarrow> ('w, 'a) io \<Rightarrow> ('a \<Rightarrow> ('w, 'b) io) \<Rightarrow> ('w, 'b) io" where
  "wrapping msg m k w =
     (case m w of (Inl e, w') \<Rightarrow> (Inl (msg @ '': '' @ e), w') | (Inr x, w') \<Rightarrow> k x w')"

type_synonym 'd row = "'d gval list"

record 'd insert_stmt =
  is_Table   :: string
  is_Columns :: string
  is_Suffix  :: string
  is_Values  :: "'d row list"

text \<open>
  \<open>al_QueryLast\<close> is the SQL function \<^verbatim>\<open>last_shard_archive_id\<close> of a schema, table and shard,
  \<open>al_QueryMax\<close> the greatest archive id of a shard in a table, \<open>al_Select\<close> \<^verbatim>\<open>Broker.SelectUntyped\<close>
  (instance, space, index, key, iterator, limit), \<open>al_Now\<close> the clock in nanoseconds; the rest are the
  operations of the connection pool and of its transaction.
\<close>

record ('w, 'd) archive_lib =
  al_QueryLast :: "string \<Rightarrow> string \<Rightarrow> string \<Rightarrow> ('w, nat) io"
  al_QueryMax  :: "string \<Rightarrow> string \<Rightarrow> ('w, nat) io"
  al_Select    :: "string \<Rightarrow> string \<Rightarrow> string \<Rightarrow> 'd gval option \<Rightarrow> nat \<Rightarrow> nat \<Rightarrow> ('w, 'd row list \<times> string list) io"
  al_Now       :: "'w \<Rightarrow> nat \<times> 'w"
  al_Acquire   :: "('w, unit) io"
  al_Begin     :: "('w, unit) io"
  al_ToSql     :: "'d insert_stmt \<Rightarrow> string option"
  al_Exec      :: "'d insert_stmt \<Rightarrow> ('w, unit) io"
  al_Commit    :: "('w, unit) io"
  al_Rollback  :: "'w \<Rightarrow> string option \<times> 'w"

abbreviation IterAll :: nat where "IterAll \<equiv> 2"
abbreviation IterGt :: nat where "IterGt \<equiv> 6"

section \<open>Batches of rows\<close>

record 'd batch_response =
  br_batch   :: "'d row list"
  br_columns :: "string list"
  br_ts      :: nat

definition getPart :: "nat \<Rightarrow> nat \<Rightarrow> 'd batch_response \<Rightarrow> 'd batch_response" where
  "getPart left right b =
     (let right = (if length (br_batch b) < right then length (br_batch b) else right);
          left = (if right < left then right else left)
      in \<lparr> br_batch = drop left (take right (br_batch b)), br_columns = br_columns b, br_ts = br_ts b \<rparr>)"

definition unixMicro :: "nat \<Rightarrow> nat" where
  "unixMicro ns = ns div 1000"

definition maxBatcherLimit :: nat where "maxBatcherLimit = 1000000"
definition batchLimit :: nat where "batchLimit = 1000"

record batcher =
  ba_space     :: string
  ba_instance  :: string
  ba_batchSize :: nat

text \<open>\<^verbatim>\<open>newIncrementalBatcher\<close> and \<^verbatim>\<open>newSnapshotBatcher\<close>\<close>

definition newBatcher :: "string \<Rightarrow> string \<Rightarrow> nat \<Rightarrow> batcher" where
  "newBatcher space inst batchSize =
     \<lparr> ba_space = space, ba_instance = inst,
       ba_batchSize = (if batchSize = 0 \<or> batchLimit < batchSize then batchLimit else batchSize) \<rparr>"

definition incremental_batch :: "('w, 'd) archive_lib \<Rightarrow> batcher \<Rightarrow> nat \<Rightarrow> ('w, 'd batch_response) io" where
  "incremental_batch L b lastArchiveId =
     wrapping ''get next incremental batch''
       (al_Select L (ba_instance b) (ba_space b) ''archive_id'' (Some (VUint lastArchiveId)) IterGt (ba_batchSize b))
       (\<lambda>(res, columns) w. case al_Now L w of (ns, w') \<Rightarrow>
          (Inr \<lparr> br_batch = res, br_columns = columns, br_ts = unixMicro ns \<rparr>, w'))"

text \<open>
  The loop of the snapshot batcher: \<open>None\<close> when it has not ended after \<open>fuel\<close> rounds. A row without
  columns makes \<^verbatim>\<open>data[size-1].([]any)[0]\<close> panic, here the error \<^verbatim>\<open>index out of range\<close>.
\<close>

fun snapshot_loop ::
  "nat \<Rightarrow> ('w, 'd) archive_lib \<Rightarrow> batcher \<Rightarrow> 'd row list \<Rightarrow> 'w \<Rightarrow> ((string + 'd row list) \<times> 'w) option" where
  "snapshot_loop 0 L b dat w = None"
| "snapshot_loop (Suc fuel) L b dat w =
     (if dat = [] \<or> last dat = [] then Some (Inl ''index out of range'', w)
      else case al_Select L (ba_instance b) (ba_space b) ''primary'' (Some (hd (last dat))) IterGt (ba_batchSize b) w of
        (Inl e, w') \<Rightarrow> Some (Inl (''select untyped: '' @ e), w')
      | (Inr (res, _), w') \<Rightarrow>
          (if length res < ba_batchSize b then Some (Inr (dat @ res), w')
           else if maxBatcherLimit < length (dat @ res) then Some (Inr (dat @ res), w')
           else snapshot_loop fuel L b (dat @ res) w'))"

definition snapshot_batch ::
  "nat \<Rightarrow> ('w, 'd) archive_lib \<Rightarrow> batcher \<Rightarrow> 'w \<Rightarrow> ((string + 'd batch_response) \<times> 'w) option" where
  "snapshot_batch fuel L b w =
     (case al_Select L (ba_instance b) (ba_space b) ''primary'' None IterAll (ba_batchSize b) w of
        (Inl e, w1) \<Rightarrow> Some (Inl (''select untyped: '' @ e), w1)
      | (Inr (dat, columns), w1) \<Rightarrow>
          (case al_Now L w1 of (ns, w2) \<Rightarrow>
             (let response = (\<lambda>dat. \<lparr> br_batch = dat, br_columns = columns, br_ts = unixMicro ns \<rparr>) in
              if length dat < ba_batchSize b then Some (Inr (response dat), w2)
              else map_option (\<lambda>(r, w3). (case r of Inl e \<Rightarrow> Inl e | Inr dat' \<Rightarrow> Inr (response dat'), w3))
                     (snapshot_loop fuel L b dat w2))))"

section \<open>Statements\<close>

text \<open>The builders of the statements by mode\<close>

datatype sql_builder = LiveSql "string list" | SnapshotSql | FullSnapshotSql

definition join :: "string \<Rightarrow> string list \<Rightarrow> string" where
  "join sep xs = (case xs of [] \<Rightarrow> '''' | x # ys \<Rightarrow> x @ concat (map (\<lambda>y. sep @ y) ys))"

definition live_suffix :: "string list \<Rightarrow> string list \<Rightarrow> string" where
  "live_suffix uniqueId columns =
     ''ON CONFLICT ('' @ join '','' uniqueId @ '') DO UPDATE SET '' @
     join '','' (map (\<lambda>c. c @ ''=EXCLUDED.'' @ c) columns)"

text \<open>\<^verbatim>\<open>Build\<close>: no statement for an empty batch\<close>

definition Build :: "sql_builder \<Rightarrow> string \<Rightarrow> 'd batch_response \<Rightarrow> 'd insert_stmt option" where
  "Build builder table res =
     (if br_batch res = [] then None
      else let columns = br_columns res @ [''archive_timestamp'']
           in Some \<lparr> is_Table = table, is_Columns = join '','' columns,
                is_Suffix = (case builder of LiveSql uniqueId \<Rightarrow> live_suffix uniqueId columns | _ \<Rightarrow> ''''),
                is_Values = map (\<lambda>row. row @ [VUint (br_ts res)]) (br_batch res) \<rparr>)"

section \<open>The time series database\<close>

record tsdb =
  ts_instance :: string
  ts_table    :: string
  ts_builder  :: sql_builder

definition getShardId :: "string \<Rightarrow> string" where
  "getShardId inst = takeWhile (\<lambda>c. c \<noteq> CHR ''.'') inst"

definition OverrideLastArchiveId :: "nat \<Rightarrow> nat" where
  "OverrideLastArchiveId oldValue = 0"

definition getLastArchiveId :: "('w, 'd) archive_lib \<Rightarrow> tsdb \<Rightarrow> ('w, nat) io" where
  "getLastArchiveId L db =
     wrapping ''scan query'' (al_QueryLast L ''public'' (ts_table db) (getShardId (ts_instance db)))
       (\<lambda>mx w. (Inr (case ts_builder db of FullSnapshotSql \<Rightarrow> OverrideLastArchiveId mx | _ \<Rightarrow> mx), w))"

definition getLastArchiveIdRaw :: "('w, 'd) archive_lib \<Rightarrow> tsdb \<Rightarrow> ('w, nat) io" where
  "getLastArchiveIdRaw L db =
     wrapping ''scan query'' (al_QueryMax L (ts_table db) (getShardId (ts_instance db))) (\<lambda>mx w. (Inr mx, w))"

definition sync_size :: nat where "sync_size = 1000"

text \<open>The loop of \<^verbatim>\<open>sync\<close> over the parts of a batch\<close>

function sync_parts :: "('w, 'd) archive_lib \<Rightarrow> tsdb \<Rightarrow> nat \<Rightarrow> 'd batch_response \<Rightarrow> ('w, unit) io" where
  "sync_parts L db i res w =
     (if i < length (br_batch res)
      then case Build (ts_builder db) (ts_table db) (getPart i (i + sync_size) res) of
             None \<Rightarrow> sync_parts L db (i + sync_size) res w
           | Some stmt \<Rightarrow>
               (case al_ToSql L stmt of
                  Some e \<Rightarrow> (Inl (''build query: '' @ e), w)
                | None \<Rightarrow>
                    (case al_Exec L stmt w of
                       (Inl e, w') \<Rightarrow> (Inl (''exec query: '' @ e), w')
                     | (Inr _, w') \<Rightarrow> sync_parts L db (i + sync_size) res w'))
      else (Inr (), w))"
  by pat_completeness auto
termination
  by (relation "measure (\<lambda>(L, db, i, res, w). length (br_batch res) - i)") (auto simp: sync_size_def)

declare sync_parts.simps [simp del]

text \<open>The transaction, with the deferred rollback whose error is appended to the first one\<close>

definition sync_tx :: "('w, 'd) archive_lib \<Rightarrow> tsdb \<Rightarrow> 'd batch_response \<Rightarrow> ('w, unit) io" where
  "sync_tx L db res w =
     (case (case sync_parts L db 0 res w of
              (Inl e, w1) \<Rightarrow> (Inl e, w1)
            | (Inr _, w1) \<Rightarrow> wrapping ''commit tx'' (al_Commit L) (\<lambda>_ w. (Inr (), w)) w1) of
        (Inr _, w2) \<Rightarrow> (Inr (), w2)
      | (Inl e, w2) \<Rightarrow>
          (case al_Rollback L w2 of
             (None, w3) \<Rightarrow> (Inl e, w3)
           | (Some r, w3) \<Rightarrow> (Inl (e @ ''; '' @ r), w3)))"

definition sync :: "('w, 'd) archive_lib \<Rightarrow> tsdb \<Rightarrow> 'd batch_response \<Rightarrow> ('w, unit) io" where
  "sync L db res =
     wrapping ''acquire db conn'' (al_Acquire L) (\<lambda>_.
     wrapping ''begin tx'' (al_Begin L) (\<lambda>_. sync_tx L db res))"

section \<open>One round\<close>

definition archive_from ::
  "('w, 'd) archive_lib \<Rightarrow> ('w, nat) io \<Rightarrow> batcher \<Rightarrow> tsdb \<Rightarrow> ('w, nat) io" where
  "archive_from L lastId b db =
     wrapping ''get last archive-id'' lastId (\<lambda>archiveId.
     wrapping (''get next batch: '' @ show_nat archiveId) (incremental_batch L b archiveId) (\<lambda>batch.
     wrapping ''sync tsdb'' (sync L db batch) (\<lambda>_ w. (Inr (length (br_batch batch)), w))))"

definition archiveUpdatedSpace :: "('w, 'd) archive_lib \<Rightarrow> batcher \<Rightarrow> tsdb \<Rightarrow> ('w, nat) io" where
  "archiveUpdatedSpace L b db = archive_from L (getLastArchiveId L db) b db"

definition archiveUpdatedSpaceRaw :: "('w, 'd) archive_lib \<Rightarrow> batcher \<Rightarrow> tsdb \<Rightarrow> ('w, nat) io" where
  "archiveUpdatedSpaceRaw L b db = archive_from L (getLastArchiveIdRaw L db) b db"

text \<open>The result is \<open>None\<close> when the snapshot batcher runs out of fuel.\<close>

definition archiveFullSpace :: "nat \<Rightarrow> ('w, 'd) archive_lib \<Rightarrow> batcher \<Rightarrow> tsdb \<Rightarrow> 'w \<Rightarrow> ((string + nat) \<times> 'w) option" where
  "archiveFullSpace fuel L b db w =
     map_option (\<lambda>(r, w1). case r of
         Inl e \<Rightarrow> (Inl (''get next batch: '' @ e), w1)
       | Inr batch \<Rightarrow> wrapping ''sync tsdb'' (sync L db batch) (\<lambda>_ w. (Inr (length (br_batch batch)), w)) w1)
       (snapshot_batch fuel L b w)"

section \<open>Modes\<close>

record tarantool_space =
  sc_TimescaledbTable :: string
  sc_SyncInterval     :: nat
  sc_BatchSize        :: nat
  sc_Instances        :: "string list"
  sc_Mode             :: string
  sc_UniqueId         :: "string list"

definition archive_modes :: "string list" where
  "archive_modes = [''live'', ''live-raw'', ''snapshot'', ''full-snapshot'']"

text \<open>\<^verbatim>\<open>ArchiveMode.UnmarshalYAML\<close> of a decoded string\<close>

definition unmarshal_mode :: "string \<Rightarrow> string + string" where
  "unmarshal_mode mode =
     (if mode \<in> set archive_modes then Inr mode else Inl (''unmarshal '' @ mode @ '': unknown archive mode''))"

definition makeArchiveFn ::
  "nat \<Rightarrow> ('w, 'd) archive_lib \<Rightarrow> string \<Rightarrow> tarantool_space \<Rightarrow> string \<Rightarrow> string + ('w \<Rightarrow> ((string + nat) \<times> 'w) option)" where
  "makeArchiveFn fuel L space spaceCfg inst =
     (let b = newBatcher space inst (sc_BatchSize spaceCfg);
          db = (\<lambda>builder. \<lparr> ts_instance = inst, ts_table = sc_TimescaledbTable spaceCfg, ts_builder = builder \<rparr>)
      in if sc_Mode spaceCfg = ''live'' then
           Inr (\<lambda>w. Some (archiveUpdatedSpace L b (db (LiveSql (sc_UniqueId spaceCfg))) w))
         else if sc_Mode spaceCfg = ''live-raw'' then
           Inr (\<lambda>w. Some (archiveUpdatedSpaceRaw L b (db (LiveSql (sc_UniqueId spaceCfg))) w))
         else if sc_Mode spaceCfg = ''snapshot'' then
           Inr (\<lambda>w. Some (archiveUpdatedSpace L b (db SnapshotSql) w))
         else if sc_Mode spaceCfg = ''full-snapshot'' then
           Inr (archiveFullSpace fuel L b (db FullSnapshotSql))
         else Inl ''unknown archive mode'')"

text \<open>
  The loop of a space's goroutine, for a number of ticks: it stops at the first error, which also
  cancels the other spaces.
\<close>

primrec archive_ticks :: "nat \<Rightarrow> ('w \<Rightarrow> ((string + nat) \<times> 'w) option) \<Rightarrow> 'w \<Rightarrow> ((string + unit) \<times> 'w) option" where
  "archive_ticks 0 archiveSpace w = Some (Inr (), w)"
| "archive_ticks (Suc n) archiveSpace w =
     (case archiveSpace w of
        None \<Rightarrow> None
      | Some (Inl e, w') \<Rightarrow> Some (Inl e, w')
      | Some (Inr _, w') \<Rightarrow> archive_ticks n archiveSpace w')"

end
