(* ===== verification/Archiver_Props.thy ===== *)
theory Archiver_Props
  imports Archiver
begin

text \<open>
  What the rounds of the archiver achieve. The rows of a space carry archive ids from a growing
  sequence, a new one on every change of a row; a round asks for the rows behind the greatest id
  archived. Rows are changed, added and removed at any moment of a round.
\<close>

section \<open>The two databases\<close>

text \<open>
  A view of the world: the rows of the space, the next archive id to be handed out, the archived
  rows by their unique key, the statements of the open transaction.
\<close>

record ('w, 'd) archive_view =
  vw_src  :: "'w \<Rightarrow> 'd row list"
  vw_next :: "'w \<Rightarrow> nat"
  vw_dst  :: "'w \<Rightarrow> 'd gval list \<rightharpoonup> 'd row"
  vw_pend :: "'w \<Rightarrow> 'd insert_stmt list"
  vw_aid  :: "'d row \<Rightarrow> nat"
  vw_key  :: "'d row \<Rightarrow> 'd gval list"

definition src_ok :: "('w, 'd) archive_view \<Rightarrow> 'w \<Rightarrow> bool" where
  "src_ok V w \<longleftrightarrow> distinct (vw_src V w) \<and> inj_on (vw_aid V) (set (vw_src V w)) \<and> inj_on (vw_key V) (set (vw_src V w)) \<and>
     (\<forall>r\<in>set (vw_src V w). 0 < vw_aid V r \<and> vw_aid V r < vw_next V w)"

text \<open>What other processes may do to the space: a row that was not there has a new archive id.\<close>

definition src_step :: "('w, 'd) archive_view \<Rightarrow> 'w \<Rightarrow> 'w \<Rightarrow> bool" where
  "src_step V w w' \<longleftrightarrow> vw_next V w \<le> vw_next V w' \<and> (src_ok V w \<longrightarrow> src_ok V w') \<and>
     (\<forall>r\<in>set (vw_src V w'). r \<in> set (vw_src V w) \<or> vw_next V w \<le> vw_aid V r)"

definition max_id :: "('w, 'd) archive_view \<Rightarrow> 'w \<Rightarrow> nat" where
  "max_id V w = Max (insert 0 (vw_aid V ` ran (vw_dst V w)))"

definition rows_after :: "('w, 'd) archive_view \<Rightarrow> nat \<Rightarrow> 'w \<Rightarrow> 'd row list" where
  "rows_after V k w = sort_key (vw_aid V) (List.filter (\<lambda>r. k < vw_aid V r) (vw_src V w))"

definition upsert :: "('d row \<Rightarrow> 'd gval list) \<Rightarrow> 'd row list \<Rightarrow> ('d gval list \<rightharpoonup> 'd row) \<Rightarrow> 'd gval list \<rightharpoonup> 'd row" where
  "upsert key rows m = fold (\<lambda>r m. m(key r \<mapsto> r)) rows m"

text \<open>The rows a statement carries, without the timestamp the builder appends\<close>

definition stmt_rows :: "'d insert_stmt \<Rightarrow> 'd row list" where
  "stmt_rows s = map butlast (is_Values s)"

text \<open>
  What the operations do: each may fail; none but the commit changes the archive, and the commit
  does it as a whole or not at all.
\<close>

definition read_law :: "('w, 'd) archive_view \<Rightarrow> ('w, 'a) io \<Rightarrow> ('w \<Rightarrow> 'a \<Rightarrow> bool) \<Rightarrow> bool" where
  "read_law V m P \<longleftrightarrow> (\<forall>w. src_step V w (snd (m w)) \<and> vw_dst V (snd (m w)) = vw_dst V w \<and>
     (\<forall>x. fst (m w) = Inr x \<longrightarrow> P w x))"

definition tx_law :: "('w, 'd) archive_view \<Rightarrow> ('w, 'd) archive_lib \<Rightarrow> bool" where
  "tx_law V L \<longleftrightarrow>
     read_law V (al_Acquire L) (\<lambda>_ _. True) \<and>
     read_law V (al_Begin L) (\<lambda>w _. vw_pend V (snd (al_Begin L w)) = []) \<and>
     (\<forall>s. read_law V (al_Exec L s) (\<lambda>w _. vw_pend V (snd (al_Exec L s w)) = vw_pend V w @ [s])) \<and>
     (\<forall>w. src_step V w (snd (al_Rollback L w)) \<and> vw_dst V (snd (al_Rollback L w)) = vw_dst V w) \<and>
     (\<forall>w. src_step V w (snd (al_Commit L w)) \<and>
        vw_dst V (snd (al_Commit L w)) =
          (case fst (al_Commit L w) of
             Inl _ \<Rightarrow> vw_dst V w
           | Inr _ \<Rightarrow> upsert (vw_key V) (concat (map stmt_rows (vw_pend V w))) (vw_dst V w)))"

definition archive_laws :: "('w, 'd) archive_view \<Rightarrow> ('w, 'd) archive_lib \<Rightarrow> batcher \<Rightarrow> tsdb \<Rightarrow> bool" where
  "archive_laws V L b db \<longleftrightarrow>
     read_law V (al_QueryMax L (ts_table db) (getShardId (ts_instance db))) (\<lambda>w n. n = max_id V w) \<and>
     (\<forall>k. read_law V (al_Select L (ba_instance b) (ba_space b) ''archive_id'' (Some (VUint k)) IterGt (ba_batchSize b))
        (\<lambda>w r. fst r = take (ba_batchSize b) (rows_after V k w))) \<and>
     (\<forall>w. src_step V w (snd (al_Now L w)) \<and> vw_dst V (snd (al_Now L w)) = vw_dst V w) \<and>
     tx_law V L"

lemma src_step_refl [simp]: "src_step V w w"
  by (simp add: src_step_def)

lemma src_step_trans: "src_step V w1 w2 \<Longrightarrow> src_step V w2 w3 \<Longrightarrow> src_step V w1 w3"
  unfolding src_step_def by (meson le_trans)

lemma read_lawD:
  assumes "read_law V m P" and "m w = (r, w')"
  shows "src_step V w w'" "vw_dst V w' = vw_dst V w" "r = Inr x \<Longrightarrow> P w x"
  using assms by (metis fst_conv read_law_def snd_conv)+

section \<open>A round\<close>

lemma wrapping_Inr:
  "wrapping msg m k w = (Inr x, w') \<longleftrightarrow> (\<exists>y w1. m w = (Inr y, w1) \<and> k y w1 = (Inr x, w'))"
  by (auto simp: wrapping_def split: prod.split sum.split)

lemma wrapping_Inl:
  "wrapping msg m k w = (Inl e, w') \<longleftrightarrow>
     (\<exists>e'. m w = (Inl e', w') \<and> e = msg @ '': '' @ e') \<or> (\<exists>y w1. m w = (Inr y, w1) \<and> k y w1 = (Inl e, w'))"
  by (auto simp: wrapping_def split: prod.split sum.split)

lemma part_rows: "br_batch (getPart i (i + n) res) = take n (drop i (br_batch res))"
  by (auto simp: getPart_def Let_def take_drop add.commute)

lemma Build_rows:
  "br_batch res \<noteq> [] \<Longrightarrow> \<exists>s. Build bd t res = Some s \<and> stmt_rows s = br_batch res"
  by (auto simp: Build_def Let_def stmt_rows_def comp_def)

lemma tx_lawD:
  assumes "tx_law V L"
  shows "read_law V (al_Acquire L) (\<lambda>_ _. True)"
    "read_law V (al_Begin L) (\<lambda>w _. vw_pend V (snd (al_Begin L w)) = [])"
    "read_law V (al_Exec L s) (\<lambda>w _. vw_pend V (snd (al_Exec L s w)) = vw_pend V w @ [s])"
  using assms by (simp_all add: tx_law_def)

lemma rollback_law:
  "tx_law V L \<Longrightarrow> al_Rollback L w = (b, w') \<Longrightarrow> src_step V w w' \<and> vw_dst V w' = vw_dst V w"
  unfolding tx_law_def by (metis snd_conv)

lemma commit_law:
  assumes "tx_law V L" and "al_Commit L w = (r, w')"
  shows "src_step V w w' \<and> vw_dst V w' =
       (case r of Inl _ \<Rightarrow> vw_dst V w
        | Inr _ \<Rightarrow> upsert (vw_key V) (concat (map stmt_rows (vw_pend V w))) (vw_dst V w))"
proof -
  have "src_step V w (snd (al_Commit L w)) \<and>
        vw_dst V (snd (al_Commit L w)) =
          (case fst (al_Commit L w) of
             Inl _ \<Rightarrow> vw_dst V w
           | Inr _ \<Rightarrow> upsert (vw_key V) (concat (map stmt_rows (vw_pend V w))) (vw_dst V w))"
    using assms(1) unfolding tx_law_def by blast
  then show ?thesis
    by (simp add: assms(2))
qed

lemma sync_parts_effect:
  assumes "tx_law V L" and "sync_parts L db i res w = (r, w')"
  shows "src_step V w w' \<and> vw_dst V w' = vw_dst V w \<and>
    (\<forall>u. r = Inr u \<longrightarrow>
       concat (map stmt_rows (vw_pend V w')) = concat (map stmt_rows (vw_pend V w)) @ drop i (br_batch res))"
  using assms
proof (induction L db i res w arbitrary: r w' rule: sync_parts.induct)
  case (1 L db i res w)
  show ?case
  proof (cases "i < length (br_batch res)")
    case False
    then show ?thesis
      using "1.prems"(2) by (simp add: sync_parts.simps [of L db i])
  next
    case True
    let ?part = "getPart i (i + sync_size) res"
    have "br_batch ?part \<noteq> []"
      using True by (simp add: part_rows sync_size_def)
    then obtain s where s: "Build (ts_builder db) (ts_table db) ?part = Some s" "stmt_rows s = take sync_size (drop i (br_batch res))"
      using Build_rows part_rows by metis
    obtain x w1 where exec: "al_Exec L s w = (x, w1)"
      by fastforce
    note law = read_lawD [OF tx_lawD(3) [OF "1.prems"(1), of s] exec]
    show ?thesis
    proof (cases "al_ToSql L s")
      case (Some e)
      then show ?thesis
        using "1.prems"(2) True s by (auto simp: sync_parts.simps [of L db i])
    next
      case None
      show ?thesis
      proof (cases x)
        case (Inl e)
        then show ?thesis
          using "1.prems"(2) True s None exec law by (auto simp: sync_parts.simps [of L db i])
      next
        case (Inr u)
        then have run: "sync_parts L db (i + sync_size) res w1 = (r, w')"
          using "1.prems"(2) True s None exec by (simp add: sync_parts.simps [of L db i])
        have "vw_pend V w1 = vw_pend V w @ [s]"
          using law(3) [OF Inr] exec by simp
        moreover from "1.IH"(2) [OF True s(1) None exec [symmetric] Inr "1.prems"(1) run]
        have "src_step V w1 w'" "vw_dst V w' = vw_dst V w1"
          "\<forall>u. r = Inr u \<longrightarrow> concat (map stmt_rows (vw_pend V w')) =
             concat (map stmt_rows (vw_pend V w1)) @ drop (i + sync_size) (br_batch res)"
          by auto
        moreover have "take sync_size (drop i (br_batch res)) @ drop (i + sync_size) (br_batch res) = drop i (br_batch res)"
          by (metis add.commute append_take_drop_id drop_drop)
        ultimately show ?thesis
          using law(1,2) s(2) src_step_trans [OF law(1)] by simp
      qed
    qed
  qed
qed

lemma sync_effect:
  assumes tx: "tx_law V L" and run: "sync L db res w = (r, w')"
  shows "src_step V w w' \<and> vw_dst V w' =
    (case r of Inl _ \<Rightarrow> vw_dst V w | Inr _ \<Rightarrow> upsert (vw_key V) (br_batch res) (vw_dst V w))"
proof -
  obtain a w1 where acq: "al_Acquire L w = (a, w1)" by fastforce
  note law1 = read_lawD(1,2) [OF tx_lawD(1) [OF tx] acq]
  obtain c w2 where beg: "al_Begin L w1 = (c, w2)" by fastforce
  note law2 = read_lawD(1,2) [OF tx_lawD(2) [OF tx] beg]
  obtain d w3 where parts: "sync_parts L db 0 res w2 = (d, w3)" by fastforce
  note law3 = sync_parts_effect [OF tx parts]
  obtain e w4 where com: "al_Commit L w3 = (e, w4)" by fastforce
  note law4 = commit_law [OF tx com]
  show ?thesis
  proof (cases a)
    case (Inl x)
    then show ?thesis
      using run acq law1 by (auto simp: sync_def wrapping_def)
  next
    case a: (Inr u)
    show ?thesis
    proof (cases c)
      case (Inl x)
      then show ?thesis
        using run acq a beg law1 law2 src_step_trans by (auto simp: sync_def wrapping_def)
    next
      case c: (Inr u')
      have run2: "sync_tx L db res w2 = (r, w')"
        using run acq a beg c by (simp add: sync_def wrapping_def)
      have w12: "src_step V w w2" "vw_dst V w2 = vw_dst V w"
        using law1 law2 src_step_trans by auto
      have pend: "vw_pend V w2 = []"
        using read_lawD(3) [OF tx_lawD(2) [OF tx] beg c] beg by simp
      show ?thesis
      proof (cases "\<exists>v. d = Inr v \<and> (\<exists>v. e = Inr v)")
        case True
        then have "r = Inr ()" "w' = w4"
          using run2 parts com by (auto simp: sync_tx_def wrapping_def)
        moreover have "concat (map stmt_rows (vw_pend V w3)) = br_batch res"
          using law3 True pend by simp
        moreover have "src_step V w w4"
          using w12(1) law3 law4 by (meson src_step_trans)
        ultimately show ?thesis
          using law3 law4 w12 True by auto
      next
        case False
        then obtain f w5 where fail: "(case sync_parts L db 0 res w2 of
              (Inl e, w1) \<Rightarrow> (Inl e, w1)
            | (Inr _, w1) \<Rightarrow> wrapping ''commit tx'' (al_Commit L) (\<lambda>_ w. (Inr (), w)) w1) = (Inl f, w5)"
            and w5: "src_step V w2 w5" "vw_dst V w5 = vw_dst V w2"
        proof (cases d)
          case (Inl x)
          then show ?thesis
            using that [of x w3] parts law3 by simp
        next
          case (Inr v)
          with False obtain y where y: "e = Inl y"
            by (cases e) auto
          have "src_step V w2 w4"
            using law3 law4 by (meson src_step_trans)
          with Inr y show ?thesis
            using that [of "''commit tx: '' @ y" w4] parts com law3 law4 by (simp add: wrapping_def)
        qed
        obtain x w6 where roll: "al_Rollback L w5 = (x, w6)" by fastforce
        have "(\<exists>g. r = Inl g) \<and> w' = w6"
          using run2 unfolding sync_tx_def fail by (auto simp: roll split: option.splits)
        moreover have "src_step V w w6" "vw_dst V w6 = vw_dst V w"
          using rollback_law [OF tx roll] w5 w12 by (auto intro: src_step_trans)
        ultimately show ?thesis
          by auto
      qed
    qed
  qed
qed

text \<open>
  A round that succeeds upserts the next rows behind the archive's greatest id, as they were at
  some moment of the round; one that fails leaves the archive as it was.
\<close>

lemma round_effect:
  assumes laws: "archive_laws V L b db" and run: "archiveUpdatedSpaceRaw L b db w = (r, w')"
  shows "src_step V w w' \<and> (case r of
      Inl _ \<Rightarrow> vw_dst V w' = vw_dst V w
    | Inr n \<Rightarrow> \<exists>ws rows. src_step V w ws \<and> src_step V ws w' \<and> rows = take (ba_batchSize b) (rows_after V (max_id V w) ws) \<and>
        n = length rows \<and> vw_dst V w' = upsert (vw_key V) rows (vw_dst V w))"
proof -
  have tx: "tx_law V L" and now: "src_step V w (snd (al_Now L w)) \<and> vw_dst V (snd (al_Now L w)) = vw_dst V w"
    and q: "read_law V (al_QueryMax L (ts_table db) (getShardId (ts_instance db))) (\<lambda>w n. n = max_id V w)"
    and sel: "read_law V (al_Select L (ba_instance b) (ba_space b) ''archive_id'' (Some (VUint k)) IterGt (ba_batchSize b))
        (\<lambda>w r. fst r = take (ba_batchSize b) (rows_after V k w))" for k w
    using laws by (auto simp: archive_laws_def)
  obtain a w1 where query: "al_QueryMax L (ts_table db) (getShardId (ts_instance db)) w = (a, w1)" by fastforce
  note law1 = read_lawD [OF q query]
  show ?thesis
  proof (cases a)
    case (Inl e)
    then show ?thesis
      using run query law1 by (auto simp: archiveUpdatedSpaceRaw_def archive_from_def getLastArchiveIdRaw_def wrapping_def)
  next
    case (Inr k)
    then have k: "k = max_id V w"
      using law1(3) by blast
    obtain c w2 where select: "al_Select L (ba_instance b) (ba_space b) ''archive_id'' (Some (VUint k)) IterGt
        (ba_batchSize b) w1 = (c, w2)" by fastforce
    note law2 = read_lawD [OF sel select]
    show ?thesis
    proof (cases c)
      case (Inl e)
      then show ?thesis
        using run query Inr select law1 law2 src_step_trans
        by (auto simp: archiveUpdatedSpaceRaw_def archive_from_def getLastArchiveIdRaw_def incremental_batch_def wrapping_def)
    next
      case c: (Inr y)
      obtain rows columns where y: "y = (rows, columns)" by fastforce
      obtain ns w3 where clock: "al_Now L w2 = (ns, w3)" by fastforce
      let ?batch = "\<lparr> br_batch = rows, br_columns = columns, br_ts = unixMicro ns \<rparr>"
      obtain d w4 where sy: "sync L db ?batch w3 = (d, w4)" by fastforce
      note law4 = sync_effect [OF tx sy]
      have w23: "src_step V w2 w3" "vw_dst V w3 = vw_dst V w2"
        using now [of w2] clock by simp_all
      have run': "(r, w') = (case d of Inl e \<Rightarrow> Inl (''sync tsdb: '' @ e) | Inr _ \<Rightarrow> Inr (length rows), w4)"
        using run query Inr select c y clock sy
        by (auto simp: archiveUpdatedSpaceRaw_def archive_from_def getLastArchiveIdRaw_def incremental_batch_def
            wrapping_def split: sum.splits)
      have rows: "rows = take (ba_batchSize b) (rows_after V (max_id V w) w1)"
        using law2(3) [OF c] y k by simp
      have dst3: "vw_dst V w3 = vw_dst V w"
        using law1 law2 w23 by simp
      have "src_step V w1 w4" "src_step V w w1" "src_step V w w4"
        using law1 law2 w23 law4 src_step_trans by meson+
      then show ?thesis
        using run' rows law4 dst3 by (cases d) auto
    qed
  qed
qed

section \<open>What is archived\<close>

lemma upsert_other: "k \<notin> key ` set rows \<Longrightarrow> upsert key rows m k = m k"
  by (induction rows arbitrary: m) (auto simp: upsert_def)

lemma upsert_in: "r \<in> set rows \<Longrightarrow> inj_on key (set rows) \<Longrightarrow> upsert key rows m (key r) = Some r"
proof (induction rows arbitrary: m)
  case (Cons x rows)
  have step: "upsert key (x # rows) m = upsert key rows (m(key x \<mapsto> x))"
    by (simp add: upsert_def)
  show ?case
  proof (cases "r \<in> set rows")
    case True
    then show ?thesis
      using Cons by (auto simp: step)
  next
    case False
    then have "r = x" "key x \<notin> key ` set rows"
      using Cons.prems by (auto simp: inj_on_def)
    then show ?thesis
      by (simp add: step upsert_other)
  qed
qed simp

lemma upsert_SomeD: "upsert key rows m k = Some r \<Longrightarrow> m k = Some r \<or> (r \<in> set rows \<and> key r = k)"
proof (induction rows arbitrary: m)
  case (Cons x rows)
  then show ?case
    by (fastforce simp: upsert_def split: if_splits)
qed (simp add: upsert_def)

lemma upsert_dom: "finite (dom m) \<Longrightarrow> finite (dom (upsert key rows m))"
  by (induction rows arbitrary: m) (simp_all add: upsert_def)

text \<open>
  The invariant of the archive: every row of the space whose archive id is not above the greatest
  id archived is archived as it is now.
\<close>

definition archive_inv :: "('w, 'd) archive_view \<Rightarrow> 'w \<Rightarrow> bool" where
  "archive_inv V w \<longleftrightarrow> src_ok V w \<and> finite (dom (vw_dst V w)) \<and>
     (\<forall>k r. vw_dst V w k = Some r \<longrightarrow> vw_key V r = k \<and> vw_aid V r < vw_next V w) \<and>
     (\<forall>r\<in>set (vw_src V w). vw_aid V r \<le> max_id V w \<longrightarrow> vw_dst V w (vw_key V r) = Some r)"

lemma max_id_ge: "finite (dom (vw_dst V w)) \<Longrightarrow> vw_dst V w k = Some r \<Longrightarrow> vw_aid V r \<le> max_id V w"
  unfolding max_id_def by (rule Max_ge) (auto simp: finite_ran ranI)

lemma max_id_cases:
  assumes "finite (dom (vw_dst V w))"
  shows "max_id V w = 0 \<or> (\<exists>k r. vw_dst V w k = Some r \<and> max_id V w = vw_aid V r)"
proof -
  have "max_id V w \<in> insert 0 (vw_aid V ` ran (vw_dst V w))"
    unfolding max_id_def using assms by (intro Max_in) (auto simp: finite_ran)
  then show ?thesis
    by (auto simp: ran_def)
qed

lemma max_id_cong: "vw_dst V w' = vw_dst V w \<Longrightarrow> max_id V w' = max_id V w"
  by (simp add: max_id_def)

lemma src_stepD:
  "src_step V w w' \<Longrightarrow> r \<in> set (vw_src V w') \<Longrightarrow> vw_aid V r < vw_next V w \<Longrightarrow> r \<in> set (vw_src V w)"
  unfolding src_step_def by (meson not_le)

lemma inv_src_step:
  assumes "archive_inv V w" and "src_step V w w'" and "vw_dst V w' = vw_dst V w"
  shows "archive_inv V w'"
proof -
  have fin: "finite (dom (vw_dst V w))"
    using assms(1) by (simp add: archive_inv_def)
  have "max_id V w < vw_next V w" if "r \<in> set (vw_src V w')" "vw_aid V r \<le> max_id V w" "0 < vw_aid V r" for r
    using max_id_cases [OF fin] that assms(1) by (auto simp: archive_inv_def)
  moreover have "0 < vw_aid V r" if "r \<in> set (vw_src V w')" for r
    using that assms(1,2) by (auto simp: src_step_def archive_inv_def src_ok_def)
  ultimately have "r \<in> set (vw_src V w)" if "r \<in> set (vw_src V w')" "vw_aid V r \<le> max_id V w" for r
    using that src_stepD [OF assms(2)] by (meson le_less_trans)
  moreover have "src_ok V w'" "vw_next V w \<le> vw_next V w'"
    using assms(1,2) by (auto simp: archive_inv_def src_step_def)
  ultimately show ?thesis
    using assms(1,3) max_id_cong [OF assms(3)] unfolding archive_inv_def by (metis order_less_le_trans)
qed

lemma take_sorted_closed:
  assumes "inj_on f (set xs)" and "r \<in> set (sort_key f (List.filter P xs))"
    and "r' \<in> set (take n (sort_key f (List.filter P xs)))" and "f r \<le> f r'"
  shows "r \<in> set (take n (sort_key f (List.filter P xs)))"
proof (rule ccontr)
  let ?ys = "sort_key f (List.filter P xs)"
  assume not: "r \<notin> set (take n ?ys)"
  then have "r \<in> set (drop n ?ys)"
    using assms(2) by (metis Un_iff append_take_drop_id set_append)
  moreover have "sorted (map f (take n ?ys @ drop n ?ys))"
    by (simp del: append_take_drop_id add: append_take_drop_id)
  ultimately have "f r' \<le> f r"
    using assms(3) by (auto simp: sorted_append simp del: append_take_drop_id)
  with assms(4) have "f r = f r'"
    by simp
  moreover have "r \<in> set xs" "r' \<in> set xs"
    using assms(2,3) by (auto dest: in_set_takeD)
  ultimately show False
    using assms(1,3) not by (metis inj_on_def)
qed

lemma rows_after_set: "set (rows_after V k w) = {r \<in> set (vw_src V w). k < vw_aid V r}"
  by (auto simp: rows_after_def)

lemma round_success:
  assumes inv: "archive_inv V w" and s: "src_step V w ws" "src_step V ws w'"
    and rows: "rows = take N (rows_after V (max_id V w) ws)"
    and dst: "vw_dst V w' = upsert (vw_key V) rows (vw_dst V w)"
  shows "archive_inv V w' \<and> max_id V w \<le> max_id V w' \<and> (\<forall>r\<in>set rows. vw_aid V r \<le> max_id V w')"
proof -
  have ok: "src_ok V w" and fin: "finite (dom (vw_dst V w))"
    and keys: "\<And>k r. vw_dst V w k = Some r \<Longrightarrow> vw_key V r = k \<and> vw_aid V r < vw_next V w"
    and held: "\<And>r. r \<in> set (vw_src V w) \<Longrightarrow> vw_aid V r \<le> max_id V w \<Longrightarrow> vw_dst V w (vw_key V r) = Some r"
    using inv by (auto simp: archive_inv_def)
  have ok': "src_ok V ws" "src_ok V w'" and nx: "vw_next V w \<le> vw_next V ws" "vw_next V ws \<le> vw_next V w'"
    using ok s by (auto simp: src_step_def)
  have sub: "set rows \<subseteq> {r \<in> set (vw_src V ws). max_id V w < vw_aid V r}"
    unfolding rows rows_after_set [symmetric] by (rule set_take_subset)
  have inj: "inj_on (vw_key V) (set rows)"
    using ok'(1) sub unfolding src_ok_def by (metis (no_types, lifting) inj_on_subset mem_Collect_eq subset_iff)
  have fin': "finite (dom (vw_dst V w'))"
    unfolding dst using fin by (rule upsert_dom)
  have here: "vw_dst V w' (vw_key V r) = Some r" if "r \<in> set rows" for r
    unfolding dst by (rule upsert_in [OF that inj])
  have ge: "vw_aid V r \<le> max_id V w'" if "r \<in> set rows" for r
    using max_id_ge [OF fin' here [OF that]] .
  have mono: "max_id V w \<le> max_id V w'"
  proof (cases rows)
    case Nil
    then show ?thesis
      using dst max_id_cong [of V w' w] by (simp add: upsert_def)
  next
    case (Cons r rs)
    then have "r \<in> set rows"
      by simp
    with ge sub show ?thesis
      by fastforce
  qed
  have keys': "vw_key V r = k \<and> vw_aid V r < vw_next V w'" if "vw_dst V w' k = Some r" for k r
    using upsert_SomeD [OF that [unfolded dst]] keys sub ok'(1) nx unfolding src_ok_def
    by (metis (no_types, lifting) mem_Collect_eq order_less_le_trans subset_iff)
  have arch: "vw_dst V w' (vw_key V r) = Some r" if r: "r \<in> set (vw_src V w')" and le: "vw_aid V r \<le> max_id V w'" for r
  proof -
    have pos: "0 < vw_aid V r"
      using ok'(2) r by (auto simp: src_ok_def)
    then obtain k r0 where r0: "vw_dst V w' k = Some r0" "max_id V w' = vw_aid V r0"
      using max_id_cases [OF fin'] le by force
    from upsert_SomeD [OF r0(1) [unfolded dst]]
    have cases: "vw_aid V r0 \<le> max_id V w \<or> r0 \<in> set rows"
      using max_id_ge [OF fin] by blast
    have "vw_aid V r0 < vw_next V ws"
      using upsert_SomeD [OF r0(1) [unfolded dst]] keys sub ok'(1) nx(1) unfolding src_ok_def by fastforce
    with le r0(2) have "r \<in> set (vw_src V ws)"
      using src_stepD [OF s(2) r] by simp
    show ?thesis
    proof (cases "vw_aid V r \<le> max_id V w")
      case True
      have "vw_aid V r < vw_next V w"
        using True pos max_id_cases [OF fin] keys by force
      then have "vw_dst V w (vw_key V r) = Some r"
        using held True src_stepD [OF s(1) \<open>r \<in> set (vw_src V ws)\<close>] by blast
      moreover have "vw_key V r \<notin> vw_key V ` set rows"
      proof
        assume "vw_key V r \<in> vw_key V ` set rows"
        then obtain r1 where r1: "r1 \<in> set rows" "vw_key V r1 = vw_key V r"
          by auto
        with sub have "r1 \<in> set (vw_src V ws)" "max_id V w < vw_aid V r1"
          by auto
        with r1(2) ok'(1) \<open>r \<in> set (vw_src V ws)\<close> have "r1 = r"
          unfolding src_ok_def by (metis inj_onD)
        with \<open>max_id V w < vw_aid V r1\<close> True show False
          by simp
      qed
      ultimately show ?thesis
        unfolding dst by (simp add: upsert_other)
    next
      case False
      with cases le r0(2) have "r0 \<in> set rows"
        by auto
      moreover have "r \<in> set (rows_after V (max_id V w) ws)"
        using False \<open>r \<in> set (vw_src V ws)\<close> by (simp add: rows_after_set)
      ultimately have "r \<in> set rows"
        using take_sorted_closed [of "vw_aid V" "vw_src V ws" r] ok'(1) le r0(2)
        unfolding rows rows_after_def src_ok_def by auto
      then show ?thesis
        by (rule here)
    qed
  qed
  show ?thesis
    using ok' fin' keys' arch mono ge unfolding archive_inv_def by blast
qed

text \<open>The rows that were there before the archive id \<open>B\<close> was handed out and are not archived yet\<close>

definition missing :: "('w, 'd) archive_view \<Rightarrow> nat \<Rightarrow> 'w \<Rightarrow> 'd row set" where
  "missing V B w = {r \<in> set (vw_src V w). max_id V w < vw_aid V r \<and> vw_aid V r < B}"

lemma missing_src_step:
  "src_step V w w' \<Longrightarrow> vw_dst V w' = vw_dst V w \<Longrightarrow> B \<le> vw_next V w \<Longrightarrow> missing V B w' \<subseteq> missing V B w"
  unfolding missing_def using max_id_cong [of V w' w] by (auto intro: src_stepD)

lemma round_progress:
  assumes inv: "archive_inv V w" and s: "src_step V w ws" "src_step V ws w'"
    and rows: "rows = take N (rows_after V (max_id V w) ws)"
    and dst: "vw_dst V w' = upsert (vw_key V) rows (vw_dst V w)" and B: "B \<le> vw_next V w"
  shows "card (missing V B w') \<le> card (missing V B w) - N"
proof -
  note eff = round_success [OF inv s rows dst]
  have nx: "vw_next V w \<le> vw_next V ws"
    using s(1) by (simp add: src_step_def)
  have old: "r \<in> set (vw_src V w) \<and> r \<in> set (vw_src V ws)" if "r \<in> missing V B w'" for r
    using that src_stepD [OF s(2)] src_stepD [OF s(1)] B nx unfolding missing_def by force
  have after: "missing V B w' \<subseteq> set (rows_after V (max_id V w) ws)"
    using old eff by (auto simp: missing_def rows_after_set)
  have sub: "missing V B w' \<subseteq> missing V B w - set rows"
    using old eff by (fastforce simp: missing_def)
  have okws: "src_ok V ws"
    using inv s(1) by (simp add: archive_inv_def src_step_def)
  have closed: "missing V B w' = {}" if "r' \<in> set rows" "B \<le> vw_aid V r'" for r'
  proof -
    have "r \<in> set rows" if r: "r \<in> missing V B w'" for r
    proof -
      have "vw_aid V r \<le> vw_aid V r'"
        using r \<open>B \<le> vw_aid V r'\<close> by (simp add: missing_def)
      moreover have "r \<in> set (rows_after V (max_id V w) ws)"
        using after r by blast
      ultimately show ?thesis
        using \<open>r' \<in> set rows\<close> okws unfolding rows rows_after_def src_ok_def
        by (metis take_sorted_closed)
    qed
    with sub show ?thesis
      by blast
  qed
  show ?thesis
  proof (cases "length rows < N \<or> (\<exists>r'\<in>set rows. B \<le> vw_aid V r')")
    case True
    then have "missing V B w' = {}"
    proof
      assume "length rows < N"
      then have "rows = rows_after V (max_id V w) ws"
        unfolding rows by simp
      with sub after show ?thesis
        by blast
    qed (use closed in blast)
    then show ?thesis
      by simp
  next
    case False
    have "set rows \<subseteq> set (rows_after V (max_id V w) ws)"
      unfolding rows by (rule set_take_subset)
    have rb: "set rows \<subseteq> missing V B w"
    proof
      fix x
      assume x: "x \<in> set rows"
      then have "vw_aid V x < B"
        using False by (auto simp: not_le)
      moreover from this B have "vw_aid V x < vw_next V w"
        by simp
      moreover have "x \<in> set (vw_src V ws)" "max_id V w < vw_aid V x"
        using x \<open>set rows \<subseteq> set (rows_after V (max_id V w) ws)\<close> by (auto simp: rows_after_set)
      ultimately show "x \<in> missing V B w"
        using src_stepD [OF s(1)] by (simp add: missing_def)
    qed
    have len: "N \<le> length rows"
      using False by simp
    have "distinct rows"
      using okws unfolding rows rows_after_def src_ok_def by (simp add: distinct_take)
    then have "card (set rows) = length rows"
      by (rule distinct_card)
    moreover have "finite (missing V B w)"
      by (simp add: missing_def)
    ultimately show ?thesis
      using card_mono [OF _ sub] card_Diff_subset [OF _ rb] len by (metis (no_types, lifting) List.finite_set diff_le_mono2 finite_Diff le_trans)
  qed
qed

section \<open>Runs\<close>

text \<open>
  A run of rounds, some of which fail, while other processes change the space; \<open>n\<close> counts the
  rounds that succeed.
\<close>

inductive archive_run ::
  "('w, 'd) archive_view \<Rightarrow> ('w, 'd) archive_lib \<Rightarrow> batcher \<Rightarrow> tsdb \<Rightarrow> nat \<Rightarrow> 'w \<Rightarrow> 'w \<Rightarrow> bool" for V L b db where
  start: "archive_run V L b db 0 w w"
| success: "archive_run V L b db n w w1 \<Longrightarrow> archiveUpdatedSpaceRaw L b db w1 = (Inr m, w2) \<Longrightarrow>
    archive_run V L b db (Suc n) w w2"
| failure: "archive_run V L b db n w w1 \<Longrightarrow> archiveUpdatedSpaceRaw L b db w1 = (Inl e, w2) \<Longrightarrow>
    archive_run V L b db n w w2"
| change: "archive_run V L b db n w w1 \<Longrightarrow> src_step V w1 w2 \<Longrightarrow> vw_dst V w2 = vw_dst V w1 \<Longrightarrow>
    archive_run V L b db n w w2"

lemma archive_run_facts:
  assumes laws: "archive_laws V L b db" and run: "archive_run V L b db n w w'"
    and inv: "archive_inv V w" and B: "B \<le> vw_next V w"
  shows "archive_inv V w' \<and> B \<le> vw_next V w' \<and> card (missing V B w') \<le> card (missing V B w) - n * ba_batchSize b"
  using run inv B
proof (induction rule: archive_run.induct)
  case (start w)
  then show ?case by simp
next
  case (success n w w1 m w2)
  then have ih: "archive_inv V w1" "B \<le> vw_next V w1"
    "card (missing V B w1) \<le> card (missing V B w) - n * ba_batchSize b"
    by auto
  from round_effect [OF laws success(2)] obtain ws where eff: "src_step V w1 ws" "src_step V ws w2" "src_step V w1 w2"
    "vw_dst V w2 = upsert (vw_key V) (take (ba_batchSize b) (rows_after V (max_id V w1) ws)) (vw_dst V w1)"
    by auto
  have "archive_inv V w2"
    using round_success [OF ih(1) eff(1,2) HOL.refl eff(4)] by blast
  moreover have "card (missing V B w2) \<le> card (missing V B w1) - ba_batchSize b"
    by (rule round_progress [OF ih(1) eff(1,2) HOL.refl eff(4) ih(2)])
  moreover have "B \<le> vw_next V w2"
    using ih(2) eff(3) by (simp add: src_step_def)
  ultimately show ?case
    using ih(3) by simp
next
  case (failure n w w1 e w2)
  then have ih: "archive_inv V w1" "B \<le> vw_next V w1"
    "card (missing V B w1) \<le> card (missing V B w) - n * ba_batchSize b"
    by auto
  from round_effect [OF laws failure(2)] have eff: "src_step V w1 w2" "vw_dst V w2 = vw_dst V w1"
    by auto
  have "card (missing V B w2) \<le> card (missing V B w1)"
    by (rule card_mono) (use missing_src_step [OF eff ih(2)] in \<open>auto simp: missing_def\<close>)
  moreover have "B \<le> vw_next V w2"
    using ih(2) eff(1) by (simp add: src_step_def)
  ultimately show ?case
    using ih(3) inv_src_step [OF ih(1) eff] by simp
next
  case (change n w w1 w2)
  then have ih: "archive_inv V w1" "B \<le> vw_next V w1"
    "card (missing V B w1) \<le> card (missing V B w) - n * ba_batchSize b"
    by auto
  have "card (missing V B w2) \<le> card (missing V B w1)"
    by (rule card_mono) (use missing_src_step [OF change(2,3) ih(2)] in \<open>auto simp: missing_def\<close>)
  moreover have "B \<le> vw_next V w2"
    using ih(2) change(2) by (simp add: src_step_def)
  ultimately show ?case
    using ih(3) inv_src_step [OF ih(1) change(2,3)] by simp
qed



section \<open>The full snapshot\<close>

lemma snapshot_loop_ends:
  assumes "0 < ba_batchSize b" and "maxBatcherLimit + 1 < fuel + length dat" and "dat \<noteq> []"
    and "0 < fuel"
  shows "snapshot_loop fuel L b dat w \<noteq> None"
  using assms
proof (induction fuel arbitrary: dat w)
  case (Suc fuel)
  show ?case
  proof (cases "last dat = []")
    case False
    obtain x w1 where sel: "al_Select L (ba_instance b) (ba_space b) ''primary'' (Some (hd (last dat))) IterGt
        (ba_batchSize b) w = (x, w1)" by fastforce
    show ?thesis
    proof (cases x)
      case (Inr y)
      obtain res c where y: "y = (res, c)" by fastforce
      show ?thesis
      proof (cases "length res < ba_batchSize b \<or> maxBatcherLimit < length (dat @ res)")
        case True
        then show ?thesis
          using Suc.prems False sel Inr y by auto
      next
        case go: False
        then have "0 < length res"
          using Suc.prems(1) by auto
        with Suc.prems go have "snapshot_loop fuel L b (dat @ res) w1 \<noteq> None"
          by (intro Suc.IH) auto
        then show ?thesis
          using Suc.prems False sel Inr y go by simp
      qed
    qed (use Suc.prems False sel in simp)
  qed (use Suc.prems in simp)
qed simp

text \<open>
  Reading a full snapshot ends whatever the database answers: after at most one million rounds,
  the limit on its rows, and one more.
\<close>

theorem snapshot_read_ends:
  "snapshot_batch (maxBatcherLimit + 1) L (newBatcher space inst batchSize) w \<noteq> None"
proof -
  let ?b = "newBatcher space inst batchSize"
  have pos: "0 < ba_batchSize ?b"
    by (simp add: newBatcher_def batchLimit_def)
  obtain x w1 where sel: "al_Select L (ba_instance ?b) (ba_space ?b) ''primary'' None IterAll (ba_batchSize ?b) w = (x, w1)"
    by fastforce
  show ?thesis
  proof (cases x)
    case (Inr y)
    obtain dat c where y: "y = (dat, c)" by fastforce
    obtain ns w2 where clock: "al_Now L w1 = (ns, w2)" by fastforce
    show ?thesis
    proof (cases "length dat < ba_batchSize ?b")
      case False
      then have "dat \<noteq> []"
        using pos by auto
      then have "snapshot_loop (maxBatcherLimit + 1) L ?b dat w2 \<noteq> None"
        by (intro snapshot_loop_ends [OF pos]) (auto simp: Suc_le_eq)
      then show ?thesis
        using sel Inr y clock by (auto simp: snapshot_batch_def Let_def simp del: snapshot_loop.simps)
    qed (use sel Inr y clock in \<open>simp add: snapshot_batch_def Let_def\<close>)
  qed (use sel in \<open>simp add: snapshot_batch_def\<close>)
qed

section \<open>An example\<close>

text \<open>A world whose operations all succeed: a space, an archive and the open transaction.\<close>

record demo_world =
  dw_src  :: "rat row list"
  dw_next :: nat
  dw_dst  :: "rat gval list \<rightharpoonup> rat row"
  dw_pend :: "rat insert_stmt list"

definition row_id :: "rat row \<Rightarrow> nat" where
  "row_id r = (case r of [_, VUint n] \<Rightarrow> n | _ \<Rightarrow> 0)"

definition demo_view :: "(demo_world, rat) archive_view" where
  "demo_view = \<lparr> vw_src = dw_src, vw_next = dw_next, vw_dst = dw_dst, vw_pend = dw_pend,
     vw_aid = row_id, vw_key = take 1 \<rparr>"

definition demo_databases :: "(demo_world, rat) archive_lib" where
  "demo_databases = \<lparr>
     al_QueryLast = (\<lambda>_ _ _ w. (Inr (max_id demo_view w), w)),
     al_QueryMax = (\<lambda>_ _ w. (Inr (max_id demo_view w), w)),
     al_Select = (\<lambda>_ _ _ k _ n w.
       (Inr (take n (rows_after demo_view (case k of Some (VUint i) \<Rightarrow> i | _ \<Rightarrow> 0) w), [''id'', ''archive_id'']), w)),
     al_Now = (\<lambda>w. (1710000000000000000, w)),
     al_Acquire = (\<lambda>w. (Inr (), w)),
     al_Begin = (\<lambda>w. (Inr (), w\<lparr>dw_pend := []\<rparr>)),
     al_ToSql = (\<lambda>_. None),
     al_Exec = (\<lambda>s w. (Inr (), w\<lparr>dw_pend := dw_pend w @ [s]\<rparr>)),
     al_Commit = (\<lambda>w. (Inr (), w\<lparr>dw_dst := upsert (take 1) (concat (map stmt_rows (dw_pend w))) (dw_dst w)\<rparr>)),
     al_Rollback = (\<lambda>w. (None, w)) \<rparr>"

definition demo_space :: demo_world where
  "demo_space = \<lparr> dw_src = [[VUint 7, VUint 3]], dw_next = 4, dw_dst = Map.empty, dw_pend = [] \<rparr>"

definition demo_tsdb :: tsdb where
  "demo_tsdb = \<lparr> ts_instance = ''profile'', ts_table = ''app_profile'', ts_builder = LiveSql [''id''] \<rparr>"

lemma demo_laws: "archive_laws demo_view demo_databases (newBatcher ''profile'' ''profile'' 1) demo_tsdb"
  by (simp add: archive_laws_def read_law_def tx_law_def src_step_def demo_databases_def demo_view_def src_ok_def)

lemma demo_space_ok: "src_ok demo_view demo_space"
  by (simp add: src_ok_def demo_view_def demo_space_def row_id_def)

lemma demo_round:
  "\<exists>m w. archiveUpdatedSpaceRaw demo_databases (newBatcher ''profile'' ''profile'' 1) demo_tsdb demo_space = (Inr m, w) \<and>
     dw_src w = dw_src demo_space"
  by (simp add: archiveUpdatedSpaceRaw_def archive_from_def getLastArchiveIdRaw_def incremental_batch_def wrapping_def
      demo_databases_def sync_def sync_tx_def demo_space_def sync_parts.simps sync_size_def Build_def Let_def part_rows
      rows_after_def demo_view_def max_id_def row_id_def newBatcher_def batchLimit_def)



end
