(* ===== verification/Profile_Markets.thy ===== *)
theory Profile_Markets
  imports Model_Api
begin

text \<open>
  The metas of the profiles on the markets (\<^verbatim>\<open>profile/market.go\<close>): \<^verbatim>\<open>GetUpdatedProfilesMeta\<close> starts
  a task for every market, and the tasks add what they receive to maps they share under a mutex.
  The tasks are a step relation, a step being what a task does between two releases of the mutex,
  so that a run is any interleaving of the tasks.
\<close>

section \<open>Metas\<close>

record 'd profile_meta =
  pm_ProfileID           :: nat
  pm_MarketID            :: string
  pm_Status              :: string
  pm_CumUnrealizedPnl    :: 'd
  pm_TotalNotional       :: 'd
  pm_TotalPositionMargin :: 'd
  pm_TotalOrderMargin    :: 'd
  pm_InitialMargin       :: 'd
  pm_MarketLeverage      :: 'd
  pm_Balance             :: 'd
  pm_CumTradingVolume    :: 'd
  pm_Timestamp           :: int

type_synonym 'd profiles_meta = "nat \<rightharpoonup> string \<rightharpoonup> 'd profile_meta"
type_synonym markets_last_ts = "string \<rightharpoonup> int"

text \<open>The branch of the loop body under the mutex: \<open>None\<close> is \<^verbatim>\<open>ErrMetaAlreadyExists\<close>.\<close>

definition put_meta :: "string \<Rightarrow> 'd profile_meta \<Rightarrow> 'd profiles_meta \<Rightarrow> 'd profiles_meta option" where
  "put_meta marketId pm totalMetas =
     (case totalMetas (pm_ProfileID pm) of
        None \<Rightarrow> Some (totalMetas(pm_ProfileID pm \<mapsto> [marketId \<mapsto> pm]))
      | Some metas \<Rightarrow>
          (case metas marketId of
             None \<Rightarrow> Some (totalMetas(pm_ProfileID pm \<mapsto> metas(marketId \<mapsto> pm)))
           | Some _ \<Rightarrow> None))"

section \<open>The tasks\<close>

text \<open>
  A task waits for its market's answer, then holds the greatest timestamp so far and the metas
  left; a nil meta crashes it.
\<close>

datatype 'd fetch_task =
    Reading
  | Merging int "'d profile_meta option list"
  | Returned "string option"
  | Crashed

record 'd fetch_state =
  fe_Metas  :: "'d profiles_meta"
  fe_LastTs :: markets_last_ts
  fe_Locked :: bool
  fe_Tasks  :: "'d fetch_task list"

definition ErrMetaAlreadyExists :: string where
  "ErrMetaAlreadyExists = ''profile meta already exists''"

definition last_ts :: "markets_last_ts \<Rightarrow> string \<Rightarrow> int" where
  "last_ts marketsLastTs marketId = (case marketsLastTs marketId of None \<Rightarrow> 0 | Some ts \<Rightarrow> ts)"

definition fetch_init :: "string list \<Rightarrow> 'd fetch_state" where
  "fetch_init markets = \<lparr> fe_Metas = Map.empty, fe_LastTs = Map.empty, fe_Locked = False,
     fe_Tasks = replicate (length markets) Reading \<rparr>"

text \<open>
  \<open>answers i\<close> is what the market of task \<open>i\<close> answers once the retries are over, an error with the
  market in its text. A step of task \<open>i\<close>:
\<close>

inductive fetch_step ::
  "string list \<Rightarrow> markets_last_ts \<Rightarrow> (nat \<Rightarrow> string + 'd profile_meta option list) \<Rightarrow>
   nat \<Rightarrow> 'd fetch_state \<Rightarrow> 'd fetch_state \<Rightarrow> bool" for markets marketsLastTs answers where
  received:
    "i < length (fe_Tasks s) \<Longrightarrow> fe_Tasks s ! i = Reading \<Longrightarrow> answers i = Inr ms \<Longrightarrow>
     fetch_step markets marketsLastTs answers i s
       (s\<lparr>fe_Tasks := (fe_Tasks s)[i := Merging (last_ts marketsLastTs (markets ! i)) ms]\<rparr>)"
| failed:
    "i < length (fe_Tasks s) \<Longrightarrow> fe_Tasks s ! i = Reading \<Longrightarrow> answers i = Inl e \<Longrightarrow>
     fetch_step markets marketsLastTs answers i s (s\<lparr>fe_Tasks := (fe_Tasks s)[i := Returned (Some e)]\<rparr>)"
| nil_meta:
    "i < length (fe_Tasks s) \<Longrightarrow> fe_Tasks s ! i = Merging ts (None # ms) \<Longrightarrow>
     fetch_step markets marketsLastTs answers i s (s\<lparr>fe_Tasks := (fe_Tasks s)[i := Crashed]\<rparr>)"
| merged:
    "i < length (fe_Tasks s) \<Longrightarrow> fe_Tasks s ! i = Merging ts (Some pm # ms) \<Longrightarrow> \<not> fe_Locked s \<Longrightarrow>
     put_meta (markets ! i) pm (fe_Metas s) = Some metas \<Longrightarrow>
     fetch_step markets marketsLastTs answers i s
       (s\<lparr>fe_Metas := metas,
          fe_Tasks := (fe_Tasks s)[i := Merging (if ts < pm_Timestamp pm then pm_Timestamp pm else ts) ms]\<rparr>)"
| conflict:
    "i < length (fe_Tasks s) \<Longrightarrow> fe_Tasks s ! i = Merging ts (Some pm # ms) \<Longrightarrow> \<not> fe_Locked s \<Longrightarrow>
     put_meta (markets ! i) pm (fe_Metas s) = None \<Longrightarrow>
     fetch_step markets marketsLastTs answers i s
       (s\<lparr>fe_Locked := True, fe_Tasks := (fe_Tasks s)[i := Returned (Some ErrMetaAlreadyExists)]\<rparr>)"
| finished:
    "i < length (fe_Tasks s) \<Longrightarrow> fe_Tasks s ! i = Merging ts [] \<Longrightarrow> \<not> fe_Locked s \<Longrightarrow>
     fetch_step markets marketsLastTs answers i s
       (s\<lparr>fe_LastTs := (fe_LastTs s)(markets ! i \<mapsto> ts), fe_Tasks := (fe_Tasks s)[i := Returned None]\<rparr>)"

inductive_cases fetch_stepE: "fetch_step markets marketsLastTs answers i s s'"

text \<open>The states after \<open>n\<close> steps, and the result of \<^verbatim>\<open>group.Wait\<close> when no task has failed\<close>

inductive fetch_reach ::
  "string list \<Rightarrow> markets_last_ts \<Rightarrow> (nat \<Rightarrow> string + 'd profile_meta option list) \<Rightarrow>
   nat \<Rightarrow> 'd fetch_state \<Rightarrow> bool" for markets marketsLastTs answers where
  start: "fetch_reach markets marketsLastTs answers 0 (fetch_init markets)"
| step: "fetch_reach markets marketsLastTs answers n s \<Longrightarrow> fetch_step markets marketsLastTs answers i s s' \<Longrightarrow>
     fetch_reach markets marketsLastTs answers (Suc n) s'"

definition fetch_result :: "'d fetch_state \<Rightarrow> ('d profiles_meta \<times> markets_last_ts) option" where
  "fetch_result s = (if \<forall>t\<in>set (fe_Tasks s). t = Returned None then Some (fe_Metas s, fe_LastTs s) else None)"

section \<open>What a market adds\<close>

definition look :: "'d profiles_meta \<Rightarrow> nat \<Rightarrow> string \<Rightarrow> 'd profile_meta option" where
  "look m p k = Option.bind (m p) (\<lambda>metas. metas k)"

lemma put_meta_Some:
  "put_meta k pm m = Some m' \<Longrightarrow>
     look m (pm_ProfileID pm) k = None \<and>
     (\<forall>p q. look m' p q = (if p = pm_ProfileID pm \<and> q = k then Some pm else look m p q))"
  by (auto simp: put_meta_def look_def split: option.splits)

lemma put_meta_None: "put_meta k pm m = None \<longleftrightarrow> look m (pm_ProfileID pm) k \<noteq> None"
  by (auto simp: put_meta_def look_def split: option.splits)

text \<open>The metas a task has merged, and the greatest timestamp among them\<close>

definition answer_list :: "string + 'd profile_meta option list \<Rightarrow> 'd profile_meta option list" where
  "answer_list a = (case a of Inl _ \<Rightarrow> [] | Inr ms \<Rightarrow> ms)"

fun merged_of :: "'d profile_meta option list \<Rightarrow> 'd fetch_task \<Rightarrow> 'd profile_meta option list" where
  "merged_of a (Merging ts ms) = take (length a - length ms) a"
| "merged_of a (Returned None) = a"
| "merged_of a _ = []"

definition latest :: "int \<Rightarrow> 'd profile_meta option list \<Rightarrow> int" where
  "latest ts ms = fold (\<lambda>pm ts. case pm of None \<Rightarrow> ts | Some m \<Rightarrow> max ts (pm_Timestamp m)) ms ts"

text \<open>What holds while no task has crashed or left the mutex locked\<close>

fun task_ok :: "int \<Rightarrow> (string + 'd profile_meta option list) \<Rightarrow> 'd fetch_task \<Rightarrow> bool" where
  "task_ok t0 a (Merging ts ms) \<longleftrightarrow> (\<exists>done. a = Inr (done @ ms) \<and> None \<notin> set done \<and> ts = latest t0 done)"
| "task_ok t0 a (Returned None) \<longleftrightarrow> (\<exists>ms. a = Inr ms \<and> None \<notin> set ms)"
| "task_ok t0 a (Returned (Some e)) \<longleftrightarrow> a = Inl e"
| "task_ok t0 a Reading \<longleftrightarrow> True"
| "task_ok t0 a Crashed \<longleftrightarrow> False"

definition fetch_inv ::
  "string list \<Rightarrow> markets_last_ts \<Rightarrow> (nat \<Rightarrow> string + 'd profile_meta option list) \<Rightarrow> 'd fetch_state \<Rightarrow> bool" where
  "fetch_inv markets lts answers s \<longleftrightarrow>
     (\<forall>i<length markets. task_ok (last_ts lts (markets ! i)) (answers i) (fe_Tasks s ! i)) \<and>
     (\<forall>p k pm. look (fe_Metas s) p k = Some pm \<longleftrightarrow>
        (\<exists>i<length markets. markets ! i = k \<and> pm_ProfileID pm = p \<and>
           Some pm \<in> set (merged_of (answer_list (answers i)) (fe_Tasks s ! i)))) \<and>
     (\<forall>k t. fe_LastTs s k = Some t \<longleftrightarrow>
        (\<exists>i<length markets. markets ! i = k \<and> fe_Tasks s ! i = Returned None \<and>
           t = latest (last_ts lts k) (answer_list (answers i))))"

lemma fetch_step_length: "fetch_step mk lts ans i s s' \<Longrightarrow> length (fe_Tasks s') = length (fe_Tasks s)"
  by (induction rule: fetch_step.induct) simp_all

lemma fetch_reach_length: "fetch_reach mk lts ans n s \<Longrightarrow> length (fe_Tasks s) = length mk"
  by (induction rule: fetch_reach.induct) (simp_all add: fetch_init_def fetch_step_length)

text \<open>A mutex left locked stays locked, and a crashed task stays crashed.\<close>

definition fetch_broken :: "'d fetch_state \<Rightarrow> bool" where
  "fetch_broken s \<longleftrightarrow> Crashed \<in> set (fe_Tasks s) \<or> (fe_Locked s \<and> Returned (Some ErrMetaAlreadyExists) \<in> set (fe_Tasks s))"

lemma in_set_update: "x \<in> set xs \<Longrightarrow> i < length xs \<Longrightarrow> xs ! i \<noteq> x \<Longrightarrow> x \<in> set (xs[i := y])"
  by (metis in_set_conv_nth length_list_update nth_list_update_neq)

lemma fetch_broken_step: "fetch_step mk lts ans i s s' \<Longrightarrow> fetch_broken s \<Longrightarrow> fetch_broken s'"
  by (induction rule: fetch_step.induct)
     (auto simp: fetch_broken_def in_set_update set_update_memI)

lemma latest_append: "latest t (xs @ ys) = latest (latest t xs) ys"
  by (simp add: latest_def)

text \<open>The part of the shared maps that belongs to a task\<close>

lemma fetch_inv_task:
  assumes "fetch_inv mk lts ans s" and "i < length mk" and "distinct mk"
  shows "task_ok (last_ts lts (mk ! i)) (ans i) (fe_Tasks s ! i)"
    and "look (fe_Metas s) p (mk ! i) = Some pm \<longleftrightarrow>
      pm_ProfileID pm = p \<and> Some pm \<in> set (merged_of (answer_list (ans i)) (fe_Tasks s ! i))"
    and "fe_LastTs s (mk ! i) = Some t \<longleftrightarrow>
      fe_Tasks s ! i = Returned None \<and> t = latest (last_ts lts (mk ! i)) (answer_list (ans i))"
proof -
  have only: "mk ! j = mk ! i \<longleftrightarrow> j = i" if "j < length mk" for j
    using assms that by (simp add: nth_eq_iff_index_eq)
  show "task_ok (last_ts lts (mk ! i)) (ans i) (fe_Tasks s ! i)"
    using assms by (auto simp: fetch_inv_def)
  show "look (fe_Metas s) p (mk ! i) = Some pm \<longleftrightarrow>
      pm_ProfileID pm = p \<and> Some pm \<in> set (merged_of (answer_list (ans i)) (fe_Tasks s ! i))"
    using assms(1,2) only unfolding fetch_inv_def by blast
  show "fe_LastTs s (mk ! i) = Some t \<longleftrightarrow>
      fe_Tasks s ! i = Returned None \<and> t = latest (last_ts lts (mk ! i)) (answer_list (ans i))"
    using assms(1,2) only unfolding fetch_inv_def by metis
qed

lemma fetch_inv_update:
  assumes inv: "fetch_inv mk lts ans s" and i: "i < length mk" "length (fe_Tasks s) = length mk" and dist: "distinct mk"
    and tk: "task_ok (last_ts lts (mk ! i)) (ans i) t"
    and look': "\<And>p k pm. look m' p k = Some pm \<longleftrightarrow>
      (if k = mk ! i then pm_ProfileID pm = p \<and> Some pm \<in> set (merged_of (answer_list (ans i)) t)
       else look (fe_Metas s) p k = Some pm)"
    and ts': "\<And>k. l' k = (if k = mk ! i then
        if t = Returned None then Some (latest (last_ts lts k) (answer_list (ans i))) else None
      else fe_LastTs s k)"
  shows "fetch_inv mk lts ans (s\<lparr>fe_Metas := m', fe_LastTs := l', fe_Tasks := (fe_Tasks s)[i := t]\<rparr>)"
proof -
  let ?t = "\<lambda>j. (fe_Tasks s)[i := t] ! j"
  have at: "?t j = (if j = i then t else fe_Tasks s ! j)" if "j < length mk" for j
    using i that by (simp add: nth_list_update)
  have only: "mk ! j = mk ! i \<longleftrightarrow> j = i" if "j < length mk" for j
    using dist i that by (simp add: nth_eq_iff_index_eq)
  have "look m' p k = Some pm \<longleftrightarrow>
      (\<exists>j<length mk. mk ! j = k \<and> pm_ProfileID pm = p \<and> Some pm \<in> set (merged_of (answer_list (ans j)) (?t j)))" for p k pm
  proof (cases "k = mk ! i")
    case True
    then show ?thesis
      unfolding look' using i only by (auto simp: at)
  next
    case False
    have "look (fe_Metas s) p k = Some pm \<longleftrightarrow>
      (\<exists>j<length mk. mk ! j = k \<and> pm_ProfileID pm = p \<and> Some pm \<in> set (merged_of (answer_list (ans j)) (fe_Tasks s ! j)))"
      using inv unfolding fetch_inv_def by blast
    with False show ?thesis
      unfolding look' using at only by (metis (no_types, lifting))
  qed
  moreover have "l' k = Some u \<longleftrightarrow> (\<exists>j<length mk. mk ! j = k \<and> ?t j = Returned None \<and>
      u = latest (last_ts lts k) (answer_list (ans j)))" for k u
  proof (cases "k = mk ! i")
    case True
    then show ?thesis
      unfolding ts' using i only by (auto simp: at)
  next
    case False
    have "fe_LastTs s k = Some u \<longleftrightarrow> (\<exists>j<length mk. mk ! j = k \<and> fe_Tasks s ! j = Returned None \<and>
      u = latest (last_ts lts k) (answer_list (ans j)))"
      using inv unfolding fetch_inv_def by blast
    with False show ?thesis
      unfolding ts' using at only by (metis (no_types, lifting))
  qed
  moreover have "\<forall>j<length mk. task_ok (last_ts lts (mk ! j)) (ans j) (?t j)"
    using inv tk by (simp add: at fetch_inv_def)
  ultimately show ?thesis
    unfolding fetch_inv_def by simp
qed

lemma fetch_inv_step:
  assumes step: "fetch_step mk lts ans i s s'" and inv: "fetch_inv mk lts ans s"
    and len: "length (fe_Tasks s) = length mk" and dist: "distinct mk" and ok: "\<not> fetch_broken s'"
  shows "fetch_inv mk lts ans s'"
proof -
  have i: "i < length mk"
    using step len by (auto elim: fetch_step.cases)
  note at = fetch_inv_task [OF inv i dist]
  note upd = fetch_inv_update [OF inv i len dist]
  have unset: "fe_LastTs s (mk ! i) = None" if "fe_Tasks s ! i \<noteq> Returned None"
    using at(3) that by (metis option.exhaust)
  from step show ?thesis
  proof (cases rule: fetch_step.cases)
    case (received ms)
    then have "fetch_inv mk lts ans (s\<lparr>fe_Metas := fe_Metas s, fe_LastTs := fe_LastTs s,
        fe_Tasks := (fe_Tasks s)[i := Merging (last_ts lts (mk ! i)) ms]\<rparr>)"
      using at(2) unset by (intro upd) (auto simp: answer_list_def latest_def)
    with received show ?thesis
      by simp
  next
    case (failed e)
    then have "fetch_inv mk lts ans (s\<lparr>fe_Metas := fe_Metas s, fe_LastTs := fe_LastTs s,
        fe_Tasks := (fe_Tasks s)[i := Returned (Some e)]\<rparr>)"
      using at(2) unset by (intro upd) auto
    with failed show ?thesis
      by simp
  next
    case (nil_meta ts ms)
    then show ?thesis
      using ok by (simp add: fetch_broken_def set_update_memI)
  next
    case (merged ts pm ms metas)
    let ?t = "Merging (if ts < pm_Timestamp pm then pm_Timestamp pm else ts) ms"
    obtain seen where seen: "ans i = Inr (seen @ Some pm # ms)" "None \<notin> set seen" "ts = latest (last_ts lts (mk ! i)) seen"
      using at(1) merged by auto
    then have "ans i = Inr ((seen @ [Some pm]) @ ms) \<and> None \<notin> set (seen @ [Some pm]) \<and>
        (if ts < pm_Timestamp pm then pm_Timestamp pm else ts) = latest (last_ts lts (mk ! i)) (seen @ [Some pm])"
      by (simp add: latest_append) (simp add: latest_def max_def)
    then have tk: "task_ok (last_ts lts (mk ! i)) (ans i) ?t"
      by (simp only: task_ok.simps) blast
    have was: "merged_of (answer_list (ans i)) (fe_Tasks s ! i) = seen"
      and now: "merged_of (answer_list (ans i)) ?t = seen @ [Some pm]"
      using seen merged by (simp_all add: answer_list_def)
    have seen_look: "look (fe_Metas s) p (mk ! i) = Some x \<longleftrightarrow> pm_ProfileID x = p \<and> Some x \<in> set seen" for p x
      using at(2) unfolding was .
    have "look metas p k = Some x \<longleftrightarrow>
        (if k = mk ! i then pm_ProfileID x = p \<and> Some x \<in> set (merged_of (answer_list (ans i)) ?t)
         else look (fe_Metas s) p k = Some x)" for p k x
      unfolding now using put_meta_Some [OF merged(5)] seen_look by (auto, metis option.distinct(1))
    then have "fetch_inv mk lts ans (s\<lparr>fe_Metas := metas, fe_LastTs := fe_LastTs s, fe_Tasks := (fe_Tasks s)[i := ?t]\<rparr>)"
      using unset merged(3) by (intro upd tk) auto
    with merged show ?thesis
      by simp
  next
    case (conflict ts pm ms)
    then show ?thesis
      using ok by (simp add: fetch_broken_def set_update_memI)
  next
    case (finished ts)
    then have "ans i = Inr (answer_list (ans i))" "None \<notin> set (answer_list (ans i))"
      "ts = latest (last_ts lts (mk ! i)) (answer_list (ans i))"
      using at(1) by (auto simp: answer_list_def)
    moreover from this have "merged_of (answer_list (ans i)) (fe_Tasks s ! i) = answer_list (ans i)"
      using finished by simp
    ultimately have "fetch_inv mk lts ans (s\<lparr>fe_Metas := fe_Metas s, fe_LastTs := (fe_LastTs s)(mk ! i \<mapsto> ts),
        fe_Tasks := (fe_Tasks s)[i := Returned None]\<rparr>)"
      using at(2,3) by (intro upd) auto
    with finished show ?thesis
      by simp
  qed
qed

lemma fetch_reach_inv:
  "fetch_reach mk lts ans n s \<Longrightarrow> distinct mk \<Longrightarrow> \<not> fetch_broken s \<Longrightarrow> fetch_inv mk lts ans s"
proof (induction rule: fetch_reach.induct)
  case start
  show ?case
    by (auto simp: fetch_inv_def fetch_init_def look_def)
next
  case (step n s i s')
  then show ?case
    using fetch_broken_step fetch_inv_step fetch_reach_length by metis
qed

lemma fetch_returned_stays:
  "fetch_step mk lts ans i s s' \<Longrightarrow> Returned r \<in> set (fe_Tasks s) \<Longrightarrow> Returned r \<in> set (fe_Tasks s')"
  by (induction rule: fetch_step.induct) (auto simp: in_set_update)

lemma fetch_lock_stays: "fetch_step mk lts ans i s s' \<Longrightarrow> fe_Locked s \<Longrightarrow> fe_Locked s'"
  by (induction rule: fetch_step.induct) simp_all

lemma fetch_locked_returned:
  "fetch_reach mk lts ans n s \<Longrightarrow> fe_Locked s \<Longrightarrow> Returned (Some ErrMetaAlreadyExists) \<in> set (fe_Tasks s)"
proof (induction rule: fetch_reach.induct)
  case (step n s i s')
  show ?case
  proof (cases "fe_Locked s")
    case True
    then show ?thesis
      using step fetch_returned_stays by metis
  next
    case False
    with step(2) show ?thesis
      using step(4) by (cases rule: fetch_step.cases) (auto simp: set_update_memI)
  qed
qed (simp add: fetch_init_def)

lemma fetch_locked_broken: "fetch_reach mk lts ans n s \<Longrightarrow> fe_Locked s \<Longrightarrow> fetch_broken s"
  by (simp add: fetch_broken_def fetch_locked_returned)

lemma fetch_result_unbroken: "fetch_result s \<noteq> None \<Longrightarrow> \<not> fetch_broken s"
  by (auto simp: fetch_result_def fetch_broken_def split: if_splits)

section \<open>What the call returns\<close>

text \<open>Property C22.
  However the tasks of \<^verbatim>\<open>GetUpdatedProfilesMeta\<close> interleave, when all of them succeed the result
  holds for a profile and a market exactly the meta that market sent for that profile, and for
  every market the greatest of its metas' timestamps and the last timestamp it was asked from: the
  result does not depend on the interleaving, and no meta is lost or taken from another market.
\<close>

theorem metas_independent_of_interleaving:
  assumes "distinct mk" and "fetch_reach mk lts ans n s" and "fetch_result s = Some (metas, ts)"
  shows "(\<forall>p k pm. Option.bind (metas p) (\<lambda>m. m k) = Some pm \<longleftrightarrow>
       (\<exists>i<length mk. \<exists>ms. mk ! i = k \<and> ans i = Inr ms \<and> Some pm \<in> set ms \<and> pm_ProfileID pm = p)) \<and>
     (\<forall>k t. ts k = Some t \<longleftrightarrow>
       (\<exists>i<length mk. \<exists>ms. mk ! i = k \<and> ans i = Inr ms \<and>
          t = Max (insert (last_ts lts k) (pm_Timestamp ` {pm. Some pm \<in> set ms}))))"
proof -
  have inv: "fetch_inv mk lts ans s" and len: "length (fe_Tasks s) = length mk"
    using assms fetch_reach_inv fetch_result_unbroken fetch_reach_length by (metis option.distinct(1))+
  have s: "metas = fe_Metas s" "ts = fe_LastTs s" and all: "\<forall>i<length mk. fe_Tasks s ! i = Returned None"
    using assms(3) len by (auto simp: fetch_result_def split: if_splits)
  have ok: "\<exists>ms. ans i = Inr ms \<and> None \<notin> set ms" if "i < length mk" for i
    using inv all that unfolding fetch_inv_def by (metis task_ok.simps(2))
  have max_insert: "Max (insert (max t u) (f ` A)) = Max (insert t (insert u (f ` A)))" if "finite A"
    for t u :: int and f :: "'a profile_meta \<Rightarrow> int" and A
    using that by (cases "A = {}") (simp_all add: ac_simps)
  have max: "latest t ms = Max (insert t (pm_Timestamp ` {pm. Some pm \<in> set ms}))" for t and ms :: "'a profile_meta option list"
  proof (induction ms arbitrary: t)
    case (Cons x ms)
    have fin: "finite {pm. Some pm \<in> set ms}"
      using finite_vimageI [of "set ms" Some] by (simp add: vimage_def)
    show ?case
    proof (cases x)
      case None
      then show ?thesis
        using Cons by (simp add: latest_def)
    next
      case (Some pm)
      have "{pm. Some pm \<in> set (x # ms)} = insert pm {pm. Some pm \<in> set ms}"
        using Some by auto
      then show ?thesis
        using Cons [of "max t (pm_Timestamp pm)"] Some max_insert [OF fin] by (simp add: latest_def)
    qed
  qed (simp add: latest_def)
  show ?thesis
  proof (intro conjI allI)
    fix p k pm
    have "look metas p k = Some pm \<longleftrightarrow>
        (\<exists>i<length mk. mk ! i = k \<and> pm_ProfileID pm = p \<and>
           Some pm \<in> set (merged_of (answer_list (ans i)) (fe_Tasks s ! i)))"
      using inv unfolding fetch_inv_def s by blast
    also have "\<dots> \<longleftrightarrow>
        (\<exists>i<length mk. mk ! i = k \<and> pm_ProfileID pm = p \<and> Some pm \<in> set (answer_list (ans i)))"
      using all by auto
    finally show "Option.bind (metas p) (\<lambda>m. m k) = Some pm \<longleftrightarrow>
       (\<exists>i<length mk. \<exists>ms. mk ! i = k \<and> ans i = Inr ms \<and> Some pm \<in> set ms \<and> pm_ProfileID pm = p)"
      unfolding look_def using ok by (fastforce simp: answer_list_def)
  next
    fix k t
    have "ts k = Some t \<longleftrightarrow>
        (\<exists>i<length mk. mk ! i = k \<and> fe_Tasks s ! i = Returned None \<and>
           t = latest (last_ts lts k) (answer_list (ans i)))"
      using inv unfolding fetch_inv_def s by blast
    also have "\<dots> \<longleftrightarrow> (\<exists>i<length mk. mk ! i = k \<and> t = latest (last_ts lts k) (answer_list (ans i)))"
      using all by auto
    finally show "ts k = Some t \<longleftrightarrow>
       (\<exists>i<length mk. \<exists>ms. mk ! i = k \<and> ans i = Inr ms \<and>
          t = Max (insert (last_ts lts k) (pm_Timestamp ` {pm. Some pm \<in> set ms})))"
      unfolding max using ok by (fastforce simp: answer_list_def)
  qed
qed

text \<open>The steps left to a task\<close>

fun steps_left :: "'d profile_meta option list \<Rightarrow> 'd fetch_task \<Rightarrow> nat" where
  "steps_left a Reading = length a + 2"
| "steps_left a (Merging ts ms) = length ms + 1"
| "steps_left a _ = 0"

definition good_answers :: "(nat \<Rightarrow> string + 'd profile_meta option list) \<Rightarrow> nat \<Rightarrow> bool" where
  "good_answers ans n \<longleftrightarrow>
     (\<forall>i<n. \<exists>ms. ans i = Inr (map Some ms) \<and> distinct (map pm_ProfileID ms))"

lemma sum_one_less:
  fixes f g :: "nat \<Rightarrow> nat"
  assumes "i < n" and "f i = Suc (g i)" and "\<And>j. j < n \<Longrightarrow> j \<noteq> i \<Longrightarrow> f j = g j"
  shows "(\<Sum>j<n. f j) = Suc (\<Sum>j<n. g j)"
  using assms by (simp add: sum.remove [of "{..<n}" i] cong: sum.cong_simp)

lemma good_step:
  assumes good: "good_answers ans (length mk)" and dist: "distinct mk" and inv: "fetch_inv mk lts ans s"
    and len: "length (fe_Tasks s) = length mk" and ok: "\<not> fetch_broken s" and step: "fetch_step mk lts ans i s s'"
  shows "\<not> fetch_broken s' \<and>
    (\<Sum>j<length mk. steps_left (answer_list (ans j)) (fe_Tasks s ! j)) =
    Suc (\<Sum>j<length mk. steps_left (answer_list (ans j)) (fe_Tasks s' ! j))"
proof -
  let ?left = "\<lambda>s j. steps_left (answer_list (ans j)) (fe_Tasks s ! j)"
  have i: "i < length mk"
    using step len by (auto elim: fetch_step.cases)
  then obtain ms where ms: "ans i = Inr (map Some ms)" "distinct (map pm_ProfileID ms)"
    using good by (auto simp: good_answers_def)
  note at = fetch_inv_task [OF inv i dist]
  have upd: ?thesis if t: "fe_Tasks s' = (fe_Tasks s)[i := t]" "t \<noteq> Crashed" "fe_Locked s' = fe_Locked s"
    "t \<noteq> Returned (Some ErrMetaAlreadyExists)" "?left s i = Suc (steps_left (answer_list (ans i)) t)" for t
  proof
    have "set (fe_Tasks s') \<subseteq> insert t (set (fe_Tasks s))"
      using t(1) by (simp add: set_update_subset_insert)
    then show "\<not> fetch_broken s'"
      using ok t unfolding fetch_broken_def by blast
    show "(\<Sum>j<length mk. ?left s j) = Suc (\<Sum>j<length mk. ?left s' j)"
      using t i len by (intro sum_one_less [OF i]) (simp_all add: nth_list_update)
  qed
  from step show ?thesis
  proof (cases rule: fetch_step.cases)
    case (received ms')
    then show ?thesis
      by (intro upd) (auto simp: answer_list_def)
  next
    case (merged ts pm ms' metas)
    then show ?thesis
      by (intro upd) auto
  next
    case (finished ts)
    then show ?thesis
      by (intro upd) auto
  next
    case (failed e)
    then show ?thesis
      using ms by simp
  next
    case (nil_meta ts ms')
    then show ?thesis
      using at(1) ms by (auto simp: map_eq_append_conv)
  next
    case (conflict ts pm ms')
    then obtain seen where seen: "map Some ms = seen @ Some pm # ms'"
      using at(1) ms by auto
    moreover have "merged_of (answer_list (ans i)) (fe_Tasks s ! i) = seen"
      using conflict ms seen by (simp add: answer_list_def)
    moreover obtain x where "look (fe_Metas s) (pm_ProfileID pm) (mk ! i) = Some x"
      using conflict put_meta_None by (metis not_None_eq)
    ultimately have "Some x \<in> set seen" "pm_ProfileID x = pm_ProfileID pm"
      using at(2) by auto
    with seen ms(2) have False
      by (auto simp: map_eq_append_conv append_eq_map_conv) (metis imageI)
    then show ?thesis ..
  qed
qed

definition fetch_work :: "(nat \<Rightarrow> string + 'd profile_meta option list) \<Rightarrow> nat \<Rightarrow> nat" where
  "fetch_work ans n = (\<Sum>i<n. length (answer_list (ans i)) + 2)"

lemma good_reach:
  assumes "good_answers ans (length mk)" and "distinct mk"
  shows "fetch_reach mk lts ans n s \<Longrightarrow>
    \<not> fetch_broken s \<and> n + (\<Sum>j<length mk. steps_left (answer_list (ans j)) (fe_Tasks s ! j)) = fetch_work ans (length mk)"
proof (induction rule: fetch_reach.induct)
  case start
  show ?case
    by (simp add: fetch_init_def fetch_broken_def fetch_work_def)
next
  case (step n s i s')
  then show ?case
    using good_step [OF assms fetch_reach_inv [OF step(1) assms(2)] fetch_reach_length [OF step(1)] _ step(2)] by simp
qed

text \<open>Property C23.
  When every market answers with metas of distinct profiles, \<^verbatim>\<open>GetUpdatedProfilesMeta\<close> cannot
  block: in whatever order the tasks run, as long as the result is not there some task can go on,
  and after a fixed number of steps, two for a market and one for each meta, all of them have
  returned without an error.
\<close>

theorem fetch_always_completes:
  assumes "distinct mk" and "good_answers ans (length mk)" and "fetch_reach mk lts ans n s"
  shows "n \<le> fetch_work ans (length mk) \<and>
    (n = fetch_work ans (length mk) \<longleftrightarrow> fetch_result s \<noteq> None) \<and>
    (n < fetch_work ans (length mk) \<longrightarrow> (\<exists>i s'. fetch_step mk lts ans i s s'))"
proof -
  let ?left = "\<lambda>j. steps_left (answer_list (ans j)) (fe_Tasks s ! j)"
  have ok: "\<not> fetch_broken s" and n: "n + (\<Sum>j<length mk. ?left j) = fetch_work ans (length mk)"
    using good_reach [OF assms(2,1,3)] by auto
  have inv: "fetch_inv mk lts ans s" and len: "length (fe_Tasks s) = length mk"
    using assms fetch_reach_inv ok fetch_reach_length by metis+
  have unlocked: "\<not> fe_Locked s"
    using fetch_locked_broken [OF assms(3)] ok by blast
  have step: "fe_Tasks s ! j = Returned None \<or> (\<exists>s'. fetch_step mk lts ans j s s')" if "j < length mk" for j
  proof -
    obtain ms where ms: "ans j = Inr ms"
      using assms(2) \<open>j < length mk\<close> unfolding good_answers_def by blast
    note at = fetch_inv_task(1) [OF inv that assms(1)]
    show ?thesis
    proof (cases "fe_Tasks s ! j")
      case Reading
      then show ?thesis
        using fetch_step.received [of j s ans ms] ms that len by auto
    next
      case (Merging ts ms')
      then consider "ms' = []" | rest where "ms' = None # rest" | pm rest where "ms' = Some pm # rest"
        by (metis list.exhaust option.exhaust)
      then show ?thesis
      proof cases
        case 3
        then show ?thesis
          using fetch_step.merged [of j s ts pm rest mk] fetch_step.conflict [of j s ts pm rest mk] Merging that len unlocked
          by (cases "put_meta (mk ! j) pm (fe_Metas s)") auto
      next
        case 1
        then show ?thesis
          using fetch_step.finished [of j s ts mk lts ans] Merging that len unlocked by auto
      next
        case 2
        then show ?thesis
          using fetch_step.nil_meta [of j s ts rest mk lts ans] Merging that len by auto
      qed
    qed (use at ms in \<open>auto elim: task_ok.elims\<close>)
  qed
  have res: "fetch_result s \<noteq> None \<longleftrightarrow> (\<forall>j<length mk. fe_Tasks s ! j = Returned None)"
    using len by (auto simp: fetch_result_def all_set_conv_all_nth)
  have zero: "(\<Sum>j<length mk. ?left j) = 0 \<longleftrightarrow> (\<forall>j<length mk. fe_Tasks s ! j = Returned None)"
  proof -
    have "?left j = 0 \<longleftrightarrow> fe_Tasks s ! j = Returned None" if "j < length mk" for j
    proof -
      obtain ms where "ans j = Inr ms"
        using assms(2) \<open>j < length mk\<close> unfolding good_answers_def by blast
      with fetch_inv_task(1) [OF inv \<open>j < length mk\<close> assms(1)] show ?thesis
        by (cases "fe_Tasks s ! j") (auto elim: task_ok.elims)
    qed
    then show ?thesis
      by (simp add: Ball_def)
  qed
  have "fetch_result s \<noteq> None \<longleftrightarrow> n = fetch_work ans (length mk)"
  proof -
    have "n = fetch_work ans (length mk) \<longleftrightarrow> (\<Sum>j<length mk. ?left j) = 0"
      using n by linarith
    then show ?thesis
      unfolding res zero by blast
  qed
  moreover have "\<exists>i s'. fetch_step mk lts ans i s s'" if "n < fetch_work ans (length mk)"
    using that n step zero by (metis add.right_neutral less_irrefl)
  ultimately show ?thesis
    using n by auto
qed

section \<open>The mutex after an error\<close>

abbreviation fetch_steps ::
  "string list \<Rightarrow> markets_last_ts \<Rightarrow> (nat \<Rightarrow> string + 'd profile_meta option list) \<Rightarrow>
   'd fetch_state \<Rightarrow> 'd fetch_state \<Rightarrow> bool" where
  "fetch_steps mk lts ans \<equiv> (\<lambda>s s'. \<exists>i. fetch_step mk lts ans i s s')\<^sup>*\<^sup>*"

text \<open>Two metas of the same profile in one market's answer end the call for good: the task that meets
  the second one returns \<^verbatim>\<open>ErrMetaAlreadyExists\<close> while it holds the mutex, and from then on, in
  whatever order the tasks go on, the mutex is never released, no task returns without an error,
  and a task that has metas to merge never returns at all.
\<close>

theorem conflict_blocks_other_tasks:
  assumes "fetch_reach mk lts ans n s" and "fe_Locked s" and "fetch_steps mk lts ans s s'"
  shows "fe_Locked s' \<and> Returned (Some ErrMetaAlreadyExists) \<in> set (fe_Tasks s') \<and> fetch_result s' = None \<and>
    (\<forall>i<length mk. fe_Tasks s' ! i = Returned None \<longrightarrow> fe_Tasks s ! i = Returned None) \<and>
    (\<forall>i<length mk. \<forall>ts ms. fe_Tasks s ! i = Merging ts ms \<longrightarrow> fe_Tasks s' ! i \<in> {Merging ts ms, Crashed})"
  using assms(3)
proof (induction rule: rtranclp_induct)
  case base
  have "Returned (Some ErrMetaAlreadyExists) \<in> set (fe_Tasks s)"
    by (rule fetch_locked_returned [OF assms(1,2)])
  then show ?case
    using assms(2) by (auto simp: fetch_result_def)
next
  case (step t t')
  then obtain i where i: "fetch_step mk lts ans i t t'"
    by blast
  have err: "Returned (Some ErrMetaAlreadyExists) \<in> set (fe_Tasks t')" and "fe_Locked t'"
    using step(3) fetch_returned_stays [OF i] fetch_lock_stays [OF i] by auto
  moreover from i have "(fe_Tasks t' ! j = Returned None \<longrightarrow> fe_Tasks t ! j = Returned None) \<and>
      (\<forall>ts ms. fe_Tasks t ! j = Merging ts ms \<longrightarrow> fe_Tasks t' ! j \<in> {Merging ts ms, Crashed}) \<and>
      (fe_Tasks t ! j = Crashed \<longrightarrow> fe_Tasks t' ! j = Crashed)" for j
    using step(3) by (cases rule: fetch_step.cases) (auto simp: nth_list_update)
  moreover from err have "fetch_result t' = None"
    by (auto simp: fetch_result_def)
  ultimately show ?case
    using step(3) by (metis insert_iff singletonD)
qed

section \<open>Examples\<close>

definition demo_meta :: "nat \<Rightarrow> int \<Rightarrow> rat profile_meta" where
  "demo_meta p t = \<lparr> pm_ProfileID = p, pm_MarketID = ''BTC-USD'', pm_Status = ''active'', pm_CumUnrealizedPnl = 0,
     pm_TotalNotional = 0, pm_TotalPositionMargin = 0, pm_TotalOrderMargin = 0, pm_InitialMargin = 0,
     pm_MarketLeverage = 1, pm_Balance = 0, pm_CumTradingVolume = 0, pm_Timestamp = t \<rparr>"

lemma demo_meta_fields [simp]: "pm_ProfileID (demo_meta p t) = p" "pm_Timestamp (demo_meta p t) = t"
  by (simp_all add: demo_meta_def)

definition demo_fetched :: "rat fetch_state" where
  "demo_fetched = \<lparr> fe_Metas = [7 \<mapsto> [''BTC-USD'' \<mapsto> demo_meta 7 5]], fe_LastTs = [''BTC-USD'' \<mapsto> 5],
     fe_Locked = False, fe_Tasks = [Returned None] \<rparr>"

lemma demo_fetched_reach:
  "fetch_reach [''BTC-USD''] [''BTC-USD'' \<mapsto> 3] (\<lambda>_. Inr [Some (demo_meta 7 5)]) 3 demo_fetched"
proof -
  let ?step = "fetch_step [''BTC-USD''] [''BTC-USD'' \<mapsto> 3] (\<lambda>_. Inr [Some (demo_meta 7 5)]) 0"
  let ?s1 = "fetch_init [''BTC-USD'']\<lparr>fe_Tasks := [Merging 3 [Some (demo_meta 7 5)]]\<rparr>"
  let ?s2 = "demo_fetched\<lparr>fe_LastTs := Map.empty, fe_Tasks := [Merging 5 []]\<rparr>"
  have s1: "?step (fetch_init [''BTC-USD'']) ?s1"
    by (subst fetch_step.simps) (simp add: fetch_init_def last_ts_def)
  have s2: "?step ?s1 ?s2"
    by (subst fetch_step.simps) (simp add: fetch_init_def demo_fetched_def put_meta_def)
  have s3: "?step ?s2 demo_fetched"
    by (subst fetch_step.simps) (simp add: demo_fetched_def)
  show ?thesis
    using fetch_reach.step [OF fetch_reach.step [OF fetch_reach.step [OF fetch_reach.start s1] s2] s3]
    by (simp add: eval_nat_numeral)
qed

lemma metas_independent_witness:
  "\<exists>metas ts. fetch_result demo_fetched = Some (metas, ts) \<and>
     Option.bind (metas 7) (\<lambda>m. m ''BTC-USD'') = Some (demo_meta 7 5) \<and> ts ''BTC-USD'' = Some 5"
proof -
  have "fetch_result demo_fetched = Some (fe_Metas demo_fetched, fe_LastTs demo_fetched)"
    by (simp add: fetch_result_def demo_fetched_def)
  with metas_independent_of_interleaving [OF _ demo_fetched_reach this] show ?thesis
    by (auto simp: last_ts_def)
qed

lemma fetch_always_completes_witness:
  "\<exists>i s'. fetch_step [''BTC-USD''] [''BTC-USD'' \<mapsto> 3] (\<lambda>_. Inr [Some (demo_meta 7 5)]) i (fetch_init [''BTC-USD'']) s'"
proof -
  have "good_answers (\<lambda>_. Inr [Some (demo_meta 7 5)]) (length [''BTC-USD''])"
    unfolding good_answers_def by (intro allI impI exI [of _ "[demo_meta 7 5]"]) simp
  from fetch_always_completes [OF _ this fetch_reach.start] show ?thesis
    by (simp add: fetch_work_def)
qed

definition demo_stuck :: "rat fetch_state" where
  "demo_stuck = \<lparr> fe_Metas = [7 \<mapsto> [''A'' \<mapsto> demo_meta 7 5]], fe_LastTs = Map.empty, fe_Locked = True,
     fe_Tasks = [Returned (Some ErrMetaAlreadyExists), Merging 0 []] \<rparr>"

lemma demo_stuck_reach:
  "fetch_reach [''A'', ''B''] Map.empty
     (\<lambda>i. if i = 0 then Inr [Some (demo_meta 7 5), Some (demo_meta 7 6)] else Inr []) 4 demo_stuck"
proof -
  let ?ans = "\<lambda>i. if i = 0 then Inr [Some (demo_meta 7 5), Some (demo_meta 7 6)] else Inr []"
  let ?step = "fetch_step [''A'', ''B''] Map.empty ?ans"
  let ?s1 = "fetch_init [''A'', ''B'']\<lparr>fe_Tasks := [Merging 0 [Some (demo_meta 7 5), Some (demo_meta 7 6)], Reading]\<rparr>"
  let ?s2 = "fetch_init [''A'', ''B'']\<lparr>fe_Tasks := [Merging 0 [Some (demo_meta 7 5), Some (demo_meta 7 6)], Merging 0 []]\<rparr>"
  let ?s3 = "demo_stuck\<lparr>fe_Locked := False, fe_Tasks := [Merging 5 [Some (demo_meta 7 6)], Merging 0 []]\<rparr>"
  have s1: "?step 0 (fetch_init [''A'', ''B'']) ?s1"
    by (subst fetch_step.simps) (simp add: fetch_init_def last_ts_def numeral_2_eq_2)
  have s2: "?step (Suc 0) ?s1 ?s2"
    by (subst fetch_step.simps) (simp add: fetch_init_def last_ts_def)
  have s3: "?step 0 ?s2 ?s3"
    by (subst fetch_step.simps) (simp add: fetch_init_def demo_stuck_def put_meta_def)
  have s4: "?step 0 ?s3 demo_stuck"
    by (subst fetch_step.simps) (simp add: demo_stuck_def put_meta_def)
  show ?thesis
    using fetch_reach.step [OF fetch_reach.step [OF fetch_reach.step [OF fetch_reach.step [OF fetch_reach.start s1] s2] s3] s4]
    by (simp add: eval_nat_numeral)
qed

lemma conflict_blocks_witness:
  "fe_Locked demo_stuck \<and> fetch_result demo_stuck = None \<and> fe_Tasks demo_stuck ! 1 = Merging 0 []"
  using conflict_blocks_other_tasks [OF demo_stuck_reach, of demo_stuck] by (simp add: demo_stuck_def)

end
