(* ===== verification/Tier_Calc.thy ===== *)
theory Tier_Calc
  imports Model_Api
begin

text \<open>
  The fee tiers of the profiles: \<^verbatim>\<open>model/api-tier.go\<close>, \<^verbatim>\<open>profile/tier_calc.go\<close> and the periodic job
  of \<^verbatim>\<open>profile/periodics/tier/tier.go\<close>. A profile has a special tier when one is set for it, the
  special tier of its affiliate in place of the tiers up to a replaced one, and otherwise the tier
  of its trading volume.
\<close>

section \<open>Tiers\<close>

record 'd tier =
  ti_Tier      :: nat
  ti_Title     :: string
  ti_MakerFee  :: 'd
  ti_TakerFee  :: 'd
  ti_MinVolume :: 'd
  ti_MinAssets :: 'd

record affiliate_tier =
  at_ProfileId     :: nat
  at_SpecialTierId :: nat
  at_ReplaceTierId :: nat

record special_tier =
  sp_ProfileId     :: nat
  sp_SpecialTierId :: nat

record profile_tier =
  pt_ProfileID     :: nat
  pt_SpecialTierID :: nat
  pt_TierID        :: nat

record 'd dummy_tier =
  dt_Tier      :: nat
  dt_Title     :: string
  dt_MinVolume :: 'd

record 'd tier_status =
  tst_Current      :: "'d dummy_tier"
  tst_Next         :: "'d dummy_tier option"
  tst_NeededVolume :: "'d option"

record referral_link =
  rl_ProfileId :: nat
  rl_InvitedId :: nat

record 'd tier_entry =
  te_Status :: "'d tier_status"
  te_Tier   :: profile_tier

section \<open>Requests\<close>

definition fields_of :: "string \<Rightarrow> nat \<Rightarrow> 'd gval \<Rightarrow> 'd gval list option" where
  "fields_of name n v = (case v of
      VStruct t fs \<Rightarrow> if t = name \<and> length fs = n then Some fs else None
    | _ \<Rightarrow> None)"

definition as_tier :: "('d, 'd tier) decoder" where
  "as_tier v =
     Option.bind (fields_of ''Tier'' 6 v) (\<lambda>fs.
     Option.bind (as_uint (fs ! 0)) (\<lambda>i.
     Option.bind (as_string (fs ! 1)) (\<lambda>n.
     Option.bind (as_decimal (fs ! 2)) (\<lambda>mf.
     Option.bind (as_decimal (fs ! 3)) (\<lambda>tf.
     Option.bind (as_decimal (fs ! 4)) (\<lambda>mv.
     Option.bind (as_decimal (fs ! 5)) (\<lambda>ma.
       Some \<lparr> ti_Tier = i, ti_Title = n, ti_MakerFee = mf, ti_TakerFee = tf,
              ti_MinVolume = mv, ti_MinAssets = ma \<rparr>)))))))"

definition as_affiliate_tier :: "('d, affiliate_tier) decoder" where
  "as_affiliate_tier v =
     Option.bind (fields_of ''AffiliateProfileTier'' 3 v) (\<lambda>fs.
     Option.bind (as_uint (fs ! 0)) (\<lambda>p.
     Option.bind (as_uint (fs ! 1)) (\<lambda>s.
     Option.bind (as_uint (fs ! 2)) (\<lambda>r.
       Some \<lparr> at_ProfileId = p, at_SpecialTierId = s, at_ReplaceTierId = r \<rparr>))))"

definition as_special_tier :: "('d, special_tier) decoder" where
  "as_special_tier v =
     Option.bind (fields_of ''ProfileSpecialTier'' 2 v) (\<lambda>fs.
     Option.bind (as_uint (fs ! 0)) (\<lambda>p.
     Option.bind (as_uint (fs ! 1)) (\<lambda>s.
       Some \<lparr> sp_ProfileId = p, sp_SpecialTierId = s \<rparr>)))"

definition profile_tier_val :: "profile_tier \<Rightarrow> 'd gval" where
  "profile_tier_val t = VStruct ''ProfileTier'' [VUint (pt_ProfileID t), VUint (pt_SpecialTierID t), VUint (pt_TierID t)]"

definition GetTradingTiers :: "('d, string + 'd tier list) prog" where
  "GetTradingTiers = Request (as_list as_tier) PROFILE_INSTANCE ''getters.get_tiers'' []"

definition GetAffiliateProfilesTiers :: "nat list \<Rightarrow> ('d, string + affiliate_tier list) prog" where
  "GetAffiliateProfilesTiers profilesIds =
     Request (as_list as_affiliate_tier) PROFILE_INSTANCE ''getters.get_affiliate_profiles_tiers''
       [VList (map VUint profilesIds)]"

definition GetProfilesSpecialTiers :: "('d, string + special_tier list) prog" where
  "GetProfilesSpecialTiers =
     Request (as_list as_special_tier) PROFILE_INSTANCE ''getters.get_profiles_special_tiers'' []"

definition UpdateMarketProfilesToTiers :: "cluster \<Rightarrow> string \<Rightarrow> profile_tier list \<Rightarrow> ('d, string + unit) prog" where
  "UpdateMarketProfilesToTiers IC marketId profilesToTiers =
     GetInstance IC (\<lambda>is. case ByMarketID is marketId of
         Inl e \<Rightarrow> Return (Inl (''GetInstance: '' @ e))
       | Inr i \<Rightarrow> Request_err as_any (ic_Title i) ''setters.update_profiles_to_tiers''
                   [VList (map profile_tier_val profilesToTiers)])"

section \<open>The tier of a profile\<close>

definition dummy :: "'d tier \<Rightarrow> 'd dummy_tier" where
  "dummy t = \<lparr> dt_Tier = ti_Tier t, dt_Title = ti_Title t, dt_MinVolume = ti_MinVolume t \<rparr>"

definition special_dummy :: "'d dec_lib \<Rightarrow> nat \<Rightarrow> 'd dummy_tier" where
  "special_dummy D i = \<lparr> dt_Tier = i, dt_Title = ''Special tier'', dt_MinVolume = d_zero D \<rparr>"

definition no_dummy :: "'d dec_lib \<Rightarrow> 'd dummy_tier" where
  "no_dummy D = \<lparr> dt_Tier = 0, dt_Title = '''', dt_MinVolume = d_zero D \<rparr>"

definition needed_volume :: "'d dec_lib \<Rightarrow> 'd \<Rightarrow> 'd dummy_tier option \<Rightarrow> 'd option" where
  "needed_volume D volume nxt = map_option (\<lambda>t. d_sub D (dt_MinVolume t) volume) nxt"

text \<open>The loop over the tiers, from the greatest volume down: the current tier and the next one\<close>

fun volume_tier ::
  "'d dec_lib \<Rightarrow> 'd \<Rightarrow> 'd tier list \<Rightarrow> 'd dummy_tier option \<Rightarrow> 'd dummy_tier option \<times> 'd dummy_tier option" where
  "volume_tier D volume [] nxt = (None, nxt)"
| "volume_tier D volume (t # ts) nxt =
     (if 0 \<le> d_cmp D volume (ti_MinVolume t) then (Some (dummy t), nxt)
      else volume_tier D volume ts (Some (dummy t)))"

text \<open>The loop for the profile of an affiliate: special tier id, tier id, current and next tier\<close>

fun affiliate_loop ::
  "'d dec_lib \<Rightarrow> 'd \<Rightarrow> affiliate_tier \<Rightarrow> 'd tier list \<Rightarrow> 'd dummy_tier option \<Rightarrow>
   nat \<times> nat \<times> 'd dummy_tier \<times> 'd dummy_tier option" where
  "affiliate_loop D volume a [] nxt = (0, 0, no_dummy D, nxt)"
| "affiliate_loop D volume a (t # ts) nxt =
     (if ti_Tier t = at_ReplaceTierId a then (at_SpecialTierId a, 0, special_dummy D (at_SpecialTierId a), nxt)
      else if 0 \<le> d_cmp D volume (ti_MinVolume t) then (0, ti_Tier t, dummy t, nxt)
      else affiliate_loop D volume a ts (Some (dummy t)))"

definition tier_entry_of ::
  "'d dec_lib \<Rightarrow> 'd tier list \<Rightarrow> (nat \<rightharpoonup> special_tier) \<Rightarrow> (nat \<rightharpoonup> nat) \<Rightarrow> (nat \<rightharpoonup> affiliate_tier) \<Rightarrow>
   'd \<Rightarrow> nat \<Rightarrow> 'd tier_entry" where
  "tier_entry_of D tiers specTiers referrals affiliateTiers volume profileId =
     (case specTiers profileId of
        Some tier \<Rightarrow>
          \<lparr> te_Status = \<lparr> tst_Current = special_dummy D (sp_SpecialTierId tier), tst_Next = None, tst_NeededVolume = None \<rparr>,
            te_Tier = \<lparr> pt_ProfileID = profileId, pt_SpecialTierID = sp_SpecialTierId tier, pt_TierID = 0 \<rparr> \<rparr>
      | None \<Rightarrow>
          (case Option.bind (referrals profileId) affiliateTiers of
             Some affTier \<Rightarrow>
               (let (specialTierId, tierId, current, nxt) = affiliate_loop D volume affTier tiers None
                in \<lparr> te_Status = \<lparr> tst_Current = current, tst_Next = nxt, tst_NeededVolume = needed_volume D volume nxt \<rparr>,
                     te_Tier = \<lparr> pt_ProfileID = profileId, pt_SpecialTierID = specialTierId, pt_TierID = tierId \<rparr> \<rparr>)
           | None \<Rightarrow>
               (let (found, nxt) = volume_tier D volume tiers None;
                    current = (case found of None \<Rightarrow> no_dummy D | Some t \<Rightarrow> t)
                in \<lparr> te_Status = \<lparr> tst_Current = current, tst_Next = nxt, tst_NeededVolume = needed_volume D volume nxt \<rparr>,
                     te_Tier = \<lparr> pt_ProfileID = profileId, pt_SpecialTierID = 0, pt_TierID = dt_Tier current \<rparr> \<rparr>)))"

section \<open>Batches\<close>

text \<open>
  \<^verbatim>\<open>for i, n, size := 0, batch, len(xs); i < size; i += n\<close> with \<open>n\<close> cut to what is left: the slices
  \<open>xs[i : i+n]\<close> the loop visits. A negative batch size makes the first slice panic, \<open>None\<close>.
\<close>

definition batch_length :: "nat \<Rightarrow> 'a list \<Rightarrow> nat" where
  "batch_length n xs = (if length xs < n \<or> n = 0 then length xs else n)"

function batches :: "nat \<Rightarrow> 'a list \<Rightarrow> 'a list list" where
  "batches n xs =
     (if xs = [] then []
      else take (batch_length n xs) xs # batches (batch_length n xs) (drop (batch_length n xs) xs))"
  by auto
termination
  by (relation "measure (\<lambda>(n, xs). length xs)") (auto simp: batch_length_def)

declare batches.simps [simp del]

definition slices :: "int \<Rightarrow> 'a list \<Rightarrow> 'a list list option" where
  "slices batchSize xs = (if batchSize < 0 \<and> xs \<noteq> [] then None else Some (batches (nat batchSize) xs))"

section \<open>The calculation\<close>

text \<open>
  \<open>GetVolume\<close> reads the volume cache, zero when there is no entry; \<open>GetReferrals\<close> is the store's
  query; \<open>srt\<close> is \<^verbatim>\<open>slices.SortFunc\<close> with the comparison of the code, by decreasing volume.
\<close>

record 'd tier_calc =
  tc_BatchSize    :: int
  tc_GetVolume    :: "nat \<Rightarrow> 'd option"
  tc_GetReferrals :: "nat list \<Rightarrow> ('d, string + referral_link list) prog"
  tc_sort         :: "'d tier list \<Rightarrow> 'd tier list"

type_synonym 'd tiers_data = "nat \<rightharpoonup> 'd tier_entry"

definition keyed :: "('a \<Rightarrow> nat) \<Rightarrow> ('a \<Rightarrow> 'b) \<Rightarrow> 'a list \<Rightarrow> nat \<rightharpoonup> 'b" where
  "keyed key val xs = fold (\<lambda>x m. m(key x \<mapsto> val x)) xs Map.empty"

definition Recalculate ::
  "'d dec_lib \<Rightarrow> 'd tier_calc \<Rightarrow> nat list \<Rightarrow> 'd tiers_data \<Rightarrow> ('d, string + 'd tiers_data) prog" where
  "Recalculate D c profilesIds tiersData =
     onErr GetTradingTiers (\<lambda>e. Return (Inl (''GetTradingTiers: '' @ e))) (\<lambda>trading.
     onErr (tc_GetReferrals c profilesIds) (\<lambda>e. Return (Inl (''GetReferralsByInvitedProfiles: '' @ e))) (\<lambda>referrals.
     onErr GetProfilesSpecialTiers (\<lambda>e. Return (Inl (''GetProfilesSpecialTiers: '' @ e))) (\<lambda>specTiers.
     onErr (GetAffiliateProfilesTiers profilesIds) (\<lambda>e. Return (Inl (''GetAffiliateProfilesTiers: '' @ e))) (\<lambda>affiliateTiers.
       let tiers = tc_sort c trading;
           entry = (\<lambda>profileId. tier_entry_of D tiers (keyed sp_ProfileId (\<lambda>v. v) specTiers)
             (keyed rl_InvitedId rl_ProfileId referrals) (keyed at_ProfileId (\<lambda>v. v) affiliateTiers)
             (case tc_GetVolume c profileId of None \<Rightarrow> d_zero D | Some v \<Rightarrow> v) profileId)
       in orPanic ''slice bounds out of range'' (slices (tc_BatchSize c) profilesIds) (\<lambda>parts.
            Return (Inr (fold (fold (\<lambda>profileId m. m(profileId \<mapsto> entry profileId))) parts tiersData)))))))"

definition GetProfileTierStatus :: "'d tiers_data \<Rightarrow> nat \<Rightarrow> 'd tier_status option" where
  "GetProfileTierStatus tiersData profileId = map_option te_Status (tiersData profileId)"

definition GetProfileTier :: "'d tiers_data \<Rightarrow> nat \<Rightarrow> profile_tier option" where
  "GetProfileTier tiersData profileId = map_option te_Tier (tiersData profileId)"

section \<open>The periodic job\<close>

record 'd tier_periodics =
  tp_Cause         :: "string option"    \<comment> \<open>\<^verbatim>\<open>context.Cause(ctx)\<close>\<close>
  tp_BatchSize     :: int
  tp_GetProfileIds :: "('d, string + nat list) prog"
  tp_Update        :: "profile_tier list \<Rightarrow> ('d, string + unit) prog"

fun collect_tiers :: "'d tiers_data \<Rightarrow> nat list \<Rightarrow> string + profile_tier list" where
  "collect_tiers m [] = Inr []"
| "collect_tiers m (p # ps) =
     (case GetProfileTier m p of
        None \<Rightarrow> Inl (''GetProfileTier: profile-id='' @ show_nat p @ '': profile tier not found'')
      | Some t \<Rightarrow> (case collect_tiers m ps of Inl e \<Rightarrow> Inl e | Inr ts \<Rightarrow> Inr (t # ts)))"

primrec push_batches ::
  "'d tier_periodics \<Rightarrow> 'd tiers_data \<Rightarrow> nat list list \<Rightarrow> ('d, string + unit) prog" where
  "push_batches p m [] = Return (Inr ())"
| "push_batches p m (part # parts) =
     (case collect_tiers m part of
        Inl e \<Rightarrow> Return (Inl e)
      | Inr tiers \<Rightarrow>
          onErr (tp_Update p tiers) (\<lambda>e. Return (Inl (''UpdateProfilesToTiers: '' @ e))) (\<lambda>_. push_batches p m parts))"

definition RunOnce ::
  "'d dec_lib \<Rightarrow> 'd tier_calc \<Rightarrow> 'd tier_periodics \<Rightarrow> 'd tiers_data \<Rightarrow> ('d, (string + unit) \<times> 'd tiers_data) prog" where
  "RunOnce D c p tiersData = (case tp_Cause p of Some e \<Rightarrow> Return (Inl e, tiersData) | None \<Rightarrow>
     onErr (tp_GetProfileIds p) (\<lambda>e. Return (Inl (''GetProfilesIdsAfterCreatedAt: '' @ e), tiersData)) (\<lambda>profilesIds.
       if profilesIds = [] then Return (Inr (), tiersData)
       else onErr (Recalculate D c profilesIds tiersData) (\<lambda>e. Return (Inl (''Recalculate: '' @ e), tiersData)) (\<lambda>m.
         orPanic ''slice bounds out of range'' (slices (tp_BatchSize p) profilesIds) (\<lambda>parts.
           andThen (push_batches p m parts) (\<lambda>r. Return (r, m))))))"

section \<open>The job for new profiles\<close>

text \<open>
  \<^verbatim>\<open>profile/periodics/onboard_tier/onboard_tier.go\<close>: the same for the profiles created since the last
  run, whose time is \<open>lastTs\<close>, a nil pointer being \<open>None\<close>. The result is the error, the cursor and
  the tiers.
\<close>

record 'd onboard_periodics =
  ot_Cause         :: "string option"
  ot_BatchSize     :: int
  ot_GetProfileIds :: "int \<Rightarrow> ('d, string + nat list) prog"
  ot_Update        :: "profile_tier list \<Rightarrow> ('d, string + unit) prog"

text \<open>\<^verbatim>\<open>time.Now().UnixMicro()\<close>\<close>

definition unix_micro :: "int \<Rightarrow> int" where
  "unix_micro ns = ns div 1000"

definition Onboard_RunOnce ::
  "'d dec_lib \<Rightarrow> 'd tier_calc \<Rightarrow> 'd onboard_periodics \<Rightarrow> int option \<Rightarrow> 'd tiers_data \<Rightarrow>
   ('d, (string + unit) \<times> int option \<times> 'd tiers_data) prog" where
  "Onboard_RunOnce D c p lastTs tiersData = (case ot_Cause p of Some e \<Rightarrow> Return (Inl e, lastTs, tiersData) | None \<Rightarrow>
     now (\<lambda>ns.
     case lastTs of
       None \<Rightarrow> Return (Inl ''lastTs should be specified: argument is required'', None, tiersData)
     | Some ts \<Rightarrow>
         onErr (ot_GetProfileIds p ts)
           (\<lambda>e. Return (Inl (''GetProfilesIdsAfterCreatedAt: '' @ e), lastTs, tiersData)) (\<lambda>profilesIds.
         if profilesIds = [] then Return (Inr (), lastTs, tiersData)
         else onErr (Recalculate D c profilesIds tiersData)
           (\<lambda>e. Return (Inl (''Recalculate: '' @ e), lastTs, tiersData)) (\<lambda>m.
         orPanic ''slice bounds out of range'' (slices (ot_BatchSize p) profilesIds) (\<lambda>parts.
         andThen (push_batches \<lparr> tp_Cause = None, tp_BatchSize = ot_BatchSize p, tp_GetProfileIds = Return (Inr []),
             tp_Update = ot_Update p \<rparr> m parts) (\<lambda>r.
           Return (r, case r of Inl _ \<Rightarrow> lastTs | Inr _ \<Rightarrow> Some (unix_micro ns), m)))))))"

section \<open>The store\<close>

text \<open>
  \<^verbatim>\<open>profile/tsdb/referrals.go\<close>: the links of a list of profiles are queried in batches. The query is
  a parameter; without profiles it asks for all links.
\<close>

primrec referral_batches ::
  "(nat list \<Rightarrow> ('d, string + referral_link list) prog) \<Rightarrow> nat list list \<Rightarrow> ('d, string + referral_link list) prog" where
  "referral_batches query [] = Return (Inr [])"
| "referral_batches query (part # parts) =
     onErr (query part) (\<lambda>e. Return (Inl (''getReferralsByInvitedProfiles: '' @ e))) (\<lambda>refs.
     onErr (referral_batches query parts) (\<lambda>e. Return (Inl e)) (\<lambda>rest. Return (Inr (refs @ rest))))"

definition store_batchSize :: nat where
  "store_batchSize = 50000"

definition GetReferralsByInvitedProfiles ::
  "(nat list \<Rightarrow> ('d, string + referral_link list) prog) \<Rightarrow> nat list \<Rightarrow> ('d, string + referral_link list) prog" where
  "GetReferralsByInvitedProfiles query invitedIds =
     (if invitedIds = [] then query [] else referral_batches query (batches store_batchSize invitedIds))"

end
