(* ===== verification/Profile_Cache.thy ===== *)
theory Profile_Cache
  imports Profile_Markets Tier_Calc Tick
begin

text \<open>
  The periodic job that recomputes the caches of all profiles from their metas on the markets
  (\<^verbatim>\<open>profile/periodics/cache/cache.go\<close>), the rule that marks a profile for liquidation
  (\<^verbatim>\<open>profile/liquidate.go\<close>) and the cache of trading volumes (\<^verbatim>\<open>profile/volume_cache.go\<close>). The
  services the job is built from are its interfaces; the worker pool is a library.
\<close>

section \<open>Profiles\<close>

record 'd extended_profile =
  xp_Profile :: profile
  xp_Balance :: 'd

record 'd profile_cache_metas =
  cm_Cache :: "'d profile_cache"
  cm_Metas :: "string \<rightharpoonup> 'd profile_meta"

record 'd published_profile =
  ep_Cache      :: "'d profile_cache"
  ep_TierStatus :: "'d tier_status option"

text \<open>\<^verbatim>\<open>decimal.Min\<close> of two decimals\<close>

definition d_min :: "'d dec_lib \<Rightarrow> 'd \<Rightarrow> 'd \<Rightarrow> 'd" where
  "d_min D a b = (if d_lt D b a then b else a)"

section \<open>The cache of a profile\<close>

text \<open>The sums over the metas, in the order the map's iteration visits them\<close>

record 'd meta_sums =
  ms_Balance             :: 'd
  ms_TotalPositionMargin :: 'd
  ms_TotalOrderMargin    :: 'd
  ms_TotalNotional       :: 'd
  ms_CumUnrealizedPnl    :: 'd
  ms_Leverage            :: "string \<rightharpoonup> 'd option"

definition add_meta :: "'d dec_lib \<Rightarrow> 'd profile_meta \<Rightarrow> 'd meta_sums \<Rightarrow> 'd meta_sums" where
  "add_meta D mt s =
     \<lparr> ms_Balance = d_add D (ms_Balance s) (pm_Balance mt),
       ms_TotalPositionMargin = d_add D (ms_TotalPositionMargin s) (pm_TotalPositionMargin mt),
       ms_TotalOrderMargin = d_add D (ms_TotalOrderMargin s) (pm_TotalOrderMargin mt),
       ms_TotalNotional = d_add D (ms_TotalNotional s) (pm_TotalNotional mt),
       ms_CumUnrealizedPnl = d_add D (ms_CumUnrealizedPnl s) (pm_CumUnrealizedPnl mt),
       ms_Leverage = (ms_Leverage s)(pm_MarketID mt \<mapsto> Some (pm_MarketLeverage mt)) \<rparr>"

definition no_metas :: "'d dec_lib \<Rightarrow> string list \<Rightarrow> 'd \<Rightarrow> 'd meta_sums" where
  "no_metas D marketsIds balance =
     \<lparr> ms_Balance = balance, ms_TotalPositionMargin = d_zero D, ms_TotalOrderMargin = d_zero D,
       ms_TotalNotional = d_zero D, ms_CumUnrealizedPnl = d_zero D,
       ms_Leverage = (\<lambda>k. if k \<in> set marketsIds then Some (Some (d_of_int D 1)) else None) \<rparr>"

definition cache_of :: "'d dec_lib \<Rightarrow> 'd extended_profile \<Rightarrow> 'd \<Rightarrow> 'd meta_sums \<Rightarrow> 'd profile_cache" where
  "cache_of D prof volume s =
     (let decimalOne = d_of_int D 1;
          accountEquity = d_add D (ms_Balance s) (ms_CumUnrealizedPnl s);
          withdrawableBalance = d_sub D (d_sub D (d_min D accountEquity (ms_Balance s)) (ms_TotalPositionMargin s))
            (ms_TotalOrderMargin s);
          accountMargin = (if d_cmp D (ms_TotalNotional s) (d_zero D) \<noteq> 0
                           then d_div D accountEquity (ms_TotalNotional s) else decimalOne);
          nonzero = d_cmp D accountMargin (d_zero D) \<noteq> 0;
          accountLeverage = (if nonzero then d_div D decimalOne accountMargin else decimalOne);
          health = (if nonzero \<and> d_lt D (d_zero D) accountMargin then d_min D decimalOne accountMargin else d_zero D)
      in \<lparr> pc_ProfileID = pr_ProfileId (xp_Profile prof),
           pc_ProfileType = Some (pr_Type (xp_Profile prof)),
           pc_Status = Some PROFILE_STATUS_ACTIVE,
           pc_Wallet = Some (pr_Wallet (xp_Profile prof)),
           pc_LastUpdate = Some 0,
           pc_Balance = Some (ms_Balance s),
           pc_AccountEquity = Some accountEquity,
           pc_TotalPositionMargin = Some (ms_TotalPositionMargin s),
           pc_TotalOrderMargin = Some (ms_TotalOrderMargin s),
           pc_TotalNotional = Some (ms_TotalNotional s),
           pc_AccountMargin = Some accountMargin,
           pc_WithdrawableBalance = Some withdrawableBalance,
           pc_CumUnrealizedPnl = Some (ms_CumUnrealizedPnl s),
           pc_Health = Some health,
           pc_AccountLeverage = Some accountLeverage,
           pc_CumTradingVolume = Some volume,
           pc_Leverage = ms_Leverage s,
           pc_LastLiqCheck = Some 0,
           pc_ShardId = '''',
           pc_ArchiveId = 0 \<rparr>)"

text \<open>\<^verbatim>\<open>Periodics.get\<close>: \<open>metas\<close> lists the values of the map in the order of its iteration.\<close>

definition get_cache ::
  "'d dec_lib \<Rightarrow> string list \<Rightarrow> 'd extended_profile \<Rightarrow> 'd \<Rightarrow> 'd profile_meta list \<Rightarrow> 'd profile_cache" where
  "get_cache D marketsIds prof volume metas =
     cache_of D prof volume (fold (add_meta D) metas (no_metas D marketsIds (xp_Balance prof)))"

section \<open>Liquidation\<close>

text \<open>The outer \<open>None\<close> is a nil account margin.\<close>

definition MarginV1_Process :: "'d dec_lib \<Rightarrow> 'd \<Rightarrow> 'd profile_cache \<Rightarrow> (string + 'd profile_cache) option" where
  "MarginV1_Process D forcedMargin pc =
     (case pc_ProfileType pc of
        None \<Rightarrow> Some (Inl ''no profile type'')
      | Some t \<Rightarrow>
          if t = PROFILE_TYPE_INSURANCE then Some (Inr pc)
          else map_option (\<lambda>margin.
                 if d_lt D margin forcedMargin then Inr (pc\<lparr>pc_Status := Some PROFILE_STATUS_LIQUIDATING\<rparr>)
                 else Inr pc) (pc_AccountMargin pc))"

definition MarginV2_Process :: "'d profile_cache \<Rightarrow> (string + 'd profile_cache) option" where
  "MarginV2_Process pc = None"

section \<open>The cache of volumes\<close>

type_synonym 'd volumes = "nat \<rightharpoonup> 'd"

definition Refresh :: "('d, string + (nat \<times> 'd) list) prog \<Rightarrow> 'd volumes \<Rightarrow> ('d, (string + unit) \<times> 'd volumes) prog" where
  "Refresh GetVolumesAggregatesLast30d vols =
     onErr GetVolumesAggregatesLast30d (\<lambda>e. Return (Inl (''GetVolumesAggregatesLast30d: '' @ e), vols))
       (\<lambda>rows. Return (Inr (), keyed fst snd rows))"

definition GetVolume :: "'d dec_lib \<Rightarrow> 'd volumes \<Rightarrow> nat \<Rightarrow> 'd \<times> bool" where
  "GetVolume D vols profileId = (case vols profileId of None \<Rightarrow> (d_zero D, False) | Some v \<Rightarrow> (v, True))"

section \<open>The batches of the job\<close>

text \<open>
  \<^verbatim>\<open>for i, n, size := 0, int(BatchSize), len(profiles); i < size; i += n\<close>, with \<open>n\<close> cut to what is
  left: the slices the loop visits, \<open>None\<close> when it has not ended after \<open>fuel\<close> rounds. A batch size
  of 2^63 and more, negative as an \<^verbatim>\<open>int\<close>, is not modelled.
\<close>

fun batch_loop :: "nat \<Rightarrow> nat \<Rightarrow> nat \<Rightarrow> 'a list \<Rightarrow> 'a list list option" where
  "batch_loop 0 i n xs = None"
| "batch_loop (Suc fuel) i n xs =
     (if i < length xs
      then let n' = (if length xs < i + n then length xs - i else n)
           in map_option ((#) (take n' (drop i xs))) (batch_loop fuel (i + n') n' xs)
      else Some [])"

section \<open>The job\<close>

text \<open>
  \<open>cp_values\<close> is the order in which Go iterates over a map's values, \<open>cp_Group\<close> the pool's
  \<^verbatim>\<open>GroupContext\<close>, \<^verbatim>\<open>Submit\<close> and \<^verbatim>\<open>Wait\<close> for a list of tasks.
\<close>

record 'd cache_periodics =
  cp_Cause          :: "string option"
  cp_BatchSize      :: nat
  cp_MarketsIds     :: "string list"
  cp_UpdatedMeta    :: "markets_last_ts \<Rightarrow> ('d, string + 'd profiles_meta \<times> markets_last_ts) prog"
  cp_Profiles       :: "('d, string + 'd extended_profile option list) prog"
  cp_UpdateCaches   :: "'d profile_cache_metas list \<Rightarrow> ('d, string + unit) prog"
  cp_Publish        :: "'d published_profile list \<Rightarrow> ('d, string + unit) prog"
  cp_Process        :: "'d profile_cache \<Rightarrow> (string + 'd profile_cache) option"
  cp_Volume         :: "nat \<Rightarrow> 'd"
  cp_TierStatus     :: "nat \<Rightarrow> 'd tier_status option"
  cp_values         :: "(string \<rightharpoonup> 'd profile_meta) \<Rightarrow> 'd profile_meta list"
  cp_Group          :: "('d, string + unit) prog list \<Rightarrow> ('d, string + unit) prog"

record 'd cache_state =
  cs_marketsLastTs :: markets_last_ts
  cs_profilesMeta  :: "'d profiles_meta option"

text \<open>The merge with the metas of the previous rounds\<close>

definition merge_metas :: "'d profiles_meta option \<Rightarrow> 'd profiles_meta \<Rightarrow> 'd profiles_meta" where
  "merge_metas old metas =
     (case old of
        None \<Rightarrow> metas
      | Some dest \<Rightarrow>
          (\<lambda>p. case metas p of
                 None \<Rightarrow> dest p
               | Some ms \<Rightarrow> Some ((case dest p of None \<Rightarrow> Map.empty | Some d \<Rightarrow> d) ++ ms)))"

text \<open>The loop over the profiles of a batch: the caches to store and the profiles to publish\<close>

fun batch_caches ::
  "'d dec_lib \<Rightarrow> 'd cache_periodics \<Rightarrow> 'd profiles_meta \<Rightarrow> 'd extended_profile option list \<Rightarrow>
   ('d profile_cache_metas list \<Rightarrow> 'd published_profile list \<Rightarrow> ('d, string + unit) prog) \<Rightarrow> ('d, string + unit) prog" where
  "batch_caches D p metas [] k = k [] []"
| "batch_caches D p metas (x # xs) k =
     deref x (\<lambda>prof.
       let pid = pr_ProfileId (xp_Profile prof);
           ms = (case metas pid of None \<Rightarrow> Map.empty | Some m \<Rightarrow> m)
       in orPanic ''nil pointer dereference''
            (cp_Process p (get_cache D (cp_MarketsIds p) prof (cp_Volume p pid) (cp_values p ms)))
            (\<lambda>r. case r of
               Inl e \<Rightarrow> Return (Inl (''Liquidate.Process: '' @ e))
             | Inr pc \<Rightarrow> batch_caches D p metas xs (\<lambda>cs es.
                 k (\<lparr> cm_Cache = pc, cm_Metas = ms \<rparr> # cs) (\<lparr> ep_Cache = pc, ep_TierStatus = cp_TierStatus p pid \<rparr> # es))))"

definition batch_task ::
  "'d dec_lib \<Rightarrow> 'd cache_periodics \<Rightarrow> 'd profiles_meta \<Rightarrow> 'd extended_profile option list \<Rightarrow> ('d, string + unit) prog" where
  "batch_task D p metas profilesBatch =
     batch_caches D p metas profilesBatch (\<lambda>cs es.
       onErr (if cs \<noteq> [] then cp_UpdateCaches p cs else Return (Inr ()))
         (\<lambda>e. Return (Inl (''UpdateProfilesCachesMetas: '' @ e))) (\<lambda>_.
       onErr (if es \<noteq> [] then cp_Publish p es else Return (Inr ()))
         (\<lambda>e. Return (Inl (''PublishExtendedProfiles: '' @ e))) (\<lambda>_. Return (Inr ()))))"

text \<open>\<^verbatim>\<open>RunOnce\<close>; the result is \<open>None\<close> when the loop over the batches has not ended within \<open>fuel\<close>.\<close>

definition Cache_RunOnce ::
  "nat \<Rightarrow> 'd dec_lib \<Rightarrow> 'd cache_periodics \<Rightarrow> 'd cache_state \<Rightarrow> ('d, ((string + unit) \<times> 'd cache_state) option) prog" where
  "Cache_RunOnce fuel D p s = (case cp_Cause p of Some e \<Rightarrow> Return (Some (Inl e, s)) | None \<Rightarrow>
     onErr (cp_UpdatedMeta p (cs_marketsLastTs s))
       (\<lambda>e. Return (Some (Inl (''GetUpdatedProfilesMeta: '' @ e), s))) (\<lambda>(profilesMeta, marketsLastTs).
     let s1 = s\<lparr>cs_profilesMeta := Some (merge_metas (cs_profilesMeta s) profilesMeta)\<rparr> in
     onErr (cp_Profiles p) (\<lambda>e. Return (Some (Inl (''GetExtendedProfiles: '' @ e), s1))) (\<lambda>profiles.
     case batch_loop fuel 0 (cp_BatchSize p) profiles of
       None \<Rightarrow> Return None
     | Some parts \<Rightarrow>
         andThen (cp_Group p (map (batch_task D p (the (cs_profilesMeta s1))) parts)) (\<lambda>r.
           case r of
             Inl e \<Rightarrow> Return (Some (Inl e, s1))
           | Inr _ \<Rightarrow> Return (Some (Inr (), s1\<lparr>cs_marketsLastTs := marketsLastTs\<rparr>))))))"

end
