(* ===== verification/Profile_Cache_Props.thy ===== *)
theory Profile_Cache_Props
  imports Profile_Cache "HOL-Library.Multiset"
begin

text \<open>
  The caches the job computes: their fields as exact sums over the metas, which do not depend on
  the order of a map's iteration, the profiles marked for liquidation, and the loop over the
  batches, which ends for every batch size but zero.
\<close>

section \<open>The fields of a cache\<close>

text \<open>A cache by the values of its decimals\<close>

definition cache_val :: "('d \<Rightarrow> rat) \<Rightarrow> 'd profile_cache \<Rightarrow> rat profile_cache" where
  "cache_val val pc = \<lparr> pc_ProfileID = pc_ProfileID pc, pc_ProfileType = pc_ProfileType pc, pc_Status = pc_Status pc,
     pc_Wallet = pc_Wallet pc, pc_LastUpdate = pc_LastUpdate pc,
     pc_Balance = map_option val (pc_Balance pc), pc_AccountEquity = map_option val (pc_AccountEquity pc),
     pc_TotalPositionMargin = map_option val (pc_TotalPositionMargin pc),
     pc_TotalOrderMargin = map_option val (pc_TotalOrderMargin pc),
     pc_TotalNotional = map_option val (pc_TotalNotional pc),
     pc_AccountMargin = map_option val (pc_AccountMargin pc),
     pc_WithdrawableBalance = map_option val (pc_WithdrawableBalance pc),
     pc_CumUnrealizedPnl = map_option val (pc_CumUnrealizedPnl pc),
     pc_Health = map_option val (pc_Health pc), pc_AccountLeverage = map_option val (pc_AccountLeverage pc),
     pc_CumTradingVolume = map_option val (pc_CumTradingVolume pc),
     pc_Leverage = (\<lambda>k. map_option (map_option val) (pc_Leverage pc k)),
     pc_LastLiqCheck = pc_LastLiqCheck pc, pc_ShardId = pc_ShardId pc, pc_ArchiveId = pc_ArchiveId pc \<rparr>"

text \<open>
  The same cache in exact arithmetic, from the multiset of the metas: equity is balance and
  unrealized profit, the withdrawable balance the smaller of equity and balance less the margins,
  the margin equity over notional, or one without positions, and the health the margin between
  zero and one. \<open>q\<close> is the quotient the library computes.
\<close>

definition exact_cache ::
  "(rat \<Rightarrow> rat \<Rightarrow> rat) \<Rightarrow> ('d \<Rightarrow> rat) \<Rightarrow> string list \<Rightarrow> 'd extended_profile \<Rightarrow> 'd \<Rightarrow> 'd profile_meta multiset \<Rightarrow> rat profile_cache" where
  "exact_cache q val marketsIds prof volume M =
     (let total = (\<lambda>f. \<Sum>mt\<in>#M. val (f mt));
          balance = val (xp_Balance prof) + total pm_Balance;
          equity = balance + total pm_CumUnrealizedPnl;
          notional = total pm_TotalNotional;
          margin = (if notional = 0 then 1 else q equity notional)
      in \<lparr> pc_ProfileID = pr_ProfileId (xp_Profile prof), pc_ProfileType = Some (pr_Type (xp_Profile prof)),
           pc_Status = Some PROFILE_STATUS_ACTIVE, pc_Wallet = Some (pr_Wallet (xp_Profile prof)), pc_LastUpdate = Some 0,
           pc_Balance = Some balance, pc_AccountEquity = Some equity,
           pc_TotalPositionMargin = Some (total pm_TotalPositionMargin),
           pc_TotalOrderMargin = Some (total pm_TotalOrderMargin),
           pc_TotalNotional = Some notional, pc_AccountMargin = Some margin,
           pc_WithdrawableBalance = Some (min equity balance - total pm_TotalPositionMargin - total pm_TotalOrderMargin),
           pc_CumUnrealizedPnl = Some (total pm_CumUnrealizedPnl),
           pc_Health = Some (max 0 (min 1 margin)),
           pc_AccountLeverage = Some (if margin = 0 then 1 else q 1 margin),
           pc_CumTradingVolume = Some (val volume),
           pc_Leverage = (\<lambda>k.
             if k \<in># image_mset pm_MarketID M
             then Some (Some (\<Sum>mt\<in>#{#mt \<in># M. pm_MarketID mt = k#}. val (pm_MarketLeverage mt)))
             else if k \<in> set marketsIds then Some (Some 1) else None),
           pc_LastLiqCheck = Some 0, pc_ShardId = '''', pc_ArchiveId = 0 \<rparr>)"

lemma fold_add_meta:
  assumes "dec_laws D val"
  shows "val (ms_Balance (fold (add_meta D) ms s)) = val (ms_Balance s) + (\<Sum>mt\<in>#mset ms. val (pm_Balance mt))"
    and "val (ms_TotalPositionMargin (fold (add_meta D) ms s)) =
      val (ms_TotalPositionMargin s) + (\<Sum>mt\<in>#mset ms. val (pm_TotalPositionMargin mt))"
    and "val (ms_TotalOrderMargin (fold (add_meta D) ms s)) =
      val (ms_TotalOrderMargin s) + (\<Sum>mt\<in>#mset ms. val (pm_TotalOrderMargin mt))"
    and "val (ms_TotalNotional (fold (add_meta D) ms s)) =
      val (ms_TotalNotional s) + (\<Sum>mt\<in>#mset ms. val (pm_TotalNotional mt))"
    and "val (ms_CumUnrealizedPnl (fold (add_meta D) ms s)) =
      val (ms_CumUnrealizedPnl s) + (\<Sum>mt\<in>#mset ms. val (pm_CumUnrealizedPnl mt))"
  using assms by (induction ms arbitrary: s) (auto simp: add_meta_def dec_laws_def)

lemma fold_leverage:
  "distinct (map pm_MarketID ms) \<Longrightarrow>
   map_option (map_option val) (ms_Leverage (fold (add_meta D) ms s) k) =
    (if k \<in># image_mset pm_MarketID (mset ms)
     then Some (Some (\<Sum>mt\<in>#{#mt \<in># mset ms. pm_MarketID mt = k#}. val (pm_MarketLeverage mt)))
     else map_option (map_option val) (ms_Leverage s k))"
proof (induction ms arbitrary: s)
  case (Cons m ms)
  have none: "{#mt \<in># mset ms. pm_MarketID mt = pm_MarketID m#} = {#}"
    using Cons.prems by (auto simp: mset_filter [symmetric] filter_empty_conv image_iff simp del: mset_filter)
  have own: "ms_Leverage (add_meta D m s) q = (if q = pm_MarketID m then Some (Some (pm_MarketLeverage m)) else ms_Leverage s q)" for q
    by (simp add: add_meta_def)
  from Cons show ?case
    by (auto simp: own none image_iff)
qed simp

text \<open>The quotient depends on the values of the two decimals only.\<close>

definition div_law :: "'d dec_lib \<Rightarrow> ('d \<Rightarrow> rat) \<Rightarrow> (rat \<Rightarrow> rat \<Rightarrow> rat) \<Rightarrow> bool" where
  "div_law D val q \<longleftrightarrow> (\<forall>a b. val b \<noteq> 0 \<longrightarrow> val (d_div D a b) = q (val a) (val b))"

text \<open>Property C24.
  The cache the job computes for a profile has the exact values: the sums over the profile's metas
  on all markets, equity, withdrawable balance, margin, leverage and health as defined from them.
  In particular it depends on the multiset of the metas only, so the order in which Go iterates
  over the map of the metas does not show, and the health lies between zero and one.
\<close>

theorem cache_is_exact:
  assumes "dec_laws D val" and "div_law D val q" and "distinct (map pm_MarketID metas)"
  shows "cache_val val (get_cache D marketsIds prof volume metas) =
    exact_cache q val marketsIds prof volume (mset metas)"
proof -
  have zero: "val (d_zero D) = 0" and one: "val (d_of_int D 1) = 1"
    using assms(1) by (simp_all add: d_zero_def dec_laws_def)
  have min: "val (d_min D a b) = min (val a) (val b)" for a b
    using dec_laws_cmp [OF assms(1)] by (simp add: d_min_def min_def)
  have ops: "val (d_add D a b) = val a + val b" "val (d_sub D a b) = val a - val b" for a b
    using assms(1) by (simp_all add: dec_laws_def)
  have dv: "val b \<noteq> 0 \<Longrightarrow> val (d_div D a b) = q (val a) (val b)" for a b
    using assms(2) by (simp add: div_law_def)
  define none where "none = no_metas D marketsIds (xp_Balance prof)"
  define s where "s = fold (add_meta D) metas none"
  have none: "val (ms_Balance none) = val (xp_Balance prof)" "val (ms_TotalPositionMargin none) = 0"
    "val (ms_TotalOrderMargin none) = 0" "val (ms_TotalNotional none) = 0" "val (ms_CumUnrealizedPnl none) = 0"
    "map_option (map_option val) (ms_Leverage none k) = (if k \<in> set marketsIds then Some (Some 1) else None)" for k
    by (simp_all add: none_def no_metas_def zero one)
  note sums = fold_add_meta [OF assms(1), of metas none, folded s_def, unfolded none]
    fold_leverage [OF assms(3), of val D none, folded s_def, unfolded none]
  show ?thesis
    unfolding cache_val_def exact_cache_def get_cache_def cache_of_def Let_def none_def [symmetric] s_def [symmetric]
    by (simp add: sums zero one min ops dv dec_laws_cmp [OF assms(1)] if_distrib [of val])
qed

section \<open>Liquidation\<close>

text \<open>Property C25.
  The rule of the job marks exactly the right profiles: with the margin the exact quotient of
  equity and notional over all markets, one when the profile has no notional, a profile's cache
  gets the status \<^verbatim>\<open>liquidating\<close> when its margin is below the forced margin and its type is not
  insurance, keeps the status \<^verbatim>\<open>active\<close> otherwise, and is not changed in any other field; the rule
  neither fails nor panics on a computed cache.
\<close>

theorem liquidation_mark:
  assumes "dec_laws D val" and "div_law D val q"
  shows "let balance = val (xp_Balance prof) + (\<Sum>mt\<in>#mset metas. val (pm_Balance mt));
      equity = balance + (\<Sum>mt\<in>#mset metas. val (pm_CumUnrealizedPnl mt));
      notional = (\<Sum>mt\<in>#mset metas. val (pm_TotalNotional mt));
      margin = (if notional = 0 then 1 else q equity notional);
      pc = get_cache D marketsIds prof volume metas
    in MarginV1_Process D forcedMargin pc = Some (Inr (pc\<lparr>pc_Status :=
         Some (if pr_Type (xp_Profile prof) \<noteq> PROFILE_TYPE_INSURANCE \<and> margin < val forcedMargin
               then PROFILE_STATUS_LIQUIDATING else PROFILE_STATUS_ACTIVE)\<rparr>))"
proof -
  let ?none = "no_metas D marketsIds (xp_Balance prof)"
  define s where "s = fold (add_meta D) metas ?none"
  have zero: "val (d_zero D) = 0" and one: "val (d_of_int D 1) = 1" and add: "val (d_add D a b) = val a + val b" for a b
    using assms(1) by (simp_all add: d_zero_def dec_laws_def)
  have none: "val (ms_Balance ?none) = val (xp_Balance prof)" "val (ms_TotalNotional ?none) = 0"
    "val (ms_CumUnrealizedPnl ?none) = 0"
    by (simp_all add: no_metas_def zero)
  note sums = fold_add_meta(1,4,5) [OF assms(1), of metas ?none, folded s_def, unfolded none]
  have dv: "val b \<noteq> 0 \<Longrightarrow> val (d_div D a b) = q (val a) (val b)" for a b
    using assms(2) by (simp add: div_law_def)
  show ?thesis
    unfolding get_cache_def s_def [symmetric] Let_def
    by (auto simp: MarginV1_Process_def cache_of_def Let_def dec_laws_cmp [OF assms(1)] sums zero one add dv)
qed

text \<open>The task of a batch, for the rule of the service\<close>

definition marked_cache ::
  "'d dec_lib \<Rightarrow> 'd cache_periodics \<Rightarrow> 'd \<Rightarrow> 'd profiles_meta \<Rightarrow> 'd extended_profile \<Rightarrow> 'd profile_cache" where
  "marked_cache D p forced metas prof =
     (let pid = pr_ProfileId (xp_Profile prof);
          pc = get_cache D (cp_MarketsIds p) prof (cp_Volume p pid)
                 (cp_values p (case metas pid of None \<Rightarrow> Map.empty | Some m \<Rightarrow> m))
      in case MarginV1_Process D forced pc of Some (Inr pc') \<Rightarrow> pc' | _ \<Rightarrow> pc)"

lemma process_computed:
  "\<exists>pc'. MarginV1_Process D forced (get_cache D ids prof vol ms) = Some (Inr pc')"
  by (auto simp: MarginV1_Process_def get_cache_def cache_of_def Let_def)

lemma batch_caches_all:
  assumes "cp_Process p = MarginV1_Process D forced"
  shows "batch_caches D p metas (map Some profs) k =
    k (map (\<lambda>prof. \<lparr> cm_Cache = marked_cache D p forced metas prof,
          cm_Metas = (case metas (pr_ProfileId (xp_Profile prof)) of None \<Rightarrow> Map.empty | Some m \<Rightarrow> m) \<rparr>) profs)
      (map (\<lambda>prof. \<lparr> ep_Cache = marked_cache D p forced metas prof,
          ep_TierStatus = cp_TierStatus p (pr_ProfileId (xp_Profile prof)) \<rparr>) profs)"
proof (induction profs arbitrary: k)
  case (Cons prof profs)
  let ?pid = "pr_ProfileId (xp_Profile prof)"
  obtain pc where pc: "MarginV1_Process D forced (get_cache D (cp_MarketsIds p) prof (cp_Volume p ?pid)
      (cp_values p (case metas ?pid of None \<Rightarrow> Map.empty | Some m \<Rightarrow> m))) = Some (Inr pc)"
    by (metis process_computed)
  then have "marked_cache D p forced metas prof = pc"
    by (simp add: marked_cache_def Let_def)
  with pc show ?case
    by (simp add: assms deref_def orPanic_def Let_def Cons.IH)
qed simp

section \<open>The batches\<close>

lemma batch_loop_zero: "i < length xs \<Longrightarrow> batch_loop fuel i 0 xs = None"
  by (induction fuel i "0::nat" xs rule: batch_loop.induct) (auto simp: Let_def)

lemma batch_loop_Suc:
  "i < length xs \<Longrightarrow> batch_loop (Suc f) i n xs =
     (let n' = (if length xs < i + n then length xs - i else n)
      in map_option ((#) (take n' (drop i xs))) (batch_loop f (i + n') n' xs))"
  by simp

lemma batch_loop_ends:
  assumes "0 < n" and "length xs - i < fuel"
  shows "\<exists>parts. batch_loop fuel i n xs = Some parts \<and> concat parts = drop i xs \<and>
    (\<forall>part\<in>set parts. part \<noteq> [] \<and> length part \<le> n)"
  using assms
proof (induction fuel arbitrary: i n)
  case (Suc fuel)
  show ?case
  proof (cases "i < length xs")
    case True
    define n' where "n' = (if length xs < i + n then length xs - i else n)"
    have n': "0 < n'" "i + n' \<le> length xs" "n' \<le> n"
      using Suc.prems True by (auto simp: n'_def)
    moreover from n' Suc.prems True have "length xs - (i + n') < fuel"
      by linarith
    ultimately obtain parts where parts: "batch_loop fuel (i + n') n' xs = Some parts"
      "concat parts = drop (i + n') xs" "\<forall>part\<in>set parts. part \<noteq> [] \<and> length part \<le> n'"
      using Suc.IH by blast
    have "take n' (drop i xs) @ drop (i + n') xs = drop i xs"
      by (metis add.commute append_take_drop_id drop_drop)
    with parts n' True show ?thesis
      unfolding batch_loop_Suc [OF True] n'_def [symmetric] Let_def by auto
  qed simp
qed simp

lemma batch_loop_more:
  "batch_loop fuel i n xs = Some parts \<Longrightarrow> fuel \<le> fuel' \<Longrightarrow> batch_loop fuel' i n xs = Some parts"
proof (induction fuel arbitrary: i n parts fuel')
  case (Suc fuel)
  from Suc.prems(2) obtain f where f: "fuel' = Suc f" "fuel \<le> f"
    by (cases fuel') auto
  show ?case
  proof (cases "i < length xs")
    case True
    define n' where "n' = (if length xs < i + n then length xs - i else n)"
    from Suc.prems(1) obtain rest where "batch_loop fuel (i + n') n' xs = Some rest"
      and parts: "parts = take n' (drop i xs) # rest"
      unfolding batch_loop_Suc [OF True] n'_def [symmetric] Let_def by blast
    from Suc.IH [OF this(1) f(2)] show ?thesis
      unfolding f batch_loop_Suc [OF True] n'_def [symmetric] Let_def by (simp add: parts)
  qed (use Suc.prems f in simp)
qed simp

text \<open>The loop of the cache job over its batches ends, having visited every profile exactly once and
  in order, in batches that are not empty and no longer than the batch size, if the batch size is
  positive; with a batch size of zero, what a configuration without \<^verbatim>\<open>batch_size\<close> gives, and at
  least one profile, it never ends, where the same loop of the tier jobs takes all profiles as one
  batch.
\<close>

theorem batches_end_unless_zero:
  assumes "profiles \<noteq> []"
  shows "(0 < n \<longrightarrow> (\<exists>parts. (\<forall>fuel>length profiles. batch_loop fuel 0 n profiles = Some parts) \<and>
      concat parts = profiles \<and> (\<forall>part\<in>set parts. part \<noteq> [] \<and> length part \<le> n))) \<and>
    (\<forall>fuel. batch_loop fuel 0 0 profiles = None) \<and> slices 0 profiles = Some [profiles]"
proof (intro conjI impI allI)
  assume "0 < n"
  with batch_loop_ends [of n profiles 0 "Suc (length profiles)"] obtain parts where
    parts: "batch_loop (Suc (length profiles)) 0 n profiles = Some parts" "concat parts = profiles"
      "\<forall>part\<in>set parts. part \<noteq> [] \<and> length part \<le> n"
    by auto
  from parts(1) have "batch_loop fuel 0 n profiles = Some parts" if "length profiles < fuel" for fuel
    using batch_loop_more [OF parts(1)] that by (simp only: Suc_le_eq)
  with parts show "\<exists>parts. (\<forall>fuel>length profiles. batch_loop fuel 0 n profiles = Some parts) \<and>
      concat parts = profiles \<and> (\<forall>part\<in>set parts. part \<noteq> [] \<and> length part \<le> n)"
    by blast
next
  show "batch_loop fuel 0 0 profiles = None" for fuel
    using assms by (simp add: batch_loop_zero)
  show "slices 0 profiles = Some [profiles]"
    using assms by (simp add: slices_def batches.simps batch_length_def)
qed

section \<open>Examples\<close>

definition demo_extended :: "rat extended_profile" where
  "demo_extended = \<lparr> xp_Profile = \<lparr> pr_ProfileId = 7, pr_Type = ''trader'', pr_Status = ''active'',
     pr_Wallet = ''0xab'', pr_CreatedAt = 0, pr_ExchangeId = ''rbx'', pr_ShardId = '''', pr_ArchiveId = 0 \<rparr>, xp_Balance = 90 \<rparr>"

definition losing_meta :: "rat profile_meta" where
  "losing_meta = (demo_meta 7 5)\<lparr> pm_CumUnrealizedPnl := -80, pm_TotalNotional := 400 \<rparr>"

lemma rat_div_law: "div_law rat_lib (\<lambda>x. x) (/)"
  by (simp add: div_law_def)

lemma cache_is_exact_witness:
  "cache_val (\<lambda>x. x) (get_cache rat_lib [''BTC-USD''] demo_extended 3 [losing_meta]) =
     exact_cache (/) (\<lambda>x. x) [''BTC-USD''] demo_extended 3 {#losing_meta#}"
  using cache_is_exact [OF rat_lib_laws rat_div_law, of "[losing_meta]"] by simp

lemma liquidation_mark_witness:
  "\<exists>pc. MarginV1_Process rat_lib (1 / 20) (get_cache rat_lib [''BTC-USD''] demo_extended 3 [losing_meta]) = Some (Inr pc) \<and>
     pc_Status pc = Some PROFILE_STATUS_LIQUIDATING"
  using liquidation_mark [OF rat_lib_laws rat_div_law, of demo_extended "[losing_meta]" "[''BTC-USD'']" 3 "1 / 20"]
  by (simp add: demo_extended_def losing_meta_def demo_meta_def Let_def)

lemma batches_end_witness: "batch_loop 5 0 0 [7 :: nat] = None \<and> slices 0 [7 :: nat] = Some [[7]]"
  using batches_end_unless_zero [of "[7 :: nat]" 0] by blast

end
