(* ===== verification/Profile_Clients.thy ===== *)
theory Profile_Clients
  imports Tier_Calc Profile_Markets
begin

text \<open>
  The clients of the profile services (\<^verbatim>\<open>profile/market.go\<close>, \<^verbatim>\<open>profile/profile.go\<close>,
  \<^verbatim>\<open>profile/notify.go\<close>, \<^verbatim>\<open>model/api-pubsub.go\<close>): the calls they make for a market or a batch. The
  retrier and the worker pool are libraries: \<open>backoff\<close> runs a call with its retries and \<open>grp\<close>
  runs a list of tasks and returns the first error.
\<close>

definition as_int_field :: "('d, int) decoder" where
  "as_int_field v = (case v of VInt i \<Rightarrow> Some i | VUint n \<Rightarrow> Some (int n) | VNil \<Rightarrow> Some 0 | _ \<Rightarrow> None)"

text \<open>The fields of a decoded \<^verbatim>\<open>ProfileMeta\<close>\<close>

definition profile_meta_of :: "'d gval list \<Rightarrow> 'd profile_meta option" where
  "profile_meta_of fs =
     (if length fs \<noteq> 12 then None else
     Option.bind (as_uint (fs ! 0)) (\<lambda>p.
     Option.bind (as_string (fs ! 1)) (\<lambda>m.
     Option.bind (as_string (fs ! 2)) (\<lambda>s.
     Option.bind (as_decimal (fs ! 3)) (\<lambda>pnl.
     Option.bind (as_decimal (fs ! 4)) (\<lambda>n.
     Option.bind (as_decimal (fs ! 5)) (\<lambda>pm.
     Option.bind (as_decimal (fs ! 6)) (\<lambda>om.
     Option.bind (as_decimal (fs ! 7)) (\<lambda>im.
     Option.bind (as_decimal (fs ! 8)) (\<lambda>lev.
     Option.bind (as_decimal (fs ! 9)) (\<lambda>b.
     Option.bind (as_decimal (fs ! 10)) (\<lambda>vol.
     Option.bind (as_int_field (fs ! 11)) (\<lambda>ts.
       Some \<lparr> pm_ProfileID = p, pm_MarketID = m, pm_Status = s, pm_CumUnrealizedPnl = pnl, pm_TotalNotional = n,
              pm_TotalPositionMargin = pm, pm_TotalOrderMargin = om, pm_InitialMargin = im,
              pm_MarketLeverage = lev, pm_Balance = b, pm_CumTradingVolume = vol, pm_Timestamp = ts \<rparr>)))))))))))))"

text \<open>The request of a task of \<^verbatim>\<open>GetUpdatedProfilesMeta\<close>\<close>

definition fetch_request ::
  "(('d, string + 'd gval list option list) prog \<Rightarrow> ('d, string + 'd gval list option list) prog) \<Rightarrow>
   cluster \<Rightarrow> markets_last_ts \<Rightarrow> string \<Rightarrow> ('d, string + 'd gval list option list) prog" where
  "fetch_request backoff IC marketsLastTs marketId =
     (let lastTs = last_ts marketsLastTs marketId in
      backoff (onErr (GetProfilesMetaAfterTs IC marketId lastTs)
        (\<lambda>e. Return (Inl (''GetProfilesMetaAfterTs: market-id='' @ marketId @ '', last-ts='' @ show_int lastTs @ '': '' @ e)))
        (\<lambda>ms. Return (Inr ms))))"

definition UpdateProfilesToTiers ::
  "(('d, string + unit) prog \<Rightarrow> ('d, string + unit) prog) \<Rightarrow> (('d, string + unit) prog list \<Rightarrow> ('d, string + unit) prog) \<Rightarrow>
   cluster \<Rightarrow> string list \<Rightarrow> profile_tier list \<Rightarrow> ('d, string + unit) prog" where
  "UpdateProfilesToTiers backoff grp IC marketsIds profilesToTiers =
     grp (map (\<lambda>marketId. backoff (onErr (UpdateMarketProfilesToTiers IC marketId profilesToTiers)
       (\<lambda>e. Return (Inl (''UpdateMarketProfilesToTiers: market-id='' @ marketId @ '': '' @ e)))
       (\<lambda>_. Return (Inr ())))) marketsIds)"

definition client_GetExtendedProfiles ::
  "(('d, string + 'd gval list option list) prog \<Rightarrow> ('d, string + 'd gval list option list) prog) \<Rightarrow>
   nat list \<Rightarrow> ('d, string + 'd gval list option list) prog" where
  "client_GetExtendedProfiles backoff profilesIds = backoff (GetExtendedProfiles profilesIds)"

definition client_UpdateProfilesCachesMetas ::
  "(('d, string + unit) prog \<Rightarrow> ('d, string + unit) prog) \<Rightarrow> 'd gval list \<Rightarrow> ('d, string + unit) prog" where
  "client_UpdateProfilesCachesMetas backoff dat =
     backoff (onErr (UpdateProfilesCachesAndMetas dat)
       (\<lambda>e. Return (Inl (''UpdateProfilesCachesAndMetas: '' @ e))) (\<lambda>_. Return (Inr ())))"

text \<open>A batch of messages by channel, in the order of the map's iteration\<close>

definition PublishBatch :: "(string \<times> byte list) list \<Rightarrow> int \<Rightarrow> int \<Rightarrow> int \<Rightarrow> ('d, string + unit) prog" where
  "PublishBatch batch ttl siz meta_ttl =
     Request_err as_any ''pubsub'' ''publish_data_batch''
       [VList (map (\<lambda>(c, d). VStruct ''entry'' [VString c, VBytes d]) batch), VInt ttl, VInt siz, VInt meta_ttl]"

definition put_message :: "string \<Rightarrow> byte list \<Rightarrow> (string \<times> byte list) list \<Rightarrow> (string \<times> byte list) list" where
  "put_message c d batch = (if c \<in> fst ` set batch then map (\<lambda>e. if fst e = c then (c, d) else e) batch else batch @ [(c, d)])"

text \<open>The messages of \<^verbatim>\<open>PublishExtendedProfiles\<close>; \<open>marshal\<close> is the JSON of a profile wrapped in \<^verbatim>\<open>data\<close>.\<close>

fun account_messages ::
  "('p \<Rightarrow> string + byte list) \<Rightarrow> ('p \<Rightarrow> nat) \<Rightarrow> 'p list \<Rightarrow> (string \<times> byte list) list \<Rightarrow> string + (string \<times> byte list) list" where
  "account_messages marshal pid [] batch = Inr batch"
| "account_messages marshal pid (p # ps) batch =
     (case marshal p of
        Inl e \<Rightarrow> Inl (''Marshal ProfileCache: profile-id='' @ show_nat (pid p) @ '': '' @ e)
      | Inr encoded \<Rightarrow> account_messages marshal pid ps (put_message (''account@'' @ show_nat (pid p)) encoded batch))"

definition PublishExtendedProfiles ::
  "(('d, string + unit) prog \<Rightarrow> ('d, string + unit) prog) \<Rightarrow> ('p \<Rightarrow> string + byte list) \<Rightarrow> ('p \<Rightarrow> nat) \<Rightarrow>
   'p list \<Rightarrow> ('d, string + unit) prog" where
  "PublishExtendedProfiles backoff marshal pid profiles =
     (case account_messages marshal pid profiles [] of
        Inl e \<Rightarrow> Return (Inl e)
      | Inr batch \<Rightarrow> backoff (PublishBatch batch 0 0 0))"

lemma put_message_channels:
  "map fst (put_message c d batch) = (if c \<in> set (map fst batch) then map fst batch else map fst batch @ [c])"
  by (auto simp: put_message_def)

lemma publish_one_message_per_account:
  assumes "account_messages marshal pid ps batch = Inr batch'" and "distinct (map fst batch)"
  shows "distinct (map fst batch') \<and> set (map fst batch') = set (map fst batch) \<union> (\<lambda>p. ''account@'' @ show_nat (pid p)) ` set ps"
  using assms
proof (induction ps arbitrary: batch)
  case (Cons p ps)
  then obtain d where d: "marshal p = Inr d"
    by (auto split: sum.splits)
  let ?c = "''account@'' @ show_nat (pid p)"
  have put: "distinct (map fst (put_message ?c d batch))"
    "set (map fst (put_message ?c d batch)) = insert ?c (set (map fst batch))"
    using Cons.prems(2) unfolding put_message_channels by auto
  with Cons.IH [OF _ put(1)] Cons.prems(1) show ?case
    by (simp add: d)
qed simp

end
