(* ===== verification/Tier_Props.thy ===== *)
theory Tier_Props
  imports Tier_Calc Tick
begin

text \<open>
  What the tiers of \<^verbatim>\<open>Tier_Calc\<close> are: the loop over the sorted tiers finds the greatest tier the
  volume reaches and the least one above it, for the profile of an affiliate no lower than the
  tier replaced, and the batches of the code visit every profile once whatever their size.
\<close>

section \<open>Tiers by volume\<close>

definition reached :: "'d dec_lib \<Rightarrow> 'd \<Rightarrow> 'd tier \<Rightarrow> bool" where
  "reached D volume t \<longleftrightarrow> d_le D (ti_MinVolume t) volume"

text \<open>The order \<^verbatim>\<open>slices.SortFunc\<close> establishes: the same tiers, the greatest volume first.\<close>

definition by_volume :: "('d \<Rightarrow> rat) \<Rightarrow> 'd tier list \<Rightarrow> 'd tier list \<Rightarrow> bool" where
  "by_volume val ts ts' \<longleftrightarrow>
     set ts' = set ts \<and> sorted_wrt (\<lambda>a b. val (ti_MinVolume b) \<le> val (ti_MinVolume a)) ts'"

lemma volume_tier_split:
  assumes "dec_laws D val"
  shows "volume_tier D v ts nxt =
     (case dropWhile (\<lambda>t. \<not> reached D v t) ts of [] \<Rightarrow> None | t # _ \<Rightarrow> Some (dummy t),
      case rev (takeWhile (\<lambda>t. \<not> reached D v t) ts) of [] \<Rightarrow> nxt | t # _ \<Rightarrow> Some (dummy t))"
proof (induction ts arbitrary: nxt)
  case (Cons t ts)
  show ?case
    using Cons dec_laws_cmp [OF assms]
    by (cases "rev (takeWhile (\<lambda>t. \<not> reached D v t) ts)") (auto simp: reached_def)
qed simp

lemma affiliate_loop_split:
  "affiliate_loop D v a ts nxt =
     (let above = takeWhile (\<lambda>t. ti_Tier t \<noteq> at_ReplaceTierId a) ts;
          (found, n) = volume_tier D v above nxt
      in case found of
           Some t \<Rightarrow> (0, dt_Tier t, t, n)
         | None \<Rightarrow>
             (if above = ts then (0, 0, no_dummy D, n)
              else (at_SpecialTierId a, 0, special_dummy D (at_SpecialTierId a), n)))"
proof (induction ts arbitrary: nxt)
  case (Cons t ts)
  show ?case
    using Cons [of "Some (dummy t)"] by (auto simp: Let_def dummy_def split: option.splits prod.splits)
qed simp

definition lowest_above :: "'d dec_lib \<Rightarrow> ('d \<Rightarrow> rat) \<Rightarrow> 'd \<Rightarrow> 'd tier set \<Rightarrow> 'd dummy_tier option \<Rightarrow> bool" where
  "lowest_above D val v ts nxt \<longleftrightarrow>
     (case nxt of
        None \<Rightarrow> \<forall>t\<in>ts. val (ti_MinVolume t) \<le> val v
      | Some n \<Rightarrow> \<exists>t\<in>ts. n = dummy t \<and> val v < val (ti_MinVolume t) \<and>
          (\<forall>u\<in>ts. val v < val (ti_MinVolume u) \<longrightarrow> val (ti_MinVolume t) \<le> val (ti_MinVolume u)))"

definition highest_reached :: "'d dec_lib \<Rightarrow> ('d \<Rightarrow> rat) \<Rightarrow> 'd \<Rightarrow> 'd tier set \<Rightarrow> 'd dummy_tier option \<Rightarrow> bool" where
  "highest_reached D val v ts cur \<longleftrightarrow>
     (case cur of
        None \<Rightarrow> \<forall>t\<in>ts. val v < val (ti_MinVolume t)
      | Some c \<Rightarrow> \<exists>t\<in>ts. c = dummy t \<and> val (ti_MinVolume t) \<le> val v \<and>
          (\<forall>u\<in>ts. val (ti_MinVolume u) \<le> val v \<longrightarrow> val (ti_MinVolume u) \<le> val (ti_MinVolume t)))"

lemma volume_tier_bounds:
  assumes D: "dec_laws D val" and s: "sorted_wrt (\<lambda>a b. val (ti_MinVolume b) \<le> val (ti_MinVolume a)) ts"
    and r: "volume_tier D v ts None = (cur, nxt)"
  shows "highest_reached D val v (set ts) cur \<and> lowest_above D val v (set ts) nxt"
proof -
  let ?below = "\<lambda>t. \<not> reached D v t"
  define hi lo where "hi = takeWhile ?below ts" and "lo = dropWhile ?below ts"
  have re: "reached D v t \<longleftrightarrow> val (ti_MinVolume t) \<le> val v" for t
    using dec_laws_cmp [OF D] by (simp add: reached_def)
  have split: "set ts = set hi \<union> set lo"
    unfolding hi_def lo_def by (metis set_append takeWhile_dropWhile_id)
  have s2: "sorted_wrt (\<lambda>a b. val (ti_MinVolume b) \<le> val (ti_MinVolume a)) (hi @ lo)"
    using s by (simp add: hi_def lo_def)
  have above: "\<forall>t\<in>set hi. val v < val (ti_MinVolume t)"
    using re set_takeWhileD unfolding hi_def by (metis not_le)
  have below: "\<forall>t\<in>set lo. val (ti_MinVolume t) \<le> val v"
  proof (cases lo)
    case (Cons a rest)
    then have "val (ti_MinVolume a) \<le> val v"
      using hd_dropWhile [of ?below ts] re by (auto simp: lo_def)
    moreover have "\<forall>t\<in>set rest. val (ti_MinVolume t) \<le> val (ti_MinVolume a)"
      using s2 Cons by (simp add: sorted_wrt_append)
    ultimately show ?thesis
      using Cons by auto
  next
    case Nil
    show ?thesis
      unfolding Nil by simp
  qed
  from r have cur: "cur = (case lo of [] \<Rightarrow> None | t # _ \<Rightarrow> Some (dummy t))"
    and nxt: "nxt = (case rev hi of [] \<Rightarrow> None | t # _ \<Rightarrow> Some (dummy t))"
    by (auto simp: volume_tier_split [OF D] hi_def lo_def)
  have "highest_reached D val v (set ts) cur"
  proof (cases lo)
    case Nil
    then show ?thesis
      using above split cur Nil by (simp add: highest_reached_def)
  next
    case (Cons a rest)
    have rest: "\<forall>t\<in>set rest. val (ti_MinVolume t) \<le> val (ti_MinVolume a)"
      using s2 Cons by (simp add: sorted_wrt_append)
    have "val (ti_MinVolume u) \<le> val (ti_MinVolume a)" if "u \<in> set ts" "val (ti_MinVolume u) \<le> val v" for u
    proof -
      from that above split have "u \<in> set lo"
        by (metis Un_iff not_le)
      with rest Cons show ?thesis
        by auto
    qed
    moreover have "a \<in> set ts" "val (ti_MinVolume a) \<le> val v"
      using split below Cons by auto
    moreover have "cur = Some (dummy a)"
      using cur Cons by simp
    ultimately show ?thesis
      unfolding highest_reached_def by auto
  qed
  moreover have "lowest_above D val v (set ts) nxt"
  proof (cases "rev hi")
    case Nil
    then show ?thesis
      using below split nxt Nil by (simp add: lowest_above_def)
  next
    case (Cons a rest)
    then have h: "hi = rev rest @ [a]"
      by (metis rev.simps(2) rev_swap)
    have rest: "\<forall>t\<in>set rest. val (ti_MinVolume a) \<le> val (ti_MinVolume t)"
      using s2 unfolding h by (simp add: sorted_wrt_append)
    have "val (ti_MinVolume a) \<le> val (ti_MinVolume u)" if "u \<in> set ts" "val v < val (ti_MinVolume u)" for u
    proof -
      from that below split have "u \<in> set hi"
        by (metis Un_iff not_le)
      then have "u \<in> set (rev rest @ [a])"
        by (simp only: h)
      with rest show ?thesis
        by auto
    qed
    moreover have "a \<in> set hi"
      by (simp only: h) simp
    moreover from this have "a \<in> set ts" "val v < val (ti_MinVolume a)"
      using split above by auto
    moreover have "nxt = Some (dummy a)"
      using nxt Cons by simp
    ultimately show ?thesis
      unfolding lowest_above_def by auto
  qed
  ultimately show ?thesis ..
qed

lemma volume_tier_None: "fst (volume_tier D v ts n) = fst (volume_tier D v ts None)"
  by (induction ts arbitrary: n) (simp, metis fst_conv volume_tier.simps(2))

text \<open>The tiers above the replaced one, in a list sorted by volume\<close>

definition above_tier :: "nat \<Rightarrow> 'd tier list \<Rightarrow> 'd tier list" where
  "above_tier i ts = takeWhile (\<lambda>t. ti_Tier t \<noteq> i) ts"

section \<open>Batches\<close>

lemma concat_batches: "concat (batches n xs) = xs"
  by (induction n xs rule: batches.induct) (subst batches.simps, auto)

lemma fold_batches: "fold (fold f) xss a = fold f (concat xss) a"
  by (induction xss arbitrary: a) simp_all

lemma fold_insert:
  "fold (\<lambda>p m. m(p \<mapsto> f p)) ps m = (\<lambda>p. if p \<in> set ps then Some (f p) else m p)"
  by (induction ps arbitrary: m) auto

lemma fold_parts:
  "fold (fold (\<lambda>p m. m(p \<mapsto> f p))) (batches n ps) m = (\<lambda>p. if p \<in> set ps then Some (f p) else m p)"
  unfolding fold_batches concat_batches by (rule fold_insert)

lemma length_batches:
  "0 < n \<Longrightarrow> b \<in> set (batches n xs) \<Longrightarrow> b \<noteq> [] \<and> length b \<le> n"
proof (induction n xs rule: batches.induct)
  case (1 n xs)
  show ?case
  proof (cases "length xs \<le> n \<or> xs = []")
    case True
    then show ?thesis
      using "1.prems" by (subst (asm) batches.simps) (auto simp: batch_length_def batches.simps [of _ "[]"] split: if_splits)
  next
    case False
    then have "batch_length n xs = n"
      using "1.prems" by (simp add: batch_length_def)
    moreover from this have "batches n xs = take n xs # batches n (drop n xs)"
      using False by (subst batches.simps) simp
    ultimately show ?thesis
      using "1" False by auto
  qed
qed

section \<open>The tier of a profile\<close>

text \<open>A profile that has neither a special tier nor an affiliate with one is given, whatever order
  \<^verbatim>\<open>slices.SortFunc\<close> leaves equal volumes in, the tier of the greatest minimal volume its trading
  volume reaches, and no tier when it reaches none. The next tier reported is the one of the least
  minimal volume above its own, missing only when every tier is reached, and the needed volume is
  the positive difference to it.
\<close>

theorem tier_of_volume:
  assumes "dec_laws D val" and "by_volume val ts ts'"
    and "specTiers p = None" and "Option.bind (referrals p) affiliates = None"
    and "e = tier_entry_of D ts' specTiers referrals affiliates v p"
  shows "\<exists>cur. highest_reached D val v (set ts) cur \<and>
      tst_Current (te_Status e) = (case cur of None \<Rightarrow> no_dummy D | Some t \<Rightarrow> t) \<and>
      te_Tier e = \<lparr> pt_ProfileID = p, pt_SpecialTierID = 0, pt_TierID = (case cur of None \<Rightarrow> 0 | Some t \<Rightarrow> dt_Tier t) \<rparr> \<and>
      lowest_above D val v (set ts) (tst_Next (te_Status e)) \<and>
      (case tst_Next (te_Status e) of
         None \<Rightarrow> tst_NeededVolume (te_Status e) = None
       | Some n \<Rightarrow> \<exists>x. tst_NeededVolume (te_Status e) = Some x \<and> 0 < val x \<and> val v + val x = val (dt_MinVolume n))"
proof -
  obtain cur nxt where r: "volume_tier D v ts' None = (cur, nxt)"
    by fastforce
  have b: "highest_reached D val v (set ts) cur" "lowest_above D val v (set ts) nxt"
    using volume_tier_bounds [OF assms(1) _ r] assms(2) by (auto simp: by_volume_def)
  have e: "e = \<lparr> te_Status = \<lparr> tst_Current = (case cur of None \<Rightarrow> no_dummy D | Some t \<Rightarrow> t), tst_Next = nxt,
        tst_NeededVolume = needed_volume D v nxt \<rparr>,
      te_Tier = \<lparr> pt_ProfileID = p, pt_SpecialTierID = 0,
        pt_TierID = dt_Tier (case cur of None \<Rightarrow> no_dummy D | Some t \<Rightarrow> t) \<rparr> \<rparr>"
    using assms(3-5) r by (simp add: tier_entry_of_def Let_def)
  have n: "\<exists>x. needed_volume D v nxt = Some x \<and> 0 < val x \<and> val v + val x = val (dt_MinVolume n)" if "nxt = Some n" for n
    using b(2) that assms(1) by (auto simp: lowest_above_def needed_volume_def dummy_def dec_laws_def)
  show ?thesis
    using b n by (intro exI [of _ cur]) (auto simp: e no_dummy_def needed_volume_def split: option.split)
qed

lemma affiliate_entry:
  assumes "specTiers p = None" "referrals p = Some q" "affiliates q = Some a"
  shows "tier_entry_of D ts specTiers referrals affiliates v p =
     (let above = above_tier (at_ReplaceTierId a) ts in
      if above = ts \<or> fst (volume_tier D v above None) \<noteq> None
      then tier_entry_of D above specTiers Map.empty affiliates v p
      else let nxt = snd (volume_tier D v above None) in
        \<lparr> te_Status = \<lparr> tst_Current = special_dummy D (at_SpecialTierId a), tst_Next = nxt,
            tst_NeededVolume = needed_volume D v nxt \<rparr>,
          te_Tier = \<lparr> pt_ProfileID = p, pt_SpecialTierID = at_SpecialTierId a, pt_TierID = 0 \<rparr> \<rparr>)"
  using assms
  by (auto simp: tier_entry_of_def affiliate_loop_split above_tier_def Let_def no_dummy_def
      split: option.splits prod.splits)

lemma volume_tier_append:
  "volume_tier D v (xs @ ys) n =
     (case volume_tier D v xs n of (Some t, m) \<Rightarrow> (Some t, m) | (None, m) \<Rightarrow> volume_tier D v ys m)"
  by (induction xs arbitrary: n) auto

lemma volume_tier_above:
  assumes "fst (volume_tier D v (above_tier i ts) None) \<noteq> None"
  shows "volume_tier D v ts None = volume_tier D v (above_tier i ts) None"
proof -
  have "ts = above_tier i ts @ dropWhile (\<lambda>t. ti_Tier t \<noteq> i) ts"
    by (simp add: above_tier_def)
  then have "volume_tier D v ts None =
     (case volume_tier D v (above_tier i ts) None of (Some t, m) \<Rightarrow> (Some t, m)
      | (None, m) \<Rightarrow> volume_tier D v (dropWhile (\<lambda>t. ti_Tier t \<noteq> i) ts) m)"
    by (metis volume_tier_append)
  with assms show ?thesis
    by (auto split: prod.splits option.splits)
qed

text \<open>An affiliate's tier is a floor for the profiles it refers: such a profile gets the affiliate's
  special tier when it reaches no tier above the replaced one, and exactly what it would get
  unreferred when it reaches a tier of a greater volume than the replaced one, or when the
  replaced tier does not exist.
\<close>

theorem affiliate_tier_is_floor:
  assumes D: "dec_laws D val" and s: "by_volume val ts ts'"
    and p: "specTiers p = None" "referrals p = Some q" "affiliates q = Some a"
    and e: "e = tier_entry_of D ts' specTiers referrals affiliates v p"
  shows "((\<forall>t\<in>set ts. ti_Tier t \<noteq> at_ReplaceTierId a) \<longrightarrow>
        e = tier_entry_of D ts' specTiers Map.empty affiliates v p) \<and>
    (\<forall>r\<in>set ts. (\<forall>t\<in>set ts. ti_Tier t = at_ReplaceTierId a \<longleftrightarrow> t = r) \<longrightarrow>
      ((\<exists>t\<in>set ts. val (ti_MinVolume r) < val (ti_MinVolume t) \<and> val (ti_MinVolume t) \<le> val v) \<longrightarrow>
        e = tier_entry_of D ts' specTiers Map.empty affiliates v p) \<and>
      ((\<forall>t\<in>set ts. t \<noteq> r \<longrightarrow> val v < val (ti_MinVolume t) \<or> val (ti_MinVolume t) < val (ti_MinVolume r)) \<longrightarrow>
        te_Tier e = \<lparr> pt_ProfileID = p, pt_SpecialTierID = at_SpecialTierId a, pt_TierID = 0 \<rparr>))"
proof -
  let ?i = "at_ReplaceTierId a" and ?plain = "\<lambda>ts. tier_entry_of D ts specTiers Map.empty affiliates v p"
  let ?above = "above_tier ?i ts'"
  have set: "set ts' = set ts" and sorted: "sorted_wrt (\<lambda>a b. val (ti_MinVolume b) \<le> val (ti_MinVolume a)) ts'"
    using s by (auto simp: by_volume_def)
  have e': "e = (if ?above = ts' \<or> fst (volume_tier D v ?above None) \<noteq> None then ?plain ?above
      else let nxt = snd (volume_tier D v ?above None) in
        \<lparr> te_Status = \<lparr> tst_Current = special_dummy D (at_SpecialTierId a), tst_Next = nxt,
            tst_NeededVolume = needed_volume D v nxt \<rparr>,
          te_Tier = \<lparr> pt_ProfileID = p, pt_SpecialTierID = at_SpecialTierId a, pt_TierID = 0 \<rparr> \<rparr>)"
    unfolding e by (simp only: Let_def
      affiliate_entry [where specTiers = specTiers and referrals = referrals and affiliates = affiliates, OF p])
  have above: "?plain ?above = ?plain ts'" if "fst (volume_tier D v ?above None) \<noteq> None"
    using volume_tier_above [OF that] by (simp add: tier_entry_of_def p(1))
  have sorted_above: "sorted_wrt (\<lambda>a b. val (ti_MinVolume b) \<le> val (ti_MinVolume a)) ?above"
    using sorted unfolding above_tier_def by (metis sorted_wrt_append takeWhile_dropWhile_id)
  have found: "fst (volume_tier D v ?above None) \<noteq> None \<longleftrightarrow> (\<exists>t\<in>set ?above. val (ti_MinVolume t) \<le> val v)"
  proof -
    obtain cur nxt where r: "volume_tier D v ?above None = (cur, nxt)"
      by fastforce
    from volume_tier_bounds [OF D sorted_above r] have "highest_reached D val v (set ?above) cur" ..
    then show ?thesis
      unfolding r by (cases cur) (simp_all add: highest_reached_def not_le, blast)
  qed
  have split: "\<exists>rest. ts' = ?above @ r # rest" if "r \<in> set ts" "\<forall>t\<in>set ts. ti_Tier t = ?i \<longleftrightarrow> t = r" for r
  proof -
    let ?rest = "dropWhile (\<lambda>t. ti_Tier t \<noteq> ?i) ts'"
    have "?rest \<noteq> []"
      using that set by (auto simp: dropWhile_eq_Nil_conv)
    moreover from this have "ti_Tier (hd ?rest) = ?i"
      using hd_dropWhile [of "\<lambda>t. ti_Tier t \<noteq> ?i" ts'] by simp
    moreover from \<open>?rest \<noteq> []\<close> have "hd ?rest \<in> set ts"
      by (metis hd_in_set set_dropWhileD set)
    ultimately have "?rest = r # tl ?rest"
      using that by (metis list.collapse)
    then show ?thesis
      unfolding above_tier_def by (metis takeWhile_dropWhile_id)
  qed
  have below: "\<forall>u\<in>set (r # rest). val (ti_MinVolume u) \<le> val (ti_MinVolume r)"
    if "ts' = xs @ r # rest" for r xs rest
    using sorted unfolding that by (simp add: sorted_wrt_append)
  show ?thesis
  proof (intro conjI impI ballI)
    assume "\<forall>t\<in>set ts. ti_Tier t \<noteq> ?i"
    then have "?above = ts'"
      unfolding above_tier_def using set by (simp add: takeWhile_eq_all_conv)
    then show "e = ?plain ts'"
      using e' by simp
  next
    fix r
    assume r: "r \<in> set ts" "\<forall>t\<in>set ts. ti_Tier t = ?i \<longleftrightarrow> t = r"
    assume "\<exists>t\<in>set ts. val (ti_MinVolume r) < val (ti_MinVolume t) \<and> val (ti_MinVolume t) \<le> val v"
    then obtain t where t: "t \<in> set ts" "val (ti_MinVolume r) < val (ti_MinVolume t)" "val (ti_MinVolume t) \<le> val v"
      by blast
    from split [OF r] obtain rest where sp: "ts' = ?above @ r # rest"
      by blast
    then have "\<forall>u\<in>set (r # rest). val (ti_MinVolume u) \<le> val (ti_MinVolume r)"
      using sorted by (metis below)
    with t set sp have "t \<in> set ?above"
      by (metis Un_iff not_le set_append)
    with t(3) found e' above show "e = ?plain ts'"
      by auto
  next
    fix r
    assume r: "r \<in> set ts" "\<forall>t\<in>set ts. ti_Tier t = ?i \<longleftrightarrow> t = r"
      and far: "\<forall>t\<in>set ts. t \<noteq> r \<longrightarrow> val v < val (ti_MinVolume t) \<or> val (ti_MinVolume t) < val (ti_MinVolume r)"
    from split [OF r] obtain rest where sp: "ts' = ?above @ r # rest"
      by blast
    have "val v < val (ti_MinVolume t)" if "t \<in> set ?above" for t
    proof -
      have "t \<in> set ts" "t \<noteq> r"
        using that sp set r set_takeWhileD [of t "\<lambda>t. ti_Tier t \<noteq> ?i" ts'] by (auto simp: above_tier_def)
      moreover have "val (ti_MinVolume r) \<le> val (ti_MinVolume t)"
        using sorted that by (subst (asm) sp) (auto simp: sorted_wrt_append)
      ultimately show ?thesis
        using far by force
    qed
    then have "fst (volume_tier D v ?above None) = None"
      using found by (metis not_le)
    moreover have "?above \<noteq> ts'"
      using sp by (metis append_self_conv list.distinct(1))
    ultimately show "te_Tier e = \<lparr> pt_ProfileID = p, pt_SpecialTierID = at_SpecialTierId a, pt_TierID = 0 \<rparr>"
      using e' by (simp add: Let_def)
  qed
qed

section \<open>The calculation for a list of profiles\<close>

lemma andThen_assoc: "andThen (andThen p f) g = andThen p (\<lambda>x. andThen (f x) g)"
  by (induction p) auto

text \<open>The reference: fetch the tiers and the links, then set the entry of every profile asked for.\<close>

definition Recalculate_all ::
  "'d dec_lib \<Rightarrow> 'd tier_calc \<Rightarrow> nat list \<Rightarrow> 'd tiers_data \<Rightarrow> ('d, string + 'd tiers_data) prog" where
  "Recalculate_all D c profilesIds tiersData =
     onErr GetTradingTiers (\<lambda>e. Return (Inl (''GetTradingTiers: '' @ e))) (\<lambda>trading.
     onErr (tc_GetReferrals c profilesIds) (\<lambda>e. Return (Inl (''GetReferralsByInvitedProfiles: '' @ e))) (\<lambda>referrals.
     onErr GetProfilesSpecialTiers (\<lambda>e. Return (Inl (''GetProfilesSpecialTiers: '' @ e))) (\<lambda>specTiers.
     onErr (GetAffiliateProfilesTiers profilesIds) (\<lambda>e. Return (Inl (''GetAffiliateProfilesTiers: '' @ e))) (\<lambda>affiliateTiers.
       Return (Inr (\<lambda>p.
         if p \<in> set profilesIds
         then Some (tier_entry_of D (tc_sort c trading) (keyed sp_ProfileId (\<lambda>v. v) specTiers)
                (keyed rl_InvitedId rl_ProfileId referrals) (keyed at_ProfileId (\<lambda>v. v) affiliateTiers)
                (case tc_GetVolume c p of None \<Rightarrow> d_zero D | Some v \<Rightarrow> v) p)
         else tiersData p))))))"

text \<open>Property C26.
  \<^verbatim>\<open>TierCalc.Recalculate\<close> computes what the loop without batches computes, with the same calls,
  errors and results, whatever the batch size, zero included: it replaces the entry of every
  profile it is given and leaves the others. With a negative batch size and a profile it panics
  once the tiers are fetched.
\<close>

theorem recalculate_batches_invisible:
  "Recalculate D c profilesIds m =
     (if 0 \<le> tc_BatchSize c \<or> profilesIds = [] then Recalculate_all D c profilesIds m
      else onErr (Recalculate_all D c profilesIds m) (\<lambda>e. Return (Inl e)) (\<lambda>_. Panic ''slice bounds out of range''))"
proof -
  have onErr_cong: "onErr p h k = onErr p h k'" if "\<And>x. k x = k' x"
    for p :: "('a, string + 'b) prog" and h and k k' :: "'b \<Rightarrow> ('a, 'c) prog"
    using that by (metis ext)
  have assoc: "onErr (onErr p (\<lambda>e. Return (Inl (f e))) k) (\<lambda>e. Return (Inl e)) k' =
      onErr p (\<lambda>e. Return (Inl (f e))) (\<lambda>x. onErr (k x) (\<lambda>e. Return (Inl e)) k')"
    for p :: "('a, string + 'b) prog" and k :: "'b \<Rightarrow> ('a, string + 'c) prog"
      and k' :: "'c \<Rightarrow> ('a, string + 'e) prog" and f
    unfolding onErr_def andThen_assoc by (rule arg_cong [where f = "andThen p"]) (auto split: sum.split)
  show ?thesis
  proof (cases "0 \<le> tc_BatchSize c \<or> profilesIds = []")
    case True
    then have "slices (tc_BatchSize c) profilesIds = Some (batches (nat (tc_BatchSize c)) profilesIds)"
      by (auto simp: slices_def)
    with True show ?thesis
      by (simp add: Recalculate_def Recalculate_all_def orPanic_def Let_def fold_parts)
  next
    case False
    then have "slices (tc_BatchSize c) profilesIds = None"
      by (auto simp: slices_def)
    with False show ?thesis
      by (simp add: Recalculate_def Recalculate_all_def orPanic_def Let_def assoc) (simp add: onErr_def)
  qed
qed

section \<open>The periodic job\<close>

text \<open>The market service as a call, and what the job has passed to it\<close>

definition market_call :: "profile_tier list \<Rightarrow> ('d, string + unit) prog" where
  "market_call ts =
     Call (External ''UpdateProfilesToTiers'' [VList (map profile_tier_val ts)])
       (\<lambda>ans. Return (case a_error ans of None \<Rightarrow> Inr () | Some e \<Rightarrow> Inl e))"

definition passed :: "'d history \<Rightarrow> 'd gval list" where
  "passed h = concat (map (\<lambda>(c, _). case c of External f [VList vs] \<Rightarrow> vs | _ \<Rightarrow> []) (rev h))"

lemma collect_tiers_Inr:
  "collect_tiers m ps = Inr ts \<Longrightarrow>
     (\<forall>q\<in>set ps. GetProfileTier m q \<noteq> None) \<and> ts = map (\<lambda>q. the (GetProfileTier m q)) ps"
  by (induction ps arbitrary: ts) (auto split: option.splits sum.splits)

lemma push_batches_passes:
  assumes "tp_Update p = market_call"
    and "run E (push_batches p m parts) h = (h', Done (Inr ()))"
  shows "\<exists>post. h' = post @ h \<and> (\<forall>q\<in>set (concat parts). GetProfileTier m q \<noteq> None) \<and>
     passed post = map (\<lambda>q. profile_tier_val (the (GetProfileTier m q))) (concat parts)"
  using assms(2)
proof (induction parts arbitrary: h)
  case (Cons part parts)
  then obtain ts where ts: "collect_tiers m part = Inr ts"
    by (cases "collect_tiers m part") auto
  let ?c = "External ''UpdateProfilesToTiers'' [VList (map profile_tier_val ts)]"
  from Cons.prems have "run E (push_batches p m parts) ((?c, E h ?c) # h) = (h', Done (Inr ()))"
    by (simp add: ts assms(1) market_call_def onErr_def split: option.splits)
  from Cons.IH [OF this] obtain post where post: "h' = post @ (?c, E h ?c) # h"
    and "\<forall>q\<in>set (concat parts). GetProfileTier m q \<noteq> None"
    and "passed post = map (\<lambda>q. profile_tier_val (the (GetProfileTier m q))) (concat parts)"
    by blast
  moreover note collect_tiers_Inr [OF ts]
  ultimately show ?case
    by (intro exI [of _ "post @ [(?c, E h ?c)]"]) (auto simp: passed_def)
qed (simp add: passed_def)

lemma run_onErr:
  "run E (onErr p f k) h =
     (case run E p h of
        (h', Done (Inl e)) \<Rightarrow> run E (f e) h' | (h', Done (Inr x)) \<Rightarrow> run E (k x) h' | (h', Panicked s) \<Rightarrow> (h', Panicked s))"
  by (auto simp: onErr_def run_andThen split: prod.split outcome.split sum.split)

lemma run_onErr_Inr:
  "run E (onErr p (\<lambda>e. Return (Inl (f e))) k) h = (h', Done (Inr x)) \<longleftrightarrow>
     (\<exists>h1 y. run E p h = (h1, Done (Inr y)) \<and> run E (k y) h1 = (h', Done (Inr x)))"
  unfolding run_onErr by (auto split: prod.splits outcome.splits sum.splits)

lemma tier_entry_profile: "pt_ProfileID (te_Tier (tier_entry_of D ts sp rf aff v p)) = p"
  by (auto simp: tier_entry_of_def Let_def split: option.split prod.split)

lemma recalculate_sets_entries:
  assumes "run E (Recalculate D c ps m) h = (h', Done (Inr m'))" and "q \<in> set ps"
  shows "\<exists>e. m' q = Some e \<and> pt_ProfileID (te_Tier e) = q"
proof -
  have "0 \<le> tc_BatchSize c \<or> ps = []"
  proof (rule ccontr)
    assume "\<not> ?thesis"
    then have "run E (onErr (Recalculate_all D c ps m) (\<lambda>e. Return (Inl e)) (\<lambda>_. Panic ''slice bounds out of range'')) h =
        (h', Done (Inr m'))"
      using assms(1) by (simp add: recalculate_batches_invisible)
    then show False
      unfolding run_onErr by (auto split: prod.splits outcome.splits sum.splits)
  qed
  then have "run E (Recalculate_all D c ps m) h = (h', Done (Inr m'))"
    using assms(1) by (simp add: recalculate_batches_invisible)
  then show ?thesis
    using assms(2) unfolding Recalculate_all_def run_onErr_Inr by (auto simp: tier_entry_profile)
qed

text \<open>A run of the periodic job that returns without an error has recalculated the tiers of all
  profiles the store lists, and has passed to the market service, in the order of the list and
  over all its batches together, exactly one tier for each of them: the one just calculated, with
  the profile's own id.
\<close>

theorem tiers_pushed_for_every_profile:
  assumes p: "tp_Update p = market_call" "tp_Cause p = None"
    and ids: "run E (tp_GetProfileIds p) h = (h1, Done (Inr ids))" "ids \<noteq> []"
    and run: "run E (RunOnce D c p m) h = (h', Done (Inr (), m'))"
  shows "\<exists>h2 post. run E (Recalculate D c ids m) h1 = (h2, Done (Inr m')) \<and> h' = post @ h2 \<and>
     passed post = map (\<lambda>q. profile_tier_val (te_Tier (the (m' q)))) ids \<and>
     (\<forall>q\<in>set ids. \<exists>e. m' q = Some e \<and> pt_ProfileID (te_Tier e) = q)"
proof -
  obtain h2 parts where rec: "run E (Recalculate D c ids m) h1 = (h2, Done (Inr m'))"
    and parts: "slices (tp_BatchSize p) ids = Some parts"
    and push: "run E (push_batches p m' parts) h2 = (h', Done (Inr ()))"
    using run p ids
    by (auto simp: RunOnce_def run_onErr run_andThen orPanic_def
        split: prod.splits outcome.splits sum.splits option.splits)
  have all: "concat parts = ids"
    using parts by (auto simp: slices_def concat_batches split: if_splits)
  from push_batches_passes [OF p(1) push] obtain post where "h' = post @ h2"
    and "\<forall>q\<in>set ids. GetProfileTier m' q \<noteq> None"
    and "passed post = map (\<lambda>q. profile_tier_val (the (GetProfileTier m' q))) ids"
    unfolding all by blast
  moreover have "map (\<lambda>q. profile_tier_val (the (GetProfileTier m' q))) ids =
      map (\<lambda>q. profile_tier_val (te_Tier (the (m' q)))) ids"
    using recalculate_sets_entries [OF rec] by (fastforce simp: GetProfileTier_def)
  ultimately show ?thesis
    using rec recalculate_sets_entries [OF rec] by auto
qed

section \<open>Examples\<close>

definition bronze :: "rat tier" where
  "bronze = \<lparr> ti_Tier = 1, ti_Title = ''Bronze'', ti_MakerFee = 0, ti_TakerFee = 0, ti_MinVolume = 0, ti_MinAssets = 0 \<rparr>"

definition silver :: "rat tier" where
  "silver = bronze \<lparr> ti_Tier := 2, ti_Title := ''Silver'', ti_MinVolume := 1000 \<rparr>"

definition gold :: "rat tier" where
  "gold = bronze \<lparr> ti_Tier := 3, ti_Title := ''Gold'', ti_MinVolume := 5000 \<rparr>"

lemmas demo_tier_defs = bronze_def silver_def gold_def

lemma tier_of_volume_witness:
  "te_Tier (tier_entry_of rat_lib [gold, silver, bronze] Map.empty Map.empty Map.empty 1500 7) =
      \<lparr> pt_ProfileID = 7, pt_SpecialTierID = 0, pt_TierID = 2 \<rparr> \<and>
    highest_reached rat_lib (\<lambda>x. x) 1500 {bronze, gold, silver} (Some (dummy silver))"
proof -
  let ?e = "tier_entry_of rat_lib [gold, silver, bronze] Map.empty Map.empty Map.empty 1500 7"
  have "by_volume (\<lambda>x. x) [bronze, gold, silver] [gold, silver, bronze]"
    by (auto simp: by_volume_def demo_tier_defs)
  from tier_of_volume [OF rat_lib_laws this, of Map.empty 7 Map.empty Map.empty ?e 1500]
  obtain cur where cur: "highest_reached rat_lib (\<lambda>x. x) 1500 (set [bronze, gold, silver]) cur"
    and "te_Tier ?e = \<lparr> pt_ProfileID = 7, pt_SpecialTierID = 0, pt_TierID = (case cur of None \<Rightarrow> 0 | Some t \<Rightarrow> dt_Tier t) \<rparr>"
    by auto
  moreover have "cur = Some (dummy silver)"
    using cur by (cases cur) (auto simp: highest_reached_def demo_tier_defs dummy_def)
  ultimately show ?thesis
    by (simp add: dummy_def demo_tier_defs)
qed

lemma affiliate_tier_is_floor_witness:
  "te_Tier (tier_entry_of rat_lib [gold, silver, bronze] Map.empty [7 \<mapsto> 4]
      [4 \<mapsto> \<lparr> at_ProfileId = 4, at_SpecialTierId = 9, at_ReplaceTierId = 2 \<rparr>] 10 7) =
    \<lparr> pt_ProfileID = 7, pt_SpecialTierID = 9, pt_TierID = 0 \<rparr>"
proof -
  let ?a = "\<lparr> at_ProfileId = 4, at_SpecialTierId = 9, at_ReplaceTierId = 2 \<rparr>"
  let ?e = "tier_entry_of rat_lib [gold, silver, bronze] Map.empty [7 \<mapsto> 4] [4 \<mapsto> ?a] 10 7"
  have "by_volume (\<lambda>x. x) [bronze, gold, silver] [gold, silver, bronze]"
    by (auto simp: by_volume_def demo_tier_defs)
  from affiliate_tier_is_floor [OF rat_lib_laws this, of Map.empty 7 "[7 \<mapsto> 4]" 4 "[4 \<mapsto> ?a]" ?a ?e 10]
  show ?thesis
    by (auto simp: demo_tier_defs)
qed

definition tier_demo_value :: "string \<Rightarrow> rat gval" where
  "tier_demo_value fn =
     (if fn = ''getters.get_tiers''
      then VList [VStruct ''Tier'' [VUint 1, VString ''Bronze'', VDecimal 0, VDecimal 0, VDecimal 0, VDecimal 0],
                  VStruct ''Tier'' [VUint 2, VString ''Silver'', VDecimal 0, VDecimal 0, VDecimal 1000, VDecimal 0]]
      else VList [])"

definition tier_answer :: "rat reply \<Rightarrow> rat answer" where
  "tier_answer r = \<lparr> a_reply = r, a_time = 0, a_error = None, a_int = Inr 0, a_logs = Inr [],
     a_tx = Inr True, a_flag = False, a_block = 0 \<rparr>"

definition tier_env :: "rat env" where
  "tier_env h c = (case c of Execute i fn ps \<Rightarrow> tier_answer (BRows [(tier_demo_value fn, '''')]) | _ \<Rightarrow> tier_answer (BRows []))"

definition tier_calc_demo :: "rat tier_calc" where
  "tier_calc_demo = \<lparr> tc_BatchSize = 0, tc_GetVolume = [8 \<mapsto> 2500], tc_GetReferrals = (\<lambda>_. Return (Inr [])), tc_sort = rev \<rparr>"

definition tier_job_demo :: "rat tier_periodics" where
  "tier_job_demo = \<lparr> tp_Cause = None, tp_BatchSize = 1, tp_GetProfileIds = Return (Inr [7, 8]), tp_Update = market_call \<rparr>"

lemma tier_demo_batches: "slices 1 [7, 8 :: nat] = Some [[7], [8]]" "slices 0 [7, 8 :: nat] = Some [[7, 8]]"
  by (simp_all add: slices_def batches.simps batch_length_def)

lemma tier_demo_decode:
  "as_tier (VStruct ''Tier'' [VUint i, VString n, VDecimal a, VDecimal b, VDecimal v, VDecimal c]) =
     Some \<lparr> ti_Tier = i, ti_Title = n, ti_MakerFee = a, ti_TakerFee = b, ti_MinVolume = v, ti_MinAssets = c \<rparr>"
  by (simp add: as_tier_def fields_of_def)

lemma tier_demo_run:
  "\<exists>h m. run tier_env (RunOnce rat_lib tier_calc_demo tier_job_demo Map.empty) [] = (h, Done (Inr (), m)) \<and>
     te_Tier (the (m 7)) = \<lparr> pt_ProfileID = 7, pt_SpecialTierID = 0, pt_TierID = 1 \<rparr> \<and>
     te_Tier (the (m 8)) = \<lparr> pt_ProfileID = 8, pt_SpecialTierID = 0, pt_TierID = 2 \<rparr>"
  by (simp add: RunOnce_def tier_job_demo_def tier_calc_demo_def Recalculate_def onErr_def orPanic_def
      GetTradingTiers_def GetProfilesSpecialTiers_def GetAffiliateProfilesTiers_def Request_def decode_reply_def
      tier_env_def tier_answer_def tier_demo_value_def tier_demo_decode tier_demo_batches Let_def keyed_def
      tier_entry_of_def dummy_def GetProfileTier_def market_call_def d_zero_def)

lemma tiers_pushed_witness:
  "\<exists>h2 post m. run tier_env (RunOnce rat_lib tier_calc_demo tier_job_demo Map.empty) [] = (post @ h2, Done (Inr (), m)) \<and>
     passed post = [profile_tier_val \<lparr> pt_ProfileID = 7, pt_SpecialTierID = 0, pt_TierID = 1 \<rparr>,
                    profile_tier_val \<lparr> pt_ProfileID = 8, pt_SpecialTierID = 0, pt_TierID = 2 \<rparr>]"
proof -
  obtain h m where run: "run tier_env (RunOnce rat_lib tier_calc_demo tier_job_demo Map.empty) [] = (h, Done (Inr (), m))"
    and t: "te_Tier (the (m 7)) = \<lparr> pt_ProfileID = 7, pt_SpecialTierID = 0, pt_TierID = 1 \<rparr>"
      "te_Tier (the (m 8)) = \<lparr> pt_ProfileID = 8, pt_SpecialTierID = 0, pt_TierID = 2 \<rparr>"
    using tier_demo_run by blast
  have "run tier_env (tp_GetProfileIds tier_job_demo) [] = ([], Done (Inr [7, 8]))"
    by (simp add: tier_job_demo_def)
  from tiers_pushed_for_every_profile [OF _ _ this _ run] obtain h2 post where "h = post @ h2"
    and "passed post = map (\<lambda>q. profile_tier_val (te_Tier (the (m q)))) [7, 8]"
    by (auto simp: tier_job_demo_def)
  with run t show ?thesis
    by auto
qed

end
