(* ===== verification/Api_Withdraw.thy ===== *)
theory Api_Withdraw
  imports Demo_Env
begin

text \<open>
  What the balance handlers promise, over every environment: the conditions under which the
  profile instance is asked to create a withdrawal, a stake or an unstake, or to settle
  unstakes; that a lock taken by a handler is released when the handler ends, panics included;
  that a handler answers its client once. The handler that stakes from the balance breaks the
  first and the last of these.
\<close>

section \<open>Reading histories\<close>

text \<open>A call was made and its reply satisfied a condition.\<close>

definition answered :: "'d call \<Rightarrow> ('d reply \<Rightarrow> bool) \<Rightarrow> 'd history \<Rightarrow> bool" where
  "answered c ok h \<longleftrightarrow> (\<exists>a. (c, a) \<in> set h \<and> ok (a_reply a))"

lemma answered_simps [simp]:
  "\<not> answered c ok []"
  "answered c ok ((c', a) # h) \<longleftrightarrow> (c = c' \<and> ok (a_reply a)) \<or> answered c ok h"
  by (auto simp: answered_def)

text \<open>The calls of a stored procedure of the profile instance, and the responses sent.\<close>

fun calls_to :: "string \<Rightarrow> 'd history \<Rightarrow> 'd gval list list" where
  "calls_to fn [] = []"
| "calls_to fn ((Execute i f ps, a) # h) =
     (if i = PROFILE_INSTANCE \<and> f = fn then ps # calls_to fn h else calls_to fn h)"
| "calls_to fn (_ # h) = calls_to fn h"

fun responses :: "'d history \<Rightarrow> 'd response list" where
  "responses [] = []"
| "responses ((Respond r, a) # h) = r # responses h"
| "responses (_ # h) = responses h"

text \<open>The only calls of a program are calls satisfying a condition of the history before them.\<close>

lemma wp_call:
  assumes "wp P (\<lambda>_ _. True) p []" and "run E p [] = (h, r)"
    and "h = post @ (c, ans) # pre"
  shows "P pre c"
  using wp_run [OF assms(1,2)] assms(3) by (auto intro: extends_call)

lemma wp_trivial: "wp (\<lambda>_ _. True) (\<lambda>_ _. True) p h"
  by (induction p arbitrary: h) auto

lemmas request_defs =
  InvalidateCache_def InvalidateCacheAndNotify_def CachedIsInv3Valid_def CreateWithdrawal_def
  CheckWithdrawAllowed_def GetProfileByWalletForExchangeId_def CreateStake_def ProcessStake_def
  CreateUnstake_def GetVaultInfo_def ProcessUnstakes_def CancelUnstake_def CancelWithdrawal_def
  ClaimWithdrawal_def CreateDeposit_def InitVault_def ReactivateVault_def ProcessingWithdrawal_def
  GetRequestedUnstakes_def GetClaimWithdrawalResponse_def ignoring_def
  AcquireStakeLock_def ReleaseStakeLock_def AcquireUnstakeLock_def ReleaseUnstakeLock_def
  AcquireWithdrawLock_def ReleaseWithdrawLock_def

lemmas wp_rules = wp_onErr wp_andThen wp_deferring

lemmas handler_defs =
  HandleDeposit_def HandleStake_def HandleStakeFromBalance_def BeginUnstake_def InitVault_handler_def
  ReactivateVault_handler_def ProcessUnstakes_handler_def CancelUnstake_handler_def
  HandleRequestedUnstakesList_def HandleWithdrawal_def ProcessingWithdrawal_handler_def
  CancelWithdrawal_handler_def ClaimWithdrawal_handler_def

section \<open>Withdrawals\<close>

definition withdrawable_balance :: "'d reply \<Rightarrow> 'd \<Rightarrow> bool" where
  "withdrawable_balance r w \<longleftrightarrow>
     (\<exists>cache. decode_reply (as_ptr as_cache) r = Inr (Some cache) \<and> pc_WithdrawableBalance cache = Some w)"

text \<open>
  The conditions of a withdrawal: the profile is active, its lock is held, the profile
  instance allowed a withdrawal and found the exchange invariant valid, and the amount is not
  above a positive withdrawable balance it reported.
\<close>

definition withdrawal_justified ::
  "'d dec_lib \<Rightarrow> profile \<Rightarrow> string \<Rightarrow> 'd history \<Rightarrow> 'd gval list \<Rightarrow> bool" where
  "withdrawal_justified D p eid h ps \<longleftrightarrow>
     pr_Status p = PROFILE_STATUS_ACTIVE \<and>
     withdraw_lock.held (pr_ProfileId p) h \<and>
     answered (profile_call CHECK_WITHDRAW_ALLOWED (pr_ProfileId p))
       (\<lambda>r. is_ok (decode_reply as_any r)) h \<and>
     answered (Execute PROFILE_INSTANCE CACHED_IS_INV3_VALID [VFloat (f64_of_int 0)])
       (\<lambda>r. decode_reply as_bool r = Inr True) h \<and>
     calls_to CREATE_WITHDRAWAL h = [] \<and>
     (\<exists>w amount.
        answered (profile_call INVALIDATE_CACHE (pr_ProfileId p)) (\<lambda>r. withdrawable_balance r w) h \<and>
        \<not> d_le D w (d_of_int D 0) \<and> \<not> d_lt D w amount \<and>
        ps = [VUint (pr_ProfileId p), VString (pr_Wallet p), VDecimal amount, VString eid])"

definition withdrawal_guard :: "'d dec_lib \<Rightarrow> rabbit_context \<Rightarrow> 'd call_cond" where
  "withdrawal_guard D ctx h c \<longleftrightarrow>
     (\<forall>ps. c = Execute PROFILE_INSTANCE CREATE_WITHDRAWAL ps \<longrightarrow>
        (\<exists>p. rc_Profile ctx = Some p \<and> withdrawal_justified D p (rc_ExchangeId ctx) h ps))"

lemma wp_withdraw_locked:
  assumes "rc_Profile ctx = Some p" and "pr_Status p = PROFILE_STATUS_ACTIVE"
    and "withdraw_lock.held (pr_ProfileId p) h" and "calls_to CREATE_WITHDRAWAL h = []"
  shows "wp (withdrawal_guard D ctx) (\<lambda>_ _. True) (withdraw_locked D ctx p x) h"
  unfolding withdraw_locked_def
  using assms
  by (auto simp: request_defs wp_rules withdrawal_guard_def withdrawal_justified_def Let_def
      withdrawable_balance_def split: sum.splits option.splits)

lemma wp_HandleWithdrawal:
  "wp (withdrawal_guard D ctx) (\<lambda>_ _. True) (HandleWithdrawal D ctx body) []"
proof -
  have "wp (withdrawal_guard D ctx) (\<lambda>h r. \<not> withdraw_lock.held (pr_ProfileId p) h \<and> True)
      (with_lock AcquireWithdrawLock ReleaseWithdrawLock (pr_ProfileId p) msg
         (withdraw_locked D ctx p x)) []"
    if "rc_Profile ctx = Some p" "pr_Status p = PROFILE_STATUS_ACTIVE" for p x msg
  proof (rule withdraw_lock.wp_with_lock)
    fix ans :: "'a answer"
    assume "withdraw_lock.granted ans"
    then have "wp (withdrawal_guard D ctx) (\<lambda>_ _. True) (withdraw_locked D ctx p x)
        [(profile_call ACQUIRE_WITHDRAW_LOCK (pr_ProfileId p), ans)]"
      using that by (intro wp_withdraw_locked) auto
    then show "wp (withdrawal_guard D ctx)
        (\<lambda>h' r. withdrawal_guard D ctx h' (profile_call RELEASE_WITHDRAW_LOCK (pr_ProfileId p)) \<and>
           (\<forall>a. True)) (withdraw_locked D ctx p x)
        [(profile_call ACQUIRE_WITHDRAW_LOCK (pr_ProfileId p), ans)]"
      by (rule wp_mono) (simp add: withdrawal_guard_def)
  qed (simp_all add: withdrawal_guard_def)
  then have "wp (withdrawal_guard D ctx) (\<lambda>_ _. True)
      (with_lock AcquireWithdrawLock ReleaseWithdrawLock (pr_ProfileId p) msg
         (withdraw_locked D ctx p x)) []"
    if "rc_Profile ctx = Some p" "pr_Status p = PROFILE_STATUS_ACTIVE" for p x msg
    by (blast intro: wp_mono that)
  then show ?thesis
    by (auto simp: HandleWithdrawal_def withdrawal_guard_def)
qed

text \<open>Property C2. Whatever the environment answers, the handler of a withdrawal asks for its
  creation only for an active profile, while it holds the profile's withdraw lock, after the
  profile instance allowed a withdrawal and reported the exchange invariant as valid, once, and
  for an amount that is not above the positive withdrawable balance the instance reported.\<close>

theorem withdrawal_only_when_justified:
  assumes "run E (HandleWithdrawal D ctx body) [] = (h, r)"
    and "h = post @ (Execute PROFILE_INSTANCE CREATE_WITHDRAWAL ps, ans) # pre"
  shows "\<exists>p. rc_Profile ctx = Some p \<and> withdrawal_justified D p (rc_ExchangeId ctx) pre ps"
  using wp_call [OF wp_HandleWithdrawal assms] by (auto simp: withdrawal_guard_def)

lemma demo_withdrawal_run:
  "run demo_env (HandleWithdrawal rat_lib (demo_context demo_trader) (Inr (Finite False 5))) [] =
   (demo_history
      [profile_call RELEASE_WITHDRAW_LOCK 7, Respond (Success [VNil]),
       profile_call INVALIDATE_CACHE_AND_NOTIFY 7,
       Execute PROFILE_INSTANCE CREATE_WITHDRAWAL
         [VUint 7, VString ''0xab'', VDecimal 5, VString ''rbx''],
       Execute PROFILE_INSTANCE CACHED_IS_INV3_VALID [VFloat (f64_of_int 0)],
       profile_call INVALIDATE_CACHE 7, profile_call CHECK_WITHDRAW_ALLOWED 7,
       profile_call ACQUIRE_WITHDRAW_LOCK 7], Done ())"
  by (simp add: HandleWithdrawal_def withdraw_locked_def request_defs demo_run_defs)

lemma withdrawal_only_when_justified_witness:
  "\<exists>p. rc_Profile (demo_context demo_trader) = Some p \<and>
     withdrawal_justified rat_lib p (rc_ExchangeId (demo_context demo_trader))
       (demo_history
         [Execute PROFILE_INSTANCE CACHED_IS_INV3_VALID [VFloat (f64_of_int 0)],
          profile_call INVALIDATE_CACHE 7, profile_call CHECK_WITHDRAW_ALLOWED 7,
          profile_call ACQUIRE_WITHDRAW_LOCK 7])
       [VUint 7, VString ''0xab'', VDecimal 5, VString ''rbx'']"
  using withdrawal_only_when_justified [OF demo_withdrawal_run, where ?post =
      "demo_history [profile_call RELEASE_WITHDRAW_LOCK 7, Respond (Success [VNil]),
         profile_call INVALIDATE_CACHE_AND_NOTIFY 7]"]
  by simp

section \<open>Locks are released\<close>


text \<open>The handlers of stakes and unstakes release the lock they take in the same way.\<close>

theorem stake_locks_released:
  assumes "rc_Profile ctx = Some p"
  shows "(run E (HandleStake D ctx stake) [] = (h, r) \<longrightarrow> \<not> stake_lock.held (pr_ProfileId p) h) \<and>
         (run E (BeginUnstake D ctx unstake) [] = (h, r) \<longrightarrow> \<not> unstake_lock.held (pr_ProfileId p) h)"
proof -
  have "wp (\<lambda>_ _. True) (\<lambda>h' _. \<not> stake_lock.held (pr_ProfileId p) h') (HandleStake D ctx stake) []"
    using assms stake_lock.with_lock_releases by (auto simp: handler_defs)
  moreover have "wp (\<lambda>_ _. True) (\<lambda>h' _. \<not> unstake_lock.held (pr_ProfileId p) h')
      (BeginUnstake D ctx unstake) []"
    using assms unstake_lock.with_lock_releases by (auto simp: handler_defs)
  ultimately show ?thesis
    using wp_run by blast
qed


lemma demo_stake_run:
  "run demo_env (HandleStake rat_lib (demo_context demo_trader)
       (Inr \<lparr> sr_VaultWallet = ''0xcd'', sr_TxHash = ''0x1'', sr_Amount = Finite False 5 \<rparr>)) [] =
   (demo_history
      [profile_call RELEASE_STAKE_LOCK 7, Respond (Success [VNil]),
       profile_call INVALIDATE_CACHE_AND_NOTIFY 7,
       Execute PROFILE_INSTANCE CREATE_STAKE
         [VUint 7, VString ''0xcd'', VDecimal 5, VString ''0x1'', VString ''rbx'', VUint 1],
       Execute PROFILE_INSTANCE GET_PROFILE_BY_WALLET_FOR_EXCHANGE_ID [VString ''0xcd'', VString ''rbx''],
       profile_call ACQUIRE_STAKE_LOCK 7], Done ())"
  by (simp add: HandleStake_def request_defs demo_run_defs is_vault_def)

lemma stake_locks_released_witness:
  "\<not> stake_lock.held 7
       (fst (run demo_env (HandleStake rat_lib (demo_context demo_trader)
         (Inr \<lparr> sr_VaultWallet = ''0xcd'', sr_TxHash = ''0x1'', sr_Amount = Finite False 5 \<rparr>)) []))"
  using stake_locks_released [of "demo_context demo_trader" demo_trader demo_env rat_lib] demo_stake_run
  by simp

section \<open>One response\<close>

definition answers_once :: "'d history \<Rightarrow> unit outcome \<Rightarrow> bool" where
  "answers_once h r \<longleftrightarrow> length (responses h) = (case r of Done _ \<Rightarrow> 1 | Panicked _ \<Rightarrow> 0)"

lemma answers_once_simps [simp]:
  "answers_once h (Done u) \<longleftrightarrow> length (responses h) = 1"
  "answers_once h (Panicked m) \<longleftrightarrow> responses h = []"
  by (simp_all add: answers_once_def)

lemma wp_deposit_answers_once: "wp (\<lambda>_ _. True) answers_once (HandleDeposit D ctx b) []"
  by (auto simp: handler_defs request_defs wp_rules Let_def split: sum.splits option.splits)

lemma wp_stake_answers_once: "wp (\<lambda>_ _. True) answers_once (HandleStake D ctx b) []"
  by (auto simp: handler_defs with_lock_def request_defs wp_rules Let_def
      split: sum.splits option.splits)

lemma wp_unstake_answers_once: "wp (\<lambda>_ _. True) answers_once (BeginUnstake D ctx b) []"
  by (auto simp: handler_defs with_lock_def request_defs wp_rules Let_def
      split: sum.splits option.splits)

lemma wp_init_answers_once: "wp (\<lambda>_ _. True) answers_once (InitVault_handler D ctx b) []"
  by (auto simp: handler_defs with_lock_def request_defs wp_rules Let_def
      split: sum.splits option.splits)

lemma wp_reactivate_answers_once: "wp (\<lambda>_ _. True) answers_once (ReactivateVault_handler ctx b) []"
  by (auto simp: handler_defs with_lock_def request_defs wp_rules Let_def
      split: sum.splits option.splits)

lemma wp_refreshAll:
  assumes "responses h = []" and "\<And>h. responses h = [] \<Longrightarrow> Q h (Done ())"
  shows "wp (\<lambda>_ _. True) Q (refreshAll ids) h"
  unfolding refreshAll_def
  by (rule wp_forEach [where I = "\<lambda>h. responses h = []"])
    (use assms in \<open>auto simp: ignoring_def InvalidateCacheAndNotify_def wp_andThen\<close>)

lemma wp_process_unstakes_answers_once:
  "wp (\<lambda>_ _. True) answers_once (ProcessUnstakes_handler D ctx b) []"
  by (auto simp: handler_defs with_lock_def request_defs wp_rules Let_def
      intro!: wp_refreshAll split: sum.splits option.splits)

lemma wp_cancel_unstake_answers_once: "wp (\<lambda>_ _. True) answers_once (CancelUnstake_handler ctx b) []"
  by (auto simp: handler_defs with_lock_def request_defs wp_rules Let_def
      split: sum.splits option.splits)

lemma wp_list_answers_once: "wp (\<lambda>_ _. True) answers_once (HandleRequestedUnstakesList ctx) []"
  by (auto simp: handler_defs with_lock_def request_defs wp_rules Let_def is_vault_def
      split: sum.splits option.splits)

lemma wp_withdraw_answers_once: "wp (\<lambda>_ _. True) answers_once (HandleWithdrawal D ctx b) []"
  by (auto simp: handler_defs withdraw_locked_def with_lock_def request_defs wp_rules Let_def
      split: sum.splits option.splits)

lemma wp_processing_answers_once: "wp (\<lambda>_ _. True) answers_once (ProcessingWithdrawal_handler ctx b) []"
  by (auto simp: handler_defs with_lock_def request_defs wp_rules Let_def
      split: sum.splits option.splits)

lemma wp_cancel_answers_once: "wp (\<lambda>_ _. True) answers_once (CancelWithdrawal_handler ctx b) []"
  by (auto simp: handler_defs with_lock_def request_defs wp_rules Let_def
      split: sum.splits option.splits)

lemma wp_claim_answers_once: "wp (\<lambda>_ _. True) answers_once (ClaimWithdrawal_handler D ctx b) []"
  by (auto simp: handler_defs with_lock_def request_defs wp_rules Let_def
      split: sum.splits option.splits prod.splits)


lemmas answers_once_rules =
  wp_deposit_answers_once wp_stake_answers_once wp_unstake_answers_once
  wp_init_answers_once wp_reactivate_answers_once wp_process_unstakes_answers_once
  wp_cancel_unstake_answers_once wp_list_answers_once wp_withdraw_answers_once
  wp_processing_answers_once wp_cancel_answers_once wp_claim_answers_once

text \<open>A balance handler that returns has sent its client exactly one response, and one that
  panics has sent none; the handler that stakes from the balance is not among them.\<close>

theorem handlers_answer_once:
  assumes "q \<in> {HandleDeposit D ctx dep, HandleStake D ctx stake, BeginUnstake D ctx unstake,
              InitVault_handler D ctx vault, ReactivateVault_handler ctx wallet,
              ProcessUnstakes_handler D ctx unstakes, CancelUnstake_handler ctx opid,
              HandleRequestedUnstakesList ctx, HandleWithdrawal D ctx amount,
              ProcessingWithdrawal_handler ctx pending, CancelWithdrawal_handler ctx opid,
              ClaimWithdrawal_handler D ctx opid}"
    and "run E q [] = (h, r)"
  shows "answers_once h r"
proof -
  have "wp (\<lambda>_ _. True) answers_once q []"
    using assms(1) by (elim insertE emptyE) (simp_all only: answers_once_rules)
  then show ?thesis
    using wp_run assms(2) by blast
qed

lemma handlers_answer_once_witness:
  "answers_once
     (fst (run demo_env (HandleWithdrawal rat_lib (demo_context demo_trader) (Inr (Finite False 5))) []))
     (Done ())"
  using handlers_answer_once [OF _ demo_withdrawal_run] by (simp add: demo_withdrawal_run)

section \<open>Stakes and vaults\<close>

text \<open>The profile instance reported a profile for a wallet.\<close>

definition reported_profile :: "string \<Rightarrow> string \<Rightarrow> profile \<Rightarrow> 'd history \<Rightarrow> bool" where
  "reported_profile wallet eid v h \<longleftrightarrow>
     answered (Execute PROFILE_INSTANCE GET_PROFILE_BY_WALLET_FOR_EXCHANGE_ID [VString wallet, VString eid])
       (\<lambda>r. decode_reply (as_ptr as_profile) r = Inr (Some v)) h"

definition stake_justified ::
  "profile \<Rightarrow> string \<Rightarrow> 'd history \<Rightarrow> 'd gval list \<Rightarrow> bool" where
  "stake_justified p eid h ps \<longleftrightarrow>
     pr_Type p \<noteq> PROFILE_TYPE_VAULT \<and> stake_lock.held (pr_ProfileId p) h \<and>
     calls_to CREATE_STAKE h = [] \<and>
     (\<exists>wallet v rest. ps = VUint (pr_ProfileId p) # VString wallet # rest \<and>
        reported_profile wallet eid v h \<and> pr_Type v = PROFILE_TYPE_VAULT)"

definition stake_guard :: "rabbit_context \<Rightarrow> 'd call_cond" where
  "stake_guard ctx h c \<longleftrightarrow>
     (\<forall>ps. c = Execute PROFILE_INSTANCE CREATE_STAKE ps \<longrightarrow>
        (\<exists>p. rc_Profile ctx = Some p \<and> stake_justified p (rc_ExchangeId ctx) h ps))"

lemma wp_HandleStake: "wp (stake_guard ctx) (\<lambda>_ _. True) (HandleStake D ctx body) []"
  by (auto simp: handler_defs with_lock_def request_defs wp_rules Let_def stake_guard_def
      stake_justified_def reported_profile_def is_vault_def split: sum.splits option.splits)

text \<open>The profile instance is asked to create a stake only for a staker that is not itself a
  vault, while the staker's stake lock is held, once, and towards a wallet whose profile the
  instance reported to be a vault.\<close>

theorem stake_only_into_vaults:
  assumes "run E (HandleStake D ctx body) [] = (h, r)"
    and "h = post @ (Execute PROFILE_INSTANCE CREATE_STAKE ps, ans) # pre"
  shows "\<exists>p. rc_Profile ctx = Some p \<and> stake_justified p (rc_ExchangeId ctx) pre ps"
  using wp_call [OF wp_HandleStake assms] by (auto simp: stake_guard_def)

lemma stake_only_into_vaults_witness:
  "\<exists>p. rc_Profile (demo_context demo_trader) = Some p \<and>
     stake_justified p (rc_ExchangeId (demo_context demo_trader))
       (demo_history
         [Execute PROFILE_INSTANCE GET_PROFILE_BY_WALLET_FOR_EXCHANGE_ID [VString ''0xcd'', VString ''rbx''],
          profile_call ACQUIRE_STAKE_LOCK 7])
       [VUint 7, VString ''0xcd'', VDecimal 5, VString ''0x1'', VString ''rbx'', VUint 1]"
  using stake_only_into_vaults [OF demo_stake_run, where ?post =
      "demo_history [profile_call RELEASE_STAKE_LOCK 7, Respond (Success [VNil]),
         profile_call INVALIDATE_CACHE_AND_NOTIFY 7]"]
  by simp

definition unstakes_justified ::
  "'d dec_lib \<Rightarrow> profile \<Rightarrow> string \<Rightarrow> 'd history \<Rightarrow> 'd gval list \<Rightarrow> bool" where
  "unstakes_justified D p eid h ps \<longleftrightarrow>
     withdraw_lock.held (pr_ProfileId p) h \<and>
     (\<exists>wallet v. reported_profile wallet eid v h \<and> pr_Type v = PROFILE_TYPE_VAULT \<and>
        pr_ProfileId v = pr_ProfileId p) \<and>
     (\<exists>info from0 to0 nav balance shares.
        answered (profile_call GET_VAULT_INFO (pr_ProfileId p))
          (\<lambda>r. decode_reply (as_ptr as_vault) r = Inr (Some info)) h \<and>
        vi_Status info = ''active'' \<and>
        d_lt D (vi_PerformanceFee info) (d_of_int D 1) \<and>
        \<not> d_lt D (vi_PerformanceFee info) (d_of_int D 0) \<and>
        ps = [VUint (pr_ProfileId p), from0, to0, nav, balance, VDecimal (vi_PerformanceFee info),
              VUint (vi_TreasurerProfileId info), shares, VString eid])"

definition unstakes_guard :: "'d dec_lib \<Rightarrow> rabbit_context \<Rightarrow> 'd call_cond" where
  "unstakes_guard D ctx h c \<longleftrightarrow>
     (\<forall>ps. c = Execute PROFILE_INSTANCE PROCESS_UNSTAKES ps \<longrightarrow>
        (\<exists>p. rc_Profile ctx = Some p \<and> unstakes_justified D p (rc_ExchangeId ctx) h ps))"

lemma wp_guarded_refreshAll_then:
  "(\<And>h. Q h (Done ())) \<Longrightarrow> wp (unstakes_guard D ctx) Q (refreshAll ids) h"
  unfolding refreshAll_def
  by (rule wp_forEach [where I = "\<lambda>_. True"])
    (auto simp: ignoring_def InvalidateCacheAndNotify_def wp_andThen unstakes_guard_def)

lemma wp_ProcessUnstakes:
  "wp (unstakes_guard D ctx) (\<lambda>_ _. True) (ProcessUnstakes_handler D ctx body) []"
proof -
  have other: "unstakes_guard D ctx h c"
    if "\<And>ps. c \<noteq> Execute PROFILE_INSTANCE PROCESS_UNSTAKES ps" for h c
    using that by (auto simp: unstakes_guard_def)
  show ?thesis
    by (auto simp: handler_defs with_lock_def request_defs wp_rules Let_def is_vault_def other
        unstakes_justified_def reported_profile_def not_le
        intro!: wp_guarded_refreshAll_then split: sum.splits option.splits)
      (auto simp: unstakes_guard_def unstakes_justified_def reported_profile_def)
qed

text \<open>Property C4. Unstakes of a vault are settled only at the vault's own request, under its withdraw
  lock, while the instance reports it active with a performance fee of at least 0 and below 1,
  and that fee and the treasurer reported with it are the ones sent.\<close>

theorem unstakes_only_when_justified:
  assumes "run E (ProcessUnstakes_handler D ctx body) [] = (h, r)"
    and "h = post @ (Execute PROFILE_INSTANCE PROCESS_UNSTAKES ps, ans) # pre"
  shows "\<exists>p. rc_Profile ctx = Some p \<and> unstakes_justified D p (rc_ExchangeId ctx) pre ps"
  using wp_call [OF wp_ProcessUnstakes assms] by (auto simp: unstakes_guard_def)

lemma demo_unstakes_run:
  "run demo_env (ProcessUnstakes_handler rat_lib (demo_context demo_vault)
       (Inr \<lparr> pu_VaultWallet = ''0xcd'', pu_FromId = 0, pu_ToId = 5 \<rparr>)) [] =
   (demo_history
      [profile_call RELEASE_WITHDRAW_LOCK 9, Respond (Success [VString '''']),
       profile_call INVALIDATE_CACHE_AND_NOTIFY 9,
       Execute PROFILE_INSTANCE PROCESS_UNSTAKES
         [VUint 9, VUint 0, VUint 5, VDecimal 100, VDecimal 40, VDecimal (1 / 10), VUint 7,
          VDecimal 1000, VString ''rbx''],
       profile_call INVALIDATE_CACHE 9, profile_call GET_VAULT_INFO 9,
       profile_call ACQUIRE_WITHDRAW_LOCK 9,
       Execute PROFILE_INSTANCE GET_PROFILE_BY_WALLET_FOR_EXCHANGE_ID [VString ''0xcd'', VString ''rbx'']],
    Done ())"
  by (simp add: ProcessUnstakes_handler_def request_defs demo_run_defs is_vault_def refreshAll_def)

lemma unstakes_only_when_justified_witness:
  "\<exists>p. rc_Profile (demo_context demo_vault) = Some p \<and>
     unstakes_justified rat_lib p (rc_ExchangeId (demo_context demo_vault))
       (demo_history
         [profile_call INVALIDATE_CACHE 9, profile_call GET_VAULT_INFO 9,
          profile_call ACQUIRE_WITHDRAW_LOCK 9,
          Execute PROFILE_INSTANCE GET_PROFILE_BY_WALLET_FOR_EXCHANGE_ID [VString ''0xcd'', VString ''rbx'']])
       [VUint 9, VUint 0, VUint 5, VDecimal 100, VDecimal 40, VDecimal (1 / 10), VUint 7,
          VDecimal 1000, VString ''rbx'']"
  using unstakes_only_when_justified [OF demo_unstakes_run, where ?post =
      "demo_history [profile_call RELEASE_WITHDRAW_LOCK 9, Respond (Success [VString '''']),
         profile_call INVALIDATE_CACHE_AND_NOTIFY 9]"]
  by simp

section \<open>Staking from the balance\<close>

text \<open>
  The handler answers that the funds do not suffice but goes on: the amount of a stake can be
  above the withdrawable balance, and the client gets two responses.
\<close>

text \<open>When the profile instance reports the amount of a stake from the balance as above the
  withdrawable balance, and answers all other calls with success, the handler still asks it to
  process a stake of that amount and answers twice, first the error and then success.\<close>

theorem stake_from_balance_ignores_funds:
  "run demo_env (HandleStakeFromBalance rat_lib (demo_context demo_trader)
       (Inr \<lparr> sr_VaultWallet = ''0xcd'', sr_TxHash = ''0x1'', sr_Amount = Finite False 50 \<rparr>)) [] =
   (demo_history
      [profile_call RELEASE_WITHDRAW_LOCK 7, Respond (Success [VNil]),
       profile_call INVALIDATE_CACHE_AND_NOTIFY 7,
       Execute PROFILE_INSTANCE PROCESS_STAKE
         [VUint 7, VUint 9, VString ''0xcd'', VString '''', VDecimal 50, VDecimal 100, VString '''',
          VBool True, VString ''rbx''],
       profile_call INVALIDATE_CACHE 9,
       Execute PROFILE_INSTANCE GET_PROFILE_BY_WALLET_FOR_EXCHANGE_ID [VString ''0xcd'', VString ''rbx''],
       Respond (Failure ''NOT_ENOUGH_FUNDS''),
       profile_call INVALIDATE_CACHE 7, profile_call ACQUIRE_WITHDRAW_LOCK 7], Done ()) \<and>
   d_lt rat_lib 40 50 \<and> pc_WithdrawableBalance demo_cache = Some 40"
  by (simp add: HandleStakeFromBalance_def request_defs demo_run_defs is_vault_def)

section \<open>Claims\<close>

text \<open>What the signer is asked to sign for a claim, and what the client gets\<close>

definition claim_of ::
  "'d dec_lib \<Rightarrow> string \<Rightarrow> 'd balance_ops \<Rightarrow> (int \<times> string \<times> int) option" where
  "claim_of D eid w =
     (case (parse_int (drop 2 (bo_OpsId w)), eidToDecimals D eid) of
        (Some i, Some dcm) \<Rightarrow> Some (i, bo_Wallet w, d_big_int D (d_round D 0 (d_mul D (bo_Amount w) dcm)))
      | _ \<Rightarrow> None)"

text \<open>Property C5. A successful claim returns exactly the withdrawal the profile instance answered, with the
  signature the signer gave for its numeric id, its wallet and its amount in token units of the
  exchange, and prints that same amount.\<close>

theorem claim_signs_the_withdrawal:
  assumes "run E (GetClaimWithdrawalResponse D pid sign opid eid) [] = (h, Done (Inr resp))"
  shows "\<exists>ans i amount r s v. let w = wr_Withdrawal resp in
    h = [(Execute PROFILE_INSTANCE CLAIM_WITHDRAWAL [VUint pid, VString opid], ans)] \<and>
    decode_reply (as_ptr as_ops) (a_reply ans) = Inr (Some w) \<and>
    claim_of D eid w = Some (i, bo_Wallet w, amount) \<and>
    sign i (bo_Wallet w) amount = Inr (r, s, v) \<and>
    resp = \<lparr> wr_Withdrawal = w, wr_BnAmount = show_int amount, wr_R = ''0x'' @ r, wr_S = ''0x'' @ s,
             wr_V = v \<rparr>"
  using assms
  by (auto simp: request_defs Request_def onErr_def orPanic_def StripPrefix_def claim_of_def Let_def
      split: sum.splits option.splits prod.splits if_splits)

lemma demo_claim_run:
  "run demo_env (GetClaimWithdrawalResponse rat_lib 7 (\<lambda>_ _ _. Inr (''1'', ''2'', 27)) ''w_12'' ''rbx'') [] =
   (demo_history [Execute PROFILE_INSTANCE CLAIM_WITHDRAWAL [VUint 7, VString ''w_12'']],
    Done (Inr \<lparr> wr_Withdrawal = demo_withdrawal, wr_BnAmount = ''2500000'', wr_R = ''0x1'',
      wr_S = ''0x2'', wr_V = 27 \<rparr>))"
  by (simp add: request_defs demo_run_defs StripPrefix_def parse_nat_def digit_value_def
      eidToDecimals_def validateDecimals_def decimals6_def decimals18_def show_int_def
      show_nat.simps round_half_away_def truncated_def)

lemma claim_signs_the_withdrawal_witness:
  "\<exists>i amount. claim_of rat_lib ''rbx'' demo_withdrawal = Some (i, ''0xab'', amount) \<and>
     show_int amount = ''2500000''"
  using claim_signs_the_withdrawal [OF demo_claim_run] by (auto simp: Let_def)

text \<open>When the profile instance has no such withdrawal and answers nil without an error, the
  claim panics: the code formats the nil error.\<close>

theorem claim_of_missing_withdrawal_panics:
  assumes "decode_reply (as_ptr as_ops) (a_reply (E [] (Execute PROFILE_INSTANCE CLAIM_WITHDRAWAL [VUint pid, VString opid]))) = Inr None"
  shows "snd (run E (GetClaimWithdrawalResponse D pid sign opid eid) []) = Panicked ''nil pointer dereference''"
  using assms by (simp add: request_defs Request_def onErr_def)

lemma claim_of_missing_withdrawal_panics_witness:
  "snd (run (\<lambda>_ _. answer_with (BRows [(VNil, '''')]))
         (GetClaimWithdrawalResponse rat_lib 7 (\<lambda>_ _ _. Inl ''no key'') ''w_12'' ''rbx'') []) =
   Panicked ''nil pointer dereference''"
  by (rule claim_of_missing_withdrawal_panics) (simp add: decode_reply_def)

end
