(* ===== verification/Settlement.thy ===== *)
theory Settlement
  imports Eth_Handler
begin

text \<open>
  The event handlers, the scans over the blocks and the settlement service
  (\<^verbatim>\<open>settlement/ethereum_handler.go\<close>, \<^verbatim>\<open>settlement/settlement_service.go\<close>). A scan repeats until it
  has caught up with the confirmed blocks; the number of rounds is bounded by a fuel argument
  and the result \<open>None\<close> says that it ran out.
\<close>

section \<open>Event handlers\<close>

definition uint64_of_hash :: "256 word \<Rightarrow> nat" where
  "uint64_of_hash w = unat (take_bit 64 w)"

definition walletOf :: "eth_lib \<Rightarrow> 256 word \<Rightarrow> string" where
  "walletOf L t = GetWalletStringInRabbitTntStandardFormat (el_address L (el_to_address L (el_hash L t)))"

text \<open>The part of \<^verbatim>\<open>depositHandler\<close> after the pool has been read\<close>

definition deposit_to_profile ::
  "'d dec_lib \<Rightarrow> eth_lib \<Rightarrow> eth_handler \<Rightarrow> eth_log \<Rightarrow> abi_value list \<Rightarrow> 256 word \<Rightarrow> 256 word \<Rightarrow>
   bool \<Rightarrow> ('d, acc \<times> bool) prog" where
  "deposit_to_profile D L eh vLog values t1 t2 isPooledDeposit =
     (let walletAddr = el_to_address L (el_hash L t2);
          isFromDepositPool = (log_Address vLog = eh_deposit_address eh)
      in if walletAddr = eh_deposit_address eh \<and> \<not> isFromDepositPool then Return (None, True)
         else
           let wallet = walletOf L t2 in
           first_int values (\<lambda>v.
           let amount = TokenDecimalsToTDecimal D v (eh_decimals eh) in
           if d_le D amount (d_zero D) then Return (None, True)
           else
             andThen (GetProfileByWalletForExchangeId wallet (eh_exchangeId eh)) (\<lambda>r.
             let deposit = \<lparr> dep_Id = ''d_'' @ show_nat (uint64_of_hash t1), dep_Wallet = wallet,
                   dep_Amount = Some amount, dep_Tx = el_hash L (log_TxHash vLog),
                   dep_ExchangeId = eh_exchangeId eh, dep_ChainId = eh_chainId eh,
                   dep_ExchangeAddress = exchange_text L eh \<rparr>
             in case r of
                  Inr (Some profile) \<Rightarrow>
                    andThen (ignoring (ProcessDeposit (pr_ProfileId profile) deposit isPooledDeposit)) (\<lambda>_.
                    andThen (ignoring (InvalidateCacheAndNotify (pr_ProfileId profile))) (\<lambda>_.
                    Return (None, True)))
                | Inr None \<Rightarrow> Panic ''nil pointer dereference''    \<comment> \<open>\<^verbatim>\<open>err.Error()\<close> with a nil \<^verbatim>\<open>err\<close>\<close>
                | Inl e \<Rightarrow>
                    if e = PROFILE_NOT_FOUND
                    then andThen (ignoring (ProcessDepositUnknown deposit)) (\<lambda>_. Return (None, True))
                    else Return (None, True))))"

definition depositHandler ::
  "'d dec_lib \<Rightarrow> eth_lib \<Rightarrow> eth_handler \<Rightarrow> 'd event_handler" where
  "depositHandler D L eh vLog values accumulator =
     topic vLog 1 (\<lambda>t1.
     topic vLog 2 (\<lambda>t2.
     if log_Address vLog = eh_deposit_address eh
     then topic vLog 3 (\<lambda>t3. deposit_to_profile D L eh vLog values t1 t2 (t3 \<noteq> 0))
     else deposit_to_profile D L eh vLog values t1 t2 False))"

definition stakeHandler ::
  "'d dec_lib \<Rightarrow> eth_lib \<Rightarrow> eth_handler \<Rightarrow> 'd event_handler" where
  "stakeHandler D L eh vLog values accumulator =
     (let vaultWallet = GetWalletStringInRabbitTntStandardFormat (el_address L (log_Address vLog)) in
      topic vLog 1 (\<lambda>t1.
      topic vLog 2 (\<lambda>t2.
      let stakerWallet = walletOf L t2 in
      first_int values (\<lambda>v.
      let amount = TokenDecimalsToTDecimal D v (eh_decimals eh) in
      if d_le D amount (d_zero D) then Return (None, True)
      else
        onErr (GetProfileByWalletForExchangeId vaultWallet (eh_exchangeId eh))
          (\<lambda>_. Return (None, True)) (\<lambda>vaultProfile.
        case vaultProfile of
          None \<Rightarrow> Return (None, True)
        | Some vault \<Rightarrow>
            if pr_Type vault \<noteq> PROFILE_TYPE_VAULT then Return (None, True)
            else
              onErr (GetProfileByWalletForExchangeId stakerWallet (eh_exchangeId eh))
                (\<lambda>_. Return (None, True)) (\<lambda>stakerProfile.
              case stakerProfile of
                None \<Rightarrow> Return (None, True)
              | Some staker \<Rightarrow>
                  onErr (InvalidateCache (pr_ProfileId vault)) (\<lambda>_. Return (None, True)) (\<lambda>cache.
                  deref cache (\<lambda>vaultCache.
                  let stake = \<lparr> stk_Id = ''s_'' @ show_nat (uint64_of_hash t1),
                        stk_VaultProfileId = pr_ProfileId vault, stk_VaultWallet = vaultWallet,
                        stk_Amount = Some amount, stk_CurrentNav = pc_AccountEquity vaultCache,
                        stk_Tx = el_hash L (log_TxHash vLog) \<rparr> in
                  andThen (ignoring (ProcessStake (pr_ProfileId staker) stake False (eh_exchangeId eh))) (\<lambda>_.
                  andThen (ignoring (InvalidateCacheAndNotify (pr_ProfileId staker))) (\<lambda>_.
                  andThen (ignoring (InvalidateCacheAndNotify (pr_ProfileId vault))) (\<lambda>_.
                  Return (None, True))))))))))))"

text \<open>\<^verbatim>\<open>big.Int.Bytes\<close>: big endian, without leading zeros; a hash is 32 bytes.\<close>

fun nat_bytes :: "nat \<Rightarrow> byte list" where
  "nat_bytes n = (if n = 0 then [] else nat_bytes (n div 256) @ [word_of_nat (n mod 256)])"

declare nat_bytes.simps [simp del]

definition hash_bytes :: "256 word \<Rightarrow> byte list" where
  "hash_bytes w = map (\<lambda>i. ucast (drop_bit (8 * (31 - i)) w)) [0..<32]"

definition yield_id :: "eth_lib \<Rightarrow> eth_handler \<Rightarrow> eth_log \<Rightarrow> nat" where
  "yield_id L eh vLog =
     uint64_of_hash (el_keccak L
       (hash_bytes (log_TxHash vLog) @ nat_bytes (log_Index vLog) @ nat_bytes (eh_chainId eh)))"

definition yieldHandler ::
  "'d dec_lib \<Rightarrow> eth_lib \<Rightarrow> eth_handler \<Rightarrow> 'd event_handler" where
  "yieldHandler D L eh vLog values accumulator =
     first_int values (\<lambda>v.
     let amount = TokenDecimalsToTDecimal D v (eh_decimals eh) in
     if d_le D amount (d_zero D) then Return (None, True)
     else
       let yld = \<lparr> yld_Id = ''y_'' @ show_nat (yield_id L eh vLog), yld_Amount = Some amount,
             yld_Tx = el_hash L (log_TxHash vLog), yld_ExchangeId = eh_exchangeId eh,
             yld_ChainId = eh_chainId eh, yld_ExchangeAddress = exchange_text L eh \<rparr> in
       andThen (ignoring (ProcessYield yld)) (\<lambda>_. Return (None, True)))"

definition withdrawalReceiptHandler :: "eth_lib \<Rightarrow> 'd event_handler" where
  "withdrawalReceiptHandler L vLog values accumulator =
     topic vLog 1 (\<lambda>t1.
     case accumulator of
       None \<Rightarrow> Return (None, False)
     | Some wids \<Rightarrow>
         Return (Some (wids @ [\<lparr> wt_Id = ''w_'' @ show_nat (uint64_of_hash t1),
                                 wt_TxHash = el_hash L (log_TxHash vLog) \<rparr>]), True))"

definition withdrawalBatchHandler :: "'d batch_handler" where
  "withdrawalBatchHandler accumulator endedEarly =
     (case accumulator of
        None \<Rightarrow> Return False
      | Some wids \<Rightarrow>
          onErr (CompletedWithdrawals wids) (\<lambda>_. Return False) (\<lambda>_. Return True))"

section \<open>Scans of a range\<close>

definition deposit_events :: "eth_handler \<Rightarrow> (256 word \<times> string) list" where
  "deposit_events eh = [(eh_rabbitDepositID eh, ''Deposit''), (eh_proxyDepositID eh, ''Deposit'')]"

definition processDepositEvents ::
  "'d dec_lib \<Rightarrow> eth_lib \<Rightarrow> eth_handler \<Rightarrow> int \<Rightarrow> int \<Rightarrow> ('d, bool) prog" where
  "processDepositEvents D L eh fromBlock toBlock =
     processEvents L eh fromBlock toBlock [eh_exchange_address eh, eh_deposit_address eh]
       (deposit_events eh) (depositHandler D L eh) None None"

definition processStakeEvents ::
  "'d dec_lib \<Rightarrow> eth_lib \<Rightarrow> eth_handler \<Rightarrow> int \<Rightarrow> int \<Rightarrow> ('d, bool) prog" where
  "processStakeEvents D L eh fromBlock toBlock =
     processEvents L eh fromBlock toBlock (eh_vaults eh) [(eh_vaultStakeID eh, ''Stake'')]
       (stakeHandler D L eh) None None"

definition ProcessYieldEvents ::
  "'d dec_lib \<Rightarrow> eth_lib \<Rightarrow> eth_handler \<Rightarrow> int \<Rightarrow> int \<Rightarrow> ('d, bool) prog" where
  "ProcessYieldEvents D L eh fromBlock toBlock =
     processEvents L eh fromBlock toBlock [eh_exchange_address eh]
       [(eh_claimedYieldID eh, ''ClaimedYield'')] (yieldHandler D L eh) None None"

definition processWithdrawalReceiptEvents ::
  "eth_lib \<Rightarrow> eth_handler \<Rightarrow> int \<Rightarrow> int \<Rightarrow> ('d, bool) prog" where
  "processWithdrawalReceiptEvents L eh fromBlock toBlock =
     processEvents L eh fromBlock toBlock [eh_exchange_address eh]
       [(eh_withdrawalReceiptID eh, ''WithdrawalReceipt'')] (withdrawalReceiptHandler L) (Some [])
       (Some withdrawalBatchHandler)"

section \<open>Scans up to the confirmed blocks\<close>

text \<open>Reading the cursor of a scan and the range after it\<close>

definition next_range ::
  "eth_lib \<Rightarrow> eth_handler \<Rightarrow> string \<Rightarrow> ('d, string + (int \<times> int)) prog" where
  "next_range L eh event =
     onErr (GetLastProcessedBlockNumber (exchange_text L eh) (eh_chainId eh) event)
       (\<lambda>e. Return (Inl e)) (\<lambda>lastBlock. getL1BlockNumbers eh (Some lastBlock))"

text \<open>
  The loop of \<^verbatim>\<open>processDepositsAndStaking\<close> and of \<^verbatim>\<open>DistributeYield\<close>: \<open>step\<close> processes a range and
  says whether it succeeded. The result is \<open>Some b\<close> when the loop ended, \<open>b\<close> telling whether
  it caught up, and \<open>None\<close> out of fuel.
\<close>

fun scan_loop ::
  "eth_lib \<Rightarrow> eth_handler \<Rightarrow> string \<Rightarrow> (int \<Rightarrow> int \<Rightarrow> ('d, bool) prog) \<Rightarrow> nat \<Rightarrow> int \<times> int \<Rightarrow>
   ('d, bool option) prog" where
  "scan_loop L eh event step fuel (fromBlock, toBlock) =
     (if toBlock < fromBlock then Return (Some True)
      else case fuel of
        0 \<Rightarrow> Return None
      | Suc n \<Rightarrow>
          andThen (step fromBlock toBlock) (\<lambda>success.
          if \<not> success then Return (Some False)
          else
            onErr (SetLastProcessedBlockNumber toBlock (exchange_text L eh) (eh_chainId eh) event)
              (\<lambda>_. Return (Some False)) (\<lambda>_.
            onErr (next_range L eh event) (\<lambda>_. Return (Some False))
              (scan_loop L eh event step n))))"

declare scan_loop.simps [simp del]

definition scan_blocks ::
  "eth_lib \<Rightarrow> eth_handler \<Rightarrow> string \<Rightarrow> (int \<Rightarrow> int \<Rightarrow> ('d, bool) prog) \<Rightarrow> nat \<Rightarrow> ('d, bool option) prog" where
  "scan_blocks L eh event step fuel =
     andThen (ensureConnected eh (exchange_text L eh) event (eh_chainId eh)) (\<lambda>connected.
     if \<not> connected then Return (Some False)
     else
       onErr (next_range L eh event) (\<lambda>_. Return (Some False)) (scan_loop L eh event step fuel))"

definition isOlderThan :: "int \<Rightarrow> int \<Rightarrow> int \<Rightarrow> bool" where
  "isOlderThan timestamp duration time_now \<longleftrightarrow>
     duration < time_now - (timestamp sdiv 1000000) * 1000000000"

primrec drop_pending ::
  "eth_handler \<Rightarrow> 'd balance_ops option list \<Rightarrow> ('d, unit) prog" where
  "drop_pending eh [] = Return ()"
| "drop_pending eh (op # ops) =
     deref op (\<lambda>p.
     now (\<lambda>t.
     if \<not> isOlderThan (bo_Timestamp p) (eh_cancelInterval eh) t then drop_pending eh ops
     else
       Call (EthTransaction (bo_Txhash p)) (\<lambda>ans.
         case a_tx ans of
           Inl e \<Rightarrow>
             if contains_sub e ''not found''
             then andThen (ignoring (PendingDepositCanceled (bo_OpsId p))) (\<lambda>_. drop_pending eh ops)
             else Return ()
         | Inr found \<Rightarrow>
             if \<not> found
             then andThen (ignoring (PendingDepositCanceled (bo_OpsId p))) (\<lambda>_. drop_pending eh ops)
             else drop_pending eh ops)))"

definition ProcessDroppedDepositsAndStakes ::
  "eth_lib \<Rightarrow> eth_handler \<Rightarrow> ('d, unit) prog" where
  "ProcessDroppedDepositsAndStakes L eh =
     onErr (GetPendingDeposits (eh_exchangeId eh) (eh_chainId eh)) (\<lambda>_. Return ()) (\<lambda>pendingOps.
     onErr (GetPendingStakes (eh_exchangeId eh) (eh_chainId eh)) (\<lambda>_. Return ()) (\<lambda>pendingStakes.
     andThen (ensureConnected eh (exchange_text L eh) DEPOSIT_AND_STAKING_EVENT (eh_chainId eh)) (\<lambda>connected.
     if \<not> connected then Return () else drop_pending eh (pendingOps @ pendingStakes))))"

definition deposits_and_stakes ::
  "'d dec_lib \<Rightarrow> eth_lib \<Rightarrow> eth_handler \<Rightarrow> int \<Rightarrow> int \<Rightarrow> ('d, bool) prog" where
  "deposits_and_stakes D L eh fromBlock toBlock =
     andThen (processDepositEvents D L eh fromBlock toBlock) (\<lambda>success.
     if \<not> success then Return False else processStakeEvents D L eh fromBlock toBlock)"

definition processDepositsAndStaking ::
  "'d dec_lib \<Rightarrow> eth_lib \<Rightarrow> eth_handler \<Rightarrow> nat \<Rightarrow> ('d, unit option) prog" where
  "processDepositsAndStaking D L eh fuel =
     andThen (scan_blocks L eh DEPOSIT_AND_STAKING_EVENT (deposits_and_stakes D L eh) fuel) (\<lambda>r.
     case r of
       None \<Rightarrow> Return None
     | Some caught_up \<Rightarrow>
         if caught_up
         then andThen (ProcessDroppedDepositsAndStakes L eh) (\<lambda>_. Return (Some ()))
         else Return (Some ()))"

definition DistributeYield ::
  "'d dec_lib \<Rightarrow> eth_lib \<Rightarrow> eth_handler \<Rightarrow> nat \<Rightarrow> ('d, unit option) prog" where
  "DistributeYield D L eh fuel =
     andThen (scan_blocks L eh PROCESS_YIELD_EVENT (ProcessYieldEvents D L eh) fuel)
       (\<lambda>r. Return (map_option (\<lambda>_. ()) r))"

section \<open>Withdrawals\<close>

definition updatePendingWithdrawals :: "eth_lib \<Rightarrow> eth_handler \<Rightarrow> ('d, unit) prog" where
  "updatePendingWithdrawals L eh =
     andThen (ensureConnected eh (exchange_text L eh) WITHDRAW_AND_UNSTAKE_EVENT (eh_chainId eh)) (\<lambda>connected.
     if \<not> connected then Return ()
     else
       onErr getCurrentBlockNumber (\<lambda>_. Return ()) (\<lambda>currentBlock.
       ignoring (UpdatePendingWithdrawals currentBlock (eh_withdrawalBlockDelay eh + currentBlock)
                   (exchange_text L eh))))"

text \<open>
  The suspension flag of the service and the last scanned block are read where the code reads
  them; the cursor is set to the shared block, not to the end of this scan's range.
\<close>

fun withdrawal_loop ::
  "eth_lib \<Rightarrow> eth_handler \<Rightarrow> nat \<Rightarrow> int \<times> int \<Rightarrow> ('d, unit option) prog" where
  "withdrawal_loop L eh fuel (fromBlock, toBlock) =
     Call (LoadFlag ''withdrawalSuspended'') (\<lambda>ans.
     if a_flag ans \<or> toBlock < fromBlock then Return (Some ())
     else case fuel of
       0 \<Rightarrow> Return None
     | Suc n \<Rightarrow>
         andThen (processWithdrawalReceiptEvents L eh fromBlock toBlock) (\<lambda>success.
         if \<not> success then Return (Some ())
         else
           Call (LoadFlag ''withdrawalSuspended'') (\<lambda>ans.
           if a_flag ans then Return (Some ())
           else
             Call (LoadBlock ''latestBlock'') (\<lambda>ans.
             onErr (SetLastProcessedBlockNumber (a_block ans) (exchange_text L eh) (eh_chainId eh)
                      WITHDRAW_AND_UNSTAKE_EVENT)
               (\<lambda>_. Return (Some ())) (\<lambda>_.
             onErr (next_range L eh WITHDRAW_AND_UNSTAKE_EVENT) (\<lambda>_. Return (Some ()))
               (withdrawal_loop L eh n))))))"

declare withdrawal_loop.simps [simp del]

definition completeWithdrawalsAndUnstakes ::
  "eth_lib \<Rightarrow> eth_handler \<Rightarrow> nat \<Rightarrow> ('d, unit option) prog" where
  "completeWithdrawalsAndUnstakes L eh fuel =
     andThen (ensureConnected eh (exchange_text L eh) WITHDRAW_AND_UNSTAKE_EVENT (eh_chainId eh)) (\<lambda>connected.
     if \<not> connected then Return (Some ())
     else
       onErr (next_range L eh WITHDRAW_AND_UNSTAKE_EVENT) (\<lambda>_. Return (Some ()))
         (withdrawal_loop L eh fuel))"

section \<open>Claiming the yield\<close>

text \<open>
  The retry doubles the gas price while the node finds it too low and \<open>count\<close> is below 5; the
  loop never increments \<open>count\<close>, so fuel stands for the retries.
\<close>

primrec claim_retry ::
  "nat \<Rightarrow> int \<Rightarrow> int \<Rightarrow> int \<Rightarrow> string option \<Rightarrow> ('d, string option option) prog" where
  "claim_retry 0 count nonce gasPrice err =
     Return (case err of
       Some e \<Rightarrow> if count < 5 \<and> contains_sub e GAS_TOO_LOW then None else Some (Some e)
     | None \<Rightarrow> Some None)"
| "claim_retry (Suc n) count nonce gasPrice err =
     (case err of
        None \<Rightarrow> Return (Some None)
      | Some e \<Rightarrow>
          if count < 5 \<and> contains_sub e GAS_TOO_LOW
          then Call (EthClaimYield nonce (gasPrice * 2)) (\<lambda>ans.
                 claim_retry n count nonce (gasPrice * 2) (a_error ans))
          else Return (Some (Some e)))"

text \<open>\<^verbatim>\<open>getSigner\<close>: the nonce and the gas price of the transaction\<close>

definition getSigner :: "eth_handler \<Rightarrow> ('d, string + (int \<times> int)) prog" where
  "getSigner eh =
     Call (EthNonce (eh_walletAddress eh)) (\<lambda>ans. case a_int ans of
         Inl e \<Rightarrow> Return (Inl (''error reading wallet nonce: '' @ e))
       | Inr nonce \<Rightarrow>
           Call (EthKeyedTransactor (eh_chainId eh)) (\<lambda>ans. case a_error ans of
               Some e \<Rightarrow> Return (Inl (''error creating signer: '' @ e))
             | None \<Rightarrow>
                 Call EthGasPrice (\<lambda>ans. case a_int ans of
                     Inl e \<Rightarrow> Return (Inl (''error estimating L1 gas price: '' @ e))
                   | Inr gasPrice \<Rightarrow> Return (Inr (nonce, gasPrice)))))"

definition ClaimYield ::
  "eth_lib \<Rightarrow> eth_handler \<Rightarrow> nat \<Rightarrow> ('d, (string + unit) option) prog" where
  "ClaimYield L eh fuel =
     andThen (ensureConnected eh (exchange_text L eh) '''' (eh_chainId eh)) (\<lambda>connected.
     if \<not> connected then Return (Some (Inl (''failed to connect to: '' @ exchange_text L eh)))
     else
       onErr (getSigner eh)
         (\<lambda>e. Return (Some (Inl (''error creating blockchain signer: '' @ e)))) (\<lambda>(nonce, gasPrice).
       if \<not> on_blast eh then Panic ''nil pointer dereference''    \<comment> \<open>no exchange contract was bound\<close>
       else
         Call (EthClaimYield nonce gasPrice) (\<lambda>ans.
         andThen (claim_retry fuel 0 nonce gasPrice (a_error ans)) (\<lambda>r.
         Return (map_option (\<lambda>err. case err of
             Some e \<Rightarrow> Inl (''error claiming yield: '' @ e) | None \<Rightarrow> Inr ()) r)))))"

section \<open>The service\<close>

definition SuspendWithdrawals_service :: "('d, unit) prog" where
  "SuspendWithdrawals_service =
     Call (StoreFlag ''withdrawalSuspended'' True) (\<lambda>_. ignoring SuspendWithdrawals)"

definition checkWithdrawalSuspendedOnDB :: "('d, unit) prog" where
  "checkWithdrawalSuspendedOnDB =
     andThen GetWithdrawalsSuspended (\<lambda>r.
     Call (StoreFlag ''withdrawalSuspended'' (case r of Inl _ \<Rightarrow> True | Inr b \<Rightarrow> b)) (\<lambda>_. Return ()))"

definition MAX_WITHDRAWAL_18 :: int where
  "MAX_WITHDRAWAL_18 = 4000000000000000000000000"

definition processPendingWithdrawals ::
  "'d dec_lib \<Rightarrow> eth_lib \<Rightarrow> eth_handler \<Rightarrow> ('d, unit) prog" where
  "processPendingWithdrawals D L eh =
     onErr (GetPendingWithdrawals (eh_exchangeId eh) (eh_chainId eh)) (\<lambda>_. Return ()) (\<lambda>withdrawals.
     if withdrawals = [] then Return ()
     else
       andThen Rolling24hWds (\<lambda>r.
       deref (case r of Inl _ \<Rightarrow> None | Inr d \<Rightarrow> d) (\<lambda>rolling24h.
       let totalPending = 0 + TDecimalToTokenDecimals D rolling24h 18 in
       if MAX_WITHDRAWAL_18 < totalPending then SuspendWithdrawals_service
       else updatePendingWithdrawals L eh)))"

text \<open>The sum over the withdrawals, in units of 18 decimals; \<open>None\<close> where a nil pointer is read\<close>

definition sumUniversalPendingWithdrawals ::
  "'d dec_lib \<Rightarrow> 'd balance_ops option list \<Rightarrow> int option" where
  "sumUniversalPendingWithdrawals D ws =
     (if None \<in> set ws then None
      else Some (sum_list (map (\<lambda>w. TDecimalToTokenDecimals D (bo_Amount (the w)) 18) ws)))"

definition ProcessWithdrawal ::
  "'d dec_lib \<Rightarrow> eth_lib \<Rightarrow> eth_handler \<Rightarrow> nat \<Rightarrow> ('d, unit option) prog" where
  "ProcessWithdrawal D L eh fuel =
     andThen checkWithdrawalSuspendedOnDB (\<lambda>_.
     Call (LoadFlag ''withdrawalSuspended'') (\<lambda>ans.
     if a_flag ans then Return (Some ())
     else
       Call (MutexLock ''withdrawMutex'') (\<lambda>_.
       andThen (processPendingWithdrawals D L eh) (\<lambda>_.
       Call (MutexUnlock ''withdrawMutex'') (\<lambda>_.
       completeWithdrawalsAndUnstakes L eh fuel)))))"

definition ProcessDepositsAndStaking ::
  "'d dec_lib \<Rightarrow> eth_lib \<Rightarrow> eth_handler \<Rightarrow> nat \<Rightarrow> ('d, unit option) prog" where
  "ProcessDepositsAndStaking D L eh fuel = processDepositsAndStaking D L eh fuel"

end
