(* ===== verification/Settlement_Scan.thy ===== *)
theory Settlement_Scan
  imports Settlement
begin

text \<open>
  What the block scans of the settlement promise. The locale \<open>block_scanner\<close> is the contract
  between the scan loop and the step that processes a range; its lemma, that the cursor only
  moves over ranges that were processed and leaves no gap, is proved once and interpreted for
  the scan of deposits and stakes and for the scan of yields.
\<close>

section \<open>Histories\<close>

text \<open>The answer to the latest call of a kind\<close>

fun latest :: "'d call \<Rightarrow> 'd history \<Rightarrow> 'd answer option" where
  "latest c [] = None"
| "latest c ((c', a) # h) = (if c' = c then Some a else latest c h)"

lemma extends_latest:
  "extends (\<lambda>_ c. c \<noteq> c0) h h' \<Longrightarrow> latest c0 h' = latest c0 h"
  by (induction rule: extends.induct) auto

lemma extends_mono: "extends P h h' \<Longrightarrow> (\<And>h c. P h c \<Longrightarrow> P' h c) \<Longrightarrow> extends P' h h'"
  by (induction rule: extends.induct) (auto intro: extends.intros)

definition set_cursor_call :: "'d call \<Rightarrow> bool" where
  "set_cursor_call c \<longleftrightarrow> (\<exists>ps. c = Execute PROFILE_INSTANCE SET_LAST_PROCESSED_BLOCK_NUMBER ps)"

definition cursor_call :: "'d call \<Rightarrow> bool" where
  "cursor_call c \<longleftrightarrow>
     (\<exists>ps. c = Execute PROFILE_INSTANCE SET_LAST_PROCESSED_BLOCK_NUMBER ps \<or>
           c = Execute PROFILE_INSTANCE GET_LAST_PROCESSED_BLOCK_NUMBER ps)"

definition get_cursor :: "eth_lib \<Rightarrow> eth_handler \<Rightarrow> string \<Rightarrow> 'd call" where
  "get_cursor L eh event =
     Execute PROFILE_INSTANCE GET_LAST_PROCESSED_BLOCK_NUMBER
       [VString (to_lower (exchange_text L eh)), VUint (eh_chainId eh), VString (to_lower event)]"

definition set_cursor :: "eth_lib \<Rightarrow> eth_handler \<Rightarrow> string \<Rightarrow> int \<Rightarrow> 'd call" where
  "set_cursor L eh event b =
     Execute PROFILE_INSTANCE SET_LAST_PROCESSED_BLOCK_NUMBER
       [VString (show_int b), VString (to_lower (exchange_text L eh)), VUint (eh_chainId eh),
        VString (to_lower event)]"

text \<open>The cursor as the latest read of it gave it\<close>

definition cursor_at :: "eth_lib \<Rightarrow> eth_handler \<Rightarrow> string \<Rightarrow> 'd history \<Rightarrow> int option" where
  "cursor_at L eh event h =
     (case latest (get_cursor L eh event) h of
        None \<Rightarrow> None
      | Some ans \<Rightarrow>
          (case decode_reply as_string (a_reply ans) of Inl _ \<Rightarrow> None | Inr s \<Rightarrow> parse_int s))"

lemma cursor_at_extends:
  assumes "extends (\<lambda>_ c. \<not> cursor_call c) h h'"
  shows "cursor_at L eh event h' = cursor_at L eh event h"
proof -
  have "extends (\<lambda>_ c. c \<noteq> get_cursor L eh event) h h'"
    using assms by (rule extends_mono) (auto simp: cursor_call_def get_cursor_def)
  then show ?thesis
    by (simp add: cursor_at_def extends_latest)
qed

text \<open>The node reported a head, from which the confirmed end of the range was computed.\<close>

definition reported_head :: "'d history \<Rightarrow> int \<Rightarrow> bool" where
  "reported_head h n \<longleftrightarrow> (\<exists>ans. (EthHeader, ans) \<in> set h \<and> a_int ans = Inr n)"

definition range_end :: "eth_handler \<Rightarrow> int \<Rightarrow> int \<Rightarrow> int" where
  "range_end eh fromBlock head = min (head - eh_blockConfirmations eh) (fromBlock + MAX_BLOCKS)"

section \<open>Connecting does not touch the cursors\<close>

lemma wp_dial_loop:
  assumes "\<And>h c. \<not> cursor_call c \<Longrightarrow> P h c" and "\<And>h r. Q h (Done r)"
  shows "wp P Q (dial_loop eh n s err) h"
  using assms by (induction n arbitrary: s err h) (auto simp: sleep_def cursor_call_def split: option.split)

lemma wp_Dial:
  assumes "\<And>h c. \<not> cursor_call c \<Longrightarrow> P h c" and "\<And>h r. Q h (Done r)"
  shows "wp P Q (Dial eh) h"
  using assms
  by (auto simp: Dial_def wp_andThen cursor_call_def intro!: wp_dial_loop split: option.split)

section \<open>The contract of a scan\<close>

text \<open>
  A step that returns true has \<open>scanned\<close> its range; it does not touch the cursor, and what has
  been scanned stays scanned.
\<close>

locale block_scanner =
  fixes L :: eth_lib and eh :: eth_handler and event :: string
    and step :: "int \<Rightarrow> int \<Rightarrow> ('d, bool) prog"
    and scanned :: "'d history \<Rightarrow> int \<Rightarrow> int \<Rightarrow> bool"
  assumes step_scans:
      "wp (\<lambda>_ c. \<not> cursor_call c) (\<lambda>h' r. r = Done True \<longrightarrow> scanned h' a b) (step a b) h"
    and scanned_mono: "scanned h a b \<Longrightarrow> set h \<subseteq> set h' \<Longrightarrow> scanned h' a b"
begin

text \<open>
  When the cursor may be written: to the default start, or to the end of a range that starts
  right after the cursor, ends at a confirmed block, and has been scanned.
\<close>

definition cursor_ok :: "'d history \<Rightarrow> int \<Rightarrow> bool" where
  "cursor_ok h b \<longleftrightarrow>
     b = eh_defaultFromBlock eh \<or>
     (\<exists>last head. cursor_at L eh event h = Some last \<and> reported_head h head \<and>
        b = range_end eh (last + 1) head \<and> last + 1 \<le> b \<and> scanned h (last + 1) b)"

definition guard :: "'d call_cond" where
  "guard h c \<longleftrightarrow> (set_cursor_call c \<longrightarrow> (\<exists>b. c = set_cursor L eh event b \<and> cursor_ok h b))"

lemma guard_other: "\<not> set_cursor_call c \<Longrightarrow> guard h c"
  by (simp add: guard_def)

lemma guard_cursor: "cursor_ok h b \<Longrightarrow> guard h (set_cursor L eh event b)"
  by (auto simp: guard_def)

lemma wp_step:
  assumes "\<And>h'. extends (\<lambda>_ c. \<not> cursor_call c) h h' \<Longrightarrow> scanned h' a b \<Longrightarrow> Q h' (Done True)"
    and "\<And>h' r. r \<noteq> Done True \<Longrightarrow> Q h' r"
  shows "wp guard Q (step a b) h"
proof -
  have "wp (\<lambda>_ c. \<not> cursor_call c) Q (step a b) h"
  proof (rule wp_mono [OF step_scans])
    show "Q h' r" if "extends (\<lambda>_ c. \<not> cursor_call c) h h'" "r = Done True \<longrightarrow> scanned h' a b" for h' r
      using that assms by (cases "r = Done True") simp_all
  qed
  then show ?thesis
  proof (rule wp_weaken)
    show "guard h' c" if "\<not> cursor_call c" for h' c
      using that by (intro guard_other) (auto simp: cursor_call_def set_cursor_call_def)
  qed
qed

text \<open>A range as \<open>next_range\<close> returns it\<close>

definition fresh_range :: "'d history \<Rightarrow> int \<times> int \<Rightarrow> bool" where
  "fresh_range h r \<longleftrightarrow>
     (\<exists>last head. cursor_at L eh event h = Some last \<and> reported_head h head \<and>
        r = (last + 1, range_end eh (last + 1) head))"

lemma wp_next_range:
  assumes "\<And>h' r. fresh_range h' r \<Longrightarrow> Q h' (Done (Inr r))"
    and "\<And>h' e. Q h' (Done (Inl e))"
  shows "wp guard Q (next_range L eh event) h"
proof -
  have no: "guard h' EthHeader" "guard h' (get_cursor L eh event)" for h'
    by (auto intro!: guard_other simp: set_cursor_call_def get_cursor_def)
  have get: "GetLastProcessedBlockNumber (exchange_text L eh) (eh_chainId eh) event =
      Call (get_cursor L eh event) (\<lambda>ans. case decode_reply as_string (a_reply ans) of
        Inl e \<Rightarrow> Return (Inl e)
      | Inr res \<Rightarrow> (case parse_int res of
                Some blockNum \<Rightarrow> Return (Inr blockNum)
              | None \<Rightarrow> Return (Inl (''eventType='' @ to_lower event @ '' forContract='' @
                    to_lower (exchange_text L eh) @ '' chainId='' @ show_nat (eh_chainId eh) @
                    '' unable to parse last processed block number: res='' @ res))))"
    by (simp add: GetLastProcessedBlockNumber_def get_cursor_def onErr_def Request_def Let_def)
  have fresh: "fresh_range ((EthHeader, a') # (get_cursor L eh event, a) # h)
      (last + 1, range_end eh (last + 1) n)"
    if "decode_reply as_string (a_reply a) = Inr s" "parse_int s = Some last" "a_int a' = Inr n"
    for a a' s last n
    using that by (auto simp: fresh_range_def cursor_at_def reported_head_def get_cursor_def)
  have range: "(if last + 1 + MAX_BLOCKS < n - eh_blockConfirmations eh then last + 1 + MAX_BLOCKS
      else n - eh_blockConfirmations eh) = range_end eh (last + 1) n" for last n
    by (simp add: range_end_def min_def)
  show ?thesis
    unfolding next_range_def getL1BlockNumbers_def getCurrentBlockNumber_def get Let_def option.case range
    using assms no
    by (auto simp: wp_onErr intro: fresh split: sum.splits option.splits)
qed

lemma SetLast_call:
  "SetLastProcessedBlockNumber b (exchange_text L eh) (eh_chainId eh) event =
   Call (set_cursor L eh event b) (\<lambda>ans. Return (err_of (decode_reply (as_list as_any) (a_reply ans))))"
  by (simp add: SetLastProcessedBlockNumber_def set_cursor_def Request_err_def Let_def)

lemma wp_scan_loop:
  "fresh_range h r \<Longrightarrow> wp guard (\<lambda>_ _. True) (scan_loop L eh event step fuel r) h"
proof (induction fuel arbitrary: h r)
  case 0
  obtain a b where r: "r = (a, b)" by force
  show ?case unfolding r by (subst scan_loop.simps) simp
next
  case (Suc n)
  obtain last head where r: "r = (last + 1, range_end eh (last + 1) head)"
    and cur: "cursor_at L eh event h = Some last" and head: "reported_head h head"
    using Suc.prems by (auto simp: fresh_range_def)
  let ?b = "range_end eh (last + 1) head"
  have ok: "cursor_ok h' ?b" if "extends (\<lambda>_ c. \<not> cursor_call c) h h'" "scanned h' (last + 1) ?b"
    "last + 1 \<le> ?b" for h'
    using that cur head cursor_at_extends [OF that(1)] extends_set [OF that(1)]
    by (force simp: cursor_ok_def reported_head_def)
  have continue: "wp guard (\<lambda>h' r. case r of
        Done (Inl e) \<Rightarrow> True
      | Done (Inr x) \<Rightarrow> wp guard (\<lambda>_ _. True) (scan_loop L eh event step n x) h'
      | Panicked m \<Rightarrow> True) (next_range L eh event) h'" for h'
    by (rule wp_next_range) (use Suc.IH in auto)
  show ?case
    unfolding r by (subst scan_loop.simps)
      (auto simp: wp_andThen wp_onErr SetLast_call
        intro!: wp_step guard_cursor ok continue split: sum.splits outcome.splits)
qed

lemma wp_ensureConnected: "wp guard (\<lambda>_ _. True) (ensureConnected eh (exchange_text L eh) event (eh_chainId eh)) h"
proof -
  have quiet: "guard h c" if "\<not> cursor_call c" for h c
    using that by (intro guard_other) (auto simp: cursor_call_def set_cursor_call_def)
  have calls: "\<not> cursor_call EthHeader" "\<not> cursor_call (LoadFlag f)" for f
    by (simp_all add: cursor_call_def)
  have get: "guard h (Execute PROFILE_INSTANCE GET_LAST_PROCESSED_BLOCK_NUMBER ps)" for h ps
    by (intro guard_other) (simp add: set_cursor_call_def)
  have reset: "guard h (set_cursor L eh event (eh_defaultFromBlock eh))" for h
    by (rule guard_cursor) (simp add: cursor_ok_def)
  have check: "wp guard (\<lambda>_ _. True)
      (checkLastProcessedBlockNumbers eh (exchange_text L eh) event (eh_chainId eh)) h" for h
    by (auto simp: checkLastProcessedBlockNumbers_def getCurrentBlockNumber_def
        resetLastProcessedBlockNumber_def GetLastProcessedBlockNumber_def SetLast_call Let_def
        wp_onErr wp_andThen quiet calls get reset split: sum.splits option.splits)
  let ?check = "if event \<noteq> '''' then andThen
      (checkLastProcessedBlockNumbers eh (exchange_text L eh) event (eh_chainId eh))
      (\<lambda>r. Return (case r of Inl _ \<Rightarrow> False | Inr _ \<Rightarrow> True)) else Return True"
  have checked: "wp guard (\<lambda>_ _. True) ?check h" for h
    by (simp add: wp_andThen wp_mono [OF check] split: outcome.split)
  have dial: "wp guard (\<lambda>h' r. case r of
        Done err \<Rightarrow> wp guard (\<lambda>_ _. True)
          (case err of Some _ \<Rightarrow> Return False | None \<Rightarrow> ?check) h'
      | Panicked m \<Rightarrow> True) (Dial eh) h" for h
    by (rule wp_Dial, erule quiet) (simp only: outcome.case wp.simps checked split: option.split, simp)
  show ?thesis
    unfolding ensureConnected_def Let_def using dial checked
    by (simp add: quiet calls wp_andThen cong del: if_weak_cong)
qed

text \<open>The cursor moves only to the default start or over a scanned range that follows it.\<close>

lemma wp_scan_blocks: "wp guard (\<lambda>_ _. True) (scan_blocks L eh event step fuel) h"
proof -
  have "wp guard (\<lambda>h' r. case r of Done (Inl e) \<Rightarrow> True
        | Done (Inr x) \<Rightarrow> wp guard (\<lambda>_ _. True) (scan_loop L eh event step fuel x) h'
        | Panicked m \<Rightarrow> True) (next_range L eh event) h'" for h'
    by (rule wp_next_range) (use wp_scan_loop in auto)
  then show ?thesis
    by (auto simp: scan_blocks_def wp_andThen wp_onErr
        intro!: wp_mono [OF wp_ensureConnected] split: outcome.splits)
qed

end

end
