(* ===== verification/Settlement_Events.thy ===== *)
theory Settlement_Events
  imports Settlement_Scan
begin

text \<open>
  From the logs of a range to operations on the profile instance. A log is either dropped or
  decoded; \<open>event_loop\<close> hands exactly the decoded logs to the handler, in order. The locale
  \<open>event_processor\<close> is the contract of a handler that leaves every decoded event handled; with
  it, a scan that succeeded has handled every event the node returned for its range. It is
  interpreted on the handlers of deposits, stakes and yields, and \<open>block_scanner\<close> on their scans.
\<close>

section \<open>Decoding\<close>

definition decode_log ::
  "eth_lib \<Rightarrow> eth_handler \<Rightarrow> (256 word \<times> string) list \<Rightarrow> eth_log \<Rightarrow> abi_value list option" where
  "decode_log L eh eventTypes vLog =
     (case log_Topics vLog of
        [] \<Rightarrow> None
      | t # _ \<Rightarrow>
          (case map_of eventTypes t of
             None \<Rightarrow> None
           | Some eventType \<Rightarrow>
               if log_Removed vLog \<or> log_BlockNumber vLog = 0 then None
               else
                 (case log_abi eh (log_Address vLog) of
                    None \<Rightarrow> None
                  | Some abi \<Rightarrow>
                      (case el_unpack L abi eventType (log_Data vLog) of
                         Inl _ \<Rightarrow> None
                       | Inr values \<Rightarrow> if values = [] then None else Some values))))"

fun decoded_logs ::
  "eth_lib \<Rightarrow> eth_handler \<Rightarrow> (256 word \<times> string) list \<Rightarrow> eth_log list \<Rightarrow> (eth_log \<times> abi_value list) list" where
  "decoded_logs L eh types [] = []"
| "decoded_logs L eh types (l # ls) =
     (case decode_log L eh types l of
        None \<Rightarrow> decoded_logs L eh types ls
      | Some vs \<Rightarrow> (l, vs) # decoded_logs L eh types ls)"

text \<open>The specification of the loop: the handler on each decoded event until it says to stop\<close>

fun handle_all ::
  "'d event_handler \<Rightarrow> (eth_log \<times> abi_value list) list \<Rightarrow> acc \<Rightarrow> ('d, acc \<times> bool) prog" where
  "handle_all handler [] acc = Return (acc, False)"
| "handle_all handler ((l, vs) # evs) acc =
     andThen (handler l vs acc) (\<lambda>(acc', keepGoing).
       if keepGoing then handle_all handler evs acc' else Return (acc', True))"

lemma decode_log_some:
  "decode_log L eh types l = Some vs \<longleftrightarrow>
     (\<exists>t ts ty abi. log_Topics l = t # ts \<and> map_of types t = Some ty \<and> \<not> log_Removed l \<and>
        log_BlockNumber l \<noteq> 0 \<and> log_abi eh (log_Address l) = Some abi \<and>
        el_unpack L abi ty (log_Data l) = Inr vs \<and> vs \<noteq> [])"
  by (auto simp: decode_log_def split: list.splits option.splits sum.splits if_splits)

lemma event_loop_Cons:
  assumes "log_Topics l \<noteq> []"
  shows "event_loop L eh types handler (l # ls) acc =
    (case decode_log L eh types l of
       None \<Rightarrow> event_loop L eh types handler ls acc
     | Some vs \<Rightarrow>
         andThen (handler l vs acc) (\<lambda>(acc', keepGoing).
           if keepGoing then event_loop L eh types handler ls acc' else Return (acc', True)))"
  using assms
  by (cases "log_Topics l") (auto simp: decode_log_def topic_def split: option.splits sum.splits)

section \<open>Handled events\<close>

text \<open>The node returned the logs of a query, and every decoded one of them was handled.\<close>

definition range_handled ::
  "(eth_log \<Rightarrow> abi_value list option) \<Rightarrow> ('d history \<Rightarrow> eth_log \<Rightarrow> abi_value list \<Rightarrow> bool) \<Rightarrow>
   filter_query \<Rightarrow> 'd history \<Rightarrow> bool" where
  "range_handled decode handled q h \<longleftrightarrow>
     (\<exists>ans logs. (EthFilterLogs q, ans) \<in> set h \<and> a_logs ans = Inr logs \<and>
        (\<forall>l \<in> set logs. \<forall>vs. decode l = Some vs \<longrightarrow> handled h l vs))"

abbreviation quiet :: "'d call_cond" where
  "quiet \<equiv> \<lambda>_ c. \<not> cursor_call c"

locale event_processor =
  fixes L :: eth_lib and eh :: eth_handler and types :: "(256 word \<times> string) list"
    and addresses :: "160 word list"
    and handler :: "'d event_handler"
    and handled :: "'d history \<Rightarrow> eth_log \<Rightarrow> abi_value list \<Rightarrow> bool"
  assumes handler_handles:
      "wp quiet (\<lambda>h' r. case r of Done (_, keepGoing) \<Rightarrow> keepGoing \<and> handled h' l vs | Panicked _ \<Rightarrow> True)
         (handler l vs acc) h"
    and handled_mono: "handled h l vs \<Longrightarrow> set h \<subseteq> set h' \<Longrightarrow> handled h' l vs"
begin

lemma wp_event_loop:
  "wp quiet (\<lambda>h' r. case r of
        Done (_, endedEarly) \<Rightarrow> \<not> endedEarly \<and>
          (\<forall>l \<in> set logs. \<forall>vs. decode_log L eh types l = Some vs \<longrightarrow> handled h' l vs)
      | Panicked _ \<Rightarrow> True) (event_loop L eh types handler logs acc) h"
proof (induction logs arbitrary: acc h)
  case (Cons l ls acc h)
  show ?case
  proof (cases "log_Topics l = []")
    case True
    then show ?thesis by (simp add: topic_def)
  next
    case False
    show ?thesis
    proof (cases "decode_log L eh types l")
      case None
      then show ?thesis
        using Cons.IH False by (simp add: event_loop_Cons del: event_loop.simps cong: outcome.case_cong)
    next
      case (Some vs)
      have "wp quiet (\<lambda>h' r. case r of
          Done (acc', keepGoing) \<Rightarrow> wp quiet (\<lambda>h'' r. case r of
              Done (_, endedEarly) \<Rightarrow> \<not> endedEarly \<and>
                (\<forall>k \<in> set (l # ls). \<forall>vs. decode_log L eh types k = Some vs \<longrightarrow> handled h'' k vs)
            | Panicked _ \<Rightarrow> True)
            (if keepGoing then event_loop L eh types handler ls acc' else Return (acc', True)) h'
        | Panicked m \<Rightarrow> True) (handler l vs acc) h"
      proof (rule wp_mono [OF handler_handles [of l vs acc h]], goal_cases)
        case (1 h' r)
        show ?case
        proof (cases r)
          case (Done x)
          obtain acc' keepGoing where x: "x = (acc', keepGoing)" by force
          have "keepGoing" and here: "handled h' l vs"
            using 1 Done x by auto
          have "wp quiet (\<lambda>h'' r. case r of
              Done (_, endedEarly) \<Rightarrow> \<not> endedEarly \<and>
                (\<forall>k \<in> set (l # ls). \<forall>vs. decode_log L eh types k = Some vs \<longrightarrow> handled h'' k vs)
            | Panicked _ \<Rightarrow> True) (event_loop L eh types handler ls acc') h'"
            by (rule wp_mono [OF Cons.IH])
              (auto simp: Some split: outcome.splits dest: extends_set intro: handled_mono [OF here])
          then show ?thesis
            by (simp only: Done x outcome.case prod.case \<open>keepGoing\<close> if_True)
        qed simp
      qed
      then show ?thesis
        using False Some
        by (simp add: event_loop_Cons wp_andThen case_prod_unfold del: event_loop.simps cong: outcome.case_cong)
    qed
  qed
qed simp

lemma wp_processEvents:
  "wp quiet (\<lambda>h' r. r = Done True \<longrightarrow>
       range_handled (decode_log L eh types) handled (range_query types addresses a b) h')
     (processEvents L eh a b addresses types handler None None) h"
proof -
  have process: "wp quiet (\<lambda>h' r. r = Done True \<longrightarrow>
       range_handled (decode_log L eh types) handled (range_query types addresses a b) h') (process_logs L eh b types handler None None logs) h'"
    if "(EthFilterLogs (range_query types addresses a b), ans) \<in> set h'" "a_logs ans = Inr logs"
    for h' ans logs
    unfolding process_logs_def wp_andThen
  proof (rule wp_mono [OF wp_event_loop [of logs None h']], goal_cases)
    case (1 h'' r)
    show ?case
    proof (cases r)
      case (Done x)
      obtain acc' endedEarly where x: "x = (acc', endedEarly)" by force
      have ended: "\<not> endedEarly"
        and all: "\<And>l vs. l \<in> set logs \<Longrightarrow> decode_log L eh types l = Some vs \<Longrightarrow> handled h'' l vs"
        using 1(2) unfolding Done x by auto
      have "range_handled (decode_log L eh types) handled (range_query types addresses a b)
              ((StoreBlock ''latestBlock'' b, ans') # h'')" for ans'
        unfolding range_handled_def
      proof (intro exI conjI ballI allI impI)
        show "(EthFilterLogs (range_query types addresses a b), ans) \<in> set ((StoreBlock ''latestBlock'' b, ans') # h'')"
          using that(1) extends_set [OF 1(1)] by auto
        show "a_logs ans = Inr logs" by (rule that(2))
        fix l vs
        assume "l \<in> set logs" "decode_log L eh types l = Some vs"
        then show "handled ((StoreBlock ''latestBlock'' b, ans') # h'') l vs"
          using all handled_mono by (meson set_subset_Cons)
      qed
      then show ?thesis
        by (simp add: Done x ended cursor_call_def)
    qed simp
  qed
  have calls: "\<not> cursor_call (EthFilterLogs q)" for q :: filter_query
    by (simp add: cursor_call_def)
  show ?thesis
    by (auto simp: processEvents_def Let_def filterLogs_def wp_onErr wp_andThen calls
        intro!: process wp_Dial split: sum.splits option.splits)
qed

end

section \<open>Deposits\<close>

definition made :: "'d history \<Rightarrow> 'd call \<Rightarrow> bool" where
  "made h c \<longleftrightarrow> (\<exists>ans. (c, ans) \<in> set h)"

lemma made_simps [simp]: "\<not> made [] c" "made ((c', a) # h) c \<longleftrightarrow> c' = c \<or> made h c"
  by (auto simp: made_def)

lemma made_mono: "made h c \<Longrightarrow> set h \<subseteq> set h' \<Longrightarrow> made h' c"
  by (auto simp: made_def)

definition profile_lookup :: "eth_handler \<Rightarrow> string \<Rightarrow> 'd call" where
  "profile_lookup eh wallet =
     Execute PROFILE_INSTANCE GET_PROFILE_BY_WALLET_FOR_EXCHANGE_ID [VString wallet, VString (eh_exchangeId eh)]"

definition deposit_args :: "'d dec_lib \<Rightarrow> eth_lib \<Rightarrow> eth_handler \<Rightarrow> eth_log \<Rightarrow> int \<Rightarrow> 'd gval list" where
  "deposit_args D L eh l v =
     [VString (walletOf L (log_Topics l ! 2)),
      VString (''d_'' @ show_nat (uint64_of_hash (log_Topics l ! 1))),
      VDecimal (TokenDecimalsToTDecimal D v (eh_decimals eh)), VString (el_hash L (log_TxHash l))]"

definition deposit_tail :: "eth_lib \<Rightarrow> eth_handler \<Rightarrow> 'd gval list" where
  "deposit_tail L eh = [VString (eh_exchangeId eh), VUint (eh_chainId eh), VString (exchange_text L eh)]"

text \<open>
  A deposit event is handled when its amount is not positive, or it is the transfer of the
  pool contract itself, or its wallet was looked up and the outcome of the lookup was acted on:
  credited to the profile found, credited as unknown where there is none.
\<close>

definition deposit_handled ::
  "'d dec_lib \<Rightarrow> eth_lib \<Rightarrow> eth_handler \<Rightarrow> 'd history \<Rightarrow> eth_log \<Rightarrow> abi_value list \<Rightarrow> bool" where
  "deposit_handled D L eh h l vs \<longleftrightarrow>
     (let t2 = log_Topics l ! 2; from_pool = (log_Address l = eh_deposit_address eh);
          pooled = (from_pool \<and> log_Topics l ! 3 \<noteq> 0)
      in (el_to_address L (el_hash L t2) = eh_deposit_address eh \<and> \<not> from_pool) \<or>
         (\<exists>v rest. vs = AbiInt v # rest \<and>
            (d_le D (TokenDecimalsToTDecimal D v (eh_decimals eh)) (d_zero D) \<or>
             (\<exists>ans. (profile_lookup eh (walletOf L t2), ans) \<in> set h \<and>
                (case decode_reply (as_ptr as_profile) (a_reply ans) of
                   Inr None \<Rightarrow> False
                 | Inr (Some p) \<Rightarrow>
                     made h (Execute PROFILE_INSTANCE PROCESS_DEPOSIT
                       (VUint (pr_ProfileId p) # deposit_args D L eh l v @ VBool pooled # deposit_tail L eh))
                 | Inl e \<Rightarrow> e = PROFILE_NOT_FOUND \<longrightarrow>
                     made h (Execute PROFILE_INSTANCE PROCESS_DEPOSIT_UNKNOWN
                       (deposit_args D L eh l v @ deposit_tail L eh)))))))"

lemma deposit_handled_mono:
  "deposit_handled D L eh h l vs \<Longrightarrow> set h \<subseteq> set h' \<Longrightarrow> deposit_handled D L eh h' l vs"
  unfolding deposit_handled_def Let_def
  by (fastforce split: sum.splits option.splits intro: made_mono)

lemma wp_deposit_to_profile:
  assumes "t1 = log_Topics l ! 1" and "t2 = log_Topics l ! 2"
    and "pooled \<longleftrightarrow> log_Address l = eh_deposit_address eh \<and> log_Topics l ! 3 \<noteq> 0"
  shows "wp quiet (\<lambda>h' r. case r of
      Done (_, keepGoing) \<Rightarrow> keepGoing \<and> deposit_handled D L eh h' l vs | Panicked _ \<Rightarrow> True)
    (deposit_to_profile D L eh l vs t1 t2 pooled) h"
  using assms
  by (auto simp: deposit_to_profile_def Let_def first_int_def wp_andThen cursor_call_def
      GetProfileByWalletForExchangeId_def ProcessDeposit_def ProcessDepositUnknown_def
      InvalidateCacheAndNotify_def ignoring_def deposit_handled_def deposit_args_def
      deposit_tail_def profile_lookup_def
      split: list.split abi_value.split sum.split option.split)

interpretation deposit_processor: event_processor L eh "deposit_events eh"
  "[eh_exchange_address eh, eh_deposit_address eh]" "depositHandler D L eh" "deposit_handled D L eh"
  for D L eh
proof
  show "wp quiet (\<lambda>h' r. case r of
      Done (_, keepGoing) \<Rightarrow> keepGoing \<and> deposit_handled D L eh h' l vs | Panicked _ \<Rightarrow> True)
    (depositHandler D L eh l vs acc) h" for l vs acc h
    by (auto simp: depositHandler_def topic_def intro!: wp_deposit_to_profile)
qed (rule deposit_handled_mono)

section \<open>Stakes and yields\<close>

text \<open>
  A stake event is handled when its amount is not positive, or its vault was looked up and the
  outcome acted on: for a vault, the staker was looked up; for a staker found, the cache of the
  vault was refreshed; with that cache, the stake was passed on at its equity.
\<close>

definition vault_wallet :: "eth_lib \<Rightarrow> eth_log \<Rightarrow> string" where
  "vault_wallet L l = GetWalletStringInRabbitTntStandardFormat (el_address L (log_Address l))"

text \<open>A call was made and, if its answer decodes to a value, the continuation holds of it.\<close>

definition then_holds ::
  "'d history \<Rightarrow> 'd call \<Rightarrow> ('d, 'a option) decoder \<Rightarrow> ('a \<Rightarrow> bool) \<Rightarrow> bool" where
  "then_holds h c dec P \<longleftrightarrow>
     (\<exists>ans. (c, ans) \<in> set h \<and> (\<forall>x. decode_reply dec (a_reply ans) = Inr (Some x) \<longrightarrow> P x))"

lemma then_holds_mono:
  "then_holds h c dec P \<Longrightarrow> set h \<subseteq> set h' \<Longrightarrow> (\<And>x. P x \<Longrightarrow> P' x) \<Longrightarrow> then_holds h' c dec P'"
  unfolding then_holds_def by blast

lemma then_holds_Cons:
  "then_holds ((c', a) # h) c dec P \<longleftrightarrow>
     (c' = c \<and> (\<forall>x. decode_reply dec (a_reply a) = Inr (Some x) \<longrightarrow> P x)) \<or> then_holds h c dec P"
  by (auto simp: then_holds_def)

definition stake_handled ::
  "'d dec_lib \<Rightarrow> eth_lib \<Rightarrow> eth_handler \<Rightarrow> 'd history \<Rightarrow> eth_log \<Rightarrow> abi_value list \<Rightarrow> bool" where
  "stake_handled D L eh h l vs \<longleftrightarrow>
     (\<exists>v rest. vs = AbiInt v # rest \<and>
        (let amount = TokenDecimalsToTDecimal D v (eh_decimals eh) in
         d_le D amount (d_zero D) \<or>
         then_holds h (profile_lookup eh (vault_wallet L l)) (as_ptr as_profile) (\<lambda>vault.
           pr_Type vault = PROFILE_TYPE_VAULT \<longrightarrow>
           then_holds h (profile_lookup eh (walletOf L (log_Topics l ! 2))) (as_ptr as_profile) (\<lambda>p.
             then_holds h (Execute PROFILE_INSTANCE INVALIDATE_CACHE [VUint (pr_ProfileId vault)])
               (as_ptr as_cache) (\<lambda>cache.
               made h (Execute PROFILE_INSTANCE PROCESS_STAKE
                 [VUint (pr_ProfileId p), VUint (pr_ProfileId vault), VString (vault_wallet L l),
                  VString (''s_'' @ show_nat (uint64_of_hash (log_Topics l ! 1))),
                  VDecimal amount, opt_val VDecimal (pc_AccountEquity cache),
                  VString (el_hash L (log_TxHash l)), VBool False,
                  VString (eh_exchangeId eh)]))))))"

lemma stake_handled_mono:
  assumes "stake_handled D L eh h l vs" and sub: "set h \<subseteq> set h'"
  shows "stake_handled D L eh h' l vs"
  using assms(1) unfolding stake_handled_def Let_def
  apply (elim exE conjE)
  apply (intro exI conjI, assumption)
  apply (erule disj_forward, assumption)
  apply (erule then_holds_mono [OF _ sub])
  apply (erule imp_forward, assumption)
  apply (erule then_holds_mono [OF _ sub])+
  apply (erule made_mono [OF _ sub])
  done

interpretation stake_processor: event_processor L eh "[(eh_vaultStakeID eh, ''Stake'')]"
  "eh_vaults eh" "stakeHandler D L eh" "stake_handled D L eh"
  for D L eh
proof
  show "wp quiet (\<lambda>h' r. case r of
      Done (_, keepGoing) \<Rightarrow> keepGoing \<and> stake_handled D L eh h' l vs | Panicked _ \<Rightarrow> True)
    (stakeHandler D L eh l vs acc) h" for l vs acc h
    by (auto simp: stakeHandler_def topic_def Let_def first_int_def wp_andThen wp_onErr cursor_call_def
        GetProfileByWalletForExchangeId_def ProcessStake_def InvalidateCache_def
        InvalidateCacheAndNotify_def ignoring_def stake_handled_def profile_lookup_def vault_wallet_def
        then_holds_Cons
        split: list.split abi_value.split sum.split option.split)
qed (rule stake_handled_mono)

text \<open>A yield is handled when its amount is not positive or it was passed on.\<close>

definition yield_handled ::
  "'d dec_lib \<Rightarrow> eth_lib \<Rightarrow> eth_handler \<Rightarrow> 'd history \<Rightarrow> eth_log \<Rightarrow> abi_value list \<Rightarrow> bool" where
  "yield_handled D L eh h l vs \<longleftrightarrow>
     (\<exists>v rest. vs = AbiInt v # rest \<and>
        (d_le D (TokenDecimalsToTDecimal D v (eh_decimals eh)) (d_zero D) \<or>
         made h (Execute PROFILE_INSTANCE PROCESS_YIELD
           ([VString (''y_'' @ show_nat (yield_id L eh l)),
             VDecimal (TokenDecimalsToTDecimal D v (eh_decimals eh)),
             VString (el_hash L (log_TxHash l))] @ deposit_tail L eh))))"

interpretation yield_processor: event_processor L eh "[(eh_claimedYieldID eh, ''ClaimedYield'')]"
  "[eh_exchange_address eh]" "yieldHandler D L eh" "yield_handled D L eh"
  for D L eh
proof
  show "wp quiet (\<lambda>h' r. case r of
      Done (_, keepGoing) \<Rightarrow> keepGoing \<and> yield_handled D L eh h' l vs | Panicked _ \<Rightarrow> True)
    (yieldHandler D L eh l vs acc) h" for l vs acc h
    by (auto simp: yieldHandler_def Let_def first_int_def wp_andThen cursor_call_def
        ProcessYield_def ignoring_def yield_handled_def deposit_tail_def
        split: list.split abi_value.split)
qed (auto simp: yield_handled_def intro: made_mono)

section \<open>The scans\<close>

definition deposits_scanned ::
  "'d dec_lib \<Rightarrow> eth_lib \<Rightarrow> eth_handler \<Rightarrow> 'd history \<Rightarrow> int \<Rightarrow> int \<Rightarrow> bool" where
  "deposits_scanned D L eh h a b \<longleftrightarrow>
     range_handled (decode_log L eh (deposit_events eh)) (deposit_handled D L eh)
       (range_query (deposit_events eh) [eh_exchange_address eh, eh_deposit_address eh] a b) h \<and>
     range_handled (decode_log L eh [(eh_vaultStakeID eh, ''Stake'')]) (stake_handled D L eh)
       (range_query [(eh_vaultStakeID eh, ''Stake'')] (eh_vaults eh) a b) h"

definition yields_scanned ::
  "'d dec_lib \<Rightarrow> eth_lib \<Rightarrow> eth_handler \<Rightarrow> 'd history \<Rightarrow> int \<Rightarrow> int \<Rightarrow> bool" where
  "yields_scanned D L eh h a b \<longleftrightarrow>
     range_handled (decode_log L eh [(eh_claimedYieldID eh, ''ClaimedYield'')]) (yield_handled D L eh)
       (range_query [(eh_claimedYieldID eh, ''ClaimedYield'')] [eh_exchange_address eh] a b) h"

lemma range_handled_mono:
  assumes "range_handled dec handled q h" and "set h \<subseteq> set h'"
    and "\<And>l vs. handled h l vs \<Longrightarrow> handled h' l vs"
  shows "range_handled dec handled q h'"
  using assms unfolding range_handled_def by blast

interpretation deposit_scan: block_scanner L eh DEPOSIT_AND_STAKING_EVENT
  "deposits_and_stakes D L eh" "deposits_scanned D L eh"
  for D L eh
proof
  show "wp quiet (\<lambda>h' r. r = Done True \<longrightarrow> deposits_scanned D L eh h' a b) (deposits_and_stakes D L eh a b) h"
    for a b h
    unfolding deposits_and_stakes_def processDepositEvents_def processStakeEvents_def wp_andThen
  proof (rule wp_mono [OF deposit_processor.wp_processEvents], goal_cases)
    case (1 h' r)
    show ?case
    proof (cases r)
      case (Done ok)
      show ?thesis
      proof (cases ok)
        case True
        then have deps: "range_handled (decode_log L eh (deposit_events eh)) (deposit_handled D L eh)
            (range_query (deposit_events eh) [eh_exchange_address eh, eh_deposit_address eh] a b) h'"
          using 1 Done by simp
        show ?thesis
          using True Done
          by (auto intro!: wp_mono [OF stake_processor.wp_processEvents] range_handled_mono [OF deps]
              simp: deposits_scanned_def dest: extends_set intro: deposit_handled_mono)
      qed (simp add: Done)
    qed simp
  qed
  show "deposits_scanned D L eh h a b \<Longrightarrow> set h \<subseteq> set h' \<Longrightarrow> deposits_scanned D L eh h' a b" for h a b h'
    unfolding deposits_scanned_def
    by (blast intro: range_handled_mono deposit_handled_mono stake_handled_mono)
qed

interpretation yield_scan: block_scanner L eh PROCESS_YIELD_EVENT
  "ProcessYieldEvents D L eh" "yields_scanned D L eh"
  for D L eh
proof
  show "wp quiet (\<lambda>h' r. r = Done True \<longrightarrow> yields_scanned D L eh h' a b) (ProcessYieldEvents D L eh a b) h"
    for a b h
    unfolding ProcessYieldEvents_def yields_scanned_def by (rule yield_processor.wp_processEvents)
  show "yields_scanned D L eh h a b \<Longrightarrow> set h \<subseteq> set h' \<Longrightarrow> yields_scanned D L eh h' a b" for h a b h'
    unfolding yields_scanned_def
    by (blast intro: range_handled_mono yield_processor.handled_mono)
qed

end
