(* ===== verification/Demo_Chain.thy ===== *)
theory Demo_Chain
  imports Settlement_Events Demo_Env
begin

text \<open>
  A concrete chain for the examples: an exchange contract on Blast whose head is block 20, a
  profile instance that keeps the cursor of the scans, and a handler with two confirmations.
  The cursor read is the one last written, or 5.
\<close>

definition demo_lib :: eth_lib where
  "demo_lib = \<lparr> el_address = (\<lambda>a. ''0xab''), el_to_address = (\<lambda>s. if s = ''t'' then 9 else 8),
     el_hash = (\<lambda>w. ''t''), el_unpack = (\<lambda>k ty bs. Inr [AbiInt (int (length bs))]),
     el_keccak = (\<lambda>bs. 1) \<rparr>"

definition demo_handler :: eth_handler where
  "demo_handler = \<lparr> eh_deposit_address = 2, eh_exchange_address = 1, eh_decimals = 1,
     eh_vaults = [3], eh_providerUrl = '''', eh_walletAddress = 4, eh_withdrawalReceiptID = 10,
     eh_rabbitDepositID = 11, eh_proxyDepositID = 12, eh_vaultStakeID = 13, eh_claimedYieldID = 14,
     eh_withdrawalBlockDelay = 100, eh_defaultFromBlock = 1, eh_blockConfirmations = 2,
     eh_cancelInterval = 0, eh_claimYield = True, eh_exchangeId = ''bfx'', eh_chainId = 81457 \<rparr>"

text \<open>The cursor of one chain: the first parameter of the latest write\<close>

fun cursor_text :: "rat history \<Rightarrow> string" where
  "cursor_text [] = ''5''"
| "cursor_text ((Execute i fn (VString b # ps), ans) # h) =
     (if fn = SET_LAST_PROCESSED_BLOCK_NUMBER then b else cursor_text h)"
| "cursor_text (_ # h) = cursor_text h"

text \<open>The environment; \<open>logs\<close> are those of every range and \<open>shared\<close> is the shared block number.\<close>

fun chain_answer :: "eth_log list \<Rightarrow> int \<Rightarrow> rat history \<Rightarrow> rat call \<Rightarrow> rat answer" where
  "chain_answer logs shared h (Execute i fn ps) = answer_with (BRows [(
     if fn = GET_LAST_PROCESSED_BLOCK_NUMBER then VString (cursor_text h)
     else if fn = GET_WITHDRAWALS_SUSPENDED then VBool False
     else if fn = GET_PENDING_WITHDRAWALS then VList [VOps demo_withdrawal]
     else if fn = ROLLING_24_WDS then VDecimal 1000
     else demo_value fn, '''')])"
| "chain_answer logs shared h EthHeader = (answer_with (BRows [])) \<lparr> a_int := Inr 20 \<rparr>"
| "chain_answer logs shared h (EthFilterLogs q) = (answer_with (BRows [])) \<lparr> a_logs := Inr logs \<rparr>"
| "chain_answer logs shared h (LoadFlag f) = (answer_with (BRows [])) \<lparr> a_flag := (f = ''ethClient'') \<rparr>"
| "chain_answer logs shared h (LoadBlock v) = (answer_with (BRows [])) \<lparr> a_block := shared \<rparr>"
| "chain_answer logs shared h c = answer_with (BRows [])"

text \<open>A deposit of three units of the last decimal\<close>

definition demo_log :: eth_log where
  "demo_log = \<lparr> log_Address = 1, log_Topics = [11, 5, 6], log_Data = [0, 0, 0], log_BlockNumber = 7,
     log_TxHash = 21, log_Index = 0, log_Removed = False \<rparr>"

lemma parse_five [simp]: "parse_nat ''5'' = Some 5"
  by (simp add: parse_nat_def digit_value_def)

lemma made_split: "made h c \<Longrightarrow> \<exists>post ans pre. h = post @ (c, ans) # pre"
  unfolding made_def by (meson split_list)

lemmas chain_run_defs =
  demo_run_defs run_andThen ensureConnected_def checkLastProcessedBlockNumbers_def
  getCurrentBlockNumber_def GetLastProcessedBlockNumber_def SetLastProcessedBlockNumber_def
  next_range_def getL1BlockNumbers_def processEvents_def filterLogs_def process_logs_def
  exchange_text_def demo_handler_def demo_lib_def to_lower_def to_lower_char_def MAX_BLOCKS_def
  range_query_def answer_with_def

lemmas chain_scan_defs =
  chain_run_defs processDepositsAndStaking_def DistributeYield_def scan_blocks_def scan_loop.simps
  deposits_and_stakes_def processDepositEvents_def processStakeEvents_def ProcessYieldEvents_def
  deposit_events_def ProcessDroppedDepositsAndStakes_def GetPendingDeposits_def GetPendingStakes_def

lemmas chain_withdrawal_defs =
  chain_run_defs completeWithdrawalsAndUnstakes_def withdrawal_loop.simps
  processWithdrawalReceiptEvents_def withdrawalBatchHandler_def CompletedWithdrawals_def

lemmas chain_deposit_defs =
  depositHandler_def deposit_to_profile_def topic_def first_int_def log_abi_def demo_log_def
  GetProfileByWalletForExchangeId_def ProcessDeposit_def InvalidateCacheAndNotify_def ignoring_def
  walletOf_def GetWalletStringInRabbitTntStandardFormat_def has_prefix_def
  TokenDecimalsToTDecimal_def createMultiplier_def d_zero_def

end
