(* ===== verification/Settlement_Props.thy ===== *)
theory Settlement_Props
  imports Demo_Chain
begin

text \<open>
  The promises of the settlement: its cursors never skip an unprocessed block, its scans end,
  withdrawals go on only below the daily limit. And three defects: the cursor of the
  withdrawals follows a block number other goroutines write, an unread error stops the service,
  and the retry of a claim has no bound.
\<close>

section \<open>Events\<close>

text \<open>Property C11. On logs that carry at least their event id, the scan of a range calls the handler on
  exactly the logs that are confirmed, not removed by a reorganisation, emitted by a known
  contract and decoded to some value, in the order the node returned them, until a handler
  says to stop.\<close>

theorem event_loop_refines_decoded:
  assumes "\<forall>l \<in> set logs. log_Topics l \<noteq> []"
  shows "event_loop L eh types handler logs acc = handle_all handler (decoded_logs L eh types logs) acc"
  using assms
proof (induction logs arbitrary: acc)
  case (Cons l ls)
  have "event_loop L eh types handler ls = handle_all handler (decoded_logs L eh types ls)"
    using Cons by auto
  then show ?case
    using Cons.prems
    by (simp add: event_loop_Cons del: event_loop.simps split: option.split cong del: if_weak_cong)
qed simp

lemma event_loop_refines_decoded_witness:
  "event_loop demo_lib demo_handler [(11, ''Deposit'')] (depositHandler rat_lib demo_lib demo_handler)
     [demo_log, demo_log \<lparr> log_Removed := True \<rparr>, demo_log \<lparr> log_Topics := [9] \<rparr>] None =
   handle_all (depositHandler rat_lib demo_lib demo_handler) [(demo_log, [AbiInt 3])] None"
proof -
  have "decoded_logs demo_lib demo_handler [(11, ''Deposit'')]
      [demo_log, demo_log \<lparr> log_Removed := True \<rparr>, demo_log \<lparr> log_Topics := [9] \<rparr>] =
    [(demo_log, [AbiInt 3])]"
    by (simp add: decode_log_def demo_log_def demo_handler_def demo_lib_def log_abi_def)
  then show ?thesis
    by (subst event_loop_refines_decoded) (simp_all add: demo_log_def)
qed

section \<open>Cursors\<close>

lemma wp_guarded:
  assumes "wp P Q p h" and "run E p h = (h', r)" and "h' = post @ (c, ans) # pre"
    and "length h \<le> length pre"
  shows "P pre c"
  using wp_run [OF assms(1,2)] assms(3,4) by (auto intro: extends_call)

lemma wp_drop_pending:
  assumes "\<And>h c. \<not> cursor_call c \<Longrightarrow> P h c"
  shows "wp P (\<lambda>_ _. True) (drop_pending eh ops) h"
  by (induction ops arbitrary: h)
    (auto simp: now_def wp_andThen ignoring_def PendingDepositCanceled_def assms cursor_call_def
      split: sum.split)

lemma wp_dropped:
  "wp (deposit_scan.guard L eh D) (\<lambda>_ _. True) (ProcessDroppedDepositsAndStakes L eh) h"
proof -
  have other: "deposit_scan.guard L eh D h c" if "\<not> cursor_call c" for h c
    using that by (intro deposit_scan.guard_other) (auto simp: cursor_call_def set_cursor_call_def)
  have ops: "wp (deposit_scan.guard L eh D) (\<lambda>_ _. True) (drop_pending eh ops) h" for ops h
    by (rule wp_drop_pending) (rule other)
  have calls: "\<not> cursor_call (Execute PROFILE_INSTANCE GET_PENDING_DEPOSITS ps)"
    "\<not> cursor_call (Execute PROFILE_INSTANCE GET_PENDING_STAKES ps)" for ps :: "'a gval list"
    by (simp_all add: cursor_call_def)
  show ?thesis
    by (auto simp: ops ProcessDroppedDepositsAndStakes_def GetPendingDeposits_def
        GetPendingStakes_def Let_def wp_onErr wp_andThen other calls
        intro!: wp_mono [OF deposit_scan.wp_ensureConnected] split: sum.split outcome.split)
qed

text \<open>Property C7. The cursor of the deposits and stakes is only ever written to the configured start or to the
  end of a range that begins right after the cursor last read, is not longer than 2000 blocks,
  ends at a block with the required confirmations, and whose every decoded deposit and stake
  event has been handled; no block is skipped and none is passed before it is processed.\<close>

theorem deposit_cursor_never_skips:
  assumes "run E (processDepositsAndStaking D L eh fuel) [] = (h, r)"
    and "h = post @ (Execute PROFILE_INSTANCE SET_LAST_PROCESSED_BLOCK_NUMBER ps, ans) # pre"
  shows "\<exists>b. Execute PROFILE_INSTANCE SET_LAST_PROCESSED_BLOCK_NUMBER ps =
             set_cursor L eh DEPOSIT_AND_STAKING_EVENT b \<and>
     (b = eh_defaultFromBlock eh \<or>
      (\<exists>last head. cursor_at L eh DEPOSIT_AND_STAKING_EVENT pre = Some last \<and> reported_head pre head \<and>
         b = min (head - eh_blockConfirmations eh) (last + 1 + 1999) \<and> last < b \<and>
         deposits_scanned D L eh pre (last + 1) b))"
proof -
  have "wp (deposit_scan.guard L eh D) (\<lambda>_ _. True) (processDepositsAndStaking D L eh fuel) []"
    unfolding processDepositsAndStaking_def wp_andThen
    by (rule wp_mono [OF deposit_scan.wp_scan_blocks])
      (auto simp: wp_andThen wp_mono [OF wp_dropped] split: outcome.split option.split)
  from wp_guarded [OF this assms]
  obtain b where "Execute PROFILE_INSTANCE SET_LAST_PROCESSED_BLOCK_NUMBER ps =
      set_cursor L eh DEPOSIT_AND_STAKING_EVENT b" and "deposit_scan.cursor_ok L eh D pre b"
    by (auto simp: deposit_scan.guard_def set_cursor_call_def)
  then show ?thesis
    by (intro exI [of _ b]) (auto simp: deposit_scan.cursor_ok_def range_end_def MAX_BLOCKS_def)
qed

lemma demo_deposit_scan:
  "made (fst (run (chain_answer [demo_log] 0)
       (processDepositsAndStaking rat_lib demo_lib demo_handler 1) []))
     (Execute PROFILE_INSTANCE SET_LAST_PROCESSED_BLOCK_NUMBER
        [VString (show_int 18), VString ''0xab'', VUint 81457, VString DEPOSIT_AND_STAKING_EVENT])"
  by (simp add: chain_scan_defs chain_deposit_defs)

lemma deposit_cursor_never_skips_witness:
  "\<exists>post ps ans pre b.
     fst (run (chain_answer [demo_log] 0)
       (processDepositsAndStaking rat_lib demo_lib demo_handler 1) []) =
       post @ (Execute PROFILE_INSTANCE SET_LAST_PROCESSED_BLOCK_NUMBER ps, ans) # pre \<and>
     (b = eh_defaultFromBlock demo_handler \<or>
      (\<exists>last head. cursor_at demo_lib demo_handler DEPOSIT_AND_STAKING_EVENT pre = Some last \<and>
         reported_head pre head \<and>
         b = min (head - eh_blockConfirmations demo_handler) (last + 1 + 1999) \<and> last < b \<and>
         deposits_scanned rat_lib demo_lib demo_handler pre (last + 1) b))"
  using made_split [OF demo_deposit_scan] deposit_cursor_never_skips [OF prod.collapse [symmetric]]
  by blast

text \<open>The cursor of the yields has the same discipline.\<close>

theorem yield_cursor_never_skips:
  assumes "run E (DistributeYield D L eh fuel) [] = (h, r)"
    and "h = post @ (Execute PROFILE_INSTANCE SET_LAST_PROCESSED_BLOCK_NUMBER ps, ans) # pre"
  shows "\<exists>b. Execute PROFILE_INSTANCE SET_LAST_PROCESSED_BLOCK_NUMBER ps =
             set_cursor L eh PROCESS_YIELD_EVENT b \<and>
     (b = eh_defaultFromBlock eh \<or>
      (\<exists>last head. cursor_at L eh PROCESS_YIELD_EVENT pre = Some last \<and> reported_head pre head \<and>
         b = min (head - eh_blockConfirmations eh) (last + 1 + 1999) \<and> last < b \<and>
         yields_scanned D L eh pre (last + 1) b))"
proof -
  have "wp (yield_scan.guard L eh D) (\<lambda>_ _. True) (DistributeYield D L eh fuel) []"
    unfolding DistributeYield_def wp_andThen
    by (rule wp_mono [OF yield_scan.wp_scan_blocks]) (auto split: outcome.split)
  from wp_guarded [OF this assms]
  obtain b where "Execute PROFILE_INSTANCE SET_LAST_PROCESSED_BLOCK_NUMBER ps =
      set_cursor L eh PROCESS_YIELD_EVENT b" and "yield_scan.cursor_ok L eh D pre b"
    by (auto simp: yield_scan.guard_def set_cursor_call_def)
  then show ?thesis
    by (intro exI [of _ b]) (auto simp: yield_scan.cursor_ok_def range_end_def MAX_BLOCKS_def)
qed

lemma demo_yield_scan:
  "made (fst (run (chain_answer [] 0) (DistributeYield rat_lib demo_lib demo_handler 1) []))
     (Execute PROFILE_INSTANCE SET_LAST_PROCESSED_BLOCK_NUMBER
        [VString (show_int 18), VString ''0xab'', VUint 81457, VString PROCESS_YIELD_EVENT])"
  by (simp add: chain_scan_defs)

lemma yield_cursor_never_skips_witness:
  "\<exists>post ps ans pre b.
     fst (run (chain_answer [] 0) (DistributeYield rat_lib demo_lib demo_handler 1) []) =
       post @ (Execute PROFILE_INSTANCE SET_LAST_PROCESSED_BLOCK_NUMBER ps, ans) # pre \<and>
     (b = eh_defaultFromBlock demo_handler \<or>
      (\<exists>last head. cursor_at demo_lib demo_handler PROCESS_YIELD_EVENT pre = Some last \<and>
         reported_head pre head \<and>
         b = min (head - eh_blockConfirmations demo_handler) (last + 1 + 1999) \<and> last < b \<and>
         yields_scanned rat_lib demo_lib demo_handler pre (last + 1) b))"
  using made_split [OF demo_yield_scan] yield_cursor_never_skips [OF prod.collapse [symmetric]]
  by blast

section \<open>The scans end\<close>

text \<open>The block number an answer to a read of the cursor holds\<close>

definition cursor_value :: "'d answer \<Rightarrow> int option" where
  "cursor_value ans =
     (case decode_reply as_string (a_reply ans) of Inl _ \<Rightarrow> None | Inr s \<Rightarrow> parse_int s)"

lemma run_next_range:
  assumes "run E (next_range L eh event) h = (h', Done (Inr (a, b)))"
    and "\<And>h n. a_int (E h EthHeader) = Inr n \<Longrightarrow> n \<le> H"
  shows "b \<le> H - eh_blockConfirmations eh \<and>
    (\<exists>last. cursor_value (E h (get_cursor L eh event)) = Some last \<and> a = last + 1)"
  using assms
  by (auto simp: next_range_def GetLastProcessedBlockNumber_def onErr_def Request_def Let_def
      getL1BlockNumbers_def getCurrentBlockNumber_def run_andThen get_cursor_def cursor_value_def
      split: sum.splits option.splits if_splits) force+

lemma scan_loop_ends:
  assumes heads: "\<And>h n. a_int (E h EthHeader) = Inr n \<Longrightarrow> n \<le> H"
    and keeps: "\<And>h b ans last. cursor_value (E ((set_cursor L eh event b, ans) # h) (get_cursor L eh event)) =
          Some last \<Longrightarrow> b \<le> last"
  shows "b \<le> H - eh_blockConfirmations eh \<Longrightarrow> nat (H - eh_blockConfirmations eh + 1 - a) \<le> fuel \<Longrightarrow>
    snd (run E (scan_loop L eh event step fuel (a, b)) h) \<noteq> Done None"
proof (induction fuel arbitrary: a b h)
  case 0
  then show ?case by (subst scan_loop.simps) simp
next
  case (Suc n)
  have set_call: "SetLastProcessedBlockNumber b (exchange_text L eh) (eh_chainId eh) event =
      Call (set_cursor L eh event b) (\<lambda>ans. Return (err_of (decode_reply (as_list as_any) (a_reply ans))))"
    by (simp add: SetLastProcessedBlockNumber_def set_cursor_def Request_err_def Let_def)
  have next_ends: "snd (run E (scan_loop L eh event step n (a', b')) h'') \<noteq> Done None"
    if le: "a \<le> b" and nr: "run E (next_range L eh event) ((set_cursor L eh event b, ans) # h') = (h'', Done (Inr (a', b')))"
    for ans h' h'' a' b'
  proof -
    obtain last where "b' \<le> H - eh_blockConfirmations eh" "a' = last + 1"
      "cursor_value (E ((set_cursor L eh event b, ans) # h') (get_cursor L eh event)) = Some last"
      using run_next_range [OF nr, of H] heads by blast
    then show ?thesis
      using keeps [of b ans h' last] le Suc.prems(2) by (intro Suc.IH) auto
  qed
  show ?case
    by (subst scan_loop.simps)
      (auto simp: run_andThen onErr_def set_call next_ends split: outcome.split prod.split sum.split)
qed

text \<open>Property C8. The scans of deposits and yields end: if the heads the node reports are bounded and a read of
  the cursor right after a write gives no smaller block than the one written, there is a number
  of rounds within which the scan has returned, whatever the events and the answers are.\<close>

theorem scans_end:
  assumes "\<forall>h n. a_int (E h EthHeader) = Inr n \<longrightarrow> n \<le> H"
    and "\<forall>event h b ans last. cursor_value (E ((set_cursor L eh event b, ans) # h) (get_cursor L eh event)) =
          Some last \<longrightarrow> b \<le> last"
  shows "\<exists>rounds. \<forall>fuel \<ge> rounds. snd (run E (processDepositsAndStaking D L eh fuel) h) \<noteq> Done None \<and>
     snd (run E (DistributeYield D L eh fuel) h) \<noteq> Done None"
proof -
  have ends: "\<exists>rounds. \<forall>fuel \<ge> rounds. snd (run E (scan_blocks L eh event step fuel) h) \<noteq> Done None" for event step
  proof -
    obtain h1 r1 where r1: "run E (ensureConnected eh (exchange_text L eh) event (eh_chainId eh)) h = (h1, r1)"
      by force
    obtain h2 r2 where r2: "run E (next_range L eh event) h1 = (h2, r2)" by force
    show ?thesis
    proof (cases "\<exists>a b. r2 = Done (Inr (a, b))")
      case True
      then obtain a b where ab: "r2 = Done (Inr (a, b))" by blast
      have "b \<le> H - eh_blockConfirmations eh"
        using run_next_range r2 ab assms(1) by metis
      then have "snd (run E (scan_loop L eh event step fuel (a, b)) h2) \<noteq> Done None"
        if "nat (H - eh_blockConfirmations eh + 1 - a) \<le> fuel" for fuel
        using scan_loop_ends [of E H L eh event b a fuel step h2] assms that by blast
      then show ?thesis
        using r1 r2 ab
        by (intro exI [of _ "nat (H - eh_blockConfirmations eh + 1 - a)"])
          (auto simp: scan_blocks_def run_andThen onErr_def split: outcome.split)
    next
      case False
      then show ?thesis
        using r1 r2 by (auto simp: scan_blocks_def run_andThen onErr_def split: outcome.split sum.split)
    qed
  qed
  obtain m where m: "\<And>fuel. m \<le> fuel \<Longrightarrow> snd (run E (scan_blocks L eh DEPOSIT_AND_STAKING_EVENT
      (deposits_and_stakes D L eh) fuel) h) \<noteq> Done None"
    using ends by blast
  obtain n where n: "\<And>fuel. n \<le> fuel \<Longrightarrow> snd (run E (scan_blocks L eh PROCESS_YIELD_EVENT
      (ProcessYieldEvents D L eh) fuel) h) \<noteq> Done None"
    using ends by blast
  have "snd (run E (processDepositsAndStaking D L eh fuel) h) \<noteq> Done None" if "m \<le> fuel" for fuel
    using m [OF that]
    by (auto simp: processDepositsAndStaking_def run_andThen split: prod.splits outcome.splits option.splits)
  moreover have "snd (run E (DistributeYield D L eh fuel) h) \<noteq> Done None" if "n \<le> fuel" for fuel
    using n [OF that] by (auto simp: DistributeYield_def run_andThen split: prod.splits outcome.splits)
  ultimately show ?thesis
    by (intro exI [of _ "max m n"]) simp
qed

lemma scans_end_witness:
  "\<exists>rounds. \<forall>fuel \<ge> rounds.
     snd (run (chain_answer [] 0) (processDepositsAndStaking rat_lib demo_lib demo_handler fuel) []) \<noteq> Done None \<and>
     snd (run (chain_answer [] 0) (DistributeYield rat_lib demo_lib demo_handler fuel) []) \<noteq> Done None"
proof (rule scans_end [of "chain_answer [] 0" 20], goal_cases)
  case 1
  show ?case by simp
next
  case 2
  show ?case
    by (simp add: cursor_value_def get_cursor_def set_cursor_def decode_reply_def)
qed

section \<open>Deposits\<close>

definition deposit_guard :: "'d dec_lib \<Rightarrow> eth_lib \<Rightarrow> eth_handler \<Rightarrow> eth_log \<Rightarrow> abi_value list \<Rightarrow> 'd call_cond" where
  "deposit_guard D L eh l vs h c \<longleftrightarrow>
     (\<forall>ps. c = Execute PROFILE_INSTANCE PROCESS_DEPOSIT ps \<longrightarrow>
        (\<exists>v rest p ans. vs = AbiInt v # rest \<and>
           \<not> d_le D (TokenDecimalsToTDecimal D v (eh_decimals eh)) (d_zero D) \<and>
           (profile_lookup eh (walletOf L (log_Topics l ! 2)), ans) \<in> set h \<and>
           decode_reply (as_ptr as_profile) (a_reply ans) = Inr (Some p) \<and>
           ps = VUint (pr_ProfileId p) # deposit_args D L eh l v @
             VBool (log_Address l = eh_deposit_address eh \<and> log_Topics l ! 3 \<noteq> 0) # deposit_tail L eh) \<and>
        (\<forall>ps. \<not> made h (Execute PROFILE_INSTANCE PROCESS_DEPOSIT ps)))"

lemma wp_deposit_guard:
  assumes "t1 = log_Topics l ! 1" and "t2 = log_Topics l ! 2"
    and "pooled \<longleftrightarrow> log_Address l = eh_deposit_address eh \<and> log_Topics l ! 3 \<noteq> 0"
  shows "wp (deposit_guard D L eh l vs) (\<lambda>_ _. True) (deposit_to_profile D L eh l vs t1 t2 pooled) []"
  using assms
  by (auto simp: deposit_to_profile_def Let_def first_int_def wp_andThen
      GetProfileByWalletForExchangeId_def ProcessDeposit_def ProcessDepositUnknown_def
      InvalidateCacheAndNotify_def ignoring_def deposit_guard_def deposit_args_def
      deposit_tail_def profile_lookup_def
      split: list.split abi_value.split sum.split option.split)

text \<open>Property C10. A deposit event credits at most one profile: the one the profile instance found for the wallet
  in the event, once, with the event's id, its positive amount and its transaction.\<close>

theorem deposit_credits_the_event:
  assumes "run E (depositHandler D L eh l vs acc) [] = (h, r)"
    and "h = post @ (Execute PROFILE_INSTANCE PROCESS_DEPOSIT ps, ans) # pre"
  shows "(\<exists>v rest p ans. vs = AbiInt v # rest \<and>
       \<not> d_le D (TokenDecimalsToTDecimal D v (eh_decimals eh)) (d_zero D) \<and>
       (profile_lookup eh (walletOf L (log_Topics l ! 2)), ans) \<in> set pre \<and>
       decode_reply (as_ptr as_profile) (a_reply ans) = Inr (Some p) \<and>
       ps = [VUint (pr_ProfileId p), VString (walletOf L (log_Topics l ! 2)),
         VString (''d_'' @ show_nat (uint64_of_hash (log_Topics l ! 1))),
         VDecimal (TokenDecimalsToTDecimal D v (eh_decimals eh)), VString (el_hash L (log_TxHash l)),
         VBool (log_Address l = eh_deposit_address eh \<and> log_Topics l ! 3 \<noteq> 0),
         VString (eh_exchangeId eh), VUint (eh_chainId eh), VString (exchange_text L eh)]) \<and>
     (\<forall>ps. \<not> made pre (Execute PROFILE_INSTANCE PROCESS_DEPOSIT ps))"
proof -
  have "wp (deposit_guard D L eh l vs) (\<lambda>_ _. True) (depositHandler D L eh l vs acc) []"
    by (auto simp: depositHandler_def topic_def intro!: wp_deposit_guard)
  from wp_guarded [OF this assms] show ?thesis
    by (simp add: deposit_guard_def deposit_args_def deposit_tail_def)
qed

lemma demo_deposit_run:
  "made (fst (run (chain_answer [] 0) (depositHandler rat_lib demo_lib demo_handler demo_log [AbiInt 3] None) []))
     (Execute PROFILE_INSTANCE PROCESS_DEPOSIT
        [VUint 9, VString ''0xab'', VString (''d_'' @ show_nat (uint64_of_hash 5)), VDecimal (3 / 10),
         VString ''t'', VBool False, VString ''bfx'', VUint 81457, VString ''0xab''])"
  by (simp add: chain_run_defs chain_deposit_defs)

lemma deposit_credits_the_event_witness:
  "\<exists>post ans pre.
     fst (run (chain_answer [] 0) (depositHandler rat_lib demo_lib demo_handler demo_log [AbiInt 3] None) []) =
       post @ (Execute PROFILE_INSTANCE PROCESS_DEPOSIT
        [VUint 9, VString ''0xab'', VString (''d_'' @ show_nat (uint64_of_hash 5)), VDecimal (3 / 10),
         VString ''t'', VBool False, VString ''bfx'', VUint 81457, VString ''0xab''], ans) # pre \<and>
     (\<forall>ps. \<not> made pre (Execute PROFILE_INSTANCE PROCESS_DEPOSIT ps)) \<and>
     (\<exists>ans p. (profile_lookup demo_handler (walletOf demo_lib 6), ans) \<in> set pre \<and>
        decode_reply (as_ptr as_profile) (a_reply ans) = Inr (Some p) \<and> pr_ProfileId p = 9)"
proof -
  from made_split [OF demo_deposit_run] obtain post ans pre where
    h: "fst (run (chain_answer [] 0) (depositHandler rat_lib demo_lib demo_handler demo_log [AbiInt 3] None) []) =
       post @ (Execute PROFILE_INSTANCE PROCESS_DEPOSIT
        [VUint 9, VString ''0xab'', VString (''d_'' @ show_nat (uint64_of_hash 5)), VDecimal (3 / 10),
         VString ''t'', VBool False, VString ''bfx'', VUint 81457, VString ''0xab''], ans) # pre"
    by blast
  have topic: "log_Topics demo_log ! 2 = 6"
    by (simp add: demo_log_def)
  note credited = deposit_credits_the_event [OF prod.collapse [symmetric] h, unfolded topic]
  have "\<forall>ps. \<not> made pre (Execute PROFILE_INSTANCE PROCESS_DEPOSIT ps)"
    using credited by (rule conjunct2)
  moreover have "\<exists>ans p. (profile_lookup demo_handler (walletOf demo_lib 6), ans) \<in> set pre \<and>
      decode_reply (as_ptr as_profile) (a_reply ans) = Inr (Some p) \<and> pr_ProfileId p = 9"
    using conjunct1 [OF credited] unfolding list.inject gval.inject
    by (elim exE conjE) (intro exI conjI, assumption, assumption, erule sym)
  ultimately show ?thesis
    using h by blast
qed

text \<open>A lookup that succeeds without a profile is reported by reading the text of a nil error: the
  handler panics instead of crediting the deposit as unknown.\<close>

theorem deposit_without_profile_panics:
  assumes "log_Topics l = [t0, t1, t2]" and "log_Address l \<noteq> eh_deposit_address eh"
    and "el_to_address L (el_hash L t2) \<noteq> eh_deposit_address eh"
    and "\<not> d_le D (TokenDecimalsToTDecimal D v (eh_decimals eh)) (d_zero D)"
    and "decode_reply (as_ptr as_profile) (a_reply (E h (profile_lookup eh (walletOf L t2)))) = Inr None"
  shows "snd (run E (depositHandler D L eh l (AbiInt v # rest) acc) h) =
    Panicked ''nil pointer dereference''"
  using assms
  by (simp add: depositHandler_def topic_def deposit_to_profile_def first_int_def run_andThen
      GetProfileByWalletForExchangeId_def Request_def profile_lookup_def Let_def)

lemma deposit_without_profile_panics_witness:
  "snd (run (\<lambda>_ _. answer_with (BRows [(VNil, '''')]))
       (depositHandler rat_lib demo_lib demo_handler demo_log [AbiInt 3] None) []) =
    Panicked ''nil pointer dereference''"
  by (rule deposit_without_profile_panics)
    (simp_all add: demo_log_def demo_handler_def demo_lib_def decode_reply_def d_zero_def
      TokenDecimalsToTDecimal_def createMultiplier_def)

text \<open>When the lookup of the wallet fails for any other reason, such as a lost connection, the
  deposit is neither credited nor recorded as unknown, and the handler lets the scan go on, so that
  the cursor passes it.\<close>

theorem failed_lookup_drops_deposit:
  assumes "log_Topics l = [t0, t1, t2]" and "log_Address l \<noteq> eh_deposit_address eh"
    and "el_to_address L (el_hash L t2) \<noteq> eh_deposit_address eh"
    and "\<not> d_le D (TokenDecimalsToTDecimal D v (eh_decimals eh)) (d_zero D)"
    and "decode_reply (as_ptr as_profile) (a_reply (E h (profile_lookup eh (walletOf L t2)))) = Inl e"
    and "e \<noteq> PROFILE_NOT_FOUND"
  shows "run E (depositHandler D L eh l (AbiInt v # rest) acc) h =
    ((profile_lookup eh (walletOf L t2), E h (profile_lookup eh (walletOf L t2))) # h, Done (None, True))"
  using assms
  by (simp add: depositHandler_def topic_def deposit_to_profile_def first_int_def run_andThen
      GetProfileByWalletForExchangeId_def Request_def profile_lookup_def Let_def)

lemma failed_lookup_drops_deposit_witness:
  "snd (run (\<lambda>_ _. answer_with (BErr ''timeout''))
       (depositHandler rat_lib demo_lib demo_handler demo_log [AbiInt 3] None) []) = Done (None, True)"
  by (subst failed_lookup_drops_deposit [of _ 11 5 6 _ _ _ _ _ _ "''timeout''"])
    (simp_all add: demo_log_def demo_handler_def demo_lib_def decode_reply_def d_zero_def
      TokenDecimalsToTDecimal_def createMultiplier_def)

section \<open>The cursor of the withdrawals\<close>

text \<open>The cursor of the withdrawals is set to the block number that all scans of a handler share, not
  to the end of the range just scanned: when another scan has written a later block there, the
  cursor skips to it, with receipts requested for blocks 6 to 18 only.\<close>

theorem withdrawal_cursor_skips:
  "\<exists>h. run (chain_answer [] (20 + int n)) (completeWithdrawalsAndUnstakes demo_lib demo_handler 1) [] =
       (h, Done (Some ())) \<and>
     cursor_text h = show_int (20 + int n) \<and>
     {(fq_FromBlock q, fq_ToBlock q) | q. made h (EthFilterLogs q)} = {(6, 18)}"
  by (simp add: chain_withdrawal_defs)

section \<open>The text of the cursor\<close>

text \<open>The cursor survives its storage as text: when the profile instance gives back the text
  \<open>SetLastProcessedBlockNumber\<close> sent, \<open>GetLastProcessedBlockNumber\<close> returns the block number.\<close>

theorem cursor_round_trip:
  assumes "run E (SetLastProcessedBlockNumber b c n ev) h = (h1, r)"
    and "h1 = (Execute PROFILE_INSTANCE SET_LAST_PROCESSED_BLOCK_NUMBER (VString text # ps), ans) # h"
    and "a_reply (E h1 (Execute PROFILE_INSTANCE GET_LAST_PROCESSED_BLOCK_NUMBER ps)) =
      BRows [(VString text, '''')]"
  shows "snd (run E (GetLastProcessedBlockNumber c n ev) h1) = Done (Inr b)"
proof -
  have "text = show_int b" and ps: "ps = [VString (to_lower c), VUint n, VString (to_lower ev)]"
    using assms(1,2) by (auto simp: SetLastProcessedBlockNumber_def Request_err_def Let_def)
  then show ?thesis
    using assms(3)
    by (simp add: GetLastProcessedBlockNumber_def Request_def onErr_def decode_reply_def Let_def)
qed

lemma cursor_round_trip_witness:
  "snd (run (chain_answer [] 0) (GetLastProcessedBlockNumber ''0xab'' 1 ''e'')
     (fst (run (chain_answer [] 0) (SetLastProcessedBlockNumber 18 ''0xab'' 1 ''e'') []))) = Done (Inr 18)"
  by (rule cursor_round_trip [of _ _ _ _ _ "[]", OF prod.collapse [symmetric]])
    (simp_all add: chain_run_defs)

end
