(* ===== verification/Settlement_Withdrawals.thy ===== *)
theory Settlement_Withdrawals
  imports Settlement_Props
begin

text \<open>
  Which operations the settlement lets through: withdrawals only below the daily limit, deposits
  only as their event says. And where it fails: an unread error stops the service, the retry
  of a claim has no bound, the cursor of the withdrawals follows other scans.
\<close>

section \<open>Programs that never make some calls\<close>

primrec avoids :: "('d call \<Rightarrow> bool) \<Rightarrow> ('d, 'a) prog \<Rightarrow> bool" where
  "avoids A (Return x) \<longleftrightarrow> True"
| "avoids A (Panic m) \<longleftrightarrow> True"
| "avoids A (Call c k) \<longleftrightarrow> \<not> A c \<and> (\<forall>ans. avoids A (k ans))"

lemma avoids_wp:
  "avoids A p \<Longrightarrow> (\<And>h c. \<not> A c \<Longrightarrow> P h c) \<Longrightarrow> (\<And>h r. Q h r) \<Longrightarrow> wp P Q p h"
  by (induction p arbitrary: h) auto

lemma avoids_andThen: "avoids A p \<Longrightarrow> (\<And>x. avoids A (f x)) \<Longrightarrow> avoids A (andThen p f)"
  by (induction p) auto

lemma avoids_onErr:
  "avoids A p \<Longrightarrow> (\<And>e. avoids A (f e)) \<Longrightarrow> (\<And>x. avoids A (k x)) \<Longrightarrow> avoids A (onErr p f k)"
  unfolding onErr_def by (rule avoids_andThen) (auto split: sum.split)

lemmas avoids_rules = avoids_andThen avoids_onErr

section \<open>The limit of the withdrawals\<close>

definition update_pending :: "'d call \<Rightarrow> bool" where
  "update_pending c \<longleftrightarrow> (\<exists>ps. c = Execute PROFILE_INSTANCE UPDATE_PENDING_WITHDRAWALS ps)"

fun mutex_held :: "string \<Rightarrow> 'd history \<Rightarrow> bool" where
  "mutex_held m [] = False"
| "mutex_held m ((MutexLock m', _) # h) = (m' = m \<or> mutex_held m h)"
| "mutex_held m ((MutexUnlock m', _) # h) = (m' \<noteq> m \<and> mutex_held m h)"
| "mutex_held m (_ # h) = mutex_held m h"

text \<open>The calls that neither move withdrawals nor touch the mutex\<close>

definition plain :: "'d call \<Rightarrow> bool" where
  "plain c \<longleftrightarrow> \<not> update_pending c \<and> (\<forall>m. c \<noteq> MutexLock m \<and> c \<noteq> MutexUnlock m)"

lemma plain_simps [simp]:
  "plain (StoreFlag f b)" "plain (LoadFlag f)" "plain (EthDial u)" "plain (EthBindExchange a)"
  "plain (StoreBlock v n)" "plain (LoadBlock v)" "plain (EthFilterLogs q)" "plain EthHeader" "plain (Sleep n)"
  by (simp_all add: plain_def update_pending_def)

lemma plain_execute [simp]:
  "plain (Execute i fn ps) \<longleftrightarrow> i \<noteq> PROFILE_INSTANCE \<or> fn \<noteq> UPDATE_PENDING_WITHDRAWALS"
  by (auto simp: plain_def update_pending_def)

abbreviation stays_plain :: "('d, 'a) prog \<Rightarrow> bool" where
  "stays_plain \<equiv> avoids (\<lambda>c. \<not> plain c)"

lemma plain_dial_loop: "stays_plain (dial_loop eh n s err)"
  by (induction n arbitrary: s err) (auto simp: sleep_def split: option.split)

lemma plain_Dial: "stays_plain (Dial eh)"
  by (auto simp: Dial_def intro!: avoids_andThen plain_dial_loop split: option.split)

lemma plain_ensureConnected: "stays_plain (ensureConnected eh a event c)"
  by (auto simp: ensureConnected_def checkLastProcessedBlockNumbers_def getCurrentBlockNumber_def
      resetLastProcessedBlockNumber_def GetLastProcessedBlockNumber_def SetLastProcessedBlockNumber_def
      Request_def Request_err_def Let_def
      intro!: avoids_rules plain_Dial split: option.split sum.split)

lemma plain_next_range: "stays_plain (next_range L eh event)"
  by (auto simp: next_range_def getL1BlockNumbers_def getCurrentBlockNumber_def
      GetLastProcessedBlockNumber_def Request_def Let_def
      intro!: avoids_rules split: option.split sum.split)

lemma avoids_event_loop:
  assumes "\<And>l vs acc. avoids A (handler l vs acc)"
  shows "avoids A (event_loop L eh types handler logs acc)"
  by (induction logs arbitrary: acc)
    (auto simp: topic_def intro!: avoids_andThen assms split: option.split sum.split)

lemma plain_receipts: "stays_plain (processWithdrawalReceiptEvents L eh a b)"
proof -
  have handler: "stays_plain (withdrawalReceiptHandler L l vs acc)" for l vs acc
    by (auto simp: withdrawalReceiptHandler_def topic_def split: option.split)
  have batch: "stays_plain (withdrawalBatchHandler acc early)" for acc early
    by (auto simp: withdrawalBatchHandler_def CompletedWithdrawals_def Request_err_def
        intro!: avoids_rules split: option.split)
  show ?thesis
    by (auto simp: processWithdrawalReceiptEvents_def processEvents_def filterLogs_def process_logs_def Let_def
        intro!: avoids_rules avoids_event_loop handler batch plain_Dial split: option.split sum.split prod.split)
qed

lemma plain_withdrawal_loop: "stays_plain (withdrawal_loop L eh fuel r)"
proof (induction fuel arbitrary: r)
  case 0
  show ?case by (cases r) (simp add: withdrawal_loop.simps)
next
  case (Suc n)
  show ?case
    by (cases r) (auto simp: withdrawal_loop.simps SetLastProcessedBlockNumber_def Request_err_def Let_def
        intro!: avoids_rules plain_receipts plain_next_range Suc.IH)
qed

lemma plain_complete: "stays_plain (completeWithdrawalsAndUnstakes L eh fuel)"
  by (auto simp: completeWithdrawalsAndUnstakes_def
      intro!: avoids_rules plain_ensureConnected plain_next_range plain_withdrawal_loop)

lemma wp_plain:
  assumes "stays_plain p" and "\<And>h c. plain c \<Longrightarrow> P h c"
    and "\<And>h' r. extends (\<lambda>_ c. plain c) h h' \<Longrightarrow> Q h' r"
  shows "wp P Q p h"
proof -
  have "wp (\<lambda>_ c. plain c) (\<lambda>_ _. True) p h"
    by (rule avoids_wp [OF assms(1)]) auto
  then have "wp (\<lambda>_ c. plain c) Q p h"
    by (rule wp_mono) (rule assms(3))
  then show ?thesis
    by (rule wp_weaken) (use assms(2) in auto)
qed

lemma mutex_held_plain:
  "extends (\<lambda>_ c. plain c) h h' \<Longrightarrow> mutex_held m h' = mutex_held m h"
proof (induction rule: extends.induct)
  case (step h h' c ans)
  then show ?case by (cases c) (auto simp: plain_def)
qed simp

text \<open>
  What must have happened before pending withdrawals may be moved: the mutex is held, the
  service was seen not suspended, and the withdrawals of the last day were read and do not
  exceed the limit.
\<close>

definition below_limit :: "'d dec_lib \<Rightarrow> 'd history \<Rightarrow> bool" where
  "below_limit D h \<longleftrightarrow>
     mutex_held ''withdrawMutex'' h \<and>
     (\<exists>ans. (LoadFlag ''withdrawalSuspended'', ans) \<in> set h \<and> \<not> a_flag ans) \<and>
     (\<exists>ans d. (Execute PROFILE_INSTANCE ROLLING_24_WDS [], ans) \<in> set h \<and>
        decode_reply (as_ptr as_decimal) (a_reply ans) = Inr (Some d) \<and>
        TDecimalToTokenDecimals D d 18 \<le> MAX_WITHDRAWAL_18)"

lemma below_limit_plain:
  "extends (\<lambda>_ c. plain c) h h' \<Longrightarrow> below_limit D h \<Longrightarrow> below_limit D h'"
  unfolding below_limit_def mutex_held_plain by (auto dest: extends_set)

definition limit_guard :: "'d dec_lib \<Rightarrow> 'd call_cond" where
  "limit_guard D h c \<longleftrightarrow> (update_pending c \<longrightarrow> below_limit D h)"

lemma limit_guard_plain: "plain c \<Longrightarrow> limit_guard D h c"
  by (simp add: limit_guard_def plain_def)

lemma wp_updatePendingWithdrawals:
  assumes "below_limit D h"
  shows "wp (limit_guard D) (\<lambda>_ _. True) (updatePendingWithdrawals L eh) h"
  unfolding updatePendingWithdrawals_def wp_andThen
proof (rule wp_plain [OF plain_ensureConnected limit_guard_plain], assumption, goal_cases)
  case (1 h' r)
  have "below_limit D ((EthHeader, ans) # h')" for ans
    using below_limit_plain [OF extends.step [OF 1]] assms by simp
  then show ?case
    by (auto simp: limit_guard_plain wp_onErr getCurrentBlockNumber_def ignoring_def limit_guard_def
        update_pending_def UpdatePendingWithdrawals_def Request_err_def Let_def
        split: outcome.split sum.split)
qed

lemma wp_processPendingWithdrawals:
  assumes "mutex_held ''withdrawMutex'' h"
    and "(LoadFlag ''withdrawalSuspended'', ans) \<in> set h" and "\<not> a_flag ans"
  shows "wp (limit_guard D) (\<lambda>_ _. True) (processPendingWithdrawals D L eh) h"
proof -
  have ready: "below_limit D ((Execute PROFILE_INSTANCE ROLLING_24_WDS [], b) #
        (Execute PROFILE_INSTANCE GET_PENDING_WITHDRAWALS ps, a) # h)"
    if "decode_reply (as_ptr as_decimal) (a_reply b) = Inr (Some d)"
      "TDecimalToTokenDecimals D d 18 \<le> MAX_WITHDRAWAL_18" for a b d ps
    using assms that by (force simp: below_limit_def)
  show ?thesis
    by (auto simp: processPendingWithdrawals_def GetPendingWithdrawals_def Rolling24hWds_def Request_def
        SuspendWithdrawals_service_def SuspendWithdrawals_def Request_err_def ignoring_def Let_def
        wp_onErr wp_andThen limit_guard_plain not_less
        intro: wp_updatePendingWithdrawals ready split: sum.splits)
qed

text \<open>Property C9. The settlement moves pending withdrawals on only under its mutex, after it saw that withdrawals
  are not suspended and that those of the last 24 hours are at most the limit of 4000000 tokens.\<close>

theorem withdrawals_move_below_limit:
  assumes "run E (ProcessWithdrawal D L eh fuel) [] = (h, r)"
    and "h = post @ (Execute PROFILE_INSTANCE UPDATE_PENDING_WITHDRAWALS ps, ans) # pre"
  shows "mutex_held ''withdrawMutex'' pre \<and>
    (\<exists>ans. (LoadFlag ''withdrawalSuspended'', ans) \<in> set pre \<and> \<not> a_flag ans) \<and>
    (\<exists>ans d. (Execute PROFILE_INSTANCE ROLLING_24_WDS [], ans) \<in> set pre \<and>
       decode_reply (as_ptr as_decimal) (a_reply ans) = Inr (Some d) \<and>
       TDecimalToTokenDecimals D d 18 \<le> 4000000 * 10 ^ 18)"
proof -
  have check: "wp (limit_guard D) (\<lambda>_ _. True) (processPendingWithdrawals D L eh)
      ((MutexLock ''withdrawMutex'', b) # (LoadFlag ''withdrawalSuspended'', a) # h)"
    if "\<not> a_flag a" for a b h
    using that by (intro wp_processPendingWithdrawals [of _ a]) auto
  have complete: "wp (limit_guard D) (\<lambda>_ _. True) (completeWithdrawalsAndUnstakes L eh fuel) h" for h
    by (rule wp_plain [OF plain_complete limit_guard_plain]) auto
  have locks: "limit_guard D h (MutexLock m)" "limit_guard D h (MutexUnlock m)" for h m
    by (simp_all add: limit_guard_def update_pending_def)
  have "wp (limit_guard D) (\<lambda>_ _. True) (ProcessWithdrawal D L eh fuel) []"
    by (auto simp: ProcessWithdrawal_def checkWithdrawalSuspendedOnDB_def GetWithdrawalsSuspended_def
        Request_def wp_andThen limit_guard_plain locks complete
        intro!: wp_mono [OF check] split: outcome.split)
  from wp_guarded [OF this assms] show ?thesis
    by (simp add: limit_guard_def update_pending_def below_limit_def MAX_WITHDRAWAL_18_def)
qed

lemma demo_update_pending:
  "made (fst (run (chain_answer [] 0) (ProcessWithdrawal rat_lib demo_lib demo_handler 1) []))
     (Execute PROFILE_INSTANCE UPDATE_PENDING_WITHDRAWALS [VUint 20, VUint 120, VString ''0xab''])"
  by (simp add: chain_withdrawal_defs ProcessWithdrawal_def checkWithdrawalSuspendedOnDB_def
      GetWithdrawalsSuspended_def processPendingWithdrawals_def GetPendingWithdrawals_def
      Rolling24hWds_def TDecimalToTokenDecimals_def createMultiplier_def MAX_WITHDRAWAL_18_def round_half_away_def truncated_def
      updatePendingWithdrawals_def UpdatePendingWithdrawals_def uint64_of_def ignoring_def)

lemma withdrawals_move_below_limit_witness:
  "\<exists>post ps ans pre.
     fst (run (chain_answer [] 0) (ProcessWithdrawal rat_lib demo_lib demo_handler 1) []) =
       post @ (Execute PROFILE_INSTANCE UPDATE_PENDING_WITHDRAWALS ps, ans) # pre \<and>
     mutex_held ''withdrawMutex'' pre \<and>
     (\<exists>ans. (LoadFlag ''withdrawalSuspended'', ans) \<in> set pre \<and> \<not> a_flag ans)"
  using made_split [OF demo_update_pending] withdrawals_move_below_limit [OF prod.collapse [symmetric]]
  by blast

text \<open>With withdrawals pending, the settlement suspends all withdrawals when the total of the last
  24 hours exceeds the limit, and then moves none.\<close>

theorem withdrawals_suspended_above_limit:
  assumes "decode_reply (as_list (as_ptr as_ops)) (a_reply (E h pending)) = Inr (w # ws)"
    and "pending = Execute PROFILE_INSTANCE GET_PENDING_WITHDRAWALS
       [VString (to_lower (eh_exchangeId eh)), VUint (eh_chainId eh)]"
    and "h1 = (pending, E h pending) # h"
    and "decode_reply (as_ptr as_decimal) (a_reply (E h1 (Execute PROFILE_INSTANCE ROLLING_24_WDS []))) =
       Inr (Some d)"
    and "4000000 * 10 ^ 18 < TDecimalToTokenDecimals D d 18"
  shows "map fst (fst (run E (processPendingWithdrawals D L eh) h)) =
      [Execute PROFILE_INSTANCE SUSPEND_WITHDRAWALS [], StoreFlag ''withdrawalSuspended'' True,
       Execute PROFILE_INSTANCE ROLLING_24_WDS [], pending] @ map fst h \<and>
    snd (run E (processPendingWithdrawals D L eh) h) = Done ()"
proof -
  have "MAX_WITHDRAWAL_18 < TDecimalToTokenDecimals D d 18"
    using assms(5) by (simp add: MAX_WITHDRAWAL_18_def)
  then show ?thesis
    using assms(1-4)
    by (simp add: processPendingWithdrawals_def GetPendingWithdrawals_def Rolling24hWds_def
        Request_def Request_err_def onErr_def deref_def SuspendWithdrawals_service_def
        SuspendWithdrawals_def ignoring_def Let_def)
qed

definition rolling_env :: "rat reply \<Rightarrow> rat env" where
  "rolling_env rep h c =
     (if c = Execute PROFILE_INSTANCE ROLLING_24_WDS [] then answer_with rep else chain_answer [] 0 h c)"

lemma withdrawals_suspended_above_limit_witness:
  "snd (run (rolling_env (BRows [(VDecimal 5000000, '''')]))
     (processPendingWithdrawals rat_lib demo_lib demo_handler) []) = Done ()"
  by (rule conjunct2 [OF withdrawals_suspended_above_limit [OF _ HOL.refl HOL.refl,
        where w = "Some demo_withdrawal" and ws = "[]" and d = 5000000]])
    (simp_all add: rolling_env_def decode_reply_def demo_handler_def TDecimalToTokenDecimals_def
      createMultiplier_def round_half_away_def truncated_def)

text \<open>When the total of the last 24 hours cannot be read, the settlement does not stop at the
  error: it reads through the missing decimal and panics, with its mutex still held.\<close>

theorem unread_rolling_total_panics:
  assumes "decode_reply (as_list (as_ptr as_ops)) (a_reply (E h pending)) = Inr (w # ws)"
    and "pending = Execute PROFILE_INSTANCE GET_PENDING_WITHDRAWALS
       [VString (to_lower (eh_exchangeId eh)), VUint (eh_chainId eh)]"
    and "h1 = (pending, E h pending) # h"
    and "decode_reply (as_ptr as_decimal) (a_reply (E h1 (Execute PROFILE_INSTANCE ROLLING_24_WDS []))) =
       Inl e"
    and "mutex_held ''withdrawMutex'' h"
  shows "snd (run E (processPendingWithdrawals D L eh) h) = Panicked ''nil pointer dereference'' \<and>
    mutex_held ''withdrawMutex'' (fst (run E (processPendingWithdrawals D L eh) h))"
  using assms
  by (simp add: processPendingWithdrawals_def GetPendingWithdrawals_def Rolling24hWds_def
      Request_def onErr_def deref_def Let_def)

lemma unread_rolling_total_panics_witness:
  "snd (run (rolling_env (BErr ''timeout'')) (processPendingWithdrawals rat_lib demo_lib demo_handler)
     [(MutexLock ''withdrawMutex'', answer_with (BRows []))]) = Panicked ''nil pointer dereference''"
  by (rule conjunct1 [OF unread_rolling_total_panics [OF _ HOL.refl HOL.refl,
        where w = "Some demo_withdrawal" and ws = "[]" and e = "''timeout''"]])
    (simp_all add: rolling_env_def decode_reply_def demo_handler_def)

section \<open>Connecting and claiming\<close>

definition dials :: "'d history \<Rightarrow> nat" where
  "dials h = length (filter (\<lambda>(c, _). \<exists>url. c = EthDial url) h)"

lemma dials_Cons [simp]:
  "dials [] = 0" "dials ((EthDial u, a) # h) = Suc (dials h)"
  "\<nexists>url. c = EthDial url \<Longrightarrow> dials ((c, a) # h) = dials h"
  by (simp_all add: dials_def)

lemma dials_dial_loop: "dials (fst (run E (dial_loop eh n s err) h)) \<le> dials h + n"
proof (induction n arbitrary: s err h)
  case (Suc n)
  have "dials (fst (run E (dial_loop eh n s' err') ((Sleep s, a) # (EthDial u, b) # h))) \<le> dials h + Suc n"
    for s' err' a b u
    using Suc [of s' err' "(Sleep s, a) # (EthDial u, b) # h"] by simp
  then show ?case
    by (simp add: sleep_def split: option.split)
qed simp

text \<open>Connecting to a node dials it at most five times, whatever the node answers.\<close>

theorem dial_attempts_bounded: "dials (fst (run E (Dial eh) h)) \<le> dials h + 5"
proof -
  obtain h' r where l: "run E (dial_loop eh 5 4000 None)
      ((StoreFlag ''ethClient'' False, E h (StoreFlag ''ethClient'' False)) # h) = (h', r)"
    by force
  have "dials h' \<le> dials h + 5"
    using dials_dial_loop [of E eh 5 4000 None "(StoreFlag ''ethClient'' False, E h (StoreFlag ''ethClient'' False)) # h"]
    unfolding l by simp
  then show ?thesis
    by (simp add: Dial_def run_andThen l split: outcome.split option.split)
qed

text \<open>A node that always finds the gas price too low\<close>

definition gas_env :: "rat env" where
  "gas_env h c =
     (case c of
        EthClaimYield nonce price \<Rightarrow> (answer_with (BRows [])) \<lparr> a_error := Some GAS_TOO_LOW \<rparr>
      | _ \<Rightarrow> chain_answer [] 0 h c)"

definition claims :: "'d history \<Rightarrow> nat" where
  "claims h = length (filter (\<lambda>(c, _). \<exists>nonce price. c = EthClaimYield nonce price) h)"

lemma claims_Cons [simp]:
  "claims [] = 0" "claims ((EthClaimYield n g, a) # h) = Suc (claims h)"
  "\<nexists>n g. c = EthClaimYield n g \<Longrightarrow> claims ((c, a) # h) = claims h"
  by (simp_all add: claims_def)

lemma contains_sub_refl: "contains_sub s s"
  using has_prefix_append [of s "[]"] by (cases s) auto

lemma gas_env_claim:
  "gas_env h (EthClaimYield nonce price) = (answer_with (BRows [])) \<lparr> a_error := Some GAS_TOO_LOW \<rparr>"
  by (simp add: gas_env_def)

lemma gas_env_calls:
  "a_flag (gas_env h (LoadFlag ''ethClient''))"
  "a_int (gas_env h (EthNonce a)) = Inr 0" "a_int (gas_env h EthGasPrice) = Inr 0"
  "a_error (gas_env h (EthKeyedTransactor n)) = None"
  by (simp_all add: gas_env_def answer_with_def)

lemma claim_retry_goes_on:
  "count < 5 \<Longrightarrow>
     snd (run gas_env (claim_retry n count nonce price (Some GAS_TOO_LOW)) h) = Done None \<and>
     claims (fst (run gas_env (claim_retry n count nonce price (Some GAS_TOO_LOW)) h)) = claims h + n"
  by (induction n arbitrary: price h)
    (simp_all add: contains_sub_refl gas_env_claim del: contains_sub.simps cong del: if_weak_cong)

text \<open>The retry of a yield claim has no bound although the code counts to five: a node that keeps
  finding the gas price too low gets more claims than any number n, at a price doubled each
  time, and the call has not returned.\<close>

theorem claim_retry_unbounded:
  "snd (run gas_env (ClaimYield demo_lib demo_handler n) []) = Done None \<and>
   n < claims (fst (run gas_env (ClaimYield demo_lib demo_handler n) []))"
proof -
  have kind: "on_blast demo_handler"
    by (simp add: on_blast_def demo_handler_def BLAST_CHAIN_ID_def)
  show ?thesis
    by (simp add: ClaimYield_def ensureConnected_def getSigner_def onErr_def gas_env_claim kind Let_def
        run_andThen claim_retry_goes_on gas_env_calls case_prod_unfold
        split: outcome.split del: contains_sub.simps)
qed

end
