(* ===== verification/Liq_Engine.thy ===== *)
theory Liq_Engine
  imports Float64 Go_Types Model_Api "HOL-Library.Monad_Syntax" "HOL-Library.Signed_Division"
begin

text \<open>
  The liquidation engine (\<^verbatim>\<open>liqengine/liquidation_engine.go\<close>, \<^verbatim>\<open>Account.go\<close>, \<^verbatim>\<open>time_ops.go\<close>): which
  orders, takeovers and clawbacks an account calls for. The engine computes with \<^verbatim>\<open>float64\<close> and
  makes no calls; a result \<open>None\<close> is a panic, from a nil pointer or from turning an infinite or
  undefined float into a decimal. The iteration order of a Go map is the parameter \<open>ord\<close>: the
  order in which the k-th loop of a function visits a list of keys.
\<close>

section \<open>Accounts\<close>

record 'd account_data =
  ad_Cache     :: "'d profile_cache"
  ad_Positions :: "'d position_data option list"
  ad_Markets   :: "string \<rightharpoonup> 'd market_data option"

definition FlipSide :: "string \<Rightarrow> string" where
  "FlipSide side = (if side = LONG then SHORT else LONG)"

text \<open>\<^verbatim>\<open>p.InexactFloat64()\<close> through a pointer\<close>

definition flt :: "'d dec_lib \<Rightarrow> 'd option \<Rightarrow> f64 option" where
  "flt D p = map_option (d_to_float D) p"

text \<open>\<^verbatim>\<open>m[k]\<close> of a map of pointers: nil when the key is absent\<close>

definition lookup_ptr :: "('k \<rightharpoonup> 'v option) \<Rightarrow> 'k \<Rightarrow> 'v option" where
  "lookup_ptr m k = Option.bind (m k) id"

section \<open>Margins\<close>

definition LIQUIDATION_MARGIN :: f64 where "LIQUIDATION_MARGIN = f64_lit (3 / 100)"
definition TAKEOVER_MARGIN :: f64 where "TAKEOVER_MARGIN = f64_lit (2 / 100)"
definition INSURANCE_MAX_ADV_FRAC :: f64 where "INSURANCE_MAX_ADV_FRAC = f64_lit (1 / 1000)"
definition TRADER_MAX_ADV_FRAC :: f64 where "TRADER_MAX_ADV_FRAC = f64_lit (1 / 1000)"

definition WATERFALL1_INTERVAL :: int where
  "WATERFALL1_INTERVAL = 6000000000"    \<comment> \<open>six seconds, in nanoseconds\<close>

definition INSURANCE_WATERFALL_INTERVAL :: int where
  "INSURANCE_WATERFALL_INTERVAL = 6000000000"

text \<open>The difference of two microsecond stamps against an interval in nanoseconds, in \<^verbatim>\<open>int64\<close>\<close>

definition IsIntervalPassedForMicroseconds :: "64 word \<Rightarrow> int \<Rightarrow> 64 word \<Rightarrow> bool" where
  "IsIntervalPassedForMicroseconds last_check interval t_now \<longleftrightarrow>
     (let passed = (t_now - last_check) * 1000; diff = passed - word_of_int interval
      in 0 \<le> sint diff)"

definition belowLiquidationMargin :: "f64 \<Rightarrow> bool" where
  "belowLiquidationMargin margin \<longleftrightarrow> f64_lt margin LIQUIDATION_MARGIN"

text \<open>The second operand of \<^verbatim>\<open>&&\<close> is only evaluated when the first is true.\<close>

definition isLiquidationEnding :: "'d dec_lib \<Rightarrow> 'd profile_cache \<Rightarrow> bool option" where
  "isLiquidationEnding D profile = do {
     status \<leftarrow> pc_Status profile;
     if status \<noteq> PROFILE_STATUS_LIQUIDATING then Some False
     else do {
       margin \<leftarrow> flt D (pc_AccountMargin profile);
       Some (f64_le LIQUIDATION_MARGIN margin) } }"

definition shouldLiquidationHaveMoreTime ::
  "'d dec_lib \<Rightarrow> 'd profile_cache \<Rightarrow> int \<Rightarrow> bool option" where
  "shouldLiquidationHaveMoreTime D profile t_now = do {
     last_check \<leftarrow> pc_LastLiqCheck profile;
     let interval_passed = IsIntervalPassedForMicroseconds (word_of_int last_check) WATERFALL1_INTERVAL
       (word_of_int t_now);
     status \<leftarrow> pc_Status profile;
     if status \<noteq> PROFILE_STATUS_LIQUIDATING then Some False
     else do {
       margin \<leftarrow> flt D (pc_AccountMargin profile);
       Some (f64_lt margin LIQUIDATION_MARGIN \<and> f64_le TAKEOVER_MARGIN margin \<and> \<not> interval_passed) } }"

section \<open>Prices and ticks\<close>

definition calcUnrealizedPnl :: "f64 \<Rightarrow> f64 \<Rightarrow> f64 \<Rightarrow> string \<Rightarrow> f64" where
  "calcUnrealizedPnl posSize entryPrice exitPrice posSide =
     (if posSide = LONG then f64_mul posSize (f64_sub exitPrice entryPrice)
      else f64_mul posSize (f64_sub entryPrice exitPrice))"

definition milli_ticks :: "f64 \<Rightarrow> f64 \<Rightarrow> int" where
  "milli_ticks size0 tick = int_of_f64 (f64_round (f64_div (f64_mul size0 (f64_of_int 1000)) tick))"

definition roundDownToTick :: "f64 \<Rightarrow> f64 \<Rightarrow> f64" where
  "roundDownToTick size0 tick =
     (if f64_le tick (f64_of_int 0) then size0
      else f64_mul (f64_of_int (milli_ticks size0 tick sdiv 1000)) tick)"

definition roundUpToTick :: "f64 \<Rightarrow> f64 \<Rightarrow> f64" where
  "roundUpToTick size0 tick =
     (if f64_le tick (f64_of_int 0) then size0
      else
        let milliTicks = milli_ticks size0 tick;
            numTicks = f64_of_int (milliTicks sdiv 1000);
            numTicks = (if 0 < milliTicks smod 1000 then f64_add numTicks (f64_of_int 1) else numTicks)
        in f64_mul numTicks tick)"

definition roundToNearestTick :: "f64 \<Rightarrow> f64 \<Rightarrow> f64" where
  "roundToNearestTick size0 tick =
     (if f64_le tick (f64_of_int 0) then size0
      else f64_mul (f64_round (f64_div size0 tick)) tick)"

definition calcSellOrderSlices :: "f64 \<Rightarrow> f64 \<Rightarrow> f64 list" where
  "calcSellOrderSlices orderSz tick =
     (let roundedFifth = roundDownToTick (f64_mul orderSz (f64_lit (1 / 5))) tick;
          totalSz = f64_mul roundedFifth (f64_of_int 5);
          deficit = roundDownToTick (f64_sub orderSz totalSz) tick
      in [roundedFifth, roundedFifth, roundedFifth,
          f64_add (f64_mul roundedFifth (f64_of_int 2)) deficit])"

definition calcZp :: "'d dec_lib \<Rightarrow> 'd position_data \<Rightarrow> f64 \<Rightarrow> f64 option" where
  "calcZp D pos margin =
     (if pos_Side pos = LONG
      then do { fair \<leftarrow> flt D (pos_FairPrice pos); Some (f64_mul fair (f64_sub (f64_of_int 1) margin)) }
      else do { fair \<leftarrow> flt D (pos_FairPrice pos); Some (f64_mul fair (f64_add (f64_of_int 1) margin)) })"

section \<open>Orders\<close>

text \<open>An action whose size and price are floats\<close>

definition make_action ::
  "'d dec_lib \<Rightarrow> action_type \<Rightarrow> nat \<Rightarrow> string \<Rightarrow> f64 \<Rightarrow> f64 \<Rightarrow> 'd action option" where
  "make_action D kind traderId marketId size0 price = do {
     s \<leftarrow> d_of_float D size0;
     p \<leftarrow> d_of_float D price;
     Some \<lparr> act_Kind = kind, act_TraderId = traderId, act_MarketId = marketId, act_Size = s, act_Price = p \<rparr> }"

definition clamp_below :: "f64 \<Rightarrow> f64 \<Rightarrow> f64" where
  "clamp_below limit price = (if f64_lt price limit then limit else price)"

definition clamp_above :: "f64 \<Rightarrow> f64 \<Rightarrow> f64" where
  "clamp_above limit price = (if f64_lt limit price then limit else price)"

text \<open>The four prices, best for the account first; a short position is bought back.\<close>

definition order_prices :: "string \<Rightarrow> f64 \<Rightarrow> f64 \<Rightarrow> f64 \<Rightarrow> f64 \<Rightarrow> f64 list" where
  "order_prices side bestBid bestAsk fair tick =
     (if side = SHORT then
        let limit = roundToNearestTick (f64_mul (f64_lit (101 / 100)) fair) tick
        in map (clamp_above limit) [f64_sub bestBid tick, bestBid, f64_sub bestAsk tick, bestAsk]
      else
        let limit = roundToNearestTick (f64_mul (f64_lit (99 / 100)) fair) tick
        in map (clamp_below limit) [f64_add bestAsk tick, bestAsk, f64_add bestBid tick, bestBid])"

text \<open>The size to sell: all of it up to a thousand of the quote currency, that or a tenth above,
  capped by the daily volume, and at least five minimal orders\<close>

definition order_size :: "f64 \<Rightarrow> f64 \<Rightarrow> f64 \<Rightarrow> f64 \<Rightarrow> f64" where
  "order_size pos_size oneKSize maxLiqSz min_order =
     (let orderSz =
            (if f64_le pos_size oneKSize then pos_size
             else if f64_le pos_size (f64_mul (f64_of_int 10) oneKSize) then oneKSize
             else f64_mul pos_size (f64_lit (1 / 10)));
          orderSz = (if f64_lt maxLiqSz orderSz then maxLiqSz else orderSz);
          least = f64_mul min_order (f64_lit (50001 / 10000))
      in if f64_lt orderSz least then least else orderSz)"

text \<open>The orders for the slices that are not empty, each with its price\<close>

primrec slice_orders ::
  "'d dec_lib \<Rightarrow> nat \<Rightarrow> string \<Rightarrow> (f64 \<times> f64) list \<Rightarrow> 'd action list option" where
  "slice_orders D traderId marketId [] = Some []"
| "slice_orders D traderId marketId (x # xs) =
     (if f64_lt (f64_of_int 0) (fst x)
      then do {
        a \<leftarrow> make_action D APlaceSellOrders traderId marketId (fst x) (snd x);
        as \<leftarrow> slice_orders D traderId marketId xs;
        Some (a # as) }
      else slice_orders D traderId marketId xs)"

text \<open>The best bid and ask of a market where one of the sides may be empty\<close>

definition best_prices :: "f64 \<Rightarrow> f64 \<Rightarrow> f64 \<times> f64" where
  "best_prices bid ask =
     (let zero = f64_of_int 0
      in if f64_le ask zero \<and> f64_lt zero bid then (bid, bid)
         else if f64_le bid zero \<and> f64_lt zero ask then (ask, ask)
         else (bid, ask))"

definition position_orders ::
  "'d dec_lib \<Rightarrow> 'd account_data \<Rightarrow> f64 \<Rightarrow> 'd position_data \<Rightarrow> 'd action list option" where
  "position_orders D account maxADVFrac pos = do {
     pos_market \<leftarrow> lookup_ptr (ad_Markets account) (pos_MarketID pos);
     ask \<leftarrow> flt D (mkt_BestAsk pos_market);
     bid \<leftarrow> flt D (mkt_BestBid pos_market);
     let (bestBid, bestAsk) = best_prices bid ask;
     if f64_le bestBid (f64_of_int 0) then Some []
     else do {
       fair \<leftarrow> flt D (mkt_FairPrice pos_market);
       let oneKSize = f64_div (f64_of_int 1000) fair;
       let pos_size = d_to_float D (pos_Size pos);
       if f64_le pos_size (f64_of_int 0) then Some []
       else do {
         volume \<leftarrow> flt D (mkt_AverageDailyVolumeQ pos_market);
         min_order \<leftarrow> flt D (mkt_MinOrder pos_market);
         tick \<leftarrow> flt D (mkt_MinTick pos_market);
         let orderSz = order_size pos_size oneKSize (f64_mul volume maxADVFrac) min_order;
         let prices = order_prices (pos_Side pos) bestBid bestAsk fair tick;
         if f64_le orderSz pos_size
         then slice_orders D (pc_ProfileID (ad_Cache account)) (pos_MarketID pos)
                (zip (calcSellOrderSlices orderSz min_order) prices)
         else if f64_le min_order pos_size
         then do {
           price \<leftarrow> d_of_float D (prices ! 3);
           Some [\<lparr> act_Kind = APlaceSellOrders, act_TraderId = pc_ProfileID (ad_Cache account),
             act_MarketId = pos_MarketID pos, act_Size = pos_Size pos, act_Price = price \<rparr>] }
         else Some [] } } }"

text \<open>A loop over the positions that appends to the actions; a nil position panics.\<close>

primrec for_positions ::
  "('d position_data \<Rightarrow> 'd action list option) \<Rightarrow> 'd position_data option list \<Rightarrow> 'd action list option" where
  "for_positions f [] = Some []"
| "for_positions f (p # ps) = do {
     pos \<leftarrow> p;
     as \<leftarrow> f pos;
     bs \<leftarrow> for_positions f ps;
     Some (as @ bs) }"

definition generateSellOrders ::
  "'d dec_lib \<Rightarrow> 'd account_data \<Rightarrow> f64 \<Rightarrow> 'd action list option" where
  "generateSellOrders D account maxADVFrac =
     for_positions (position_orders D account maxADVFrac) (ad_Positions account)"

definition insuranceSelloffActions :: "'d dec_lib \<Rightarrow> 'd account_data \<Rightarrow> 'd action list option" where
  "insuranceSelloffActions D insurance = generateSellOrders D insurance INSURANCE_MAX_ADV_FRAC"

definition waterfall1 :: "'d dec_lib \<Rightarrow> 'd account_data \<Rightarrow> 'd action list option" where
  "waterfall1 D account = generateSellOrders D account TRADER_MAX_ADV_FRAC"

definition waterfall3 :: "'d dec_lib \<Rightarrow> 'd account_data \<Rightarrow> 'd action list option" where
  "waterfall3 D account = do {
     margin \<leftarrow> flt D (pc_AccountMargin (ad_Cache account));
     for_positions (\<lambda>pos. do {
         zp \<leftarrow> calcZp D pos margin;
         price \<leftarrow> d_of_float D zp;
         size0 \<leftarrow> d_of_float D (d_to_float D (pos_Size pos));
         Some [\<lparr> act_Kind = AInsTakeover, act_TraderId = pc_ProfileID (ad_Cache account),
           act_MarketId = pos_MarketID pos, act_Size = size0, act_Price = price \<rparr>] })
       (ad_Positions account) }"

definition requiredActions ::
  "'d dec_lib \<Rightarrow> 'd account_data \<Rightarrow> ('d action list \<times> nat list) option" where
  "requiredActions D account = do {
     margin \<leftarrow> flt D (pc_AccountMargin (ad_Cache account));
     if f64_lt margin LIQUIDATION_MARGIN then
       (if f64_le TAKEOVER_MARGIN margin
        then do { actions \<leftarrow> waterfall1 D account; Some (actions, []) }
        else do {
          actions \<leftarrow> waterfall3 D account;
          kind \<leftarrow> pc_ProfileType (ad_Cache account);
          Some (actions, if kind = PROFILE_TYPE_VAULT then [pc_ProfileID (ad_Cache account)] else []) })
     else Some ([], []) }"

section \<open>Clawbacks\<close>

record traderCapacity =
  tc_clawbackSize :: f64
  tc_remaining    :: f64

text \<open>The capacities by trader, with the list of the keys\<close>

type_synonym capacities = "nat list \<times> (nat \<rightharpoonup> traderCapacity)"

definition capacity_of :: "'d dec_lib \<Rightarrow> f64 \<Rightarrow> f64 \<Rightarrow> f64 \<Rightarrow> 'd position_data \<Rightarrow> f64 \<Rightarrow> traderCapacity" where
  "capacity_of D insSize totalWinningSize min_order traderPos deficit =
     (let traderSize = d_to_float D (pos_Size traderPos);
          frac = f64_div traderSize totalWinningSize;
          clawbackSize = roundToNearestTick (f64_mul insSize frac) min_order;
          clawbackSize = (if f64_lt deficit clawbackSize then deficit else clawbackSize)
      in if f64_lt traderSize clawbackSize
         then \<lparr> tc_clawbackSize = traderSize, tc_remaining = f64_of_int 0 \<rparr>
         else \<lparr> tc_clawbackSize = clawbackSize, tc_remaining = f64_sub traderSize clawbackSize \<rparr>)"

text \<open>The loop over the winning traders: the deficit and the sum of what remains to each\<close>

primrec share_loop ::
  "'d dec_lib \<Rightarrow> f64 \<Rightarrow> f64 \<Rightarrow> f64 \<Rightarrow> (nat \<rightharpoonup> 'd position_data) \<Rightarrow> nat list \<Rightarrow>
   f64 \<times> f64 \<times> capacities \<Rightarrow> (f64 \<times> f64 \<times> capacities) option" where
  "share_loop D insSize totalSize min_order winning [] st = Some st"
| "share_loop D insSize totalSize min_order winning (t # ts) st =
     (case st of (deficit, totalRemaining, keys, caps) \<Rightarrow>
        if f64_lt deficit min_order then Some st
        else do {
          traderPos \<leftarrow> winning t;
          let cap = capacity_of D insSize totalSize min_order traderPos deficit;
          if f64_lt (f64_of_int 0) (tc_clawbackSize cap) \<or> f64_lt (f64_of_int 0) (tc_remaining cap)
          then share_loop D insSize totalSize min_order winning ts
                 (f64_sub deficit (tc_clawbackSize cap), f64_add totalRemaining (tc_remaining cap),
                  t # keys, caps(t \<mapsto> cap))
          else share_loop D insSize totalSize min_order winning ts (deficit, totalRemaining, keys, caps) })"

text \<open>Taking more from what remains to each trader, until the deficit is below a minimal order\<close>

definition take_more :: "traderCapacity \<Rightarrow> f64 \<Rightarrow> traderCapacity" where
  "take_more cap x = \<lparr> tc_clawbackSize = f64_add (tc_clawbackSize cap) x,
     tc_remaining = f64_sub (tc_remaining cap) x \<rparr>"

primrec top_up_loop ::
  "f64 \<Rightarrow> f64 \<Rightarrow> nat list \<Rightarrow> f64 \<times> (nat \<rightharpoonup> traderCapacity) \<Rightarrow> f64 \<times> (nat \<rightharpoonup> traderCapacity)" where
  "top_up_loop remainingFrac min_order [] st = st"
| "top_up_loop remainingFrac min_order (t # ts) st =
     (case st of (deficit, caps) \<Rightarrow>
        (case caps t of
          None \<Rightarrow> top_up_loop remainingFrac min_order ts st
        | Some cap \<Rightarrow>
            let share = roundUpToTick (f64_mul (tc_remaining cap) remainingFrac) min_order;
                share = (if f64_lt (tc_remaining cap) share then tc_remaining cap else share);
                deficit = f64_sub deficit share;
                caps = caps(t \<mapsto> take_more cap share)
            in if f64_lt deficit min_order then (deficit, caps)
               else top_up_loop remainingFrac min_order ts (deficit, caps)))"

primrec clawback_loop ::
  "'d dec_lib \<Rightarrow> string \<Rightarrow> f64 \<Rightarrow> f64 \<Rightarrow> nat list \<Rightarrow> f64 \<times> (nat \<rightharpoonup> traderCapacity) \<Rightarrow> 'd action list option" where
  "clawback_loop D marketId zp min_order [] st = Some []"
| "clawback_loop D marketId zp min_order (t # ts) st =
     (case st of (deficit, caps) \<Rightarrow>
        (case caps t of
          None \<Rightarrow> clawback_loop D marketId zp min_order ts st
        | Some cap \<Rightarrow>
            let short = f64_le min_order deficit \<and> f64_le min_order (tc_remaining cap);
                extra = f64_min deficit (tc_remaining cap);
                cap = (if short then take_more cap extra else cap);
                deficit = (if short then f64_sub deficit extra else deficit)
            in if f64_lt (f64_of_int 0) (tc_clawbackSize cap)
               then do {
                 a \<leftarrow> make_action D AInsClawback t marketId (tc_clawbackSize cap) zp;
                 as \<leftarrow> clawback_loop D marketId zp min_order ts (deficit, caps);
                 Some (a # as) }
               else clawback_loop D marketId zp min_order ts (deficit, caps)))"

definition clawbackActions ::
  "'d dec_lib \<Rightarrow> (nat \<Rightarrow> nat list \<Rightarrow> nat list) \<Rightarrow> 'd account_data \<Rightarrow> 'd position_data \<Rightarrow>
   nat list \<Rightarrow> (nat \<rightharpoonup> 'd position_data) \<Rightarrow> 'd action list option" where
  "clawbackActions D ord insurance insurancePos traders winning = do {
     market \<leftarrow> lookup_ptr (ad_Markets insurance) (pos_MarketID insurancePos);
     min_order \<leftarrow> flt D (mkt_MinOrder market);
     let size_of = (\<lambda>t. case winning t of Some p \<Rightarrow> d_to_float D (pos_Size p) | None \<Rightarrow> f64_of_int 0);
     let totalWinningSize = foldl (\<lambda>s t. f64_add s (size_of t)) (f64_of_int 0) (ord 0 traders);
     let insSize = d_to_float D (pos_Size insurancePos);
     (deficit, totalRemaining, keys, caps) \<leftarrow>
       share_loop D insSize totalWinningSize min_order winning (ord 1 traders)
         (insSize, f64_of_int 0, [], Map.empty);
     let remainingFrac =
       (if f64_le totalRemaining deficit then f64_of_int 1
        else if f64_lt (f64_of_int 0) totalRemaining then f64_div deficit totalRemaining
        else f64_of_int 0);
     let (deficit, caps) =
       (if f64_le min_order deficit then top_up_loop remainingFrac min_order (ord 2 keys) (deficit, caps)
        else (deficit, caps));
     margin \<leftarrow> flt D (pc_AccountMargin (ad_Cache insurance));
     zp \<leftarrow> calcZp D insurancePos margin;
     clawback_loop D (pos_MarketID insurancePos) zp min_order (ord 3 keys) (deficit, caps) }"

end
