(* ===== verification/Liq_Service.thy ===== *)
theory Liq_Service
  imports Liq_Engine
begin

text \<open>
  The assistant of the engine and its two services (\<^verbatim>\<open>liqengine/Assistant.go\<close>, \<^verbatim>\<open>tnt_assistant.go\<close>,
  \<^verbatim>\<open>liquidation_service.go\<close>, \<^verbatim>\<open>insurance_service.go\<close>). The interface \<^verbatim>\<open>Assistant\<close> is a record of
  operations; the services take any value of it, and \<open>TntAssistant\<close> is the one the program uses.
  Whether the context of a service was cancelled is the shared flag \<open>ctx.Done\<close>.
\<close>

section \<open>The interface\<close>

record 'd assistant =
  la_Queue                      :: "'d action list \<Rightarrow> ('d, string + unit) prog"
  la_LiquidatedVaults           :: "nat list \<Rightarrow> ('d, string + unit) prog"
  la_CompletedLiquidation       :: "nat \<Rightarrow> ('d, string + unit) prog"
  la_CancelExistingOrders       :: "nat \<Rightarrow> ('d, string + unit) prog"
  la_UpdateLastChecked          :: "nat \<Rightarrow> ('d, string + unit) prog"
  la_GetNextLiqBatch            :: "nat option \<Rightarrow> int \<Rightarrow> ('d, string + 'd profile_cache option list) prog"
  la_GetInsuranceData           :: "nat \<Rightarrow> ('d, string + 'd account_data) prog"
  la_GetAccountData             :: "'d profile_cache option \<Rightarrow> ('d, string + 'd account_data) prog"
  la_ClawbackRequired           :: "('d, bool) prog"
  la_GetWinningTraderPostns     :: "string \<Rightarrow> string \<Rightarrow> f64 \<Rightarrow> nat \<Rightarrow>
                                    ('d, string + (nat list \<times> (nat \<rightharpoonup> 'd position_data))) prog"
  la_GetNextLiquidationServiceId :: int
  la_GetOrCreateInsurance       :: "('d, string + nat) prog"
  la_WaitForCancellAllAccepted  :: "nat \<Rightarrow> ('d, string + unit) prog"

section \<open>The Tarantool assistant\<close>

definition WAIT_CANCEL_ALL_INTERVAL :: int where
  "WAIT_CANCEL_ALL_INTERVAL = 100"    \<comment> \<open>milliseconds\<close>

abbreviation PROFILE_NOT_FOUND_ERROR :: string where "PROFILE_NOT_FOUND_ERROR \<equiv> ''PROFILE_NOT_FOUND''"
abbreviation INSURANCE_WALLET :: string where "INSURANCE_WALLET \<equiv> ''0xinsurance''"

definition CompletedLiquidation :: "nat \<Rightarrow> ('d, string + unit) prog" where
  "CompletedLiquidation traderId = ProfileUpdateStatus traderId PROFILE_STATUS_ACTIVE"

definition UpdateLastChecked :: "nat \<Rightarrow> ('d, string + unit) prog" where
  "UpdateLastChecked traderId =
     andThen (ProfileUpdateLastLiqChecked traderId)
       (\<lambda>r. Return (case r of Inl e \<Rightarrow> Inl e | Inr _ \<Rightarrow> Inr ()))"

text \<open>The markets of the positions, fetched one by one; a nil position panics.\<close>

primrec fetch_markets ::
  "cluster \<Rightarrow> 'd position_data option list \<Rightarrow> (string \<rightharpoonup> 'd market_data option) \<Rightarrow>
   ('d, string + (string \<rightharpoonup> 'd market_data option)) prog" where
  "fetch_markets IC [] markets = Return (Inr markets)"
| "fetch_markets IC (p # ps) markets =
     deref p (\<lambda>pos.
     onErr (GetMarketData IC (pos_MarketID pos)) (\<lambda>e. Return (Inl e)) (\<lambda>marketData.
     fetch_markets IC ps (markets(pos_MarketID pos \<mapsto> marketData))))"

definition GetAccountData ::
  "cluster \<Rightarrow> 'd profile_cache option \<Rightarrow> ('d, string + 'd account_data) prog" where
  "GetAccountData IC cache =
     deref cache (\<lambda>profile.
     onErr (GetOpenPositions (pc_ProfileID profile)) (\<lambda>e. Return (Inl e)) (\<lambda>positions.
     if positions = []
     then Return (Inr \<lparr> ad_Cache = profile, ad_Positions = [], ad_Markets = Map.empty \<rparr>)
     else
       onErr (fetch_markets IC positions Map.empty) (\<lambda>e. Return (Inl e)) (\<lambda>markets.
       Return (Inr \<lparr> ad_Cache = profile, ad_Positions = positions, ad_Markets = markets \<rparr>))))"

definition GetInsuranceData :: "cluster \<Rightarrow> nat \<Rightarrow> ('d, string + 'd account_data) prog" where
  "GetInsuranceData IC insurance_id =
     onErr (GetProfileCache insurance_id) (\<lambda>e. Return (Inl e)) (GetAccountData IC)"

definition ClawbackRequired :: "'d dec_lib \<Rightarrow> cluster \<Rightarrow> f64 \<Rightarrow> ('d, bool) prog" where
  "ClawbackRequired D IC inv3Buffer =
     onErr (CachedIsInv3Valid inv3Buffer) (\<lambda>_. Return False) (\<lambda>valid.
     if valid then Return False
     else
       onErr (GetInsuranceData IC 0) (\<lambda>_. Return False) (\<lambda>data.
       orPanic ''nil pointer dereference'' (flt D (pc_AccountMargin (ad_Cache data))) (\<lambda>margin.
       Return (\<not> f64_lt (f64_lit (1 / 1000)) margin))))"

text \<open>The map of the winning positions by trader, with the list of its keys\<close>

primrec winning_map ::
  "'d dec_lib \<Rightarrow> f64 \<Rightarrow> nat \<Rightarrow> 'd position_data option list \<Rightarrow> nat list \<times> (nat \<rightharpoonup> 'd position_data) \<Rightarrow>
   ('d, string + (nat list \<times> (nat \<rightharpoonup> 'd position_data))) prog" where
  "winning_map D atPrice insuranceId [] m = Return (Inr m)"
| "winning_map D atPrice insuranceId (p # ps) m =
     deref p (\<lambda>pos.
     let traderId = pos_ProfileID pos;
         pnl = calcUnrealizedPnl (d_to_float D (pos_Size pos)) (d_to_float D (pos_EntryPrice pos)) atPrice
                 (pos_Side pos)
     in if traderId = insuranceId \<or> f64_le pnl (f64_of_int 0)
        then winning_map D atPrice insuranceId ps m
        else winning_map D atPrice insuranceId ps
               (if traderId \<in> set (fst m) then fst m else traderId # fst m, (snd m)(traderId \<mapsto> pos)))"

definition GetWinningTraderPostns ::
  "'d dec_lib \<Rightarrow> cluster \<Rightarrow> string \<Rightarrow> string \<Rightarrow> f64 \<Rightarrow> nat \<Rightarrow>
   ('d, string + (nat list \<times> (nat \<rightharpoonup> 'd position_data))) prog" where
  "GetWinningTraderPostns D IC marketId side atPrice insuranceId =
     onErr (GetWinningPositions IC marketId side) (\<lambda>e. Return (Inl e)) (\<lambda>winPositions.
     winning_map D atPrice insuranceId winPositions ([], Map.empty))"

text \<open>Polling for the cancellation, with a pause between the attempts\<close>

function wait_loop :: "nat \<Rightarrow> nat \<Rightarrow> ('d, string + unit) prog" where
  "wait_loop traderId attempts =
     andThen (IsCancellAllAccepted traderId) (\<lambda>r.
     case r of
       Inr True \<Rightarrow> Return (Inr ())
     | _ \<Rightarrow>
         if 20 < attempts + 1 then Return (Inl ''WaitForCancellAllAccepted exceed 20 attempts'')
         else sleep WAIT_CANCEL_ALL_INTERVAL (wait_loop traderId (attempts + 1)))"
  by pat_completeness auto
termination
  by (relation "measure (\<lambda>(_, attempts). 20 - attempts)") auto

declare wait_loop.simps [simp del]

definition WaitForCancellAllAccepted :: "nat \<Rightarrow> ('d, string + unit) prog" where
  "WaitForCancellAllAccepted traderId =
     onErr (HighPriorityCancelAll traderId True) (\<lambda>e. Return (Inl e)) (\<lambda>_. wait_loop traderId 0)"

definition GetOrCreateInsurance :: "('d, string + nat) prog" where
  "GetOrCreateInsurance =
     andThen (GetProfileById 0) (\<lambda>r.
     andThen (case r of
         Inr p \<Rightarrow> Return (Inr p)
       | Inl e \<Rightarrow> if e = PROFILE_NOT_FOUND_ERROR then CreateInsuranceProfile INSURANCE_WALLET
                  else Return (Inl e)) (\<lambda>r.
     case r of
       Inl e \<Rightarrow> Return (Inl e)
     | Inr p \<Rightarrow>
         deref p (\<lambda>profile.
         if pr_ProfileId profile \<noteq> 0 then Panic ''Insurance profileId must be always 0''    \<comment> \<open>\<^verbatim>\<open>Fatalf\<close>\<close>
         else Return (Inr (pr_ProfileId profile)))))"

definition TntAssistant :: "'d dec_lib \<Rightarrow> cluster \<Rightarrow> f64 \<Rightarrow> 'd assistant" where
  "TntAssistant D IC inv3Buffer = \<lparr>
     la_Queue = QueueLiqActions,
     la_LiquidatedVaults = LiquidatedVaults,
     la_CompletedLiquidation = CompletedLiquidation,
     la_CancelExistingOrders = (\<lambda>traderId. HighPriorityCancelAll traderId True),
     la_UpdateLastChecked = UpdateLastChecked,
     la_GetNextLiqBatch = LiquidationBatch,
     la_GetInsuranceData = GetInsuranceData IC,
     la_GetAccountData = GetAccountData IC,
     la_ClawbackRequired = ClawbackRequired D IC inv3Buffer,
     la_GetWinningTraderPostns = GetWinningTraderPostns D IC,
     la_GetNextLiquidationServiceId = 0,
     la_GetOrCreateInsurance = GetOrCreateInsurance,
     la_WaitForCancellAllAccepted = WaitForCancellAllAccepted \<rparr>"

section \<open>The liquidation service\<close>

definition LIQ_BATCH_LIMIT :: int where "LIQ_BATCH_LIMIT = 10"

abbreviation onPanic :: "'a option \<Rightarrow> ('a \<Rightarrow> ('d, 'b) prog) \<Rightarrow> ('d, 'b) prog" where
  "onPanic \<equiv> orPanic ''runtime error''"

text \<open>\<^verbatim>\<open>UnixMicro()\<close> of a time in nanoseconds\<close>

definition now_micro :: "(int \<Rightarrow> ('d, 'a) prog) \<Rightarrow> ('d, 'a) prog" where
  "now_micro k = now (\<lambda>t. k (t div 1000))"

text \<open>Queuing the actions an account calls for, and closing liquidated vaults\<close>

definition carry_out ::
  "'d assistant \<Rightarrow> nat \<Rightarrow> 'd action list \<Rightarrow> nat list \<Rightarrow> ('d, 'd action list) prog" where
  "carry_out A pid actions liquidatedVaults =
     andThen (if actions \<noteq> [] then ignoring (la_Queue A actions) else Return ()) (\<lambda>_.
     andThen (if liquidatedVaults \<noteq> [] then ignoring (la_LiquidatedVaults A liquidatedVaults) else Return ()) (\<lambda>_.
     andThen (la_UpdateLastChecked A pid) (\<lambda>_. Return actions)))"

text \<open>Liquidating an account below the margin: the actions it called for\<close>

definition liquidate ::
  "'d dec_lib \<Rightarrow> 'd assistant \<Rightarrow> 'd profile_cache \<Rightarrow> ('d, 'd action list) prog" where
  "liquidate D A profile =
     onErr (la_WaitForCancellAllAccepted A (pc_ProfileID profile)) (\<lambda>_. Return []) (\<lambda>_.
     onErr (la_GetAccountData A (Some profile)) (\<lambda>_. Return []) (\<lambda>account.
     onPanic (requiredActions D account) (\<lambda>(actions, liquidatedVaults).
     carry_out A (pc_ProfileID profile) actions liquidatedVaults)))"

text \<open>One profile of a batch, after the check of the context\<close>

definition process_profile ::
  "'d dec_lib \<Rightarrow> 'd assistant \<Rightarrow> 'd profile_cache \<Rightarrow> ('d, 'd action list) prog" where
  "process_profile D A profile =
     onPanic (flt D (pc_AccountMargin profile)) (\<lambda>accountMargin.
     onPanic (if f64_lt accountMargin (f64_lit (- 1 / 10)) then Some True
              else if f64_lt (f64_lit (3 / 100)) accountMargin then map_option Not (isLiquidationEnding D profile)
              else Some False) (\<lambda>margin_error.
     if margin_error then Return []
     else
       now_micro (\<lambda>t.
       onPanic (shouldLiquidationHaveMoreTime D profile t) (\<lambda>more_time.
       if more_time then Return []
       else
         onPanic (isLiquidationEnding D profile) (\<lambda>ending.
         if ending then
           onErr (la_WaitForCancellAllAccepted A (pc_ProfileID profile)) (\<lambda>_. Return []) (\<lambda>_.
           andThen (la_CompletedLiquidation A (pc_ProfileID profile)) (\<lambda>_. Return []))
         else if belowLiquidationMargin accountMargin then liquidate D A profile
         else Return [])))))"

text \<open>The profiles of a batch; \<open>None\<close> when the context was cancelled\<close>

primrec process_batch ::
  "'d dec_lib \<Rightarrow> 'd assistant \<Rightarrow> 'd profile_cache option list \<Rightarrow> nat option \<times> nat \<times> 'd action list \<Rightarrow>
   ('d, (nat option \<times> nat \<times> 'd action list) option) prog" where
  "process_batch D A [] st = Return (Some st)"
| "process_batch D A (p # ps) st =
     (case st of (last_id, total_count, all_actions) \<Rightarrow>
     deref p (\<lambda>profile.
     deref (pc_ProfileType profile) (\<lambda>kind.
     if kind = PROFILE_TYPE_INSURANCE
     then process_batch D A ps (Some (pc_ProfileID profile), total_count, all_actions)
     else
       Call (LoadFlag ''ctx.Done'') (\<lambda>ans.
       if a_flag ans then Return None
       else
         andThen (process_profile D A profile) (\<lambda>actions.
         process_batch D A ps (Some (pc_ProfileID profile), total_count + 1, all_actions @ actions))))))"

text \<open>
  The rounds; fuel stands for their number. The result is that of the code: the number of
  profiles looked at, the error, and the actions.
\<close>

primrec liquidation_rounds ::
  "'d dec_lib \<Rightarrow> 'd assistant \<Rightarrow> nat \<Rightarrow> nat option \<times> nat \<times> 'd action list \<Rightarrow>
   ('d, (nat \<times> string option \<times> 'd action list) option) prog" where
  "liquidation_rounds D A 0 st = Return None"
| "liquidation_rounds D A (Suc fuel) st =
     onErr (la_GetNextLiqBatch A (fst st) LIQ_BATCH_LIMIT) (\<lambda>e. Return (Some (0, Some e, []))) (\<lambda>batch.
     if batch = [] then Return (Some (fst (snd st), None, snd (snd st)))
     else
       andThen (process_batch D A batch st) (\<lambda>r.
       case r of
         None \<Rightarrow> Return (Some (0, None, []))
       | Some st' \<Rightarrow> liquidation_rounds D A fuel st'))"

definition ProcessLiquidations ::
  "'d dec_lib \<Rightarrow> 'd assistant \<Rightarrow> nat \<Rightarrow> ('d, (nat \<times> string option \<times> 'd action list) option) prog" where
  "ProcessLiquidations D A fuel = liquidation_rounds D A fuel (None, 0, [])"

definition QueueLiquidateActions ::
  "'d dec_lib \<Rightarrow> 'd assistant \<Rightarrow> 'd profile_cache option \<Rightarrow> ('d, string + unit) prog" where
  "QueueLiquidateActions D A profile =
     onErr (la_GetAccountData A profile) (\<lambda>e. Return (Inl e)) (\<lambda>account.
     onPanic (requiredActions D account) (\<lambda>(actions, liquidatedVaults).
     andThen (if actions \<noteq> [] then ignoring (la_Queue A actions) else Return ()) (\<lambda>_.
     andThen (if liquidatedVaults \<noteq> [] then ignoring (la_LiquidatedVaults A liquidatedVaults) else Return ()) (\<lambda>_.
     Return (Inr ())))))"

definition CancelAllOrders :: "'d assistant \<Rightarrow> 'd profile_cache option \<Rightarrow> ('d, string + unit) prog" where
  "CancelAllOrders A cache =
     deref cache (\<lambda>profile. la_WaitForCancellAllAccepted A (pc_ProfileID profile))"

section \<open>The insurance service\<close>

definition sellOnMarket :: "'d dec_lib \<Rightarrow> 'd assistant \<Rightarrow> nat \<Rightarrow> ('d, string + nat) prog" where
  "sellOnMarket D A insuranceId =
     onErr (la_GetInsuranceData A insuranceId) (\<lambda>e. Return (Inl e)) (\<lambda>insurance.
     deref (pc_LastLiqCheck (ad_Cache insurance)) (\<lambda>last_check.
     now_micro (\<lambda>t.
     let interval_passed = IsIntervalPassedForMicroseconds (word_of_int last_check)
           INSURANCE_WATERFALL_INTERVAL (word_of_int t);
         pid = pc_ProfileID (ad_Cache insurance)
     in if ad_Positions insurance \<noteq> [] \<and> interval_passed
        then
          onErr (la_WaitForCancellAllAccepted A pid) (\<lambda>e. Return (Inl e)) (\<lambda>_.
          onPanic (insuranceSelloffActions D insurance) (\<lambda>actions.
          andThen (if actions \<noteq> [] then ignoring (la_Queue A actions) else Return ()) (\<lambda>_.
          andThen (la_UpdateLastChecked A pid) (\<lambda>_. Return (Inr (length actions))))))
        else Return (Inr 0))))"

primrec clawback_positions ::
  "'d dec_lib \<Rightarrow> (nat \<Rightarrow> nat list \<Rightarrow> nat list) \<Rightarrow> 'd assistant \<Rightarrow> 'd account_data \<Rightarrow> f64 \<Rightarrow>
   'd position_data option list \<Rightarrow> 'd action list \<Rightarrow> ('d, string + 'd action list) prog" where
  "clawback_positions D ord A insurance margin [] actions = Return (Inr actions)"
| "clawback_positions D ord A insurance margin (p # ps) actions =
     deref p (\<lambda>insurancePos.
     onPanic (calcZp D insurancePos margin) (\<lambda>zeroPrice.
     onErr (la_GetWinningTraderPostns A (pos_MarketID insurancePos) (FlipSide (pos_Side insurancePos)) zeroPrice 0)
       (\<lambda>e. Return (Inl e)) (\<lambda>(traders, winning).
     if traders \<noteq> [] then
       onPanic (clawbackActions D ord insurance insurancePos traders winning) (\<lambda>as.
       clawback_positions D ord A insurance margin ps (actions @ as))
     else clawback_positions D ord A insurance margin ps actions)))"

definition clawback ::
  "'d dec_lib \<Rightarrow> (nat \<Rightarrow> nat list \<Rightarrow> nat list) \<Rightarrow> 'd assistant \<Rightarrow> nat \<Rightarrow> ('d, string + nat) prog" where
  "clawback D ord A insuranceId =
     onErr (la_GetInsuranceData A insuranceId) (\<lambda>e. Return (Inl e)) (\<lambda>insurance.
     onPanic (flt D (pc_AccountMargin (ad_Cache insurance))) (\<lambda>margin.
     onErr (la_WaitForCancellAllAccepted A (pc_ProfileID (ad_Cache insurance))) (\<lambda>e. Return (Inl e)) (\<lambda>_.
     onErr (clawback_positions D ord A insurance margin (ad_Positions insurance) [])
       (\<lambda>e. Return (Inl e)) (\<lambda>actions.
     andThen (if actions \<noteq> [] then ignoring (la_Queue A actions) else Return ()) (\<lambda>_.
     Return (Inr (length actions)))))))"

text \<open>The number of actions is zero when there was an error.\<close>

definition ProcessPositions ::
  "'d dec_lib \<Rightarrow> (nat \<Rightarrow> nat list \<Rightarrow> nat list) \<Rightarrow> 'd assistant \<Rightarrow> nat \<Rightarrow> ('d, nat) prog" where
  "ProcessPositions D ord A insuranceId =
     andThen (la_ClawbackRequired A) (\<lambda>required.
     andThen (if required then clawback D ord A insuranceId else sellOnMarket D A insuranceId)
       (\<lambda>r. Return (case r of Inl _ \<Rightarrow> 0 | Inr n \<Rightarrow> n)))"

end
