(* ===== verification/Liq_Engine_Props.thy ===== *)
theory Liq_Engine_Props
  imports Liq_Engine Tick
begin

text \<open>
  What the engine decides: by the margin of the account, and with prices that stay within one
  percent of the fair price; clawbacks only take from winning traders, once from each.
\<close>

section \<open>Loops over the positions\<close>

lemma bind_Some [simp]: "Option.bind x f = Some y \<longleftrightarrow> (\<exists>a. x = Some a \<and> f a = Some y)"
  by (cases x) auto

lemma if_Some: "(if b then x else y) = Some z \<longleftrightarrow> b \<and> x = Some z \<or> \<not> b \<and> y = Some z"
  by simp

lemma for_positions_mem:
  "for_positions f ps = Some as \<Longrightarrow> a \<in> set as \<Longrightarrow> \<exists>p bs. Some p \<in> set ps \<and> f p = Some bs \<and> a \<in> set bs"
  by (induction ps arbitrary: as) fastforce+

lemma for_positions_single:
  assumes "for_positions f ps = Some as"
    and "\<And>p bs. f p = Some bs \<Longrightarrow> \<exists>b. bs = [b] \<and> R p b"
  shows "\<exists>qs. ps = map Some qs \<and> list_all2 R qs as"
  using assms(1)
proof (induction ps arbitrary: as)
  case (Cons p ps)
  then obtain q bs cs where q: "p = Some q" "f q = Some bs" "for_positions f ps = Some cs" "as = bs @ cs"
    by auto
  from Cons.IH [OF q(3)] obtain qs where "ps = map Some qs" "list_all2 R qs cs"
    by blast
  then show ?case
    using assms(2) [OF q(2)] q by (intro exI [of _ "q # qs"]) auto
qed simp

section \<open>Orders\<close>

lemma make_action_Some [simp]:
  "make_action D kind t m s p = Some a \<longleftrightarrow>
     d_of_float D s = Some (act_Size a) \<and> d_of_float D p = Some (act_Price a) \<and>
     act_Kind a = kind \<and> act_TraderId a = t \<and> act_MarketId a = m"
  by (cases a) (auto simp: make_action_def)

lemma slice_orders_mem:
  "slice_orders D t m xs = Some as \<Longrightarrow> a \<in> set as \<Longrightarrow>
     \<exists>s p. (s, p) \<in> set xs \<and> f64_lt (f64_of_int 0) s \<and> make_action D APlaceSellOrders t m s p = Some a"
proof (induction xs arbitrary: as)
  case (Cons x xs)
  then show ?case
    by (cases x) (fastforce split: if_splits)
qed simp

text \<open>A price is within the limit of its side.\<close>

definition within_limit :: "string \<Rightarrow> f64 \<Rightarrow> f64 \<Rightarrow> f64 \<Rightarrow> bool" where
  "within_limit side fair tick price \<longleftrightarrow>
     (if side = SHORT then \<not> f64_lt (roundToNearestTick (f64_mul (f64_lit (101 / 100)) fair) tick) price
      else \<not> f64_lt price (roundToNearestTick (f64_mul (f64_lit (99 / 100)) fair) tick))"

lemma clamped [simp]: "\<not> f64_lt (clamp_below limit p) limit" "\<not> f64_lt limit (clamp_above limit p)"
  by (simp_all add: clamp_below_def clamp_above_def)

lemma order_prices_within:
  "p \<in> set (order_prices side bid ask fair tick) \<Longrightarrow> within_limit side fair tick p"
  by (auto simp: order_prices_def within_limit_def Let_def)

lemma order_prices_length: "length (order_prices side bid ask fair tick) = 4"
  by (simp add: order_prices_def Let_def)

definition sell_order_ok :: "'d dec_lib \<Rightarrow> 'd account_data \<Rightarrow> 'd position_data \<Rightarrow> 'd action \<Rightarrow> bool" where
  "sell_order_ok D account pos a \<longleftrightarrow>
     act_Kind a = APlaceSellOrders \<and> act_TraderId a = pc_ProfileID (ad_Cache account) \<and>
     act_MarketId a = pos_MarketID pos \<and>
     (\<exists>market fair tick price. lookup_ptr (ad_Markets account) (pos_MarketID pos) = Some market \<and>
        flt D (mkt_FairPrice market) = Some fair \<and> flt D (mkt_MinTick market) = Some tick \<and>
        d_of_float D price = Some (act_Price a) \<and> within_limit (pos_Side pos) fair tick price)"

lemma sell_order_okI:
  assumes "lookup_ptr (ad_Markets account) (pos_MarketID pos) = Some market"
    and "flt D (mkt_FairPrice market) = Some fair" and "flt D (mkt_MinTick market) = Some tick"
    and "p \<in> set (order_prices (pos_Side pos) bid ask fair tick)"
    and "make_action D APlaceSellOrders (pc_ProfileID (ad_Cache account)) (pos_MarketID pos) s p = Some b"
    and "act_Price b = act_Price a" and "act_Kind b = act_Kind a" and "act_TraderId b = act_TraderId a"
    and "act_MarketId b = act_MarketId a"
  shows "sell_order_ok D account pos a"
  using assms order_prices_within [OF assms(4)] unfolding sell_order_ok_def by auto

lemma position_orders_ok:
  assumes "position_orders D account share pos = Some as" and "a \<in> set as"
  shows "sell_order_ok D account pos a"
proof -
  have fourth: "order_prices side bid ask fair tick ! 3 \<in> set (order_prices side bid ask fair tick)"
    for side bid ask fair tick
    by (rule nth_mem) (simp add: order_prices_length)
  have slices: "sell_order_ok D account pos a"
    if "slice_orders D (pc_ProfileID (ad_Cache account)) (pos_MarketID pos)
        (zip sizes (order_prices (pos_Side pos) bid ask fair tick)) = Some as"
      "lookup_ptr (ad_Markets account) (pos_MarketID pos) = Some market"
      "flt D (mkt_FairPrice market) = Some fair" "flt D (mkt_MinTick market) = Some tick"
    for sizes bid ask fair tick market
    using slice_orders_mem [OF that(1) assms(2)] that(2-4)
    by (auto dest!: set_zip_rightD intro: sell_order_okI)
  have single: "sell_order_ok D account pos a"
    if "d_of_float D (order_prices (pos_Side pos) bid ask fair tick ! 3) = Some price"
      "a = \<lparr> act_Kind = APlaceSellOrders, act_TraderId = pc_ProfileID (ad_Cache account),
           act_MarketId = pos_MarketID pos, act_Size = pos_Size pos, act_Price = price \<rparr>"
      "lookup_ptr (ad_Markets account) (pos_MarketID pos) = Some market"
      "flt D (mkt_FairPrice market) = Some fair" "flt D (mkt_MinTick market) = Some tick"
    for bid ask fair tick market price
    using that order_prices_within [OF fourth] unfolding sell_order_ok_def by auto
  show ?thesis
    using assms
    by (auto simp: position_orders_def Let_def if_Some case_prod_unfold split del: if_split
        intro: slices single)
qed


section \<open>Decisions by the margin\<close>

text \<open>The takeover of a position at its zero price\<close>

definition takeover_of :: "'d dec_lib \<Rightarrow> nat \<Rightarrow> f64 \<Rightarrow> 'd position_data \<Rightarrow> 'd action \<Rightarrow> bool" where
  "takeover_of D traderId margin pos a \<longleftrightarrow>
     act_Kind a = AInsTakeover \<and> act_TraderId a = traderId \<and> act_MarketId a = pos_MarketID pos \<and>
     d_of_float D (d_to_float D (pos_Size pos)) = Some (act_Size a) \<and>
     (\<exists>zp. calcZp D pos margin = Some zp \<and> d_of_float D zp = Some (act_Price a))"

lemma waterfall3_takes_over:
  assumes "waterfall3 D account = Some actions"
    and "flt D (pc_AccountMargin (ad_Cache account)) = Some margin"
  shows "\<exists>qs. ad_Positions account = map Some qs \<and>
     list_all2 (takeover_of D (pc_ProfileID (ad_Cache account)) margin) qs actions"
  using assms unfolding waterfall3_def
  by (auto intro!: for_positions_single simp: takeover_of_def)

lemma waterfall1_sells:
  "waterfall1 D account = Some as \<Longrightarrow>
     list_all (\<lambda>a. act_Kind a = APlaceSellOrders \<and> act_TraderId a = pc_ProfileID (ad_Cache account)) as"
  unfolding waterfall1_def generateSellOrders_def list_all_iff
  using for_positions_mem position_orders_ok unfolding sell_order_ok_def by blast

lemma required_traders:
  assumes "requiredActions D account = Some (actions, vaults)" and "a \<in> set actions"
  shows "act_TraderId a = pc_ProfileID (ad_Cache account)"
proof -
  obtain m where m: "flt D (pc_AccountMargin (ad_Cache account)) = Some m"
    using assms(1) by (auto simp: requiredActions_def)
  have "act_TraderId a = pc_ProfileID (ad_Cache account)" if "waterfall3 D account = Some actions"
    using waterfall3_takes_over [OF that m] assms(2)
    by (auto simp: takeover_of_def in_set_conv_nth list_all2_conv_all_nth)
  then show ?thesis
    using assms waterfall1_sells [of D account actions]
    by (auto simp: requiredActions_def list_all_iff split: if_splits)
qed

text \<open>What an account with a given margin calls for: nothing at three percent or more; between two and
  three percent only sell orders for the account itself; below two percent exactly one takeover
  per position, at its zero price, and the closing of the account if it is a vault.\<close>

theorem required_actions_by_margin:
  assumes "requiredActions D account = Some (actions, vaults)"
    and "flt D (pc_AccountMargin (ad_Cache account)) = Some margin"
  shows "if \<not> f64_lt margin (f64_lit (3 / 100)) then actions = [] \<and> vaults = []
    else if f64_le (f64_lit (2 / 100)) margin
    then vaults = [] \<and> list_all (\<lambda>a. act_Kind a = APlaceSellOrders \<and>
        act_TraderId a = pc_ProfileID (ad_Cache account)) actions
    else vaults = (if pc_ProfileType (ad_Cache account) = Some PROFILE_TYPE_VAULT
        then [pc_ProfileID (ad_Cache account)] else []) \<and>
      (\<exists>qs. ad_Positions account = map Some qs \<and>
        list_all2 (takeover_of D (pc_ProfileID (ad_Cache account)) margin) qs actions)"
  using assms waterfall1_sells [of D account actions] waterfall3_takes_over [OF _ assms(2)]
  by (auto simp: requiredActions_def LIQUIDATION_MARGIN_def TAKEOVER_MARGIN_def split: if_splits)

section \<open>Clawbacks\<close>

lemma share_loop_keys:
  "share_loop D s n m winning ts (d, r, keys, caps) = Some (d', r', keys', caps') \<Longrightarrow>
     set keys' \<subseteq> set keys \<union> (set ts \<inter> dom winning) \<and>
     (distinct ts \<longrightarrow> distinct keys \<longrightarrow> set ts \<inter> set keys = {} \<longrightarrow> distinct keys')"
proof (induction ts arbitrary: d r keys caps)
  case (Cons t ts)
  show ?case
    using Cons.prems by (auto simp: Let_def split: if_splits dest!: Cons.IH)
qed simp

lemma clawback_loop_actions:
  "clawback_loop D marketId zp m ts st = Some as \<Longrightarrow>
     set (map act_TraderId as) \<subseteq> set ts \<and> (distinct ts \<longrightarrow> distinct (map act_TraderId as)) \<and>
     (\<forall>a \<in> set as. act_Kind a = AInsClawback \<and> act_MarketId a = marketId \<and> d_of_float D zp = Some (act_Price a))"
proof (induction ts arbitrary: st as)
  case (Cons t ts)
  have "\<exists>st' as'. clawback_loop D marketId zp m ts st' = Some as' \<and>
      (as = as' \<or> (\<exists>a x. make_action D AInsClawback t marketId x zp = Some a \<and> as = a # as'))"
  proof (cases "snd st t")
    case None
    then show ?thesis
      using Cons.prems by (cases st) auto
  next
    case (Some cap)
    then show ?thesis
      using Cons.prems
      unfolding clawback_loop.simps case_prod_unfold Let_def Some option.case if_Some bind_Some option.inject
      by blast
  qed
  then obtain st' as' where rest: "clawback_loop D marketId zp m ts st' = Some as'"
    and as: "as = as' \<or> (\<exists>a x. make_action D AInsClawback t marketId x zp = Some a \<and> as = a # as')"
    by blast
  show ?case
    using Cons.IH [OF rest] as by (auto simp: image_subset_iff)
qed simp

text \<open>Property C15. Whatever the order in which Go's maps are visited, a clawback takes from traders with a winning
  position only, at most once from each, in the market of the insurance's position and at its
  zero price.\<close>

theorem clawback_only_from_winners:
  assumes "clawbackActions D ord insurance pos traders winning = Some actions"
    and "\<forall>k ks. set (ord k ks) = set ks \<and> (distinct ks \<longrightarrow> distinct (ord k ks))"
    and "distinct traders"
  shows "act_TraderId ` set actions \<subseteq> set traders \<inter> dom winning \<and> distinct (map act_TraderId actions) \<and>
    (\<exists>margin zp. flt D (pc_AccountMargin (ad_Cache insurance)) = Some margin \<and> calcZp D pos margin = Some zp \<and>
      list_all (\<lambda>a. act_Kind a = AInsClawback \<and> act_MarketId a = pos_MarketID pos \<and>
        d_of_float D zp = Some (act_Price a)) actions)"
proof -
  from assms(1) obtain s n m q st margin zp where
    q: "share_loop D s n m winning (ord 1 traders) (s, f64_of_int 0, [], Map.empty) = Some q"
    and zp: "flt D (pc_AccountMargin (ad_Cache insurance)) = Some margin" "calcZp D pos margin = Some zp"
    and loop: "clawback_loop D (pos_MarketID pos) zp m (ord 3 (fst (snd (snd q)))) st = Some actions"
    unfolding clawbackActions_def bind_Some Let_def case_prod_unfold
    by (elim exE conjE) (rule that)
  obtain d r keys caps where share: "q = (d, r, keys, caps)"
    by (cases q) auto
  from share_loop_keys [OF q [unfolded share]] have keys: "set keys \<subseteq> set traders \<inter> dom winning" "distinct keys"
    using assms(2,3) by auto
  show ?thesis
    using clawback_loop_actions [OF loop] keys zp assms(2)
    by (auto simp: list_all_iff share)
qed

end
