(* ===== verification/Demo_Liq.thy ===== *)
theory Demo_Liq
  imports Liq_Service Liq_Engine_Props Demo_Env
begin

text \<open>
  Accounts for the examples of the liquidation service: an insurance, a trader far below the
  margin, a trader that recovered while being liquidated, and their environment.
\<close>

definition liq_cache :: "nat \<Rightarrow> string \<Rightarrow> string \<Rightarrow> rat \<Rightarrow> rat profile_cache" where
  "liq_cache pid kind status margin = demo_cache \<lparr> pc_ProfileID := pid, pc_ProfileType := Some kind,
     pc_Status := Some status, pc_AccountMargin := Some margin, pc_LastLiqCheck := Some 0 \<rparr>"

definition liq_position :: "rat position_data" where
  "liq_position = \<lparr> pos_PositionID = '''', pos_MarketID = ''BTC'', pos_ProfileID = 7, pos_Size = 2,
     pos_Side = LONG, pos_EntryPrice = 100, pos_UnrealizedPnlFair = None, pos_NotionalFair = None,
     pos_Margin = None, pos_LiquidationPrice = None, pos_FairPrice = Some 100, pos_ShardId = '''',
     pos_ArchiveId = 0 \<rparr>"

definition liq_market :: "rat market_data" where
  "liq_market = \<lparr> mkt_MarketID = ''BTC'', mkt_Status = None, mkt_MinInitialMargin = None,
     mkt_ForcedMargin = None, mkt_LiquidationMargin = None, mkt_MinTick = Some 1, mkt_MinOrder = Some 1,
     mkt_BestBid = Some 100, mkt_BestAsk = Some 102, mkt_MarketPrice = None, mkt_IndexPrice = None,
     mkt_LastTradePrice = None, mkt_FairPrice = Some 100, mkt_InstantFundingRate = None,
     mkt_LastFundingRate = None, mkt_LastUpdateTime = 0, mkt_LastUpdateSequence = 0,
     mkt_AverageDailyVolumeQ = Some 1000000, mkt_LastFundingUpdateTime = 0, mkt_IconUrl = '''',
     mkt_MarketTitle = '''', mkt_ShardId = '''', mkt_ArchiveId = 0 \<rparr>"

definition liq_cluster :: cluster where
  "liq_cluster = Inr [\<lparr> ic_Title = ''BTC'', ic_Host = '''', ic_Port = 0, ic_User = '''', ic_Password = '''',
     ic_Tags = [] \<rparr>]"

text \<open>The first batch has the accounts, the next ones are empty.\<close>

definition liq_value :: "string \<Rightarrow> rat gval list \<Rightarrow> rat gval" where
  "liq_value fn ps =
     (if fn = LIQUIDATION_BATCH then
        VList (if hd ps = VNil
               then [VCache (liq_cache 0 PROFILE_TYPE_INSURANCE PROFILE_STATUS_ACTIVE 0),
                     VCache (liq_cache 7 PROFILE_TYPE_TRADER PROFILE_STATUS_ACTIVE 0),
                     VCache (liq_cache 8 PROFILE_TYPE_TRADER PROFILE_STATUS_LIQUIDATING 1)]
               else [])
      else if fn = IS_CANCEL_ALL_ACCEPTED then VBool True
      else if fn = GET_OPEN_POSITIONS then VList [VPosition liq_position]
      else if fn = GET_MARKET_DATA then VMarket liq_market
      else VNil)"

fun liq_env :: "rat env" where
  "liq_env h (Execute i fn ps) = answer_with (BRows [(liq_value fn ps, '''')])"
| "liq_env h c = answer_with (BRows [])"

lemma liq_cache_fields [simp]:
  "pc_ProfileID (liq_cache pid kind status margin) = pid"
  "pc_ProfileType (liq_cache pid kind status margin) = Some kind"
  "pc_Status (liq_cache pid kind status margin) = Some status"
  "pc_AccountMargin (liq_cache pid kind status margin) = Some margin"
  "pc_LastLiqCheck (liq_cache pid kind status margin) = Some 0"
  by (simp_all add: liq_cache_def)

lemma tnt_simps [simp]:
  "la_Queue (TntAssistant D IC b) = QueueLiqActions"
  "la_LiquidatedVaults (TntAssistant D IC b) = LiquidatedVaults"
  "la_CompletedLiquidation (TntAssistant D IC b) = CompletedLiquidation"
  "la_UpdateLastChecked (TntAssistant D IC b) = UpdateLastChecked"
  "la_GetNextLiqBatch (TntAssistant D IC b) = LiquidationBatch"
  "la_GetAccountData (TntAssistant D IC b) = GetAccountData IC"
  "la_WaitForCancellAllAccepted (TntAssistant D IC b) = WaitForCancellAllAccepted"
  by (simp_all add: TntAssistant_def)

lemma liq_wait [simp]:
  "run liq_env (WaitForCancellAllAccepted pid) h =
    ((Execute API_INSTANCE IS_CANCEL_ALL_ACCEPTED [VUint pid], answer_with (BRows [(VBool True, '''')])) #
     (Execute API_INSTANCE HIGH_PRIORITY_CANCEL_ALL [VUint pid, VBool True], answer_with (BRows [(VNil, '''')])) # h,
     Done (Inr ()))"
  unfolding WaitForCancellAllAccepted_def
  by (subst wait_loop.simps)
    (simp add: demo_run_defs run_andThen HighPriorityCancelAll_def IsCancellAllAccepted_def liq_value_def)

lemmas liq_run_defs =
  demo_run_defs run_andThen answer_with_def liq_value_def LiquidationBatch_def process_profile_def
  isLiquidationEnding_def shouldLiquidationHaveMoreTime_def now_micro_def now_def flt_def
  belowLiquidationMargin_def LIQUIDATION_MARGIN_def TAKEOVER_MARGIN_def f64_eval f64_le_def
  liquidate_def carry_out_def ignoring_def GetAccountData_def GetOpenPositions_def GetMarketData_def
  withMarket_def GetInstance_def ByMarketID_def liq_cluster_def requiredActions_def waterfall3_def
  calcZp_def f64_sub_def QueueLiqActions_def UpdateLastChecked_def ProfileUpdateLastLiqChecked_def
  CompletedLiquidation_def ProfileUpdateStatus_def ProcessLiquidations_def

lemma demo_takeover:
  "waterfall3 rat_lib \<lparr> ad_Cache = liq_cache 7 PROFILE_TYPE_TRADER PROFILE_STATUS_ACTIVE 0,
       ad_Positions = [Some liq_position], ad_Markets = m \<rparr> =
     Some [\<lparr> act_Kind = AInsTakeover, act_TraderId = 7, act_MarketId = ''BTC'', act_Size = 2, act_Price = 100 \<rparr>]"
  by (simp add: waterfall3_def flt_def calcZp_def liq_position_def f64_eval f64_sub_def Let_def)

section \<open>The promises of the engine on these accounts\<close>

definition liq_account :: "rat account_data" where
  "liq_account = \<lparr> ad_Cache = liq_cache 7 PROFILE_TYPE_TRADER PROFILE_STATUS_ACTIVE 0,
     ad_Positions = [Some liq_position], ad_Markets = [''BTC'' \<mapsto> Some liq_market] \<rparr>"

lemma demo_sell_order:
  "generateSellOrders rat_lib liq_account (f64_lit (1 / 1000)) =
     Some [\<lparr> act_Kind = APlaceSellOrders, act_TraderId = 7, act_MarketId = ''BTC'', act_Size = 2, act_Price = 100 \<rparr>]"
  by (simp add: generateSellOrders_def liq_account_def position_orders_def lookup_ptr_def liq_market_def
      liq_position_def flt_def best_prices_def order_size_def order_prices_def clamp_below_def
      roundToNearestTick_def f64_eval f64_le_def Let_def)


lemma required_actions_by_margin_witness:
  "\<exists>qs. ad_Positions liq_account = map Some qs \<and>
     list_all2 (takeover_of rat_lib 7 (f64_of_int 0)) qs
       [\<lparr> act_Kind = AInsTakeover, act_TraderId = 7, act_MarketId = ''BTC'', act_Size = 2, act_Price = 100 \<rparr>]"
proof -
  have "requiredActions rat_lib liq_account = Some
      ([\<lparr> act_Kind = AInsTakeover, act_TraderId = 7, act_MarketId = ''BTC'', act_Size = 2, act_Price = 100 \<rparr>], [])"
    by (simp add: requiredActions_def liq_account_def flt_def LIQUIDATION_MARGIN_def TAKEOVER_MARGIN_def
        f64_eval f64_le_def demo_takeover Let_def)
  from required_actions_by_margin [OF this, of "f64_of_int 0"] show ?thesis
    by (simp add: liq_account_def flt_def f64_eval f64_le_def Let_def)
qed

lemma demo_clawback:
  "clawbackActions rat_lib (\<lambda>_ ks. ks) liq_account liq_position [5] [5 \<mapsto> liq_position] =
     Some [\<lparr> act_Kind = AInsClawback, act_TraderId = 5, act_MarketId = ''BTC'', act_Size = 2, act_Price = 100 \<rparr>]"
  by (simp add: clawbackActions_def liq_account_def lookup_ptr_def liq_market_def liq_position_def flt_def
      capacity_of_def roundToNearestTick_def make_action_def calcZp_def f64_sub_def f64_eval f64_le_def Let_def)

lemma clawback_only_from_winners_witness:
  "act_TraderId ` {\<lparr> act_Kind = AInsClawback, act_TraderId = 5, act_MarketId = ''BTC'', act_Size = 2 :: rat,
      act_Price = 100 \<rparr>} \<subseteq> set [5] \<inter> dom [5 \<mapsto> liq_position]"
  using conjunct1 [OF clawback_only_from_winners [OF demo_clawback]] by simp

end
