(* ===== verification/Liq_Service_Props.thy ===== *)
theory Liq_Service_Props
  imports Settlement_Scan Demo_Chain Demo_Liq
begin

text \<open>
  What the liquidation service does with what it reads: the locale \<open>liq_assistant\<close> states what the
  service relies on, its lemma that actions are queued and accounts reactivated only when
  justified is proved once in it, and the interpretation on \<open>TntAssistant\<close> discharges the laws.
\<close>

section \<open>Calls and histories\<close>

definition queue_call :: "'d action list \<Rightarrow> 'd call" where
  "queue_call acts = Execute API_INSTANCE QUEUE_LIQ_ACTIONS [VList (map VAction acts)]"

definition activate_call :: "nat \<Rightarrow> 'd call" where
  "activate_call pid = Execute PROFILE_INSTANCE PROFILE_UPDATE_STATUS [VUint pid, VString PROFILE_STATUS_ACTIVE]"

definition deciding :: "'d call \<Rightarrow> bool" where
  "deciding c \<longleftrightarrow> (\<exists>ps. c = Execute API_INSTANCE QUEUE_LIQ_ACTIONS ps \<or>
     c = Execute PROFILE_INSTANCE PROFILE_UPDATE_STATUS ps)"

lemma deciding_simps [simp]:
  "\<not> deciding (Sleep n)" "\<not> deciding Clock" "\<not> deciding (LoadFlag f)"
  "deciding (Execute i fn ps) \<longleftrightarrow>
     i = API_INSTANCE \<and> fn = QUEUE_LIQ_ACTIONS \<or> i = PROFILE_INSTANCE \<and> fn = PROFILE_UPDATE_STATUS"
  by (auto simp: deciding_def)

abbreviation reading :: "'d call_cond" where
  "reading \<equiv> \<lambda>_ c. \<not> deciding c"

definition poll_call :: "nat \<Rightarrow> 'd call" where
  "poll_call pid = Execute API_INSTANCE IS_CANCEL_ALL_ACCEPTED [VUint pid]"

text \<open>The latest poll of the cancellation of a profile's orders was answered with true.\<close>

definition cancel_accepted :: "'d history \<Rightarrow> nat \<Rightarrow> bool" where
  "cancel_accepted h pid \<longleftrightarrow>
     (\<exists>ans. latest (poll_call pid) h = Some ans \<and> decode_reply as_bool (a_reply ans) = Inr True)"

definition batch_call :: "nat option \<Rightarrow> 'd call" where
  "batch_call last_id = Execute PROFILE_INSTANCE LIQUIDATION_BATCH [opt_val VUint last_id, VInt LIQ_BATCH_LIMIT]"

text \<open>A batch of profiles to check contained the profile.\<close>

definition profile_reported :: "'d history \<Rightarrow> 'd profile_cache \<Rightarrow> bool" where
  "profile_reported h p \<longleftrightarrow>
     (\<exists>last_id ans cs. (batch_call last_id, ans) \<in> set h \<and>
        decode_reply (as_list (as_ptr as_cache)) (a_reply ans) = Inr cs \<and> Some p \<in> set cs)"

section \<open>The contract of an assistant\<close>

locale liq_assistant =
  fixes D :: "'d dec_lib" and A :: "'d assistant"
    and accepted :: "'d history \<Rightarrow> nat \<Rightarrow> bool"
    and reported :: "'d history \<Rightarrow> 'd profile_cache \<Rightarrow> bool"
  assumes wait_accepts:
      "wp reading (\<lambda>h' r. r = Done (Inr ()) \<longrightarrow> accepted h' pid) (la_WaitForCancellAllAccepted A pid) h"
    and batch_reports:
      "wp reading (\<lambda>h' r. \<forall>cs p. r = Done (Inr cs) \<longrightarrow> Some p \<in> set cs \<longrightarrow> reported h' p)
         (la_GetNextLiqBatch A last_id LIQ_BATCH_LIMIT) h"
    and account_keeps:
      "accepted h (pc_ProfileID profile) \<Longrightarrow>
         wp reading (\<lambda>h' r. \<forall>a. r = Done (Inr a) \<longrightarrow> accepted h' (pc_ProfileID profile) \<and> ad_Cache a = profile)
           (la_GetAccountData A (Some profile)) h"
    and queue_calls: "wp (\<lambda>h' c. h' = h \<and> c = queue_call acts) (\<lambda>_ _. True) (la_Queue A acts) h"
    and completed_calls:
      "wp (\<lambda>h' c. h' = h \<and> c = activate_call pid) (\<lambda>_ _. True) (la_CompletedLiquidation A pid) h"
    and vaults_read: "wp reading (\<lambda>_ _. True) (la_LiquidatedVaults A vaults) h"
    and update_reads: "wp reading (\<lambda>_ _. True) (la_UpdateLastChecked A pid) h"
    and reported_mono: "reported h p \<Longrightarrow> set h \<subseteq> set h' \<Longrightarrow> reported h' p"
begin

text \<open>When actions may be queued, and when an account may be made active again\<close>

definition queue_ok :: "'d history \<Rightarrow> 'd action list \<Rightarrow> bool" where
  "queue_ok h acts \<longleftrightarrow>
     (\<exists>p m. reported h p \<and> pc_ProfileType p \<noteq> Some PROFILE_TYPE_INSURANCE \<and>
        flt D (pc_AccountMargin p) = Some m \<and> \<not> f64_lt m (f64_lit (- 1 / 10)) \<and> f64_lt m (f64_lit (3 / 100)) \<and>
        accepted h (pc_ProfileID p) \<and> (\<forall>a \<in> set acts. act_TraderId a = pc_ProfileID p))"

definition activate_ok :: "'d history \<Rightarrow> nat \<Rightarrow> bool" where
  "activate_ok h pid \<longleftrightarrow>
     (\<exists>p m. reported h p \<and> pc_ProfileID p = pid \<and> pc_ProfileType p \<noteq> Some PROFILE_TYPE_INSURANCE \<and>
        pc_Status p = Some PROFILE_STATUS_LIQUIDATING \<and> flt D (pc_AccountMargin p) = Some m \<and>
        f64_le (f64_lit (3 / 100)) m \<and> accepted h pid)"

definition guard :: "'d call_cond" where
  "guard h c \<longleftrightarrow>
     (deciding c \<longrightarrow> (\<exists>acts. c = queue_call acts \<and> queue_ok h acts) \<or>
                    (\<exists>pid. c = activate_call pid \<and> activate_ok h pid))"

lemma guard_reading: "\<not> deciding c \<Longrightarrow> guard h c"
  by (simp add: guard_def)

lemma wp_reading: "wp reading Q p h \<Longrightarrow> wp guard Q p h"
  by (erule wp_weaken) (auto intro: guard_reading)

lemma wp_queue: "queue_ok h acts \<Longrightarrow> wp guard (\<lambda>_ _. True) (la_Queue A acts) h"
  by (rule wp_weaken [OF queue_calls]) (auto simp: guard_def)

lemma wp_completed: "activate_ok h pid \<Longrightarrow> wp guard (\<lambda>_ _. True) (la_CompletedLiquidation A pid) h"
  by (rule wp_weaken [OF completed_calls]) (auto simp: guard_def)

lemma wp_after_wait:
  assumes "reported h p" and "\<And>h'. reported h' p \<Longrightarrow> accepted h' (pc_ProfileID p) \<Longrightarrow> wp guard (\<lambda>_ _. True) (k ()) h'"
  shows "wp guard (\<lambda>_ _. True) (onErr (la_WaitForCancellAllAccepted A (pc_ProfileID p)) (\<lambda>_. Return x) k) h"
  unfolding wp_onErr
  by (rule wp_mono [OF wp_reading [OF wait_accepts]])
    (auto intro!: assms(2) dest: extends_set intro: reported_mono [OF assms(1)] split: outcome.split sum.split)

text \<open>A profile of a batch that the service looks at\<close>

definition candidate :: "'d history \<Rightarrow> 'd profile_cache \<Rightarrow> bool" where
  "candidate h p \<longleftrightarrow> reported h p \<and> pc_ProfileType p \<noteq> Some PROFILE_TYPE_INSURANCE"

lemma wp_liquidate:
  assumes "candidate h p" and "flt D (pc_AccountMargin p) = Some m"
    and "\<not> f64_lt m (f64_lit (- 1 / 10))" and "f64_lt m (f64_lit (3 / 100))"
  shows "wp guard (\<lambda>_ _. True) (liquidate D A p) h"
proof -
  have act: "wp guard (\<lambda>_ _. True) (carry_out A (pc_ProfileID p) actions vaults) h'"
    if "reported h' p" "accepted h' (pc_ProfileID p)" "requiredActions D account = Some (actions, vaults)"
      "ad_Cache account = p" for h' account actions vaults
  proof -
    have "queue_ok h' actions"
      using that assms required_traders [OF that(3)] by (auto simp: queue_ok_def candidate_def)
    then show ?thesis
      by (auto simp: carry_out_def wp_andThen ignoring_def intro!: wp_mono [OF wp_queue]
          wp_mono [OF wp_reading [OF vaults_read]] wp_mono [OF wp_reading [OF update_reads]]
          split: outcome.split)
  qed
  show ?thesis
    unfolding liquidate_def
  proof (rule wp_after_wait)
    show "reported h p" using assms(1) by (simp add: candidate_def)
    fix h'
    assume rep: "reported h' p" and acc: "accepted h' (pc_ProfileID p)"
    show "wp guard (\<lambda>_ _. True) (onErr (la_GetAccountData A (Some p)) (\<lambda>_. Return []) (\<lambda>account.
        orPanic ''runtime error'' (requiredActions D account) (\<lambda>(actions, liquidatedVaults).
        carry_out A (pc_ProfileID p) actions liquidatedVaults))) h'"
      unfolding wp_onErr
    proof (rule wp_mono [OF wp_reading [OF account_keeps [OF acc]]], goal_cases)
      case (1 h'' r)
      then show ?case
        using reported_mono [OF rep extends_set [OF 1(1)]]
        by (auto intro!: act split: outcome.split sum.split)
    qed
  qed
qed

lemma wp_process_profile:
  assumes "candidate h p"
  shows "wp guard (\<lambda>_ _. True) (process_profile D A p) h"
proof -
  have liq: "wp guard (\<lambda>_ _. True) (liquidate D A p) ((Clock, ans) # h)"
    if "flt D (pc_AccountMargin p) = Some m" "\<not> f64_lt m (f64_lit (- 1 / 10))" "belowLiquidationMargin m"
    for m ans
    using that assms reported_mono [of h p "(Clock, ans) # h"]
    by (intro wp_liquidate) (auto simp: belowLiquidationMargin_def LIQUIDATION_MARGIN_def candidate_def)
  have ending: "wp guard (\<lambda>_ _. True)
      (onErr (la_WaitForCancellAllAccepted A (pc_ProfileID p)) (\<lambda>_. Return []) (\<lambda>_.
       andThen (la_CompletedLiquidation A (pc_ProfileID p)) (\<lambda>_. Return []))) ((Clock, ans) # h)"
    if "isLiquidationEnding D p = Some True" for ans
  proof (rule wp_after_wait)
    show "reported ((Clock, ans) # h) p"
      using assms reported_mono [of h p "(Clock, ans) # h"] by (auto simp: candidate_def)
    fix h'
    assume "reported h' p" "accepted h' (pc_ProfileID p)"
    then have "activate_ok h' (pc_ProfileID p)"
      using that assms
      by (auto simp: activate_ok_def candidate_def isLiquidationEnding_def LIQUIDATION_MARGIN_def
          split: if_splits)
    then show "wp guard (\<lambda>_ _. True)
        (andThen (la_CompletedLiquidation A (pc_ProfileID p)) (\<lambda>_. Return [])) h'"
      by (auto simp: wp_andThen intro!: wp_mono [OF wp_completed] split: outcome.split)
  qed
  show ?thesis
    by (auto simp: process_profile_def now_micro_def now_def guard_reading liq ending)
qed

lemma wp_process_batch:
  "(\<And>p. Some p \<in> set ps \<Longrightarrow> reported h p) \<Longrightarrow> wp guard (\<lambda>_ _. True) (process_batch D A ps st) h"
proof (induction ps arbitrary: st h)
  case (Cons p ps)
  obtain last_id n as where st: "st = (last_id, n, as)" by (cases st)
  have rest: "wp guard (\<lambda>_ _. True) (process_batch D A ps st') h'" if "set h \<subseteq> set h'" for st' h'
    using Cons.prems that by (intro Cons.IH) (auto intro: reported_mono)
  have this_one: "wp guard (\<lambda>_ _. True)
      (andThen (process_profile D A q) (\<lambda>actions. process_batch D A ps (st' actions))) ((LoadFlag f, ans) # h)"
    if "p = Some q" "pc_ProfileType q \<noteq> Some PROFILE_TYPE_INSURANCE" for q st' f ans
  proof -
    have "candidate ((LoadFlag f, ans) # h) q"
      using Cons.prems [of q] that reported_mono [of h q "(LoadFlag f, ans) # h"] by (auto simp: candidate_def)
    from wp_process_profile [OF this] show ?thesis
      unfolding wp_andThen by (rule wp_mono) (auto dest!: extends_set intro!: rest split: outcome.split)
  qed
  show ?case
    by (auto simp: st guard_reading rest this_one)
qed simp

lemma wp_liquidation_rounds: "wp guard (\<lambda>_ _. True) (liquidation_rounds D A fuel st) h"
proof (induction fuel arbitrary: st h)
  case (Suc fuel)
  have batch: "wp guard (\<lambda>_ _. True) (andThen (process_batch D A cs st) (\<lambda>r. case r of
        None \<Rightarrow> Return (Some (0, None, [])) | Some st' \<Rightarrow> liquidation_rounds D A fuel st')) h'"
    if "\<And>p. Some p \<in> set cs \<Longrightarrow> reported h' p" for cs h'
    unfolding wp_andThen
    by (rule wp_mono [OF wp_process_batch [OF that]]) (auto intro: Suc.IH split: outcome.split option.split)
  show ?case
    by (auto simp: wp_onErr intro!: wp_mono [OF wp_reading [OF batch_reports]] batch
        split: outcome.split sum.split)
qed simp

end

section \<open>The Tarantool assistant meets the contract\<close>

lemma cancel_accepted_poll:
  "cancel_accepted ((Execute API_INSTANCE IS_CANCEL_ALL_ACCEPTED [VUint pid], ans) # h) pid \<longleftrightarrow>
     decode_reply as_bool (a_reply ans) = Inr True"
  by (simp add: cancel_accepted_def poll_call_def)

lemma wp_wait_loop:
  "wp reading (\<lambda>h' r. r = Done (Inr ()) \<longrightarrow> cancel_accepted h' pid) (wait_loop pid n) (h :: 'd history)"
proof (induction pid n arbitrary: h rule: wait_loop.induct)
  case (1 pid n)
  have again: "wp reading (\<lambda>h' r. r = Done (Inr ()) \<longrightarrow> cancel_accepted h' pid) (wait_loop pid (Suc n)) (h' :: 'd history)"
    if "\<not> 19 < n" for h'
    using 1 that by auto
  show ?case
    by (subst wait_loop.simps)
      (auto simp: wp_andThen IsCancellAllAccepted_def Request_def sleep_def cancel_accepted_poll
        intro!: again split: sum.split bool.split)
qed

lemma wp_WaitForCancellAllAccepted:
  "wp reading (\<lambda>h' r. r = Done (Inr ()) \<longrightarrow> cancel_accepted h' pid) (WaitForCancellAllAccepted pid) h"
  by (auto simp: WaitForCancellAllAccepted_def HighPriorityCancelAll_def Request_err_def wp_onErr
      intro!: wp_wait_loop split: sum.split)

lemma cancel_accepted_Cons:
  "c \<noteq> poll_call pid \<Longrightarrow> cancel_accepted ((c, ans) # h) pid = cancel_accepted h pid"
  by (simp add: cancel_accepted_def)

lemma wp_fetch_markets:
  "cancel_accepted h pid \<Longrightarrow>
     wp reading (\<lambda>h' r. cancel_accepted h' pid \<or> (\<exists>m. r = Panicked m)) (fetch_markets IC ps markets) h"
proof (induction ps arbitrary: markets h)
  case (Cons p ps)
  then show ?case
    by (auto simp: wp_onErr GetMarketData_def withMarket_def GetInstance_def Request_def cancel_accepted_Cons
        poll_call_def split: sum.split option.split)
qed simp

lemma wp_GetAccountData:
  assumes "cancel_accepted h (pc_ProfileID profile)"
  shows "wp reading (\<lambda>h' r. \<forall>a. r = Done (Inr a) \<longrightarrow>
      cancel_accepted h' (pc_ProfileID profile) \<and> ad_Cache a = profile) (GetAccountData IC (Some profile)) h"
proof -
  have "cancel_accepted ((Execute PROFILE_INSTANCE GET_OPEN_POSITIONS ps, ans) # h) (pc_ProfileID profile)" for ps ans
    using assms by (simp add: cancel_accepted_Cons poll_call_def)
  then show ?thesis
    by (auto simp: GetAccountData_def wp_onErr GetOpenPositions_def Request_def
        intro!: wp_mono [OF wp_fetch_markets] split: sum.split outcome.split)
qed

interpretation tnt: liq_assistant D "TntAssistant D IC inv3Buffer" cancel_accepted profile_reported
  for D IC inv3Buffer
proof
  show "wp reading (\<lambda>h' r. \<forall>cs p. r = Done (Inr cs) \<longrightarrow> Some p \<in> set cs \<longrightarrow> profile_reported h' p)
      (la_GetNextLiqBatch (TntAssistant D IC inv3Buffer) last_id LIQ_BATCH_LIMIT) h" for last_id h
    by (auto simp: TntAssistant_def LiquidationBatch_def Request_def profile_reported_def batch_call_def)
  show "profile_reported h p \<Longrightarrow> set h \<subseteq> set h' \<Longrightarrow> profile_reported h' p" for h h' p
    unfolding profile_reported_def by blast
qed (simp_all add: TntAssistant_def wp_WaitForCancellAllAccepted wp_GetAccountData QueueLiqActions_def
    CompletedLiquidation_def ProfileUpdateStatus_def LiquidatedVaults_def UpdateLastChecked_def
    ProfileUpdateLastLiqChecked_def Request_err_def Request_def wp_andThen queue_call_def activate_call_def)

section \<open>The promises of the service\<close>

lemma wp_call_guarded:
  assumes "wp P Q p []" and "run E p [] = (h, r)" and "h = post @ (c, ans) # pre"
  shows "P pre c"
  using wp_run [OF assms(1,2)] assms(3) by (auto intro: extends_call)

text \<open>Property C12. The liquidation service queues actions only for an account of a batch that is not the insurance,
  whose margin is at least minus ten and below three percent, after the cancellation of all its
  orders was accepted; and all the actions it queues then are that account's.\<close>

theorem liquidation_only_when_justified:
  assumes "run E (ProcessLiquidations D (TntAssistant D IC inv3Buffer) fuel) [] = (h, r)"
    and "h = post @ (Execute API_INSTANCE QUEUE_LIQ_ACTIONS ps, ans) # pre"
  shows "\<exists>p m acts. ps = [VList (map VAction acts)] \<and> profile_reported pre p \<and>
    pc_ProfileType p \<noteq> Some PROFILE_TYPE_INSURANCE \<and> flt D (pc_AccountMargin p) = Some m \<and>
    \<not> f64_lt m (f64_lit (- 1 / 10)) \<and> f64_lt m (f64_lit (3 / 100)) \<and>
    cancel_accepted pre (pc_ProfileID p) \<and> (\<forall>a \<in> set acts. act_TraderId a = pc_ProfileID p)"
  using wp_call_guarded [OF tnt.wp_liquidation_rounds assms [unfolded ProcessLiquidations_def]]
  by (auto simp: tnt.guard_def tnt.queue_ok_def queue_call_def activate_call_def)

abbreviation demo_round :: "rat history" where
  "demo_round \<equiv> fst (run liq_env (ProcessLiquidations rat_lib (TntAssistant rat_lib liq_cluster (f64_of_int 0)) 2) [])"

lemma demo_queue:
  "made demo_round (Execute API_INSTANCE QUEUE_LIQ_ACTIONS [VList (map VAction
     [\<lparr> act_Kind = AInsTakeover, act_TraderId = 7, act_MarketId = ''BTC'', act_Size = 2, act_Price = 100 \<rparr>])])"
  by (simp add: liq_run_defs liq_position_def numeral_2_eq_2)

lemma liquidation_only_when_justified_witness:
  "\<exists>post ps ans pre p. demo_round = post @ (Execute API_INSTANCE QUEUE_LIQ_ACTIONS ps, ans) # pre \<and>
     profile_reported pre p \<and> cancel_accepted pre (pc_ProfileID p)"
  using made_split [OF demo_queue] liquidation_only_when_justified [OF prod.collapse [symmetric]]
  by blast

text \<open>Property C13. The service makes an account active again only when a batch reported it as being liquidated with
  a margin of three percent or more, and its orders were cancelled.\<close>

theorem activation_only_after_recovery:
  assumes "run E (ProcessLiquidations D (TntAssistant D IC inv3Buffer) fuel) [] = (h, r)"
    and "h = post @ (Execute PROFILE_INSTANCE PROFILE_UPDATE_STATUS ps, ans) # pre"
  shows "\<exists>p m. ps = [VUint (pc_ProfileID p), VString PROFILE_STATUS_ACTIVE] \<and> profile_reported pre p \<and>
    pc_Status p = Some PROFILE_STATUS_LIQUIDATING \<and> flt D (pc_AccountMargin p) = Some m \<and>
    f64_le (f64_lit (3 / 100)) m \<and> cancel_accepted pre (pc_ProfileID p)"
  using wp_call_guarded [OF tnt.wp_liquidation_rounds assms [unfolded ProcessLiquidations_def]]
  by (auto simp: tnt.guard_def tnt.activate_ok_def queue_call_def activate_call_def)

lemma demo_activation:
  "made demo_round (Execute PROFILE_INSTANCE PROFILE_UPDATE_STATUS [VUint 8, VString PROFILE_STATUS_ACTIVE])"
  by (simp add: liq_run_defs liq_position_def numeral_2_eq_2)

lemma activation_only_after_recovery_witness:
  "\<exists>post ps ans pre p. demo_round = post @ (Execute PROFILE_INSTANCE PROFILE_UPDATE_STATUS ps, ans) # pre \<and>
     profile_reported pre p \<and> pc_Status p = Some PROFILE_STATUS_LIQUIDATING"
  using made_split [OF demo_activation] activation_only_after_recovery [OF prod.collapse [symmetric]]
  by blast

definition polls :: "nat \<Rightarrow> 'd history \<Rightarrow> nat" where
  "polls pid h = length (filter (\<lambda>(c, _). c = poll_call pid) h)"

lemma polls_Cons [simp]:
  "polls pid ((c, a) # h) = (if c = poll_call pid then Suc (polls pid h) else polls pid h)"
  by (simp add: polls_def)

lemma polls_wait_loop:
  "n \<le> 20 \<Longrightarrow> polls pid (fst (run E (wait_loop pid n) h)) \<le> polls pid h + (21 - n)"
proof (induction pid n arbitrary: h rule: wait_loop.induct)
  case (1 pid n)
  have loop: "polls pid (fst (run E (wait_loop pid (Suc n)) ((Sleep t, b) # (poll_call pid, a) # h))) \<le>
      polls pid h + (21 - n)" if "\<not> 19 < n" for t a b
    using 1(1) [of "(Sleep t, b) # (poll_call pid, a) # h"] that by (simp add: poll_call_def)
  show ?case
    using 1 loop
    by (subst wait_loop.simps)
      (auto simp: IsCancellAllAccepted_def Request_def run_andThen sleep_def poll_call_def
        split: sum.split bool.split)
qed

text \<open>Waiting for the cancellation of an account's orders polls at most 21 times, whatever the
  answers are.\<close>

theorem cancel_wait_bounded:
  "polls pid (fst (run E (WaitForCancellAllAccepted pid) h)) \<le> polls pid h + 21"
  using polls_wait_loop [of 0 pid E "(Execute API_INSTANCE HIGH_PRIORITY_CANCEL_ALL ps, a) # h" for ps a]
  by (auto simp: WaitForCancellAllAccepted_def HighPriorityCancelAll_def Request_err_def onErr_def
      run_andThen poll_call_def split: sum.split)

section \<open>The rounds end\<close>

lemma process_batch_last:
  "run E (process_batch D A ps (last_id, n, as)) h = (h', Done (Some (last_id', n', as'))) \<Longrightarrow>
     if ps = [] then last_id' = last_id
     else \<exists>p. Some p \<in> set ps \<and> last_id' = Some (pc_ProfileID p)"
proof (induction ps arbitrary: last_id n as h)
  case (Cons p ps)
  obtain q where q: "p = Some q"
    using Cons.prems by (cases p) (auto simp: deref_def)
  obtain last_id0 n0 as0 h0 where
    "run E (process_batch D A ps (last_id0, n0, as0)) h0 = (h', Done (Some (last_id', n', as')))"
    and last0: "last_id0 = Some (pc_ProfileID q)"
    using Cons.prems
    by (auto simp: q deref_def run_andThen split: option.splits if_splits prod.splits outcome.splits)
  from Cons.IH [OF this(1)] show ?case
    using last0 by (cases "ps = []") (auto simp: q)
qed simp

definition ids_left :: "nat \<Rightarrow> nat option \<Rightarrow> nat" where
  "ids_left max_id last_id = (case last_id of None \<Rightarrow> max_id + 1 | Some n \<Rightarrow> max_id - n)"

text \<open>A round of the liquidation service ends: if each batch holds only profiles after the last one
  seen, and no profile id exceeds a bound, the bound plus two requests for a batch are enough,
  whatever else the environment answers.\<close>

theorem liquidation_round_ends:
  assumes "\<forall>h last_id cs p. decode_reply (as_list (as_ptr as_cache)) (a_reply (E h (batch_call last_id))) = Inr cs \<longrightarrow>
      Some p \<in> set cs \<longrightarrow> (\<forall>n. last_id = Some n \<longrightarrow> n < pc_ProfileID p) \<and> pc_ProfileID p \<le> max_id"
    and "max_id + 2 \<le> fuel"
  shows "snd (run E (ProcessLiquidations D (TntAssistant D IC inv3Buffer) fuel) h) \<noteq> Done None"
proof -
  have "snd (run E (liquidation_rounds D (TntAssistant D IC inv3Buffer) fuel (last_id, n, as)) h) \<noteq> Done None"
    if "ids_left max_id last_id + 1 \<le> fuel" for fuel last_id n as h
    using that
  proof (induction fuel arbitrary: last_id n as h)
    case (Suc fuel)
    let ?h = "(batch_call last_id, E h (batch_call last_id)) # h"
    show ?case
    proof (cases "decode_reply (as_list (as_ptr as_cache)) (a_reply (E h (batch_call last_id)))")
      case (Inl e)
      then show ?thesis
        by (simp add: LiquidationBatch_def Request_def onErr_def batch_call_def)
    next
      case (Inr cs)
      obtain h' r where r: "run E (process_batch D (TntAssistant D IC inv3Buffer) cs (last_id, n, as)) ?h = (h', r)"
        by force
      have "snd (run E (liquidation_rounds D (TntAssistant D IC inv3Buffer) fuel st) h') \<noteq> Done None"
        if "cs \<noteq> []" "r = Done (Some st)" for st
      proof -
        obtain last_id' n' as' where st: "st = (last_id', n', as')"
          by (cases st) auto
        from process_batch_last [OF r [unfolded that(2) st]] that(1)
        obtain p where p: "Some p \<in> set cs" "last_id' = Some (pc_ProfileID p)"
          by auto
        have "ids_left max_id last_id' < ids_left max_id last_id"
          using assms(1) Inr p by (cases last_id) (fastforce simp: ids_left_def)+
        then show ?thesis
          unfolding st using Suc.prems by (intro Suc.IH) simp
      qed
      then show ?thesis
        using r Inr
        by (auto simp: LiquidationBatch_def Request_def onErr_def batch_call_def run_andThen
            split: outcome.split option.split)
    qed
  qed simp
  then show ?thesis
    using assms(2) by (simp add: ProcessLiquidations_def ids_left_def)
qed

lemma liquidation_round_ends_witness:
  "snd (run liq_env (ProcessLiquidations rat_lib (TntAssistant rat_lib liq_cluster (f64_of_int 0)) 10) []) \<noteq> Done None"
  by (rule liquidation_round_ends [where max_id = 8])
    (auto simp: batch_call_def decode_reply_def liq_value_def opt_val_def split: if_splits option.splits)

end
