(* ===== verification/Slipstopper.thy ===== *)
theory Slipstopper
  imports Model_Api
begin

text \<open>
  The service that executes conditional orders (the package \<^verbatim>\<open>slipstopper\<close>): \<^verbatim>\<open>avl_tree.go\<close>,
  the orders of a market by trigger price; \<^verbatim>\<open>matcher.go\<close>, which also finds the tree node of an
  order by its id; and the handlers of \<^verbatim>\<open>websocket.go\<close>, which feed the matcher from the
  subscriptions of the market. Reading a nil trigger price panics: the operations that do it
  return \<open>None\<close> then.
\<close>

section \<open>The tree library\<close>

text \<open>
  \<^verbatim>\<open>github.com/emirpasic/gods/trees/avltree\<close> is not part of the repository. The type \<open>'s\<close> stands
  for the tree and its nodes, \<open>'n\<close> for a pointer to a node; the code reads and writes the value of
  a node through its pointer. The iterator visits the entries in the order of \<open>av_Entries\<close>.
\<close>

record ('s, 'n, 'k, 'v) avl_lib =
  av_NewWith  :: "('k \<Rightarrow> 'k \<Rightarrow> int) \<Rightarrow> 's"
  av_GetNode  :: "'s \<Rightarrow> 'k \<Rightarrow> 'n option"     \<comment> \<open>\<^verbatim>\<open>None\<close> for nil\<close>
  av_Key      :: "'s \<Rightarrow> 'n \<Rightarrow> 'k"            \<comment> \<open>\<^verbatim>\<open>node.Key\<close>\<close>
  av_Value    :: "'s \<Rightarrow> 'n \<Rightarrow> 'v"            \<comment> \<open>\<^verbatim>\<open>node.Value\<close>\<close>
  av_SetValue :: "'s \<Rightarrow> 'n \<Rightarrow> 'v \<Rightarrow> 's"      \<comment> \<open>\<^verbatim>\<open>node.Value = v\<close>\<close>
  av_Put      :: "'s \<Rightarrow> 'k \<Rightarrow> 'v \<Rightarrow> 's"
  av_Remove   :: "'s \<Rightarrow> 'k \<Rightarrow> 's"
  av_Clear    :: "'s \<Rightarrow> 's"
  av_Size     :: "'s \<Rightarrow> nat"
  av_Get      :: "'s \<Rightarrow> 'k \<Rightarrow> 'v option"
  av_Entries  :: "'s \<Rightarrow> ('k \<times> 'v) list"

section \<open>The tree of orders\<close>

record 'd order_tuple =
  tup_Key    :: 'd
  tup_Values :: "'d order_data list"

type_synonym ('s, 'n, 'd) order_avl = "('s, 'n, 'd, 'd order_tuple) avl_lib"

definition DecimalComparator :: "'d dec_lib \<Rightarrow> 'd \<Rightarrow> 'd \<Rightarrow> int" where
  "DecimalComparator D a b = d_cmp D a b"

definition NewAVLTree :: "('s, 'n, 'd) order_avl \<Rightarrow> 'd dec_lib \<Rightarrow> 's" where
  "NewAVLTree A D = av_NewWith A (DecimalComparator D)"

definition Tree_Insert ::
  "('s, 'n, 'd) order_avl \<Rightarrow> 's \<Rightarrow> 'd \<Rightarrow> 'd order_data \<Rightarrow> 's \<times> 'n option" where
  "Tree_Insert A t k v =
     (case av_GetNode A t k of
        Some node \<Rightarrow>
          let tup = av_Value A t node
          in (av_SetValue A t node (tup \<lparr>tup_Values := tup_Values tup @ [v]\<rparr>), Some node)
      | None \<Rightarrow>
          let t' = av_Put A t k \<lparr>tup_Key = k, tup_Values = [v]\<rparr>
          in (t', av_GetNode A t' k))"

definition Tree_Delete :: "('s, 'n, 'd) order_avl \<Rightarrow> 's \<Rightarrow> 'd \<Rightarrow> 's" where
  "Tree_Delete A t key = av_Remove A t key"

definition Tree_ClearAll :: "('s, 'n, 'd) order_avl \<Rightarrow> 's \<Rightarrow> 's" where
  "Tree_ClearAll A t = av_Clear A t"

definition Tree_GetSize :: "('s, 'n, 'd) order_avl \<Rightarrow> 's \<Rightarrow> nat" where
  "Tree_GetSize A t = av_Size A t"

definition Tree_Get :: "('s, 'n, 'd) order_avl \<Rightarrow> 's \<Rightarrow> 'd \<Rightarrow> string + 'd order_tuple" where
  "Tree_Get A t k = (case av_Get A t k of None \<Rightarrow> Inl ''key not found'' | Some tup \<Rightarrow> Inr tup)"

text \<open>The three searches walk over the entries; \<open>LTE\<close> stops at the first greater key.\<close>

primrec range_walk :: "'d dec_lib \<Rightarrow> 'd \<Rightarrow> 'd \<Rightarrow> ('d \<times> 'd order_tuple) list \<Rightarrow> 'd order_tuple list" where
  "range_walk D key1 key2 [] = []"
| "range_walk D key1 key2 (e # it) =
     (if DecimalComparator D key1 (fst e) \<le> 0 \<and> DecimalComparator D key2 (fst e) \<ge> 0
      then snd e # range_walk D key1 key2 it else range_walk D key1 key2 it)"

primrec lte_walk :: "'d dec_lib \<Rightarrow> 'd \<Rightarrow> ('d \<times> 'd order_tuple) list \<Rightarrow> 'd order_tuple list" where
  "lte_walk D key1 [] = []"
| "lte_walk D key1 (e # it) =
     (if DecimalComparator D (fst e) key1 \<le> 0 then snd e # lte_walk D key1 it else [])"

primrec gte_walk :: "'d dec_lib \<Rightarrow> 'd \<Rightarrow> ('d \<times> 'd order_tuple) list \<Rightarrow> 'd order_tuple list" where
  "gte_walk D key1 [] = []"
| "gte_walk D key1 (e # it) =
     (if DecimalComparator D (fst e) key1 \<ge> 0 then snd e # gte_walk D key1 it else gte_walk D key1 it)"

definition RangeSearch :: "('s, 'n, 'd) order_avl \<Rightarrow> 'd dec_lib \<Rightarrow> 's \<Rightarrow> 'd \<Rightarrow> 'd \<Rightarrow> 'd order_tuple list" where
  "RangeSearch A D t key1 key2 = range_walk D key1 key2 (av_Entries A t)"

definition LTE :: "('s, 'n, 'd) order_avl \<Rightarrow> 'd dec_lib \<Rightarrow> 's \<Rightarrow> 'd \<Rightarrow> 'd order_tuple list" where
  "LTE A D t key1 = lte_walk D key1 (av_Entries A t)"

definition GTE :: "('s, 'n, 'd) order_avl \<Rightarrow> 'd dec_lib \<Rightarrow> 's \<Rightarrow> 'd \<Rightarrow> 'd order_tuple list" where
  "GTE A D t key1 = gte_walk D key1 (av_Entries A t)"

section \<open>The matcher\<close>

text \<open>\<^verbatim>\<open>nodesByOrderId\<close> maps an order id to a pointer; the broker and the mutex are the environment's.\<close>

record ('s, 'n) matcher =
  mt_tree           :: 's
  mt_nodesByOrderId :: "string \<rightharpoonup> 'n option"

definition NewMatcher :: "('s, 'n, 'd) order_avl \<Rightarrow> 'd dec_lib \<Rightarrow> ('s, 'n) matcher" where
  "NewMatcher A D = \<lparr>mt_tree = NewAVLTree A D, mt_nodesByOrderId = Map.empty\<rparr>"

definition Matcher_Insert ::
  "('s, 'n, 'd) order_avl \<Rightarrow> 'd order_data \<Rightarrow> ('s, 'n) matcher \<Rightarrow> ('s, 'n) matcher option" where
  "Matcher_Insert A order m =
     (case ord_TriggerPrice order of
        None \<Rightarrow> None
      | Some price \<Rightarrow>
          (let (t, node) = Tree_Insert A (mt_tree m) price order
           in Some (m \<lparr>mt_tree := t,
                       mt_nodesByOrderId := (mt_nodesByOrderId m)(ord_OrderId order \<mapsto> node)\<rparr>)))"

text \<open>A loop over orders whose body may panic\<close>

primrec for_orders ::
  "('d order_data \<Rightarrow> 'm \<Rightarrow> 'm option) \<Rightarrow> 'd order_data list \<Rightarrow> 'm \<Rightarrow> 'm option" where
  "for_orders body [] m = Some m"
| "for_orders body (order # orders) m =
     (case body order m of None \<Rightarrow> None | Some m' \<Rightarrow> for_orders body orders m')"

definition Matcher_Remove ::
  "('s, 'n, 'd) order_avl \<Rightarrow> 'd order_data \<Rightarrow> ('s, 'n) matcher \<Rightarrow> ('s, 'n) matcher option" where
  "Matcher_Remove A order m =
     (case mt_nodesByOrderId m (ord_OrderId order) of
        None \<Rightarrow> Some m
      | Some None \<Rightarrow> None
      | Some (Some node) \<Rightarrow>
          (let key = av_Key A (mt_tree m) node;
               tup = av_Value A (mt_tree m) node;
               m' = m \<lparr>mt_tree := Tree_Delete A (mt_tree m) key,
                       mt_nodesByOrderId := (mt_nodesByOrderId m)(ord_OrderId order := None)\<rparr>
           in for_orders
                (\<lambda>o' m. if ord_OrderId o' \<noteq> ord_OrderId order then Matcher_Insert A o' m else Some m)
                (tup_Values tup) m'))"

abbreviation STOP_LOSS :: string where "STOP_LOSS \<equiv> ''stop_loss''"
abbreviation TAKE_PROFIT :: string where "TAKE_PROFIT \<equiv> ''take_profit''"
abbreviation STOP_LOSS_LIMIT :: string where "STOP_LOSS_LIMIT \<equiv> ''stop_loss_limit''"
abbreviation TAKE_PROFIT_LIMIT :: string where "TAKE_PROFIT_LIMIT \<equiv> ''take_profit_limit''"
abbreviation STOP_LIMIT :: string where "STOP_LIMIT \<equiv> ''stop_limit''"
abbreviation STOP_MARKET :: string where "STOP_MARKET \<equiv> ''stop_market''"

text \<open>The two conditions of \<^verbatim>\<open>OnPriceUpdate\<close>, on the orders triggered from below and from above\<close>

definition lte_executes :: "'d order_data \<Rightarrow> bool" where
  "lte_executes order \<longleftrightarrow>
     (ord_OrderType order = STOP_LOSS \<and> ord_Side order = LONG) \<or>
     (ord_OrderType order = STOP_LOSS_LIMIT \<and> ord_Side order = LONG) \<or>
     (ord_OrderType order = TAKE_PROFIT \<and> ord_Side order = SHORT) \<or>
     (ord_OrderType order = TAKE_PROFIT_LIMIT \<and> ord_Side order = SHORT) \<or>
     (ord_OrderType order = STOP_LIMIT \<and> ord_Side order = LONG) \<or>
     (ord_OrderType order = STOP_MARKET \<and> ord_Side order = LONG)"

definition gte_executes :: "'d order_data \<Rightarrow> bool" where
  "gte_executes order \<longleftrightarrow>
     (ord_OrderType order = STOP_LOSS \<and> ord_Side order = SHORT) \<or>
     (ord_OrderType order = STOP_LOSS_LIMIT \<and> ord_Side order = SHORT) \<or>
     (ord_OrderType order = TAKE_PROFIT \<and> ord_Side order = LONG) \<or>
     (ord_OrderType order = TAKE_PROFIT_LIMIT \<and> ord_Side order = LONG) \<or>
     (ord_OrderType order = STOP_LIMIT \<and> ord_Side order = SHORT) \<or>
     (ord_OrderType order = STOP_MARKET \<and> ord_Side order = SHORT)"

definition execute_order :: "'d order_data \<Rightarrow> ('d, unit) prog" where
  "execute_order order =
     ignoring (OrderExecute (ord_ProfileID order) (ord_MarketID order) (ord_OrderId order))"

definition execute_tuples ::
  "('d order_data \<Rightarrow> bool) \<Rightarrow> 'd order_tuple list \<Rightarrow> ('d, unit) prog" where
  "execute_tuples cond items =
     forEach items (\<lambda>item. forEach (tup_Values item)
       (\<lambda>order. if cond order then execute_order order else Return ()))"

definition GetByRange ::
  "('s, 'n, 'd) order_avl \<Rightarrow> 'd dec_lib \<Rightarrow> ('s, 'n) matcher \<Rightarrow> 'd \<Rightarrow> 'd \<Rightarrow> 'd order_tuple list" where
  "GetByRange A D m lo hi = RangeSearch A D (mt_tree m) lo hi"

definition GetByLTE ::
  "('s, 'n, 'd) order_avl \<Rightarrow> 'd dec_lib \<Rightarrow> ('s, 'n) matcher \<Rightarrow> 'd \<Rightarrow> 'd order_tuple list" where
  "GetByLTE A D m key = LTE A D (mt_tree m) key"

definition GetByGTE ::
  "('s, 'n, 'd) order_avl \<Rightarrow> 'd dec_lib \<Rightarrow> ('s, 'n) matcher \<Rightarrow> 'd \<Rightarrow> 'd order_tuple list" where
  "GetByGTE A D m key = GTE A D (mt_tree m) key"

definition OnPriceUpdate ::
  "('s, 'n, 'd) order_avl \<Rightarrow> 'd dec_lib \<Rightarrow> ('s, 'n) matcher \<Rightarrow> 'd \<Rightarrow> ('d, unit) prog" where
  "OnPriceUpdate A D m price =
     andThen (execute_tuples lte_executes (GetByLTE A D m price)) (\<lambda>_.
       execute_tuples gte_executes (GetByGTE A D m price))"

definition Matcher_Size :: "('s, 'n, 'd) order_avl \<Rightarrow> ('s, 'n) matcher \<Rightarrow> nat" where
  "Matcher_Size A m = Tree_GetSize A (mt_tree m)"

text \<open>\<^verbatim>\<open>m.mu.Lock(); defer m.mu.Unlock()\<close>\<close>

definition with_mu :: "('d, 'a) prog \<Rightarrow> ('d, 'a) prog" where
  "with_mu p =
     Call (MutexLock ''matcher.mu'')
       (\<lambda>_. deferring (Call (MutexUnlock ''matcher.mu'') (\<lambda>_. Return ())) p)"

definition Matcher_ClearAll ::
  "('s, 'n, 'd) order_avl \<Rightarrow> ('s, 'n) matcher \<Rightarrow> ('d, ('s, 'n) matcher) prog" where
  "Matcher_ClearAll A m =
     with_mu (Return \<lparr>mt_tree = Tree_ClearAll A (mt_tree m), mt_nodesByOrderId = Map.empty\<rparr>)"

section \<open>The handlers of the subscriptions\<close>

text \<open>
  What arrives on the channels of a market, \<open>None\<close> for data that does not parse. The limiter of
  \<^verbatim>\<open>golang.org/x/time/rate\<close> decides which price events get through.
\<close>

record 'd price_event =
  pe_FairPrice  :: "'d option"
  pe_IndexPrice :: "'d option"

datatype 'd ws_event =
    PrivateSubscribed "'d order_data list option"
  | PrivatePublication "'d order_data list option"
  | MarketPublication bool "'d price_event option"   \<comment> \<open>whether \<^verbatim>\<open>throttle.Do\<close> runs its function\<close>

definition private_subscribed ::
  "('s, 'n, 'd) order_avl \<Rightarrow> 'd order_data list option \<Rightarrow> ('s, 'n) matcher \<Rightarrow>
   ('d, ('s, 'n) matcher) prog" where
  "private_subscribed A data m =
     (case data of
        None \<Rightarrow> Return m
      | Some orders \<Rightarrow>
          andThen (Matcher_ClearAll A m) (\<lambda>m.
            with_mu (orPanic ''nil pointer dereference'' (for_orders (Matcher_Insert A) orders m) Return)))"

text \<open>The body of the loop over the orders of a publication\<close>

definition update_order ::
  "('s, 'n, 'd) order_avl \<Rightarrow> 'd order_data \<Rightarrow> ('s, 'n) matcher \<Rightarrow> ('s, 'n) matcher option" where
  "update_order A order m =
     (if ord_Status order = PLACED
      then (case (if mt_nodesByOrderId m (ord_OrderId order) \<noteq> None then Matcher_Remove A order m else Some m) of
              None \<Rightarrow> None
            | Some m' \<Rightarrow> Matcher_Insert A order m')
      else Matcher_Remove A order m)"

definition private_publication ::
  "('s, 'n, 'd) order_avl \<Rightarrow> 'd order_data list option \<Rightarrow> ('s, 'n) matcher \<Rightarrow>
   ('d, ('s, 'n) matcher) prog" where
  "private_publication A data m =
     (case data of
        None \<Rightarrow> Return m
      | Some orders \<Rightarrow>
          with_mu (orPanic ''nil pointer dereference'' (for_orders (update_order A) orders m) Return))"

definition market_publication ::
  "('s, 'n, 'd) order_avl \<Rightarrow> 'd dec_lib \<Rightarrow> bool \<Rightarrow> 'd price_event option \<Rightarrow> ('s, 'n) matcher \<Rightarrow>
   ('d, ('s, 'n) matcher) prog" where
  "market_publication A D runs data m =
     (if \<not> runs then Return m
      else
        case data of
          None \<Rightarrow> Return m
        | Some event \<Rightarrow>
            (case pe_FairPrice event of
               None \<Rightarrow> Return m
             | Some price \<Rightarrow> with_mu (andThen (OnPriceUpdate A D m price) (\<lambda>_. Return m))))"

primrec ws_handle ::
  "('s, 'n, 'd) order_avl \<Rightarrow> 'd dec_lib \<Rightarrow> 'd ws_event \<Rightarrow> ('s, 'n) matcher \<Rightarrow>
   ('d, ('s, 'n) matcher) prog" where
  "ws_handle A D (PrivateSubscribed data) m = private_subscribed A data m"
| "ws_handle A D (PrivatePublication data) m = private_publication A data m"
| "ws_handle A D (MarketPublication runs data) m = market_publication A D runs data m"

text \<open>The client delivers the events of its subscriptions one after the other.\<close>

primrec ws_serve ::
  "('s, 'n, 'd) order_avl \<Rightarrow> 'd dec_lib \<Rightarrow> 'd ws_event list \<Rightarrow> ('s, 'n) matcher \<Rightarrow>
   ('d, ('s, 'n) matcher) prog" where
  "ws_serve A D [] m = Return m"
| "ws_serve A D (ev # evs) m = andThen (ws_handle A D ev m) (ws_serve A D evs)"

end
