(* ===== verification/Slipstopper_Index.thy ===== *)
theory Slipstopper_Index
  imports Slipstopper
begin

text \<open>
  The contract between the tree of orders and the matcher. The tree holds a queue of orders for
  every price and one node for every price that has orders; the matcher keeps the node of every
  order by its id. The locale \<open>price_tree\<close> states what inserting and deleting do to the queues and
  to the nodes, and the steps of the matcher are proved in it to keep the index consistent; the
  interpretation discharges the laws for \<open>Tree_Insert\<close> and \<open>Tree_Delete\<close> on every library that
  keeps a sorted map and leaves the other nodes in place.
\<close>

section \<open>The interface\<close>

locale price_tree =
  fixes ok :: "'s \<Rightarrow> bool"
    and ins :: "'d \<Rightarrow> 'o \<Rightarrow> 's \<Rightarrow> 's \<times> 'n option"
    and del :: "'d \<Rightarrow> 's \<Rightarrow> 's"
    and queue :: "'s \<Rightarrow> 'd \<Rightarrow> 'o list"
    and node :: "'s \<Rightarrow> 'd \<Rightarrow> 'n option"
    and same :: "'d \<Rightarrow> 'd \<Rightarrow> bool"
    and price_of :: "'o \<Rightarrow> 'd option"
    and id_of :: "'o \<Rightarrow> 'i"
  assumes same_equiv: "ok s \<Longrightarrow> equivp same"
    and ins_ok: "ok s \<Longrightarrow> ok (fst (ins p x s))"
    and ins_queue: "ok s \<Longrightarrow> queue (fst (ins p x s)) q = (if same p q then queue s q @ [x] else queue s q)"
    and ins_node: "ok s \<Longrightarrow> same p q \<Longrightarrow> node (fst (ins p x s)) q = snd (ins p x s)"
    and ins_keeps: "ok s \<Longrightarrow> node s q \<noteq> None \<Longrightarrow> node (fst (ins p x s)) q = node s q"
    and del_ok: "ok s \<Longrightarrow> ok (del p s)"
    and del_queue: "ok s \<Longrightarrow> queue (del p s) q = (if same p q then [] else queue s q)"
    and del_keeps: "ok s \<Longrightarrow> \<not> same p q \<Longrightarrow> node (del p s) q = node s q"
    and queue_same: "ok s \<Longrightarrow> same p q \<Longrightarrow> queue s p = queue s q"
    and node_queue: "ok s \<Longrightarrow> node s p \<noteq> None \<longleftrightarrow> queue s p \<noteq> []"
begin

definition held :: "'s \<Rightarrow> 'o set" where
  "held s = {x. \<exists>p. price_of x = Some p \<and> x \<in> set (queue s p)}"

text \<open>
  The index is consistent but for the ids in \<open>S\<close>, whose nodes are to be rebuilt: an order stands
  in the queue of its price, once, no two orders share an id, and the index has exactly the ids of
  the orders held, each with the node of its price.
\<close>

definition consistent :: "'i set \<Rightarrow> 's \<Rightarrow> ('i \<rightharpoonup> 'n option) \<Rightarrow> bool" where
  "consistent S s nodes \<longleftrightarrow>
     ok s \<and>
     (\<forall>q x. x \<in> set (queue s q) \<longrightarrow> (\<exists>p. price_of x = Some p \<and> same p q)) \<and>
     (\<forall>q. distinct (map id_of (queue s q))) \<and>
     (\<forall>x \<in> held s. \<forall>y \<in> held s. id_of x = id_of y \<longrightarrow> x = y) \<and>
     (\<forall>x p. x \<in> held s \<longrightarrow> price_of x = Some p \<longrightarrow> id_of x \<notin> S \<and> nodes (id_of x) = Some (node s p)) \<and>
     (\<forall>i. i \<notin> S \<longrightarrow> nodes i \<noteq> None \<longrightarrow> i \<in> id_of ` held s)"

lemma consistent_ok: "consistent S s nodes \<Longrightarrow> ok s"
  by (simp add: consistent_def)

lemma consistent_priced:
  "consistent S s nodes \<Longrightarrow> x \<in> set (queue s q) \<Longrightarrow> \<exists>p. price_of x = Some p \<and> same p q"
  by (auto simp: consistent_def)

lemma consistent_distinct: "consistent S s nodes \<Longrightarrow> distinct (map id_of (queue s q))"
  by (auto simp: consistent_def)

lemma consistent_unique:
  "consistent S s nodes \<Longrightarrow> x \<in> held s \<Longrightarrow> y \<in> held s \<Longrightarrow> id_of x = id_of y \<Longrightarrow> x = y"
  by (auto simp: consistent_def)

lemma consistent_node:
  "consistent S s nodes \<Longrightarrow> x \<in> held s \<Longrightarrow> price_of x = Some p \<Longrightarrow>
     id_of x \<notin> S \<and> nodes (id_of x) = Some (node s p)"
  unfolding consistent_def by blast

lemma consistent_known: "consistent S s nodes \<Longrightarrow> i \<notin> S \<Longrightarrow> nodes i \<noteq> None \<Longrightarrow> i \<in> id_of ` held s"
  unfolding consistent_def by blast

lemma held_queue: "consistent S s nodes \<Longrightarrow> x \<in> set (queue s q) \<Longrightarrow> x \<in> held s"
  using consistent_priced [of S s nodes x q] queue_same [OF consistent_ok [of S s nodes]]
  by (fastforce simp: held_def)

lemma held_ins: "ok s \<Longrightarrow> price_of x = Some p \<Longrightarrow> held (fst (ins p x s)) = insert x (held s)"
  using same_equiv [of s] by (auto simp: held_def ins_queue equivp_reflp split: if_splits)

lemma in_queue_iff:
  "consistent S s nodes \<Longrightarrow> price_of x = Some q \<Longrightarrow> x \<in> set (queue s q) \<Longrightarrow> x \<in> set (queue s p) \<longleftrightarrow> same p q"
  using consistent_priced [of S s nodes x p] queue_same [OF consistent_ok, of S s nodes p q]
    same_equiv [OF consistent_ok, of S s nodes] by (auto dest: equivp_symp)

lemma held_del:
  assumes c: "consistent S s nodes"
  shows "held (del p s) = held s - set (queue s p)"
proof -
  have "x \<in> held (del p s) \<longleftrightarrow> x \<in> held s \<and> x \<notin> set (queue s p)" for x
    using in_queue_iff [OF c, of x _ p]
    by (cases "price_of x") (auto simp: held_def del_queue [OF consistent_ok [OF c]])
  then show ?thesis
    by blast
qed

text \<open>Inserting an order with a fresh id\<close>

lemma consistent_ins:
  assumes c: "consistent S s nodes" and p: "price_of x = Some p" and fresh: "id_of x \<notin> id_of ` held s"
  shows "consistent (S - {id_of x}) (fst (ins p x s)) (nodes(id_of x \<mapsto> snd (ins p x s)))"
proof -
  note okS = consistent_ok [OF c]
  have h: "held (fst (ins p x s)) = insert x (held s)"
    by (rule held_ins [OF okS p])
  have new: "node (fst (ins p x s)) p = snd (ins p x s)"
    using ins_node [OF okS] same_equiv [OF okS] by (auto intro: equivp_reflp)
  have old: "node (fst (ins p x s)) q = node s q" if "y \<in> held s" "price_of y = Some q" for y q
    using that node_queue [OF okS] by (intro ins_keeps [OF okS]) (auto simp: held_def)
  have priced: "\<exists>p'. price_of y = Some p' \<and> same p' q" if "y \<in> set (queue (fst (ins p x s)) q)" for y q
    using that p consistent_priced [OF c] by (auto simp: ins_queue [OF okS] split: if_splits)
  have dist: "distinct (map id_of (queue (fst (ins p x s)) q))" for q
    using consistent_distinct [OF c, of q] fresh held_queue [OF c]
    by (auto simp: ins_queue [OF okS] image_iff)
  have uniq: "\<forall>y \<in> insert x (held s). \<forall>z \<in> insert x (held s). id_of y = id_of z \<longrightarrow> y = z"
    using consistent_unique [OF c] fresh by (auto simp: image_iff)
  have idx: "\<forall>y q. y \<in> insert x (held s) \<longrightarrow> price_of y = Some q \<longrightarrow>
       id_of y \<notin> S - {id_of x} \<and> (nodes(id_of x \<mapsto> snd (ins p x s))) (id_of y) = Some (node (fst (ins p x s)) q)"
    using consistent_node [OF c] fresh p new old by (auto simp: image_iff)
  have known: "\<forall>i. i \<notin> S - {id_of x} \<longrightarrow> (nodes(id_of x \<mapsto> snd (ins p x s))) i \<noteq> None \<longrightarrow> i \<in> id_of ` insert x (held s)"
    using consistent_known [OF c] by auto
  show ?thesis
    unfolding consistent_def h using ins_ok [OF okS] priced dist uniq idx known by blast
qed

text \<open>Deleting the queue of an order: the other orders of the queue are to be inserted again.\<close>

lemma consistent_del:
  assumes c: "consistent {} s nodes"
  shows "consistent (id_of ` set (queue s p) - {i}) (del p s)
           (if i \<in> id_of ` set (queue s p) then nodes(i := None) else nodes)"
proof -
  note okS = consistent_ok [OF c]
  have h: "held (del p s) = held s - set (queue s p)"
    by (rule held_del [OF c])
  have keep: "node (del p s) q = node s q" if "y \<in> held s - set (queue s p)" "price_of y = Some q" for y q
    using that queue_same [OF okS] by (intro del_keeps [OF okS]) (auto simp: held_def)
  have apart: "id_of y \<notin> id_of ` set (queue s p)" if "y \<in> held s - set (queue s p)" for y
    using that consistent_unique [OF c] held_queue [OF c] by (auto simp: image_iff)
  have priced: "\<exists>p'. price_of y = Some p' \<and> same p' q" if "y \<in> set (queue (del p s) q)" for y q
    using that consistent_priced [OF c] by (auto simp: del_queue [OF okS] split: if_splits)
  have dist: "distinct (map id_of (queue (del p s) q))" for q
    using consistent_distinct [OF c, of q] by (auto simp: del_queue [OF okS])
  have uniq: "\<forall>y \<in> held s - set (queue s p). \<forall>z \<in> held s - set (queue s p). id_of y = id_of z \<longrightarrow> y = z"
    using consistent_unique [OF c] by blast
  let ?n = "if i \<in> id_of ` set (queue s p) then nodes(i := None) else nodes"
  have idx: "\<forall>y q. y \<in> held s - set (queue s p) \<longrightarrow> price_of y = Some q \<longrightarrow>
       id_of y \<notin> id_of ` set (queue s p) - {i} \<and> ?n (id_of y) = Some (node (del p s) q)"
  proof (intro allI impI)
    fix y q
    assume y: "y \<in> held s - set (queue s p)" and q: "price_of y = Some q"
    have "nodes (id_of y) = Some (node s q)"
      using consistent_node [OF c] y q by blast
    then show "id_of y \<notin> id_of ` set (queue s p) - {i} \<and> ?n (id_of y) = Some (node (del p s) q)"
      using apart [OF y] keep [OF y q] by auto
  qed
  have known: "\<forall>j. j \<notin> id_of ` set (queue s p) - {i} \<longrightarrow> ?n j \<noteq> None \<longrightarrow> j \<in> id_of ` (held s - set (queue s p))"
  proof (intro allI impI)
    fix j
    assume j: "j \<notin> id_of ` set (queue s p) - {i}" "?n j \<noteq> None"
    then have "nodes j \<noteq> None" and "j \<notin> id_of ` set (queue s p)"
      by (auto split: if_splits)
    with consistent_known [OF c, of j] show "j \<in> id_of ` (held s - set (queue s p))"
      by auto
  qed
  show ?thesis
    unfolding consistent_def h using del_ok [OF okS] priced dist uniq idx known by blast
qed

end

section \<open>What the tree library promises\<close>

text \<open>\<^verbatim>\<open>Cmp\<close> compares the numbers the decimals denote.\<close>

definition cmp_law :: "'d dec_lib \<Rightarrow> bool" where
  "cmp_law D \<longleftrightarrow>
     (\<exists>val :: 'd \<Rightarrow> rat. \<forall>a b. (d_cmp D a b < 0 \<longleftrightarrow> val a < val b) \<and> (d_cmp D a b = 0 \<longleftrightarrow> val a = val b))"

abbreviation d_same :: "'d dec_lib \<Rightarrow> 'd \<Rightarrow> 'd \<Rightarrow> bool" where
  "d_same D a b \<equiv> d_cmp D a b = 0"

lemma cmp_law_equiv: "cmp_law D \<Longrightarrow> equivp (d_same D)"
  unfolding cmp_law_def equivp_reflp_symp_transp reflp_def symp_def transp_def by auto

lemma cmp_law_le_trans: "cmp_law D \<Longrightarrow> d_le D a b \<Longrightarrow> d_le D b c \<Longrightarrow> d_le D a c"
proof -
  assume "cmp_law D" and *: "d_le D a b" "d_le D b c"
  then obtain val :: "'a \<Rightarrow> rat"
    where v: "\<And>a b. (d_cmp D a b < 0 \<longleftrightarrow> val a < val b) \<and> (d_cmp D a b = 0 \<longleftrightarrow> val a = val b)"
    by (auto simp: cmp_law_def)
  have "d_le D a b \<longleftrightarrow> val a \<le> val b" for a b
    using v [of a b] by (auto simp: le_less)
  with * show "d_le D a c"
    by auto
qed

lemma cmp_law_neg: "cmp_law D \<Longrightarrow> 0 \<le> d_cmp D a b \<longleftrightarrow> d_le D b a"
proof -
  assume "cmp_law D"
  then obtain val :: "'a \<Rightarrow> rat"
    where v: "\<And>a b. (d_cmp D a b < 0 \<longleftrightarrow> val a < val b) \<and> (d_cmp D a b = 0 \<longleftrightarrow> val a = val b)"
    by (auto simp: cmp_law_def)
  show ?thesis
    using v [of a b] v [of b a] by (auto simp: le_less not_less [symmetric])
qed

text \<open>The value at a key, by comparison of the keys\<close>

definition entry_at :: "'d dec_lib \<Rightarrow> ('d \<times> 'v) list \<Rightarrow> 'd \<Rightarrow> 'v option" where
  "entry_at D es k = map_option snd (List.find (\<lambda>e. d_same D (fst e) k) es)"

text \<open>
  The laws of a sorted map: the iterator visits the keys in increasing order, \<open>GetNode\<close> finds the
  node of a key, the updates change the entry of their key and no other.
\<close>

definition node_law :: "('s, 'n, 'd) order_avl \<Rightarrow> 'd dec_lib \<Rightarrow> 's \<Rightarrow> bool" where
  "node_law A D s \<longleftrightarrow>
     (\<forall>k. case av_GetNode A s k of
            None \<Rightarrow> entry_at D (av_Entries A s) k = None
          | Some n \<Rightarrow> d_same D (av_Key A s n) k \<and> entry_at D (av_Entries A s) k = Some (av_Value A s n)) \<and>
     (\<forall>k q. d_same D k q \<longrightarrow> av_GetNode A s k = av_GetNode A s q)"

definition put_law :: "('s, 'n, 'd) order_avl \<Rightarrow> 'd dec_lib \<Rightarrow> ('s \<Rightarrow> bool) \<Rightarrow> 's \<Rightarrow> bool" where
  "put_law A D good s \<longleftrightarrow>
     (\<forall>k t. av_GetNode A s k = None \<longrightarrow>
        good (av_Put A s k t) \<and>
        (\<forall>q. entry_at D (av_Entries A (av_Put A s k t)) q =
               (if d_same D k q then Some t else entry_at D (av_Entries A s) q)))"

definition set_law :: "('s, 'n, 'd) order_avl \<Rightarrow> 'd dec_lib \<Rightarrow> ('s \<Rightarrow> bool) \<Rightarrow> 's \<Rightarrow> bool" where
  "set_law A D good s \<longleftrightarrow>
     (\<forall>k n t. av_GetNode A s k = Some n \<longrightarrow>
        good (av_SetValue A s n t) \<and>
        (\<forall>q. entry_at D (av_Entries A (av_SetValue A s n t)) q =
               (if d_same D k q then Some t else entry_at D (av_Entries A s) q)))"

definition remove_law :: "('s, 'n, 'd) order_avl \<Rightarrow> 'd dec_lib \<Rightarrow> ('s \<Rightarrow> bool) \<Rightarrow> 's \<Rightarrow> bool" where
  "remove_law A D good s \<longleftrightarrow>
     (\<forall>k. good (av_Remove A s k) \<and>
        (\<forall>q. entry_at D (av_Entries A (av_Remove A s k)) q =
               (if d_same D k q then None else entry_at D (av_Entries A s) q)))"

definition sorted_map_laws :: "('s, 'n, 'd) order_avl \<Rightarrow> 'd dec_lib \<Rightarrow> ('s \<Rightarrow> bool) \<Rightarrow> bool" where
  "sorted_map_laws A D good \<longleftrightarrow>
     good (NewAVLTree A D) \<and> av_Entries A (NewAVLTree A D) = [] \<and>
     (\<forall>s. good s \<longrightarrow>
        sorted_wrt (\<lambda>e e'. d_lt D (fst e) (fst e')) (av_Entries A s) \<and>
        good (av_Clear A s) \<and> av_Entries A (av_Clear A s) = [] \<and>
        node_law A D s \<and> put_law A D good s \<and> set_law A D good s \<and> remove_law A D good s)"

text \<open>
  What the matcher relies on beyond the map: an update leaves the entries of the other keys in the
  nodes they are in, so that the pointers kept in the index stay valid.
\<close>

definition nodes_stay :: "('s, 'n, 'd) order_avl \<Rightarrow> 'd dec_lib \<Rightarrow> ('s \<Rightarrow> bool) \<Rightarrow> bool" where
  "nodes_stay A D good \<longleftrightarrow>
     (\<forall>s k q. good s \<longrightarrow>
        (\<forall>t. av_GetNode A s k = None \<longrightarrow> av_GetNode A s q \<noteq> None \<longrightarrow>
           av_GetNode A (av_Put A s k t) q = av_GetNode A s q) \<and>
        (\<forall>n t. av_GetNode A s k = Some n \<longrightarrow> av_GetNode A (av_SetValue A s n t) q = av_GetNode A s q) \<and>
        (\<not> d_same D k q \<longrightarrow> av_GetNode A (av_Remove A s k) q = av_GetNode A s q))"

definition tree_ok :: "('s, 'n, 'd) order_avl \<Rightarrow> 'd dec_lib \<Rightarrow> ('s \<Rightarrow> bool) \<Rightarrow> 's \<Rightarrow> bool" where
  "tree_ok A D good s \<longleftrightarrow>
     cmp_law D \<and> sorted_map_laws A D good \<and> nodes_stay A D good \<and> good s \<and>
     (\<forall>q t. entry_at D (av_Entries A s) q = Some t \<longrightarrow> tup_Values t \<noteq> [])"

definition tree_queue :: "('s, 'n, 'd) order_avl \<Rightarrow> 'd dec_lib \<Rightarrow> 's \<Rightarrow> 'd \<Rightarrow> 'd order_data list" where
  "tree_queue A D s q =
     (case entry_at D (av_Entries A s) q of None \<Rightarrow> [] | Some t \<Rightarrow> tup_Values t)"

lemma entry_at_same:
  assumes "cmp_law D" and "d_same D p q"
  shows "entry_at D es p = entry_at D es q"
proof -
  have "(\<lambda>e. d_same D (fst e) p) = (\<lambda>e. d_same D (fst e) q)"
    using cmp_law_equiv [OF assms(1)] assms(2)
    by (intro ext) (meson equivp_transp equivp_symp)
  then show ?thesis
    unfolding entry_at_def by (rule arg_cong)
qed

lemma law_sorted: "sorted_map_laws A D good \<Longrightarrow> good s \<Longrightarrow>
     sorted_wrt (\<lambda>e e'. d_lt D (fst e) (fst e')) (av_Entries A s)"
  and law_clear: "sorted_map_laws A D good \<Longrightarrow> good s \<Longrightarrow>
     good (av_Clear A s) \<and> av_Entries A (av_Clear A s) = []"
  and law_new: "sorted_map_laws A D good \<Longrightarrow> good (NewAVLTree A D) \<and> av_Entries A (NewAVLTree A D) = []"
  by (simp_all add: sorted_map_laws_def)

lemma law_node_same:
  assumes "sorted_map_laws A D good" and "good s" and "d_same D k q"
  shows "av_GetNode A s k = av_GetNode A s q"
proof -
  have "node_law A D s"
    using assms(1,2) by (simp add: sorted_map_laws_def)
  with assms(3) show ?thesis
    unfolding node_law_def by blast
qed

lemma law_node:
  assumes "sorted_map_laws A D good" and "good s"
  shows "av_GetNode A s k = None \<Longrightarrow> entry_at D (av_Entries A s) k = None"
    and "av_GetNode A s k = Some n \<Longrightarrow> d_same D (av_Key A s n) k"
    and "av_GetNode A s k = Some n \<Longrightarrow> entry_at D (av_Entries A s) k = Some (av_Value A s n)"
proof -
  have "node_law A D s"
    using assms by (simp add: sorted_map_laws_def)
  then have "case av_GetNode A s k of
          None \<Rightarrow> entry_at D (av_Entries A s) k = None
        | Some n \<Rightarrow> d_same D (av_Key A s n) k \<and> entry_at D (av_Entries A s) k = Some (av_Value A s n)"
    unfolding node_law_def by blast
  then show "av_GetNode A s k = None \<Longrightarrow> entry_at D (av_Entries A s) k = None"
    and "av_GetNode A s k = Some n \<Longrightarrow> d_same D (av_Key A s n) k"
    and "av_GetNode A s k = Some n \<Longrightarrow> entry_at D (av_Entries A s) k = Some (av_Value A s n)"
    by auto
qed

lemma law_remove:
  assumes "sorted_map_laws A D good" and "good s"
  shows "good (av_Remove A s k)"
    and "entry_at D (av_Entries A (av_Remove A s k)) q =
           (if d_same D k q then None else entry_at D (av_Entries A s) q)"
proof -
  have "remove_law A D good s"
    using assms by (simp add: sorted_map_laws_def)
  then show "good (av_Remove A s k)"
    and "entry_at D (av_Entries A (av_Remove A s k)) q =
           (if d_same D k q then None else entry_at D (av_Entries A s) q)"
    unfolding remove_law_def by blast+
qed

lemma law_put:
  assumes "sorted_map_laws A D good" and "good s" and "av_GetNode A s k = None"
  shows "good (av_Put A s k t)"
    and "entry_at D (av_Entries A (av_Put A s k t)) q =
           (if d_same D k q then Some t else entry_at D (av_Entries A s) q)"
proof -
  have "put_law A D good s"
    using assms by (simp add: sorted_map_laws_def)
  with assms(3) show "good (av_Put A s k t)"
    and "entry_at D (av_Entries A (av_Put A s k t)) q =
           (if d_same D k q then Some t else entry_at D (av_Entries A s) q)"
    unfolding put_law_def by blast+
qed

lemma law_set:
  assumes "sorted_map_laws A D good" and "good s" and "av_GetNode A s k = Some n"
  shows "good (av_SetValue A s n t)"
    and "entry_at D (av_Entries A (av_SetValue A s n t)) q =
           (if d_same D k q then Some t else entry_at D (av_Entries A s) q)"
proof -
  have "set_law A D good s"
    using assms by (simp add: sorted_map_laws_def)
  with assms(3) show "good (av_SetValue A s n t)"
    and "entry_at D (av_Entries A (av_SetValue A s n t)) q =
           (if d_same D k q then Some t else entry_at D (av_Entries A s) q)"
    unfolding set_law_def by blast+
qed

lemma stay_put: "nodes_stay A D good \<Longrightarrow> good s \<Longrightarrow> av_GetNode A s k = None \<Longrightarrow> av_GetNode A s q \<noteq> None \<Longrightarrow>
     av_GetNode A (av_Put A s k t) q = av_GetNode A s q"
  and stay_set: "nodes_stay A D good \<Longrightarrow> good s \<Longrightarrow> av_GetNode A s k = Some n \<Longrightarrow>
     av_GetNode A (av_SetValue A s n t) q = av_GetNode A s q"
  and stay_remove: "nodes_stay A D good \<Longrightarrow> good s \<Longrightarrow> \<not> d_same D k q \<Longrightarrow>
     av_GetNode A (av_Remove A s k) q = av_GetNode A s q"
  unfolding nodes_stay_def by blast+

text \<open>Where the entries of the library are, \<open>Tree_Insert\<close> and \<open>Tree_Delete\<close> act on the queues.\<close>

lemma tree_insert_ok:
  assumes "tree_ok A D good s"
  shows "tree_ok A D good (fst (Tree_Insert A s p x))"
    and "tree_queue A D (fst (Tree_Insert A s p x)) q =
           (if d_same D p q then tree_queue A D s q @ [x] else tree_queue A D s q)"
    and "d_same D p q \<Longrightarrow> av_GetNode A (fst (Tree_Insert A s p x)) q = snd (Tree_Insert A s p x)"
    and "av_GetNode A s q \<noteq> None \<Longrightarrow> av_GetNode A (fst (Tree_Insert A s p x)) q = av_GetNode A s q"
proof -
  have D: "cmp_law D" and M: "sorted_map_laws A D good" and N: "nodes_stay A D good" and W: "good s"
    using assms by (auto simp: tree_ok_def)
  note rules = law_put [OF M W] law_set [OF M W] law_node [OF M W]
  show "tree_ok A D good (fst (Tree_Insert A s p x))"
    using assms by (cases "av_GetNode A s p") (auto simp: Tree_Insert_def tree_ok_def Let_def rules)
  show "tree_queue A D (fst (Tree_Insert A s p x)) q =
      (if d_same D p q then tree_queue A D s q @ [x] else tree_queue A D s q)"
    using entry_at_same [OF D, of p q "av_Entries A s"]
    by (cases "av_GetNode A s p")
      (auto simp: Tree_Insert_def tree_queue_def Let_def rules split: option.splits)
  show "av_GetNode A (fst (Tree_Insert A s p x)) q = snd (Tree_Insert A s p x)" if "d_same D p q"
  proof (cases "av_GetNode A s p")
    case None
    then show ?thesis
      using law_node_same [OF M law_put(1) [OF M W None] that] by (simp add: Tree_Insert_def Let_def)
  next
    case (Some n)
    then show ?thesis
      using law_node_same [OF M W that] by (simp add: Tree_Insert_def Let_def stay_set [OF N W Some])
  qed
  show "av_GetNode A (fst (Tree_Insert A s p x)) q = av_GetNode A s q" if "av_GetNode A s q \<noteq> None"
    using that by (cases "av_GetNode A s p")
      (auto simp: Tree_Insert_def Let_def stay_put [OF N W] stay_set [OF N W])
qed

interpretation order_tree: price_tree "tree_ok A D good" "\<lambda>p x s. Tree_Insert A s p x"
  "\<lambda>p s. Tree_Delete A s p" "tree_queue A D" "av_GetNode A" "d_same D" ord_TriggerPrice ord_OrderId
proof unfold_locales
  fix s :: 'a and p q :: 'c
  assume ok: "tree_ok A D good s"
  then have D: "cmp_law D" and M: "sorted_map_laws A D good" and N: "nodes_stay A D good" and W: "good s"
    by (auto simp: tree_ok_def)
  show "equivp (d_same D)"
    by (rule cmp_law_equiv [OF D])
  show "tree_ok A D good (Tree_Delete A s p)"
    using ok law_remove [OF M W] by (auto simp: tree_ok_def Tree_Delete_def split: if_splits)
  show "tree_queue A D (Tree_Delete A s p) q = (if d_same D p q then [] else tree_queue A D s q)"
    by (simp add: tree_queue_def Tree_Delete_def law_remove [OF M W])
  show "\<not> d_same D p q \<Longrightarrow> av_GetNode A (Tree_Delete A s p) q = av_GetNode A s q"
    by (simp add: Tree_Delete_def stay_remove [OF N W])
  show "d_same D p q \<Longrightarrow> tree_queue A D s p = tree_queue A D s q"
    by (simp add: tree_queue_def entry_at_same [OF D])
  show "av_GetNode A s p \<noteq> None \<longleftrightarrow> tree_queue A D s p \<noteq> []"
    using law_node [OF M W, of p] ok
    by (cases "av_GetNode A s p") (auto simp: tree_queue_def tree_ok_def)
qed (simp_all add: tree_insert_ok)

end
