(* ===== verification/Slipstopper_Steps.thy ===== *)
theory Slipstopper_Steps
  imports Slipstopper_Index
begin

text \<open>
  The steps of the matcher: what inserting, removing and updating an order do to the orders held,
  the simulation of a loop over orders by a fold over an abstract book (the locale
  \<open>simulated_loop\<close>, interpreted for the loops of the two handlers), and the calls a price makes.
\<close>

section \<open>The orders held\<close>

definition orders_of :: "('s, 'n, 'd) order_avl \<Rightarrow> ('s, 'n) matcher \<Rightarrow> 'd order_data list" where
  "orders_of A m = concat (map (\<lambda>e. tup_Values (snd e)) (av_Entries A (mt_tree m)))"

definition order_book :: "('s, 'n, 'd) order_avl \<Rightarrow> ('s, 'n) matcher \<Rightarrow> string \<rightharpoonup> 'd order_data" where
  "order_book A m = map_of (map (\<lambda>x. (ord_OrderId x, x)) (orders_of A m))"

abbreviation index_but ::
  "('s, 'n, 'd) order_avl \<Rightarrow> 'd dec_lib \<Rightarrow> ('s \<Rightarrow> bool) \<Rightarrow> string set \<Rightarrow> ('s, 'n) matcher \<Rightarrow> bool" where
  "index_but A D good S m \<equiv>
     price_tree.consistent (tree_ok A D good) (tree_queue A D) (av_GetNode A) (d_same D)
       ord_TriggerPrice ord_OrderId S (mt_tree m) (mt_nodesByOrderId m)"

abbreviation tree_held :: "('s, 'n, 'd) order_avl \<Rightarrow> 'd dec_lib \<Rightarrow> ('s, 'n) matcher \<Rightarrow> 'd order_data set" where
  "tree_held A D m \<equiv> price_tree.held (tree_queue A D) ord_TriggerPrice (mt_tree m)"

definition matcher_ok ::
  "('s, 'n, 'd) order_avl \<Rightarrow> 'd dec_lib \<Rightarrow> ('s \<Rightarrow> bool) \<Rightarrow> ('s, 'n) matcher \<Rightarrow> bool" where
  "matcher_ok A D good m \<longleftrightarrow> index_but A D good {} m"

lemma entry_at_mem:
  assumes "cmp_law D" and "sorted_wrt (\<lambda>e e'. d_lt D (fst e) (fst e')) es" and "(k, t) \<in> set es"
  shows "entry_at D es k = Some t"
  using assms(2,3)
proof (induction es)
  case (Cons e es)
  show ?case
  proof (cases "(k, t) = e")
    case True
    then show ?thesis
      using equivp_reflp [OF cmp_law_equiv [OF assms(1)], of k] by (auto simp: entry_at_def)
  next
    case False
    with Cons have "d_lt D (fst e) k" and "entry_at D es k = Some t"
      by auto
    then show ?thesis
      by (auto simp: entry_at_def)
  qed
qed simp

lemma entry_at_SomeD: "entry_at D es q = Some t \<Longrightarrow> \<exists>k. (k, t) \<in> set es \<and> d_same D k q"
  by (induction es) (auto simp: entry_at_def split: if_splits)

lemma ok_parts:
  assumes "index_but A D good S m"
  shows "cmp_law D" and "sorted_map_laws A D good" and "nodes_stay A D good" and "good (mt_tree m)"
  using order_tree.consistent_ok [OF assms] by (auto simp: tree_ok_def)

lemma orders_held:
  assumes "index_but A D good S m"
  shows "set (orders_of A m) = tree_held A D m"
proof (intro set_eqI iffI)
  note parts = ok_parts [OF assms]
  fix x
  show "x \<in> tree_held A D m" if "x \<in> set (orders_of A m)"
  proof -
    from that obtain k t where "(k, t) \<in> set (av_Entries A (mt_tree m))" "x \<in> set (tup_Values t)"
      by (auto simp: orders_of_def)
    then have "x \<in> set (tree_queue A D (mt_tree m) k)"
      using entry_at_mem [OF parts(1) law_sorted [OF parts(2,4)]] by (simp add: tree_queue_def)
    then show ?thesis
      by (rule order_tree.held_queue [OF assms])
  qed
  show "x \<in> set (orders_of A m)" if "x \<in> tree_held A D m"
    using that entry_at_SomeD [of D "av_Entries A (mt_tree m)"]
    by (force simp: order_tree.held_def tree_queue_def orders_of_def split: option.splits)
qed

lemma map_of_ids:
  assumes "\<And>x y. x \<in> set xs \<Longrightarrow> y \<in> set xs \<Longrightarrow> f x = f y \<Longrightarrow> x = y"
  shows "map_of (map (\<lambda>x. (f x, x)) xs) i = Some x \<longleftrightarrow> x \<in> set xs \<and> f x = i"
  using assms
proof (induction xs)
  case (Cons y xs)
  then have IH: "map_of (map (\<lambda>x. (f x, x)) xs) i = Some x \<longleftrightarrow> x \<in> set xs \<and> f x = i"
    by simp
  show ?case
    using IH Cons.prems [of x y] by auto
qed simp

lemma book_iff:
  assumes "index_but A D good S m"
  shows "order_book A m i = Some x \<longleftrightarrow> x \<in> tree_held A D m \<and> ord_OrderId x = i"
  unfolding order_book_def
  by (subst map_of_ids) (use orders_held [OF assms] order_tree.consistent_unique [OF assms] in auto)

text \<open>A book is determined by the orders in it.\<close>

lemma book_eqI:
  assumes "index_but A D good S m"
    and "\<And>i x. x \<in> tree_held A D m \<and> ord_OrderId x = i \<longleftrightarrow> B i = Some x"
  shows "order_book A m = B"
proof
  fix i
  have "order_book A m i = Some x \<longleftrightarrow> B i = Some x" for x
    using book_iff [OF assms(1)] assms(2) by simp
  then show "order_book A m i = B i"
    by (metis not_Some_eq)
qed

section \<open>The operations of the matcher\<close>

lemma insert_step:
  assumes "index_but A D good S m" and "ord_TriggerPrice x = Some p"
    and "ord_OrderId x \<notin> ord_OrderId ` tree_held A D m"
  shows "\<exists>m'. Matcher_Insert A x m = Some m' \<and> index_but A D good (S - {ord_OrderId x}) m' \<and>
           tree_held A D m' = insert x (tree_held A D m)"
  using order_tree.consistent_ins [OF assms] order_tree.held_ins [OF order_tree.consistent_ok [OF assms(1)] assms(2)]
  by (auto simp: Matcher_Insert_def assms(2) case_prod_unfold Let_def)

text \<open>The loop that inserts the other orders of a queue again\<close>

lemma rebuild_loop:
  assumes "index_but A D good S m"
    and "\<forall>x \<in> set xs. ord_TriggerPrice x \<noteq> None"
    and "distinct (map ord_OrderId xs)"
    and "\<forall>x \<in> set xs. ord_OrderId x \<notin> ord_OrderId ` tree_held A D m"
  shows "\<exists>m'. for_orders (\<lambda>x m. if ord_OrderId x \<noteq> i then Matcher_Insert A x m else Some m) xs m = Some m' \<and>
           index_but A D good (S - (ord_OrderId ` set xs - {i})) m' \<and>
           tree_held A D m' = tree_held A D m \<union> {x \<in> set xs. ord_OrderId x \<noteq> i}"
  using assms
proof (induction xs arbitrary: m S)
  case (Cons x xs)
  show ?case
  proof (cases "ord_OrderId x = i")
    case True
    then show ?thesis
      using Cons.IH [OF Cons.prems(1)] Cons.prems by auto
  next
    case False
    from Cons.prems(2) obtain p where "ord_TriggerPrice x = Some p"
      by auto
    from insert_step [OF Cons.prems(1) this] Cons.prems(4) obtain m'
      where ins: "Matcher_Insert A x m = Some m'" and ok: "index_but A D good (S - {ord_OrderId x}) m'"
        and held: "tree_held A D m' = insert x (tree_held A D m)"
      by auto
    have set_eq: "S - {ord_OrderId x} - (ord_OrderId ` set xs - {i}) =
        S - (ord_OrderId ` set (x # xs) - {i})"
      using False by auto
    have held_eq: "insert x (tree_held A D m) \<union> {y \<in> set xs. ord_OrderId y \<noteq> i} =
        tree_held A D m \<union> {y \<in> set (x # xs). ord_OrderId y \<noteq> i}"
      using False by auto
    have fresh: "\<forall>y \<in> set xs. ord_OrderId y \<notin> ord_OrderId ` tree_held A D m'"
      using Cons.prems(3,4) held by (auto simp: image_iff)
    show ?thesis
      using Cons.IH [OF ok _ _ fresh] Cons.prems(2,3) ins False
      unfolding held held_eq set_eq by simp
  qed
qed simp

lemma remove_step:
  assumes ok: "index_but A D good {} m"
  shows "\<exists>m'. Matcher_Remove A x m = Some m' \<and> index_but A D good {} m' \<and>
           tree_held A D m' = {y \<in> tree_held A D m. ord_OrderId y \<noteq> ord_OrderId x}"
proof (cases "mt_nodesByOrderId m (ord_OrderId x)")
  case None
  have "ord_OrderId y \<noteq> ord_OrderId x" if "y \<in> tree_held A D m" for y
    using order_tree.consistent_node [OF ok that] that None by (fastforce simp: order_tree.held_def)
  then show ?thesis
    using None ok by (auto simp: Matcher_Remove_def)
next
  case (Some n)
  let ?i = "ord_OrderId x" and ?s = "mt_tree m"
  note parts = ok_parts [OF ok]
  from order_tree.consistent_known [OF ok, of ?i] Some obtain y
    where y: "y \<in> tree_held A D m" "ord_OrderId y = ?i"
    by auto
  then obtain p where p: "ord_TriggerPrice y = Some p" and yq: "y \<in> set (tree_queue A D ?s p)"
    by (auto simp: order_tree.held_def)
  from order_tree.consistent_node [OF ok y(1) p] y(2) Some have node: "av_GetNode A ?s p = n"
    by simp
  from node yq law_node(1) [OF parts(2,4), of p] obtain n'
    where n': "n = Some n'"
    by (cases n) (auto simp: tree_queue_def)
  let ?k = "av_Key A ?s n'" and ?t = "av_Value A ?s n'"
  have key: "d_same D ?k p" and val: "tup_Values ?t = tree_queue A D ?s p"
    using law_node(2,3) [OF parts(2,4)] node n' by (auto simp: tree_queue_def)
  have queue: "tree_queue A D ?s ?k = tree_queue A D ?s p"
    using order_tree.queue_same [OF order_tree.consistent_ok [OF ok] key] .
  let ?m = "m \<lparr>mt_tree := Tree_Delete A ?s ?k, mt_nodesByOrderId := (mt_nodesByOrderId m)(?i := None)\<rparr>"
  let ?ys = "tree_queue A D ?s p"
  have i: "?i \<in> ord_OrderId ` set ?ys"
    using y(2) [symmetric] yq by simp
  have del: "index_but A D good (ord_OrderId ` set ?ys - {?i}) ?m"
    using order_tree.consistent_del [OF ok, of ?k ?i] i queue by simp
  have held: "tree_held A D ?m = tree_held A D m - set ?ys"
    using order_tree.held_del [OF ok, of ?k] queue by simp
  have sub: "set ?ys \<subseteq> tree_held A D m"
    using order_tree.held_queue [OF ok] by blast
  have "\<exists>m'. for_orders (\<lambda>x m. if ord_OrderId x \<noteq> ?i then Matcher_Insert A x m else Some m) ?ys ?m = Some m' \<and>
      index_but A D good (ord_OrderId ` set ?ys - {?i} - (ord_OrderId ` set ?ys - {?i})) m' \<and>
      tree_held A D m' = tree_held A D ?m \<union> {z \<in> set ?ys. ord_OrderId z \<noteq> ?i}"
  proof (rule rebuild_loop [OF del])
    show "\<forall>z \<in> set ?ys. ord_TriggerPrice z \<noteq> None"
      using order_tree.consistent_priced [OF ok] by fastforce
    show "distinct (map ord_OrderId ?ys)"
      by (rule order_tree.consistent_distinct [OF ok])
    show "\<forall>z \<in> set ?ys. ord_OrderId z \<notin> ord_OrderId ` tree_held A D ?m"
      unfolding held using order_tree.consistent_unique [OF ok] sub by (auto simp: image_iff)
  qed
  moreover have "tree_held A D m - set ?ys \<union> {z \<in> set ?ys. ord_OrderId z \<noteq> ?i} =
      {z \<in> tree_held A D m. ord_OrderId z \<noteq> ?i}"
  proof -
    have "ord_OrderId z \<noteq> ?i" if "z \<in> tree_held A D m" "z \<notin> set ?ys" for z
    proof
      assume "ord_OrderId z = ?i"
      with order_tree.consistent_unique [OF ok that(1) y(1)] y(2) have "z = y"
        by simp
      with that(2) yq show False
        by simp
    qed
    with sub show ?thesis
      by blast
  qed
  ultimately show ?thesis
    unfolding held by (simp add: Matcher_Remove_def Some n' val)
qed

text \<open>\<open>update_book\<close>: what an order of a publication means for the book\<close>

definition update_book :: "'d order_data \<Rightarrow> (string \<rightharpoonup> 'd order_data) \<Rightarrow> string \<rightharpoonup> 'd order_data" where
  "update_book x B = B(ord_OrderId x := if ord_Status x = PLACED then Some x else None)"

definition has_price :: "'d order_data \<Rightarrow> bool" where
  "has_price x \<longleftrightarrow> ord_TriggerPrice x \<noteq> None"

lemma remove_book:
  assumes "matcher_ok A D good m"
  shows "\<exists>m'. Matcher_Remove A x m = Some m' \<and> matcher_ok A D good m' \<and>
           order_book A m' = (order_book A m)(ord_OrderId x := None)"
proof -
  from remove_step [OF assms [unfolded matcher_ok_def], of x] obtain m'
    where m': "Matcher_Remove A x m = Some m'" "index_but A D good {} m'"
      "tree_held A D m' = {y \<in> tree_held A D m. ord_OrderId y \<noteq> ord_OrderId x}"
    by auto
  have "order_book A m' = (order_book A m)(ord_OrderId x := None)"
    using book_iff [OF assms [unfolded matcher_ok_def]] by (intro book_eqI [OF m'(2)]) (auto simp: m'(3))
  with m' show ?thesis
    by (auto simp: matcher_ok_def)
qed

lemma insert_book:
  assumes "matcher_ok A D good m" and "has_price x" and "order_book A m (ord_OrderId x) = None"
  shows "\<exists>m'. Matcher_Insert A x m = Some m' \<and> matcher_ok A D good m' \<and>
           order_book A m' = (order_book A m)(ord_OrderId x \<mapsto> x)"
proof -
  note ok = assms(1) [unfolded matcher_ok_def]
  have fresh: "ord_OrderId x \<notin> ord_OrderId ` tree_held A D m"
  proof
    assume "ord_OrderId x \<in> ord_OrderId ` tree_held A D m"
    then obtain y where "y \<in> tree_held A D m" "ord_OrderId y = ord_OrderId x"
      by (metis image_iff)
    with book_iff [OF ok, of "ord_OrderId x" y] assms(3) show False
      by simp
  qed
  from assms(2) obtain p where "ord_TriggerPrice x = Some p"
    by (auto simp: has_price_def)
  from insert_step [OF ok this fresh] obtain m'
    where m': "Matcher_Insert A x m = Some m'" "index_but A D good {} m'"
      "tree_held A D m' = insert x (tree_held A D m)"
    by auto
  have "order_book A m' = (order_book A m)(ord_OrderId x \<mapsto> x)"
    using book_iff [OF ok] fresh by (intro book_eqI [OF m'(2)]) (auto simp: m'(3) image_iff)
  with m' show ?thesis
    by (auto simp: matcher_ok_def)
qed

lemma index_book:
  "matcher_ok A D good m \<Longrightarrow> mt_nodesByOrderId m i = None \<longleftrightarrow> order_book A m i = None"
proof -
  assume "matcher_ok A D good m"
  then have ok: "index_but A D good {} m"
    by (simp add: matcher_ok_def)
  have "mt_nodesByOrderId m i \<noteq> None \<longleftrightarrow> i \<in> ord_OrderId ` tree_held A D m"
    using order_tree.consistent_known [OF ok, of i] order_tree.consistent_node [OF ok]
    by (fastforce simp: order_tree.held_def)
  also have "\<dots> \<longleftrightarrow> order_book A m i \<noteq> None"
    using book_iff [OF ok, of i] by auto
  finally show ?thesis
    by blast
qed

lemma update_step:
  assumes ok: "matcher_ok A D good m" and priced: "ord_Status x = PLACED \<longrightarrow> has_price x"
  shows "\<exists>m'. update_order A x m = Some m' \<and> matcher_ok A D good m' \<and>
           order_book A m' = update_book x (order_book A m)"
proof (cases "ord_Status x = PLACED")
  case False
  then show ?thesis
    using remove_book [OF ok, of x] by (simp add: update_order_def update_book_def)
next
  case True
  have "\<exists>m1. (if mt_nodesByOrderId m (ord_OrderId x) \<noteq> None then Matcher_Remove A x m else Some m) = Some m1 \<and>
      matcher_ok A D good m1 \<and> order_book A m1 = (order_book A m)(ord_OrderId x := None)"
    using remove_book [OF ok, of x] ok index_book [OF ok, of "ord_OrderId x"] by (auto simp: fun_upd_idem)
  then obtain m1 where m1: "(if mt_nodesByOrderId m (ord_OrderId x) \<noteq> None then Matcher_Remove A x m else Some m) = Some m1"
      "matcher_ok A D good m1" "order_book A m1 = (order_book A m)(ord_OrderId x := None)"
    by blast
  from insert_book [OF m1(2), of x] True priced m1(3) obtain m'
    where "Matcher_Insert A x m1 = Some m'" "matcher_ok A D good m'"
      "order_book A m' = (order_book A m1)(ord_OrderId x \<mapsto> x)"
    by auto
  with True m1 show ?thesis
    by (simp add: update_order_def update_book_def)
qed

section \<open>Loops that refine a fold\<close>

text \<open>
  A step on the concrete state simulates a step on an abstract one: it does not panic, keeps the
  invariant and commutes with the abstraction. Then so does the loop.
\<close>

locale simulated_loop =
  fixes step :: "'d order_data \<Rightarrow> 'm \<Rightarrow> 'm option"
    and inv :: "'m \<Rightarrow> bool" and abs :: "'m \<Rightarrow> 'b"
    and spec :: "'d order_data \<Rightarrow> 'b \<Rightarrow> 'b"
    and enabled :: "'d order_data \<Rightarrow> 'b \<Rightarrow> bool"
  assumes simulates: "inv m \<Longrightarrow> enabled x (abs m) \<Longrightarrow>
      \<exists>m'. step x m = Some m' \<and> inv m' \<and> abs m' = spec x (abs m)"
begin

text \<open>Every order of the loop is enabled when its turn comes.\<close>

primrec all_enabled :: "'d order_data list \<Rightarrow> 'b \<Rightarrow> bool" where
  "all_enabled [] b \<longleftrightarrow> True"
| "all_enabled (x # xs) b \<longleftrightarrow> enabled x b \<and> all_enabled xs (spec x b)"

lemma loop_simulates:
  "inv m \<Longrightarrow> all_enabled xs (abs m) \<Longrightarrow>
     \<exists>m'. for_orders step xs m = Some m' \<and> inv m' \<and> abs m' = fold spec xs (abs m)"
proof (induction xs arbitrary: m)
  case (Cons x xs)
  from simulates [of m x] Cons.prems obtain m1
    where "step x m = Some m1" "inv m1" "abs m1 = spec x (abs m)"
    by auto
  with Cons.IH [of m1] Cons.prems show ?case
    by simp
qed simp

lemma all_enabledI:
  assumes "\<And>x b. x \<in> set xs \<Longrightarrow> enabled x b"
  shows "all_enabled xs b"
  using assms by (induction xs arbitrary: b) auto

end

interpretation updates: simulated_loop "update_order A" "matcher_ok A D good" "order_book A" update_book
  "\<lambda>x _. ord_Status x = PLACED \<longrightarrow> has_price x"
  by unfold_locales (rule update_step)

interpretation inserts: simulated_loop "Matcher_Insert A" "matcher_ok A D good" "order_book A"
  "\<lambda>x B. B(ord_OrderId x \<mapsto> x)" "\<lambda>x B. has_price x \<and> B (ord_OrderId x) = None"
  by unfold_locales (auto intro: insert_book)

section \<open>A run of the service\<close>

text \<open>
  The abstract book after an event: a snapshot replaces it, a publication updates it order by
  order, prices and unreadable data leave it alone.
\<close>

fun book_event :: "'d ws_event \<Rightarrow> (string \<rightharpoonup> 'd order_data) \<Rightarrow> string \<rightharpoonup> 'd order_data" where
  "book_event (PrivateSubscribed (Some orders)) B = map_of (map (\<lambda>x. (ord_OrderId x, x)) orders)"
| "book_event (PrivatePublication (Some orders)) B = fold update_book orders B"
| "book_event _ B = B"

text \<open>
  What the handlers rely on: a placed order has a trigger price, and the orders of a snapshot
  have different ids.
\<close>

fun event_ok :: "'d ws_event \<Rightarrow> bool" where
  "event_ok (PrivateSubscribed (Some orders)) \<longleftrightarrow>
     list_all has_price orders \<and> distinct (map ord_OrderId orders)"
| "event_ok (PrivatePublication (Some orders)) \<longleftrightarrow>
     list_all (\<lambda>x. ord_Status x = PLACED \<longrightarrow> has_price x) orders"
| "event_ok _ \<longleftrightarrow> True"

lemma fold_map_of:
  "distinct (map f xs) \<Longrightarrow> fold (\<lambda>x B. B(f x \<mapsto> x)) xs B = B ++ map_of (map (\<lambda>x. (f x, x)) xs)"
proof (induction xs arbitrary: B)
  case (Cons x xs)
  then have "map_of (map (\<lambda>x. (f x, x)) xs) (f x) = None"
    by (auto simp: map_of_eq_None_iff image_iff)
  with Cons show ?case
    by (auto simp: map_add_def fun_eq_iff split: option.splits)
qed simp

lemma empty_matcher:
  assumes "cmp_law D" and "sorted_map_laws A D good" and "nodes_stay A D good"
    and "good s" and "av_Entries A s = []"
  shows "matcher_ok A D good \<lparr>mt_tree = s, mt_nodesByOrderId = Map.empty\<rparr>"
    and "order_book A \<lparr>mt_tree = s, mt_nodesByOrderId = Map.empty\<rparr> = Map.empty"
proof -
  have "tree_queue A D s q = []" for q
    using assms by (simp add: tree_queue_def entry_at_def)
  then show "matcher_ok A D good \<lparr>mt_tree = s, mt_nodesByOrderId = Map.empty\<rparr>"
    using assms by (simp add: matcher_ok_def order_tree.consistent_def order_tree.held_def tree_ok_def entry_at_def)
  show "order_book A \<lparr>mt_tree = s, mt_nodesByOrderId = Map.empty\<rparr> = Map.empty"
    using assms by (simp add: order_book_def orders_of_def)
qed

lemma run_deferring:
  "run E (deferring d p) h =
     (case run E p h of
        (h', r) \<Rightarrow> case run E d h' of (h'', Done _) \<Rightarrow> (h'', r) | (h'', Panicked e) \<Rightarrow> (h'', Panicked e))"
  by (induction p arbitrary: h) (auto simp: run_andThen split: prod.split outcome.split)

lemma run_with_mu:
  "run E (with_mu (Return x)) h =
     (let h1 = (MutexLock ''matcher.mu'', E h (MutexLock ''matcher.mu'')) # h
      in ((MutexUnlock ''matcher.mu'', E h1 (MutexUnlock ''matcher.mu'')) # h1, Done x))"
  by (simp add: with_mu_def Let_def)

lemma snapshot_enabled:
  assumes "list_all has_price orders" and "distinct (map ord_OrderId orders)"
    and "\<forall>x \<in> set orders. B (ord_OrderId x) = None"
  shows "inserts.all_enabled orders B"
  using assms
proof (induction orders arbitrary: B)
  case (Cons x orders)
  have "\<forall>y \<in> set orders. (B(ord_OrderId x \<mapsto> x)) (ord_OrderId y) = None"
    using Cons.prems by (auto simp: image_iff)
  from Cons.IH [OF _ _ this] Cons.prems show ?case
    by (simp del: fun_upd_apply)
qed simp

section \<open>What a price executes\<close>

definition execute_call :: "'d order_data \<Rightarrow> 'd call" where
  "execute_call x = Execute API_INSTANCE ORDER_EXECUTE
     [VUint (ord_ProfileID x), VString (ord_MarketID x), VString (ord_OrderId x)]"

lemma run_forEach_calls:
  assumes "\<And>x h. x \<in> set xs \<Longrightarrow> \<exists>h'. run E (body x) h = (h', Done ()) \<and> map fst h' = rev (calls x) @ map fst h"
  shows "\<exists>h'. run E (forEach xs body) h = (h', Done ()) \<and> map fst h' = rev (concat (map calls xs)) @ map fst h"
  using assms
proof (induction xs arbitrary: h)
  case (Cons x xs)
  from Cons.prems [of x h] obtain h1
    where h1: "run E (body x) h = (h1, Done ())" "map fst h1 = rev (calls x) @ map fst h"
    by auto
  from Cons.IH [of h1] Cons.prems obtain h2
    where "run E (forEach xs body) h1 = (h2, Done ())" "map fst h2 = rev (concat (map calls xs)) @ map fst h1"
    by auto
  with h1 show ?case
    by (simp add: run_andThen)
qed simp

lemma run_execute_order:
  "\<exists>h'. run E (execute_order x) h = (h', Done ()) \<and> map fst h' = execute_call x # map fst h"
  by (simp add: execute_order_def ignoring_def OrderExecute_def Request_order_def execute_call_def)

lemma run_execute_tuples:
  "\<exists>h'. run E (execute_tuples cond items) h = (h', Done ()) \<and>
     map fst h' = rev (map execute_call (List.filter cond (concat (map tup_Values items)))) @ map fst h"
proof -
  have inner: "\<exists>h'. run E (forEach xs (\<lambda>x. if cond x then execute_order x else Return ())) h = (h', Done ()) \<and>
      map fst h' = rev (concat (map (\<lambda>x. if cond x then [execute_call x] else []) xs)) @ map fst h" for xs h
    by (rule run_forEach_calls) (use run_execute_order in auto)
  have "concat (map (\<lambda>x. if cond x then [execute_call x] else []) xs) =
      map execute_call (List.filter cond xs)" for xs
    by (induction xs) auto
  note inner = inner [unfolded this]
  have "concat (map (\<lambda>item. map execute_call (List.filter cond (tup_Values item))) items) =
      map execute_call (List.filter cond (concat (map tup_Values items)))"
    by (induction items) auto
  with run_forEach_calls [of items E _ "\<lambda>item. map execute_call (List.filter cond (tup_Values item))", OF inner]
  show ?thesis
    by (simp add: execute_tuples_def)
qed

text \<open>The calls of a price update are those of the two searches, in their order.\<close>

definition price_hits :: "('s, 'n, 'd) order_avl \<Rightarrow> 'd dec_lib \<Rightarrow> ('s, 'n) matcher \<Rightarrow> 'd \<Rightarrow> 'd order_data list" where
  "price_hits A D m price =
     List.filter lte_executes (concat (map tup_Values (GetByLTE A D m price))) @
     List.filter gte_executes (concat (map tup_Values (GetByGTE A D m price)))"

lemma run_OnPriceUpdate:
  "\<exists>h'. run E (OnPriceUpdate A D m price) h = (h', Done ()) \<and>
     map fst h' = rev (map execute_call (price_hits A D m price)) @ map fst h"
proof -
  from run_execute_tuples [of E lte_executes "GetByLTE A D m price" h] obtain h1
    where h1: "run E (execute_tuples lte_executes (GetByLTE A D m price)) h = (h1, Done ())"
      "map fst h1 = rev (map execute_call (List.filter lte_executes
         (concat (map tup_Values (GetByLTE A D m price))))) @ map fst h"
    by auto
  from run_execute_tuples [of E gte_executes "GetByGTE A D m price" h1] h1 show ?thesis
    by (auto simp: OnPriceUpdate_def run_andThen price_hits_def)
qed

lemma lte_walk_filter:
  assumes "cmp_law D" and "sorted_wrt (\<lambda>e e'. d_lt D (fst e) (fst e')) es"
  shows "lte_walk D p es = map snd (List.filter (\<lambda>e. d_le D (fst e) p) es)"
  using assms(2)
proof (induction es)
  case (Cons e es)
  show ?case
  proof (cases "d_le D (fst e) p")
    case False
    have "\<not> d_le D (fst e') p" if "e' \<in> set es" for e'
      using Cons.prems that cmp_law_le_trans [OF assms(1), of "fst e" "fst e'" p] False by auto
    with False show ?thesis
      by (auto simp: DecimalComparator_def filter_empty_conv)
  qed (use Cons in \<open>simp add: DecimalComparator_def\<close>)
qed simp

lemma gte_walk_filter: "gte_walk D p es = map snd (List.filter (\<lambda>e. 0 \<le> d_cmp D (fst e) p) es)"
  by (induction es) (auto simp: DecimalComparator_def)

lemma range_walk_filter:
  "range_walk D lo hi es = map snd (List.filter (\<lambda>e. d_le D lo (fst e) \<and> 0 \<le> d_cmp D hi (fst e)) es)"
  by (induction es) (auto simp: DecimalComparator_def)

lemma handle_step:
  assumes laws: "cmp_law D" "sorted_map_laws A D good" "nodes_stay A D good"
    and ok: "matcher_ok A D good m" and ev: "event_ok ev"
  shows "\<exists>h' m'. run E (ws_handle A D ev m) h = (h', Done m') \<and> matcher_ok A D good m' \<and>
           order_book A m' = book_event ev (order_book A m)"
proof (cases ev)
  case (PrivateSubscribed data)
  show ?thesis
  proof (cases data)
    case (Some orders)
    let ?m = "\<lparr>mt_tree = Tree_ClearAll A (mt_tree m), mt_nodesByOrderId = Map.empty\<rparr> :: ('b, 'c) matcher"
    have "good (mt_tree m)"
      using ok_parts(4) [OF ok [unfolded matcher_ok_def]] .
    note empty = empty_matcher [OF laws, of "av_Clear A (mt_tree m)", folded Tree_ClearAll_def]
    have m: "matcher_ok A D good ?m" "order_book A ?m = Map.empty"
      using empty law_clear [OF laws(2) \<open>good (mt_tree m)\<close>] by (simp_all add: Tree_ClearAll_def)
    have "inserts.all_enabled orders (order_book A ?m)"
      using ev PrivateSubscribed Some m(2) by (intro snapshot_enabled) auto
    from inserts.loop_simulates [OF m(1) this] obtain m'
      where "for_orders (Matcher_Insert A) orders ?m = Some m'" "matcher_ok A D good m'"
        "order_book A m' = fold (\<lambda>x B. B(ord_OrderId x \<mapsto> x)) orders (order_book A ?m)"
      by blast
    then show ?thesis
      using ev PrivateSubscribed Some
      by (simp add: private_subscribed_def Matcher_ClearAll_def run_andThen run_with_mu orPanic_def
          Let_def m(2) fold_map_of)
  qed (use ok PrivateSubscribed in \<open>simp add: private_subscribed_def\<close>)
next
  case (PrivatePublication data)
  show ?thesis
  proof (cases data)
    case (Some orders)
    have "updates.all_enabled orders (order_book A m)"
      using ev PrivatePublication Some by (intro updates.all_enabledI) (auto simp: list_all_iff)
    from updates.loop_simulates [OF ok this] show ?thesis
      using PrivatePublication Some
      by (auto simp: private_publication_def run_with_mu orPanic_def Let_def)
  qed (use ok PrivatePublication in \<open>simp add: private_publication_def\<close>)
next
  case (MarketPublication runs data)
  have "\<exists>h'. run E (market_publication A D runs data m) h = (h', Done m)"
  proof (cases "runs \<and> (\<exists>event price. data = Some event \<and> pe_FairPrice event = Some price)")
    case True
    then obtain event price where "runs" "data = Some event" "pe_FairPrice event = Some price"
      by auto
    with run_OnPriceUpdate [of E A D m price "(MutexLock ''matcher.mu'', E h (MutexLock ''matcher.mu'')) # h"]
    show ?thesis
      by (auto simp: market_publication_def with_mu_def run_andThen run_deferring)
  qed (auto simp: market_publication_def split: option.splits)
  then show ?thesis
    using ok MarketPublication by auto
qed

end
