(* ===== verification/Demo_Tree.thy ===== *)
theory Demo_Tree
  imports Slipstopper_Steps Tick
begin

text \<open>
  Two tree libraries for the examples, both sorted maps over the rationals. A node is a key
  together with the number of the copy of the tree it belongs to. The first library never copies;
  the second builds a new copy on every removal, as a library that moves entries between nodes
  does, so that pointers obtained before the removal keep reading the old copy.
\<close>

record 'v sheet =
  sh_now   :: "(rat \<times> 'v) list"
  sh_copy  :: nat
  sh_old   :: "nat \<Rightarrow> (rat \<times> 'v) list"

fun put_sorted :: "rat \<Rightarrow> 'v \<Rightarrow> (rat \<times> 'v) list \<Rightarrow> (rat \<times> 'v) list" where
  "put_sorted k v [] = [(k, v)]"
| "put_sorted k v (e # es) = (if k < fst e then (k, v) # e # es else e # put_sorted k v es)"

definition overwrite :: "rat \<Rightarrow> 'v \<Rightarrow> (rat \<times> 'v) list \<Rightarrow> (rat \<times> 'v) list" where
  "overwrite k v es = map (\<lambda>e. if fst e = k then (k, v) else e) es"

definition erase :: "rat \<Rightarrow> (rat \<times> 'v) list \<Rightarrow> (rat \<times> 'v) list" where
  "erase k es = List.filter (\<lambda>e. fst e \<noteq> k) es"

definition sheet_lib :: "bool \<Rightarrow> ('v sheet, nat \<times> rat, rat, 'v) avl_lib" where
  "sheet_lib copies =
     \<lparr> av_NewWith = (\<lambda>_. \<lparr>sh_now = [], sh_copy = 0, sh_old = (\<lambda>_. [])\<rparr>),
       av_GetNode = (\<lambda>s k. if map_of (sh_now s) k = None then None else Some (sh_copy s, k)),
       av_Key = (\<lambda>s n. snd n),
       av_Value = (\<lambda>s n. the (map_of (if fst n = sh_copy s then sh_now s else sh_old s (fst n)) (snd n))),
       av_SetValue = (\<lambda>s n v.
         if fst n = sh_copy s then s \<lparr>sh_now := overwrite (snd n) v (sh_now s)\<rparr>
         else s \<lparr>sh_old := (sh_old s)(fst n := overwrite (snd n) v (sh_old s (fst n)))\<rparr>),
       av_Put = (\<lambda>s k v. s \<lparr>sh_now := put_sorted k v (erase k (sh_now s))\<rparr>),
       av_Remove = (\<lambda>s k.
         if copies then s \<lparr>sh_now := erase k (sh_now s), sh_copy := Suc (sh_copy s),
                           sh_old := (sh_old s)(sh_copy s := sh_now s)\<rparr>
         else s \<lparr>sh_now := erase k (sh_now s)\<rparr>),
       av_Clear = (\<lambda>s. s \<lparr>sh_now := []\<rparr>),
       av_Size = (\<lambda>s. length (sh_now s)),
       av_Get = (\<lambda>s. map_of (sh_now s)),
       av_Entries = sh_now \<rparr>"

definition sheet_good :: "'v sheet \<Rightarrow> bool" where
  "sheet_good s \<longleftrightarrow> sorted_wrt (\<lambda>e e'. fst e < fst e') (sh_now s)"

lemma sheet_simps [simp]:
  "av_NewWith (sheet_lib c) f = \<lparr>sh_now = [], sh_copy = 0, sh_old = (\<lambda>_. [])\<rparr>"
  "av_GetNode (sheet_lib c) s k = (if map_of (sh_now s) k = None then None else Some (sh_copy s, k))"
  "av_Key (sheet_lib c) s n = snd n"
  "av_Value (sheet_lib c) s n =
     the (map_of (if fst n = sh_copy s then sh_now s else sh_old s (fst n)) (snd n))"
  "av_SetValue (sheet_lib c) s n v =
     (if fst n = sh_copy s then s \<lparr>sh_now := overwrite (snd n) v (sh_now s)\<rparr>
      else s \<lparr>sh_old := (sh_old s)(fst n := overwrite (snd n) v (sh_old s (fst n)))\<rparr>)"
  "av_Put (sheet_lib c) s k v = s \<lparr>sh_now := put_sorted k v (erase k (sh_now s))\<rparr>"
  "av_Remove (sheet_lib c) s k =
     (if c then s \<lparr>sh_now := erase k (sh_now s), sh_copy := Suc (sh_copy s),
                   sh_old := (sh_old s)(sh_copy s := sh_now s)\<rparr>
      else s \<lparr>sh_now := erase k (sh_now s)\<rparr>)"
  "av_Clear (sheet_lib c) s = s \<lparr>sh_now := []\<rparr>"
  "av_Entries (sheet_lib c) s = sh_now s"
  by (simp_all add: sheet_lib_def)

lemma rat_cmp_law: "cmp_law rat_lib"
  unfolding cmp_law_def by (rule exI [of _ "\<lambda>x. x"]) simp

lemma rat_same [simp]: "d_same rat_lib a b \<longleftrightarrow> a = b"
  by simp

lemma rat_lt [simp]: "d_lt rat_lib a b \<longleftrightarrow> a < b"
  by simp

lemma entry_at_rat: "entry_at rat_lib es k = map_of es k"
  by (induction es) (auto simp: entry_at_def)

lemma map_of_erase: "map_of (erase k es) q = (if k = q then None else map_of es q)"
  by (induction es) (auto simp: erase_def)

lemma map_of_overwrite:
  "map_of (overwrite k v es) q = (if k = q then map_option (\<lambda>_. v) (map_of es k) else map_of es q)"
  by (induction es) (auto simp: overwrite_def)

lemma map_of_put: "map_of (put_sorted k v (erase k es)) q = (if k = q then Some v else map_of es q)"
proof -
  have "map_of (put_sorted k v es) q = (if k = q then Some v else map_of es q)" if "map_of es k = None" for es
    using that by (induction es) (auto split: if_splits)
  then show ?thesis
    by (simp add: map_of_erase)
qed

lemma set_put: "set (put_sorted k v es) = insert (k, v) (set es)"
  by (induction es) auto

lemma sorted_put:
  "sorted_wrt (\<lambda>e e'. fst e < fst e') es \<Longrightarrow>
     sorted_wrt (\<lambda>e e'. fst e < fst e') (put_sorted k v (erase k es))"
proof -
  assume "sorted_wrt (\<lambda>e e'. fst e < fst e') es"
  moreover have "sorted_wrt (\<lambda>e e'. fst e < fst e') (put_sorted k v es)"
    if "sorted_wrt (\<lambda>e e'. fst e < fst e') es" "\<forall>e \<in> set es. fst e \<noteq> k" for es
    using that by (induction es) (auto simp: set_put)
  ultimately show ?thesis
    by (simp add: erase_def sorted_wrt_filter)
qed

lemma sorted_erase:
  "sorted_wrt (\<lambda>e e'. fst e < fst e') es \<Longrightarrow> sorted_wrt (\<lambda>e e'. fst e < fst e') (erase k es)"
  by (simp add: erase_def sorted_wrt_filter)

lemma sorted_overwrite:
  "sorted_wrt (\<lambda>e e'. fst e < fst e') es \<Longrightarrow> sorted_wrt (\<lambda>e e'. fst e < fst e') (overwrite k v es)"
  by (induction es) (auto simp: overwrite_def)

lemma sheet_laws: "sorted_map_laws (sheet_lib c) rat_lib sheet_good"
proof -
  have "node_law (sheet_lib c) rat_lib s" for s :: "rat order_tuple sheet"
    by (auto simp: node_law_def entry_at_rat split: option.split)
  moreover have "put_law (sheet_lib c) rat_lib sheet_good s" if "sheet_good s" for s :: "rat order_tuple sheet"
    using that by (auto simp: put_law_def entry_at_rat map_of_put sheet_good_def sorted_put)
  moreover have "set_law (sheet_lib c) rat_lib sheet_good s" if "sheet_good s" for s :: "rat order_tuple sheet"
    using that by (auto simp: set_law_def entry_at_rat map_of_overwrite sheet_good_def sorted_overwrite split: if_splits)
  moreover have "remove_law (sheet_lib c) rat_lib sheet_good s" if "sheet_good s" for s :: "rat order_tuple sheet"
    using that by (auto simp: remove_law_def entry_at_rat map_of_erase sheet_good_def sorted_erase)
  moreover have "sorted_wrt (\<lambda>e e'. d_lt rat_lib (fst e) (fst e')) (sh_now s)" if "sheet_good s"
    for s :: "rat order_tuple sheet"
    using that by (simp only: rat_lt sheet_good_def)
  moreover have "sheet_good \<lparr>sh_now = [], sh_copy = 0, sh_old = (\<lambda>_. [])\<rparr>"
    and "sheet_good (s \<lparr>sh_now := []\<rparr>)" for s :: "rat order_tuple sheet"
    by (simp_all add: sheet_good_def)
  ultimately show ?thesis
    by (simp add: sorted_map_laws_def NewAVLTree_def del: rat_lib_simps(2))
qed

lemma sheet_stays: "nodes_stay (sheet_lib False) rat_lib sheet_good"
  by (auto simp: nodes_stay_def map_of_put map_of_overwrite map_of_erase split: if_splits)

section \<open>Orders\<close>

definition demo_order :: "string \<Rightarrow> string \<Rightarrow> rat \<Rightarrow> rat order_data" where
  "demo_order i status price = \<lparr> ord_OrderId = i, ord_ProfileID = 7, ord_MarketID = ''BTC'',
     ord_OrderType = STOP_LOSS, ord_Status = status, ord_Price = None, ord_Size = None,
     ord_InitialSize = None, ord_TotalFilledSize = None, ord_Side = LONG, ord_Timestamp = 0,
     ord_Reason = '''', ord_ClientOrderId = None, ord_TriggerPrice = Some price, ord_SizePercent = None,
     ord_TimeInForce = '''', ord_CreatedAt = 0, ord_UpdatedAt = 0, ord_ShardId = '''', ord_ArchiveId = 0 \<rparr>"

lemma demo_order_simps [simp]:
  "ord_OrderId (demo_order i st p) = i" "ord_Status (demo_order i st p) = st"
  "ord_TriggerPrice (demo_order i st p) = Some p" "ord_OrderType (demo_order i st p) = STOP_LOSS"
  "ord_Side (demo_order i st p) = LONG" "ord_ProfileID (demo_order i st p) = 7"
  "ord_MarketID (demo_order i st p) = ''BTC''" "has_price (demo_order i st p)"
  by (simp_all add: demo_order_def has_price_def)

end
