(* ===== verification/Slipstopper_Props.thy ===== *)
theory Slipstopper_Props
  imports Demo_Tree Demo_Env
begin

text \<open>
  The properties of the service for conditional orders, for every tree library that is a sorted
  map and leaves its entries in their nodes, and what happens with one that moves them.
\<close>

section \<open>The index and the book\<close>


text \<open>The index is consistent in every state the service reaches: an id is indexed exactly
  when the book has an order with it, the pointer kept for it is the node the tree has for the
  trigger price of that order, and the tuple in that node contains the order.\<close>

theorem index_points_to_orders:
  assumes "matcher_ok A D good m"
  shows "(mt_nodesByOrderId m i = None \<longleftrightarrow> order_book A m i = None) \<and>
         (\<forall>x. order_book A m i = Some x \<longrightarrow>
            (\<exists>p n. ord_OrderId x = i \<and> ord_TriggerPrice x = Some p \<and> mt_nodesByOrderId m i = Some (Some n) \<and>
               av_GetNode A (mt_tree m) p = Some n \<and> x \<in> set (tup_Values (av_Value A (mt_tree m) n))))"
proof (intro conjI allI impI)
  show "mt_nodesByOrderId m i = None \<longleftrightarrow> order_book A m i = None"
    by (rule index_book [OF assms])
  note ok = assms [unfolded matcher_ok_def]
  note parts = ok_parts [OF ok]
  fix x
  assume "order_book A m i = Some x"
  then have x: "x \<in> tree_held A D m" "ord_OrderId x = i"
    by (simp_all add: book_iff [OF ok])
  then obtain p where p: "ord_TriggerPrice x = Some p" "x \<in> set (tree_queue A D (mt_tree m) p)"
    by (auto simp: order_tree.held_def)
  then obtain n where n: "av_GetNode A (mt_tree m) p = Some n"
    using law_node(1) [OF parts(2,4), of p]
    by (cases "av_GetNode A (mt_tree m) p") (auto simp: tree_queue_def)
  have "x \<in> set (tup_Values (av_Value A (mt_tree m) n))"
    using p(2) law_node(3) [OF parts(2,4) n] by (simp add: tree_queue_def)
  with order_tree.consistent_node [OF ok x(1) p(1)] n x(2) p(1)
  show "\<exists>p n. ord_OrderId x = i \<and> ord_TriggerPrice x = Some p \<and> mt_nodesByOrderId m i = Some (Some n) \<and>
      av_GetNode A (mt_tree m) p = Some n \<and> x \<in> set (tup_Values (av_Value A (mt_tree m) n))"
    by auto
qed

section \<open>Prices\<close>

text \<open>When a price triggers an order: a stop when the price moves against the side, a profit taking
  order when it moves in favour of it.\<close>

definition is_stop :: "'d order_data \<Rightarrow> bool" where
  "is_stop x \<longleftrightarrow> ord_OrderType x \<in> {STOP_LOSS, STOP_LOSS_LIMIT, STOP_LIMIT, STOP_MARKET}"

definition is_profit :: "'d order_data \<Rightarrow> bool" where
  "is_profit x \<longleftrightarrow> ord_OrderType x \<in> {TAKE_PROFIT, TAKE_PROFIT_LIMIT}"

definition triggered :: "'d dec_lib \<Rightarrow> 'd \<Rightarrow> 'd order_data \<Rightarrow> bool" where
  "triggered D price x \<longleftrightarrow>
     (\<exists>p. ord_TriggerPrice x = Some p \<and>
       (d_le D p price \<and> (is_stop x \<and> ord_Side x = LONG \<or> is_profit x \<and> ord_Side x = SHORT) \<or>
        d_le D price p \<and> (is_stop x \<and> ord_Side x = SHORT \<or> is_profit x \<and> ord_Side x = LONG)))"

lemma executes_iff:
  "lte_executes x \<longleftrightarrow> is_stop x \<and> ord_Side x = LONG \<or> is_profit x \<and> ord_Side x = SHORT"
  "gte_executes x \<longleftrightarrow> is_stop x \<and> ord_Side x = SHORT \<or> is_profit x \<and> ord_Side x = LONG"
  by (auto simp: lte_executes_def gte_executes_def is_stop_def is_profit_def)

lemma executes_apart: "lte_executes x \<Longrightarrow> \<not> gte_executes x"
  by (auto simp: executes_iff is_stop_def is_profit_def)

lemma distinct_concat_apart:
  assumes "sorted_wrt (\<lambda>a b. set (f a) \<inter> set (f b) = {}) xs" and "\<forall>x \<in> set xs. distinct (f x)"
  shows "distinct (concat (map f xs))"
  using assms by (induction xs) auto

lemma orders_distinct:
  assumes ok: "matcher_ok A D good m"
  shows "distinct (map ord_OrderId (orders_of A m))"
proof -
  note idx = ok [unfolded matcher_ok_def]
  note parts = ok_parts [OF idx]
  let ?es = "av_Entries A (mt_tree m)" and ?f = "\<lambda>e. map ord_OrderId (tup_Values (snd e))"
  note sorted = law_sorted [OF parts(2,4)]
  have queue: "tup_Values (snd e) = tree_queue A D (mt_tree m) (fst e)" if "e \<in> set ?es" for e
    using entry_at_mem [OF parts(1) sorted, of "fst e" "snd e"] that by (simp add: tree_queue_def)
  have apart: "set (?f e) \<inter> set (?f e') = {}" if "e \<in> set ?es" "e' \<in> set ?es" "d_lt D (fst e) (fst e')" for e e'
  proof (rule ccontr)
    assume "set (?f e) \<inter> set (?f e') \<noteq> {}"
    then obtain x y where x: "x \<in> set (tup_Values (snd e))" and y: "y \<in> set (tup_Values (snd e'))"
      and "ord_OrderId x = ord_OrderId y"
      by auto
    moreover have xq: "x \<in> set (tree_queue A D (mt_tree m) (fst e))"
      and yq: "y \<in> set (tree_queue A D (mt_tree m) (fst e'))"
      using x y queue that(1,2) by auto
    ultimately have "x = y"
      using order_tree.consistent_unique [OF idx order_tree.held_queue [OF idx] order_tree.held_queue [OF idx]]
      by blast
    from order_tree.consistent_priced [OF idx xq] order_tree.consistent_priced [OF idx yq] this
    obtain p where p: "d_same D p (fst e)" "d_same D p (fst e')"
      by auto
    from equivp_transp [OF cmp_law_equiv [OF parts(1)] equivp_symp [OF cmp_law_equiv [OF parts(1)] p(1)] p(2)]
    have "d_same D (fst e) (fst e')" .
    with that(3) show False
      by simp
  qed
  have "sorted_wrt (\<lambda>e e'. set (?f e) \<inter> set (?f e') = {}) ?es"
    using sorted by (rule sorted_wrt_mono_rel [rotated]) (use apart in blast)
  moreover have "\<forall>e \<in> set ?es. distinct (?f e)"
    using order_tree.consistent_distinct [OF idx] queue by simp
  ultimately have "distinct (concat (map ?f ?es))"
    by (rule distinct_concat_apart)
  moreover have "concat (map ?f ?es) = map ord_OrderId (orders_of A m)"
    by (simp add: orders_of_def map_concat comp_def)
  ultimately show ?thesis
    by simp
qed

text \<open>The early exit of the search for keys up to a price loses nothing: on the sorted
  entries the three searches give the tuples of all entries in their range, in order.\<close>

theorem searches_are_filters:
  assumes "cmp_law D" and "sorted_map_laws A D good" and "good s"
  shows "LTE A D s p = map snd (List.filter (\<lambda>e. d_le D (fst e) p) (av_Entries A s)) \<and>
         GTE A D s p = map snd (List.filter (\<lambda>e. d_le D p (fst e)) (av_Entries A s)) \<and>
         RangeSearch A D s lo hi =
           map snd (List.filter (\<lambda>e. d_le D lo (fst e) \<and> d_le D (fst e) hi) (av_Entries A s))"
  using assms lte_walk_filter [OF assms(1) law_sorted [OF assms(2,3)]]
  by (simp add: LTE_def GTE_def RangeSearch_def gte_walk_filter range_walk_filter cmp_law_neg)

lemma filter_entries:
  "List.filter c (concat (map tup_Values (map snd (List.filter r es)))) =
     List.filter c (concat (map (\<lambda>e. if r e then tup_Values (snd e) else []) es))"
  by (induction es) auto

lemma distinct_concat_some:
  "distinct (concat (map f xs)) \<Longrightarrow> distinct (concat (map (\<lambda>x. if r x then f x else []) xs))"
  by (induction xs) (auto split: if_splits)

lemma hits_eq:
  assumes "matcher_ok A D good m"
  shows "price_hits A D m price =
     List.filter lte_executes (concat (map (\<lambda>e. if d_le D (fst e) price then tup_Values (snd e) else [])
       (av_Entries A (mt_tree m)))) @
     List.filter gte_executes (concat (map (\<lambda>e. if d_le D price (fst e) then tup_Values (snd e) else [])
       (av_Entries A (mt_tree m))))"
proof -
  note parts = ok_parts [OF assms [unfolded matcher_ok_def]]
  show ?thesis
    unfolding price_hits_def GetByLTE_def GetByGTE_def LTE_def GTE_def gte_walk_filter
      lte_walk_filter [OF parts(1) law_sorted [OF parts(2,4)]] filter_entries cmp_law_neg [OF parts(1)] ..
qed

lemma hits_distinct:
  assumes ok: "matcher_ok A D good m"
  shows "distinct (price_hits A D m price)"
proof -
  have "distinct (orders_of A m)"
    using orders_distinct [OF ok] by (simp add: distinct_map)
  note some = distinct_concat_some [OF this [unfolded orders_of_def]]
  show ?thesis
    unfolding hits_eq [OF ok] distinct_append using some executes_apart by auto
qed

lemma hits_mem:
  assumes "matcher_ok A D good m"
  shows "x \<in> set (price_hits A D m price) \<longleftrightarrow>
     (\<exists>e \<in> set (av_Entries A (mt_tree m)). x \<in> set (tup_Values (snd e)) \<and> d_le D (fst e) price \<and> lte_executes x) \<or>
     (\<exists>e \<in> set (av_Entries A (mt_tree m)). x \<in> set (tup_Values (snd e)) \<and> d_le D price (fst e) \<and> gte_executes x)"
  unfolding hits_eq [OF assms] by (auto split: if_splits)

text \<open>A price update asks for the execution of exactly the orders of the book that the
  price triggers, each once, and makes no other call, whatever the answers are.\<close>

theorem price_executes_triggered:
  assumes "matcher_ok A D good m"
  shows "\<exists>h' xs. run E (OnPriceUpdate A D m price) h = (h', Done ()) \<and>
           map fst h' = rev (map execute_call xs) @ map fst h \<and> distinct (map ord_OrderId xs) \<and>
           set xs = {x. (\<exists>i. order_book A m i = Some x) \<and> triggered D price x}"
proof -
  note idx = assms [unfolded matcher_ok_def]
  note parts = ok_parts [OF idx]
  let ?es = "av_Entries A (mt_tree m)" and ?xs = "price_hits A D m price"
  have book: "(\<exists>i. order_book A m i = Some x) \<longleftrightarrow> x \<in> set (orders_of A m)" for x
    using book_iff [OF idx] orders_held [OF idx] by auto
  have price: "\<exists>p. ord_TriggerPrice x = Some p \<and> d_same D p (fst e)"
    if "e \<in> set ?es" "x \<in> set (tup_Values (snd e))" for e x
    using order_tree.consistent_priced [OF idx, of x "fst e"] that
      entry_at_mem [OF parts(1) law_sorted [OF parts(2,4)], of "fst e" "snd e"] by (simp add: tree_queue_def)
  have le: "d_le D p price \<longleftrightarrow> d_le D k price" "d_le D price p \<longleftrightarrow> d_le D price k" if "d_same D p k" for p k
  proof -
    have "d_le D p k" "d_le D k p"
      using that equivp_symp [OF cmp_law_equiv [OF parts(1)] that] by simp_all
    then show "d_le D p price \<longleftrightarrow> d_le D k price" "d_le D price p \<longleftrightarrow> d_le D price k"
      using cmp_law_le_trans [OF parts(1)] by blast+
  qed
  have "x \<in> set ?xs \<longleftrightarrow> x \<in> set (orders_of A m) \<and> triggered D price x" for x
  proof
    assume "x \<in> set ?xs"
    then obtain e where e: "e \<in> set ?es" "x \<in> set (tup_Values (snd e))"
      and c: "d_le D (fst e) price \<and> lte_executes x \<or> d_le D price (fst e) \<and> gte_executes x"
      using hits_mem [OF assms] by blast
    from price [OF e] obtain p where p: "ord_TriggerPrice x = Some p" "d_same D p (fst e)"
      by auto
    with c le [OF p(2)] e show "x \<in> set (orders_of A m) \<and> triggered D price x"
      by (auto simp: orders_of_def triggered_def executes_iff)
  next
    assume x: "x \<in> set (orders_of A m) \<and> triggered D price x"
    then obtain e where e: "e \<in> set ?es" "x \<in> set (tup_Values (snd e))"
      by (auto simp: orders_of_def)
    from price [OF e] obtain p where p: "ord_TriggerPrice x = Some p" "d_same D p (fst e)"
      by auto
    with x le [OF p(2)] have "d_le D (fst e) price \<and> lte_executes x \<or> d_le D price (fst e) \<and> gte_executes x"
      by (simp add: triggered_def executes_iff)
    with e show "x \<in> set ?xs"
      using hits_mem [OF assms] by blast
  qed
  then have "set ?xs = {x. (\<exists>i. order_book A m i = Some x) \<and> triggered D price x}"
    using book by blast
  moreover have "distinct (map ord_OrderId ?xs)"
    using hits_distinct [OF assms] calculation order_tree.consistent_unique [OF idx] book_iff [OF idx]
    by (auto simp: distinct_map inj_on_def)
  ultimately show ?thesis
    using run_OnPriceUpdate [of E A D m price h] by blast
qed

section \<open>Examples\<close>

definition demo_events :: "rat ws_event list" where
  "demo_events =
     [PrivateSubscribed (Some [demo_order ''a'' PLACED 10, demo_order ''b'' PLACED 20]),
      PrivatePublication (Some [demo_order ''a'' ''canceled'' 10, demo_order ''c'' PLACED 20]),
      MarketPublication True (Some \<lparr>pe_FairPrice = Some 15, pe_IndexPrice = None\<rparr>),
      PrivatePublication (Some [demo_order ''b'' ''canceled'' 20])]"

lemma demo_events_ok: "list_all event_ok demo_events"
  by (simp add: demo_events_def)

lemma demo_book: "fold book_event demo_events Map.empty = [''c'' \<mapsto> demo_order ''c'' PLACED 20]"
  by (auto simp: demo_events_def update_book_def fun_eq_iff)


definition demo_matcher :: "(rat order_tuple sheet, nat \<times> rat) matcher" where
  "demo_matcher = the (Matcher_Insert (sheet_lib False) (demo_order ''a'' PLACED 10)
     (NewMatcher (sheet_lib False) rat_lib))"

lemmas sheet_run_defs =
  NewMatcher_def NewAVLTree_def Matcher_Insert_def Matcher_Remove_def Tree_Insert_def Tree_Delete_def
  Let_def overwrite_def erase_def

lemma demo_matcher_ok:
  "matcher_ok (sheet_lib False) rat_lib sheet_good demo_matcher"
  "order_book (sheet_lib False) demo_matcher = [''a'' \<mapsto> demo_order ''a'' PLACED 10]"
proof -
  have "matcher_ok (sheet_lib False) rat_lib sheet_good (NewMatcher (sheet_lib False) rat_lib)"
    and "order_book (sheet_lib False) (NewMatcher (sheet_lib False) rat_lib) = Map.empty"
    using empty_matcher [OF rat_cmp_law sheet_laws sheet_stays] law_new [OF sheet_laws]
    by (auto simp: NewMatcher_def)
  with insert_book [of "sheet_lib False" rat_lib sheet_good "NewMatcher (sheet_lib False) rat_lib"
      "demo_order ''a'' PLACED 10"]
  show "matcher_ok (sheet_lib False) rat_lib sheet_good demo_matcher"
    "order_book (sheet_lib False) demo_matcher = [''a'' \<mapsto> demo_order ''a'' PLACED 10]"
    by (auto simp: demo_matcher_def)
qed

lemma index_points_to_orders_witness:
  "\<exists>n. mt_nodesByOrderId demo_matcher ''a'' = Some (Some n) \<and>
       av_GetNode (sheet_lib False) (mt_tree demo_matcher) 10 = Some n"
  using index_points_to_orders [OF demo_matcher_ok(1), of "''a''"]
  by (auto simp: demo_matcher_ok(2) simp del: sheet_simps)

lemma price_executes_triggered_witness:
  "\<exists>h' xs. run demo_env (OnPriceUpdate (sheet_lib False) rat_lib demo_matcher 15) [] = (h', Done ()) \<and>
     map fst h' = rev (map execute_call xs) \<and> distinct (map ord_OrderId xs) \<and>
     set xs = {demo_order ''a'' PLACED 10}"
proof -
  have "{x. (\<exists>i. order_book (sheet_lib False) demo_matcher i = Some x) \<and> triggered rat_lib 15 x} =
      {demo_order ''a'' PLACED 10}"
    by (auto simp: demo_matcher_ok(2) triggered_def is_stop_def intro!: exI [of _ 10] split: if_splits)
  with price_executes_triggered [OF demo_matcher_ok(1), of demo_env 15 "[]"] show ?thesis
    by simp
qed

lemma searches_are_filters_witness:
  "LTE (sheet_lib False) rat_lib (mt_tree demo_matcher) 15 =
     map snd (List.filter (\<lambda>e. fst e \<le> 15) (sh_now (mt_tree demo_matcher)))"
proof -
  have "(\<lambda>e. d_le rat_lib (fst e) (15 :: rat)) = (\<lambda>e :: rat \<times> rat order_tuple. fst e \<le> 15)"
    by auto
  then show ?thesis
    using searches_are_filters [OF rat_cmp_law sheet_laws ok_parts(4) [OF demo_matcher_ok(1) [unfolded matcher_ok_def]], where p = 15]
    by (simp only: sheet_simps)
qed

section \<open>A library that moves its entries\<close>

text \<open>The map laws alone are not enough for the matcher. With a tree library that is a
  sorted map but moves entries to other nodes when a key is removed, an order placed at a price
  where another order rests is lost when that other order is canceled after an unrelated removal:
  the book has it, the tree does not, and no price will execute it.\<close>

theorem moved_nodes_lose_orders:
  "sorted_map_laws (sheet_lib True) rat_lib sheet_good \<and>
   (\<exists>h' m. run demo_env (ws_serve (sheet_lib True) rat_lib demo_events (NewMatcher (sheet_lib True) rat_lib)) [] =
       (h', Done m) \<and> order_book (sheet_lib True) m = Map.empty) \<and>
   fold book_event demo_events Map.empty = [''c'' \<mapsto> demo_order ''c'' PLACED 20]"
proof (intro conjI)
  show "sorted_map_laws (sheet_lib True) rat_lib sheet_good"
    by (rule sheet_laws)
  show "fold book_event demo_events Map.empty = [''c'' \<mapsto> demo_order ''c'' PLACED 20]"
    by (rule demo_book)
  show "\<exists>h' m. run demo_env (ws_serve (sheet_lib True) rat_lib demo_events (NewMatcher (sheet_lib True) rat_lib)) [] =
       (h', Done m) \<and> order_book (sheet_lib True) m = Map.empty"
    by (simp add: demo_events_def sheet_run_defs private_subscribed_def private_publication_def
        market_publication_def Matcher_ClearAll_def Tree_ClearAll_def run_andThen run_with_mu orPanic_def
        update_order_def OnPriceUpdate_def execute_tuples_def GetByLTE_def GetByGTE_def LTE_def GTE_def
        DecimalComparator_def with_mu_def lte_executes_def gte_executes_def execute_order_def ignoring_def
        OrderExecute_def Request_order_def order_book_def orders_of_def)
qed

end
