(* ===== verification/Auth_Props.thy ===== *)
theory Auth_Props
  imports Api_Auth
begin

text \<open>
  What authentication gives: which requests get past the middlewares and with whose profile, what
  the signatures bind, and where they bind less than the comments say.
\<close>

section \<open>Answers in a history\<close>

definition unchecked_outcome :: "'d reply \<Rightarrow> (string + unit) outcome" where
  "unchecked_outcome r =
     (case r of
        BErr e \<Rightarrow> Done (Inl e)
      | BRows [] \<Rightarrow> Panicked ''index out of range [0] with length 0''
      | BRows ((v, e) # _) \<Rightarrow> Done (if e \<noteq> '''' then Inl e else Inr ()))"

lemma wp_Request_unchecked_iff [simp]:
  "wp P Q (Request_unchecked fn ps) h \<longleftrightarrow>
     P h (Execute AUTH_INSTANCE fn ps) \<and>
     (\<forall>ans. Q ((Execute AUTH_INSTANCE fn ps, ans) # h) (unchecked_outcome (a_reply ans)))"
  by (auto simp: Request_unchecked_def unchecked_outcome_def split: reply.splits list.splits prod.splits)

lemma unchecked_ok [simp]: "unchecked_outcome r = Done (Inr ()) \<longleftrightarrow> row_accepted r"
  by (auto simp: unchecked_outcome_def row_accepted_def split: reply.splits list.splits prod.splits)

lemma wp_JwtToProfileID [simp]:
  "wp P Q (JwtToProfileID K jwt secret) h \<longleftrightarrow>
     P h Clock \<and> (\<forall>ans. Q ((Clock, ans) # h)
       (Done (case al_jwtParse K (a_time ans) jwt secret of Inl e \<Rightarrow> Inl e | Inr s \<Rightarrow> ParseUint32 s)))"
  by (auto simp: JwtToProfileID_def now_def split: sum.splits)

lemma wp_abort [simp]:
  "wp P Q (abort e) h \<longleftrightarrow>
     P h (Respond (Failure e)) \<and> (\<forall>ans. Q ((Respond (Failure e), ans) # h) (Done None))"
  by (simp add: abort_def wp_andThen)

text \<open>\<open>told h c dec x\<close>: the call \<open>c\<close> was made and answered with \<open>x\<close>.\<close>

definition told :: "'d history \<Rightarrow> 'd call \<Rightarrow> ('d, 'a) decoder \<Rightarrow> 'a \<Rightarrow> bool" where
  "told h c dec x \<longleftrightarrow> (\<exists>ans v rows. (c, ans) \<in> set h \<and> a_reply ans = BRows ((v, '''') # rows) \<and> dec v = Some x)"

lemma told_auth: "decode_auth dec (a_reply ans) = Inr x \<Longrightarrow> told ((c, ans) # h) c dec x"
  by (auto simp: told_def decode_auth_ok)

lemma told_request: "decode_reply dec (a_reply ans) = Inr x \<Longrightarrow> told ((c, ans) # h) c dec x"
  by (auto simp: told_def decode_reply_ok)

lemma told_later: "told h c dec x \<Longrightarrow> told (e # h) c dec x"
  by (auto simp: told_def)

section \<open>Who a request is\<close>

definition api_key_call :: "string \<Rightarrow> 'd call" where
  "api_key_call key = Execute AUTH_INSTANCE ''api_secret_by_key'' [VString key]"

definition jwt_call :: "string \<Rightarrow> 'd call" where
  "jwt_call jwt = Execute AUTH_INSTANCE ''frontend_secret_by_jwt'' [VString jwt]"

definition id_profile_call :: "nat \<Rightarrow> 'd call" where
  "id_profile_call pid = Execute PROFILE_INSTANCE GET_PROFILE_BY_ID [VUint pid]"

text \<open>
  The instance \<^verbatim>\<open>auth\<close> accepted the key for the address of the request, and the secret and the
  profile are those of the key.
\<close>

definition key_credentials ::
  "'d history \<Rightarrow> string \<Rightarrow> string \<Rightarrow> string \<Rightarrow> profile option \<Rightarrow> bool" where
  "key_credentials h key ip secret profile \<longleftrightarrow>
     (\<exists>t ans s. (Execute AUTH_INSTANCE ''api_secret_validate'' [VString key, VString ip, VInt t], ans) \<in> set h \<and>
        row_accepted (a_reply ans) \<and> told h (api_key_call key) (as_ptr as_api_secret) (Some s) \<and>
        secret = as_Secret s \<and> told h (id_profile_call (as_ProfileID s)) (as_ptr as_profile) profile)"

text \<open>
  The token in the cookie was valid at some time read from the clock, and the secret and the
  profile are those of the token.
\<close>

definition token_credentials ::
  "auth_lib \<Rightarrow> string \<Rightarrow> http_request \<Rightarrow> 'd history \<Rightarrow> string \<Rightarrow> profile option \<Rightarrow> bool" where
  "token_credentials K hmac rq h secret profile \<longleftrightarrow>
     (\<exists>jwt t subject pid s. rq_Cookie rq ''jwt'' = Inr jwt \<and> (\<exists>ans. (Clock, ans) \<in> set h \<and> a_time ans = t) \<and>
        al_jwtParse K t jwt hmac = Inr subject \<and> ParseUint32 subject = Inr pid \<and>
        told h (jwt_call jwt) (as_ptr as_frontend_secret) (Some s) \<and> secret = fs_RandomSecret s \<and>
        told h (id_profile_call pid) (as_ptr as_profile) profile)"

definition credentials ::
  "auth_lib \<Rightarrow> http_request \<Rightarrow> auth_context \<Rightarrow> 'd history \<Rightarrow> string \<Rightarrow> profile option \<Rightarrow> bool" where
  "credentials K rq ctx h secret profile \<longleftrightarrow>
     (if rc_MarketMakerAPIKey ctx \<noteq> ''''
      then key_credentials h (rc_MarketMakerAPIKey ctx) (rc_IPHeader ctx) secret profile
      else token_credentials K (cf_HMACSecret (ac_Config ctx)) rq h secret profile)"

text \<open>The payload was signed with the secret, and its timestamp was ahead of the clock.\<close>

definition signed_payload :: "auth_lib \<Rightarrow> auth_context \<Rightarrow> 'd history \<Rightarrow> string \<Rightarrow> bool" where
  "signed_payload K ctx h secret \<longleftrightarrow>
     (\<exists>p ans. rc_Payload ctx = Some p \<and> Sign K p secret = Inr (rc_Signature ctx) \<and>
        (Clock, ans) \<in> set h \<and> unix (a_time ans) < pl_Timestamp p)"

definition let_through ::
  "auth_lib \<Rightarrow> http_request \<Rightarrow> auth_context \<Rightarrow> 'd history \<Rightarrow> auth_context option outcome \<Rightarrow> bool" where
  "let_through K rq ctx h r \<longleftrightarrow>
     (\<forall>ctx'. r = Done (Some ctx') \<longrightarrow>
        (\<exists>secret profile. ctx' = ctx \<lparr>rc_Profile := profile\<rparr> \<and> credentials K rq ctx h secret profile \<and>
           (is_write (rq_Method rq) \<longrightarrow> signed_payload K ctx h secret)))"

lemma let_through_other [simp]:
  "let_through K rq ctx h (Done None)" "let_through K rq ctx h (Panicked m)"
  by (simp_all add: let_through_def)

lemma credentials_later: "credentials K rq ctx h secret profile \<Longrightarrow> credentials K rq ctx (e # h) secret profile"
  unfolding credentials_def key_credentials_def token_credentials_def
  by (auto intro: told_later split: if_splits) (blast intro: told_later)+

lemma wp_Payload_Verify:
  "wp P Q (Payload_Verify K p sig secret env) h" if "\<And>e. Q h (Done (Inl e))" and "P h Clock"
    and "\<And>ans e. Q ((Clock, ans) # h) (Done (Inl e))"
    and "\<And>ans. Sign K p secret = Inr sig \<Longrightarrow> unix (a_time ans) < pl_Timestamp p \<Longrightarrow>
           Q ((Clock, ans) # h) (Done (Inr ()))"
  using that by (auto simp: Payload_Verify_def split: sum.split)

lemma verify_payload_lets_through:
  assumes "credentials K rq ctx h secret profile"
  shows "wp (\<lambda>_ _. True) (let_through K rq ctx) (verify_payload K rq (ctx \<lparr>rc_Profile := profile\<rparr>) secret) h"
proof -
  have ok: "let_through K rq ctx ((Clock, ans) # h) (Done (Some (ctx \<lparr>rc_Profile := profile\<rparr>)))"
    if "rc_Payload ctx = Some p" "Sign K p secret = Inr (rc_Signature ctx)" "unix (a_time ans) < pl_Timestamp p"
    for ans p
    using credentials_later [OF assms] that by (auto simp: let_through_def signed_payload_def)
  show ?thesis
    using assms
    by (auto simp: verify_payload_def wp_onErr let_through_def [of K rq ctx h] intro!: wp_Payload_Verify ok)
qed

lemma key_branch:
  assumes "rc_MarketMakerAPIKey ctx \<noteq> ''''" and "row_accepted (a_reply v)"
    and "decode_auth (as_ptr as_api_secret) (a_reply k) = Inr (Some s)"
    and "decode_reply (as_ptr as_profile) (a_reply p) = Inr profile"
  shows "credentials K rq ctx
     ((id_profile_call (as_ProfileID s), p) # (api_key_call (rc_MarketMakerAPIKey ctx), k) #
      (Execute AUTH_INSTANCE ''api_secret_validate'' [VString (rc_MarketMakerAPIKey ctx), VString (rc_IPHeader ctx), VInt t], v) # h)
     (as_Secret s) profile"
proof -
  let ?key = "rc_MarketMakerAPIKey ctx" and ?ip = "rc_IPHeader ctx"
  let ?h = "(id_profile_call (as_ProfileID s), p) # (api_key_call ?key, k) #
    (Execute AUTH_INSTANCE ''api_secret_validate'' [VString ?key, VString ?ip, VInt t], v) # h"
  have "key_credentials ?h ?key ?ip (as_Secret s) profile"
    unfolding key_credentials_def
    by (rule exI [of _ t], rule exI [of _ v], rule exI [of _ s])
      (use assms(2) told_later [OF told_auth [OF assms(3)]] told_request [OF assms(4)] in simp)
  with assms(1) show ?thesis
    by (simp add: credentials_def)
qed

lemma token_branch:
  assumes "rc_MarketMakerAPIKey ctx = ''''" and "rq_Cookie rq ''jwt'' = Inr jwt"
    and "al_jwtParse K (a_time t) jwt (cf_HMACSecret (ac_Config ctx)) = Inr subject"
    and "ParseUint32 subject = Inr pid"
    and "decode_reply (as_ptr as_profile) (a_reply p) = Inr profile"
    and "decode_auth (as_ptr as_frontend_secret) (a_reply f) = Inr (Some s)"
  shows "credentials K rq ctx ((jwt_call jwt, f) # (id_profile_call pid, p) # (Clock, t) # h) (fs_RandomSecret s) profile"
proof -
  let ?h = "(jwt_call jwt, f) # (id_profile_call pid, p) # (Clock, t) # h"
  have "token_credentials K (cf_HMACSecret (ac_Config ctx)) rq ?h (fs_RandomSecret s) profile"
    unfolding token_credentials_def
    by (rule exI [of _ jwt], rule exI [of _ "a_time t"], rule exI [of _ subject], rule exI [of _ pid], rule exI [of _ s])
      (use assms(2-4) told_auth [OF assms(6)] told_later [OF told_request [OF assms(5)]] in auto)
  with assms(1) show ?thesis
    by (simp add: credentials_def)
qed

lemma wp_AuthMiddleware:
  "wp (\<lambda>_ _. True) (let_through K rq ctx) (AuthMiddleware K broker rq ctx) h0"
proof (cases "rc_MarketMakerAPIKey ctx = ''''")
  case True
  then show ?thesis
    by (auto simp: AuthMiddleware_def cookie_profile_def wp_onErr GetProfileById_def GetByJwt_def
        split: sum.split intro!: verify_payload_lets_through token_branch [unfolded jwt_call_def id_profile_call_def])
next
  case False
  then show ?thesis
    by (auto simp: AuthMiddleware_def wp_onErr ValidateApiKey_def GetByKey_def GetProfileById_def
        split: sum.split outcome.split intro!: verify_payload_lets_through
          key_branch [unfolded api_key_call_def id_profile_call_def])
qed


section \<open>What a payload signature binds\<close>


section \<open>What a wallet signature proves\<close>

text \<open>A signer was recovered, and it is the wallet or, for a vault, has the role on it.\<close>

definition role_call :: "eth_lib \<Rightarrow> verify_request \<Rightarrow> 160 word \<Rightarrow> nat \<Rightarrow> 'd call" where
  "role_call L req w role = Execute PROFILE_INSTANCE ''profile.is_valid_signer''
     [VString (to_lower (el_address L (el_to_address L (vr_Wallet req)))), VString (to_lower (el_address L w)),
      VUint role]"

definition vouched ::
  "auth_lib \<Rightarrow> wallet_lib \<Rightarrow> eth_lib \<Rightarrow> verify_request \<Rightarrow> nat \<Rightarrow> 'd history \<Rightarrow> string \<Rightarrow> bool" where
  "vouched K W L req role h message \<longleftrightarrow>
     (\<exists>ty w. RecoverSigner K W (vr_Signature req) message (vr_Timestamp req) ty (vr_EIP712Encoder req) = Inr w \<and>
        (if vr_ProfileType req = PROFILE_TYPE_VAULT then told h (role_call L req w role) as_bool True
         else w = el_to_address L (vr_Wallet req)))"

lemma vouchedI:
  "RecoverSigner K W (vr_Signature req) message (vr_Timestamp req) ty (vr_EIP712Encoder req) = Inr w \<Longrightarrow>
     (if vr_ProfileType req = PROFILE_TYPE_VAULT then told h (role_call L req w role) as_bool True
      else w = el_to_address L (vr_Wallet req)) \<Longrightarrow> vouched K W L req role h message"
  unfolding vouched_def by blast

lemma check_vouches:
  "wp (\<lambda>_ _. True) (\<lambda>h' r. (r = Done (Inr ()) \<longrightarrow> vouched K W L req role h' message) \<and> (\<exists>t. h' = t @ h))
     (checkSigner K W L broker message req (el_to_address L (vr_Wallet req)) ty role) h"
proof (cases "RecoverSigner K W (vr_Signature req) message (vr_Timestamp req) ty (vr_EIP712Encoder req)")
  case (Inr w)
  have told: "told ((role_call L req w role, ans) # h) (role_call L req w role) as_bool True"
    if "decode_reply as_bool (a_reply ans) = Inr True" for ans
    by (rule told_request [OF that])
  show ?thesis
    using Inr told
    by (auto simp: checkSigner_def wp_onErr IsValidSigner_def role_call_def split: sum.split intro!: vouchedI [OF Inr])
qed (simp add: checkSigner_def)

lemma try_signers_vouch:
  assumes "mts \<noteq> [] \<or> firstErr \<noteq> None"
  shows "wp (\<lambda>_ _. True)
     (\<lambda>h' r. (r = Done (Inr ()) \<longrightarrow> (\<exists>mt \<in> set mts. vouched K W L req role h' (fst mt))) \<and> (\<exists>t. h' = t @ h))
     (try_signers K W L broker req (el_to_address L (vr_Wallet req)) role mts firstErr) h"
  using assms
proof (induction mts arbitrary: firstErr h)
  case Nil
  then show ?case
    by (auto split: option.split)
next
  case (Cons mt mts)
  show ?case
    unfolding try_signers.simps wp_andThen
  proof (rule wp_mono [OF check_vouches [of K W L req role "fst mt"]], goal_cases)
    case (1 h' r)
    then obtain t where t: "h' = t @ h"
      by blast
    show ?case
    proof (cases r)
      case (Done v)
      show ?thesis
      proof (cases v)
        case (Inl e)
        have "wp (\<lambda>_ _. True)
            (\<lambda>h'' r. (r = Done (Inr ()) \<longrightarrow> (\<exists>mt \<in> set mts. vouched K W L req role h'' (fst mt))) \<and> (\<exists>t. h'' = t @ h'))
            (try_signers K W L broker req (el_to_address L (vr_Wallet req)) role mts
              (case firstErr of None \<Rightarrow> Some e | Some e' \<Rightarrow> Some e')) h'"
          by (rule Cons.IH) (simp split: option.split)
        then show ?thesis
          unfolding Done Inl using t by (auto elim!: wp_mono)
      qed (use 1 Done t in auto)
    qed (use t in auto)
  qed
qed

lemma wp_VerifyProfile:
  assumes "messages \<noteq> []"
  shows "wp (\<lambda>_ _. True) (\<lambda>h' r. r = Done (Inr ()) \<longrightarrow>
      (\<exists>ans. (Clock, ans) \<in> set h' \<and> unix (a_time ans) < vr_Timestamp req) \<and>
      (\<exists>message \<in> set messages. vouched K W L req role h' message))
      (VerifyProfile K W L broker ty req role messages) h0"
proof -
  have "combinations messages \<noteq> []" "\<And>mt. mt \<in> set (combinations messages) \<Longrightarrow> fst mt \<in> set messages"
    using assms by (auto simp: combinations_def neq_Nil_conv)
  then show ?thesis
    by (auto simp: VerifyProfile_def Let_def intro!: wp_mono [OF try_signers_vouch])
qed


text \<open>Without a configured sign-in message every signature of every wallet is accepted:
  the loop over the messages leaves no error to return.\<close>

theorem no_message_accepts_all:
  assumes "unix (a_time (E h Clock)) < vr_Timestamp req"
  shows "run E (VerifyProfile K W L broker ty req role []) h = ((Clock, E h Clock) # h, Done (Inr ()))"
  using assms by (simp add: VerifyProfile_def combinations_def now_unix_def now_def)

section \<open>The context of a request\<close>

lemma wp_service [simp]:
  "wp P Q (service name args k) h \<longleftrightarrow>
     P h (External name args) \<and>
     (\<forall>ans. wp P Q (case a_error ans of Some e \<Rightarrow> abort e | None \<Rightarrow> k) ((External name args, ans) # h))"
  by (auto simp: service_def)

lemma adhoc_result:
  "wp (\<lambda>_ _. True) (\<lambda>_ r. \<forall>e. r = Done e \<longrightarrow> e = '''' \<or> e = EXCHANGE_BFX) (AddHocSilentChange broker rq cfg) h"
  by (auto simp: AddHocSilentChange_def Let_def wp_onErr ValidateApiKey_def GetByKey_def
      split: sum.split outcome.split)

definition context_ok ::
  "string + api_config \<Rightarrow> http_request \<Rightarrow> 'd history \<Rightarrow> auth_context \<Rightarrow> bool" where
  "context_ok config rq h ctx \<longleftrightarrow>
     rc_ExchangeId ctx \<in> {EXCHANGE_RBX, EXCHANGE_BFX} \<and>
     config = Inr (ac_Config ctx) \<and> cf_Exchanges (ac_Config ctx) (rc_ExchangeId ctx) = Some (ac_ExchangeCfg ctx) \<and>
     ee_chainId (ac_EIP712Encoder ctx) = int (ec_ChainId (ac_ExchangeCfg ctx)) \<and>
     rc_Profile ctx = None \<and> rc_MarketMakerAPIKey ctx = rq_Header rq ''RBT-API-KEY'' \<and>
     rc_Signature ctx = rq_Header rq ''RBT-SIGNATURE'' \<and>
     (\<exists>ans. (Clock, ans) \<in> set h \<and>
        (0 < rc_Timestamp ctx \<and> 0 \<le> a_time ans \<longrightarrow>
           unix (a_time ans) \<le> rc_Timestamp ctx \<and> rc_Timestamp ctx \<le> unix (a_time ans) + 600)) \<and>
     (case rc_Payload ctx of
        None \<Rightarrow> \<not> is_write (rq_Method rq)
      | Some p \<Rightarrow> is_write (rq_Method rq) \<and> pl_Timestamp p = rc_Timestamp ctx \<and>
          map_of (pl_Data p) ''method'' = Some (rq_Method rq) \<and>
          map_of (pl_Data p) ''path'' = Some (rq_FullPath rq))"

lemma extractPayload_ok:
  assumes "extractPayload rq ts = Inr po"
  shows "case po of
      None \<Rightarrow> \<not> is_write (rq_Method rq)
    | Some p \<Rightarrow> is_write (rq_Method rq) \<and> pl_Timestamp p = ts \<and>
        map_of (pl_Data p) ''method'' = Some (rq_Method rq) \<and> map_of (pl_Data p) ''path'' = Some (rq_FullPath rq)"
  using assms by (auto simp: extractPayload_def NewPayload_def put_key_def requiredKeys_def
      split: if_splits sum.splits option.splits)

lemma timestamp_window:
  assumes "timestamp_header rq name = Inr ts" and "check_timestamp ts (unix t) = None" and "0 < ts" and "0 \<le> t"
  shows "unix t \<le> ts \<and> ts \<le> unix t + 600"
proof -
  have "ts < 2 ^ 63"
    using assms(1) by (auto simp: timestamp_header_def ParseInt64_def split: option.splits if_splits)
  moreover have "0 \<le> unix t"
    using assms(4) by (simp add: unix_def)
  ultimately show ?thesis
    using assms(2,3) by (auto simp: check_timestamp_def SignatureLifetime_def int64_def split: if_splits)
qed

lemma context_fields:
  "rc_ExchangeId (EnrichContextMeta rq c) = rc_ExchangeId c" "ac_Config (EnrichContextMeta rq c) = ac_Config c"
  "ac_ExchangeCfg (EnrichContextMeta rq c) = ac_ExchangeCfg c"
  "ac_EIP712Encoder (EnrichContextMeta rq c) = ac_EIP712Encoder c"
  "rc_Profile (EnrichContextMeta rq c) = rc_Profile c" "rc_Timestamp (EnrichContextMeta rq c) = rc_Timestamp c"
  "rc_MarketMakerAPIKey (EnrichContextMeta rq c) = rc_MarketMakerAPIKey c"
  "rc_Signature (EnrichContextMeta rq c) = rc_Signature c" "rc_Payload (EnrichContextMeta rq c) = rc_Payload c"
  by (simp_all add: EnrichContextMeta_def Let_def)

lemma context_okI:
  assumes "exchangeId \<in> {EXCHANGE_RBX, EXCHANGE_BFX}" and "cf_Exchanges cfg exchangeId = Some ec"
    and "timestamp_header rq name = Inr ts" and "(Clock, ans) \<in> set h"
    and "check_timestamp ts (unix (a_time ans)) = None" and "extractPayload rq ts = Inr po"
  shows "context_ok (Inr cfg) rq h (EnrichContextMeta rq (context_of W sign rq cfg ec exchangeId ts po pk))"
  using assms(1,2,4) extractPayload_ok [OF assms(6)] timestamp_window [OF assms(3,5)]
  unfolding context_ok_def context_fields
  by (cases po) (auto simp: context_of_def NewEIP712Encoder_def)

lemma build_context_ok:
  assumes "exchangeId \<in> {EXCHANGE_RBX, EXCHANGE_BFX}" and "cf_Exchanges cfg exchangeId = Some ec"
  shows "wp (\<lambda>_ _. True) (\<lambda>h r. \<forall>ctx. r = Done (Some ctx) \<longrightarrow> context_ok (Inr cfg) rq h ctx)
           (build_context W sign broker rq cfg ec exchangeId) h"
proof -
  note ok = context_okI [OF assms, of rq "''RBT-TS''"]
  show ?thesis
    unfolding build_context_def
    by (cases broker; cases "timestamp_header rq ''RBT-TS''"; cases "timestamp_header rq ''RBT-PK-TS''")
      (auto split: option.split sum.split intro!: ok)
qed

lemma wp_RabbitMiddleware:
  "wp (\<lambda>_ _. True) (\<lambda>h r. \<forall>ctx. r = Done (Some ctx) \<longrightarrow> context_ok config rq h ctx)
     (RabbitMiddleware W sign broker config rq) h0"
proof (cases config)
  case (Inr cfg)
  show ?thesis
    unfolding RabbitMiddleware_def Inr sum.case wp_andThen
    by (rule wp_mono [OF adhoc_result])
      (auto simp: Let_def split: outcome.split option.split intro!: build_context_ok)
qed (simp add: RabbitMiddleware_def)

text \<open>Property C20. The context a request gets is well-formed: a supported exchange with its own
  configuration and encoder, no profile yet, the credentials as the headers give them, a timestamp
  that is not positive or lies between the clock and ten minutes later, and for exactly the requests
  that change something a payload with that timestamp, the method and the path of the request.\<close>

theorem context_well_formed:
  assumes "run E (RabbitMiddleware W sign broker config rq) h0 = (h, Done (Some ctx))"
  shows "context_ok config rq h ctx"
  using wp_run [OF wp_RabbitMiddleware assms] by blast

text \<open>The pagination of a listing is always in range, whatever the query is: the page is a
  non-negative 64 bit number, the limit between 1 and 1000, the order one of the two known ones.\<close>

theorem pagination_in_range:
  "0 \<le> pg_Page (rc_Pagination (PaginationMiddleware rq ctx)) \<and>
   pg_Page (rc_Pagination (PaginationMiddleware rq ctx)) < 2 ^ 63 \<and>
   1 \<le> pg_Limit (rc_Pagination (PaginationMiddleware rq ctx)) \<and>
   pg_Limit (rc_Pagination (PaginationMiddleware rq ctx)) \<le> 1000 \<and>
   pg_Order (rc_Pagination (PaginationMiddleware rq ctx)) \<in> {''ASC'', ''DESC''}"
proof -
  have "v < 2 ^ 63" if "ParseInt64 s = Inr v" for s v
    using that by (auto simp: ParseInt64_def split: option.splits if_splits)
  from this [of "default_query rq ''p_page'' ''0''"] show ?thesis
    by (auto simp: PaginationMiddleware_def Let_def split: sum.split)
qed

section \<open>Tokens\<close>

text \<open>What the JWT library promises: until it expires, a signed token parses to its subject.\<close>

definition jwt_law :: "auth_lib \<Rightarrow> bool" where
  "jwt_law K \<longleftrightarrow>
     (\<forall>subject expiry secret token t.
        al_jwtSign K subject expiry secret = Inr token \<longrightarrow> t < 1000000000 * expiry \<longrightarrow>
        al_jwtParse K t token secret = Inr subject)"

text \<open>Until it expires, the token generated for a profile gives back the id of that
  profile; ids of 32 bits survive the round trip.\<close>

theorem token_round_trip:
  assumes "jwt_law K" and "GenerateJwt K pid secret expiry = Inr token"
    and "pid < 2 ^ 32" and "a_time (E h Clock) < 1000000000 * expiry"
  shows "run E (JwtToProfileID K token secret) h = ((Clock, E h Clock) # h, Done (Inr pid))"
proof -
  have "int64 (int pid) = int pid"
    using assms(3) by (simp add: int64_def)
  then have "al_jwtParse K (a_time (E h Clock)) token secret = Inr (show_nat pid)"
    using assms(1,2,4) by (auto simp: jwt_law_def GenerateJwt_def show_int_def)
  then show ?thesis
    using assms(3) by (simp add: JwtToProfileID_def now_def ParseUint32_def)
qed

definition refresh_call :: "nat \<Rightarrow> string \<Rightarrow> string \<Rightarrow> string \<Rightarrow> int \<Rightarrow> 'd call" where
  "refresh_call pid old new new_refresh expiry = Execute AUTH_INSTANCE ''api_refresh_secret''
     [VUint pid, VString old, VString new, VString new_refresh, VInt expiry]"

lemma month_later: "unix (t + seconds 2592000) = unix t + 2592000"
  by (simp add: unix_def seconds_def int64_def)

lemma twice_expiry:
  assumes "1704067200000000000 \<le> t" and "t < 4102444800000000000"
  shows "int64 ((unix t + 2592000) * 2) = 2 * (unix t + 2592000)"
    and "int64 (unix t * 2 + 5184000) = 2 * (unix t + 2592000)"
    and "2 * (unix t + 2592000) - unix t > 53 * 365 * 86400"
proof -
  have "1704067200 \<le> unix t" "unix t < 4102444800"
    using assms by (auto simp: unix_def)
  then show "int64 ((unix t + 2592000) * 2) = 2 * (unix t + 2592000)"
    and "int64 (unix t * 2 + 5184000) = 2 * (unix t + 2592000)"
    and "2 * (unix t + 2592000) - unix t > 53 * 365 * 86400"
    by (auto simp: int64_def)
qed

text \<open>A refresh of an API secret is asked for only by the profile its refresh token belongs
  to. The new token expires 30 days later, but the new refresh token at twice that time counted from
  1970: when the clock reads a time since 2024, it stays valid for more than 53 years.\<close>

theorem refresh_token_outlives:
  assumes "run E (HandleSecretRefresh K ctx (Inr token)) [] = (h, r)"
    and "(Execute AUTH_INSTANCE ''api_refresh_secret'' ps, ans) \<in> set h"
    and "\<And>h. 1704067200000000000 \<le> a_time (E h Clock)" and "\<And>h. a_time (E h Clock) < 4102444800000000000"
  shows "\<exists>profile t subject jwt refresh expiry. rc_Profile ctx = Some profile \<and>
     al_jwtParse K t token (cf_HMACSecret (ac_Config ctx)) = Inr subject \<and>
     ParseUint32 subject = Inr (pr_ProfileId profile) \<and>
     Execute AUTH_INSTANCE ''api_refresh_secret'' ps = refresh_call (pr_ProfileId profile) token jwt refresh expiry \<and>
     GenerateJwt K (pr_ProfileId profile) (cf_HMACSecret (ac_Config ctx)) expiry = Inr jwt \<and>
     GenerateJwt K (pr_ProfileId profile) (cf_HMACSecret (ac_Config ctx)) (2 * expiry) = Inr refresh \<and>
     (\<exists>h'. expiry = unix (a_time (E h' Clock)) + 2592000 \<and>
        2 * expiry - unix (a_time (E h' Clock)) > 53 * 365 * 86400)"
proof -
  let ?hmac = "cf_HMACSecret (ac_Config ctx)" and ?t = "a_time (E [] Clock)"
  let ?h1 = "[(Clock, E [] Clock)]"
  let ?e = "unix (a_time (E ?h1 Clock)) + 2592000"
  note twice = twice_expiry [OF assms(3,4)]
  obtain profile subject jwt refresh where *: "rc_Profile ctx = Some profile"
      "al_jwtParse K ?t token ?hmac = Inr subject" "ParseUint32 subject = Inr (pr_ProfileId profile)"
      "GenerateJwt K (pr_ProfileId profile) ?hmac ?e = Inr jwt"
      "GenerateJwt K (pr_ProfileId profile) ?hmac (2 * ?e) = Inr refresh"
      "Execute AUTH_INSTANCE ''api_refresh_secret'' ps = refresh_call (pr_ProfileId profile) token jwt refresh ?e"
    using assms(1,2)
    by (auto simp: HandleSecretRefresh_def bindJSON_def Let_def onErr_def run_andThen JwtToProfileID_def now_def
        with_profile_def deref_def now_plus_unix_def month_later twice(1,2) ErrorResponse_def SuccessResponse_def
        respond_def RefreshSecret_def Request_auth_def refresh_call_def
        split: sum.splits option.splits if_splits)
  then show ?thesis
    using twice(3) by blast
qed

section \<open>Renewal of a session\<close>

definition renewal_calls :: "'d call \<Rightarrow> bool" where
  "renewal_calls c \<longleftrightarrow> (\<exists>ps. c = Execute AUTH_INSTANCE ''frontend_secret_create'' ps)"

text \<open>The secret of the refresh token signed the payload of the request.\<close>

definition renewal_ok :: "auth_lib \<Rightarrow> auth_context \<Rightarrow> string \<Rightarrow> 'd history \<Rightarrow> bool" where
  "renewal_ok K ctx token h \<longleftrightarrow>
     (\<exists>s. told h (Execute AUTH_INSTANCE ''frontend_secret_by_refresh_token'' [VString token])
            (as_ptr as_frontend_secret) (Some s) \<and> signed_payload K ctx h (fs_RandomSecret s))"

lemma renewal_ok_later: "renewal_ok K ctx token h \<Longrightarrow> set h \<subseteq> set h' \<Longrightarrow> renewal_ok K ctx token h'"
  unfolding renewal_ok_def told_def signed_payload_def by blast

lemma renewal_calls_simps [simp]:
  "\<not> renewal_calls Clock" "\<not> renewal_calls (External f ps)" "\<not> renewal_calls (Respond v)"
  "renewal_calls (Execute i fn ps) \<longleftrightarrow> i = AUTH_INSTANCE \<and> fn = ''frontend_secret_create''"
  by (auto simp: renewal_calls_def)

lemma create_allowed:
  assumes "renewal_ok K ctx token h"
  shows "wp (\<lambda>h c. renewal_calls c \<longrightarrow> renewal_ok K ctx token h) (\<lambda>_ _. True)
     (CreateFromProfileID K pid old hmac l1 l2) h"
  by (auto simp: CreateFromProfileID_def wp_onErr frontend_generateJwt_def FrontendSecret_Create_def
      split: sum.split intro!: renewal_ok_later [OF assms])

lemma wp_set_cookie [simp]:
  "wp P Q (set_cookie jwt n p) h \<longleftrightarrow>
     P h (External ''SetCookie'' [VString jwt, VInt (int64 (int n))]) \<and>
     (\<forall>ans. wp P Q p ((External ''SetCookie'' [VString jwt, VInt (int64 (int n))], ans) # h))"
  by (simp add: set_cookie_def)

text \<open>A session is renewed only for a request whose payload carries a valid signature
  under the secret the instance \<^verbatim>\<open>auth\<close> has for the refresh token.\<close>

theorem renewal_needs_signature:
  assumes "run E (HandleJwt K broker ctx (Inr req)) [] = (h, r)"
    and "h = post @ (Execute AUTH_INSTANCE ''frontend_secret_create'' ps, ans) # pre"
  shows "renewal_ok K ctx (jr_RefreshToken req) pre"
proof -
  let ?P = "\<lambda>h c. renewal_calls c \<longrightarrow> renewal_ok K ctx (jr_RefreshToken req) h"
  have ok: "renewal_ok K ctx (jr_RefreshToken req)
      (x # (Execute AUTH_INSTANCE ''frontend_secret_by_refresh_token'' [VString (jr_RefreshToken req)], a) # h')"
    if "decode_auth (as_ptr as_frontend_secret) (a_reply a) = Inr (Some s)" "rc_Payload ctx = Some p"
      "Sign K p (fs_RandomSecret s) = Inr (rc_Signature ctx)" "x = (Clock, t)" "unix (a_time t) < pl_Timestamp p"
    for a s p t x h'
    using told_later [OF told_auth [OF that(1)]] that(2-5) unfolding renewal_ok_def signed_payload_def
    by (intro exI [of _ s]) auto
  have "wp ?P (\<lambda>_ _. True) (HandleJwt K broker ctx (Inr req)) []"
  proof (cases "jr_IsClient req")
    case True
    then show ?thesis
      by (auto simp: HandleJwt_def bindJSON_def Let_def wp_onErr GetByRefreshToken_def split: sum.split
          intro!: wp_Payload_Verify wp_mono [OF create_allowed] ok split: outcome.split)
  next
    case False
    then show ?thesis
      by (auto simp: HandleJwt_def bindJSON_def Let_def wp_onErr GetByKey_def UpdateApiSecretExpire_def wp_andThen
          split: sum.split outcome.split intro!: wp_Payload_Verify)
  qed
  from wp_run [OF this assms(1)] have "extends ?P [] h"
    by simp
  from extends_call [OF this [unfolded assms(2)]] show ?thesis
    by (auto simp: renewal_calls_def)
qed

end
