(* ===== verification/Auth_Examples.thy ===== *)
theory Auth_Examples
  imports Auth_Props Demo_Env Demo_Chain
begin

text \<open>
  A concrete instance of authentication: libraries whose signatures are constant and whose tokens
  are their subjects, the configuration of one exchange, and an environment that knows one API
  secret; with them the properties apply to runs that succeed.
\<close>

definition demo_auth :: auth_lib where
  "demo_auth = \<lparr> al_sha256 = (\<lambda>bs. bs), al_hmac256 = (\<lambda>k bs. bs), al_hexEncode = (\<lambda>bs. ''0xfe''),
     al_hexDecode = (\<lambda>s. Inr []), al_jwtSign = (\<lambda>subject expiry secret. Inr subject),
     al_jwtParse = (\<lambda>t token secret. Inr token) \<rparr>"

definition demo_wallets :: wallet_lib where
  "demo_wallets = \<lparr> wl_isHexAddress = (\<lambda>s. False), wl_hashDomain = (\<lambda>e. Inr []),
     wl_hashStruct = (\<lambda>e t ts m. Inr []), wl_keccak = (\<lambda>bs. bs), wl_recover = (\<lambda>hash sig. Inr 8) \<rparr>"

definition demo_exchange :: exchange_config where
  "demo_exchange = \<lparr> ec_DomainNameEncoder = ''d'', ec_DomainNameWithdraw = ''w'', ec_ProviderUrl = ''u'',
     ec_OnboardingMessages = [''welcome''], ec_ChainId = 1, ec_ExchangeAddress = ''0x1'', ec_SignerKeyId = ''k'',
     ec_JwtPublic = ''p'' \<rparr>"

definition demo_config :: api_config where
  "demo_config = \<lparr> cf_HMACSecret = ''s'', cf_JwtLifetime = 60, cf_RefreshTokenLifetime = 120,
     cf_EnvMode = ''dev'', cf_AdminWallets = [], cf_SuperAdminWallets = [], cf_TimescaledbURI = '''',
     cf_Exchanges = [''rbx'' \<mapsto> demo_exchange] \<rparr>"

definition demo_encoder :: eip712_encoder where
  "demo_encoder = \<lparr> ee_name = ''d'', ee_version = ''1'', ee_chainId = 1, ee_verifyingContract = None \<rparr>"

definition auth_demo_context :: auth_context where
  "auth_demo_context = \<lparr> rc_Timestamp = 1710000100, rc_PKTimestamp = 0, rc_MarketMakerAPIKey = ''key'',
     rc_Signature = ''0xfe'', rc_PKSignature = '''', rc_IPHeader = '''',
     rc_Payload = Some \<lparr> pl_Timestamp = 1710000100, pl_Data = [(''method'', ''POST''), (''path'', ''/orders'')] \<rparr>,
     rc_Profile = Some demo_trader, rc_Pagination = \<lparr> pg_Page = 0, pg_Limit = 50, pg_Order = ''DESC'' \<rparr>,
     rc_Signer = (\<lambda>_ _ _. Inr (''1'', ''2'', 27)), rc_RequiredRole = 0, rc_ProfileIdFromJwt = 0,
     rc_ExchangeId = ''rbx'', rc_ChainId = 1, rc_Meta = None, ac_Config = demo_config,
     ac_ExchangeCfg = demo_exchange, ac_EIP712Encoder = demo_encoder \<rparr>"

definition demo_request :: http_request where
  "demo_request = \<lparr> rq_Method = ''POST'', rq_FullPath = ''/orders'',
     rq_Header = (\<lambda>name. if name = ''RBT-TS'' then ''1710000100'' else ''''), rq_Cookie = (\<lambda>_. Inl ''no cookie''),
     rq_Query = (\<lambda>_. None), rq_Body = Inr [] \<rparr>"

definition demo_secret :: api_secret where
  "demo_secret = \<lparr> as_Key = ''key'', as_ProfileID = 7, as_Secret = ''0xaa'', as_Tag = '''', as_Expiration = 0,
     as_Status = '''' \<rparr>"

definition demo_session :: frontend_secret where
  "demo_session = \<lparr> fs_Jwt = ''7'', fs_ProfileID = 7, fs_RandomSecret = ''0xaa'', fs_RefreshToken = ''7'',
     fs_Status = '''' \<rparr>"

text \<open>The clock stands in March 2024.\<close>

definition auth_value :: "string \<Rightarrow> rat gval" where
  "auth_value fn =
     (if fn = ''api_secret_by_key'' then VApiSecret demo_secret
      else if fn = GET_PROFILE_BY_ID then VProfile demo_trader
      else if fn = ''frontend_secret_by_refresh_token'' \<or> fn = ''frontend_secret_create''
      then VFrontendSecret demo_session
      else VNil)"

fun auth_answer :: "rat call \<Rightarrow> rat answer" where
  "auth_answer (Execute i fn ps) =
     (answer_with (BRows [(auth_value fn, '''')])) \<lparr>a_time := 1710000000000000000\<rparr>"
| "auth_answer _ = (answer_with (BRows [(VBytes [], '''')])) \<lparr>a_time := 1710000000000000000\<rparr>"

definition auth_env :: "rat env" where
  "auth_env h c = auth_answer c"

lemma auth_env_simps [simp]:
  "a_time (auth_env h c) = 1710000000000000000"
  "a_reply (auth_env h (Execute i fn ps)) = BRows [(auth_value fn, '''')]"
  "a_reply (auth_env h (External f ps)) = BRows [(VBytes [], '''')]"
  "a_error (auth_env h c) = None"
  by (cases c; simp add: auth_env_def answer_with_def)+

lemma demo_auth_simps [simp]:
  "al_hexEncode demo_auth bs = ''0xfe''" "al_hexDecode demo_auth s = Inr []"
  "al_jwtSign demo_auth subject expiry secret = Inr subject" "al_jwtParse demo_auth t token secret = Inr token"
  "wl_recover demo_wallets hash sig = Inr 8" "wl_isHexAddress demo_wallets s = False"
  by (simp_all add: demo_auth_def demo_wallets_def)

lemma auth_context_simps [simp]:
  "rc_MarketMakerAPIKey auth_demo_context = ''key''" "rc_Signature auth_demo_context = ''0xfe''"
  "rc_Payload auth_demo_context =
     Some \<lparr> pl_Timestamp = 1710000100, pl_Data = [(''method'', ''POST''), (''path'', ''/orders'')] \<rparr>"
  "rc_Profile auth_demo_context = Some demo_trader" "ac_Config auth_demo_context = demo_config"
  "rc_IPHeader auth_demo_context = ''''"
  by (simp_all add: auth_demo_context_def)

lemma demo_config_simps [simp]:
  "cf_HMACSecret demo_config = ''s''" "cf_EnvMode demo_config = ''dev''" "cf_JwtLifetime demo_config = 60"
  "cf_Exchanges demo_config = [''rbx'' \<mapsto> demo_exchange]" "cf_RefreshTokenLifetime demo_config = 120"
  "as_Secret demo_secret = ''0xaa''" "as_ProfileID demo_secret = 7" "fs_RandomSecret demo_session = ''0xaa''"
  "fs_Jwt demo_session = ''7''" "ec_ChainId demo_exchange = 1"
  by (simp_all add: demo_config_def demo_secret_def demo_session_def demo_exchange_def)

lemma demo_request_simps [simp]:
  "rq_Method demo_request = ''POST''" "rq_FullPath demo_request = ''/orders''"
  "rq_Header demo_request name = (if name = ''RBT-TS'' then ''1710000100'' else '''')"
  "rq_Body demo_request = Inr []"
  by (simp_all add: demo_request_def)

lemmas auth_run_defs =
  onErr_def run_andThen deref_def bindJSON_def Let_def now_unix_def now_plus_unix_def now_def unix_def
  Request_auth_def Request_unchecked_def Request_def decode_auth_def decode_reply_def auth_value_def
  ErrorResponse_def SuccessResponse_def respond_def abort_def is_write_def

lemma demo_signature [simp]: "Sign demo_auth p secret = Inr ''0xfe''"
  by (simp add: Sign_def)

lemma demo_fresh: "run auth_env (Payload_Verify demo_auth p ''0xfe'' secret env) h =
  ((Clock, auth_env h Clock) # h,
   Done (if 1710000000 < pl_Timestamp p then Inr () else Inl (ExpiredSignatureError (pl_Timestamp p) 1710000000)))"
  by (simp add: Payload_Verify_def now_unix_def now_def unix_def)


definition demo_verify :: verify_request where
  "demo_verify = \<lparr> vr_Wallet = ''0xab'', vr_Timestamp = 1710000100, vr_Signature = ''0xfe'',
     vr_ProfileType = ''trader'', vr_EIP712Encoder = demo_encoder \<rparr>"

lemma demo_verify_simps [simp]:
  "vr_Timestamp demo_verify = 1710000100" "vr_ProfileType demo_verify = ''trader''" "vr_Wallet demo_verify = ''0xab''"
  "el_to_address demo_lib ''0xab'' = 8"
  by (simp_all add: demo_verify_def demo_lib_def)


lemma no_message_accepts_all_witness:
  "run auth_env (VerifyProfile demo_auth demo_wallets demo_lib (Inr ()) EIP_712 demo_verify 1 []) [] =
     ([(Clock, auth_env [] Clock)], Done (Inr ()))"
  by (rule no_message_accepts_all) (simp add: unix_def)

lemma context_well_formed_witness:
  "\<exists>h ctx. run auth_env (RabbitMiddleware demo_wallets (\<lambda>_ _ _. Inr ('''', '''', 0)) (Inr ()) (Inr demo_config) demo_request) [] =
     (h, Done (Some ctx)) \<and> context_ok (Inr demo_config) demo_request h ctx"
proof -
  have "timestamp_header demo_request ''RBT-TS'' = Inr 1710000100"
    by (simp add: timestamp_header_def ParseInt64_def parse_nat_def digit_value_def Let_def)
  moreover have "extractPayload demo_request 1710000100 =
      Inr (Some \<lparr> pl_Timestamp = 1710000100, pl_Data = [(''path'', ''/orders''), (''method'', ''POST'')] \<rparr>)"
    by (simp add: extractPayload_def is_write_def NewPayload_def put_key_def requiredKeys_def)
  ultimately obtain h ctx where run: "run auth_env (RabbitMiddleware demo_wallets (\<lambda>_ _ _. Inr ('''', '''', 0)) (Inr ())
      (Inr demo_config) demo_request) [] = (h, Done (Some ctx))"
    by (simp add: RabbitMiddleware_def AddHocSilentChange_def build_context_def service_def timestamp_header_def
        check_timestamp_def SignatureLifetime_def int64_def auth_run_defs to_lower_def)
  from context_well_formed [OF run] run show ?thesis
    by blast
qed

lemma token_round_trip_witness:
  "run auth_env (JwtToProfileID demo_auth ''7'' ''s'') [] = ([(Clock, auth_env [] Clock)], Done (Inr 7))"
proof (rule token_round_trip)
  show "jwt_law demo_auth"
    by (simp add: jwt_law_def)
  show "GenerateJwt demo_auth 7 ''s'' 1800000000 = Inr ''7''"
    by (simp add: GenerateJwt_def int64_def show_int_def show_nat.simps)
qed simp_all

lemma refresh_token_outlives_witness:
  "\<exists>ps h r ans. run auth_env (HandleSecretRefresh demo_auth auth_demo_context (Inr ''7'')) [] = (h, r) \<and>
     (Execute AUTH_INSTANCE ''api_refresh_secret'' ps, ans) \<in> set h \<and>
     (\<exists>h'. ps ! 4 = VInt (unix (a_time (auth_env h' Clock)) + 2592000))"
proof -
  have jwt: "GenerateJwt demo_auth 7 s e = Inr ''7''" for s e
    by (simp add: GenerateJwt_def int64_def show_int_def show_nat.simps)
  have "ParseUint32 ''7'' = Inr 7"
    by (simp add: ParseUint32_def parse_nat_def digit_value_def Let_def)
  then obtain ps h r ans where run: "run auth_env (HandleSecretRefresh demo_auth auth_demo_context (Inr ''7'')) [] = (h, r)"
    and mem: "(Execute AUTH_INSTANCE ''api_refresh_secret'' ps, ans) \<in> set h"
    by (force simp: HandleSecretRefresh_def JwtToProfileID_def with_profile_def RefreshSecret_def auth_run_defs jwt)
  from refresh_token_outlives [OF run mem] run mem show ?thesis
    by (auto simp: refresh_call_def)
qed

lemma renewal_needs_signature_witness:
  "\<exists>pre post ps ans r. run auth_env (HandleJwt demo_auth (Inr ()) auth_demo_context (Inr \<lparr>jr_IsClient = True, jr_RefreshToken = ''7''\<rparr>)) [] =
     (post @ (Execute AUTH_INSTANCE ''frontend_secret_create'' ps, ans) # pre, r) \<and>
     renewal_ok demo_auth auth_demo_context ''7'' pre"
proof -
  have jwt: "GenerateJwt demo_auth 7 s e = Inr ''7''" for s e
    by (simp add: GenerateJwt_def int64_def show_int_def show_nat.simps)
  have "ParseUint32 ''7'' = Inr 7"
    by (simp add: ParseUint32_def parse_nat_def digit_value_def Let_def)
  then obtain x y c pre r ps ans where run: "run auth_env (HandleJwt demo_auth (Inr ()) auth_demo_context
      (Inr \<lparr>jr_IsClient = True, jr_RefreshToken = ''7''\<rparr>)) [] =
      (x # y # (Execute AUTH_INSTANCE ''frontend_secret_create'' ps, ans) # pre, r)"
    by (simp add: HandleJwt_def JwtToProfileID_def GetByRefreshToken_def CreateFromProfileID_def rand_read_def
        frontend_generateJwt_def FrontendSecret_Create_def set_cookie_def auth_run_defs jwt demo_fresh)
  then have run': "run auth_env (HandleJwt demo_auth (Inr ()) auth_demo_context
      (Inr \<lparr>jr_IsClient = True, jr_RefreshToken = ''7''\<rparr>)) [] =
      ([x, y] @ (Execute AUTH_INSTANCE ''frontend_secret_create'' ps, ans) # pre, r)"
    by simp
  from renewal_needs_signature [OF run' HOL.refl] run' show ?thesis
    by (metis jwt_request.select_convs(2))
qed

end
