(* ===== verification/Signer.thy ===== *)
theory Signer
  imports Sql Auth_Examples
begin

text \<open>
  Signing with a key of the key management service (\<^verbatim>\<open>signer/kms_helper.go\<close>, \<^verbatim>\<open>signer/signer_eip712.go\<close>,
  \<^verbatim>\<open>signer/withdrawal_signer.go\<close>). The service signs a hash with a key it never gives away; the code
  turns its answer into the form the chain accepts: two numbers of 32 bytes, the second in the lower
  half of the group, and the parity with which the signer's key can be recovered. The service answers
  calls; ASN.1 and the recovery of a key are parameters.
\<close>

section \<open>Numbers as bytes\<close>

definition bytes_num :: "byte list \<Rightarrow> nat" where
  "bytes_num bs = foldl (\<lambda>n b. n * 256 + unat b) 0 bs"

fun num_bytes :: "nat \<Rightarrow> byte list" where
  "num_bytes n = (if n = 0 then [] else num_bytes (n div 256) @ [of_nat (n mod 256)])"

declare num_bytes.simps [simp del]

text \<open>\<^verbatim>\<open>adjustSignatureLength\<close> drops leading zeros, then fills up to 32 bytes.\<close>

definition adjustSignatureLength :: "byte list \<Rightarrow> byte list" where
  "adjustSignatureLength buffer =
     (let trimmed = dropWhile (\<lambda>b. b = 0) buffer in replicate (32 - length trimmed) 0 @ trimmed)"

section \<open>The key management service\<close>

record kms_lib =
  ks_order     :: nat                                          \<comment> \<open>\<^verbatim>\<open>crypto.S256().Params().N\<close>\<close>
  ks_signature :: "byte list \<Rightarrow> string + byte list \<times> byte list"   \<comment> \<open>\<^verbatim>\<open>Unmarshal\<close> of an \<^verbatim>\<open>asn1EcSig\<close>\<close>
  ks_publicKey :: "byte list \<Rightarrow> string + byte list"               \<comment> \<open>\<^verbatim>\<open>Unmarshal\<close> of an \<^verbatim>\<open>asn1EcPublicKey\<close>\<close>
  ks_recover   :: "byte list \<Rightarrow> byte list \<Rightarrow> string + byte list"  \<comment> \<open>\<^verbatim>\<open>Ecrecover\<close> of a hash and a signature\<close>

definition getKmsClient :: "('d, string + unit) prog" where
  "getKmsClient =
     onErr (sql_exec ''NewSession'' [VString ''ap-northeast-1''])
       (\<lambda>e. Return (Inl (''Error creating AWS session: '' @ e))) (\<lambda>_. Return (Inr ()))"

text \<open>A request to the service: the client is made anew for each\<close>

definition kms_request :: "string \<Rightarrow> 'd gval list \<Rightarrow> ('d, string + byte list) prog" where
  "kms_request name args =
     onErr getKmsClient (\<lambda>e. Return (Inl e)) (\<lambda>_.
       Call (External name args) (\<lambda>ans. Return (decode_reply as_bytes (a_reply ans))))"

definition Encrypt :: "string \<Rightarrow> string \<Rightarrow> ('d, string + byte list) prog" where
  "Encrypt plaintext key =
     onErr getKmsClient (\<lambda>e. Return (Inl e)) (\<lambda>_.
       Call (External ''kms.Encrypt'' [VString key, VString plaintext]) (\<lambda>ans.
         Return (case decode_reply as_bytes (a_reply ans) of
             Inl e \<Rightarrow> Inl (''Error encrypting string: '' @ e) | Inr b \<Rightarrow> Inr b)))"

definition Decrypt :: "string \<Rightarrow> ('d, string + byte list) prog" where
  "Decrypt ciphertext =
     onErr getKmsClient (\<lambda>e. Return (Inl e)) (\<lambda>_.
       Call (External ''kms.Decrypt'' [VString ciphertext]) (\<lambda>ans.
         Return (case decode_reply as_bytes (a_reply ans) of
             Inl e \<Rightarrow> Inl (''Error decrypting: '' @ e) | Inr b \<Rightarrow> Inr b)))"

definition createKey :: "string \<Rightarrow> string \<Rightarrow> ('d, string + byte list) prog" where
  "createKey keyDescription keyUsage =
     kms_request ''kms.CreateKey'' [VString keyDescription, VString keyUsage, VString ''AWS_KMS'']"

definition CreateEncryptDecryptKey :: "string \<Rightarrow> ('d, string + byte list) prog" where
  "CreateEncryptDecryptKey keyDescription = createKey keyDescription ''ENCRYPT_DECRYPT''"

definition CreateSignVerifyKey :: "string \<Rightarrow> ('d, string + byte list) prog" where
  "CreateSignVerifyKey keyDescription = createKey keyDescription ''SIGN_VERIFY''"

definition SignData :: "byte list \<Rightarrow> string \<Rightarrow> string \<Rightarrow> string \<Rightarrow> ('d, string + byte list) prog" where
  "SignData message keyID messageType signingAlgorithm =
     kms_request ''kms.Sign'' [VString keyID, VBytes message, VString messageType, VString signingAlgorithm]"

definition GetPublicKey :: "string \<Rightarrow> ('d, string + byte list) prog" where
  "GetPublicKey keyID = kms_request ''kms.GetPublicKey'' [VString keyID]"

definition getPublicKeyDerBytesFromKMS :: "kms_lib \<Rightarrow> string \<Rightarrow> ('d, string + byte list) prog" where
  "getPublicKeyDerBytesFromKMS L keyID =
     onErr (GetPublicKey keyID) (\<lambda>e. Return (Inl e)) (\<lambda>b. Return (ks_publicKey L b))"

text \<open>
  \<open>asn1\<close>: the right-aligned bits of the key, empty when they cannot be read, whose error is not
  asked; taking them apart panics then. \<open>toAddress\<close>: \<^verbatim>\<open>PubkeyToAddress\<close> of the two coordinates.
\<close>

definition GetEthAddress ::
  "(byte list \<Rightarrow> byte list) \<Rightarrow> (nat \<Rightarrow> nat \<Rightarrow> 160 word) \<Rightarrow> string \<Rightarrow> ('d, string + 160 word) prog" where
  "GetEthAddress asn1 toAddress keyID =
     onErr (GetPublicKey keyID) (\<lambda>e. Return (Inl e)) (\<lambda>b.
       let asn1Data = asn1 b in
       if length asn1Data < 33 then Panic ''slice bounds out of range''
       else Return (Inr (toAddress (bytes_num (take 32 (drop 1 asn1Data))) (bytes_num (drop 33 asn1Data)))))"

section \<open>Typed data\<close>

text \<open>A signer: the key and the encoder of its domain\<close>

record eip712_signer =
  sn_keyID   :: string
  sn_encoder :: eip712_encoder

definition NewEIP712Signer :: "wallet_lib \<Rightarrow> string \<Rightarrow> string \<Rightarrow> string \<Rightarrow> int \<Rightarrow> string \<Rightarrow> string + eip712_signer" where
  "NewEIP712Signer W domainName version verifyingContract chainId keyID =
     (if \<not> wl_isHexAddress W verifyingContract then Inl (''invalid verifyingContract: '' @ verifyingContract)
      else Inr \<lparr> sn_keyID = keyID, sn_encoder = NewEIP712Encoder W domainName version verifyingContract chainId \<rparr>)"

text \<open>The number \<^verbatim>\<open>s\<close> is replaced by its negative when it lies in the upper half of the group.\<close>

definition low_s :: "kms_lib \<Rightarrow> byte list \<Rightarrow> byte list" where
  "low_s L sBytes =
     (if ks_order L div 2 < bytes_num sBytes then num_bytes (ks_order L - bytes_num sBytes) else sBytes)"

text \<open>The parity is found by trying: the recovered key must be that of the service.\<close>

definition with_parity :: "kms_lib \<Rightarrow> byte list \<Rightarrow> byte list \<Rightarrow> byte list \<Rightarrow> string + byte list" where
  "with_parity L encodedData pubkey rs =
     (case ks_recover L encodedData (rs @ [0]) of
        Inl e \<Rightarrow> Inl e
      | Inr recovered \<Rightarrow>
          if recovered = pubkey then Inr (rs @ [0])
          else case ks_recover L encodedData (rs @ [1]) of
            Inl e \<Rightarrow> Inl e
          | Inr recovered' \<Rightarrow>
              if recovered' = pubkey then Inr (rs @ [1]) else Inl ''can not reconstruct public key from sig'')"

definition vOffset :: nat where
  "vOffset = 27"

definition KmsSignTypedData ::
  "wallet_lib \<Rightarrow> kms_lib \<Rightarrow> eip712_signer \<Rightarrow> string \<Rightarrow> (string \<times> typed_fields) list \<Rightarrow> (string \<times> typed_value) list \<Rightarrow>
   ('d, string + byte list \<times> byte list \<times> nat) prog" where
  "KmsSignTypedData W L sn primaryType types message =
     (case EncodeData W (sn_encoder sn) primaryType types message of
        Inl e \<Rightarrow> Return (Inl e)
      | Inr encodedData \<Rightarrow>
          onErr (SignData encodedData (sn_keyID sn) ''DIGEST'' ''ECDSA_SHA_256'') (\<lambda>e. Return (Inl e)) (\<lambda>kmsSignature.
          case ks_signature L kmsSignature of
            Inl e \<Rightarrow> Return (Inl e)
          | Inr (rBytes, sBytes) \<Rightarrow>
              onErr (getPublicKeyDerBytesFromKMS L (sn_keyID sn)) (\<lambda>e. Return (Inl e)) (\<lambda>pubkey.
              Return (case with_parity L encodedData pubkey (adjustSignatureLength rBytes @ adjustSignatureLength (low_s L sBytes)) of
                  Inl e \<Rightarrow> Inl e
                | Inr ethSignature \<Rightarrow>
                    Inr (take 32 ethSignature, take 32 (drop 32 ethSignature), unat (ethSignature ! 64) + vOffset)))))"

definition NewWithdrawalSigner :: "wallet_lib \<Rightarrow> string \<Rightarrow> string \<Rightarrow> int \<Rightarrow> string \<Rightarrow> string + eip712_signer" where
  "NewWithdrawalSigner W domainName exchangeAddress chainId kmsKeyId =
     NewEIP712Signer W domainName ''1'' exchangeAddress chainId kmsKeyId"

definition WithdrawalSigner_Sign ::
  "wallet_lib \<Rightarrow> kms_lib \<Rightarrow> eip712_signer \<Rightarrow> int \<Rightarrow> string \<Rightarrow> int \<Rightarrow> ('d, string + byte list \<times> byte list \<times> nat) prog" where
  "WithdrawalSigner_Sign W L sn opsId wallet amount =
     KmsSignTypedData W L sn ''withdrawal''
       [(''withdrawal'', [(''id'', ''uint256''), (''trader'', ''address''), (''amount'', ''uint256'')])]
       [(''id'', TInt opsId), (''trader'', TString wallet), (''amount'', TInt amount)]"

section \<open>Bytes and numbers\<close>

lemma bytes_num_snoc [simp]: "bytes_num (bs @ [b]) = bytes_num bs * 256 + unat b"
  by (simp add: bytes_num_def)

lemma bytes_num_zeros [simp]: "bytes_num (replicate n 0 @ bs) = bytes_num bs"
  by (induction n) (simp_all add: bytes_num_def)

lemma bytes_num_trim [simp]: "bytes_num (dropWhile (\<lambda>b. b = 0) bs) = bytes_num bs"
  by (induction bs) (simp_all add: bytes_num_def)

lemma bytes_num_append: "bytes_num (xs @ ys) = bytes_num xs * 256 ^ length ys + bytes_num ys"
proof (induction ys rule: rev_induct)
  case (snoc y ys)
  then show ?case
    unfolding append_assoc [symmetric] bytes_num_snoc by (simp add: algebra_simps)
qed (simp add: bytes_num_def)

lemma bytes_num_num_bytes [simp]: "bytes_num (num_bytes n) = n"
proof (induction n rule: num_bytes.induct)
  case (1 n)
  then show ?case
    by (subst num_bytes.simps) (auto simp: bytes_num_def unat_of_nat)
qed

text \<open>A trimmed number needs no more than 32 bytes when it is below \<open>2\<^sup>2\<^sup>5\<^sup>6\<close>.\<close>

lemma bytes_num_lead: "bs \<noteq> [] \<Longrightarrow> hd bs \<noteq> 0 \<Longrightarrow> 256 ^ (length bs - 1) \<le> bytes_num bs"
proof (cases bs)
  case (Cons b bs')
  assume "hd bs \<noteq> 0"
  then have "1 \<le> unat b"
    using Cons by (simp add: Suc_le_eq unat_gt_0)
  then have "256 ^ length bs' \<le> unat b * 256 ^ length bs'"
    using mult_le_mono1 [of 1 "unat b" "256 ^ length bs'"] by simp
  moreover have "bytes_num bs = unat b * 256 ^ length bs' + bytes_num bs'"
    using bytes_num_append [of "[b]" bs'] by (simp add: Cons bytes_num_def)
  ultimately have "256 ^ length bs' \<le> bytes_num bs"
    by linarith
  then show ?thesis
    by (simp add: Cons)
qed simp

lemma trimmed_length:
  assumes "bytes_num bs < 2 ^ 256"
  shows "length (dropWhile (\<lambda>b. b = 0) bs) \<le> 32"
proof (rule ccontr)
  let ?t = "dropWhile (\<lambda>b. b = 0) bs"
  assume "\<not> length ?t \<le> 32"
  then have long: "?t \<noteq> []" "32 < length ?t"
    by (metis list.size(3) zero_le, simp)
  then have "256 ^ 32 \<le> (256 :: nat) ^ (length ?t - 1)"
    by (intro power_increasing) auto
  also have "\<dots> \<le> bytes_num ?t"
    by (rule bytes_num_lead [OF long(1) hd_dropWhile [OF long(1)]])
  finally show False
    using assms by simp
qed

lemma adjusted: "bytes_num bs < 2 ^ 256 \<Longrightarrow> length (adjustSignatureLength bs) = 32 \<and> bytes_num (adjustSignatureLength bs) = bytes_num bs"
  using trimmed_length [of bs] by (simp add: adjustSignatureLength_def Let_def)

lemma low_s_bound:
  assumes "bytes_num sBytes < ks_order L"
  shows "2 * bytes_num (low_s L sBytes) \<le> ks_order L \<and>
    (bytes_num (low_s L sBytes) = bytes_num sBytes \<or> bytes_num (low_s L sBytes) = ks_order L - bytes_num sBytes)"
  using assms by (auto simp: low_s_def)

section \<open>What is signed\<close>

lemma parity_recovers:
  "with_parity L data pubkey rs = Inr sig \<Longrightarrow>
     \<exists>v \<in> {0, 1}. sig = rs @ [v] \<and> ks_recover L data sig = Inr pubkey"
  by (auto simp: with_parity_def split: sum.splits if_splits)

text \<open>The service answered a request with the bytes.\<close>

definition kms_told :: "'d history \<Rightarrow> string \<Rightarrow> 'd gval list \<Rightarrow> byte list \<Rightarrow> bool" where
  "kms_told h name args b \<longleftrightarrow> (\<exists>ans. (External name args, ans) \<in> set h \<and> decode_reply as_bytes (a_reply ans) = Inr b)"

lemma wp_kms_request:
  "wp (\<lambda>_ _. True) Q (kms_request name args) h"
  if "\<And>h' e. Q h' (Done (Inl e))"
    and "\<And>h' b. set h \<subseteq> set h' \<Longrightarrow> kms_told h' name args b \<Longrightarrow> Q h' (Done (Inr b))"
proof -
  have "Q ((External name args, ans) # e # h) (Done (decode_reply as_bytes (a_reply ans)))" for e ans
  proof (cases "decode_reply as_bytes (a_reply ans)")
    case (Inr b)
    then have "kms_told ((External name args, ans) # e # h) name args b"
      unfolding kms_told_def by auto
    then show ?thesis
      unfolding Inr by (intro that(2)) auto
  qed (simp add: that(1))
  then show ?thesis
    using that(1) by (auto simp: kms_request_def getKmsClient_def sql_exec_def wp_onErr split: sum.split)
qed

text \<open>
  The conditions on a signature: it has the form the chain accepts, and it is the service's
  signature of the typed data under the key, whose public key it recovers.
\<close>

definition signature_of_key ::
  "wallet_lib \<Rightarrow> kms_lib \<Rightarrow> eip712_signer \<Rightarrow> byte list \<Rightarrow> 'd history \<Rightarrow> byte list \<Rightarrow> byte list \<Rightarrow> nat \<Rightarrow> bool" where
  "signature_of_key W L sn data h r s v \<longleftrightarrow>
     length r = 32 \<and> length s = 32 \<and> (v = 27 \<or> v = 28) \<and> 2 * bytes_num s \<le> ks_order L \<and>
     (\<exists>sig der rBytes sBytes pubkey.
        kms_told h ''kms.Sign'' [VString (sn_keyID sn), VBytes data, VString ''DIGEST'', VString ''ECDSA_SHA_256''] sig \<and>
        kms_told h ''kms.GetPublicKey'' [VString (sn_keyID sn)] der \<and>
        ks_signature L sig = Inr (rBytes, sBytes) \<and> ks_publicKey L der = Inr pubkey \<and>
        bytes_num r = bytes_num rBytes \<and>
        (bytes_num s = bytes_num sBytes \<or> bytes_num s = ks_order L - bytes_num sBytes) \<and>
        ks_recover L data (r @ s @ [of_nat (v - 27)]) = Inr pubkey)"

text \<open>The documented form of signatures: both numbers are below the order of the group, which has 256 bits.\<close>

definition kms_law :: "kms_lib \<Rightarrow> bool" where
  "kms_law L \<longleftrightarrow> ks_order L < 2 ^ 256 \<and>
     (\<forall>sig r s. ks_signature L sig = Inr (r, s) \<longrightarrow> bytes_num r < ks_order L \<and> bytes_num s < ks_order L)"

lemma assembled_signature:
  assumes "kms_law L" "ks_signature L sig = Inr (rBytes, sBytes)" "ks_publicKey L der = Inr pubkey"
    and "with_parity L data pubkey (adjustSignatureLength rBytes @ adjustSignatureLength (low_s L sBytes)) = Inr eth"
    and "kms_told h ''kms.Sign'' [VString (sn_keyID sn), VBytes data, VString ''DIGEST'', VString ''ECDSA_SHA_256''] sig"
    and "kms_told h ''kms.GetPublicKey'' [VString (sn_keyID sn)] der"
  shows "signature_of_key W L sn data h (take 32 eth) (take 32 (drop 32 eth)) (unat (eth ! 64) + vOffset)"
proof -
  have bounds: "bytes_num rBytes < 2 ^ 256" "bytes_num sBytes < ks_order L" "ks_order L < 2 ^ 256"
    using assms(1,2) by (auto simp: kms_law_def intro: less_trans)
  note low = low_s_bound [OF bounds(2)]
  have "bytes_num (low_s L sBytes) < 2 ^ 256"
    using low bounds by linarith
  note r = adjusted [OF bounds(1)] and s = adjusted [OF this]
  obtain v where v: "v \<in> {0, 1}" "eth = (adjustSignatureLength rBytes @ adjustSignatureLength (low_s L sBytes)) @ [v]"
    "ks_recover L data eth = Inr pubkey"
    using parity_recovers [OF assms(4)] by blast
  then have parts: "take 32 eth = adjustSignatureLength rBytes"
    "take 32 (drop 32 eth) = adjustSignatureLength (low_s L sBytes)" "eth ! 64 = v"
    using r s by (auto simp: nth_append)
  have "of_nat (unat v) = v"
    by simp
  then show ?thesis
    unfolding signature_of_key_def parts vOffset_def
    using v r s low assms(2,3,5,6) by (auto simp: append_assoc)
qed

lemma wp_KmsSignTypedData:
  assumes "kms_law L"
  shows "wp (\<lambda>_ _. True) (\<lambda>h r. \<forall>x y v. r = Done (Inr (x, y, v)) \<longrightarrow>
      (\<exists>data. EncodeData W (sn_encoder sn) primaryType types message = Inr data \<and> signature_of_key W L sn data h x y v))
    (KmsSignTypedData W L sn primaryType types message) h0"
proof (cases "EncodeData W (sn_encoder sn) primaryType types message")
  case (Inr data)
  have mono: "kms_told h n a b \<Longrightarrow> set h \<subseteq> set h' \<Longrightarrow> kms_told h' n a b" for h h' :: "'a history" and n a b
    unfolding kms_told_def by blast
  show ?thesis
    unfolding KmsSignTypedData_def Inr sum.case wp_onErr SignData_def getPublicKeyDerBytesFromKMS_def GetPublicKey_def
    by (rule wp_kms_request)
      (auto simp: wp_onErr split: sum.split prod.split outcome.split
        intro!: wp_kms_request assembled_signature [OF assms] intro: mono)
qed (simp add: KmsSignTypedData_def)


section \<open>An example\<close>

text \<open>
  A key service of the examples, in a group of seven elements: its signature has the second number in
  the upper half, and its key is recovered with the odd parity.
\<close>

definition demo_kms :: kms_lib where
  "demo_kms = \<lparr> ks_order = 7, ks_signature = (\<lambda>_. Inr ([5], [6])), ks_publicKey = (\<lambda>_. Inr [9]),
     ks_recover = (\<lambda>_ sig. Inr (if last sig = 1 then [9] else [8])) \<rparr>"

definition demo_signer :: eip712_signer where
  "demo_signer = \<lparr> sn_keyID = ''k'', sn_encoder = demo_encoder \<rparr>"

lemma demo_kms_law: "kms_law demo_kms"
  by (auto simp: kms_law_def demo_kms_def bytes_num_def)

lemma demo_signing_run:
  "\<exists>h. run auth_env (WithdrawalSigner_Sign demo_wallets demo_kms demo_signer 12 ''0xab'' 5) [] =
     (h, Done (Inr (replicate 31 0 @ [5], replicate 31 0 @ [1], 28)))"
proof -
  have "num_bytes 1 = [1]"
    by (simp add: num_bytes.simps)
  then show ?thesis
    by (simp add: WithdrawalSigner_Sign_def KmsSignTypedData_def EncodeData_def SignData_def getPublicKeyDerBytesFromKMS_def
        GetPublicKey_def kms_request_def getKmsClient_def sql_exec_def demo_wallets_def demo_signer_def demo_kms_def low_s_def
        with_parity_def adjustSignatureLength_def bytes_num_def vOffset_def nth_append nth_Cons' auth_run_defs)
qed


end
