(* ===== verification/Router.thy ===== *)
theory Router
  imports Api_Auth Api_Balance Sql
begin

text \<open>
  The router of the API (\<^verbatim>\<open>api/router.go\<close>): which handler answers which method and path, behind which
  middlewares. The registrations are listed in the order of the source. As gin documents it, a
  middleware applies to the routes registered later, a group starts with the middlewares of its
  parent, and a request passes its middlewares in their order until one of them aborts it.
\<close>

section \<open>Registrations\<close>

datatype mw =
    M_Recovery | M_Logger | M_Rabbit | M_Pagination | M_Analytics | M_Cors | M_Compression
  | M_Auth | M_AuthJwt | M_Metamask nat | M_AdminAuth | M_SuperAdminAuth | M_SuperAdminJWT

text \<open>Of a group: its variable, its parent's and the prefix. Of a route: the variable, method, path and handler.\<close>

datatype registration =
    Use string mw
  | Group string string string
  | Route string string string string

definition Router :: "registration list" where
  "Router =
    [Use ''router'' M_Recovery,
     Use ''router'' M_Logger,
     Use ''router'' M_Rabbit,
     Use ''router'' M_Pagination,
     Use ''router'' M_Analytics,
     Use ''router'' M_Cors,
     Route ''router'' ''GET'' ''/srvtimestamp'' ''HandleSrvTimestamp'',
     Route ''router'' ''GET'' ''/showmeta'' ''HandleShowMeta'',
     Route ''router'' ''GET'' ''/version/mobile'' ''HandleMobileVersion'',
     Route ''router'' ''POST'' ''/onboarding'' ''HandleOnboarding'',
     Route ''router'' ''POST'' ''/jwt'' ''HandleJwt'',
     Route ''router'' ''GET'' ''/account/validate'' ''HandleAccountValidate'',
     Group ''jwtOnlyAuth'' ''router'' ''/'',
     Use ''jwtOnlyAuth'' M_AuthJwt,
     Route ''jwtOnlyAuth'' ''GET'' ''/storage'' ''HandleReadStorage'',
     Route ''jwtOnlyAuth'' ''POST'' ''/storage'' ''HandleWriteStorage'',
     Use ''router'' M_Compression,
     Route ''router'' ''GET'' ''/markets'' ''HandleMarket'',
     Route ''router'' ''GET'' ''/markets/coins'' ''HandleMarketCoins'',
     Route ''router'' ''GET'' ''/markets/trades'' ''HandleMarketTrades'',
     Route ''router'' ''GET'' ''/markets/orderbook'' ''HandleMarketOrderBook'',
     Route ''router'' ''GET'' ''/markets/fundingrate'' ''HandleFundingRateList'',
     Route ''router'' ''GET'' ''/candles'' ''HandleCandleList'',
     Route ''router'' ''GET'' ''/bfx/volume'' ''HandleBfxVolume'',
     Route ''router'' ''GET'' ''/rbx/volume'' ''HandleRbxVolume'',
     Route ''router'' ''GET'' ''/vaults'' ''HandleVault'',
     Route ''router'' ''GET'' ''/vaults/navhistory'' ''HandleNavHistory'',
     Route ''router'' ''GET'' ''/blast/points'' ''HandleBlastPoints'',
     Group ''authRequired'' ''router'' ''/'',
     Use ''authRequired'' M_Auth,
     Route ''authRequired'' ''POST'' ''/orders'' ''HandleOrderCreate'',
     Route ''authRequired'' ''GET'' ''/orders'' ''HandleOrdersList'',
     Route ''authRequired'' ''PUT'' ''/orders'' ''HandleOrderAmend'',
     Route ''authRequired'' ''DELETE'' ''/orders'' ''HandleOrderCancel'',
     Route ''authRequired'' ''DELETE'' ''/orders/cancel_all'' ''HandleOrderCancelAll'',
     Route ''authRequired'' ''GET'' ''/vaults/holdings'' ''HandleVaultHoldings'',
     Route ''authRequired'' ''GET'' ''/vaults/balanceops'' ''HandleVaultBalanceOperations'',
     Route ''authRequired'' ''GET'' ''/cancel_all_after'' ''HandleDeadmanList'',
     Route ''authRequired'' ''POST'' ''/cancel_all_after'' ''HandleDeadmanCreate'',
     Route ''authRequired'' ''DELETE'' ''/cancel_all_after'' ''HandleDeadmanDelete'',
     Route ''authRequired'' ''GET'' ''/portfolio'' ''HandlePortfolioList'',
     Route ''authRequired'' ''GET'' ''/balanceops'' ''HandleBalanceOpsList'',
     Route ''authRequired'' ''GET'' ''/account'' ''HandleAccount'',
     Route ''authRequired'' ''PUT'' ''/account/leverage'' ''HandleAccountSetLeverage'',
     Route ''authRequired'' ''GET'' ''/fills'' ''HandleFillsList'',
     Route ''authRequired'' ''GET'' ''/fills/order'' ''HandleFillsForOrder'',
     Route ''authRequired'' ''GET'' ''/positions'' ''HandlePositionsList'',
     Route ''authRequired'' ''GET'' ''/profile'' ''HandleProfileCacheRequest'',
     Route ''authRequired'' ''GET'' ''/airdrops'' ''HandleAirdropList'',
     Route ''authRequired'' ''POST'' ''/airdrops/claim'' ''HandleClaimAll'',
     Route ''authRequired'' ''POST'' ''/secrets/refresh'' ''HandleSecretRefresh'',
     Route ''authRequired'' ''POST'' ''/secrets/session/remove'' ''HandleSecretsSessionRemove'',
     Route ''authRequired'' ''POST'' ''/balanceops/processing'' ''ProcessingWithdrawal'',
     Route ''authRequired'' ''POST'' ''/balanceops/deposit'' ''HandleDeposit'',
     Route ''authRequired'' ''POST'' ''/balanceops/stake'' ''HandleStake'',
     Route ''authRequired'' ''POST'' ''/balanceops/stake_from_balance'' ''HandleStakeFromBalance'',
     Route ''authRequired'' ''POST'' ''/balanceops/unstake/begin'' ''BeginUnstake'',
     Route ''authRequired'' ''POST'' ''/balanceops/unstake/cancel'' ''CancelUnstake'',
     Route ''authRequired'' ''GET'' ''/balanceops/unstake/requested'' ''HandleRequestedUnstakesList'',
     Route ''authRequired'' ''POST'' ''/balanceops/init_vault'' ''InitVault'',
     Route ''authRequired'' ''POST'' ''/balanceops/reactivate_vault'' ''ReactivateVault'',
     Route ''authRequired'' ''POST'' ''/balanceops/unstake/process'' ''ProcessUnstakes'',
     Route ''authRequired'' ''GET'' ''/game_assets/blast'' ''HandleGameAssetsBlastGet'',
     Route ''authRequired'' ''GET'' ''/game_assets/blast_leaderboard'' ''HandleBlastLeaderboard'',
     Route ''authRequired'' ''GET'' ''/game_assets/bfx_points'' ''HandleBfxGetPoints'',
     Route ''authRequired'' ''GET'' ''/storage/profile_data'' ''HandleProfileDataRead'',
     Route ''authRequired'' ''POST'' ''/storage/profile_data'' ''HandleProfileDataReplace'',
     Route ''authRequired'' ''POST'' ''/referral'' ''HandleReferralCreate'',
     Route ''authRequired'' ''GET'' ''/referral'' ''HandleReferralGet'',
     Route ''authRequired'' ''PATCH'' ''/referral'' ''HandleReferralEdit'',
     Route ''router'' ''GET'' ''/referral/leaderboard'' ''HandleGetLeaderBoard'',
     Group ''signatureRequired'' ''router'' ''/'',
     Use ''signatureRequired'' M_Auth,
     Use ''signatureRequired'' (M_Metamask TREASURER_ROLE),
     Route ''signatureRequired'' ''POST'' ''/balanceops/withdraw'' ''HandleWithdrawal'',
     Route ''signatureRequired'' ''POST'' ''/balanceops/claim'' ''ClaimWithdrawal'',
     Route ''signatureRequired'' ''DELETE'' ''/balanceops/cancel'' ''CancelWithdrawal'',
     Group ''secretsRoleRequired'' ''router'' ''/'',
     Use ''secretsRoleRequired'' M_Auth,
     Use ''secretsRoleRequired'' (M_Metamask SECRETS_ROLE),
     Route ''secretsRoleRequired'' ''GET'' ''/secrets'' ''HandleListSecrets'',
     Route ''secretsRoleRequired'' ''POST'' ''/secrets'' ''HandleSecretCreate'',
     Route ''secretsRoleRequired'' ''DELETE'' ''/secrets'' ''HandleSecretDelete'',
     Group ''adminAuthRequired'' ''router'' ''/admin'',
     Use ''adminAuthRequired'' M_Auth,
     Use ''adminAuthRequired'' M_AdminAuth,
     Route ''adminAuthRequired'' ''POST'' ''/markets/url'' ''HandleChangeIconUrl'',
     Route ''adminAuthRequired'' ''POST'' ''/markets/title'' ''HandleChangeMarketTitle'',
     Group ''superAdminAuthRequired'' ''router'' ''/super/admin'',
     Use ''superAdminAuthRequired'' M_Auth,
     Use ''superAdminAuthRequired'' M_SuperAdminAuth,
     Route ''superAdminAuthRequired'' ''GET'' ''/tiers'' ''HandleGetTiers'',
     Route ''superAdminAuthRequired'' ''GET'' ''/tiers/special'' ''HandleGetSpecialTiers'',
     Route ''superAdminAuthRequired'' ''GET'' ''/tiers/profile'' ''HandleGetProfileTiers'',
     Route ''superAdminAuthRequired'' ''GET'' ''/tiers/which'' ''HandleWhichTier'',
     Route ''superAdminAuthRequired'' ''POST'' ''/tiers'' ''HandleAddTier'',
     Route ''superAdminAuthRequired'' ''POST'' ''/tiers/special'' ''HandleAddSpecialTier'',
     Route ''superAdminAuthRequired'' ''POST'' ''/tiers/profile'' ''HandleAddProfileTier'',
     Route ''superAdminAuthRequired'' ''POST'' ''/tiers/edit'' ''HandleEditTier'',
     Route ''superAdminAuthRequired'' ''POST'' ''/tiers/special/edit'' ''HandleEditSpecialTier'',
     Route ''superAdminAuthRequired'' ''DELETE'' ''/tiers'' ''HandleRemoveTier'',
     Route ''superAdminAuthRequired'' ''DELETE'' ''/tiers/special'' ''HandleRemoveSpecialTier'',
     Route ''superAdminAuthRequired'' ''DELETE'' ''/tiers/profile'' ''HandleRemoveProfileTier'',
     Group ''jwtSuperAdminRequired'' ''router'' ''/'',
     Use ''jwtSuperAdminRequired'' M_SuperAdminJWT,
     Route ''jwtSuperAdminRequired'' ''POST'' ''/game_assets/blast'' ''HandleGameAssetsBlastPost'',
     Route ''jwtSuperAdminRequired'' ''POST'' ''/game_assets/bfx'' ''HandleGameAssetsBfxPost'']"

record route =
  ro_Method  :: string
  ro_Path    :: string
  ro_Chain   :: "mw list"
  ro_Handler :: string

definition join_path :: "string \<Rightarrow> string \<Rightarrow> string" where
  "join_path prefix path = (if prefix = ''/'' then path else prefix @ path)"

text \<open>The prefix and the middlewares of each group so far, and the routes\<close>

type_synonym route_table = "(string \<rightharpoonup> string \<times> mw list) \<times> route list"

fun register :: "route_table \<Rightarrow> registration \<Rightarrow> route_table" where
  "register (groups, routes) (Use g m) =
     (case groups g of None \<Rightarrow> (groups, routes) | Some (prefix, ms) \<Rightarrow> (groups(g \<mapsto> (prefix, ms @ [m])), routes))"
| "register (groups, routes) (Group g parent path) =
     (case groups parent of None \<Rightarrow> (groups, routes)
      | Some (prefix, ms) \<Rightarrow> (groups(g \<mapsto> (join_path prefix path, ms)), routes))"
| "register (groups, routes) (Route g method path handler) =
     (case groups g of None \<Rightarrow> (groups, routes)
      | Some (prefix, ms) \<Rightarrow>
          (groups, routes @ [\<lparr> ro_Method = method, ro_Path = join_path prefix path, ro_Chain = ms, ro_Handler = handler \<rparr>]))"

definition routes_of :: "registration list \<Rightarrow> route list" where
  "routes_of rs = snd (foldl register ([''router'' \<mapsto> (''/'', [])], []) rs)"

section \<open>Requests\<close>

record compression_config =
  cc_Enabled   :: bool
  cc_MimeTypes :: string

text \<open>The libraries and the configuration the middlewares use\<close>

record server =
  sv_Auth    :: auth_lib
  sv_Wallets :: wallet_lib
  sv_Eth     :: eth_lib
  sv_Signer  :: signer
  sv_Broker  :: "string + unit"
  sv_Config  :: "string + api_config"
  sv_Compression :: compression_config

text \<open>\<^verbatim>\<open>GetRabbitContext\<close> panics before \<^verbatim>\<open>RabbitMiddleware\<close> has stored the context.\<close>

definition GetRabbitContext :: "auth_context option \<Rightarrow> (auth_context \<Rightarrow> ('d, 'b) prog) \<Rightarrow> ('d, 'b) prog" where
  "GetRabbitContext c k = orPanic ''Key context does not exist'' c k"

definition in_context :: "auth_context option \<Rightarrow> (auth_context \<Rightarrow> ('d, auth_context) middleware) \<Rightarrow> ('d, auth_context option option) prog" where
  "in_context c k = GetRabbitContext c (\<lambda>ctx. andThen (k ctx) (\<lambda>r. Return (map_option Some r)))"

text \<open>
  When the configuration cannot be read the client is answered, but the request is not aborted: the
  handlers run all the same. The library that compresses calls them itself.
\<close>

definition CompressionMiddleware ::
  "string + api_config \<Rightarrow> compression_config \<Rightarrow> http_request \<Rightarrow> 'c \<Rightarrow> ('d, 'c option) prog" where
  "CompressionMiddleware config compression rq c =
     (case config of
        Inl e \<Rightarrow> andThen (ErrorResponse e) (\<lambda>_. Return (Some c))
      | Inr _ \<Rightarrow>
          let configMimeTypes = (if cc_Enabled compression then cc_MimeTypes compression else ''application/json'');
              mimeType = rq_Header rq ''Content-Type''
          in if cc_Enabled compression \<and> mimeType \<noteq> '''' \<and> contains_sub configMimeTypes mimeType
             then Call (External ''gzip'' []) (\<lambda>_. Return (Some c))
             else Return (Some c))"

text \<open>
  The context after a middleware, or nothing when it aborted the request. CORS is a library: its
  answer says whether the request may go on. Recovery, logging and the events that analytics sends
  after the answer do not change what a handler sees; analytics reads the clock for a header of the
  answer.
\<close>

fun pass :: "server \<Rightarrow> http_request \<Rightarrow> mw \<Rightarrow> auth_context option \<Rightarrow> ('d, auth_context option option) prog" where
  "pass sv rq M_Rabbit c =
     andThen (RabbitMiddleware (sv_Wallets sv) (sv_Signer sv) (sv_Broker sv) (sv_Config sv) rq)
       (\<lambda>r. Return (map_option Some r))"
| "pass sv rq M_Pagination c = in_context c (\<lambda>ctx. Return (Some (PaginationMiddleware rq ctx)))"
| "pass sv rq M_Cors c = Call (External ''cors'' [VString (rq_Header rq ''Origin'')]) (\<lambda>ans.
     Return (if a_flag ans then Some c else None))"
| "pass sv rq M_Analytics c = now (\<lambda>_. Return (Some c))"
| "pass sv rq M_Compression c = CompressionMiddleware (sv_Config sv) (sv_Compression sv) rq c"
| "pass sv rq M_Auth c = in_context c (AuthMiddleware (sv_Auth sv) (sv_Broker sv) rq)"
| "pass sv rq M_AuthJwt c = in_context c (AuthJwtMiddleware (sv_Auth sv) rq)"
| "pass sv rq (M_Metamask role) c = in_context c
     (MetamaskSignatureMiddleware (sv_Auth sv) (sv_Wallets sv) (sv_Eth sv) (sv_Broker sv) role)"
| "pass sv rq M_AdminAuth c = in_context c AdminAuthMiddleware"
| "pass sv rq M_SuperAdminAuth c = in_context c SuperAdminAuthMiddleware"
| "pass sv rq M_SuperAdminJWT c = in_context c (SuperAdminJWTMiddleware (sv_Auth sv) rq)"
| "pass sv rq _ c = Return (Some c)"

primrec through :: "server \<Rightarrow> http_request \<Rightarrow> mw list \<Rightarrow> auth_context option \<Rightarrow> ('d, auth_context option option) prog" where
  "through sv rq [] c = Return (Some c)"
| "through sv rq (m # ms) c =
     andThen (pass sv rq m c) (\<lambda>r. case r of None \<Rightarrow> Return None | Some c' \<Rightarrow> through sv rq ms c')"

definition serve :: "server \<Rightarrow> http_request \<Rightarrow> mw list \<Rightarrow> (auth_context \<Rightarrow> ('d, unit) prog) \<Rightarrow> ('d, unit) prog" where
  "serve sv rq ms handler =
     andThen (through sv rq ms None) (\<lambda>r. case r of None \<Rightarrow> Return () | Some c \<Rightarrow> GetRabbitContext c handler)"

end
