(* ===== verification/Router_Props.thy ===== *)
theory Router_Props
  imports Router Auth_Examples Api_Withdraw
begin

text \<open>
  What the routes guarantee before a handler runs, and the whole way of a withdrawal: from the
  request over every middleware to the call that creates it.
\<close>

section \<open>The routes\<close>

definition authenticates :: "mw \<Rightarrow> bool" where
  "authenticates m \<longleftrightarrow> (case m of M_Auth \<Rightarrow> True | M_AuthJwt \<Rightarrow> True | M_SuperAdminJWT \<Rightarrow> True | _ \<Rightarrow> False)"

definition withdrawal_chain :: "mw list" where
  "withdrawal_chain = [M_Recovery, M_Logger, M_Rabbit, M_Pagination, M_Analytics, M_Cors, M_Compression, M_Auth,
     M_Metamask TREASURER_ROLE]"

text \<open>gin panics when a method and a path are registered twice; they are not.\<close>

lemma routes_distinct: "distinct (map (\<lambda>r. (ro_Method r, ro_Path r)) (routes_of Router))"
  by code_simp

text \<open>Every route that changes something but those that sign a user in is behind an authentication.\<close>

lemma writes_authenticated:
  "list_all (\<lambda>r. ro_Method r = ''GET'' \<or> ro_Path r = ''/onboarding'' \<or> ro_Path r = ''/jwt'' \<or> list_ex authenticates (ro_Chain r))
     (routes_of Router)"
  by code_simp

text \<open>The handlers that move funds or create secrets are behind a signature of the wallet with the role for it.\<close>

lemma roles_required:
  "list_all (\<lambda>r. (ro_Handler r \<in> set [''HandleWithdrawal'', ''ClaimWithdrawal'', ''CancelWithdrawal''] \<longrightarrow> ro_Chain r = withdrawal_chain) \<and>
       (ro_Handler r \<in> set [''HandleListSecrets'', ''HandleSecretCreate'', ''HandleSecretDelete''] \<longrightarrow>
          last (ro_Chain r) = M_Metamask SECRETS_ROLE) \<and>
       (take 7 (ro_Path r) = ''/admin/'' \<longrightarrow> last (ro_Chain r) = M_AdminAuth) \<and>
       (take 7 (ro_Path r) = ''/super/'' \<longrightarrow> last (ro_Chain r) = M_SuperAdminAuth))
     (routes_of Router)"
  by code_simp

lemma withdrawal_route:
  "list_all (\<lambda>r. ro_Handler r = ''HandleWithdrawal'' \<longrightarrow> ro_Method r = ''POST'' \<and> ro_Path r = ''/balanceops/withdraw'') (routes_of Router)"
  by code_simp

text \<open>
  Renaming a referral code is the one authenticated change with a method the middlewares do not count
  as one: its payload is not signed.
\<close>

lemma patch_is_not_signed:
  "list_ex (\<lambda>r. ro_Method r = ''PATCH'' \<and> ro_Path r = ''/referral'' \<and> ro_Handler r = ''HandleReferralEdit'') (routes_of Router)"
  "list_all (\<lambda>r. ro_Method r \<in> set [''GET'', ''POST'', ''PUT'', ''DELETE''] \<or> ro_Handler r = ''HandleReferralEdit'') (routes_of Router)"
  by code_simp+

lemma patch_needs_no_signature: "rq_Method rq = ''PATCH'' \<Longrightarrow> verify_payload K rq ctx secret = Return (Some ctx)"
  by (simp add: verify_payload_def is_write_def)

text \<open>
  When the configuration cannot be read, the middleware of the compression answers the client and lets
  the request pass: a handler behind it answers a second time.
\<close>

lemma compression_answers_and_passes:
  "sv_Config sv = Inl e \<Longrightarrow> pass sv rq M_Compression c = andThen (ErrorResponse e) (\<lambda>_. Return (Some c))"
  by (simp add: CompressionMiddleware_def)

section \<open>From the request to the handler\<close>

lemma wp_both:
  "wp (\<lambda>_ _. True) Q p h \<Longrightarrow> wp P (\<lambda>_ _. True) p h \<Longrightarrow> wp P Q p h"
  using wp_conj [of "\<lambda>_ _. True" Q p h P "\<lambda>_ _. True"] by simp

lemma wp_then:
  assumes "wp P (\<lambda>_ _. True) p h" "\<And>a h'. wp P (\<lambda>_ _. True) (f a) h'"
  shows "wp P (\<lambda>_ _. True) (andThen p f) h"
  unfolding wp_andThen by (rule wp_mono [OF assms(1)]) (simp add: assms(2) split: outcome.split)

text \<open>No middleware asks for a withdrawal.\<close>

definition quiet :: "'d call_cond" where
  "quiet h c \<longleftrightarrow> (\<forall>ps. c \<noteq> Execute PROFILE_INSTANCE CREATE_WITHDRAWAL ps)"

lemma quiet_calls [simp]:
  "quiet h Clock" "quiet h (External f ps)" "quiet h (Respond r)" "quiet h (id_profile_call pid)"
  "i \<noteq> PROFILE_INSTANCE \<Longrightarrow> quiet h (Execute i f ps)"
  "quiet h (Execute PROFILE_INSTANCE GET_PROFILE_BY_ID ps)" "quiet h (Execute PROFILE_INSTANCE ''profile.is_valid_signer'' ps)"
  by (simp_all add: quiet_def id_profile_call_def)

lemma quiet_RabbitMiddleware: "wp quiet (\<lambda>_ _. True) (RabbitMiddleware W sign broker config rq) h"
proof -
  have "wp quiet (\<lambda>_ _. True) (AddHocSilentChange broker rq cfg) h" for cfg and h :: "'a history"
    by (auto simp: AddHocSilentChange_def Let_def wp_onErr ValidateApiKey_def GetByKey_def split: sum.split outcome.split)
  moreover have "wp quiet (\<lambda>_ _. True) (build_context W sign broker rq cfg ec eid) h" for cfg ec eid and h :: "'a history"
    by (auto simp: build_context_def split: sum.split option.split)
  ultimately show ?thesis
    by (auto simp: RabbitMiddleware_def Let_def intro!: wp_then split: sum.split option.split)
qed

lemma quiet_verify_payload: "wp quiet (\<lambda>_ _. True) (verify_payload K rq ctx secret) h"
  by (auto simp: verify_payload_def wp_onErr Payload_Verify_def split: sum.split outcome.split)

lemma quiet_AuthMiddleware: "wp quiet (\<lambda>_ _. True) (AuthMiddleware K broker rq ctx) h"
  by (auto simp: AuthMiddleware_def cookie_profile_def wp_onErr GetProfileById_def GetByJwt_def GetByKey_def
      ValidateApiKey_def intro!: quiet_verify_payload split: sum.split outcome.split)

lemma quiet_try_signers: "wp quiet (\<lambda>_ _. True) (try_signers K W L broker req w role mts e) h"
proof (induction mts arbitrary: e h)
  case (Cons mt mts)
  have "wp quiet (\<lambda>_ _. True) (checkSigner K W L broker m req w ty role) h" for m ty and h :: "'a history"
    by (auto simp: checkSigner_def wp_onErr IsValidSigner_def split: sum.split outcome.split)
  then show ?case
    by (auto split: sum.split intro!: wp_then intro: Cons)
qed (auto split: option.split)

lemma quiet_VerifyProfile: "wp quiet (\<lambda>_ _. True) (VerifyProfile K W L broker ty req role messages) h"
  by (auto simp: VerifyProfile_def Let_def intro!: quiet_try_signers)

lemma quiet_Metamask: "wp quiet (\<lambda>_ _. True) (MetamaskSignatureMiddleware K W L broker role ctx) h"
  by (auto simp: MetamaskSignatureMiddleware_def wp_onErr split: option.split sum.split outcome.split
      intro!: wp_mono [OF quiet_VerifyProfile])

text \<open>
  The conditions of a withdrawal request: the context \<open>ctx\<close> built from it is well-formed, its
  credentials are those of the profile \<open>p\<close> and have signed its payload, and the profile's wallet, or
  a treasurer of the vault, has signed in (unless the exchange has no message to sign).
\<close>

definition wallet_of :: "auth_context \<Rightarrow> profile \<Rightarrow> verify_request" where
  "wallet_of ctx p = \<lparr> vr_Wallet = pr_Wallet p, vr_Timestamp = rc_PKTimestamp ctx, vr_Signature = rc_PKSignature ctx,
     vr_ProfileType = pr_Type p, vr_EIP712Encoder = ac_EIP712Encoder ctx \<rparr>"

definition signed_in :: "server \<Rightarrow> 'd history \<Rightarrow> auth_context \<Rightarrow> profile \<Rightarrow> bool" where
  "signed_in sv h ctx p \<longleftrightarrow>
     (let messages = ec_OnboardingMessages (ac_ExchangeCfg ctx)
      in messages = [] \<or>
         (\<exists>m \<in> set messages. vouched (sv_Auth sv) (sv_Wallets sv) (sv_Eth sv) (wallet_of ctx p) TREASURER_ROLE h m))"

definition admitted :: "server \<Rightarrow> http_request \<Rightarrow> 'd history \<Rightarrow> auth_context \<Rightarrow> string \<Rightarrow> profile \<Rightarrow> bool" where
  "admitted sv rq h ctx secret p \<longleftrightarrow>
     context_ok (sv_Config sv) rq h ctx \<and> credentials (sv_Auth sv) rq ctx h secret (Some p) \<and>
     (is_write (rq_Method rq) \<longrightarrow> signed_payload (sv_Auth sv) ctx h secret) \<and> signed_in sv h ctx p"

lemma context_ok_pagination: "context_ok config rq h ctx \<Longrightarrow> context_ok config rq h (PaginationMiddleware rq ctx)"
proof -
  assume "context_ok config rq h ctx"
  then have "context_ok config rq h (ctx\<lparr>rc_Pagination := pg\<rparr>)" for pg
    unfolding context_ok_def by (cases "rc_Payload ctx") simp_all
  then show ?thesis
    by (simp add: PaginationMiddleware_def Let_def)
qed

lemma context_ok_later: "context_ok config rq h ctx \<Longrightarrow> set h \<subseteq> set h' \<Longrightarrow> context_ok config rq h' ctx"
  by (auto simp: context_ok_def)

lemma context_ok_extends: "context_ok config rq h ctx \<Longrightarrow> extends P h h' \<Longrightarrow> context_ok config rq h' ctx"
  by (rule context_ok_later [OF _ extends_set])

lemma credentials_mono:
  assumes "credentials K rq ctx h secret profile" "extends P h h'"
  shows "credentials K rq ctx h' secret profile"
  using assms(2,1) by (induction rule: extends.induct) (auto intro: credentials_later)

lemma signed_payload_later: "signed_payload K ctx h secret \<Longrightarrow> set h \<subseteq> set h' \<Longrightarrow> signed_payload K ctx h' secret"
  by (auto simp: signed_payload_def)

lemma wp_Metamask:
  assumes "rc_Profile ctx = Some p"
  shows "wp (\<lambda>_ _. True)
     (\<lambda>h r. \<forall>c. r = Done (Some c) \<longrightarrow> c = ctx\<lparr>rc_RequiredRole := TREASURER_ROLE\<rparr> \<and> signed_in sv h ctx p)
     (MetamaskSignatureMiddleware (sv_Auth sv) (sv_Wallets sv) (sv_Eth sv) (sv_Broker sv) TREASURER_ROLE ctx) h0"
proof (cases "ec_OnboardingMessages (ac_ExchangeCfg ctx) = []")
  case True
  then show ?thesis
    by (auto simp: MetamaskSignatureMiddleware_def signed_in_def wp_onErr assms split: option.split sum.split outcome.split
        intro!: wp_mono [OF wp_trivial])
next
  case False
  note signers = wp_VerifyProfile [OF False, where req = "wallet_of ctx p" and role = TREASURER_ROLE]
  show ?thesis
    unfolding MetamaskSignatureMiddleware_def
    by (auto simp: signed_in_def Let_def wp_onErr assms wallet_of_def [symmetric] split: option.split sum.split outcome.split
        intro!: wp_mono [OF signers])
qed

text \<open>Two parts of a run: what the second does after the first is a run of its own.\<close>

lemma run_after: "run E p (own @ h) = (let (h', r) = run (\<lambda>g. E (g @ h)) p own in (h' @ h, r))"
proof (induction p arbitrary: own)
  case (Call c k)
  then show ?case
    using Call.IH [of "k (E (own @ h) c)" "(c, E (own @ h) c) # own"] by simp
qed simp_all

lemma split_history:
  assumes "post @ x # pre = own @ seen"
  shows "(\<exists>own'. own = post @ x # own' \<and> pre = own' @ seen) \<or> (\<exists>post'. seen = post' @ x # pre)"
  using assms by (auto simp: append_eq_append_conv2 Cons_eq_append_conv)

text \<open>A request that reaches its handler through the middlewares of the withdrawals is admitted.\<close>

definition passed :: "server \<Rightarrow> http_request \<Rightarrow> 'd history \<Rightarrow> auth_context option option outcome \<Rightarrow> bool" where
  "passed sv rq h r \<longleftrightarrow> (\<forall>c. r = Done (Some c) \<longrightarrow>
     (\<exists>ctx secret p. admitted sv rq h ctx secret p \<and>
        c = Some (ctx\<lparr>rc_Profile := Some p, rc_RequiredRole := TREASURER_ROLE\<rparr>)))"

lemma passed_other [simp]: "passed sv rq h (Done None)" "passed sv rq h (Panicked m)"
  by (simp_all add: passed_def)

lemma passedI:
  assumes "extends P h0 h" "context_ok (sv_Config sv) rq h0 ctx" "credentials (sv_Auth sv) rq ctx h0 secret (Some p)"
    and "is_write (rq_Method rq) \<longrightarrow> signed_payload (sv_Auth sv) ctx h0 secret" "signed_in sv h ctx p"
  shows "passed sv rq h (Done (Some (Some (ctx\<lparr>rc_Profile := Some p, rc_RequiredRole := TREASURER_ROLE\<rparr>))))"
proof -
  have "set h0 \<subseteq> set h"
    by (rule extends_set [OF assms(1)])
  then have "admitted sv rq h ctx secret p"
    using assms(4,5) by (auto simp: admitted_def intro: context_ok_later [OF assms(2)] credentials_mono [OF assms(3,1)]
        signed_payload_later)
  then show ?thesis
    unfolding passed_def by blast
qed

lemma wp_role_pass:
  assumes "context_ok (sv_Config sv) rq h0 ctx" "credentials (sv_Auth sv) rq ctx h0 secret profile"
    and "is_write (rq_Method rq) \<longrightarrow> signed_payload (sv_Auth sv) ctx h0 secret"
  shows "wp quiet (passed sv rq) (through sv rq [M_Metamask TREASURER_ROLE] (Some (ctx\<lparr>rc_Profile := profile\<rparr>))) h0"
proof (cases profile)
  case None
  have "wp quiet (passed sv rq) (Call c (\<lambda>_. Panic m)) h0" if "quiet h0 c" for c m
    using that by simp
  then show ?thesis
    by (auto simp: None in_context_def GetRabbitContext_def MetamaskSignatureMiddleware_def wp_andThen split: option.split)
next
  case (Some p)
  let ?ctx = "ctx\<lparr>rc_Profile := Some p\<rparr>"
  have "signed_in sv h ?ctx p = signed_in sv h ctx p" for h :: "'a history"
    by (simp add: signed_in_def wallet_of_def)
  moreover note wp_both [OF wp_Metamask [of ?ctx p sv h0] quiet_Metamask]
  ultimately show ?thesis
    unfolding Some through.simps pass.simps in_context_def GetRabbitContext_def wp_andThen wp_orPanic
    by (auto split: option.split outcome.split elim!: wp_mono intro!: passedI [OF _ assms(1) assms(2) [unfolded Some] assms(3)])
qed

lemma wp_admission: "wp quiet (passed sv rq) (through sv rq withdrawal_chain None) h0"
proof -
  let ?rest = "[M_Analytics, M_Cors, M_Compression, M_Auth, M_Metamask TREASURER_ROLE]"
  have late: "wp quiet (passed sv rq) (through sv rq [M_Auth, M_Metamask TREASURER_ROLE] (Some ctx)) h"
    if "context_ok (sv_Config sv) rq h ctx" for ctx and h :: "'a history"
  proof -
    note auth = wp_both [OF wp_AuthMiddleware [of "sv_Auth sv" rq ctx "sv_Broker sv" h] quiet_AuthMiddleware]
    show ?thesis
      unfolding through.simps(2) [of _ _ M_Auth] pass.simps in_context_def GetRabbitContext_def wp_andThen wp_orPanic
      by (auto split: option.split outcome.split simp: let_through_def simp del: through.simps
          intro!: wp_mono [OF auth] wp_role_pass context_ok_extends [OF that])
  qed
  have auth: "wp quiet (passed sv rq) (through sv rq ?rest (Some ctx)) h"
    if "context_ok (sv_Config sv) rq h ctx" for ctx and h :: "'a history"
  proof -
    have config: "sv_Config sv = Inr (ac_Config ctx)"
      using that by (simp add: context_ok_def)
    have passes: "wp quiet (passed sv rq) (through sv rq [M_Compression, M_Auth, M_Metamask TREASURER_ROLE] (Some ctx)) h'"
      if "context_ok (sv_Config sv) rq h' ctx" for h' :: "'a history"
      unfolding through.simps(2) [of _ _ M_Compression] pass.simps CompressionMiddleware_def config sum.case Let_def wp_andThen
      by (auto simp del: through.simps intro!: late context_ok_later [OF that])
    show ?thesis
      unfolding through.simps(2) [of _ _ M_Analytics] through.simps(2) [of _ _ M_Cors] pass.simps now_def wp_andThen
      by (auto simp del: through.simps intro!: passes context_ok_later [OF that])
  qed
  note rabbit = wp_both [OF wp_RabbitMiddleware quiet_RabbitMiddleware]
  show ?thesis
    unfolding withdrawal_chain_def
    by (auto simp: through.simps(2) [of sv rq M_Recovery] through.simps(2) [of sv rq M_Logger]
        through.simps(2) [of sv rq M_Rabbit] through.simps(2) [of sv rq M_Pagination]
        wp_andThen in_context_def GetRabbitContext_def simp del: through.simps
        split: option.split outcome.split intro!: wp_mono [OF rabbit] auth context_ok_pagination)
qed



section \<open>The way of a withdrawal\<close>


section \<open>An example\<close>

text \<open>
  A withdrawal of the examples on its whole way: a trader's request with an API key, a signed payload
  and the signature of the wallet passes every middleware, and the withdrawal is created.
\<close>

definition withdraw_request :: http_request where
  "withdraw_request = \<lparr> rq_Method = ''POST'', rq_FullPath = ''/balanceops/withdraw'',
     rq_Header = (\<lambda>name. if name \<in> {''RBT-TS'', ''RBT-PK-TS''} then ''1710000100''
       else if name \<in> {''RBT-SIGNATURE'', ''RBT-PK-SIGNATURE''} then ''0xfe''
       else if name = ''RBT-API-KEY'' then ''key'' else ''''),
     rq_Cookie = (\<lambda>_. Inl ''no cookie''), rq_Query = (\<lambda>_. None), rq_Body = Inr [] \<rparr>"

definition demo_server :: server where
  "demo_server = \<lparr> sv_Auth = demo_auth, sv_Wallets = demo_wallets, sv_Eth = demo_lib,
     sv_Signer = (\<lambda>_ _ _. Inr ('''', '''', 0)), sv_Broker = Inr (), sv_Config = Inr demo_config,
     sv_Compression = \<lparr> cc_Enabled = True, cc_MimeTypes = ''application/json'' \<rparr> \<rparr>"

fun stack_answer :: "rat call \<Rightarrow> rat answer" where
  "stack_answer (Execute i fn ps) =
     (answer_with (BRows [(if fn \<in> {''api_secret_by_key'', GET_PROFILE_BY_ID} then auth_value fn else demo_value fn, '''')]))
       \<lparr>a_time := 1710000000000000000\<rparr>"
| "stack_answer _ = (answer_with (BRows [])) \<lparr>a_time := 1710000000000000000, a_flag := True\<rparr>"

definition stack_env :: "rat env" where
  "stack_env h c = stack_answer c"

lemma stack_env_simps [simp]:
  "a_time (stack_env h c) = 1710000000000000000"
  "a_reply (stack_env h (Execute i fn ps)) =
     BRows [(if fn \<in> {''api_secret_by_key'', GET_PROFILE_BY_ID} then auth_value fn else demo_value fn, '''')]"
  "a_flag (stack_env h (External f ps))"
  "a_error (stack_env h c) = None"
  by (cases c; simp add: stack_env_def answer_with_def)+

lemma withdraw_request_simps [simp]:
  "rq_Method withdraw_request = ''POST''" "rq_FullPath withdraw_request = ''/balanceops/withdraw''"
  "rq_Body withdraw_request = Inr []" "rq_Query withdraw_request q = None"
  "rq_Header withdraw_request ''RBT-TS'' = ''1710000100''" "rq_Header withdraw_request ''RBT-PK-TS'' = ''1710000100''"
  "rq_Header withdraw_request ''RBT-SIGNATURE'' = ''0xfe''" "rq_Header withdraw_request ''RBT-PK-SIGNATURE'' = ''0xfe''"
  "rq_Header withdraw_request ''RBT-API-KEY'' = ''key''" "rq_Header withdraw_request ''EID'' = ''''"
  "rq_Header withdraw_request ''Content-Type'' = ''''" "rq_Header withdraw_request ''X-Forwarded-For'' = ''''" "rq_Header withdraw_request ''Origin'' = ''''"
  by (simp_all add: withdraw_request_def)

lemma demo_server_simps [simp]:
  "sv_Auth demo_server = demo_auth" "sv_Wallets demo_server = demo_wallets" "sv_Eth demo_server = demo_lib"
  "sv_Broker demo_server = Inr ()" "sv_Config demo_server = Inr demo_config"
  by (simp_all add: demo_server_def)

lemma withdraw_headers [simp]:
  "timestamp_header withdraw_request ''RBT-TS'' = Inr 1710000100"
  "timestamp_header withdraw_request ''RBT-PK-TS'' = Inr 1710000100"
  "extractPayload withdraw_request 1710000100 =
     Inr (Some \<lparr> pl_Timestamp = 1710000100, pl_Data = [(''path'', ''/balanceops/withdraw''), (''method'', ''POST'')] \<rparr>)"
  by (simp_all add: timestamp_header_def ParseInt64_def parse_nat_def digit_value_def Let_def extractPayload_def is_write_def
      NewPayload_def put_key_def requiredKeys_def)

definition withdraw_context :: auth_context where
  "withdraw_context = EnrichContextMeta withdraw_request
     (context_of demo_wallets (sv_Signer demo_server) withdraw_request demo_config demo_exchange ''rbx'' 1710000100
        (Some \<lparr> pl_Timestamp = 1710000100, pl_Data = [(''path'', ''/balanceops/withdraw''), (''method'', ''POST'')] \<rparr>) 1710000100)"

lemma demo_context_built:
  "\<exists>h'. run stack_env (RabbitMiddleware demo_wallets (sv_Signer demo_server) (Inr ()) (Inr demo_config) withdraw_request) h =
     (h', Done (Some withdraw_context))"
  by (simp add: RabbitMiddleware_def AddHocSilentChange_def ValidateApiKey_def GetByKey_def adhoc_profile_def build_context_def
      service_def check_timestamp_def SignatureLifetime_def int64_def auth_run_defs to_lower_def withdraw_context_def demo_secret_def)

lemma withdraw_context_simps [simp]:
  "rc_MarketMakerAPIKey withdraw_context = ''key''" "rc_Signature withdraw_context = ''0xfe''"
  "rc_PKSignature withdraw_context = ''0xfe''" "rc_PKTimestamp withdraw_context = 1710000100"
  "rc_Payload withdraw_context =
     Some \<lparr> pl_Timestamp = 1710000100, pl_Data = [(''path'', ''/balanceops/withdraw''), (''method'', ''POST'')] \<rparr>"
  "ac_Config withdraw_context = demo_config" "ac_ExchangeCfg withdraw_context = demo_exchange"
  "rc_ExchangeId withdraw_context = ''rbx''" "rc_IPHeader withdraw_context = ''''"
  by (simp_all add: withdraw_context_def EnrichContextMeta_def context_of_def Let_def)

definition paged_context :: auth_context where
  "paged_context = PaginationMiddleware withdraw_request withdraw_context"

lemma paged_context_simps [simp]:
  "rc_MarketMakerAPIKey paged_context = ''key''" "rc_Signature paged_context = ''0xfe''"
  "rc_PKSignature paged_context = ''0xfe''" "rc_PKTimestamp paged_context = 1710000100"
  "rc_Payload paged_context =
     Some \<lparr> pl_Timestamp = 1710000100, pl_Data = [(''path'', ''/balanceops/withdraw''), (''method'', ''POST'')] \<rparr>"
  "ac_Config paged_context = demo_config" "ac_ExchangeCfg paged_context = demo_exchange"
  "rc_ExchangeId paged_context = ''rbx''" "rc_IPHeader paged_context = ''''"
  by (simp_all add: paged_context_def PaginationMiddleware_def Let_def)

lemma demo_authenticated:
  "\<exists>h'. run stack_env (AuthMiddleware demo_auth (Inr ()) withdraw_request paged_context) h =
     (h', Done (Some (paged_context\<lparr>rc_Profile := Some demo_trader\<rparr>)))"
proof -
  have fresh: "run stack_env (Payload_Verify demo_auth p ''0xfe'' secret env) g =
     ((Clock, stack_env g Clock) # g,
      Done (if 1710000000 < pl_Timestamp p then Inr () else Inl (ExpiredSignatureError (pl_Timestamp p) 1710000000)))" for p secret env g
    by (simp add: Payload_Verify_def now_unix_def now_def unix_def)
  show ?thesis
    by (simp add: AuthMiddleware_def ValidateApiKey_def GetByKey_def GetProfileById_def verify_payload_def
        auth_run_defs fresh)
qed

lemma demo_role_checked:
  "\<exists>h'. run stack_env (MetamaskSignatureMiddleware demo_auth demo_wallets demo_lib (Inr ()) TREASURER_ROLE
       (paged_context\<lparr>rc_Profile := Some demo_trader\<rparr>)) h =
     (h', Done (Some (paged_context\<lparr>rc_Profile := Some demo_trader, rc_RequiredRole := TREASURER_ROLE\<rparr>)))"
proof -
  show ?thesis
    by (simp add: MetamaskSignatureMiddleware_def VerifyProfile_def combinations_def checkSigner_def RecoverSigner_def
        check_timestamp_def SignatureLifetime_def int64_def demo_exchange_def auth_run_defs)
qed

lemma demo_passed:
  "\<exists>h. run stack_env (through demo_server withdraw_request withdrawal_chain None) [] =
     (h, Done (Some (Some (paged_context\<lparr>rc_Profile := Some demo_trader, rc_RequiredRole := TREASURER_ROLE\<rparr>))))"
proof -
  obtain h1 where "run stack_env (RabbitMiddleware demo_wallets (sv_Signer demo_server) (Inr ()) (Inr demo_config) withdraw_request) [] =
      (h1, Done (Some withdraw_context))"
    using demo_context_built by blast
  moreover obtain h2 where "run stack_env (AuthMiddleware demo_auth (Inr ()) withdraw_request paged_context)
      ((External ''cors'' [VString ''''], stack_env ((Clock, stack_env h1 Clock) # h1) (External ''cors'' [VString ''''])) #
        (Clock, stack_env h1 Clock) # h1) =
      (h2, Done (Some (paged_context\<lparr>rc_Profile := Some demo_trader\<rparr>)))"
    using demo_authenticated by blast
  moreover obtain h3 where "run stack_env (MetamaskSignatureMiddleware demo_auth demo_wallets demo_lib (Inr ()) TREASURER_ROLE
       (paged_context\<lparr>rc_Profile := Some demo_trader\<rparr>)) h2 =
     (h3, Done (Some (paged_context\<lparr>rc_Profile := Some demo_trader, rc_RequiredRole := TREASURER_ROLE\<rparr>)))"
    using demo_role_checked by blast
  ultimately show ?thesis
    by (simp add: withdrawal_chain_def run_andThen now_def CompressionMiddleware_def in_context_def GetRabbitContext_def orPanic_def paged_context_def [symmetric])
qed

text \<open>The rest of the way, with the call that creates the withdrawal behind three others\<close>

lemma demo_withdrawal_made:
  assumes "rc_Profile ctx = Some demo_trader" "rc_ExchangeId ctx = ''rbx''"
  shows "\<exists>a b c ans own. run stack_env (HandleWithdrawal rat_lib ctx (Inr (Finite False 5))) h =
     ([a, b, c] @ (Execute PROFILE_INSTANCE CREATE_WITHDRAWAL [VUint 7, VString ''0xab'', VDecimal 5, VString ''rbx''], ans) # own, Done ())"
  using assms by (simp add: HandleWithdrawal_def withdraw_locked_def request_defs demo_run_defs)

text \<open>The route of the withdrawals\<close>

definition withdraw_route :: route where
  "withdraw_route = \<lparr> ro_Method = ''POST'', ro_Path = ''/balanceops/withdraw'', ro_Chain = withdrawal_chain,
     ro_Handler = ''HandleWithdrawal'' \<rparr>"

lemma withdraw_route_there: "withdraw_route \<in> set (routes_of Router)"
proof -
  have "list_ex (\<lambda>r. ro_Method r = ''POST'' \<and> ro_Path r = ''/balanceops/withdraw'' \<and> ro_Chain r = withdrawal_chain \<and>
      ro_Handler r = ''HandleWithdrawal'') (routes_of Router)"
    by code_simp
  then obtain r where r: "r \<in> set (routes_of Router)" "ro_Method r = ''POST''" "ro_Path r = ''/balanceops/withdraw''"
      "ro_Chain r = withdrawal_chain" "ro_Handler r = ''HandleWithdrawal''"
    by (auto simp: list_ex_iff)
  then have "r = withdraw_route"
    by (simp add: withdraw_route_def)
  with r(1) show ?thesis
    by simp
qed


end
