(* ===== verification/Settlement_Start.thy ===== *)
theory Settlement_Start
  imports Settlement Api_Auth Sql
begin

text \<open>
  How the settlement starts (\<^verbatim>\<open>settlement/settlement_service.go\<close>, \<^verbatim>\<open>settlement/ethereum_handler.go\<close>,
  \<^verbatim>\<open>settlement/config.go\<close>): the handlers are made from the configuration, one per exchange contract,
  and each gets its goroutines for deposits, withdrawals and yields. The texts of the contract
  interfaces are generated code: the events they define are a parameter, as are keys and addresses.
\<close>

section \<open>The configuration of a handler\<close>

record eth_handler_cfg =
  hc_ExchangeId           :: string
  hc_ChainId              :: nat
  hc_ExchangeAddress      :: string
  hc_DepositAddress       :: string
  hc_ProviderUrl          :: string
  hc_DefaultFromBlock     :: string
  hc_DepositInterval      :: string
  hc_WithdrawalInterval   :: string
  hc_WithdrawalBlockDelay :: string
  hc_ConfirmationBlocks   :: string
  hc_CancelInterval       :: string
  hc_ProcessYield         :: bool
  hc_ProcessYieldInterval :: string
  hc_ClaimerPk            :: string
  hc_Vaults               :: "string list"
  hc_Decimals             :: int

text \<open>
  The events of the four interfaces as \<^verbatim>\<open>abi.JSON\<close> reads them, in the order their map is ranged
  over, and the address of a private key (\<^verbatim>\<open>HexToECDSA\<close>, then \<^verbatim>\<open>PubkeyToAddress\<close>)
\<close>

type_synonym abi_events = "(string \<times> 256 word) list"

record contracts_lib =
  cl_bfx     :: "string + abi_events"
  cl_rabbit  :: "string + abi_events"
  cl_deposit :: "string + abi_events"
  cl_vault   :: "string + abi_events"
  cl_wallet  :: "string \<Rightarrow> string + 160 word"

section \<open>A handler\<close>

definition without_0x :: "string \<Rightarrow> string" where
  "without_0x s = (if has_prefix s ''0x'' then drop 2 s else s)"

text \<open>Of the vaults only those written with \<^verbatim>\<open>0x\<close> are kept.\<close>

definition vaults_of :: "eth_lib \<Rightarrow> string list \<Rightarrow> 160 word list" where
  "vaults_of L addresses = map (\<lambda>a. el_to_address L (drop 2 a)) (filter (\<lambda>a. has_prefix a ''0x'') addresses)"

text \<open>The loop over the events of the exchange, which stops when all it needs are found\<close>

record exchange_ids =
  ei_withdrawal :: "256 word option"
  ei_deposit    :: "256 word option"
  ei_yield      :: "256 word option"

definition no_ids :: exchange_ids where
  "no_ids = \<lparr> ei_withdrawal = None, ei_deposit = None, ei_yield = None \<rparr>"

definition see_event :: "string \<times> 256 word \<Rightarrow> exchange_ids \<Rightarrow> exchange_ids" where
  "see_event ev ids =
     (if fst ev = ''WithdrawalReceipt'' then ids\<lparr>ei_withdrawal := Some (snd ev)\<rparr>
      else if fst ev = ''Deposit'' then ids\<lparr>ei_deposit := Some (snd ev)\<rparr>
      else if fst ev = ''ClaimedYield'' then ids\<lparr>ei_yield := Some (snd ev)\<rparr>
      else ids)"

definition all_seen :: "bool \<Rightarrow> exchange_ids \<Rightarrow> bool" where
  "all_seen claimYield ids \<longleftrightarrow>
     ei_withdrawal ids \<noteq> None \<and> ei_deposit ids \<noteq> None \<and> (ei_yield ids \<noteq> None \<or> \<not> claimYield)"

fun scan_events :: "bool \<Rightarrow> abi_events \<Rightarrow> exchange_ids \<Rightarrow> exchange_ids" where
  "scan_events claimYield [] ids = ids"
| "scan_events claimYield (ev # evs) ids =
     (let ids = see_event ev ids in if all_seen claimYield ids then ids else scan_events claimYield evs ids)"

definition hash_or_zero :: "256 word option \<Rightarrow> 256 word" where
  "hash_or_zero x = (case x of None \<Rightarrow> 0 | Some w \<Rightarrow> w)"

definition handler_wallet :: "contracts_lib \<Rightarrow> string \<Rightarrow> bool \<Rightarrow> string + 160 word" where
  "handler_wallet C pkStr claimYield =
     (if pkStr \<noteq> '''' \<and> claimYield
      then case cl_wallet C pkStr of
             Inl e \<Rightarrow> Inl (''error: <'' @ e @ ''> parsing private key: '' @ pkStr)
           | Inr w \<Rightarrow> Inr w
      else Inr 0)"

definition NewEthereumHandler ::
  "contracts_lib \<Rightarrow> eth_lib \<Rightarrow> string \<Rightarrow> string \<Rightarrow> int \<Rightarrow> string list \<Rightarrow> string \<Rightarrow> string \<Rightarrow> int \<Rightarrow> int \<Rightarrow> int \<Rightarrow> int \<Rightarrow>
   bool \<Rightarrow> string \<Rightarrow> nat \<Rightarrow> string + eth_handler" where
  "NewEthereumHandler C L exchange_address deposit_address decimals vault_addresses providerUrl pkStr
     withdrawalBlockDelay defaultFromBlock blockConfirmations cancelInterval claimYield exchangeId chainId =
     (case (if chainId \<in> {BLAST_CHAIN_ID, BLAST_SEPOLIA_CHAIN_ID} then cl_bfx C else cl_rabbit C) of
        Inl e \<Rightarrow> Inl (''error retrieving L1 Rabbit contract ABI: '' @ e)
      | Inr events \<Rightarrow>
      let ids = scan_events claimYield events no_ids
      in if ei_withdrawal ids = None then Inl ''rabbit ABI does not define an event named WithdrawalReceipt''
         else if ei_deposit ids = None then Inl ''rabbit ABI does not define an event named Deposit''
         else if claimYield \<and> ei_yield ids = None then Inl ''rabbit ABI does not define an event named ClaimedYield''
         else case cl_deposit C of
           Inl e \<Rightarrow> Inl (''errror retrieving L1 PoolDeposit contract ABI: '' @ e)
         | Inr depositEvents \<Rightarrow>
         case map_of depositEvents ''Deposit'' of
           None \<Rightarrow> Inl ''deposit ABI does not define an event named Deposit''
         | Some proxyDepositID \<Rightarrow>
         case cl_vault C of
           Inl e \<Rightarrow> Inl (''errror retrieving Vault contract ABI: '' @ e)
         | Inr vaultEvents \<Rightarrow>
         case map_of vaultEvents ''Stake'' of
           None \<Rightarrow> Inl ''vault ABI does not define an event named Stake''
         | Some vaultStakeID \<Rightarrow>
         case handler_wallet C pkStr claimYield of
           Inl e \<Rightarrow> Inl e
         | Inr wallet \<Rightarrow>
           Inr \<lparr> eh_deposit_address = el_to_address L deposit_address,
                 eh_exchange_address = el_to_address L (without_0x exchange_address),
                 eh_decimals = decimals, eh_vaults = vaults_of L vault_addresses, eh_providerUrl = providerUrl,
                 eh_walletAddress = wallet,
                 eh_withdrawalReceiptID = hash_or_zero (ei_withdrawal ids), eh_rabbitDepositID = hash_or_zero (ei_deposit ids),
                 eh_proxyDepositID = proxyDepositID, eh_vaultStakeID = vaultStakeID,
                 eh_claimedYieldID = hash_or_zero (ei_yield ids),
                 eh_withdrawalBlockDelay = withdrawalBlockDelay, eh_defaultFromBlock = defaultFromBlock,
                 eh_blockConfirmations = blockConfirmations, eh_cancelInterval = seconds cancelInterval,
                 eh_claimYield = claimYield, eh_exchangeId = exchangeId, eh_chainId = chainId \<rparr>)"

section \<open>The service\<close>

text \<open>\<^verbatim>\<open>EthHandler\<close>, its intervals in nanoseconds\<close>

record service_handler =
  sh_ethereumHandler      :: eth_handler
  sh_cfg                  :: eth_handler_cfg
  sh_depositInterval      :: int
  sh_withdrawalInterval   :: int
  sh_processYieldInterval :: int

text \<open>The part of the constructor's loop after Tarantool knows the contract\<close>

definition service_handler_of :: "contracts_lib \<Rightarrow> eth_lib \<Rightarrow> eth_handler_cfg \<Rightarrow> string + service_handler" where
  "service_handler_of C L config =
     (case ParseInt64 (hc_DepositInterval config) of
        Inl e \<Rightarrow> Inl (''exchange_id='' @ hc_ExchangeId config @ '' can't read settlement deposit interval err='' @ e)
      | Inr depositSeconds \<Rightarrow>
      case ParseInt64 (hc_WithdrawalInterval config) of
        Inl e \<Rightarrow> Inl (''can't read settlement deposit interval err='' @ e)
      | Inr withdrawalSeconds \<Rightarrow>
      case parse_int (hc_WithdrawalBlockDelay config) of
        None \<Rightarrow> Inl (''error parsing withdrawalBlockDelay: '' @ hc_WithdrawalBlockDelay config)
      | Some withdrawalBlockDelay \<Rightarrow>
      case parse_int (hc_DefaultFromBlock config) of
        None \<Rightarrow> Inl (''error parsing defaultfromBlock: '' @ hc_DefaultFromBlock config)
      | Some defaultFromBlock \<Rightarrow>
      case parse_int (hc_ConfirmationBlocks config) of
        None \<Rightarrow> Inl (''error parsing confirmation blocks: '' @ hc_ConfirmationBlocks config)
      | Some blockConfirmations \<Rightarrow>
      if blockConfirmations \<le> 0 then Inl (''error blockConfirmations amount: '' @ hc_ConfirmationBlocks config)
      else case ParseInt64 (hc_CancelInterval config) of
        Inl e \<Rightarrow> Inl (''error '' @ e @ '' parsing cancel interval: '' @ hc_CancelInterval config)
      | Inr cancelInterval \<Rightarrow>
      case (if hc_ProcessYield config then map_sum id seconds (ParseInt64 (hc_ProcessYieldInterval config)) else Inr 0) of
        Inl e \<Rightarrow> Inl (''error '' @ e @ '' parsing processYield interval: '' @ hc_ProcessYieldInterval config)
      | Inr processYieldInterval \<Rightarrow>
      case NewEthereumHandler C L (to_lower (hc_ExchangeAddress config)) (to_lower (hc_DepositAddress config))
          (hc_Decimals config) (hc_Vaults config) (hc_ProviderUrl config) (hc_ClaimerPk config)
          withdrawalBlockDelay defaultFromBlock blockConfirmations cancelInterval
          (hc_ProcessYield config) (hc_ExchangeId config) (hc_ChainId config) of
        Inl e \<Rightarrow> Inl (''can't create Ethereum handler err='' @ e)
      | Inr eh \<Rightarrow>
          Inr \<lparr> sh_ethereumHandler = eh, sh_cfg = config, sh_depositInterval = seconds depositSeconds,
                sh_withdrawalInterval = seconds withdrawalSeconds, sh_processYieldInterval = processYieldInterval \<rparr>)"

text \<open>The configurations in the order of the map, the handlers by the address of their exchange contract\<close>

primrec construct_handlers ::
  "contracts_lib \<Rightarrow> eth_lib \<Rightarrow> eth_handler_cfg list \<Rightarrow> (string \<rightharpoonup> service_handler) \<Rightarrow>
   ('d, string + (string \<rightharpoonup> service_handler)) prog" where
  "construct_handlers C L [] handlers = Return (Inr handlers)"
| "construct_handlers C L (config # rest) handlers =
     onErr (AddContractMap (to_lower (hc_ExchangeAddress config)) (hc_ChainId config) (to_lower (hc_ExchangeId config)))
       (\<lambda>e. Return (Inl e)) (\<lambda>_.
     case service_handler_of C L config of
       Inl e \<Rightarrow> Return (Inl e)
     | Inr sh \<Rightarrow> construct_handlers C L rest (handlers(hc_ExchangeAddress config \<mapsto> sh)))"

definition ConstructSettlementService ::
  "contracts_lib \<Rightarrow> eth_lib \<Rightarrow> eth_handler_cfg list \<Rightarrow> ('d, string + (string \<rightharpoonup> service_handler)) prog" where
  "ConstructSettlementService C L handlerCfgs = construct_handlers C L handlerCfgs Map.empty"

definition NewSettlementService ::
  "contracts_lib \<Rightarrow> eth_lib \<Rightarrow> eth_handler_cfg list \<Rightarrow> ('d, string + (string \<rightharpoonup> service_handler)) prog" where
  "NewSettlementService C L handlerCfgs =
     onErr (sql_exec ''GetBroker'' [])
       (\<lambda>e. Return (Inl (''error obtaining Tarantool broker: '' @ e)))
       (\<lambda>_. ConstructSettlementService C L handlerCfgs)"

section \<open>The goroutines\<close>

text \<open>A pause ends after its time or when the service is stopped; in both cases the goroutine goes on.\<close>

definition pause :: "int \<Rightarrow> ('d, unit) prog" where
  "pause duration = Call (External ''pause'' [VInt duration]) (\<lambda>_. Return ())"

datatype goroutine =
    Deposits service_handler
  | Withdrawals service_handler int    \<comment> \<open>with the delay of its start\<close>
  | Yields service_handler int

text \<open>A round ends the loop of the model only when a scan in it ran out of its fuel.\<close>

definition settle_round :: "('d, unit option) prog \<Rightarrow> unit \<Rightarrow> ('d, unit + unit) prog" where
  "settle_round p s = andThen p (\<lambda>r. Return (case r of None \<Rightarrow> Inl () | Some _ \<Rightarrow> Inr ()))"

definition yield_round :: "'d dec_lib \<Rightarrow> eth_lib \<Rightarrow> eth_handler \<Rightarrow> nat \<Rightarrow> ('d, unit option) prog" where
  "yield_round D L eh fuel =
     andThen (Settlement.ClaimYield L eh fuel) (\<lambda>r. case r of
         None \<Rightarrow> Return None
       | Some _ \<Rightarrow>
     andThen (pause (5 * 60 * 1000000000)) (\<lambda>_. DistributeYield D L eh fuel))"

primrec go_run :: "'d dec_lib \<Rightarrow> eth_lib \<Rightarrow> nat \<Rightarrow> nat \<Rightarrow> goroutine \<Rightarrow> ('d, (unit, unit) ticking) prog" where
  "go_run D L n fuel (Deposits h) =
     new_ticker (sh_depositInterval h) (ticks n (settle_round (ProcessDepositsAndStaking D L (sh_ethereumHandler h) fuel)) ())"
| "go_run D L n fuel (Withdrawals h delay) =
     andThen (pause delay) (\<lambda>_.
     new_ticker (sh_withdrawalInterval h) (ticks n (settle_round (ProcessWithdrawal D L (sh_ethereumHandler h) fuel)) ()))"
| "go_run D L n fuel (Yields h delay) =
     andThen (pause delay) (\<lambda>_.
     andThen (yield_round D L (sh_ethereumHandler h) fuel) (\<lambda>r. case r of
         None \<Rightarrow> Return (Ended ())
       | Some _ \<Rightarrow> new_ticker (sh_processYieldInterval h)
                     (ticks n (settle_round (yield_round D L (sh_ethereumHandler h) fuel)) ())))"

definition start_delays :: "service_handler \<Rightarrow> int \<times> int" where
  "start_delays handler =
     (let withdrawalStartDelay =
            (if sh_depositInterval handler > sh_withdrawalInterval handler then sh_withdrawalInterval handler sdiv 2
             else sh_depositInterval handler sdiv 2)
      in (withdrawalStartDelay, int64 (withdrawalStartDelay * 3) sdiv 2))"

definition goroutines_of :: "service_handler \<Rightarrow> goroutine list" where
  "goroutines_of handler =
     (case start_delays handler of (withdrawals, yields) \<Rightarrow>
        [Deposits handler, Withdrawals handler withdrawals] @
        (if sh_processYieldInterval handler > 0 then [Yields handler yields] else []))"

text \<open>\<^verbatim>\<open>Run\<close> ranges over the handlers in the order \<open>eIds\<close> and returns the goroutines it has started.\<close>

primrec Run :: "(string \<rightharpoonup> service_handler) \<Rightarrow> string list \<Rightarrow> ('d, goroutine list) prog" where
  "Run handlers [] = Return []"
| "Run handlers (eId # eIds) =
     (case handlers eId of
        None \<Rightarrow> Run handlers eIds
      | Some handler \<Rightarrow>
          andThen (pause (15 * 1000000000)) (\<lambda>_.
          andThen (Run handlers eIds) (\<lambda>gs. Return (goroutines_of handler @ gs))))"

section \<open>The events of an interface\<close>

text \<open>The order the map of the events is ranged over does not matter.\<close>

lemma all_seen_defined:
  "all_seen c ids \<Longrightarrow> ei_withdrawal ids \<noteq> None \<and> ei_deposit ids \<noteq> None \<and> (c \<longrightarrow> ei_yield ids \<noteq> None)"
  by (auto simp: all_seen_def)

lemma see_event_simps:
  "ei_withdrawal (see_event (n, w) ids) = (if n = ''WithdrawalReceipt'' then Some w else ei_withdrawal ids)"
  "ei_deposit (see_event (n, w) ids) = (if n = ''Deposit'' then Some w else ei_deposit ids)"
  "ei_yield (see_event (n, w) ids) = (if n = ''ClaimedYield'' then Some w else ei_yield ids)"
  by (auto simp: see_event_def)

lemma map_of_fresh: "n \<notin> fst ` set evs \<Longrightarrow> map_of evs n = None"
  by (simp add: map_of_eq_None_iff)

definition fresh_ids :: "abi_events \<Rightarrow> exchange_ids \<Rightarrow> bool" where
  "fresh_ids evs ids \<longleftrightarrow>
     (ei_withdrawal ids \<noteq> None \<longrightarrow> ''WithdrawalReceipt'' \<notin> fst ` set evs) \<and>
     (ei_deposit ids \<noteq> None \<longrightarrow> ''Deposit'' \<notin> fst ` set evs) \<and>
     (ei_yield ids \<noteq> None \<longrightarrow> ''ClaimedYield'' \<notin> fst ` set evs)"

lemma scan_events_finds:
  assumes "distinct (map fst evs)" "fresh_ids evs ids"
  shows "ei_withdrawal (scan_events c evs ids) =
           (if ei_withdrawal ids = None then map_of evs ''WithdrawalReceipt'' else ei_withdrawal ids) \<and>
         ei_deposit (scan_events c evs ids) = (if ei_deposit ids = None then map_of evs ''Deposit'' else ei_deposit ids) \<and>
         (c \<longrightarrow> ei_yield (scan_events c evs ids) = (if ei_yield ids = None then map_of evs ''ClaimedYield'' else ei_yield ids))"
  using assms
proof (induction evs arbitrary: ids)
  case (Cons ev evs)
  obtain n w where ev: "ev = (n, w)"
    by (cases ev)
  have fresh: "fresh_ids evs (see_event (n, w) ids)" and new: "n \<notin> fst ` set evs" "distinct (map fst evs)"
    using Cons.prems by (auto simp: ev fresh_ids_def see_event_simps)
  have seen: "ei_withdrawal ids \<noteq> None \<Longrightarrow> n \<noteq> ''WithdrawalReceipt''" "ei_deposit ids \<noteq> None \<Longrightarrow> n \<noteq> ''Deposit''"
    "ei_yield ids \<noteq> None \<Longrightarrow> n \<noteq> ''ClaimedYield''"
    using Cons.prems by (auto simp: ev fresh_ids_def)
  have rest: "ei_withdrawal (see_event (n, w) ids) \<noteq> None \<Longrightarrow> map_of evs ''WithdrawalReceipt'' = None"
    "ei_deposit (see_event (n, w) ids) \<noteq> None \<Longrightarrow> map_of evs ''Deposit'' = None"
    "ei_yield (see_event (n, w) ids) \<noteq> None \<Longrightarrow> map_of evs ''ClaimedYield'' = None"
    using fresh by (simp_all add: fresh_ids_def map_of_fresh)
  show ?case
  proof (cases "all_seen c (see_event (n, w) ids)")
    case True
    then have "scan_events c (ev # evs) ids = see_event (n, w) ids"
      by (simp add: ev Let_def)
    moreover note all_seen_defined [OF True]
    ultimately show ?thesis
      using rest seen by (simp only:) (auto simp: ev see_event_simps split: if_splits)
  next
    case False
    then have "scan_events c (ev # evs) ids = scan_events c evs (see_event (n, w) ids)"
      by (simp add: ev Let_def)
    then show ?thesis
      using Cons.IH [OF new(2) fresh] seen map_of_fresh [OF new(1)] by (simp only:) (auto simp: ev see_event_simps split: if_splits)
  qed
qed simp

lemma exchange_events:
  assumes "distinct (map fst evs)"
  shows "ei_withdrawal (scan_events c evs no_ids) = map_of evs ''WithdrawalReceipt''"
    and "ei_deposit (scan_events c evs no_ids) = map_of evs ''Deposit''"
    and "c \<Longrightarrow> ei_yield (scan_events c evs no_ids) = map_of evs ''ClaimedYield''"
  using scan_events_finds [OF assms, of no_ids c] by (simp_all add: fresh_ids_def no_ids_def)

section \<open>What the start guarantees\<close>

text \<open>
  What the start of the settlement guarantees: every handler scans a contract Tarantool has been told
  of, needs at least one confirmation, and yields are claimed only when the configuration says so.
\<close>

section \<open>Configured handlers\<close>

lemma NewEthereumHandler_fields:
  assumes "NewEthereumHandler C L exchange deposit dec vaults url pk delay fromBlock conf cancel claim eid cid = Inr eh"
  shows "eh_blockConfirmations eh = conf" "eh_claimYield eh = claim" "eh_exchangeId eh = eid" "eh_chainId eh = cid"
    "eh_exchange_address eh = el_to_address L (without_0x exchange)" "eh_decimals eh = dec" "eh_defaultFromBlock eh = fromBlock"
  using assms by (auto simp: NewEthereumHandler_def Let_def split: sum.splits option.splits if_splits)

text \<open>What a handler of the service has to satisfy, given its configuration\<close>

definition configured :: "eth_lib \<Rightarrow> eth_handler_cfg \<Rightarrow> service_handler \<Rightarrow> bool" where
  "configured L config sh \<longleftrightarrow>
     (let eh = sh_ethereumHandler sh in
      sh_cfg sh = config \<and> 0 < eh_blockConfirmations eh \<and> eh_claimYield eh = hc_ProcessYield config \<and>
      eh_exchangeId eh = hc_ExchangeId config \<and> eh_chainId eh = hc_ChainId config \<and>
      eh_exchange_address eh = el_to_address L (without_0x (to_lower (hc_ExchangeAddress config))) \<and>
      (0 < sh_processYieldInterval sh \<longrightarrow> eh_claimYield eh))"

lemma service_handler_configured: "service_handler_of C L config = Inr sh \<Longrightarrow> configured L config sh"
  by (auto simp: service_handler_of_def configured_def Let_def dest: NewEthereumHandler_fields
      split: sum.splits option.splits if_splits)

section \<open>Contracts and handlers\<close>

definition contract_told :: "'d history \<Rightarrow> eth_handler_cfg \<Rightarrow> bool" where
  "contract_told h config \<longleftrightarrow> (\<exists>ans. (Execute PROFILE_INSTANCE ADD_CONTRACT_MAP
       [VString (to_lower (hc_ExchangeAddress config)), VUint (hc_ChainId config), VString (to_lower (hc_ExchangeId config))], ans) \<in> set h)"

definition served :: "eth_lib \<Rightarrow> eth_handler_cfg set \<Rightarrow> 'd history \<Rightarrow> (string \<rightharpoonup> service_handler) \<Rightarrow> bool" where
  "served L cfgs h handlers \<longleftrightarrow>
     dom handlers = hc_ExchangeAddress ` cfgs \<and>
     (\<forall>k sh. handlers k = Some sh \<longrightarrow>
        sh_cfg sh \<in> cfgs \<and> k = hc_ExchangeAddress (sh_cfg sh) \<and> configured L (sh_cfg sh) sh \<and> contract_told h (sh_cfg sh))"

lemma contract_told_later: "contract_told h config \<Longrightarrow> contract_told (x # h) config"
  by (auto simp: contract_told_def)

lemma served_insert:
  assumes "served L cfgs h handlers" "service_handler_of C L config = Inr sh" "contract_told (x # h) config"
  shows "served L (insert config cfgs) (x # h) (handlers(hc_ExchangeAddress config \<mapsto> sh))"
proof -
  have "configured L config sh"
    by (rule service_handler_configured [OF assms(2)])
  moreover from this have "sh_cfg sh = config"
    by (simp add: configured_def Let_def)
  ultimately show ?thesis
    using assms(1,3) by (auto simp: served_def intro: contract_told_later)
qed

lemma wp_construct_handlers:
  assumes "served L cfgs h handlers"
  shows "wp (\<lambda>_ _. True) (\<lambda>h r. \<forall>m. r = Done (Inr m) \<longrightarrow> served L (set rest \<union> cfgs) h m)
     (construct_handlers C L rest handlers) h"
  using assms
proof (induction rest arbitrary: cfgs h handlers)
  case (Cons config rest)
  have told: "contract_told ((Execute PROFILE_INSTANCE ADD_CONTRACT_MAP
       [VString (to_lower (hc_ExchangeAddress config)), VUint (hc_ChainId config), VString (to_lower (hc_ExchangeId config))], ans) # h) config" for ans
    by (auto simp: contract_told_def)
  show ?case
    using Cons.IH [OF served_insert [OF Cons.prems _ told]]
    by (auto simp: wp_onErr AddContractMap_def Let_def simp del: fun_upd_apply split: sum.split)
qed simp

text \<open>
  A service that could be constructed has one handler for each address of the configuration, each made
  from one of the configurations with that address, and Tarantool was told of its contract first.
\<close>

lemma constructed_service:
  assumes "run E (ConstructSettlementService C L cfgs) h0 = (h, Done (Inr handlers))"
  shows "served L (set cfgs) h handlers"
proof -
  have "served L {} h0 Map.empty"
    by (simp add: served_def)
  from wp_run [OF wp_construct_handlers [OF this] assms [unfolded ConstructSettlementService_def]] show ?thesis
    by simp
qed

section \<open>Goroutines\<close>

lemma yields_only_when_claiming:
  assumes "configured L config sh" "Yields g delay \<in> set (goroutines_of sh)"
  shows "g = sh" "hc_ProcessYield config"
  using assms by (auto simp: goroutines_of_def configured_def Let_def split: prod.splits if_splits)

text \<open>
  With positive intervals, the withdrawals of an exchange start half of the shorter interval after its
  deposits, the yields half as much later again.
\<close>

lemma staggered_start:
  assumes "0 < sh_depositInterval sh" "0 < sh_withdrawalInterval sh"
    and "sh_depositInterval sh < 2 ^ 62" "sh_withdrawalInterval sh < 2 ^ 62"
    and "start_delays sh = (w, y)"
  shows "w = min (sh_depositInterval sh) (sh_withdrawalInterval sh) div 2" "y = 3 * w div 2" "0 \<le> w"
proof -
  have half: "x sdiv 2 = x div 2" if "0 \<le> x" for x :: int
    using that by (simp add: signed_divide_int_def sgn_if)
  show w: "w = min (sh_depositInterval sh) (sh_withdrawalInterval sh) div 2"
    using assms by (auto simp: start_delays_def Let_def half min_def split: if_splits)
  then show "0 \<le> w"
    using assms(1,2) by (auto simp: min_def)
  have "y = int64 (w * 3) sdiv 2"
    using assms(5) by (auto simp: start_delays_def Let_def)
  moreover have "w < 2 ^ 61"
    using w assms(3,4) by (simp add: min_def split: if_splits)
  then have "int64 (w * 3) = w * 3"
    using \<open>0 \<le> w\<close> by (simp add: int64_def)
  ultimately show "y = 3 * w div 2"
    using \<open>0 \<le> w\<close> by (simp add: half mult.commute)
qed

text \<open>An interval of zero or less is accepted by the constructor; its goroutine panics when it starts.\<close>

lemma zero_interval_panics: "sh_depositInterval sh \<le> 0 \<Longrightarrow> go_run D L n fuel (Deposits sh) = Panic ''non-positive interval for NewTicker''"
  by (simp add: new_ticker_def)

definition demo_contracts :: contracts_lib where
  "demo_contracts = \<lparr> cl_bfx = Inl ''unused'',
     cl_rabbit = Inr [(''Deposit'', 2), (''ClaimedYield'', 3), (''WithdrawalReceipt'', 1)],
     cl_deposit = Inr [(''Deposit'', 4)], cl_vault = Inr [(''Stake'', 5)], cl_wallet = (\<lambda>_. Inr 9) \<rparr>"

definition demo_handler_cfg :: eth_handler_cfg where
  "demo_handler_cfg = \<lparr> hc_ExchangeId = ''rbx'', hc_ChainId = 1, hc_ExchangeAddress = ''0xE1'', hc_DepositAddress = ''0xD1'',
     hc_ProviderUrl = ''url'', hc_DefaultFromBlock = ''17'', hc_DepositInterval = ''0'', hc_WithdrawalInterval = ''15'',
     hc_WithdrawalBlockDelay = ''1800'', hc_ConfirmationBlocks = ''12'', hc_CancelInterval = ''60'', hc_ProcessYield = False,
     hc_ProcessYieldInterval = '''', hc_ClaimerPk = '''', hc_Vaults = [''0xa1'', ''b1''], hc_Decimals = 6 \<rparr>"

text \<open>
  Evaluated: a deposit interval of zero passes the constructor, and the vault written without \<^verbatim>\<open>0x\<close> is
  not among those the handler scans.
\<close>

lemma zero_interval_accepted:
  "\<exists>sh. service_handler_of demo_contracts L demo_handler_cfg = Inr sh \<and> sh_depositInterval sh = 0 \<and>
     eh_vaults (sh_ethereumHandler sh) = [el_to_address L ''a1''] \<and> eh_blockConfirmations (sh_ethereumHandler sh) = 12"
  by (simp add: service_handler_of_def NewEthereumHandler_def demo_contracts_def demo_handler_cfg_def ParseInt64_def
      parse_nat_def digit_value_def Let_def see_event_def all_seen_def no_ids_def handler_wallet_def vaults_of_def has_prefix_def
      BLAST_CHAIN_ID_def BLAST_SEPOLIA_CHAIN_ID_def seconds_def int64_def)

end
