(* ===== verification/Funding.thy ===== *)
theory Funding
  imports Model_Api Float64_Round Demo_Liq Demo_Chain
begin

text \<open>
  The funding service (\<^verbatim>\<open>funding/funding_service.go\<close>). At every tick it asks, for each configured
  market, for the market's data, the time of the last payment and the open positions, and pays each
  position its funding: the notional at the fair price times the rate, limited to one percent,
  charged to the long side and credited to the short side.
\<close>

section \<open>The rate and the payments\<close>

definition MAX_POSITIONS :: nat where "MAX_POSITIONS = 100000"

text \<open>\<^verbatim>\<open>limit(rate)\<close>\<close>

definition limit_rate :: "f64 \<Rightarrow> f64" where
  "limit_rate rate =
     (if f64_lt rate (f64_lit (- 1 / 100)) then f64_lit (- 1 / 100)
      else if f64_lt (f64_lit (1 / 100)) rate then f64_lit (1 / 100)
      else rate)"

definition funding_update :: "'d dec_lib \<Rightarrow> 'd \<Rightarrow> 'd \<Rightarrow> 'd position_data \<Rightarrow> f64" where
  "funding_update D fairPrice rate position =
     (let fundingUpdate = f64_mul (f64_mul (d_to_float D (pos_Size position)) (d_to_float D fairPrice))
                            (limit_rate (d_to_float D rate))
      in if pos_Side position = LONG then f64_neg fundingUpdate else fundingUpdate)"

text \<open>
  The loop over the positions; the result is the message of a panic or the payments with the
  totals of the two sides. A nil position or fair price and an amount that is not finite panic.
\<close>

fun funding_loop ::
    "'d dec_lib \<Rightarrow> 'd option \<Rightarrow> 'd \<Rightarrow> 'd position_data option list \<Rightarrow> 'd funding_payment list \<Rightarrow> f64 \<Rightarrow> f64
     \<Rightarrow> string + ('d funding_payment list \<times> f64 \<times> f64)" where
  "funding_loop D fairPrice rate [] pays totalLong totalShort = Inr (pays, totalLong, totalShort)"
| "funding_loop D fairPrice rate (None # ps) pays totalLong totalShort = Inl ''nil pointer dereference''"
| "funding_loop D fairPrice rate (Some position # ps) pays totalLong totalShort =
     (case fairPrice of
        None \<Rightarrow> Inl ''nil pointer dereference''
      | Some fair \<Rightarrow>
          (let fundingUpdate = funding_update D fair rate position;
               totalLong = (if pos_Side position = LONG then f64_add totalLong fundingUpdate else totalLong);
               totalShort = (if pos_Side position = LONG then totalShort else f64_add totalShort fundingUpdate)
           in case d_of_float D fundingUpdate of
                None \<Rightarrow> Inl ''cannot create a Decimal from NaN or Inf''
              | Some amount \<Rightarrow>
                  funding_loop D fairPrice rate ps
                    (pays @ [\<lparr> fp_MarketId = pos_MarketID position, fp_ProfileId = pos_ProfileID position,
                               fp_FundingAmount = Some amount \<rparr>]) totalLong totalShort))"

section \<open>A tick\<close>

text \<open>The field \<^verbatim>\<open>LastUpdate\<close> of a decoded \<^verbatim>\<open>FundingMeta\<close>\<close>

definition fm_LastUpdate :: "'d gval list \<Rightarrow> int option" where
  "fm_LastUpdate fs = (if 1 < length fs then as_int64 (fs ! 1) else None)"

definition GetFundingLastUpdate :: "cluster \<Rightarrow> string \<Rightarrow> ('d, string + int option) prog" where
  "GetFundingLastUpdate IC market_id =
     onErr (GetFundingMeta IC market_id) (\<lambda>e. Return (Inl e)) (\<lambda>meta.
       Return (case meta of
          None \<Rightarrow> Inr None
        | Some fs \<Rightarrow> (case fm_LastUpdate fs of None \<Rightarrow> Inl decode_error | Some t \<Rightarrow> Inr (Some t))))"

text \<open>The payment of one market; \<open>rest\<close> is the loop over the markets after it.\<close>

definition pay_positions ::
    "'d dec_lib \<Rightarrow> cluster \<Rightarrow> string \<Rightarrow> 'd market_data \<Rightarrow> 'd \<Rightarrow> 'd position_data option list
     \<Rightarrow> ('d, unit) prog \<Rightarrow> ('d, unit) prog" where
  "pay_positions D IC market_id marketData rate positions rest =
     (case funding_loop D (mkt_FairPrice marketData) rate positions [] (Finite False 0) (Finite False 0) of
        Inl msg \<Rightarrow> Panic msg
      | Inr (pays, totalLong, totalShort) \<Rightarrow>
          if pays \<noteq> []
          then onErr (PayFunding D IC market_id pays (mkt_LastFundingUpdateTime marketData) totalLong totalShort)
                 (\<lambda>e. Return ()) (\<lambda>_. rest)
          else rest)"

text \<open>
  \<^verbatim>\<open>ProcessFunding\<close>: an error of the first two requests goes on with the next market, a later one
  ends the tick. A nil rate panics also on the way to a skip, whose log line prints it.
\<close>

primrec process_funding :: "'d dec_lib \<Rightarrow> cluster \<Rightarrow> string list \<Rightarrow> ('d, unit) prog" where
  "process_funding D IC [] = Return ()"
| "process_funding D IC (market_id # markets) =
     onErr (GetMarketData IC market_id) (\<lambda>e. process_funding D IC markets) (\<lambda>md.
     onErr (GetFundingLastUpdate IC market_id) (\<lambda>e. process_funding D IC markets) (\<lambda>meta.
     deref md (\<lambda>marketData.
     deref meta (\<lambda>lastUpdate.
     deref (mkt_LastFundingRate marketData) (\<lambda>rate.
       if mkt_LastFundingUpdateTime marketData \<le> lastUpdate \<or> f64_eq (d_to_float D rate) (Finite False 0)
       then process_funding D IC markets
       else
         onErr (GetAllActivePositions IC market_id 0 MAX_POSITIONS) (\<lambda>e. Return ()) (\<lambda>positions.
         pay_positions D IC market_id marketData rate positions (process_funding D IC markets)))))))"

section \<open>What the service promises\<close>

text \<open>
  What the funding service guarantees: an amount is at most one percent of the notional, and a
  payment is made only when the database says that one is due.
\<close>

section \<open>The amount is at most one percent of the notional\<close>

fun f64_abs :: "f64 \<Rightarrow> f64" where
  "f64_abs (Finite s m) = Finite False m"
| "f64_abs (Infinite s) = Infinite False"
| "f64_abs NaN = NaN"

lemma one_percent:
  "f64_lit (1 / 100) = Finite False (5764607523034235 / 576460752303423488)"
  "f64_lit (- 1 / 100) = Finite True (5764607523034235 / 576460752303423488)"
  by (simp_all add: f64_eval)

lemma limit_rate_bound:
  assumes "limit_rate rate = Finite s m" "is_float64 rate"
  shows "0 \<le> m \<and> m \<le> 5764607523034235 / 576460752303423488"
  using assms unfolding limit_rate_def one_percent
  by (cases rate) (auto split: if_splits simp: not_less)

lemma f64_mul_finite:
  "is_finite (f64_mul x y) \<Longrightarrow> is_finite x \<and> is_finite y"
  by (cases "(x, y)" rule: f64_mul.cases) (auto split: if_splits)

lemma f64_mul_abs_mono:
  assumes "0 \<le> m" "0 \<le> n" "n \<le> c" "is_finite (f64_mul (Finite s m) (Finite t n))"
  shows "f64_le (f64_abs (f64_mul (Finite s m) (Finite t n))) (f64_mul (Finite False m) (Finite False c))"
proof -
  have mono: "round_magnitude (m * n) \<le> round_magnitude (m * c)"
    using assms by (intro round_magnitude_mono) (auto intro: mult_left_mono)
  have "0 \<le> round_magnitude (m * c)"
    using assms by (intro round_magnitude_nonneg) simp
  then show ?thesis
    using assms mono by (auto simp: rounded_def Let_def f64_le_def)
qed

text \<open>
  Property C33. No position is charged or credited more than one percent of its notional at a time,
  however extreme the rate the market reports: the magnitude of its payment is at most that of the
  notional times the limit, in the arithmetic of \<^verbatim>\<open>float64\<close>.
\<close>

theorem funding_at_most_one_percent:
  assumes "is_float64 (d_to_float D (pos_Size position))" "is_float64 (d_to_float D fairPrice)"
    and "is_float64 (d_to_float D rate)"
    and "is_finite (funding_update D fairPrice rate position)"
  shows "f64_le (f64_abs (funding_update D fairPrice rate position))
    (f64_mul (f64_abs (f64_mul (d_to_float D (pos_Size position)) (d_to_float D fairPrice)))
       (f64_lit (1 / 100)))"
proof -
  define n where "n = f64_mul (d_to_float D (pos_Size position)) (d_to_float D fairPrice)"
  define r where "r = limit_rate (d_to_float D rate)"
  have fin: "is_finite (f64_mul n r)"
    using assms(4) by (cases "f64_mul n r") (auto simp: funding_update_def n_def [symmetric] r_def Let_def split: if_splits)
  obtain s m t k where n: "n = Finite s m" and r: "r = Finite t k"
    using f64_mul_finite [OF fin] by (cases n; cases r) auto
  have "0 \<le> m"
    using is_float64_mul [OF assms(1,2)] n by (simp add: n_def)
  moreover have "0 \<le> k \<and> k \<le> 5764607523034235 / 576460752303423488"
    using limit_rate_bound [OF _ assms(3)] r by (simp add: r_def)
  ultimately have "f64_le (f64_abs (f64_mul (Finite s m) (Finite t k)))
      (f64_mul (Finite False m) (Finite False (5764607523034235 / 576460752303423488)))"
    using fin unfolding n r by (intro f64_mul_abs_mono) auto
  then have "f64_le (f64_abs (f64_mul n r)) (f64_mul (f64_abs n) (f64_lit (1 / 100)))"
    unfolding n r one_percent f64_abs.simps .
  moreover have "f64_abs (f64_neg x) = f64_abs x" for x
    by (cases x) auto
  ultimately show ?thesis
    by (simp add: funding_update_def n_def r_def Let_def)
qed

lemma demo_funding_update:
  "funding_update rat_lib 128 (1 / 2) liq_position = Finite True (5764607523034235 / 2251799813685248)"
  by (simp add: funding_update_def liq_position_def limit_rate_def f64_eval Let_def)

lemma funding_at_most_one_percent_witness:
  "f64_le (f64_abs (Finite True (5764607523034235 / 2251799813685248)))
     (f64_mul (f64_abs (f64_mul (d_to_float rat_lib 2) (d_to_float rat_lib 128))) (f64_lit (1 / 100)))"
  using funding_at_most_one_percent [of rat_lib liq_position 128 "1 / 2"]
  unfolding demo_funding_update
  by (simp add: liq_position_def f64_lit_def)

section \<open>What is paid\<close>

text \<open>An answer of the history: the procedure \<open>fn\<close> on \<open>ps\<close> returned \<open>x\<close>.\<close>

definition told :: "'d history \<Rightarrow> string \<Rightarrow> 'd gval list \<Rightarrow> ('d, 'a) decoder \<Rightarrow> 'a \<Rightarrow> bool" where
  "told h fn ps dec x \<longleftrightarrow> (\<exists>i ans. (Execute i fn ps, ans) \<in> set h \<and> decode_reply dec (a_reply ans) = Inr x)"

lemma told_Cons [simp]:
  "told ((c, ans) # h) fn ps dec x \<longleftrightarrow>
     (\<exists>i. c = Execute i fn ps \<and> decode_reply dec (a_reply ans) = Inr x) \<or> told h fn ps dec x"
  by (auto simp: told_def)

text \<open>A payment is due: the answers before it give the market, its last payment and the positions.\<close>

definition funding_outdated :: "'d history \<Rightarrow> string \<Rightarrow> 'd market_data \<Rightarrow> bool" where
  "funding_outdated h market_id md \<longleftrightarrow>
     (\<exists>fm lastUpdate.
        told h GET_FUNDING_META [VString market_id] (as_ptr (as_struct ''FundingMeta'')) (Some fm)
      \<and> fm_LastUpdate fm = Some lastUpdate \<and> lastUpdate < mkt_LastFundingUpdateTime md)"

definition funding_due :: "'d dec_lib \<Rightarrow> 'd history \<Rightarrow> 'd gval list \<Rightarrow> bool" where
  "funding_due D h ps \<longleftrightarrow>
     (\<exists>market_id md rate positions pays totalLong totalShort dl ds.
        told h GET_MARKET_DATA [VString market_id] (as_ptr as_market) (Some md)
      \<and> funding_outdated h market_id md
      \<and> mkt_LastFundingRate md = Some rate \<and> \<not> f64_eq (d_to_float D rate) (Finite False 0)
      \<and> told h GET_ALL_ACTIVE_POSITIONS [VString market_id, VUint 0, VUint MAX_POSITIONS]
          (as_list (as_ptr as_position)) positions
      \<and> funding_loop D (mkt_FairPrice md) rate positions [] (Finite False 0) (Finite False 0)
          = Inr (pays, totalLong, totalShort)
      \<and> length pays = length positions \<and> pays \<noteq> []
      \<and> d_of_float D totalLong = Some dl \<and> d_of_float D totalShort = Some ds
      \<and> ps = [VString market_id, VList (map funding_payment_val pays),
              VInt (mkt_LastFundingUpdateTime md), VDecimal dl, VDecimal ds])"

definition pay_guard :: "'d dec_lib \<Rightarrow> 'd call_cond" where
  "pay_guard D h c \<longleftrightarrow> (\<forall>i ps. c = Execute i PAY_FUNDING ps \<longrightarrow> funding_due D h ps)"

lemma pay_guard_other [simp]: "fn \<noteq> PAY_FUNDING \<Longrightarrow> pay_guard D h (Execute i fn ps)"
  by (simp add: pay_guard_def)

lemma funding_loop_length:
  "funding_loop D fair rate ps pays l s = Inr (pays', l', s') \<Longrightarrow> length pays' = length pays + length ps"
  by (induction D fair rate ps pays l s rule: funding_loop.induct)
    (auto simp: Let_def split: option.splits if_splits)

lemma wp_pay_positions:
  assumes "told h GET_MARKET_DATA [VString market_id] (as_ptr as_market) (Some md)"
    and "funding_outdated h market_id md"
    and "told h GET_ALL_ACTIVE_POSITIONS [VString market_id, VUint 0, VUint MAX_POSITIONS]
           (as_list (as_ptr as_position)) positions"
    and "mkt_LastFundingRate md = Some rate" "\<not> f64_eq (d_to_float D rate) (Finite False 0)"
    and "\<And>h. wp (pay_guard D) (\<lambda>h' r. True) rest h"
  shows "wp (pay_guard D) (\<lambda>h' r. True) (pay_positions D IC market_id md rate positions rest) h"
proof (cases "funding_loop D (mkt_FairPrice md) rate positions [] (Finite False 0) (Finite False 0)")
  case (Inl msg)
  then show ?thesis
    by (simp add: pay_positions_def)
next
  case (Inr res)
  obtain pays totalLong totalShort where res: "res = (pays, totalLong, totalShort)"
    by (cases res)
  have len: "length pays = length positions"
    using funding_loop_length Inr res by fastforce
  have "funding_due D h [VString market_id, VList (map funding_payment_val pays),
      VInt (mkt_LastFundingUpdateTime md), VDecimal dl, VDecimal ds]"
    if "pays \<noteq> []" "d_of_float D totalLong = Some dl" "d_of_float D totalShort = Some ds" for dl ds
    unfolding funding_due_def using assms(1-5) Inr res len that by blast
  then show ?thesis
    using assms(6) Inr res
    by (auto simp: pay_positions_def PayFunding_def wp_onErr withMarket_def GetInstance_def pay_guard_def
        split: sum.split outcome.split)
qed

lemma outdated_now:
  "decode_reply (as_ptr (as_struct ''FundingMeta'')) (a_reply ans) = Inr (Some fm) \<Longrightarrow>
     fm_LastUpdate fm = Some lastUpdate \<Longrightarrow> \<not> mkt_LastFundingUpdateTime md \<le> lastUpdate \<Longrightarrow>
     funding_outdated ((Execute i GET_FUNDING_META [VString market_id], ans) # h) market_id md"
  unfolding funding_outdated_def told_def by (meson list.set_intros(1) not_le)

lemma outdated_later: "funding_outdated h market_id md \<Longrightarrow> funding_outdated (x # h) market_id md"
  unfolding funding_outdated_def told_def by (meson list.set_intros(2))

lemma wp_process_funding:
  "wp (pay_guard D) (\<lambda>h' r. True) (process_funding D IC markets) h"
proof (induction markets arbitrary: h)
  case (Cons market_id markets)
  show ?case
    using Cons.IH
    by (auto simp: wp_onErr GetMarketData_def withMarket_def GetInstance_def GetFundingLastUpdate_def
        GetFundingMeta_def GetAllActivePositions_def
        split: sum.split outcome.split option.split intro!: wp_pay_positions intro: outdated_later outdated_now)
qed simp

text \<open>
  Property C32. Funding is paid only when it is due: before every payment call the answers of the
  database gave a market whose funding time is later than the last payment and whose rate is not
  zero, and the call pays each of the market's open positions once, the amounts and the totals
  being those of the loop, together with the funding time that marks it as paid.
\<close>

theorem funding_paid_only_when_due:
  assumes "run E (process_funding D IC markets) [] = (h, r)"
    and "h = post @ (Execute inst PAY_FUNDING ps, ans) # pre"
  shows "funding_due D pre ps"
proof -
  have "extends (pay_guard D) [] h"
    using wp_run [OF wp_process_funding assms(1)] by blast
  then have "pay_guard D pre (Execute inst PAY_FUNDING ps)"
    unfolding assms(2) by (rule extends_call) simp
  then show ?thesis
    by (simp add: pay_guard_def)
qed


text \<open>A market whose funding time is later than its last payment.\<close>

definition funding_market :: "rat market_data" where
  "funding_market = liq_market\<lparr>mkt_LastFundingRate := Some (1 / 2), mkt_LastFundingUpdateTime := 9\<rparr>"

definition funding_value :: "string \<Rightarrow> rat gval" where
  "funding_value fn =
     (if fn = GET_MARKET_DATA then VMarket funding_market
      else if fn = GET_FUNDING_META then VStruct ''FundingMeta'' [VString ''BTC'', VInt 5, VNil, VNil]
      else if fn = GET_ALL_ACTIVE_POSITIONS then VList [VPosition liq_position]
      else VNil)"

fun funding_env :: "rat env" where
  "funding_env h (Execute i fn ps) = answer_with (BRows [(funding_value fn, '''')])"
| "funding_env h c = answer_with (BRows [])"

lemma demo_funding_call:
  "made (fst (run funding_env (process_funding rat_lib liq_cluster [''BTC'']) []))
     (Execute ''BTC'' PAY_FUNDING
       [VString ''BTC'',
        VList [VStruct ''FundingPayment'' [VString ''BTC'', VUint 7, VDecimal (- 2)]],
        VInt 9, VDecimal (- 2), VDecimal 0])"
  by (simp add: demo_run_defs run_andThen GetMarketData_def withMarket_def GetInstance_def ByMarketID_def
      liq_cluster_def GetFundingLastUpdate_def GetFundingMeta_def GetAllActivePositions_def PayFunding_def
      pay_positions_def funding_value_def funding_market_def liq_position_def liq_market_def fm_LastUpdate_def
      funding_update_def limit_rate_def f64_eval MAX_POSITIONS_def funding_payment_val_def opt_val_def)

lemma funding_paid_only_when_due_witness:
  "\<exists>post ps ans pre. fst (run funding_env (process_funding rat_lib liq_cluster [''BTC'']) [])
     = post @ (Execute ''BTC'' PAY_FUNDING ps, ans) # pre \<and> funding_due rat_lib pre ps"
  using made_split [OF demo_funding_call]
    funding_paid_only_when_due [where E = funding_env and D = rat_lib and IC = liq_cluster and markets = "[''BTC'']",
      OF prod.collapse [symmetric]]
  by blast

end
