(* ===== verification/Service_Loops.thy ===== *)
theory Service_Loops
  imports Sql Funding Liq_Service_Props Tier_Calc Profile_Cache Slipstopper
begin

text \<open>
  How the services are made and run: the funding service, the liquidation and the insurance service,
  the three periodic jobs of the profiles and the client of the conditional orders. What holds of one
  round of a service is lifted to the service as it runs, for any number of rounds. A fatal log line
  ends the process; it is a panic here.
\<close>

section \<open>The funding service\<close>

text \<open>\<open>config\<close>: the markets of its configuration, or the error of reading it\<close>

definition NewFundingService :: "string + string list \<Rightarrow> ('d, string + string list) prog" where
  "NewFundingService config =
     (case config of
        Inl e \<Rightarrow> Return (Inl (''Can't read funding config err='' @ e))
      | Inr markets \<Rightarrow>
          onErr (sql_exec ''GetBroker'' []) (\<lambda>e. Return (Inl (''Error obtaining Tarantool broker: '' @ e)))
            (\<lambda>_. Return (Inr markets)))"

definition Funding_Run :: "'d dec_lib \<Rightarrow> cluster \<Rightarrow> int \<Rightarrow> string list \<Rightarrow> nat \<Rightarrow> ('d, (unit, unit) ticking) prog" where
  "Funding_Run D IC interval markets n =
     new_ticker interval (ticks n (\<lambda>_. andThen (process_funding D IC markets) (\<lambda>_. Return (Inr ()))) ())"

section \<open>Liquidation and insurance\<close>

definition CHECK_INTERVAL :: int where "CHECK_INTERVAL = 2000000000"

text \<open>The services keep the id the assistant answers, not the one they are given.\<close>

definition NewLiquidationService :: "'d assistant \<Rightarrow> ('d, nat) prog" where
  "NewLiquidationService A = onErr (la_GetOrCreateInsurance A) Panic Return"

definition Liquidation_Run :: "'d dec_lib \<Rightarrow> 'd assistant \<Rightarrow> nat \<Rightarrow> nat \<Rightarrow> ('d, (unit, unit) ticking) prog" where
  "Liquidation_Run D A fuel n =
     new_ticker CHECK_INTERVAL (ticks n (\<lambda>_. andThen (ProcessLiquidations D A fuel) (\<lambda>r.
       Return (case r of None \<Rightarrow> Inl () | Some _ \<Rightarrow> Inr ()))) ())"

definition NewInsuranceService :: "'d assistant \<Rightarrow> ('d, nat) prog" where
  "NewInsuranceService A = onErr (la_GetOrCreateInsurance A) Panic Return"

definition Insurance_Run ::
  "'d dec_lib \<Rightarrow> (nat \<Rightarrow> nat list \<Rightarrow> nat list) \<Rightarrow> 'd assistant \<Rightarrow> nat \<Rightarrow> nat \<Rightarrow> ('d, (unit, unit) ticking) prog" where
  "Insurance_Run D ord A insuranceId n =
     new_ticker INSURANCE_WATERFALL_INTERVAL
       (ticks n (\<lambda>_. andThen (ProcessPositions D ord A insuranceId) (\<lambda>_. Return (Inr ()))) ())"

section \<open>The jobs of the profiles\<close>

text \<open>
  A job runs once at its start and then at every tick; its first error ends it. Whether the context is
  cancelled is asked in each round.
\<close>

definition periodically ::
  "string \<Rightarrow> int \<Rightarrow> nat \<Rightarrow> (string option \<Rightarrow> 's \<Rightarrow> ('d, (string + unit) \<times> 's) prog) \<Rightarrow> 's \<Rightarrow> ('d, (string, 's) ticking) prog" where
  "periodically name interval n runOnce s =
     (let round = (\<lambda>s. Call (External ''Cause'' []) (\<lambda>ans. andThen (runOnce (a_error ans) s) (\<lambda>(r, s').
            Return (case r of Inl e \<Rightarrow> Inl (name @ '': '' @ e) | Inr _ \<Rightarrow> Inr s'))))
      in andThen (round s) (\<lambda>r. case r of Inl e \<Rightarrow> Return (Ended e) | Inr s' \<Rightarrow> new_ticker interval (ticks n round s')))"

definition Tier_Run ::
  "'d dec_lib \<Rightarrow> 'd tier_calc \<Rightarrow> 'd tier_periodics \<Rightarrow> int \<Rightarrow> nat \<Rightarrow> 'd tiers_data \<Rightarrow> ('d, (string, 'd tiers_data) ticking) prog" where
  "Tier_Run D c p interval n =
     periodically ''Tier.Periodics.RunOnce'' interval n (\<lambda>cause. RunOnce D c (p\<lparr>tp_Cause := cause\<rparr>))"

text \<open>The cursor of the job for new profiles starts at zero.\<close>

definition Onboard_Run ::
  "'d dec_lib \<Rightarrow> 'd tier_calc \<Rightarrow> 'd onboard_periodics \<Rightarrow> int \<Rightarrow> nat \<Rightarrow> 'd tiers_data \<Rightarrow>
   ('d, (string, int option \<times> 'd tiers_data) ticking) prog" where
  "Onboard_Run D c p interval n m =
     periodically ''OnboardTier.Periodics.RunOnce'' interval n
       (\<lambda>cause (lastTs, m). Onboard_RunOnce D c (p\<lparr>ot_Cause := cause\<rparr>) lastTs m) (Some 0, m)"

text \<open>The job of the caches, with \<open>fuel\<close> for the loop over its batches, which ends the job when it runs out\<close>

definition Cache_Run ::
  "nat \<Rightarrow> 'd dec_lib \<Rightarrow> 'd cache_periodics \<Rightarrow> int \<Rightarrow> nat \<Rightarrow> 'd cache_state \<Rightarrow> ('d, (string, 'd cache_state) ticking) prog" where
  "Cache_Run fuel D p interval n =
     periodically ''Cache.Periodics.RunOnce'' interval n (\<lambda>cause s.
       andThen (Cache_RunOnce fuel D (p\<lparr>cp_Cause := cause\<rparr>) s) (\<lambda>r. Return (case r of None \<Rightarrow> (Inl ''no fuel'', s) | Some x \<Rightarrow> x)))"

section \<open>The client of the conditional orders\<close>

text \<open>\<open>sign\<close>: the JWT library signs the claims of a user under a secret.\<close>

definition connToken :: "(string \<Rightarrow> string \<Rightarrow> string + string) \<Rightarrow> string \<Rightarrow> string \<Rightarrow> string + string" where
  "connToken sign secretToken user = sign secretToken user"

definition ws_subscribe ::
  "('s, 'n, 'd) order_avl \<Rightarrow> 'd dec_lib \<Rightarrow> string \<Rightarrow> (string \<rightharpoonup> ('s, 'n) matcher) \<Rightarrow> ('d, string \<rightharpoonup> ('s, 'n) matcher) prog" where
  "ws_subscribe A D market matchers =
     (let privateChannel = ''conditional:'' @ market;
          marketChannel = ''market:'' @ market
      in onErr (sql_exec ''NewSubscription'' [VString privateChannel]) Panic (\<lambda>_.
         onErr (sql_exec ''NewSubscription'' [VString marketChannel]) Panic (\<lambda>_.
         onErr (sql_exec ''Subscribe'' [VString privateChannel]) Panic (\<lambda>_.
         onErr (sql_exec ''Subscribe'' [VString marketChannel]) Panic (\<lambda>_.
         Return (matchers(market \<mapsto> NewMatcher A D)))))))"

primrec subscribe_all ::
  "('s, 'n, 'd) order_avl \<Rightarrow> 'd dec_lib \<Rightarrow> string list \<Rightarrow> (string \<rightharpoonup> ('s, 'n) matcher) \<Rightarrow> ('d, string \<rightharpoonup> ('s, 'n) matcher) prog" where
  "subscribe_all A D [] matchers = Return matchers"
| "subscribe_all A D (market # markets) matchers = andThen (ws_subscribe A D market matchers) (subscribe_all A D markets)"

text \<open>The matchers when the client says that it is ready; \<^verbatim>\<open>Run\<close> does not return.\<close>

definition WSClient_Run ::
  "('s, 'n, 'd) order_avl \<Rightarrow> 'd dec_lib \<Rightarrow> (string \<Rightarrow> string \<Rightarrow> string + string) \<Rightarrow> string \<Rightarrow> string \<Rightarrow> string list \<Rightarrow>
   ('d, string \<rightharpoonup> ('s, 'n) matcher) prog" where
  "WSClient_Run A D sign secretToken uri markets =
     (case connToken sign secretToken ''slipstopper'' of
        Inl e \<Rightarrow> Panic e
      | Inr token \<Rightarrow>
          onErr (sql_exec ''Connect'' [VString uri, VString token]) Panic (\<lambda>_.
          andThen (subscribe_all A D markets Map.empty) (\<lambda>matchers.
          Call (External ''ready'' []) (\<lambda>_. Return matchers))))"

section \<open>The services while they run\<close>

text \<open>Every payment of the running funding service is due.\<close>

lemma funding_service_pays_when_due:
  assumes "run E (Funding_Run D IC interval markets n) [] = (h, r)"
    and "h = post @ (Execute inst PAY_FUNDING ps, ans) # pre"
  shows "funding_due D pre ps"
proof -
  have "wp (pay_guard D) (\<lambda>_ _. True) (Funding_Run D IC interval markets n) []"
    by (auto simp: Funding_Run_def wp_andThen pay_guard_def split: outcome.split
        intro!: wp_ticks_calls wp_mono [OF wp_process_funding])
  from wp_call_guarded [OF this assms] show ?thesis
    by (simp add: pay_guard_def)
qed

text \<open>
  The running liquidation service queues actions only for accounts below three percent whose orders
  are cancelled, and makes only recovered accounts active again.
\<close>

lemma liquidation_service_guarded:
  assumes "run E (Liquidation_Run D (TntAssistant D IC inv3Buffer) fuel n) [] = (h, r)"
    and "h = post @ (c, ans) # pre"
  shows "tnt.guard D pre c"
proof -
  have "wp (tnt.guard D) (\<lambda>_ _. True) (Liquidation_Run D (TntAssistant D IC inv3Buffer) fuel n) []"
    by (auto simp: Liquidation_Run_def ProcessLiquidations_def CHECK_INTERVAL_def wp_andThen split: outcome.split
        intro!: wp_ticks_calls wp_mono [OF tnt.wp_liquidation_rounds] tnt.guard_reading simp: deciding_def)
  from wp_call_guarded [OF this assms] show ?thesis .
qed

text \<open>The services run for the profile 0, the insurance, or not at all.\<close>

lemma insurance_is_profile_0:
  assumes "run E (NewLiquidationService (TntAssistant D IC inv3Buffer)) h0 = (h, Done i)"
  shows "i = 0"
proof -
  have "wp (\<lambda>_ _. True) (\<lambda>_ r. \<forall>i. r = Done i \<longrightarrow> i = 0) (NewLiquidationService (TntAssistant D IC inv3Buffer)) h0"
    by (auto simp: NewLiquidationService_def TntAssistant_def GetOrCreateInsurance_def GetProfileById_def wp_onErr wp_andThen
        CreateInsuranceProfile_def split: sum.split outcome.split option.split)
  from wp_run [OF this assms] show ?thesis
    by simp
qed

lemma wp_periodically:
  assumes "I h s" and step: "\<And>h s x. I h s \<Longrightarrow> I (x # h) s"
    and round: "\<And>h s cause. I h s \<Longrightarrow>
      wp (\<lambda>_ _. True) (\<lambda>h' r. \<forall>s'. r = Done (Inr (), s') \<longrightarrow> I h' s') (runOnce cause s) h"
  shows "wp (\<lambda>_ _. True) (\<lambda>h' r. \<forall>s'. r \<in> {Done (Running s'), Done (Stopped s')} \<longrightarrow> I h' s')
     (periodically name interval n runOnce s) h"
proof -
  let ?round = "\<lambda>s. Call (External ''Cause'' []) (\<lambda>ans. andThen (runOnce (a_error ans) s) (\<lambda>(r, s').
            Return (case r of Inl e \<Rightarrow> Inl (name @ '': '' @ e) | Inr _ \<Rightarrow> Inr s')))"
  have once: "wp (\<lambda>_ _. True) (\<lambda>h' r. \<forall>s'. r = Done (Inr s') \<longrightarrow> I h' s') (?round s) h" if "I h s" for h s
    using that by (auto simp: wp_andThen intro!: wp_mono [OF round] step split: outcome.split sum.split)
  show ?thesis
    unfolding periodically_def Let_def wp_andThen
    by (rule wp_mono [OF once [OF assms(1)]])
      (auto intro!: wp_ticks step once simp del: insert_iff split: outcome.split sum.split simp: new_ticker_def)
qed

text \<open>
  The cursor of the job for new profiles is zero or the time at which one of its rounds started, so
  the error about a missing cursor never ends the job.
\<close>

definition cursor_of_a_start :: "'d history \<Rightarrow> int option \<Rightarrow> bool" where
  "cursor_of_a_start h lastTs \<longleftrightarrow>
     lastTs = Some 0 \<or> (\<exists>ans. (Clock, ans) \<in> set h \<and> lastTs = Some (unix_micro (a_time ans)))"

lemma cursor_later: "cursor_of_a_start h lastTs \<Longrightarrow> set h \<subseteq> set h' \<Longrightarrow> cursor_of_a_start h' lastTs"
  by (auto simp: cursor_of_a_start_def)

lemma wp_Onboard_RunOnce:
  assumes "cursor_of_a_start h lastTs"
  shows "wp (\<lambda>_ _. True) (\<lambda>h' r. \<forall>ts m'. r = Done (Inr (), ts, m') \<longrightarrow> cursor_of_a_start h' ts)
    (Onboard_RunOnce D c p lastTs m) h"
proof -
  obtain ts where lastTs: "lastTs = Some ts"
    using assms by (auto simp: cursor_of_a_start_def)
  note grows = wp_mono [OF wp_grows]
  have old: "cursor_of_a_start h' (Some ts)" if "set h \<subseteq> set h'" for h'
    using cursor_later [OF assms that] by (simp add: lastTs)
  have new: "cursor_of_a_start h' (Some (unix_micro (a_time ans)))" if "(Clock, ans) \<in> set g" "set g \<subseteq> set h'" for ans g h'
    using that by (auto simp: cursor_of_a_start_def)
  have chain: "cursor_of_a_start h3 (Some (unix_micro (a_time ans)))"
    if "(Clock, ans) \<in> set h1" "set h1 \<subseteq> set h2" "set h2 \<subseteq> set h3" for ans h1 h2 h3
    by (rule new [OF that(1) subset_trans [OF that(2,3)]])
  show ?thesis
    unfolding Onboard_RunOnce_def now_def
    by (auto split: option.split sum.split outcome.split simp: wp_onErr wp_andThen lastTs simp del: subset_iff
        intro!: grows) (erule old, erule (2) chain)
qed

lemma onboard_cursor_is_a_start:
  assumes "run E (Onboard_Run D c p interval n m) [] = (h, Done (Running (lastTs, m')))"
  shows "cursor_of_a_start h lastTs"
proof -
  have "wp (\<lambda>_ _. True) (\<lambda>h' r. \<forall>s'. r \<in> {Done (Running s'), Done (Stopped s')} \<longrightarrow> cursor_of_a_start h' (fst s'))
     (Onboard_Run D c p interval n m) []"
    unfolding Onboard_Run_def
    by (rule wp_periodically)
      (auto simp: cursor_of_a_start_def intro!: wp_mono [OF wp_Onboard_RunOnce] split: prod.split)
  from wp_run [OF this assms] show ?thesis
    by auto
qed

text \<open>Every market of the configuration has a matcher of its own when the client is ready, empty at first.\<close>

lemma every_market_has_a_matcher:
  assumes "run E (WSClient_Run A D sign secretToken uri markets) h0 = (h, Done matchers)"
  shows "matchers = (\<lambda>m. if m \<in> set markets then Some (NewMatcher A D) else None)"
proof -
  have all: "wp (\<lambda>_ _. True) (\<lambda>_ r. \<forall>ms. r = Done ms \<longrightarrow> ms = (\<lambda>m. if m \<in> set markets then Some (NewMatcher A D) else acc m))
      (subscribe_all A D markets acc) h" for h acc
  proof (induction markets arbitrary: h acc)
    case (Cons market markets)
    then show ?case
      by (auto simp: ws_subscribe_def Let_def wp_andThen wp_onErr fun_eq_iff split: sum.split outcome.split
          intro!: wp_mono [OF Cons.IH])
  qed simp
  have "wp (\<lambda>_ _. True) (\<lambda>_ r. \<forall>ms. r = Done ms \<longrightarrow> ms = (\<lambda>m. if m \<in> set markets then Some (NewMatcher A D) else None))
      (WSClient_Run A D sign secretToken uri markets) h0"
    by (auto simp: WSClient_Run_def wp_onErr wp_andThen split: sum.split outcome.split intro!: wp_mono [OF all])
  from wp_run [OF this assms] show ?thesis
    by simp
qed

end
