(* ===== verification/Bcd.thy ===== *)
theory Bcd
  imports Go_Prelude
begin

text \<open>
  The packed decimal codec of \<^verbatim>\<open>tdecimal/bcd.go\<close>: the string form of a decimal is packed into
  one digit per nibble with a sign nibble at the end and the scale in a leading byte, and
  unpacked again. A byte is an \<open>8 word\<close>, a Go string its list of bytes (characters).
\<close>

section \<open>Encoding\<close>

datatype bcd_error =
    LengthOfNumberIsZero
  | MoreThanOnePoint
  | FailedToConvertSymbol char

definition bytePlus :: byte where
  "bytePlus = 0x0c"

definition byteMinus :: byte where
  "byteMinus = 0x0d"

definition isNegative :: "byte \<Rightarrow> bool" where
  "isNegative b \<longleftrightarrow> b = 0x0b \<or> b = 0x0d"

text \<open>The loop of \<^verbatim>\<open>getNumberLength\<close>: digits count once a non-zero digit has been seen.\<close>

fun number_length_loop :: "nat \<Rightarrow> string \<Rightarrow> nat" where
  "number_length_loop n [] = n"
| "number_length_loop n (ch # cs) =
     (if 49 \<le> (of_char ch :: nat) \<and> (of_char ch :: nat) \<le> 57 then number_length_loop (n + 1) cs
      else if ch = CHR ''0'' \<and> n \<noteq> 0 then number_length_loop (n + 1) cs
      else number_length_loop n cs)"

definition getNumberLength :: "string \<Rightarrow> nat" where
  "getNumberLength buf =
     (if length buf = 0 then 0
      else let n = number_length_loop 0 buf in if n = 0 then 1 else n)"

record enc_state =
  highNibble :: bool
  scale :: nat
  byteBuf :: "byte list"

text \<open>\<^verbatim>\<open>byteBuf[len(byteBuf)-1] = byteBuf[len(byteBuf)-1] | b\<close>, on a non-empty buffer.\<close>

definition or_last :: "byte list \<Rightarrow> byte \<Rightarrow> byte list" where
  "or_last bs b = bs[length bs - 1 := (bs ! (length bs - 1)) OR b]"

definition put_digit :: "enc_state \<Rightarrow> byte \<Rightarrow> enc_state" where
  "put_digit st digit =
     (if highNibble st
      then st\<lparr>byteBuf := byteBuf st @ [push_bit 4 digit], highNibble := False\<rparr>
      else (let bs = (if byteBuf st = [] then [0] else byteBuf st)
            in st\<lparr>byteBuf := or_last bs digit, highNibble := True\<rparr>))"

text \<open>
  The loop over the bytes of the buffer: \<open>len\<close> is \<^verbatim>\<open>len(buf)\<close> and \<open>i\<close> the index. The scale
  is the number of characters behind the point, and a second point is noticed by the scale
  being set.
\<close>

fun encode_loop :: "nat \<Rightarrow> nat \<Rightarrow> enc_state \<Rightarrow> string \<Rightarrow> (bcd_error, enc_state) go" where
  "encode_loop len i st [] = Inr st"
| "encode_loop len i st (ch # cs) =
     (if byteBuf st = [] \<and> ch = CHR ''0'' then encode_loop len (i + 1) st cs
      else if i = 0 \<and> (ch = CHR ''-'' \<or> ch = CHR ''+'') then encode_loop len (i + 1) st cs
      else if ch = CHR ''.''
      then (if scale st \<noteq> 0 then Inl (Err MoreThanOnePoint)
            else encode_loop len (i + 1) (st\<lparr>scale := len - i - 1\<rparr>) cs)
      else if (of_char ch :: nat) < 48 \<or> 57 < (of_char ch :: nat)
      then Inl (Err (FailedToConvertSymbol ch))
      else encode_loop len (i + 1) (put_digit st (of_char ch - 48)) cs)"

definition encodeStringToBCD :: "string \<Rightarrow> (bcd_error, byte list) go" where
  "encodeStringToBCD buf =
     (if length buf = 0 then Inl (Err LengthOfNumberIsZero)
      else
        let signByte = (if hd buf = CHR ''-'' then byteMinus else bytePlus);
            high = (getNumberLength buf mod 2 \<noteq> 0)
        in case encode_loop (length buf) 0 \<lparr>highNibble = high, scale = 0, byteBuf = []\<rparr> buf of
             Inl e \<Rightarrow> Inl e
           | Inr st \<Rightarrow>
               let signByte = (if byteBuf st = [] then bytePlus else signByte)
               in if highNibble st then Inr (of_nat (scale st) # (byteBuf st @ [signByte]))
                  else if byteBuf st = [] then Inl (Crash ''index out of range [-1]'')
                  else Inr (of_nat (scale st) # or_last (byteBuf st) signByte))"

section \<open>Decoding\<close>

definition digit_char :: "byte \<Rightarrow> char" where
  "digit_char nibble = char_of (unat (nibble + 48))"

text \<open>\<^verbatim>\<open>processNibble\<close> writes a digit, and the point when \<open>scale\<close> digits are left.\<close>

definition process_nibble :: "int \<Rightarrow> byte \<Rightarrow> string \<times> int \<Rightarrow> string \<times> int" where
  "process_nibble sc nibble = (\<lambda>(bld, ndigits).
     if nibble \<le> 9
     then (bld @ (if ndigits = sc then ''.'' else []) @ [digit_char nibble], ndigits - 1)
     else (bld, ndigits))"

fun decode_loop :: "int \<Rightarrow> nat \<Rightarrow> byte list \<Rightarrow> string \<times> int \<Rightarrow> string \<times> int" where
  "decode_loop sc i [] acc = acc"
| "decode_loop sc i (b # bs) acc =
     (let highNib = drop_bit 4 b; lowNib = b AND 15;
          acc = (if i \<noteq> 0 \<or> highNib \<noteq> 0 then process_nibble sc highNib acc else acc)
      in decode_loop sc (i + 1) bs (process_nibble sc lowNib acc))"

definition decodeStringFromBCD :: "byte list \<Rightarrow> (bcd_error, string) go" where
  "decodeStringFromBCD buf =
     (case buf of [] \<Rightarrow> Inl (Crash ''index out of range [0]'')
      | scaleByte # bcdBuf \<Rightarrow>
          if bcdBuf = [] then Inl (Crash ''index out of range [0]'')
          else
            let sc = int (unat scaleByte);
                bufLen = int (length bcdBuf);
                ndigits = bufLen * 2 - 1;
                ndigits = (if hd bcdBuf AND 0xf0 = 0 then ndigits - 1 else ndigits);
                sign = (last bcdBuf) AND 0x0f;
                bld = (if isNegative sign then ''-'' else []);
                bld = (if sc > ndigits
                       then bld @ ''0.'' @ replicate (nat (sc - ndigits)) CHR ''0''
                       else if sc = ndigits then bld @ ''0'' else bld)
            in Inr (fst (decode_loop sc 0 bcdBuf (bld, ndigits))))"

section \<open>Decimal strings\<close>

text \<open>
  The strings the codec is used on: an optional minus sign, an integer part without leading
  zeros, an optional fraction. The sign is absent on zero, and the scale has to fit its byte.
\<close>

definition decimal_string :: "bool \<Rightarrow> byte list \<Rightarrow> byte list \<Rightarrow> string" where
  "decimal_string neg I F =
     (if neg then ''-'' else []) @ map digit_char I @ (if F = [] then [] else ''.'' @ map digit_char F)"

definition canonical_decimal :: "bool \<Rightarrow> byte list \<Rightarrow> byte list \<Rightarrow> bool" where
  "canonical_decimal neg I F \<longleftrightarrow>
     I \<noteq> [] \<and> (\<forall>d\<in>set (I @ F). d < 10) \<and> (I = [0] \<or> hd I \<noteq> 0)
     \<and> (neg \<longrightarrow> (\<exists>d\<in>set (I @ F). d \<noteq> 0)) \<and> length F < 256"

section \<open>The codec on digits and nibbles\<close>

text \<open>
  Characters of digits, and the effect of the encoding loop on the list of nibbles written so
  far: \<open>filled st ns\<close> says that the state holds the nibbles \<open>ns\<close>, the last one in the upper
  half of the last byte when the next digit goes to the lower half.
\<close>

lemma unat_digit: "(d :: byte) < 10 \<Longrightarrow> unat d < 10"
  by (simp add: word_less_nat_alt)

lemma of_char_digit_char:
  assumes "d < 10"
  shows "(of_char (digit_char d) :: nat) = unat d + 48"
proof -
  have "unat (d + 48) = unat d + 48"
    using unat_digit [OF assms] by (simp add: unat_word_ariths)
  then show ?thesis
    using unat_digit [OF assms] by (simp add: digit_char_def)
qed

lemma digit_char_sub:
  assumes "d < 10"
  shows "(of_char (digit_char d) :: byte) - 48 = d"
proof -
  have "(of_char (digit_char d) :: byte) = of_nat (of_char (digit_char d))"
    by (simp only: of_nat_of_char)
  also have "\<dots> = d + 48"
    by (simp only: of_char_digit_char [OF assms]) simp
  finally show ?thesis by simp
qed

lemma digit_char_neq:
  assumes "d < 10"
  shows "digit_char d = CHR ''0'' \<longleftrightarrow> d = 0"
    and "digit_char d \<noteq> CHR ''-''" and "digit_char d \<noteq> CHR ''+''" and "digit_char d \<noteq> CHR ''.''"
proof -
  have eq: "digit_char d = c \<longleftrightarrow> unat d + 48 = (of_char c :: nat)" for c
    by (metis of_char_digit_char [OF assms] of_char_eq_iff)
  show "digit_char d = CHR ''0'' \<longleftrightarrow> d = 0"
    by (simp add: eq unat_eq_zero)
  show "digit_char d \<noteq> CHR ''-''" "digit_char d \<noteq> CHR ''+''" "digit_char d \<noteq> CHR ''.''"
    by (simp_all add: eq)
qed

lemmas digit_char_facts = of_char_digit_char digit_char_sub digit_char_neq

definition push_digit :: "byte \<Rightarrow> enc_state \<Rightarrow> enc_state" where
  "push_digit d st = (if byteBuf st = [] \<and> d = 0 then st else put_digit st d)"

lemma encode_loop_digit:
  assumes "d < 10"
  shows "encode_loop len i st (digit_char d # cs) = encode_loop len (i + 1) (push_digit d st) cs"
  using digit_char_facts [OF assms] unat_digit [OF assms] by (simp add: push_digit_def encode_loop.simps(2))

declare encode_loop.simps(2) [simp del]

lemma encode_loop_digits:
  "\<forall>d\<in>set ds. d < 10 \<Longrightarrow>
   encode_loop len i st (map digit_char ds @ cs) = encode_loop len (i + length ds) (fold push_digit ds st) cs"
proof (induction ds arbitrary: i st)
  case Nil
  then show ?case by simp
next
  case (Cons d ds)
  then show ?case by (simp add: encode_loop_digit)
qed

definition nibbles :: "byte list \<Rightarrow> byte list" where
  "nibbles bs = concat (map (\<lambda>b. [drop_bit 4 b, b AND 15]) bs)"

lemma nibbles_simps [simp]:
  "nibbles [] = []"
  "nibbles (b # bs) = drop_bit 4 b # (b AND 15) # nibbles bs"
  "nibbles (bs @ cs) = nibbles bs @ nibbles cs"
  by (simp_all add: nibbles_def)

lemma length_nibbles: "length (nibbles bs) = 2 * length bs"
  by (induction bs) auto

definition filled :: "enc_state \<Rightarrow> byte list \<Rightarrow> bool" where
  "filled st ns \<longleftrightarrow>
     (if highNibble st then nibbles (byteBuf st) = ns
      else (\<exists>bs d. byteBuf st = bs @ [push_bit 4 d] \<and> d < 16 \<and> ns = nibbles bs @ [d]))"

lemma or_last_snoc [simp]: "or_last (bs @ [b]) e = bs @ [b OR e]"
  by (simp add: or_last_def)

lemma byteBuf_put_digit [simp]: "byteBuf (put_digit st d) \<noteq> []"
  by (auto simp: put_digit_def Let_def or_last_def)

lemma filled_put:
  assumes "filled st ns" "d < 10" "byteBuf st \<noteq> []"
  shows "filled (put_digit st d) (ns @ [d])"
  using assms byte_less_16 [OF assms(2)]
  by (auto simp: filled_def put_digit_def Let_def split: if_splits)

lemma filled_put_first:
  assumes "byteBuf st = []" "d < 10"
  shows "filled (put_digit st d) ((if highNibble st then [] else [0]) @ [d])"
  using assms byte_less_16 [OF assms(2)]
  by (auto simp: filled_def put_digit_def Let_def or_last_def)

lemma filled_digits:
  assumes "\<forall>d\<in>set ds. d < 10" "filled st ns" "byteBuf st \<noteq> []"
  shows "filled (fold push_digit ds st) (ns @ ds) \<and> byteBuf (fold push_digit ds st) \<noteq> []"
  using assms
proof (induction ds arbitrary: st ns)
  case Nil
  then show ?case by simp
next
  case (Cons d ds)
  have st': "push_digit d st = put_digit st d"
    using Cons.prems by (simp add: push_digit_def)
  have "filled (put_digit st d) (ns @ [d])"
    using Cons.prems by (auto intro: filled_put)
  then show ?case
    using Cons.IH [of "put_digit st d" "ns @ [d]"] Cons.prems st' by simp
qed

lemma scale_push [simp]: "scale (fold push_digit ds st) = scale st"
  by (induction ds arbitrary: st) (auto simp: push_digit_def put_digit_def Let_def)

lemma highNibble_push:
  "byteBuf st \<noteq> [] \<Longrightarrow> highNibble (fold push_digit ds st) = (highNibble st = even (length ds))"
proof (induction ds arbitrary: st)
  case (Cons d ds)
  then show ?case
    by (auto simp: push_digit_def put_digit_def Let_def or_last_def)
qed simp

text \<open>The significant digits are those behind the leading zeros.\<close>

abbreviation significant :: "byte list \<Rightarrow> byte list" where
  "significant ds \<equiv> dropWhile (\<lambda>d. d = 0) ds"

lemma fold_push_zeros:
  "byteBuf st = [] \<Longrightarrow> fold push_digit ds st = fold push_digit (significant ds) st"
  by (induction ds) (auto simp: push_digit_def)

lemma number_length_loop_digits:
  "\<forall>d\<in>set ds. d < 10 \<Longrightarrow>
   number_length_loop n (map digit_char ds @ cs) =
   number_length_loop (n + length (if n = 0 then significant ds else ds)) cs"
proof (induction ds arbitrary: n)
  case Nil
  then show ?case by simp
next
  case (Cons d ds)
  have "d < 10" using Cons.prems by simp
  then have "d = 0 \<or> 0 < unat d" by (auto simp: unat_eq_zero)
  then show ?case
    using Cons \<open>d < 10\<close> unat_digit [of d] digit_char_facts(1,3) [of d]
    by (auto simp: unat_eq_zero)
qed

text \<open>Decoding reads the same nibble list; its first nibble is skipped when it is zero.\<close>

fun decode_nibbles :: "int \<Rightarrow> byte list \<Rightarrow> int \<Rightarrow> string" where
  "decode_nibbles sc [] nd = []"
| "decode_nibbles sc (n # ns) nd =
     (if n \<le> 9 then (if nd = sc then ''.'' else []) @ digit_char n # decode_nibbles sc ns (nd - 1)
      else decode_nibbles sc ns nd)"

lemma decode_loop_nibbles:
  "i \<noteq> 0 \<Longrightarrow> fst (decode_loop sc i bs (bld, nd)) = bld @ decode_nibbles sc (nibbles bs) nd"
  by (induction bs arbitrary: i bld nd) (auto simp: process_nibble_def Let_def)

lemma decode_loop_first:
  "bs \<noteq> [] \<Longrightarrow> fst (decode_loop sc 0 bs (bld, nd)) =
    bld @ decode_nibbles sc (if hd (nibbles bs) = 0 then tl (nibbles bs) else nibbles bs) nd"
  by (cases bs) (auto simp: process_nibble_def Let_def decode_loop_nibbles)

lemma digit_le_9: "(d :: byte) < 10 \<Longrightarrow> d \<le> 9"
  by (drule byte_digit_cases) (elim disjE; simp)

lemma decode_nibbles_below:
  "\<forall>d\<in>set ds. d < 10 \<Longrightarrow> nd < sc \<Longrightarrow>
   decode_nibbles sc (ds @ ns) nd = map digit_char ds @ decode_nibbles sc ns (nd - int (length ds))"
  by (induction ds arbitrary: nd) (auto simp: digit_le_9 diff_diff_eq)

lemma decode_nibbles_above:
  "\<forall>d\<in>set ds. d < 10 \<Longrightarrow> nd \<ge> sc + int (length ds) \<Longrightarrow>
   decode_nibbles sc (ds @ ns) nd = map digit_char ds @ decode_nibbles sc ns (nd - int (length ds))"
  by (induction ds arbitrary: nd) (auto simp: digit_le_9 diff_diff_eq)

lemma decode_nibbles_point:
  "\<forall>d\<in>set ds. d < 10 \<Longrightarrow> ds \<noteq> [] \<Longrightarrow>
   decode_nibbles sc (ds @ ns) sc = ''.'' @ map digit_char ds @ decode_nibbles sc ns (sc - int (length ds))"
  using decode_nibbles_below [of "tl ds" "sc - 1" sc ns]
  by (cases ds) (auto simp: digit_le_9 diff_diff_eq)

lemma canonicalD:
  assumes "canonical_decimal neg I F"
  shows "I \<noteq> []" "\<forall>d\<in>set I. d < 10" "\<forall>d\<in>set F. d < 10" "I = [0] \<or> hd I \<noteq> 0"
    "neg \<Longrightarrow> significant (I @ F) \<noteq> []" "length F < 256"
  using assms by (auto simp: canonical_decimal_def)

lemma number_length_loop_skip:
  "number_length_loop n (''-'' @ cs) = number_length_loop n cs"
  "number_length_loop n (''.'' @ cs) = number_length_loop n cs"
  by simp_all

lemma significant_append:
  "significant (I @ F) = (if significant I = [] then significant F else significant I @ F)"
  by (induction I) auto

lemma getNumberLength_decimal_string:
  assumes "canonical_decimal neg I F"
  shows "getNumberLength (decimal_string neg I F) =
    (if significant (I @ F) = [] then 1 else length (significant (I @ F)))"
proof -
  note c = canonicalD [OF assms]
  have "number_length_loop 0 (decimal_string neg I F) = length (significant (I @ F))"
    using number_length_loop_digits [OF c(2), of 0 "if F = [] then [] else ''.'' @ map digit_char F"]
      number_length_loop_digits [OF c(3), of 0 "[]"]
      number_length_loop_digits [OF c(3), of "length (significant I)" "[]"]
    by (auto simp: decimal_string_def significant_append)
  moreover have "decimal_string neg I F \<noteq> []"
    using c(1) by (simp add: decimal_string_def)
  ultimately show ?thesis
    by (simp add: getNumberLength_def)
qed

lemma encode_loop_skip:
  "encode_loop len 0 st (CHR ''-'' # cs) = encode_loop len 1 st cs"
  "scale st = 0 \<Longrightarrow> encode_loop len i st (CHR ''.'' # cs) = encode_loop len (i + 1) (st\<lparr>scale := len - i - 1\<rparr>) cs"
  by (simp_all add: encode_loop.simps(2))

lemma push_digit_scale: "push_digit d (st\<lparr>scale := k\<rparr>) = (push_digit d st)\<lparr>scale := k\<rparr>"
  by (simp add: push_digit_def put_digit_def Let_def)

lemma fold_push_scale: "fold push_digit ds (st\<lparr>scale := k\<rparr>) = (fold push_digit ds st)\<lparr>scale := k\<rparr>"
  by (induction ds arbitrary: st) (simp_all add: push_digit_scale)

lemma encode_loop_decimal_string:
  assumes "canonical_decimal neg I F" "scale st = 0" "len = length (decimal_string neg I F)"
  shows "encode_loop len 0 st (decimal_string neg I F) =
    Inr ((fold push_digit (I @ F) st)\<lparr>scale := length F\<rparr>)"
proof -
  note c = canonicalD [OF assms(1)]
  define i where "i = (if neg then 1 else 0 :: nat)"
  define rest where "rest = (if F = [] then [] else ''.'' @ map digit_char F)"
  have "encode_loop len 0 st (decimal_string neg I F) =
      encode_loop len i st (map digit_char I @ rest)"
    by (simp add: decimal_string_def i_def rest_def encode_loop_skip)
  also have "\<dots> = encode_loop len (i + length I) (fold push_digit I st) rest"
    by (rule encode_loop_digits [OF c(2)])
  also have "\<dots> = Inr ((fold push_digit (I @ F) st)\<lparr>scale := length F\<rparr>)"
  proof (cases "F = []")
    case True
    have "(fold push_digit I st)\<lparr>scale := 0\<rparr> = fold push_digit I st"
      using assms(2) by simp
    with True show ?thesis by (simp add: rest_def)
  next
    case False
    have "len - (i + length I) - 1 = length F"
      using False by (simp add: assms(3) decimal_string_def i_def)
    with False show ?thesis
      using encode_loop_digits [OF c(3), of len _ _ "[]"] assms(2)
      by (simp add: rest_def encode_loop_skip fold_push_scale)
  qed
  finally show ?thesis .
qed

lemma hd_decimal_string:
  assumes "canonical_decimal neg I F"
  shows "hd (decimal_string neg I F) = CHR ''-'' \<longleftrightarrow> neg"
  using canonicalD(1,2) [OF assms] digit_char_facts(4)
  by (cases I) (auto simp: decimal_string_def)

lemma filled_first_digits:
  assumes "\<forall>d\<in>set ds. d < 10" "byteBuf st = []" "significant ds \<noteq> []"
  defines "D \<equiv> significant ds"
  shows "filled (fold push_digit ds st) ((if highNibble st then [] else [0]) @ D)"
    and "byteBuf (fold push_digit ds st) \<noteq> []"
    and "highNibble (fold push_digit ds st) = (highNibble st = even (length D))"
proof -
  obtain d D' where D: "D = d # D'"
    using assms(3) by (cases D) (auto simp: D_def)
  then have d: "d \<noteq> 0"
    using hd_dropWhile [OF assms(3)] by (simp add: D_def)
  have D10: "\<forall>d\<in>set D. d < 10"
    using assms(1) by (auto simp: D_def dest: set_dropWhileD)
  have D'10: "\<forall>d\<in>set D'. d < 10"
    using D10 D by simp
  have fold: "fold push_digit ds st = fold push_digit D' (put_digit st d)"
    using fold_push_zeros [OF assms(2), of ds] D d by (simp add: D_def push_digit_def)
  have first: "filled (put_digit st d) ((if highNibble st then [] else [0]) @ [d])"
    using filled_put_first [OF assms(2), of d] D10 D by simp
  show "filled (fold push_digit ds st) ((if highNibble st then [] else [0]) @ D)"
    "byteBuf (fold push_digit ds st) \<noteq> []"
    using filled_digits [OF D'10 first byteBuf_put_digit] by (simp_all add: D fold)
  have "highNibble (put_digit st d) = (\<not> highNibble st)"
    by (simp add: put_digit_def Let_def)
  then show "highNibble (fold push_digit ds st) = (highNibble st = even (length D))"
    using highNibble_push [of "put_digit st d" D'] fold D by auto
qed

lemma encode_canonical:
  assumes c: "canonical_decimal neg I F" and D: "D = significant (I @ F)"
  obtains bs where "encodeStringToBCD (decimal_string neg I F) = Inr (of_nat (length F) # bs)"
    and "nibbles bs = (if even (length D) then [0] else []) @ D @ [if neg then 13 else 12]"
    and "bs \<noteq> []"
proof (cases "D = []")
  case True
  with c D have "\<not> neg" using canonicalD(5) by blast
  let ?st = "\<lparr>highNibble = True, scale = 0, byteBuf = []\<rparr>"
  have "fold push_digit (I @ F) ?st = fold push_digit D ?st"
    unfolding D by (rule fold_push_zeros) simp
  also have "\<dots> = ?st"
    using True by simp
  finally have "fold push_digit (I @ F) ?st = ?st" .
  then have "encodeStringToBCD (decimal_string neg I F) = Inr (of_nat (length F) # [12])"
    using encode_loop_decimal_string [OF c, of ?st] getNumberLength_decimal_string [OF c] True D
      canonicalD(1) [OF c]
    by (auto simp: encodeStringToBCD_def Let_def bytePlus_def decimal_string_def)
  with \<open>\<not> neg\<close> True that show ?thesis by auto
next
  case False
  let ?st = "\<lparr>highNibble = odd (length D), scale = 0, byteBuf = []\<rparr>"
  define st' where "st' = fold push_digit (I @ F) ?st"
  define sign where "sign = (if neg then byteMinus else bytePlus)"
  have d10: "\<forall>d\<in>set (I @ F). d < 10"
    using canonicalD(2,3) [OF c] by auto
  have "significant (I @ F) \<noteq> []" using False D by simp
  note f = filled_first_digits [OF d10 _ this, of ?st, folded D st'_def, simplified]
  from f obtain bs d where bs: "byteBuf st' = bs @ [push_bit 4 d]" "d < 16"
      "(if odd (length D) then [] else [0]) @ D = nibbles bs @ [d]"
    by (auto simp: filled_def split: if_splits)
  have sign: "sign < 16" by (simp add: sign_def byteMinus_def bytePlus_def)
  have ne: "decimal_string neg I F \<noteq> []"
    using canonicalD(1) [OF c] by (simp add: decimal_string_def)
  have high: "(getNumberLength (decimal_string neg I F) mod 2 \<noteq> 0) = odd (length D)"
    using getNumberLength_decimal_string [OF c] False D by (auto simp: odd_iff_mod_2_eq_one)
  have loop: "encode_loop (length (decimal_string neg I F)) 0 ?st (decimal_string neg I F) =
      Inr (st'\<lparr>scale := length F\<rparr>)"
    unfolding st'_def by (rule encode_loop_decimal_string [OF c]) simp_all
  have "encodeStringToBCD (decimal_string neg I F) =
      Inr (of_nat (length F) # (bs @ [push_bit 4 d OR sign]))"
    unfolding encodeStringToBCD_def high Let_def loop
    by (simp add: ne f bs hd_decimal_string [OF c] sign_def)
  moreover have "nibbles (bs @ [push_bit 4 d OR sign]) =
      (if even (length D) then [0] else []) @ D @ [if neg then 13 else 12]"
    using bs sign by (auto simp: sign_def byteMinus_def bytePlus_def)
  ultimately show ?thesis using that by blast
qed

lemma high_nibble_zero_iff: "((b :: byte) AND 0xf0 = 0) = (drop_bit 4 b = 0)"
proof -
  have m: "(0xf0 :: byte) = push_bit 4 (mask 4)"
    by (simp add: mask_eq_exp_minus_1)
  have "(b AND push_bit 4 (mask 4) = 0) = (\<forall>n. \<not> (bit b n \<and> 4 \<le> n \<and> n < 8))"
    by (auto simp: bit_eq_iff bit_simps)
  also have "\<dots> = (\<forall>n. \<not> bit b (4 + n))"
  proof safe
    fix n
    assume "\<forall>n. \<not> (bit b n \<and> 4 \<le> n \<and> n < 8)" "bit b (4 + n)"
    then show False
      using bit_imp_le_length [of b "4 + n"] by auto
  next
    fix n :: nat
    assume "\<forall>n. \<not> bit b (4 + n)" "bit b n" "4 \<le> n"
    then show False
      by (metis le_add_diff_inverse)
  qed
  also have "\<dots> = (drop_bit 4 b = 0)"
  proof -
    have "bit b (4 + n) \<Longrightarrow> n < 8" for n
      using bit_imp_le_length [of b "4 + n"] by simp
    then show ?thesis
      by (auto simp: bit_eq_iff bit_simps)
  qed
  finally show ?thesis by (simp only: m)
qed

lemma leading_zeros: "xs = replicate (length xs - length (significant xs)) 0 @ significant xs"
proof (induction xs)
  case (Cons x xs)
  have "length (significant xs) \<le> length xs"
    by (rule length_dropWhile_le)
  with Cons show ?case
    by (auto simp: Suc_diff_le)
qed simp

lemma encode_decode_canonical:
  assumes c: "canonical_decimal neg I F"
  shows "\<exists>bytes. encodeStringToBCD (decimal_string neg I F) = Inr bytes
    \<and> decodeStringFromBCD bytes = Inr (decimal_string neg I F)"
proof -
  note can = canonicalD [OF c]
  define D where "D = significant (I @ F)"
  obtain bs where enc: "encodeStringToBCD (decimal_string neg I F) = Inr (of_nat (length F) # bs)"
    and nib: "nibbles bs = (if even (length D) then [0] else []) @ D @ [if neg then 13 else 12]"
    and ne: "bs \<noteq> []"
    using encode_canonical [OF c D_def] by blast
  define sign :: byte where "sign = (if neg then 13 else 12)"
  have D10: "\<forall>d\<in>set D. d < 10"
    using can(2,3) set_dropWhileD [of _ "\<lambda>d. d = 0" "I @ F"] by (fastforce simp: D_def)
  have len: "2 * length bs = (if even (length D) then 1 else 0) + length D + 1"
    using nib length_nibbles [of bs] by (simp split: if_splits)
  have hd: "(hd bs AND 0xf0 = 0) = even (length D)"
    using ne nib hd_dropWhile [of "\<lambda>d. d = 0" "I @ F", folded D_def]
    by (cases bs; cases D) (auto simp: high_nibble_zero_iff split: if_splits)
  have last: "last bs AND 15 = sign"
    using ne nib by (cases bs rule: rev_cases) (auto simp: sign_def split: if_splits)
  have digits: "(if hd (nibbles bs) = 0 then tl (nibbles bs) else nibbles bs) = D @ [sign]"
    using nib hd_dropWhile [of "\<lambda>d. d = 0" "I @ F", folded D_def]
    by (cases D) (auto simp: sign_def)
  have nd: "(if hd bs AND 0xf0 = 0 then int (length bs) * 2 - 1 - 1 else int (length bs) * 2 - 1) = int (length D)"
    using len hd by auto
  have sc: "int (unat (word_of_nat (length F) :: byte)) = int (length F)"
    using can(6) by (simp add: unat_of_nat)
  have neg: "isNegative sign = neg" "\<not> sign \<le> 9"
    by (auto simp: sign_def isNegative_def)
  have out: "decodeStringFromBCD (of_nat (length F) # bs) =
     Inr ((if neg then ''-'' else [])
       @ (if length F > length D then ''0.'' @ replicate (length F - length D) CHR ''0''
          else if length F = length D then ''0'' else [])
       @ decode_nibbles (int (length F)) (D @ [sign]) (int (length D)))"
    unfolding decodeStringFromBCD_def Let_def list.case nd last sc decode_loop_first [OF ne] digits
    using ne by (auto simp: neg nat_diff_split)
  have "decimal_string neg I F = (if neg then ''-'' else [])
       @ (if length F > length D then ''0.'' @ replicate (length F - length D) CHR ''0''
          else if length F = length D then ''0'' else [])
       @ decode_nibbles (int (length F)) (D @ [sign]) (int (length D))"
  proof (cases "I = [0]")
    case True
    then have DF: "D = significant F" by (simp add: D_def)
    have F: "F = replicate (length F - length D) 0 @ D"
      using leading_zeros [of F] DF by simp
    have le: "length D \<le> length F"
      using DF by (simp add: length_dropWhile_le)
    have d0: "digit_char 0 = CHR ''0''"
      using digit_char_facts(3) [of 0] by simp
    show ?thesis
    proof (cases "length D = length F")
      case True
      with F have "F = D" by simp
      then show ?thesis
        using \<open>I = [0]\<close> D10 neg decode_nibbles_point [OF D10, of "int (length F)" "[sign]"]
        by (cases "D = []") (auto simp: decimal_string_def d0)
    next
      case False
      with le have lt: "length D < length F" by simp
      have "map digit_char F = replicate (length F - length D) CHR ''0'' @ map digit_char D"
        by (subst F) (simp add: d0)
      then show ?thesis
        using \<open>I = [0]\<close> D10 neg lt decode_nibbles_below [OF D10, of "int (length D)" "int (length F)" "[sign]"]
        by (auto simp: decimal_string_def d0)
    qed
  next
    case False
    then have D: "D = I @ F" using can(1,4) by (cases I) (auto simp: D_def)
    then have "length F < length D" using can(1) by simp
    moreover have "decode_nibbles (int (length F)) (D @ [sign]) (int (length D)) =
        map digit_char I @ decode_nibbles (int (length F)) (F @ [sign]) (int (length F))"
      using decode_nibbles_above [OF can(2), of "int (length F)" "int (length D)" "F @ [sign]"] D
      by simp
    ultimately show ?thesis
      using neg decode_nibbles_point [OF can(3), of "int (length F)" "[sign]"]
      by (cases "F = []") (auto simp: decimal_string_def)
  qed
  then show ?thesis using enc out by simp
qed

section \<open>No index is out of range\<close>

lemma encode_loop_empty:
  "encode_loop len i st cs = Inr st' \<Longrightarrow> byteBuf st' = [] \<Longrightarrow>
   byteBuf st = [] \<and> highNibble st' = highNibble st \<and> number_length_loop 0 cs = 0"
proof (induction len i st cs rule: encode_loop.induct)
  case (1 len i st)
  then show ?case by simp
next
  case (2 len i st ch cs)
  show ?case
  proof (cases "byteBuf st = [] \<and> ch = CHR ''0''")
    case True
    with 2 show ?thesis by (simp add: encode_loop.simps(2))
  next
    case a: False
    show ?thesis
    proof (cases "i = 0 \<and> (ch = CHR ''-'' \<or> ch = CHR ''+'') \<or> ch = CHR ''.''")
      case True
      with 2 a show ?thesis by (auto simp: encode_loop.simps(2) split: if_splits)
    next
      case False
      with 2 a show ?thesis by (auto simp: encode_loop.simps(2) split: if_splits)
    qed
  qed
qed

lemma encode_loop_no_crash: "encode_loop len i st cs \<noteq> Inl (Crash m)"
  by (induction len i st cs rule: encode_loop.induct) (auto simp: encode_loop.simps(2))

section \<open>The codec contract\<close>

interpretation bcd: codec encodeStringToBCD decodeStringFromBCD
  "\<lambda>s. \<exists>neg I F. canonical_decimal neg I F \<and> s = decimal_string neg I F"
  by unfold_locales (use encode_decode_canonical in blast)

section \<open>Properties\<close>

text \<open>
  Packing a decimal string and unpacking the bytes gives the string back, sign,
  scale and all zeros behind the point included.
\<close>

theorem bcd_round_trip:
  assumes "canonical_decimal neg I F"
  shows "\<exists>bytes. encodeStringToBCD (decimal_string neg I F) = Inr bytes
    \<and> decodeStringFromBCD bytes = Inr (decimal_string neg I F)"
  using assms by (rule encode_decode_canonical)

theorem bcd_round_trip_witness:
  "decimal_string True [1, 2] [3, 4] = ''-12.34''
   \<and> encodeStringToBCD ''-12.34'' = Inr [0x02, 0x01, 0x23, 0x4d]
   \<and> (\<exists>bytes. encodeStringToBCD (decimal_string True [1, 2] [3, 4]) = Inr bytes
        \<and> decodeStringFromBCD bytes = Inr (decimal_string True [1, 2] [3, 4]))"
proof -
  have "canonical_decimal True [1, 2] [3, 4]"
    by (simp add: canonical_decimal_def)
  from bcd_round_trip [OF this]
  have r: "\<exists>bytes. encodeStringToBCD (decimal_string True [1, 2] [3, 4]) = Inr bytes
        \<and> decodeStringFromBCD bytes = Inr (decimal_string True [1, 2] [3, 4])" .
  have s: "decimal_string True [1, 2] [3, 4] = ''-12.34''"
    by code_simp
  have e: "encodeStringToBCD ''-12.34'' = Inr [0x02, 0x01, 0x23, 0x4d]"
    by code_simp
  from r s e show ?thesis by blast
qed

text \<open>
  Two different decimal strings never share an encoding.
\<close>

theorem bcd_injective:
  assumes "canonical_decimal neg I F" and "canonical_decimal neg' I' F'"
    and "encodeStringToBCD (decimal_string neg I F) = encodeStringToBCD (decimal_string neg' I' F')"
  shows "decimal_string neg I F = decimal_string neg' I' F'"
  by (rule bcd.enc_inject) (use assms in blast)+

theorem bcd_injective_witness:
  "decimal_string False [0] [5] = ''0.5''
   \<and> encodeStringToBCD (decimal_string False [0] [5]) \<noteq> encodeStringToBCD (decimal_string False [5] [])"
proof -
  have c: "canonical_decimal False [0] [5]" "canonical_decimal False [5] []"
    by (simp_all add: canonical_decimal_def)
  have s: "decimal_string False [0] [5] = ''0.5''" "decimal_string False [5] [] = ''5''"
    by code_simp+
  show ?thesis
    using bcd_injective [OF c] s by auto
qed

text \<open>
  No input makes the encoder index out of range: the buffer it completes with the
  sign nibble is never empty when its last byte is half full.
\<close>

theorem encode_never_crashes: "\<not> crashes (encodeStringToBCD buf)"
proof (cases "buf = []")
  case True
  then show ?thesis by (simp add: encodeStringToBCD_def)
next
  case False
  let ?st = "\<lparr>highNibble = (getNumberLength buf mod 2 \<noteq> 0), scale = 0, byteBuf = []\<rparr>"
  show ?thesis
  proof (cases "encode_loop (length buf) 0 ?st buf")
    case (Inl e)
    with False show ?thesis
      using encode_loop_no_crash by (cases e) (auto simp: encodeStringToBCD_def Let_def)
  next
    case (Inr st')
    have "highNibble st'" if "byteBuf st' = []"
      using encode_loop_empty [OF Inr that] False by (simp add: getNumberLength_def)
    with Inr False show ?thesis
      by (auto simp: encodeStringToBCD_def Let_def)
  qed
qed

text \<open>
  The decoder panics exactly on buffers that hold no digit byte behind the scale
  byte, and otherwise returns a string without an error.
\<close>

theorem decode_crashes_iff:
  "crashes (decodeStringFromBCD buf) = (length buf < 2)
   \<and> ((\<exists>s. decodeStringFromBCD buf = Inr s) = (2 \<le> length buf))"
  by (cases buf; cases "tl buf") (auto simp: decodeStringFromBCD_def Let_def)

end
