(* ===== verification/Decimal_Wire.thy ===== *)
theory Decimal_Wire
  imports Bcd Tick
begin

text \<open>
  Decimals on the wire (\<^verbatim>\<open>tdecimal/decimal.go\<close>): a number is cut so that Tarantool, which holds 38
  digits in all, can take it, printed and packed by \<^verbatim>\<open>tdecimal/bcd.go\<close>; the way back unpacks and
  parses. The decimal type itself is a library, here its four operations used.
\<close>

section \<open>Marshalling\<close>

record 'd decimal_text =
  dt_truncate   :: "'d \<Rightarrow> int \<Rightarrow> 'd"
  dt_intPart    :: "'d \<Rightarrow> int"            \<comment> \<open>an \<^verbatim>\<open>int64\<close>\<close>
  dt_string     :: "'d \<Rightarrow> string"
  dt_fromString :: "string \<Rightarrow> string + 'd"
  dt_zero       :: 'd                     \<comment> \<open>the zero value of the struct\<close>

definition DecimalPrecision :: int where
  "DecimalPrecision = 38"

datatype wire_error =
    CannotEncode string bcd_error
  | CannotDecode "byte list" bcd_error
  | NotADecimal string string

definition NewDecimalFromString :: "'d decimal_text \<Rightarrow> string \<Rightarrow> string + 'd" where
  "NewDecimalFromString D src = dt_fromString D src"

definition MarshalMsgpack :: "'d decimal_text \<Rightarrow> 'd \<Rightarrow> (wire_error, byte list) go" where
  "MarshalMsgpack D d =
     (let value = dt_truncate D d (DecimalPrecision - int (intNumDigits (dt_intPart D d)));
          strBuf = dt_string D value
      in case encodeStringToBCD strBuf of
           Inl (Err e) \<Rightarrow> Inl (Err (CannotEncode strBuf e))
         | Inl (Crash m) \<Rightarrow> Inl (Crash m)
         | Inr bcdBuf \<Rightarrow> Inr bcdBuf)"

text \<open>
  What the number holds afterwards, and the error: a text that is no decimal overwrites the number
  with the zero value before the error is looked at.
\<close>

definition UnmarshalMsgpack :: "'d decimal_text \<Rightarrow> 'd \<Rightarrow> byte list \<Rightarrow> (wire_error, 'd \<times> wire_error option) go" where
  "UnmarshalMsgpack D old b =
     (case decodeStringFromBCD b of
        Inl (Crash m) \<Rightarrow> Inl (Crash m)
      | Inl (Err e) \<Rightarrow> Inr (old, Some (CannotDecode b e))
      | Inr digits \<Rightarrow>
          (case dt_fromString D digits of
             Inl e \<Rightarrow> Inr (dt_zero D, Some (NotADecimal digits e))
           | Inr dec \<Rightarrow> Inr (dec, None)))"

section \<open>The decimal library\<close>

text \<open>
  The digits of a decimal as it is printed: its sign, integer part and fraction, without leading zeros
  but one, without trailing zeros in the fraction and without a sign on zero.
\<close>

type_synonym printed = "bool \<times> byte list \<times> byte list"

definition proper :: "printed \<Rightarrow> bool" where
  "proper p \<longleftrightarrow> (case p of (neg, I, F) \<Rightarrow>
     I \<noteq> [] \<and> (\<forall>d \<in> set (I @ F). d < 10) \<and> (I = [0] \<or> hd I \<noteq> 0) \<and> (neg \<longrightarrow> (\<exists>d \<in> set (I @ F). d \<noteq> 0)) \<and>
     (F = [] \<or> last F \<noteq> 0))"

definition strip_zeros :: "byte list \<Rightarrow> byte list" where
  "strip_zeros F = rev (dropWhile (\<lambda>d. d = 0) (rev F))"

definition cut_to :: "nat \<Rightarrow> printed \<Rightarrow> printed" where
  "cut_to n p = (case p of (neg, I, F) \<Rightarrow>
     let F' = strip_zeros (take n F) in (neg \<and> (\<exists>d \<in> set (I @ F'). d \<noteq> 0), I, F'))"

definition digits_num :: "byte list \<Rightarrow> nat" where
  "digits_num ds = foldl (\<lambda>n d. n * 10 + unat d) 0 ds"

text \<open>
  The documented behaviour, relative to the printed digits: \<^verbatim>\<open>String\<close> prints them, \<^verbatim>\<open>IntPart\<close> is the
  integer part in an \<^verbatim>\<open>int64\<close>, \<^verbatim>\<open>Truncate\<close> drops digits without rounding and does nothing for a
  negative precision, and \<^verbatim>\<open>NewFromString\<close> reads what \<^verbatim>\<open>String\<close> prints.
\<close>

definition wire_law :: "'d decimal_text \<Rightarrow> ('d \<Rightarrow> printed) \<Rightarrow> bool" where
  "wire_law D dg \<longleftrightarrow> (\<forall>d. proper (dg d) \<longrightarrow>
     (case dg d of (neg, I, F) \<Rightarrow>
        dt_string D d = decimal_string neg I F \<and>
        dt_intPart D d = sint (word_of_int ((if neg then - 1 else 1) * int (digits_num I)) :: 64 word)) \<and>
     (\<forall>n. 0 \<le> n \<longrightarrow> dg (dt_truncate D d n) = cut_to (nat n) (dg d)) \<and>
     (\<forall>n. n < 0 \<longrightarrow> dt_truncate D d n = d) \<and>
     (\<exists>d'. dt_fromString D (dt_string D d) = Inr d' \<and> dg d' = dg d))"

lemma wire_lawD:
  assumes "wire_law D dg" "proper (dg d)" "dg d = (neg, I, F)"
  shows "dt_string D d = decimal_string neg I F"
    and "dt_intPart D d = sint (word_of_int ((if neg then - 1 else 1) * int (digits_num I)) :: 64 word)"
    and "0 \<le> n \<Longrightarrow> dg (dt_truncate D d n) = cut_to (nat n) (dg d)"
    and "\<exists>d'. dt_fromString D (dt_string D d) = Inr d' \<and> dg d' = dg d"
  using assms(1) [unfolded wire_law_def, rule_format, OF assms(2)] unfolding assms(3) prod.case by blast+

section \<open>Digits\<close>

lemma digits_num_snoc [simp]: "digits_num (ds @ [d]) = digits_num ds * 10 + unat d" "digits_num [] = 0"
  by (simp_all add: digits_num_def)

lemma intNumDigits_0 [simp]: "intNumDigits 0 = 0"
  by (simp add: intNumDigits.simps)

lemma intNumDigits_minus [simp]: "intNumDigits (- v) = intNumDigits v"
proof (induction "nat \<bar>v\<bar>" arbitrary: v rule: less_induct)
  case less
  show ?case
  proof (cases "v = 0")
    case False
    then have "nat \<bar>sgn v * (\<bar>v\<bar> div 10)\<bar> < nat \<bar>v\<bar>"
      by (auto simp: abs_mult)
    from less [OF this] False show ?thesis
      by (simp add: intNumDigits.simps [of v] intNumDigits.simps [of "- v"])
  qed simp
qed

lemma intNumDigits_push: "k < 10 \<Longrightarrow> intNumDigits (int (n * 10 + k)) = (if n * 10 + k = 0 then 0 else 1 + intNumDigits (int n))"
proof -
  assume "k < 10"
  then have "int (n * 10 + k) div 10 = int n"
    by simp
  then show ?thesis
    by (simp add: intNumDigits.simps [of "int (n * 10 + k)"] del: of_nat_add of_nat_mult)
qed

lemma digits_num_zero: "digits_num ds = 0 \<longleftrightarrow> significant ds = []"
  by (induction ds rule: rev_induct) (auto simp: significant_append unat_eq_zero)

lemma intNumDigits_digits: "\<forall>d \<in> set ds. d < 10 \<Longrightarrow> intNumDigits (int (digits_num ds)) = length (significant ds)"
proof (induction ds rule: rev_induct)
  case (snoc d ds)
  then have "intNumDigits (int (digits_num ds)) = length (significant ds)" "unat d < 10"
    by (auto intro: unat_digit)
  then show ?case
    using digits_num_zero [of ds] intNumDigits_push [of "unat d" "digits_num ds"]
    by (auto simp: significant_append unat_eq_zero)
qed simp

lemma digits_num_lead: "ds \<noteq> [] \<Longrightarrow> hd ds \<noteq> 0 \<Longrightarrow> 10 ^ (length ds - 1) \<le> digits_num ds"
proof (induction ds rule: rev_induct)
  case (snoc d ds)
  show ?case
  proof (cases "ds = []")
    case True
    then show ?thesis
      using snoc.prems by (simp add: digits_num_def unat_gt_0 Suc_leI)
  next
    case False
    with snoc have "10 ^ (length ds - 1) \<le> digits_num ds"
      by simp
    moreover have "(10 :: nat) ^ length ds = 10 * 10 ^ (length ds - 1)"
      using False by (simp add: power_eq_if)
    ultimately show ?thesis
      by simp
  qed
qed simp

lemma at_most_19:
  assumes "digits_num ds < 2 ^ 63" "ds = [0] \<or> hd ds \<noteq> 0"
  shows "length (significant ds) \<le> 19"
proof (cases "ds = [] \<or> hd ds = 0")
  case True
  with assms(2) show ?thesis
    by (cases ds) auto
next
  case False
  then have "(10 :: nat) ^ (length ds - 1) < 10 ^ 19"
    using digits_num_lead [of ds] assms(1) by simp
  then have "length ds - 1 < 19"
    by (rule power_less_imp_less_exp [rotated]) simp
  then show ?thesis
    using length_dropWhile_le [of "\<lambda>d. d = 0" ds] by simp
qed

section \<open>Cut numbers\<close>

lemma strip_zeros_set: "set (strip_zeros F) \<subseteq> set F"
  by (auto simp: strip_zeros_def dest: set_dropWhileD)

lemma strip_zeros_length: "length (strip_zeros F) \<le> length F"
  using length_dropWhile_le [of "\<lambda>d. d = 0" "rev F"] by (simp add: strip_zeros_def)

lemma strip_zeros_last: "strip_zeros F = [] \<or> last (strip_zeros F) \<noteq> 0"
  using hd_dropWhile [of "\<lambda>d. d = 0" "rev F"] by (auto simp: strip_zeros_def last_rev)

lemma proper_cut_to: "proper p \<Longrightarrow> proper (cut_to n p)"
  using strip_zeros_set strip_zeros_last
  by (auto simp: proper_def cut_to_def Let_def dest!: subsetD [OF strip_zeros_set] in_set_takeD split: prod.splits)

lemma cut_to_length: "cut_to n (neg, I, F) = (neg', I', F') \<Longrightarrow> I' = I \<and> length F' \<le> n"
  using strip_zeros_length [of "take n F"] by (auto simp: cut_to_def Let_def)

lemma proper_canonical: "proper (neg, I, F) \<Longrightarrow> length F < 256 \<Longrightarrow> canonical_decimal neg I F"
  by (auto simp: proper_def canonical_decimal_def)

text \<open>A proper number of up to 255 fraction digits comes back from the wire as it was sent.\<close>

lemma sent_and_received:
  assumes "wire_law D dg" "proper (dg d)" "dg d = (neg, I, F)" "length F < 256"
  shows "\<exists>bytes d'. encodeStringToBCD (dt_string D d) = Inr bytes \<and> UnmarshalMsgpack D old bytes = Inr (d', None) \<and> dg d' = dg d"
proof -
  have printed: "dt_string D d = decimal_string neg I F" and parsed: "\<exists>d'. dt_fromString D (dt_string D d) = Inr d' \<and> dg d' = dg d"
    by (rule wire_lawD [OF assms(1-3)])+
  obtain bytes where "encodeStringToBCD (dt_string D d) = Inr bytes" "decodeStringFromBCD bytes = Inr (dt_string D d)"
    using encode_decode_canonical [OF proper_canonical [OF assms(2) [unfolded assms(3)] assms(4)]] by (auto simp: printed)
  with parsed show ?thesis
    by (auto simp: UnmarshalMsgpack_def)
qed

lemma int_part_digits:
  assumes "wire_law D dg" "proper (dg d)" "dg d = (neg, I, F)" "digits_num I < 2 ^ 63"
  shows "intNumDigits (dt_intPart D d) = length (significant I)"
proof -
  let ?v = "(if neg then - 1 else 1) * int (digits_num I)"
  have "dt_intPart D d = sint (word_of_int ?v :: 64 word)"
    by (rule wire_lawD [OF assms(1-3)])
  also have "\<dots> = ?v"
  proof -
    have "sint (word_of_int v :: 64 word) = v" if "- (2 ^ 63) \<le> v" "v < 2 ^ 63" for v :: int
      using that by (simp add: int_word_sint)
    from this [of ?v] assms(4) show ?thesis
      by (cases neg) simp_all
  qed
  finally show ?thesis
    using assms(2) intNumDigits_digits [of I] by (simp add: proper_def assms(3))
qed

section \<open>The way over the wire\<close>

text \<open>Property C16. A decimal whose integer part fits an int64 arrives at the other side, packed and
  unpacked, as the number cut behind the point so that it has at most 38 digits in all: sign and
  integer part are kept, the fraction loses only digits beyond the 38th and trailing zeros.\<close>

theorem wire_round_trip:
  assumes "wire_law D dg" "proper (dg d)" "dg d = (neg, I, F)" "digits_num I < 2 ^ 63"
  shows "\<exists>bytes d' neg' F'. MarshalMsgpack D d = Inr bytes \<and> UnmarshalMsgpack D old bytes = Inr (d', None) \<and>
     dg d' = cut_to (38 - length (significant I)) (dg d) \<and> dg d' = (neg', I, F') \<and> length (significant (I @ F')) \<le> 38"
proof -
  let ?n = "38 - length (significant I)"
  have short: "length (significant I) \<le> 19"
    using at_most_19 [OF assms(4)] assms(2) by (simp add: proper_def assms(3))
  have "dg (dt_truncate D d (DecimalPrecision - int (intNumDigits (dt_intPart D d)))) = cut_to ?n (dg d)"
    using wire_lawD(3) [OF assms(1-3), of "38 - int (length (significant I))"] short
    by (simp add: int_part_digits [OF assms] DecimalPrecision_def nat_diff_distrib)
  moreover obtain neg' F' where cut_to: "cut_to ?n (dg d) = (neg', I, F')" "length F' \<le> ?n"
    using cut_to_length [of ?n neg I F] by (cases "cut_to ?n (dg d)") (auto simp: assms(3))
  moreover have "length F' < 256"
    using cut_to(2) by simp
  ultimately have "\<exists>bytes d'. MarshalMsgpack D d = Inr bytes \<and> UnmarshalMsgpack D old bytes = Inr (d', None) \<and> dg d' = cut_to ?n (dg d)"
    using sent_and_received [OF assms(1), of "dt_truncate D d (DecimalPrecision - int (intNumDigits (dt_intPart D d)))" neg' I F' old]
      proper_cut_to [OF assms(2), of ?n] by (auto simp: MarshalMsgpack_def Let_def)
  moreover have "length (significant (I @ F')) \<le> 38"
    using cut_to(2) short length_dropWhile_le [of "\<lambda>d. d = 0" F'] by (auto simp: significant_append)
  ultimately show ?thesis
    using cut_to(1) by metis
qed

text \<open>
  An integer part of 20 digits can wrap around: of the number \<open>2 ^ 64\<close> with a fraction of 38 digits all
  58 are sent, which is more than Tarantool holds.
\<close>

lemma twenty_digits_exceed:
  assumes "wire_law D dg" "dg d = (False, [1, 8, 4, 4, 6, 7, 4, 4, 0, 7, 3, 7, 0, 9, 5, 5, 1, 6, 1, 6], replicate 38 1)"
  shows "\<exists>bytes d'. MarshalMsgpack D d = Inr bytes \<and> UnmarshalMsgpack D old bytes = Inr (d', None) \<and> dg d' = dg d"
proof -
  have p: "proper (dg d)"
    by (simp add: assms(2) proper_def)
  moreover have "strip_zeros (replicate 38 1) = replicate 38 1"
    by (simp add: strip_zeros_def)
  ultimately have zero: "dt_intPart D d = 0" and same: "dg (dt_truncate D d 38) = dg d"
    using wire_lawD(2) [OF assms(1) p assms(2)] wire_lawD(3) [OF assms(1) p assms(2), of 38]
    by (simp_all add: assms(2) digits_num_def cut_to_def Let_def)
  have "\<exists>bytes d'. encodeStringToBCD (dt_string D (dt_truncate D d 38)) = Inr bytes \<and>
      UnmarshalMsgpack D old bytes = Inr (d', None) \<and> dg d' = dg d"
    using sent_and_received [OF assms(1), of "dt_truncate D d 38" _ _ "replicate 38 1" old, unfolded same, OF p assms(2)] by simp
  then show ?thesis
    by (auto simp: MarshalMsgpack_def DecimalPrecision_def Let_def zero)
qed

section \<open>An instance\<close>

text \<open>Decimals that are their printed digits\<close>

definition parse_digits :: "string \<Rightarrow> byte list" where
  "parse_digits s = map (\<lambda>c. of_char c - 48) s"

definition parse_printed :: "string \<Rightarrow> printed" where
  "parse_printed s =
     (let neg = (s \<noteq> [] \<and> hd s = CHR ''-''); t = (if neg then tl s else s)
      in (neg, parse_digits (takeWhile (\<lambda>c. c \<noteq> CHR ''.'') t), parse_digits (drop 1 (dropWhile (\<lambda>c. c \<noteq> CHR ''.'') t))))"

definition printed_text :: "printed decimal_text" where
  "printed_text = \<lparr> dt_truncate = (\<lambda>d n. if n < 0 then d else cut_to (nat n) d),
     dt_intPart = (\<lambda>(neg, I, F). sint (word_of_int ((if neg then - 1 else 1) * int (digits_num I)) :: 64 word)),
     dt_string = (\<lambda>(neg, I, F). decimal_string neg I F), dt_fromString = (\<lambda>s. Inr (parse_printed s)),
     dt_zero = (False, [0], []) \<rparr>"

lemma parse_digits_map: "\<forall>d \<in> set ds. d < 10 \<Longrightarrow> parse_digits (map digit_char ds) = ds"
  by (induction ds) (auto simp: parse_digits_def digit_char_sub)

lemma no_point: "\<forall>d \<in> set ds. d < 10 \<Longrightarrow> c \<in> set (map digit_char ds) \<Longrightarrow> c \<noteq> CHR ''.'' \<and> c \<noteq> CHR ''-''"
  using digit_char_neq by auto

lemma parse_unsigned:
  assumes "\<forall>d \<in> set (I @ F). d < 10"
  shows "parse_digits (takeWhile (\<lambda>c. c \<noteq> CHR ''.'') (decimal_string False I F)) = I"
    and "parse_digits (drop 1 (dropWhile (\<lambda>c. c \<noteq> CHR ''.'') (decimal_string False I F))) = F"
proof -
  let ?rest = "if F = [] then [] else ''.'' @ map digit_char F"
  have "takeWhile (\<lambda>c. c \<noteq> CHR ''.'') (map digit_char I @ ?rest) = map digit_char I @ takeWhile (\<lambda>c. c \<noteq> CHR ''.'') ?rest"
    using no_point [of I] assms by (intro takeWhile_append2) auto
  then show "parse_digits (takeWhile (\<lambda>c. c \<noteq> CHR ''.'') (decimal_string False I F)) = I"
    using assms by (simp add: decimal_string_def parse_digits_map)
  have "dropWhile (\<lambda>c. c \<noteq> CHR ''.'') (map digit_char I @ ?rest) = dropWhile (\<lambda>c. c \<noteq> CHR ''.'') ?rest"
    using no_point [of I] assms by (intro dropWhile_append2) auto
  then show "parse_digits (drop 1 (dropWhile (\<lambda>c. c \<noteq> CHR ''.'') (decimal_string False I F))) = F"
    using assms by (simp add: decimal_string_def parse_digits_map parse_digits_map [of "[]", simplified])
qed

lemma parse_decimal_string:
  assumes "proper (neg, I, F)"
  shows "parse_printed (decimal_string neg I F) = (neg, I, F)"
proof -
  have digits: "\<forall>d \<in> set (I @ F). d < 10" and "I \<noteq> []"
    using assms by (auto simp: proper_def)
  then have "hd (decimal_string False I F) \<noteq> CHR ''-''"
    using no_point [of I "hd (map digit_char I)"] by (cases I) (auto simp: decimal_string_def)
  moreover have "decimal_string True I F = CHR ''-'' # decimal_string False I F"
    by (simp add: decimal_string_def)
  ultimately show ?thesis
    using parse_unsigned [OF digits] by (cases neg) (auto simp: parse_printed_def)
qed

lemma printed_law: "wire_law printed_text (\<lambda>p. p)"
  by (auto simp: wire_law_def printed_text_def parse_decimal_string)

lemma wire_round_trip_witness:
  "\<exists>bytes d' neg' F'. MarshalMsgpack printed_text (True, [1, 2], replicate 37 3) = Inr bytes \<and>
     UnmarshalMsgpack printed_text (False, [0], []) bytes = Inr (d', None) \<and>
     d' = cut_to 36 (True, [1, 2], replicate 37 3) \<and> d' = (neg', [1, 2], F') \<and> length (significant ([1, 2] @ F')) \<le> 38"
proof -
  have "proper (True, [1, 2], replicate 37 3)"
    by (simp add: proper_def)
  moreover have "digits_num [1, 2] < 2 ^ 63"
    by (simp add: digits_num_def)
  ultimately show ?thesis
    using wire_round_trip [OF printed_law _ HOL.refl, of True "[1, 2]" "replicate 37 3" "(False, [0], [])"] by simp
qed

end
