(* ===== verification/Spec2Isabelle.thy ===== *)
theory Spec2Isabelle
  imports Broker Airdrop_Props Gameassets_Props Profile_Data Analytics Vaultdata Ws_Proxy Blast_Points Api_Market Api_Trading Api_Admin Referrals_Props Api_Referral Pricing_Pipeline Pricing_Socket Archiver_Props Profile_Cache_Props Profile_Clients Tier_Props Api_Withdraw Settlement_Withdrawals Liq_Service_Props Slipstopper_Props Signer Router_Props Settlement_Start Service_Loops Decimal_Wire
begin

text \<open>
  The Go services of the Rabbit exchange backend. Tarantool instances, written in Lua, keep the
  accounts, orders and balances and match the orders. The Go code around them is the API
  (\<^verbatim>\<open>api/\<close>, \<^verbatim>\<open>auth/\<close>, \<^verbatim>\<open>signer/\<close>), the client of the instances (\<^verbatim>\<open>model/\<close>), the settlement with
  the chains (\<^verbatim>\<open>settlement/\<close>), the liquidation and insurance services (\<^verbatim>\<open>liqengine/\<close>), conditional
  orders (\<^verbatim>\<open>slipstopper/\<close>), index prices (\<^verbatim>\<open>pricing/\<close>), funding payments (\<^verbatim>\<open>funding/\<close>), tiers and
  caches of the profiles (\<^verbatim>\<open>profile/\<close>), the archiver into TimescaleDB (\<^verbatim>\<open>archiver/\<close>), referrals,
  airdrops, game assets and the listings. Every service talks to Tarantool through \<^verbatim>\<open>model/\<close>, to a
  chain through the Ethereum client and to TimescaleDB through a connection pool.

  \<^bold>\<open>How code is modelled.\<close> A pure function is a HOL function. A function with effects is a program of
  \<^verbatim>\<open>Go_Prog\<close>: a tree of calls, each continued with the answer of the environment, which may depend on
  everything before. The environment is arbitrary, so a theorem about all runs covers every answer of
  a database, node or client, and every value another goroutine may have left in a shared variable,
  whose reads are calls. \<open>Panic\<close> is a panic, and a fatal log line, which ends the process. A result
  \<open>(T, error)\<close> is a sum with the text of the error on the left. \<open>wp\<close> is the weakest precondition over
  all environments, with a condition on every call. A loop that may run for ever has a fuel argument
  and the result \<open>None\<close> when it ran out; goroutines that share memory are a step relation.
  \<^verbatim>\<open>float64\<close> is IEEE 754 with its rounding, fixed-width integers wrap, \<^verbatim>\<open>decimal.Decimal\<close> is a type
  parameter with the operations of the library (\<open>dec_lib\<close>), of which laws are assumed only where stated.

  \<^bold>\<open>Theories.\<close>
  Foundations: \<^verbatim>\<open>Go_Prelude\<close> (results, bytes, the collections of rewrite rules), \<^verbatim>\<open>Float64\<close> and
  \<^verbatim>\<open>Float64_Round\<close> (\<^verbatim>\<open>float64\<close>), \<^verbatim>\<open>Go_Types\<close> (the structs of \<^verbatim>\<open>model/response.go\<close> and others, values on
  the wire and their decoders), \<^verbatim>\<open>Go_Prog\<close> (programs, histories, \<open>wp\<close>, loops around a ticker), \<^verbatim>\<open>Sql\<close>
  (statements on TimescaleDB), \<^verbatim>\<open>Tick\<close> (\<^verbatim>\<open>tick/tick.go\<close>, \<^verbatim>\<open>tdecimal/utils.go\<close>), \<^verbatim>\<open>Bcd\<close>
  (\<^verbatim>\<open>tdecimal/bcd.go\<close>) and \<^verbatim>\<open>Decimal_Wire\<close> (\<^verbatim>\<open>tdecimal/decimal.go\<close>, the way of a decimal over the wire).
  Client of Tarantool: \<^verbatim>\<open>Model_Request\<close> (\<^verbatim>\<open>model/instance.go\<close>, \<^verbatim>\<open>model/response.go\<close>), \<^verbatim>\<open>Model_Api\<close>
  (\<^verbatim>\<open>model/api.go\<close>), \<^verbatim>\<open>Model_Balance\<close> (\<^verbatim>\<open>model/api-deposit-withdraw.go\<close>), \<^verbatim>\<open>Model_Auth\<close>
  (\<^verbatim>\<open>model/auth.go\<close>), \<^verbatim>\<open>Model_Admin\<close>, \<^verbatim>\<open>Model_Airdrop\<close>, and \<^verbatim>\<open>Broker\<close> (\<^verbatim>\<open>model/broker.go\<close>: connecting,
  reconnecting and repeating, and \<^verbatim>\<open>vault/vault.go\<close>).
  API, from the request to the handler: \<^verbatim>\<open>Auth\<close> (\<^verbatim>\<open>auth/\<close>, \<^verbatim>\<open>signer/eip712_encoder.go\<close>), \<^verbatim>\<open>Api_Auth\<close>
  (\<^verbatim>\<open>api/middleware.go\<close>, sessions and secrets) with \<^verbatim>\<open>Auth_Props\<close>, \<^verbatim>\<open>Router\<close> and \<^verbatim>\<open>Router_Props\<close>
  (\<^verbatim>\<open>api/router.go\<close> and the way of a withdrawal through all middlewares), \<^verbatim>\<open>Signer\<close> (the key service),
  \<^verbatim>\<open>Api_Context\<close> (the context, the locks of a profile).
  API, handlers: \<^verbatim>\<open>Api_Balance\<close> with \<^verbatim>\<open>Api_Withdraw\<close>, \<^verbatim>\<open>Api_Trading\<close>, \<^verbatim>\<open>Api_Market\<close>, \<^verbatim>\<open>Api_Admin\<close>,
  \<^verbatim>\<open>Api_Paging\<close> (listings, \<^verbatim>\<open>portfolio/\<close>, \<^verbatim>\<open>volume/\<close>), \<^verbatim>\<open>Api_Referral\<close>, \<^verbatim>\<open>Airdrop\<close>, \<^verbatim>\<open>Gameassets\<close>,
  \<^verbatim>\<open>Profile_Data\<close>, \<^verbatim>\<open>Vaultdata\<close>, \<^verbatim>\<open>Analytics\<close>, \<^verbatim>\<open>Blast_Points\<close> and \<^verbatim>\<open>Ws_Proxy\<close>, each named after its
  directory or its file of \<^verbatim>\<open>api/\<close>, those with \<^verbatim>\<open>_Props\<close> holding what is shown of them.
  Settlement: \<^verbatim>\<open>Eth_Handler\<close> and \<^verbatim>\<open>Settlement\<close> (\<^verbatim>\<open>settlement/ethereum_handler.go\<close>,
  \<^verbatim>\<open>settlement/settlement_service.go\<close>), \<^verbatim>\<open>Settlement_Start\<close> (construction and goroutines),
  \<^verbatim>\<open>Settlement_Scan\<close>, \<^verbatim>\<open>Settlement_Events\<close>, \<^verbatim>\<open>Settlement_Props\<close>, \<^verbatim>\<open>Settlement_Withdrawals\<close>.
  Services: \<^verbatim>\<open>Liq_Engine\<close> and \<^verbatim>\<open>Liq_Service\<close>, \<^verbatim>\<open>Slipstopper\<close> (with \<^verbatim>\<open>_Index\<close>, \<^verbatim>\<open>_Steps\<close>, \<^verbatim>\<open>_Props\<close>),
  \<^verbatim>\<open>Tier_Calc\<close>, \<^verbatim>\<open>Profile_Markets\<close>, \<^verbatim>\<open>Profile_Cache\<close>, \<^verbatim>\<open>Profile_Clients\<close>, \<^verbatim>\<open>Archiver\<close>,
  \<^verbatim>\<open>Pricing_Market\<close>, \<^verbatim>\<open>Pricing_Sources\<close>, \<^verbatim>\<open>Pricing_Service\<close>, \<^verbatim>\<open>Pricing_Feeds\<close>, \<^verbatim>\<open>Pricing_Socket\<close>,
  \<^verbatim>\<open>Pricing_Pipeline\<close>, \<^verbatim>\<open>Funding\<close>, \<^verbatim>\<open>Referrals\<close> with \<^verbatim>\<open>Referrals_Jobs\<close>, and \<^verbatim>\<open>Service_Loops\<close>, which
  starts them and lifts what holds of a round to the running service.
  Examples: \<^verbatim>\<open>Demo_Env\<close>, \<^verbatim>\<open>Demo_Chain\<close>, \<^verbatim>\<open>Demo_Liq\<close>, \<^verbatim>\<open>Demo_Tree\<close>, \<^verbatim>\<open>Auth_Examples\<close>.
  The text at the start of each theory names its files and functions; definitions keep their names.

  \<^bold>\<open>What is shown.\<close> Of the money: a withdrawal is created only after the whole chain of middlewares has
  accepted the request and the handler has made sure it is justified; locks are released; claims and
  airdrops are signed only when owed and signatures have the form the chain accepts; deposits are
  credited from their event and the cursor of a scan never skips a block; withdrawals move on only
  below the limit of a day; liquidations, reactivations and clawbacks happen only when justified;
  funding and commissions are bounded; milestones are paid once. Of the data: archives skip nothing and
  catch up, caches are exact whatever the order of a map or of goroutines, batches do not change
  results, replacements of a profile's data are not lost, listings show only the rows of their profile.
  Of the concurrency: the fetch of the markets always completes, a web socket in use is open, the
  conditional orders refine a book of orders whatever events arrive.

  \<^bold>\<open>Interfaces.\<close> Where a component relies on another the contract is a locale with an interpretation on
  the model: the locks of a profile (\<open>scoped_lock\<close>), the assistant of the liquidation service
  (\<open>liq_assistant\<close>, interpreted on \<open>TntAssistant\<close>), the scan of blocks and its handlers of events
  (\<open>block_scanner\<close>, \<open>event_processor\<close>), the tree of the conditional orders (\<open>price_tree\<close>), a loop that
  simulates another (\<open>simulated_loop\<close>) and the packed format (\<open>codec\<close>), each in the theory of the
  component that provides it.

  \<^bold>\<open>Bounds and fuel.\<close> Scans of blocks take fuel; with bounded heads of the chain some fuel is enough, and
  that is a theorem. The rounds of the liquidation service end with fuel for the reported accounts.
  The loops of at most five dials, 13 rounds of a bonus and 32 reconnections have their bound in the
  code. The number of ticks, pages and pushes is an argument, and the theorems hold for every number.
  A batch size of zero makes the loop over the caches endless, which is shown and noted.

  \<^bold>\<open>Libraries\<close> are parameters: decimals, TimescaleDB and its driver, the query builder, the Ethereum
  client and contracts, hashes, elliptic curves and JWT, the key service, the AVL tree, JSON and
  MessagePack decoding, HTTP clients. gin is modelled as its documentation describes it (groups, order
  of middlewares, \<^verbatim>\<open>Abort\<close>), Go's maps by an arbitrary order of their keys.

  \<^bold>\<open>Not modelled:\<close> the contract bindings (generated), the Lua application of Tarantool, SQL schemas and
  deployment, tests and mocks, the client library, command line entry points, connection pools and the
  reading of configuration files, the operations for debugging and test networks, HTTP status codes and
  log lines. What another client of the databases does is not
  modelled either, but its effects are among the answers of the environment.
\<close>

end
